(* ===== verification/Prelude.thy ===== *)
theory Prelude
  imports Main "HOL-Library.Word"
begin

text \<open>
  Shared vocabulary of the development: the C integer types at their widths, the byte
  order conversions of a little-endian host (the arm64 MediaTek targets of this tree),
  \<open>memcmp\<close> on the bytes of such integers, bounded string copies, and the generic list and
  word lemmas the component theories use.
\<close>

unbundle bit_operations_syntax

section \<open>Machine integers\<close>

type_synonym u8 = "8 word"
type_synonym u16 = "16 word"
type_synonym u32 = "32 word"

text \<open>Big-endian quantities keep the representation the C code handles: the raw value that
  a little-endian host loads from memory.\<close>

type_synonym be16 = "16 word"
type_synonym be32 = "32 word"

text \<open>The bytes of an integer in memory order on a little-endian host.\<close>

definition mem_bytes16 :: "u16 \<Rightarrow> u8 list" where
  "mem_bytes16 x = [ucast x, ucast (drop_bit 8 x)]"

definition mem_bytes32 :: "u32 \<Rightarrow> u8 list" where
  "mem_bytes32 x = [ucast x, ucast (drop_bit 8 x), ucast (drop_bit 16 x), ucast (drop_bit 24 x)]"

text \<open>\<open>swab16\<close> and \<open>swab32\<close> reverse the bytes: \<open>be16_to_cpu\<close>, \<open>cpu_to_be16\<close>, \<open>ntohl\<close> and \<open>htonl\<close> on a
  little-endian host.\<close>

definition swab16 :: "u16 \<Rightarrow> u16" where
  "swab16 x = word_cat (ucast x :: u8) (ucast (drop_bit 8 x) :: u8)"

definition swab32 :: "u32 \<Rightarrow> u32" where
  "swab32 x =
     word_cat (word_cat (ucast x :: u8) (ucast (drop_bit 8 x) :: u8) :: u16)
              (word_cat (ucast (drop_bit 16 x) :: u8) (ucast (drop_bit 24 x) :: u8) :: u16)"

abbreviation be16_to_cpu :: "be16 \<Rightarrow> u16" where "be16_to_cpu \<equiv> swab16"
abbreviation cpu_to_be16 :: "u16 \<Rightarrow> be16" where "cpu_to_be16 \<equiv> swab16"
abbreviation ntohl :: "be32 \<Rightarrow> u32" where "ntohl \<equiv> swab32"
abbreviation htonl :: "u32 \<Rightarrow> be32" where "htonl \<equiv> swab32"

text \<open>A group address, and the protocol number of UDP.\<close>

definition is_multicast_ether_addr :: "u8 list \<Rightarrow> bool" where
  "is_multicast_ether_addr mac = bit (mac ! 0) 0"

definition IPPROTO_UDP :: u8 where "IPPROTO_UDP = 17"

text \<open>Swapping twice is the identity.\<close>

lemma swab16_swab16 [simp]: "swab16 (swab16 x) = x"
  by (rule bit_eqI) (auto simp: swab16_def bit_simps dest: bit_imp_le_length)

lemma swab32_swab32 [simp]: "swab32 (swab32 x) = x"
  by (rule bit_eqI) (auto simp: swab32_def bit_simps dest: bit_imp_le_length)

lemma swab32_eq_iff [simp]: "swab32 x = swab32 y \<longleftrightarrow> x = y"
  by (metis swab32_swab32)

lemma swab16_eq_iff [simp]: "swab16 x = swab16 y \<longleftrightarrow> x = y"
  by (metis swab16_swab16)

lemma swab_0 [simp]: "swab16 0 = 0" "swab32 0 = 0"
  by (simp_all add: swab16_def swab32_def)

lemma uint_u8_bounds: "0 \<le> uint (b::u8)" "uint (b::u8) < 256"
  using uint_bounded [of b] by simp_all

lemma uint_word_cat:
  "uint (word_cat (a::'a::len word) (b::'b::len word) :: 'c::len word)
     = uint a * 2 ^ LENGTH('b) + uint b"
  if "LENGTH('a) + LENGTH('b) \<le> LENGTH('c)"
proof -
  have "uint a * 2 ^ LENGTH('b) + uint b < 2 ^ LENGTH('c)"
  proof -
    have "uint a * 2 ^ LENGTH('b) \<le> (2 ^ LENGTH('a) - 1) * 2 ^ LENGTH('b)"
      using uint_bounded [of a] by (intro mult_right_mono) simp_all
    then have "uint a * 2 ^ LENGTH('b) + uint b < (2 ^ LENGTH('a) - 1) * 2 ^ LENGTH('b) + 2 ^ LENGTH('b)"
      using uint_bounded [of b] by linarith
    also have "\<dots> = 2 ^ (LENGTH('a) + LENGTH('b))"
      by (simp add: power_add algebra_simps)
    finally have "uint a * 2 ^ LENGTH('b) + uint b < 2 ^ (LENGTH('a) + LENGTH('b))" .
    also have "\<dots> \<le> (2::int) ^ LENGTH('c)"
      using that by (rule power_increasing) simp
    finally show ?thesis .
  qed
  then have "take_bit LENGTH('c) (uint a * 2 ^ LENGTH('b) + uint b) = uint a * 2 ^ LENGTH('b) + uint b"
    by (intro take_bit_int_eq_self) simp_all
  moreover have "concat_bit LENGTH('b) (uint b) (uint a) = uint a * 2 ^ LENGTH('b) + uint b"
    by (simp add: concat_bit_eq push_bit_eq_mult bintr_uint)
  ultimately show ?thesis
    by (simp only: word_cat_eq' uint_word_of_int_eq)
qed

lemma uint_ntohl:
  "uint (ntohl x) = ((uint (mem_bytes32 x ! 0) * 256 + uint (mem_bytes32 x ! 1)) * 256
     + uint (mem_bytes32 x ! 2)) * 256 + uint (mem_bytes32 x ! 3)"
  by (simp add: swab32_def mem_bytes32_def uint_word_cat)

lemma unat_u16_less: "unat (x::u16) < 65536" and unat_u32_less: "unat (y::u32) < 4294967296"
  using unsigned_less [of x, where ?'a = nat] unsigned_less [of y, where ?'a = nat] by simp_all

section \<open>memcmp\<close>

text \<open>\<open>memcmp\<close> on buffers of the same length: the sign of the first byte difference.\<close>

fun memcmp :: "u8 list \<Rightarrow> u8 list \<Rightarrow> int" where
  "memcmp (a # as) (b # bs) = (if a = b then memcmp as bs else uint a - uint b)"
| "memcmp _ _ = 0"

lemma memcmp_same [simp]: "memcmp xs xs = 0"
  by (induction xs) auto

text \<open>Comparing the memory bytes of big-endian addresses compares their host values.\<close>

lemma horner_le:
  assumes "0 \<le> (r::int)" and "r < 256" and "0 \<le> s" and "s < 256"
  shows "p * 256 + r \<le> q * 256 + s \<longleftrightarrow> (if p = q then r \<le> s else p \<le> q)"
  using assms by auto

lemma horner_eq:
  assumes "0 \<le> (r::int)" and "r < 256" and "0 \<le> s" and "s < 256"
  shows "p * 256 + r = q * 256 + s \<longleftrightarrow> p = q \<and> r = s"
proof
  assume eq: "p * 256 + r = q * 256 + s"
  have "\<not> p < q" and "\<not> q < p"
    using eq assms by linarith+
  then have "p = q"
    by simp
  with eq show "p = q \<and> r = s"
    by simp
qed simp

lemma memcmp_be32_le: "memcmp (mem_bytes32 a) (mem_bytes32 b) \<le> 0 \<longleftrightarrow> ntohl a \<le> ntohl b"
proof -
  obtain a0 a1 a2 a3 where a: "mem_bytes32 a = [a0, a1, a2, a3]"
    by (simp add: mem_bytes32_def)
  obtain b0 b1 b2 b3 where b: "mem_bytes32 b = [b0, b1, b2, b3]"
    by (simp add: mem_bytes32_def)
  have "uint (ntohl a) = ((uint a0 * 256 + uint a1) * 256 + uint a2) * 256 + uint a3"
    and "uint (ntohl b) = ((uint b0 * 256 + uint b1) * 256 + uint b2) * 256 + uint b3"
    by (simp_all add: uint_ntohl a b)
  then have "ntohl a \<le> ntohl b \<longleftrightarrow>
      (if uint a0 = uint b0 then if uint a1 = uint b1 then if uint a2 = uint b2
       then uint a3 \<le> uint b3 else uint a2 \<le> uint b2 else uint a1 \<le> uint b1
       else uint a0 \<le> uint b0)"
    unfolding word_le_def by (simp only: horner_le horner_eq uint_u8_bounds) simp
  then show ?thesis
    unfolding a b by (simp add: word_uint_eq_iff)
qed

lemma memcmp_antisym: "length xs = length ys \<Longrightarrow> memcmp ys xs = - memcmp xs ys"
  by (induction xs ys rule: memcmp.induct) auto

lemma memcmp_be32_ge: "memcmp (mem_bytes32 a) (mem_bytes32 b) \<ge> 0 \<longleftrightarrow> ntohl b \<le> ntohl a"
proof -
  have "memcmp (mem_bytes32 a) (mem_bytes32 b) = - memcmp (mem_bytes32 b) (mem_bytes32 a)"
    by (rule memcmp_antisym) (simp add: mem_bytes32_def)
  then show ?thesis
    using memcmp_be32_le [of b a] by simp
qed

end
