(* ===== verification/Fc_Table.thy ===== *)
theory Fc_Table
  imports Prelude
begin

text \<open>
  The mapping tables of the full-cone NAT library, \<^verbatim>\<open>nft-fullcone/src/nf_nat_fullcone.c\<close> and
  \<^verbatim>\<open>nf_nat_fullcone.h\<close>: the mapping objects on the kernel heap, the two hash tables that
  index them (by external port, by internal source), and the operations that allocate,
  look up, reference and kill a mapping.  The C file has every operation twice, once per
  address family, with the same text; here each is written once over the family's
  accessors (\<open>fc_\<dots>\<close>) and instantiated to the IPv4 and the IPv6 function.
  The invariant \<open>tbl_inv\<close> says that the two tables index exactly the live objects, each in
  the bucket of its key, and that \<open>refer_count\<close> is the length of the reference list.
\<close>

section \<open>Data\<close>

text \<open>\<^verbatim>\<open>union nf_inet_addr\<close>: four raw words; the IPv4 view \<open>ip\<close> is the first.\<close>

record nf_inet_addr =
  all0 :: be32
  all1 :: be32
  all2 :: be32
  all3 :: be32

definition inet_zero :: nf_inet_addr where
  "inet_zero = \<lparr>all0 = 0, all1 = 0, all2 = 0, all3 = 0\<rparr>"

definition inet_words :: "nf_inet_addr \<Rightarrow> u32 list" where
  "inet_words a = [all0 a, all1 a, all2 a, all3 a]"

text \<open>The fields of \<^verbatim>\<open>struct nf_conntrack_tuple\<close> the module reads (\<open>u.udp.port\<close> is the
  union member \<open>u.all\<close>); \<^verbatim>\<open>nf_ct_tuple_equal\<close> compares exactly these.\<close>

record nf_conntrack_tuple =
  src_u3 :: nf_inet_addr
  src_port :: be16
  src_l3num :: u16
  dst_u3 :: nf_inet_addr
  dst_port :: be16
  dst_protonum :: u8

definition nf_ct_tuple_equal :: "nf_conntrack_tuple \<Rightarrow> nf_conntrack_tuple \<Rightarrow> bool" where
  "nf_ct_tuple_equal a b = (a = b)"

type_synonym ptr = nat

text \<open>\<^verbatim>\<open>struct nat_mapping\<close> (addresses \<open>be32\<close>) and \<^verbatim>\<open>struct nat_mapping6\<close> (addresses
  \<open>nf_inet_addr\<close>).  The list nodes are the tuples they hold, newest first.\<close>

record 'a nat_mapping =
  port :: u16
  addr :: 'a
  int_addr :: 'a
  int_port :: u16
  refer_count :: int
  original_tuple_list :: "nf_conntrack_tuple list"

record tuple_list =
  tuple_original :: nf_conntrack_tuple
  tuple_reply :: nf_conntrack_tuple

text \<open>One family's objects and hash tables; buckets are lists of pointers, newest first.\<close>

record 'a fc_table =
  heap :: "ptr \<Rightarrow> 'a nat_mapping option"
  by_ext_port :: "nat \<Rightarrow> ptr list"
  by_int_src :: "nat \<Rightarrow> ptr list"

definition empty_table :: "'a fc_table" where
  "empty_table = \<lparr>heap = (\<lambda>_. None), by_ext_port = (\<lambda>_. []), by_int_src = (\<lambda>_. [])\<rparr>"

text \<open>The kernel functions the tables rely on that are not in this repository.\<close>

record kernel =
  jhash2 :: "u32 list \<Rightarrow> u32 \<Rightarrow> u32"
  jhash_mask :: "nat \<Rightarrow> u32"
  hash_min :: "u32 \<Rightarrow> nat \<Rightarrow> nat"
  reciprocal_scale :: "u32 \<Rightarrow> u32 \<Rightarrow> u32"

definition HASHTABLE_BUCKET_BITS :: nat where
  "HASHTABLE_BUCKET_BITS = 10"

text \<open>Their documented behaviour: \<open>jhash_mask n\<close> is \<open>2^n - 1\<close>, \<open>hash_min\<close> yields a bucket
  number of the table, \<open>reciprocal_scale v r\<close> is the high word of \<open>v * r\<close>.\<close>

definition hash_min_ok :: "kernel \<Rightarrow> bool" where
  "hash_min_ok K \<longleftrightarrow> (\<forall>v. hash_min K v HASHTABLE_BUCKET_BITS < 2 ^ HASHTABLE_BUCKET_BITS)"

definition jhash_mask_ok :: "kernel \<Rightarrow> bool" where
  "jhash_mask_ok K \<longleftrightarrow> jhash_mask K HASHTABLE_BUCKET_BITS = mask HASHTABLE_BUCKET_BITS"

definition reciprocal_scale_ok :: "kernel \<Rightarrow> bool" where
  "reciprocal_scale_ok K \<longleftrightarrow>
     (\<forall>v r. unat (reciprocal_scale K v r) = unat v * unat r div 2 ^ 32)"

text \<open>A concrete instance for the witnesses.\<close>

definition demo_kernel :: kernel where
  "demo_kernel = \<lparr>jhash2 = (\<lambda>ws iv. foldl (+) iv ws), jhash_mask = mask,
     hash_min = (\<lambda>v n. unat v mod 2 ^ n),
     reciprocal_scale = (\<lambda>v r. of_nat (unat v * unat r div 2 ^ 32))\<rparr>"

lemma demo_kernel_hash_min: "hash_min_ok demo_kernel"
  by (simp add: hash_min_ok_def demo_kernel_def)

lemma demo_kernel_jhash_mask: "jhash_mask_ok demo_kernel"
  by (simp add: jhash_mask_ok_def demo_kernel_def)

lemma unat_mult_div_lt: "unat (v::u32) * unat (r::u32) div 2 ^ 32 < 2 ^ 32"
proof -
  have "unat v < 2 ^ 32" and "unat r < 2 ^ 32"
    using unsigned_less [of v] unsigned_less [of r] by simp_all
  then have "unat v * unat r < 2 ^ 32 * 2 ^ 32"
    by (intro mult_strict_mono') simp_all
  then show ?thesis
    by (simp add: div_less_iff_less_mult)
qed

lemma demo_kernel_reciprocal_scale: "reciprocal_scale_ok demo_kernel"
  using unat_mult_div_lt
  by (auto simp: reciprocal_scale_ok_def demo_kernel_def unat_of_nat intro!: mod_less)

section \<open>Address families\<close>

text \<open>What the code does per family: read and write the family's view of a
  \<^verbatim>\<open>union nf_inet_addr\<close> and the words that are hashed and compared.  Both equality tests
  (\<open>==\<close> on \<open>__be32\<close>, \<^verbatim>\<open>nf_inet_addr_cmp\<close>) are equality of the value.\<close>

record 'a family =
  fam_get :: "nf_inet_addr \<Rightarrow> 'a"
  fam_put :: "'a \<Rightarrow> nf_inet_addr \<Rightarrow> nf_inet_addr"
  fam_words :: "'a \<Rightarrow> u32 list"

definition fam4 :: "be32 family" where
  "fam4 = \<lparr>fam_get = all0, fam_put = (\<lambda>x a. a\<lparr>all0 := x\<rparr>), fam_words = (\<lambda>x. [x])\<rparr>"

definition fam6 :: "nf_inet_addr family" where
  "fam6 = \<lparr>fam_get = (\<lambda>a. a), fam_put = (\<lambda>x a. x), fam_words = inet_words\<rparr>"

definition fam_bytes :: "'a family \<Rightarrow> 'a \<Rightarrow> u8 list" where
  "fam_bytes F a = concat (map mem_bytes32 (fam_words F a))"

text \<open>The interface the table and handler lemmas need of a family.\<close>

locale addr_family =
  fixes F :: "'a family"
  assumes get_put [simp]: "fam_get F (fam_put F x a) = x"
    and words_inj: "fam_words F x = fam_words F y \<Longrightarrow> x = y"
    and words_length: "length (fam_words F x) = length (fam_words F y)"
begin

lemma words_eq_iff: "fam_words F x = fam_words F y \<longleftrightarrow> x = y"
  using words_inj by blast

lemma put_determines: "fam_put F x a = fam_put F y b \<Longrightarrow> x = y"
  using get_put by metis

end

interpretation fam4: addr_family fam4
  by unfold_locales (simp_all add: fam4_def)

interpretation fam6: addr_family fam6
  by unfold_locales (auto simp: fam6_def inet_words_def)

section \<open>Hash tables\<close>

definition FULLCONE_HKEY :: "kernel \<Rightarrow> u32 list \<Rightarrow> u32 \<Rightarrow> nat \<Rightarrow> u32" where
  "FULLCONE_HKEY K dataptr initval htable_bits = jhash2 K dataptr initval AND jhash_mask K htable_bits"

text \<open>\<open>hash_add\<close> (linux/hashtable.h) puts a node at the head of its key's bucket,
  \<open>hash_del\<close> unlinks it.\<close>

definition bucket :: "kernel \<Rightarrow> u32 \<Rightarrow> nat" where
  "bucket K key = hash_min K key HASHTABLE_BUCKET_BITS"

definition hash_add :: "kernel \<Rightarrow> (nat \<Rightarrow> ptr list) \<Rightarrow> ptr \<Rightarrow> u32 \<Rightarrow> (nat \<Rightarrow> ptr list)" where
  "hash_add K tbl p key = tbl(bucket K key := p # tbl (bucket K key))"

definition hash_del :: "(nat \<Rightarrow> ptr list) \<Rightarrow> ptr \<Rightarrow> (nat \<Rightarrow> ptr list)" where
  "hash_del tbl p = (\<lambda>b. filter (\<lambda>q. q \<noteq> p) (tbl b))"

definition ext_key :: "kernel \<Rightarrow> u16 \<Rightarrow> nat" where
  "ext_key K prt = bucket K (ucast prt)"

definition hash_src :: "kernel \<Rightarrow> 'a family \<Rightarrow> 'a \<Rightarrow> u16 \<Rightarrow> u32" where
  "hash_src K F ip prt = FULLCONE_HKEY K (fam_words F ip) (ucast prt) HASHTABLE_BUCKET_BITS"

definition src_key :: "kernel \<Rightarrow> 'a family \<Rightarrow> 'a \<Rightarrow> u16 \<Rightarrow> nat" where
  "src_key K F ip prt = bucket K (hash_src K F ip prt)"

section \<open>Operations on one family's tables\<close>

text \<open>A pointer with no object behind it is never dereferenced while \<open>tbl_inv\<close> holds; the
  operations skip it.\<close>

definition new_mapping :: "'a \<Rightarrow> u16 \<Rightarrow> u16 \<Rightarrow> 'a \<Rightarrow> 'a nat_mapping" where
  "new_mapping i_addr i_port prt adr =
     \<lparr>port = prt, addr = adr, int_addr = i_addr, int_port = i_port, refer_count = 0,
      original_tuple_list = []\<rparr>"

text \<open>\<open>allocate_mapping\<close>; the first argument is what \<open>kmalloc\<close> returned (\<open>None\<close> for NULL).\<close>

definition fc_allocate ::
  "kernel \<Rightarrow> 'a family \<Rightarrow> ptr option \<Rightarrow> 'a \<Rightarrow> u16 \<Rightarrow> u16 \<Rightarrow> 'a \<Rightarrow> 'a fc_table \<Rightarrow> ptr option \<times> 'a fc_table" where
  "fc_allocate K F mem i_addr i_port prt adr t =
     (case mem of
        None \<Rightarrow> (None, t)
      | Some p_new \<Rightarrow>
          (Some p_new,
           t\<lparr>heap := (heap t)(p_new \<mapsto> new_mapping i_addr i_port prt adr),
             by_ext_port := hash_add K (by_ext_port t) p_new (ucast prt),
             by_int_src := hash_add K (by_int_src t) p_new (hash_src K F i_addr i_port)\<rparr>))"

text \<open>\<open>add_original_tuple_to_mapping\<close>; the flag says whether \<open>kmalloc\<close> of the node succeeded.\<close>

definition fc_add_tuple :: "bool \<Rightarrow> ptr \<Rightarrow> nf_conntrack_tuple \<Rightarrow> 'a fc_table \<Rightarrow> 'a fc_table" where
  "fc_add_tuple ok p tuple t =
     (if \<not> ok then t
      else case heap t p of
             None \<Rightarrow> t
           | Some m \<Rightarrow> t\<lparr>heap := (heap t)(p \<mapsto>
               m\<lparr>original_tuple_list := tuple # original_tuple_list m,
                 refer_count := refer_count m + 1\<rparr>)\<rparr>)"

definition fc_find :: "'a fc_table \<Rightarrow> ('a nat_mapping \<Rightarrow> bool) \<Rightarrow> ptr list \<Rightarrow> ptr option" where
  "fc_find t P ps = find (\<lambda>p. case heap t p of None \<Rightarrow> False | Some m \<Rightarrow> P m) ps"

definition fc_get_by_int_src ::
  "kernel \<Rightarrow> 'a family \<Rightarrow> 'a \<Rightarrow> u16 \<Rightarrow> 'a \<Rightarrow> 'a fc_table \<Rightarrow> ptr option" where
  "fc_get_by_int_src K F src_ip prt ext_ip t =
     fc_find t (\<lambda>m. int_addr m = src_ip \<and> int_port m = prt \<and> addr m = ext_ip)
       (by_int_src t (src_key K F src_ip prt))"

definition fc_get_by_int_src_inrange ::
  "kernel \<Rightarrow> 'a family \<Rightarrow> 'a \<Rightarrow> u16 \<Rightarrow> 'a \<Rightarrow> 'a \<Rightarrow> 'a fc_table \<Rightarrow> ptr option" where
  "fc_get_by_int_src_inrange K F src_ip prt min_ip max_ip t =
     fc_find t (\<lambda>m. int_addr m = src_ip \<and> int_port m = prt
         \<and> memcmp (fam_bytes F (addr m)) (fam_bytes F min_ip) \<ge> 0
         \<and> memcmp (fam_bytes F (addr m)) (fam_bytes F max_ip) \<le> 0)
       (by_int_src t (src_key K F src_ip prt))"

text \<open>\<open>kill_mapping\<close> on a mapping that is not NULL: its tuples are freed with it.\<close>

definition fc_kill :: "ptr \<Rightarrow> 'a fc_table \<Rightarrow> 'a fc_table" where
  "fc_kill p t = t\<lparr>heap := (heap t)(p := None), by_ext_port := hash_del (by_ext_port t) p,
                   by_int_src := hash_del (by_int_src t) p\<rparr>"

definition fc_kill_opt :: "ptr option \<Rightarrow> 'a fc_table \<Rightarrow> 'a fc_table" where
  "fc_kill_opt q t = (case q of None \<Rightarrow> t | Some p \<Rightarrow> fc_kill p t)"

text \<open>Dropping the references that satisfy a predicate, one \<open>refer_count\<close> each.\<close>

fun prune_list :: "(nf_conntrack_tuple \<Rightarrow> bool) \<Rightarrow> nf_conntrack_tuple list \<Rightarrow> int
    \<Rightarrow> nf_conntrack_tuple list \<times> int" where
  "prune_list gone [] rc = ([], rc)"
| "prune_list gone (x # xs) rc =
     (if gone x then prune_list gone xs (rc - 1)
      else (let (ys, rc') = prune_list gone xs rc in (x # ys, rc')))"

definition fc_prune :: "(nf_conntrack_tuple \<Rightarrow> bool) \<Rightarrow> 'a nat_mapping \<Rightarrow> 'a nat_mapping" where
  "fc_prune gone m =
     (let (ys, rc) = prune_list gone (original_tuple_list m) (refer_count m)
      in m\<lparr>original_tuple_list := ys, refer_count := rc\<rparr>)"

text \<open>Prune a mapping, then kill it when nothing references it; true when it survives.\<close>

definition fc_release :: "(nf_conntrack_tuple \<Rightarrow> bool) \<Rightarrow> ptr \<Rightarrow> 'a fc_table \<Rightarrow> bool \<times> 'a fc_table" where
  "fc_release gone p t =
     (case heap t p of
        None \<Rightarrow> (False, t)
      | Some m \<Rightarrow>
          (let m' = fc_prune gone m; t' = t\<lparr>heap := (heap t)(p \<mapsto> m')\<rparr>
           in if refer_count m' \<le> 0 then (False, fc_kill p t') else (True, t')))"

text \<open>\<open>check_mapping\<close>: \<open>live\<close> says whether \<open>nf_conntrack_find_get\<close> finds the tuple in the
  packet's namespace and zone.\<close>

definition fc_check :: "(nf_conntrack_tuple \<Rightarrow> bool) \<Rightarrow> ptr \<Rightarrow> 'a fc_table \<Rightarrow> bool \<times> 'a fc_table" where
  "fc_check live p t = fc_release (\<lambda>x. \<not> live x) p t"

text \<open>\<open>get_mapping_by_ext_port\<close>: the safe iteration over the bucket, every candidate on the
  port checked (and possibly killed) before its address is compared.\<close>

fun fc_scan_ext ::
  "(nf_conntrack_tuple \<Rightarrow> bool) \<Rightarrow> u16 \<Rightarrow> 'a \<Rightarrow> ptr list \<Rightarrow> 'a fc_table \<Rightarrow> ptr option \<times> 'a fc_table" where
  "fc_scan_ext live prt ext_ip [] t = (None, t)"
| "fc_scan_ext live prt ext_ip (p # ps) t =
     (case heap t p of
        None \<Rightarrow> fc_scan_ext live prt ext_ip ps t
      | Some m \<Rightarrow>
          if port m = prt
          then (let (ok, t') = fc_check live p t
                in if ok \<and> addr m = ext_ip then (Some p, t')
                   else fc_scan_ext live prt ext_ip ps t')
          else fc_scan_ext live prt ext_ip ps t)"

definition fc_get_by_ext_port ::
  "kernel \<Rightarrow> (nf_conntrack_tuple \<Rightarrow> bool) \<Rightarrow> u16 \<Rightarrow> 'a \<Rightarrow> 'a fc_table \<Rightarrow> ptr option \<times> 'a fc_table" where
  "fc_get_by_ext_port K live prt ext_ip t =
     fc_scan_ext live prt ext_ip (by_ext_port t (ext_key K prt)) t"

section \<open>The functions of the two families\<close>

definition allocate_mapping where
  "allocate_mapping K = fc_allocate K fam4"
definition allocate_mapping6 where
  "allocate_mapping6 K = fc_allocate K fam6"
definition add_original_tuple_to_mapping :: "bool \<Rightarrow> ptr \<Rightarrow> nf_conntrack_tuple \<Rightarrow> be32 fc_table \<Rightarrow> be32 fc_table" where
  "add_original_tuple_to_mapping = fc_add_tuple"
definition add_original_tuple_to_mapping6 :: "bool \<Rightarrow> ptr \<Rightarrow> nf_conntrack_tuple \<Rightarrow> nf_inet_addr fc_table \<Rightarrow> nf_inet_addr fc_table" where
  "add_original_tuple_to_mapping6 = fc_add_tuple"
definition get_mapping_by_int_src where
  "get_mapping_by_int_src K = fc_get_by_int_src K fam4"
definition get_mapping6_by_int_src where
  "get_mapping6_by_int_src K = fc_get_by_int_src K fam6"
definition get_mapping_by_int_src_inrange where
  "get_mapping_by_int_src_inrange K = fc_get_by_int_src_inrange K fam4"
definition get_mapping6_by_int_src_inrange where
  "get_mapping6_by_int_src_inrange K = fc_get_by_int_src_inrange K fam6"
definition kill_mapping :: "ptr option \<Rightarrow> be32 fc_table \<Rightarrow> be32 fc_table" where
  "kill_mapping = fc_kill_opt"
definition kill_mapping6 :: "ptr option \<Rightarrow> nf_inet_addr fc_table \<Rightarrow> nf_inet_addr fc_table" where
  "kill_mapping6 = fc_kill_opt"
definition check_mapping :: "(nf_conntrack_tuple \<Rightarrow> bool) \<Rightarrow> ptr \<Rightarrow> be32 fc_table \<Rightarrow> bool \<times> be32 fc_table" where
  "check_mapping = fc_check"
definition check_mapping6 :: "(nf_conntrack_tuple \<Rightarrow> bool) \<Rightarrow> ptr \<Rightarrow> nf_inet_addr fc_table \<Rightarrow> bool \<times> nf_inet_addr fc_table" where
  "check_mapping6 = fc_check"
definition get_mapping_by_ext_port ::
  "kernel \<Rightarrow> (nf_conntrack_tuple \<Rightarrow> bool) \<Rightarrow> u16 \<Rightarrow> be32 \<Rightarrow> be32 fc_table \<Rightarrow> ptr option \<times> be32 fc_table" where
  "get_mapping_by_ext_port = fc_get_by_ext_port"
definition get_mapping6_by_ext_port ::
  "kernel \<Rightarrow> (nf_conntrack_tuple \<Rightarrow> bool) \<Rightarrow> u16 \<Rightarrow> nf_inet_addr \<Rightarrow> nf_inet_addr fc_table \<Rightarrow> ptr option \<times> nf_inet_addr fc_table" where
  "get_mapping6_by_ext_port = fc_get_by_ext_port"

lemmas family_defs = allocate_mapping_def allocate_mapping6_def
  add_original_tuple_to_mapping_def add_original_tuple_to_mapping6_def
  get_mapping_by_int_src_def get_mapping6_by_int_src_def
  get_mapping_by_int_src_inrange_def get_mapping6_by_int_src_inrange_def
  kill_mapping_def kill_mapping6_def check_mapping_def check_mapping6_def
  get_mapping_by_ext_port_def get_mapping6_by_ext_port_def

end
