(* ===== verification/Fc_Table_Props.thy ===== *)
theory Fc_Table_Props
  imports Fc_Table
begin

text \<open>
  The invariant of the mapping tables and what every table operation does to it:
  \<open>tbl_inv\<close> is kept by allocation, referencing, pruning, killing and the port lookup;
  the lookups find a mapping exactly when there is a live one with the wanted key; and
  every operation that frees only removes (\<open>shrinks\<close>).
\<close>

section \<open>Invariant and order\<close>

definition tbl_inv :: "kernel \<Rightarrow> 'a family \<Rightarrow> 'a fc_table \<Rightarrow> bool" where
  "tbl_inv K F t \<longleftrightarrow>
     (\<forall>b p. p \<in> set (by_ext_port t b) \<longleftrightarrow> (\<exists>m. heap t p = Some m \<and> ext_key K (port m) = b)) \<and>
     (\<forall>b p. p \<in> set (by_int_src t b) \<longleftrightarrow>
        (\<exists>m. heap t p = Some m \<and> src_key K F (int_addr m) (int_port m) = b)) \<and>
     (\<forall>b. distinct (by_ext_port t b)) \<and> (\<forall>b. distinct (by_int_src t b)) \<and>
     (\<forall>p m. heap t p = Some m \<longrightarrow> refer_count m = int (length (original_tuple_list m)))"

definition same_key :: "'a nat_mapping \<Rightarrow> 'a nat_mapping \<Rightarrow> bool" where
  "same_key m m' \<longleftrightarrow> port m' = port m \<and> addr m' = addr m \<and> int_addr m' = int_addr m \<and>
     int_port m' = int_port m"

definition shrinks :: "'a fc_table \<Rightarrow> 'a fc_table \<Rightarrow> bool" where
  "shrinks t t' \<longleftrightarrow> (\<forall>p m'. heap t' p = Some m' \<longrightarrow>
     (\<exists>m. heap t p = Some m \<and> same_key m m' \<and>
          set (original_tuple_list m') \<subseteq> set (original_tuple_list m)))"

lemma same_keyD:
  assumes "same_key m m'"
  shows "port m' = port m" and "addr m' = addr m" and "int_addr m' = int_addr m"
    and "int_port m' = int_port m"
  using assms by (simp_all add: same_key_def)

lemma shrinks_refl [simp, intro]: "shrinks t t"
  by (simp add: shrinks_def same_key_def)

lemma shrinks_trans [trans]:
  assumes "shrinks t u" and "shrinks u v"
  shows "shrinks t v"
  unfolding shrinks_def
proof (intro allI impI)
  fix p m'
  assume "heap v p = Some m'"
  then obtain m1 where 1: "heap u p = Some m1" "same_key m1 m'"
      "set (original_tuple_list m') \<subseteq> set (original_tuple_list m1)"
    using assms(2) unfolding shrinks_def by blast
  then obtain m where "heap t p = Some m" "same_key m m1"
      "set (original_tuple_list m1) \<subseteq> set (original_tuple_list m)"
    using assms(1) unfolding shrinks_def by blast
  with 1 show "\<exists>m. heap t p = Some m \<and> same_key m m' \<and>
      set (original_tuple_list m') \<subseteq> set (original_tuple_list m)"
    unfolding same_key_def by auto
qed

lemma shrinks_dom: "shrinks t t' \<Longrightarrow> heap t p = None \<Longrightarrow> heap t' p = None"
  by (metis option.exhaust option.simps(3) shrinks_def)

lemma shrinksD:
  assumes "shrinks t t'" and "heap t p = Some m" and "heap t' p = Some m'"
  shows "port m' = port m" and "addr m' = addr m" and "int_addr m' = int_addr m"
    and "int_port m' = int_port m"
    and "set (original_tuple_list m') \<subseteq> set (original_tuple_list m)"
  using assms unfolding shrinks_def same_key_def by (metis option.inject)+

lemma tbl_inv_ext: "tbl_inv K F t \<Longrightarrow>
    p \<in> set (by_ext_port t b) \<longleftrightarrow> (\<exists>m. heap t p = Some m \<and> ext_key K (port m) = b)"
  by (simp add: tbl_inv_def)

lemma tbl_inv_src: "tbl_inv K F t \<Longrightarrow>
    p \<in> set (by_int_src t b) \<longleftrightarrow>
      (\<exists>m. heap t p = Some m \<and> src_key K F (int_addr m) (int_port m) = b)"
  by (simp add: tbl_inv_def)

lemma tbl_inv_count: "tbl_inv K F t \<Longrightarrow> heap t p = Some m \<Longrightarrow>
    refer_count m = int (length (original_tuple_list m))"
  by (simp add: tbl_inv_def)

lemma tbl_inv_empty: "tbl_inv K F empty_table"
  by (simp add: tbl_inv_def empty_table_def)

section \<open>Allocation, references, kill\<close>

lemma tbl_inv_insert:
  assumes inv: "tbl_inv K F t" and fresh: "heap t p = None"
    and rc: "refer_count m = int (length (original_tuple_list m))"
  shows "tbl_inv K F (t\<lparr>heap := (heap t)(p \<mapsto> m),
      by_ext_port := hash_add K (by_ext_port t) p (ucast (port m)),
      by_int_src := hash_add K (by_int_src t) p (hash_src K F (int_addr m) (int_port m))\<rparr>)"
proof -
  have "p \<notin> set (by_ext_port t b)" and "p \<notin> set (by_int_src t b)" for b
    using inv fresh by (simp_all add: tbl_inv_def)
  with inv rc show ?thesis
    unfolding tbl_inv_def hash_add_def ext_key_def src_key_def by auto
qed

lemma tbl_inv_allocate:
  assumes "tbl_inv K F t" and "\<And>p. mem = Some p \<Longrightarrow> heap t p = None"
  shows "tbl_inv K F (snd (fc_allocate K F mem ia ip prt ad t))"
  using assms tbl_inv_insert [of K F t _ "new_mapping ia ip prt ad"]
  by (auto simp: fc_allocate_def new_mapping_def split: option.split)

lemma tbl_inv_update:
  assumes inv: "tbl_inv K F t" and p: "heap t p = Some m" and key: "same_key m m'"
    and rc: "refer_count m' = int (length (original_tuple_list m'))"
  shows "tbl_inv K F (t\<lparr>heap := (heap t)(p \<mapsto> m')\<rparr>)"
  using inv p rc key unfolding tbl_inv_def same_key_def by auto

lemma tbl_inv_add_tuple:
  assumes inv: "tbl_inv K F t"
  shows "tbl_inv K F (fc_add_tuple ok p x t)"
proof (cases "heap t p")
  case None
  with inv show ?thesis by (simp add: fc_add_tuple_def)
next
  case (Some m)
  with inv show ?thesis
    by (simp add: fc_add_tuple_def tbl_inv_count
        tbl_inv_update [OF inv Some] same_key_def)
qed

lemma tbl_inv_kill:
  assumes inv: "tbl_inv K F t"
  shows "tbl_inv K F (fc_kill p t)"
  using inv unfolding tbl_inv_def fc_kill_def hash_del_def by auto

lemma heap_kill [simp]: "heap (fc_kill p t) = (heap t)(p := None)"
  by (simp add: fc_kill_def)

lemma shrinks_kill: "shrinks t (fc_kill p t)"
  by (auto simp: shrinks_def same_key_def)

lemma tbl_inv_kill_opt: "tbl_inv K F t \<Longrightarrow> tbl_inv K F (fc_kill_opt q t)"
  by (auto simp: fc_kill_opt_def tbl_inv_kill split: option.split)

lemma shrinks_kill_opt: "shrinks t (fc_kill_opt q t)"
  by (auto simp: fc_kill_opt_def shrinks_kill split: option.split)

section \<open>Pruning and releasing\<close>

lemma prune_list_eq:
  "prune_list gone xs rc =
     (filter (\<lambda>x. \<not> gone x) xs, rc - int (length (filter gone xs)))"
  by (induction gone xs rc rule: prune_list.induct) auto

lemma length_filter_split: "int (length xs) - int (length (filter P xs)) = int (length (filter (\<lambda>x. \<not> P x) xs))"
  using sum_length_filter_compl [of P xs] by simp

lemma fc_prune_simps [simp]:
  "original_tuple_list (fc_prune g m) = filter (\<lambda>x. \<not> g x) (original_tuple_list m)"
  "refer_count (fc_prune g m) = refer_count m - int (length (filter g (original_tuple_list m)))"
  "same_key m (fc_prune g m)"
  "port (fc_prune g m) = port m" "addr (fc_prune g m) = addr m"
  "int_addr (fc_prune g m) = int_addr m" "int_port (fc_prune g m) = int_port m"
  by (simp_all add: fc_prune_def prune_list_eq same_key_def)

lemma fc_release_None: "heap t p = None \<Longrightarrow> fc_release g p t = (False, t)"
  by (simp add: fc_release_def)

text \<open>With an exact count, a mapping survives a release iff a reference is left.\<close>

lemma fc_release_Some:
  assumes inv: "tbl_inv K F t" and p: "heap t p = Some m"
  shows "fc_release g p t =
    (if filter (\<lambda>x. \<not> g x) (original_tuple_list m) = []
     then (False, fc_kill p (t\<lparr>heap := (heap t)(p \<mapsto> fc_prune g m)\<rparr>))
     else (True, t\<lparr>heap := (heap t)(p \<mapsto> fc_prune g m)\<rparr>))"
proof -
  have "refer_count (fc_prune g m) = int (length (filter (\<lambda>x. \<not> g x) (original_tuple_list m)))"
    using tbl_inv_count [OF inv p] length_filter_split [of "original_tuple_list m" g] by simp
  then show ?thesis
    using p by (simp add: fc_release_def Let_def)
qed

lemma tbl_inv_prune:
  assumes inv: "tbl_inv K F t" and p: "heap t p = Some m"
  shows "tbl_inv K F (t\<lparr>heap := (heap t)(p \<mapsto> fc_prune g m)\<rparr>)"
  using tbl_inv_update [OF inv p, of "fc_prune g m"] tbl_inv_count [OF inv p]
    length_filter_split [of "original_tuple_list m" g]
  by simp

lemma tbl_inv_release:
  assumes inv: "tbl_inv K F t"
  shows "tbl_inv K F (snd (fc_release g p t))"
proof (cases "heap t p")
  case None
  with inv show ?thesis by (simp add: fc_release_None)
next
  case (Some m)
  then show ?thesis
    using fc_release_Some [OF inv Some, of g] tbl_inv_prune [OF inv Some, of g]
    by (auto intro: tbl_inv_kill)
qed

lemma shrinks_prune: "heap t p = Some m \<Longrightarrow> shrinks t (t\<lparr>heap := (heap t)(p \<mapsto> fc_prune g m)\<rparr>)"
  by (auto simp: shrinks_def same_key_def)

lemma shrinks_release: "shrinks t (snd (fc_release g p t))"
proof (cases "heap t p")
  case None
  then show ?thesis by (simp add: fc_release_None)
next
  case (Some m)
  then show ?thesis
    using shrinks_prune [OF Some, of g] shrinks_trans [OF shrinks_prune [OF Some, of g] shrinks_kill]
    by (simp add: fc_release_def Let_def)
qed

lemma fc_release_frame: "q \<noteq> p \<Longrightarrow> heap (snd (fc_release g p t)) q = heap t q"
  by (simp add: fc_release_def Let_def split: option.split)

lemma fc_release_False: "fc_release g p t = (False, t') \<Longrightarrow> heap t' p = None"
  by (auto simp: fc_release_def Let_def split: option.splits if_splits)

lemma fc_release_True:
  assumes inv: "tbl_inv K F t" and eq: "fc_release g p t = (True, t')"
  shows "\<exists>m m'. heap t p = Some m \<and> heap t' p = Some m' \<and> m' = fc_prune g m \<and>
    original_tuple_list m' \<noteq> [] \<and> (\<forall>x\<in>set (original_tuple_list m'). \<not> g x)"
proof (cases "heap t p")
  case None
  with eq show ?thesis by (simp add: fc_release_None)
next
  case (Some m)
  with eq show ?thesis
    using fc_release_Some [OF inv Some, of g] by (auto split: if_splits)
qed

lemmas check_facts = tbl_inv_release [where g = "\<lambda>x. \<not> live x" for live, folded fc_check_def]
  shrinks_release [where g = "\<lambda>x. \<not> live x" for live, folded fc_check_def]

section \<open>Lookups\<close>

lemma fc_find_Some:
  "fc_find t P ps = Some p \<Longrightarrow> p \<in> set ps \<and> (\<exists>m. heap t p = Some m \<and> P m)"
  by (auto simp: fc_find_def find_Some_iff split: option.splits)

lemma fc_find_None:
  "fc_find t P ps = None \<Longrightarrow> p \<in> set ps \<Longrightarrow> heap t p = Some m \<Longrightarrow> \<not> P m"
  by (auto simp: fc_find_def find_None_iff split: option.splits)

lemma get_by_int_src_Some:
  "fc_get_by_int_src K F ip prt ext t = Some p \<Longrightarrow>
    \<exists>m. heap t p = Some m \<and> int_addr m = ip \<and> int_port m = prt \<and> addr m = ext"
  unfolding fc_get_by_int_src_def by (drule fc_find_Some) auto

lemma get_by_int_src_None:
  assumes "tbl_inv K F t" and "fc_get_by_int_src K F ip prt ext t = None" and "heap t p = Some m"
  shows "\<not> (int_addr m = ip \<and> int_port m = prt \<and> addr m = ext)"
proof
  assume k: "int_addr m = ip \<and> int_port m = prt \<and> addr m = ext"
  then have "p \<in> set (by_int_src t (src_key K F ip prt))"
    using assms(1,3) by (auto simp: tbl_inv_src)
  with assms k show False
    unfolding fc_get_by_int_src_def by (auto dest: fc_find_None)
qed

lemma get_by_int_src_inrange_Some:
  "fc_get_by_int_src_inrange K F ip prt lo hi t = Some p \<Longrightarrow>
    \<exists>m. heap t p = Some m \<and> int_addr m = ip \<and> int_port m = prt \<and>
      memcmp (fam_bytes F (addr m)) (fam_bytes F lo) \<ge> 0 \<and>
      memcmp (fam_bytes F (addr m)) (fam_bytes F hi) \<le> 0"
  unfolding fc_get_by_int_src_inrange_def by (drule fc_find_Some) auto

lemma get_by_int_src_inrange_None:
  assumes "tbl_inv K F t" and "fc_get_by_int_src_inrange K F ip prt lo hi t = None"
    and "heap t p = Some m"
  shows "\<not> (int_addr m = ip \<and> int_port m = prt \<and>
    memcmp (fam_bytes F (addr m)) (fam_bytes F lo) \<ge> 0 \<and>
    memcmp (fam_bytes F (addr m)) (fam_bytes F hi) \<le> 0)"
proof
  assume k: "int_addr m = ip \<and> int_port m = prt \<and>
    memcmp (fam_bytes F (addr m)) (fam_bytes F lo) \<ge> 0 \<and>
    memcmp (fam_bytes F (addr m)) (fam_bytes F hi) \<le> 0"
  then have "p \<in> set (by_int_src t (src_key K F ip prt))"
    using assms(1,3) by (auto simp: tbl_inv_src)
  with assms k show False
    unfolding fc_get_by_int_src_inrange_def by (auto dest: fc_find_None)
qed

text \<open>The scan of a port bucket.\<close>

lemma scan_ext_inv: "tbl_inv K F t \<Longrightarrow> tbl_inv K F (snd (fc_scan_ext live prt ip ps t))"
proof (induction live prt ip ps t rule: fc_scan_ext.induct)
  case (1 live prt ip t)
  then show ?case by simp
next
  case (2 live prt ip p ps t)
  then show ?case
    using check_facts(1) [of K F t live p]
    by (auto split: option.split prod.split)
qed

lemma scan_ext_shrinks: "shrinks t (snd (fc_scan_ext live prt ip ps t))"
proof (induction live prt ip ps t rule: fc_scan_ext.induct)
  case (1 live prt ip t)
  then show ?case by simp
next
  case (2 live prt ip p ps t)
  then show ?case
    using check_facts(2) [of t live p]
    by (auto split: option.split prod.split intro: shrinks_trans)
qed

lemma scan_ext_Some:
  assumes "tbl_inv K F t" and "fc_scan_ext live prt ip ps t = (Some p, t')"
  shows "\<exists>m. heap t' p = Some m \<and> port m = prt \<and> addr m = ip \<and>
    original_tuple_list m \<noteq> [] \<and> (\<forall>x\<in>set (original_tuple_list m). live x)"
  using assms
proof (induction live prt ip ps t rule: fc_scan_ext.induct)
  case (1 live prt ip t)
  then show ?case by simp
next
  case (2 live prt ip q ps t)
  show ?case
  proof (cases "heap t q")
    case None
    with 2 show ?thesis by simp
  next
    case (Some m)
    show ?thesis
    proof (cases "port m = prt")
      case False
      with 2 Some show ?thesis by simp
    next
      case True
      obtain ok u where chk: "fc_check live q t = (ok, u)"
        by (cases "fc_check live q t")
      have inv: "tbl_inv K F u"
        using check_facts(1) [OF 2(4), of live q] chk by simp
      show ?thesis
      proof (cases "ok \<and> addr m = ip")
        case True
        with chk have "fc_release (\<lambda>x. \<not> live x) q t = (True, u)"
          by (simp add: fc_check_def)
        from fc_release_True [OF 2(4) this] Some obtain m' where
          m': "heap u q = Some m'" "m' = fc_prune (\<lambda>x. \<not> live x) m" "original_tuple_list m' \<noteq> []"
          "\<forall>x\<in>set (original_tuple_list m'). live x"
          by (metis option.inject)
        have "q = p" and "u = t'"
          using 2(5) Some True chk \<open>port m = prt\<close> by simp_all
        moreover have "port m' = prt" and "addr m' = ip"
          using True \<open>port m = prt\<close> m'(2) by simp_all
        ultimately show ?thesis
          using m'(1,3,4) by blast
      next
        case False
        with 2 Some chk inv \<open>port m = prt\<close> show ?thesis by auto
      qed
    qed
  qed
qed

lemma scan_ext_None:
  assumes "fc_scan_ext live prt ip ps t = (None, t')" and "p \<in> set ps" and "heap t' p = Some m"
  shows "\<not> (port m = prt \<and> addr m = ip)"
  using assms
proof (induction live prt ip ps t rule: fc_scan_ext.induct)
  case (1 live prt ip t)
  then show ?case by simp
next
  case (2 live prt ip q ps t)
  have sh: "shrinks t t'"
    using scan_ext_shrinks [of t live prt ip "q # ps"] 2(4) by simp
  show ?case
  proof (cases "heap t q")
    case None
    then have "p \<noteq> q"
      using shrinks_dom [OF sh] 2(6) by auto
    with None 2 show ?thesis by simp
  next
    case (Some mq)
    obtain ok u where chk: "fc_check live q t = (ok, u)"
      by (cases "fc_check live q t")
    have shu: "shrinks u t'" if "port mq = prt"
      using that Some chk 2(4) scan_ext_shrinks [of u live prt ip ps] by (auto split: if_splits)
    have pq: "p = q \<Longrightarrow> ?thesis"
    proof -
      assume "p = q"
      have k: "port m = port mq" "addr m = addr mq"
        using shrinksD [OF sh Some] 2(6) \<open>p = q\<close> by auto
      show ?thesis
      proof
        assume eq: "port m = prt \<and> addr m = ip"
        then have "\<not> ok"
          using Some chk 2(4) k by (auto split: if_splits)
        then have "heap u q = None"
          using chk fc_release_False [of "\<lambda>x. \<not> live x" q t u] by (simp add: fc_check_def)
        then have "heap t' q = None"
          using shrinks_dom [OF shu] eq k by auto
        with 2(6) \<open>p = q\<close> show False by simp
      qed
    qed
    show ?thesis
    proof (cases "p = q")
      case True
      then show ?thesis by (rule pq)
    next
      case False
      with 2(5) have mem: "p \<in> set ps" by simp
      show ?thesis
      proof (cases "port mq = prt \<and> \<not> (ok \<and> addr mq = ip)")
        case True
        with 2(4) Some chk have "fc_scan_ext live prt ip ps u = (None, t')"
          by (simp split: if_splits)
        then show ?thesis
          using 2(2) [OF Some] True chk mem 2(6) by simp
      next
        case False
        with 2(4) Some chk have "port mq \<noteq> prt" "fc_scan_ext live prt ip ps t = (None, t')"
          by (auto split: if_splits)
        then show ?thesis
          using 2(3) [OF Some] mem 2(6) by simp
      qed
    qed
  qed
qed

text \<open>\<open>get_mapping_by_ext_port\<close> as a whole.\<close>

lemma get_by_ext_port_inv:
  "tbl_inv K F t \<Longrightarrow> tbl_inv K F (snd (fc_get_by_ext_port K live prt ip t))"
  by (simp add: fc_get_by_ext_port_def scan_ext_inv)

lemma get_by_ext_port_shrinks: "shrinks t (snd (fc_get_by_ext_port K live prt ip t))"
  by (simp add: fc_get_by_ext_port_def scan_ext_shrinks)

lemma get_by_ext_port_Some:
  assumes "tbl_inv K F t" and "fc_get_by_ext_port K live prt ip t = (Some p, t')"
  shows "\<exists>m. heap t' p = Some m \<and> port m = prt \<and> addr m = ip \<and>
    original_tuple_list m \<noteq> [] \<and> (\<forall>x\<in>set (original_tuple_list m). live x)"
  using assms unfolding fc_get_by_ext_port_def by (rule scan_ext_Some)

lemma get_by_ext_port_None:
  assumes inv: "tbl_inv K F t" and eq: "fc_get_by_ext_port K live prt ip t = (None, t')"
    and p: "heap t' p = Some m"
  shows "\<not> (port m = prt \<and> addr m = ip)"
proof
  assume k: "port m = prt \<and> addr m = ip"
  have "shrinks t t'"
    using get_by_ext_port_shrinks [of t K live prt ip] eq by simp
  then obtain m0 where "heap t p = Some m0" "same_key m0 m"
    using p unfolding shrinks_def by blast
  with k have "p \<in> set (by_ext_port t (ext_key K prt))"
    using inv by (auto simp: tbl_inv_ext same_key_def)
  from scan_ext_None [OF eq [unfolded fc_get_by_ext_port_def] this p] k show False by simp
qed

text \<open>External endpoints in use, and their uniqueness.\<close>

definition ext_used :: "'a \<Rightarrow> 'a fc_table \<Rightarrow> u16 set" where
  "ext_used ip t = {prt. \<exists>p m. heap t p = Some m \<and> port m = prt \<and> addr m = ip}"

definition ext_unique :: "'a fc_table \<Rightarrow> bool" where
  "ext_unique t \<longleftrightarrow> (\<forall>p q m n. heap t p = Some m \<longrightarrow> heap t q = Some n \<longrightarrow>
     port m = port n \<longrightarrow> addr m = addr n \<longrightarrow> p = q)"

lemma ext_unique_shrinks:
  assumes "ext_unique t" and sh: "shrinks t t'"
  shows "ext_unique t'"
  unfolding ext_unique_def
proof (intro allI impI)
  fix p q m n
  assume hp: "heap t' p = Some m" and hq: "heap t' q = Some n"
    and k: "port m = port n" "addr m = addr n"
  from sh hp obtain m0 where m0: "heap t p = Some m0" "same_key m0 m"
    unfolding shrinks_def by blast
  from sh hq obtain n0 where n0: "heap t q = Some n0" "same_key n0 n"
    unfolding shrinks_def by blast
  have "port m0 = port n0" and "addr m0 = addr n0"
    using k same_keyD(1,2) [OF m0(2)] same_keyD(1,2) [OF n0(2)] by simp_all
  then show "p = q"
    using assms(1) m0(1) n0(1) unfolding ext_unique_def by blast
qed

lemma ext_used_shrinks:
  assumes "shrinks t t'"
  shows "ext_used ip t' \<subseteq> ext_used ip t"
proof
  fix prt
  assume "prt \<in> ext_used ip t'"
  then obtain p m' where "heap t' p = Some m'" "port m' = prt" "addr m' = ip"
    unfolding ext_used_def by blast
  moreover from this(1) assms obtain m where "heap t p = Some m" "same_key m m'"
    unfolding shrinks_def by blast
  ultimately show "prt \<in> ext_used ip t"
    unfolding ext_used_def same_key_def by auto
qed

section \<open>Mappings with a live connection survive\<close>

definition keeps :: "(nf_conntrack_tuple \<Rightarrow> bool) \<Rightarrow> 'a fc_table \<Rightarrow> 'a fc_table \<Rightarrow> bool" where
  "keeps live t t' \<longleftrightarrow> (\<forall>p m. heap t p = Some m \<longrightarrow> filter live (original_tuple_list m) \<noteq> [] \<longrightarrow>
     (\<exists>m'. heap t' p = Some m' \<and> same_key m m' \<and>
        filter live (original_tuple_list m') = filter live (original_tuple_list m)))"

lemma keeps_refl [simp, intro]: "keeps live t t"
  by (simp add: keeps_def same_key_def)

lemma keeps_trans:
  assumes "keeps live t u" and "keeps live u v"
  shows "keeps live t v"
  unfolding keeps_def
proof (intro allI impI)
  fix p m
  assume "heap t p = Some m" and ne: "filter live (original_tuple_list m) \<noteq> []"
  then obtain m1 where 1: "heap u p = Some m1" "same_key m m1"
      "filter live (original_tuple_list m1) = filter live (original_tuple_list m)"
    using assms(1) unfolding keeps_def by blast
  with ne obtain m2 where 2: "heap v p = Some m2" "same_key m1 m2"
      "filter live (original_tuple_list m2) = filter live (original_tuple_list m1)"
    using assms(2) unfolding keeps_def by metis
  have "same_key m m2"
    using 1(2) 2(2) by (simp add: same_key_def)
  with 1 2 show "\<exists>m'. heap v p = Some m' \<and> same_key m m' \<and>
      filter live (original_tuple_list m') = filter live (original_tuple_list m)"
    by auto
qed

lemma keeps_check:
  assumes inv: "tbl_inv K F t"
  shows "keeps live t (snd (fc_check live p t))"
proof (cases "heap t p")
  case None
  then show ?thesis by (simp add: fc_check_def fc_release_None)
next
  case (Some m)
  show ?thesis
    unfolding keeps_def fc_check_def fc_release_Some [OF inv Some]
    using Some by (auto simp: same_key_def)
qed

lemma keeps_scan_ext:
  "tbl_inv K F t \<Longrightarrow> keeps live t (snd (fc_scan_ext live prt ip ps t))"
proof (induction live prt ip ps t rule: fc_scan_ext.induct)
  case (1 live prt ip t)
  then show ?case by simp
next
  case (2 live prt ip p ps t)
  show ?case
  proof (cases "heap t p")
    case None
    with 2 show ?thesis by simp
  next
    case (Some m)
    obtain ok u where chk: "fc_check live p t = (ok, u)"
      by (cases "fc_check live p t")
    have u: "keeps live t u" "tbl_inv K F u"
      using keeps_check [OF 2(4), of live p] check_facts(1) [OF 2(4), of live p] chk by simp_all
    show ?thesis
    proof (cases "port m = prt \<and> \<not> (ok \<and> addr m = ip)")
      case True
      then have "keeps live u (snd (fc_scan_ext live prt ip ps u))"
        using 2(2) [OF Some] chk u(2) by simp
      with True u(1) Some chk show ?thesis
        by (auto intro: keeps_trans)
    next
      case False
      with 2(3) [OF Some] 2(4) Some chk u(1) show ?thesis by auto
    qed
  qed
qed

lemma keeps_get_by_ext_port:
  "tbl_inv K F t \<Longrightarrow> keeps live t (snd (fc_get_by_ext_port K live prt ip t))"
  by (simp add: fc_get_by_ext_port_def keeps_scan_ext)

end
