(* ===== verification/Fc_Port.thy ===== *)
theory Fc_Port
  imports Fc_Table_Props
begin

text \<open>
  Choosing an external endpoint, \<^verbatim>\<open>nf_nat_fullcone.c\<close>: \<open>find_appropriate_port\<close> (and its IPv6
  twin) over the port lookup of the tables, and \<open>find_leastused_ip\<close> / \<open>find_leastused_ip6\<close>
  over the requested address range.  Port arithmetic is done at its C types: \<open>uint16_t\<close>
  variables, promoted to \<open>int\<close> inside expressions.  A random start over an empty range
  divides by zero; that is the value \<open>None\<close>.
\<close>

section \<open>NAT ranges\<close>

text \<open>\<^verbatim>\<open>struct nf_nat_range2\<close> without \<open>base_proto\<close>, which the module clears and never reads.\<close>

record nf_nat_range2 =
  flags :: u32
  min_addr :: nf_inet_addr
  max_addr :: nf_inet_addr
  min_proto :: be16
  max_proto :: be16

definition NF_NAT_RANGE_MAP_IPS :: u32 where "NF_NAT_RANGE_MAP_IPS = 1"
definition NF_NAT_RANGE_PROTO_SPECIFIED :: u32 where "NF_NAT_RANGE_PROTO_SPECIFIED = 2"
definition NF_NAT_RANGE_PROTO_RANDOM :: u32 where "NF_NAT_RANGE_PROTO_RANDOM = 4"
definition NF_NAT_RANGE_PERSISTENT :: u32 where "NF_NAT_RANGE_PERSISTENT = 8"
definition NF_NAT_RANGE_PROTO_RANDOM_FULLY :: u32 where "NF_NAT_RANGE_PROTO_RANDOM_FULLY = 16"

lemmas range_flag_defs = NF_NAT_RANGE_MAP_IPS_def NF_NAT_RANGE_PROTO_SPECIFIED_def
  NF_NAT_RANGE_PROTO_RANDOM_def NF_NAT_RANGE_PERSISTENT_def NF_NAT_RANGE_PROTO_RANDOM_FULLY_def

definition has_flag :: "nf_nat_range2 \<Rightarrow> u32 \<Rightarrow> bool" where
  "has_flag r f \<longleftrightarrow> flags r AND f \<noteq> 0"

section \<open>find_appropriate_port\<close>

text \<open>First port and number of ports (both \<open>uint16_t\<close>).\<close>

definition port_min :: "nf_nat_range2 \<Rightarrow> u16" where
  "port_min r = (if has_flag r NF_NAT_RANGE_PROTO_SPECIFIED then be16_to_cpu (min_proto r) else 1024)"

definition port_range_size :: "nf_nat_range2 \<Rightarrow> u16" where
  "port_range_size r =
     (if has_flag r NF_NAT_RANGE_PROTO_SPECIFIED
      then be16_to_cpu (max_proto r) - be16_to_cpu (min_proto r) + 1
      else 65535 - 1024 + 1)"

definition port_random :: "nf_nat_range2 \<Rightarrow> bool" where
  "port_random r \<longleftrightarrow>
     has_flag r NF_NAT_RANGE_PROTO_RANDOM \<or> has_flag r NF_NAT_RANGE_PROTO_RANDOM_FULLY"

text \<open>\<open>selected = min + ((start + i) % range_size)\<close> stored into a \<open>uint16_t\<close>.\<close>

definition port_select :: "u16 \<Rightarrow> u16 \<Rightarrow> u16 \<Rightarrow> nat \<Rightarrow> u16" where
  "port_select mn start rsize i = of_nat (unat mn + (unat start + i) mod unat rsize)"

text \<open>The probing loop, \<open>n\<close> iterations still to run out of \<open>range_size\<close>.\<close>

primrec port_loop ::
  "(u16 \<Rightarrow> 'st \<Rightarrow> 'q option \<times> 'st) \<Rightarrow> u16 \<Rightarrow> u16 \<Rightarrow> u16 \<Rightarrow> nat \<Rightarrow> 'st \<Rightarrow> u16 option \<times> 'st" where
  "port_loop get mn start rsize 0 t = (None, t)"
| "port_loop get mn start rsize (Suc n) t =
     (let selected = port_select mn start rsize (unat rsize - Suc n)
      in case get selected t of
           (None, t') \<Rightarrow> (Some selected, t')
         | (Some _, t') \<Rightarrow> port_loop get mn start rsize n t')"

text \<open>Steps 2 and 3: probe from \<open>start\<close>, else evict the mapping at \<open>min + start\<close>.\<close>

definition port_probe_all ::
  "(u16 \<Rightarrow> 'st \<Rightarrow> 'q option \<times> 'st) \<Rightarrow> ('q option \<Rightarrow> 'st \<Rightarrow> 'st) \<Rightarrow> u16 \<Rightarrow> u16 \<Rightarrow> u16 \<Rightarrow> 'st \<Rightarrow> u16 \<times> 'st" where
  "port_probe_all get kill mn start rsize t =
     (case port_loop get mn start rsize (unat rsize) t of
        (Some selected, t') \<Rightarrow> (selected, t')
      | (None, t') \<Rightarrow>
          (let selected = mn + start; (mapping, t'') = get selected t'
           in (selected, kill mapping t'')))"

definition find_port ::
  "(u16 \<Rightarrow> 'st \<Rightarrow> 'q option \<times> 'st) \<Rightarrow> ('q option \<Rightarrow> 'st \<Rightarrow> 'st) \<Rightarrow> u32 \<Rightarrow> u16 \<Rightarrow> nf_nat_range2 \<Rightarrow> 'st
     \<Rightarrow> (u16 \<times> 'st) option" where
  "find_port get kill rnd original_port r t =
     (let mn = port_min r; rsize = port_range_size r
      in if port_random r
         then (if rsize = 0 then None
               else Some (port_probe_all get kill mn (ucast (rnd mod ucast rsize)) rsize t))
         else if (original_port \<ge> mn \<and> unat original_port < unat mn + unat rsize)
                 \<or> \<not> has_flag r NF_NAT_RANGE_PROTO_SPECIFIED
         then (case get original_port t of
                 (None, t') \<Rightarrow> Some (original_port, t')
               | (Some _, t') \<Rightarrow> Some (port_probe_all get kill mn 0 rsize t'))
         else Some (port_probe_all get kill mn 0 rsize t))"

definition find_appropriate_port ::
  "kernel \<Rightarrow> (nf_conntrack_tuple \<Rightarrow> bool) \<Rightarrow> u32 \<Rightarrow> u16 \<Rightarrow> be32 \<Rightarrow> nf_nat_range2 \<Rightarrow> be32 fc_table
     \<Rightarrow> (u16 \<times> be32 fc_table) option" where
  "find_appropriate_port K live rnd original_port ext_ip r t =
     find_port (\<lambda>p. get_mapping_by_ext_port K live p ext_ip) kill_mapping rnd original_port r t"

definition find_appropriate_port6 ::
  "kernel \<Rightarrow> (nf_conntrack_tuple \<Rightarrow> bool) \<Rightarrow> u32 \<Rightarrow> u16 \<Rightarrow> nf_inet_addr \<Rightarrow> nf_nat_range2
     \<Rightarrow> nf_inet_addr fc_table \<Rightarrow> (u16 \<times> nf_inet_addr fc_table) option" where
  "find_appropriate_port6 K live rnd original_port ext_ip r t =
     find_port (\<lambda>p. get_mapping6_by_ext_port K live p ext_ip) kill_mapping6 rnd original_port r t"

section \<open>find_leastused_ip\<close>

definition leastused_hash :: "kernel \<Rightarrow> nf_nat_range2 \<Rightarrow> u32 list \<Rightarrow> be32 \<Rightarrow> u16 \<Rightarrow> u32" where
  "leastused_hash K r src last_dst zone_id =
     FULLCONE_HKEY K src
       (if has_flag r NF_NAT_RANGE_PERSISTENT then 0 else last_dst XOR ucast zone_id)
       HASHTABLE_BUCKET_BITS"

definition find_leastused_ip :: "kernel \<Rightarrow> u16 \<Rightarrow> nf_nat_range2 \<Rightarrow> be32 \<Rightarrow> be32 \<Rightarrow> be32" where
  "find_leastused_ip K zone_id r src dst =
     (let j = leastused_hash K r [src] dst zone_id;
          minip = ntohl (all0 (min_addr r));
          maxip = ntohl (all0 (max_addr r));
          dist = maxip - minip + 1
      in htonl (minip + reciprocal_scale K j dist))"

text \<open>The IPv6 loop over the four words \<open>(min, max, dst)\<close>, with \<open>j\<close> and \<open>full_range\<close>.\<close>

fun leastused6_loop ::
  "kernel \<Rightarrow> bool \<Rightarrow> (be32 \<times> be32 \<times> be32) list \<Rightarrow> u32 \<Rightarrow> bool \<Rightarrow> be32 list" where
  "leastused6_loop K persistent [] j full_range = []"
| "leastused6_loop K persistent ((mi, ma, d) # ws) j full_range =
     (let (minip, dist) = (if \<not> full_range then (ntohl mi, ntohl ma - ntohl mi + 1)
                           else (0, NOT 0));
          v = htonl (minip + reciprocal_scale K j dist);
          full' = (full_range \<or> v \<noteq> ma);
          j' = (if persistent then j else j XOR d)
      in v # leastused6_loop K persistent ws j' full')"

definition inet_of_words :: "be32 list \<Rightarrow> nf_inet_addr" where
  "inet_of_words ws = \<lparr>all0 = ws ! 0, all1 = ws ! 1, all2 = ws ! 2, all3 = ws ! 3\<rparr>"

definition find_leastused_ip6 ::
  "kernel \<Rightarrow> u16 \<Rightarrow> nf_nat_range2 \<Rightarrow> nf_inet_addr \<Rightarrow> nf_inet_addr \<Rightarrow> nf_inet_addr" where
  "find_leastused_ip6 K zone_id r src dst =
     inet_of_words (leastused6_loop K (has_flag r NF_NAT_RANGE_PERSISTENT)
       (zip (inet_words (min_addr r)) (zip (inet_words (max_addr r)) (inet_words dst)))
       (leastused_hash K r (inet_words src) (all3 dst) zone_id) False)"

section \<open>Where the selected port lies\<close>

lemma port_select_range:
  assumes fit: "unat mn + unat rsize \<le> 2 ^ 16" and ne: "0 < unat rsize"
  shows "unat mn \<le> unat (port_select mn start rsize i) \<and>
         unat (port_select mn start rsize i) < unat mn + unat rsize"
proof -
  have m: "(unat start + i) mod unat rsize < unat rsize"
    using ne by simp
  then have "unat mn + (unat start + i) mod unat rsize < 2 ^ 16"
    using fit by simp
  then have "unat (port_select mn start rsize i) = unat mn + (unat start + i) mod unat rsize"
    unfolding port_select_def by (subst unat_of_nat) simp
  with m show ?thesis by simp
qed

lemma port_loop_selects:
  "port_loop get mn start rsize n t = (Some p, t') \<Longrightarrow> \<exists>i. p = port_select mn start rsize i"
  by (induction n arbitrary: t) (auto simp: Let_def split: prod.splits option.splits)

lemma port_probe_all_range:
  assumes fit: "unat mn + unat rsize \<le> 2 ^ 16" and start: "unat start < unat rsize"
    and eq: "port_probe_all get kill mn start rsize t = (p, t')"
  shows "unat mn \<le> unat p \<and> unat p < unat mn + unat rsize"
proof -
  obtain r u where l: "port_loop get mn start rsize (unat rsize) t = (r, u)"
    by (rule prod.exhaust)
  show ?thesis
  proof (cases r)
    case (Some q)
    with eq l have "p = q" by (simp add: port_probe_all_def)
    with port_loop_selects [of get mn start rsize "unat rsize" t q u] l Some
      port_select_range [OF fit] start show ?thesis by auto
  next
    case None
    with eq l have "p = mn + start"
      by (simp add: port_probe_all_def Let_def split: prod.splits)
    moreover have "unat (mn + start) = unat mn + unat start"
      using fit start by (subst unat_add_lem [THEN iffD1]) simp_all
    ultimately show ?thesis using start by simp
  qed
qed

lemma random_start:
  assumes "rsize \<noteq> (0::u16)"
  shows "unat (ucast ((rnd::u32) mod ucast rsize) :: u16) < unat rsize"
proof -
  have up: "unat (ucast rsize :: u32) = unat rsize"
  proof -
    have "unat rsize < 2 ^ 16"
      using unsigned_less [of rsize] by simp
    then have "take_bit 32 (unat rsize) = unat rsize"
      by (intro take_bit_nat_eq_self) simp
    then show ?thesis
      by (simp add: unsigned_ucast_eq)
  qed
  have "unat (ucast (rnd mod ucast rsize) :: u16) \<le> unat (rnd mod ucast rsize)"
    by (simp add: unsigned_ucast_eq take_bit_eq_mod)
  also have "\<dots> = unat rnd mod unat rsize"
    by (simp add: unat_mod_distrib up)
  also have "\<dots> < unat rsize"
    using assms by (intro mod_less_divisor) (simp add: unat_gt_0)
  finally show ?thesis .
qed

lemma find_port_range:
  assumes fit: "unat (port_min r) + unat (port_range_size r) \<le> 2 ^ 16" and ne: "port_range_size r \<noteq> 0"
    and eq: "find_port get kill rnd op r t = Some (p, t')"
  shows "unat (port_min r) \<le> unat p \<and> unat p < unat (port_min r) + unat (port_range_size r) \<or>
    (\<not> port_random r \<and> \<not> has_flag r NF_NAT_RANGE_PROTO_SPECIFIED \<and> p = op)"
proof (cases "port_random r")
  case True
  with eq have "port_probe_all get kill (port_min r)
      (ucast (rnd mod ucast (port_range_size r))) (port_range_size r) t = (p, t')"
    by (auto simp: find_port_def Let_def split: if_splits)
  from port_probe_all_range [OF fit random_start [OF ne] this] show ?thesis by blast
next
  case False
  obtain q u where g: "get op t = (q, u)"
    by (rule prod.exhaust)
  have z: "unat (0::u16) < unat (port_range_size r)"
    using ne by (simp add: unat_gt_0)
  from eq False g consider
      (keep) "p = op" "unat (port_min r) \<le> unat p \<and> unat p < unat (port_min r) + unat (port_range_size r)
         \<or> \<not> has_flag r NF_NAT_RANGE_PROTO_SPECIFIED"
    | (probe) v where "port_probe_all get kill (port_min r) 0 (port_range_size r) v = (p, t')"
    by (auto simp: find_port_def Let_def word_le_nat_alt split: if_splits option.splits)
  then show ?thesis
  proof cases
    case keep
    with False show ?thesis by blast
  next
    case probe
    from port_probe_all_range [OF fit z this] show ?thesis by blast
  qed
qed

text \<open>The range the code computes, when the rule's ports are in order and not all of
  \<open>0-65535\<close>.\<close>

lemma port_range_specified:
  assumes "has_flag r NF_NAT_RANGE_PROTO_SPECIFIED"
    and le: "be16_to_cpu (min_proto r) \<le> be16_to_cpu (max_proto r)"
    and "\<not> (be16_to_cpu (min_proto r) = 0 \<and> be16_to_cpu (max_proto r) = 65535)"
  shows "unat (port_min r) = unat (be16_to_cpu (min_proto r))"
    and "unat (port_range_size r) = unat (be16_to_cpu (max_proto r)) - unat (be16_to_cpu (min_proto r)) + 1"
proof -
  let ?a = "be16_to_cpu (min_proto r)" and ?b = "be16_to_cpu (max_proto r)"
  show "unat (port_min r) = unat ?a"
    using assms(1) by (simp add: port_min_def)
  have d: "unat (?b - ?a) = unat ?b - unat ?a"
    using le by (simp add: unat_sub)
  have b: "unat ?b \<le> 65535"
    using unat_u16_less [of ?b] by simp
  have "unat ?b - unat ?a < 65535"
  proof (rule ccontr)
    assume "\<not> ?thesis"
    then have "unat ?b = 65535" "unat ?a = 0"
      using b by simp_all
    then have "?b = 65535" "?a = 0"
      by (simp_all add: word_unat_eq_iff)
    with assms(3) show False by simp
  qed
  then have "unat (?b - ?a + 1) = unat ?b - unat ?a + 1"
    using d by (subst unat_add_lem [THEN iffD1]) simp_all
  with assms(1) show "unat (port_range_size r) = unat ?b - unat ?a + 1"
    by (simp add: port_range_size_def)
qed

section \<open>The port search over any mapping store\<close>

text \<open>What the search asks of a store: a lookup that keeps the invariant, removes
  mappings only, and answers \<open>None\<close> exactly when no mapping is left at the port; and an
  eviction that empties the port found.\<close>

locale port_probe =
  fixes get :: "u16 \<Rightarrow> 'st \<Rightarrow> 'q option \<times> 'st"
    and kill :: "'q option \<Rightarrow> 'st \<Rightarrow> 'st"
    and inv :: "'st \<Rightarrow> bool"
    and leq :: "'st \<Rightarrow> 'st \<Rightarrow> bool"
    and used :: "'st \<Rightarrow> u16 set"
  assumes leq_refl: "leq t t"
    and leq_trans: "leq t u \<Longrightarrow> leq u v \<Longrightarrow> leq t v"
    and get_inv: "inv t \<Longrightarrow> get p t = (r, t') \<Longrightarrow> inv t' \<and> leq t' t"
    and get_None: "inv t \<Longrightarrow> get p t = (None, t') \<Longrightarrow> p \<notin> used t'"
    and get_Some: "inv t \<Longrightarrow> get p t = (Some q, t') \<Longrightarrow> p \<in> used t'"
    and kill_inv: "inv t \<Longrightarrow> inv (kill r t) \<and> leq (kill r t) t"
    and kill_found: "inv t \<Longrightarrow> get p t = (r, t') \<Longrightarrow> p \<notin> used (kill r t')"
begin

lemma port_loop_ok:
  assumes "inv t" and "port_loop get mn start rsize n t = (r, t')"
  shows "inv t' \<and> leq t' t \<and> (\<forall>p. r = Some p \<longrightarrow> p \<notin> used t')"
  using assms
proof (induction n arbitrary: t)
  case 0
  then show ?case by (auto simp: leq_refl)
next
  case (Suc n)
  let ?p = "port_select mn start rsize (unat rsize - Suc n)"
  obtain q u where g: "get ?p t = (q, u)"
    by (cases "get ?p t")
  have u: "inv u" "leq u t"
    using get_inv [OF Suc.prems(1) g] by simp_all
  show ?case
  proof (cases q)
    case None
    with Suc.prems g u get_None [of t ?p u] show ?thesis
      by (auto simp: Let_def)
  next
    case (Some q')
    with Suc.prems g have "port_loop get mn start rsize n u = (r, t')"
      by (simp add: Let_def)
    from Suc.IH [OF u(1) this] u(2) show ?thesis
      using leq_trans by blast
  qed
qed

lemma port_probe_all_ok:
  assumes inv: "inv t" and eq: "port_probe_all get kill mn start rsize t = (p, t')"
  shows "inv t' \<and> leq t' t \<and> p \<notin> used t'"
proof -
  obtain r u where l: "port_loop get mn start rsize (unat rsize) t = (r, u)"
    by (cases "port_loop get mn start rsize (unat rsize) t")
  note lo = port_loop_ok [OF inv l]
  show ?thesis
  proof (cases r)
    case (Some s)
    with eq l lo show ?thesis by (auto simp: port_probe_all_def)
  next
    case None
    obtain q v where g: "get (mn + start) u = (q, v)"
      by (cases "get (mn + start) u")
    have "inv v" "leq v u"
      using lo get_inv [OF _ g] by simp_all
    moreover have "p = mn + start" "t' = kill q v"
      using eq l None g by (simp_all add: port_probe_all_def Let_def)
    ultimately show ?thesis
      using lo kill_inv [of v q] kill_found [OF _ g] leq_trans by blast
  qed
qed

theorem find_port_free:
  assumes inv: "inv t" and eq: "find_port get kill rnd op r t = Some (p, t')"
  shows "inv t' \<and> leq t' t \<and> p \<notin> used t'"
proof (cases "port_random r")
  case True
  with eq have "port_probe_all get kill (port_min r)
      (ucast (rnd mod ucast (port_range_size r))) (port_range_size r) t = (p, t')"
    by (auto simp: find_port_def Let_def split: if_splits)
  then show ?thesis
    by (rule port_probe_all_ok [OF inv])
next
  case False
  obtain q u where g: "get op t = (q, u)"
    by (cases "get op t")
  have u: "inv u" "leq u t"
    using get_inv [OF inv g] by simp_all
  from eq False g consider
      "p = op" "t' = u" "q = None"
    | "port_probe_all get kill (port_min r) 0 (port_range_size r) u = (p, t')"
    | "port_probe_all get kill (port_min r) 0 (port_range_size r) t = (p, t')"
    by (auto simp: find_port_def Let_def split: if_splits option.splits)
  then show ?thesis
  proof cases
    case 1
    with u g get_None [OF inv, of op u] show ?thesis by simp
  next
    case 2
    from port_probe_all_ok [OF u(1) this] u(2) show ?thesis
      using leq_trans by blast
  next
    case 3
    then show ?thesis by (rule port_probe_all_ok [OF inv])
  qed
qed

text \<open>A free port that is already preferred is kept; a busy one is never returned while the
  range has a free port.\<close>

lemma find_port_preserves:
  assumes "\<not> port_random r" and "get op t = (None, t')"
    and "op \<ge> port_min r \<and> unat op < unat (port_min r) + unat (port_range_size r)
         \<or> \<not> has_flag r NF_NAT_RANGE_PROTO_SPECIFIED"
  shows "find_port get kill rnd op r t = Some (op, t')"
  using assms by (auto simp: find_port_def Let_def)

end

text \<open>Every port of the range is probed, whatever the start.\<close>

lemma port_select_cover:
  assumes start: "unat start < unat rsize" and j: "j < unat rsize"
  shows "\<exists>i<unat rsize. port_select mn start rsize i = of_nat (unat mn + j)"
proof -
  let ?i = "(j + (unat rsize - unat start)) mod unat rsize"
  have "(unat start + ?i) mod unat rsize = (unat start + (j + (unat rsize - unat start))) mod unat rsize"
    by (rule mod_add_right_eq)
  also have "\<dots> = (j + unat rsize) mod unat rsize"
    using start by simp
  also have "\<dots> = j"
    using j by simp
  finally have "port_select mn start rsize ?i = of_nat (unat mn + j)"
    by (simp add: port_select_def)
  moreover have "?i < unat rsize"
    using j by (intro mod_less_divisor) simp
  ultimately show ?thesis by blast
qed

text \<open>A store whose lookup also keeps everything that is still in use, and whose used ports
  shrink with the store.\<close>

locale port_probe_keep = port_probe +
  fixes keep :: "'a \<Rightarrow> 'a \<Rightarrow> bool"
  assumes keep_refl: "keep t t"
    and keep_trans: "keep t u \<Longrightarrow> keep u v \<Longrightarrow> keep t v"
    and get_keep: "inv t \<Longrightarrow> get p t = (r, t') \<Longrightarrow> keep t t'"
    and used_mono: "leq t' t \<Longrightarrow> used t' \<subseteq> used t"
begin

lemma port_loop_keep:
  assumes "inv t" and "port_loop get mn start rsize n t = (r, t')"
  shows "keep t t'"
  using assms
proof (induction n arbitrary: t)
  case 0
  then show ?case by (auto simp: keep_refl)
next
  case (Suc n)
  obtain q u where g: "get (port_select mn start rsize (unat rsize - Suc n)) t = (q, u)"
    by (cases "get (port_select mn start rsize (unat rsize - Suc n)) t")
  have u: "inv u" "keep t u"
    using get_inv [OF Suc.prems(1) g] get_keep [OF Suc.prems(1) g] by simp_all
  show ?case
  proof (cases q)
    case None
    with Suc.prems g u show ?thesis by (auto simp: Let_def)
  next
    case (Some q')
    with Suc.prems g have "port_loop get mn start rsize n u = (r, t')"
      by (simp add: Let_def)
    from Suc.IH [OF u(1) this] u(2) show ?thesis
      using keep_trans by blast
  qed
qed

text \<open>The loop gives up only when every port it probed is in use.\<close>

lemma port_loop_None:
  assumes "inv t" and "port_loop get mn start rsize n t = (None, t')" and "n \<le> unat rsize"
    and "unat rsize - n \<le> i" and "i < unat rsize"
  shows "port_select mn start rsize i \<in> used t"
  using assms
proof (induction n arbitrary: t)
  case 0
  then show ?case by simp
next
  case (Suc n)
  let ?p = "port_select mn start rsize (unat rsize - Suc n)"
  obtain q u where g: "get ?p t = (q, u)"
    by (cases "get ?p t")
  have u: "inv u" "leq u t"
    using get_inv [OF Suc.prems(1) g] by simp_all
  from Suc.prems(2) g obtain q' where q': "q = Some q'"
    and l: "port_loop get mn start rsize n u = (None, t')"
    by (cases q) (auto simp: Let_def)
  show ?case
  proof (cases "i = unat rsize - Suc n")
    case True
    with get_Some [OF Suc.prems(1)] g q' have "port_select mn start rsize i \<in> used u"
      by simp
    then show ?thesis
      using used_mono [OF u(2)] by blast
  next
    case False
    with Suc.prems have "port_select mn start rsize i \<in> used u"
      by (intro Suc.IH [OF u(1) l]) simp_all
    then show ?thesis
      using used_mono [OF u(2)] by blast
  qed
qed

lemma port_probe_all_keep:
  assumes inv: "inv t" and eq: "port_probe_all get kill mn start rsize t = (p, t')"
    and free: "i < unat rsize" "port_select mn start rsize i \<notin> used t"
  shows "keep t t'"
proof -
  obtain r u where l: "port_loop get mn start rsize (unat rsize) t = (r, u)"
    by (cases "port_loop get mn start rsize (unat rsize) t")
  show ?thesis
  proof (cases r)
    case None
    with port_loop_None [OF inv, of mn start rsize "unat rsize" u i] l free show ?thesis
      by simp
  next
    case (Some s)
    with eq l have "t' = u"
      by (simp add: port_probe_all_def)
    with port_loop_keep [OF inv l] show ?thesis by simp
  qed
qed

text \<open>So nothing in use is lost while some port of the range is free.\<close>

lemma find_port_keep:
  assumes inv: "inv t" and eq: "find_port get kill rnd op r t = Some (p, t')"
    and j: "j < unat (port_range_size r)" "of_nat (unat (port_min r) + j) \<notin> used t"
  shows "keep t t'"
proof -
  have probe: "keep u t'"
    if u: "inv u" "leq u t" and start: "unat start < unat (port_range_size r)"
      and e: "port_probe_all get kill (port_min r) start (port_range_size r) u = (p, t')" for u start
  proof -
    obtain i where "i < unat (port_range_size r)"
        "port_select (port_min r) start (port_range_size r) i = of_nat (unat (port_min r) + j)"
      using port_select_cover [OF start j(1)] by blast
    moreover have "of_nat (unat (port_min r) + j) \<notin> used u"
      using j(2) used_mono [OF u(2)] by blast
    ultimately show ?thesis
      using port_probe_all_keep [OF u(1) e, of i] by simp
  qed
  show ?thesis
  proof (cases "port_random r")
    case True
    with eq have "port_probe_all get kill (port_min r)
        (ucast (rnd mod ucast (port_range_size r))) (port_range_size r) t = (p, t')"
      by (auto simp: find_port_def Let_def split: if_splits)
    moreover have "port_range_size r \<noteq> 0"
      using j(1) by auto
    ultimately show ?thesis
      using probe [OF inv leq_refl random_start] by blast
  next
    case False
    obtain q u where g: "get op t = (q, u)"
      by (cases "get op t")
    have u: "inv u" "leq u t" "keep t u"
      using get_inv [OF inv g] get_keep [OF inv g] by simp_all
    have z: "unat (0::u16) < unat (port_range_size r)"
      using j(1) by simp
    from eq False g consider "t' = u"
      | "port_probe_all get kill (port_min r) 0 (port_range_size r) u = (p, t')"
      | "port_probe_all get kill (port_min r) 0 (port_range_size r) t = (p, t')"
      by (auto simp: find_port_def Let_def split: if_splits option.splits)
    then show ?thesis
    proof cases
      case 2
      from keep_trans [OF u(3) probe [OF u(1,2) z 2]] show ?thesis .
    next
      case 3
      from probe [OF inv leq_refl z 3] show ?thesis .
    qed (use u in simp)
  qed
qed

end

section \<open>The two families as stores\<close>

lemma kill_opt_found:
  assumes inv: "tbl_inv K F t \<and> ext_unique t"
    and g: "fc_get_by_ext_port K live p ip t = (r, t')"
  shows "p \<notin> ext_used ip (fc_kill_opt r t')"
proof (cases r)
  case None
  with g get_by_ext_port_None [of K F t live p ip t'] inv show ?thesis
    by (auto simp: fc_kill_opt_def ext_used_def)
next
  case (Some q)
  have u: "ext_unique t'"
    using ext_unique_shrinks [of t t'] get_by_ext_port_shrinks [of t K live p ip] inv g by simp
  obtain m where m: "heap t' q = Some m" "port m = p" "addr m = ip"
    using get_by_ext_port_Some [of K F t live p ip q t'] inv g Some by auto
  show ?thesis
  proof
    assume "p \<in> ext_used ip (fc_kill_opt r t')"
    then obtain q' n where "q' \<noteq> q" "heap t' q' = Some n" "port n = p" "addr n = ip"
      by (auto simp: ext_used_def fc_kill_opt_def Some split: if_splits)
    with u m show False
      unfolding ext_unique_def by metis
  qed
qed

interpretation fc_probe: port_probe_keep
  "\<lambda>p. fc_get_by_ext_port K live p ip" fc_kill_opt
  "\<lambda>t. tbl_inv K F t \<and> ext_unique t" "\<lambda>t' t. shrinks t t'" "ext_used ip" "keeps live"
  for K :: kernel and F :: "'a family" and live ip
proof
  fix t t' :: "'a fc_table" and p q r
  assume inv: "tbl_inv K F t \<and> ext_unique t"
  show "(tbl_inv K F t' \<and> ext_unique t') \<and> shrinks t t'"
    if g: "fc_get_by_ext_port K live p ip t = (r, t')"
    using get_by_ext_port_inv [of K F t live p ip] get_by_ext_port_shrinks [of t K live p ip]
      ext_unique_shrinks [of t t'] inv g by simp
  show "p \<notin> ext_used ip t'" if "fc_get_by_ext_port K live p ip t = (None, t')"
    using get_by_ext_port_None [of K F t live p ip t'] inv that by (auto simp: ext_used_def)
  show "p \<in> ext_used ip t'" if "fc_get_by_ext_port K live p ip t = (Some q, t')"
    using get_by_ext_port_Some [of K F t live p ip q t'] inv that by (auto simp: ext_used_def)
  show "(tbl_inv K F (fc_kill_opt r t) \<and> ext_unique (fc_kill_opt r t)) \<and> shrinks t (fc_kill_opt r t)"
    using tbl_inv_kill_opt [of K F t r] shrinks_kill_opt [of t r]
      ext_unique_shrinks [of t "fc_kill_opt r t"] inv by simp
  show "p \<notin> ext_used ip (fc_kill_opt r t')" if "fc_get_by_ext_port K live p ip t = (r, t')"
    by (rule kill_opt_found [OF inv that])
  show "keeps live t t'" if "fc_get_by_ext_port K live p ip t = (r, t')"
    using keeps_get_by_ext_port [of K F t live p ip] inv that by simp
next
  fix t u v :: "'a fc_table"
  show "shrinks u v \<Longrightarrow> shrinks t u \<Longrightarrow> shrinks t v" by (rule shrinks_trans)
  show "keeps live t u \<Longrightarrow> keeps live u v \<Longrightarrow> keeps live t v" by (rule keeps_trans)
  show "shrinks t u \<Longrightarrow> ext_used ip u \<subseteq> ext_used ip t" by (rule ext_used_shrinks)
qed simp_all

end
