(* ===== verification/Fc_Nat.thy ===== *)
theory Fc_Nat
  imports Fc_Port
begin

text \<open>
  The packet and teardown paths of the full-cone library, \<^verbatim>\<open>nf_nat_fullcone.c\<close>:
  \<open>nf_nat_handle_prerouting\<close>, \<open>nf_nat_handle_postrouting\<close>, the two exported entry points,
  the dying-tuple list with its handler, and \<open>nf_nat_fullcone_destroy_mappings\<close>.  Each runs
  under the family's spinlock, so it is one atomic step on the state.  The conntrack core,
  routing and the allocator enter through the packet environment \<open>pkt_env\<close>.
\<close>

section \<open>State and environment\<close>

record fullcone =
  t4 :: "be32 fc_table"
  t6 :: "nf_inet_addr fc_table"
  dying_tuple_list :: "tuple_list list"

definition init_fullcone :: fullcone where
  "init_fullcone = \<lparr>t4 = empty_table, t6 = empty_table, dying_tuple_list = []\<rparr>"

text \<open>The parts of \<^verbatim>\<open>struct nf_conn\<close> the handlers use: the tuples of both directions, and the
  masquerade interface recorded in the NAT extension.\<close>

record nf_conn =
  tuple_orig :: nf_conntrack_tuple
  tuple_repl :: nf_conntrack_tuple
  masq_index :: "int option"

text \<open>
  What surrounds one packet: its conntrack entry and zone, whether
  \<open>nf_conntrack_find_get\<close> finds a tuple, \<open>nf_nat_setup_info\<close> at the packet's hook, the
  source addresses that routing selects (\<open>inet_select_addr\<close>; the result and output of
  \<open>dev_get_saddr\<close>, \<open>None\<close> when there are no IPv6 operations), whether the NAT extension
  could be added, the output interface, the random number drawn, and the results of the
  two \<open>kmalloc\<close> calls.
\<close>

record pkt_env =
  e_ct :: nf_conn
  e_zone :: u16
  e_live :: "nf_conntrack_tuple \<Rightarrow> bool"
  e_setup :: "nf_conn \<Rightarrow> nf_nat_range2 \<Rightarrow> nat \<Rightarrow> u32 \<times> nf_conn"
  e_newsrc :: be32
  e_v6_ops :: "(int \<times> nf_inet_addr) option"
  e_nat_ext :: bool
  e_ifindex :: int
  e_rnd :: u32
  e_kmalloc :: "ptr option"
  e_kmalloc_tuple :: bool

datatype nfproto = NFPROTO_IPV4 | NFPROTO_IPV6

definition NF_DROP :: u32 where "NF_DROP = 0"
definition NF_ACCEPT :: u32 where "NF_ACCEPT = 1"
definition NFT_CONTINUE :: u32 where "NFT_CONTINUE = - 1"
definition NF_INET_PRE_ROUTING :: nat where "NF_INET_PRE_ROUTING = 0"
definition NF_INET_POST_ROUTING :: nat where "NF_INET_POST_ROUTING = 4"
definition PF_INET :: u16 where "PF_INET = 2"
definition PF_INET6 :: u16 where "PF_INET6 = 10"
definition EHOSTUNREACH :: int where "EHOSTUNREACH = 113"

lemmas verdict_defs = NF_DROP_def NF_ACCEPT_def NFT_CONTINUE_def

definition single_flags :: u32 where
  "single_flags = NF_NAT_RANGE_MAP_IPS OR NF_NAT_RANGE_PROTO_SPECIFIED"

text \<open>The range handed to \<open>nf_nat_setup_info\<close>: flags, and one port for both ends.\<close>

definition set_single :: "u16 \<Rightarrow> nf_nat_range2 \<Rightarrow> nf_nat_range2" where
  "set_single prt r =
     r\<lparr>flags := single_flags, min_proto := cpu_to_be16 prt, max_proto := cpu_to_be16 prt\<rparr>"

definition set_addr :: "'a family \<Rightarrow> 'a \<Rightarrow> nf_nat_range2 \<Rightarrow> nf_nat_range2" where
  "set_addr F a r = r\<lparr>min_addr := fam_put F a (min_addr r), max_addr := fam_put F a (max_addr r)\<rparr>"

section \<open>Inbound packets\<close>

definition fc_prerouting ::
  "kernel \<Rightarrow> 'a family \<Rightarrow> pkt_env \<Rightarrow> nat \<Rightarrow> nf_nat_range2 \<Rightarrow> 'a fc_table
     \<Rightarrow> u32 \<times> nf_nat_range2 \<times> nf_conn \<times> 'a fc_table" where
  "fc_prerouting K F e hooknum newrange t =
     (let ct = e_ct e; origin = tuple_orig ct
      in if dst_protonum origin \<noteq> IPPROTO_UDP then (NFT_CONTINUE, newrange, ct, t)
         else
           let ip = fam_get F (dst_u3 origin);
               prt = be16_to_cpu (dst_port origin);
               (mapping, t1) = fc_get_by_ext_port K (e_live e) prt ip t
           in case Option.bind mapping (heap t1) of
                None \<Rightarrow> (NFT_CONTINUE, newrange, ct, t1)
              | Some m \<Rightarrow>
                  let newrange' = set_single (int_port m) (set_addr F (int_addr m) newrange);
                      (ret, ct') = e_setup e ct newrange' hooknum
                  in (ret, newrange', ct',
                      if ret = NF_ACCEPT
                      then fc_add_tuple (e_kmalloc_tuple e) (the mapping) (tuple_orig ct') t1
                      else t1))"

section \<open>Outbound packets\<close>

text \<open>The address part: the rule's own range, or the address routing selects (\<open>sel\<close>; none
  drops the packet), which also records the interface for masquerading.\<close>

definition fc_post_addr ::
  "'a family \<Rightarrow> pkt_env \<Rightarrow> 'a option \<Rightarrow> nf_nat_range2 \<Rightarrow> nf_nat_range2 \<Rightarrow> (nf_nat_range2 \<times> nf_conn) option" where
  "fc_post_addr F e sel r newrange =
     (if has_flag r NF_NAT_RANGE_MAP_IPS
      then Some (newrange\<lparr>min_addr := fam_put F (fam_get F (min_addr r)) (min_addr newrange),
                          max_addr := fam_put F (fam_get F (max_addr r)) (max_addr newrange)\<rparr>,
                 e_ct e)
      else case sel of
             None \<Rightarrow> None
           | Some a \<Rightarrow> Some (set_addr F a newrange,
                         if e_nat_ext e then (e_ct e)\<lparr>masq_index := Some (e_ifindex e)\<rparr> else e_ct e))"

text \<open>The mapping part, for UDP: reuse the active mapping of the internal source, else choose
  an address (\<open>lu\<close> is \<open>find_leastused_ip\<close>) and a port.  \<open>None\<close> is the division by zero of
  the port search.\<close>

definition fc_post_map ::
  "kernel \<Rightarrow> 'a family \<Rightarrow> (u16 \<Rightarrow> nf_nat_range2 \<Rightarrow> 'a \<Rightarrow> 'a \<Rightarrow> 'a) \<Rightarrow> pkt_env \<Rightarrow> nf_nat_range2
     \<Rightarrow> nf_nat_range2 \<Rightarrow> 'a fc_table \<Rightarrow> (nf_nat_range2 \<times> ptr option \<times> 'a fc_table) option" where
  "fc_post_map K F lu e r newrange t =
     (let origin = tuple_orig (e_ct e);
          ip = fam_get F (src_u3 origin);
          original_port = be16_to_cpu (src_port origin);
          lo = fam_get F (min_addr newrange);
          hi = fam_get F (max_addr newrange);
          src_mapping = (if lo \<noteq> hi then fc_get_by_int_src_inrange K F ip original_port lo hi t
                         else fc_get_by_int_src K F ip original_port lo t);
          (active, t1) = (case src_mapping of None \<Rightarrow> (False, t) | Some p \<Rightarrow> fc_check (e_live e) p t)
      in case (if active then Option.bind src_mapping (heap t1) else None) of
           Some m \<Rightarrow>
             Some (set_single (port m) (if lo \<noteq> hi then set_addr F (addr m) newrange else newrange),
                   src_mapping, t1)
         | None \<Rightarrow>
             (let newrange1 = (if lo \<noteq> hi
                               then set_addr F (lu (e_zone e) r ip (fam_get F (dst_u3 origin))) newrange
                               else newrange)
              in case find_port (\<lambda>p. fc_get_by_ext_port K (e_live e) p (fam_get F (min_addr newrange1)))
                        fc_kill_opt (e_rnd e) original_port r t1 of
                   None \<Rightarrow> None
                 | Some (want_port, t2) \<Rightarrow> Some (set_single want_port newrange1, None, t2)))"

text \<open>After a successful SNAT: remember the mapping and the connection that uses it.\<close>

definition fc_post_commit ::
  "kernel \<Rightarrow> 'a family \<Rightarrow> pkt_env \<Rightarrow> ptr option \<Rightarrow> nf_conn \<Rightarrow> 'a fc_table \<Rightarrow> 'a fc_table" where
  "fc_post_commit K F e src_mapping ct' t =
     (let origin = tuple_orig (e_ct e);
          reply = tuple_repl ct';
          (mapping, t') =
            (case src_mapping of
               Some p \<Rightarrow> (Some p, t)
             | None \<Rightarrow> fc_allocate K F (e_kmalloc e) (fam_get F (src_u3 origin))
                         (be16_to_cpu (src_port origin)) (be16_to_cpu (dst_port reply))
                         (fam_get F (dst_u3 reply)) t)
      in case mapping of
           None \<Rightarrow> t'
         | Some p \<Rightarrow> fc_add_tuple (e_kmalloc_tuple e) p (tuple_orig ct') t')"

definition fc_postrouting ::
  "kernel \<Rightarrow> 'a family \<Rightarrow> (u16 \<Rightarrow> nf_nat_range2 \<Rightarrow> 'a \<Rightarrow> 'a \<Rightarrow> 'a) \<Rightarrow> 'a option \<Rightarrow> pkt_env \<Rightarrow> nat
     \<Rightarrow> nf_nat_range2 \<Rightarrow> nf_nat_range2 \<Rightarrow> 'a fc_table
     \<Rightarrow> (u32 \<times> nf_nat_range2 \<times> nf_conn \<times> 'a fc_table) option" where
  "fc_postrouting K F lu sel e hooknum r newrange t =
     (case fc_post_addr F e sel r newrange of
        None \<Rightarrow> Some (NF_DROP, newrange, e_ct e, t)
      | Some (newrange1, ct1) \<Rightarrow>
          if dst_protonum (tuple_orig (e_ct e)) \<noteq> IPPROTO_UDP
          then (let (ret, ct2) = e_setup e ct1 newrange1 hooknum in Some (ret, newrange1, ct2, t))
          else case fc_post_map K F lu e r newrange1 t of
                 None \<Rightarrow> None
               | Some (newrange2, src_mapping, t2) \<Rightarrow>
                   let (ret, ct2) = e_setup e ct1 newrange2 hooknum
                   in Some (ret, newrange2, ct2,
                            if ret \<noteq> NF_ACCEPT then t2 else fc_post_commit K F e src_mapping ct2 t2))"

section \<open>The handlers and entry points\<close>

definition nat_ipv6_dev_get_saddr :: "pkt_env \<Rightarrow> int \<times> nf_inet_addr" where
  "nat_ipv6_dev_get_saddr e =
     (case e_v6_ops e of None \<Rightarrow> (- EHOSTUNREACH, inet_zero) | Some r \<Rightarrow> r)"

definition select_addr4 :: "pkt_env \<Rightarrow> be32 option" where
  "select_addr4 e = (if e_newsrc e = 0 then None else Some (e_newsrc e))"

definition select_addr6 :: "pkt_env \<Rightarrow> nf_inet_addr option" where
  "select_addr6 e = (let (err, saddr) = nat_ipv6_dev_get_saddr e in if err < 0 then None else Some saddr)"

definition nf_nat_handle_prerouting ::
  "kernel \<Rightarrow> nfproto \<Rightarrow> pkt_env \<Rightarrow> nat \<Rightarrow> nf_nat_range2 \<Rightarrow> fullcone
     \<Rightarrow> u32 \<times> nf_nat_range2 \<times> nf_conn \<times> fullcone" where
  "nf_nat_handle_prerouting K nfp e hooknum newrange s =
     (case nfp of
        NFPROTO_IPV4 \<Rightarrow> (let (ret, r, ct, t) = fc_prerouting K fam4 e hooknum newrange (t4 s)
                         in (ret, r, ct, s\<lparr>t4 := t\<rparr>))
      | NFPROTO_IPV6 \<Rightarrow> (let (ret, r, ct, t) = fc_prerouting K fam6 e hooknum newrange (t6 s)
                         in (ret, r, ct, s\<lparr>t6 := t\<rparr>)))"

definition nf_nat_handle_postrouting ::
  "kernel \<Rightarrow> nfproto \<Rightarrow> pkt_env \<Rightarrow> nat \<Rightarrow> nf_nat_range2 \<Rightarrow> nf_nat_range2 \<Rightarrow> fullcone
     \<Rightarrow> (u32 \<times> nf_nat_range2 \<times> nf_conn \<times> fullcone) option" where
  "nf_nat_handle_postrouting K nfp e hooknum r newrange s =
     (case nfp of
        NFPROTO_IPV4 \<Rightarrow>
          map_option (\<lambda>(ret, nr, ct, t). (ret, nr, ct, s\<lparr>t4 := t\<rparr>))
            (fc_postrouting K fam4 (find_leastused_ip K) (select_addr4 e) e hooknum r newrange (t4 s))
      | NFPROTO_IPV6 \<Rightarrow>
          map_option (\<lambda>(ret, nr, ct, t). (ret, nr, ct, s\<lparr>t6 := t\<rparr>))
            (fc_postrouting K fam6 (find_leastused_ip6 K) (select_addr6 e) e hooknum r newrange (t6 s)))"

definition init_newrange :: "nf_nat_range2 \<Rightarrow> nf_nat_range2" where
  "init_newrange r =
     \<lparr>flags = flags r OR NF_NAT_RANGE_MAP_IPS, min_addr = inet_zero, max_addr = inet_zero,
      min_proto = min_proto r, max_proto = max_proto r\<rparr>"

definition nf_nat_fullcone_hook ::
  "kernel \<Rightarrow> nfproto \<Rightarrow> pkt_env \<Rightarrow> nat \<Rightarrow> nf_nat_range2 \<Rightarrow> fullcone
     \<Rightarrow> (u32 \<times> nf_nat_range2 \<times> nf_conn \<times> fullcone) option" where
  "nf_nat_fullcone_hook K nfp e hooknum r s =
     (let newrange = init_newrange r
      in if hooknum = NF_INET_PRE_ROUTING
         then Some (nf_nat_handle_prerouting K nfp e hooknum newrange s)
         else if hooknum = NF_INET_POST_ROUTING
         then nf_nat_handle_postrouting K nfp e hooknum r newrange s
         else Some (5, newrange, e_ct e, s))"

definition nf_nat_fullcone_ipv4 where
  "nf_nat_fullcone_ipv4 K = nf_nat_fullcone_hook K NFPROTO_IPV4"

definition nf_nat_fullcone_ipv6 where
  "nf_nat_fullcone_ipv6 K = nf_nat_fullcone_hook K NFPROTO_IPV6"

section \<open>Dying connections and teardown\<close>

definition nf_nat_fullcone_dying_tuple_list_add :: "tuple_list \<Rightarrow> fullcone \<Rightarrow> fullcone" where
  "nf_nat_fullcone_dying_tuple_list_add item s = s\<lparr>dying_tuple_list := item # dying_tuple_list s\<rparr>"

text \<open>One dying connection: the mapping is looked up in both directions, outbound first.\<close>

definition fc_dying_one :: "kernel \<Rightarrow> 'a family \<Rightarrow> tuple_list \<Rightarrow> 'a fc_table \<Rightarrow> 'a fc_table" where
  "fc_dying_one K F item t =
     (let orig = tuple_original item; repl = tuple_reply item;
          outbound = fc_get_by_int_src K F (fam_get F (src_u3 orig)) (be16_to_cpu (src_port orig))
                       (fam_get F (dst_u3 repl)) t;
          mapping = (case outbound of
                       Some p \<Rightarrow> Some p
                     | None \<Rightarrow> fc_get_by_int_src K F (fam_get F (src_u3 repl))
                                 (be16_to_cpu (src_port repl)) (fam_get F (dst_u3 orig)) t)
      in case mapping of
           None \<Rightarrow> t
         | Some p \<Rightarrow> snd (fc_release (\<lambda>x. nf_ct_tuple_equal x orig) p t))"

definition dying_step :: "kernel \<Rightarrow> tuple_list \<Rightarrow> fullcone \<Rightarrow> fullcone" where
  "dying_step K item s =
     (let l3 = src_l3num (tuple_original item)
      in if l3 = PF_INET6 then s\<lparr>t6 := fc_dying_one K fam6 item (t6 s)\<rparr>
         else if l3 \<noteq> PF_INET then s
         else s\<lparr>t4 := fc_dying_one K fam4 item (t4 s)\<rparr>)"

definition nf_nat_fullcone_handle_dying_tuples :: "kernel \<Rightarrow> fullcone \<Rightarrow> fullcone" where
  "nf_nat_fullcone_handle_dying_tuples K s =
     (fold (dying_step K) (dying_tuple_list s) s)\<lparr>dying_tuple_list := []\<rparr>"

definition fc_kill_bucket :: "nat \<Rightarrow> 'a fc_table \<Rightarrow> 'a fc_table" where
  "fc_kill_bucket b t = fold fc_kill (by_ext_port t b) t"

definition fc_destroy :: "'a fc_table \<Rightarrow> 'a fc_table" where
  "fc_destroy t = fold fc_kill_bucket [0 ..< 2 ^ HASHTABLE_BUCKET_BITS] t"

definition nf_nat_fullcone_destroy_mappings :: "fullcone \<Rightarrow> fullcone" where
  "nf_nat_fullcone_destroy_mappings s = s\<lparr>t4 := fc_destroy (t4 s), t6 := fc_destroy (t6 s)\<rparr>"

end
