(* ===== verification/Fc_Nat_Props.thy ===== *)
theory Fc_Nat_Props
  imports Fc_Nat
begin

text \<open>
  What the packet paths of the full-cone library guarantee.  Inside the address-family
  locale: the table invariants across both hooks, the dying handler and teardown; reuse of
  an active mapping; and the commit of a new one.  The laws assumed of the connection
  tracker are \<open>setup_ok\<close> (a successful \<open>nf_nat_setup_info\<close> with a one-endpoint range maps to
  that endpoint) and \<open>kmalloc_ok\<close> (\<open>kmalloc\<close> never returns the address of a live object).
\<close>

section \<open>Invariants and assumed laws\<close>

definition src_unique :: "'a fc_table \<Rightarrow> bool" where
  "src_unique t \<longleftrightarrow> (\<forall>p q m n. heap t p = Some m \<longrightarrow> heap t q = Some n \<longrightarrow>
     int_addr m = int_addr n \<longrightarrow> int_port m = int_port n \<longrightarrow> addr m = addr n \<longrightarrow> p = q)"

definition nat_inv :: "kernel \<Rightarrow> 'a family \<Rightarrow> 'a fc_table \<Rightarrow> bool" where
  "nat_inv K F t \<longleftrightarrow> tbl_inv K F t \<and> ext_unique t"

lemma nat_invD: "nat_inv K F t \<Longrightarrow> tbl_inv K F t" "nat_inv K F t \<Longrightarrow> ext_unique t"
  by (simp_all add: nat_inv_def)

text \<open>\<open>nf_nat_setup_info\<close> at a source-NAT hook on a fresh connection: when it accepts a range
  of one address and one port, the reply direction is addressed to that endpoint, and the
  original direction is as it was.\<close>

definition setup_ok :: "'a family \<Rightarrow> pkt_env \<Rightarrow> bool" where
  "setup_ok F e \<longleftrightarrow> (\<forall>ct r h ct'. e_setup e ct r h = (NF_ACCEPT, ct') \<longrightarrow>
     tuple_orig ct' = tuple_orig ct \<and>
     (h = NF_INET_POST_ROUTING \<longrightarrow> flags r = single_flags \<longrightarrow>
      fam_get F (min_addr r) = fam_get F (max_addr r) \<longrightarrow> min_proto r = max_proto r \<longrightarrow>
        fam_get F (dst_u3 (tuple_repl ct')) = fam_get F (min_addr r) \<and>
        dst_port (tuple_repl ct') = min_proto r))"

lemma setup_okD:
  assumes "setup_ok F e" and "e_setup e ct r h = (NF_ACCEPT, ct')"
  shows "tuple_orig ct' = tuple_orig ct"
    and "h = NF_INET_POST_ROUTING \<Longrightarrow> flags r = single_flags \<Longrightarrow>
      fam_get F (min_addr r) = fam_get F (max_addr r) \<Longrightarrow> min_proto r = max_proto r \<Longrightarrow>
      fam_get F (dst_u3 (tuple_repl ct')) = fam_get F (min_addr r) \<and>
      dst_port (tuple_repl ct') = min_proto r"
  using assms unfolding setup_ok_def by blast+

text \<open>The allocation of the commit happens in the table the port search left.\<close>

definition kmalloc_ok ::
  "kernel \<Rightarrow> 'a family \<Rightarrow> (u16 \<Rightarrow> nf_nat_range2 \<Rightarrow> 'a \<Rightarrow> 'a \<Rightarrow> 'a) \<Rightarrow> 'a option \<Rightarrow> pkt_env
     \<Rightarrow> nf_nat_range2 \<Rightarrow> nf_nat_range2 \<Rightarrow> 'a fc_table \<Rightarrow> bool" where
  "kmalloc_ok K F lu sel e r newrange t \<longleftrightarrow>
     (\<forall>nr1 ct1 nr2 sm t2 p. fc_post_addr F e sel r newrange = Some (nr1, ct1) \<longrightarrow>
        fc_post_map K F lu e r nr1 t = Some (nr2, sm, t2) \<longrightarrow>
        e_kmalloc e = Some p \<longrightarrow> heap t2 p = None)"

text \<open>Every mapping left was there before, with its key.\<close>

definition keys_from :: "'a fc_table \<Rightarrow> 'a fc_table \<Rightarrow> bool" where
  "keys_from t t' \<longleftrightarrow> (\<forall>p m'. heap t' p = Some m' \<longrightarrow> (\<exists>m. heap t p = Some m \<and> same_key m m'))"

lemma shrinks_keys_from: "shrinks t t' \<Longrightarrow> keys_from t t'"
  unfolding shrinks_def keys_from_def by blast

lemma add_tuple_keys: "keys_from t (fc_add_tuple ok p x t)"
  by (auto simp: keys_from_def fc_add_tuple_def same_key_def split: option.splits)

lemma keys_from_refl [simp]: "keys_from t t"
  by (simp add: keys_from_def same_key_def)

lemma keys_from_trans:
  assumes "keys_from t u" and "keys_from u v"
  shows "keys_from t v"
  unfolding keys_from_def
proof (intro allI impI)
  fix p m2
  assume "heap v p = Some m2"
  then obtain m1 where 1: "heap u p = Some m1" "same_key m1 m2"
    using assms(2) unfolding keys_from_def by blast
  then obtain m where "heap t p = Some m" "same_key m m1"
    using assms(1) unfolding keys_from_def by blast
  with 1 show "\<exists>m. heap t p = Some m \<and> same_key m m2"
    by (auto simp: same_key_def)
qed

lemma src_unique_keys:
  assumes u: "src_unique t" and sh: "keys_from t t'"
  shows "src_unique t'"
  unfolding src_unique_def
proof (intro allI impI)
  fix p q m n
  assume hp: "heap t' p = Some m" and hq: "heap t' q = Some n"
    and k: "int_addr m = int_addr n" "int_port m = int_port n" "addr m = addr n"
  from sh hp obtain m0 where m0: "heap t p = Some m0" "same_key m0 m"
    unfolding keys_from_def by blast
  from sh hq obtain n0 where n0: "heap t q = Some n0" "same_key n0 n"
    unfolding keys_from_def by blast
  have "int_addr m0 = int_addr n0" "int_port m0 = int_port n0" "addr m0 = addr n0"
    using k same_keyD [OF m0(2)] same_keyD [OF n0(2)] by simp_all
  then show "p = q"
    using u m0(1) n0(1) unfolding src_unique_def by blast
qed

lemma ext_unique_keys:
  assumes u: "ext_unique t" and sh: "keys_from t t'"
  shows "ext_unique t'"
  unfolding ext_unique_def
proof (intro allI impI)
  fix p q m n
  assume hp: "heap t' p = Some m" and hq: "heap t' q = Some n"
    and k: "port m = port n" "addr m = addr n"
  from sh hp obtain m0 where m0: "heap t p = Some m0" "same_key m0 m"
    unfolding keys_from_def by blast
  from sh hq obtain n0 where n0: "heap t q = Some n0" "same_key n0 n"
    unfolding keys_from_def by blast
  have "port m0 = port n0" "addr m0 = addr n0"
    using k same_keyD [OF m0(2)] same_keyD [OF n0(2)] by simp_all
  then show "p = q"
    using u m0(1) n0(1) unfolding ext_unique_def by blast
qed

lemmas src_unique_shrinks = src_unique_keys [OF _ shrinks_keys_from]

lemma nat_inv_shrinks:
  assumes "nat_inv K F t" and "shrinks t t'" and "tbl_inv K F t'"
  shows "nat_inv K F t'"
  using assms ext_unique_shrinks [of t t'] by (simp add: nat_inv_def)

lemma nat_inv_add_tuple: "nat_inv K F t \<Longrightarrow> nat_inv K F (fc_add_tuple ok p x t)"
  unfolding nat_inv_def
  using tbl_inv_add_tuple [of K F t] ext_unique_keys [OF _ add_tuple_keys, of t] by blast

lemmas src_unique_add_tuple = src_unique_keys [OF _ add_tuple_keys]

lemma nat_inv_empty: "nat_inv K F empty_table" "src_unique empty_table"
  by (simp_all add: nat_inv_def tbl_inv_empty ext_unique_def src_unique_def)
    (simp_all add: empty_table_def)

section \<open>Inbound\<close>

lemma prerouting_non_udp:
  "dst_protonum (tuple_orig (e_ct e)) \<noteq> IPPROTO_UDP \<Longrightarrow>
     fc_prerouting K F e h nr t = (NFT_CONTINUE, nr, e_ct e, t)"
  by (simp add: fc_prerouting_def Let_def)

lemma get_ext_facts:
  assumes "nat_inv K F t" and "fc_get_by_ext_port K live prt ip t = (q, t')"
  shows "nat_inv K F t'" and "shrinks t t'" and "keeps live t t'"
  using fc_probe.get_inv [of K F t live prt ip q t'] fc_probe.get_keep [of K F t live prt ip q t'] assms
  unfolding nat_inv_def by blast+

lemma prerouting_cases:
  fixes F :: "'a family"
  assumes udp: "dst_protonum (tuple_orig (e_ct e)) = IPPROTO_UDP"
    and inv: "nat_inv K F t"
    and g: "fc_get_by_ext_port K (e_live e) (be16_to_cpu (dst_port (tuple_orig (e_ct e))))
              (fam_get F (dst_u3 (tuple_orig (e_ct e)))) t = (q, t1)"
  obtains (miss) "q = None" and "fc_prerouting K F e h nr t = (NFT_CONTINUE, nr, e_ct e, t1)"
  | (hit) p m ret ct' where "q = Some p" and "heap t1 p = Some m"
      and "port m = be16_to_cpu (dst_port (tuple_orig (e_ct e)))"
      and "addr m = fam_get F (dst_u3 (tuple_orig (e_ct e)))"
      and "original_tuple_list m \<noteq> []" and "\<forall>x\<in>set (original_tuple_list m). e_live e x"
      and "e_setup e (e_ct e) (set_single (int_port m) (set_addr F (int_addr m) nr)) h = (ret, ct')"
      and "fc_prerouting K F e h nr t =
        (ret, set_single (int_port m) (set_addr F (int_addr m) nr), ct',
         if ret = NF_ACCEPT then fc_add_tuple (e_kmalloc_tuple e) p (tuple_orig ct') t1 else t1)"
proof (cases q)
  case None
  with udp g show ?thesis
    by (intro miss) (simp_all add: fc_prerouting_def Let_def)
next
  case (Some p)
  obtain m where m: "heap t1 p = Some m"
      "port m = be16_to_cpu (dst_port (tuple_orig (e_ct e)))"
      "addr m = fam_get F (dst_u3 (tuple_orig (e_ct e)))"
      "original_tuple_list m \<noteq> []" "\<forall>x\<in>set (original_tuple_list m). e_live e x"
    using get_by_ext_port_Some [OF nat_invD(1) [OF inv] g [unfolded Some]] by blast
  obtain ret ct' where s:
      "e_setup e (e_ct e) (set_single (int_port m) (set_addr F (int_addr m) nr)) h = (ret, ct')"
    by (rule prod.exhaust)
  show ?thesis
    by (rule hit [OF Some m s])
      (simp add: fc_prerouting_def Let_def udp g Some m(1) s)
qed

lemma prerouting_inv:
  assumes inv: "nat_inv K F t" and eq: "fc_prerouting K F e h nr t = (ret, nr', ct', t')"
  shows "nat_inv K F t' \<and> keys_from t t'"
proof (cases "dst_protonum (tuple_orig (e_ct e)) = IPPROTO_UDP")
  case False
  with eq inv show ?thesis
    by (simp add: prerouting_non_udp shrinks_keys_from)
next
  case True
  obtain q t1 where g: "fc_get_by_ext_port K (e_live e) (be16_to_cpu (dst_port (tuple_orig (e_ct e))))
      (fam_get F (dst_u3 (tuple_orig (e_ct e)))) t = (q, t1)"
    by (rule prod.exhaust)
  note f = get_ext_facts [OF inv g]
  from True inv g show ?thesis
  proof (cases rule: prerouting_cases [where h = h and nr = nr])
    case miss
    with eq f show ?thesis by (simp add: shrinks_keys_from)
  next
    case (hit p m r ct2)
    have "keys_from t (fc_add_tuple ok p x t1)" for ok x
      by (rule keys_from_trans [OF shrinks_keys_from [OF f(2)] add_tuple_keys])
    with hit eq f show ?thesis
      by (auto simp: shrinks_keys_from nat_inv_add_tuple split: if_splits)
  qed
qed

text \<open>The mapping with a live reference at the packet's destination is the one that is used.\<close>

lemma prerouting_hit:
  assumes inv: "nat_inv K F t" and p: "heap t p = Some m"
    and live: "\<exists>x\<in>set (original_tuple_list m). e_live e x"
    and udp: "dst_protonum (tuple_orig (e_ct e)) = IPPROTO_UDP"
    and dst: "be16_to_cpu (dst_port (tuple_orig (e_ct e))) = port m"
      "fam_get F (dst_u3 (tuple_orig (e_ct e))) = addr m"
    and eq: "fc_prerouting K F e h nr t = (ret, nr', ct', t')"
  shows "nr' = set_single (int_port m) (set_addr F (int_addr m) nr) \<and>
         (ret, ct') = e_setup e (e_ct e) nr' h"
proof -
  obtain q t1 where g: "fc_get_by_ext_port K (e_live e) (be16_to_cpu (dst_port (tuple_orig (e_ct e))))
      (fam_get F (dst_u3 (tuple_orig (e_ct e)))) t = (q, t1)"
    by (rule prod.exhaust)
  note f = get_ext_facts [OF inv g]
  have "filter (e_live e) (original_tuple_list m) \<noteq> []"
    using live by (simp add: filter_empty_conv)
  with f(3) p obtain m' where m': "heap t1 p = Some m'" "same_key m m'"
    unfolding keeps_def by blast
  from udp inv g show ?thesis
  proof (cases rule: prerouting_cases [where h = h and nr = nr])
    case miss
    with get_by_ext_port_None [OF nat_invD(1) [OF inv] g [unfolded miss(1)] m'(1)] dst
      same_keyD [OF m'(2)] show ?thesis by simp
  next
    case (hit p2 m2 r ct2)
    have "port m2 = port m'" "addr m2 = addr m'"
      using hit(3,4) dst same_keyD [OF m'(2)] by simp_all
    then have "p2 = p"
      using nat_invD(2) [OF f(1)] hit(2) m'(1) unfolding ext_unique_def by blast
    with hit(2) m' have "int_port m2 = int_port m" "int_addr m2 = int_addr m"
      using same_keyD [OF m'(2)] by auto
    with hit(7,8) eq show ?thesis by simp
  qed
qed

section \<open>Outbound\<close>

lemma set_single_simps [simp]:
  "min_addr (set_single p r) = min_addr r" "max_addr (set_single p r) = max_addr r"
  "flags (set_single p r) = single_flags" "min_proto (set_single p r) = cpu_to_be16 p"
  "max_proto (set_single p r) = cpu_to_be16 p"
  by (simp_all add: set_single_def)

lemma set_addr_simps [simp]:
  "min_addr (set_addr F a r) = fam_put F a (min_addr r)"
  "max_addr (set_addr F a r) = fam_put F a (max_addr r)"
  by (simp_all add: set_addr_def)

text \<open>The lookup by internal source, in either form.\<close>

definition src_lookup ::
  "kernel \<Rightarrow> 'a family \<Rightarrow> nf_conntrack_tuple \<Rightarrow> 'a \<Rightarrow> 'a \<Rightarrow> 'a fc_table \<Rightarrow> ptr option" where
  "src_lookup K F origin lo hi t =
     (if lo \<noteq> hi
      then fc_get_by_int_src_inrange K F (fam_get F (src_u3 origin)) (be16_to_cpu (src_port origin)) lo hi t
      else fc_get_by_int_src K F (fam_get F (src_u3 origin)) (be16_to_cpu (src_port origin)) lo t)"

definition is_source :: "'a family \<Rightarrow> nf_conntrack_tuple \<Rightarrow> 'a nat_mapping \<Rightarrow> bool" where
  "is_source F origin m \<longleftrightarrow>
     int_addr m = fam_get F (src_u3 origin) \<and> int_port m = be16_to_cpu (src_port origin)"

lemma src_lookup_Some:
  "src_lookup K F origin lo hi t = Some p \<Longrightarrow>
     \<exists>m. heap t p = Some m \<and> is_source F origin m \<and> (lo = hi \<longrightarrow> addr m = lo)"
  unfolding src_lookup_def is_source_def
  using get_by_int_src_inrange_Some [of K F _ _ lo hi t p] get_by_int_src_Some [of K F _ _ lo t p]
  by (fastforce split: if_splits)

lemma src_lookup_None:
  "tbl_inv K F t \<Longrightarrow> src_lookup K F origin lo lo t = None \<Longrightarrow> heap t p = Some m \<Longrightarrow>
     \<not> (is_source F origin m \<and> addr m = lo)"
  unfolding src_lookup_def is_source_def
  using get_by_int_src_None [of K F t _ _ lo p m] by auto

lemma check_cases:
  assumes inv: "nat_inv K F t" and p: "heap t p = Some m"
  obtains (active) m' where "fc_check live p t = (True, t\<lparr>heap := (heap t)(p \<mapsto> m')\<rparr>)"
      and "m' = fc_prune (\<lambda>x. \<not> live x) m" and "same_key m m'"
      and "\<exists>x\<in>set (original_tuple_list m). live x"
  | (dead) t' where "fc_check live p t = (False, t')" and "heap t' = (heap t)(p := None)"
      and "\<forall>x\<in>set (original_tuple_list m). \<not> live x"
  using fc_release_Some [OF nat_invD(1) [OF inv] p, of "\<lambda>x. \<not> live x"]
  by (cases "filter live (original_tuple_list m) = []")
    (auto simp: fc_check_def filter_empty_conv)

lemma check_nat:
  assumes "nat_inv K F t" and "fc_check live p t = (ok, t')"
  shows "nat_inv K F t'" and "shrinks t t'"
  using nat_inv_shrinks [OF assms(1), of t'] check_facts(1) [of K F t live p] check_facts(2) [of t live p]
    nat_invD(1) [OF assms(1)] assms(2) by simp_all

lemma find_port_facts:
  assumes "nat_inv K F t"
    and "find_port (\<lambda>p. fc_get_by_ext_port K live p ip) fc_kill_opt rnd op r t = Some (prt, t')"
  shows "nat_inv K F t'" and "shrinks t t'" and "prt \<notin> ext_used ip t'"
  using fc_probe.find_port_free [of K F t live ip rnd op r prt t'] assms unfolding nat_inv_def by blast+

context addr_family
begin

lemma post_map_unfold:
  "fc_post_map K F lu e r nr t =
    (let origin = tuple_orig (e_ct e); lo = fam_get F (min_addr nr); hi = fam_get F (max_addr nr);
         src_mapping = src_lookup K F origin lo hi t;
         (active, t1) = (case src_mapping of None \<Rightarrow> (False, t) | Some p \<Rightarrow> fc_check (e_live e) p t)
     in case (if active then Option.bind src_mapping (heap t1) else None) of
          Some m \<Rightarrow> Some (set_single (port m) (if lo \<noteq> hi then set_addr F (addr m) nr else nr), src_mapping, t1)
        | None \<Rightarrow>
            let nr1 = (if lo \<noteq> hi
                       then set_addr F (lu (e_zone e) r (fam_get F (src_u3 origin)) (fam_get F (dst_u3 origin))) nr
                       else nr)
            in case find_port (\<lambda>p. fc_get_by_ext_port K (e_live e) p (fam_get F (min_addr nr1)))
                      fc_kill_opt (e_rnd e) (be16_to_cpu (src_port origin)) r t1 of
                 None \<Rightarrow> None
               | Some (want_port, t2) \<Rightarrow> Some (set_single want_port nr1, None, t2))"
  by (simp add: fc_post_map_def src_lookup_def Let_def)

lemma post_map_cases:
  assumes inv: "nat_inv K F t" and eq: "fc_post_map K F lu e r nr t = Some (nr2, sm, t2)"
  obtains (reuse) p m where "sm = Some p" and "heap t2 p = Some m"
      and "src_lookup K F (tuple_orig (e_ct e)) (fam_get F (min_addr nr)) (fam_get F (max_addr nr)) t = Some p"
      and "is_source F (tuple_orig (e_ct e)) m"
      and "min_proto nr2 = cpu_to_be16 (port m)" and "fam_get F (min_addr nr2) = addr m"
      and "\<exists>x\<in>set (original_tuple_list m). e_live e x"
  | (fresh) prt where "sm = None"
      and "min_proto nr2 = cpu_to_be16 prt" and "prt \<notin> ext_used (fam_get F (min_addr nr2)) t2"
      and "fam_get F (min_addr nr) = fam_get F (max_addr nr) \<Longrightarrow>
           fam_get F (min_addr nr2) = fam_get F (min_addr nr)"
proof -
  let ?o = "tuple_orig (e_ct e)"
  let ?lo = "fam_get F (min_addr nr)" let ?hi = "fam_get F (max_addr nr)"
  let ?nr1 = "if ?lo \<noteq> ?hi
      then set_addr F (lu (e_zone e) r (fam_get F (src_u3 ?o)) (fam_get F (dst_u3 ?o))) nr else nr"
  let ?find = "find_port (\<lambda>p. fc_get_by_ext_port K (e_live e) p (fam_get F (min_addr ?nr1)))
      fc_kill_opt (e_rnd e) (be16_to_cpu (src_port ?o)) r"
  have new: thesis if inv': "nat_inv K F t1" and sm: "sm = None"
    and f: "?find t1 = Some (prt, t2)" and n: "nr2 = set_single prt ?nr1" for t1 prt
    using find_port_facts(3) [OF inv' f] n by (intro fresh [OF sm, of prt]) auto
  show ?thesis
  proof (cases "src_lookup K F ?o ?lo ?hi t")
    case None
    with eq obtain prt where "?find t = Some (prt, t2)" "nr2 = set_single prt ?nr1" "sm = None"
      by (auto simp: post_map_unfold Let_def split: option.splits)
    then show ?thesis
      using new [OF inv] by blast
  next
    case (Some p)
    obtain m where m: "heap t p = Some m" "is_source F ?o m" "?lo = ?hi \<longrightarrow> addr m = ?lo"
      using src_lookup_Some [OF Some] by blast
    from inv m(1) show ?thesis
    proof (cases rule: check_cases [where live = "e_live e"])
      case (active m')
      have k: "port m' = port m" "addr m' = addr m" "is_source F ?o m'"
        using same_keyD [OF active(3)] m(2) by (simp_all add: is_source_def)
      show ?thesis
      proof (rule reuse [of p m'])
        show "sm = Some p" "heap t2 p = Some m'" "min_proto nr2 = cpu_to_be16 (port m')"
          "fam_get F (min_addr nr2) = addr m'"
          using eq Some active(1) k m(3) by (auto simp: post_map_unfold Let_def)
        show "\<exists>x\<in>set (original_tuple_list m'). e_live e x"
          using active(2,4) by auto
      qed (use k Some in simp_all)
    next
      case (dead t1)
      with eq Some obtain prt where "?find t1 = Some (prt, t2)" "nr2 = set_single prt ?nr1" "sm = None"
        by (auto simp: post_map_unfold Let_def split: option.splits)
      then show ?thesis
        using new [OF check_nat(1) [OF inv dead(1)]] by blast
    qed
  qed
qed

lemma post_map_facts:
  assumes inv: "nat_inv K F t" and eq: "fc_post_map K F lu e r nr t = Some (nr2, sm, t2)"
  shows "nat_inv K F t2 \<and> shrinks t t2" and "flags nr2 = single_flags"
    and "max_proto nr2 = min_proto nr2" and "fam_get F (max_addr nr2) = fam_get F (min_addr nr2)"
proof -
  let ?o = "tuple_orig (e_ct e)"
  let ?lo = "fam_get F (min_addr nr)" let ?hi = "fam_get F (max_addr nr)"
  let ?q = "src_lookup K F ?o ?lo ?hi t"
  let ?nr1 = "if ?lo \<noteq> ?hi
      then set_addr F (lu (e_zone e) r (fam_get F (src_u3 ?o)) (fam_get F (dst_u3 ?o))) nr else nr"
  obtain act t1 where c: "(case ?q of None \<Rightarrow> (False, t) | Some p \<Rightarrow> fc_check (e_live e) p t) = (act, t1)"
    by (rule prod.exhaust)
  have t1: "nat_inv K F t1" "shrinks t t1"
    using c inv check_nat [OF inv] by (cases ?q; auto)+
  let ?find = "find_port (\<lambda>p. fc_get_by_ext_port K (e_live e) p (fam_get F (min_addr ?nr1)))
      fc_kill_opt (e_rnd e) (be16_to_cpu (src_port ?o)) r t1"
  have "(nat_inv K F t2 \<and> shrinks t t2) \<and> flags nr2 = single_flags \<and>
      max_proto nr2 = min_proto nr2 \<and> fam_get F (max_addr nr2) = fam_get F (min_addr nr2)"
  proof (cases "if act then Option.bind ?q (heap t1) else None")
    case (Some m)
    with eq c have "t2 = t1"
      and "nr2 = set_single (port m) (if ?lo \<noteq> ?hi then set_addr F (addr m) nr else nr)"
      by (simp_all add: post_map_unfold Let_def)
    with t1 show ?thesis by simp
  next
    case None
    with eq c obtain prt where f: "?find = Some (prt, t2)" and n: "nr2 = set_single prt ?nr1"
      by (simp add: post_map_unfold Let_def split: option.splits prod.splits)
    have "nat_inv K F t2" "shrinks t t2"
      using find_port_facts(1,2) [OF t1(1) f] t1(2) shrinks_trans by blast+
    with n show ?thesis by simp
  qed
  then show "nat_inv K F t2 \<and> shrinks t t2" "flags nr2 = single_flags"
    "max_proto nr2 = min_proto nr2" "fam_get F (max_addr nr2) = fam_get F (min_addr nr2)"
    by simp_all
qed

text \<open>With one candidate address, a new endpoint is chosen only when the source has no
  mapping left at that address.\<close>

lemma post_map_src_fresh:
  assumes inv: "nat_inv K F t" and u: "src_unique t"
    and eq: "fc_post_map K F lu e r nr t = Some (nr2, None, t2)"
    and one: "fam_get F (min_addr nr) = fam_get F (max_addr nr)"
    and q: "heap t2 q = Some n" "is_source F (tuple_orig (e_ct e)) n"
  shows "addr n \<noteq> fam_get F (min_addr nr)"
proof
  let ?o = "tuple_orig (e_ct e)" and ?lo = "fam_get F (min_addr nr)"
  assume a: "addr n = ?lo"
  have "shrinks t t2"
    using post_map_facts(1) [OF inv eq] by simp
  then obtain n0 where n0: "heap t q = Some n0" "same_key n0 n"
    using q(1) unfolding shrinks_def by blast
  then have k: "is_source F ?o n0" "addr n0 = ?lo"
    using q(2) a same_keyD [OF n0(2)] by (simp_all add: is_source_def)
  show False
  proof (cases "src_lookup K F ?o ?lo ?lo t")
    case None
    with src_lookup_None [OF nat_invD(1) [OF inv] None n0(1)] k show False by simp
  next
    case (Some p)
    obtain m where m: "heap t p = Some m" "is_source F ?o m" "addr m = ?lo"
      using src_lookup_Some [OF Some] by blast
    then have "int_addr m = int_addr n0" "int_port m = int_port n0" "addr m = addr n0"
      using k by (simp_all add: is_source_def)
    then have "q = p"
      using u m(1) n0(1) unfolding src_unique_def by blast
    from inv m(1) show False
    proof (cases rule: check_cases [where live = "e_live e"])
      case (active m')
      with eq Some one show False
        by (auto simp: post_map_unfold Let_def split: option.splits)
    next
      case (dead t1)
      with eq Some one obtain prt where "find_port (\<lambda>p. fc_get_by_ext_port K (e_live e) p ?lo)
          fc_kill_opt (e_rnd e) (be16_to_cpu (src_port ?o)) r t1 = Some (prt, t2)"
        by (auto simp: post_map_unfold Let_def split: option.splits)
      with find_port_facts(2) [OF check_nat(1) [OF inv dead(1)]] have "shrinks t1 t2"
        by blast
      moreover have "heap t1 q = None"
        using dead(2) \<open>q = p\<close> by simp
      ultimately show False
        using shrinks_dom q(1) by fastforce
    qed
  qed
qed

end

section \<open>Commit of a source mapping\<close>

definition committed ::
  "'a family \<Rightarrow> pkt_env \<Rightarrow> nf_conn \<Rightarrow> 'a nat_mapping" where
  "committed F e ct' =
     new_mapping (fam_get F (src_u3 (tuple_orig (e_ct e)))) (be16_to_cpu (src_port (tuple_orig (e_ct e))))
       (be16_to_cpu (dst_port (tuple_repl ct'))) (fam_get F (dst_u3 (tuple_repl ct')))"

lemma commit_reuse:
  "fc_post_commit K F e (Some p) ct' t = fc_add_tuple (e_kmalloc_tuple e) p (tuple_orig ct') t"
  by (simp add: fc_post_commit_def Let_def)

lemma commit_nomem: "e_kmalloc e = None \<Longrightarrow> fc_post_commit K F e None ct' t = t"
  by (simp add: fc_post_commit_def fc_allocate_def Let_def)

lemma commit_new:
  "e_kmalloc e = Some p \<Longrightarrow> fc_post_commit K F e None ct' t =
     fc_add_tuple (e_kmalloc_tuple e) p (tuple_orig ct')
       (t\<lparr>heap := (heap t)(p \<mapsto> committed F e ct'),
         by_ext_port := hash_add K (by_ext_port t) p (ucast (port (committed F e ct'))),
         by_int_src := hash_add K (by_int_src t) p
           (hash_src K F (int_addr (committed F e ct')) (int_port (committed F e ct')))\<rparr>)"
  by (simp add: fc_post_commit_def fc_allocate_def committed_def new_mapping_def Let_def)

lemma ext_unique_insert:
  assumes h: "heap t' = (heap t)(p \<mapsto> m)"
    and u: "ext_unique t" and free: "port m \<notin> ext_used (addr m) t"
  shows "ext_unique t'"
  unfolding ext_unique_def
proof (intro allI impI)
  fix x y a b
  assume k: "heap t' x = Some a" "heap t' y = Some b" "port a = port b" "addr a = addr b"
  have free': "heap t z = Some c \<Longrightarrow> port c = port m \<Longrightarrow> addr c \<noteq> addr m" for z c
    using free unfolding ext_used_def by blast
  show "x = y"
  proof (cases "x = p"; cases "y = p")
    assume "x \<noteq> p" "y \<noteq> p"
    with k h u show ?thesis unfolding ext_unique_def by simp
  qed (use k h free' [of x a] free' [of y b] in simp_all)
qed

lemma src_unique_insert:
  assumes h: "heap t' = (heap t)(p \<mapsto> m)" and u: "src_unique t"
    and free: "\<And>z c. heap t z = Some c \<Longrightarrow> int_addr c = int_addr m \<Longrightarrow> int_port c = int_port m \<Longrightarrow>
       addr c \<noteq> addr m"
  shows "src_unique t'"
  unfolding src_unique_def
proof (intro allI impI)
  fix x y a b
  assume k: "heap t' x = Some a" "heap t' y = Some b" "int_addr a = int_addr b"
    "int_port a = int_port b" "addr a = addr b"
  show "x = y"
  proof (cases "x = p"; cases "y = p")
    assume "x \<noteq> p" "y \<noteq> p"
    with k h u show ?thesis unfolding src_unique_def by simp
  qed (use k h free [of x a] free [of y b] in simp_all)
qed

lemma commit_inv:
  assumes inv: "nat_inv K F t"
    and mem: "\<And>p. e_kmalloc e = Some p \<Longrightarrow> heap t p = None"
    and free: "sm = None \<Longrightarrow> be16_to_cpu (dst_port (tuple_repl ct')) \<notin>
                 ext_used (fam_get F (dst_u3 (tuple_repl ct'))) t"
  shows "nat_inv K F (fc_post_commit K F e sm ct' t)"
proof (cases sm)
  case (Some p)
  with inv show ?thesis by (simp add: commit_reuse nat_inv_add_tuple)
next
  case None
  show ?thesis
  proof (cases "e_kmalloc e")
    case None
    with inv \<open>sm = None\<close> show ?thesis by (simp add: commit_nomem)
  next
    case (Some p)
    let ?m = "committed F e ct'"
    let ?t = "t\<lparr>heap := (heap t)(p \<mapsto> ?m),
         by_ext_port := hash_add K (by_ext_port t) p (ucast (port ?m)),
         by_int_src := hash_add K (by_int_src t) p (hash_src K F (int_addr ?m) (int_port ?m))\<rparr>"
    have "tbl_inv K F ?t"
      by (rule tbl_inv_insert [OF nat_invD(1) [OF inv] mem [OF Some]])
        (simp add: committed_def new_mapping_def)
    moreover have "ext_unique ?t"
      by (rule ext_unique_insert [OF _ nat_invD(2) [OF inv], of _ p ?m])
        (use free [OF None] in \<open>simp_all add: committed_def new_mapping_def\<close>)
    ultimately have "nat_inv K F ?t"
      unfolding nat_inv_def by blast
    with None Some show ?thesis
      by (simp add: commit_new nat_inv_add_tuple)
  qed
qed

lemma commit_src_unique:
  assumes u: "src_unique t"
    and free: "\<And>q n. sm = None \<Longrightarrow> heap t q = Some n \<Longrightarrow> is_source F (tuple_orig (e_ct e)) n \<Longrightarrow>
       addr n \<noteq> fam_get F (dst_u3 (tuple_repl ct'))"
  shows "src_unique (fc_post_commit K F e sm ct' t)"
proof (cases "sm = None \<and> e_kmalloc e \<noteq> None")
  case False
  then have "keys_from t (fc_post_commit K F e sm ct' t)"
    by (cases sm) (auto simp: commit_reuse commit_nomem add_tuple_keys)
  with u show ?thesis by (rule src_unique_keys)
next
  case True
  then obtain p where p: "e_kmalloc e = Some p" by blast
  let ?m = "committed F e ct'"
  let ?t = "t\<lparr>heap := (heap t)(p \<mapsto> ?m),
       by_ext_port := hash_add K (by_ext_port t) p (ucast (port ?m)),
       by_int_src := hash_add K (by_int_src t) p (hash_src K F (int_addr ?m) (int_port ?m))\<rparr>"
  have "src_unique ?t"
    by (rule src_unique_insert [OF _ u, of _ p ?m])
      (use free True in \<open>simp_all add: committed_def new_mapping_def is_source_def\<close>)
  with True p show ?thesis
    by (simp add: commit_new src_unique_add_tuple)
qed

section \<open>The outbound path as a whole\<close>

lemma postrouting_cases:
  assumes eq: "fc_postrouting K F lu sel e h r nr t = Some (ret, nr', ct', t')"
  obtains (drop) "fc_post_addr F e sel r nr = None" and "ret = NF_DROP" and "ct' = e_ct e" and "t' = t"
  | (non_udp) ct1 where "fc_post_addr F e sel r nr = Some (nr', ct1)"
      and "dst_protonum (tuple_orig (e_ct e)) \<noteq> IPPROTO_UDP"
      and "e_setup e ct1 nr' h = (ret, ct')" and "t' = t"
  | (failed) nr1 ct1 sm where "fc_post_addr F e sel r nr = Some (nr1, ct1)"
      and "dst_protonum (tuple_orig (e_ct e)) = IPPROTO_UDP"
      and "fc_post_map K F lu e r nr1 t = Some (nr', sm, t')"
      and "e_setup e ct1 nr' h = (ret, ct')" and "ret \<noteq> NF_ACCEPT"
  | (mapped) nr1 ct1 sm t2 where "fc_post_addr F e sel r nr = Some (nr1, ct1)"
      and "dst_protonum (tuple_orig (e_ct e)) = IPPROTO_UDP"
      and "fc_post_map K F lu e r nr1 t = Some (nr', sm, t2)"
      and "e_setup e ct1 nr' h = (NF_ACCEPT, ct')" and "ret = NF_ACCEPT"
      and "t' = fc_post_commit K F e sm ct' t2"
proof (cases "fc_post_addr F e sel r nr")
  case None
  with eq show ?thesis by (intro drop) (simp_all add: fc_postrouting_def)
next
  case (Some a)
  obtain nr1 ct1 where a: "a = (nr1, ct1)" by (rule prod.exhaust)
  show ?thesis
  proof (cases "dst_protonum (tuple_orig (e_ct e)) = IPPROTO_UDP")
    case False
    with eq Some a show ?thesis
      by (intro non_udp [of ct1]) (simp_all add: fc_postrouting_def split: prod.splits)
  next
    case True
    show ?thesis
    proof (cases "fc_post_map K F lu e r nr1 t")
      case None
      with eq Some a True show ?thesis by (simp add: fc_postrouting_def)
    next
      case (Some b)
      obtain nr2 sm t2 where b: "b = (nr2, sm, t2)" by (rule prod_cases3)
      obtain rt ct2 where s: "e_setup e ct1 nr2 h = (rt, ct2)" by (rule prod.exhaust)
      note f = \<open>fc_post_addr F e sel r nr = Some a\<close> [unfolded a] Some [unfolded b]
      from eq f True s have r: "ret = rt" "nr' = nr2" "ct' = ct2"
          "t' = (if rt \<noteq> NF_ACCEPT then t2 else fc_post_commit K F e sm ct2 t2)"
        by (auto simp: fc_postrouting_def)
      show ?thesis
      proof (cases "rt = NF_ACCEPT")
        case True
        with r f s \<open>dst_protonum _ = _\<close> show ?thesis by (intro mapped) simp_all
      next
        case False
        with r f s \<open>dst_protonum _ = _\<close> show ?thesis by (intro failed) simp_all
      qed
    qed
  qed
qed

lemma post_addr_tuple: "fc_post_addr F e sel r nr = Some (nr1, ct1) \<Longrightarrow> tuple_orig ct1 = tuple_orig (e_ct e)"
  by (auto simp: fc_post_addr_def split: if_splits option.splits)

text \<open>The address all packets of a rule leave with, when there is just one.\<close>

definition one_addr :: "'a family \<Rightarrow> 'a option \<Rightarrow> nf_nat_range2 \<Rightarrow> 'a option" where
  "one_addr F sel r =
     (if has_flag r NF_NAT_RANGE_MAP_IPS
      then if fam_get F (min_addr r) = fam_get F (max_addr r) then Some (fam_get F (min_addr r)) else None
      else sel)"

text \<open>The connection is recorded at a mapping from its source to the endpoint of its reply.\<close>

definition tracked :: "'a family \<Rightarrow> nf_conntrack_tuple \<Rightarrow> nf_conn \<Rightarrow> 'a fc_table \<Rightarrow> bool" where
  "tracked F origin ct t \<longleftrightarrow> (\<exists>p m. heap t p = Some m \<and> is_source F origin m \<and>
     port m = be16_to_cpu (dst_port (tuple_repl ct)) \<and> addr m = fam_get F (dst_u3 (tuple_repl ct)) \<and>
     origin \<in> set (original_tuple_list m))"

context addr_family
begin

lemma post_addr_one:
  "fc_post_addr F e sel r nr = Some (nr1, ct1) \<Longrightarrow> one_addr F sel r = Some a \<Longrightarrow>
     fam_get F (min_addr nr1) = a \<and> fam_get F (max_addr nr1) = a"
  by (auto simp: fc_post_addr_def one_addr_def split: if_splits)

lemma post_addr_exists:
  "one_addr F sel r = Some a \<Longrightarrow> \<exists>nr1 ct1. fc_post_addr F e sel r nr = Some (nr1, ct1)"
  by (auto simp: fc_post_addr_def one_addr_def split: if_splits)

text \<open>What \<open>setup_ok\<close> gives for the range the outbound path builds.\<close>

lemma mapped_reply:
  assumes inv: "nat_inv K F t" and m: "fc_post_map K F lu e r nr1 t = Some (nr', sm, t2)"
    and ok: "setup_ok F e" and s: "e_setup e ct1 nr' NF_INET_POST_ROUTING = (NF_ACCEPT, ct')"
  shows "fam_get F (dst_u3 (tuple_repl ct')) = fam_get F (min_addr nr')"
    and "dst_port (tuple_repl ct') = min_proto nr'" and "tuple_orig ct' = tuple_orig ct1"
  using setup_okD [OF ok s] post_map_facts(2,3,4) [OF inv m] by simp_all

lemma postrouting_inv:
  assumes inv: "nat_inv K F t" and ok: "setup_ok F e" and mem: "kmalloc_ok K F lu sel e r nr t"
    and eq: "fc_postrouting K F lu sel e NF_INET_POST_ROUTING r nr t = Some (ret, nr', ct', t')"
  shows "nat_inv K F t'"
  using eq
proof (cases rule: postrouting_cases)
  case (failed nr1 ct1 sm)
  with post_map_facts(1) [OF inv failed(3)] show ?thesis by simp
next
  case (mapped nr1 ct1 sm t2)
  note m = post_map_facts(1) [OF inv mapped(3)] mapped_reply [OF inv mapped(3) ok mapped(4)]
  have free: "be16_to_cpu (dst_port (tuple_repl ct')) \<notin> ext_used (fam_get F (dst_u3 (tuple_repl ct'))) t2"
    if "sm = None"
    using inv mapped(3)
  proof (cases rule: post_map_cases)
    case (fresh prt)
    with m show ?thesis by simp
  qed (use that in simp)
  have "heap t2 p = None" if "e_kmalloc e = Some p" for p
    using mem mapped(1,3) that unfolding kmalloc_ok_def by blast
  from commit_inv [OF conjunct1 [OF m(1)] this free] mapped(6) show ?thesis
    by simp
qed (use inv in simp_all)

lemma postrouting_src_unique:
  assumes inv: "nat_inv K F t" and u: "src_unique t" and ok: "setup_ok F e"
    and one: "one_addr F sel r = Some a"
    and eq: "fc_postrouting K F lu sel e NF_INET_POST_ROUTING r nr t = Some (ret, nr', ct', t')"
  shows "src_unique t'"
  using eq
proof (cases rule: postrouting_cases)
  case (failed nr1 ct1 sm)
  with post_map_facts(1) [OF inv failed(3)] u src_unique_shrinks show ?thesis by blast
next
  case (mapped nr1 ct1 sm t2)
  note a = post_addr_one [OF mapped(1) one]
  note m = post_map_facts(1) [OF inv mapped(3)] mapped_reply [OF inv mapped(3) ok mapped(4)]
  have free: "addr n \<noteq> fam_get F (dst_u3 (tuple_repl ct'))"
    if "sm = None" "heap t2 q = Some n" "is_source F (tuple_orig (e_ct e)) n" for q n
    using inv mapped(3)
  proof (cases rule: post_map_cases)
    case (fresh prt)
    then have "fam_get F (min_addr nr') = a" using a by simp
    with post_map_src_fresh [OF inv u _ _ that(2,3), of lu r nr1 nr'] mapped(3) that(1) a m
    show ?thesis by simp
  qed (use that in simp)
  have "src_unique t2"
    using m(1) u src_unique_shrinks by blast
  from commit_src_unique [OF this free] mapped(6) show ?thesis by simp
qed (use u in simp_all)

text \<open>After an accepted outbound UDP packet its connection is tracked, memory permitting.\<close>

lemma postrouting_tracked:
  assumes inv: "nat_inv K F t" and ok: "setup_ok F e"
    and eq: "fc_postrouting K F lu sel e NF_INET_POST_ROUTING r nr t = Some (NF_ACCEPT, nr', ct', t')"
    and udp: "dst_protonum (tuple_orig (e_ct e)) = IPPROTO_UDP"
    and alloc: "e_kmalloc e = Some q" "e_kmalloc_tuple e"
  shows "tracked F (tuple_orig (e_ct e)) ct' t' \<and> fam_get F (dst_u3 (tuple_repl ct')) = fam_get F (min_addr nr') \<and>
    dst_port (tuple_repl ct') = min_proto nr'"
  using eq
proof (cases rule: postrouting_cases)
  case (mapped nr1 ct1 sm t2)
  note m = mapped_reply [OF inv mapped(3) ok mapped(4)]
  have o: "tuple_orig ct' = tuple_orig (e_ct e)"
    using m(3) post_addr_tuple [OF mapped(1)] by simp
  from inv mapped(3) have "tracked F (tuple_orig (e_ct e)) ct' t'"
  proof (cases rule: post_map_cases)
    case (reuse p n)
    then have "heap t' p = Some (n\<lparr>original_tuple_list := tuple_orig (e_ct e) # original_tuple_list n,
        refer_count := refer_count n + 1\<rparr>)"
      using mapped(6) alloc(2) o by (simp add: commit_reuse fc_add_tuple_def)
    with reuse(4,5,6) m show ?thesis
      unfolding tracked_def by (intro exI [of _ p]) (simp add: is_source_def)
  next
    case (fresh prt)
    then have "heap t' q = Some ((committed F e ct')\<lparr>original_tuple_list := [tuple_orig (e_ct e)],
        refer_count := 1\<rparr>)"
      using mapped(6) alloc o by (simp add: commit_new fc_add_tuple_def committed_def new_mapping_def)
    then show ?thesis
      unfolding tracked_def by (intro exI [of _ q]) (simp add: committed_def new_mapping_def is_source_def)
  qed
  with m show ?thesis by simp
qed (use udp in \<open>simp_all add: NF_DROP_def NF_ACCEPT_def\<close>)

lemma post_map_reuse:
  assumes inv: "nat_inv K F t" and u: "src_unique t"
    and p: "heap t p = Some m" "is_source F (tuple_orig (e_ct e)) m" "addr m = a"
    and live: "\<exists>x\<in>set (original_tuple_list m). e_live e x"
    and nr: "fam_get F (min_addr nr) = a" "fam_get F (max_addr nr) = a"
  shows "\<exists>t2. fc_post_map K F lu e r nr t = Some (set_single (port m) nr, Some p, t2)"
proof -
  have l: "src_lookup K F (tuple_orig (e_ct e)) a a t = Some p"
  proof (cases "src_lookup K F (tuple_orig (e_ct e)) a a t")
    case None
    with src_lookup_None [OF nat_invD(1) [OF inv] None p(1)] p(2,3) show ?thesis by simp
  next
    case (Some q)
    then obtain n where n: "heap t q = Some n" "is_source F (tuple_orig (e_ct e)) n" "addr n = a"
      using src_lookup_Some [OF Some] by blast
    then have "int_addr n = int_addr m" "int_port n = int_port m" "addr n = addr m"
      using p by (simp_all add: is_source_def)
    then have "q = p"
      using u n(1) p(1) unfolding src_unique_def by blast
    with Some show ?thesis by simp
  qed
  from inv p(1) show ?thesis
  proof (cases rule: check_cases [where live = "e_live e"])
    case (active m')
    then show ?thesis
      using l nr same_keyD(1) [OF active(3)] by (simp add: post_map_unfold Let_def)
  next
    case (dead t1)
    with live show ?thesis by blast
  qed
qed

text \<open>A tracked source is mapped to the endpoint it already has.\<close>

lemma postrouting_reuse:
  assumes inv: "nat_inv K F t" and u: "src_unique t"
    and tr: "tracked F origin ct t" and live: "e_live e origin"
    and one: "one_addr F sel r = Some (fam_get F (dst_u3 (tuple_repl ct)))"
    and same: "fam_get F (src_u3 (tuple_orig (e_ct e))) = fam_get F (src_u3 origin)"
      "src_port (tuple_orig (e_ct e)) = src_port origin"
    and udp: "dst_protonum (tuple_orig (e_ct e)) = IPPROTO_UDP"
    and eq: "fc_postrouting K F lu sel e h r nr t = Some (ret, nr', ct', t')"
  shows "fam_get F (min_addr nr') = fam_get F (dst_u3 (tuple_repl ct)) \<and>
    fam_get F (max_addr nr') = fam_get F (dst_u3 (tuple_repl ct)) \<and>
    min_proto nr' = dst_port (tuple_repl ct) \<and> max_proto nr' = dst_port (tuple_repl ct)"
proof -
  obtain p m where m: "heap t p = Some m" "is_source F origin m"
      "port m = be16_to_cpu (dst_port (tuple_repl ct))" "addr m = fam_get F (dst_u3 (tuple_repl ct))"
      "origin \<in> set (original_tuple_list m)"
    using tr unfolding tracked_def by blast
  have src: "is_source F (tuple_orig (e_ct e)) m"
    using m(2) same by (simp add: is_source_def)
  have lv: "\<exists>x\<in>set (original_tuple_list m). e_live e x"
    using m(5) live by blast
  have nr2: "nr' = set_single (port m) nr1"
    if a: "fc_post_addr F e sel r nr = Some (nr1, ct1)"
      and pm: "fc_post_map K F lu e r nr1 t = Some (nr', sm, t2)" for nr1 ct1 sm t2
    using post_map_reuse [OF inv u m(1) src m(4) lv, of nr1 lu r] post_addr_one [OF a one] pm by auto
  from eq show ?thesis
  proof (cases rule: postrouting_cases)
    case drop
    with post_addr_exists [OF one, of e nr] show ?thesis by simp
  next
    case (failed nr1 ct1 sm)
    with nr2 [OF failed(1,3)] post_addr_one [OF failed(1) one] m(3) show ?thesis by simp
  next
    case (mapped nr1 ct1 sm t2)
    with nr2 [OF mapped(1,3)] post_addr_one [OF mapped(1) one] m(3) show ?thesis by simp
  qed (use udp in simp)
qed

text \<open>A tracked source is reached through its external endpoint from anywhere.\<close>

lemma prerouting_tracked:
  assumes inv: "nat_inv K F t" and tr: "tracked F origin ct t" and live: "e_live e origin"
    and udp: "dst_protonum (tuple_orig (e_ct e)) = IPPROTO_UDP"
    and dst: "fam_get F (dst_u3 (tuple_orig (e_ct e))) = fam_get F (dst_u3 (tuple_repl ct))"
      "dst_port (tuple_orig (e_ct e)) = dst_port (tuple_repl ct)"
    and eq: "fc_prerouting K F e h nr t = (ret, nr', ct', t')"
  shows "fam_get F (min_addr nr') = fam_get F (src_u3 origin) \<and>
    fam_get F (max_addr nr') = fam_get F (src_u3 origin) \<and>
    min_proto nr' = src_port origin \<and> max_proto nr' = src_port origin \<and>
    flags nr' = single_flags \<and> (ret, ct') = e_setup e (e_ct e) nr' h"
proof -
  obtain p m where m: "heap t p = Some m" "is_source F origin m"
      "port m = be16_to_cpu (dst_port (tuple_repl ct))" "addr m = fam_get F (dst_u3 (tuple_repl ct))"
      "origin \<in> set (original_tuple_list m)"
    using tr unfolding tracked_def by blast
  have "nr' = set_single (int_port m) (set_addr F (int_addr m) nr) \<and> (ret, ct') = e_setup e (e_ct e) nr' h"
    by (rule prerouting_hit [OF inv m(1) _ udp _ _ eq]) (use m live dst in auto)
  with m(2) show ?thesis
    by (simp add: is_source_def)
qed

end

section \<open>Dying connections\<close>

definition dying_lookup :: "kernel \<Rightarrow> 'a family \<Rightarrow> tuple_list \<Rightarrow> 'a fc_table \<Rightarrow> ptr option" where
  "dying_lookup K F item t =
     (let orig = tuple_original item; repl = tuple_reply item
      in case fc_get_by_int_src K F (fam_get F (src_u3 orig)) (be16_to_cpu (src_port orig))
                (fam_get F (dst_u3 repl)) t of
           Some p \<Rightarrow> Some p
         | None \<Rightarrow> fc_get_by_int_src K F (fam_get F (src_u3 repl)) (be16_to_cpu (src_port repl))
                     (fam_get F (dst_u3 orig)) t)"

lemma dying_one_unfold:
  "fc_dying_one K F item t =
     (case dying_lookup K F item t of
        None \<Rightarrow> t
      | Some p \<Rightarrow> snd (fc_release (\<lambda>x. x = tuple_original item) p t))"
  by (simp add: fc_dying_one_def dying_lookup_def nf_ct_tuple_equal_def Let_def split: option.split)

lemma dying_one_inv:
  assumes inv: "nat_inv K F t"
  shows "nat_inv K F (fc_dying_one K F item t)" and "shrinks t (fc_dying_one K F item t)"
proof -
  show sh: "shrinks t (fc_dying_one K F item t)"
    by (simp add: dying_one_unfold shrinks_release split: option.split)
  have "tbl_inv K F (fc_dying_one K F item t)"
    using nat_invD(1) [OF inv] by (simp add: dying_one_unfold tbl_inv_release split: option.split)
  with inv sh show "nat_inv K F (fc_dying_one K F item t)"
    by (rule nat_inv_shrinks)
qed

text \<open>A mapping that forgot a tuple stays without it, and is never left without references.\<close>

definition forgot :: "nf_conntrack_tuple \<Rightarrow> ptr \<Rightarrow> 'a fc_table \<Rightarrow> bool" where
  "forgot x p t \<longleftrightarrow> (\<forall>m. heap t p = Some m \<longrightarrow> x \<notin> set (original_tuple_list m) \<and> original_tuple_list m \<noteq> [])"

lemma release_at:
  assumes inv: "nat_inv K F t" and p: "heap t p = Some m"
  shows "heap (snd (fc_release g p t)) =
    (heap t)(p := if filter (\<lambda>x. \<not> g x) (original_tuple_list m) = [] then None else Some (fc_prune g m))"
  using fc_release_Some [OF nat_invD(1) [OF inv] p, of g] by simp

lemma forgot_release:
  assumes inv: "nat_inv K F t" and "forgot x p t"
  shows "forgot x p (snd (fc_release g q t))"
proof (cases "heap t q")
  case None
  with assms show ?thesis by (simp add: fc_release_None)
next
  case (Some m)
  with assms(2) show ?thesis
    by (auto simp: forgot_def release_at [OF inv Some])
qed

lemma forgot_dying_one:
  "nat_inv K F t \<Longrightarrow> forgot x p t \<Longrightarrow> forgot x p (fc_dying_one K F item t)"
  by (simp add: dying_one_unfold forgot_release split: option.split)

lemma dying_one_forgets:
  assumes inv: "nat_inv K F t" and u: "src_unique t"
    and p: "heap t p = Some m" "is_source F (tuple_original item) m"
      "addr m = fam_get F (dst_u3 (tuple_reply item))"
  shows "heap (fc_dying_one K F item t) = (heap t)(p :=
      if \<forall>x\<in>set (original_tuple_list m). x = tuple_original item then None
      else Some (fc_prune (\<lambda>x. x = tuple_original item) m))"
proof -
  have "dying_lookup K F item t = Some p"
  proof (cases "fc_get_by_int_src K F (fam_get F (src_u3 (tuple_original item)))
      (be16_to_cpu (src_port (tuple_original item))) (fam_get F (dst_u3 (tuple_reply item))) t")
    case None
    with get_by_int_src_None [OF nat_invD(1) [OF inv] None p(1)] p(2,3) show ?thesis
      by (simp add: is_source_def)
  next
    case (Some q)
    then obtain n where "heap t q = Some n" "int_addr n = int_addr m" "int_port n = int_port m"
        "addr n = addr m"
      using get_by_int_src_Some [OF Some] p(2,3) by (auto simp: is_source_def)
    then have "q = p"
      using u p(1) unfolding src_unique_def by blast
    with Some show ?thesis by (simp add: dying_lookup_def)
  qed
  then show ?thesis
    by (simp add: dying_one_unfold release_at [OF inv p(1)] filter_empty_conv)
qed

end
