(* ===== verification/Fc_System.thy ===== *)
theory Fc_System
  imports Fc_Nat_Props
begin

text \<open>
  The full-cone library as a state machine: the packet hooks, the dying-tuple list and its
  handler, and teardown, in any order.  The mapping tables of both families stay consistent
  and external endpoints unique in every reachable state; with one candidate address per
  rule, internal sources are unique too.
\<close>

section \<open>Steps on one family, on both families\<close>

definition sys_inv :: "kernel \<Rightarrow> fullcone \<Rightarrow> bool" where
  "sys_inv K s \<longleftrightarrow> nat_inv K fam4 (t4 s) \<and> nat_inv K fam6 (t6 s)"

definition sys_unique :: "fullcone \<Rightarrow> bool" where
  "sys_unique s \<longleftrightarrow> src_unique (t4 s) \<and> src_unique (t6 s)"

lemma sys_inv_init: "sys_inv K init_fullcone" and sys_unique_init: "sys_unique init_fullcone"
  by (simp_all add: sys_inv_def sys_unique_def init_fullcone_def nat_inv_empty)

text \<open>A step that takes nothing but mappings away, or adds references.\<close>

definition sys_from :: "fullcone \<Rightarrow> fullcone \<Rightarrow> bool" where
  "sys_from s s' \<longleftrightarrow> keys_from (t4 s) (t4 s') \<and> keys_from (t6 s) (t6 s')"

lemma sys_unique_from: "sys_unique s \<Longrightarrow> sys_from s s' \<Longrightarrow> sys_unique s'"
  using src_unique_keys [of "t4 s" "t4 s'"] src_unique_keys [of "t6 s" "t6 s'"]
  by (simp add: sys_unique_def sys_from_def)

lemma sys_from_refl [simp]: "sys_from s s"
  by (simp add: sys_from_def)

lemma sys_from_trans: "sys_from s u \<Longrightarrow> sys_from u v \<Longrightarrow> sys_from s v"
  using keys_from_trans [of "t4 s" "t4 u" "t4 v"] keys_from_trans [of "t6 s" "t6 u" "t6 v"]
  by (simp add: sys_from_def)

lemma handle_prerouting_ok:
  assumes inv: "sys_inv K s" and eq: "nf_nat_handle_prerouting K nfp e h nr s = (ret, nr', ct', s')"
  shows "sys_inv K s' \<and> sys_from s s' \<and> dying_tuple_list s' = dying_tuple_list s"
proof (cases nfp)
  case NFPROTO_IPV4
  obtain rt n c t where f: "fc_prerouting K fam4 e h nr (t4 s) = (rt, n, c, t)"
    by (rule prod_cases4)
  with NFPROTO_IPV4 eq have s': "s' = s\<lparr>t4 := t\<rparr>"
    by (simp add: nf_nat_handle_prerouting_def)
  from inv have "nat_inv K fam4 (t4 s)" by (simp add: sys_inv_def)
  from prerouting_inv [OF this f] inv s' show ?thesis
    by (simp add: sys_inv_def sys_from_def)
next
  case NFPROTO_IPV6
  obtain rt n c t where f: "fc_prerouting K fam6 e h nr (t6 s) = (rt, n, c, t)"
    by (rule prod_cases4)
  with NFPROTO_IPV6 eq have s': "s' = s\<lparr>t6 := t\<rparr>"
    by (simp add: nf_nat_handle_prerouting_def)
  from inv have "nat_inv K fam6 (t6 s)" by (simp add: sys_inv_def)
  from prerouting_inv [OF this f] inv s' show ?thesis
    by (simp add: sys_inv_def sys_from_def)
qed

text \<open>The laws of the environment at an outbound packet.\<close>

definition env_ok :: "kernel \<Rightarrow> nfproto \<Rightarrow> pkt_env \<Rightarrow> nf_nat_range2 \<Rightarrow> fullcone \<Rightarrow> bool" where
  "env_ok K nfp e r s \<longleftrightarrow>
     (case nfp of
        NFPROTO_IPV4 \<Rightarrow> setup_ok fam4 e \<and>
          kmalloc_ok K fam4 (find_leastused_ip K) (select_addr4 e) e r (init_newrange r) (t4 s)
      | NFPROTO_IPV6 \<Rightarrow> setup_ok fam6 e \<and>
          kmalloc_ok K fam6 (find_leastused_ip6 K) (select_addr6 e) e r (init_newrange r) (t6 s))"

definition single_rule :: "nfproto \<Rightarrow> nf_nat_range2 \<Rightarrow> bool" where
  "single_rule nfp r \<longleftrightarrow>
     (has_flag r NF_NAT_RANGE_MAP_IPS \<longrightarrow>
       (case nfp of NFPROTO_IPV4 \<Rightarrow> all0 (min_addr r) = all0 (max_addr r)
                  | NFPROTO_IPV6 \<Rightarrow> min_addr r = max_addr r))"

lemma single_rule_addr:
  "single_rule NFPROTO_IPV4 r \<Longrightarrow> fc_post_addr fam4 e sel r nr \<noteq> None \<Longrightarrow> \<exists>a. one_addr fam4 sel r = Some a"
  "single_rule NFPROTO_IPV6 r \<Longrightarrow> fc_post_addr fam6 e sel6 r nr \<noteq> None \<Longrightarrow> \<exists>a. one_addr fam6 sel6 r = Some a"
  by (auto simp: single_rule_def fc_post_addr_def one_addr_def fam4_def fam6_def split: if_splits option.splits)

lemma postrouting4_ok:
  assumes inv: "nat_inv K fam4 t" and ok: "setup_ok fam4 e"
    and mem: "kmalloc_ok K fam4 lu sel e r nr t"
    and eq: "fc_postrouting K fam4 lu sel e NF_INET_POST_ROUTING r nr t = Some (ret, nr', ct', t')"
  shows "nat_inv K fam4 t'" and "single_rule NFPROTO_IPV4 r \<Longrightarrow> src_unique t \<Longrightarrow> src_unique t'"
proof -
  show "nat_inv K fam4 t'"
    by (rule fam4.postrouting_inv [OF inv ok mem eq])
  assume single: "single_rule NFPROTO_IPV4 r" and u: "src_unique t"
  show "src_unique t'"
  proof (cases "fc_post_addr fam4 e sel r nr = None")
    case True
    with eq u show ?thesis by (simp add: fc_postrouting_def)
  next
    case False
    from single_rule_addr(1) [OF single False] fam4.postrouting_src_unique [OF inv u ok _ eq]
    show ?thesis by blast
  qed
qed

lemma postrouting6_ok:
  assumes inv: "nat_inv K fam6 t" and ok: "setup_ok fam6 e"
    and mem: "kmalloc_ok K fam6 lu sel e r nr t"
    and eq: "fc_postrouting K fam6 lu sel e NF_INET_POST_ROUTING r nr t = Some (ret, nr', ct', t')"
  shows "nat_inv K fam6 t'" and "single_rule NFPROTO_IPV6 r \<Longrightarrow> src_unique t \<Longrightarrow> src_unique t'"
proof -
  show "nat_inv K fam6 t'"
    by (rule fam6.postrouting_inv [OF inv ok mem eq])
  assume single: "single_rule NFPROTO_IPV6 r" and u: "src_unique t"
  show "src_unique t'"
  proof (cases "fc_post_addr fam6 e sel r nr = None")
    case True
    with eq u show ?thesis by (simp add: fc_postrouting_def)
  next
    case False
    from single_rule_addr(2) [OF single False] fam6.postrouting_src_unique [OF inv u ok _ eq]
    show ?thesis by blast
  qed
qed

lemma hook_out_split:
  assumes "nf_nat_fullcone_hook K nfp e NF_INET_POST_ROUTING r s = Some (ret, nr', ct', s')"
  obtains (v4) t where "nfp = NFPROTO_IPV4" and "s' = s\<lparr>t4 := t\<rparr>"
      and "fc_postrouting K fam4 (find_leastused_ip K) (select_addr4 e) e NF_INET_POST_ROUTING r
             (init_newrange r) (t4 s) = Some (ret, nr', ct', t)"
  | (v6) t where "nfp = NFPROTO_IPV6" and "s' = s\<lparr>t6 := t\<rparr>"
      and "fc_postrouting K fam6 (find_leastused_ip6 K) (select_addr6 e) e NF_INET_POST_ROUTING r
             (init_newrange r) (t6 s) = Some (ret, nr', ct', t)"
  using assms
  by (cases nfp) (auto simp: nf_nat_fullcone_hook_def nf_nat_handle_postrouting_def
      NF_INET_POST_ROUTING_def NF_INET_PRE_ROUTING_def)

lemma hook_out_ok:
  assumes inv: "sys_inv K s" and env: "env_ok K nfp e r s"
    and eq: "nf_nat_fullcone_hook K nfp e NF_INET_POST_ROUTING r s = Some (ret, nr', ct', s')"
  shows "sys_inv K s'" and "single_rule nfp r \<Longrightarrow> sys_unique s \<Longrightarrow> sys_unique s'"
proof -
  from eq have "sys_inv K s' \<and> (single_rule nfp r \<longrightarrow> sys_unique s \<longrightarrow> sys_unique s')"
  proof (cases rule: hook_out_split)
    case (v4 t)
    have "nat_inv K fam4 (t4 s)" using inv by (simp add: sys_inv_def)
    note ok = postrouting4_ok [OF this _ _ v4(3)]
    show ?thesis
      using ok inv env v4(1,2) by (simp add: sys_inv_def sys_unique_def env_ok_def)
  next
    case (v6 t)
    have "nat_inv K fam6 (t6 s)" using inv by (simp add: sys_inv_def)
    note ok = postrouting6_ok [OF this _ _ v6(3)]
    show ?thesis
      using ok inv env v6(1,2) by (simp add: sys_inv_def sys_unique_def env_ok_def)
  qed
  then show "sys_inv K s'" and "single_rule nfp r \<Longrightarrow> sys_unique s \<Longrightarrow> sys_unique s'"
    by blast+
qed

section \<open>Dying connections\<close>

lemma dying_step_ok:
  assumes "sys_inv K s"
  shows "sys_inv K (dying_step K item s)" and "sys_from s (dying_step K item s)"
  using assms dying_one_inv [of K fam4 "t4 s" item] dying_one_inv [of K fam6 "t6 s" item]
  by (simp_all add: dying_step_def sys_inv_def sys_from_def Let_def shrinks_keys_from)

lemma dying_fold_ok:
  "sys_inv K s \<Longrightarrow> sys_inv K (fold (dying_step K) items s) \<and> sys_from s (fold (dying_step K) items s)"
proof (induction items arbitrary: s)
  case Nil
  then show ?case by simp
next
  case (Cons i items)
  from Cons.IH [OF dying_step_ok(1) [OF Cons.prems, of i]] dying_step_ok(2) [OF Cons.prems, of i]
  show ?case by (auto intro: sys_from_trans)
qed

lemma handle_dying_ok:
  assumes "sys_inv K s"
  shows "sys_inv K (nf_nat_fullcone_handle_dying_tuples K s)"
    and "sys_from s (nf_nat_fullcone_handle_dying_tuples K s)"
    and "dying_tuple_list (nf_nat_fullcone_handle_dying_tuples K s) = []"
  using dying_fold_ok [OF assms, of "dying_tuple_list s"]
  by (simp_all add: nf_nat_fullcone_handle_dying_tuples_def sys_inv_def sys_from_def)

section \<open>Teardown\<close>

lemma kill_list_heap:
  "heap (fold fc_kill ps t) p = (if p \<in> set ps then None else heap t p)"
  by (induction ps arbitrary: t) auto

lemma kill_list_inv: "tbl_inv K F t \<Longrightarrow> tbl_inv K F (fold fc_kill ps t)"
  by (induction ps arbitrary: t) (simp_all add: tbl_inv_kill)

lemma kill_buckets_heap:
  "tbl_inv K F t \<Longrightarrow>
     tbl_inv K F (fold fc_kill_bucket bs t) \<and>
     heap (fold fc_kill_bucket bs t) p =
       (case heap t p of None \<Rightarrow> None
        | Some m \<Rightarrow> if ext_key K (port m) \<in> set bs then None else Some m)"
proof (induction bs arbitrary: t)
  case Nil
  then show ?case by (simp split: option.split)
next
  case (Cons b bs)
  have inv: "tbl_inv K F (fc_kill_bucket b t)"
    using Cons.prems by (simp add: fc_kill_bucket_def kill_list_inv)
  have "heap (fc_kill_bucket b t) p =
      (case heap t p of None \<Rightarrow> None | Some m \<Rightarrow> if ext_key K (port m) = b then None else Some m)"
    using tbl_inv_ext [OF Cons.prems, of p b]
    by (simp add: fc_kill_bucket_def kill_list_heap split: option.split)
  with Cons.IH [OF inv] show ?case
    by (simp split: option.split)
qed

lemma destroy_empties:
  assumes inv: "tbl_inv K F t" and K: "hash_min_ok K"
  shows "fc_destroy t = empty_table"
proof -
  note f = kill_buckets_heap [OF inv, of "[0 ..< 2 ^ HASHTABLE_BUCKET_BITS]"]
  have h: "heap (fc_destroy t) = (\<lambda>_. None)"
  proof
    fix p
    show "heap (fc_destroy t) p = None"
      using f [of p] K by (simp add: fc_destroy_def hash_min_ok_def ext_key_def bucket_def split: option.splits)
  qed
  have "tbl_inv K F (fc_destroy t)"
    using f by (simp add: fc_destroy_def)
  then have "q \<notin> set (by_ext_port (fc_destroy t) b)" "q \<notin> set (by_int_src (fc_destroy t) b)" for q b
    using tbl_inv_ext [of K F "fc_destroy t" q b] tbl_inv_src [of K F "fc_destroy t" q b] h by auto
  then have "by_ext_port (fc_destroy t) b = []" "by_int_src (fc_destroy t) b = []" for b
    using hd_in_set by blast+
  then show ?thesis
    using h by (simp add: empty_table_def fun_eq_iff)
qed

section \<open>The state machine\<close>

text \<open>\<open>allowed\<close> restricts the rules the outbound hook is called with.\<close>

inductive fc_step :: "kernel \<Rightarrow> (nfproto \<Rightarrow> nf_nat_range2 \<Rightarrow> bool) \<Rightarrow> fullcone \<Rightarrow> fullcone \<Rightarrow> bool"
  for K allowed
  where
    inbound: "nf_nat_fullcone_hook K nfp e NF_INET_PRE_ROUTING r s = Some (ret, nr', ct', s') \<Longrightarrow>
      fc_step K allowed s s'"
  | outbound: "env_ok K nfp e r s \<Longrightarrow> allowed nfp r \<Longrightarrow>
      nf_nat_fullcone_hook K nfp e NF_INET_POST_ROUTING r s = Some (ret, nr', ct', s') \<Longrightarrow>
      fc_step K allowed s s'"
  | conn_dies: "fc_step K allowed s (nf_nat_fullcone_dying_tuple_list_add item s)"
  | gc_dying: "fc_step K allowed s (nf_nat_fullcone_handle_dying_tuples K s)"
  | teardown: "fc_step K allowed s (nf_nat_fullcone_destroy_mappings s)"

inductive_cases fc_stepE: "fc_step K allowed s s'"

text \<open>Teardown needs no bucket law to keep the invariant.\<close>

lemma destroy_nat_inv:
  assumes inv: "nat_inv K F t"
  shows "nat_inv K F (fc_destroy t)" and "keys_from t (fc_destroy t)"
proof -
  note f = kill_buckets_heap [OF nat_invD(1) [OF inv], of "[0 ..< 2 ^ HASHTABLE_BUCKET_BITS]",
      folded fc_destroy_def]
  have "heap (fc_destroy t) p = Some m' \<Longrightarrow> heap t p = Some m'" for p m'
    using f [of p] by (auto split: option.splits if_splits)
  then show kf: "keys_from t (fc_destroy t)"
    unfolding keys_from_def same_key_def by blast
  show "nat_inv K F (fc_destroy t)"
    using f ext_unique_keys [OF nat_invD(2) [OF inv] kf] by (simp add: nat_inv_def)
qed

lemma destroy_ok:
  assumes "sys_inv K s"
  shows "sys_inv K (nf_nat_fullcone_destroy_mappings s)"
    and "sys_from s (nf_nat_fullcone_destroy_mappings s)"
  using assms destroy_nat_inv [of K fam4 "t4 s"] destroy_nat_inv [of K fam6 "t6 s"]
  by (simp_all add: sys_inv_def sys_from_def nf_nat_fullcone_destroy_mappings_def)

lemma step_ok:
  assumes "fc_step K allowed s s'" and inv: "sys_inv K s"
  shows "sys_inv K s'"
    and "(\<And>nfp r. allowed nfp r \<Longrightarrow> single_rule nfp r) \<Longrightarrow> sys_unique s \<Longrightarrow> sys_unique s'"
proof -
  from assms(1) have "sys_inv K s' \<and>
    ((\<forall>nfp r. allowed nfp r \<longrightarrow> single_rule nfp r) \<longrightarrow> sys_unique s \<longrightarrow> sys_unique s')"
  proof cases
    case (inbound nfp e r ret nr' ct')
    then have "nf_nat_handle_prerouting K nfp e NF_INET_PRE_ROUTING (init_newrange r) s = (ret, nr', ct', s')"
      by (simp add: nf_nat_fullcone_hook_def)
    from handle_prerouting_ok [OF inv this] sys_unique_from show ?thesis by blast
  next
    case (outbound nfp e r ret nr' ct')
    from hook_out_ok [OF inv outbound(1,3)] outbound(2) show ?thesis by blast
  next
    case (conn_dies item)
    with inv show ?thesis
      by (simp add: nf_nat_fullcone_dying_tuple_list_add_def sys_inv_def sys_unique_def)
  next
    case gc_dying
    with handle_dying_ok [OF inv] sys_unique_from show ?thesis by blast
  next
    case teardown
    with destroy_ok [OF inv] sys_unique_from show ?thesis by blast
  qed
  then show "sys_inv K s'"
    and "(\<And>nfp r. allowed nfp r \<Longrightarrow> single_rule nfp r) \<Longrightarrow> sys_unique s \<Longrightarrow> sys_unique s'"
    by blast+
qed

definition reachable :: "kernel \<Rightarrow> (nfproto \<Rightarrow> nf_nat_range2 \<Rightarrow> bool) \<Rightarrow> fullcone \<Rightarrow> bool" where
  "reachable K allowed s \<longleftrightarrow> (fc_step K allowed)\<^sup>*\<^sup>* init_fullcone s"

lemma reachable_sys:
  assumes "reachable K allowed s"
  shows "sys_inv K s"
    and "(\<And>nfp r. allowed nfp r \<Longrightarrow> single_rule nfp r) \<Longrightarrow> sys_unique s"
proof -
  have "sys_inv K s \<and> ((\<forall>nfp r. allowed nfp r \<longrightarrow> single_rule nfp r) \<longrightarrow> sys_unique s)"
    using assms unfolding reachable_def
  proof (induction rule: rtranclp_induct)
    case base
    show ?case by (simp add: sys_inv_init sys_unique_init)
  next
    case (step u v)
    with step_ok [OF step.hyps(2)] show ?case by blast
  qed
  then show "sys_inv K s"
    and "(\<And>nfp r. allowed nfp r \<Longrightarrow> single_rule nfp r) \<Longrightarrow> sys_unique s"
    by blast+
qed

end
