(* ===== verification/Fc_Expr.thy ===== *)
theory Fc_Expr
  imports Fc_System
begin

text \<open>
  The nftables expression of the full-cone module, \<^verbatim>\<open>nft-fullcone/src/nft_ext_fullcone.c\<close>: the
  rule life cycle (init, validate, dump, eval, destroy) with the module's reference count and
  its conntrack event notifier, the event callback with its delayed worker, and module load
  and unload.  The nf_tables and conntrack cores are outside: their results are arguments and
  the calls made to them are recorded in \<open>ct_calls\<close>.  \<open>chain\<close> is
  \<^verbatim>\<open>CONFIG_NF_CONNTRACK_CHAIN_EVENTS\<close>; the other branch is that of kernels from 5.15 on.
\<close>

section \<open>State\<close>

record nft_fullcone =
  priv_flags :: u32
  sreg_proto_min :: u8
  sreg_proto_max :: u8

text \<open>\<open>nft_expr_init\<close> allocates the private data with \<open>kzalloc\<close>.\<close>

definition zero_priv :: nft_fullcone where
  "zero_priv = \<lparr>priv_flags = 0, sreg_proto_min = 0, sreg_proto_max = 0\<rparr>"

datatype nft_fullcone_attributes =
  NFTA_FULLCONE_UNSPEC | NFTA_FULLCONE_REG_PROTO_MIN | NFTA_FULLCONE_REG_PROTO_MAX | NFTA_FULLCONE_FLAGS

datatype nft_family = FAM_IPV4 | FAM_IPV6 | FAM_INET

datatype ct_call = Register nat | Unregister nat | NetnsGet nat nft_family | NetnsPut nat nft_family

record expr_state =
  module_refer_count :: int
  ct_event_notifier_registered :: bool
  wq :: bool
  gc_pending :: bool
  expr_types :: "nft_family list"
  ct_calls :: "ct_call list"
  lib :: fullcone

definition unloaded :: expr_state where
  "unloaded = \<lparr>module_refer_count = 0, ct_event_notifier_registered = False, wq = False,
     gc_pending = False, expr_types = [], ct_calls = [], lib = init_fullcone\<rparr>"

definition call :: "ct_call \<Rightarrow> expr_state \<Rightarrow> expr_state" where
  "call c s = s\<lparr>ct_calls := ct_calls s @ [c]\<rparr>"

section \<open>Rules\<close>

text \<open>\<open>nft_fullcone_init\<close>: the attribute table and the private data are arguments of the C
  function, which reads neither.  \<open>busy\<close> is \<open>nf_conntrack_event_cb\<close> of the namespace,
  \<open>reg_ret\<close> the result of the registration (the newer one returns nothing).\<close>

definition nft_fullcone_init ::
  "bool \<Rightarrow> int \<Rightarrow> bool \<Rightarrow> int \<Rightarrow> nat \<Rightarrow> nft_family \<Rightarrow> (nft_fullcone_attributes \<Rightarrow> u32 option)
     \<Rightarrow> nft_fullcone \<Rightarrow> expr_state \<Rightarrow> int \<times> nft_fullcone \<times> expr_state" where
  "nft_fullcone_init chain netns_ret busy reg_ret net fam tb priv s =
     (let err = netns_ret;
          s1 = call (NetnsGet net fam) s;
          s2 = s1\<lparr>module_refer_count := module_refer_count s1 + 1\<rparr>;
          s3 = (if module_refer_count s2 = 1
                then (let s4 = (if chain \<or> \<not> busy then call (Register net) s2 else s2);
                          register_ct_notifier_ret = (if chain then reg_ret else 0)
                      in if register_ct_notifier_ret \<noteq> 0 then s4
                         else s4\<lparr>ct_event_notifier_registered := True\<rparr>)
                else s2)
      in (err, priv, s3))"

definition nft_fullcone_validate :: "int \<Rightarrow> (u32 \<Rightarrow> int) \<Rightarrow> int" where
  "nft_fullcone_validate dependency validate_hooks =
     (if dependency < 0 then dependency
      else validate_hooks (push_bit NF_INET_PRE_ROUTING 1 OR push_bit NF_INET_POST_ROUTING 1))"

text \<open>\<open>put_ok\<close> says whether an attribute still fits the message.\<close>

definition nft_fullcone_dump ::
  "(nft_fullcone_attributes \<Rightarrow> bool) \<Rightarrow> nft_fullcone \<Rightarrow> int \<times> (nft_fullcone_attributes \<times> u32) list" where
  "nft_fullcone_dump put_ok priv =
     (let fl = (if priv_flags priv \<noteq> 0 then [(NFTA_FULLCONE_FLAGS, htonl (priv_flags priv))] else []);
          mi = (NFTA_FULLCONE_REG_PROTO_MIN, ucast (sreg_proto_min priv));
          ma = (NFTA_FULLCONE_REG_PROTO_MAX, ucast (sreg_proto_max priv))
      in if priv_flags priv \<noteq> 0 \<and> \<not> put_ok NFTA_FULLCONE_FLAGS then (-1, [])
         else if sreg_proto_min priv \<noteq> 0
         then (if \<not> put_ok NFTA_FULLCONE_REG_PROTO_MIN then (-1, fl)
               else if \<not> put_ok NFTA_FULLCONE_REG_PROTO_MAX then (-1, fl @ [mi])
               else (0, fl @ [mi, ma]))
         else (0, fl))"

definition zero_range :: nf_nat_range2 where
  "zero_range = \<lparr>flags = 0, min_addr = inet_zero, max_addr = inet_zero, min_proto = 0, max_proto = 0\<rparr>"

definition nft_fullcone_set_regs ::
  "nft_fullcone \<Rightarrow> (u8 \<Rightarrow> u16) \<Rightarrow> nf_nat_range2 \<Rightarrow> nf_nat_range2" where
  "nft_fullcone_set_regs priv load16 r =
     (let r1 = r\<lparr>flags := priv_flags priv\<rparr>
      in if sreg_proto_min priv \<noteq> 0
         then r1\<lparr>min_proto := load16 (sreg_proto_min priv), max_proto := load16 (sreg_proto_max priv)\<rparr>
         else r1)"

text \<open>Evaluation on a packet: the verdict and the connection after it; \<open>None\<close> where the
  library divides by zero.\<close>

definition nft_fullcone_ipv4_eval ::
  "kernel \<Rightarrow> nft_fullcone \<Rightarrow> (u8 \<Rightarrow> u16) \<Rightarrow> pkt_env \<Rightarrow> nat \<Rightarrow> expr_state \<Rightarrow> (u32 \<times> nf_conn \<times> expr_state) option" where
  "nft_fullcone_ipv4_eval K priv load16 e hook s =
     map_option (\<lambda>(ret, nr, ct, l). (ret, ct, s\<lparr>lib := l\<rparr>))
       (nf_nat_fullcone_ipv4 K e hook (nft_fullcone_set_regs priv load16 zero_range) (lib s))"

definition nft_fullcone_ipv6_eval ::
  "kernel \<Rightarrow> nft_fullcone \<Rightarrow> (u8 \<Rightarrow> u16) \<Rightarrow> pkt_env \<Rightarrow> nat \<Rightarrow> expr_state \<Rightarrow> (u32 \<times> nf_conn \<times> expr_state) option" where
  "nft_fullcone_ipv6_eval K priv load16 e hook s =
     map_option (\<lambda>(ret, nr, ct, l). (ret, ct, s\<lparr>lib := l\<rparr>))
       (nf_nat_fullcone_ipv6 K e hook (nft_fullcone_set_regs priv load16 zero_range) (lib s))"

text \<open>\<open>pf\<close> is \<open>nft_pf\<close>; for neither family the verdict \<open>v\<close> of the registers stays.\<close>

definition nft_fullcone_inet_eval ::
  "kernel \<Rightarrow> nft_fullcone \<Rightarrow> (u8 \<Rightarrow> u16) \<Rightarrow> pkt_env \<Rightarrow> nat \<Rightarrow> nfproto option \<Rightarrow> u32 \<Rightarrow> expr_state
     \<Rightarrow> (u32 \<times> nf_conn \<times> expr_state) option" where
  "nft_fullcone_inet_eval K priv load16 e hook pf v s =
     (case pf of
        Some NFPROTO_IPV4 \<Rightarrow> nft_fullcone_ipv4_eval K priv load16 e hook s
      | Some NFPROTO_IPV6 \<Rightarrow> nft_fullcone_ipv6_eval K priv load16 e hook s
      | None \<Rightarrow> Some (v, e_ct e, s))"

definition nft_fullcone_common_destory :: "nat \<Rightarrow> expr_state \<Rightarrow> expr_state" where
  "nft_fullcone_common_destory net s =
     (let s1 = s\<lparr>module_refer_count := module_refer_count s - 1\<rparr>
      in if module_refer_count s1 = 0 \<and> ct_event_notifier_registered s1
         then (call (Unregister net) s1)\<lparr>ct_event_notifier_registered := False\<rparr>
         else s1)"

definition nft_fullcone_destroy :: "nat \<Rightarrow> nft_family \<Rightarrow> expr_state \<Rightarrow> expr_state" where
  "nft_fullcone_destroy net fam s = call (NetnsPut net fam) (nft_fullcone_common_destory net s)"

definition nft_fullcone_ipv4_destroy where
  "nft_fullcone_ipv4_destroy net = nft_fullcone_destroy net FAM_IPV4"
definition nft_fullcone_ipv6_destroy where
  "nft_fullcone_ipv6_destroy net = nft_fullcone_destroy net FAM_IPV6"
definition nft_fullcone_inet_destroy where
  "nft_fullcone_inet_destroy net = nft_fullcone_destroy net FAM_INET"

section \<open>Conntrack events and the worker\<close>

text \<open>\<open>destroy_bit\<close> is the \<open>IPCT_DESTROY\<close> bit of the events, \<open>mem\<close> whether \<open>kmalloc\<close> succeeded.\<close>

definition ct_event_cb :: "nf_conn option \<Rightarrow> bool \<Rightarrow> bool \<Rightarrow> expr_state \<Rightarrow> expr_state" where
  "ct_event_cb item_ct destroy_bit mem s =
     (case item_ct of
        None \<Rightarrow> s
      | Some ct \<Rightarrow>
          if \<not> destroy_bit then s
          else if dst_protonum (tuple_orig ct) \<noteq> IPPROTO_UDP then s
          else if \<not> mem then s
          else s\<lparr>lib := nf_nat_fullcone_dying_tuple_list_add
                   \<lparr>tuple_original = tuple_orig ct, tuple_reply = tuple_repl ct\<rparr> (lib s),
                 gc_pending := gc_pending s \<or> wq s\<rparr>)"

text \<open>The delayed work, when it runs.\<close>

definition gc_worker :: "kernel \<Rightarrow> expr_state \<Rightarrow> expr_state" where
  "gc_worker K s = s\<lparr>lib := nf_nat_fullcone_handle_dying_tuples K (lib s), gc_pending := False\<rparr>"

section \<open>Module load and unload\<close>

definition nft_register_expr :: "(nft_family \<Rightarrow> int) \<Rightarrow> nft_family \<Rightarrow> expr_state \<Rightarrow> int \<times> expr_state" where
  "nft_register_expr reg fam s =
     (reg fam, if reg fam < 0 then s else s\<lparr>expr_types := fam # expr_types s\<rparr>)"

definition nft_unregister_expr :: "nft_family \<Rightarrow> expr_state \<Rightarrow> expr_state" where
  "nft_unregister_expr fam s = s\<lparr>expr_types := remove1 fam (expr_types s)\<rparr>"

text \<open>With both \<^verbatim>\<open>CONFIG_NF_TABLES_IPV6\<close> and \<^verbatim>\<open>CONFIG_NF_TABLES_INET\<close>.\<close>

definition nft_fullcone_module_init_ipv6 where
  "nft_fullcone_module_init_ipv6 reg = nft_register_expr reg FAM_IPV6"
definition nft_fullcone_module_exit_ipv6 where
  "nft_fullcone_module_exit_ipv6 = nft_unregister_expr FAM_IPV6"
definition nft_fullcone_module_init_inet where
  "nft_fullcone_module_init_inet reg = nft_register_expr reg FAM_INET"
definition nft_fullcone_module_exit_inet where
  "nft_fullcone_module_exit_inet = nft_unregister_expr FAM_INET"

definition nft_fullcone_module_init :: "(nft_family \<Rightarrow> int) \<Rightarrow> bool \<Rightarrow> expr_state \<Rightarrow> int \<times> expr_state" where
  "nft_fullcone_module_init reg wq_ok s =
     (let (ret, s1) = nft_fullcone_module_init_ipv6 reg s
      in if ret < 0 then (ret, s1)
         else let (ret, s2) = nft_fullcone_module_init_inet reg s1
              in if ret < 0 then (ret, nft_fullcone_module_exit_ipv6 s2)
                 else let (ret, s3) = nft_register_expr reg FAM_IPV4 s2
                      in if ret < 0
                         then (ret, nft_fullcone_module_exit_ipv6 (nft_fullcone_module_exit_inet s3))
                         else (ret, s3\<lparr>wq := wq_ok\<rparr>))"

text \<open>Cancelling the delayed work and flushing the queue leave nothing pending.\<close>

definition nft_fullcone_module_exit :: "kernel \<Rightarrow> expr_state \<Rightarrow> expr_state" where
  "nft_fullcone_module_exit K s =
     (let s1 = nft_unregister_expr FAM_IPV4 (nft_fullcone_module_exit_inet (nft_fullcone_module_exit_ipv6 s));
          s2 = (if wq s1 then s1\<lparr>gc_pending := False\<rparr> else s1)
      in s2\<lparr>lib := nf_nat_fullcone_destroy_mappings (nf_nat_fullcone_handle_dying_tuples K (lib s2))\<rparr>)"

section \<open>The life of the module\<close>

text \<open>The rules that exist, by namespace and family (what nf_tables destroys one by one), and what
  has happened: the number of rule insertions that failed, the namespaces rules were inserted in, and
  how often the notifier could not be registered when it was its turn: the kernel refused it
  (chained notifiers) or the namespace's slot was taken.  nf_tables drops an expression whose
  \<open>init\<close> fails without calling \<open>destroy\<close>.\<close>

record rules =
  live_rules :: "(nat \<times> nft_family) list"
  failed_rules :: nat
  rule_nets :: "nat set"
  refused :: nat

definition not_registered :: "bool \<Rightarrow> bool \<Rightarrow> int \<Rightarrow> expr_state \<Rightarrow> nat" where
  "not_registered chain busy reg_ret s =
     (if module_refer_count s = 0 \<and> (if chain then reg_ret \<noteq> 0 else busy) then 1 else 0)"

inductive rule_step :: "bool \<Rightarrow> rules \<times> expr_state \<Rightarrow> rules \<times> expr_state \<Rightarrow> bool"
  for chain
  where
    rule_added: "nft_fullcone_init chain ret busy reg_ret net fam tb priv s = (err, priv', s') \<Longrightarrow> err \<ge> 0 \<Longrightarrow>
      rule_step chain (R, s) (R\<lparr>live_rules := (net, fam) # live_rules R, rule_nets := insert net (rule_nets R),
        refused := refused R + not_registered chain busy reg_ret s\<rparr>, s')"
  | rule_failed: "nft_fullcone_init chain ret busy reg_ret net fam tb priv s = (err, priv', s') \<Longrightarrow> err < 0 \<Longrightarrow>
      rule_step chain (R, s) (R\<lparr>failed_rules := failed_rules R + 1\<rparr>, s')"
  | rule_gone: "(net, fam) \<in> set (live_rules R) \<Longrightarrow>
      rule_step chain (R, s) (R\<lparr>live_rules := remove1 (net, fam) (live_rules R)\<rparr>, nft_fullcone_destroy net fam s)"
  | event: "rule_step chain (R, s) (R, ct_event_cb ct des mem s)"

inductive_cases rule_stepE: "rule_step chain (R, s) (R', s')"

definition start_rules :: rules where
  "start_rules = \<lparr>live_rules = [], failed_rules = 0, rule_nets = {}, refused = 0\<rparr>"

text \<open>The count is exact up to the failed insertions, which are never given back.\<close>

definition count_inv :: "rules \<times> expr_state \<Rightarrow> bool" where
  "count_inv x \<longleftrightarrow> module_refer_count (snd x) = int (length (live_rules (fst x)) + failed_rules (fst x))"

lemma call_simps [simp]:
  "module_refer_count (call c s) = module_refer_count s"
  "ct_event_notifier_registered (call c s) = ct_event_notifier_registered s"
  "ct_calls (call c s) = ct_calls s @ [c]" "lib (call c s) = lib s" "wq (call c s) = wq s"
  "gc_pending (call c s) = gc_pending s"
  by (simp_all add: call_def)

lemma init_count:
  "nft_fullcone_init chain ret busy reg_ret net fam tb priv s = (err, priv', s') \<Longrightarrow>
     module_refer_count s' = module_refer_count s + 1 \<and> err = ret \<and> priv' = priv \<and>
     (ct_event_notifier_registered s' \<longleftrightarrow> ct_event_notifier_registered s \<or>
        (module_refer_count s = 0 \<and> (chain \<longrightarrow> reg_ret = 0)))"
  by (auto simp: nft_fullcone_init_def Let_def split: if_splits)

lemma destroy_count:
  "module_refer_count (nft_fullcone_destroy net fam s) = module_refer_count s - 1"
  "ct_event_notifier_registered (nft_fullcone_destroy net fam s) \<longleftrightarrow>
     ct_event_notifier_registered s \<and> module_refer_count s \<noteq> 1"
  by (auto simp: nft_fullcone_destroy_def nft_fullcone_common_destory_def Let_def)

lemma event_count:
  "module_refer_count (ct_event_cb ct des mem s) = module_refer_count s"
  "ct_event_notifier_registered (ct_event_cb ct des mem s) = ct_event_notifier_registered s"
  "ct_calls (ct_event_cb ct des mem s) = ct_calls s"
  by (auto simp: ct_event_cb_def split: option.split)

lemma rule_step_count:
  assumes "rule_step chain x y" and "count_inv x"
    and reg: "ct_event_notifier_registered (snd x) \<longrightarrow> module_refer_count (snd x) > 0"
  shows "count_inv y \<and> (ct_event_notifier_registered (snd y) \<longrightarrow> module_refer_count (snd y) > 0)"
  using assms
proof cases
  case (rule_added ret busy reg_ret net fam tb priv s err priv' s' R)
  with init_count [OF rule_added(3)] assms(2,3) show ?thesis
    by (auto simp: count_inv_def)
next
  case (rule_failed ret busy reg_ret net fam tb priv s err priv' s' R)
  with init_count [OF rule_failed(3)] assms(2,3) show ?thesis
    by (auto simp: count_inv_def)
next
  case (rule_gone net fam R s)
  then have "length (live_rules R) = Suc (length (remove1 (net, fam) (live_rules R)))"
    by (metis One_nat_def Suc_pred length_pos_if_in_set length_remove1)
  with rule_gone assms(2,3) show ?thesis
    by (auto simp: count_inv_def destroy_count)
next
  case (event R s ct des mem)
  with assms(2,3) show ?thesis by (simp add: count_inv_def event_count)
qed

lemma rules_count:
  assumes "(rule_step chain)\<^sup>*\<^sup>* (start_rules, unloaded\<lparr>wq := b, expr_types := ts\<rparr>) (R, s)"
  shows "module_refer_count s = int (length (live_rules R) + failed_rules R)"
    and "ct_event_notifier_registered s \<Longrightarrow> module_refer_count s > 0"
proof -
  have "count_inv (R, s) \<and> (ct_event_notifier_registered (snd (R, s)) \<longrightarrow> module_refer_count (snd (R, s)) > 0)"
    using assms
  proof (induction "(R, s)" arbitrary: R s rule: rtranclp_induct)
    case base
    then show ?case by (simp add: count_inv_def start_rules_def unloaded_def)
  next
    case (step y)
    obtain R' s' where y: "y = (R', s')" by (rule prod.exhaust)
    from rule_step_count [OF step.hyps(2)] step.hyps(3) [OF y] show ?case
      unfolding y by simp
  qed
  then show "module_refer_count s = int (length (live_rules R) + failed_rules R)"
    and "ct_event_notifier_registered s \<Longrightarrow> module_refer_count s > 0"
    by (simp_all add: count_inv_def)
qed

section \<open>Where the notifier is\<close>

text \<open>The namespaces the notifier is registered in, from the calls made: a namespace has one.\<close>

definition notifier_call :: "ct_call \<Rightarrow> nat set \<Rightarrow> nat set" where
  "notifier_call c A = (case c of Register n \<Rightarrow> insert n A | Unregister n \<Rightarrow> A - {n} | _ \<Rightarrow> A)"

definition notifier_nets :: "expr_state \<Rightarrow> nat set" where
  "notifier_nets s = fold notifier_call (ct_calls s) {}"

lemma notifier_nets_call: "notifier_nets (call c s) = notifier_call c (notifier_nets s)"
  by (simp add: notifier_nets_def)

lemma notifier_nets_update [simp]:
  "notifier_nets (s\<lparr>module_refer_count := c\<rparr>) = notifier_nets s"
  "notifier_nets (s\<lparr>ct_event_notifier_registered := b\<rparr>) = notifier_nets s"
  by (simp_all add: notifier_nets_def)

lemma notifier_nets_init:
  assumes "nft_fullcone_init chain ret busy reg_ret net fam tb priv s = (err, priv', s')"
    and "not_registered chain busy reg_ret s = 0"
  shows "notifier_nets s' = (if module_refer_count s = 0 then insert net (notifier_nets s) else notifier_nets s)"
    and "ct_event_notifier_registered s' \<longleftrightarrow> ct_event_notifier_registered s \<or> module_refer_count s = 0"
  using assms by (auto simp: nft_fullcone_init_def not_registered_def Let_def notifier_nets_call notifier_call_def
      split: if_splits)

lemma notifier_nets_destroy:
  "notifier_nets (nft_fullcone_destroy net fam s) =
     (if module_refer_count s = 1 \<and> ct_event_notifier_registered s then notifier_nets s - {net} else notifier_nets s)"
  by (simp add: nft_fullcone_destroy_def nft_fullcone_common_destory_def Let_def notifier_nets_call notifier_call_def)

text \<open>While rules exist the notifier is somewhere; with the rules of one namespace only it is there
  exactly while rules exist.\<close>

definition notifier_inv :: "rules \<times> expr_state \<Rightarrow> bool" where
  "notifier_inv x \<longleftrightarrow> (case x of (R, s) \<Rightarrow>
     fst ` set (live_rules R) \<subseteq> rule_nets R \<and> notifier_nets s \<subseteq> rule_nets R \<and>
     (ct_event_notifier_registered s \<longleftrightarrow> live_rules R \<noteq> []) \<and>
     (live_rules R \<noteq> [] \<longrightarrow> notifier_nets s \<noteq> {}) \<and>
     (\<forall>n. rule_nets R \<subseteq> {n} \<longrightarrow> live_rules R = [] \<longrightarrow> notifier_nets s = {}))"

lemma rule_step_failed_mono: "rule_step chain x y \<Longrightarrow> failed_rules (fst x) \<le> failed_rules (fst y) \<and> refused (fst x) \<le> refused (fst y)"
  by (induction rule: rule_step.induct) simp_all

lemma rule_step_notifier:
  assumes "rule_step chain x y" and "count_inv x" and "notifier_inv x"
    and "failed_rules (fst y) = 0" and "refused (fst y) = 0"
  shows "notifier_inv y"
  using assms
proof cases
  case (rule_added ret busy reg_ret net fam tb priv s err priv' s' R)
  have n: "not_registered chain busy reg_ret s = 0"
    using rule_added(2) assms(5) by simp
  note i = notifier_nets_init [OF rule_added(3) n]
  have c: "module_refer_count s = 0 \<longleftrightarrow> live_rules R = []"
    using assms(2,4) rule_added(1,2) by (simp add: count_inv_def)
  show ?thesis
    using assms(3) rule_added(1,2) i c by (auto simp: notifier_inv_def)
next
  case (rule_failed ret busy reg_ret net fam tb priv s err priv' s' R)
  with assms(4) show ?thesis
    by simp
next
  case (rule_gone net fam R s)
  have "module_refer_count s = int (length (live_rules R))"
    using assms(2,4) rule_gone(1,2) by (simp add: count_inv_def)
  moreover have "length (live_rules R) = Suc (length (remove1 (net, fam) (live_rules R)))"
    using rule_gone(3) by (metis One_nat_def Suc_pred length_pos_if_in_set length_remove1)
  ultimately have c: "module_refer_count s = 1 \<longleftrightarrow> remove1 (net, fam) (live_rules R) = []"
    by simp
  have "fst ` set (live_rules R) \<subseteq> rule_nets R"
    using assms(3) rule_gone(1) by (simp add: notifier_inv_def)
  then have live: "fst ` set (remove1 (net, fam) (live_rules R)) \<subseteq> rule_nets R"
    by (rule order_trans [OF image_mono [OF set_remove1_subset]])
  have ne: "live_rules R \<noteq> []"
    using rule_gone(3) by auto
  have in_nets: "net \<in> rule_nets R"
    using assms(3) rule_gone(1,3) by (force simp: notifier_inv_def)
  have one: "notifier_nets s \<subseteq> {net}" if "rule_nets R \<subseteq> {n}" for n
  proof -
    have "notifier_nets s \<subseteq> rule_nets R"
      using assms(3) rule_gone(1) by (simp add: notifier_inv_def)
    with in_nets that show ?thesis
      by blast
  qed
  show ?thesis
    using assms(3) rule_gone(1,2) live ne c in_nets one
    by (auto simp: notifier_inv_def notifier_nets_destroy destroy_count)
next
  case (event R s ct des mem)
  have "notifier_nets (ct_event_cb ct des mem s) = notifier_nets s"
    by (simp add: notifier_nets_def event_count)
  with event assms(3) show ?thesis
    by (simp add: notifier_inv_def event_count)
qed

lemma rules_notifier:
  assumes "(rule_step chain)\<^sup>*\<^sup>* (start_rules, unloaded\<lparr>wq := b, expr_types := ts\<rparr>) (R, s)"
    and "failed_rules R = 0" and "refused R = 0"
  shows "notifier_inv (R, s)"
proof -
  have "failed_rules (fst (R, s)) = 0 \<longrightarrow> refused (fst (R, s)) = 0 \<longrightarrow> notifier_inv (R, s)"
    using assms(1)
  proof (induction "(R, s)" arbitrary: R s rule: rtranclp_induct)
    case base
    then show ?case
      by (simp add: notifier_inv_def start_rules_def unloaded_def notifier_nets_def)
  next
    case (step y)
    obtain R' s' where y: "y = (R', s')" by (rule prod.exhaust)
    have "count_inv (R', s')"
      using rules_count(1) step.hyps(1) y by (simp add: count_inv_def)
    then show ?case
      using rule_step_failed_mono [OF step.hyps(2)] rule_step_notifier [OF step.hyps(2)] step.hyps(3) [OF y] y
      by auto
  qed
  then show ?thesis
    using assms(2,3) by simp
qed

end
