(* ===== verification/Fc_Session.thy ===== *)
theory Fc_Session
  imports Fc_System
begin

text \<open>
  How long a tracked connection stays tracked: through inbound and outbound packets of any
  kind while the connection is alive and the port range of each outbound rule has a free
  port, and through the dying-tuple handler as long as the connection itself is not on its
  list.
\<close>

section \<open>Keeping one reference\<close>

definition keeps_ref :: "nf_conntrack_tuple \<Rightarrow> 'a fc_table \<Rightarrow> 'a fc_table \<Rightarrow> bool" where
  "keeps_ref x t t' \<longleftrightarrow> (\<forall>p m. heap t p = Some m \<longrightarrow> x \<in> set (original_tuple_list m) \<longrightarrow>
     (\<exists>m'. heap t' p = Some m' \<and> same_key m m' \<and> x \<in> set (original_tuple_list m')))"

lemma keeps_ref_refl [simp]: "keeps_ref x t t"
  by (simp add: keeps_ref_def same_key_def)

lemma keeps_ref_trans:
  assumes "keeps_ref x t u" and "keeps_ref x u v"
  shows "keeps_ref x t v"
  unfolding keeps_ref_def
proof (intro allI impI)
  fix p m
  assume "heap t p = Some m" and "x \<in> set (original_tuple_list m)"
  then obtain m1 where 1: "heap u p = Some m1" "same_key m m1" "x \<in> set (original_tuple_list m1)"
    using assms(1) unfolding keeps_ref_def by blast
  then obtain m2 where 2: "heap v p = Some m2" "same_key m1 m2" "x \<in> set (original_tuple_list m2)"
    using assms(2) unfolding keeps_ref_def by blast
  have "same_key m m2"
    using 1(2) 2(2) by (simp add: same_key_def)
  with 2 show "\<exists>m'. heap v p = Some m' \<and> same_key m m' \<and> x \<in> set (original_tuple_list m')"
    by blast
qed

lemma keeps_ref_keeps:
  assumes "keeps live t t'" and "live x"
  shows "keeps_ref x t t'"
  unfolding keeps_ref_def
proof (intro allI impI)
  fix p m
  assume p: "heap t p = Some m" and x: "x \<in> set (original_tuple_list m)"
  then have mem: "x \<in> set (filter live (original_tuple_list m))"
    using assms(2) by simp
  have "filter live (original_tuple_list m) \<noteq> []"
    using x assms(2) by (auto simp: filter_empty_conv)
  with p obtain m' where "heap t' p = Some m'" "same_key m m'"
      "filter live (original_tuple_list m') = filter live (original_tuple_list m)"
    using assms(1) unfolding keeps_def by blast
  with mem show "\<exists>m'. heap t' p = Some m' \<and> same_key m m' \<and> x \<in> set (original_tuple_list m')"
    by (metis filter_is_subset subsetD)
qed

lemma keeps_ref_add_tuple: "keeps_ref x t (fc_add_tuple ok p y t)"
  by (auto simp: keeps_ref_def fc_add_tuple_def same_key_def split: option.split)

lemma keeps_ref_commit:
  assumes "\<And>p. sm = None \<Longrightarrow> e_kmalloc e = Some p \<Longrightarrow> heap t p = None"
  shows "keeps_ref x t (fc_post_commit K F e sm ct' t)"
proof (cases sm)
  case (Some p)
  then show ?thesis by (simp add: commit_reuse keeps_ref_add_tuple)
next
  case None
  show ?thesis
  proof (cases "e_kmalloc e")
    case None
    with \<open>sm = None\<close> show ?thesis by (simp add: commit_nomem)
  next
    case (Some p)
    have "keeps_ref x t (t\<lparr>heap := (heap t)(p \<mapsto> committed F e ct'), by_ext_port := A, by_int_src := B\<rparr>)"
      for A B
      using assms [OF None Some] by (auto simp: keeps_ref_def same_key_def)
    then show ?thesis
      unfolding None commit_new [OF Some] by (rule keeps_ref_trans [OF _ keeps_ref_add_tuple])
  qed
qed

lemma keeps_ref_release:
  assumes inv: "nat_inv K F t" and "\<not> g x"
  shows "keeps_ref x t (snd (fc_release g p t))"
proof (cases "heap t p")
  case None
  then show ?thesis by (simp add: fc_release_None)
next
  case (Some m)
  with assms(2) show ?thesis
    by (auto simp: keeps_ref_def release_at [OF inv Some] filter_empty_conv same_key_def)
qed

lemma tracked_keeps_ref:
  assumes "tracked F origin ct t" and "keeps_ref origin t t'"
  shows "tracked F origin ct t'"
proof -
  obtain p m where m: "heap t p = Some m" "is_source F origin m"
      "port m = be16_to_cpu (dst_port (tuple_repl ct))" "addr m = fam_get F (dst_u3 (tuple_repl ct))"
      "origin \<in> set (original_tuple_list m)"
    using assms(1) unfolding tracked_def by blast
  then obtain m' where m': "heap t' p = Some m'" "same_key m m'" "origin \<in> set (original_tuple_list m')"
    using assms(2) unfolding keeps_ref_def by blast
  with m same_keyD [OF m'(2)] show ?thesis
    unfolding tracked_def by (intro exI [of _ p]) (simp add: is_source_def)
qed

section \<open>The packet paths and the dying handler\<close>

lemma prerouting_keeps:
  assumes inv: "nat_inv K F t" and live: "e_live e x"
    and eq: "fc_prerouting K F e h nr t = (ret, nr', ct', t')"
  shows "keeps_ref x t t'"
proof (cases "dst_protonum (tuple_orig (e_ct e)) = IPPROTO_UDP")
  case False
  with eq show ?thesis by (simp add: prerouting_non_udp)
next
  case True
  obtain q t1 where g: "fc_get_by_ext_port K (e_live e) (be16_to_cpu (dst_port (tuple_orig (e_ct e))))
      (fam_get F (dst_u3 (tuple_orig (e_ct e)))) t = (q, t1)"
    by (rule prod.exhaust)
  have k: "keeps_ref x t t1"
    by (rule keeps_ref_keeps [OF get_ext_facts(3) [OF inv g] live])
  from True inv g show ?thesis
  proof (cases rule: prerouting_cases [where h = h and nr = nr])
    case miss
    with eq k show ?thesis by simp
  next
    case (hit p m r ct2)
    then show ?thesis
      using eq k keeps_ref_trans [OF k keeps_ref_add_tuple] by (auto split: if_splits)
  qed
qed

text \<open>Some port of the rule's range is free at an address.\<close>

definition port_left :: "nf_nat_range2 \<Rightarrow> 'a \<Rightarrow> 'a fc_table \<Rightarrow> bool" where
  "port_left r ip t \<longleftrightarrow>
     (\<exists>j < unat (port_range_size r). of_nat (unat (port_min r) + j) \<notin> ext_used ip t)"

lemma find_port_keeps:
  assumes inv: "nat_inv K F t" and left: "port_left r ip t"
    and eq: "find_port (\<lambda>p. fc_get_by_ext_port K live p ip) fc_kill_opt rnd op r t = Some (prt, t')"
  shows "keeps live t t'"
  using fc_probe.find_port_keep [of K F t live ip rnd op r prt t'] inv left eq
  unfolding nat_inv_def port_left_def by blast

lemma port_left_shrinks: "port_left r ip t \<Longrightarrow> shrinks t t' \<Longrightarrow> port_left r ip t'"
  unfolding port_left_def using ext_used_shrinks [of t t' ip] by blast

context addr_family
begin

lemma post_map_keeps:
  assumes inv: "nat_inv K F t" and live: "e_live e x"
    and one: "fam_get F (min_addr nr) = a" "fam_get F (max_addr nr) = a" and left: "port_left r a t"
    and eq: "fc_post_map K F lu e r nr t = Some (nr2, sm, t2)"
  shows "keeps_ref x t t2"
proof -
  let ?o = "tuple_orig (e_ct e)"
  let ?q = "src_lookup K F ?o a a t"
  obtain act t1 where c: "(case ?q of None \<Rightarrow> (False, t) | Some p \<Rightarrow> fc_check (e_live e) p t) = (act, t1)"
    by (rule prod.exhaust)
  have t1: "nat_inv K F t1" "shrinks t t1" "keeps (e_live e) t t1"
  proof (atomize (full), cases ?q)
    case None
    with c inv show "nat_inv K F t1 \<and> shrinks t t1 \<and> keeps (e_live e) t t1" by simp
  next
    case (Some p)
    with c have k: "fc_check (e_live e) p t = (act, t1)" by simp
    have "keeps (e_live e) t t1"
      using keeps_check [OF nat_invD(1) [OF inv], of "e_live e" p] k by simp
    with check_nat [OF inv k] show "nat_inv K F t1 \<and> shrinks t t1 \<and> keeps (e_live e) t t1" by simp
  qed
  show ?thesis
  proof (cases "if act then Option.bind ?q (heap t1) else None")
    case (Some m)
    with eq c one have "t2 = t1"
      by (simp add: post_map_unfold Let_def)
    with keeps_ref_keeps [OF t1(3) live] show ?thesis by simp
  next
    case None
    with eq c one obtain prt where f: "find_port (\<lambda>p. fc_get_by_ext_port K (e_live e) p a)
        fc_kill_opt (e_rnd e) (be16_to_cpu (src_port ?o)) r t1 = Some (prt, t2)"
      by (simp add: post_map_unfold Let_def split: option.splits prod.splits)
    from keeps_trans [OF t1(3) find_port_keeps [OF t1(1) port_left_shrinks [OF left t1(2)] f]] live
    show ?thesis by (rule keeps_ref_keeps)
  qed
qed

lemma postrouting_keeps:
  assumes inv: "nat_inv K F t" and live: "e_live e x" and mem: "kmalloc_ok K F lu sel e r nr t"
    and one: "one_addr F sel r = Some a" and left: "port_left r a t"
    and eq: "fc_postrouting K F lu sel e h r nr t = Some (ret, nr', ct', t')"
  shows "keeps_ref x t t'"
  using eq
proof (cases rule: postrouting_cases)
  case (failed nr1 ct1 sm)
  with post_map_keeps [OF inv live _ _ left failed(3)] post_addr_one [OF failed(1) one]
  show ?thesis by simp
next
  case (mapped nr1 ct1 sm t2)
  have "heap t2 p = None" if "e_kmalloc e = Some p" for p
    using mem mapped(1,3) that unfolding kmalloc_ok_def by blast
  then have c: "keeps_ref x t2 t'"
    using keeps_ref_commit [of sm e t2 x K F ct'] mapped(6) by simp
  have "keeps_ref x t t2"
    using post_map_keeps [OF inv live _ _ left mapped(3)] post_addr_one [OF mapped(1) one] by simp
  from keeps_ref_trans [OF this c] show ?thesis .
qed simp_all

end

lemma dying_one_keeps:
  "nat_inv K F t \<Longrightarrow> tuple_original item \<noteq> x \<Longrightarrow> keeps_ref x t (fc_dying_one K F item t)"
  using keeps_ref_release [of K F t "\<lambda>y. y = tuple_original item" x]
  by (auto simp: dying_one_unfold split: option.split)

section \<open>A session of one IPv4 connection\<close>

text \<open>The steps that leave a connection tracked.\<close>

inductive session_step :: "kernel \<Rightarrow> nf_conntrack_tuple \<Rightarrow> fullcone \<Rightarrow> fullcone \<Rightarrow> bool"
  for K origin
  where
    inbound: "nf_nat_fullcone_hook K nfp e NF_INET_PRE_ROUTING r s = Some (ret, nr', ct', s') \<Longrightarrow>
      e_live e origin \<Longrightarrow> session_step K origin s s'"
  | outbound4: "env_ok K NFPROTO_IPV4 e r s \<Longrightarrow> e_live e origin \<Longrightarrow>
      one_addr fam4 (select_addr4 e) r = Some a \<Longrightarrow> port_left r a (t4 s) \<Longrightarrow>
      nf_nat_fullcone_hook K NFPROTO_IPV4 e NF_INET_POST_ROUTING r s = Some (ret, nr', ct', s') \<Longrightarrow>
      session_step K origin s s'"
  | outbound6: "env_ok K NFPROTO_IPV6 e r s \<Longrightarrow> single_rule NFPROTO_IPV6 r \<Longrightarrow>
      nf_nat_fullcone_hook K NFPROTO_IPV6 e NF_INET_POST_ROUTING r s = Some (ret, nr', ct', s') \<Longrightarrow>
      session_step K origin s s'"
  | conn_dies: "tuple_original item \<noteq> origin \<Longrightarrow>
      session_step K origin s (nf_nat_fullcone_dying_tuple_list_add item s)"
  | gc_dying: "\<forall>item\<in>set (dying_tuple_list s). tuple_original item \<noteq> origin \<Longrightarrow>
      session_step K origin s (nf_nat_fullcone_handle_dying_tuples K s)"

lemma dying_fold_keeps:
  "sys_inv K s \<Longrightarrow> \<forall>item\<in>set items. tuple_original item \<noteq> x \<Longrightarrow>
     keeps_ref x (t4 s) (t4 (fold (dying_step K) items s))"
proof (induction items arbitrary: s)
  case Nil
  then show ?case by simp
next
  case (Cons i items)
  have k: "keeps_ref x (t4 s) (t4 (dying_step K i s))"
    using Cons.prems dying_one_keeps [of K fam4 "t4 s" i x]
    by (simp add: dying_step_def sys_inv_def Let_def)
  from Cons.IH [OF dying_step_ok(1) [OF Cons.prems(1)]] Cons.prems(2)
  show ?case using keeps_ref_trans [OF k] by simp
qed

lemma single_rule_one:
  "one_addr fam4 sel r = Some a \<Longrightarrow> single_rule NFPROTO_IPV4 r"
  by (auto simp: one_addr_def single_rule_def fam4_def split: if_splits)

lemma session_step_ok:
  assumes "session_step K origin s s'" and inv: "sys_inv K s" and u: "sys_unique s"
  shows "sys_inv K s' \<and> sys_unique s' \<and> keeps_ref origin (t4 s) (t4 s')"
  using assms(1)
proof cases
  case (inbound nfp e r ret nr' ct')
  then have h: "nf_nat_handle_prerouting K nfp e NF_INET_PRE_ROUTING (init_newrange r) s = (ret, nr', ct', s')"
    by (simp add: nf_nat_fullcone_hook_def)
  have "keeps_ref origin (t4 s) (t4 s')"
  proof (cases nfp)
    case NFPROTO_IPV4
    obtain rt n c t where f: "fc_prerouting K fam4 e NF_INET_PRE_ROUTING (init_newrange r) (t4 s) = (rt, n, c, t)"
      by (rule prod_cases4)
    have "nat_inv K fam4 (t4 s)" using inv by (simp add: sys_inv_def)
    from prerouting_keeps [OF this inbound(2) f] h f NFPROTO_IPV4 show ?thesis
      by (simp add: nf_nat_handle_prerouting_def) auto
  next
    case NFPROTO_IPV6
    with h show ?thesis
      by (auto simp: nf_nat_handle_prerouting_def split: prod.splits)
  qed
  with handle_prerouting_ok [OF inv h] sys_unique_from [OF u] show ?thesis by blast
next
  case (outbound4 e r a ret nr' ct')
  have k: "keeps_ref origin (t4 s) (t4 s')"
    using outbound4(5)
  proof (cases rule: hook_out_split)
    case (v4 t)
    have "nat_inv K fam4 (t4 s)" using inv by (simp add: sys_inv_def)
    from fam4.postrouting_keeps [OF this outbound4(2) _ outbound4(3,4) v4(3)] outbound4(1) v4(2)
    show ?thesis by (simp add: env_ok_def)
  qed simp
  from hook_out_ok [OF inv outbound4(1,5)] single_rule_one [OF outbound4(3)] u k show ?thesis
    by blast
next
  case (outbound6 e r ret nr' ct')
  have "t4 s' = t4 s"
    using outbound6(3) by (cases rule: hook_out_split) simp_all
  then have k: "keeps_ref origin (t4 s) (t4 s')" by simp
  from hook_out_ok [OF inv outbound6(1,3)] outbound6(2) u k show ?thesis by blast
next
  case (conn_dies item)
  with inv u show ?thesis
    by (simp add: nf_nat_fullcone_dying_tuple_list_add_def sys_inv_def sys_unique_def)
next
  case gc_dying
  have "keeps_ref origin (t4 s) (t4 s')"
    using dying_fold_keeps [OF inv gc_dying(2)] gc_dying(1)
    by (simp add: nf_nat_fullcone_handle_dying_tuples_def)
  with gc_dying(1) handle_dying_ok [OF inv] sys_unique_from [OF u] show ?thesis by blast
qed

lemma session_ok:
  assumes "(session_step K origin)\<^sup>*\<^sup>* s s'" and "sys_inv K s" and "sys_unique s"
  shows "sys_inv K s' \<and> sys_unique s' \<and> keeps_ref origin (t4 s) (t4 s')"
  using assms(1)
proof (induction rule: rtranclp_induct)
  case base
  with assms show ?case by simp
next
  case (step u v)
  with session_step_ok [OF step.hyps(2)] keeps_ref_trans show ?case by blast
qed

end
