(* ===== verification/Fc_Theorems.thy ===== *)
theory Fc_Theorems
  imports Fc_Session
begin

text \<open>
  The properties of the full-cone NAT library that its users rely on, stated of the exported
  entry points and of the table operations, with a concrete IPv4 exchange as the witness of
  their hypotheses.
\<close>

section \<open>A concrete exchange\<close>

definition demo_tuple :: "be32 \<Rightarrow> be16 \<Rightarrow> be32 \<Rightarrow> be16 \<Rightarrow> nf_conntrack_tuple" where
  "demo_tuple s sp d dp =
     \<lparr>src_u3 = inet_zero\<lparr>all0 := s\<rparr>, src_port = sp, src_l3num = PF_INET,
      dst_u3 = inet_zero\<lparr>all0 := d\<rparr>, dst_port = dp, dst_protonum = IPPROTO_UDP\<rparr>"

definition demo_setup :: "nf_conn \<Rightarrow> nf_nat_range2 \<Rightarrow> nat \<Rightarrow> u32 \<times> nf_conn" where
  "demo_setup ct r h =
     (NF_ACCEPT, ct\<lparr>tuple_repl := (tuple_repl ct)\<lparr>dst_u3 := min_addr r, dst_port := min_proto r\<rparr>\<rparr>)"

definition demo_env :: "nf_conntrack_tuple \<Rightarrow> pkt_env" where
  "demo_env x =
     \<lparr>e_ct = \<lparr>tuple_orig = x, tuple_repl = demo_tuple (all0 (dst_u3 x)) (dst_port x) (all0 (src_u3 x)) (src_port x),
              masq_index = None\<rparr>,
      e_zone = 0, e_live = (\<lambda>_. True), e_setup = demo_setup, e_newsrc = 0x01020304, e_v6_ops = None,
      e_nat_ext = True, e_ifindex = 2, e_rnd = 7, e_kmalloc = Some 40, e_kmalloc_tuple = True\<rparr>"

definition demo_range :: nf_nat_range2 where
  "demo_range = \<lparr>flags = 0, min_addr = inet_zero, max_addr = inet_zero, min_proto = 0, max_proto = 0\<rparr>"

text \<open>The inside host 10.0.0.2:4096 sends to two servers; the second one answers.\<close>

definition demo_conn :: nf_conntrack_tuple where
  "demo_conn = demo_tuple 0x0200000a 0x0010 0x08080808 0x3500"
definition demo_conn2 :: nf_conntrack_tuple where
  "demo_conn2 = demo_tuple 0x0200000a 0x0010 0x01010101 0x3500"
definition demo_stranger :: nf_conntrack_tuple where
  "demo_stranger = demo_tuple 0x09090909 0x1111 0x01020304 0x0010"

lemmas demo_defs = demo_conn_def demo_conn2_def demo_stranger_def demo_env_def demo_tuple_def demo_range_def

lemma demo_setup_ok: "setup_ok fam4 (demo_env x)" "setup_ok fam6 (demo_env x)"
  by (auto simp: setup_ok_def demo_env_def demo_setup_def fam4_def fam6_def)

lemma demo_kmalloc_ok:
  assumes "nat_inv K fam4 t" and "heap t 40 = None"
  shows "kmalloc_ok K fam4 lu sel (demo_env x) r nr t"
  unfolding kmalloc_ok_def
proof (intro allI impI)
  fix nr1 ct1 nr2 sm t2 p
  assume m: "fc_post_map K fam4 lu (demo_env x) r nr1 t = Some (nr2, sm, t2)"
    and k: "e_kmalloc (demo_env x) = Some p"
  have "p = 40"
    using k by (simp add: demo_env_def)
  with shrinks_dom [OF conjunct2 [OF fam4.post_map_facts(1) [OF assms(1) m]]] assms(2)
  show "heap t2 p = None" by simp
qed

lemma demo_env_ok: "env_ok K NFPROTO_IPV4 (demo_env x) r init_fullcone"
  using demo_kmalloc_ok [OF nat_inv_empty(1)]
  by (simp add: env_ok_def demo_setup_ok init_fullcone_def empty_table_def)

lemma demo_single: "single_rule nfp demo_range" and demo_not_random: "\<not> port_random demo_range"
  by (simp_all add: single_rule_def port_random_def has_flag_def demo_range_def range_flag_defs)

lemma demo_reachable: "reachable K allowed init_fullcone"
  by (simp add: reachable_def)

lemma find_port_total: "\<not> port_random r \<Longrightarrow> find_port get kill rnd op r t \<noteq> None"
  by (simp add: find_port_def Let_def split: prod.split option.split)

lemma post_map_total: "\<not> port_random r \<Longrightarrow> fc_post_map K F lu e r nr t \<noteq> None"
  by (simp add: fc_post_map_def Let_def find_port_total split: prod.split option.split del: not_None_eq)

lemma postrouting_total: "\<not> port_random r \<Longrightarrow> fc_postrouting K F lu sel e h r nr t \<noteq> None"
  by (simp add: fc_postrouting_def Let_def post_map_total split: prod.split option.split
      del: not_None_eq)

lemma hook_out_total:
  assumes "\<not> port_random r"
  shows "\<exists>ret nr ct s'. nf_nat_fullcone_hook K nfp e NF_INET_POST_ROUTING r s = Some (ret, nr, ct, s')"
proof -
  have "nf_nat_handle_postrouting K nfp e NF_INET_POST_ROUTING r (init_newrange r) s \<noteq> None"
    by (cases nfp) (simp_all add: nf_nat_handle_postrouting_def postrouting_total [OF assms] del: not_None_eq)
  then show ?thesis
    by (simp add: nf_nat_fullcone_hook_def NF_INET_POST_ROUTING_def NF_INET_PRE_ROUTING_def)
qed

text \<open>The first packet of the exchange, evaluated.\<close>

lemma demo_first:
  "\<exists>nr1 ct1 s1. nf_nat_fullcone_ipv4 demo_kernel (demo_env demo_conn) NF_INET_POST_ROUTING demo_range init_fullcone
     = Some (NF_ACCEPT, nr1, ct1, s1) \<and> all0 (min_addr nr1) = 0x01020304 \<and> min_proto nr1 = 0x0010
     \<and> all0 (dst_u3 (tuple_repl ct1)) = 0x01020304 \<and> dst_port (tuple_repl ct1) = 0x0010"
  by (simp add: nf_nat_fullcone_ipv4_def nf_nat_fullcone_hook_def nf_nat_handle_postrouting_def
      fc_postrouting_def fc_post_addr_def fc_post_map_def Let_def init_fullcone_def empty_table_def
      init_newrange_def demo_defs demo_setup_def NF_INET_POST_ROUTING_def NF_INET_PRE_ROUTING_def
      select_addr4_def has_flag_def range_flag_defs fam4_def set_single_def set_addr_def
      fc_get_by_int_src_def fc_find_def find_port_def port_random_def port_range_size_def port_min_def
      fc_get_by_ext_port_def)

section \<open>Endpoint independence\<close>

lemma sessionD:
  assumes "reachable K single_rule s" and "env_ok K NFPROTO_IPV4 e r s" and "single_rule NFPROTO_IPV4 r"
    and "nf_nat_fullcone_ipv4 K e NF_INET_POST_ROUTING r s = Some (NF_ACCEPT, nr, ct, s1)"
    and "dst_protonum (tuple_orig (e_ct e)) = IPPROTO_UDP"
    and "e_kmalloc e = Some q" and "e_kmalloc_tuple e"
    and "(session_step K (tuple_orig (e_ct e)))\<^sup>*\<^sup>* s1 s2"
  shows "nat_inv K fam4 (t4 s2)" and "src_unique (t4 s2)" and "tracked fam4 (tuple_orig (e_ct e)) ct (t4 s2)"
    and "all0 (dst_u3 (tuple_repl ct)) = all0 (min_addr nr)" and "dst_port (tuple_repl ct) = min_proto nr"
proof -
  have inv: "sys_inv K s" and u: "sys_unique s"
    using reachable_sys [OF assms(1)] by simp_all
  note h = assms(4) [unfolded nf_nat_fullcone_ipv4_def]
  have s1: "sys_inv K s1" "sys_unique s1"
    using hook_out_ok [OF inv assms(2) h] assms(3) u by blast+
  note s2 = session_ok [OF assms(8) s1]
  from h obtain t where t: "s1 = s\<lparr>t4 := t\<rparr>" "fc_postrouting K fam4 (find_leastused_ip K) (select_addr4 e) e
      NF_INET_POST_ROUTING r (init_newrange r) (t4 s) = Some (NF_ACCEPT, nr, ct, t)"
    by (cases rule: hook_out_split) blast+
  have "nat_inv K fam4 (t4 s)" "setup_ok fam4 e"
    using inv assms(2) by (simp_all add: sys_inv_def env_ok_def)
  note tr = fam4.postrouting_tracked [OF this t(2) assms(5,6,7)]
  show "nat_inv K fam4 (t4 s2)" and "src_unique (t4 s2)"
    using s2 by (simp_all add: sys_inv_def sys_unique_def)
  show "tracked fam4 (tuple_orig (e_ct e)) ct (t4 s2)"
    using tracked_keeps_ref [of fam4 _ ct t "t4 s2"] tr s2 t(1) by simp
  show "all0 (dst_u3 (tuple_repl ct)) = all0 (min_addr nr)" and "dst_port (tuple_repl ct) = min_proto nr"
    using tr by (simp_all add: fam4_def)
qed





section \<open>Reachable states\<close>

lemma demo_tracked:
  "\<exists>s1 ct. reachable demo_kernel single_rule s1 \<and> tracked fam4 demo_conn ct (t4 s1)"
proof -
  obtain nr1 ct1 s1 where 1: "nf_nat_fullcone_ipv4 demo_kernel (demo_env demo_conn)
      NF_INET_POST_ROUTING demo_range init_fullcone = Some (NF_ACCEPT, nr1, ct1, s1)"
    using demo_first by blast
  have "fc_step demo_kernel single_rule init_fullcone s1"
    by (rule fc_step.outbound [where nfp = NFPROTO_IPV4 and allowed = single_rule,
          OF demo_env_ok demo_single 1 [unfolded nf_nat_fullcone_ipv4_def]])
  then have r: "reachable demo_kernel single_rule s1"
    by (simp add: reachable_def r_into_rtranclp)
  have "tracked fam4 (tuple_orig (e_ct (demo_env demo_conn))) ct1 (t4 s1)"
    by (rule sessionD(3) [OF demo_reachable demo_env_ok demo_single 1 _ _ _ rtranclp.rtrancl_refl])
      (simp_all add: demo_defs)
  moreover have "tuple_orig (e_ct (demo_env demo_conn)) = demo_conn"
    by (simp add: demo_env_def)
  ultimately show ?thesis
    using r by auto
qed

lemma demo_state:
  "\<exists>s1 p m. reachable demo_kernel single_rule s1 \<and> heap (t4 s1) p = Some m \<and> original_tuple_list m \<noteq> []"
proof -
  obtain s ct where r: "reachable demo_kernel single_rule s" and tr: "tracked fam4 demo_conn ct (t4 s)"
    using demo_tracked by blast
  obtain p m where m: "heap (t4 s) p = Some m" "demo_conn \<in> set (original_tuple_list m)"
    using tr unfolding tracked_def by blast
  then have "original_tuple_list m \<noteq> []"
    by (cases "original_tuple_list m") simp_all
  with m(1) r show ?thesis by blast
qed

text \<open>C3.  In every reachable state of the module, with any rules, the two hash tables of each
  family index exactly the mappings on the heap, each in the bucket of its key, reference
  counts are exact, and no two mappings share an external address and port.\<close>

theorem reachable_tables_consistent:
  assumes "reachable K allowed s"
  shows "tbl_inv K fam4 (t4 s) \<and> ext_unique (t4 s) \<and> tbl_inv K fam6 (t6 s) \<and> ext_unique (t6 s)"
  using reachable_sys(1) [OF assms] by (simp add: sys_inv_def nat_inv_def)

theorem reachable_tables_consistent_witness:
  "\<exists>s p m. reachable demo_kernel single_rule s \<and> heap (t4 s) p = Some m \<and> refer_count m > 0 \<and>
     tbl_inv demo_kernel fam4 (t4 s)"
proof -
  obtain s p m where s: "reachable demo_kernel single_rule s" "heap (t4 s) p = Some m"
      "original_tuple_list m \<noteq> []"
    using demo_state by blast
  note t = reachable_tables_consistent [OF s(1)]
  have "refer_count m > 0"
    using tbl_inv_count [OF conjunct1 [OF t] s(2)] s(3) by simp
  with s t show ?thesis by blast
qed

text \<open> With rules that name one external address, an inside endpoint has at most one
  mapping per external address in every reachable state.\<close>

theorem reachable_sources_unique:
  assumes "reachable K single_rule s"
  shows "src_unique (t4 s) \<and> src_unique (t6 s)"
  using reachable_sys(2) [OF assms] by (simp add: sys_unique_def)

theorem reachable_sources_unique_witness:
  "\<exists>s p m. reachable demo_kernel single_rule s \<and> heap (t4 s) p = Some m \<and> src_unique (t4 s)"
  using demo_state reachable_sources_unique [of demo_kernel] by blast

section \<open>IPv6\<close>

definition demo_env6 :: "nf_conntrack_tuple \<Rightarrow> pkt_env" where
  "demo_env6 x = (demo_env x)\<lparr>e_v6_ops := Some (0, inet_zero\<lparr>all0 := 0x20, all3 := 5\<rparr>)\<rparr>"

definition demo_reply6 :: nf_conntrack_tuple where
  "demo_reply6 = (demo_tuple 0x09090909 0x1111 0x20 0x0010)\<lparr>dst_u3 := inet_zero\<lparr>all0 := 0x20, all3 := 5\<rparr>\<rparr>"

lemma demo6_ok: "env_ok K NFPROTO_IPV6 (demo_env6 x) r init_fullcone"
proof -
  have "kmalloc_ok K fam6 lu sel (demo_env6 x) r nr empty_table" for lu sel r nr
    unfolding kmalloc_ok_def
  proof (intro allI impI)
    fix nr1 ct1 nr2 sm t2 p
    assume m: "fc_post_map K fam6 lu (demo_env6 x) r nr1 empty_table = Some (nr2, sm, t2)"
    from shrinks_dom [OF conjunct2 [OF fam6.post_map_facts(1) [OF nat_inv_empty(1) m]], of p]
    show "heap t2 p = None" by (simp add: empty_table_def)
  qed
  moreover have "setup_ok fam6 (demo_env6 x)"
    by (auto simp: setup_ok_def demo_env6_def demo_env_def demo_setup_def fam6_def)
  ultimately show ?thesis
    by (simp add: env_ok_def init_fullcone_def)
qed

lemma demo6_first:
  "\<exists>nr1 ct1 s1. nf_nat_fullcone_ipv6 demo_kernel (demo_env6 demo_conn) NF_INET_POST_ROUTING demo_range init_fullcone
     = Some (NF_ACCEPT, nr1, ct1, s1) \<and> min_addr nr1 = inet_zero\<lparr>all0 := 0x20, all3 := 5\<rparr> \<and> min_proto nr1 = 0x0010"
  by (simp add: nf_nat_fullcone_ipv6_def nf_nat_fullcone_hook_def nf_nat_handle_postrouting_def
      fc_postrouting_def fc_post_addr_def fc_post_map_def Let_def init_fullcone_def empty_table_def
      init_newrange_def demo_defs demo_env6_def demo_setup_def NF_INET_POST_ROUTING_def NF_INET_PRE_ROUTING_def
      select_addr6_def nat_ipv6_dev_get_saddr_def has_flag_def range_flag_defs fam6_def set_single_def set_addr_def
      fc_get_by_int_src_def fc_find_def find_port_def port_random_def port_range_size_def port_min_def
      fc_get_by_ext_port_def)

text \<open>C4.  The IPv6 path is a full cone too: after an accepted outbound UDP packet, a packet
  from any remote endpoint to the external endpoint is translated back to the inside one.\<close>

theorem fullcone6_roundtrip:
  assumes "reachable K allowed s" and "env_ok K NFPROTO_IPV6 e1 r1 s"
    and "nf_nat_fullcone_ipv6 K e1 NF_INET_POST_ROUTING r1 s = Some (NF_ACCEPT, nr1, ct1, s1)"
    and "dst_protonum (tuple_orig (e_ct e1)) = IPPROTO_UDP"
    and "e_kmalloc e1 = Some q" and "e_kmalloc_tuple e1"
    and "e_live e2 (tuple_orig (e_ct e1))"
    and "dst_protonum (tuple_orig (e_ct e2)) = IPPROTO_UDP"
    and "dst_u3 (tuple_orig (e_ct e2)) = min_addr nr1" and "dst_port (tuple_orig (e_ct e2)) = min_proto nr1"
    and "nf_nat_fullcone_ipv6 K e2 NF_INET_PRE_ROUTING r2 s1 = Some (ret2, nr2, ct2, s2)"
  shows "min_addr nr2 = src_u3 (tuple_orig (e_ct e1)) \<and> max_addr nr2 = src_u3 (tuple_orig (e_ct e1)) \<and>
    min_proto nr2 = src_port (tuple_orig (e_ct e1)) \<and> max_proto nr2 = src_port (tuple_orig (e_ct e1)) \<and>
    flags nr2 = single_flags \<and> (ret2, ct2) = e_setup e2 (e_ct e2) nr2 NF_INET_PRE_ROUTING"
proof -
  note h = assms(3) [unfolded nf_nat_fullcone_ipv6_def]
  have inv: "sys_inv K s" by (rule reachable_sys(1) [OF assms(1)])
  have s1: "nat_inv K fam6 (t6 s1)"
    using hook_out_ok(1) [OF inv assms(2) h] by (simp add: sys_inv_def)
  from h obtain t where t: "s1 = s\<lparr>t6 := t\<rparr>" "fc_postrouting K fam6 (find_leastused_ip6 K) (select_addr6 e1) e1
      NF_INET_POST_ROUTING r1 (init_newrange r1) (t6 s) = Some (NF_ACCEPT, nr1, ct1, t)"
    by (cases rule: hook_out_split) blast+
  have "nat_inv K fam6 (t6 s)" "setup_ok fam6 e1"
    using inv assms(2) by (simp_all add: sys_inv_def env_ok_def)
  note tr = fam6.postrouting_tracked [OF this t(2) assms(4,5,6)]
  from assms(11) obtain t' where
    "fc_prerouting K fam6 e2 NF_INET_PRE_ROUTING (init_newrange r2) (t6 s1) = (ret2, nr2, ct2, t')"
    by (auto simp: nf_nat_fullcone_ipv6_def nf_nat_fullcone_hook_def nf_nat_handle_prerouting_def
        split: prod.splits)
  from fam6.prerouting_tracked [OF s1 _ assms(7,8) _ _ this, of ct1] tr t(1) assms(9,10)
  show ?thesis by (simp add: fam6_def)
qed

theorem fullcone6_roundtrip_witness:
  "\<exists>nr1 ct1 s1 ret2 nr2 ct2 s2.
     nf_nat_fullcone_ipv6 demo_kernel (demo_env6 demo_conn) NF_INET_POST_ROUTING demo_range init_fullcone
       = Some (NF_ACCEPT, nr1, ct1, s1) \<and>
     nf_nat_fullcone_ipv6 demo_kernel (demo_env6 demo_reply6) NF_INET_PRE_ROUTING demo_range s1
       = Some (ret2, nr2, ct2, s2) \<and> min_addr nr2 = inet_zero\<lparr>all0 := 0x0200000a\<rparr> \<and> min_proto nr2 = 0x0010"
proof -
  obtain nr1 ct1 s1 where 1: "nf_nat_fullcone_ipv6 demo_kernel (demo_env6 demo_conn)
      NF_INET_POST_ROUTING demo_range init_fullcone = Some (NF_ACCEPT, nr1, ct1, s1)"
      "min_addr nr1 = inet_zero\<lparr>all0 := 0x20, all3 := 5\<rparr>" "min_proto nr1 = 0x0010"
    using demo6_first by blast
  obtain ret2 nr2 ct2 s2 where 2: "nf_nat_fullcone_ipv6 demo_kernel (demo_env6 demo_reply6)
      NF_INET_PRE_ROUTING demo_range s1 = Some (ret2, nr2, ct2, s2)"
    by (cases "nf_nat_handle_prerouting demo_kernel NFPROTO_IPV6 (demo_env6 demo_reply6)
        NF_INET_PRE_ROUTING (init_newrange demo_range) s1")
      (simp add: nf_nat_fullcone_ipv6_def nf_nat_fullcone_hook_def)
  have "min_addr nr2 = src_u3 (tuple_orig (e_ct (demo_env6 demo_conn))) \<and>
    max_addr nr2 = src_u3 (tuple_orig (e_ct (demo_env6 demo_conn))) \<and>
    min_proto nr2 = src_port (tuple_orig (e_ct (demo_env6 demo_conn))) \<and>
    max_proto nr2 = src_port (tuple_orig (e_ct (demo_env6 demo_conn))) \<and>
    flags nr2 = single_flags \<and>
    (ret2, ct2) = e_setup (demo_env6 demo_reply6) (e_ct (demo_env6 demo_reply6)) nr2 NF_INET_PRE_ROUTING"
    by (rule fullcone6_roundtrip [OF demo_reachable demo6_ok 1(1) _ _ _ _ _ _ _ 2])
      (simp_all add: 1 demo_defs demo_env6_def demo_reply6_def)
  with 1 2 show ?thesis
    by (simp add: demo_defs demo_env6_def)
qed

section \<open>Choosing a port\<close>

lemma find_appropriate_port_eq:
  "find_appropriate_port K live rnd op ip r t =
     find_port (\<lambda>p. fc_get_by_ext_port K live p ip) fc_kill_opt rnd op r t"
  by (simp add: find_appropriate_port_def family_defs)

text \<open>C5.  \<open>find_appropriate_port\<close> keeps the tables consistent, returns a port that no mapping at
  the external address holds afterwards, and loses no mapping with a live connection as
  long as some port of the range is free.\<close>

theorem find_appropriate_port_free:
  assumes "tbl_inv K fam4 t" and "ext_unique t"
    and "find_appropriate_port K live rnd op ip r t = Some (p, t')"
  shows "tbl_inv K fam4 t' \<and> ext_unique t' \<and>
    (\<forall>q m. heap t' q = Some m \<longrightarrow> \<not> (port m = p \<and> addr m = ip)) \<and>
    (port_left r ip t \<longrightarrow> (\<forall>q m. heap t q = Some m \<longrightarrow> filter live (original_tuple_list m) \<noteq> [] \<longrightarrow>
       (\<exists>m'. heap t' q = Some m' \<and> same_key m m' \<and>
          filter live (original_tuple_list m') = filter live (original_tuple_list m))))"
proof -
  have inv: "nat_inv K fam4 t"
    using assms(1,2) by (simp add: nat_inv_def)
  note eq = assms(3) [unfolded find_appropriate_port_eq]
  note f = find_port_facts [OF inv eq]
  from f(3) have free: "\<forall>q m. heap t' q = Some m \<longrightarrow> \<not> (port m = p \<and> addr m = ip)"
    unfolding ext_used_def by blast
  have "port_left r ip t \<longrightarrow> keeps live t t'"
    using find_port_keeps [OF inv _ eq] by blast
  with f(1) free show ?thesis
    unfolding nat_inv_def keeps_def by blast
qed

theorem find_appropriate_port_free_witness:
  "\<exists>t'. find_appropriate_port demo_kernel (\<lambda>_. True) 7 4096 5 demo_range empty_table = Some (4096, t') \<and>
     tbl_inv demo_kernel fam4 t'"
proof -
  have "\<exists>t'. find_appropriate_port demo_kernel (\<lambda>_. True) 7 4096 5 demo_range empty_table = Some (4096, t')"
    by (simp add: find_appropriate_port_eq find_port_def port_random_def has_flag_def demo_range_def
        fc_get_by_ext_port_def empty_table_def)
  then obtain t' where
    t: "find_appropriate_port demo_kernel (\<lambda>_. True) 7 4096 5 demo_range empty_table = Some (4096, t')"
    by blast
  from find_appropriate_port_free [OF tbl_inv_empty nat_invD(2) [OF nat_inv_empty(1)] t] t
  show ?thesis by blast
qed

text \<open> The port search fails in exactly one way, a division by zero: when a random start is
  requested over a port range whose size wraps to zero, as \<open>0-65535\<close> does.\<close>

theorem find_appropriate_port_div_zero:
  "find_appropriate_port K live rnd op ip r t = None \<longleftrightarrow>
     (has_flag r NF_NAT_RANGE_PROTO_RANDOM \<or> has_flag r NF_NAT_RANGE_PROTO_RANDOM_FULLY) \<and>
     has_flag r NF_NAT_RANGE_PROTO_SPECIFIED \<and>
     be16_to_cpu (max_proto r) + 1 = be16_to_cpu (min_proto r)"
proof -
  have "find_appropriate_port K live rnd op ip r t = None \<longleftrightarrow> port_random r \<and> port_range_size r = 0"
    by (simp add: find_appropriate_port_eq find_port_def Let_def split: prod.split option.split)
  moreover have "port_range_size r = 0 \<longleftrightarrow> has_flag r NF_NAT_RANGE_PROTO_SPECIFIED \<and>
      be16_to_cpu (max_proto r) + 1 = be16_to_cpu (min_proto r)"
    by (simp add: port_range_size_def) (simp add: algebra_simps)
  ultimately show ?thesis
    by (simp add: port_random_def)
qed

text \<open> A rule with ports \<open>min-max\<close> in order (other than \<open>0-65535\<close>) gets a port of that
  range, whatever the table holds.\<close>

theorem find_appropriate_port_in_range:
  assumes "has_flag r NF_NAT_RANGE_PROTO_SPECIFIED"
    and "be16_to_cpu (min_proto r) \<le> be16_to_cpu (max_proto r)"
    and "\<not> (be16_to_cpu (min_proto r) = 0 \<and> be16_to_cpu (max_proto r) = 65535)"
    and "find_appropriate_port K live rnd op ip r t = Some (p, t')"
  shows "be16_to_cpu (min_proto r) \<le> p \<and> p \<le> be16_to_cpu (max_proto r)"
proof -
  note sz = port_range_specified [OF assms(1,2,3)]
  have le: "unat (be16_to_cpu (min_proto r)) \<le> unat (be16_to_cpu (max_proto r))"
    using assms(2) by (simp add: word_le_nat_alt)
  have fit: "unat (port_min r) + unat (port_range_size r) \<le> 2 ^ 16"
    using sz le unat_u16_less [of "be16_to_cpu (max_proto r)"] by simp
  have ne: "port_range_size r \<noteq> 0"
    using sz(2) by auto
  from find_port_range [OF fit ne assms(4) [unfolded find_appropriate_port_eq]] assms(1) sz le
  show ?thesis by (simp add: word_le_nat_alt)
qed

definition demo_ports :: nf_nat_range2 where
  "demo_ports = demo_range\<lparr>flags := 6, min_proto := cpu_to_be16 5000, max_proto := cpu_to_be16 5009\<rparr>"

theorem find_appropriate_port_in_range_witness:
  "\<exists>p t'. find_appropriate_port demo_kernel (\<lambda>_. True) 7 80 5 demo_ports empty_table = Some (p, t') \<and>
     5000 \<le> p \<and> p \<le> 5009"
proof -
  have f: "has_flag demo_ports NF_NAT_RANGE_PROTO_SPECIFIED"
    and r: "be16_to_cpu (min_proto demo_ports) = 5000" "be16_to_cpu (max_proto demo_ports) = 5009"
    by (simp_all add: has_flag_def demo_ports_def range_flag_defs)
  have "find_appropriate_port demo_kernel (\<lambda>_. True) 7 80 5 demo_ports empty_table \<noteq> None"
    unfolding find_appropriate_port_div_zero r by simp
  then obtain p t' where
    e: "find_appropriate_port demo_kernel (\<lambda>_. True) 7 80 5 demo_ports empty_table = Some (p, t')"
    by auto
  from find_appropriate_port_in_range [OF f _ _ e] e show ?thesis
    unfolding r by simp
qed

text \<open> The same arithmetic makes the full range unusable without a random start: with
  ports \<open>0-65535\<close> the loop runs zero times and every connection is put on port 0, evicting
  whatever mapping is there.\<close>

theorem full_range_always_port_0:
  assumes "has_flag r NF_NAT_RANGE_PROTO_SPECIFIED" and "\<not> port_random r"
    and "be16_to_cpu (min_proto r) = 0" and "be16_to_cpu (max_proto r) = 65535"
  shows "map_option fst (find_appropriate_port K live rnd op ip r t) = Some 0"
proof -
  have "port_min r = 0" and z: "port_range_size r = 0"
    using assms by (simp_all add: port_min_def port_range_size_def)
  then show ?thesis
    using assms(1,2) by (simp add: find_appropriate_port_eq find_port_def port_probe_all_def Let_def
        split: prod.split)
qed

theorem full_range_always_port_0_witness:
  "map_option fst (find_appropriate_port demo_kernel (\<lambda>_. True) 7 4096 5
     (demo_range\<lparr>flags := 2, max_proto := cpu_to_be16 65535\<rparr>) empty_table) = Some 0"
  by (rule full_range_always_port_0)
    (simp_all add: has_flag_def demo_range_def range_flag_defs port_random_def)

section \<open>Inbound packets without a mapping, other protocols\<close>

text \<open> An inbound UDP packet is translated only with a live connection behind the mapping:
  otherwise the verdict is \<open>NFT_CONTINUE\<close>, the connection is untouched, and stale mappings at
  that external endpoint are gone.\<close>

theorem inbound_without_live_mapping:
  assumes "tbl_inv K fam4 (t4 s)" and "ext_unique (t4 s)"
    and udp: "dst_protonum (tuple_orig (e_ct e)) = IPPROTO_UDP"
    and dead: "\<forall>p m. heap (t4 s) p = Some m \<longrightarrow> port m = be16_to_cpu (dst_port (tuple_orig (e_ct e))) \<longrightarrow>
       addr m = all0 (dst_u3 (tuple_orig (e_ct e))) \<longrightarrow> (\<forall>x\<in>set (original_tuple_list m). \<not> e_live e x)"
  shows "\<exists>t. nf_nat_fullcone_ipv4 K e NF_INET_PRE_ROUTING r s
       = Some (NFT_CONTINUE, init_newrange r, e_ct e, s\<lparr>t4 := t\<rparr>) \<and> shrinks (t4 s) t \<and>
     (\<forall>p m. heap t p = Some m \<longrightarrow> \<not> (port m = be16_to_cpu (dst_port (tuple_orig (e_ct e))) \<and>
        addr m = all0 (dst_u3 (tuple_orig (e_ct e)))))"
proof -
  let ?p = "be16_to_cpu (dst_port (tuple_orig (e_ct e)))" and ?a = "all0 (dst_u3 (tuple_orig (e_ct e)))"
  have inv: "nat_inv K fam4 (t4 s)"
    using assms(1,2) by (simp add: nat_inv_def)
  have a: "fam_get fam4 (dst_u3 (tuple_orig (e_ct e))) = ?a"
    by (simp add: fam4_def)
  obtain q t1 where g: "fc_get_by_ext_port K (e_live e) ?p (fam_get fam4 (dst_u3 (tuple_orig (e_ct e)))) (t4 s) = (q, t1)"
    by (rule prod.exhaust)
  note f = get_ext_facts [OF inv g]
  from udp inv g show ?thesis
  proof (cases rule: prerouting_cases [where h = NF_INET_PRE_ROUTING and nr = "init_newrange r"])
    case miss
    with get_by_ext_port_None [OF nat_invD(1) [OF inv] g [unfolded miss(1)]] a
    have "\<forall>p m. heap t1 p = Some m \<longrightarrow> \<not> (port m = ?p \<and> addr m = ?a)"
      by simp
    with miss f(2) show ?thesis
      by (intro exI [of _ t1])
        (simp add: nf_nat_fullcone_ipv4_def nf_nat_fullcone_hook_def nf_nat_handle_prerouting_def)
  next
    case (hit p m ret ct')
    obtain m0 where m0: "heap (t4 s) p = Some m0" "same_key m0 m"
        "set (original_tuple_list m) \<subseteq> set (original_tuple_list m0)"
      using f(2) hit(2) unfolding shrinks_def by blast
    obtain x where x: "x \<in> set (original_tuple_list m)" "e_live e x"
      using hit(5,6) by (meson last_in_set)
    with m0(3) have "x \<in> set (original_tuple_list m0)" by blast
    with dead m0(1) same_keyD [OF m0(2)] hit(3,4) a x(2) show ?thesis by auto
  qed
qed

theorem inbound_without_live_mapping_witness:
  "\<exists>t. nf_nat_fullcone_ipv4 demo_kernel (demo_env demo_stranger) NF_INET_PRE_ROUTING demo_range init_fullcone
     = Some (NFT_CONTINUE, init_newrange demo_range, e_ct (demo_env demo_stranger), init_fullcone\<lparr>t4 := t\<rparr>)"
proof -
  have inv: "tbl_inv demo_kernel fam4 (t4 init_fullcone)" "ext_unique (t4 init_fullcone)"
    using nat_inv_empty(1) [of demo_kernel fam4] by (simp_all add: nat_inv_def init_fullcone_def)
  have "dst_protonum (tuple_orig (e_ct (demo_env demo_stranger))) = IPPROTO_UDP"
    by (simp add: demo_defs)
  from inbound_without_live_mapping [OF inv this, of demo_range] show ?thesis
    by (auto simp: init_fullcone_def empty_table_def)
qed

text \<open> For a protocol other than UDP an outbound packet of a masquerading rule is plain
  masquerade: the rule's ports with the selected address, recorded interface, no mapping.\<close>

theorem outbound_non_udp_masquerades:
  assumes "dst_protonum (tuple_orig (e_ct e)) \<noteq> IPPROTO_UDP"
    and "\<not> has_flag r NF_NAT_RANGE_MAP_IPS" and "e_newsrc e \<noteq> 0"
  shows "nf_nat_fullcone_ipv4 K e NF_INET_POST_ROUTING r s =
    (let nr = set_addr fam4 (e_newsrc e) (init_newrange r);
         ct = (if e_nat_ext e then (e_ct e)\<lparr>masq_index := Some (e_ifindex e)\<rparr> else e_ct e);
         (ret, ct') = e_setup e ct nr NF_INET_POST_ROUTING
     in Some (ret, nr, ct', s))"
  using assms
  by (simp add: nf_nat_fullcone_ipv4_def nf_nat_fullcone_hook_def nf_nat_handle_postrouting_def
      fc_postrouting_def fc_post_addr_def select_addr4_def Let_def NF_INET_POST_ROUTING_def
      NF_INET_PRE_ROUTING_def split: prod.split)

theorem outbound_non_udp_masquerades_witness:
  "nf_nat_fullcone_ipv4 demo_kernel (demo_env (demo_conn\<lparr>dst_protonum := 6\<rparr>)) NF_INET_POST_ROUTING demo_range
     init_fullcone =
    (let nr = set_addr fam4 0x01020304 (init_newrange demo_range);
         (ret, ct') = demo_setup ((e_ct (demo_env (demo_conn\<lparr>dst_protonum := 6\<rparr>)))\<lparr>masq_index := Some 2\<rparr>)
            nr NF_INET_POST_ROUTING
     in Some (ret, nr, ct', init_fullcone))"
  by (subst outbound_non_udp_masquerades)
    (simp_all add: demo_defs has_flag_def range_flag_defs IPPROTO_UDP_def)

section \<open>Dying connections and teardown\<close>

lemma dying_fold_forgot:
  "sys_inv K s \<Longrightarrow> forgot x p (t4 s) \<Longrightarrow> forgot x p (t4 (fold (dying_step K) items s))"
proof (induction items arbitrary: s)
  case (Cons i items)
  have "forgot x p (t4 (dying_step K i s))"
    using Cons.prems forgot_dying_one [of K fam4 "t4 s" x p i]
    by (simp add: dying_step_def sys_inv_def Let_def)
  from Cons.IH [OF dying_step_ok(1) [OF Cons.prems(1)] this] show ?case by simp
qed simp

lemma handle_dying_forgets:
  assumes "sys_inv K s" and "sys_unique s"
    and item: "item \<in> set (dying_tuple_list s)" and v4: "src_l3num (tuple_original item) = PF_INET"
    and p: "heap (t4 s) p = Some m" "is_source fam4 (tuple_original item) m"
      "addr m = all0 (dst_u3 (tuple_reply item))"
  shows "dying_tuple_list (nf_nat_fullcone_handle_dying_tuples K s) = [] \<and>
    (\<forall>m'. heap (t4 (nf_nat_fullcone_handle_dying_tuples K s)) p = Some m' \<longrightarrow>
       tuple_original item \<notin> set (original_tuple_list m') \<and> original_tuple_list m' \<noteq> [])"
proof -
  obtain xs ys where split: "dying_tuple_list s = xs @ item # ys"
    using split_list [OF item] by blast
  let ?s1 = "fold (dying_step K) xs s"
  let ?s2 = "dying_step K item ?s1"
  note s1 = dying_fold_ok [OF assms(1), of xs]
  have inv1: "nat_inv K fam4 (t4 ?s1)" and u1: "src_unique (t4 ?s1)"
    using s1 sys_unique_from [OF assms(2), of ?s1] by (simp_all add: sys_inv_def sys_unique_def)
  have t2: "t4 ?s2 = fc_dying_one K fam4 item (t4 ?s1)"
    using v4 by (simp add: dying_step_def PF_INET_def PF_INET6_def)
  have "forgot (tuple_original item) p (t4 ?s2)"
  proof (cases "heap (t4 ?s1) p")
    case None
    then have "heap (t4 ?s2) p = None"
      using shrinks_dom [OF dying_one_inv(2) [OF inv1, of item]] t2 by simp
    then show ?thesis by (simp add: forgot_def)
  next
    case (Some m1)
    then obtain m0 where "heap (t4 s) p = Some m0" "same_key m0 m1"
      using s1 unfolding sys_from_def keys_from_def by blast
    then have "same_key m m1" using p(1) by simp
    then have "is_source fam4 (tuple_original item) m1" "addr m1 = fam_get fam4 (dst_u3 (tuple_reply item))"
      using p(2,3) same_keyD [of m m1] by (simp_all add: is_source_def fam4_def)
    from dying_one_forgets [OF inv1 u1 Some this] t2 show ?thesis
      by (auto simp: forgot_def filter_empty_conv)
  qed
  from dying_fold_forgot [OF dying_step_ok(1) [OF conjunct1 [OF s1]] this, of ys]
  show ?thesis
    by (simp add: nf_nat_fullcone_handle_dying_tuples_def split forgot_def)
qed

text \<open> After the dying-tuple handler has run, the list is empty and no connection that was
  on it is referenced by the mapping of its own outbound flow; such a mapping is freed when
  no other connection uses it.\<close>

theorem dying_connection_forgotten:
  assumes "sys_inv K s" and "sys_unique s"
    and item: "item \<in> set (dying_tuple_list s)" and v4: "src_l3num (tuple_original item) = PF_INET"
    and p: "heap (t4 s) p = Some m" "is_source fam4 (tuple_original item) m"
      "addr m = all0 (dst_u3 (tuple_reply item))"
  shows "dying_tuple_list (nf_nat_fullcone_handle_dying_tuples K s) = [] \<and>
    (\<forall>m'. heap (t4 (nf_nat_fullcone_handle_dying_tuples K s)) p = Some m' \<longrightarrow>
       tuple_original item \<notin> set (original_tuple_list m') \<and> original_tuple_list m' \<noteq> [])"
  by (rule handle_dying_forgets [OF assms])

theorem dying_connection_forgotten_witness:
  "\<exists>s p m. heap (t4 s) p = Some m \<and> demo_conn \<in> set (original_tuple_list m) \<and>
     (\<forall>m'. heap (t4 (nf_nat_fullcone_handle_dying_tuples demo_kernel s)) p = Some m' \<longrightarrow>
        demo_conn \<notin> set (original_tuple_list m'))"
proof -
  obtain s ct where r: "reachable demo_kernel single_rule s" and tr: "tracked fam4 demo_conn ct (t4 s)"
    using demo_tracked by blast
  obtain p m where m: "heap (t4 s) p = Some m" "is_source fam4 demo_conn m"
      "addr m = fam_get fam4 (dst_u3 (tuple_repl ct))" "demo_conn \<in> set (original_tuple_list m)"
    using tr unfolding tracked_def by blast
  let ?i = "\<lparr>tuple_original = demo_conn, tuple_reply = tuple_repl ct\<rparr>"
  let ?s = "nf_nat_fullcone_dying_tuple_list_add ?i s"
  have "sys_inv demo_kernel ?s" "sys_unique ?s"
    using reachable_sys [OF r]
    by (simp_all add: nf_nat_fullcone_dying_tuple_list_add_def sys_inv_def sys_unique_def)
  from dying_connection_forgotten [OF this, of ?i p m] m
  have "\<forall>m'. heap (t4 (nf_nat_fullcone_handle_dying_tuples demo_kernel ?s)) p = Some m' \<longrightarrow>
      demo_conn \<notin> set (original_tuple_list m')"
    by (simp add: nf_nat_fullcone_dying_tuple_list_add_def fam4_def demo_conn_def demo_tuple_def)
  moreover have "heap (t4 ?s) p = Some m"
    using m(1) by (simp add: nf_nat_fullcone_dying_tuple_list_add_def)
  ultimately show ?thesis
    using m(4) by blast
qed

text \<open> Unloading frees every mapping of both families and leaves both tables empty.\<close>

theorem destroy_frees_everything:
  assumes "reachable K allowed s" and "hash_min_ok K"
  shows "nf_nat_fullcone_destroy_mappings s = s\<lparr>t4 := empty_table, t6 := empty_table\<rparr>"
  using reachable_sys(1) [OF assms(1)] destroy_empties [of K fam4, OF _ assms(2)]
    destroy_empties [of K fam6, OF _ assms(2)]
  by (simp add: nf_nat_fullcone_destroy_mappings_def sys_inv_def nat_inv_def)

theorem destroy_frees_everything_witness:
  "\<exists>s p m. reachable demo_kernel single_rule s \<and> heap (t4 s) p = Some m \<and>
     nf_nat_fullcone_destroy_mappings s = s\<lparr>t4 := empty_table, t6 := empty_table\<rparr>"
  using demo_state destroy_frees_everything [OF _ demo_kernel_hash_min] by blast

section \<open>Address ranges\<close>

text \<open> The IPv4 range lookup compares raw big-endian words with \<open>memcmp\<close>, and that is the
  host-order interval: it finds a mapping of the source exactly when there is one whose
  external address lies between the two bounds.\<close>

theorem inrange_lookup_exact:
  assumes "tbl_inv K fam4 t"
  shows "get_mapping_by_int_src_inrange K ip prt lo hi t \<noteq> None \<longleftrightarrow>
    (\<exists>p m. heap t p = Some m \<and> int_addr m = ip \<and> int_port m = prt \<and>
       ntohl lo \<le> ntohl (addr m) \<and> ntohl (addr m) \<le> ntohl hi)"
proof -
  have b: "fam_bytes fam4 x = mem_bytes32 x" for x
    by (simp add: fam_bytes_def fam4_def)
  show ?thesis
    using get_by_int_src_inrange_Some [of K fam4 ip prt lo hi t]
      get_by_int_src_inrange_None [OF assms, of ip prt lo hi]
    unfolding get_mapping_by_int_src_inrange_def b memcmp_be32_le memcmp_be32_ge by blast
qed

theorem inrange_lookup_exact_witness:
  "get_mapping_by_int_src_inrange demo_kernel 1 2 3 4 empty_table = None"
  using inrange_lookup_exact [OF tbl_inv_empty, of demo_kernel 1 2 3 4] by (simp add: empty_table_def)

text \<open> \<open>find_leastused_ip\<close> does not spread: the hash is masked to ten bits before it is
  scaled, so for a pool of up to \<open>2^22\<close> addresses the first address is always the one chosen.\<close>

theorem leastused_is_first_address:
  assumes "reciprocal_scale_ok K" and "jhash_mask_ok K"
    and small: "unat (ntohl (all0 (max_addr r)) - ntohl (all0 (min_addr r)) + 1) \<le> 2 ^ 22"
  shows "find_leastused_ip K zone_id r src dst = all0 (min_addr r)"
proof -
  let ?j = "leastused_hash K r [src] dst zone_id"
  let ?dist = "ntohl (all0 (max_addr r)) - ntohl (all0 (min_addr r)) + 1"
  have "?j = take_bit 10 (jhash2 K [src]
      (if has_flag r NF_NAT_RANGE_PERSISTENT then 0 else dst XOR ucast zone_id))"
    using assms(2) by (simp add: leastused_hash_def FULLCONE_HKEY_def jhash_mask_ok_def
        HASHTABLE_BUCKET_BITS_def take_bit_eq_mask)
  then have "unat ?j < 2 ^ 10"
    by (simp add: unsigned_take_bit_eq take_bit_nat_less_exp [where n = 10, simplified])
  then have "unat ?j * unat ?dist \<le> 1023 * 2 ^ 22"
    using small by (intro mult_le_mono) simp_all
  then have "reciprocal_scale K ?j ?dist = 0"
    using assms(1) by (simp add: reciprocal_scale_ok_def word_unat_eq_iff)
  then show ?thesis
    by (simp add: find_leastused_ip_def Let_def)
qed

definition demo_pool :: nf_nat_range2 where
  "demo_pool = demo_range\<lparr>flags := 1, min_addr := inet_zero\<lparr>all0 := htonl 0x01020300\<rparr>,
     max_addr := inet_zero\<lparr>all0 := htonl 0x010203ff\<rparr>\<rparr>"

theorem leastused_is_first_address_witness:
  "find_leastused_ip demo_kernel 0 demo_pool 5 6 = htonl 0x01020300"
  by (subst leastused_is_first_address [OF demo_kernel_reciprocal_scale demo_kernel_jhash_mask])
    (simp_all add: demo_pool_def)

end
