(* ===== verification/Fc_Expr_Theorems.thy ===== *)
theory Fc_Expr_Theorems
  imports Fc_Expr Fc_Theorems
begin

text \<open>
  The properties of the nftables expression: what a rule can ask of the library, the
  reference count with the event notifier, the way from a conntrack event to a freed
  mapping, and module load and unload.
\<close>

section \<open>Rules\<close>

text \<open> The attributes of a fullcone rule have no effect: whatever flags and port registers
  the rule names, \<open>nft_fullcone_init\<close> leaves the zeroed private data as it is, the rule dumps
  no attribute back, and every packet is evaluated with the zero range, plain masquerading
  without a port range.  The port search therefore never divides by zero here.\<close>

theorem nft_rule_options_ignored:
  assumes "nft_fullcone_init chain ret busy reg_ret net fam tb zero_priv s = (err, priv, s1)"
  shows "nft_fullcone_dump put_ok priv = (0, []) \<and>
    nft_fullcone_set_regs priv load16 zero_range = zero_range \<and>
    single_rule nfp (nft_fullcone_set_regs priv load16 zero_range) \<and>
    nft_fullcone_ipv4_eval K priv load16 e NF_INET_POST_ROUTING s2 \<noteq> None \<and>
    nft_fullcone_ipv6_eval K priv load16 e NF_INET_POST_ROUTING s2 \<noteq> None"
proof -
  have p: "priv = zero_priv"
    using init_count [OF assms] by simp
  have z: "nft_fullcone_set_regs priv load16 zero_range = zero_range"
    by (simp add: p nft_fullcone_set_regs_def zero_priv_def zero_range_def)
  have nr: "\<not> port_random zero_range"
    by (simp add: port_random_def has_flag_def zero_range_def)
  have "nft_fullcone_dump put_ok priv = (0, [])"
    by (simp add: p nft_fullcone_dump_def zero_priv_def)
  moreover have "single_rule nfp zero_range"
    by (simp add: single_rule_def has_flag_def zero_range_def)
  moreover have "nft_fullcone_ipv4_eval K priv load16 e NF_INET_POST_ROUTING s2 \<noteq> None"
    using hook_out_total [OF nr, of K NFPROTO_IPV4 e "lib s2"]
    by (auto simp: nft_fullcone_ipv4_eval_def nf_nat_fullcone_ipv4_def z)
  moreover have "nft_fullcone_ipv6_eval K priv load16 e NF_INET_POST_ROUTING s2 \<noteq> None"
    using hook_out_total [OF nr, of K NFPROTO_IPV6 e "lib s2"]
    by (auto simp: nft_fullcone_ipv6_eval_def nf_nat_fullcone_ipv6_def z)
  ultimately show ?thesis
    using z by simp
qed

theorem nft_rule_options_ignored_witness:
  "nft_fullcone_dump (\<lambda>_. True) (fst (snd (nft_fullcone_init True 0 False 0 1 FAM_INET
      ((\<lambda>_. None)(NFTA_FULLCONE_FLAGS := Some 0x14000000)) zero_priv unloaded))) = (0, [])"
proof -
  obtain err priv s1 where i: "nft_fullcone_init True 0 False 0 1 FAM_INET
      ((\<lambda>_. None)(NFTA_FULLCONE_FLAGS := Some 0x14000000)) zero_priv unloaded = (err, priv, s1)"
    by (rule prod_cases3)
  from nft_rule_options_ignored [OF i, of "\<lambda>_. True"] show ?thesis
    unfolding i by simp
qed



lemma unregister_only_at_one:
  assumes "rule_step chain (R, s) (R', s')" and "module_refer_count s > 1" and "ct_event_notifier_registered s"
  shows "ct_event_notifier_registered s'"
  using assms
proof cases
  case (rule_added ret busy reg_ret net fam tb priv err priv')
  with init_count [OF rule_added(2)] assms(3) show ?thesis by simp
next
  case (rule_failed ret busy reg_ret net fam tb priv err priv')
  with init_count [OF rule_failed(2)] assms(3) show ?thesis by simp
qed (use assms in \<open>simp_all add: destroy_count event_count\<close>)

text \<open> A failed rule insertion leaks its reference: afterwards the count stays above the
  number of rules, so removing the last rule leaves the notifier registered, whatever is
  done with rules from then on.\<close>

theorem failed_insertion_leaks:
  assumes "(rule_step chain)\<^sup>*\<^sup>* (start_rules, unloaded\<lparr>wq := b, expr_types := ts\<rparr>) (R, s)"
    and "failed_rules R > 0" and "ct_event_notifier_registered s" and "rule_step chain (R, s) (R', s')"
  shows "ct_event_notifier_registered s' \<and> module_refer_count s' > int (length (live_rules R'))"
proof -
  note c = rules_count(1) [OF assms(1)]
  note c' = rules_count(1) [OF rtranclp.rtrancl_into_rtrancl [OF assms(1,4)]]
  from assms(4) have "failed_rules R' > 0"
    using assms(2) by cases simp_all
  then have 2: "module_refer_count s' > int (length (live_rules R'))"
    using c' by simp
  have "ct_event_notifier_registered s'"
    using assms(4)
  proof cases
    case (rule_gone net fam)
    then have "live_rules R \<noteq> []" by (cases "live_rules R") simp_all
    then have "module_refer_count s > 1"
      using c assms(2) by (cases "live_rules R") simp_all
    then show ?thesis
      using unregister_only_at_one [OF assms(4) _ assms(3)] by simp
  next
    case (rule_added ret busy reg_ret n f tb priv err priv')
    with init_count [OF rule_added(2)] assms(3) show ?thesis by simp
  next
    case (rule_failed ret busy reg_ret n f tb priv err priv')
    with init_count [OF rule_failed(2)] assms(3) show ?thesis by simp
  next
    case (event ct des mem)
    with assms(3) show ?thesis by (simp add: event_count)
  qed
  with 2 show ?thesis by blast
qed

text \<open>The failing insertion is the first one here, then one rule is added and removed.\<close>

theorem failed_insertion_leaks_witness:
  "\<exists>R s R' s'. rule_step True (R, s) (R', s') \<and> live_rules R' = [] \<and>
     ct_event_notifier_registered s' \<and> module_refer_count s' > 0"
proof -
  let ?s0 = "unloaded\<lparr>wq := True, expr_types := []\<rparr>"
  let ?R1 = "start_rules\<lparr>failed_rules := 1\<rparr>" and ?R2 = "start_rules\<lparr>failed_rules := 1, live_rules := [(1, FAM_INET)], rule_nets := {1}\<rparr>"
  obtain err priv s1 where i:
      "nft_fullcone_init True (-1) False 0 1 FAM_INET (\<lambda>_. None) zero_priv ?s0 = (err, priv, s1)"
    by (rule prod_cases3)
  obtain err2 priv2 s2 where j:
      "nft_fullcone_init True 0 False 0 1 FAM_INET (\<lambda>_. None) zero_priv s1 = (err2, priv2, s2)"
    by (rule prod_cases3)
  have 1: "rule_step True (start_rules, ?s0) (?R1, s1)"
    using rule_step.rule_failed [OF i, of start_rules] init_count [OF i] by (simp add: start_rules_def)
  have 2: "rule_step True (?R1, s1) (?R2, s2)"
    using rule_step.rule_added [OF j, of ?R1] init_count [OF j] by (simp add: start_rules_def not_registered_def)
  have r: "(rule_step True)\<^sup>*\<^sup>* (start_rules, ?s0) (?R2, s2)"
    by (rule rtranclp.rtrancl_into_rtrancl [OF r_into_rtranclp [of "rule_step True", OF 1] 2])
  have n: "ct_event_notifier_registered s2"
    using init_count [OF i] init_count [OF j] by (simp add: unloaded_def)
  have 3: "rule_step True (?R2, s2) (?R2\<lparr>live_rules := []\<rparr>, nft_fullcone_destroy 1 FAM_INET s2)"
    using rule_step.rule_gone [of 1 FAM_INET ?R2 True s2] by (simp add: start_rules_def)
  from failed_insertion_leaks [OF r _ n 3] 3 show ?thesis
    by (intro exI [of _ ?R2] exI [of _ s2] exI [of _ "?R2\<lparr>live_rules := []\<rparr>"]
        exI [of _ "nft_fullcone_destroy 1 FAM_INET s2"]) (simp add: start_rules_def)
qed

text \<open> The notifier is unregistered from the wrong place.  With rules in two network
  namespaces, removed in the order they were added, it is registered in the first and
  unregistered from the second, so it stays behind in the first; and without chained
  notifiers a namespace whose callback slot was taken by somebody else has that other
  notifier unregistered.\<close>

theorem notifier_unregistered_elsewhere:
  "ct_calls (nft_fullcone_destroy b g (nft_fullcone_destroy a f
     (snd (snd (nft_fullcone_init True 0 busy 0 b g tb zero_priv
       (snd (snd (nft_fullcone_init True 0 busy 0 a f tb zero_priv unloaded))))))))
     = [NetnsGet a f, Register a, NetnsGet b g, NetnsPut a f, Unregister b, NetnsPut b g] \<and>
   ct_calls (nft_fullcone_destroy a f (snd (snd (nft_fullcone_init False 0 True 0 a f tb zero_priv unloaded))))
     = [NetnsGet a f, Unregister a, NetnsPut a f]"
  by (simp add: nft_fullcone_init_def nft_fullcone_destroy_def nft_fullcone_common_destory_def
      unloaded_def call_def Let_def)

section \<open>From the event to the freed mapping\<close>

text \<open> When a UDP connection is destroyed, the event callback followed by the worker makes
  the mapping of its outbound flow forget it, and frees the mapping when it was the last
  one; the callback ignores everything but destroy events of UDP connections.\<close>

theorem destroyed_connection_released:
  assumes "sys_inv K (lib s)" and "sys_unique (lib s)"
    and "dst_protonum (tuple_orig ct) = IPPROTO_UDP" and "src_l3num (tuple_orig ct) = PF_INET"
    and "heap (t4 (lib s)) p = Some m" and "is_source fam4 (tuple_orig ct) m"
    and "addr m = all0 (dst_u3 (tuple_repl ct))"
  shows "(\<forall>m'. heap (t4 (lib (gc_worker K (ct_event_cb (Some ct) True True s)))) p = Some m' \<longrightarrow>
       tuple_orig ct \<notin> set (original_tuple_list m') \<and> original_tuple_list m' \<noteq> []) \<and>
    gc_pending (ct_event_cb (Some ct) True True s) = (gc_pending s \<or> wq s) \<and>
    (\<forall>x des mem. (x = None \<or> \<not> des \<or> (\<exists>y. x = Some y \<and> dst_protonum (tuple_orig y) \<noteq> IPPROTO_UDP)) \<longrightarrow>
       ct_event_cb x des mem s = s)"
proof -
  let ?i = "\<lparr>tuple_original = tuple_orig ct, tuple_reply = tuple_repl ct\<rparr>"
  let ?l = "nf_nat_fullcone_dying_tuple_list_add ?i (lib s)"
  have cb: "ct_event_cb (Some ct) True True s = s\<lparr>lib := ?l, gc_pending := gc_pending s \<or> wq s\<rparr>"
    using assms(3) by (simp add: ct_event_cb_def)
  have l: "t4 ?l = t4 (lib s)" "?i \<in> set (dying_tuple_list ?l)" "sys_inv K ?l" "sys_unique ?l"
    using assms(1,2) by (simp_all add: nf_nat_fullcone_dying_tuple_list_add_def sys_inv_def sys_unique_def)
  from handle_dying_forgets [OF l(3,4,2), of p m] assms(4-7) l(1) cb
  have "\<forall>m'. heap (t4 (lib (gc_worker K (ct_event_cb (Some ct) True True s)))) p = Some m' \<longrightarrow>
       tuple_orig ct \<notin> set (original_tuple_list m') \<and> original_tuple_list m' \<noteq> []"
    by (simp add: gc_worker_def)
  moreover have "gc_pending (ct_event_cb (Some ct) True True s) = (gc_pending s \<or> wq s)"
    by (simp add: cb)
  moreover have "\<forall>x des mem. (x = None \<or> \<not> des \<or> (\<exists>y. x = Some y \<and> dst_protonum (tuple_orig y) \<noteq> IPPROTO_UDP)) \<longrightarrow>
       ct_event_cb x des mem s = s"
    by (auto simp: ct_event_cb_def split: option.split)
  ultimately show ?thesis by blast
qed

theorem destroyed_connection_released_witness:
  "\<exists>s ct p m. heap (t4 (lib s)) p = Some m \<and> tuple_orig ct \<in> set (original_tuple_list m) \<and>
     (\<forall>m'. heap (t4 (lib (gc_worker demo_kernel (ct_event_cb (Some ct) True True s)))) p = Some m' \<longrightarrow>
        tuple_orig ct \<notin> set (original_tuple_list m'))"
proof -
  obtain l ct where r: "reachable demo_kernel single_rule l" and tr: "tracked fam4 demo_conn ct (t4 l)"
    using demo_tracked by blast
  obtain p m where m: "heap (t4 l) p = Some m" "is_source fam4 demo_conn m"
      "addr m = fam_get fam4 (dst_u3 (tuple_repl ct))" "demo_conn \<in> set (original_tuple_list m)"
    using tr unfolding tracked_def by blast
  let ?ct = "ct\<lparr>tuple_orig := demo_conn\<rparr>" and ?s = "unloaded\<lparr>lib := l, wq := True\<rparr>"
  have "sys_inv demo_kernel (lib ?s)" "sys_unique (lib ?s)"
    using reachable_sys [OF r] by simp_all
  from destroyed_connection_released [OF this, of ?ct p m] m
  have "\<forall>m'. heap (t4 (lib (gc_worker demo_kernel (ct_event_cb (Some ?ct) True True ?s)))) p = Some m' \<longrightarrow>
      tuple_orig ?ct \<notin> set (original_tuple_list m')"
    by (simp add: demo_conn_def demo_tuple_def fam4_def)
  then show ?thesis
    using m by (intro exI [of _ ?s] exI [of _ ?ct] exI [of _ p] exI [of _ m]) simp
qed

section \<open>Load and unload\<close>

text \<open> Unloading leaves no trace: no expression type, no mapping in either family, no
  dying connection and no pending work.\<close>

theorem module_exit_clean:
  assumes "sys_inv K (lib s)" and "hash_min_ok K" and "expr_types s = [FAM_IPV4, FAM_INET, FAM_IPV6]"
    and "gc_pending s \<longrightarrow> wq s"
  shows "lib (nft_fullcone_module_exit K s) = init_fullcone \<and>
    expr_types (nft_fullcone_module_exit K s) = [] \<and> \<not> gc_pending (nft_fullcone_module_exit K s)"
proof -
  let ?l = "nf_nat_fullcone_handle_dying_tuples K (lib s)"
  have inv: "nat_inv K fam4 (t4 ?l)" "nat_inv K fam6 (t6 ?l)" and d: "dying_tuple_list ?l = []"
    using handle_dying_ok [OF assms(1)] by (simp_all add: sys_inv_def)
  have "nf_nat_fullcone_destroy_mappings ?l = init_fullcone"
    using destroy_empties [OF nat_invD(1) [OF inv(1)] assms(2)]
      destroy_empties [OF nat_invD(1) [OF inv(2)] assms(2)] d
    by (simp add: nf_nat_fullcone_destroy_mappings_def init_fullcone_def)
  then show ?thesis
    using assms(3,4)
    by (auto simp: nft_fullcone_module_exit_def nft_fullcone_module_exit_ipv6_def
        nft_fullcone_module_exit_inet_def nft_unregister_expr_def Let_def)
qed

theorem module_exit_clean_witness:
  "\<exists>l p m. heap (t4 l) p = Some m \<and>
     lib (nft_fullcone_module_exit demo_kernel
       (unloaded\<lparr>lib := l, wq := True, expr_types := [FAM_IPV4, FAM_INET, FAM_IPV6]\<rparr>)) = init_fullcone"
proof -
  obtain l p m where l: "reachable demo_kernel single_rule l" "heap (t4 l) p = Some m"
    using demo_state by blast
  let ?s = "unloaded\<lparr>lib := l, wq := True, expr_types := [FAM_IPV4, FAM_INET, FAM_IPV6]\<rparr>"
  have "sys_inv demo_kernel (lib ?s)"
    using reachable_sys(1) [OF l(1)] by simp
  from module_exit_clean [OF this demo_kernel_hash_min] l(2) show ?thesis
    by (auto simp: unloaded_def)
qed

text \<open> Loading is all or nothing: it registers the three expression types, or it returns
  an error and leaves none registered.\<close>

theorem module_init_all_or_nothing:
  "(let (ret, s) = nft_fullcone_module_init reg wq_ok unloaded
    in if ret < 0 then s = unloaded
       else s = unloaded\<lparr>expr_types := [FAM_IPV4, FAM_INET, FAM_IPV6], wq := wq_ok\<rparr>) \<and>
   (fst (nft_fullcone_module_init reg wq_ok unloaded) < 0 \<longleftrightarrow>
      reg FAM_IPV6 < 0 \<or> reg FAM_INET < 0 \<or> reg FAM_IPV4 < 0)"
  by (simp add: nft_fullcone_module_init_def nft_fullcone_module_init_ipv6_def
      nft_fullcone_module_init_inet_def nft_fullcone_module_exit_ipv6_def
      nft_fullcone_module_exit_inet_def nft_register_expr_def nft_unregister_expr_def unloaded_def)

text \<open> A rule that passes validation runs only at the two hooks the library handles, so the
  library's error verdict is never returned.  The hypothesis is the contract of
  \<open>nft_chain_validate_hooks\<close> for a base chain at hook \<open>h\<close>.\<close>

theorem validated_hooks_handled:
  assumes law: "\<forall>msk. validate_hooks msk = 0 \<longrightarrow> bit msk h"
    and "nft_fullcone_validate dependency validate_hooks = 0"
  shows "h = NF_INET_PRE_ROUTING \<or> h = NF_INET_POST_ROUTING"
proof -
  have "validate_hooks (push_bit NF_INET_PRE_ROUTING 1 OR push_bit NF_INET_POST_ROUTING 1) = 0"
    using assms(2) by (auto simp: nft_fullcone_validate_def split: if_splits)
  with law have "bit (push_bit NF_INET_PRE_ROUTING 1 OR push_bit NF_INET_POST_ROUTING 1 :: u32) h"
    by blast
  then show ?thesis
    by (auto simp: bit_or_iff bit_push_bit_iff bit_1_iff bit_exp_iff)
qed

theorem validated_hooks_handled_witness:
  "NF_INET_POST_ROUTING = NF_INET_PRE_ROUTING \<or> NF_INET_POST_ROUTING = NF_INET_POST_ROUTING"
  by (rule validated_hooks_handled
      [where validate_hooks = "\<lambda>msk. if bit msk NF_INET_POST_ROUTING then 0 else - 95" and dependency = 0])
    (auto simp: nft_fullcone_validate_def bit_or_iff bit_push_bit_iff NF_INET_POST_ROUTING_def)

end
