(* ===== verification/Reconnect.thy ===== *)
theory Reconnect
  imports Prelude
begin

text \<open>
  The wireless client daemon, \<^verbatim>\<open>mtkreconnect/src/mtkreconnect.c\<close>: profiles loaded from UCI, the
  link probe, the connect transaction with its back-off, and the main loop tick.  UCI
  contents, \<open>ioctl\<close> results, the clock and \<open>rand\<close> are arguments; what is printed and which
  private commands are sent are results.  A character buffer holds its text up to the first
  NUL.
\<close>

section \<open>Buffers\<close>

definition c_str :: "string \<Rightarrow> string" where
  "c_str s = takeWhile (\<lambda>c. c \<noteq> CHR 0x00) s"

text \<open>\<open>safe_copy\<close>, and \<open>snprintf (dst, dst_size, "%s", src)\<close> in general.\<close>

definition safe_copy :: "nat \<Rightarrow> string \<Rightarrow> string" where
  "safe_copy dst_size src = take (dst_size - 1) (c_str src)"

definition IFNAMSIZ :: nat where "IFNAMSIZ = 16"
definition MAX_STA :: nat where "MAX_STA = 4"
definition RECONNECT_COOLDOWN :: int where "RECONNECT_COOLDOWN = 45"
definition MAX_BACKOFF_SHIFT :: int where "MAX_BACKOFF_SHIFT = 4"
definition RECONNECT_JITTER :: nat where "RECONNECT_JITTER = 5"
definition CONNECT_CONFIRM_TICKS :: int where "CONNECT_CONFIRM_TICKS = 8"

record sta_interface =
  ifname :: string
  parent :: string
  ssid :: string
  psk_key :: string
  auth :: string
  enc :: string
  next_try :: int
  fail_count :: int
  disconn_streak :: int
  connected_streak :: int
  last_connected :: int

definition zero_iface :: sta_interface where
  "zero_iface = \<lparr>ifname = [], parent = [], ssid = [], psk_key = [], auth = [], enc = [],
     next_try = 0, fail_count = 0, disconn_streak = 0, connected_streak = 0, last_connected = 0\<rparr>"

text \<open>One constructor per \<open>printf\<close>, with the values printed.\<close>

datatype log_line =
    Log_too_long string
  | Log_ioctl_failed string string int
  | Log_unsupported_enc string
  | Log_inferring_parent string string
  | Log_load_failed
  | Log_too_many string
  | Log_connecting string string int
  | Log_parent_up_failed string
  | Log_if_up_failed string
  | Log_commands_failed string nat nat
  | Log_profile string string string string bool
  | Log_started nat
  | Log_reload_alloc
  | Log_reloaded nat
  | Log_link string bool
  | Log_confirmed string

section \<open>Driver access\<close>

text \<open>The results of the driver calls during one transaction: reading the interface flags
  (result, \<open>IFF_UP\<close>), setting them, and each private command (result, \<open>errno\<close>).  No call is
  made twice in a transaction, except the flag calls when parent and interface coincide.\<close>

record driver =
  get_flags :: "string \<Rightarrow> int \<times> bool"
  set_flags :: "string \<Rightarrow> int"
  priv_set :: "string \<Rightarrow> string \<Rightarrow> int \<times> int"

definition set_if_up :: "driver \<Rightarrow> string \<Rightarrow> int" where
  "set_if_up d name =
     (let ifr_name = safe_copy IFNAMSIZ name; (ret, up) = get_flags d ifr_name
      in if ret < 0 then -1 else if \<not> up then set_flags d ifr_name else 0)"

text \<open>\<open>mtk_ioctl_set\<close> with the text \<open>fmt\<close> expands to.\<close>

definition mtk_ioctl_set :: "driver \<Rightarrow> string \<Rightarrow> string \<Rightarrow> int \<times> log_line list \<times> (string \<times> string) list" where
  "mtk_ioctl_set d name text =
     (if length text \<ge> 256 then (-1, [Log_too_long name], [])
      else let (ret, errno) = priv_set d (safe_copy IFNAMSIZ name) text
           in (ret,
               if ret < 0
               then (if take 12 text = ''ApCliWPAPSK='' then [Log_ioctl_failed ''ApCliWPAPSK=***'' name errno]
                     else [Log_ioctl_failed text name errno])
               else [],
               [(safe_copy IFNAMSIZ name, text)]))"

definition EOPNOTSUPP :: int where "EOPNOTSUPP = 95"
definition ENOTTY :: int where "ENOTTY = 25"

text \<open>What the three probes of \<open>is_connected\<close> return.\<close>

record link_probe =
  iwap_ret :: int
  iwap_mac :: "u8 list"
  stats_ret :: int
  qual_updated :: bool
  qual :: u8
  rate_ret :: int
  rate_errno :: int
  bitrate :: int

definition is_connected :: "link_probe \<Rightarrow> bool" where
  "is_connected w =
     (if iwap_ret w < 0 then False
      else let sm = sum_list (map unat (take 6 (iwap_mac w)))
           in if sm = 0 \<or> sm = 255 * 6 then False
              else if stats_ret w \<ge> 0 \<and> qual_updated w \<and> qual w = 0 then False
              else if rate_ret w < 0 then \<not> (rate_errno w \<noteq> EOPNOTSUPP \<and> rate_errno w \<noteq> ENOTTY)
              else bitrate w \<noteq> 0)"

section \<open>Configuration\<close>

text \<open>\<open>strstr h n \<noteq> NULL\<close>.\<close>

fun strstr :: "string \<Rightarrow> string \<Rightarrow> bool" where
  "strstr [] n = (n = [])"
| "strstr (c # h) n = (take (length n) (c # h) = n \<or> strstr h n)"

text \<open>Authentication and cipher, with the log.\<close>

definition map_encryption :: "string option \<Rightarrow> nat \<Rightarrow> nat \<Rightarrow> string \<times> string \<times> log_line list" where
  "map_encryption uci_enc auth_size enc_size =
     (let out = (\<lambda>a e l. (safe_copy auth_size a, safe_copy enc_size e, l))
      in case uci_enc of
           None \<Rightarrow> out ''WPA2PSK'' ''AES'' []
         | Some v \<Rightarrow>
             if strstr v ''none'' \<or> strstr v ''open'' then out ''OPEN'' ''NONE'' []
             else
               let sae = strstr v ''sae''; wpa3 = strstr v ''wpa3''; psk2 = strstr v ''psk2'';
                   psk = strstr v ''psk''; mixed = strstr v ''mixed''; tkip = strstr v ''tkip'';
                   aes = strstr v ''aes''; ccmp = strstr v ''ccmp''
               in if sae \<or> wpa3
                  then out (if mixed \<or> psk2 then ''WPA2PSKWPA3SAE'' else ''WPA3SAE'') ''AES'' []
                  else if strstr v ''owe'' then out ''OWE'' ''AES'' []
                  else if psk \<or> psk2 \<or> ccmp
                  then out (if mixed then ''WPA1PSKWPA2PSK'' else if psk2 \<or> ccmp then ''WPA2PSK'' else ''WPAPSK'')
                           (if tkip \<and> aes then ''TKIPAES'' else if tkip then ''TKIP''
                            else if mixed then ''TKIPAES'' else ''AES'') []
                  else out ''OPEN'' ''NONE'' [Log_unsupported_enc v])"

text \<open>A loaded package: sections with their string options in order.\<close>

record uci_section =
  sec_name :: string
  sec_type :: string
  sec_opts :: "(string \<times> string) list"

type_synonym uci_package = "uci_section list"

definition uci_lookup_section :: "uci_package \<Rightarrow> string \<Rightarrow> uci_section option" where
  "uci_lookup_section pkg name = find (\<lambda>s. sec_name s = name) pkg"

definition uci_lookup_option :: "uci_section \<Rightarrow> string \<Rightarrow> string option" where
  "uci_lookup_option s name = map_of (sec_opts s) name"

definition parent_fallback :: "string \<Rightarrow> nat \<Rightarrow> string \<times> log_line list" where
  "parent_fallback name parent_size =
     (let p = safe_copy parent_size (if take 6 name = ''apclix'' then ''rax0'' else ''ra0'')
      in (p, [Log_inferring_parent p name]))"

definition resolve_parent :: "uci_package \<Rightarrow> string \<Rightarrow> string \<Rightarrow> nat \<Rightarrow> string \<times> log_line list" where
  "resolve_parent pkg devname name parent_size =
     (case uci_lookup_section pkg devname of
        None \<Rightarrow> parent_fallback name parent_size
      | Some dsec \<Rightarrow>
          let band = uci_lookup_option dsec ''band''; hwmode = uci_lookup_option dsec ''hwmode''
          in if band = Some ''5g'' then (safe_copy parent_size ''rax0'', [])
             else if band = Some ''2g'' then (safe_copy parent_size ''ra0'', [])
             else if hwmode = Some ''11a'' then (safe_copy parent_size ''rax0'', [])
             else if hwmode = Some ''11g'' \<or> hwmode = Some ''11b'' then (safe_copy parent_size ''ra0'', [])
             else parent_fallback name parent_size)"

text \<open>The default interface name of a profile without \<open>ifname\<close>.\<close>

definition default_is_5g :: "uci_package \<Rightarrow> string \<Rightarrow> bool" where
  "default_is_5g pkg devname =
     (case uci_lookup_section pkg devname of
        Some dsec \<Rightarrow>
          (case uci_lookup_option dsec ''band'' of
             Some band \<Rightarrow> band = ''5g''
           | None \<Rightarrow> uci_lookup_option dsec ''hwmode'' = Some ''11a'')
      | None \<Rightarrow>
          let devlast = (if devname = [] then CHR 0x00 else last devname)
          in strstr devname ''rax'' \<or> (of_char CHR ''1'' \<le> (of_char devlast :: nat) \<and> (of_char devlast :: nat) \<le> of_char CHR ''9''))"

text \<open>One section: \<open>None\<close> when it is not a complete client profile.\<close>

definition section_profile :: "uci_section \<Rightarrow> (string \<times> string) option" where
  "section_profile s =
     (if sec_type s \<noteq> ''wifi-iface'' \<or> uci_lookup_option s ''mode'' \<noteq> Some ''sta'' then None
      else case (uci_lookup_option s ''device'', uci_lookup_option s ''ssid'') of
             (Some dev, Some sid) \<Rightarrow> Some (dev, sid)
           | _ \<Rightarrow> None)"

definition load_profile :: "uci_package \<Rightarrow> uci_section \<Rightarrow> string \<Rightarrow> string \<Rightarrow> sta_interface \<times> log_line list" where
  "load_profile pkg s dev sid =
     (let name = (case uci_lookup_option s ''ifname'' of
                    Some n \<Rightarrow> safe_copy IFNAMSIZ n
                  | None \<Rightarrow> safe_copy IFNAMSIZ (if default_is_5g pkg dev then ''apclix0'' else ''apcli0''));
          (par, l1) = (case uci_lookup_option s ''parent_iface'' of
                         Some p \<Rightarrow> if p \<noteq> [] then (safe_copy IFNAMSIZ p, [])
                                  else resolve_parent pkg dev name IFNAMSIZ
                       | None \<Rightarrow> resolve_parent pkg dev name IFNAMSIZ);
          (a, e, l2) = map_encryption (uci_lookup_option s ''encryption'') 32 32
      in (zero_iface\<lparr>ifname := name, parent := par, ssid := safe_copy 64 sid,
            psk_key := safe_copy 64 (case uci_lookup_option s ''key'' of Some k \<Rightarrow> k | None \<Rightarrow> []),
            auth := a, enc := e, next_try := 0, fail_count := 0\<rparr>,
          l1 @ l2))"

fun load_sections :: "uci_package \<Rightarrow> uci_section list \<Rightarrow> sta_interface list \<Rightarrow> sta_interface list \<times> log_line list" where
  "load_sections pkg [] acc = (acc, [])"
| "load_sections pkg (s # ss) acc =
     (case section_profile s of
        None \<Rightarrow> load_sections pkg ss acc
      | Some (dev, sid) \<Rightarrow>
          if length acc \<ge> MAX_STA
          then (let (r, l) = load_sections pkg ss acc in (r, Log_too_many sid # l))
          else (let (p, l1) = load_profile pkg s dev sid; (r, l) = load_sections pkg ss (acc @ [p])
                in (r, l1 @ l)))"

definition restore_state :: "sta_interface list \<Rightarrow> sta_interface \<Rightarrow> sta_interface" where
  "restore_state old p =
     (case find (\<lambda>o'. ifname p = ifname o' \<and> ssid p = ssid o') old of
        None \<Rightarrow> p
      | Some o' \<Rightarrow> p\<lparr>next_try := next_try o', fail_count := fail_count o',
          disconn_streak := disconn_streak o', connected_streak := connected_streak o',
          last_connected := last_connected o'\<rparr>)"

definition pad :: "sta_interface list \<Rightarrow> sta_interface list" where
  "pad ps = ps @ replicate (MAX_STA - length ps) zero_iface"

text \<open>\<open>load_sta_configs\<close>: \<open>list\<close> has \<open>MAX_STA\<close> entries; no package when \<open>uci_load\<close> fails.\<close>

definition load_sta_configs ::
  "uci_package option \<Rightarrow> sta_interface list \<Rightarrow> nat \<times> sta_interface list \<times> log_line list" where
  "load_sta_configs uci lst =
     (let old = filter (\<lambda>p. ssid p \<noteq> []) (take MAX_STA lst)
      in case uci of
           None \<Rightarrow> (length old, pad old, [Log_load_failed])
         | Some pkg \<Rightarrow>
             (let (ps, l) = load_sections pkg pkg []
              in (length ps, pad (map (restore_state old) ps), l)))"

section \<open>Back-off and the connect transaction\<close>

definition next_cooldown :: "int \<Rightarrow> int" where
  "next_cooldown fails =
     (let shift = fails - 1;
          shift = (if shift < 0 then 0 else shift);
          shift = (if shift > MAX_BACKOFF_SHIFT then MAX_BACKOFF_SHIFT else shift)
      in RECONNECT_COOLDOWN * push_bit (nat shift) 1)"

definition record_failure :: "nat \<Rightarrow> int \<Rightarrow> sta_interface \<Rightarrow> sta_interface" where
  "record_failure rnd now p =
     (let f = fail_count p + 1
      in p\<lparr>fail_count := f, next_try := now + next_cooldown f + int (rnd mod RECONNECT_JITTER)\<rparr>)"

text \<open>The commands of a transaction, in order.\<close>

definition connect_commands :: "sta_interface \<Rightarrow> string list" where
  "connect_commands p =
     (if fail_count p \<ge> 1 then [''ApCliEnable=0''] else []) @
     [''ApCliAuthMode='' @ auth p, ''ApCliEncrypType='' @ enc p] @
     (if length (psk_key p) > 0 then [''ApCliWPAPSK='' @ psk_key p] else []) @
     [''ApCliSsid='' @ ssid p, ''ApCliAutoConnect=1'', ''ApCliEnable=1'']"

fun run_commands :: "driver \<Rightarrow> string \<Rightarrow> string list \<Rightarrow> nat \<times> log_line list \<times> (string \<times> string) list" where
  "run_commands d name [] = (0, [], [])"
| "run_commands d name (c # cs) =
     (let (ret, l, sent) = mtk_ioctl_set d name c; (failed, l', sent') = run_commands d name cs
      in ((if ret < 0 then 1 else 0) + failed, l @ l', sent @ sent'))"

definition do_connect_transaction ::
  "driver \<Rightarrow> nat \<Rightarrow> int \<Rightarrow> sta_interface \<Rightarrow> sta_interface \<times> log_line list \<times> (string \<times> string) list" where
  "do_connect_transaction d rnd now p =
     (let l0 = [Log_connecting (ifname p) (ssid p) (fail_count p + 1)];
          l1 = (if set_if_up d (parent p) < 0 then [Log_parent_up_failed (parent p)] else []);
          l2 = (if set_if_up d (ifname p) < 0 then [Log_if_up_failed (ifname p)] else []);
          total = length (connect_commands p);
          (failed, l3, sent) = run_commands d (ifname p) (connect_commands p);
          l4 = (if failed > 0 then [Log_commands_failed (ifname p) failed total] else [])
      in (record_failure rnd now p, l0 @ l1 @ l2 @ l3 @ l4, sent))"

section \<open>The main loop\<close>

record daemon =
  ifaces :: "sta_interface list"
  count :: nat
  g_reload :: bool
  g_stop :: bool

text \<open>What surrounds one tick: the clock, whether a UCI context could be allocated and what it
  loads, and per profile the probe, the driver and \<open>rand ()\<close>.\<close>

record tick_env =
  now :: int
  alloc_ok :: bool
  wireless :: "uci_package option"
  probe :: "nat \<Rightarrow> link_probe"
  drv :: "nat \<Rightarrow> driver"
  rnd_of :: "nat \<Rightarrow> nat"

text \<open>The body of the inner loop for one profile.\<close>

definition iface_tick ::
  "int \<Rightarrow> bool \<Rightarrow> driver \<Rightarrow> nat \<Rightarrow> sta_interface \<Rightarrow> sta_interface \<times> log_line list \<times> (string \<times> string) list" where
  "iface_tick t conn d rnd p0 =
     (let (p1, l1) = (if (if conn then 1 else 0) \<noteq> last_connected p0
                      then (p0\<lparr>last_connected := (if conn then 1 else 0)\<rparr>, [Log_link (ifname p0) conn])
                      else (p0, []))
      in if conn
         then (let p2 = p1\<lparr>connected_streak := connected_streak p1 + 1\<rparr>;
                   (p3, l3) = (if connected_streak p2 \<ge> CONNECT_CONFIRM_TICKS \<and> t \<ge> next_try p2
                               then (p2\<lparr>next_try := 0, fail_count := 0\<rparr>,
                                     if fail_count p2 \<noteq> 0 \<or> next_try p2 \<noteq> 0 then [Log_confirmed (ifname p2)] else [])
                               else (p2, []))
               in (p3\<lparr>disconn_streak := 0\<rparr>, l1 @ l3, []))
         else (let p2 = p1\<lparr>connected_streak := 0, disconn_streak := disconn_streak p1 + 1\<rparr>
               in if disconn_streak p2 \<ge> 2 \<and> t \<ge> next_try p2
                  then (let (p3, l3, sent) = do_connect_transaction d rnd t p2
                        in (p3\<lparr>disconn_streak := 0\<rparr>, l1 @ l3, sent))
                  else (p2, l1, [])))"

fun tick_ifaces ::
  "tick_env \<Rightarrow> nat \<Rightarrow> sta_interface list \<Rightarrow> sta_interface list \<times> log_line list \<times> (string \<times> string) list" where
  "tick_ifaces e i [] = ([], [], [])"
| "tick_ifaces e i (p # ps) =
     (let (p', l, sent) = iface_tick (now e) (is_connected (probe e i)) (drv e i) (rnd_of e i) p;
          (ps', l', sent') = tick_ifaces e (Suc i) ps
      in (p' # ps', l @ l', sent @ sent'))"

definition reschedule :: "int \<Rightarrow> nat \<Rightarrow> sta_interface \<Rightarrow> sta_interface" where
  "reschedule t i p =
     (if t \<ge> next_try p then p\<lparr>next_try := t + 5 + int i * 10\<rparr> else p)
       \<lparr>disconn_streak := 0, connected_streak := 0\<rparr>"

definition handle_reload :: "tick_env \<Rightarrow> daemon \<Rightarrow> daemon \<times> log_line list" where
  "handle_reload e s =
     (if \<not> g_reload s then (s, [])
      else let s1 = s\<lparr>g_reload := False\<rparr>
           in if \<not> alloc_ok e then (s1, [Log_reload_alloc])
              else let (n, lst, l) = load_sta_configs (wireless e) (ifaces s1);
                       lst' = map (\<lambda>(i, p). if i < n then reschedule (now e) i p else p) (enumerate 0 lst)
                   in (s1\<lparr>count := n, ifaces := lst'\<rparr>, l @ [Log_reloaded n]))"

definition main_tick :: "tick_env \<Rightarrow> daemon \<Rightarrow> daemon \<times> log_line list \<times> (string \<times> string) list" where
  "main_tick e s =
     (let (s1, l1) = handle_reload e s;
          (ps, l2, sent) = tick_ifaces e 0 (take (count s1) (ifaces s1))
      in (s1\<lparr>ifaces := ps @ drop (count s1) (ifaces s1)\<rparr>, l1 @ l2, sent))"

text \<open>Up to the loop: \<open>None\<close> when no UCI context or no socket is to be had (exit status 1).\<close>

definition startup :: "int \<Rightarrow> bool \<Rightarrow> int \<Rightarrow> uci_package option \<Rightarrow> (daemon \<times> log_line list) option" where
  "startup t ctx_ok sock uci =
     (if \<not> ctx_ok then None
      else let (n, lst, l) = load_sta_configs uci (replicate MAX_STA zero_iface);
               lst' = map (\<lambda>(i, p). if i < n then p\<lparr>next_try := t + int i * 15\<rparr> else p) (enumerate 0 lst);
               l' = map (\<lambda>p. Log_profile (ifname p) (ssid p) (auth p) (enc p) (psk_key p \<noteq> [])) (take n lst')
           in if sock < 0 then None
              else Some (\<lparr>ifaces = lst', count = n, g_reload = False, g_stop = False\<rparr>,
                         l @ l' @ [Log_started n]))"

definition handle_hup :: "daemon \<Rightarrow> daemon" where
  "handle_hup s = s\<lparr>g_reload := True\<rparr>"

definition handle_term :: "daemon \<Rightarrow> daemon" where
  "handle_term s = s\<lparr>g_stop := True\<rparr>"

end
