(* ===== verification/Reconnect_Theorems.thy ===== *)
theory Reconnect_Theorems
  imports Reconnect_Props
begin

text \<open>
  The properties of the reconnect daemon: its timing, its memory safety, what a reload keeps,
  what its logs reveal, and how configuration text becomes driver settings.
\<close>

section \<open>Timing\<close>

text \<open>C7.  The back-off doubles from 45 to 720 seconds with the number of failures, and the
  attempts of a profile keep at least 45 seconds apart over any run of ticks, whatever the
  link does.\<close>

theorem attempts_back_off:
  assumes "sorted (map fst xs)"
  shows "sorted_wrt (\<lambda>a b. a + RECONNECT_COOLDOWN \<le> b) (attempt_times xs p) \<and>
    next_cooldown f = 45 * 2 ^ nat (min 4 (max 0 (f - 1))) \<and> 45 \<le> next_cooldown f \<and> next_cooldown f \<le> 720 \<and>
    next_try (record_failure rnd t p) \<ge> t + next_cooldown (fail_count p + 1)"
  using attempts_spaced [OF assms] next_cooldown_bounds next_cooldown_eq
  by (simp add: RECONNECT_COOLDOWN_def)

definition demo_driver :: driver where
  "demo_driver = \<lparr>get_flags = (\<lambda>_. (0, True)), set_flags = (\<lambda>_. 0), priv_set = (\<lambda>_ _. (0, 0))\<rparr>"

theorem attempts_back_off_witness:
  "sorted_wrt (\<lambda>a b. a + RECONNECT_COOLDOWN \<le> b)
     (attempt_times [(0, False, demo_driver, 3), (5, False, demo_driver, 3), (60, False, demo_driver, 3)] zero_iface)"
  using attempts_back_off [of "[(0, False, demo_driver, 3), (5, False, demo_driver, 3), (60, False, demo_driver, 3)]"]
  by simp

text \<open>C8.  Hysteresis.  An attempt is made only in the second of two consecutive ticks that
  find the link down, and never before the back-off has passed.\<close>

theorem attempt_needs_two_down_ticks:
  assumes "disconn_streak p = 0" and "attempts x (run_state xs p)"
  shows "\<not> up x \<and> xs \<noteq> [] \<and> \<not> up (last xs) \<and> fst x \<ge> next_try (run_state xs p)"
proof -
  obtain t conn d rnd where x: "x = (t, conn, d, rnd)" by (rule prod_cases4)
  have c: "conn = False"
    using assms(2) tick_up(1) [of t d rnd] x by (cases conn) auto
  from assms(2) have "disconn_streak (run_state xs p) \<ge> 1" "t \<ge> next_try (run_state xs p)"
    unfolding x c tick_down(1) by simp_all
  with disconn_streak_ge [OF assms(1), of xs] show ?thesis
    by (simp add: x c up_def)
qed

theorem attempt_needs_two_down_ticks_witness:
  "attempts (5, False, demo_driver, 3) (run_state [(0, False, demo_driver, 3)] zero_iface) \<and>
   \<not> up (last [(0, False, demo_driver, 3)])"
proof -
  have a: "attempts (5, False, demo_driver, 3) (run_state [(0, False, demo_driver, 3)] zero_iface)"
    by (simp add: run_state_def tick_down Let_def zero_iface_def)
  have z: "disconn_streak zero_iface = 0"
    by (simp add: zero_iface_def)
  from attempt_needs_two_down_ticks [OF z a] a show ?thesis by blast
qed

text \<open> Confirmation.  The failure count of a profile goes down only when the last eight
  ticks all found the link up and the back-off has passed; it is then zero, and so is the
  next time to try.\<close>

theorem reset_needs_confirmed_link:
  assumes "connected_streak p = 0"
    and "fail_count (run_state (xs @ [x]) p) < fail_count (run_state xs p)"
  shows "length (takeWhile up (rev (xs @ [x]))) \<ge> 8 \<and> fst x \<ge> next_try (run_state xs p) \<and>
    fail_count (run_state (xs @ [x]) p) = 0 \<and> next_try (run_state (xs @ [x]) p) = 0"
proof -
  obtain t conn d rnd where x: "x = (t, conn, d, rnd)" by (rule prod_cases4)
  have c: "conn = True"
    using assms(2) by (cases conn) (auto simp: run_state_snoc x tick_down(2) Let_def split: if_splits)
  have k: "connected_streak (run_state xs p) + 1 \<ge> 8 \<and> t \<ge> next_try (run_state xs p)"
    using assms(2) by (auto simp: run_state_snoc x c tick_up(2) Let_def split: if_splits)
  then have "fail_count (run_state (xs @ [x]) p) = 0" "next_try (run_state (xs @ [x]) p) = 0"
    by (simp_all add: run_state_snoc x c tick_up(2) Let_def)
  moreover have "int (length (takeWhile up (rev (xs @ [x])))) \<ge> 8"
    using connected_streak_eq [OF assms(1), of xs] k by (simp add: x c up_def)
  ultimately show ?thesis
    using k x by simp
qed

theorem reset_needs_confirmed_link_witness:
  "fail_count (run_state (replicate 7 (100, True, demo_driver, 0) @ [(100, True, demo_driver, 0)])
     (zero_iface\<lparr>fail_count := 3\<rparr>)) = 0"
proof -
  let ?p = "zero_iface\<lparr>fail_count := 3\<rparr>" and ?x = "(100, True, demo_driver, 0) :: tick"
  have z: "connected_streak ?p = 0"
    by (simp add: zero_iface_def)
  have "fail_count (run_state (replicate 7 ?x @ [?x]) ?p) < fail_count (run_state (replicate 7 ?x) ?p)"
    by (simp add: run_state_def numeral_eq_Suc tick_up(2) Let_def zero_iface_def)
  from reset_needs_confirmed_link [OF z this] show ?thesis by blast
qed

section \<open>Memory safety\<close>

definition daemon_ok :: "daemon \<Rightarrow> bool" where
  "daemon_ok s \<longleftrightarrow> length (ifaces s) = 4 \<and> count s \<le> 4 \<and> (\<forall>p\<in>set (ifaces s). iface_ok p)"

lemma iface_ok_same:
  "ifname q = ifname p \<Longrightarrow> parent q = parent p \<Longrightarrow> ssid q = ssid p \<Longrightarrow> psk_key q = psk_key p \<Longrightarrow>
     auth q = auth p \<Longrightarrow> enc q = enc p \<Longrightarrow> iface_ok q = iface_ok p"
  by (simp add: iface_ok_def)

lemma pad_ok: "\<forall>p\<in>set ps. iface_ok p \<Longrightarrow> length ps \<le> 4 \<Longrightarrow> length (pad ps) = 4 \<and> (\<forall>p\<in>set (pad ps). iface_ok p)"
  by (auto simp: pad_def MAX_STA_def zero_iface_ok)

lemma restore_ok: "iface_ok (restore_state old p) = iface_ok p"
  by (auto simp: restore_state_def iface_ok_def split: option.split)

lemma load_ok:
  assumes "\<forall>p\<in>set lst. iface_ok p" and "load_sta_configs uci lst = (n, lst', l)"
  shows "n \<le> 4 \<and> length lst' = 4 \<and> (\<forall>p\<in>set lst'. iface_ok p)"
proof -
  let ?old = "filter (\<lambda>p. ssid p \<noteq> []) (take MAX_STA lst)"
  have len: "length ?old \<le> 4"
    by (rule order_trans [OF length_filter_le]) (simp add: MAX_STA_def)
  have old: "\<forall>p\<in>set ?old. iface_ok p"
    using assms(1) in_set_takeD [of _ MAX_STA lst] by auto
  show ?thesis
  proof (cases uci)
    case None
    with assms(2) pad_ok [OF old len] len show ?thesis
      by (auto simp: load_sta_configs_def Let_def)
  next
    case (Some pkg)
    obtain ps l2 where ps: "load_sections pkg pkg [] = (ps, l2)" by (rule prod.exhaust)
    have k: "(\<forall>p\<in>set ps. iface_ok p) \<and> length ps \<le> 4"
      by (rule load_sections_ok [OF _ _ ps]) simp_all
    then have "\<forall>p\<in>set (map (restore_state ?old) ps). iface_ok p" "length (map (restore_state ?old) ps) \<le> 4"
      by (simp_all add: restore_ok)
    from pad_ok [OF this] k assms(2) Some ps show ?thesis
      by (auto simp: load_sta_configs_def Let_def)
  qed
qed

lemma enumerate_map_ok:
  "(\<And>i p. iface_ok (f i p) = iface_ok p) \<Longrightarrow> \<forall>p\<in>set lst. iface_ok p \<Longrightarrow>
     \<forall>q\<in>set (map (\<lambda>(i, p). f i p) (enumerate 0 lst)). iface_ok q"
  by (auto simp: in_set_enumerate_eq)

lemma tick_state_ok: "iface_ok (tick_state x p) = iface_ok p"
proof -
  obtain t conn d rnd where x: "x = (t, conn, d, rnd)" by (rule prod_cases4)
  show ?thesis
    by (cases conn) (auto simp: x tick_up(2) tick_down(2) Let_def iface_ok_def)
qed

lemma iface_tick_ok: "iface_ok (fst (iface_tick t conn d rnd p)) = iface_ok p"
  using tick_state_ok [of "(t, conn, d, rnd)" p] by (simp add: tick_state_def)

lemma tick_ifaces_Cons:
  "fst (tick_ifaces e i (p # ps)) =
     fst (iface_tick (now e) (is_connected (probe e i)) (drv e i) (rnd_of e i) p) # fst (tick_ifaces e (Suc i) ps)"
  by (simp add: Let_def split: prod.split)

lemma tick_ifaces_ok:
  "\<forall>p\<in>set ps. iface_ok p \<Longrightarrow>
     length (fst (tick_ifaces e i ps)) = length ps \<and> (\<forall>p\<in>set (fst (tick_ifaces e i ps)). iface_ok p)"
proof (induction ps arbitrary: i)
  case (Cons p ps)
  then show ?case
    unfolding tick_ifaces_Cons by (simp add: iface_tick_ok)
qed simp

lemma handle_reload_ok: "daemon_ok s \<Longrightarrow> daemon_ok (fst (handle_reload e s))"
proof -
  assume s: "daemon_ok s"
  obtain n lst l where c: "load_sta_configs (wireless e) (ifaces s) = (n, lst, l)"
    by (rule prod_cases3)
  have k: "n \<le> 4 \<and> length lst = 4 \<and> (\<forall>p\<in>set lst. iface_ok p)"
    using load_ok [OF _ c] s by (simp add: daemon_ok_def)
  have "iface_ok (if i < n then reschedule t i p else p) = iface_ok p" for i t p
    by (simp add: reschedule_def iface_ok_def)
  note q = enumerate_map_ok [of "\<lambda>i p. if i < n then reschedule (now e) i p else p",
      OF this conjunct2 [OF conjunct2 [OF k]]]
  show ?thesis
    using q k s by (simp add: handle_reload_def Let_def daemon_ok_def c)
qed

text \<open>C9.  Memory safety: after start-up and after every tick, reloads included, there are at
  most four profiles and every text field fits its buffer with its terminator; and no
  command built from them can overflow the command buffer.\<close>

theorem buffers_never_overflow:
  "(startup t ctx_ok sock uci = Some (s0, l0) \<longrightarrow> daemon_ok s0) \<and>
   (daemon_ok s \<longrightarrow> daemon_ok (fst (main_tick e s)) \<and>
      (\<forall>p\<in>set (ifaces s). \<forall>c\<in>set (connect_commands p). length c < 256))"
proof -
  have "daemon_ok s0" if "startup t ctx_ok sock uci = Some (s0, l0)"
  proof -
    obtain n lst l where c: "load_sta_configs uci (replicate MAX_STA zero_iface) = (n, lst, l)"
      by (rule prod_cases3)
    have k: "n \<le> 4 \<and> length lst = 4 \<and> (\<forall>p\<in>set lst. iface_ok p)"
      by (rule load_ok [OF _ c]) (simp add: zero_iface_ok)
    have "iface_ok (if i < n then p\<lparr>next_try := t + int i * 15\<rparr> else p) = iface_ok p" for i p
      by (simp add: iface_ok_def)
    note q = enumerate_map_ok [of "\<lambda>i p. if i < n then p\<lparr>next_try := t + int i * 15\<rparr> else p",
        OF this conjunct2 [OF conjunct2 [OF k]]]
    from that have "s0 = \<lparr>ifaces = map (\<lambda>(i, p). if i < n then p\<lparr>next_try := t + int i * 15\<rparr> else p) (enumerate 0 lst),
        count = n, g_reload = False, g_stop = False\<rparr>"
      by (simp add: startup_def Let_def c split: if_splits)
    with q k show ?thesis
      by (simp add: daemon_ok_def)
  qed
  moreover have "daemon_ok (fst (main_tick e s))" if "daemon_ok s"
  proof -
    let ?s1 = "fst (handle_reload e s)"
    have s1: "daemon_ok ?s1"
      using that by (rule handle_reload_ok)
    then have "\<forall>p\<in>set (take (count ?s1) (ifaces ?s1)). iface_ok p"
      by (auto simp: daemon_ok_def dest: in_set_takeD)
    from tick_ifaces_ok [OF this, of e 0] s1 show ?thesis
      by (auto simp: main_tick_def Let_def daemon_ok_def dest: in_set_dropD split: prod.splits)
  qed
  moreover have "length c < 256" if "daemon_ok s" "p \<in> set (ifaces s)" "c \<in> set (connect_commands p)" for p c
    using that by (auto simp: daemon_ok_def iface_ok_def connect_commands_def split: if_splits)
  ultimately show ?thesis by blast
qed

theorem buffers_never_overflow_witness:
  "\<forall>e. daemon_ok (fst (main_tick e \<lparr>ifaces = replicate 4 zero_iface, count = 2, g_reload = True, g_stop = False\<rparr>))"
proof
  fix e
  show "daemon_ok (fst (main_tick e \<lparr>ifaces = replicate 4 zero_iface, count = 2, g_reload = True, g_stop = False\<rparr>))"
    using buffers_never_overflow [of _ _ _ _ _ _ "\<lparr>ifaces = replicate 4 zero_iface, count = 2, g_reload = True, g_stop = False\<rparr>" e]
    by (simp add: daemon_ok_def zero_iface_ok)
qed

section \<open>Reload\<close>

text \<open> A reload never shortens a pending back-off: a profile that is still configured (same
  interface and SSID) keeps its failure count and its next attempt, which moves only when
  it was due already; and when the configuration cannot be loaded, every profile that has
  an SSID is still there.\<close>

theorem reload_keeps_back_off:
  assumes "g_reload s" and "alloc_ok e" and "length (ifaces s) = 4"
    and "wireless e = Some pkg" and "i < count (fst (handle_reload e s))"
    and "find (\<lambda>q. ifname (ifaces (fst (handle_reload e s)) ! i) = ifname q \<and>
                  ssid (ifaces (fst (handle_reload e s)) ! i) = ssid q)
           (filter (\<lambda>p. ssid p \<noteq> []) (ifaces s)) = Some q"
  shows "fail_count (ifaces (fst (handle_reload e s)) ! i) = fail_count q \<and>
    next_try (ifaces (fst (handle_reload e s)) ! i) =
      (if now e \<ge> next_try q then now e + 5 + int i * 10 else next_try q) \<and>
    (\<forall>lst. fst (load_sta_configs None lst) = length (filter (\<lambda>p. ssid p \<noteq> []) (take 4 lst)) \<and>
       take (fst (load_sta_configs None lst)) (fst (snd (load_sta_configs None lst)))
         = filter (\<lambda>p. ssid p \<noteq> []) (take 4 lst))"
proof -
  let ?old = "filter (\<lambda>p. ssid p \<noteq> []) (ifaces s)"
  obtain ps l where ps: "load_sections pkg pkg [] = (ps, l)" by (rule prod.exhaust)
  let ?lst = "pad (map (restore_state ?old) ps)"
  have c: "load_sta_configs (wireless e) (ifaces s) = (length ps, ?lst, l)"
    using assms(3,4) ps by (simp add: load_sta_configs_def MAX_STA_def)
  have h: "count (fst (handle_reload e s)) = length ps"
    "ifaces (fst (handle_reload e s)) = map (\<lambda>(i, p). if i < length ps then reschedule (now e) i p else p) (enumerate 0 ?lst)"
    using assms(1,2) c by (simp_all add: handle_reload_def Let_def)
  have i: "i < length ps"
    using assms(5) h(1) by simp
  then have n: "ifaces (fst (handle_reload e s)) ! i = reschedule (now e) i (restore_state ?old (ps ! i))"
    unfolding h(2) by (simp add: pad_def nth_enumerate_eq nth_append)
  have "find (\<lambda>q. ifname (ps ! i) = ifname q \<and> ssid (ps ! i) = ssid q) ?old = Some q"
    using assms(6) unfolding n by (auto simp: reschedule_def restore_state_def split: if_splits option.splits)
  then have "restore_state ?old (ps ! i) = (ps ! i)\<lparr>next_try := next_try q, fail_count := fail_count q,
      disconn_streak := disconn_streak q, connected_streak := connected_streak q, last_connected := last_connected q\<rparr>"
    by (simp add: restore_state_def)
  then have r: "fail_count (ifaces (fst (handle_reload e s)) ! i) = fail_count q \<and>
      next_try (ifaces (fst (handle_reload e s)) ! i) =
        (if now e \<ge> next_try q then now e + 5 + int i * 10 else next_try q)"
    unfolding n by (simp add: reschedule_def)
  have "fst (load_sta_configs None lst) = length (filter (\<lambda>p. ssid p \<noteq> []) (take 4 lst)) \<and>
      take (fst (load_sta_configs None lst)) (fst (snd (load_sta_configs None lst)))
        = filter (\<lambda>p. ssid p \<noteq> []) (take 4 lst)" for lst
    by (simp add: load_sta_configs_def MAX_STA_def pad_def Let_def)
  with r show ?thesis by blast
qed

text \<open>A profile waiting for time 500 at a reload at time 100.\<close>

definition demo_section :: uci_section where
  "demo_section = \<lparr>sec_name = ''sta'', sec_type = ''wifi-iface'',
     sec_opts = [(''mode'', ''sta''), (''device'', ''radio0''), (''ssid'', ''home''), (''ifname'', ''apcli0''),
                 (''parent_iface'', ''ra0'')]\<rparr>"

definition demo_daemon :: daemon where
  "demo_daemon = \<lparr>ifaces = zero_iface\<lparr>ifname := ''apcli0'', ssid := ''home'', next_try := 500, fail_count := 3\<rparr>
     # replicate 3 zero_iface, count = 1, g_reload = True, g_stop = False\<rparr>"

definition demo_tick :: tick_env where
  "demo_tick = \<lparr>now = 100, alloc_ok = True, wireless = Some [demo_section],
     probe = (\<lambda>_. \<lparr>iwap_ret = -1, iwap_mac = [], stats_ret = 0, qual_updated = False, qual = 0, rate_ret = 0,
                rate_errno = 0, bitrate = 0\<rparr>),
     drv = (\<lambda>_. demo_driver), rnd_of = (\<lambda>_. 0)\<rparr>"

lemma demo_loaded:
  "count (fst (handle_reload demo_tick demo_daemon)) = 1"
  "ifname (ifaces (fst (handle_reload demo_tick demo_daemon)) ! 0) = ''apcli0''"
  "ssid (ifaces (fst (handle_reload demo_tick demo_daemon)) ! 0) = ''home''"
  by code_simp+

theorem reload_keeps_back_off_witness:
  "next_try (ifaces (fst (handle_reload demo_tick demo_daemon)) ! 0) = 500 \<and>
   fail_count (ifaces (fst (handle_reload demo_tick demo_daemon)) ! 0) = 3"
  using reload_keeps_back_off [of demo_daemon demo_tick "[demo_section]" 0
      "zero_iface\<lparr>ifname := ''apcli0'', ssid := ''home'', next_try := 500, fail_count := 3\<rparr>"]
  by (simp add: demo_loaded) (simp add: demo_daemon_def demo_tick_def zero_iface_def)

section \<open>Secrets\<close>

lemma run_commands_append:
  "run_commands d name (as @ bs) =
     (let (f, l, s) = run_commands d name as; (f', l', s') = run_commands d name bs
      in (f + f', l @ l', s @ s'))"
  by (induction as) (auto simp: Let_def split: prod.split)

lemma psk_log:
  assumes "length k1 < 64" and "length k2 < 64"
    and "priv_set d (safe_copy 16 name) (''ApCliWPAPSK='' @ k1) = priv_set d (safe_copy 16 name) (''ApCliWPAPSK='' @ k2)"
  shows "fst (mtk_ioctl_set d name (''ApCliWPAPSK='' @ k1)) = fst (mtk_ioctl_set d name (''ApCliWPAPSK='' @ k2)) \<and>
    fst (snd (mtk_ioctl_set d name (''ApCliWPAPSK='' @ k1))) = fst (snd (mtk_ioctl_set d name (''ApCliWPAPSK='' @ k2)))"
  using assms by (simp add: mtk_ioctl_set_def IFNAMSIZ_def split: prod.split)

text \<open> The log never depends on the wireless key: two profiles that differ only in their
  (non-empty) keys print the same lines in a connect transaction in which the driver
  answers the key command alike.\<close>

theorem log_hides_key:
  assumes "iface_ok (p\<lparr>psk_key := k1\<rparr>)" and "iface_ok (p\<lparr>psk_key := k2\<rparr>)" and "k1 \<noteq> []" and "k2 \<noteq> []"
    and "priv_set d (safe_copy 16 (ifname p)) (''ApCliWPAPSK='' @ k1)
       = priv_set d (safe_copy 16 (ifname p)) (''ApCliWPAPSK='' @ k2)"
  shows "fst (snd (do_connect_transaction d rnd t (p\<lparr>psk_key := k1\<rparr>)))
       = fst (snd (do_connect_transaction d rnd t (p\<lparr>psk_key := k2\<rparr>)))"
proof -
  let ?a = "(if fail_count p \<ge> 1 then [''ApCliEnable=0''] else []) @ [''ApCliAuthMode='' @ auth p, ''ApCliEncrypType='' @ enc p]"
  let ?b = "[''ApCliSsid='' @ ssid p, ''ApCliAutoConnect=1'', ''ApCliEnable=1'']"
  have cmds: "connect_commands (p\<lparr>psk_key := k\<rparr>) = ?a @ [''ApCliWPAPSK='' @ k] @ ?b" if "k \<noteq> []" for k
    using that by (simp add: connect_commands_def)
  obtain fa la sa where a: "run_commands d (ifname p) ?a = (fa, la, sa)" by (rule prod_cases3)
  obtain fb lb sb where b: "run_commands d (ifname p) ?b = (fb, lb, sb)" by (rule prod_cases3)
  obtain r1 l1 s1 where 1: "mtk_ioctl_set d (ifname p) (''ApCliWPAPSK='' @ k1) = (r1, l1, s1)" by (rule prod_cases3)
  obtain r2 l2 s2 where 2: "mtk_ioctl_set d (ifname p) (''ApCliWPAPSK='' @ k2) = (r2, l2, s2)" by (rule prod_cases3)
  have same: "r1 = r2" "l1 = l2"
    using psk_log [of k1 k2 d "ifname p"] assms(1,2,5) 1 2 by (simp_all add: iface_ok_def)
  have run: "run_commands d (ifname p) (?a @ [''ApCliWPAPSK='' @ k] @ ?b) =
      (fa + ((if r < 0 then 1 else 0) + fb), la @ l @ lb, sa @ s @ sb)"
    if "mtk_ioctl_set d (ifname p) (''ApCliWPAPSK='' @ k) = (r, l, s)" for k r l s
    unfolding run_commands_append [of d "ifname p" ?a] run_commands_append [of d "ifname p" "[''ApCliWPAPSK='' @ k]"] a b
    using that by simp
  show ?thesis
    unfolding do_connect_transaction_def Let_def cmds [OF assms(3)] cmds [OF assms(4)]
    by (simp add: run [OF 1] run [OF 2] same del: append.simps append_assoc)
qed

theorem log_hides_key_witness:
  "fst (snd (do_connect_transaction demo_driver 0 7 (zero_iface\<lparr>psk_key := ''secret-one''\<rparr>)))
     = fst (snd (do_connect_transaction demo_driver 0 7 (zero_iface\<lparr>psk_key := ''another''\<rparr>)))"
  by (rule log_hides_key) (simp_all add: iface_ok_def zero_iface_def demo_driver_def)

text \<open> A raw pre-shared key of 64 hexadecimal digits does not fit the key buffer: it is cut
  to 63 characters, so the key command never carries the key that is configured.\<close>

theorem raw_psk_truncated:
  assumes "uci_lookup_option s ''key'' = Some k" and "length k = 64" and "CHR 0x00 \<notin> set k"
  shows "psk_key (fst (load_profile pkg s dev sid)) = take 63 k \<and>
    (\<forall>q. psk_key q = psk_key (fst (load_profile pkg s dev sid)) \<longrightarrow>
       ''ApCliWPAPSK='' @ k \<notin> set (connect_commands q))"
proof -
  have "c_str k = k"
    using assms(3) unfolding c_str_def by (auto intro: takeWhile_eq_all_conv [THEN iffD2])
  then have t: "psk_key (fst (load_profile pkg s dev sid)) = take 63 k"
    using assms(1) by (simp add: load_profile_def safe_copy_def Let_def split: prod.split)
  have "take 63 k \<noteq> k"
  proof
    assume "take 63 k = k"
    then have "length (take 63 k) = length k" by simp
    with assms(2) show False by simp
  qed
  then have ne: "k \<noteq> psk_key q" if "psk_key q = take 63 k" for q
    using that by metis
  have "''ApCliWPAPSK='' @ k \<notin> set (connect_commands q)" if "psk_key q = take 63 k" for q
    using ne [OF that] by (simp add: connect_commands_def)
  with t show ?thesis by simp
qed

theorem raw_psk_truncated_witness:
  "psk_key (fst (load_profile [] (demo_section\<lparr>sec_opts := [(''key'', replicate 64 (CHR ''a''))]\<rparr>) ''radio0'' ''home''))
     = take 63 (replicate 64 (CHR ''a''))"
  using raw_psk_truncated [of "demo_section\<lparr>sec_opts := [(''key'', replicate 64 (CHR ''a''))]\<rparr>"
      "replicate 64 (CHR ''a'')" "[]" "''radio0''" "''home''"]
  by (simp add: uci_lookup_option_def)

section \<open>Encryption settings\<close>

text \<open> No downgrade: an encryption setting that names PSK, SAE, WPA3, OWE or CCMP (and
  neither \<open>none\<close> nor \<open>open\<close>) is never mapped to an open network, and always to a cipher.\<close>

theorem encryption_not_downgraded:
  assumes "\<not> strstr v ''none''" and "\<not> strstr v ''open''"
    and "strstr v ''psk'' \<or> strstr v ''sae'' \<or> strstr v ''wpa3'' \<or> strstr v ''owe'' \<or> strstr v ''ccmp''"
  shows "fst (map_encryption (Some v) 32 32) \<in> {''WPA2PSKWPA3SAE'', ''WPA3SAE'', ''OWE'', ''WPA1PSKWPA2PSK'', ''WPA2PSK'', ''WPAPSK''} \<and>
    fst (snd (map_encryption (Some v) 32 32)) \<in> {''AES'', ''TKIP'', ''TKIPAES''} \<and>
    snd (snd (map_encryption (Some v) 32 32)) = []"
  using assms by (auto simp: map_encryption_def Let_def safe_copy_def c_str_def)

theorem encryption_not_downgraded_witness:
  "fst (map_encryption (Some ''psk2+ccmp'') 32 32) \<in> {''WPA2PSKWPA3SAE'', ''WPA3SAE'', ''OWE'', ''WPA1PSKWPA2PSK'', ''WPA2PSK'', ''WPAPSK''}"
proof -
  have "\<not> strstr ''psk2+ccmp'' ''none''" "\<not> strstr ''psk2+ccmp'' ''open''" "strstr ''psk2+ccmp'' ''psk''"
    by code_simp+
  with encryption_not_downgraded [of "''psk2+ccmp''"] show ?thesis by blast
qed

text \<open> Where the mapping departs from what the settings mean: a TKIP+CCMP network is set to
  TKIP alone, a WPA2 enterprise network to an open one; and a 5 GHz radio whose \<open>band\<close> is
  neither \<open>2g\<close> nor \<open>5g\<close> gets the 2.4 GHz client interface under the 5 GHz parent.\<close>

theorem misconfigured_profiles:
  "fst (snd (map_encryption (Some ''psk2+tkip+ccmp'') 32 32)) = ''TKIP'' \<and>
   fst (map_encryption (Some ''wpa2'') 32 32) = ''OPEN'' \<and>
   (let pkg = [\<lparr>sec_name = ''radio1'', sec_type = ''wifi-device'', sec_opts = [(''band'', ''6g''), (''hwmode'', ''11a'')]\<rparr>];
        p = fst (load_profile pkg \<lparr>sec_name = ''sta'', sec_type = ''wifi-iface'', sec_opts = []\<rparr> ''radio1'' ''home'')
    in ifname p = ''apcli0'' \<and> parent p = ''rax0'')"
  by code_simp

end
