(* ===== verification/Mcast_Hw.thy ===== *)
theory Mcast_Hw
  imports Prelude
begin

text \<open>
  The hardware side of multicast offload, \<^verbatim>\<open>mtk_hnat/hnat_mcast.c\<close>: the multicast table registers
  of a packet engine, the fields of a flow (FOE) entry that multicast touches, entry deletion
  (\<open>entry_delete\<close> of \<^verbatim>\<open>hnat_debugfs.c\<close>), and the functions that program them for a group.  The
  build configuration is that of NETSYS V3 chips.  Effects without a value (cache flushes, calls to
  the network processor) are recorded in \<open>hw_trace\<close>.
\<close>

section \<open>Data\<close>

definition PPE_GLO_CFG :: int where "PPE_GLO_CFG = 0x00"
definition PPE_MCAST_L_0 :: int where "PPE_MCAST_L_0 = 0x88"
definition PPE_MCAST_H_0 :: int where "PPE_MCAST_H_0 = 0x8C"
definition PPE_MCAST_L_10 :: int where "PPE_MCAST_L_10 = - 0x200"
definition PPE_MCAST_H_10 :: int where "PPE_MCAST_H_10 = - 0x200 + 0x4"

definition MCAST_TO_GDMA3 :: nat where "MCAST_TO_GDMA3 = 0"
definition MCAST_TO_PDMA :: nat where "MCAST_TO_PDMA = 1"
definition MCAST_TO_GDMA1 :: nat where "MCAST_TO_GDMA1 = 2"
definition MCAST_TO_GDMA2 :: nat where "MCAST_TO_GDMA2 = 3"
definition MCAST_TO_TDMA :: nat where "MCAST_TO_TDMA = 4"

lemmas mcast_port_defs = MCAST_TO_GDMA3_def MCAST_TO_PDMA_def MCAST_TO_GDMA1_def MCAST_TO_GDMA2_def
  MCAST_TO_TDMA_def

definition NR_GMAC1_PORT :: nat where "NR_GMAC1_PORT = 1"
definition NR_GMAC2_PORT :: nat where "NR_GMAC2_PORT = 2"
definition NR_TDMA_PORT :: nat where "NR_TDMA_PORT = 10"
definition NR_GMAC3_PORT :: nat where "NR_GMAC3_PORT = 15"

lemmas pse_port_defs = NR_GMAC1_PORT_def NR_GMAC2_PORT_def NR_TDMA_PORT_def NR_GMAC3_PORT_def

definition EINVAL :: int where "EINVAL = 22"
definition ENOENT :: int where "ENOENT = 2"
definition ENOMEM :: int where "ENOMEM = 12"
definition EEXIST :: int where "EEXIST = 17"
definition EPROTO :: int where "EPROTO = 71"
definition EBUSY :: int where "EBUSY = 16"

definition INVLD_IDX :: int where "INVLD_IDX = - 1"
definition HNAT_NPU_ENTRY_MC :: nat where "HNAT_NPU_ENTRY_MC = 30"

text \<open>The packet types fall into \<open>IS_IPV4_GRP\<close>, \<open>IS_IPV6_GRP\<close> and the rest.\<close>

datatype foe_kind = FOE_IPV4 | FOE_IPV6 | FOE_OTHER

datatype foe_state = INVALID | UNBIND | BIND | FIN

text \<open>The fields of \<^verbatim>\<open>struct foe_entry\<close> that multicast uses, in the union member its type
  selects (\<open>f_mts\<close> is the IPv4 view's \<open>m_timestamp\<close>, which is read for every type).\<close>

record foe_entry =
  f_kind :: foe_kind
  f_state :: foe_state
  f_sta :: bool
  f_ts :: u16
  f_mts :: u16
  f_sip :: u32
  f_dip :: u32
  f_sip6 :: "u32 list"
  f_dip6 :: "u32 list"
  f_tport :: nat
  f_tops :: nat
  f_mcast :: bool
  f_dp :: nat
  f_vlan_layer :: nat
  f_vpm :: nat
  f_sp_tag :: u16

text \<open>All zero bytes: an invalid entry of packet type 0, an IPv4 one.\<close>

definition foe_zero :: foe_entry where
  "foe_zero = \<lparr>f_kind = FOE_IPV4, f_state = INVALID, f_sta = False, f_ts = 0, f_mts = 0, f_sip = 0,
     f_dip = 0, f_sip6 = [0, 0, 0, 0], f_dip6 = [0, 0, 0, 0], f_tport = 0, f_tops = 0, f_mcast = False,
     f_dp = 0, f_vlan_layer = 0, f_vpm = 0, f_sp_tag = 0\<rparr>"

text \<open>\<^verbatim>\<open>struct mcast_offload_info\<close>.\<close>

record mcast_offload_info =
  mi_dst :: "be32 list"
  mi_dest :: nat
  mi_daddr :: "u8 list"
  mi_dsa_port :: u8
  mi_is_ipv6 :: bool
  mi_m2u_en :: bool
  mi_npu_grp_idx :: u32

datatype hw_op = Cache_ebl | Cache_clr nat | Npu_insert mcast_offload_info | Npu_delete mcast_offload_info

text \<open>The engines: registers by engine and offset, flow tables, and the sizes of the device.
  \<open>foe_local\<close> is the entry a packet is being bound to, a copy outside the table; \<open>foe_clock\<close> the
  clock register and \<open>hnat_v2_v3\<close> whether the chip is of version 2 or 3.\<close>

record hw =
  regs :: "nat \<Rightarrow> int \<Rightarrow> u32"
  foe_tab :: "nat \<Rightarrow> nat \<Rightarrow> foe_entry"
  foe_local :: foe_entry
  hw_trace :: "hw_op list"
  ppe_num :: nat
  foe_etry_num :: nat
  max_entry :: nat
  foe_clock :: u16
  hnat_v2_v3 :: bool

text \<open>The clock of the frame engine: all 16 bits for multicast, else as many as an entry keeps.\<close>

definition foe_timestamp :: "bool \<Rightarrow> hw \<Rightarrow> u16" where
  "foe_timestamp mcast h =
     (if mcast then foe_clock h else if hnat_v2_v3 h then foe_clock h AND 0xFF else foe_clock h AND 0x7FFF)"

datatype foe_ref = In_table nat nat | Local

definition foe_at :: "foe_ref \<Rightarrow> hw \<Rightarrow> foe_entry" where
  "foe_at r h = (case r of In_table p i \<Rightarrow> foe_tab h p i | Local \<Rightarrow> foe_local h)"

definition foe_put :: "foe_ref \<Rightarrow> foe_entry \<Rightarrow> hw \<Rightarrow> hw" where
  "foe_put r f h =
     (case r of In_table p i \<Rightarrow> h\<lparr>foe_tab := (foe_tab h)(p := (foe_tab h p)(i := f))\<rparr>
              | Local \<Rightarrow> h\<lparr>foe_local := f\<rparr>)"

definition trace :: "hw_op \<Rightarrow> hw \<Rightarrow> hw" where
  "trace x h = h\<lparr>hw_trace := hw_trace h @ [x]\<rparr>"

section \<open>Multicast table\<close>

definition writel :: "nat \<Rightarrow> u32 \<Rightarrow> int \<Rightarrow> hw \<Rightarrow> hw" where
  "writel p v off h = h\<lparr>regs := (regs h)(p := (regs h p)(off := v))\<rparr>"

definition mtbl_h :: "nat \<Rightarrow> int" where
  "mtbl_h index = (if index < 0x10 then PPE_MCAST_H_0 + int index * 8
                   else PPE_MCAST_H_10 + int (index - 0x10) * 8)"

definition mtbl_l :: "nat \<Rightarrow> int" where
  "mtbl_l index = (if index < 0x10 then PPE_MCAST_L_0 + int index * 8
                   else PPE_MCAST_L_10 + int (index - 0x10) * 8)"

definition DMAC_TO_HI16 :: "u8 list \<Rightarrow> u16" where
  "DMAC_TO_HI16 dmac = push_bit 8 (ucast (dmac ! 0)) OR ucast (dmac ! 1)"

definition DMAC_TO_LO32 :: "u8 list \<Rightarrow> u32" where
  "DMAC_TO_LO32 dmac = push_bit 24 (ucast (dmac ! 2)) OR push_bit 16 (ucast (dmac ! 3)) OR
     push_bit 8 (ucast (dmac ! 4)) OR ucast (dmac ! 5)"

text \<open>The bit-fields of \<^verbatim>\<open>struct ppe_mcast_h\<close> that are used: five bits of ports from bit 15, two
  bits of prefix selection from bit 20.\<close>

definition mcast_h_value :: "u32 \<Rightarrow> u32 \<Rightarrow> u32" where
  "mcast_h_value px_en mpre_sel = push_bit 15 (take_bit 5 px_en) OR push_bit 20 (take_bit 2 mpre_sel)"

definition set_hnat_mtbl :: "u8 list \<Rightarrow> nat \<Rightarrow> nat \<Rightarrow> u32 \<Rightarrow> hw \<Rightarrow> int \<times> hw" where
  "set_hnat_mtbl mac index ppe pse_bmp h =
     (let mac_hi = DMAC_TO_HI16 mac; mac_lo = DMAC_TO_LO32 mac
      in if mac_hi = 0x0100
         then (0, writel ppe mac_lo (mtbl_l index) (writel ppe (mcast_h_value pse_bmp 0) (mtbl_h index) h))
         else if mac_hi = 0x3333
         then (0, writel ppe mac_lo (mtbl_l index) (writel ppe (mcast_h_value pse_bmp 1) (mtbl_h index) h))
         else (- EINVAL, h))"

definition clr_hnat_mtbl :: "nat \<Rightarrow> nat \<Rightarrow> hw \<Rightarrow> hw" where
  "clr_hnat_mtbl ppe index h = writel ppe 0 (mtbl_l index) (writel ppe 0 (mtbl_h index) h)"

text \<open>The first index whose two registers are zero, \<open>-1\<close> when there is none.\<close>

definition hnat_mcast_alloc_mtbl_entry :: "nat \<Rightarrow> hw \<Rightarrow> int" where
  "hnat_mcast_alloc_mtbl_entry ppe h =
     (case find (\<lambda>idx. regs h ppe (mtbl_h idx) = 0 \<and> regs h ppe (mtbl_l idx) = 0) [0 ..< max_entry h] of
        Some idx \<Rightarrow> int idx
      | None \<Rightarrow> - 1)"

section \<open>Entry deletion\<close>

definition entry_delete_one :: "u16 \<Rightarrow> foe_entry \<Rightarrow> foe_entry" where
  "entry_delete_one ts f = f\<lparr>f_state := INVALID, f_ts := ts\<rparr>"

text \<open>\<open>entry_delete\<close>: the engine number is unsigned, so \<open>-1\<close> is too large; index \<open>-1\<close> with an
  existing engine deletes every entry.\<close>

definition entry_delete :: "int \<Rightarrow> int \<Rightarrow> hw \<Rightarrow> int \<times> hw" where
  "entry_delete ppe index h =
     (if ppe < 0 \<or> ppe \<ge> int (ppe_num h) then (- EINVAL, h)
      else if index < - 1 \<or> index \<ge> int (foe_etry_num h) then (- EINVAL, h)
      else let t = foe_tab h (nat ppe);
               t' = (if index = - 1
                     then (\<lambda>i. if i < foe_etry_num h then entry_delete_one (foe_timestamp False h) (t i) else t i)
                     else t(nat index := entry_delete_one (foe_timestamp False h) (t (nat index))))
           in (0, trace (Cache_clr (nat ppe)) (h\<lparr>foe_tab := (foe_tab h)(nat ppe := t')\<rparr>)))"

section \<open>Port bitmaps\<close>

definition hweight32 :: "u32 \<Rightarrow> nat" where
  "hweight32 w = length (filter (bit w) [0 ..< 32])"

definition BMP_IS_SINGLE_PORT :: "u32 \<Rightarrow> bool" where
  "BMP_IS_SINGLE_PORT bmp = (hweight32 bmp = 1)"

text \<open>\<open>__ffs\<close>, undefined in C for 0.\<close>

definition ffs :: "u32 \<Rightarrow> nat option" where
  "ffs w = find (bit w) [0 ..< 32]"

definition port_bit :: "nat \<Rightarrow> u32" where
  "port_bit n = push_bit n 1"

section \<open>Groups\<close>

text \<open>\<^verbatim>\<open>struct ppe_mcast_group\<close>; the addresses are the raw words (one for IPv4).\<close>

record mc_group =
  g_mac :: "u8 list"
  g_members :: "u32 list"
  mtbl_idx :: int
  ppe_id :: int
  foe_idx :: int
  psebmp :: u32
  g_dip :: be32
  g_sip :: be32
  g_dip6 :: "be32 list"
  g_sip6 :: "be32 list"
  g_offload :: bool
  g_is_ipv4 :: bool
  npu_grp_idx :: u32

text \<open>The pattern that unbinds a group from its flow entry.\<close>

definition unbind :: "mc_group \<Rightarrow> mc_group" where
  "unbind g = g\<lparr>psebmp := 0, ppe_id := INVLD_IDX, foe_idx := INVLD_IDX\<rparr>"

definition hnat_mcast_get_hw_foe :: "mc_group \<Rightarrow> foe_ref option" where
  "hnat_mcast_get_hw_foe g =
     (if ppe_id g \<noteq> - 1 \<and> foe_idx g \<noteq> - 1 then Some (In_table (nat (ppe_id g)) (nat (foe_idx g))) else None)"

section \<open>Flow entry updates\<close>

text \<open>Each returns the entry and the new value of \<open>*clr_cache\<close>.\<close>

definition hnat_mcast_foe_mc_enable :: "bool \<Rightarrow> foe_entry \<Rightarrow> foe_entry \<times> bool" where
  "hnat_mcast_foe_mc_enable to_npu f =
     (let f1 = (if f_kind f \<noteq> FOE_OTHER
                then (if to_npu then f\<lparr>f_tport := 0, f_tops := HNAT_NPU_ENTRY_MC\<rparr> else f\<lparr>f_tport := 0\<rparr>)
                       \<lparr>f_mcast := True, f_dp := 0\<rparr>
                else f)
      in (f1\<lparr>f_vlan_layer := 0, f_vpm := 0\<rparr>, True))"

definition hnat_mcast_foe_stag_update :: "u8 \<Rightarrow> foe_entry \<Rightarrow> foe_entry \<times> bool" where
  "hnat_mcast_foe_stag_update stag f =
     ((if f_kind f \<noteq> FOE_OTHER then f\<lparr>f_sp_tag := ucast stag\<rparr> else f)\<lparr>f_vlan_layer := 1\<rparr>, True)"

definition mc_dp :: "u32 \<Rightarrow> nat option" where
  "mc_dp pse_bmp =
     (case ffs pse_bmp of
        None \<Rightarrow> None
      | Some n \<Rightarrow> if n = MCAST_TO_GDMA1 then Some NR_GMAC1_PORT
                  else if n = MCAST_TO_GDMA2 then Some NR_GMAC2_PORT
                  else if n = MCAST_TO_GDMA3 then Some NR_GMAC3_PORT
                  else if n = MCAST_TO_TDMA then Some NR_TDMA_PORT else None)"

definition hnat_mcast_foe_mc_disable :: "u32 \<Rightarrow> foe_entry \<Rightarrow> bool \<Rightarrow> foe_entry \<times> bool" where
  "hnat_mcast_foe_mc_disable pse_bmp f clr =
     (case mc_dp pse_bmp of
        None \<Rightarrow> (f, clr)
      | Some dp \<Rightarrow>
          let f1 = (if f_kind f \<noteq> FOE_OTHER
                    then f\<lparr>f_dp := dp, f_mcast := False, f_tport := 0,
                           f_tops := (if dp = NR_TDMA_PORT then 30 else 0)\<rparr>
                    else f)
          in (f1\<lparr>f_vpm := 0, f_vlan_layer := (if dp = NR_GMAC1_PORT then 1 else 0)\<rparr>, True))"

text \<open>\<open>hnat_mcast_mtbl_setup\<close>: \<open>-1\<close> when the table is full, with the entry wiped and the group
  unbound (its bitmap stays).\<close>

definition hnat_mcast_mtbl_setup ::
  "u32 \<Rightarrow> foe_ref \<Rightarrow> bool \<Rightarrow> bool \<Rightarrow> mc_group \<Rightarrow> hw \<Rightarrow> int \<times> bool \<times> mc_group \<times> hw" where
  "hnat_mcast_mtbl_setup pse_bmp r to_npu clr g h =
     (let g1 = (if mtbl_idx g = - 1 then g\<lparr>mtbl_idx := hnat_mcast_alloc_mtbl_entry (nat (ppe_id g)) h\<rparr> else g)
      in if mtbl_idx g1 = - 1
         then (- 1, True, g1\<lparr>foe_idx := - 1, ppe_id := - 1\<rparr>, foe_put r foe_zero h)
         else let bmp = (if to_npu then (pse_bmp AND NOT (port_bit MCAST_TO_GDMA1)) OR port_bit MCAST_TO_TDMA
                         else pse_bmp)
              in (0, clr, g1, snd (set_hnat_mtbl (g_mac g1) (nat (mtbl_idx g1)) (nat (ppe_id g1)) bmp h)))"

definition hnat_mcast_mtbl_teardown :: "mc_group \<Rightarrow> hw \<Rightarrow> mc_group \<times> hw" where
  "hnat_mcast_mtbl_teardown g h =
     (if mtbl_idx g \<noteq> INVLD_IDX \<and> ppe_id g \<noteq> INVLD_IDX
      then (g\<lparr>mtbl_idx := INVLD_IDX\<rparr>, clr_hnat_mtbl (nat (ppe_id g)) (nat (mtbl_idx g)) h)
      else (g, h))"

text \<open>A cache flush when a bound entry changed.\<close>

definition flush_bound :: "bool \<Rightarrow> foe_ref \<Rightarrow> hw \<Rightarrow> hw" where
  "flush_bound clr r h = (if clr \<and> f_state (foe_at r h) = BIND then trace Cache_ebl h else h)"

end
