(* ===== verification/Mcast_Group.thy ===== *)
theory Mcast_Group
  imports Mcast_Hw
begin

text \<open>
  The per-group part of \<^verbatim>\<open>mtk_hnat/hnat_mcast.c\<close>: which ports a group's members need, what the
  network processor (NPU) is told, and how the flow entry and the multicast table of a group follow
  its ports.  The net devices, the switch's tagging and the NPU driver are the environment.  A
  function that C gives a group and a flow entry to change takes and returns the group and the
  hardware.
\<close>

section \<open>Environment\<close>

text \<open>A net device: \<open>nd_reg\<close> is the port number of its device tree node, \<open>nd_wifi_index\<close> the
  result of \<open>get_wifi_hook_if_index_from_dev\<close>, \<open>nd_mac_id\<close> the GMAC of a MediaTek Ethernet device.\<close>

record netdev =
  nd_name :: string
  nd_running :: bool
  nd_reg :: "nat option"
  nd_wifi_index :: int
  nd_mac_id :: nat

text \<open>The NPU driver's operations: each sees the calls so far and the request, and answers with its
  return value; an insertion also fills in \<open>npu_grp_idx\<close>.\<close>

record npu_hnat_mcast_ops =
  npu_mcast_client_insert :: "(hw_op list \<Rightarrow> mcast_offload_info \<Rightarrow> int \<times> u32) option"
  npu_mcast_client_delete :: "(hw_op list \<Rightarrow> mcast_offload_info \<Rightarrow> int) option"

record mc_env =
  netdevs :: "u32 \<Rightarrow> netdev option"
  wan_name :: string
  lan_name :: string
  lan2_name :: string
  whnat :: bool
  gmac1_mode :: bool
  eth0_mtk_dsa :: bool
  hnat_mc_ops :: "npu_hnat_mcast_ops option"

fun prefixed :: "string \<Rightarrow> string \<Rightarrow> bool" where
  "prefixed [] s = True"
| "prefixed (c # cs) [] = False"
| "prefixed (c # cs) (d # ds) = (c = d \<and> prefixed cs ds)"

definition IS_DSA_LAN :: "netdev \<Rightarrow> bool" where
  "IS_DSA_LAN d = prefixed ''lan'' (nd_name d)"

definition IS_BOND :: "netdev \<Rightarrow> bool" where
  "IS_BOND d = prefixed ''bond'' (nd_name d)"

definition IS_LAN_GRP :: "mc_env \<Rightarrow> netdev \<Rightarrow> bool" where
  "IS_LAN_GRP e d = (prefixed (lan_name e) (nd_name d) \<or> IS_BOND d \<or> prefixed (lan2_name e) (nd_name d))"

definition IS_WAN :: "mc_env \<Rightarrow> netdev \<Rightarrow> bool" where
  "IS_WAN e d = prefixed (wan_name e) (nd_name d)"

definition IS_WHNAT :: "mc_env \<Rightarrow> netdev \<Rightarrow> bool" where
  "IS_WHNAT e d = (whnat e \<and> nd_wifi_index d \<noteq> 0)"

definition mc_gmac_fp :: "mc_env \<Rightarrow> nat \<Rightarrow> nat option" where
  "mc_gmac_fp e mac_id =
     (if gmac1_mode e \<or> mac_id = 0 then Some NR_GMAC1_PORT
      else if mac_id = 1 then Some NR_GMAC2_PORT
      else if mac_id = 2 then Some NR_GMAC3_PORT
      else None)"

section \<open>Ports\<close>

definition hnat_mcast_set_gmac_bit :: "mc_env \<Rightarrow> netdev \<Rightarrow> u32 \<Rightarrow> u32" where
  "hnat_mcast_set_gmac_bit e d pse_bmp =
     (case mc_gmac_fp e (nd_mac_id d) of
        None \<Rightarrow> pse_bmp
      | Some p \<Rightarrow> if p = NR_GMAC1_PORT then pse_bmp OR port_bit MCAST_TO_GDMA1
                  else if p = NR_GMAC2_PORT then pse_bmp OR port_bit MCAST_TO_GDMA2
                  else pse_bmp OR port_bit MCAST_TO_GDMA3)"

text \<open>Bitmap and switch tag of a port behind the switch.\<close>

definition hnat_mcast_handle_dsa :: "netdev \<Rightarrow> u32 \<times> u32 \<Rightarrow> u32 \<times> u32" where
  "hnat_mcast_handle_dsa d x =
     (case nd_reg d of
        None \<Rightarrow> x
      | Some port_index \<Rightarrow> (fst x OR port_bit MCAST_TO_GDMA1, snd x OR push_bit port_index 1))"

text \<open>One device's contribution.\<close>

definition dev_pse_bit :: "mc_env \<Rightarrow> netdev \<Rightarrow> u32 \<times> u32 \<Rightarrow> u32 \<times> u32" where
  "dev_pse_bit e d x =
     (if IS_DSA_LAN d then hnat_mcast_handle_dsa d x
      else if IS_WHNAT e d then (fst x OR port_bit MCAST_TO_TDMA, snd x)
      else if IS_LAN_GRP e d \<or> IS_WAN e d then (hnat_mcast_set_gmac_bit e d (fst x), snd x)
      else x)"

definition hnat_mcast_get_single_dev_pse_bit :: "mc_env \<Rightarrow> u32 \<Rightarrow> u32 \<Rightarrow> u32 \<times> u32" where
  "hnat_mcast_get_single_dev_pse_bit e ifindex stag =
     (case netdevs e ifindex of None \<Rightarrow> (0, stag) | Some d \<Rightarrow> dev_pse_bit e d (0, stag))"

definition member_pse_bit :: "mc_env \<Rightarrow> u32 \<Rightarrow> u32 \<times> u32 \<Rightarrow> u32 \<times> u32" where
  "member_pse_bit e ifindex x =
     (case netdevs e ifindex of
        None \<Rightarrow> x
      | Some d \<Rightarrow> if nd_running d then dev_pse_bit e d x else x)"

definition hnat_mcast_get_pse_tx_bmp :: "mc_env \<Rightarrow> mc_group \<Rightarrow> u32 \<times> u32" where
  "hnat_mcast_get_pse_tx_bmp e g = fold (member_pse_bit e) (g_members g) (0, 0)"

text \<open>The switch port of a device, \<open>0xffffffff\<close> when it has none.\<close>

definition hnat_mcast_get_dsa_port :: "mc_env \<Rightarrow> u32 \<Rightarrow> u32" where
  "hnat_mcast_get_dsa_port e ifindex =
     (case netdevs e ifindex of
        None \<Rightarrow> - 1
      | Some d \<Rightarrow> if \<not> IS_DSA_LAN d then - 1
                  else (case nd_reg d of None \<Rightarrow> - 1 | Some p \<Rightarrow> of_nat p))"

section \<open>Network processor\<close>

definition HNAT_NPU_MCAST_DEST_SWITCH :: nat where "HNAT_NPU_MCAST_DEST_SWITCH = 1"

definition hnat_mcast_prepare_offload_info :: "mc_group \<Rightarrow> foe_entry \<Rightarrow> mcast_offload_info" where
  "hnat_mcast_prepare_offload_info g f =
     \<lparr>mi_dst = (case f_kind f of
                   FOE_IPV4 \<Rightarrow> [htonl (f_dip f), 0, 0, 0]
                 | FOE_IPV6 \<Rightarrow> map htonl (f_dip6 f)
                 | FOE_OTHER \<Rightarrow> [0, 0, 0, 0]),
      mi_dest = HNAT_NPU_MCAST_DEST_SWITCH, mi_daddr = g_mac g, mi_dsa_port = 0,
      mi_is_ipv6 = (f_kind f = FOE_IPV6), mi_m2u_en = False, mi_npu_grp_idx = 0\<rparr>"

definition npu_client_delete :: "mc_env \<Rightarrow> (hw_op list \<Rightarrow> mcast_offload_info \<Rightarrow> int) option" where
  "npu_client_delete e = (case hnat_mc_ops e of None \<Rightarrow> None | Some ops \<Rightarrow> npu_mcast_client_delete ops)"

definition npu_client_insert :: "mc_env \<Rightarrow> (hw_op list \<Rightarrow> mcast_offload_info \<Rightarrow> int \<times> u32) option" where
  "npu_client_insert e = (case hnat_mc_ops e of None \<Rightarrow> None | Some ops \<Rightarrow> npu_mcast_client_insert ops)"

definition hnat_mcast_npu_delete_single ::
  "mc_env \<Rightarrow> mcast_offload_info \<Rightarrow> int \<Rightarrow> hw \<Rightarrow> int \<times> hw" where
  "hnat_mcast_npu_delete_single e mi port h =
     (case npu_client_delete e of
        None \<Rightarrow> (0, h)
      | Some del \<Rightarrow>
          let mi' = (if port \<ge> 0 then mi\<lparr>mi_dsa_port := word_of_int port\<rparr> else mi)
          in (del (hw_trace h) mi', trace (Npu_delete mi') h))"

text \<open>One iteration of the loop over the switch ports: the last return value and the first error.\<close>

definition delete_port ::
  "mc_env \<Rightarrow> mcast_offload_info \<Rightarrow> u32 \<Rightarrow> nat \<Rightarrow> int \<times> int \<times> hw \<Rightarrow> int \<times> int \<times> hw" where
  "delete_port e mi stag n x =
     (case x of (ret, first_error, h) \<Rightarrow>
        if bit stag n
        then (case hnat_mcast_npu_delete_single e mi (int n) h of
                (r, h') \<Rightarrow> (r, (if r \<noteq> 0 \<and> first_error = 0 then r else first_error), h'))
        else x)"

definition hnat_mcast_npu_delete_multi :: "mc_env \<Rightarrow> mcast_offload_info \<Rightarrow> u32 \<Rightarrow> hw \<Rightarrow> int \<times> hw" where
  "hnat_mcast_npu_delete_multi e mi stag h =
     (case fold (delete_port e mi stag) [0 ..< 8] (0, 0, h) of (ret, first_error, h') \<Rightarrow> (ret, h'))"

definition hnat_mcast_npu_delete_stations ::
  "mc_env \<Rightarrow> mcast_offload_info \<Rightarrow> u32 \<Rightarrow> bool \<Rightarrow> hw \<Rightarrow> int \<times> hw" where
  "hnat_mcast_npu_delete_stations e mi stag is_dsa h =
     (if npu_client_delete e = None then (0, h)
      else if is_dsa then hnat_mcast_npu_delete_single e mi (- 1) h
      else hnat_mcast_npu_delete_multi e mi stag h)"

text \<open>An insertion and what it leaves in the group.\<close>

definition npu_insert_group ::
  "(hw_op list \<Rightarrow> mcast_offload_info \<Rightarrow> int \<times> u32) \<Rightarrow> bool \<Rightarrow> mcast_offload_info \<Rightarrow> mc_group \<Rightarrow> hw
     \<Rightarrow> int \<times> mcast_offload_info \<times> mc_group \<times> hw" where
  "npu_insert_group ins eexist_ok mi g h =
     (case ins (hw_trace h) mi of
        (r, idx) \<Rightarrow>
          let mi' = mi\<lparr>mi_npu_grp_idx := idx\<rparr>;
              ret = (if eexist_ok \<and> r = - EEXIST then 0 else r);
              g' = (if ret = 0 then g\<lparr>npu_grp_idx := mi_npu_grp_idx mi'\<rparr> else g\<lparr>g_offload := False\<rparr>)
          in (ret, mi', g', trace (Npu_insert mi) h))"

definition insert_port ::
  "(hw_op list \<Rightarrow> mcast_offload_info \<Rightarrow> int \<times> u32) \<Rightarrow> u32 \<Rightarrow> nat
     \<Rightarrow> int \<times> mcast_offload_info \<times> mc_group \<times> hw \<Rightarrow> int \<times> mcast_offload_info \<times> mc_group \<times> hw" where
  "insert_port ins stag n x =
     (case x of (ret, mi, g, h) \<Rightarrow>
        if bit stag n then npu_insert_group ins False (mi\<lparr>mi_dsa_port := of_nat n\<rparr>) g h else x)"

definition hnat_mcast_npu_add_multi ::
  "(hw_op list \<Rightarrow> mcast_offload_info \<Rightarrow> int \<times> u32) \<Rightarrow> mcast_offload_info \<Rightarrow> u32 \<Rightarrow> mc_group \<Rightarrow> hw
     \<Rightarrow> int \<times> mc_group \<times> hw" where
  "hnat_mcast_npu_add_multi ins mi stag g h =
     (case fold (insert_port ins stag) [0 ..< 8] (0, mi, g, h) of (ret, mi', g', h') \<Rightarrow> (ret, g', h'))"

definition hnat_mcast_npu_add_stations ::
  "mc_env \<Rightarrow> mcast_offload_info \<Rightarrow> u32 \<Rightarrow> bool \<Rightarrow> u32 \<Rightarrow> mc_group \<Rightarrow> hw \<Rightarrow> int \<times> mc_group \<times> hw" where
  "hnat_mcast_npu_add_stations e mi stag is_dsa pse_bmp g h =
     (case npu_client_insert e of
        None \<Rightarrow> (0, g, h)
      | Some ins \<Rightarrow>
          if is_dsa
          then (case npu_insert_group ins True mi g h of (ret, mi', g', h') \<Rightarrow> (ret, g', h'))
          else if \<not> BMP_IS_SINGLE_PORT pse_bmp then hnat_mcast_npu_add_multi ins mi stag g h
          else (0, g, h))"

definition hnat_mcast_group_teardown_npu :: "mc_env \<Rightarrow> mc_group \<Rightarrow> hw \<Rightarrow> int \<times> mc_group \<times> hw" where
  "hnat_mcast_group_teardown_npu e g h =
     (case hnat_mcast_get_hw_foe g of
        None \<Rightarrow> (- ENOENT, g, h)
      | Some r \<Rightarrow>
          let mi = hnat_mcast_prepare_offload_info g (foe_at r h);
              stag = snd (hnat_mcast_get_pse_tx_bmp e g)
          in (case hnat_mcast_npu_delete_stations e mi stag False h of
                (ret, h') \<Rightarrow> (ret, g\<lparr>psebmp := 0\<rparr>, h')))"

text \<open>The netlink message types.\<close>

datatype mdb_type = RTM_NEWMDB | RTM_DELMDB | RTM_other nat

definition bmp_multi :: "u32 \<Rightarrow> bool" where
  "bmp_multi bmp = (\<not> BMP_IS_SINGLE_PORT bmp \<and> bmp \<noteq> 0)"

definition hnat_mcast_npu_update ::
  "mc_env \<Rightarrow> mcast_offload_info \<Rightarrow> u32 \<Rightarrow> u32 \<Rightarrow> mdb_type \<Rightarrow> bool \<Rightarrow> mc_group \<Rightarrow> hw \<Rightarrow> int \<times> mc_group \<times> hw"
where
  "hnat_mcast_npu_update e mi stag pse_bmp type is_dsa g h =
     (let gdma1_in_cur = bit pse_bmp MCAST_TO_GDMA1; gdma1_in_pre = bit (psebmp g) MCAST_TO_GDMA1;
          pre_bmp_multi = bmp_multi (psebmp g); cur_bmp_multi = bmp_multi pse_bmp
      in case type of
           RTM_NEWMDB \<Rightarrow>
             if gdma1_in_cur \<and> cur_bmp_multi
             then if gdma1_in_pre \<and> pre_bmp_multi \<and> \<not> is_dsa then (0, g, h)
                  else hnat_mcast_npu_add_stations e mi stag is_dsa pse_bmp g h
             else (0, g, h)
         | RTM_DELMDB \<Rightarrow>
             if BMP_IS_SINGLE_PORT pse_bmp
             then if gdma1_in_pre \<and> pre_bmp_multi
                  then (case hnat_mcast_npu_delete_stations e mi stag is_dsa h of (ret, h') \<Rightarrow> (ret, g, h'))
                  else (0, g, h)
             else if is_dsa \<and> (gdma1_in_cur \<or> gdma1_in_pre)
                  then (case hnat_mcast_npu_delete_single e mi (- 1) h of (ret, h') \<Rightarrow> (ret, g, h'))
                  else (0, g, h)
         | RTM_other _ \<Rightarrow> (0, g, h))"

section \<open>Flow entry and table of a group\<close>

text \<open>A single port goes into the flow entry, several into the multicast table: the new
  \<open>*clr_cache\<close>, the group and the hardware.\<close>

definition program_ports ::
  "u32 \<Rightarrow> foe_ref \<Rightarrow> bool \<Rightarrow> bool \<Rightarrow> mc_group \<Rightarrow> hw \<Rightarrow> bool \<times> mc_group \<times> hw" where
  "program_ports pse_bmp r to_npu clr g h =
     (if BMP_IS_SINGLE_PORT pse_bmp
      then (case hnat_mcast_foe_mc_disable pse_bmp (foe_at r h) clr of
              (f, clr') \<Rightarrow> (case hnat_mcast_mtbl_teardown g (foe_put r f h) of (g', h') \<Rightarrow> (clr', g', h')))
      else (case hnat_mcast_mtbl_setup pse_bmp r to_npu clr g h of
              (ret, clr', g', h') \<Rightarrow>
                if ret = 0
                then (case hnat_mcast_foe_mc_enable to_npu (foe_at r h') of
                        (f, clr'') \<Rightarrow> (clr'', g', foe_put r f h'))
                else (clr', g', h')))"

text \<open>The test is on the pointer \<open>clr_cache\<close>, which is never null.\<close>

definition hnat_mcast_foe_mtbl_update ::
  "u32 \<Rightarrow> foe_ref \<Rightarrow> bool \<Rightarrow> mc_group \<Rightarrow> hw \<Rightarrow> mc_group \<times> hw" where
  "hnat_mcast_foe_mtbl_update pse_bmp r clr g h =
     (case program_ports pse_bmp r True clr g h of (clr', g', h') \<Rightarrow> (g', flush_bound True r h'))"

definition hnat_mcast_no_npu_teardown_group :: "mc_group \<Rightarrow> hw \<Rightarrow> int \<times> mc_group \<times> hw" where
  "hnat_mcast_no_npu_teardown_group g h =
     (case hnat_mcast_mtbl_teardown g (snd (entry_delete (ppe_id g) (foe_idx g) h)) of
        (g', h') \<Rightarrow> (- 1, unbind g', h'))"

definition hnat_mcast_no_npu_gsw_multi_eth ::
  "u32 \<Rightarrow> foe_ref \<Rightarrow> mc_group \<Rightarrow> hw \<Rightarrow> int \<times> mc_group \<times> hw" where
  "hnat_mcast_no_npu_gsw_multi_eth pse_bmp r g h =
     (case hnat_mcast_mtbl_setup pse_bmp r False False g h of
        (ret, clr, g1, h1) \<Rightarrow>
          (case (if ret = 0
                 then (case hnat_mcast_foe_mc_enable False (foe_at r h1) of (f, c) \<Rightarrow> (c, foe_put r f h1))
                 else (clr, h1)) of
             (clr', h2) \<Rightarrow> (0, g1\<lparr>psebmp := pse_bmp\<rparr>, flush_bound clr' r h2)))"

definition hnat_mcast_npu_gsw_handle :: "u32 \<Rightarrow> foe_ref \<Rightarrow> mc_group \<Rightarrow> hw \<Rightarrow> int \<times> mc_group \<times> hw" where
  "hnat_mcast_npu_gsw_handle pse_bmp r g h =
     (case program_ports pse_bmp r False False g h of
        (clr, g', h') \<Rightarrow> (0, g'\<lparr>psebmp := pse_bmp\<rparr>, flush_bound clr r h'))"

definition hnat_mcast_no_npu_single_gdma ::
  "u8 \<Rightarrow> u32 \<Rightarrow> foe_ref \<Rightarrow> mc_group \<Rightarrow> hw \<Rightarrow> int \<times> mc_group \<times> hw" where
  "hnat_mcast_no_npu_single_gdma stag pse_bmp r g h =
     (case hnat_mcast_foe_stag_update stag (foe_at r h) of
        (f, clr) \<Rightarrow>
          (case hnat_mcast_foe_mc_disable pse_bmp f clr of
             (f', clr') \<Rightarrow>
               (case hnat_mcast_mtbl_teardown g (foe_put r f' h) of
                  (g', h') \<Rightarrow> (0, g'\<lparr>psebmp := pse_bmp\<rparr>, flush_bound clr' r h'))))"

definition hnat_mcast_no_npu_multi_handle ::
  "mc_env \<Rightarrow> u32 \<Rightarrow> bool \<Rightarrow> foe_ref \<Rightarrow> mc_group \<Rightarrow> hw \<Rightarrow> int \<times> mc_group \<times> hw" where
  "hnat_mcast_no_npu_multi_handle e pse_bmp is_multi_eth r g h =
     (if eth0_mtk_dsa e then hnat_mcast_no_npu_teardown_group g h
      else if is_multi_eth then hnat_mcast_no_npu_gsw_multi_eth pse_bmp r g h
      else hnat_mcast_no_npu_teardown_group g h)"

text \<open>\<open>None\<close> when there is an NPU and the caller goes on (the function returns false).\<close>

definition hnat_mcast_no_npu_handle ::
  "mc_env \<Rightarrow> u8 \<Rightarrow> u32 \<Rightarrow> foe_ref \<Rightarrow> mc_group \<Rightarrow> hw \<Rightarrow> (int \<times> mc_group \<times> hw) option" where
  "hnat_mcast_no_npu_handle e stag pse_bmp r g h =
     (if hnat_mc_ops e \<noteq> None then None
      else let is_single = BMP_IS_SINGLE_PORT pse_bmp;
               is_wifi_only = (is_single \<and> bit pse_bmp MCAST_TO_TDMA);
               is_gdma_only = (is_single \<and> \<not> is_wifi_only);
               is_multi = (\<not> is_single \<and> pse_bmp \<noteq> 0);
               is_multi_eth = (is_multi \<and> \<not> bit pse_bmp MCAST_TO_TDMA)
           in Some (if is_wifi_only \<or> is_multi
                    then hnat_mcast_no_npu_multi_handle e pse_bmp is_multi_eth r g h
                    else if is_gdma_only then hnat_mcast_no_npu_single_gdma stag pse_bmp r g h
                    else (0, g, h)))"

definition hnat_mcast_npu_dsa_handle ::
  "mc_env \<Rightarrow> u8 \<Rightarrow> u32 \<Rightarrow> mdb_type \<Rightarrow> u32 \<Rightarrow> foe_ref \<Rightarrow> mc_group \<Rightarrow> hw \<Rightarrow> int \<times> mc_group \<times> hw" where
  "hnat_mcast_npu_dsa_handle e stag pse_bmp type ifindex r g h =
     (case hnat_mcast_foe_stag_update stag (foe_at r h) of
        (f, clr) \<Rightarrow>
          let h1 = foe_put r f h;
              dsaport = hnat_mcast_get_dsa_port e ifindex;
              mi = (hnat_mcast_prepare_offload_info g f)\<lparr>mi_dsa_port := ucast dsaport\<rparr>
          in (case hnat_mcast_npu_update e mi (ucast stag) pse_bmp type (dsaport \<noteq> - 1) g h1 of
                (ret, g1, h2) \<Rightarrow>
                  (case hnat_mcast_foe_mtbl_update pse_bmp r clr g1 h2 of
                     (g2, h3) \<Rightarrow> (ret, g2\<lparr>psebmp := pse_bmp\<rparr>, h3))))"

definition hnat_mcast_hw_update ::
  "mc_env \<Rightarrow> u8 \<Rightarrow> u32 \<Rightarrow> mdb_type \<Rightarrow> u32 \<Rightarrow> foe_ref \<Rightarrow> mc_group \<Rightarrow> hw \<Rightarrow> int \<times> mc_group \<times> hw" where
  "hnat_mcast_hw_update e stag pse_bmp type ifindex r g h =
     (case hnat_mcast_no_npu_handle e stag pse_bmp r g h of
        Some res \<Rightarrow> res
      | None \<Rightarrow> if eth0_mtk_dsa e then hnat_mcast_npu_dsa_handle e stag pse_bmp type ifindex r g h
                else hnat_mcast_npu_gsw_handle pse_bmp r g h)"

definition hnat_mcast_event_hw_handle ::
  "mc_env \<Rightarrow> mdb_type \<Rightarrow> u32 \<Rightarrow> mc_group \<Rightarrow> hw \<Rightarrow> int \<times> mc_group \<times> hw" where
  "hnat_mcast_event_hw_handle e type ifindex g h =
     (case hnat_mcast_get_hw_foe g of
        None \<Rightarrow> (- ENOENT, g, h)
      | Some r \<Rightarrow>
          if f_kind (foe_at r h) = FOE_OTHER then (- EINVAL, g, h)
          else (case hnat_mcast_get_pse_tx_bmp e g of
                  (pse_bmp, stag) \<Rightarrow>
                    if pse_bmp \<noteq> 0 then hnat_mcast_hw_update e (ucast stag) pse_bmp type ifindex r g h
                    else (case entry_delete (ppe_id g) (foe_idx g) h of (ret, h') \<Rightarrow> (ret, unbind g, h'))))"

definition hnat_mcast_no_npu_teardown :: "mc_env \<Rightarrow> mc_group \<Rightarrow> bool" where
  "hnat_mcast_no_npu_teardown e g =
     (if hnat_mc_ops e \<noteq> None then False
      else let pre_bmp = fst (hnat_mcast_get_pse_tx_bmp e g);
               pre_single = BMP_IS_SINGLE_PORT pre_bmp;
               pre_wifi_only = (pre_single \<and> bit pre_bmp MCAST_TO_TDMA);
               pre_multi = (\<not> pre_single \<and> pre_bmp \<noteq> 0)
           in (pre_wifi_only \<or> pre_multi) \<and> foe_idx g = INVLD_IDX \<and> ppe_id g = INVLD_IDX)"

end
