(* ===== verification/Mcast.thy ===== *)
theory Mcast
  imports Mcast_Group
begin

text \<open>
  The multicast offload component of \<^verbatim>\<open>mtk_hnat/hnat_mcast.c\<close> as a state machine: the group table
  \<open>hnat_priv->pmcast\<close>, the blacklist and the entry points that change them.  An entry point that runs
  under \<open>mcast_lock\<close> (or is called once at probe and removal) is one function; the path switch, which
  takes no lock, is also given write by write (\<open>path_write\<close>).
\<close>

section \<open>State\<close>

text \<open>\<^verbatim>\<open>struct mcast_blist_data\<close>.\<close>

record mcast_blist_data =
  bl_ipv6 :: "be32 list"
  bl_is_ipv4 :: bool
  bl_ipv4 :: be32
  bl_mask :: u32

text \<open>\<open>pmcast\<close> is \<open>None\<close> for the null pointer; \<open>blist_hooks\<close> tells whether \<open>mtk_hnat_mcast_blist\<close> and
  \<open>mtk_hnat_mcast_offload\<close> are set; \<open>check_timer\<close> whether the ageing timer runs.  The table's size is
  \<open>max_entry\<close> of the hardware.\<close>

record mcast =
  pmcast :: "mc_group list option"
  mcast_blist_list :: "mcast_blist_data list"
  mcast_hook_toggle :: bool
  blist_hooks :: bool
  check_timer :: bool
  mc_hw :: hw

definition with_groups :: "mc_group list \<Rightarrow> hw \<Rightarrow> mcast \<Rightarrow> mcast" where
  "with_groups gs h s = s\<lparr>pmcast := Some gs, mc_hw := h\<rparr>"

text \<open>\<open>list_for_each_entry_safe\<close> over the groups, each of which may change the hardware.\<close>

primrec for_groups :: "(mc_group \<Rightarrow> hw \<Rightarrow> mc_group \<times> hw) \<Rightarrow> mc_group list \<Rightarrow> hw \<Rightarrow> mc_group list \<times> hw" where
  "for_groups f [] h = ([], h)"
| "for_groups f (g # gs) h =
     (case f g h of (g', h') \<Rightarrow> (case for_groups f gs h' of (gs', h'') \<Rightarrow> (g' # gs', h'')))"

section \<open>Group lookup\<close>

datatype group_ip = Ip4 be32 | Ip6 "be32 list"

definition group_has_ip :: "group_ip \<Rightarrow> mc_group \<Rightarrow> bool" where
  "group_has_ip key g =
     (case key of Ip4 ip \<Rightarrow> g_is_ipv4 g \<and> g_dip g = ip | Ip6 ip \<Rightarrow> \<not> g_is_ipv4 g \<and> g_dip6 g = ip)"

fun first_index :: "('a \<Rightarrow> bool) \<Rightarrow> 'a list \<Rightarrow> nat option" where
  "first_index P [] = None"
| "first_index P (x # xs) =
     (if P x then Some 0 else case first_index P xs of None \<Rightarrow> None | Some i \<Rightarrow> Some (Suc i))"

text \<open>The position of the group in the table.\<close>

definition hnat_mcast_find_group_by_ip :: "group_ip \<Rightarrow> mc_group list \<Rightarrow> nat option" where
  "hnat_mcast_find_group_by_ip key gs = first_index (group_has_ip key) gs"

section \<open>Binding a flow\<close>

definition entry_key :: "foe_entry \<Rightarrow> group_ip option" where
  "entry_key f = (case f_kind f of FOE_IPV4 \<Rightarrow> Some (Ip4 (htonl (f_dip f)))
                                 | FOE_IPV6 \<Rightarrow> Some (Ip6 (map htonl (f_dip6 f)))
                                 | FOE_OTHER \<Rightarrow> None)"

definition bind_group :: "u32 \<Rightarrow> u32 \<Rightarrow> foe_entry \<Rightarrow> mc_group \<Rightarrow> mc_group" where
  "bind_group ppe idx f g =
     (let g1 = g\<lparr>ppe_id := sint ppe, foe_idx := sint idx\<rparr>
      in if f_kind f = FOE_IPV4 then g1\<lparr>g_sip := htonl (f_sip f)\<rparr>
         else g1\<lparr>g_sip6 := map htonl (f_sip6 f)\<rparr>)"

text \<open>The packet's entry is a copy outside the table: the caller stores it when the result is 0.\<close>

definition hnat_mcast_foe_bind_handle ::
  "mc_env \<Rightarrow> u32 \<Rightarrow> u32 \<Rightarrow> foe_entry \<Rightarrow> u32 \<Rightarrow> mcast \<Rightarrow> int \<times> mcast" where
  "hnat_mcast_foe_bind_handle e ppe idx entry ifindex s =
     (case entry_key entry of
        None \<Rightarrow> (- 1, s)
      | Some key \<Rightarrow>
     (case pmcast s of
        None \<Rightarrow> (- 1, s)
      | Some gs \<Rightarrow>
     (case hnat_mcast_find_group_by_ip key gs of
        None \<Rightarrow> (- 1, s)
      | Some i \<Rightarrow>
          let g = gs ! i in
          if \<not> g_offload g then (- 1, s)
          else if hnat_mcast_no_npu_teardown e g then (- 1, s)
          else let g1 = bind_group ppe idx entry g; h = (mc_hw s)\<lparr>foe_local := entry\<rparr>
               in (case hnat_mcast_get_pse_tx_bmp e g1 of
                     (pse_bmp, stag) \<Rightarrow>
                       (case (if pse_bmp \<noteq> 0
                              then hnat_mcast_hw_update e (ucast stag) pse_bmp RTM_NEWMDB ifindex Local g1 h
                              else (0, g1, h)) of
                          (ret, g2, h2) \<Rightarrow>
                            (if ret < 0 then - 1 else if \<not> g_offload g2 then - 1 else 0,
                             with_groups (gs[i := g2]) h2 s))))))"

section \<open>A device goes down\<close>

definition ifdown_group :: "mc_env \<Rightarrow> u32 \<Rightarrow> mc_group \<Rightarrow> hw \<Rightarrow> mc_group \<times> hw" where
  "ifdown_group e ifindex g h =
     (if ifindex \<notin> set (g_members g) then (g, h)
      else (case hnat_mcast_get_hw_foe g of
              None \<Rightarrow> (g, h)
            | Some r \<Rightarrow>
                let down_bmp = fst (hnat_mcast_get_single_dev_pse_bit e ifindex 0)
                in if psebmp g AND NOT down_bmp \<noteq> 0
                   then (case hnat_mcast_get_pse_tx_bmp e g of
                           (new_bmp, new_stag) \<Rightarrow>
                             snd (hnat_mcast_hw_update e (ucast new_stag) new_bmp RTM_DELMDB ifindex r g h))
                   else (case hnat_mcast_mtbl_teardown g (snd (entry_delete (ppe_id g) (foe_idx g) h)) of
                           (g', h') \<Rightarrow> (unbind g', h'))))"

definition hnat_mcast_ifdown_handle :: "mc_env \<Rightarrow> u32 \<Rightarrow> mcast \<Rightarrow> mcast" where
  "hnat_mcast_ifdown_handle e ifindex s =
     (case pmcast s of
        None \<Rightarrow> s
      | Some gs \<Rightarrow> (case for_groups (ifdown_group e ifindex) gs (mc_hw s) of (gs', h') \<Rightarrow> with_groups gs' h' s))"

section \<open>Membership\<close>

text \<open>The bridge's multicast database entry.\<close>

datatype mdb_addr = Mdb_ip be32 | Mdb_ip6 "be32 list" | Mdb_other u16

record br_mdb_entry =
  mdb_ifindex :: u32
  mdb_addr :: mdb_addr

definition hnat_mcast_get_mac_from_mdb :: "br_mdb_entry \<Rightarrow> u8 list \<Rightarrow> int \<times> u8 list" where
  "hnat_mcast_get_mac_from_mdb ent mac =
     (case mdb_addr ent of
        Mdb_ip a \<Rightarrow>
          let ip = ntohl a
          in (0, [0x01, 0x00, 0x5e, ucast (drop_bit 16 ip AND 0x7F), ucast (drop_bit 8 ip AND 0xFF), ucast (ip AND 0xFF)])
      | Mdb_ip6 as \<Rightarrow>
          let ip = ntohl (as ! 3)
          in (0, [0x33, 0x33, ucast (drop_bit 24 ip AND 0xFF), ucast (drop_bit 16 ip AND 0xFF),
                  ucast (drop_bit 8 ip AND 0xFF), ucast (ip AND 0xFF)])
      | Mdb_other _ \<Rightarrow> (- EINVAL, mac))"

definition mdb_key :: "br_mdb_entry \<Rightarrow> group_ip option" where
  "mdb_key ent = (case mdb_addr ent of Mdb_ip a \<Rightarrow> Some (Ip4 a) | Mdb_ip6 as \<Rightarrow> Some (Ip6 as) | Mdb_other _ \<Rightarrow> None)"

definition hnat_mcast_create_group :: "u8 list \<Rightarrow> br_mdb_entry \<Rightarrow> mc_group" where
  "hnat_mcast_create_group dmac ent =
     \<lparr>g_mac = dmac, g_members = [], mtbl_idx = INVLD_IDX, ppe_id = INVLD_IDX, foe_idx = INVLD_IDX,
      psebmp = 0,
      g_dip = (case mdb_addr ent of Mdb_ip a \<Rightarrow> a | _ \<Rightarrow> 0), g_sip = 0,
      g_dip6 = (case mdb_addr ent of Mdb_ip6 as \<Rightarrow> as | _ \<Rightarrow> [0, 0, 0, 0]), g_sip6 = [0, 0, 0, 0],
      g_offload = True, g_is_ipv4 = (case mdb_addr ent of Mdb_ip _ \<Rightarrow> True | _ \<Rightarrow> False),
      npu_grp_idx = - 1\<rparr>"

definition hnat_mcast_group_add_station :: "u32 \<Rightarrow> mc_group \<Rightarrow> mc_group" where
  "hnat_mcast_group_add_station ifindex g = g\<lparr>g_members := g_members g @ [ifindex]\<rparr>"

definition hnat_mcast_group_del_station :: "u32 \<Rightarrow> mc_group \<Rightarrow> mc_group" where
  "hnat_mcast_group_del_station ifindex g = g\<lparr>g_members := remove1 ifindex (g_members g)\<rparr>"

text \<open>The group at position \<open>i\<close> is freed when it has no members.\<close>

definition hnat_mcast_group_del :: "nat \<Rightarrow> mc_group list \<Rightarrow> mc_group list" where
  "hnat_mcast_group_del i gs = (if g_members (gs ! i) = [] then take i gs @ drop (Suc i) gs else gs)"

text \<open>\<open>alloc_group\<close> and \<open>alloc_member\<close> tell whether the two atomic allocations succeed.\<close>

definition hnat_mcast_group_update ::
  "mc_env \<Rightarrow> bool \<times> bool \<Rightarrow> u8 list \<Rightarrow> mdb_type \<Rightarrow> br_mdb_entry \<Rightarrow> mcast \<Rightarrow> int \<times> mcast" where
  "hnat_mcast_group_update e alloc dmac type ent s =
     (case mdb_key ent of
        None \<Rightarrow> (- EPROTO, s)
      | Some key \<Rightarrow>
     if type \<noteq> RTM_NEWMDB \<and> type \<noteq> RTM_DELMDB then (- EINVAL, s)
     else
     (case pmcast s of
        None \<Rightarrow> (- 1, s)
      | Some gs \<Rightarrow>
     (case (case hnat_mcast_find_group_by_ip key gs of
              Some i \<Rightarrow> Some (i, gs)
            | None \<Rightarrow> if fst alloc then Some (length gs, gs @ [hnat_mcast_create_group dmac ent]) else None) of
        None \<Rightarrow> (- ENOMEM, s)
      | Some (i, gs1) \<Rightarrow>
          if type = RTM_NEWMDB \<and> \<not> snd alloc then (- ENOMEM, s)
          else let g = (if type = RTM_NEWMDB then hnat_mcast_group_add_station (mdb_ifindex ent) (gs1 ! i)
                        else hnat_mcast_group_del_station (mdb_ifindex ent) (gs1 ! i))
               in (case (if mcast_hook_toggle s
                         then hnat_mcast_event_hw_handle e type (mdb_ifindex ent) g (mc_hw s)
                         else (0, g, mc_hw s)) of
                     (ret, g', h') \<Rightarrow> (ret, with_groups (hnat_mcast_group_del i (gs1[i := g'])) h' s)))))"

text \<open>The notifications of the netlink queue, parsed; a malformed one carries nothing.\<close>

datatype nl_msg = Nl_ignored | Nl_mdb mdb_type br_mdb_entry

text \<open>The buffer \<open>dmac\<close> lives across the messages of one run of the worker.\<close>

definition nlmsg_one ::
  "mc_env \<Rightarrow> nl_msg \<times> bool \<times> bool \<Rightarrow> u8 list \<times> mcast \<Rightarrow> u8 list \<times> mcast" where
  "nlmsg_one e m x =
     (case fst m of
        Nl_ignored \<Rightarrow> x
      | Nl_mdb type ent \<Rightarrow>
          let dmac = snd (hnat_mcast_get_mac_from_mdb ent (fst x))
          in (dmac, if is_multicast_ether_addr dmac
                    then snd (hnat_mcast_group_update e (snd m) dmac type ent (snd x)) else snd x))"

definition hnat_mcast_nlmsg_handler :: "mc_env \<Rightarrow> (nl_msg \<times> bool \<times> bool) list \<Rightarrow> mcast \<Rightarrow> mcast" where
  "hnat_mcast_nlmsg_handler e msgs s = snd (fold (nlmsg_one e) msgs ([0, 0, 0, 0, 0, 0], s))"

section \<open>Ageing\<close>

definition FOE_TS_WRAP_THRESHOLD :: int where "FOE_TS_WRAP_THRESHOLD = 0x3000"
definition FOE_TS_MAX_DIFF :: int where "FOE_TS_MAX_DIFF = 20"

text \<open>Both timestamps are promoted to \<open>int\<close> before the subtraction.\<close>

definition ts_expired :: "u16 \<Rightarrow> u16 \<Rightarrow> bool" where
  "ts_expired foe_ts e_ts =
     (let foe_ts' = (if uint foe_ts - uint e_ts > FOE_TS_WRAP_THRESHOLD then NOT foe_ts else foe_ts)
      in \<bar>uint foe_ts' - uint e_ts\<bar> > FOE_TS_MAX_DIFF)"

definition check_entry :: "nat \<times> nat \<Rightarrow> hw \<Rightarrow> hw" where
  "check_entry pi h =
     (let f = foe_tab h (fst pi) (snd pi)
      in if f_sta f \<and> ts_expired (foe_timestamp True h) (f_mts f)
         then snd (entry_delete (int (fst pi)) (int (snd pi)) h) else h)"

definition hnat_mcast_check_timestamp :: "mcast \<Rightarrow> mcast" where
  "hnat_mcast_check_timestamp s =
     s\<lparr>mc_hw := fold check_entry (List.product [0 ..< ppe_num (mc_hw s)] [0 ..< foe_etry_num (mc_hw s)])
                     (mc_hw s)\<rparr>"

section \<open>Blacklist\<close>

text \<open>The loop over the four words, with the number of bits left to compare.\<close>

fun match_words :: "u32 \<Rightarrow> (be32 \<times> be32) list \<Rightarrow> bool" where
  "match_words remaining [] = True"
| "match_words remaining ((gw, bw) # ws) =
     (if remaining = 0 then True
      else let word_mask = (if remaining \<ge> 32 then 0xffffffff else push_bit (unat (32 - remaining)) 0xffffffff)
           in if ntohl gw AND word_mask \<noteq> ntohl bw AND word_mask then False
              else match_words (if remaining > 32 then remaining - 32 else 0) ws)"

definition hnat_mcast_ip_match_blist :: "mc_group \<Rightarrow> mcast_blist_data \<Rightarrow> bool" where
  "hnat_mcast_ip_match_blist g b =
     (if bl_is_ipv4 b then ntohl (g_dip g) AND bl_mask b = ntohl (bl_ipv4 b) AND bl_mask b
      else match_words (bl_mask b) (zip (g_dip6 g) (bl_ipv6 b)))"

text \<open>\<open>0xffffffff << (32 - mask)\<close>, undefined in C when the shift reaches the width.\<close>

definition prefix_mask :: "u32 \<Rightarrow> u32 option" where
  "prefix_mask len = (if 32 - len < 32 then Some (push_bit (unat (32 - len)) 0xffffffff) else None)"

text \<open>The address argument: the words at \<open>ip\<close>.\<close>

definition hnat_mcast_blist_entry_match :: "be32 list \<Rightarrow> u32 \<Rightarrow> bool \<Rightarrow> mcast_blist_data \<Rightarrow> bool" where
  "hnat_mcast_blist_entry_match ip check_mask is_ipv4 b =
     (if is_ipv4 then bl_is_ipv4 b \<and> bl_ipv4 b = ip ! 0 \<and> bl_mask b = check_mask
      else \<not> bl_is_ipv4 b \<and> bl_ipv6 b = take 4 ip \<and> bl_mask b = check_mask)"

definition hnat_mcast_blist_create_entry :: "be32 list \<Rightarrow> u32 \<Rightarrow> bool \<Rightarrow> mcast_blist_data" where
  "hnat_mcast_blist_create_entry ip shifted is_ipv4 =
     \<lparr>bl_ipv6 = (if is_ipv4 then [0, 0, 0, 0] else take 4 ip), bl_is_ipv4 = is_ipv4,
      bl_ipv4 = (if is_ipv4 then ip ! 0 else 0), bl_mask = shifted\<rparr>"

definition blist_group :: "mc_env \<Rightarrow> mcast_blist_data \<Rightarrow> mc_group \<Rightarrow> hw \<Rightarrow> mc_group \<times> hw" where
  "blist_group e b g h =
     (if hnat_mcast_ip_match_blist g b
      then (case hnat_mcast_group_teardown_npu e g h of
              (_, g', h') \<Rightarrow> (unbind g', snd (entry_delete (ppe_id g') (foe_idx g') h')))
      else (g, h))"

text \<open>\<open>None\<close> when a shift is undefined: always on an addition, and on a removal when there is an
  entry to compare with.  \<open>pmcast\<close> is dereferenced unchecked, so it must not be null.\<close>

definition hnat_mcast_blist_handle ::
  "mc_env \<Rightarrow> bool \<Rightarrow> be32 list \<Rightarrow> u32 \<Rightarrow> bool \<Rightarrow> bool \<Rightarrow> mcast \<Rightarrow> (int \<times> mcast) option" where
  "hnat_mcast_blist_handle e alloc ip len add is_ipv4 s =
     (case pmcast s of
        None \<Rightarrow> None
      | Some gs \<Rightarrow>
     (case prefix_mask len of
        None \<Rightarrow> if \<not> add \<and> mcast_blist_list s = [] then Some (0, s)
                else if add \<and> mcast_blist_list s = [] \<and> \<not> alloc then Some (- ENOMEM, s) else None
      | Some m \<Rightarrow>
          if add
          then if list_ex (hnat_mcast_blist_entry_match ip m is_ipv4) (mcast_blist_list s) then Some (0, s)
               else if \<not> alloc then Some (- ENOMEM, s)
               else let b = hnat_mcast_blist_create_entry ip m is_ipv4
                    in (case for_groups (blist_group e b) gs (mc_hw s) of
                          (gs', h') \<Rightarrow>
                            Some (0, (with_groups gs' h' s)\<lparr>mcast_blist_list := b # mcast_blist_list s\<rparr>))
          else (case first_index (hnat_mcast_blist_entry_match ip m is_ipv4) (mcast_blist_list s) of
                  None \<Rightarrow> Some (0, s)
                | Some i \<Rightarrow>
                    Some (0, s\<lparr>mcast_blist_list := take i (mcast_blist_list s) @
                                                   drop (Suc i) (mcast_blist_list s)\<rparr>))))"

text \<open>The check of a packet's flow, \<open>hnat_mcast_chk_blist\<close> of \<^verbatim>\<open>hnat_nf_hook.c\<close>.\<close>

definition hnat_mcast_chk_blist :: "foe_entry \<Rightarrow> mcast \<Rightarrow> bool" where
  "hnat_mcast_chk_blist entry s =
     (case entry_key entry of
        None \<Rightarrow> False
      | Some key \<Rightarrow>
          pmcast s \<noteq> None \<and>
          list_ex (\<lambda>m. case key of
                          Ip4 ip \<Rightarrow> bl_is_ipv4 m \<and> bl_ipv4 m AND htonl (bl_mask m) = ip AND htonl (bl_mask m)
                        | Ip6 ip \<Rightarrow> \<not> bl_is_ipv4 m \<and> bl_ipv6 m = ip)
            (mcast_blist_list s))"

section \<open>Switching offload\<close>

definition group_handle :: "mc_env \<Rightarrow> bool \<Rightarrow> mc_group \<Rightarrow> hw \<Rightarrow> mc_group \<times> hw" where
  "group_handle e enable g h =
     (case hnat_mcast_get_hw_foe g of
        None \<Rightarrow> (g, h)
      | Some r \<Rightarrow>
          let mi = hnat_mcast_prepare_offload_info g (foe_at r h); stag = snd (hnat_mcast_get_pse_tx_bmp e g)
          in if enable then (g, h)
             else (unbind g, snd (hnat_mcast_npu_delete_stations e mi stag False
                                    (snd (entry_delete (ppe_id g) (foe_idx g) h)))))"

definition hnat_mcast_offload_handle :: "mc_env \<Rightarrow> bool \<Rightarrow> mcast \<Rightarrow> int \<times> mcast" where
  "hnat_mcast_offload_handle e enable s =
     (let s1 = s\<lparr>mcast_hook_toggle := enable\<rparr>
      in case pmcast s1 of
           None \<Rightarrow> (- 1, s1)
         | Some gs \<Rightarrow> (case for_groups (group_handle e enable) gs (mc_hw s1) of
                         (gs', h') \<Rightarrow> (0, with_groups gs' h' s1)))"

text \<open>The path switch takes no lock: it finds the group and then writes its fields one by one.  The
  single writes, and the engine's entry deleted between them with the indices the group has then.\<close>

datatype group_write = Set_offload bool | Delete_flow | Clear_psebmp | Clear_ppe_id | Clear_foe_idx

fun path_write :: "group_write \<Rightarrow> mc_group \<times> hw \<Rightarrow> mc_group \<times> hw" where
  "path_write (Set_offload b) (g, h) = (g\<lparr>g_offload := b\<rparr>, h)"
| "path_write Delete_flow (g, h) = (g, snd (entry_delete (ppe_id g) (foe_idx g) h))"
| "path_write Clear_psebmp (g, h) = (g\<lparr>psebmp := 0\<rparr>, h)"
| "path_write Clear_ppe_id (g, h) = (g\<lparr>ppe_id := INVLD_IDX\<rparr>, h)"
| "path_write Clear_foe_idx (g, h) = (g\<lparr>foe_idx := INVLD_IDX\<rparr>, h)"

definition path_writes :: "bool \<Rightarrow> group_write list" where
  "path_writes hw_path =
     Set_offload hw_path # (if hw_path then [] else [Delete_flow, Clear_psebmp, Clear_ppe_id, Clear_foe_idx])"

text \<open>All of them, when nothing comes between.\<close>

definition set_path :: "bool \<Rightarrow> mc_group \<Rightarrow> hw \<Rightarrow> mc_group \<times> hw" where
  "set_path hw_path g h = fold path_write (path_writes hw_path) (g, h)"

lemma set_path_eq:
  "set_path hw_path g h =
     (let g1 = g\<lparr>g_offload := hw_path\<rparr>
      in if hw_path then (g1, h) else (unbind g1, snd (entry_delete (ppe_id g1) (foe_idx g1) h)))"
  by (simp add: set_path_def path_writes_def unbind_def)

definition set_path_at :: "bool \<Rightarrow> nat \<Rightarrow> mc_group list \<Rightarrow> mcast \<Rightarrow> mcast" where
  "set_path_at hw_path i gs s =
     (case set_path hw_path (gs ! i) (mc_hw s) of (g', h') \<Rightarrow> with_groups (gs[i := g']) h' s)"

text \<open>The group the Wi-Fi driver means by a group number: its answer is an address, or a failure.\<close>

definition wifi_target :: "(int \<Rightarrow> group_ip option) option \<Rightarrow> int \<Rightarrow> mc_group list \<Rightarrow> nat option" where
  "wifi_target get_group_info grp_id gs =
     (case get_group_info of
        None \<Rightarrow> None
      | Some info \<Rightarrow> (case info grp_id of None \<Rightarrow> None | Some key \<Rightarrow> hnat_mcast_find_group_by_ip key gs))"

definition hnat_mcast_update_path_from_wifi ::
  "(int \<Rightarrow> group_ip option) option \<Rightarrow> int \<Rightarrow> bool \<Rightarrow> mcast \<Rightarrow> mcast" where
  "hnat_mcast_update_path_from_wifi get_group_info grp_id hw_path s =
     (case pmcast s of
        None \<Rightarrow> s
      | Some gs \<Rightarrow> (case wifi_target get_group_info grp_id gs of
                      None \<Rightarrow> s
                    | Some i \<Rightarrow> set_path_at hw_path i gs s))"

text \<open>The group a path switch finds.\<close>

definition path_target :: "(int \<Rightarrow> group_ip option) option \<Rightarrow> int \<Rightarrow> mc_group list \<Rightarrow> nat option" where
  "path_target get_group_info group_idx gs =
     (case first_index (\<lambda>g. npu_grp_idx g = word_of_int group_idx) gs of
        Some i \<Rightarrow> Some i
      | None \<Rightarrow> wifi_target get_group_info group_idx gs)"

text \<open>A path switch that nothing interrupts.\<close>

definition hnat_mcast_group_path_switch ::
  "(int \<Rightarrow> group_ip option) option \<Rightarrow> int \<Rightarrow> bool \<Rightarrow> mcast \<Rightarrow> mcast" where
  "hnat_mcast_group_path_switch get_group_info group_idx hw_path s =
     (case pmcast s of
        None \<Rightarrow> s
      | Some gs \<Rightarrow>
          (case first_index (\<lambda>g. npu_grp_idx g = word_of_int group_idx) gs of
             Some i \<Rightarrow> set_path_at hw_path i gs s
           | None \<Rightarrow> hnat_mcast_update_path_from_wifi get_group_info group_idx hw_path s))"

definition hnat_notify_mcast_sw_path :: "(int \<Rightarrow> group_ip option) option \<Rightarrow> int \<Rightarrow> mcast \<Rightarrow> mcast" where
  "hnat_notify_mcast_sw_path w i s = hnat_mcast_group_path_switch w i False s"

definition hnat_notify_mcast_hw_path :: "(int \<Rightarrow> group_ip option) option \<Rightarrow> int \<Rightarrow> mcast \<Rightarrow> mcast" where
  "hnat_notify_mcast_hw_path w i s = hnat_mcast_group_path_switch w i True s"

section \<open>Set-up and removal\<close>

definition PPE_MCAST_PPSE :: int where "PPE_MCAST_PPSE = 0x84"

text \<open>\<open>cr_set_field\<close> on a field of \<open>width\<close> bits from bit \<open>low\<close>.\<close>

definition mc_set_field :: "nat \<Rightarrow> int \<Rightarrow> nat \<Rightarrow> nat \<Rightarrow> u32 \<Rightarrow> hw \<Rightarrow> hw" where
  "mc_set_field ppe off low width v h =
     writel ppe ((regs h ppe off AND NOT (push_bit low (mask width))) OR push_bit low v) off h"

definition hnat_mcast_mcport_ppse_map_init :: "nat \<Rightarrow> hw \<Rightarrow> int \<times> hw" where
  "hnat_mcast_mcport_ppse_map_init ppe h =
     (if ppe \<ge> ppe_num h then (- EINVAL, h)
      else (0, (mc_set_field ppe PPE_MCAST_PPSE 16 4 (of_nat NR_GMAC3_PORT) \<circ>
                mc_set_field ppe PPE_MCAST_PPSE 12 4 (of_nat NR_TDMA_PORT) \<circ>
                mc_set_field ppe PPE_MCAST_PPSE 8 4 (of_nat NR_GMAC2_PORT) \<circ>
                mc_set_field ppe PPE_MCAST_PPSE 4 4 (of_nat NR_GMAC1_PORT) \<circ>
                mc_set_field ppe PPE_MCAST_PPSE 0 4 0 \<circ>
                mc_set_field ppe PPE_GLO_CFG 7 1 1) h))"

text \<open>After a hardware reset: every group starts over.\<close>

definition ser_group :: "mc_group \<Rightarrow> mc_group" where
  "ser_group g = g\<lparr>psebmp := 0, mtbl_idx := INVLD_IDX, ppe_id := INVLD_IDX, foe_idx := INVLD_IDX\<rparr>"

definition hnat_mcast_ser_handle :: "mcast \<Rightarrow> int \<times> mcast" where
  "hnat_mcast_ser_handle s =
     (case pmcast s of
        None \<Rightarrow> (- EINVAL, s)
      | Some gs \<Rightarrow>
          (0, with_groups (map ser_group gs)
                (fold (\<lambda>i h. snd (hnat_mcast_mcport_ppse_map_init i h)) [0 ..< ppe_num (mc_hw s)] (mc_hw s)) s))"

datatype hnat_version = MTK_HNAT_V1_1 | MTK_HNAT_V1_3 | MTK_HNAT_other

definition MAX_MCAST_ENTRY :: nat where "MAX_MCAST_ENTRY = 64"

text \<open>\<open>alloc\<close>, \<open>queue\<close> and \<open>sock\<close> tell whether the three acquisitions succeed.\<close>

definition hnat_mcast_enable :: "hnat_version \<Rightarrow> bool \<Rightarrow> bool \<Rightarrow> bool \<Rightarrow> nat \<Rightarrow> mcast \<Rightarrow> int \<times> mcast" where
  "hnat_mcast_enable version alloc queue sock ppe s =
     (if ppe \<ge> ppe_num (mc_hw s) then (- EINVAL, s)
      else if pmcast s = None \<and> \<not> (alloc \<and> queue \<and> sock) then (- 1, s)
      else let s1 = (if pmcast s = None
                     then s\<lparr>pmcast := Some [],
                            mc_hw := (mc_hw s)\<lparr>max_entry := (if version = MTK_HNAT_V1_1 then 0x10 else MAX_MCAST_ENTRY)\<rparr>,
                            check_timer := (check_timer s \<or> version = MTK_HNAT_V1_3)\<rparr>
                     else s)
           in (0, s1\<lparr>mc_hw := snd (hnat_mcast_mcport_ppse_map_init ppe (mc_hw s1)), blist_hooks := True\<rparr>))"

text \<open>The notifications still queued are handled by \<open>flush_work\<close> before the table is freed.\<close>

definition hnat_mcast_disable ::
  "mc_env \<Rightarrow> hnat_version \<Rightarrow> (nl_msg \<times> bool \<times> bool) list \<Rightarrow> mcast \<Rightarrow> int \<times> mcast" where
  "hnat_mcast_disable e version queued s =
     (if pmcast s = None then (- EINVAL, s)
      else let s1 = s\<lparr>check_timer := (check_timer s \<and> version \<noteq> MTK_HNAT_V1_3),
                      mc_hw := fold (\<lambda>i h. mc_set_field i PPE_GLO_CFG 7 1 0 h) [0 ..< ppe_num (mc_hw s)] (mc_hw s)\<rparr>;
               s2 = hnat_mcast_nlmsg_handler e queued s1
           in (0, s2\<lparr>pmcast := None, mcast_blist_list := [], blist_hooks := False\<rparr>))"

definition mtk_npu_hnat_mcast_ops_register :: "npu_hnat_mcast_ops \<Rightarrow> mc_env \<Rightarrow> int \<times> mc_env" where
  "mtk_npu_hnat_mcast_ops_register ops e =
     (if hnat_mc_ops e \<noteq> None then (- EBUSY, e) else (0, e\<lparr>hnat_mc_ops := Some ops\<rparr>))"

definition mtk_npu_hnat_mcast_ops_unregister :: "mc_env \<Rightarrow> int \<times> mc_env" where
  "mtk_npu_hnat_mcast_ops_unregister e = (0, e\<lparr>hnat_mc_ops := None\<rparr>)"

text \<open>The two exported hooks (link and Wi-Fi information) follow the same protocol.\<close>

definition hnat_register_hook :: "'a \<Rightarrow> 'a option \<Rightarrow> int \<times> 'a option" where
  "hnat_register_hook f hook = (if hook \<noteq> None then (- EEXIST, hook) else (0, Some f))"

definition hnat_unregister_hook :: "'a option \<Rightarrow> 'a option" where
  "hnat_unregister_hook hook = None"

end
