(* ===== verification/Mcast_Props.thy ===== *)
theory Mcast_Props
  imports Mcast
begin

text \<open>
  What the multicast component keeps: every function over a group keeps its identity and either
  keeps its flow or gives it up as a whole (\<open>gkeeps\<close>), the group table is well formed in every
  reachable state, and the hardware state is read back by \<open>hw_ports\<close>.
\<close>

section \<open>Functions over one group\<close>

definition same_ident :: "mc_group \<Rightarrow> mc_group \<Rightarrow> bool" where
  "same_ident g g' \<longleftrightarrow> g_mac g' = g_mac g \<and> g_members g' = g_members g \<and> g_is_ipv4 g' = g_is_ipv4 g \<and>
     g_dip g' = g_dip g \<and> g_dip6 g' = g_dip6 g"

definition same_dims :: "hw \<Rightarrow> hw \<Rightarrow> bool" where
  "same_dims h h' \<longleftrightarrow> ppe_num h' = ppe_num h \<and> foe_etry_num h' = foe_etry_num h"

definition flow_kept :: "mc_group \<Rightarrow> mc_group \<Rightarrow> bool" where
  "flow_kept g g' \<longleftrightarrow> ppe_id g' = ppe_id g \<and> foe_idx g' = foe_idx g \<or> ppe_id g' = - 1 \<and> foe_idx g' = - 1"

definition gkeeps :: "mc_group \<times> hw \<Rightarrow> mc_group \<times> hw \<Rightarrow> bool" where
  "gkeeps x y \<longleftrightarrow> same_ident (fst x) (fst y) \<and> same_dims (snd x) (snd y) \<and> flow_kept (fst x) (fst y)"

lemma gkeeps_refl [simp]: "gkeeps x x"
  by (simp add: gkeeps_def same_ident_def same_dims_def flow_kept_def)

lemma gkeeps_trans: "gkeeps x y \<Longrightarrow> gkeeps y z \<Longrightarrow> gkeeps x z"
  unfolding gkeeps_def same_ident_def same_dims_def flow_kept_def by (elim conjE disjE) simp_all

lemma same_dims_refl [simp]: "same_dims h h"
  by (simp add: same_dims_def)

lemma same_dims_trans: "same_dims h h' \<Longrightarrow> same_dims h' h'' \<Longrightarrow> same_dims h h''"
  by (simp add: same_dims_def)

lemma gkeeps_same_group: "same_dims h h' \<Longrightarrow> gkeeps (g, h) (g, h')"
  by (simp add: gkeeps_def same_ident_def flow_kept_def)

lemma gkeeps_dims: "gkeeps (g, h) (g', h') \<Longrightarrow> same_dims h h'"
  by (simp add: gkeeps_def)

lemma gkeeps_unbind: "gkeeps (g, h) (g', h') \<Longrightarrow> gkeeps (g, h) (unbind g', h')"
  by (simp add: gkeeps_def same_ident_def flow_kept_def unbind_def INVLD_IDX_def)

lemma gkeeps_psebmp: "gkeeps (g, h) (g', h') \<Longrightarrow> gkeeps (g, h) (g'\<lparr>psebmp := b\<rparr>, h')"
  by (simp add: gkeeps_def same_ident_def flow_kept_def)

lemma gkeeps_put: "gkeeps (g, h) (g', h') \<Longrightarrow> gkeeps (g, h) (g', foe_put r f h')"
  by (simp add: gkeeps_def same_dims_def foe_put_def split: foe_ref.splits)

lemma same_dims_put [simp]: "same_dims h (foe_put r f h)"
  by (simp add: same_dims_def foe_put_def split: foe_ref.splits)

lemma same_dims_trace [simp]: "same_dims h (trace x h)"
  by (simp add: same_dims_def trace_def)

lemma gkeeps_flush: "gkeeps x (g', h') \<Longrightarrow> gkeeps x (g', flush_bound c r h')"
  by (simp add: gkeeps_def same_dims_def flush_bound_def trace_def)

lemma same_dims_writel [simp]: "same_dims h (writel p v off h)"
  by (simp add: same_dims_def writel_def)

lemma same_dims_set_mtbl [simp]: "same_dims h (snd (set_hnat_mtbl m i p b h))"
  by (simp add: set_hnat_mtbl_def Let_def same_dims_def writel_def)

lemma same_dims_clr_mtbl [simp]: "same_dims h (clr_hnat_mtbl p i h)"
  by (simp add: clr_hnat_mtbl_def same_dims_def writel_def)

lemma same_dims_entry_delete [simp]: "same_dims h (snd (entry_delete p i h))"
  by (simp add: entry_delete_def Let_def same_dims_def trace_def)

lemma gkeeps_setup: "gkeeps (g, h) (snd (snd (hnat_mcast_mtbl_setup b r n c g h)))"
  by (simp add: hnat_mcast_mtbl_setup_def Let_def gkeeps_def same_ident_def flow_kept_def same_dims_def
      set_hnat_mtbl_def writel_def foe_put_def split: foe_ref.splits)

lemma gkeeps_teardown: "gkeeps (g, h) (hnat_mcast_mtbl_teardown g h)"
  by (simp add: hnat_mcast_mtbl_teardown_def gkeeps_def same_ident_def flow_kept_def same_dims_def
      clr_hnat_mtbl_def writel_def)

lemma gkeeps_program_ports: "gkeeps (g, h) (snd (program_ports b r n c g h))"
proof (cases "BMP_IS_SINGLE_PORT b")
  case True
  obtain f clr where d: "hnat_mcast_foe_mc_disable b (foe_at r h) c = (f, clr)"
    by fastforce
  have "gkeeps (g, h) (g, foe_put r f h)"
    by (simp add: gkeeps_same_group)
  then have "gkeeps (g, h) (hnat_mcast_mtbl_teardown g (foe_put r f h))"
    by (rule gkeeps_trans [OF _ gkeeps_teardown])
  with True d show ?thesis
    by (simp add: program_ports_def split: prod.splits)
next
  case False
  obtain ret clr g' h' where s: "hnat_mcast_mtbl_setup b r n c g h = (ret, clr, g', h')"
    by (rule prod_cases4)
  have "gkeeps (g, h) (g', h')"
    using gkeeps_setup [of g h b r n c] by (simp add: s)
  with False s show ?thesis
    by (simp add: program_ports_def gkeeps_put split: prod.splits)
qed

section \<open>Calls to the NPU\<close>

text \<open>Calls leave the registers and the flow tables alone; an insertion may change the group's
  \<open>npu_grp_idx\<close> and \<open>g_offload\<close> only.\<close>

definition calls_only :: "hw \<Rightarrow> hw \<Rightarrow> bool" where
  "calls_only h h' \<longleftrightarrow> same_dims h h' \<and> regs h' = regs h \<and> foe_tab h' = foe_tab h \<and>
     foe_local h' = foe_local h \<and> max_entry h' = max_entry h"

definition npu_only :: "mc_group \<times> hw \<Rightarrow> mc_group \<times> hw \<Rightarrow> bool" where
  "npu_only x y \<longleftrightarrow> same_ident (fst x) (fst y) \<and> mtbl_idx (fst y) = mtbl_idx (fst x) \<and>
     ppe_id (fst y) = ppe_id (fst x) \<and> foe_idx (fst y) = foe_idx (fst x) \<and> calls_only (snd x) (snd y)"

lemma calls_only_refl [simp]: "calls_only h h"
  by (simp add: calls_only_def)

lemma calls_only_trans: "calls_only h h' \<Longrightarrow> calls_only h' h'' \<Longrightarrow> calls_only h h''"
  by (simp add: calls_only_def same_dims_def)

lemma calls_only_trace [simp]: "calls_only h (trace x h)"
  by (simp add: calls_only_def) (simp add: trace_def)

lemma npu_only_refl [simp]: "npu_only x x"
  by (simp add: npu_only_def same_ident_def)

lemma npu_only_trans: "npu_only x y \<Longrightarrow> npu_only y z \<Longrightarrow> npu_only x z"
  by (simp add: npu_only_def same_ident_def calls_only_def same_dims_def)

lemma npu_only_calls: "calls_only h h' \<Longrightarrow> npu_only (g, h) (g, h')"
  by (simp add: npu_only_def same_ident_def)

lemma npu_only_keeps: "npu_only x y \<Longrightarrow> gkeeps x y"
  by (simp add: npu_only_def gkeeps_def calls_only_def flow_kept_def)

lemma calls_delete_single [simp]: "calls_only h (snd (hnat_mcast_npu_delete_single e mi p h))"
  by (simp add: hnat_mcast_npu_delete_single_def Let_def split: option.splits)

lemma calls_delete_port: "calls_only h (snd (snd x)) \<Longrightarrow> calls_only h (snd (snd (delete_port e mi t n x)))"
  using calls_only_trans [OF _ calls_delete_single [of "snd (snd x)" e mi "int n"]]
  by (simp add: delete_port_def split_def)

lemma calls_fold_delete:
  "calls_only h (snd (snd x)) \<Longrightarrow> calls_only h (snd (snd (fold (delete_port e mi t) ns x)))"
proof (induction ns arbitrary: x)
  case (Cons n ns)
  have "calls_only h (snd (snd (delete_port e mi t n x)))"
    by (rule calls_delete_port) (rule Cons.prems)
  from Cons.IH [OF this] show ?case
    by simp
qed simp

lemma calls_delete_multi [simp]: "calls_only h (snd (hnat_mcast_npu_delete_multi e mi t h))"
  using calls_fold_delete [of h "(0, 0, h)" e mi t "[0 ..< 8]"]
  by (simp add: hnat_mcast_npu_delete_multi_def split_def del: upt_Suc)

lemma calls_delete_stations [simp]: "calls_only h (snd (hnat_mcast_npu_delete_stations e mi t d h))"
  by (simp add: hnat_mcast_npu_delete_stations_def)

lemma same_dims_delete_stations [simp]: "same_dims h (snd (hnat_mcast_npu_delete_stations e mi t d h))"
  using calls_delete_stations by (simp add: calls_only_def)

lemma npu_insert_only: "npu_only (g, h) (snd (snd (npu_insert_group ins ok mi g h)))"
  by (simp add: npu_insert_group_def Let_def npu_only_def same_ident_def split_def)

lemma npu_insert_port: "npu_only y (snd (snd x)) \<Longrightarrow> npu_only y (snd (snd (insert_port ins t n x)))"
proof -
  assume y: "npu_only y (snd (snd x))"
  obtain ret mi g h where x: "x = (ret, mi, g, h)"
    by (rule prod_cases4)
  have "npu_only y (g, h)"
    using y by (simp add: x)
  then show ?thesis
    by (simp add: x insert_port_def npu_only_trans [OF _ npu_insert_only])
qed

lemma npu_fold_insert: "npu_only y (snd (snd x)) \<Longrightarrow> npu_only y (snd (snd (fold (insert_port ins t) ns x)))"
proof (induction ns arbitrary: x)
  case (Cons n ns)
  have "npu_only y (snd (snd (insert_port ins t n x)))"
    by (rule npu_insert_port) (rule Cons.prems)
  from Cons.IH [OF this] show ?case
    by simp
qed simp

lemma npu_add_multi: "npu_only (g, h) (snd (hnat_mcast_npu_add_multi ins mi t g h))"
proof -
  obtain ret mi' g' h' where x: "fold (insert_port ins t) [0 ..< 8] (0, mi, g, h) = (ret, mi', g', h')"
    by (rule prod_cases4)
  have "npu_only (g, h) (g', h')"
    using npu_fold_insert [of "(g, h)" "(0, mi, g, h)" ins t "[0 ..< 8]"] unfolding x by simp
  then show ?thesis
    unfolding hnat_mcast_npu_add_multi_def x by simp
qed

lemma npu_add_stations: "npu_only (g, h) (snd (hnat_mcast_npu_add_stations e mi t d b g h))"
proof (cases "npu_client_insert e")
  case (Some ins)
  have "npu_only (g, h) (snd (case npu_insert_group ins True mi g h of (ret, mi', g', h') \<Rightarrow> (ret, g', h')))"
    using npu_insert_only [of g h ins True mi] by (simp add: split_def)
  with Some show ?thesis
    by (simp add: hnat_mcast_npu_add_stations_def npu_add_multi)
qed (simp add: hnat_mcast_npu_add_stations_def)

lemma gkeeps_teardown_npu: "gkeeps (g, h) (snd (hnat_mcast_group_teardown_npu e g h))"
proof (cases "hnat_mcast_get_hw_foe g")
  case (Some r)
  obtain ret h' where d: "hnat_mcast_npu_delete_stations e (hnat_mcast_prepare_offload_info g (foe_at r h))
      (snd (hnat_mcast_get_pse_tx_bmp e g)) False h = (ret, h')"
    by fastforce
  then have "same_dims h h'"
    by (metis same_dims_delete_stations snd_conv)
  with Some d show ?thesis
    by (simp add: hnat_mcast_group_teardown_npu_def Let_def gkeeps_psebmp gkeeps_same_group)
qed (simp add: hnat_mcast_group_teardown_npu_def)

lemma npu_update_only: "npu_only (g, h) (snd (hnat_mcast_npu_update e mi t b ty d g h))"
proof -
  have 1: "npu_only (g, h) (snd (case hnat_mcast_npu_delete_stations e mi t d h of (ret, h') \<Rightarrow> (ret, g, h')))" for d
    using calls_delete_stations [of h e mi t d] by (simp add: npu_only_calls split_def)
  have 2: "npu_only (g, h) (snd (case hnat_mcast_npu_delete_single e mi (- 1) h of (ret, h') \<Rightarrow> (ret, g, h')))"
    using calls_delete_single [of h e mi "- 1"] by (simp add: npu_only_calls split_def)
  show ?thesis
    by (cases ty) (simp_all add: hnat_mcast_npu_update_def Let_def 1 2 npu_add_stations)
qed

section \<open>Updating the hardware\<close>

lemma gkeeps_foe_mtbl_update: "gkeeps (g, h) (hnat_mcast_foe_mtbl_update b r c g h)"
  using gkeeps_program_ports [of g h b r True c]
  by (simp add: hnat_mcast_foe_mtbl_update_def split_def gkeeps_flush)

lemma gkeeps_gsw: "gkeeps (g, h) (snd (hnat_mcast_npu_gsw_handle b r g h))"
  using gkeeps_program_ports [of g h b r False False]
  by (simp add: hnat_mcast_npu_gsw_handle_def split_def gkeeps_flush gkeeps_psebmp)

lemma gkeeps_no_npu_teardown_group: "gkeeps (g, h) (snd (hnat_mcast_no_npu_teardown_group g h))"
proof -
  have "gkeeps (g, h) (hnat_mcast_mtbl_teardown g (snd (entry_delete (ppe_id g) (foe_idx g) h)))"
    by (rule gkeeps_trans [OF gkeeps_same_group [OF same_dims_entry_delete] gkeeps_teardown])
  then show ?thesis
    by (simp add: hnat_mcast_no_npu_teardown_group_def split_def gkeeps_unbind)
qed

lemma gkeeps_multi_eth: "gkeeps (g, h) (snd (hnat_mcast_no_npu_gsw_multi_eth b r g h))"
  using gkeeps_setup [of g h b r False False]
  by (simp add: hnat_mcast_no_npu_gsw_multi_eth_def split_def gkeeps_flush gkeeps_psebmp gkeeps_put)

lemma gkeeps_single_gdma: "gkeeps (g, h) (snd (hnat_mcast_no_npu_single_gdma t b r g h))"
proof -
  have "gkeeps (g, h) (hnat_mcast_mtbl_teardown g (foe_put r f h))" for f
    by (rule gkeeps_trans [OF gkeeps_same_group gkeeps_teardown]) simp
  then show ?thesis
    by (simp add: hnat_mcast_no_npu_single_gdma_def split_def gkeeps_flush gkeeps_psebmp)
qed

lemma gkeeps_multi_handle: "gkeeps (g, h) (snd (hnat_mcast_no_npu_multi_handle e b m r g h))"
  by (simp add: hnat_mcast_no_npu_multi_handle_def gkeeps_multi_eth gkeeps_no_npu_teardown_group)

lemma gkeeps_no_npu: "hnat_mcast_no_npu_handle e t b r g h = Some x \<Longrightarrow> gkeeps (g, h) (snd x)"
  by (auto simp: hnat_mcast_no_npu_handle_def Let_def gkeeps_multi_handle gkeeps_single_gdma split: if_splits)

lemma gkeeps_dsa: "gkeeps (g, h) (snd (hnat_mcast_npu_dsa_handle e t b ty i r g h))"
proof -
  define f where "f = fst (hnat_mcast_foe_stag_update t (foe_at r h))"
  define mi where "mi = (hnat_mcast_prepare_offload_info g f)\<lparr>mi_dsa_port := ucast (hnat_mcast_get_dsa_port e i)\<rparr>"
  define clr where "clr = snd (hnat_mcast_foe_stag_update t (foe_at r h))"
  obtain ret g1 h2 where u: "hnat_mcast_npu_update e mi (ucast t) b ty (hnat_mcast_get_dsa_port e i \<noteq> - 1) g (foe_put r f h)
      = (ret, g1, h2)"
    by (rule prod_cases3)
  obtain g2 h3 where m: "hnat_mcast_foe_mtbl_update b r clr g1 h2 = (g2, h3)"
    by fastforce
  have res: "hnat_mcast_npu_dsa_handle e t b ty i r g h = (ret, g2\<lparr>psebmp := b\<rparr>, h3)"
    unfolding hnat_mcast_npu_dsa_handle_def Let_def split_def
    by (simp flip: f_def clr_def mi_def add: u m)
  have "gkeeps (g, h) (g, foe_put r f h)"
    by (simp add: gkeeps_same_group)
  moreover have "gkeeps (g, foe_put r f h) (g1, h2)"
    using npu_only_keeps [OF npu_update_only, of g "foe_put r f h" e mi "ucast t" b ty "hnat_mcast_get_dsa_port e i \<noteq> - 1"]
    unfolding u by simp
  moreover have "gkeeps (g1, h2) (g2, h3)"
    using gkeeps_foe_mtbl_update [of g1 h2 b r clr] by (simp add: m)
  ultimately have "gkeeps (g, h) (g2, h3)"
    by (rule gkeeps_trans [OF gkeeps_trans])
  then show ?thesis
    by (simp add: res gkeeps_psebmp)
qed

lemma gkeeps_hw_update: "gkeeps (g, h) (snd (hnat_mcast_hw_update e t b ty i r g h))"
  by (simp add: hnat_mcast_hw_update_def gkeeps_no_npu gkeeps_dsa gkeeps_gsw split: option.splits)

lemma gkeeps_event: "gkeeps (g, h) (snd (hnat_mcast_event_hw_handle e ty i g h))"
  by (simp add: hnat_mcast_event_hw_handle_def split_def gkeeps_hw_update gkeeps_unbind gkeeps_same_group
      split: option.splits)

section \<open>Handlers over every group\<close>

text \<open>A handler applied to each group keeps every identity, and every flow that it does not give up.\<close>

locale group_handler =
  fixes f :: "mc_group \<Rightarrow> hw \<Rightarrow> mc_group \<times> hw"
  assumes gkeeps_handler: "gkeeps (g, h) (f g h)"
begin

lemma for_groups_length: "length (fst (for_groups f gs h)) = length gs"
  by (induction gs arbitrary: h) (simp_all add: split_def)

lemma for_groups_dims: "same_dims h (snd (for_groups f gs h))"
proof (induction gs arbitrary: h)
  case (Cons g gs)
  have "same_dims h (snd (f g h))"
    using gkeeps_handler [of g h] by (simp add: gkeeps_def)
  then have "same_dims h (snd (for_groups f gs (snd (f g h))))"
    by (rule same_dims_trans) (rule Cons.IH)
  then show ?case
    by (simp add: split_def)
qed simp

lemma for_groups_each:
  "list_all2 (\<lambda>g g'. same_ident g g' \<and> flow_kept g g') gs (fst (for_groups f gs h))"
proof (induction gs arbitrary: h)
  case (Cons g gs)
  have "same_ident g (fst (f g h)) \<and> flow_kept g (fst (f g h))"
    using gkeeps_handler [of g h] by (simp add: gkeeps_def)
  with Cons.IH [of "snd (f g h)"] show ?case
    by (simp add: split_def)
qed simp

end

lemma gkeeps_ifdown: "gkeeps (g, h) (ifdown_group e i g h)"
proof -
  have "gkeeps (g, h) (hnat_mcast_mtbl_teardown g (snd (entry_delete (ppe_id g) (foe_idx g) h)))"
    by (rule gkeeps_trans [OF gkeeps_same_group [OF same_dims_entry_delete] gkeeps_teardown])
  then show ?thesis
    by (simp add: ifdown_group_def Let_def split_def gkeeps_hw_update gkeeps_unbind split: option.splits)
qed

interpretation ifdown: group_handler "ifdown_group e i" for e i
  by unfold_locales (rule gkeeps_ifdown)

lemma gkeeps_blist: "gkeeps (g, h) (blist_group e b g h)"
proof -
  obtain ret g' h' where t: "hnat_mcast_group_teardown_npu e g h = (ret, g', h')"
    by (rule prod_cases3)
  have "gkeeps (g, h) (g', h')"
    using gkeeps_teardown_npu [of g h e] by (simp add: t)
  then have "gkeeps (g, h) (g', snd (entry_delete (ppe_id g') (foe_idx g') h'))"
    by (rule gkeeps_trans) (simp add: gkeeps_same_group)
  then show ?thesis
    by (simp add: blist_group_def t gkeeps_unbind)
qed

interpretation blist: group_handler "blist_group e b" for e b
  by unfold_locales (rule gkeeps_blist)

lemma gkeeps_group_handle: "gkeeps (g, h) (group_handle e en g h)"
  by (simp add: group_handle_def Let_def gkeeps_unbind gkeeps_same_group
      same_dims_trans [OF same_dims_entry_delete same_dims_delete_stations] split: option.splits)

interpretation offload: group_handler "group_handle e en" for e en
  by unfold_locales (rule gkeeps_group_handle)

lemma gkeeps_set_path: "gkeeps (g, h) (set_path p g h)"
  by (simp add: set_path_eq Let_def gkeeps_def same_ident_def flow_kept_def unbind_def INVLD_IDX_def
      entry_delete_def same_dims_def trace_def)

end
