(* ===== verification/Mcast_System.thy ===== *)
theory Mcast_System
  imports Mcast_Props
begin

text \<open>
  The multicast component's locked entry points as a transition relation: each of them, in every
  environment.  What each step keeps of the group table is proved once, for every predicate on a
  group's flow indices that obeys the laws of \<open>flow_law\<close>; \<^verbatim>\<open>Mcast_Run\<close> adds the path switch, which
  takes no lock.
\<close>

section \<open>Steps\<close>

text \<open>The critical sections under \<open>mcast_lock\<close> and the calls at probe and removal.  The worker takes
  the lock for each message anew, with whatever the address buffer holds from the one before;
  \<open>hnat_mcast_offload_handle\<close> sets the toggle before it takes the lock.  \<open>Flow_table\<close> is what the
  engines and the rest of the driver do to the flow tables and the clock.  A packet is bound to an
  entry of an existing engine and table index.\<close>

inductive mc_step :: "mcast \<Rightarrow> mcast \<Rightarrow> bool" where
  Bind: "\<lbrakk>0 \<le> sint ppe; sint ppe < int (ppe_num (mc_hw s)); 0 \<le> sint idx; sint idx < int (foe_etry_num (mc_hw s))\<rbrakk>
    \<Longrightarrow> mc_step s (snd (hnat_mcast_foe_bind_handle e ppe idx entry ifindex s))"
| Ifdown: "mc_step s (hnat_mcast_ifdown_handle e ifindex s)"
| Netlink: "mc_step s (snd (nlmsg_one e m (dmac, s)))"
| Check_timestamp: "mc_step s (hnat_mcast_check_timestamp s)"
| Blist: "hnat_mcast_blist_handle e alloc ip len add is_ipv4 s = Some (ret, s') \<Longrightarrow> mc_step s s'"
| Offload: "mc_step s (snd (hnat_mcast_offload_handle e enable s))"
| Toggle: "mc_step s (s\<lparr>mcast_hook_toggle := enable\<rparr>)"
| Ser: "mc_step s (snd (hnat_mcast_ser_handle s))"
| Enable: "mc_step s (snd (hnat_mcast_enable v alloc queue sock ppe_no s))"
| Disable: "mc_step s (snd (hnat_mcast_disable e v queued s))"
| Flow_table: "mc_step s (s\<lparr>mc_hw := (mc_hw s)\<lparr>foe_tab := t, foe_clock := c\<rparr>\<rparr>)"

section \<open>Invariant\<close>

definition gkey :: "mc_group \<Rightarrow> group_ip" where
  "gkey g = (if g_is_ipv4 g then Ip4 (g_dip g) else Ip6 (g_dip6 g))"

text \<open>A flow, both indices in range, or none, both \<open>-1\<close>; and each index by itself.\<close>

definition flow_ok :: "hw \<Rightarrow> mc_group \<Rightarrow> bool" where
  "flow_ok h g \<longleftrightarrow> ppe_id g = - 1 \<and> foe_idx g = - 1 \<or>
     0 \<le> ppe_id g \<and> ppe_id g < int (ppe_num h) \<and> 0 \<le> foe_idx g \<and> foe_idx g < int (foe_etry_num h)"

definition idx_ok :: "hw \<Rightarrow> mc_group \<Rightarrow> bool" where
  "idx_ok h g \<longleftrightarrow> (ppe_id g = - 1 \<or> 0 \<le> ppe_id g \<and> ppe_id g < int (ppe_num h)) \<and>
     (foe_idx g = - 1 \<or> 0 \<le> foe_idx g \<and> foe_idx g < int (foe_etry_num h))"

text \<open>Well formed apart from the members of the group at \<open>i\<close>.\<close>

definition groups_by :: "(hw \<Rightarrow> mc_group \<Rightarrow> bool) \<Rightarrow> nat option \<Rightarrow> hw \<Rightarrow> mc_group list \<Rightarrow> bool" where
  "groups_by F i h gs \<longleftrightarrow> distinct (map gkey gs) \<and>
     (\<forall>j<length gs. F h (gs ! j) \<and> (Some j \<noteq> i \<longrightarrow> g_members (gs ! j) \<noteq> []))"

definition inv_by :: "(hw \<Rightarrow> mc_group \<Rightarrow> bool) \<Rightarrow> mcast \<Rightarrow> bool" where
  "inv_by F s \<longleftrightarrow> (case pmcast s of None \<Rightarrow> True | Some gs \<Rightarrow> groups_by F None (mc_hw s) gs)"

abbreviation groups_ok :: "hw \<Rightarrow> mc_group list \<Rightarrow> bool" where "groups_ok \<equiv> groups_by flow_ok None"

abbreviation mc_inv :: "mcast \<Rightarrow> bool" where "mc_inv \<equiv> inv_by flow_ok"

lemma inv_by_None [simp]: "pmcast s = None \<Longrightarrow> inv_by F s"
  by (simp add: inv_by_def)

lemma inv_by_Some: "pmcast s = Some gs \<Longrightarrow> inv_by F s \<longleftrightarrow> groups_by F None (mc_hw s) gs"
  by (simp add: inv_by_def)

lemma inv_by_with_groups: "inv_by F (with_groups gs h s) \<longleftrightarrow> groups_by F None h gs"
  by (simp add: inv_by_def with_groups_def)

lemma inv_by_more [simp]:
  "inv_by F (s\<lparr>mcast_hook_toggle := t\<rparr>) = inv_by F s" "inv_by F (s\<lparr>mcast_blist_list := l\<rparr>) = inv_by F s"
  by (simp_all add: inv_by_def split: option.split)

lemma gkey_ident: "same_ident g g' \<Longrightarrow> gkey g' = gkey g"
  by (simp add: gkey_def same_ident_def)

section \<open>Lookup\<close>

lemma first_index_Some: "first_index P xs = Some i \<Longrightarrow> i < length xs \<and> P (xs ! i)"
proof (induction xs arbitrary: i)
  case (Cons x xs)
  then show ?case
    by (cases "P x") (auto split: option.splits)
qed simp

lemma first_index_None: "first_index P xs = None \<longleftrightarrow> (\<forall>x\<in>set xs. \<not> P x)"
  by (induction xs) (auto split: option.splits)

lemma group_has_ip_gkey: "group_has_ip key g \<longleftrightarrow> gkey g = key"
  by (auto simp: group_has_ip_def gkey_def split: group_ip.splits)

lemma find_group_Some: "hnat_mcast_find_group_by_ip key gs = Some i \<Longrightarrow> i < length gs \<and> gkey (gs ! i) = key"
  by (auto simp: hnat_mcast_find_group_by_ip_def group_has_ip_gkey dest: first_index_Some)

lemma find_group_None: "hnat_mcast_find_group_by_ip key gs = None \<longleftrightarrow> key \<notin> gkey ` set gs"
  by (auto simp: hnat_mcast_find_group_by_ip_def group_has_ip_gkey first_index_None)


lemma sizes_fold: "(\<And>x h. same_dims h (f x h)) \<Longrightarrow> same_dims h (fold f xs h)"
proof (induction xs arbitrary: h)
  case (Cons x xs)
  have "same_dims (f x h) (fold f xs (f x h))"
    by (rule Cons.IH) (rule Cons.prems)
  then show ?case
    using Cons.prems [of h x] by (simp add: same_dims_trans)
qed simp

lemma same_dims_mc_set_field [simp]: "same_dims h (mc_set_field p off low w v h)"
  by (simp add: mc_set_field_def)

lemma same_dims_map_init: "same_dims h (snd (hnat_mcast_mcport_ppse_map_init p h))"
  by (simp add: hnat_mcast_mcport_ppse_map_init_def same_dims_def mc_set_field_def writel_def)

lemma same_dims_check: "same_dims h (check_entry pi h)"
  by (simp add: check_entry_def Let_def)

lemma wifi_target_Some: "wifi_target w n gs = Some i \<Longrightarrow> i < length gs"
  by (auto simp: wifi_target_def dest: find_group_Some split: option.splits)

lemma path_target_Some: "path_target w n gs = Some i \<Longrightarrow> i < length gs"
  by (auto simp: path_target_def dest: wifi_target_Some first_index_Some split: option.splits)

section \<open>Every step keeps the invariant\<close>

text \<open>The laws: the indices matter and the table sizes, a whole flow in range and none are allowed.\<close>

locale flow_law =
  fixes F :: "hw \<Rightarrow> mc_group \<Rightarrow> bool"
  assumes law_dims: "same_dims h h' \<Longrightarrow> F h' g = F h g"
    and law_same: "ppe_id g' = ppe_id g \<Longrightarrow> foe_idx g' = foe_idx g \<Longrightarrow> F h g' = F h g"
    and law_none: "ppe_id g = - 1 \<Longrightarrow> foe_idx g = - 1 \<Longrightarrow> F h g"
    and law_bound: "\<lbrakk>0 \<le> ppe_id g; ppe_id g < int (ppe_num h); 0 \<le> foe_idx g; foe_idx g < int (foe_etry_num h)\<rbrakk>
      \<Longrightarrow> F h g"
begin

lemma law_kept: "F h g \<Longrightarrow> flow_kept g g' \<Longrightarrow> F h g'"
  unfolding flow_kept_def using law_same law_none by blast

lemma groups_ok_dims: "groups_by F i h gs \<Longrightarrow> same_dims h h' \<Longrightarrow> groups_by F i h' gs"
  by (simp add: groups_by_def law_dims)

lemma groups_okD: "groups_by F i h gs \<Longrightarrow> j < length gs \<Longrightarrow> F h (gs ! j)"
  by (simp add: groups_by_def)

lemma groups_ok_each:
  assumes ok: "groups_by F None h gs" and dims: "same_dims h h'"
    and all: "list_all2 (\<lambda>g g'. same_ident g g' \<and> flow_kept g g') gs gs'"
  shows "groups_by F None h' gs'"
proof -
  have len: "length gs' = length gs"
    using all by (simp add: list_all2_lengthD)
  have each: "same_ident (gs ! j) (gs' ! j) \<and> flow_kept (gs ! j) (gs' ! j)" if "j < length gs" for j
    using list_all2_nthD [OF all that] by simp
  have "map gkey gs' = map gkey gs"
    by (rule nth_equalityI) (simp_all add: len gkey_ident each)
  moreover have "F h' (gs' ! j) \<and> g_members (gs' ! j) \<noteq> []" if "j < length gs" for j
  proof
    have "F h (gs ! j)" and "g_members (gs ! j) \<noteq> []"
      using ok that by (simp_all add: groups_by_def)
    then show "F h' (gs' ! j)" and "g_members (gs' ! j) \<noteq> []"
      using each [OF that] dims by (simp_all add: law_dims law_kept same_ident_def)
  qed
  ultimately show ?thesis
    using ok by (simp add: groups_by_def len)
qed

lemma groups_ok_update:
  assumes ok: "groups_by F b h gs" and i: "i < length gs" and key: "gkey g' = gkey (gs ! i)"
    and fl: "F h g'" and mem: "Some i \<noteq> c \<Longrightarrow> g_members g' \<noteq> []" and bc: "b = c \<or> b = None"
  shows "groups_by F c h (gs[i := g'])"
proof -
  have "map gkey (gs[i := g']) = map gkey gs"
    by (rule nth_equalityI) (simp_all add: nth_list_update key i)
  with ok bc show ?thesis
    using fl mem i by (auto simp: groups_by_def nth_list_update)
qed

lemma groups_ok_del:
  assumes ok: "groups_by F (Some i) h gs" and i: "i < length gs"
  shows "groups_by F None h (hnat_mcast_group_del i gs)"
proof (cases "g_members (gs ! i) = []")
  case True
  have "distinct (map gkey (take i gs @ drop (Suc i) gs))"
  proof -
    have "gs = take i gs @ gs ! i # drop (Suc i) gs"
      using i by (rule id_take_nth_drop)
    then have "map gkey gs = map gkey (take i gs) @ gkey (gs ! i) # map gkey (drop (Suc i) gs)"
      by (metis list.simps(9) map_append)
    moreover have "distinct (map gkey gs)"
      using ok by (simp add: groups_by_def)
    ultimately show ?thesis
      by simp
  qed
  moreover have "F h ((take i gs @ drop (Suc i) gs) ! j) \<and> g_members ((take i gs @ drop (Suc i) gs) ! j) \<noteq> []"
    if "j < length gs - 1" for j
  proof (cases "j < i")
    case True
    with ok i show ?thesis
      by (simp add: groups_by_def nth_append)
  next
    case False
    with i that have "(take i gs @ drop (Suc i) gs) ! j = gs ! Suc j"
      by (simp add: nth_append Suc_diff_le add.commute min_def)
    with ok False that show ?thesis
      by (simp add: groups_by_def)
  qed
  ultimately show ?thesis
    using True i by (simp add: groups_by_def hnat_mcast_group_del_def)
next
  case False
  with ok show ?thesis
    unfolding groups_by_def hnat_mcast_group_del_def by auto
qed

lemma inv_for_groups:
  assumes "group_handler f" and "pmcast s = Some gs" and "inv_by F s"
  shows "inv_by F (with_groups (fst (for_groups f gs (mc_hw s))) (snd (for_groups f gs (mc_hw s))) s')"
  unfolding inv_by_with_groups
proof (rule groups_ok_each)
  show "groups_by F None (mc_hw s) gs"
    using assms(2,3) by (simp add: inv_by_Some)
qed (rule group_handler.for_groups_dims group_handler.for_groups_each, rule assms(1))+

lemma inv_ifdown: "inv_by F s \<Longrightarrow> inv_by F (hnat_mcast_ifdown_handle e i s)"
  using inv_for_groups [OF ifdown.group_handler_axioms]
  by (simp add: hnat_mcast_ifdown_handle_def split_def split: option.splits)

lemma inv_offload: "inv_by F s \<Longrightarrow> inv_by F (snd (hnat_mcast_offload_handle e en s))"
proof -
  assume inv: "inv_by F s"
  have inv': "inv_by F (s\<lparr>mcast_hook_toggle := en\<rparr>)"
    using inv by (cases "pmcast s") (simp_all add: inv_by_def)
  show ?thesis
  proof (cases "pmcast s")
    case None
    then show ?thesis
      by (simp add: hnat_mcast_offload_handle_def Let_def inv')
  next
    case (Some gs)
    show ?thesis
      using inv_for_groups [OF offload.group_handler_axioms _ inv', of gs e en "s\<lparr>mcast_hook_toggle := en\<rparr>"]
      by (simp add: hnat_mcast_offload_handle_def Let_def Some split_def)
  qed
qed

lemma inv_update_at:
  assumes inv: "inv_by F s" and gs: "pmcast s = Some gs" and i: "i < length gs"
    and k: "gkeeps (gs ! i, mc_hw s) (g', h')"
  shows "inv_by F (with_groups (gs[i := g']) h' s)"
proof -
  have ok: "groups_by F None (mc_hw s) gs"
    using inv gs by (simp add: inv_by_Some)
  have d: "same_dims (mc_hw s) h'" and id: "same_ident (gs ! i) g'" and fk: "flow_kept (gs ! i) g'"
    using k by (simp_all add: gkeeps_def)
  have "groups_by F None (mc_hw s) (gs[i := g'])"
  proof (rule groups_ok_update [OF ok i])
    show "gkey g' = gkey (gs ! i)"
      by (rule gkey_ident [OF id])
    show "F (mc_hw s) g'"
      by (rule law_kept [OF groups_okD [OF ok i] fk])
    show "g_members g' \<noteq> []"
      using ok i id by (simp add: groups_by_def same_ident_def)
  qed simp
  then show ?thesis
    unfolding inv_by_with_groups by (rule groups_ok_dims [OF _ d])
qed

lemma inv_set_path_at:
  assumes "inv_by F s" and "pmcast s = Some gs" and "i < length gs"
  shows "inv_by F (set_path_at p i gs s)"
  unfolding set_path_at_def split_def
  by (rule inv_update_at [OF assms]) (simp add: gkeeps_set_path)

lemma inv_path_switch: "inv_by F s \<Longrightarrow> inv_by F (hnat_mcast_group_path_switch w n p s)"
  unfolding hnat_mcast_group_path_switch_def hnat_mcast_update_path_from_wifi_def
  by (auto intro: inv_set_path_at dest: wifi_target_Some first_index_Some split: option.splits)

lemma inv_ser: "inv_by F s \<Longrightarrow> inv_by F (snd (hnat_mcast_ser_handle s))"
proof (cases "pmcast s")
  case (Some gs)
  assume inv: "inv_by F s"
  have "same_dims (mc_hw s)
      (fold (\<lambda>i h. snd (hnat_mcast_mcport_ppse_map_init i h)) [0 ..< ppe_num (mc_hw s)] (mc_hw s))"
    by (rule sizes_fold) (rule same_dims_map_init)
  moreover have "list_all2 (\<lambda>g g'. same_ident g g' \<and> flow_kept g g') gs (map ser_group gs)"
    by (simp add: list_all2_conv_all_nth ser_group_def same_ident_def flow_kept_def INVLD_IDX_def)
  moreover have "groups_by F None (mc_hw s) gs"
    using inv Some by (simp add: inv_by_Some)
  ultimately show ?thesis
    by (simp add: hnat_mcast_ser_handle_def Some inv_by_with_groups groups_ok_each)
qed (simp add: hnat_mcast_ser_handle_def)

lemma inv_hw: "inv_by F s \<Longrightarrow> same_dims (mc_hw s) h \<Longrightarrow> inv_by F (s\<lparr>mc_hw := h\<rparr>)"
  by (auto simp: inv_by_def groups_ok_dims split: option.splits)

lemma inv_check: "inv_by F s \<Longrightarrow> inv_by F (hnat_mcast_check_timestamp s)"
  unfolding hnat_mcast_check_timestamp_def by (rule inv_hw, assumption, rule sizes_fold, rule same_dims_check)

lemma inv_blist:
  assumes inv: "inv_by F s" and res: "hnat_mcast_blist_handle e alloc ip len add v4 s = Some (ret, s')"
  shows "inv_by F s'"
proof -
  obtain gs where gs: "pmcast s = Some gs"
    using res by (auto simp: hnat_mcast_blist_handle_def split: option.splits)
  note each = inv_for_groups [OF blist.group_handler_axioms gs inv]
  have blist: "inv_by F (t\<lparr>mcast_blist_list := l\<rparr>) = inv_by F t" for t l
    by (simp add: inv_by_def split: option.split)
  show ?thesis
    using res inv
    by (auto simp: hnat_mcast_blist_handle_def gs Let_def split_def blist each split: option.splits if_splits)
qed

lemma inv_bind:
  assumes inv: "inv_by F s" and ppe: "0 \<le> sint ppe" "sint ppe < int (ppe_num (mc_hw s))"
    and idx: "0 \<le> sint idx" "sint idx < int (foe_etry_num (mc_hw s))"
  shows "inv_by F (snd (hnat_mcast_foe_bind_handle e ppe idx entry ifindex s))"
proof (cases "\<exists>key gs i. entry_key entry = Some key \<and> pmcast s = Some gs \<and> hnat_mcast_find_group_by_ip key gs = Some i
    \<and> g_offload (gs ! i) \<and> \<not> hnat_mcast_no_npu_teardown e (gs ! i)")
  case False
  then have "snd (hnat_mcast_foe_bind_handle e ppe idx entry ifindex s) = s"
    by (auto simp: hnat_mcast_foe_bind_handle_def Let_def split: option.splits)
  then show ?thesis
    using inv by simp
next
  case True
  then obtain key gs i where key: "entry_key entry = Some key" and gs: "pmcast s = Some gs"
    and f: "hnat_mcast_find_group_by_ip key gs = Some i" and off: "g_offload (gs ! i)"
    and np: "\<not> hnat_mcast_no_npu_teardown e (gs ! i)"
    by blast
  have i: "i < length gs"
    using find_group_Some [OF f] by simp
  define g1 where "g1 = bind_group ppe idx entry (gs ! i)"
  define h where "h = (mc_hw s)\<lparr>foe_local := entry\<rparr>"
  define pb where "pb = hnat_mcast_get_pse_tx_bmp e g1"
  define x where "x = (if fst pb \<noteq> 0
    then hnat_mcast_hw_update e (ucast (snd pb)) (fst pb) RTM_NEWMDB ifindex Local g1 h else (0, g1, h))"
  have k: "gkeeps (g1, h) (snd x)"
    by (simp add: x_def gkeeps_hw_update)
  have res: "snd (hnat_mcast_foe_bind_handle e ppe idx entry ifindex s)
      = with_groups (gs[i := fst (snd x)]) (snd (snd x)) s"
    by (simp add: hnat_mcast_foe_bind_handle_def Let_def key gs f off np split_def x_def
        flip: g1_def h_def pb_def)
  have ok: "groups_by F None (mc_hw s) gs"
    using inv gs by (simp add: inv_by_Some)
  have dims: "same_dims (mc_hw s) h"
    by (simp add: h_def same_dims_def)
  have ident: "same_ident (gs ! i) g1"
    by (simp add: g1_def bind_group_def Let_def same_ident_def)
  have fl: "F h g1"
    using ppe idx by (intro law_bound) (simp_all add: g1_def bind_group_def Let_def h_def)
  have id2: "same_ident g1 (fst (snd x))" and fk: "flow_kept g1 (fst (snd x))"
    and d2: "same_dims h (snd (snd x))"
    using k by (simp_all add: gkeeps_def)
  have "groups_by F None h (gs[i := fst (snd x)])"
  proof (rule groups_ok_update [OF groups_ok_dims [OF ok dims] i])
    show "gkey (fst (snd x)) = gkey (gs ! i)"
      using ident id2 by (simp add: gkey_ident)
    show "F h (fst (snd x))"
      by (rule law_kept [OF fl fk])
    show "g_members (fst (snd x)) \<noteq> []"
      using ok i ident id2 by (simp add: groups_by_def same_ident_def)
  qed simp
  then show ?thesis
    unfolding res inv_by_with_groups by (rule groups_ok_dims [OF _ d2])
qed


lemma inv_insert_group:
  assumes ok: "groups_by F None h gs" and key: "mdb_key ent = Some key" and new: "key \<notin> gkey ` set gs"
  shows "groups_by F (Some (length gs)) h (gs @ [hnat_mcast_create_group dmac ent])"
proof -
  have "gkey (hnat_mcast_create_group dmac ent) = key"
    using key by (auto simp: gkey_def hnat_mcast_create_group_def mdb_key_def split: mdb_addr.splits)
  moreover have "F h (hnat_mcast_create_group dmac ent)"
    by (rule law_none) (simp_all add: hnat_mcast_create_group_def INVLD_IDX_def)
  ultimately show ?thesis
    using ok new by (auto simp: groups_by_def nth_append less_Suc_eq)
qed

lemma inv_member_update:
  assumes ok: "groups_by F (Some i) h gs" and i: "i < length gs"
    and ident: "gkey g1 = gkey (gs ! i)" "ppe_id g1 = ppe_id (gs ! i)" "foe_idx g1 = foe_idx (gs ! i)"
    and k: "gkeeps (g1, h) (g', h')"
  shows "groups_by F None h' (hnat_mcast_group_del i (gs[i := g']))"
proof -
  have d: "same_dims h h'" and id: "same_ident g1 g'" and fk: "flow_kept g1 g'"
    using k by (simp_all add: gkeeps_def)
  have fl: "F h g1"
    using groups_okD [OF ok i] ident law_same by metis
  have "groups_by F (Some i) h (gs[i := g'])"
    by (rule groups_ok_update [OF ok i]) (simp_all add: gkey_ident [OF id] ident law_kept [OF fl fk])
  then have "groups_by F None h (hnat_mcast_group_del i (gs[i := g']))"
    by (rule groups_ok_del) (simp add: i)
  then show ?thesis
    by (rule groups_ok_dims [OF _ d])
qed

lemma inv_group_update:
  assumes inv: "inv_by F s"
  shows "inv_by F (snd (hnat_mcast_group_update e alloc dmac ty ent s))"
proof (cases "mdb_key ent")
  case (Some key)
  show ?thesis
  proof (cases "pmcast s")
    case gs: (Some gs)
    have ok: "groups_by F None (mc_hw s) gs"
      using inv gs by (simp add: inv_by_Some)
    define target where "target = (case hnat_mcast_find_group_by_ip key gs of
              Some i \<Rightarrow> Some (i, gs)
            | None \<Rightarrow> if fst alloc then Some (length gs, gs @ [hnat_mcast_create_group dmac ent]) else None)"
    show ?thesis
    proof (cases target)
      case None
      then show ?thesis
        using inv unfolding target_def
        by (simp add: hnat_mcast_group_update_def Some gs)
    next
      case t: (Some tg)
      obtain i gs1 where tg: "tg = (i, gs1)"
        by fastforce
      have ok1: "groups_by F (Some i) (mc_hw s) gs1 \<and> i < length gs1"
      proof (cases "hnat_mcast_find_group_by_ip key gs")
        case None
        then have "key \<notin> gkey ` set gs"
          by (simp add: find_group_None)
        from inv_insert_group [OF ok Some this, of dmac] show ?thesis
          using t None by (auto simp: target_def tg split: if_splits)
      next
        case f: (Some j)
        have "groups_by F (Some j) (mc_hw s) gs"
          using ok by (simp add: groups_by_def)
        with find_group_Some [OF f] t f show ?thesis
          by (simp add: target_def tg)
      qed
      define g where "g = (if ty = RTM_NEWMDB then hnat_mcast_group_add_station (mdb_ifindex ent) (gs1 ! i)
                        else hnat_mcast_group_del_station (mdb_ifindex ent) (gs1 ! i))"
      define x where "x = (if mcast_hook_toggle s
                         then hnat_mcast_event_hw_handle e ty (mdb_ifindex ent) g (mc_hw s)
                         else (0, g, mc_hw s))"
      have "gkeeps (g, mc_hw s) (snd x)"
        by (simp add: x_def gkeeps_event)
      then have "groups_by F None (snd (snd x)) (hnat_mcast_group_del i (gs1[i := fst (snd x)]))"
        by (intro inv_member_update [of i "mc_hw s" gs1 g])
          (simp_all add: ok1 g_def gkey_def hnat_mcast_group_add_station_def hnat_mcast_group_del_station_def)
      then have new: "inv_by F (with_groups (hnat_mcast_group_del i (gs1[i := fst (snd x)])) (snd (snd x)) s)"
        by (simp add: inv_by_with_groups)
      have "snd (hnat_mcast_group_update e alloc dmac ty ent s) = s \<or>
          snd (hnat_mcast_group_update e alloc dmac ty ent s)
            = with_groups (hnat_mcast_group_del i (gs1[i := fst (snd x)])) (snd (snd x)) s"
        unfolding hnat_mcast_group_update_def Some gs option.case target_def [symmetric] t tg prod.case
          Let_def split_def
        by (simp add: x_def g_def)
      then show ?thesis
        using inv new by (elim disjE) simp_all
    qed
  qed (use inv Some in \<open>simp add: hnat_mcast_group_update_def\<close>)
qed (use inv in \<open>simp add: hnat_mcast_group_update_def\<close>)

lemma inv_nlmsg_one: "inv_by F (snd x) \<Longrightarrow> inv_by F (snd (nlmsg_one e m x))"
  by (simp add: nlmsg_one_def Let_def inv_group_update split: nl_msg.splits)

lemma inv_nlmsg: "inv_by F s \<Longrightarrow> inv_by F (hnat_mcast_nlmsg_handler e msgs s)"
proof -
  have "inv_by F (snd x) \<Longrightarrow> inv_by F (snd (fold (nlmsg_one e) msgs x))" for x
  proof (induction msgs arbitrary: x)
    case (Cons m msgs)
    from Cons.IH [OF inv_nlmsg_one [OF Cons.prems]] show ?case
      by simp
  qed simp
  from this [of "([0, 0, 0, 0, 0, 0], s)"] show "inv_by F s \<Longrightarrow> inv_by F (hnat_mcast_nlmsg_handler e msgs s)"
    by (simp add: hnat_mcast_nlmsg_handler_def)
qed

lemma inv_enable: "inv_by F s \<Longrightarrow> inv_by F (snd (hnat_mcast_enable v alloc q sk p s))"
proof (cases "pmcast s")
  case None
  assume inv: "inv_by F s"
  have "groups_by F None h []" for h
    by (simp add: groups_by_def)
  then show ?thesis
    using inv by (simp add: hnat_mcast_enable_def None Let_def inv_by_Some)
next
  case (Some gs)
  assume inv: "inv_by F s"
  have "groups_by F None (snd (hnat_mcast_mcport_ppse_map_init p (mc_hw s))) gs"
    using inv Some by (simp add: inv_by_Some groups_ok_dims [OF _ same_dims_map_init])
  then show ?thesis
    using inv by (simp add: hnat_mcast_enable_def Some Let_def inv_by_Some)
qed

lemma inv_disable: "inv_by F s \<Longrightarrow> inv_by F (snd (hnat_mcast_disable e v queued s))"
  by (simp add: hnat_mcast_disable_def Let_def)

lemma mc_step_inv: "mc_step s s' \<Longrightarrow> inv_by F s \<Longrightarrow> inv_by F s'"
proof (induction rule: mc_step.induct)
  case (Flow_table s t c)
  then show ?case
    by (rule inv_hw) (simp add: same_dims_def)
qed (simp_all add: inv_bind inv_ifdown inv_nlmsg_one inv_check inv_blist inv_offload inv_ser inv_enable inv_disable)

end

interpretation whole: flow_law flow_ok
  by unfold_locales (simp_all add: flow_ok_def same_dims_def)

interpretation each: flow_law idx_ok
  by unfold_locales (simp_all add: idx_ok_def same_dims_def)

end
