(* ===== verification/Mcast_Spec.thy ===== *)
theory Mcast_Spec
  imports Mcast_System
begin

text \<open>
  What the hardware does with a group's packets, read back from the flow entry and the multicast
  table, and the multicast table as an allocator of slots.  The functions that program a group
  refine this specification.
\<close>

section \<open>Bitmaps of the ports of devices\<close>

text \<open>Only the ports of the three GMACs and of the TDMA occur.\<close>

definition valid_bmp :: "u32 \<Rightarrow> bool" where
  "valid_bmp b \<longleftrightarrow> b AND NOT 0x1D = 0"

lemma valid_bmp_bit: "valid_bmp b \<Longrightarrow> bit b n \<Longrightarrow> n = 0 \<or> n = 2 \<or> n = 3 \<or> n = 4"
proof -
  assume v: "valid_bmp b" and n: "bit b n"
  have l: "n < 32" using n by (auto dest: bit_imp_le_length)
  have "\<not> bit (b AND NOT 0x1D) n"
    using v by (simp add: valid_bmp_def)
  then have "bit (0x1D::u32) n"
    using n l by (auto simp: bit_simps)
  then show ?thesis
    by (auto simp: bit_numeral_rec bit_1_iff split: nat.splits)
qed

lemma valid_bmp_cases: "valid_bmp b \<Longrightarrow> b \<in> {0,1,4,5,8,9,12,13,16,17,20,21,24,25,28,29}"
proof -
  assume v: "valid_bmp b"
  have "b = (if bit b 0 then 1 else 0) OR (if bit b 2 then 4 else 0) OR (if bit b 3 then 8 else 0) OR (if bit b 4 then 16 else 0)"
    (is "_ = ?r")
  proof (rule bit_eqI)
    fix n
    show "bit b n = bit ?r n"
      using valid_bmp_bit [OF v, of n]
      by (auto simp: bit_simps bit_numeral_rec bit_1_iff eval_nat_numeral split: nat.splits)
  qed
  then show ?thesis
    by (cases "bit b 0"; cases "bit b 2"; cases "bit b 3"; cases "bit b 4") simp_all
qed

lemma single_values:
  "\<not> BMP_IS_SINGLE_PORT 0" "BMP_IS_SINGLE_PORT 1" "BMP_IS_SINGLE_PORT 4" "\<not> BMP_IS_SINGLE_PORT 5"
  "BMP_IS_SINGLE_PORT 8"  "\<not> BMP_IS_SINGLE_PORT 9" "\<not> BMP_IS_SINGLE_PORT 12" "\<not> BMP_IS_SINGLE_PORT 13"
  "BMP_IS_SINGLE_PORT 16"  "\<not> BMP_IS_SINGLE_PORT 17"  "\<not> BMP_IS_SINGLE_PORT 20" "\<not> BMP_IS_SINGLE_PORT 21"
  "\<not> BMP_IS_SINGLE_PORT 24" "\<not> BMP_IS_SINGLE_PORT 25" "\<not> BMP_IS_SINGLE_PORT 28" "\<not> BMP_IS_SINGLE_PORT 29"
  by code_simp+
lemma mc_dp_values: "mc_dp 1 = Some NR_GMAC3_PORT" "mc_dp 4 = Some NR_GMAC1_PORT" "mc_dp 8 = Some NR_GMAC2_PORT" "mc_dp 16 = Some NR_TDMA_PORT"
  by code_simp+

lemma valid_bmp_or [simp]: "valid_bmp a \<Longrightarrow> valid_bmp b \<Longrightarrow> valid_bmp (a OR b)"
  by (simp add: valid_bmp_def bit.conj_disj_distrib2)

lemma valid_port_bits [simp]:
  "valid_bmp 0" "valid_bmp (port_bit MCAST_TO_GDMA1)" "valid_bmp (port_bit MCAST_TO_GDMA2)"
  "valid_bmp (port_bit MCAST_TO_GDMA3)" "valid_bmp (port_bit MCAST_TO_TDMA)"
  by (code_simp+)

lemma valid_dev_pse_bit: "valid_bmp (fst x) \<Longrightarrow> valid_bmp (fst (dev_pse_bit e d x))"
  by (simp add: dev_pse_bit_def hnat_mcast_handle_dsa_def hnat_mcast_set_gmac_bit_def split: option.splits)

lemma valid_tx_bmp: "valid_bmp (fst (hnat_mcast_get_pse_tx_bmp e g))"
proof -
  have "valid_bmp (fst x) \<Longrightarrow> valid_bmp (fst (fold (member_pse_bit e) ms x))" for ms x
    by (induction ms arbitrary: x) (simp_all add: member_pse_bit_def valid_dev_pse_bit split: option.splits)
  from this [of "(0, 0)"] show ?thesis
    by (simp add: hnat_mcast_get_pse_tx_bmp_def)
qed

section \<open>Where packets go\<close>

text \<open>The ports of a slot, and the bitmap of a single destination port.\<close>

definition slot_ports :: "nat \<Rightarrow> nat \<Rightarrow> hw \<Rightarrow> u32" where
  "slot_ports p i h = take_bit 5 (drop_bit 15 (regs h p (mtbl_h i)))"

definition slot_mac :: "nat \<Rightarrow> nat \<Rightarrow> hw \<Rightarrow> u32 \<times> u32" where
  "slot_mac p i h = (take_bit 2 (drop_bit 20 (regs h p (mtbl_h i))), regs h p (mtbl_l i))"

definition dp_ports :: "nat \<Rightarrow> u32" where
  "dp_ports dp = (if dp = NR_GMAC1_PORT then port_bit MCAST_TO_GDMA1
                  else if dp = NR_GMAC2_PORT then port_bit MCAST_TO_GDMA2
                  else if dp = NR_GMAC3_PORT then port_bit MCAST_TO_GDMA3
                  else if dp = NR_TDMA_PORT then port_bit MCAST_TO_TDMA else 0)"

text \<open>The ports the hardware forwards a flow to: those of its slot, or its single port.\<close>

definition hw_ports :: "foe_ref \<Rightarrow> mc_group \<Rightarrow> hw \<Rightarrow> u32" where
  "hw_ports r g h =
     (let f = foe_at r h
      in if f_mcast f then slot_ports (nat (ppe_id g)) (nat (mtbl_idx g)) h else dp_ports (f_dp f))"

definition mcast_mac :: "u8 list \<Rightarrow> bool" where
  "mcast_mac mac \<longleftrightarrow> DMAC_TO_HI16 mac = 0x0100 \<or> DMAC_TO_HI16 mac = 0x3333"

lemma mdb_mac_mcast: "mdb_key ent \<noteq> None \<Longrightarrow> mcast_mac (snd (hnat_mcast_get_mac_from_mdb ent mac))"
  by (auto simp: mdb_key_def hnat_mcast_get_mac_from_mdb_def mcast_mac_def DMAC_TO_HI16_def Let_def
      split: mdb_addr.splits)

lemma mcast_h_ports: "valid_bmp b \<Longrightarrow> take_bit 5 (drop_bit 15 (mcast_h_value b m)) = b"
proof -
  assume v: "valid_bmp b"
  have "bit (take_bit 5 (drop_bit 15 (mcast_h_value b m))) n = bit b n" for n
    using valid_bmp_bit [OF v, of n] by (auto simp: mcast_h_value_def bit_simps)
  then show ?thesis
    by (simp add: bit_eq_iff)
qed

lemma mcast_h_prefix: "take_bit 2 (drop_bit 20 (mcast_h_value b m)) = take_bit 2 m"
  by (rule bit_eqI) (auto simp: mcast_h_value_def bit_simps)

lemma dp_ports_single:
  assumes "valid_bmp b" and "BMP_IS_SINGLE_PORT b"
  obtains dp where "mc_dp b = Some dp" and "dp_ports dp = b"
proof -
  have "b \<in> {1, 4, 8, 16}"
    using valid_bmp_cases [OF assms(1)] assms(2) by (auto simp: single_values)
  then have "mc_dp b = Some (the (mc_dp b)) \<and> dp_ports (the (mc_dp b)) = b"
    by (auto simp: mc_dp_values dp_ports_def pse_port_defs mcast_port_defs port_bit_def)
  then show thesis
    by (elim conjE) (rule that)
qed

section \<open>Slots\<close>

text \<open>The registers of different slots are different.\<close>

lemma mtbl_h_neq_l [simp]: "mtbl_h i \<noteq> mtbl_l j"
proof -
  obtain k where "mtbl_h i = 8 * k + 4"
  proof (cases "i < 0x10")
    case True
    then show thesis
      by (intro that [of "17 + int i"]) (simp add: mtbl_h_def PPE_MCAST_H_0_def)
  next
    case False
    then show thesis
      by (intro that [of "int (i - 0x10) - 64"]) (simp add: mtbl_h_def PPE_MCAST_H_10_def)
  qed
  moreover obtain m where "mtbl_l j = 8 * m"
  proof (cases "j < 0x10")
    case True
    then show thesis
      by (intro that [of "17 + int j"]) (simp add: mtbl_l_def PPE_MCAST_L_0_def)
  next
    case False
    then show thesis
      by (intro that [of "int (j - 0x10) - 64"]) (simp add: mtbl_l_def PPE_MCAST_L_10_def)
  qed
  ultimately show ?thesis
    by presburger
qed

lemma mtbl_inj:
  assumes "i < 64" and "j < 64"
  shows "mtbl_h i = mtbl_h j \<longleftrightarrow> i = j" and "mtbl_l i = mtbl_l j \<longleftrightarrow> i = j"
  using assms by (simp_all add: mtbl_h_def mtbl_l_def PPE_MCAST_H_0_def PPE_MCAST_H_10_def
      PPE_MCAST_L_0_def PPE_MCAST_L_10_def)

definition slot_free :: "nat \<Rightarrow> nat \<Rightarrow> hw \<Rightarrow> bool" where
  "slot_free p i h \<longleftrightarrow> regs h p (mtbl_h i) = 0 \<and> regs h p (mtbl_l i) = 0"

lemma alloc_slot:
  assumes "hnat_mcast_alloc_mtbl_entry p h = int i"
  shows "i < max_entry h" and "slot_free p i h" and "\<forall>j<i. \<not> slot_free p j h"
  using assms
  by (auto simp: hnat_mcast_alloc_mtbl_entry_def slot_free_def find_Some_iff split: option.splits)

lemma alloc_full: "hnat_mcast_alloc_mtbl_entry p h = - 1 \<longleftrightarrow> (\<forall>j<max_entry h. \<not> slot_free p j h)"
  by (auto simp: hnat_mcast_alloc_mtbl_entry_def slot_free_def find_None_iff find_Some_iff split: option.splits)

lemma set_mtbl_ok: "mcast_mac mac \<Longrightarrow> fst (set_hnat_mtbl mac i p b h) = 0"
  by (auto simp: mcast_mac_def set_hnat_mtbl_def Let_def)

lemma regs_set_mtbl:
  assumes "mcast_mac mac"
  shows "regs (snd (set_hnat_mtbl mac i p b h)) =
    (regs h)(p := (regs h p)(mtbl_h i := mcast_h_value b (if DMAC_TO_HI16 mac = 0x3333 then 1 else 0),
                            mtbl_l i := DMAC_TO_LO32 mac))"
  using assms by (auto simp: mcast_mac_def set_hnat_mtbl_def Let_def writel_def)

lemma slot_ports_set:
  "mcast_mac mac \<Longrightarrow> valid_bmp b \<Longrightarrow> slot_ports p i (snd (set_hnat_mtbl mac i p b h)) = b"
  by (simp add: slot_ports_def regs_set_mtbl mcast_h_ports)


section \<open>Programming a group\<close>

lemma foe_at_put [simp]: "foe_at r (foe_put r f h) = f"
  by (simp add: foe_at_def foe_put_def split: foe_ref.splits)

lemma regs_put [simp]: "regs (foe_put r f h) = regs h"
  by (simp add: foe_put_def split: foe_ref.splits)

lemma flush_bound_simps [simp]: "regs (flush_bound c r h) = regs h" "foe_at r' (flush_bound c r h) = foe_at r' h"
  by (simp_all add: flush_bound_def trace_def foe_at_def split: foe_ref.splits)

lemma foe_at_set_mtbl [simp]: "foe_at r (snd (set_hnat_mtbl mac i p b h)) = foe_at r h"
  by (simp add: set_hnat_mtbl_def Let_def writel_def foe_at_def split: foe_ref.splits)

lemma hw_ports_flush [simp]: "hw_ports r g (flush_bound c r' h) = hw_ports r g h"
  by (simp add: hw_ports_def slot_ports_def Let_def)

text \<open>A slot can be used when the group has one, or one is free.\<close>

definition can_slot :: "mc_group \<Rightarrow> hw \<Rightarrow> bool" where
  "can_slot g h \<longleftrightarrow> mtbl_idx g \<noteq> - 1 \<or> hnat_mcast_alloc_mtbl_entry (nat (ppe_id g)) h \<noteq> - 1"

text \<open>When the network processor replicates for the switch, its port stands for GDMA1.\<close>

definition expected_ports :: "bool \<Rightarrow> u32 \<Rightarrow> u32" where
  "expected_ports to_npu b =
     (if to_npu \<and> \<not> BMP_IS_SINGLE_PORT b then (b AND NOT (port_bit MCAST_TO_GDMA1)) OR port_bit MCAST_TO_TDMA
      else b)"

lemma valid_expected: "valid_bmp b \<Longrightarrow> valid_bmp (expected_ports n b)"
proof -
  assume "valid_bmp b"
  then have "valid_bmp (b AND c)" for c
    by (metis (no_types) valid_bmp_def and.assoc and.commute and_zero_eq)
  with \<open>valid_bmp b\<close> show ?thesis
    by (simp add: expected_ports_def)
qed

lemma hw_ports_psebmp [simp]: "hw_ports r (g\<lparr>psebmp := x\<rparr>) h = hw_ports r g h"
  by (simp add: hw_ports_def slot_ports_def Let_def)

lemma hw_ports_multi:
  assumes "can_slot g h" and mac: "mcast_mac (g_mac g)" and b: "valid_bmp b"
    and multi: "\<not> BMP_IS_SINGLE_PORT b" and f: "f_kind (foe_at r h) \<noteq> FOE_OTHER"
    and res: "hnat_mcast_mtbl_setup b r n clr g h = (ret, clr', g', h')"
  shows "ret = 0"
    and "hw_ports r g' (foe_put r (fst (hnat_mcast_foe_mc_enable n (foe_at r h'))) h') = expected_ports n b"
proof -
  define g1 where "g1 = (if mtbl_idx g = - 1
    then g\<lparr>mtbl_idx := hnat_mcast_alloc_mtbl_entry (nat (ppe_id g)) h\<rparr> else g)"
  have "mtbl_idx g1 \<noteq> - 1" and mac1: "g_mac g1 = g_mac g"
    using assms(1) by (auto simp: g1_def can_slot_def)
  then have g': "g' = g1"
    and h': "h' = snd (set_hnat_mtbl (g_mac g1) (nat (mtbl_idx g1)) (nat (ppe_id g1)) (expected_ports n b) h)"
    and "ret = 0"
    using res multi unfolding hnat_mcast_mtbl_setup_def Let_def g1_def [symmetric] expected_ports_def by auto
  then show "ret = 0"
    by simp
  have "f_mcast (fst (hnat_mcast_foe_mc_enable n (foe_at r h')))"
    using f by (simp add: h' hnat_mcast_foe_mc_enable_def Let_def)
  moreover have "slot_ports (nat (ppe_id g1)) (nat (mtbl_idx g1)) h' = expected_ports n b"
    using mac b by (simp add: h' slot_ports_set mac1 valid_expected)
  ultimately show "hw_ports r g' (foe_put r (fst (hnat_mcast_foe_mc_enable n (foe_at r h'))) h') = expected_ports n b"
    by (simp add: hw_ports_def Let_def g' slot_ports_def)
qed

lemma foe_at_teardown [simp]: "foe_at r (snd (hnat_mcast_mtbl_teardown g h)) = foe_at r h"
  by (simp add: hnat_mcast_mtbl_teardown_def clr_hnat_mtbl_def writel_def foe_at_def split: foe_ref.splits)

lemma hw_ports_single:
  assumes b: "valid_bmp b" and s: "BMP_IS_SINGLE_PORT b" and f: "f_kind f \<noteq> FOE_OTHER"
    and res: "hnat_mcast_mtbl_teardown g (foe_put r (fst (hnat_mcast_foe_mc_disable b f clr)) h) = (g', h')"
  shows "hw_ports r g'' h' = b"
proof -
  obtain dp where dp: "mc_dp b = Some dp" "dp_ports dp = b"
    by (rule dp_ports_single [OF b s])
  have at: "foe_at r h' = fst (hnat_mcast_foe_mc_disable b f clr)"
    using foe_at_teardown [of r g "foe_put r (fst (hnat_mcast_foe_mc_disable b f clr)) h"] by (simp add: res)
  show ?thesis
    using f dp by (simp add: hw_ports_def at hnat_mcast_foe_mc_disable_def Let_def)
qed

text \<open>Whatever the number of ports, the hardware forwards to the expected ones.\<close>

lemma hw_ports_program:
  assumes slot: "BMP_IS_SINGLE_PORT b \<or> can_slot g h" and mac: "mcast_mac (g_mac g)" and b: "valid_bmp b"
    and f: "f_kind (foe_at r h) \<noteq> FOE_OTHER"
    and res: "program_ports b r n clr g h = (clr', g', h')"
  shows "hw_ports r g' h' = expected_ports n b"
proof (cases "BMP_IS_SINGLE_PORT b")
  case True
  obtain g1 h1 where t: "hnat_mcast_mtbl_teardown g
      (foe_put r (fst (hnat_mcast_foe_mc_disable b (foe_at r h) clr)) h) = (g1, h1)"
    by fastforce
  have "g' = g1" and "h' = h1"
    using res True by (auto simp: program_ports_def split_def t)
  then show ?thesis
    using hw_ports_single [OF b True f t] True by (simp add: expected_ports_def)
next
  case False
  obtain r1 clr1 g1 h1 where s: "hnat_mcast_mtbl_setup b r n clr g h = (r1, clr1, g1, h1)"
    by (rule prod_cases4)
  have "can_slot g h"
    using False slot by simp
  note m = hw_ports_multi [OF this mac b False f s]
  have "g' = g1" and "h' = foe_put r (fst (hnat_mcast_foe_mc_enable n (foe_at r h1))) h1"
    using res False m(1) by (auto simp: program_ports_def split_def s)
  then show ?thesis
    using m(2) by simp
qed

lemma hw_ports_gsw:
  assumes "BMP_IS_SINGLE_PORT b \<or> can_slot g h" and "mcast_mac (g_mac g)" and "valid_bmp b"
    and "f_kind (foe_at r h) \<noteq> FOE_OTHER" and res: "hnat_mcast_npu_gsw_handle b r g h = (ret, g', h')"
  shows "hw_ports r g' h' = expected_ports False b \<and> psebmp g' = b \<and> ret = 0"
proof -
  obtain clr g1 h1 where p: "program_ports b r False False g h = (clr, g1, h1)"
    by (rule prod_cases3)
  from hw_ports_program [OF assms(1-4) p] res show ?thesis
    by (auto simp: hnat_mcast_npu_gsw_handle_def p)
qed

lemma hw_ports_dsa:
  assumes slot: "BMP_IS_SINGLE_PORT b \<or> can_slot g h" and mac: "mcast_mac (g_mac g)" and b: "valid_bmp b"
    and f: "f_kind (foe_at r h) \<noteq> FOE_OTHER"
    and res: "hnat_mcast_npu_dsa_handle e t b ty i r g h = (ret, g', h')"
  shows "hw_ports r g' h' = expected_ports True b \<and> psebmp g' = b"
proof -
  define f1 where "f1 = fst (hnat_mcast_foe_stag_update t (foe_at r h))"
  define mi where "mi = (hnat_mcast_prepare_offload_info g f1)\<lparr>mi_dsa_port := ucast (hnat_mcast_get_dsa_port e i)\<rparr>"
  define clr where "clr = snd (hnat_mcast_foe_stag_update t (foe_at r h))"
  obtain r1 g1 h1 where u: "hnat_mcast_npu_update e mi (ucast t) b ty (hnat_mcast_get_dsa_port e i \<noteq> - 1) g (foe_put r f1 h)
      = (r1, g1, h1)"
    by (rule prod_cases3)
  obtain c g2 h2 where p: "program_ports b r True clr g1 h1 = (c, g2, h2)"
    by (rule prod_cases3)
  have res': "g' = g2\<lparr>psebmp := b\<rparr>" "h' = flush_bound True r h2"
    using res unfolding hnat_mcast_npu_dsa_handle_def Let_def split_def
    by (auto simp: u p hnat_mcast_foe_mtbl_update_def simp flip: f1_def clr_def mi_def)
  have n: "npu_only (g, foe_put r f1 h) (g1, h1)"
    using npu_update_only [of g "foe_put r f1 h" e mi "ucast t" b ty "hnat_mcast_get_dsa_port e i \<noteq> - 1"]
    unfolding u by simp
  have "max_entry (foe_put r f1 h) = max_entry h"
    by (simp add: foe_put_def split: foe_ref.splits)
  then have "can_slot g1 h1 = can_slot g h"
    using n by (simp add: npu_only_def calls_only_def can_slot_def hnat_mcast_alloc_mtbl_entry_def)
  moreover have "g_mac g1 = g_mac g"
    using n by (simp add: npu_only_def same_ident_def)
  moreover have "foe_at r h1 = foe_at r (foe_put r f1 h)"
    using n by (simp add: npu_only_def calls_only_def foe_at_def split: foe_ref.splits)
  moreover have "f_kind f1 = f_kind (foe_at r h)"
    by (simp add: f1_def hnat_mcast_foe_stag_update_def)
  ultimately have "hw_ports r g2 h2 = expected_ports True b"
    using slot mac b f by (intro hw_ports_program [OF _ _ _ _ p]) simp_all
  then show ?thesis
    by (simp add: res')
qed

text \<open>Without the network processor: flows for Wi-Fi, or for several ports behind a DSA switch, are
  left to software.\<close>

definition software_only :: "mc_env \<Rightarrow> u32 \<Rightarrow> bool" where
  "software_only e b \<longleftrightarrow> hnat_mc_ops e = None \<and> (bit b MCAST_TO_TDMA \<or> eth0_mtk_dsa e \<and> \<not> BMP_IS_SINGLE_PORT b)"

lemma entry_delete_at:
  assumes "0 \<le> p" and "p < int (ppe_num h)" and "0 \<le> i" and "i < int (foe_etry_num h)"
  shows "foe_at (In_table (nat p) (nat i)) (snd (entry_delete p i h))
    = entry_delete_one (foe_timestamp False h) (foe_at (In_table (nat p) (nat i)) h)"
  using assms by (simp add: entry_delete_def Let_def foe_at_def trace_def)


lemma hw_update_ports:
  assumes slot: "BMP_IS_SINGLE_PORT b \<or> can_slot g h" and mac: "mcast_mac (g_mac g)" and b: "valid_bmp b"
    and f: "f_kind (foe_at r h) \<noteq> FOE_OTHER" and nz: "b \<noteq> 0" and hard: "\<not> software_only e b"
    and res: "hnat_mcast_hw_update e t b ty i r g h = (ret, g', h')"
  shows "hw_ports r g' h' = expected_ports (hnat_mc_ops e \<noteq> None \<and> eth0_mtk_dsa e) b \<and> psebmp g' = b"
proof (cases "hnat_mc_ops e")
  case (Some ops)
  then show ?thesis
    using res hw_ports_dsa [OF slot mac b f] hw_ports_gsw [OF slot mac b f]
    by (auto simp: hnat_mcast_hw_update_def hnat_mcast_no_npu_handle_def split: if_splits)
next
  case None
  then have no_tdma: "\<not> bit b MCAST_TO_TDMA" and dsa: "eth0_mtk_dsa e \<Longrightarrow> BMP_IS_SINGLE_PORT b"
    using hard by (auto simp: software_only_def)
  show ?thesis
  proof (cases "BMP_IS_SINGLE_PORT b")
    case True
    define f1 where "f1 = fst (hnat_mcast_foe_stag_update t (foe_at r h))"
    define c where "c = snd (hnat_mcast_foe_stag_update t (foe_at r h))"
    obtain g1 h1 where td: "hnat_mcast_mtbl_teardown g (foe_put r (fst (hnat_mcast_foe_mc_disable b f1 c)) h) = (g1, h1)"
      by fastforce
    have "f_kind f1 \<noteq> FOE_OTHER"
      using f by (simp add: f1_def hnat_mcast_foe_stag_update_def)
    then have "hw_ports r g1 h1 = b"
      by (rule hw_ports_single [OF b True _ td])
    moreover have "\<exists>cl. (ret, g', h') = (0, g1\<lparr>psebmp := b\<rparr>, flush_bound cl r h1)"
      using res True None no_tdma
      by (auto simp: hnat_mcast_hw_update_def hnat_mcast_no_npu_handle_def Let_def
          hnat_mcast_no_npu_single_gdma_def split_def td simp flip: f1_def c_def)
    ultimately show ?thesis
      using None by (auto simp: expected_ports_def)
  next
    case False
    obtain r1 clr1 g1 h1 where s: "hnat_mcast_mtbl_setup b r False False g h = (r1, clr1, g1, h1)"
      by (rule prod_cases4)
    have "can_slot g h"
      using False slot by simp
    note m = hw_ports_multi [OF this mac b False f s]
    have not_dsa: "\<not> eth0_mtk_dsa e"
      using dsa False by blast
    have "\<exists>cl. (ret, g', h') = (0, g1\<lparr>psebmp := b\<rparr>,
        flush_bound cl r (foe_put r (fst (hnat_mcast_foe_mc_enable False (foe_at r h1))) h1))"
      using res False None no_tdma nz m(1) not_dsa
      by (auto split: if_splits simp: hnat_mcast_hw_update_def hnat_mcast_no_npu_handle_def Let_def split_def s
          hnat_mcast_no_npu_multi_handle_def hnat_mcast_no_npu_gsw_multi_eth_def)
    with m(2) show ?thesis
      using None by (auto simp: expected_ports_def)
  qed
qed

lemma hw_update_software:
  assumes nz: "b \<noteq> 0" and soft: "software_only e b"
    and res: "hnat_mcast_hw_update e t b ty i r g h = (ret, g', h')"
  shows "hnat_mcast_no_npu_teardown_group g h = (ret, g', h')"
  using assms by (auto simp: software_only_def hnat_mcast_hw_update_def hnat_mcast_no_npu_handle_def Let_def
      hnat_mcast_no_npu_multi_handle_def split: if_splits)

lemma teardown_group_result:
  assumes res: "hnat_mcast_no_npu_teardown_group g h = (ret, g', h')" and ok: "flow_ok h g"
    and r: "hnat_mcast_get_hw_foe g = Some r"
  shows "ret = - 1 \<and> ppe_id g' = - 1 \<and> foe_idx g' = - 1 \<and> f_state (foe_at r h') = INVALID"
proof -
  have bound: "0 \<le> ppe_id g" "ppe_id g < int (ppe_num h)" "0 \<le> foe_idx g" "foe_idx g < int (foe_etry_num h)"
    and r': "r = In_table (nat (ppe_id g)) (nat (foe_idx g))"
    using ok r by (auto simp: flow_ok_def hnat_mcast_get_hw_foe_def split: if_splits)
  have "foe_at r h' = foe_at r (snd (entry_delete (ppe_id g) (foe_idx g) h))"
    using res foe_at_teardown [of r g "snd (entry_delete (ppe_id g) (foe_idx g) h)"]
    by (auto simp: hnat_mcast_no_npu_teardown_group_def split_def)
  then have "f_state (foe_at r h') = INVALID"
    unfolding r' entry_delete_at [OF bound] by (simp add: entry_delete_one_def)
  moreover have "ret = - 1 \<and> ppe_id g' = - 1 \<and> foe_idx g' = - 1"
    using res by (auto simp: hnat_mcast_no_npu_teardown_group_def split_def unbind_def INVLD_IDX_def)
  ultimately show ?thesis
    by simp
qed

section \<open>The ports of a group's members\<close>

text \<open>Which port of the packet engine reaches a device, stated apart from the code's bitmaps: a port of
  the switch (with its number in the device tree) is behind GDMA1; a Wi-Fi interface the chip serves is
  behind TDMA; any other LAN, WAN or bonding interface is behind its own GMAC's port.\<close>

definition own_gmac :: "mc_env \<Rightarrow> netdev \<Rightarrow> bool" where
  "own_gmac e d \<longleftrightarrow> \<not> IS_DSA_LAN d \<and> \<not> IS_WHNAT e d \<and> (IS_LAN_GRP e d \<or> IS_WAN e d)"

definition reached_through :: "mc_env \<Rightarrow> netdev \<Rightarrow> nat set" where
  "reached_through e d =
     (if IS_DSA_LAN d \<and> nd_reg d \<noteq> None then {MCAST_TO_GDMA1} else {}) \<union>
     (if \<not> IS_DSA_LAN d \<and> IS_WHNAT e d then {MCAST_TO_TDMA} else {}) \<union>
     (if own_gmac e d \<and> (gmac1_mode e \<or> nd_mac_id d = 0) then {MCAST_TO_GDMA1} else {}) \<union>
     (if own_gmac e d \<and> \<not> gmac1_mode e \<and> nd_mac_id d = 1 then {MCAST_TO_GDMA2} else {}) \<union>
     (if own_gmac e d \<and> \<not> gmac1_mode e \<and> nd_mac_id d = 2 then {MCAST_TO_GDMA3} else {})"

definition member_ports :: "mc_env \<Rightarrow> mc_group \<Rightarrow> nat set" where
  "member_ports e g = (\<Union>i\<in>set (g_members g). case netdevs e i of
     None \<Rightarrow> {} | Some d \<Rightarrow> if nd_running d then reached_through e d else {})"

lemma bit_port: "n < 32 \<Longrightarrow> bit (port_bit n) p \<longleftrightarrow> p = n"
  by (auto simp: port_bit_def bit_simps)

lemma bit_dev_pse: "bit (fst (dev_pse_bit e d x)) p \<longleftrightarrow> bit (fst x) p \<or> p \<in> reached_through e d"
  by (auto simp: dev_pse_bit_def reached_through_def own_gmac_def hnat_mcast_handle_dsa_def
      hnat_mcast_set_gmac_bit_def mc_gmac_fp_def NR_GMAC1_PORT_def NR_GMAC2_PORT_def NR_GMAC3_PORT_def
      bit_or_iff bit_port mcast_port_defs split: option.splits)

lemma bit_tx_bmp: "bit (fst (hnat_mcast_get_pse_tx_bmp e g)) p \<longleftrightarrow> p \<in> member_ports e g"
proof -
  have "bit (fst (fold (member_pse_bit e) ms x)) p \<longleftrightarrow> bit (fst x) p \<or> (\<exists>i\<in>set ms. p \<in> (case netdevs e i of
      None \<Rightarrow> {} | Some d \<Rightarrow> if nd_running d then reached_through e d else {}))" for ms x
    by (induction ms arbitrary: x) (auto simp: member_pse_bit_def bit_dev_pse split: option.splits)
  from this [of "g_members g" "(0, 0)"] show ?thesis
    by (simp add: hnat_mcast_get_pse_tx_bmp_def member_ports_def)
qed

lemma tx_bmp_zero: "fst (hnat_mcast_get_pse_tx_bmp e g) = 0 \<longleftrightarrow> member_ports e g = {}"
proof -
  have "{p. bit (fst (hnat_mcast_get_pse_tx_bmp e g)) p} = member_ports e g"
    by (simp add: bit_tx_bmp)
  moreover have "w = 0 \<longleftrightarrow> {p. bit w p} = {}" for w :: u32
    using bit_eqI [of w 0] by auto
  ultimately show ?thesis
    by (simp only:)
qed

lemma single_port_card: "BMP_IS_SINGLE_PORT b \<longleftrightarrow> card {p. bit b p} = 1"
proof -
  have "{p. bit b p} = set (filter (bit b) [0 ..< 32])"
    by (auto dest: bit_imp_le_length)
  then have "card {p. bit b p} = length (filter (bit b) [0 ..< 32])"
    by (simp only: distinct_card distinct_filter distinct_upt)
  then show ?thesis
    by (simp add: BMP_IS_SINGLE_PORT_def hweight32_def)
qed

lemma tx_bmp_single: "BMP_IS_SINGLE_PORT (fst (hnat_mcast_get_pse_tx_bmp e g)) \<longleftrightarrow> card (member_ports e g) = 1"
  by (simp add: single_port_card bit_tx_bmp)

text \<open>The ports the hardware is to send the group's packets to: its members'; when the network processor
  serves the switch, it takes the packets for several ports in GDMA1's place.\<close>

definition wanted_ports :: "mc_env \<Rightarrow> mc_group \<Rightarrow> nat set" where
  "wanted_ports e g =
     (if hnat_mc_ops e \<noteq> None \<and> eth0_mtk_dsa e \<and> card (member_ports e g) \<noteq> 1
      then insert MCAST_TO_TDMA (member_ports e g - {MCAST_TO_GDMA1}) else member_ports e g)"

lemma bit_expected:
  "bit (expected_ports (hnat_mc_ops e \<noteq> None \<and> eth0_mtk_dsa e) (fst (hnat_mcast_get_pse_tx_bmp e g))) p
     \<longleftrightarrow> p \<in> wanted_ports e g"
proof (cases "p < 32")
  case True
  then show ?thesis
    by (auto simp: expected_ports_def wanted_ports_def tx_bmp_single bit_tx_bmp bit_or_iff bit_and_iff
        bit_not_iff bit_port mcast_port_defs)
next
  case False
  have "p \<notin> member_ports e g"
    using False bit_tx_bmp [of e g p] by (auto dest: bit_imp_le_length)
  then show ?thesis
    using False by (auto simp: wanted_ports_def mcast_port_defs dest: bit_imp_le_length)
qed

text \<open>Without a network processor the chip leaves a group to software that has a Wi-Fi member, or
  several ports behind a switch.\<close>

definition left_to_software :: "mc_env \<Rightarrow> mc_group \<Rightarrow> bool" where
  "left_to_software e g \<longleftrightarrow> hnat_mc_ops e = None \<and>
     (MCAST_TO_TDMA \<in> member_ports e g \<or> eth0_mtk_dsa e \<and> card (member_ports e g) \<noteq> 1)"

lemma left_to_software: "left_to_software e g \<longleftrightarrow> software_only e (fst (hnat_mcast_get_pse_tx_bmp e g))"
  by (simp add: left_to_software_def software_only_def tx_bmp_single bit_tx_bmp)

section \<open>Freeing what was allocated\<close>

lemma clr_after_set:
  assumes "mcast_mac mac" and "slot_free p i h"
  shows "regs (clr_hnat_mtbl p i (snd (set_hnat_mtbl mac i p b h))) = regs h"
  using assms by (auto simp: clr_hnat_mtbl_def writel_def regs_set_mtbl slot_free_def fun_eq_iff)

lemma regs_unbind_entry [simp]: "regs (snd (entry_delete p i h)) = regs h"
  by (simp add: entry_delete_def Let_def trace_def)

lemma get_foe_unbind [simp]: "hnat_mcast_get_hw_foe (unbind g) = None"
  by (simp add: hnat_mcast_get_hw_foe_def unbind_def INVLD_IDX_def)

lemma event_unbound:
  "hnat_mcast_get_hw_foe g = None \<Longrightarrow> hnat_mcast_event_hw_handle e ty i g h = (- ENOENT, g, h)"
  by (simp add: hnat_mcast_event_hw_handle_def)


section \<open>Leaving a group that has no flow\<close>

lemma first_index_update:
  "first_index P xs = Some i \<Longrightarrow> P y \<Longrightarrow> first_index P (xs[i := y]) = Some i"
proof (induction xs arbitrary: i)
  case (Cons x xs)
  then show ?case
    by (cases "P x") (auto split: option.splits)
qed simp

lemma find_group_update:
  "hnat_mcast_find_group_by_ip key gs = Some i \<Longrightarrow> gkey g = key \<Longrightarrow>
   hnat_mcast_find_group_by_ip key (gs[i := g]) = Some i"
  by (simp add: hnat_mcast_find_group_by_ip_def first_index_update group_has_ip_gkey)

lemma find_group_distinct:
  assumes "distinct (map gkey gs)" and "i < length gs"
  shows "hnat_mcast_find_group_by_ip (gkey (gs ! i)) gs = Some i"
proof (cases "hnat_mcast_find_group_by_ip (gkey (gs ! i)) gs")
  case None
  with assms(2) show ?thesis
    by (auto simp: find_group_None)
next
  case (Some j)
  then have "j < length gs" and "gkey (gs ! j) = gkey (gs ! i)"
    using find_group_Some by blast+
  with assms have "j = i"
    using nth_eq_iff_index_eq [of "map gkey gs" j i] by simp
  with Some show ?thesis
    by simp
qed

lemma with_groups_hw: "pmcast s = Some gs \<Longrightarrow> with_groups gs' (mc_hw s) s = s\<lparr>pmcast := Some gs'\<rparr>"
  by (simp add: with_groups_def)

lemma del_station_simps [simp]:
  "g_members (hnat_mcast_group_del_station x g) = remove1 x (g_members g)"
  "gkey (hnat_mcast_group_del_station x g) = gkey g"
  "hnat_mcast_get_hw_foe (hnat_mcast_group_del_station x g) = hnat_mcast_get_hw_foe g"
  by (simp_all add: hnat_mcast_group_del_station_def gkey_def hnat_mcast_get_hw_foe_def)

lemma leave_unbound:
  assumes gs: "pmcast s = Some gs" and key: "mdb_key ent = Some key"
    and i: "hnat_mcast_find_group_by_ip key gs = Some i" and unb: "hnat_mcast_get_hw_foe (gs ! i) = None"
  shows "snd (hnat_mcast_group_update e al dmac RTM_DELMDB ent s) =
    s\<lparr>pmcast := Some (hnat_mcast_group_del i (gs[i := hnat_mcast_group_del_station (mdb_ifindex ent) (gs ! i)]))\<rparr>"
  by (simp add: hnat_mcast_group_update_def key gs i unb Let_def event_unbound with_groups_hw [OF gs])

text \<open>The notifications of every member leaving.\<close>

definition leave_all :: "mdb_addr \<Rightarrow> u32 list \<Rightarrow> (nl_msg \<times> bool \<times> bool) list" where
  "leave_all a ms = map (\<lambda>m. (Nl_mdb RTM_DELMDB \<lparr>mdb_ifindex = m, mdb_addr = a\<rparr>, True, True)) ms"

definition addr_key :: "mdb_addr \<Rightarrow> group_ip option" where
  "addr_key a = mdb_key \<lparr>mdb_ifindex = 0, mdb_addr = a\<rparr>"

lemma mdb_key_addr: "mdb_key \<lparr>mdb_ifindex = m, mdb_addr = a\<rparr> = addr_key a"
  by (simp add: mdb_key_def addr_key_def split: mdb_addr.splits)

lemma mdb_mac_multicast:
  "mdb_key ent = Some key \<Longrightarrow> is_multicast_ether_addr (snd (hnat_mcast_get_mac_from_mdb ent mac))"
  by (auto simp: mdb_key_def hnat_mcast_get_mac_from_mdb_def Let_def is_multicast_ether_addr_def bit_numeral_rec
      split: mdb_addr.splits)

lemma remove1_group: "i < length gs \<Longrightarrow> take i (gs[i := g]) @ drop (Suc i) (gs[i := g]) = take i gs @ drop (Suc i) gs"
  by simp

lemma leave_all_unbound:
  assumes "pmcast s = Some gs" and "addr_key a = Some key" and "hnat_mcast_find_group_by_ip key gs = Some i"
    and "hnat_mcast_get_hw_foe (gs ! i) = None" and "g_members (gs ! i) = m # ms"
  shows "snd (fold (nlmsg_one e) (leave_all a (m # ms)) (dmac, s)) =
    s\<lparr>pmcast := Some (take i gs @ drop (Suc i) gs)\<rparr>"
  using assms
proof (induction ms arbitrary: m gs s dmac)
  case (Cons m' ms)
  let ?ent = "\<lparr>mdb_ifindex = m, mdb_addr = a\<rparr>"
  let ?g = "hnat_mcast_group_del_station m (gs ! i)"
  have i: "i < length gs" "gkey (gs ! i) = key"
    using find_group_Some [OF Cons.prems(3)] by simp_all
  have key: "mdb_key ?ent = Some key"
    by (simp add: mdb_key_addr Cons.prems)
  have g: "g_members ?g = m' # ms" "gkey ?g = key" "hnat_mcast_get_hw_foe ?g = None"
    using Cons.prems(4,5) i by simp_all
  have del: "hnat_mcast_group_del i (gs[i := ?g]) = gs[i := ?g]"
    using i g(1) by (simp add: hnat_mcast_group_del_def)
  obtain dmac' where one: "nlmsg_one e (Nl_mdb RTM_DELMDB ?ent, True, True) (dmac, s) = (dmac', s\<lparr>pmcast := Some (gs[i := ?g])\<rparr>)"
    using leave_unbound [OF Cons.prems(1) key Cons.prems(3,4)] mdb_mac_multicast [OF key] del
    by (simp add: nlmsg_one_def Let_def)
  have "snd (fold (nlmsg_one e) (leave_all a (m' # ms)) (dmac', s\<lparr>pmcast := Some (gs[i := ?g])\<rparr>)) =
    (s\<lparr>pmcast := Some (gs[i := ?g])\<rparr>)\<lparr>pmcast := Some (take i (gs[i := ?g]) @ drop (Suc i) (gs[i := ?g]))\<rparr>"
    using Cons.prems(2) i g find_group_update [OF Cons.prems(3) g(2)] by (intro Cons.IH) simp_all
  then show ?case
    by (simp add: leave_all_def one)
next
  case Nil
  let ?ent = "\<lparr>mdb_ifindex = m, mdb_addr = a\<rparr>"
  have key: "mdb_key ?ent = Some key"
    by (simp add: mdb_key_addr Nil.prems)
  have i: "i < length gs"
    using find_group_Some [OF Nil.prems(3)] by simp
  have "hnat_mcast_group_del i (gs[i := hnat_mcast_group_del_station m (gs ! i)]) = take i gs @ drop (Suc i) gs"
    using i Nil.prems(5) by (simp add: hnat_mcast_group_del_def)
  then show ?case
    using leave_unbound [OF Nil.prems(1) key Nil.prems(3,4)] mdb_mac_multicast [OF key]
    by (simp add: leave_all_def nlmsg_one_def Let_def)
qed


section \<open>Prefixes\<close>

lemma swab32_and: "swab32 (a AND b) = swab32 a AND swab32 b"
  by (rule bit_eqI) (auto simp: swab32_def bit_simps)

lemma all_ones: "(0xffffffff :: u32) = - 1"
  by simp

lemma and_ones [simp]: "(x::u32) AND 0xffffffff = x"
  unfolding all_ones by simp

lemma same_prefix:
  "(x::u32) AND push_bit k 0xffffffff = y AND push_bit k 0xffffffff \<longleftrightarrow> drop_bit k x = drop_bit k y"
proof
  assume eq: "x AND push_bit k 0xffffffff = y AND push_bit k 0xffffffff"
  show "drop_bit k x = drop_bit k y"
  proof (rule bit_eqI)
    fix n
    have "bit (x AND push_bit k 0xffffffff) (k + n) = bit (y AND push_bit k 0xffffffff) (k + n)"
      by (simp only: eq)
    then show "bit (drop_bit k x) n = bit (drop_bit k y) n"
      unfolding all_ones by (auto simp: bit_simps dest: bit_imp_le_length)
  qed
next
  assume eq: "drop_bit k x = drop_bit k y"
  show "x AND push_bit k 0xffffffff = y AND push_bit k 0xffffffff"
  proof (rule bit_eqI)
    fix n
    have "bit (drop_bit k x) (n - k) = bit (drop_bit k y) (n - k)"
      by (simp only: eq)
    then show "bit (x AND push_bit k 0xffffffff) n = bit (y AND push_bit k 0xffffffff) n"
      unfolding all_ones by (auto simp: bit_simps)
  qed
qed

lemma prefix_mask_Some:
  "prefix_mask len = Some m \<longleftrightarrow> 1 \<le> unat len \<and> unat len \<le> 32 \<and> m = push_bit (32 - unat len) 0xffffffff"
proof (cases "len \<le> 32")
  case True
  then have "unat (32 - len) = 32 - unat len" and "unat len \<le> 32"
    by (simp_all add: unat_sub word_le_nat_alt)
  then show ?thesis
    by (auto simp: prefix_mask_def word_less_nat_alt)
next
  case False
  then have "32 < unat len" and "32 \<le> 32 - len"
    by (simp add: word_le_nat_alt) (use False in uint_arith)
  then show ?thesis
    by (auto simp: prefix_mask_def)
qed

lemma prefix_mask_big: "prefix_mask len = Some m \<Longrightarrow> 128 \<le> unat m"
proof -
  assume "prefix_mask len = Some m"
  then have len: "1 \<le> unat len" "unat len \<le> 32" and m: "m = push_bit (32 - unat len) (- 1)"
    unfolding prefix_mask_Some all_ones by simp_all
  have "bit m 31"
    using len by (simp add: m bit_simps)
  then have set: "bit (unat m) 31"
    by (simp add: bit_unsigned_iff)
  show ?thesis
  proof (rule ccontr)
    assume "\<not> 128 \<le> unat m"
    then have "take_bit 31 (unat m) = unat m"
      by (intro take_bit_nat_eq_self) simp
    with set have "bit (take_bit 31 (unat m)) 31"
      by simp
    then show False
      by (simp add: bit_take_bit_iff)
  qed
qed

lemma match_words_exact:
  "32 * length ws \<le> unat m \<Longrightarrow> match_words m ws \<longleftrightarrow> (\<forall>w\<in>set ws. fst w = snd w)"
proof (induction ws arbitrary: m)
  case (Cons w ws)
  obtain x y where w: "w = (x, y)"
    by fastforce
  have m: "32 \<le> m" "m \<noteq> 0"
    using Cons.prems by (auto simp: word_le_nat_alt)
  have "unat (m - 32) = unat m - 32"
    using m by (simp add: unat_sub word_le_nat_alt)
  then have "32 * length ws \<le> unat (if m > 32 then m - 32 else 0)"
    using Cons.prems m(1) by (cases ws) (auto simp: word_less_nat_alt word_le_nat_alt not_less)
  from Cons.IH [OF this] show ?case
    using m by (simp add: w)
qed simp

lemma zip_equal: "length xs = length ys \<Longrightarrow> (\<forall>w\<in>set (zip xs ys). fst w = snd w) \<longleftrightarrow> xs = ys"
  by (induction xs ys rule: list_induct2) auto

end
