(* ===== verification/Mcast_Run.thy ===== *)
theory Mcast_Run
  imports Mcast_Spec
begin

text \<open>
  The multicast component as a concurrent system: the locked entry points of \<^verbatim>\<open>Mcast_System\<close> and path
  switches, which write the fields of the group they found one by one, without the lock, while
  anything else goes on.
\<close>

section \<open>Runs\<close>

definition group_keys :: "mcast \<Rightarrow> group_ip set" where
  "group_keys s = (case pmcast s of None \<Rightarrow> {} | Some gs \<Rightarrow> gkey ` set gs)"

text \<open>One write of a path switch to the group with address \<open>key\<close>.\<close>

definition write_at :: "group_ip \<Rightarrow> group_write \<Rightarrow> mcast \<Rightarrow> mcast" where
  "write_at key w s =
     (case pmcast s of
        None \<Rightarrow> s
      | Some gs \<Rightarrow> (case hnat_mcast_find_group_by_ip key gs of
                      None \<Rightarrow> s
                    | Some i \<Rightarrow> (case path_write w (gs ! i, mc_hw s) of
                                   (g', h') \<Rightarrow> with_groups (gs[i := g']) h' s)))"

text \<open>The path switches under way are listed with the writes they still have to do; the flag tells
  whether a path switch has ever overlapped with anything else.  A locked handler is one step, and a
  write of a path switch falls before or after it.  A run goes on as long as no handler frees a group
  that a path switch under way holds: the next write would go to freed memory.\<close>

inductive mc_run :: "mcast \<Rightarrow> (group_ip \<times> group_write list) list \<Rightarrow> bool \<Rightarrow> bool" where
  Start: "\<lbrakk>pmcast s = None; mcast_blist_list s = []\<rbrakk> \<Longrightarrow> mc_run s [] False"
| Handler: "\<lbrakk>mc_run s ts ov; mc_step s s'; fst ` set ts \<subseteq> group_keys s'\<rbrakk> \<Longrightarrow> mc_run s' ts (ov \<or> ts \<noteq> [])"
| Switch: "\<lbrakk>mc_run s ts ov; pmcast s = Some gs; path_target w group_idx gs = Some i\<rbrakk>
    \<Longrightarrow> mc_run s (ts @ [(gkey (gs ! i), path_writes hw_path)]) (ov \<or> ts \<noteq> [])"
| Write: "mc_run s (ts @ (key, w # ws) # us) ov
    \<Longrightarrow> mc_run (write_at key w s) (ts @ (if ws = [] then [] else [(key, ws)]) @ us) ov"

section \<open>Single writes\<close>

lemma path_write_group:
  assumes "path_write w (g, h) = (g', h')"
  shows "gkey g' = gkey g" and "g_members g' = g_members g" and "same_dims h h'" and "idx_ok h g \<Longrightarrow> idx_ok h g'"
  using assms by (cases w; auto simp: gkey_def idx_ok_def INVLD_IDX_def)+

lemma write_at_Some:
  assumes "pmcast s = Some gs" and "hnat_mcast_find_group_by_ip key gs = Some i"
    and "path_write w (gs ! i, mc_hw s) = (g', h')"
  shows "write_at key w s = with_groups (gs[i := g']) h' s"
  using assms by (simp add: write_at_def)

lemma write_at_each: "inv_by idx_ok s \<Longrightarrow> inv_by idx_ok (write_at key w s)"
proof (cases "pmcast s")
  case gs: (Some gs)
  assume inv: "inv_by idx_ok s"
  have ok: "groups_by idx_ok None (mc_hw s) gs"
    using inv gs by (simp add: inv_by_Some)
  show ?thesis
  proof (cases "hnat_mcast_find_group_by_ip key gs")
    case i: (Some i)
    obtain g' h' where w: "path_write w (gs ! i, mc_hw s) = (g', h')"
      by fastforce
    note pw = path_write_group [OF w]
    have len: "i < length gs"
      using find_group_Some [OF i] by simp
    have "groups_by idx_ok None (mc_hw s) (gs[i := g'])"
      by (rule each.groups_ok_update [OF ok len])
        (use pw len ok each.groups_okD [OF ok len] in \<open>simp_all add: groups_by_def\<close>)
    then show ?thesis
      unfolding write_at_Some [OF gs i w] inv_by_with_groups by (rule each.groups_ok_dims [OF _ pw(3)])
  qed (use inv gs in \<open>simp add: write_at_def\<close>)
qed (simp add: write_at_def)

lemma pmcast_with_groups [simp]: "pmcast (with_groups gs h s) = Some gs" "mc_hw (with_groups gs h s) = h"
  by (simp_all add: with_groups_def)

lemma with_groups_twice [simp]: "with_groups gs h (with_groups gs' h' s) = with_groups gs h s"
  by (simp add: with_groups_def)

lemma fold_write_at:
  assumes "distinct (map gkey gs)" and "i < length gs" and "gkey g = gkey (gs ! i)"
  shows "fold (write_at (gkey (gs ! i))) ws (with_groups (gs[i := g]) h s) =
    (case fold path_write ws (g, h) of (g', h') \<Rightarrow> with_groups (gs[i := g']) h' s)"
  using assms
proof (induction ws arbitrary: g h)
  case (Cons w ws)
  obtain g1 h1 where w: "path_write w (g, h) = (g1, h1)"
    by fastforce
  have find: "hnat_mcast_find_group_by_ip (gkey (gs ! i)) (gs[i := g]) = Some i"
    using Cons.prems by (intro find_group_update find_group_distinct) simp_all
  have "write_at (gkey (gs ! i)) w (with_groups (gs[i := g]) h s) = with_groups (gs[i := g1]) h1 s"
    using Cons.prems(2) w by (simp add: write_at_def find)
  then show ?case
    using Cons.IH [of g1 h1] Cons.prems path_write_group(1) [OF w] w by simp
qed simp

lemma switch_writes:
  assumes "distinct (map gkey gs)" and "pmcast s = Some gs" and "i < length gs"
  shows "fold (write_at (gkey (gs ! i))) (path_writes p) s = set_path_at p i gs s"
proof -
  have "with_groups (gs[i := gs ! i]) (mc_hw s) s = s"
    using assms(2) by (simp add: with_groups_def)
  then show ?thesis
    using fold_write_at [OF assms(1,3) refl, of "path_writes p" "mc_hw s" s]
    by (simp add: set_path_at_def set_path_def split_def)
qed

section \<open>What holds in every run\<close>

text \<open>The state once the path switches under way have done their remaining writes.\<close>

definition finish_switches :: "(group_ip \<times> group_write list) list \<Rightarrow> mcast \<Rightarrow> mcast" where
  "finish_switches ts s = fold (\<lambda>t. fold (write_at (fst t)) (snd t)) ts s"

lemma mc_run_each: "mc_run s ts ov \<Longrightarrow> inv_by idx_ok s"
  by (induction rule: mc_run.induct) (simp_all add: each.mc_step_inv write_at_each)

lemma mc_run_whole: "mc_run s ts ov \<Longrightarrow> \<not> ov \<Longrightarrow> length ts \<le> 1 \<and> mc_inv (finish_switches ts s)"
proof (induction rule: mc_run.induct)
  case (Start s)
  then show ?case
    by (simp add: finish_switches_def)
next
  case (Handler s ts ov s')
  then show ?case
    by (simp add: finish_switches_def whole.mc_step_inv)
next
  case (Switch s ts ov gs w group_idx i hw_path)
  then have inv: "mc_inv s" and ts: "ts = []"
    by (simp_all add: finish_switches_def)
  have "distinct (map gkey gs)"
    using inv Switch.hyps(2) by (simp add: inv_by_Some groups_by_def)
  then show ?case
    using switch_writes [of gs s i hw_path] whole.inv_set_path_at [OF inv Switch.hyps(2)]
      path_target_Some [OF Switch.hyps(3)] Switch.hyps(2)
    by (simp add: finish_switches_def ts)
next
  case (Write s ts key w ws us ov)
  then have "ts = [] \<and> us = []"
    by simp
  then show ?case
    using Write by (cases "ws = []") (simp_all add: finish_switches_def)
qed

lemma mc_run_alone: "mc_run s [] False \<Longrightarrow> mc_inv s"
  using mc_run_whole [of s "[]" False] by (simp add: finish_switches_def)

text \<open>A path switch that nothing overlaps is the function of \<^verbatim>\<open>Mcast\<close>.\<close>

lemma mc_run_writes: "mc_run s [(key, ws)] ov \<Longrightarrow> ws \<noteq> [] \<Longrightarrow> mc_run (fold (write_at key) ws s) [] ov"
proof (induction ws arbitrary: s)
  case (Cons w ws)
  have "mc_run (write_at key w s) (if ws = [] then [] else [(key, ws)]) ov"
    using mc_run.Write [of s "[]" key w ws "[]" ov] Cons.prems by simp
  with Cons.IH show ?case
    by (cases "ws = []") simp_all
qed simp

lemma mc_run_switch:
  assumes run: "mc_run s [] ov"
  shows "mc_run (hnat_mcast_group_path_switch w n p s) [] ov"
proof (cases "pmcast s")
  case gs: (Some gs)
  have eq: "hnat_mcast_group_path_switch w n p s =
      (case path_target w n gs of None \<Rightarrow> s | Some i \<Rightarrow> set_path_at p i gs s)"
    by (simp add: hnat_mcast_group_path_switch_def hnat_mcast_update_path_from_wifi_def path_target_def gs
        split: option.split)
  show ?thesis
  proof (cases "path_target w n gs")
    case i: (Some i)
    have "distinct (map gkey gs)"
      using mc_run_each [OF run] gs by (simp add: inv_by_Some groups_by_def)
    moreover have "mc_run (fold (write_at (gkey (gs ! i))) (path_writes p) s) [] ov"
      using mc_run.Switch [OF run gs i, of p] by (intro mc_run_writes) (simp_all add: path_writes_def)
    ultimately show ?thesis
      using switch_writes [of gs s i p] path_target_Some [OF i] gs by (simp add: eq i)
  qed (use run eq in simp)
qed (use run in \<open>simp add: hnat_mcast_group_path_switch_def\<close>)

lemma mc_run_step: "mc_run s [] ov \<Longrightarrow> mc_step s s' \<Longrightarrow> mc_run s' [] ov"
  using mc_run.Handler [of s "[]" ov s'] by simp

text \<open>The worker handles its messages one after another.\<close>

lemma mc_run_nlmsg: "mc_run s [] ov \<Longrightarrow> mc_run (hnat_mcast_nlmsg_handler e msgs s) [] ov"
proof -
  have "mc_run (snd x) [] ov \<Longrightarrow> mc_run (snd (fold (nlmsg_one e) msgs x)) [] ov" for x
  proof (induction msgs arbitrary: x)
    case (Cons m msgs)
    have "mc_run (snd (nlmsg_one e m x)) [] ov"
      using mc_run_step [OF Cons.prems mc_step.Netlink, of e m "fst x"] by simp
    from Cons.IH [OF this] show ?case
      by simp
  qed simp
  from this [of "([0, 0, 0, 0, 0, 0], s)"] show "mc_run s [] ov \<Longrightarrow> mc_run (hnat_mcast_nlmsg_handler e msgs s) [] ov"
    by (simp add: hnat_mcast_nlmsg_handler_def)
qed

end
