(* ===== verification/Mcast_Theorems.thy ===== *)
theory Mcast_Theorems
  imports Mcast_Run
begin

text \<open>
  The properties of multicast offload: the group table is well formed, the hardware forwards to the
  ports of a group's members, slots of the multicast table are allocated and freed (and where one
  leaks), the blacklist, ageing, and devices that go down.
\<close>

section \<open>A concrete set-up\<close>

text \<open>Two Ethernet ports and one engine; the NPU accepts everything.\<close>

definition mdemo_ops :: npu_hnat_mcast_ops where
  "mdemo_ops = \<lparr>npu_mcast_client_insert = Some (\<lambda>tr mi. (0, 7)), npu_mcast_client_delete = Some (\<lambda>tr mi. 0)\<rparr>"

definition mdemo_dev :: "string \<Rightarrow> nat \<Rightarrow> netdev" where
  "mdemo_dev n m = \<lparr>nd_name = n, nd_running = True, nd_reg = None, nd_wifi_index = 0, nd_mac_id = m\<rparr>"

definition mdemo_env :: mc_env where
  "mdemo_env = \<lparr>netdevs = (\<lambda>i. if i = 2 then Some (mdemo_dev ''eth0'' 0)
                               else if i = 3 then Some (mdemo_dev ''eth1'' 1) else None),
               wan_name = ''eth1'', lan_name = ''eth0'', lan2_name = ''eth2'', whnat = False,
               gmac1_mode = False, eth0_mtk_dsa = False, hnat_mc_ops = Some mdemo_ops\<rparr>"

definition mdemo_hw :: hw where
  "mdemo_hw = \<lparr>regs = (\<lambda>p off. 0), foe_tab = (\<lambda>p i. foe_zero), foe_local = foe_zero, hw_trace = [],
              ppe_num = 1, foe_etry_num = 4, max_entry = 64, foe_clock = 100, hnat_v2_v3 = False\<rparr>"

definition mdemo_start :: mcast where
  "mdemo_start = \<lparr>pmcast = None, mcast_blist_list = [], mcast_hook_toggle = True, blist_hooks = False,
                 check_timer = False, mc_hw = mdemo_hw\<rparr>"

text \<open>239.1.2.3 in network byte order.\<close>

definition mdemo_ip :: be32 where "mdemo_ip = 0x030201EF"

definition mdemo_join :: "u32 \<Rightarrow> nl_msg \<times> bool \<times> bool" where
  "mdemo_join i = (Nl_mdb RTM_NEWMDB \<lparr>mdb_ifindex = i, mdb_addr = Mdb_ip mdemo_ip\<rparr>, True, True)"

definition mdemo_group :: mc_group where
  "mdemo_group = \<lparr>g_mac = [1, 0, 0x5e, 1, 2, 3], g_members = [2, 3], mtbl_idx = - 1, ppe_id = 0, foe_idx = 1,
     psebmp = 0, g_dip = mdemo_ip, g_sip = 0, g_dip6 = [0, 0, 0, 0], g_sip6 = [0, 0, 0, 0], g_offload = True,
     g_is_ipv4 = True, npu_grp_idx = 7\<rparr>"

definition mdemo_state :: "mc_group list \<Rightarrow> hw \<Rightarrow> mcast" where
  "mdemo_state gs h = \<lparr>pmcast = Some gs, mcast_blist_list = [], mcast_hook_toggle = True, blist_hooks = True,
     check_timer = False, mc_hw = h\<rparr>"

lemmas mdemo_defs = mdemo_ops_def mdemo_dev_def mdemo_env_def mdemo_hw_def mdemo_start_def mdemo_ip_def
  mdemo_join_def mdemo_group_def mdemo_state_def

section \<open>The group table\<close>


text \<open>Two members join and a flow is bound to entry 3 of engine 0.\<close>

definition mdemo_joined :: mcast where
  "mdemo_joined = hnat_mcast_nlmsg_handler mdemo_env [mdemo_join 2, mdemo_join 3]
     (snd (hnat_mcast_enable MTK_HNAT_other True True True 0 mdemo_start))"

definition mdemo_bind :: "mcast \<Rightarrow> mcast" where
  "mdemo_bind s = snd (hnat_mcast_foe_bind_handle mdemo_env 0 3
     (foe_zero\<lparr>f_state := BIND, f_dip := ntohl mdemo_ip\<rparr>) 3 s)"

lemma mdemo_joined_run: "mc_run mdemo_joined [] False"
  unfolding mdemo_joined_def
  by (rule mc_run_nlmsg, rule mc_run_step [OF mc_run.Start mc_step.Enable]) (simp_all add: mdemo_start_def)

lemma mdemo_bind_step: "ppe_num (mc_hw s) = 1 \<Longrightarrow> foe_etry_num (mc_hw s) = 4 \<Longrightarrow> mc_step s (mdemo_bind s)"
  unfolding mdemo_bind_def by (rule mc_step.Bind) simp_all

lemma mdemo_bound:
  "map_option (map (\<lambda>g. (g_members g, ppe_id g, foe_idx g))) (pmcast (mdemo_bind mdemo_joined)) = Some [([2, 3], 0, 3)]"
  "ppe_num (mc_hw mdemo_joined) = 1 \<and> foe_etry_num (mc_hw mdemo_joined) = 4"
  by (code_simp+)


text \<open>The race.  A switch to the software path has cleared the engine and not yet the index when
  another switch puts the group back on the hardware path and a flow is bound: the last write of the
  first takes the index away and leaves the engine.  The next switch to the software path asks
  \<open>entry_delete\<close> for index \<open>-1\<close>: every entry of the engine is deleted, other flows' too.\<close>

definition mdemo_wifi :: "(int \<Rightarrow> group_ip option) option" where
  "mdemo_wifi = Some (\<lambda>n. Some (Ip4 mdemo_ip))"

definition mdemo_half :: mcast where
  "mdemo_half = fold (write_at (Ip4 mdemo_ip)) [Set_offload False, Delete_flow, Clear_psebmp, Clear_ppe_id]
     mdemo_joined"

definition mdemo_split :: mcast where
  "mdemo_split = write_at (Ip4 mdemo_ip) Clear_foe_idx
     (mdemo_bind (write_at (Ip4 mdemo_ip) (Set_offload True) mdemo_half))"

lemma mdemo_target:
  "(case pmcast s of None \<Rightarrow> None
      | Some gs \<Rightarrow> map_option (\<lambda>i. gkey (gs ! i)) (path_target mdemo_wifi 9 gs)) = Some key \<Longrightarrow>
   mc_run s ts ov \<Longrightarrow> mc_run s (ts @ [(key, path_writes hw_path)]) (ov \<or> ts \<noteq> [])"
  by (auto split: option.splits intro: mc_run.Switch)

lemma mdemo_half_run: "mc_run mdemo_half [(Ip4 mdemo_ip, [Clear_foe_idx])] False"
proof -
  let ?k = "Ip4 mdemo_ip"
  note w = mc_run.Write [of _ "[]" ?k _ _ "[]", simplified]
  have "mc_run mdemo_joined ([] @ [(?k, path_writes False)]) (False \<or> [] \<noteq> ([] :: (group_ip \<times> group_write list) list))"
    by (rule mdemo_target [OF _ mdemo_joined_run]) code_simp
  then have "mc_run mdemo_joined [(?k, [Set_offload False, Delete_flow, Clear_psebmp, Clear_ppe_id, Clear_foe_idx])] False"
    by (simp add: path_writes_def)
  from w [OF w [OF w [OF w [OF this, simplified], simplified], simplified], simplified] show ?thesis
    by (simp add: mdemo_half_def)
qed

lemma mdemo_split_run: "mc_run mdemo_split [] True"
proof -
  let ?k = "Ip4 mdemo_ip"
  let ?s = "write_at ?k (Set_offload True) mdemo_half"
  have "mc_run mdemo_half ([(?k, [Clear_foe_idx])] @ [(?k, path_writes True)]) (False \<or> [(?k, [Clear_foe_idx])] \<noteq> [])"
    by (rule mdemo_target [OF _ mdemo_half_run]) code_simp
  then have "mc_run mdemo_half ([(?k, [Clear_foe_idx])] @ (?k, [Set_offload True]) # []) True"
    by (simp add: path_writes_def)
  from mc_run.Write [OF this] have s: "mc_run ?s [(?k, [Clear_foe_idx])] True"
    by simp
  have "mc_step ?s (mdemo_bind ?s)"
    by (rule mdemo_bind_step; code_simp)
  moreover have "?k \<in> group_keys (mdemo_bind ?s)"
    by code_simp
  ultimately have "mc_run (mdemo_bind ?s) ([] @ (?k, [Clear_foe_idx]) # []) True"
    using mc_run.Handler [OF s, of "mdemo_bind ?s"] by simp
  from mc_run.Write [OF this] show ?thesis
    by (simp add: mdemo_split_def)
qed

lemma mdemo_switched:
  assumes "pmcast s = pmcast mdemo_split" and "ppe_num (mc_hw s) = 1"
  shows "\<exists>gs g. pmcast s = Some gs \<and> gs = [g] \<and> ppe_id g = 0 \<and> foe_idx g = - 1 \<and>
    hnat_notify_mcast_sw_path mdemo_wifi 9 s = set_path_at False 0 gs s"
proof -
  have "map_option (map (\<lambda>g. (ppe_id g, foe_idx g))) (pmcast mdemo_split) = Some [(0, - 1)]"
    and t: "map_option (path_target mdemo_wifi 9) (pmcast mdemo_split) = Some (Some 0)"
    by (code_simp+)
  then obtain g where gs: "pmcast mdemo_split = Some [g]" "ppe_id g = 0" "foe_idx g = - 1"
    by auto
  then have "path_target mdemo_wifi 9 [g] = Some 0"
    using t by simp
  then show ?thesis
    using gs assms by (auto simp: hnat_notify_mcast_sw_path_def hnat_mcast_group_path_switch_def
        hnat_mcast_update_path_from_wifi_def path_target_def split: option.splits)
qed

theorem overlapped_switch_clears_engine:
  "\<exists>s gs g. mc_run s [] True \<and> pmcast s = Some gs \<and> g \<in> set gs \<and> ppe_id g = 0 \<and> foe_idx g = - 1 \<and>
     foe_tab (mc_hw s) = t \<and>
     (\<forall>i<foe_etry_num (mc_hw s).
        f_state (foe_tab (mc_hw (hnat_notify_mcast_sw_path mdemo_wifi 9 s)) 0 i) = INVALID)"
proof -
  let ?s = "mdemo_split\<lparr>mc_hw := (mc_hw mdemo_split)\<lparr>foe_tab := t, foe_clock := 0\<rparr>\<rparr>"
  have run: "mc_run ?s [] True"
    by (rule mc_run_step [OF mdemo_split_run mc_step.Flow_table])
  have n: "ppe_num (mc_hw mdemo_split) = 1"
    by code_simp
  obtain gs g where gs: "pmcast ?s = Some gs" "gs = [g]" "ppe_id g = 0" "foe_idx g = - 1"
      "hnat_notify_mcast_sw_path mdemo_wifi 9 ?s = set_path_at False 0 gs ?s"
    using mdemo_switched [of ?s] n by auto
  have "\<forall>i<foe_etry_num (mc_hw ?s).
      f_state (foe_tab (mc_hw (hnat_notify_mcast_sw_path mdemo_wifi 9 ?s)) 0 i) = INVALID"
    using gs n by (simp add: set_path_at_def set_path_eq Let_def entry_delete_def entry_delete_one_def trace_def
        with_groups_def)
  then show ?thesis
    using run gs by (intro exI [of _ ?s] exI [of _ gs] exI [of _ g] conjI) simp_all
qed

section \<open>Forwarding\<close>



section \<open>Slots of the multicast table\<close>

text \<open>C12.  The allocator returns the first free slot; programming it makes the slot decode to the
  group's address and ports and changes no other slot of any engine; the slot is then not handed out
  again; and clearing it restores the registers.\<close>

theorem mtbl_slot_lifecycle:
  assumes alloc: "hnat_mcast_alloc_mtbl_entry p h = int i" and size: "max_entry h \<le> 64"
    and mac: "mcast_mac mac" and b: "valid_bmp b" "b \<noteq> 0"
    and res: "set_hnat_mtbl mac i p b h = (ret, h')"
  shows "ret = 0 \<and> (\<forall>j<i. \<not> slot_free p j h) \<and>
    slot_ports p i h' = b \<and> slot_mac p i h' = (if DMAC_TO_HI16 mac = 0x3333 then 1 else 0, DMAC_TO_LO32 mac) \<and>
    (\<forall>q j. (q, j) \<noteq> (p, i) \<and> j < 64 \<longrightarrow>
       slot_ports q j h' = slot_ports q j h \<and> slot_mac q j h' = slot_mac q j h) \<and>
    hnat_mcast_alloc_mtbl_entry p h' \<noteq> int i \<and> regs (clr_hnat_mtbl p i h') = regs h"
proof -
  have ret: "ret = 0" and h': "h' = snd (set_hnat_mtbl mac i p b h)"
    using set_mtbl_ok [OF mac, of i p b h] by (simp_all add: res)
  have i: "i < 64"
    using alloc_slot(1) [OF alloc] size by simp
  have ports: "slot_ports p i h' = b"
    unfolding h' by (rule slot_ports_set [OF mac b(1)])
  have "slot_mac p i h' = (if DMAC_TO_HI16 mac = 0x3333 then 1 else 0, DMAC_TO_LO32 mac)"
    by (simp add: h' slot_mac_def regs_set_mtbl [OF mac] mcast_h_prefix)
  moreover have "slot_ports q j h' = slot_ports q j h \<and> slot_mac q j h' = slot_mac q j h"
    if "(q, j) \<noteq> (p, i)" and "j < 64" for q j
    using that i mtbl_inj [of j i] mtbl_h_neq_l [of i j, symmetric]
    by (auto simp: h' slot_ports_def slot_mac_def regs_set_mtbl [OF mac])
  moreover have "hnat_mcast_alloc_mtbl_entry p h' \<noteq> int i"
  proof
    assume "hnat_mcast_alloc_mtbl_entry p h' = int i"
    then have "slot_free p i h'"
      by (rule alloc_slot(2))
    then show False
      using ports b(2) by (simp add: slot_ports_def slot_free_def)
  qed
  moreover have "regs (clr_hnat_mtbl p i h') = regs h"
    unfolding h' by (rule clr_after_set [OF mac alloc_slot(2) [OF alloc]])
  ultimately show ?thesis
    using ret ports alloc_slot(3) [OF alloc] by blast
qed

theorem mtbl_slot_lifecycle_witness:
  "slot_ports 0 0 (snd (set_hnat_mtbl [1, 0, 0x5e, 1, 2, 3] 0 0 12 mdemo_hw)) = 12 \<and>
   regs (clr_hnat_mtbl 0 0 (snd (set_hnat_mtbl [1, 0, 0x5e, 1, 2, 3] 0 0 12 mdemo_hw))) = regs mdemo_hw"
proof -
  have a: "hnat_mcast_alloc_mtbl_entry 0 mdemo_hw = int 0"
    by code_simp
  have d: "max_entry mdemo_hw \<le> 64" "mcast_mac [1, 0, 0x5e, 1, 2, 3]" "valid_bmp 12"
    by (code_simp+)
  obtain ret h' where r: "set_hnat_mtbl [1, 0, 0x5e, 1, 2, 3] 0 0 12 mdemo_hw = (ret, h')"
    by fastforce
  from mtbl_slot_lifecycle [OF a d _ r] show ?thesis
    by (simp add: r)
qed


text \<open> A leak.  When the NPU driver moves a group to the software path the group gives up its
  flow but not its slot, and nothing frees the slot afterwards: once every member has left, the
  group is freed while the slot is still programmed, and the allocator never hands it out again.\<close>

theorem sw_path_leaks_slot:
  assumes inv: "mc_inv s" and gs: "pmcast s = Some gs"
    and i: "first_index (\<lambda>g. npu_grp_idx g = word_of_int n) gs = Some i"
    and a: "addr_key a = Some (gkey (gs ! i))" and slot: "mtbl_idx (gs ! i) = int m" "\<not> slot_free p m (mc_hw s)"
    and s1: "hnat_notify_mcast_sw_path w n s = s1"
    and s2: "hnat_mcast_nlmsg_handler e (leave_all a (g_members (gs ! i))) s1 = s2"
  shows "pmcast s2 = Some (take i gs @ drop (Suc i) gs) \<and> \<not> slot_free p m (mc_hw s2) \<and>
    hnat_mcast_alloc_mtbl_entry p (mc_hw s2) \<noteq> int m"
proof -
  define g' where "g' = fst (set_path False (gs ! i) (mc_hw s))"
  define h' where "h' = snd (set_path False (gs ! i) (mc_hw s))"
  have len: "i < length gs"
    using first_index_Some [OF i] by simp
  have ok: "groups_ok (mc_hw s) gs"
    using inv gs by (simp add: inv_by_Some)
  have s1': "s1 = with_groups (gs[i := g']) h' s"
    using s1 by (simp add: hnat_notify_mcast_sw_path_def hnat_mcast_group_path_switch_def gs i set_path_at_def
        split_def g'_def h'_def)
  have g': "hnat_mcast_get_hw_foe g' = None" "g_members g' = g_members (gs ! i)" "gkey g' = gkey (gs ! i)"
    by (simp_all add: g'_def set_path_eq Let_def hnat_mcast_get_hw_foe_def unbind_def INVLD_IDX_def gkey_def)
  obtain x xs where ms: "g_members (gs ! i) = x # xs"
    using ok len by (cases "g_members (gs ! i)") (auto simp: groups_by_def)
  have find: "hnat_mcast_find_group_by_ip (gkey (gs ! i)) (gs[i := g']) = Some i"
    using ok len by (intro find_group_update find_group_distinct) (simp_all add: groups_by_def g')
  have "s2 = s1\<lparr>pmcast := Some (take i (gs[i := g']) @ drop (Suc i) (gs[i := g']))\<rparr>"
    using s2 unfolding hnat_mcast_nlmsg_handler_def ms
    using leave_all_unbound [OF _ a find, of s1] g' ms len by (simp add: s1' with_groups_def)
  moreover have "regs h' = regs (mc_hw s)"
    by (simp add: h'_def set_path_eq Let_def)
  ultimately have "pmcast s2 = Some (take i gs @ drop (Suc i) gs)" and "regs (mc_hw s2) = regs (mc_hw s)"
    by (simp_all add: s1' with_groups_def)
  moreover from this(2) have "\<not> slot_free p m (mc_hw s2)"
    using slot(2) by (simp add: slot_free_def)
  moreover from this have "hnat_mcast_alloc_mtbl_entry p (mc_hw s2) \<noteq> int m"
    using alloc_slot(2) by blast
  ultimately show ?thesis
    by simp
qed

definition mdemo_hw1 :: hw where
  "mdemo_hw1 = snd (snd (hnat_mcast_event_hw_handle mdemo_env RTM_NEWMDB 3 mdemo_group mdemo_hw))"

definition mdemo_group1 :: mc_group where
  "mdemo_group1 = fst (snd (hnat_mcast_event_hw_handle mdemo_env RTM_NEWMDB 3 mdemo_group mdemo_hw))"

theorem sw_path_leaks_slot_witness:
  "pmcast (hnat_mcast_nlmsg_handler mdemo_env (leave_all (Mdb_ip mdemo_ip) [2, 3])
     (hnat_notify_mcast_sw_path None 7 (mdemo_state [mdemo_group1] mdemo_hw1))) = Some []"
proof -
  have k: "gkeeps (mdemo_group, mdemo_hw) (mdemo_group1, mdemo_hw1)"
    using gkeeps_event [of mdemo_group mdemo_hw mdemo_env RTM_NEWMDB 3] by (simp add: mdemo_group1_def mdemo_hw1_def)
  have "flow_ok mdemo_hw mdemo_group"
    by (simp add: flow_ok_def mdemo_defs)
  then have "flow_ok mdemo_hw1 mdemo_group1"
    using k whole.law_kept whole.law_dims by (auto simp: gkeeps_def)
  moreover have ms: "g_members mdemo_group1 = [2, 3]"
    by code_simp
  ultimately have "groups_ok mdemo_hw1 [mdemo_group1]"
    by (simp add: groups_by_def)
  then have inv: "mc_inv (mdemo_state [mdemo_group1] mdemo_hw1)"
    by (simp add: inv_by_def mdemo_state_def)
  have gs: "pmcast (mdemo_state [mdemo_group1] mdemo_hw1) = Some [mdemo_group1]"
    by (simp add: mdemo_state_def)
  have i: "first_index (\<lambda>g. npu_grp_idx g = word_of_int 7) [mdemo_group1] = Some 0"
    by code_simp
  have a: "addr_key (Mdb_ip mdemo_ip) = Some (gkey ([mdemo_group1] ! 0))"
    by code_simp
  have m: "mtbl_idx ([mdemo_group1] ! 0) = int 0"
    by code_simp
  have "\<not> slot_free 0 0 (mc_hw (mdemo_state [mdemo_group1] mdemo_hw1))"
    by code_simp
  from sw_path_leaks_slot [OF inv gs i a m this refl refl] ms show ?thesis
    by simp
qed

section \<open>Blacklist\<close>

text \<open>C13.  IPv4: after an address has been blacklisted with a prefix length, exactly the flows whose
  destination has that prefix are refused in addition to those refused before; and removing the
  entry gives the list back.\<close>

theorem blist_ipv4_prefix:
  assumes f: "f_kind f = FOE_IPV4"
    and add: "hnat_mcast_blist_handle e True ip len True True s = Some (ret, s')"
  shows "ret = 0 \<and> 1 \<le> unat len \<and> unat len \<le> 32 \<and>
    (hnat_mcast_chk_blist f s' \<longleftrightarrow> hnat_mcast_chk_blist f s \<or>
       drop_bit (32 - unat len) (f_dip f) = drop_bit (32 - unat len) (ntohl (ip ! 0))) \<and>
    (mcast_blist_list s' \<noteq> mcast_blist_list s \<longrightarrow>
       map_option (\<lambda>x. mcast_blist_list (snd x)) (hnat_mcast_blist_handle e True ip len False True s')
         = Some (mcast_blist_list s))"
proof -
  obtain gs m where gs: "pmcast s = Some gs" and m: "prefix_mask len = Some m"
    using add by (auto simp: hnat_mcast_blist_handle_def split: option.splits if_splits)
  have len: "1 \<le> unat len" "unat len \<le> 32" and m': "m = push_bit (32 - unat len) 0xffffffff"
    using m unfolding prefix_mask_Some by simp_all
  have match: "ip ! 0 AND htonl m = htonl (f_dip f) AND htonl m \<longleftrightarrow>
      drop_bit (32 - unat len) (f_dip f) = drop_bit (32 - unat len) (ntohl (ip ! 0))"
  proof -
    have "ip ! 0 AND htonl m = htonl (f_dip f) AND htonl m \<longleftrightarrow> ntohl (ip ! 0) AND m = f_dip f AND m"
      by (metis swab32_and swab32_swab32)
    then show ?thesis
      unfolding m' same_prefix by auto
  qed
  let ?hit = "\<lambda>b. bl_is_ipv4 b \<and> bl_ipv4 b AND htonl (bl_mask b) = htonl (f_dip f) AND htonl (bl_mask b)"
  have chk: "hnat_mcast_chk_blist f t \<longleftrightarrow> pmcast t \<noteq> None \<and> list_ex ?hit (mcast_blist_list t)" for t
    using f by (simp add: hnat_mcast_chk_blist_def entry_key_def)
  let ?b = "hnat_mcast_blist_create_entry ip m True"
  have hit: "?hit ?b \<longleftrightarrow> drop_bit (32 - unat len) (f_dip f) = drop_bit (32 - unat len) (ntohl (ip ! 0))"
    using match by (simp add: hnat_mcast_blist_create_entry_def)
  show ?thesis
  proof (cases "list_ex (hnat_mcast_blist_entry_match ip m True) (mcast_blist_list s)")
    case True
    then have s': "s' = s" "ret = 0"
      using add by (simp_all add: hnat_mcast_blist_handle_def gs m)
    obtain b where b: "b \<in> set (mcast_blist_list s)" "bl_is_ipv4 b" "bl_ipv4 b = ip ! 0" "bl_mask b = m"
      using True by (auto simp: list_ex_iff hnat_mcast_blist_entry_match_def)
    then have "hnat_mcast_chk_blist f s" if "drop_bit (32 - unat len) (f_dip f) = drop_bit (32 - unat len) (ntohl (ip ! 0))"
      using that match gs by (auto simp: chk list_ex_iff)
    then show ?thesis
      using s' len by auto
  next
    case False
    then have s': "ret = 0" "\<exists>gs'. pmcast s' = Some gs'" "mcast_blist_list s' = ?b # mcast_blist_list s"
      using add by (auto simp: hnat_mcast_blist_handle_def gs m Let_def split_def with_groups_def)
    have "hnat_mcast_chk_blist f s' \<longleftrightarrow> hnat_mcast_chk_blist f s \<or>
        drop_bit (32 - unat len) (f_dip f) = drop_bit (32 - unat len) (ntohl (ip ! 0))"
      using s' gs by (auto simp: chk hit)
    moreover have "hnat_mcast_blist_entry_match ip m True ?b"
      by (simp add: hnat_mcast_blist_entry_match_def hnat_mcast_blist_create_entry_def)
    then have "map_option (\<lambda>x. mcast_blist_list (snd x)) (hnat_mcast_blist_handle e True ip len False True s')
         = Some (mcast_blist_list s)"
      using s' by (auto simp: hnat_mcast_blist_handle_def m)
    ultimately show ?thesis
      using s' len by simp
  qed
qed


text \<open>An IPv4 flow to 239.1.9.9, inside 239.1.0.0/16.\<close>

definition mdemo_flow :: foe_entry where
  "mdemo_flow = foe_zero\<lparr>f_dip := 0xEF010909\<rparr>"

theorem blist_ipv4_prefix_witness:
  "hnat_mcast_chk_blist mdemo_flow
     (snd (the (hnat_mcast_blist_handle mdemo_env True [mdemo_ip] 16 True True (mdemo_state [] mdemo_hw))))"
proof -
  obtain ret s' where r: "hnat_mcast_blist_handle mdemo_env True [mdemo_ip] 16 True True (mdemo_state [] mdemo_hw) = Some (ret, s')"
    by (simp add: hnat_mcast_blist_handle_def mdemo_state_def prefix_mask_def Let_def split_def)
  have f: "f_kind mdemo_flow = FOE_IPV4"
    by code_simp
  have "drop_bit (32 - unat (16 :: u32)) (f_dip mdemo_flow) = drop_bit (32 - unat (16 :: u32)) (ntohl ([mdemo_ip] ! 0))"
    by code_simp
  then show ?thesis
    using blist_ipv4_prefix [OF f r] by (simp add: r)
qed

text \<open> IPv6: the prefix length is ignored.  Lengths up to 32 are stored as an IPv4 style mask
  which the group check takes for a number of bits and the flow check does not read: only the exact
  address is refused and torn down.  Lengths from 33 to 128 are undefined behaviour.\<close>

theorem blist_ipv6_ignores_prefix:
  assumes f: "f_kind f = FOE_IPV6" and ip: "length ip = 4" and s: "pmcast s = Some gs"
  shows "(unat len \<notin> {1..32} \<longrightarrow> hnat_mcast_blist_handle e True ip len True False s = None) \<and>
    (\<forall>ret s'. hnat_mcast_blist_handle e True ip len True False s = Some (ret, s') \<longrightarrow>
       (hnat_mcast_chk_blist f s' \<longleftrightarrow> hnat_mcast_chk_blist f s \<or> map htonl (f_dip6 f) = ip)) \<and>
    (\<forall>m g. prefix_mask len = Some m \<and> length (g_dip6 g) = 4 \<longrightarrow>
       hnat_mcast_ip_match_blist g (hnat_mcast_blist_create_entry ip m False) = (g_dip6 g = ip))"
proof (intro conjI impI allI)
  assume "unat len \<notin> {1..32}"
  then have "prefix_mask len = None"
    using prefix_mask_Some [of len] by (cases "prefix_mask len") auto
  then show "hnat_mcast_blist_handle e True ip len True False s = None"
    by (simp add: hnat_mcast_blist_handle_def s)
next
  fix ret s'
  assume add: "hnat_mcast_blist_handle e True ip len True False s = Some (ret, s')"
  then obtain m where m: "prefix_mask len = Some m"
    by (auto simp: hnat_mcast_blist_handle_def split: option.splits if_splits)
  let ?hit = "\<lambda>b. \<not> bl_is_ipv4 b \<and> bl_ipv6 b = map htonl (f_dip6 f)"
  have chk: "hnat_mcast_chk_blist f t \<longleftrightarrow> pmcast t \<noteq> None \<and> list_ex ?hit (mcast_blist_list t)" for t
    using f by (simp add: hnat_mcast_chk_blist_def entry_key_def)
  have hit: "?hit (hnat_mcast_blist_create_entry ip m False) \<longleftrightarrow> map htonl (f_dip6 f) = ip"
    using ip by (auto simp: hnat_mcast_blist_create_entry_def)
  show "hnat_mcast_chk_blist f s' \<longleftrightarrow> hnat_mcast_chk_blist f s \<or> map htonl (f_dip6 f) = ip"
  proof (cases "list_ex (hnat_mcast_blist_entry_match ip m False) (mcast_blist_list s)")
    case True
    then have "s' = s"
      using add by (simp add: hnat_mcast_blist_handle_def s m)
    moreover have "hnat_mcast_chk_blist f s" if "map htonl (f_dip6 f) = ip"
      using True that ip s by (auto simp: chk list_ex_iff hnat_mcast_blist_entry_match_def)
    ultimately show ?thesis
      by auto
  next
    case False
    then have "mcast_blist_list s' = hnat_mcast_blist_create_entry ip m False # mcast_blist_list s"
      and "\<exists>gs'. pmcast s' = Some gs'"
      using add by (auto simp: hnat_mcast_blist_handle_def s m Let_def split_def with_groups_def)
    then show ?thesis
      using s by (auto simp: chk hit)
  qed
next
  fix m and g :: mc_group
  assume "prefix_mask len = Some m \<and> length (g_dip6 g) = 4"
  then have m: "128 \<le> unat m" and g: "length (g_dip6 g) = 4"
    using prefix_mask_big by auto
  have "match_words m (zip (g_dip6 g) ip) \<longleftrightarrow> g_dip6 g = ip"
    using match_words_exact [of "zip (g_dip6 g) ip" m] m g ip by (simp add: zip_equal)
  then show "hnat_mcast_ip_match_blist g (hnat_mcast_blist_create_entry ip m False) = (g_dip6 g = ip)"
    using ip by (simp add: hnat_mcast_ip_match_blist_def hnat_mcast_blist_create_entry_def)
qed

text \<open>Blacklisting ff0e::1/16 does not refuse a flow to ff0e::2.\<close>

definition mdemo_flow6 :: foe_entry where
  "mdemo_flow6 = foe_zero\<lparr>f_kind := FOE_IPV6, f_dip6 := [0xFF0E0000, 0, 0, 2]\<rparr>"

theorem blist_ipv6_ignores_prefix_witness:
  "\<not> hnat_mcast_chk_blist mdemo_flow6
     (snd (the (hnat_mcast_blist_handle mdemo_env True [0x0EFF, 0, 0, 0x01000000] 16 True False (mdemo_state [] mdemo_hw))))"
proof -
  obtain ret s' where r: "hnat_mcast_blist_handle mdemo_env True [0x0EFF, 0, 0, 0x01000000] 16 True False (mdemo_state [] mdemo_hw) = Some (ret, s')"
    by (simp add: hnat_mcast_blist_handle_def mdemo_state_def prefix_mask_def Let_def split_def)
  have f: "f_kind mdemo_flow6 = FOE_IPV6" and s: "pmcast (mdemo_state [] mdemo_hw) = Some []"
    by (simp_all add: mdemo_flow6_def mdemo_state_def)
  have "\<not> hnat_mcast_chk_blist mdemo_flow6 (mdemo_state [] mdemo_hw)"
    by (simp add: hnat_mcast_chk_blist_def mdemo_state_def split: option.splits)
  moreover have "map htonl (f_dip6 mdemo_flow6) \<noteq> [0x0EFF, 0, 0, 0x01000000]"
    by code_simp
  moreover have "length [0x0EFF, 0, 0, 0x01000000 :: u32] = 4"
    by simp
  note blist_ipv6_ignores_prefix [OF f this s, of 16 mdemo_env]
  ultimately show ?thesis
    using r by simp
qed

section \<open>Ageing\<close>

text \<open> The ageing timer deletes the static entries whose timestamp is expired and touches no
  other.  Up to 0x3000 ticks behind the clock, expired means more than 20 ticks old.  But once the
  16-bit clock has wrapped, an entry that was used a few ticks ago is deleted, and entries far behind
  the clock are kept when the timestamps add up to almost 0xffff.\<close>

lemma check_entries:
  assumes "distinct ps" and "set ps \<subseteq> {0 ..< ppe_num h} \<times> {0 ..< foe_etry_num h}"
  shows "foe_tab (fold check_entry ps h) p i =
      (let f = foe_tab h p i
       in if (p, i) \<in> set ps \<and> f_sta f \<and> ts_expired (foe_timestamp True h) (f_mts f)
          then entry_delete_one (foe_timestamp False h) f else f)"
  using assms
proof (induction ps arbitrary: h)
  case (Cons q ps)
  obtain a b where q: "q = (a, b)"
    by fastforce
  have ab: "a < ppe_num h" "b < foe_etry_num h"
    using Cons.prems(2) by (simp_all add: q)
  have one: "foe_timestamp m (check_entry q h) = foe_timestamp m h"
    "foe_tab (check_entry q h) x y =
      (if (x, y) = q \<and> f_sta (foe_tab h x y) \<and> ts_expired (foe_timestamp True h) (f_mts (foe_tab h x y))
       then entry_delete_one (foe_timestamp False h) (foe_tab h x y) else foe_tab h x y)" for x y m
    using ab by (auto simp: q foe_timestamp_def check_entry_def Let_def entry_delete_def trace_def)
  have dims: "ppe_num (check_entry q h) = ppe_num h" "foe_etry_num (check_entry q h) = foe_etry_num h"
    using same_dims_check [of h q] by (simp_all add: same_dims_def)
  have IH: "foe_tab (fold check_entry ps (check_entry q h)) p i =
      (let f = foe_tab (check_entry q h) p i
       in if (p, i) \<in> set ps \<and> f_sta f \<and> ts_expired (foe_timestamp True h) (f_mts f)
          then entry_delete_one (foe_timestamp False h) f else f)"
    using Cons.IH [of "check_entry q h"] Cons.prems unfolding one(1) dims by simp
  show ?case
    using IH Cons.prems(1) by (auto simp: one(2) Let_def)
qed simp

theorem check_timestamp_ages:
  assumes "p < ppe_num (mc_hw s)" and "i < foe_etry_num (mc_hw s)"
    and f: "foe_tab (mc_hw s) p i = f" and c: "foe_clock (mc_hw s) = c"
  shows "foe_tab (mc_hw (hnat_mcast_check_timestamp s)) p i
      = (if f_sta f \<and> ts_expired c (f_mts f) then entry_delete_one (foe_timestamp False (mc_hw s)) f else f) \<and>
    (0 \<le> uint c - uint (f_mts f) \<and> uint c - uint (f_mts f) \<le> 0x3000 \<longrightarrow>
       ts_expired c (f_mts f) = (uint c - uint (f_mts f) > 20)) \<and>
    (uint c + 20 < uint (f_mts f) \<longrightarrow> ts_expired c (f_mts f)) \<and>
    (uint c - uint (f_mts f) > 0x3000 \<longrightarrow>
       ts_expired c (f_mts f) = (\<bar>0xffff - uint c - uint (f_mts f)\<bar> > 20))"
proof -
  have "foe_tab (mc_hw (hnat_mcast_check_timestamp s)) p i
      = (if f_sta f \<and> ts_expired c (f_mts f) then entry_delete_one (foe_timestamp False (mc_hw s)) f else f)"
    using check_entries [of "List.product [0 ..< ppe_num (mc_hw s)] [0 ..< foe_etry_num (mc_hw s)]" "mc_hw s" p i] assms
    by (simp add: hnat_mcast_check_timestamp_def distinct_product Let_def foe_timestamp_def)
  moreover have "uint (NOT c) = 0xffff - uint c"
  proof -
    have "NOT c = 0xffff - c"
      by (simp add: not_eq_complement)
    moreover have "uint (0xffff - c) = uint (0xffff :: u16) - uint c"
      using uint_bounded [of c] by (intro uint_sub_lem [THEN iffD1]) simp
    ultimately show ?thesis
      by simp
  qed
  ultimately show ?thesis
    by (simp add: ts_expired_def Let_def FOE_TS_WRAP_THRESHOLD_def FOE_TS_MAX_DIFF_def)
qed


text \<open>The clock has just wrapped: an entry used six ticks ago is deleted.\<close>

definition mdemo_aged :: hw where
  "mdemo_aged = mdemo_hw\<lparr>foe_clock := 1,
     foe_tab := (\<lambda>p i. foe_zero\<lparr>f_state := BIND, f_sta := True, f_mts := 0xfffb\<rparr>)\<rparr>"

theorem check_timestamp_ages_witness:
  "f_state (foe_tab (mc_hw (hnat_mcast_check_timestamp (mdemo_state [] mdemo_aged))) 0 2) = INVALID"
proof -
  have p: "0 < ppe_num (mc_hw (mdemo_state [] mdemo_aged))" "2 < foe_etry_num (mc_hw (mdemo_state [] mdemo_aged))"
    by (simp_all add: mdemo_state_def mdemo_aged_def mdemo_hw_def)
  have f: "foe_tab (mc_hw (mdemo_state [] mdemo_aged)) 0 2 = foe_zero\<lparr>f_state := BIND, f_sta := True, f_mts := 0xfffb\<rparr>"
    and c: "foe_clock (mc_hw (mdemo_state [] mdemo_aged)) = 1"
    by (simp_all add: mdemo_state_def mdemo_aged_def)
  from check_timestamp_ages [OF p f c] show ?thesis
    by (simp add: entry_delete_one_def)
qed

section \<open>A device goes down\<close>

text \<open> When a device goes down, a group it is a member of keeps its members.  If the group used
  another port as well, the ports are worked out again from the members' devices that are running,
  which still counts the device itself when it has not stopped yet.  If it used only the port of that
  device, the flow is deleted, the slot freed and the group unbound, even when another member is
  behind the same port.\<close>

theorem ifdown_result:
  assumes mem: "ifindex \<in> set (g_members g)" and r: "hnat_mcast_get_hw_foe g = Some r" and ok: "flow_ok h g"
    and mac: "mcast_mac (g_mac g)" and f: "f_kind (foe_at r h) \<noteq> FOE_OTHER"
    and down: "fst (hnat_mcast_get_single_dev_pse_bit e ifindex 0) = down"
    and b: "fst (hnat_mcast_get_pse_tx_bmp e g) = b" and nz: "b \<noteq> 0"
    and slot: "BMP_IS_SINGLE_PORT b \<or> can_slot g h" and hard: "\<not> software_only e b"
    and res: "ifdown_group e ifindex g h = (g', h')"
  shows "g_members g' = g_members g \<and>
    (if psebmp g AND NOT down = 0
     then ppe_id g' = - 1 \<and> foe_idx g' = - 1 \<and> psebmp g' = 0 \<and> f_state (foe_at r h') = INVALID \<and> mtbl_idx g' = - 1
     else psebmp g' = b \<and> hw_ports r g' h' = expected_ports (hnat_mc_ops e \<noteq> None \<and> eth0_mtk_dsa e) b)"
proof -
  have "g_members g' = g_members g"
    using gkeeps_ifdown [of g h e ifindex] by (simp add: res gkeeps_def same_ident_def)
  moreover have "ppe_id g' = - 1 \<and> foe_idx g' = - 1 \<and> psebmp g' = 0 \<and> f_state (foe_at r h') = INVALID \<and> mtbl_idx g' = - 1"
    if "psebmp g AND NOT down = 0"
  proof -
    obtain g1 h1 where t: "hnat_mcast_mtbl_teardown g (snd (entry_delete (ppe_id g) (foe_idx g) h)) = (g1, h1)"
      by fastforce
    have "(g', h') = (unbind g1, h1)"
      using res mem r down that by (simp add: ifdown_group_def t)
    then have tg: "hnat_mcast_no_npu_teardown_group g h = (- 1, g', h')"
      by (simp add: hnat_mcast_no_npu_teardown_group_def t)
    have "ppe_id g \<noteq> - 1"
      using r by (auto simp: hnat_mcast_get_hw_foe_def split: if_splits)
    then have "mtbl_idx g1 = - 1"
      using t by (auto simp: hnat_mcast_mtbl_teardown_def INVLD_IDX_def split: if_splits)
    then show ?thesis
      using teardown_group_result [OF tg ok r] \<open>(g', h') = (unbind g1, h1)\<close> by (simp add: unbind_def)
  qed
  moreover have "psebmp g' = b \<and> hw_ports r g' h' = expected_ports (hnat_mc_ops e \<noteq> None \<and> eth0_mtk_dsa e) b"
    if "psebmp g AND NOT down \<noteq> 0"
  proof -
    obtain ret g1 h1 where u: "hnat_mcast_hw_update e (ucast (snd (hnat_mcast_get_pse_tx_bmp e g))) b RTM_DELMDB ifindex r g h
        = (ret, g1, h1)"
      by (rule prod_cases3)
    have "(g', h') = (g1, h1)"
      using res mem r down b that u by (simp add: ifdown_group_def split_def)
    moreover have "valid_bmp b"
      using valid_tx_bmp [of e g] by (simp add: b)
    ultimately show ?thesis
      using hw_update_ports [OF slot mac _ f nz hard u] by simp
  qed
  ultimately show ?thesis
    by simp
qed

text \<open>Two members behind switch ports lan1 and lan2: lan1 goes down and the flow of lan2 is deleted.\<close>

definition mdemo_lan :: "string \<Rightarrow> nat \<Rightarrow> netdev" where
  "mdemo_lan n p = \<lparr>nd_name = n, nd_running = True, nd_reg = Some p, nd_wifi_index = 0, nd_mac_id = 0\<rparr>"

definition mdemo_env_dsa :: mc_env where
  "mdemo_env_dsa = mdemo_env\<lparr>netdevs := (\<lambda>i. if i = 2 then Some (mdemo_lan ''lan1'' 1)
                               else if i = 3 then Some (mdemo_lan ''lan2'' 2) else None), eth0_mtk_dsa := True\<rparr>"

theorem ifdown_result_witness:
  "g_members (fst (ifdown_group mdemo_env_dsa 2 (mdemo_group\<lparr>psebmp := 4\<rparr>) mdemo_hw)) = [2, 3] \<and>
   ppe_id (fst (ifdown_group mdemo_env_dsa 2 (mdemo_group\<lparr>psebmp := 4\<rparr>) mdemo_hw)) = - 1"
proof -
  let ?g = "mdemo_group\<lparr>psebmp := 4\<rparr>"
  obtain g' h' where res: "ifdown_group mdemo_env_dsa 2 ?g mdemo_hw = (g', h')"
    by fastforce
  have mem: "2 \<in> set (g_members ?g)" and r: "hnat_mcast_get_hw_foe ?g = Some (In_table 0 1)"
    and mac: "mcast_mac (g_mac ?g)" and f: "f_kind (foe_at (In_table 0 1) mdemo_hw) \<noteq> FOE_OTHER"
    by (code_simp+)
  have ok: "flow_ok mdemo_hw ?g"
    by (simp add: flow_ok_def mdemo_defs)
  have down: "fst (hnat_mcast_get_single_dev_pse_bit mdemo_env_dsa 2 0) = 4"
    and b: "fst (hnat_mcast_get_pse_tx_bmp mdemo_env_dsa ?g) = 4"
    by (code_simp+)
  have single: "BMP_IS_SINGLE_PORT 4 \<or> can_slot ?g mdemo_hw"
    by (simp add: single_values)
  have hard: "\<not> software_only mdemo_env_dsa 4"
    by (simp add: software_only_def mdemo_env_dsa_def mdemo_env_def)
  have "g_members ?g = [2, 3]"
    by (simp add: mdemo_group_def)
  with ifdown_result [OF mem r ok mac f down b _ single hard res] show ?thesis
    unfolding res fst_conv by simp
qed

text \<open>The deletions of a group from the network processor report the last answer, not the first
  error: the error of an earlier port is lost when a later one succeeds.\<close>

lemma npu_delete_multi_last:
  assumes "bit stag 7" and "npu_client_delete e = Some (\<lambda>tr mi. if mi_dsa_port mi = 7 then 0 else - ENOENT)"
  shows "fst (hnat_mcast_npu_delete_multi e mi stag h) = 0"
proof -
  have "[0 ..< 8] = [0 ..< 7] @ [7 :: nat]"
    by (simp add: upt_conv_Cons)
  then show ?thesis
    using assms by (simp add: hnat_mcast_npu_delete_multi_def delete_port_def
        hnat_mcast_npu_delete_single_def Let_def split_def del: upt_Suc upt_rec_numeral)
qed

end
