(* ===== verification/Foe_Entry.thy ===== *)
theory Foe_Entry
  imports Mcast_Hw
begin

text \<open>
  The flow (FOE) entry of a packet engine at the level of its 32-bit words:
  \<^verbatim>\<open>struct foe_entry\<close> of \<^verbatim>\<open>mtk_hnat/hnat.h\<close> in the configuration of NETSYS V3 chips, 32 words of
  which the first is the information block and the other 31 a union of nine packed structures.  The
  structures are given as their member lists, in the order and with the widths of the declarations;
  the place of a member is computed from the list (little-endian, bit-fields from the least
  significant bit), so that two views of the union alias as they do in memory.
\<close>

section \<open>Fields of words\<close>

text \<open>The words of an entry by index; only the first 32 are part of it.\<close>

type_synonym foe_words = "nat \<Rightarrow> u32"

definition FOE_WORDS :: nat where "FOE_WORDS = 32"

text \<open>A field of an indexed family of words (an entry, or the registers of a device by their
  offset): the word, the lowest bit and the width.\<close>

datatype 'i field_of = Fld (fld_word: 'i) (fld_lo: nat) (fld_width: nat)

type_synonym field = "nat field_of"

fun rd :: "('i \<Rightarrow> u32) \<Rightarrow> 'i field_of \<Rightarrow> u32" where
  "rd e (Fld w lo n) = take_bit n (drop_bit lo (e w))"

text \<open>An assignment truncates the value to the width of the field.\<close>

fun wr :: "'i field_of \<Rightarrow> u32 \<Rightarrow> ('i \<Rightarrow> u32) \<Rightarrow> ('i \<Rightarrow> u32)" where
  "wr (Fld w lo n) v e =
     e(w := (e w AND NOT (push_bit lo (mask n))) OR push_bit lo (take_bit n v))"

fun fld_ok :: "'i field_of \<Rightarrow> bool" where
  "fld_ok (Fld w lo n) = (lo + n \<le> 32)"

fun fld_disjoint :: "'i field_of \<Rightarrow> 'i field_of \<Rightarrow> bool" where
  "fld_disjoint (Fld w lo n) (Fld w' lo' n') = (w \<noteq> w' \<or> lo + n \<le> lo' \<or> lo' + n' \<le> lo)"

lemma rd_wr_same:
  assumes "fld_ok f"
  shows "rd (wr f v e) f = take_bit (fld_width f) v"
proof (cases f)
  case (Fld w lo n)
  with assms show ?thesis
    by (auto intro!: bit_word_eqI simp: bit_simps)
qed

lemma rd_wr_other:
  assumes "fld_ok f" "fld_ok g" "fld_disjoint f g"
  shows "rd (wr f v e) g = rd e g"
proof (cases f; cases g)
  fix w lo n w' lo' n'
  assume "f = Fld w lo n" "g = Fld w' lo' n'"
  with assms show ?thesis
    by (auto intro!: bit_word_eqI simp: bit_simps)
qed

lemma wr_word_other [simp]: "i \<noteq> fld_word f \<Longrightarrow> wr f v e i = e i"
  by (cases f) simp

lemma wr_rd:
  assumes "fld_ok f"
  shows "wr f (rd e f) e = e"
proof (cases f)
  case (Fld w lo n)
  with assms have "(e w AND NOT (push_bit lo (mask n)))
      OR push_bit lo (take_bit n (drop_bit lo (e w))) = e w"
    by (auto intro!: bit_word_eqI simp: bit_simps)
  with Fld show ?thesis by (simp add: fun_upd_idem)
qed

lemma wr_wr:
  assumes "fld_ok f"
  shows "wr f v (wr f u e) = wr f v e"
proof (cases f)
  case (Fld w lo n)
  have "(((e w AND NOT (push_bit lo (mask n))) OR push_bit lo (take_bit n u)) AND NOT (push_bit lo (mask n)))
      OR push_bit lo (take_bit n v) = (e w AND NOT (push_bit lo (mask n))) OR push_bit lo (take_bit n v)"
    by (auto intro!: bit_word_eqI simp: bit_simps)
  then show ?thesis by (simp add: Fld)
qed

lemma wr_cong: "e (fld_word f) = e' (fld_word f) \<Longrightarrow> wr f v e (fld_word f) = wr f v e' (fld_word f)"
  by (cases f) simp

lemma rd_take [simp]: "take_bit (fld_width f) (rd e f) = rd e f"
  by (cases f) simp

lemma rd_less: "fld_width f < 32 \<Longrightarrow> unat (rd e f) < 2 ^ fld_width f"
  by (cases f) (simp add: unsigned_take_bit_eq take_bit_nat_less_exp)

declare rd.simps [simp del] wr.simps [simp del]

section \<open>Packed structures\<close>

type_synonym layout = "(string \<times> nat) list"

text \<open>The bit offset and the width of a member of a structure that starts at a bit offset.\<close>

fun member_at :: "nat \<Rightarrow> layout \<Rightarrow> string \<Rightarrow> (nat \<times> nat) option" where
  "member_at pos [] m = None"
| "member_at pos ((k, n) # l) m = (if k = m then Some (pos, n) else member_at (pos + n) l m)"

definition fld_at :: "nat \<Rightarrow> layout \<Rightarrow> string \<Rightarrow> field" where
  "fld_at pos l m =
     (case member_at pos l m of None \<Rightarrow> Fld 0 0 0 | Some (p, n) \<Rightarrow> Fld (p div 32) (p mod 32) n)"

text \<open>A member of a structure nested in a member.\<close>

definition sub :: "field \<Rightarrow> layout \<Rightarrow> string \<Rightarrow> field" where
  "sub f l m = fld_at (32 * fld_word f + fld_lo f) l m"

definition layout_bits :: "layout \<Rightarrow> nat" where
  "layout_bits l = sum_list (map snd l)"

text \<open>Every member lies within one word.\<close>

fun layout_ok :: "nat \<Rightarrow> layout \<Rightarrow> bool" where
  "layout_ok pos [] = True"
| "layout_ok pos ((m, n) # l) = (pos mod 32 + n \<le> 32 \<and> layout_ok (pos + n) l)"

section \<open>The structures of \<^verbatim>\<open>hnat.h\<close>\<close>

definition hnat_unbind_info_blk :: layout where
  "hnat_unbind_info_blk =
     [(''time_stamp'', 8), (''sp'', 4), (''pcnt'', 8), (''ilgf'', 1), (''mc'', 1), (''preb'', 1),
      (''pkt_type'', 5), (''state'', 2), (''udp'', 1), (''sta'', 1)]"

definition hnat_bind_info_blk :: layout where
  "hnat_bind_info_blk =
     [(''time_stamp'', 8), (''sp'', 4), (''mc'', 1), (''ka'', 1), (''vlan_layer'', 3), (''psn'', 1),
      (''vpm'', 1), (''ps'', 1), (''cah'', 1), (''rmt'', 1), (''ttl'', 1), (''pkt_type'', 5),
      (''state'', 2), (''udp'', 1), (''sta'', 1)]"

definition hnat_info_blk2 :: layout where
  "hnat_info_blk2 =
     [(''qid'', 7), (''port_mg'', 1), (''fqos'', 1), (''dp'', 4), (''mcast'', 1), (''pcpl'', 1),
      (''mibf'', 1), (''alen'', 1), (''rxid'', 2), (''winfoi'', 1), (''port_ag'', 4), (''dscp'', 8)]"

definition hnat_winfo :: layout where
  "hnat_winfo = [(''wcid'', 16), (''bssid'', 8), (''resv'', 8)]"

definition hnat_winfo_pao :: layout where
  "hnat_winfo_pao =
     [(''usr_info'', 16), (''tid'', 4), (''is_fixedrate'', 1), (''is_prior'', 1), (''is_sp'', 1),
      (''hf'', 1), (''amsdu'', 1), (''resv'', 7)]"

definition hnat_l2_bridge :: layout where
  "hnat_l2_bridge =
     [(''dmac_hi'', 32), (''smac_lo'', 16), (''dmac_lo'', 16), (''smac_hi'', 32), (''etype'', 16),
      (''hph'', 16), (''vlan1'', 16), (''vlan2'', 16), (''resv1'', 32), (''resv2'', 32),
      (''info_blk2'', 32), (''resv3'', 32), (''resv4'', 24), (''act_dp'', 8), (''new_vlan1'', 16),
      (''sp_tag'', 16), (''new_dmac_hi'', 32), (''new_vlan2'', 16), (''new_dmac_lo'', 16),
      (''new_smac_hi'', 32), (''resv5'', 16), (''new_smac_lo'', 16), (''resv6'', 32), (''winfo'', 32),
      (''winfo_pao'', 32)]"

definition hnat_ipv4_hnat :: layout where
  "hnat_ipv4_hnat =
     [(''sip'', 32), (''dip'', 32), (''prot'', 8), (''hph'', 24), (''info_blk2'', 32),
      (''new_sip'', 32), (''new_dip'', 32), (''resv1'', 32), (''resv2'', 32), (''resv3_1'', 9),
      (''eg_keep_ecn'', 1), (''eg_keep_dscp'', 1), (''resv3_2'', 13), (''act_dp'', 8), (''vlan1'', 16),
      (''sp_tag'', 16), (''dmac_hi'', 32), (''vlan2'', 16), (''dmac_lo'', 16), (''smac_hi'', 32),
      (''pppoe_id'', 16), (''smac_lo'', 16), (''minfo'', 16), (''resv4'', 16), (''winfo'', 32),
      (''winfo_pao'', 32), (''cdrt_id'', 8), (''tops_entry'', 6), (''resv5'', 2), (''tport_id'', 4),
      (''resv6'', 12)]"

definition hnat_ipv4_hnapt :: layout where
  "hnat_ipv4_hnapt =
     [(''sip'', 32), (''dip'', 32), (''dport'', 16), (''sport'', 16), (''info_blk2'', 32),
      (''new_sip'', 32), (''new_dip'', 32), (''new_dport'', 16), (''new_sport'', 16),
      (''m_timestamp'', 16), (''resv1'', 16), (''resv2'', 32), (''resv3_1'', 9), (''eg_keep_ecn'', 1),
      (''eg_keep_dscp'', 1), (''resv3_2'', 13), (''act_dp'', 8), (''vlan1'', 16), (''sp_tag'', 16),
      (''dmac_hi'', 32), (''vlan2'', 16), (''dmac_lo'', 16), (''smac_hi'', 32), (''pppoe_id'', 16),
      (''smac_lo'', 16), (''minfo'', 16), (''resv4'', 16), (''winfo'', 32), (''winfo_pao'', 32),
      (''cdrt_id'', 8), (''tops_entry'', 6), (''resv5'', 2), (''tport_id'', 4), (''resv6'', 12)]"

definition hnat_ipv4_dslite :: layout where
  "hnat_ipv4_dslite =
     [(''sip'', 32), (''dip'', 32), (''dport'', 16), (''sport'', 16), (''tunnel_sipv6_0'', 32),
      (''tunnel_sipv6_1'', 32), (''tunnel_sipv6_2'', 32), (''tunnel_sipv6_3'', 32),
      (''tunnel_dipv6_0'', 32), (''tunnel_dipv6_1'', 32), (''tunnel_dipv6_2'', 32),
      (''tunnel_dipv6_3'', 32), (''flow_lbl'', 24), (''priority'', 8), (''hop_limit'', 8),
      (''resv2_1'', 1), (''eg_keep_ecn'', 1), (''eg_keep_cls'', 1), (''resv2_2'', 13), (''act_dp'', 8),
      (''info_blk2'', 32), (''vlan1'', 16), (''sp_tag'', 16), (''dmac_hi'', 32), (''vlan2'', 16),
      (''dmac_lo'', 16), (''smac_hi'', 32), (''pppoe_id'', 16), (''smac_lo'', 16), (''minfo'', 16),
      (''resv3'', 16), (''winfo'', 32), (''winfo_pao'', 32), (''cdrt_id'', 8), (''tops_entry'', 6),
      (''resv4'', 2), (''tport_id'', 4), (''resv5'', 12)]"

definition hnat_ipv4_mape :: layout where
  "hnat_ipv4_mape =
     [(''sip'', 32), (''dip'', 32), (''dport'', 16), (''sport'', 16), (''tunnel_sipv6_0'', 32),
      (''tunnel_sipv6_1'', 32), (''tunnel_sipv6_2'', 32), (''tunnel_sipv6_3'', 32),
      (''tunnel_dipv6_0'', 32), (''tunnel_dipv6_1'', 32), (''tunnel_dipv6_2'', 32),
      (''tunnel_dipv6_3'', 32), (''flow_lbl'', 24), (''priority'', 8), (''hop_limit'', 8),
      (''resv2_1'', 1), (''eg_keep_ecn'', 1), (''eg_keep_dscp'', 1), (''resv2_2'', 13),
      (''act_dp'', 8), (''info_blk2'', 32), (''vlan1'', 16), (''sp_tag'', 16), (''dmac_hi'', 32),
      (''vlan2'', 16), (''dmac_lo'', 16), (''smac_hi'', 32), (''pppoe_id'', 16), (''smac_lo'', 16),
      (''minfo'', 16), (''resv3'', 16), (''new_sip'', 32), (''new_dip'', 32), (''new_dport'', 16),
      (''new_sport'', 16), (''winfo'', 32), (''winfo_pao'', 32), (''cdrt_id'', 8),
      (''tops_entry'', 6), (''resv4'', 2), (''tport_id'', 4), (''resv5'', 12)]"

definition hnat_ipv6_3t_route :: layout where
  "hnat_ipv6_3t_route =
     [(''ipv6_sip0'', 32), (''ipv6_sip1'', 32), (''ipv6_sip2'', 32), (''ipv6_sip3'', 32),
      (''ipv6_dip0'', 32), (''ipv6_dip1'', 32), (''ipv6_dip2'', 32), (''ipv6_dip3'', 32),
      (''prot'', 8), (''hph'', 24), (''resv1'', 32), (''resv2'', 32), (''resv3'', 32), (''resv4_1'', 9),
      (''eg_keep_ecn'', 1), (''eg_keep_cls'', 1), (''resv4_2'', 13), (''act_dp'', 8),
      (''info_blk2'', 32), (''vlan1'', 16), (''sp_tag'', 16), (''dmac_hi'', 32), (''vlan2'', 16),
      (''dmac_lo'', 16), (''smac_hi'', 32), (''pppoe_id'', 16), (''smac_lo'', 16), (''minfo'', 16),
      (''resv5'', 16), (''winfo'', 32), (''winfo_pao'', 32), (''cdrt_id'', 8), (''tops_entry'', 6),
      (''resv6'', 2), (''tport_id'', 4), (''resv7'', 12)]"

definition hnat_ipv6_5t_route :: layout where
  "hnat_ipv6_5t_route =
     [(''ipv6_sip0'', 32), (''ipv6_sip1'', 32), (''ipv6_sip2'', 32), (''ipv6_sip3'', 32),
      (''ipv6_dip0'', 32), (''ipv6_dip1'', 32), (''ipv6_dip2'', 32), (''ipv6_dip3'', 32),
      (''dport'', 16), (''sport'', 16), (''resv1'', 32), (''resv2'', 32), (''resv3'', 32),
      (''resv4_1'', 9), (''eg_keep_ecn'', 1), (''eg_keep_cls'', 1), (''resv4_2'', 13), (''act_dp'', 8),
      (''info_blk2'', 32), (''vlan1'', 16), (''sp_tag'', 16), (''dmac_hi'', 32), (''vlan2'', 16),
      (''dmac_lo'', 16), (''smac_hi'', 32), (''pppoe_id'', 16), (''smac_lo'', 16), (''minfo'', 16),
      (''resv5'', 16), (''winfo'', 32), (''winfo_pao'', 32), (''cdrt_id'', 8), (''tops_entry'', 6),
      (''resv6'', 2), (''tport_id'', 4), (''resv7'', 12)]"

definition hnat_ipv6_6rd :: layout where
  "hnat_ipv6_6rd =
     [(''ipv6_sip0'', 32), (''ipv6_sip1'', 32), (''ipv6_sip2'', 32), (''ipv6_sip3'', 32),
      (''ipv6_dip0'', 32), (''ipv6_dip1'', 32), (''ipv6_dip2'', 32), (''ipv6_dip3'', 32),
      (''dport'', 16), (''sport'', 16), (''tunnel_sipv4'', 32), (''tunnel_dipv4'', 32),
      (''hdr_chksum'', 16), (''dscp'', 8), (''ttl'', 8), (''flag'', 3), (''resv1_1'', 6),
      (''eg_keep_ecn'', 1), (''eg_keep_cls'', 1), (''eg_keep_tnl_qos'', 1), (''resv1_2'', 4),
      (''per_flow_6rd_id'', 1), (''resv2'', 7), (''act_dp'', 8), (''info_blk2'', 32), (''vlan1'', 16),
      (''sp_tag'', 16), (''dmac_hi'', 32), (''vlan2'', 16), (''dmac_lo'', 16), (''smac_hi'', 32),
      (''pppoe_id'', 16), (''smac_lo'', 16), (''minfo'', 16), (''resv3'', 16), (''winfo'', 32),
      (''winfo_pao'', 32), (''cdrt_id'', 8), (''tops_entry'', 6), (''resv4'', 2), (''tport_id'', 4),
      (''resv5'', 12)]"

definition hnat_ipv6_hnapt :: layout where
  "hnat_ipv6_hnapt =
     [(''ipv6_sip0'', 32), (''ipv6_sip1'', 32), (''ipv6_sip2'', 32), (''ipv6_sip3'', 32),
      (''ipv6_dip0'', 32), (''ipv6_dip1'', 32), (''ipv6_dip2'', 32), (''ipv6_dip3'', 32),
      (''dport'', 16), (''sport'', 16), (''resv1'', 32), (''resv2'', 32), (''resv3'', 32),
      (''resv4'', 8), (''eg_ipv6_dir'', 1), (''eg_keep_ecn'', 1), (''eg_keep_cls'', 1),
      (''resv5'', 13), (''act_dp'', 8), (''info_blk2'', 32), (''vlan1'', 16), (''sp_tag'', 16),
      (''dmac_hi'', 32), (''vlan2'', 16), (''dmac_lo'', 16), (''smac_hi'', 32), (''pppoe_id'', 16),
      (''smac_lo'', 16), (''minfo'', 16), (''resv6'', 16), (''new_ipv6_ip0'', 32),
      (''new_ipv6_ip1'', 32), (''new_ipv6_ip2'', 32), (''new_ipv6_ip3'', 32), (''new_dport'', 16),
      (''new_sport'', 16), (''winfo'', 32), (''winfo_pao'', 32), (''cdrt_id'', 8),
      (''tops_entry'', 6), (''resv7'', 2), (''tport_id'', 4), (''resv8'', 12), (''resv9'', 32),
      (''resv10'', 32), (''resv11'', 32)]"

lemmas foe_layouts = hnat_unbind_info_blk_def hnat_bind_info_blk_def hnat_info_blk2_def hnat_winfo_def
  hnat_winfo_pao_def hnat_l2_bridge_def hnat_ipv4_hnat_def hnat_ipv4_hnapt_def hnat_ipv4_dslite_def
  hnat_ipv4_mape_def hnat_ipv6_3t_route_def hnat_ipv6_5t_route_def hnat_ipv6_6rd_def
  hnat_ipv6_hnapt_def

section \<open>Views of an entry\<close>

text \<open>\<open>bfib1 m\<close> is \<^verbatim>\<open>entry->bfib1.m\<close>, \<open>in_view s m\<close> is \<^verbatim>\<open>entry->s.m\<close> for a structure of the union,
  \<open>iblk2\<close>, \<open>winfo\<close> and \<open>winfo_pao\<close> its nested blocks.\<close>

definition bfib1 :: "string \<Rightarrow> field" where
  "bfib1 m = fld_at 0 hnat_bind_info_blk m"

definition udib1 :: "string \<Rightarrow> field" where
  "udib1 m = fld_at 0 hnat_unbind_info_blk m"

definition in_view :: "layout \<Rightarrow> string \<Rightarrow> field" where
  "in_view s m = fld_at 32 s m"

definition iblk2 :: "layout \<Rightarrow> string \<Rightarrow> field" where
  "iblk2 s m = sub (in_view s ''info_blk2'') hnat_info_blk2 m"

definition winfo :: "layout \<Rightarrow> string \<Rightarrow> field" where
  "winfo s m = sub (in_view s ''winfo'') hnat_winfo m"

definition winfo_pao :: "layout \<Rightarrow> string \<Rightarrow> field" where
  "winfo_pao s m = sub (in_view s ''winfo_pao'') hnat_winfo_pao m"

lemmas view_defs = bfib1_def udib1_def in_view_def iblk2_def winfo_def winfo_pao_def sub_def fld_at_def

end
