(* ===== verification/Foe_Fields.thy ===== *)
theory Foe_Fields
  imports Foe_Entry
begin

text \<open>
  Where the members that the code uses lie, computed from the declarations, and the tests of
  \<^verbatim>\<open>hnat.h\<close> on the packet type and the state of an entry.
\<close>

section \<open>Places of the members\<close>

named_theorems foe_fld \<open>the word, bit and width of a member\<close>

lemma fld_bfib1 [foe_fld]:
  "bfib1 ''udp'' = Fld 0 30 1 \<and>
   bfib1 ''pkt_type'' = Fld 0 23 5 \<and>
   bfib1 ''vlan_layer'' = Fld 0 14 3 \<and>
   bfib1 ''psn'' = Fld 0 17 1 \<and>
   bfib1 ''ttl'' = Fld 0 22 1 \<and>
   bfib1 ''state'' = Fld 0 28 2 \<and>
   bfib1 ''time_stamp'' = Fld 0 0 8 \<and>
   bfib1 ''sta'' = Fld 0 31 1 \<and>
   bfib1 ''vpm'' = Fld 0 18 1 \<and>
   bfib1 ''cah'' = Fld 0 20 1 \<and>
   bfib1 ''sp'' = Fld 0 8 4"
  by code_simp

lemma fld_udib1 [foe_fld]:
  "udib1 ''udp'' = Fld 0 30 1 \<and>
   udib1 ''pkt_type'' = Fld 0 23 5 \<and>
   udib1 ''sta'' = Fld 0 31 1"
  by code_simp

lemma fld_in_view_ipv4_hnapt [foe_fld]:
  "in_view hnat_ipv4_hnapt ''sip'' = Fld 1 0 32 \<and>
   in_view hnat_ipv4_hnapt ''dip'' = Fld 2 0 32 \<and>
   in_view hnat_ipv4_hnapt ''dport'' = Fld 3 0 16 \<and>
   in_view hnat_ipv4_hnapt ''sport'' = Fld 3 16 16 \<and>
   in_view hnat_ipv4_hnapt ''new_sip'' = Fld 5 0 32 \<and>
   in_view hnat_ipv4_hnapt ''new_dip'' = Fld 6 0 32 \<and>
   in_view hnat_ipv4_hnapt ''new_dport'' = Fld 7 0 16 \<and>
   in_view hnat_ipv4_hnapt ''new_sport'' = Fld 7 16 16 \<and>
   in_view hnat_ipv4_hnapt ''m_timestamp'' = Fld 8 0 16 \<and>
   in_view hnat_ipv4_hnapt ''cdrt_id'' = Fld 19 0 8 \<and>
   in_view hnat_ipv4_hnapt ''tops_entry'' = Fld 19 8 6 \<and>
   in_view hnat_ipv4_hnapt ''info_blk2'' = Fld 4 0 32 \<and>
   in_view hnat_ipv4_hnapt ''vlan1'' = Fld 11 0 16 \<and>
   in_view hnat_ipv4_hnapt ''vlan2'' = Fld 13 0 16 \<and>
   in_view hnat_ipv4_hnapt ''sp_tag'' = Fld 11 16 16 \<and>
   in_view hnat_ipv4_hnapt ''pppoe_id'' = Fld 15 0 16 \<and>
   in_view hnat_ipv4_hnapt ''dmac_hi'' = Fld 12 0 32 \<and>
   in_view hnat_ipv4_hnapt ''dmac_lo'' = Fld 13 16 16 \<and>
   in_view hnat_ipv4_hnapt ''smac_hi'' = Fld 14 0 32 \<and>
   in_view hnat_ipv4_hnapt ''smac_lo'' = Fld 15 16 16 \<and>
   in_view hnat_ipv4_hnapt ''tport_id'' = Fld 19 16 4"
  by code_simp

lemma fld_in_view_ipv6_5t_route [foe_fld]:
  "in_view hnat_ipv6_5t_route ''ipv6_sip0'' = Fld 1 0 32 \<and>
   in_view hnat_ipv6_5t_route ''ipv6_sip1'' = Fld 2 0 32 \<and>
   in_view hnat_ipv6_5t_route ''ipv6_sip2'' = Fld 3 0 32 \<and>
   in_view hnat_ipv6_5t_route ''ipv6_sip3'' = Fld 4 0 32 \<and>
   in_view hnat_ipv6_5t_route ''ipv6_dip0'' = Fld 5 0 32 \<and>
   in_view hnat_ipv6_5t_route ''ipv6_dip1'' = Fld 6 0 32 \<and>
   in_view hnat_ipv6_5t_route ''ipv6_dip2'' = Fld 7 0 32 \<and>
   in_view hnat_ipv6_5t_route ''ipv6_dip3'' = Fld 8 0 32 \<and>
   in_view hnat_ipv6_5t_route ''dport'' = Fld 9 0 16 \<and>
   in_view hnat_ipv6_5t_route ''sport'' = Fld 9 16 16 \<and>
   in_view hnat_ipv6_5t_route ''tops_entry'' = Fld 23 8 6 \<and>
   in_view hnat_ipv6_5t_route ''info_blk2'' = Fld 14 0 32 \<and>
   in_view hnat_ipv6_5t_route ''vlan1'' = Fld 15 0 16 \<and>
   in_view hnat_ipv6_5t_route ''vlan2'' = Fld 17 0 16 \<and>
   in_view hnat_ipv6_5t_route ''sp_tag'' = Fld 15 16 16 \<and>
   in_view hnat_ipv6_5t_route ''pppoe_id'' = Fld 19 0 16 \<and>
   in_view hnat_ipv6_5t_route ''dmac_hi'' = Fld 16 0 32 \<and>
   in_view hnat_ipv6_5t_route ''dmac_lo'' = Fld 17 16 16 \<and>
   in_view hnat_ipv6_5t_route ''smac_hi'' = Fld 18 0 32 \<and>
   in_view hnat_ipv6_5t_route ''smac_lo'' = Fld 19 16 16 \<and>
   in_view hnat_ipv6_5t_route ''tport_id'' = Fld 23 16 4"
  by code_simp

lemma fld_in_view_ipv6_3t_route [foe_fld]:
  "in_view hnat_ipv6_3t_route ''ipv6_sip0'' = Fld 1 0 32 \<and>
   in_view hnat_ipv6_3t_route ''ipv6_sip1'' = Fld 2 0 32 \<and>
   in_view hnat_ipv6_3t_route ''ipv6_sip2'' = Fld 3 0 32 \<and>
   in_view hnat_ipv6_3t_route ''ipv6_sip3'' = Fld 4 0 32 \<and>
   in_view hnat_ipv6_3t_route ''ipv6_dip0'' = Fld 5 0 32 \<and>
   in_view hnat_ipv6_3t_route ''ipv6_dip1'' = Fld 6 0 32 \<and>
   in_view hnat_ipv6_3t_route ''ipv6_dip2'' = Fld 7 0 32 \<and>
   in_view hnat_ipv6_3t_route ''ipv6_dip3'' = Fld 8 0 32"
  by code_simp

lemma fld_in_view_ipv4_dslite [foe_fld]:
  "in_view hnat_ipv4_dslite ''sip'' = Fld 1 0 32 \<and>
   in_view hnat_ipv4_dslite ''dip'' = Fld 2 0 32 \<and>
   in_view hnat_ipv4_dslite ''tunnel_sipv6_0'' = Fld 4 0 32 \<and>
   in_view hnat_ipv4_dslite ''tunnel_sipv6_1'' = Fld 5 0 32 \<and>
   in_view hnat_ipv4_dslite ''tunnel_sipv6_2'' = Fld 6 0 32 \<and>
   in_view hnat_ipv4_dslite ''tunnel_sipv6_3'' = Fld 7 0 32 \<and>
   in_view hnat_ipv4_dslite ''tunnel_dipv6_0'' = Fld 8 0 32 \<and>
   in_view hnat_ipv4_dslite ''tunnel_dipv6_1'' = Fld 9 0 32 \<and>
   in_view hnat_ipv4_dslite ''tunnel_dipv6_2'' = Fld 10 0 32 \<and>
   in_view hnat_ipv4_dslite ''tunnel_dipv6_3'' = Fld 11 0 32"
  by code_simp

lemma fld_in_view_ipv6_6rd [foe_fld]:
  "in_view hnat_ipv6_6rd ''tunnel_sipv4'' = Fld 10 0 32 \<and>
   in_view hnat_ipv6_6rd ''tunnel_dipv4'' = Fld 11 0 32"
  by code_simp

lemma fld_in_view_ipv6_hnapt [foe_fld]:
  "in_view hnat_ipv6_hnapt ''ipv6_sip0'' = Fld 1 0 32 \<and>
   in_view hnat_ipv6_hnapt ''ipv6_sip1'' = Fld 2 0 32 \<and>
   in_view hnat_ipv6_hnapt ''ipv6_sip2'' = Fld 3 0 32 \<and>
   in_view hnat_ipv6_hnapt ''ipv6_sip3'' = Fld 4 0 32 \<and>
   in_view hnat_ipv6_hnapt ''ipv6_dip0'' = Fld 5 0 32 \<and>
   in_view hnat_ipv6_hnapt ''ipv6_dip1'' = Fld 6 0 32 \<and>
   in_view hnat_ipv6_hnapt ''ipv6_dip2'' = Fld 7 0 32 \<and>
   in_view hnat_ipv6_hnapt ''ipv6_dip3'' = Fld 8 0 32 \<and>
   in_view hnat_ipv6_hnapt ''new_ipv6_ip0'' = Fld 21 0 32 \<and>
   in_view hnat_ipv6_hnapt ''new_ipv6_ip1'' = Fld 22 0 32 \<and>
   in_view hnat_ipv6_hnapt ''new_ipv6_ip2'' = Fld 23 0 32 \<and>
   in_view hnat_ipv6_hnapt ''new_ipv6_ip3'' = Fld 24 0 32 \<and>
   in_view hnat_ipv6_hnapt ''tport_id'' = Fld 28 16 4"
  by code_simp

lemma fld_in_view_ipv4_mape [foe_fld]:
  "in_view hnat_ipv4_mape ''new_sip'' = Fld 21 0 32 \<and>
   in_view hnat_ipv4_mape ''new_dip'' = Fld 22 0 32 \<and>
   in_view hnat_ipv4_mape ''new_dport'' = Fld 23 0 16 \<and>
   in_view hnat_ipv4_mape ''new_sport'' = Fld 23 16 16 \<and>
   in_view hnat_ipv4_mape ''tport_id'' = Fld 26 16 4"
  by code_simp

lemma fld_in_view_l2_bridge [foe_fld]:
  "in_view hnat_l2_bridge ''etype'' = Fld 4 0 16 \<and>
   in_view hnat_l2_bridge ''vlan1'' = Fld 5 0 16 \<and>
   in_view hnat_l2_bridge ''vlan2'' = Fld 5 16 16 \<and>
   in_view hnat_l2_bridge ''smac_lo'' = Fld 2 0 16 \<and>
   in_view hnat_l2_bridge ''dmac_lo'' = Fld 2 16 16 \<and>
   in_view hnat_l2_bridge ''dmac_hi'' = Fld 1 0 32 \<and>
   in_view hnat_l2_bridge ''smac_hi'' = Fld 3 0 32 \<and>
   in_view hnat_l2_bridge ''sp_tag'' = Fld 11 16 16"
  by code_simp

lemma fld_iblk2_ipv4_hnapt [foe_fld]:
  "iblk2 hnat_ipv4_hnapt ''fqos'' = Fld 4 8 1 \<and>
   iblk2 hnat_ipv4_hnapt ''qid'' = Fld 4 0 7 \<and>
   iblk2 hnat_ipv4_hnapt ''dscp'' = Fld 4 24 8 \<and>
   iblk2 hnat_ipv4_hnapt ''winfoi'' = Fld 4 19 1 \<and>
   iblk2 hnat_ipv4_hnapt ''rxid'' = Fld 4 17 2 \<and>
   iblk2 hnat_ipv4_hnapt ''dp'' = Fld 4 9 4 \<and>
   iblk2 hnat_ipv4_hnapt ''mcast'' = Fld 4 13 1"
  by code_simp

lemma fld_winfo_ipv4_hnapt [foe_fld]:
  "winfo hnat_ipv4_hnapt ''bssid'' = Fld 17 16 8 \<and>
   winfo hnat_ipv4_hnapt ''wcid'' = Fld 17 0 16"
  by code_simp

lemma fld_winfo_pao_ipv4_hnapt [foe_fld]:
  "winfo_pao hnat_ipv4_hnapt ''tid'' = Fld 18 16 4 \<and>
   winfo_pao hnat_ipv4_hnapt ''is_prior'' = Fld 18 21 1"
  by code_simp

lemma fld_iblk2_ipv6_5t_route [foe_fld]:
  "iblk2 hnat_ipv6_5t_route ''fqos'' = Fld 14 8 1 \<and>
   iblk2 hnat_ipv6_5t_route ''qid'' = Fld 14 0 7 \<and>
   iblk2 hnat_ipv6_5t_route ''dscp'' = Fld 14 24 8 \<and>
   iblk2 hnat_ipv6_5t_route ''winfoi'' = Fld 14 19 1 \<and>
   iblk2 hnat_ipv6_5t_route ''rxid'' = Fld 14 17 2 \<and>
   iblk2 hnat_ipv6_5t_route ''dp'' = Fld 14 9 4 \<and>
   iblk2 hnat_ipv6_5t_route ''mcast'' = Fld 14 13 1"
  by code_simp

lemma fld_winfo_ipv6_5t_route [foe_fld]:
  "winfo hnat_ipv6_5t_route ''bssid'' = Fld 21 16 8 \<and>
   winfo hnat_ipv6_5t_route ''wcid'' = Fld 21 0 16"
  by code_simp

lemma fld_winfo_pao_ipv6_5t_route [foe_fld]:
  "winfo_pao hnat_ipv6_5t_route ''tid'' = Fld 22 16 4 \<and>
   winfo_pao hnat_ipv6_5t_route ''is_prior'' = Fld 22 21 1"
  by code_simp

lemma fld_iblk2_ipv4_mape [foe_fld]:
  "iblk2 hnat_ipv4_mape ''fqos'' = Fld 14 8 1 \<and>
   iblk2 hnat_ipv4_mape ''qid'' = Fld 14 0 7 \<and>
   iblk2 hnat_ipv4_mape ''dscp'' = Fld 14 24 8 \<and>
   iblk2 hnat_ipv4_mape ''winfoi'' = Fld 14 19 1 \<and>
   iblk2 hnat_ipv4_mape ''rxid'' = Fld 14 17 2 \<and>
   iblk2 hnat_ipv4_mape ''dp'' = Fld 14 9 4 \<and>
   iblk2 hnat_ipv4_mape ''mcast'' = Fld 14 13 1"
  by code_simp

lemma fld_winfo_ipv4_mape [foe_fld]:
  "winfo hnat_ipv4_mape ''bssid'' = Fld 24 16 8 \<and>
   winfo hnat_ipv4_mape ''wcid'' = Fld 24 0 16"
  by code_simp

lemma fld_winfo_pao_ipv4_mape [foe_fld]:
  "winfo_pao hnat_ipv4_mape ''tid'' = Fld 25 16 4 \<and>
   winfo_pao hnat_ipv4_mape ''is_prior'' = Fld 25 21 1"
  by code_simp

lemma fld_iblk2_ipv6_hnapt [foe_fld]:
  "iblk2 hnat_ipv6_hnapt ''fqos'' = Fld 14 8 1 \<and>
   iblk2 hnat_ipv6_hnapt ''qid'' = Fld 14 0 7 \<and>
   iblk2 hnat_ipv6_hnapt ''dscp'' = Fld 14 24 8 \<and>
   iblk2 hnat_ipv6_hnapt ''winfoi'' = Fld 14 19 1 \<and>
   iblk2 hnat_ipv6_hnapt ''rxid'' = Fld 14 17 2 \<and>
   iblk2 hnat_ipv6_hnapt ''dp'' = Fld 14 9 4 \<and>
   iblk2 hnat_ipv6_hnapt ''mcast'' = Fld 14 13 1"
  by code_simp

lemma fld_winfo_ipv6_hnapt [foe_fld]:
  "winfo hnat_ipv6_hnapt ''bssid'' = Fld 26 16 8 \<and>
   winfo hnat_ipv6_hnapt ''wcid'' = Fld 26 0 16"
  by code_simp

lemma fld_winfo_pao_ipv6_hnapt [foe_fld]:
  "winfo_pao hnat_ipv6_hnapt ''tid'' = Fld 27 16 4 \<and>
   winfo_pao hnat_ipv6_hnapt ''is_prior'' = Fld 27 21 1"
  by code_simp

lemmas fld_rd_wr = rd_wr_same rd_wr_other

section \<open>Packet types and states\<close>

definition IPV4_HNAPT :: u32 where "IPV4_HNAPT = 0"
definition IPV4_HNAT :: u32 where "IPV4_HNAT = 1"
definition L2_BRIDGE :: u32 where "L2_BRIDGE = 2"
definition IPV4_DSLITE :: u32 where "IPV4_DSLITE = 3"
definition IPV6_3T_ROUTE :: u32 where "IPV6_3T_ROUTE = 4"
definition IPV6_5T_ROUTE :: u32 where "IPV6_5T_ROUTE = 5"
definition IPV6_6RD :: u32 where "IPV6_6RD = 7"
definition IPV4_MAP_T :: u32 where "IPV4_MAP_T = 8"
definition IPV4_MAP_E :: u32 where "IPV4_MAP_E = 9"
definition IPV6_HNAPT :: u32 where "IPV6_HNAPT = 10"
definition IPV6_HNAT :: u32 where "IPV6_HNAT = 11"

lemmas foe_ip_act_defs = IPV4_HNAPT_def IPV4_HNAT_def L2_BRIDGE_def IPV4_DSLITE_def IPV6_3T_ROUTE_def
  IPV6_5T_ROUTE_def IPV6_6RD_def IPV4_MAP_T_def IPV4_MAP_E_def IPV6_HNAPT_def IPV6_HNAT_def

definition pkt_type :: "foe_words \<Rightarrow> u32" where
  "pkt_type e = rd e (bfib1 ''pkt_type'')"

definition IS_IPV4_GRP :: "foe_words \<Rightarrow> bool" where
  "IS_IPV4_GRP e = (pkt_type e = IPV4_HNAPT \<or> pkt_type e = IPV4_HNAT)"

definition IS_IPV6_GRP :: "foe_words \<Rightarrow> bool" where
  "IS_IPV6_GRP e =
     (pkt_type e \<in> set [IPV6_3T_ROUTE, IPV6_5T_ROUTE, IPV6_6RD, IPV4_DSLITE, IPV4_MAP_E, IPV4_MAP_T,
                       IPV6_HNAPT, IPV6_HNAT])"

text \<open>The numbers of \<^verbatim>\<open>enum FoeEntryState\<close>.\<close>

definition state_code :: "foe_state \<Rightarrow> u32" where
  "state_code st = (case st of INVALID \<Rightarrow> 0 | UNBIND \<Rightarrow> 1 | BIND \<Rightarrow> 2 | FIN \<Rightarrow> 3)"

definition entry_hnat_is_bound :: "foe_words \<Rightarrow> bool" where
  "entry_hnat_is_bound e = (rd e (bfib1 ''state'') = state_code BIND)"

text \<open>The entry of all zero bytes.\<close>

definition zero_words :: foe_words where
  "zero_words = (\<lambda>i. 0)"

lemma rd_zero_words [simp]: "rd zero_words f = 0"
  by (cases f) (simp add: zero_words_def rd.simps)

text \<open>The packet type and the state survive a write to a field that is disjoint from them.\<close>

lemma pkt_type_wr:
  "fld_ok f \<Longrightarrow> fld_disjoint f (Fld 0 23 5) \<Longrightarrow> pkt_type (wr f v e) = pkt_type e"
  by (simp add: pkt_type_def foe_fld rd_wr_other)

lemma bound_wr:
  "fld_ok f \<Longrightarrow> fld_disjoint f (Fld 0 28 2) \<Longrightarrow> entry_hnat_is_bound (wr f v e) = entry_hnat_is_bound e"
  by (simp add: entry_hnat_is_bound_def foe_fld rd_wr_other)

lemma grp_cong:
  "pkt_type e = pkt_type e' \<Longrightarrow> IS_IPV4_GRP e = IS_IPV4_GRP e'"
  "pkt_type e = pkt_type e' \<Longrightarrow> IS_IPV6_GRP e = IS_IPV6_GRP e'"
  by (simp_all add: IS_IPV4_GRP_def IS_IPV6_GRP_def)

section \<open>Memory of an entry\<close>

text \<open>\<open>memcpy\<close> of an entry copies its words; what lies behind them is not the entry's.\<close>

definition foe_copy :: "foe_words \<Rightarrow> foe_words \<Rightarrow> foe_words" where
  "foe_copy src dst = (\<lambda>i. if i < FOE_WORDS then src i else dst i)"

end
