(* ===== verification/Foe_Views.thy ===== *)
theory Foe_Views
  imports Foe_Fields
begin

text \<open>
  The views of the union in \<^verbatim>\<open>struct foe_entry\<close>: the members of one view do not overlap, and which
  members different views share.
\<close>

definition foe_views :: "layout list" where
  "foe_views = [hnat_l2_bridge, hnat_ipv4_hnat, hnat_ipv4_hnapt, hnat_ipv4_dslite, hnat_ipv4_mape,
     hnat_ipv6_3t_route, hnat_ipv6_5t_route, hnat_ipv6_6rd, hnat_ipv6_hnapt]"

lemma views_ok: "list_all (layout_ok 32) foe_views"
  by code_simp

lemma views_fit: "list_all (\<lambda>l. layout_bits l \<le> 32 * (FOE_WORDS - 1)) foe_views"
  by code_simp

section \<open>Members of one view\<close>

lemma member_at_ge: "member_at pos l m = Some (p, n) \<Longrightarrow> pos \<le> p \<and> (m, n) \<in> set l"
proof (induction pos l m rule: member_at.induct)
  case (2 pos k n' l m)
  then show ?case by (auto split: if_splits)
qed simp

lemma member_at_defined: "m \<in> set (map fst l) \<Longrightarrow> \<exists>p n. member_at pos l m = Some (p, n)"
proof (induction l arbitrary: pos)
  case (Cons kv l)
  then show ?case by (cases kv) auto
qed simp

lemma member_at_apart:
  assumes "member_at pos l m = Some (p, n)" "member_at pos l m' = Some (p', n')" "m \<noteq> m'"
  shows "p + n \<le> p' \<or> p' + n' \<le> p"
  using assms
proof (induction l arbitrary: pos)
  case (Cons kv l)
  obtain k w where kv: "kv = (k, w)" by (cases kv)
  consider "k = m" | "k = m'" | "k \<noteq> m" "k \<noteq> m'" by blast
  then show ?case
  proof cases
    case 1
    then have "member_at (pos + w) l m' = Some (p', n')" "(p, n) = (pos, w)" using Cons.prems kv by auto
    then show ?thesis using member_at_ge by fastforce
  next
    case 2
    then have "member_at (pos + w) l m = Some (p, n)" "(p', n') = (pos, w)" using Cons.prems kv by auto
    then show ?thesis using member_at_ge by fastforce
  next
    case 3
    then show ?thesis using Cons kv by auto
  qed
qed simp

lemma places_apart:
  fixes p p' n n' :: nat
  assumes "p + n \<le> p' \<or> p' + n' \<le> p"
  shows "fld_disjoint (Fld (p div 32) (p mod 32) n) (Fld (p' div 32) (p' mod 32) n')"
proof -
  have "p mod 32 + n \<le> p' mod 32 \<or> p' mod 32 + n' \<le> p mod 32" if "p div 32 = p' div 32"
  proof -
    have "p = 32 * (p div 32) + p mod 32" "p' = 32 * (p' div 32) + p' mod 32"
      by (simp_all only: mult_div_mod_eq)
    then show ?thesis using assms that by linarith
  qed
  then show ?thesis by auto
qed

lemma members_disjoint:
  assumes "m \<in> set (map fst l)" "m' \<in> set (map fst l)" "m \<noteq> m'"
  shows "fld_disjoint (in_view l m) (in_view l m')"
proof -
  obtain p n p' n' where at: "member_at 32 l m = Some (p, n)" "member_at 32 l m' = Some (p', n')"
    using member_at_defined [OF assms(1)] member_at_defined [OF assms(2)] by blast
  show ?thesis
    using places_apart [OF member_at_apart [OF at assms(3)]] at by (simp add: in_view_def fld_at_def)
qed

lemma member_at_ok:
  "layout_ok pos l \<Longrightarrow> member_at pos l m = Some (p, n) \<Longrightarrow> p mod 32 + n \<le> 32"
  by (induction pos l m rule: member_at.induct) (auto split: if_splits)

lemma member_ok:
  assumes "layout_ok 32 l"
  shows "fld_ok (in_view l m)"
  using member_at_ok [OF assms, of m] by (auto simp: in_view_def fld_at_def split: option.split)

text \<open>The information block is in no view.\<close>

lemma member_word: "m \<in> set (map fst l) \<Longrightarrow> fld_word (in_view l m) \<ge> 1"
proof -
  assume "m \<in> set (map fst l)"
  then obtain p n where "member_at 32 l m = Some (p, n)" using member_at_defined by blast
  then show ?thesis using member_at_ge [of 32 l m p n] by (auto simp: in_view_def fld_at_def)
qed

section \<open>Views that share members\<close>

definition ipv6_views :: "layout list" where
  "ipv6_views = [hnat_ipv4_dslite, hnat_ipv4_mape, hnat_ipv6_3t_route, hnat_ipv6_5t_route, hnat_ipv6_6rd,
     hnat_ipv6_hnapt]"

definition l2_members :: "string list" where
  "l2_members = [''info_blk2'', ''vlan1'', ''sp_tag'', ''dmac_hi'', ''vlan2'', ''dmac_lo'', ''smac_hi'',
     ''pppoe_id'', ''smac_lo'']"

definition l2_places :: "field list" where
  "l2_places = [Fld 14 0 32, Fld 15 0 16, Fld 15 16 16, Fld 16 0 32, Fld 17 0 16, Fld 17 16 16, Fld 18 0 32,
     Fld 19 0 16, Fld 19 16 16]"

lemma l2_ipv4_dslite: "map (in_view hnat_ipv4_dslite) l2_members = l2_places"
  by code_simp

lemma l2_ipv4_mape: "map (in_view hnat_ipv4_mape) l2_members = l2_places"
  by code_simp

lemma l2_ipv6_3t_route: "map (in_view hnat_ipv6_3t_route) l2_members = l2_places"
  by code_simp

lemma l2_ipv6_5t_route: "map (in_view hnat_ipv6_5t_route) l2_members = l2_places"
  by code_simp

lemma l2_ipv6_6rd: "map (in_view hnat_ipv6_6rd) l2_members = l2_places"
  by code_simp

lemma l2_ipv6_hnapt: "map (in_view hnat_ipv6_hnapt) l2_members = l2_places"
  by code_simp

lemma ipv6_views_agree: "list_all (\<lambda>l. map (in_view l) l2_members = l2_places) ipv6_views"
  by (simp only: ipv6_views_def list.pred_inject l2_ipv4_dslite l2_ipv4_mape l2_ipv6_3t_route
      l2_ipv6_5t_route l2_ipv6_6rd l2_ipv6_hnapt simp_thms)

lemma tport_places:
  "map (\<lambda>l. in_view l ''tport_id'') ipv6_views
     = [Fld 23 16 4, Fld 26 16 4, Fld 23 16 4, Fld 23 16 4, Fld 23 16 4, Fld 28 16 4]"
  by code_simp

text \<open>The structure of IPv4 NAT entries is a word shorter than the one the code uses for them.\<close>

lemma hnat_view_short:
  "map (in_view hnat_ipv4_hnat) [''vlan1'', ''dmac_hi''] = [Fld 10 0 16, Fld 11 0 32] \<and>
   map (in_view hnat_ipv4_hnapt) [''vlan1'', ''dmac_hi''] = [Fld 11 0 16, Fld 12 0 32]"
  by code_simp

end
