(* ===== verification/Foe_Regs.thy ===== *)
theory Foe_Regs
  imports Foe_Fields
begin

text \<open>
  The registers of a packet engine, \<^verbatim>\<open>mtk_hnat/hnat.c\<close> and \<^verbatim>\<open>hnat.h\<close>: the accessors
  \<open>cr_set_bits\<close>, \<open>cr_clr_bits\<close> and \<open>cr_set_field\<close>, the command interface of the entry cache
  (search, write a line, dump) and the cache flush.  What the hardware does by itself is the
  parameter \<open>ppe_dev\<close>.
\<close>

section \<open>Register accessors\<close>

type_synonym regfile = "int \<Rightarrow> u32"

definition cr_set_bits :: "int \<Rightarrow> u32 \<Rightarrow> regfile \<Rightarrow> regfile" where
  "cr_set_bits reg bs r = r(reg := r reg OR bs)"

definition cr_clr_bits :: "int \<Rightarrow> u32 \<Rightarrow> regfile \<Rightarrow> regfile" where
  "cr_clr_bits reg bs r = r(reg := r reg AND NOT bs)"

text \<open>The value is shifted to the lowest bit of the mask and not cut to its width.  A mask of 0
  (a shift by -1) does not occur.\<close>

definition field_shift :: "u32 \<Rightarrow> nat" where
  "field_shift field = (case ffs field of None \<Rightarrow> 0 | Some n \<Rightarrow> n)"

definition cr_set_field :: "int \<Rightarrow> u32 \<Rightarrow> u32 \<Rightarrow> regfile \<Rightarrow> regfile" where
  "cr_set_field reg field val r =
     r(reg := (r reg AND NOT field) OR push_bit (field_shift field) val)"

definition FIELD_GET :: "u32 \<Rightarrow> u32 \<Rightarrow> u32" where
  "FIELD_GET field v = drop_bit (field_shift field) (v AND field)"

text \<open>The offsets and masks of \<^verbatim>\<open>hnat.h\<close> that the code below uses.\<close>

definition PPE_FLOW_CFG :: int where "PPE_FLOW_CFG = 0x04"
definition PPE_IP_PROT_CHK :: int where "PPE_IP_PROT_CHK = 0x08"
definition PPE_IP_PROT_0 :: int where "PPE_IP_PROT_0 = 0x0C"
definition PPE_IP_PROT_1 :: int where "PPE_IP_PROT_1 = 0x10"
definition PPE_IP_PROT_2 :: int where "PPE_IP_PROT_2 = 0x14"
definition PPE_IP_PROT_3 :: int where "PPE_IP_PROT_3 = 0x18"
definition PPE_TB_CFG :: int where "PPE_TB_CFG = 0x1C"
definition PPE_TB_BASE :: int where "PPE_TB_BASE = 0x20"
definition PPE_BNDR :: int where "PPE_BNDR = 0x28"
definition PPE_BIND_LMT_0 :: int where "PPE_BIND_LMT_0 = 0x2C"
definition PPE_BIND_LMT_1 :: int where "PPE_BIND_LMT_1 = 0x30"
definition PPE_KA :: int where "PPE_KA = 0x34"
definition PPE_UNB_AGE :: int where "PPE_UNB_AGE = 0x38"
definition PPE_BND_AGE_0 :: int where "PPE_BND_AGE_0 = 0x3C"
definition PPE_BND_AGE_1 :: int where "PPE_BND_AGE_1 = 0x40"
definition PPE_HASH_SEED :: int where "PPE_HASH_SEED = 0x44"
definition PPE_DFT_CPORT :: int where "PPE_DFT_CPORT = 0x48"
definition PPE_DFT_CPORT1 :: int where "PPE_DFT_CPORT1 = 0x4C"
definition PPE_CAH_CTRL :: int where "PPE_CAH_CTRL = 0x120"
definition PPE_CAH_TAG_SRH :: int where "PPE_CAH_TAG_SRH = 0x124"
definition PPE_CAH_LINE_RW :: int where "PPE_CAH_LINE_RW = 0x128"
definition PPE_CAH_WDATA :: int where "PPE_CAH_WDATA = 0x12C"
definition PPE_CAH_RDATA :: int where "PPE_CAH_RDATA = 0x130"
definition PPE_MIB_CFG :: int where "PPE_MIB_CFG = 0x134"
definition PPE_MIB_TB_BASE :: int where "PPE_MIB_TB_BASE = 0x138"
definition PPE_MIB_CAH_CTRL :: int where "PPE_MIB_CAH_CTRL = 0x150"
definition PPE_SB_FIFO_DBG :: int where "PPE_SB_FIFO_DBG = 0x170"
definition PPE_SBW_CTRL :: int where "PPE_SBW_CTRL = 0x174"
definition PPE_CAH_DBG :: int where "PPE_CAH_DBG = 0x190"

lemmas ppe_reg_defs = PPE_GLO_CFG_def PPE_FLOW_CFG_def PPE_IP_PROT_CHK_def PPE_IP_PROT_0_def
  PPE_IP_PROT_1_def PPE_IP_PROT_2_def PPE_IP_PROT_3_def PPE_TB_CFG_def PPE_TB_BASE_def PPE_BNDR_def
  PPE_BIND_LMT_0_def PPE_BIND_LMT_1_def PPE_KA_def PPE_UNB_AGE_def PPE_BND_AGE_0_def
  PPE_BND_AGE_1_def PPE_HASH_SEED_def PPE_DFT_CPORT_def PPE_DFT_CPORT1_def PPE_CAH_CTRL_def
  PPE_CAH_TAG_SRH_def PPE_CAH_LINE_RW_def PPE_CAH_WDATA_def PPE_CAH_RDATA_def PPE_MIB_CFG_def
  PPE_MIB_TB_BASE_def PPE_MIB_CAH_CTRL_def PPE_SB_FIFO_DBG_def PPE_SBW_CTRL_def PPE_CAH_DBG_def

definition TB_ETRY_NUM :: u32 where "TB_ETRY_NUM = push_bit 0 0x7"
definition TB_ENTRY_SIZE :: u32 where "TB_ENTRY_SIZE = push_bit 3 0x1"
definition SMA :: u32 where "SMA = push_bit 4 0x3"
definition NTU_AGE :: u32 where "NTU_AGE = push_bit 7 0x1"
definition UNBD_AGE :: u32 where "UNBD_AGE = push_bit 8 0x1"
definition TCP_AGE :: u32 where "TCP_AGE = push_bit 9 0x1"
definition UDP_AGE :: u32 where "UDP_AGE = push_bit 10 0x1"
definition FIN_AGE :: u32 where "FIN_AGE = push_bit 11 0x1"
definition KA_CFG :: u32 where "KA_CFG = push_bit 12 0x3"
definition HASH_MODE :: u32 where "HASH_MODE = push_bit 14 0x3"
definition SCAN_MODE :: u32 where "SCAN_MODE = push_bit 16 0x3"
definition XMODE :: u32 where "XMODE = push_bit 18 0x3"
definition TICK_SEL :: u32 where "TICK_SEL = push_bit 24 0x1"
definition IS_SP_TAG_EN :: u32 where "IS_SP_TAG_EN = push_bit 26 0x1"
definition CAH_EN :: u32 where "CAH_EN = push_bit 0 0x1"
definition CAH_REQ :: u32 where "CAH_REQ = push_bit 8 0x1"
definition CAH_X_MODE :: u32 where "CAH_X_MODE = push_bit 9 0x1"
definition CAH_CMD :: u32 where "CAH_CMD = push_bit 12 0x3"
definition CAH_DATA_SEL :: u32 where "CAH_DATA_SEL = push_bit 18 0x3"
definition LINE_RW :: u32 where "LINE_RW = push_bit 0 0xffff"
definition OFFSET_RW :: u32 where "OFFSET_RW = push_bit 16 0xff"
definition TAG_SRH :: u32 where "TAG_SRH = push_bit 0 0xffff"
definition CAH_DBG_BUSY :: u32 where "CAH_DBG_BUSY = push_bit 0 0xf"

lemmas ppe_mask_defs = TB_ETRY_NUM_def TB_ENTRY_SIZE_def SMA_def NTU_AGE_def UNBD_AGE_def TCP_AGE_def
  UDP_AGE_def FIN_AGE_def KA_CFG_def HASH_MODE_def SCAN_MODE_def XMODE_def TICK_SEL_def
  IS_SP_TAG_EN_def CAH_EN_def CAH_REQ_def CAH_X_MODE_def CAH_CMD_def CAH_DATA_SEL_def LINE_RW_def
  OFFSET_RW_def TAG_SRH_def CAH_DBG_BUSY_def

definition BIT :: "nat \<Rightarrow> u32" where
  "BIT n = push_bit n 1"

text \<open>The position and the width of a mask: \<open>mask_place m lo n\<close> when \<open>m\<close> has exactly the bits
  \<open>lo\<close> to \<open>lo + n - 1\<close>.\<close>

definition mask_place :: "u32 \<Rightarrow> nat \<Rightarrow> nat \<Rightarrow> bool" where
  "mask_place m lo n = (m = push_bit lo (mask n) \<and> field_shift m = lo \<and> lo + n \<le> 32)"

lemma mask_places:
  "mask_place TB_ETRY_NUM 0 3 \<and> mask_place TB_ENTRY_SIZE 3 1 \<and> mask_place SMA 4 2 \<and>
   mask_place NTU_AGE 7 1 \<and> mask_place UNBD_AGE 8 1 \<and> mask_place TCP_AGE 9 1 \<and>
   mask_place UDP_AGE 10 1 \<and> mask_place FIN_AGE 11 1 \<and> mask_place KA_CFG 12 2 \<and>
   mask_place HASH_MODE 14 2 \<and> mask_place SCAN_MODE 16 2 \<and> mask_place XMODE 18 2 \<and>
   mask_place TICK_SEL 24 1 \<and> mask_place IS_SP_TAG_EN 26 1 \<and> mask_place CAH_EN 0 1 \<and>
   mask_place CAH_REQ 8 1 \<and> mask_place CAH_X_MODE 9 1 \<and> mask_place CAH_CMD 12 2 \<and>
   mask_place CAH_DATA_SEL 18 2 \<and> mask_place LINE_RW 0 16 \<and> mask_place OFFSET_RW 16 8 \<and>
   mask_place TAG_SRH 0 16"
  by code_simp

text \<open>A value that fits makes \<open>cr_set_field\<close> a write to the field.\<close>

lemma cr_set_field_wr:
  assumes "mask_place m lo n" and "take_bit n v = v"
  shows "cr_set_field reg m v r = wr (Fld reg lo n) v r"
  using assms unfolding mask_place_def by (auto simp: cr_set_field_def wr.simps)

lemma FIELD_GET_rd:
  assumes "mask_place m lo n"
  shows "FIELD_GET m (r reg) = rd r (Fld reg lo n)"
proof -
  have "drop_bit lo (r reg AND push_bit lo (mask n)) = take_bit n (drop_bit lo (r reg))"
    using assms by (auto intro!: bit_word_eqI simp: bit_simps mask_place_def)
  moreover from assms have "field_shift m = lo" and "m = push_bit lo (mask n)"
    unfolding mask_place_def by blast+
  ultimately show ?thesis by (simp only: FIELD_GET_def rd.simps)
qed

section \<open>The entry cache\<close>

text \<open>
  \<open>d_busy r k\<close>: the request bit still reads as set the \<open>k\<close>-th time it is polled after a request made
  with the registers \<open>r\<close>; \<open>d_exec r\<close>: the registers once the command is done; \<open>d_dbg k\<close>: the
  \<open>k\<close>-th read of the cache status during a flush shows it busy.
\<close>

record ppe_dev =
  d_busy :: "regfile \<Rightarrow> nat \<Rightarrow> bool"
  d_exec :: "regfile \<Rightarrow> regfile"
  d_dbg :: "nat \<Rightarrow> bool"

text \<open>An engine: its registers, and the cache commands and cache flushes it has been given, each with
  the registers it was given with.\<close>

datatype cah_op = Cah_cmd regfile | Cah_flush regfile

record ppe =
  pr :: regfile
  p_ops :: "cah_op list"

definition with_regs :: "(regfile \<Rightarrow> regfile) \<Rightarrow> ppe \<Rightarrow> ppe" where
  "with_regs f p = p\<lparr>pr := f (pr p)\<rparr>"

definition set_field :: "int \<Rightarrow> u32 \<Rightarrow> u32 \<Rightarrow> ppe \<Rightarrow> ppe" where
  "set_field reg m v = with_regs (cr_set_field reg m v)"

definition ppe_writel :: "u32 \<Rightarrow> int \<Rightarrow> ppe \<Rightarrow> ppe" where
  "ppe_writel v reg = with_regs (\<lambda>r. r(reg := v))"

text \<open>The polling loop of \<open>is_cah_ctrl_request_done\<close>: at most 1000 reads.\<close>

fun poll_done :: "(nat \<Rightarrow> bool) \<Rightarrow> nat \<Rightarrow> nat \<Rightarrow> bool" where
  "poll_done busy k 0 = False"
| "poll_done busy k (Suc n) = (if \<not> busy k then True else poll_done busy (Suc k) n)"

lemma poll_done_iff: "poll_done busy k n \<longleftrightarrow> (\<exists>i < n. \<not> busy (k + i))"
proof (induction n arbitrary: k)
  case (Suc n)
  show ?case
  proof
    assume "poll_done busy k (Suc n)"
    then consider "\<not> busy k" | i where "i < n" "\<not> busy (Suc k + i)"
      using Suc.IH [of "Suc k"] by (auto split: if_splits)
    then show "\<exists>i < Suc n. \<not> busy (k + i)"
      by cases (use zero_less_Suc in \<open>force\<close>, metis Suc_less_eq add_Suc_shift)
  next
    assume "\<exists>i < Suc n. \<not> busy (k + i)"
    then obtain i where "i < Suc n" "\<not> busy (k + i)" by blast
    then show "poll_done busy k (Suc n)"
      using Suc.IH [of "Suc k"] by (cases i) auto
  qed
qed simp

definition is_cah_ctrl_request_done :: "ppe_dev \<Rightarrow> ppe \<Rightarrow> bool" where
  "is_cah_ctrl_request_done d p = poll_done (d_busy d (pr p)) 0 1000"

text \<open>A request: the bit is set, the command recorded, and polled for; \<open>False\<close> is a time-out.\<close>

definition cah_request :: "ppe_dev \<Rightarrow> ppe \<Rightarrow> bool \<times> ppe" where
  "cah_request d p =
     (let p1 = set_field PPE_CAH_CTRL CAH_REQ 1 p; p2 = p1\<lparr>p_ops := p_ops p1 @ [Cah_cmd (pr p1)]\<rparr>
      in if is_cah_ctrl_request_done d p2 then (True, with_regs (d_exec d) p2) else (False, p2))"

definition cah_search :: "ppe_dev \<Rightarrow> u32 \<Rightarrow> ppe \<Rightarrow> int \<times> ppe" where
  "cah_search d tag p =
     (let p1 = set_field PPE_CAH_CTRL CAH_CMD 0 (set_field PPE_CAH_TAG_SRH TAG_SRH tag p)
      in case cah_request d p1 of
           (False, p2) \<Rightarrow> (- EBUSY, p2)
         | (True, p2) \<Rightarrow>
             let tag_srh = pr p2 PPE_CAH_TAG_SRH
             in if drop_bit 31 tag_srh AND 1 = 0 then (- 1, p2)
                else (uint (drop_bit 16 tag_srh AND 0x7f), p2))"

text \<open>One word of a line, and the tag of a line.\<close>

definition cah_write_word :: "ppe_dev \<Rightarrow> u32 \<Rightarrow> foe_words \<Rightarrow> nat \<Rightarrow> ppe \<Rightarrow> ppe" where
  "cah_write_word d line data i p =
     snd (cah_request d
       (set_field PPE_CAH_CTRL CAH_CMD 3
         (ppe_writel (data i) PPE_CAH_WDATA
           (set_field PPE_CAH_CTRL CAH_DATA_SEL (of_nat (i mod 4))
             (set_field PPE_CAH_LINE_RW OFFSET_RW (of_nat (i div 4))
               (set_field PPE_CAH_LINE_RW LINE_RW line p))))))"

definition cah_write_tag :: "ppe_dev \<Rightarrow> u32 \<Rightarrow> u32 \<Rightarrow> u32 \<Rightarrow> ppe \<Rightarrow> ppe" where
  "cah_write_tag d line tag state p =
     snd (cah_request d
       (set_field PPE_CAH_CTRL CAH_CMD 3
         (ppe_writel (push_bit 16 state OR tag) PPE_CAH_WDATA
           (set_field PPE_CAH_CTRL CAH_DATA_SEL 0
             (set_field PPE_CAH_LINE_RW OFFSET_RW 0x1F
               (set_field PPE_CAH_LINE_RW LINE_RW line p))))))"

definition MAX_PPE_CACHE_NUM :: nat where "MAX_PPE_CACHE_NUM = 128"

text \<open>\<open>__hnat_write_cache_line\<close>; \<open>None\<close> is a null data pointer.\<close>

definition write_cache_line ::
  "ppe_dev \<Rightarrow> u32 \<Rightarrow> u32 \<Rightarrow> u32 \<Rightarrow> foe_words option \<Rightarrow> ppe \<Rightarrow> ppe" where
  "write_cache_line d line tag state data p =
     (if unat line \<ge> MAX_PPE_CACHE_NUM then p
      else if state > 3 then p
      else cah_write_tag d line tag state
             (case data of None \<Rightarrow> p | Some w \<Rightarrow> fold (cah_write_word d line w) [0 ..< FOE_WORDS] p))"

text \<open>\<open>hnat_write_cache_line\<close>: learning, scanning and the cache are off while the lines are written,
  and restored afterwards.  A negative line writes all of them.\<close>

definition hnat_write_cache_line ::
  "ppe_dev \<Rightarrow> int \<Rightarrow> u32 \<Rightarrow> u32 \<Rightarrow> foe_words option \<Rightarrow> ppe \<Rightarrow> int \<times> ppe" where
  "hnat_write_cache_line d line tag state data p =
     (if line \<ge> int MAX_PPE_CACHE_NUM then (- EINVAL, p)
      else if state > 3 then (- EINVAL, p)
      else
        let flow_cfg = pr p PPE_FLOW_CFG;
            p1 = ppe_writel 0 PPE_FLOW_CFG p;
            scan_mode = FIELD_GET SCAN_MODE (pr p1 PPE_TB_CFG);
            p2 = set_field PPE_TB_CFG SCAN_MODE 0 p1;
            cah_en = pr p2 PPE_CAH_CTRL AND CAH_EN;
            p3 = set_field PPE_CAH_CTRL CAH_EN 0 p2;
            p4 = (if line < 0
                  then fold (\<lambda>i. write_cache_line d (of_nat i) tag state data) [0 ..< MAX_PPE_CACHE_NUM] p3
                  else write_cache_line d (word_of_int line) tag state data p3);
            p5 = set_field PPE_CAH_CTRL CAH_EN cah_en p4;
            p6 = set_field PPE_TB_CFG SCAN_MODE scan_mode p5
        in (0, ppe_writel flow_cfg PPE_FLOW_CFG p6))"

section \<open>Flushing the cache\<close>

definition flow_cfg_mask :: u32 where
  "flow_cfg_mask = BIT 0 OR BIT 1 OR BIT 2 OR BIT 3 OR BIT 16 OR BIT 17 OR BIT 19 OR BIT 20 OR BIT 25
     OR BIT 29 OR BIT 30"

text \<open>The idle check: up to ten rounds of three reads, all of which must show the cache idle.\<close>

definition idle_round :: "(nat \<Rightarrow> bool) \<Rightarrow> nat \<Rightarrow> bool" where
  "idle_round busy k = list_all (\<lambda>i. \<not> busy (3 * k + i)) [0 ..< 3]"

definition cah_idle :: "ppe_dev \<Rightarrow> bool" where
  "cah_idle d = list_ex (idle_round (d_dbg d)) [0 ..< 10]"

text \<open>\<open>__hnat_cache_clr\<close>, with the tag of the line that stays locked (\<open>0x7FFF\<close> from version 2 on).\<close>

definition cache_clr :: "ppe_dev \<Rightarrow> u32 \<Rightarrow> ppe \<Rightarrow> ppe" where
  "cache_clr d tag p =
     (let flow_cfg = pr p PPE_FLOW_CFG;
          p1 = ppe_writel (flow_cfg AND flow_cfg_mask) PPE_FLOW_CFG p
      in if \<not> cah_idle d then ppe_writel flow_cfg PPE_FLOW_CFG p1
         else
           let scan_mode = FIELD_GET SCAN_MODE (pr p1 PPE_TB_CFG);
               p2 = set_field PPE_TB_CFG SCAN_MODE 0 p1;
               cah_en = pr p2 PPE_CAH_CTRL AND CAH_EN;
               p3 = set_field PPE_CAH_CTRL CAH_EN 0 p2;
               p4 = set_field PPE_CAH_CTRL CAH_X_MODE 1 p3;
               p5 = set_field PPE_CAH_CTRL CAH_X_MODE 0 (p4\<lparr>p_ops := p_ops p4 @ [Cah_flush (pr p4)]\<rparr>);
               p6 = write_cache_line d 0 tag 3 None p5;
               p7 = set_field PPE_CAH_CTRL CAH_EN cah_en p6;
               p8 = set_field PPE_TB_CFG SCAN_MODE scan_mode p7
           in ppe_writel flow_cfg PPE_FLOW_CFG p8)"

end
