(* ===== verification/Foe_Regs_Props.thy ===== *)
theory Foe_Regs_Props
  imports Foe_Regs
begin

text \<open>
  What the cache operations of \<open>Foe_Regs\<close> leave in the registers of the engine, and which commands
  they give, for a device that keeps to its interface.
\<close>

section \<open>Devices\<close>

text \<open>A command changes only the registers of the interface, and ends the request.\<close>

definition cah_results :: "int set" where
  "cah_results = {PPE_CAH_CTRL, PPE_CAH_TAG_SRH, PPE_CAH_RDATA}"

definition cah_iface :: "int set" where
  "cah_iface = {PPE_CAH_CTRL, PPE_CAH_TAG_SRH, PPE_CAH_RDATA, PPE_CAH_LINE_RW, PPE_CAH_WDATA}"

definition dev_ok :: "ppe_dev \<Rightarrow> bool" where
  "dev_ok d = ((\<forall>r reg. reg \<notin> cah_results \<longrightarrow> d_exec d r reg = r reg)
     \<and> (\<forall>r. d_exec d r PPE_CAH_CTRL = r PPE_CAH_CTRL AND NOT CAH_REQ))"

lemma dev_ok_other: "dev_ok d \<Longrightarrow> reg \<notin> cah_results \<Longrightarrow> d_exec d r reg = r reg"
  by (simp add: dev_ok_def)

section \<open>Register accesses\<close>

lemma mask_placeD: "mask_place m lo n \<Longrightarrow> lo + n \<le> 32"
  by (simp add: mask_place_def)

lemma pr_with_regs [simp]: "pr (with_regs f p) = f (pr p)" "p_ops (with_regs f p) = p_ops p"
  by (simp_all add: with_regs_def)

lemma pr_set_field:
  assumes "mask_place m lo n" and "take_bit n v = v"
  shows "pr (set_field reg m v p) = wr (Fld reg lo n) v (pr p)"
  by (simp add: set_field_def cr_set_field_wr [OF assms])

lemma set_field_other [simp]: "reg \<noteq> reg' \<Longrightarrow> pr (set_field reg' m v p) reg = pr p reg"
  by (simp add: set_field_def cr_set_field_def)

lemma set_field_ops [simp]: "p_ops (set_field reg m v p) = p_ops p"
  by (simp add: set_field_def)

lemma ppe_writel_pr [simp]:
  "pr (ppe_writel v reg p) = (pr p)(reg := v)" "p_ops (ppe_writel v reg p) = p_ops p"
  by (auto simp: ppe_writel_def fun_eq_iff)

lemma rd_upd_other [simp]: "fld_word f \<noteq> reg \<Longrightarrow> rd (r(reg := v)) f = rd r f"
  by (cases f) (simp add: rd.simps)

lemma rd_wr_word: "fld_word f \<noteq> fld_word g \<Longrightarrow> rd (wr f v r) g = rd r g"
  by (cases f; cases g) (simp add: rd.simps wr.simps)

lemma rd_cong: "r (fld_word f) = r' (fld_word f) \<Longrightarrow> rd r f = rd r' f"
  by (cases f) (simp add: rd.simps)

lemma dev_ok_ctrl:
  assumes "dev_ok d" and "fld_word f = PPE_CAH_CTRL" "fld_ok f" "fld_disjoint f (Fld PPE_CAH_CTRL 8 1)"
  shows "rd (d_exec d r) f = rd r f"
proof -
  have "CAH_REQ = push_bit 8 (mask 1)"
    by code_simp
  then have "d_exec d r PPE_CAH_CTRL = wr (Fld PPE_CAH_CTRL 8 1) 0 r PPE_CAH_CTRL"
    using assms(1) by (simp only: dev_ok_def wr.simps) (simp add: fun_upd_def)
  then have "rd (d_exec d r) f = rd (wr (Fld PPE_CAH_CTRL 8 1) 0 r) f"
    using assms(2) by (intro rd_cong) simp
  also have "\<dots> = rd r f"
    using assms(3,4) by (intro rd_wr_other) (cases f; auto)+
  finally show ?thesis .
qed

section \<open>Requests and lines\<close>

lemma request_other:
  assumes "dev_ok d" and "reg \<notin> cah_results"
  shows "pr (snd (cah_request d p)) reg = pr p reg"
proof -
  have "reg \<noteq> PPE_CAH_CTRL" using assms(2) by (auto simp: cah_results_def)
  then show ?thesis
    using assms by (simp add: cah_request_def Let_def dev_ok_other)
qed

lemma request_ctrl:
  assumes "dev_ok d" and "fld_word f = PPE_CAH_CTRL" "fld_ok f" "fld_disjoint f (Fld PPE_CAH_CTRL 8 1)"
  shows "rd (pr (snd (cah_request d p))) f = rd (pr p) f"
proof -
  have dis: "fld_disjoint (Fld PPE_CAH_CTRL 8 1) f"
    using assms(4) by (cases f) auto
  have "rd (pr (set_field PPE_CAH_CTRL CAH_REQ 1 p)) f = rd (pr p) f"
    using assms(3) dis mask_places
    by (subst pr_set_field [where lo = 8 and n = 1]) (simp_all add: rd_wr_other)
  then show ?thesis
    using assms by (simp add: cah_request_def Let_def dev_ok_ctrl)
qed

lemma request_ops:
  "p_ops (snd (cah_request d p)) = p_ops p @ [Cah_cmd (pr (set_field PPE_CAH_CTRL CAH_REQ 1 p))]"
  by (simp add: cah_request_def Let_def)

text \<open>The commands for a word and for the tag leave everything outside the interface alone, and in the
  control register the fields below the request bit and the flush bit.\<close>

lemma write_word_other:
  assumes "dev_ok d" and "reg \<notin> cah_iface"
  shows "pr (cah_write_word d line w i p) reg = pr p reg"
  using assms
  by (simp add: cah_write_word_def request_other cah_results_def cah_iface_def)

lemma write_tag_other:
  assumes "dev_ok d" and "reg \<notin> cah_iface"
  shows "pr (cah_write_tag d line tag st p) reg = pr p reg"
  using assms
  by (simp add: cah_write_tag_def request_other cah_results_def cah_iface_def)

lemma set_field_rd_other_place:
  assumes "mask_place m lo n" "take_bit n v = v" "fld_ok f" "fld_disjoint (Fld reg lo n) f"
  shows "rd (pr (set_field reg m v p)) f = rd (pr p) f"
  using assms mask_placeD [OF assms(1)] by (simp add: pr_set_field rd_wr_other)

lemma set_field_rd_other_reg [simp]:
  "fld_word f \<noteq> reg \<Longrightarrow> rd (pr (set_field reg m v p)) f = rd (pr p) f"
  by (rule rd_cong) simp

lemma reg_neq [simp]:
  "PPE_CAH_CTRL \<noteq> PPE_CAH_LINE_RW" "PPE_CAH_CTRL \<noteq> PPE_CAH_WDATA" "PPE_CAH_LINE_RW \<noteq> PPE_CAH_CTRL"
  "PPE_CAH_WDATA \<noteq> PPE_CAH_CTRL" "PPE_CAH_LINE_RW \<noteq> PPE_CAH_WDATA" "PPE_CAH_WDATA \<noteq> PPE_CAH_LINE_RW"
  "PPE_TB_CFG \<noteq> PPE_CAH_CTRL" "PPE_CAH_CTRL \<noteq> PPE_TB_CFG" "PPE_FLOW_CFG \<noteq> PPE_TB_CFG"
  "PPE_TB_CFG \<noteq> PPE_FLOW_CFG" "PPE_FLOW_CFG \<noteq> PPE_CAH_CTRL" "PPE_CAH_CTRL \<noteq> PPE_FLOW_CFG"
  by (simp_all add: ppe_reg_defs)

lemma of_nat_mod4_fits: "take_bit 2 (of_nat (i mod 4) :: u32) = of_nat (i mod 4)"
proof -
  have "i mod 4 < 4" by simp
  then have "i mod 4 \<in> {0, 1, 2, 3}" by auto
  then show ?thesis by auto
qed

lemma write_word_ctrl:
  assumes "dev_ok d" and "f = Fld PPE_CAH_CTRL 0 1 \<or> f = Fld PPE_CAH_CTRL 9 1"
  shows "rd (pr (cah_write_word d line w i p)) f = rd (pr p) f"
proof -
  have f: "fld_word f = PPE_CAH_CTRL" "fld_ok f" "fld_disjoint f (Fld PPE_CAH_CTRL 8 1)"
      "fld_disjoint (Fld PPE_CAH_CTRL 12 2) f" "fld_disjoint (Fld PPE_CAH_CTRL 18 2) f"
    using assms(2) by auto
  show ?thesis
    using f assms(1) mask_places of_nat_mod4_fits [of i]
    by (simp add: cah_write_word_def request_ctrl set_field_rd_other_place [where lo = 12 and n = 2]
        set_field_rd_other_place [where lo = 18 and n = 2])
qed

lemma write_tag_ctrl:
  assumes "dev_ok d" and "f = Fld PPE_CAH_CTRL 0 1 \<or> f = Fld PPE_CAH_CTRL 9 1"
  shows "rd (pr (cah_write_tag d line tag st p)) f = rd (pr p) f"
proof -
  have f: "fld_word f = PPE_CAH_CTRL" "fld_ok f" "fld_disjoint f (Fld PPE_CAH_CTRL 8 1)"
      "fld_disjoint (Fld PPE_CAH_CTRL 12 2) f" "fld_disjoint (Fld PPE_CAH_CTRL 18 2) f"
    using assms(2) by auto
  show ?thesis
    using f assms(1) mask_places
    by (simp add: cah_write_tag_def request_ctrl set_field_rd_other_place [where lo = 12 and n = 2]
        set_field_rd_other_place [where lo = 18 and n = 2])
qed

lemma fold_keeps:
  assumes "\<And>i p. g (F i p) = g p"
  shows "g (fold F is p) = g p"
  by (induction "is" arbitrary: p) (simp_all add: assms)

lemma write_line_other:
  assumes "dev_ok d" and "reg \<notin> cah_iface"
  shows "pr (write_cache_line d line tag st data p) reg = pr p reg"
proof -
  have "pr (fold (cah_write_word d line w) is p) reg = pr p reg" for w "is" p
    by (rule fold_keeps) (rule write_word_other [OF assms])
  then show ?thesis
    using write_tag_other [OF assms] by (simp add: write_cache_line_def split: option.split)
qed

lemma write_line_ctrl:
  assumes "dev_ok d" and "f = Fld PPE_CAH_CTRL 0 1 \<or> f = Fld PPE_CAH_CTRL 9 1"
  shows "rd (pr (write_cache_line d line tag st data p)) f = rd (pr p) f"
proof -
  have "rd (pr (fold (cah_write_word d line w) is p)) f = rd (pr p) f" for w "is" p
    by (rule fold_keeps) (rule write_word_ctrl [OF assms])
  then show ?thesis
    using write_tag_ctrl [OF assms] by (simp add: write_cache_line_def split: option.split)
qed

section \<open>The tag command\<close>

definition tag_command :: "u32 \<Rightarrow> u32 \<Rightarrow> u32 \<Rightarrow> regfile \<Rightarrow> bool" where
  "tag_command line tag st r =
     (r PPE_CAH_WDATA = (push_bit 16 st OR tag) \<and> rd r (Fld PPE_CAH_LINE_RW 0 16) = line
      \<and> rd r (Fld PPE_CAH_LINE_RW 16 8) = 0x1F \<and> rd r (Fld PPE_CAH_CTRL 12 2) = 3
      \<and> rd r (Fld PPE_CAH_CTRL 8 1) = 1)"

lemma write_tag_ops:
  assumes "take_bit 16 line = line"
  shows "\<exists>r. p_ops (cah_write_tag d line tag st p) = p_ops p @ [Cah_cmd r] \<and> tag_command line tag st r
    \<and> (\<forall>reg. reg \<notin> cah_iface \<longrightarrow> r reg = pr p reg)
    \<and> rd r (Fld PPE_CAH_CTRL 0 1) = rd (pr p) (Fld PPE_CAH_CTRL 0 1)"
proof -
  let ?p5 = "set_field PPE_CAH_CTRL CAH_CMD 3
         (ppe_writel (push_bit 16 st OR tag) PPE_CAH_WDATA
           (set_field PPE_CAH_CTRL CAH_DATA_SEL 0
             (set_field PPE_CAH_LINE_RW OFFSET_RW 0x1F
               (set_field PPE_CAH_LINE_RW LINE_RW line p))))"
  let ?r = "pr (set_field PPE_CAH_CTRL CAH_REQ 1 ?p5)"
  have ops: "p_ops (cah_write_tag d line tag st p) = p_ops p @ [Cah_cmd ?r]"
    by (simp add: cah_write_tag_def request_ops)
  have cmd: "tag_command line tag st ?r"
    using assms mask_places
    by (simp add: tag_command_def pr_set_field [where lo = 12 and n = 2] pr_set_field [where lo = 8 and n = 1]
        pr_set_field [where lo = 18 and n = 2] pr_set_field [where lo = 16 and n = 8]
        pr_set_field [where lo = 0 and n = 16] rd_wr_other rd_wr_same)
  have other: "?r reg = pr p reg" if "reg \<notin> cah_iface" for reg
    using that by (simp add: cah_iface_def)
  have en: "rd ?r (Fld PPE_CAH_CTRL 0 1) = rd (pr p) (Fld PPE_CAH_CTRL 0 1)"
    using mask_places
    by (simp add: pr_set_field [where lo = 12 and n = 2] pr_set_field [where lo = 8 and n = 1]
        pr_set_field [where lo = 18 and n = 2] rd_wr_other)
  show ?thesis
    using ops cmd other en by blast
qed

section \<open>The flush\<close>

lemma flush_timeout:
  assumes "\<not> cah_idle d"
  shows "pr (cache_clr d tag p) = pr p" and "p_ops (cache_clr d tag p) = p_ops p"
  using assms by (auto simp: cache_clr_def Let_def fun_eq_iff)

text \<open>The steps of the flush up to the lines being invalidated, and to its end.\<close>

definition flush_off :: "ppe \<Rightarrow> ppe" where
  "flush_off p =
     set_field PPE_CAH_CTRL CAH_X_MODE 1
       (set_field PPE_CAH_CTRL CAH_EN 0
         (set_field PPE_TB_CFG SCAN_MODE 0
           (ppe_writel (pr p PPE_FLOW_CFG AND flow_cfg_mask) PPE_FLOW_CFG p)))"

definition flush_lock :: "ppe_dev \<Rightarrow> u32 \<Rightarrow> ppe \<Rightarrow> ppe" where
  "flush_lock d tag p =
     cah_write_tag d 0 tag 3
       (set_field PPE_CAH_CTRL CAH_X_MODE 0 (p\<lparr>p_ops := p_ops p @ [Cah_flush (pr p)]\<rparr>))"

definition flush_on :: "regfile \<Rightarrow> ppe \<Rightarrow> ppe" where
  "flush_on r p =
     ppe_writel (r PPE_FLOW_CFG) PPE_FLOW_CFG
       (set_field PPE_TB_CFG SCAN_MODE (rd r (Fld PPE_TB_CFG 16 2))
         (set_field PPE_CAH_CTRL CAH_EN (rd r (Fld PPE_CAH_CTRL 0 1)) p))"

lemma cah_en_rd: "r PPE_CAH_CTRL AND CAH_EN = rd r (Fld PPE_CAH_CTRL 0 1)"
proof -
  have "CAH_EN = mask 1" by code_simp
  then show ?thesis by (simp add: rd.simps take_bit_eq_mask)
qed

lemma flush_steps:
  assumes "cah_idle d"
  shows "cache_clr d tag p = flush_on (pr p) (flush_lock d tag (flush_off p))"
proof -
  have scan: "FIELD_GET SCAN_MODE (r PPE_TB_CFG) = rd r (Fld PPE_TB_CFG 16 2)" for r
    using mask_places by (simp add: FIELD_GET_rd)
  show ?thesis
    using assms
    by (simp add: cache_clr_def Let_def flush_on_def flush_lock_def flush_off_def write_cache_line_def
        MAX_PPE_CACHE_NUM_def scan cah_en_rd)
qed

lemma pr_fields:
  "take_bit 1 v = v \<Longrightarrow> pr (set_field reg CAH_EN v p) = wr (Fld reg 0 1) v (pr p)"
  "take_bit 1 v = v \<Longrightarrow> pr (set_field reg CAH_X_MODE v p) = wr (Fld reg 9 1) v (pr p)"
  "take_bit 2 v = v \<Longrightarrow> pr (set_field reg SCAN_MODE v p) = wr (Fld reg 16 2) v (pr p)"
  using mask_places by (auto intro: pr_set_field)

lemma rd_fits: "take_bit n (rd r (Fld w lo n)) = rd r (Fld w lo n)"
  by (simp add: rd.simps)

lemma flush_off_regs:
  "reg \<noteq> PPE_CAH_CTRL \<Longrightarrow> reg \<noteq> PPE_TB_CFG \<Longrightarrow> reg \<noteq> PPE_FLOW_CFG \<Longrightarrow> pr (flush_off p) reg = pr p reg"
  "pr (flush_off p) PPE_FLOW_CFG = pr p PPE_FLOW_CFG AND flow_cfg_mask"
  "p_ops (flush_off p) = p_ops p"
  by (simp_all add: flush_off_def)

lemma flush_off_tb: "pr (flush_off p) PPE_TB_CFG = wr (Fld PPE_TB_CFG 16 2) 0 (pr p) PPE_TB_CFG"
proof -
  have "pr (flush_off p) PPE_TB_CFG
      = wr (Fld PPE_TB_CFG 16 2) 0 ((pr p)(PPE_FLOW_CFG := pr p PPE_FLOW_CFG AND flow_cfg_mask)) PPE_TB_CFG"
    by (simp add: flush_off_def pr_fields(3))
  also have "\<dots> = wr (Fld PPE_TB_CFG 16 2) 0 (pr p) PPE_TB_CFG"
    by (rule wr_cong [of _ "Fld PPE_TB_CFG 16 2", simplified]) simp
  finally show ?thesis .
qed

lemma flush_off_fields:
  "rd (pr (flush_off p)) (Fld PPE_CAH_CTRL 0 1) = 0"
  "rd (pr (flush_off p)) (Fld PPE_CAH_CTRL 9 1) = 1"
  by (simp_all add: flush_off_def pr_fields rd_wr_other rd_wr_same del: One_nat_def)

lemma flush_lock_other:
  assumes "dev_ok d" and "reg \<notin> cah_iface"
  shows "pr (flush_lock d tag p) reg = pr p reg"
  using write_tag_other [OF assms] assms(2) by (simp add: flush_lock_def cah_iface_def)

lemma iface_regs [simp]:
  "PPE_TB_CFG \<notin> cah_iface" "PPE_FLOW_CFG \<notin> cah_iface"
  by (simp_all add: cah_iface_def ppe_reg_defs)

lemma flush_on_regs:
  "reg \<noteq> PPE_CAH_CTRL \<Longrightarrow> reg \<noteq> PPE_TB_CFG \<Longrightarrow> reg \<noteq> PPE_FLOW_CFG \<Longrightarrow> pr (flush_on r p) reg = pr p reg"
  "pr (flush_on r p) PPE_FLOW_CFG = r PPE_FLOW_CFG"
  "pr (flush_on r p) PPE_TB_CFG
     = wr (Fld PPE_TB_CFG 16 2) (rd r (Fld PPE_TB_CFG 16 2)) (pr p) PPE_TB_CFG"
  "p_ops (flush_on r p) = p_ops p"
proof -
  let ?v = "rd r (Fld PPE_TB_CFG 16 2)"
  let ?p = "set_field PPE_CAH_CTRL CAH_EN (rd r (Fld PPE_CAH_CTRL 0 1)) p"
  have "pr (flush_on r p) PPE_TB_CFG = wr (Fld PPE_TB_CFG 16 2) ?v (pr ?p) PPE_TB_CFG"
    by (simp add: flush_on_def pr_fields(3) rd_fits del: One_nat_def)
  also have "\<dots> = wr (Fld PPE_TB_CFG 16 2) ?v (pr p) PPE_TB_CFG"
    by (rule wr_cong [of _ "Fld PPE_TB_CFG 16 2", simplified]) simp
  finally show "pr (flush_on r p) PPE_TB_CFG = wr (Fld PPE_TB_CFG 16 2) ?v (pr p) PPE_TB_CFG" .
qed (simp_all add: flush_on_def)

lemma flush_regs:
  assumes "dev_ok d" and "reg \<notin> cah_iface"
  shows "pr (cache_clr d tag p) reg = pr p reg"
proof (cases "cah_idle d")
  case True
  let ?q = "flush_lock d tag (flush_off p)" and ?f = "Fld PPE_TB_CFG 16 2"
  have q: "pr ?q r = pr (flush_off p) r" if "r \<notin> cah_iface" for r
    using flush_lock_other [OF assms(1) that] .
  consider "reg = PPE_TB_CFG" | "reg = PPE_FLOW_CFG"
    | "reg \<noteq> PPE_TB_CFG" "reg \<noteq> PPE_FLOW_CFG" "reg \<noteq> PPE_CAH_CTRL"
    using assms(2) by (auto simp: cah_iface_def)
  then show ?thesis
  proof cases
    case 1
    have "wr ?f (rd (pr p) ?f) (pr ?q) PPE_TB_CFG = wr ?f (rd (pr p) ?f) (wr ?f 0 (pr p)) PPE_TB_CFG"
      by (rule wr_cong [of _ ?f, simplified]) (simp add: q flush_off_tb)
    also have "\<dots> = pr p PPE_TB_CFG"
      by (simp add: wr_wr wr_rd)
    finally show ?thesis using 1 by (simp add: flush_steps [OF True] flush_on_regs)
  next
    case 2
    then show ?thesis by (simp add: flush_steps [OF True] flush_on_regs)
  next
    case 3
    then show ?thesis using q [OF assms(2)]
      by (simp add: flush_steps [OF True] flush_on_regs flush_off_regs)
  qed
qed (simp add: flush_timeout)

lemma flush_en: "rd (pr (cache_clr d tag p)) (Fld PPE_CAH_CTRL 0 1) = rd (pr p) (Fld PPE_CAH_CTRL 0 1)"
proof (cases "cah_idle d")
  case True
  show ?thesis
    by (simp add: flush_steps [OF True] flush_on_def pr_fields(1) rd_fits rd_wr_same del: One_nat_def)
qed (simp add: flush_timeout)

lemma flush_ops:
  assumes "cah_idle d"
  shows "\<exists>rf rc. p_ops (cache_clr d tag p) = p_ops p @ [Cah_flush rf, Cah_cmd rc]
    \<and> rd rf (Fld PPE_CAH_CTRL 0 1) = 0 \<and> rd rf (Fld PPE_CAH_CTRL 9 1) = 1
    \<and> rd rf (Fld PPE_TB_CFG 16 2) = 0 \<and> rf PPE_FLOW_CFG = pr p PPE_FLOW_CFG AND flow_cfg_mask
    \<and> tag_command 0 tag 3 rc \<and> rd rc (Fld PPE_CAH_CTRL 0 1) = 0"
proof -
  let ?o = "flush_off p"
  let ?x = "set_field PPE_CAH_CTRL CAH_X_MODE 0 (?o\<lparr>p_ops := p_ops ?o @ [Cah_flush (pr ?o)]\<rparr>)"
  have "rd (pr ?o) (Fld PPE_TB_CFG 16 2) = rd (wr (Fld PPE_TB_CFG 16 2) 0 (pr p)) (Fld PPE_TB_CFG 16 2)"
    by (rule rd_cong) (simp add: flush_off_tb)
  then have tb: "rd (pr ?o) (Fld PPE_TB_CFG 16 2) = 0"
    by (simp add: rd_wr_same)
  have xen: "rd (pr ?x) (Fld PPE_CAH_CTRL 0 1) = 0"
    by (simp add: pr_fields(2) rd_wr_other flush_off_fields del: One_nat_def)
  obtain rc where rc: "p_ops (cah_write_tag d 0 tag 3 ?x) = p_ops ?x @ [Cah_cmd rc]"
      "tag_command 0 tag 3 rc" "rd rc (Fld PPE_CAH_CTRL 0 1) = rd (pr ?x) (Fld PPE_CAH_CTRL 0 1)"
    using write_tag_ops [of 0 d tag 3 ?x] by auto
  have "p_ops (cache_clr d tag p) = p_ops p @ [Cah_flush (pr ?o), Cah_cmd rc]"
    using rc(1) by (simp add: flush_steps [OF assms] flush_on_regs(4) flush_lock_def flush_off_regs(3))
  then show ?thesis
    using rc(2,3) xen tb flush_off_fields [of p] flush_off_regs(2) [of p] by metis
qed

end
