(* ===== verification/Hnat_State.thy ===== *)
theory Hnat_State
  imports Foe_Regs
begin

text \<open>
  The state of the offload driver, \<^verbatim>\<open>struct mtk_hnat\<close> of \<^verbatim>\<open>mtk_hnat/hnat.h\<close>, with the operations of
  \<^verbatim>\<open>hnat.c\<close> and \<^verbatim>\<open>hnat_debugfs.c\<close> on one entry, on one engine and on the ports of the frame engine.
\<close>

section \<open>The state\<close>

definition MTK_HNAT_V1_1 :: nat where "MTK_HNAT_V1_1 = 1"
definition MTK_HNAT_V1_2 :: nat where "MTK_HNAT_V1_2 = 2"
definition MTK_HNAT_V1_3 :: nat where "MTK_HNAT_V1_3 = 3"
definition MTK_HNAT_V2 :: nat where "MTK_HNAT_V2 = 4"
definition MTK_HNAT_V3 :: nat where "MTK_HNAT_V3 = 5"

lemmas hnat_version_defs = MTK_HNAT_V1_1_def MTK_HNAT_V1_2_def MTK_HNAT_V1_3_def MTK_HNAT_V2_def
  MTK_HNAT_V3_def

definition DEF_ETRY_NUM :: nat where "DEF_ETRY_NUM = 32768"
definition TABLE_32K :: nat where "TABLE_32K = 5"
definition DEF_ETRY_NUM_CFG :: nat where "DEF_ETRY_NUM_CFG = TABLE_32K"
definition MAX_PPE_NUM :: nat where "MAX_PPE_NUM = 3"

record hnat_prot_3t_cfg =
  ipv4_chk :: u16
  ipv6_chk :: u16
  proto :: "u8 list"
  num_3t :: u8
  blist_3t :: bool

text \<open>A flow remembered for Wi-Fi transmit binding, \<^verbatim>\<open>struct hnat_flow_entry\<close>.\<close>

record flow_entry =
  fl_data :: foe_words
  fl_last :: "64 word"
  fl_ppe :: u16
  fl_hash :: u16

text \<open>The tables are indexed by engine; \<open>h_table_len\<close> and \<open>h_flow_len\<close> are the numbers of elements
  allocated (\<open>None\<close>: a null pointer).  \<open>h_mac\<close> gives the engine of each GMAC the Ethernet driver
  owns.\<close>

record mtk_hnat =
  h_version :: nat
  h_per_flow_accounting :: bool
  h_ppe_num :: nat
  h_etry_num :: nat
  h_etry_cfg :: int
  h_table :: "nat \<Rightarrow> nat \<Rightarrow> foe_words"
  h_table_len :: "nat \<Rightarrow> nat option"
  h_flow :: "nat \<Rightarrow> nat \<Rightarrow> flow_entry list"
  h_flow_len :: "nat \<Rightarrow> nat option"
  h_mib_len :: "nat \<Rightarrow> nat option"
  h_acct_len :: "nat \<Rightarrow> nat option"
  h_ppe :: "nat \<Rightarrow> ppe"
  h_fe :: regfile
  h_mac :: "nat \<Rightarrow> nat option"
  h_bind_threshold :: u16
  h_tcp_dlta :: u16
  h_udp_dlta :: u16
  h_fin_dlta :: u16
  h_tcp_ka :: u8
  h_udp_ka :: u8
  h_dft_cport :: u8
  h_prot_3t :: "nat \<Rightarrow> hnat_prot_3t_cfg"
  h_l4s :: bool
  h_table_dev :: "nat \<Rightarrow> u32"
  h_mib_dev :: "nat \<Rightarrow> u32"

definition on_ppe :: "nat \<Rightarrow> (ppe \<Rightarrow> ppe) \<Rightarrow> mtk_hnat \<Rightarrow> mtk_hnat" where
  "on_ppe i f h = h\<lparr>h_ppe := (h_ppe h)(i := f (h_ppe h i))\<rparr>"

definition on_entry :: "nat \<Rightarrow> nat \<Rightarrow> (foe_words \<Rightarrow> foe_words) \<Rightarrow> mtk_hnat \<Rightarrow> mtk_hnat" where
  "on_entry p i f h = h\<lparr>h_table := (h_table h)(p := (h_table h p)(i := f (h_table h p i)))\<rparr>"

section \<open>Entries\<close>

text \<open>The clock register of the frame engine, as much of it as an entry keeps.\<close>

definition FE_CLOCK :: int where "FE_CLOCK = 0x0010"

definition hnat_timestamp :: "mtk_hnat \<Rightarrow> u32" where
  "hnat_timestamp h =
     (if h_version h = MTK_HNAT_V2 \<or> h_version h = MTK_HNAT_V3 then h_fe h FE_CLOCK AND 0xFF
      else h_fe h FE_CLOCK AND 0x7FFF)"

text \<open>\<open>__entry_delete\<close>.\<close>

definition delete_words :: "u32 \<Rightarrow> foe_words \<Rightarrow> foe_words" where
  "delete_words ts e = wr (bfib1 ''time_stamp'') ts (wr (bfib1 ''state'') (state_code INVALID) e)"

text \<open>\<open>hnat_get_foe_entry\<close>: the position of the entry, or the error.\<close>

definition hnat_get_foe_entry :: "u32 \<Rightarrow> u32 \<Rightarrow> mtk_hnat \<Rightarrow> int + nat \<times> nat" where
  "hnat_get_foe_entry ppe index h =
     (if index = 0x7fff \<or> unat index \<ge> h_etry_num h \<or> unat ppe \<ge> h_ppe_num h then Inl (- EINVAL)
      else Inr (unat ppe, unat index))"

definition is_entry_binding :: "u32 \<Rightarrow> int \<Rightarrow> mtk_hnat \<Rightarrow> int" where
  "is_entry_binding ppe index h =
     (if unat ppe \<ge> h_ppe_num h then - EINVAL
      else if index < 0 \<or> index \<ge> int (h_etry_num h) then - EINVAL
      else if entry_hnat_is_bound (h_table h (unat ppe) (nat index)) then 1 else 0)"

text \<open>\<open>exclude_boundary_entry\<close>: eight entries of every 128 become static.  The list of the entries
  touched depends on the size alone.\<close>

definition boundary_entry_offset :: "nat list" where
  "boundary_entry_offset = [12, 25, 38, 51, 76, 89, 102, 115]"

definition boundary_entries :: "nat \<Rightarrow> nat list" where
  "boundary_entries n =
     concat (map (\<lambda>i. map (\<lambda>off. i * 128 + off) boundary_entry_offset) [0 ..< (n + 127) div 128])"

definition exclude_boundary_entry :: "nat \<Rightarrow> mtk_hnat \<Rightarrow> mtk_hnat" where
  "exclude_boundary_entry p h =
     fold (\<lambda>i. on_entry p i (wr (udib1 ''sta'') 1)) (boundary_entries (h_etry_num h)) h"

section \<open>The cache of an engine\<close>

definition hnat_cache_clr :: "ppe_dev \<Rightarrow> nat \<Rightarrow> mtk_hnat \<Rightarrow> mtk_hnat" where
  "hnat_cache_clr d ppe h =
     (if ppe \<ge> h_ppe_num h then h
      else on_ppe ppe (cache_clr d (if h_version h \<ge> MTK_HNAT_V2 then 0x7FFF else 0x3FFF)) h)"

definition hnat_cache_ebl_one :: "ppe_dev \<Rightarrow> nat \<Rightarrow> bool \<Rightarrow> mtk_hnat \<Rightarrow> mtk_hnat" where
  "hnat_cache_ebl_one d ppe en h =
     (if ppe \<ge> h_ppe_num h then h
      else on_ppe ppe (set_field PPE_CAH_CTRL CAH_EN (if en then 1 else 0))
             (if en then hnat_cache_clr d ppe h else h))"

definition hnat_cache_ebl :: "ppe_dev \<Rightarrow> bool \<Rightarrow> mtk_hnat \<Rightarrow> mtk_hnat" where
  "hnat_cache_ebl d en h = fold (\<lambda>i. hnat_cache_ebl_one d i en) [0 ..< h_ppe_num h] h"

definition hnat_search_cache_line :: "ppe_dev \<Rightarrow> u32 \<Rightarrow> u32 \<Rightarrow> mtk_hnat \<Rightarrow> int \<times> mtk_hnat" where
  "hnat_search_cache_line d ppe tag h =
     (if unat ppe \<ge> h_ppe_num h \<or> unat tag \<ge> h_etry_num h then (- EINVAL, h)
      else case cah_search d tag (h_ppe h (unat ppe)) of
             (r, p) \<Rightarrow> (r, on_ppe (unat ppe) (\<lambda>_. p) h))"

section \<open>Ports\<close>

definition NR_PDMA_PORT :: nat where "NR_PDMA_PORT = 0"
definition NR_PPE0_PORT :: nat where "NR_PPE0_PORT = 3"
definition NR_PPE1_PORT :: nat where "NR_PPE1_PORT = 4"
definition NR_PPE2_PORT :: nat where "NR_PPE2_PORT = 0xC"
definition NR_WDMA0_PORT :: nat where "NR_WDMA0_PORT = 8"
definition NR_WDMA1_PORT :: nat where "NR_WDMA1_PORT = 9"
definition NR_WDMA2_PORT :: nat where "NR_WDMA2_PORT = 13"

lemmas nr_port_defs = NR_PDMA_PORT_def NR_PPE0_PORT_def NR_PPE1_PORT_def NR_PPE2_PORT_def
  NR_WDMA0_PORT_def NR_WDMA1_PORT_def NR_WDMA2_PORT_def

definition mtk_get_wdma_tx_port :: "u32 \<Rightarrow> int" where
  "mtk_get_wdma_tx_port idx = (if idx \<in> {0, 1, 2} then int NR_PPE0_PORT else - EINVAL)"

definition mtk_get_wdma_rx_port :: "u32 \<Rightarrow> int" where
  "mtk_get_wdma_rx_port idx =
     (if idx = 2 then int NR_WDMA2_PORT else if idx = 1 then int NR_WDMA1_PORT
      else if idx = 0 then int NR_WDMA0_PORT else - EINVAL)"

text \<open>\<open>glo_cfg\<close> and \<open>link_down\<close> stand for the macros \<open>MTK_FE_GLO_CFG\<close> and \<open>MTK_FE_LINK_DOWN_P\<close> of the
  Ethernet driver.\<close>

definition mtk_set_wdma_pse_port_state ::
  "(nat \<Rightarrow> int) \<Rightarrow> (nat \<Rightarrow> u32) \<Rightarrow> u32 \<Rightarrow> bool \<Rightarrow> mtk_hnat \<Rightarrow> int \<times> mtk_hnat" where
  "mtk_set_wdma_pse_port_state glo_cfg link_down idx up h =
     (let port = mtk_get_wdma_rx_port idx
      in if port < 0 then (- EINVAL, h)
         else (0, h\<lparr>h_fe := cr_set_field (glo_cfg (nat port)) (link_down (nat port))
                              (if up then 0 else 1) (h_fe h)\<rparr>))"

definition mtk_set_ppe_pse_port_state ::
  "(nat \<Rightarrow> int) \<Rightarrow> (nat \<Rightarrow> u32) \<Rightarrow> nat \<Rightarrow> bool \<Rightarrow> mtk_hnat \<Rightarrow> int \<times> mtk_hnat" where
  "mtk_set_ppe_pse_port_state glo_cfg link_down ppe up h =
     (if ppe > 2 then (- EINVAL, h)
      else let port = (if ppe = 0 then NR_PPE0_PORT else if ppe = 1 then NR_PPE1_PORT else NR_PPE2_PORT)
           in (0, h\<lparr>h_fe := cr_set_field (glo_cfg port) (link_down port) (if up then 0 else 1) (h_fe h)\<rparr>))"

definition GDMA1_FWD_CFG :: int where "GDMA1_FWD_CFG = 0x500"
definition GDMA2_FWD_CFG :: int where "GDMA2_FWD_CFG = 0x1500"
definition GDMA3_FWD_CFG :: int where "GDMA3_FWD_CFG = 0x540"

definition GDM_ALL_FRC_MASK :: u32 where
  "GDM_ALL_FRC_MASK = push_bit 12 0xF OR push_bit 8 0xF OR push_bit 4 0xF OR push_bit 0 0xF"

text \<open>The \<open>BITS_GDM_ALL_FRC_P_\<close> constants: all four classes of packets to one port.\<close>

definition gdm_all_frc :: "nat \<Rightarrow> u32" where
  "gdm_all_frc port = push_bit 12 (of_nat port) OR push_bit 8 (of_nat port) OR push_bit 4 (of_nat port)
     OR push_bit 0 (of_nat port)"

definition gmac_of_port :: "nat \<Rightarrow> (int \<times> nat) option" where
  "gmac_of_port port =
     (if port = NR_GMAC1_PORT then Some (GDMA1_FWD_CFG, 0)
      else if port = NR_GMAC2_PORT then Some (GDMA2_FWD_CFG, 1)
      else if port = NR_GMAC3_PORT then Some (GDMA3_FWD_CFG, 2) else None)"

definition set_gmac_ppe_fwd :: "nat \<Rightarrow> bool \<Rightarrow> mtk_hnat \<Rightarrow> mtk_hnat" where
  "set_gmac_ppe_fwd port en h =
     (case gmac_of_port port of
        None \<Rightarrow> h
      | Some (reg, gmac) \<Rightarrow>
     (case h_mac h gmac of
        None \<Rightarrow> h
      | Some ppe_idx \<Rightarrow>
          if en
          then h\<lparr>h_fe := cr_set_field reg GDM_ALL_FRC_MASK
                  (gdm_all_frc (if h_l4s h then NR_TDMA_PORT
                                else if h_ppe_num h \<ge> 3 \<and> ppe_idx = 2 then NR_PPE2_PORT
                                else if h_ppe_num h \<ge> 2 \<and> ppe_idx = 1 then NR_PPE1_PORT
                                else NR_PPE0_PORT)) (h_fe h)\<rparr>
          else if h_fe h reg AND GDM_ALL_FRC_MASK \<in>
                    set (map gdm_all_frc [NR_PPE0_PORT, NR_PPE1_PORT, NR_PPE2_PORT, NR_TDMA_PORT])
          then h\<lparr>h_fe := cr_set_field reg GDM_ALL_FRC_MASK (gdm_all_frc NR_PDMA_PORT) (h_fe h)\<rparr>
          else h))"

end
