(* ===== verification/Hnat_Delete.thy ===== *)
theory Hnat_Delete
  imports Hnat_State
begin

text \<open>
  Deleting flow entries, \<^verbatim>\<open>mtk_hnat/hnat.c\<close> and \<^verbatim>\<open>hnat_nf_hook.c\<close>: the comparison of an entry with
  a MAC or an IP address, and the loops that delete the bound entries of all engines that satisfy a
  condition and flush the cache of each engine that lost one.
\<close>

section \<open>Comparisons\<close>

text \<open>Loads from a byte buffer on a little-endian host.\<close>

definition ld16 :: "u8 list \<Rightarrow> nat \<Rightarrow> u16" where
  "ld16 bs i = ucast (bs ! i) OR push_bit 8 (ucast (bs ! (i + 1)))"

definition ld32 :: "u8 list \<Rightarrow> nat \<Rightarrow> u32" where
  "ld32 bs i = ucast (bs ! i) OR push_bit 8 (ucast (bs ! (i + 1)))
     OR push_bit 16 (ucast (bs ! (i + 2))) OR push_bit 24 (ucast (bs ! (i + 3)))"

text \<open>The view that holds the Ethernet header: the code uses the IPv6 one for every type outside
  the IPv4 group.\<close>

definition l2_view :: "foe_words \<Rightarrow> layout" where
  "l2_view e = (if IS_IPV4_GRP e then hnat_ipv4_hnapt else hnat_ipv6_5t_route)"

definition entry_smac_hi :: "foe_words \<Rightarrow> u32" where
  "entry_smac_hi e = swab32 (rd e (in_view (l2_view e) ''smac_hi''))"

definition entry_smac_lo :: "foe_words \<Rightarrow> u16" where
  "entry_smac_lo e = swab16 (ucast (rd e (in_view (l2_view e) ''smac_lo'')))"

definition entry_dmac_hi :: "foe_words \<Rightarrow> u32" where
  "entry_dmac_hi e = swab32 (rd e (in_view (l2_view e) ''dmac_hi''))"

definition entry_dmac_lo :: "foe_words \<Rightarrow> u16" where
  "entry_dmac_lo e = swab16 (ucast (rd e (in_view (l2_view e) ''dmac_lo'')))"

text \<open>\<^verbatim>\<open>enum entry_cmp_flags\<close>: \<open>src\<close> and \<open>dst\<close>, any one of which may succeed.\<close>

definition entry_mac_cmp :: "foe_words \<Rightarrow> u8 list \<Rightarrow> bool \<Rightarrow> bool \<Rightarrow> bool" where
  "entry_mac_cmp e mac src dst =
     (if src \<and> entry_smac_hi e = ld32 mac 0 \<and> entry_smac_lo e = ld16 mac 4 then True
      else if dst \<and> entry_dmac_hi e = ld32 mac 0 \<and> entry_dmac_lo e = ld16 mac 4 then True
      else False)"

text \<open>The fields an IPv4 address is compared with.\<close>

definition foe_ipv4 :: "foe_words \<Rightarrow> (u32 \<times> u32) option" where
  "foe_ipv4 e =
     (let t = pkt_type e in
      if t = IPV4_HNAPT \<or> t = IPV4_HNAT
      then Some (rd e (in_view hnat_ipv4_hnapt ''sip''), rd e (in_view hnat_ipv4_hnapt ''new_dip''))
      else if t = IPV4_DSLITE \<or> t = IPV4_MAP_E
      then Some (rd e (in_view hnat_ipv4_dslite ''sip''), rd e (in_view hnat_ipv4_dslite ''dip''))
      else if t = IPV6_6RD
      then Some (rd e (in_view hnat_ipv6_6rd ''tunnel_sipv4''), rd e (in_view hnat_ipv6_6rd ''tunnel_dipv4''))
      else None)"

text \<open>The four words from a member on, and the members an IPv6 address is compared with.\<close>

definition words4 :: "foe_words \<Rightarrow> field \<Rightarrow> u32 list" where
  "words4 e f = map e [fld_word f ..< fld_word f + 4]"

definition foe_ipv6 :: "foe_words \<Rightarrow> (field \<times> field) option" where
  "foe_ipv6 e =
     (let t = pkt_type e in
      if t = IPV6_3T_ROUTE \<or> t = IPV6_5T_ROUTE \<or> t = IPV6_6RD
      then Some (in_view hnat_ipv6_3t_route ''ipv6_sip0'', in_view hnat_ipv6_3t_route ''ipv6_dip0'')
      else if t = IPV6_HNAT \<or> t = IPV6_HNAPT
      then Some (in_view hnat_ipv6_hnapt ''ipv6_sip0'', in_view hnat_ipv6_hnapt ''new_ipv6_ip0'')
      else if t = IPV4_DSLITE \<or> t = IPV4_MAP_E
      then Some (in_view hnat_ipv4_dslite ''tunnel_sipv6_0'', in_view hnat_ipv4_dslite ''tunnel_dipv6_0'')
      else None)"

text \<open>The address is given as its raw words, one for IPv4 and four for IPv6.\<close>

definition entry_ip_cmp :: "foe_words \<Rightarrow> bool \<Rightarrow> be32 list \<Rightarrow> bool \<Rightarrow> bool \<Rightarrow> bool" where
  "entry_ip_cmp e is_ipv4 addr src dst =
     (if is_ipv4
      then (case foe_ipv4 e of
              None \<Rightarrow> False
            | Some (s, d) \<Rightarrow> (src \<and> s = ntohl (addr ! 0)) \<or> (dst \<and> d = ntohl (addr ! 0)))
      else (let ipv6 = map ntohl (take 4 addr) in
            case foe_ipv6 e of
              None \<Rightarrow> False
            | Some (s, d) \<Rightarrow> (src \<and> words4 e s = ipv6) \<or> (dst \<and> words4 e d = ipv6)))"

section \<open>Sweeps\<close>

text \<open>The body of the inner loops: a bound entry that satisfies the condition is deleted and counted.
  Reading an entry that is not allocated is \<open>None\<close>.\<close>

definition sweep_entry ::
  "(foe_words \<Rightarrow> bool) \<Rightarrow> nat \<Rightarrow> nat \<Rightarrow> (nat \<times> mtk_hnat) option \<Rightarrow> (nat \<times> mtk_hnat) option" where
  "sweep_entry cond p i st =
     (case st of
        None \<Rightarrow> None
      | Some (cnt, h) \<Rightarrow>
          (case h_table_len h p of
             None \<Rightarrow> None
           | Some len \<Rightarrow>
               if i \<ge> len then None
               else let e = h_table h p i in
                    if entry_hnat_is_bound e \<and> cond e
                    then Some (cnt + 1, on_entry p i (delete_words (hnat_timestamp h)) h)
                    else Some (cnt, h)))"

text \<open>One engine: the loop over \<open>n\<close> entries, then the cache flush.  \<open>pre\<close> is what is done before the
  loop, and \<open>skip\<close> whether an engine without a table is passed over.\<close>

definition sweep_ppe ::
  "ppe_dev \<Rightarrow> bool \<Rightarrow> (nat \<Rightarrow> mtk_hnat \<Rightarrow> mtk_hnat) \<Rightarrow> nat \<Rightarrow> (foe_words \<Rightarrow> bool) \<Rightarrow> nat
     \<Rightarrow> (nat \<times> mtk_hnat) option \<Rightarrow> (nat \<times> mtk_hnat) option" where
  "sweep_ppe d skip pre n cond p st =
     (case st of
        None \<Rightarrow> None
      | Some (ret, h) \<Rightarrow>
          if skip \<and> h_table_len h p = None then Some (ret, h)
          else (case fold (sweep_entry cond p) [0 ..< n] (Some (0, pre p h)) of
                  None \<Rightarrow> None
                | Some (cnt, h') \<Rightarrow>
                    Some (ret + cnt, if cnt > 0 then hnat_cache_clr d p h' else h')))"

definition sweep ::
  "ppe_dev \<Rightarrow> bool \<Rightarrow> (nat \<Rightarrow> mtk_hnat \<Rightarrow> mtk_hnat) \<Rightarrow> nat \<Rightarrow> (foe_words \<Rightarrow> bool) \<Rightarrow> mtk_hnat
     \<Rightarrow> (nat \<times> mtk_hnat) option" where
  "sweep d skip pre n cond h = fold (sweep_ppe d skip pre n cond) [0 ..< h_ppe_num h] (Some (0, h))"

definition no_pre :: "nat \<Rightarrow> mtk_hnat \<Rightarrow> mtk_hnat" where
  "no_pre p h = h"

text \<open>The three exported deletions run over \<open>DEF_ETRY_NUM\<close> entries whatever the size of the
  tables; a null address deletes nothing.\<close>

definition entry_delete_by_mac :: "ppe_dev \<Rightarrow> u8 list option \<Rightarrow> mtk_hnat \<Rightarrow> (nat \<times> mtk_hnat) option" where
  "entry_delete_by_mac d mac h =
     (case mac of
        None \<Rightarrow> Some (0, h)
      | Some m \<Rightarrow> sweep d False no_pre DEF_ETRY_NUM (\<lambda>e. entry_mac_cmp e m True True) h)"

definition entry_delete_by_ip ::
  "ppe_dev \<Rightarrow> bool \<Rightarrow> be32 list option \<Rightarrow> mtk_hnat \<Rightarrow> (nat \<times> mtk_hnat) option" where
  "entry_delete_by_ip d is_ipv4 addr h =
     (case addr of
        None \<Rightarrow> Some (0, h)
      | Some a \<Rightarrow> sweep d False no_pre DEF_ETRY_NUM (\<lambda>e. entry_ip_cmp e is_ipv4 a True True) h)"

definition wifi_match :: "int \<Rightarrow> u16 \<Rightarrow> u16 \<Rightarrow> foe_words \<Rightarrow> bool" where
  "wifi_match port bssid wcid e =
     (let s = (if IS_IPV4_GRP e then hnat_ipv4_hnapt
               else if pkt_type e = IPV4_MAP_E \<or> pkt_type e = IPV4_MAP_T then hnat_ipv4_mape
               else if pkt_type e = IPV6_HNAPT \<or> pkt_type e = IPV6_HNAT then hnat_ipv6_hnapt
               else hnat_ipv6_5t_route)
      in rd e (winfo s ''bssid'') = ucast bssid \<and> rd e (winfo s ''wcid'') = ucast wcid
         \<and> uint (rd e (iblk2 s ''dp'')) = port)"

definition entry_delete_by_bssid_wcid ::
  "ppe_dev \<Rightarrow> u32 \<Rightarrow> u16 \<Rightarrow> u16 \<Rightarrow> mtk_hnat \<Rightarrow> (int \<times> mtk_hnat) option" where
  "entry_delete_by_bssid_wcid d idx bssid wcid h =
     (let port = mtk_get_wdma_rx_port idx
      in if port < 0 then Some (- EINVAL, h)
         else map_option (\<lambda>(n, h'). (int n, h'))
                (sweep d False no_pre DEF_ETRY_NUM (wifi_match port bssid wcid) h))"

text \<open>The Ethernet device of \<open>foe_clear_ethdev_bind_entries\<close>: the GMAC of its master, and for a
  switch port its number and whether the tagger is an 802.1Q one.\<close>

record eth_dev =
  ed_mac :: nat
  ed_dsa :: "(nat \<times> bool) option"

definition HNAT_GMAC_FP :: "nat \<Rightarrow> nat \<Rightarrow> int" where
  "HNAT_GMAC_FP gmac_num mac_id =
     (if gmac_num = 1 \<or> mac_id = 0 then int NR_GMAC1_PORT
      else if mac_id = 1 then int NR_GMAC2_PORT
      else if mac_id = 2 then int NR_GMAC3_PORT else - EINVAL)"

definition ethdev_match :: "int \<Rightarrow> (nat \<times> bool) option \<Rightarrow> foe_words \<Rightarrow> bool" where
  "ethdev_match gmac dsa e =
     (uint (rd e (iblk2 (l2_view e) ''dp'')) = gmac \<and>
      (case dsa of
         None \<Rightarrow> True
       | Some (port, q) \<Rightarrow>
           if q then rd e (in_view (l2_view e) ''vlan1'') = of_nat port OR BIT 11 OR BIT 10
           else rd e (in_view (l2_view e) ''sp_tag'') AND BIT port \<noteq> 0))"

definition foe_clear_ethdev_bind_entries ::
  "ppe_dev \<Rightarrow> nat \<Rightarrow> eth_dev \<Rightarrow> mtk_hnat \<Rightarrow> (nat \<times> mtk_hnat) option" where
  "foe_clear_ethdev_bind_entries d gmac_num dev h =
     (let gmac = HNAT_GMAC_FP gmac_num (ed_mac dev)
      in if gmac < 0 then Some (0, h)
         else sweep d False no_pre (h_etry_num h) (ethdev_match gmac (ed_dsa dev)) h)"

text \<open>\<open>foe_clear_all_bind_entries\<close> first stops the engine from building entries; the timer it starts
  undoes that (\<open>hnat_sma_build_entry\<close>).\<close>

definition SMA_ONLY_FWD_CPU :: u32 where "SMA_ONLY_FWD_CPU = 2"
definition SMA_FWD_CPU_BUILD_ENTRY :: u32 where "SMA_FWD_CPU_BUILD_ENTRY = 3"

definition sma_only_fwd :: "nat \<Rightarrow> mtk_hnat \<Rightarrow> mtk_hnat" where
  "sma_only_fwd p = on_ppe p (set_field PPE_TB_CFG SMA SMA_ONLY_FWD_CPU)"

definition foe_clear_all_bind_entries :: "ppe_dev \<Rightarrow> mtk_hnat \<Rightarrow> (nat \<times> mtk_hnat) option" where
  "foe_clear_all_bind_entries d h = sweep d False sma_only_fwd (h_etry_num h) (\<lambda>e. True) h"

definition hnat_sma_build_entry :: "mtk_hnat \<Rightarrow> mtk_hnat" where
  "hnat_sma_build_entry h =
     fold (\<lambda>i. on_ppe i (set_field PPE_TB_CFG SMA SMA_FWD_CPU_BUILD_ENTRY)) [0 ..< h_ppe_num h] h"

definition foe_clear_crypto_entry :: "ppe_dev \<Rightarrow> u32 \<Rightarrow> mtk_hnat \<Rightarrow> (nat \<times> mtk_hnat) option" where
  "foe_clear_crypto_entry d cdrt_idx h =
     sweep d True no_pre (h_etry_num h)
       (\<lambda>e. pkt_type e = IPV4_HNAPT \<and> rd e (in_view hnat_ipv4_hnapt ''cdrt_id'') = cdrt_idx) h"

text \<open>A neighbour event, \<^verbatim>\<open>struct hnat_neigh_update_event\<close>.\<close>

definition NUD_FAILED :: u8 where "NUD_FAILED = 0x20"

record neigh_event =
  ne_dip :: "be32 list"
  ne_ha :: "u8 list"
  ne_nud :: u8
  ne_ipv4 :: bool

definition neigh_match :: "foe_words \<Rightarrow> neigh_event \<Rightarrow> bool" where
  "neigh_match e n =
     (entry_ip_cmp e (ne_ipv4 n) (ne_dip n) False True \<and>
      (ne_nud n AND NUD_FAILED \<noteq> 0 \<or> \<not> entry_mac_cmp e (ne_ha n) False True))"

definition foe_clear_entry :: "ppe_dev \<Rightarrow> neigh_event list \<Rightarrow> mtk_hnat \<Rightarrow> (nat \<times> mtk_hnat) option" where
  "foe_clear_entry d events h = sweep d True no_pre (h_etry_num h) (\<lambda>e. list_ex (neigh_match e) events) h"

text \<open>\<open>entry_delete\<close>: index \<open>-1\<close> deletes every entry.\<close>

definition entry_delete_at :: "ppe_dev \<Rightarrow> u32 \<Rightarrow> int \<Rightarrow> mtk_hnat \<Rightarrow> int \<times> mtk_hnat" where
  "entry_delete_at d p index h =
     (if unat p \<ge> h_ppe_num h then (- EINVAL, h)
      else if index < - 1 \<or> index \<ge> int (h_etry_num h) then (- EINVAL, h)
      else let h' = (if index = - 1
                     then fold (\<lambda>i. on_entry (unat p) i (delete_words (hnat_timestamp h))) [0 ..< h_etry_num h] h
                     else on_entry (unat p) (nat index) (delete_words (hnat_timestamp h)) h)
           in (0, hnat_cache_clr d (unat p) h'))"

end
