(* ===== verification/Hnat_Delete_Props.thy ===== *)
theory Hnat_Delete_Props
  imports Hnat_Delete
begin

text \<open>
  What the sweeps of \<open>Hnat_Delete\<close> do, as one equation: which entries are deleted, what is counted,
  and which caches are flushed.  The comparisons with MAC addresses as equations on byte lists.
\<close>

section \<open>One deleted entry\<close>

lemma delete_words_state [simp]:
  "rd (delete_words ts e) (bfib1 ''state'') = state_code INVALID"
  by (simp add: delete_words_def foe_fld rd_wr_other rd_wr_same state_code_def)

lemma delete_words_unbound [simp]: "\<not> entry_hnat_is_bound (delete_words ts e)"
  by (simp add: entry_hnat_is_bound_def) (simp add: state_code_def)

lemma delete_words_time [simp]:
  "rd (delete_words ts e) (bfib1 ''time_stamp'') = take_bit 8 ts"
  by (simp add: delete_words_def foe_fld rd_wr_same)

lemma delete_words_frame:
  assumes "fld_ok f" "fld_disjoint f (Fld 0 28 2)" "fld_disjoint f (Fld 0 0 8)"
  shows "rd (delete_words ts e) f = rd e f"
  using assms by (cases f) (auto simp: delete_words_def foe_fld intro!: trans [OF rd_wr_other] rd_wr_other)

section \<open>Sweeps\<close>

definition hit :: "(foe_words \<Rightarrow> bool) \<Rightarrow> mtk_hnat \<Rightarrow> nat \<Rightarrow> nat \<Rightarrow> bool" where
  "hit cond h p i = (entry_hnat_is_bound (h_table h p i) \<and> cond (h_table h p i))"

definition hits :: "(foe_words \<Rightarrow> bool) \<Rightarrow> nat \<Rightarrow> mtk_hnat \<Rightarrow> nat \<Rightarrow> nat" where
  "hits cond n h p = length (filter (hit cond h p) [0 ..< n])"

text \<open>The table of an engine after the loop over \<open>n\<close> entries.\<close>

definition swept_table :: "(foe_words \<Rightarrow> bool) \<Rightarrow> nat \<Rightarrow> mtk_hnat \<Rightarrow> nat \<Rightarrow> nat \<Rightarrow> foe_words" where
  "swept_table cond n h p =
     (\<lambda>i. if i < n \<and> hit cond h p i then delete_words (hnat_timestamp h) (h_table h p i) else h_table h p i)"

lemma sweep_entry_None [simp]: "fold (sweep_entry cond p) is None = None"
  by (induction "is") (simp_all add: sweep_entry_def)

lemma sweep_loop:
  assumes "h_table_len h p = Some len" and "n \<le> len"
  shows "fold (sweep_entry cond p) [0 ..< n] (Some (0, h))
           = Some (hits cond n h p, h\<lparr>h_table := (h_table h)(p := swept_table cond n h p)\<rparr>)"
  using assms(2)
proof (induction n)
  case 0
  then show ?case
    by (simp add: hits_def swept_table_def)
next
  case (Suc n)
  let ?h = "h\<lparr>h_table := (h_table h)(p := swept_table cond n h p)\<rparr>"
  have e: "h_table ?h p n = h_table h p n"
    by (simp add: swept_table_def)
  have t: "hnat_timestamp ?h = hnat_timestamp h"
    by (simp add: hnat_timestamp_def)
  have tab: "swept_table cond (Suc n) h p
      = (if hit cond h p n then (swept_table cond n h p)(n := delete_words (hnat_timestamp h) (h_table h p n))
         else swept_table cond n h p)"
    by (auto simp: swept_table_def less_Suc_eq)
  have IH: "fold (sweep_entry cond p) [0 ..< n] (Some (0, h)) = Some (hits cond n h p, ?h)"
    by (rule Suc.IH) (use Suc.prems in simp)
  have "fold (sweep_entry cond p) [0 ..< Suc n] (Some (0, h))
      = sweep_entry cond p n (fold (sweep_entry cond p) [0 ..< n] (Some (0, h)))"
    by simp
  also have "\<dots> = sweep_entry cond p n (Some (hits cond n h p, ?h))"
    by (simp only: IH)
  also have "\<dots> = Some (hits cond (Suc n) h p, h\<lparr>h_table := (h_table h)(p := swept_table cond (Suc n) h p)\<rparr>)"
    using Suc.prems assms(1) e t tab
    by (simp add: sweep_entry_def on_entry_def hits_def hit_def Let_def)
  finally show ?case .
qed

lemma sweep_loop_beyond:
  assumes "case h_table_len h p of None \<Rightarrow> n > 0 | Some len \<Rightarrow> n > len"
  shows "fold (sweep_entry cond p) [0 ..< n] (Some (0, h)) = None"
proof (cases "h_table_len h p")
  case None
  then obtain m where n: "n = Suc m" using assms by (cases n) auto
  have "[0 ..< n] = 0 # [1 ..< n]" using n by (simp add: upt_conv_Cons)
  then show ?thesis using None by (simp add: sweep_entry_def)
next
  case (Some len)
  then have "len < n" using assms by simp
  then have "[0 ..< n] = [0 ..< len] @ len # [Suc len ..< n]"
    by (metis less_imp_le_nat less_eq_nat.simps(1) upt_add_eq_append upt_conv_Cons le_add_diff_inverse)
  moreover have "sweep_entry cond p len (fold (sweep_entry cond p) [0 ..< len] (Some (0, h))) = None"
    using sweep_loop [OF Some order_refl] Some by (simp add: sweep_entry_def)
  ultimately show ?thesis by simp
qed

text \<open>The state after the engines below \<open>m\<close>, where \<open>f\<close> is what is done to an engine first.\<close>

definition flush_tag :: "mtk_hnat \<Rightarrow> u32" where
  "flush_tag h = (if h_version h \<ge> MTK_HNAT_V2 then 0x7FFF else 0x3FFF)"

definition swept ::
  "ppe_dev \<Rightarrow> (ppe \<Rightarrow> ppe) \<Rightarrow> nat \<Rightarrow> (foe_words \<Rightarrow> bool) \<Rightarrow> nat \<Rightarrow> mtk_hnat \<Rightarrow> mtk_hnat" where
  "swept d f n cond m h =
     h\<lparr>h_table := (\<lambda>p. if p < m \<and> h_table_len h p \<noteq> None then swept_table cond n h p else h_table h p),
       h_ppe := (\<lambda>p. if p < m \<and> h_table_len h p \<noteq> None
                     then (if hits cond n h p > 0 then cache_clr d (flush_tag h) (f (h_ppe h p))
                           else f (h_ppe h p))
                     else h_ppe h p)\<rparr>"

definition swept_count :: "nat \<Rightarrow> (foe_words \<Rightarrow> bool) \<Rightarrow> nat \<Rightarrow> mtk_hnat \<Rightarrow> nat" where
  "swept_count n cond m h =
     sum_list (map (\<lambda>p. if h_table_len h p \<noteq> None then hits cond n h p else 0) [0 ..< m])"

text \<open>The tables are long enough for the loop; an engine without a table is skipped.\<close>

definition table_covers :: "bool \<Rightarrow> nat \<Rightarrow> mtk_hnat \<Rightarrow> nat \<Rightarrow> bool" where
  "table_covers skip n h p = (case h_table_len h p of None \<Rightarrow> skip | Some len \<Rightarrow> n \<le> len)"

definition tables_cover :: "bool \<Rightarrow> nat \<Rightarrow> mtk_hnat \<Rightarrow> bool" where
  "tables_cover skip n h = list_all (table_covers skip n h) [0 ..< h_ppe_num h]"

lemma sweep_prefix:
  assumes "\<And>p. p < m \<Longrightarrow> table_covers skip n h p" and "m \<le> h_ppe_num h"
  shows "fold (sweep_ppe d skip (\<lambda>p. on_ppe p f) n cond) [0 ..< m] (Some (0, h))
           = Some (swept_count n cond m h, swept d f n cond m h)"
  using assms
proof (induction m)
  case 0
  have "(\<lambda>p. h_table h p) = h_table h" "(\<lambda>p. h_ppe h p) = h_ppe h" by auto
  then show ?case by (simp add: swept_count_def swept_def)
next
  case (Suc m)
  let ?h = "swept d f n cond m h"
  have m: "m < h_ppe_num h" using Suc.prems by simp
  have sel: "h_table_len ?h = h_table_len h" "h_table ?h m = h_table h m" "h_ppe ?h m = h_ppe h m"
      "h_version ?h = h_version h" "h_fe ?h = h_fe h" "h_ppe_num ?h = h_ppe_num h"
    by (simp_all add: swept_def)
  have cov: "table_covers skip n h m" using Suc.prems by simp
  have IH: "fold (sweep_ppe d skip (\<lambda>p. on_ppe p f) n cond) [0 ..< m] (Some (0, h))
      = Some (swept_count n cond m h, ?h)"
    by (rule Suc.IH) (use Suc.prems in simp_all)
  have "fold (sweep_ppe d skip (\<lambda>p. on_ppe p f) n cond) [0 ..< Suc m] (Some (0, h))
      = sweep_ppe d skip (\<lambda>p. on_ppe p f) n cond m
          (fold (sweep_ppe d skip (\<lambda>p. on_ppe p f) n cond) [0 ..< m] (Some (0, h)))"
    by simp
  also have "\<dots> = sweep_ppe d skip (\<lambda>p. on_ppe p f) n cond m (Some (swept_count n cond m h, ?h))"
    by (simp only: IH)
  also have "\<dots> = Some (swept_count n cond (Suc m) h, swept d f n cond (Suc m) h)"
  proof (cases "h_table_len h m")
    case None
    then have skip using cov by (simp add: table_covers_def)
    moreover have "(p < Suc m \<and> h_table_len h p \<noteq> None) = (p < m \<and> h_table_len h p \<noteq> None)" for p
      using None by (cases "p = m") auto
    then have "swept d f n cond (Suc m) h = ?h"
      unfolding swept_def by simp
    ultimately show ?thesis
      using None by (simp add: sweep_ppe_def sel swept_count_def)
  next
    case (Some len)
    then have n: "n \<le> len" using cov by (simp add: table_covers_def)
    let ?g = "on_ppe m f ?h"
    have g: "h_table ?g m = h_table h m" "hnat_timestamp ?g = hnat_timestamp h"
        "h_table_len ?g m = Some len"
      using Some by (simp_all add: on_ppe_def sel hnat_timestamp_def)
    have eqs: "hits cond n ?g m = hits cond n h m" "swept_table cond n ?g m = swept_table cond n h m"
      using g by (auto simp: hits_def hit_def [abs_def] swept_table_def)
    have loop: "fold (sweep_entry cond m) [0 ..< n] (Some (0, ?g))
        = Some (hits cond n h m, ?g\<lparr>h_table := (h_table ?g)(m := swept_table cond n h m)\<rparr>)"
      using sweep_loop [OF g(3) n] eqs by simp
    show ?thesis
      using Some m loop
      by (auto simp: sweep_ppe_def sel swept_count_def swept_def hnat_cache_clr_def on_ppe_def
          flush_tag_def less_Suc_eq fun_eq_iff)
  qed
  finally show ?case .
qed

lemma sweep_eq:
  assumes "tables_cover skip n h"
  shows "sweep d skip (\<lambda>p. on_ppe p f) n cond h
           = Some (swept_count n cond (h_ppe_num h) h, swept d f n cond (h_ppe_num h) h)"
  unfolding sweep_def
  by (rule sweep_prefix) (use assms in \<open>simp_all add: tables_cover_def list_all_iff\<close>)

lemma no_pre_eq: "no_pre = (\<lambda>p. on_ppe p id)"
  by (auto simp: fun_eq_iff no_pre_def on_ppe_def)

lemma sma_only_fwd_eq: "sma_only_fwd = (\<lambda>p. on_ppe p (set_field PPE_TB_CFG SMA SMA_ONLY_FWD_CPU))"
  by (auto simp: fun_eq_iff sma_only_fwd_def)

lemmas sweep_no_pre = sweep_eq [where f = id, folded no_pre_eq]
lemmas sweep_sma = sweep_eq [where f = "set_field PPE_TB_CFG SMA SMA_ONLY_FWD_CPU", folded sma_only_fwd_eq]

text \<open>A table that is too short is read beyond its end.\<close>

lemma sweep_ppe_None [simp]: "fold (sweep_ppe d skip pre n cond) ps None = None"
  by (induction ps) (simp_all add: sweep_ppe_def)

lemma sweep_beyond:
  assumes "m < h_ppe_num h" and "\<And>p. p < m \<Longrightarrow> table_covers skip n h p"
    and "case h_table_len h m of None \<Rightarrow> n > 0 \<and> \<not> skip | Some len \<Rightarrow> n > len"
  shows "sweep d skip (\<lambda>p. on_ppe p f) n cond h = None"
proof -
  let ?step = "sweep_ppe d skip (\<lambda>p. on_ppe p f) n cond"
  let ?h = "swept d f n cond m h"
  have "[0 ..< h_ppe_num h] = [0 ..< m] @ m # [Suc m ..< h_ppe_num h]"
    using assms(1)
    by (metis less_imp_le_nat less_eq_nat.simps(1) upt_add_eq_append upt_conv_Cons le_add_diff_inverse)
  moreover have "fold ?step [0 ..< m] (Some (0, h)) = Some (swept_count n cond m h, ?h)"
    by (rule sweep_prefix) (use assms in simp_all)
  moreover have "?step m (Some (swept_count n cond m h, ?h)) = None"
  proof -
    have len: "h_table_len (on_ppe m f ?h) m = h_table_len h m" "h_table_len ?h m = h_table_len h m"
      by (simp_all add: on_ppe_def swept_def)
    then have "fold (sweep_entry cond m) [0 ..< n] (Some (0, on_ppe m f ?h)) = None"
      using assms(3) by (intro sweep_loop_beyond) (auto split: option.splits)
    moreover have "\<not> (skip \<and> h_table_len h m = None)"
      using assms(3) by (auto split: option.splits)
    ultimately show ?thesis using len by (simp add: sweep_ppe_def)
  qed
  ultimately show ?thesis by (simp add: sweep_def)
qed

lemma sweep_None_iff:
  assumes "n > 0"
  shows "sweep d skip (\<lambda>p. on_ppe p f) n cond h = None \<longleftrightarrow> \<not> tables_cover skip n h"
proof
  assume "\<not> tables_cover skip n h"
  then obtain q where q: "q < h_ppe_num h" "\<not> table_covers skip n h q"
    by (auto simp: tables_cover_def list_all_iff)
  define m where "m = (LEAST p. \<not> table_covers skip n h p)"
  have "\<not> table_covers skip n h m" "m \<le> q"
    unfolding m_def using LeastI [of "\<lambda>p. \<not> table_covers skip n h p" q] q(2) by (auto intro: Least_le)
  moreover have "table_covers skip n h p" if "p < m" for p
    using that not_less_Least unfolding m_def by blast
  ultimately show "sweep d skip (\<lambda>p. on_ppe p f) n cond h = None"
    using q(1) assms
    by (intro sweep_beyond [of m]) (auto simp: table_covers_def not_le split: option.splits)
qed (auto dest: sweep_eq [of skip n h d f cond])

lemmas sweep_no_pre_None_iff = sweep_None_iff [where f = id, folded no_pre_eq]

section \<open>Addresses\<close>

text \<open>The MAC addresses of an entry in the order of the wire.\<close>

definition entry_dmac :: "foe_words \<Rightarrow> u8 list" where
  "entry_dmac e = mem_bytes32 (entry_dmac_hi e) @ mem_bytes16 (entry_dmac_lo e)"

definition entry_smac :: "foe_words \<Rightarrow> u8 list" where
  "entry_smac e = mem_bytes32 (entry_smac_hi e) @ mem_bytes16 (entry_smac_lo e)"

lemma u8_beyond [simp]: "\<not> bit (b::u8) (8 + n)" "\<not> bit (b::u8) (16 + n)" "\<not> bit (b::u8) (24 + n)"
  by (auto dest: bit_imp_le_length)

lemma ld_bytes:
  "mem_bytes16 (ld16 bs i) = [bs ! i, bs ! (i + 1)]"
  "mem_bytes32 (ld32 bs i) = [bs ! i, bs ! (i + 1), bs ! (i + 2), bs ! (i + 3)]"
  by (auto simp: mem_bytes16_def ld16_def mem_bytes32_def ld32_def bit_simps intro!: bit_word_eqI)

lemma bytes_ld: "ld16 (mem_bytes16 x) 0 = x" "ld32 (mem_bytes32 y) 0 = y"
proof -
  show "ld16 (mem_bytes16 x) 0 = x"
    by (auto simp: mem_bytes16_def ld16_def bit_simps intro!: bit_word_eqI)
  show "ld32 (mem_bytes32 y) 0 = y"
  proof (rule bit_word_eqI)
    fix n :: nat
    assume "n < LENGTH(32)"
    then consider "n < 8" | "8 \<le> n" "n < 16" | "16 \<le> n" "n < 24" | "24 \<le> n" "n < 32"
      by fastforce
    then show "bit (ld32 (mem_bytes32 y) 0) n = bit y n"
      by cases (auto simp: mem_bytes32_def ld32_def bit_simps)
  qed
qed

lemma eq_ld_iff:
  "x = ld16 bs i \<longleftrightarrow> mem_bytes16 x = [bs ! i, bs ! (i + 1)]"
  "y = ld32 bs i \<longleftrightarrow> mem_bytes32 y = [bs ! i, bs ! (i + 1), bs ! (i + 2), bs ! (i + 3)]"
  by (metis ld_bytes(1) bytes_ld(1), metis ld_bytes(2) bytes_ld(2))

lemma mac_eq_iff:
  assumes "length mac = 6"
  shows "hi = ld32 mac 0 \<and> lo = ld16 mac 4 \<longleftrightarrow> mem_bytes32 hi @ mem_bytes16 lo = mac"
proof -
  obtain a b c d e f where "mac = [a, b, c, d, e, f]"
    using assms by (auto simp: length_Suc_conv eval_nat_numeral)
  then show ?thesis
    by (simp add: eq_ld_iff) (auto simp: mem_bytes32_def mem_bytes16_def)
qed

lemma entry_mac_cmp_iff:
  assumes "length mac = 6"
  shows "entry_mac_cmp e mac src dst \<longleftrightarrow> (src \<and> entry_smac e = mac) \<or> (dst \<and> entry_dmac e = mac)"
  using mac_eq_iff [OF assms]
  by (auto simp: entry_mac_cmp_def entry_smac_def entry_dmac_def)

end
