(* ===== verification/Hnat_Deletions.thy ===== *)
theory Hnat_Deletions
  imports Hnat_Delete_Props
begin

text \<open>
  The contract of the deletions: an operation that sweeps the tables for the entries with a condition.
  Its consequences are proved once, and hold for every deletion of the driver by interpretation.
\<close>

locale deletion =
  fixes del :: "ppe_dev \<Rightarrow> mtk_hnat \<Rightarrow> (nat \<times> mtk_hnat) option"
    and entries :: "mtk_hnat \<Rightarrow> nat"
    and skip :: bool
    and first :: "ppe \<Rightarrow> ppe"
    and cond :: "foe_words \<Rightarrow> bool"
  assumes del_sweep: "del d h = sweep d skip (\<lambda>p. on_ppe p first) (entries h) cond h"
begin

lemma result:
  assumes "tables_cover skip (entries h) h"
  shows "del d h = Some (swept_count (entries h) cond (h_ppe_num h) h,
    swept d first (entries h) cond (h_ppe_num h) h)"
  unfolding del_sweep by (rule sweep_eq [OF assms])

lemma defined_iff: "entries h > 0 \<Longrightarrow> del d h = None \<longleftrightarrow> \<not> tables_cover skip (entries h) h"
  unfolding del_sweep by (rule sweep_None_iff)

lemma resultD:
  assumes "del d h = Some (c, h')" and "entries h > 0"
  shows "h' = swept d first (entries h) cond (h_ppe_num h) h"
    and "c = swept_count (entries h) cond (h_ppe_num h) h"
    and "tables_cover skip (entries h) h"
proof -
  show cov: "tables_cover skip (entries h) h" using assms defined_iff [of h d] by auto
  show "h' = swept d first (entries h) cond (h_ppe_num h) h"
    "c = swept_count (entries h) cond (h_ppe_num h) h"
    using assms(1) result [OF cov, of d] by simp_all
qed

text \<open>No bound entry with the condition is left.\<close>

lemma none_left:
  assumes "del d h = Some (c, h')" and "entries h > 0"
    and "p < h_ppe_num h" "h_table_len h p \<noteq> None" "i < entries h"
    and "entry_hnat_is_bound (h_table h' p i)"
  shows "\<not> cond (h_table h' p i)"
  using assms(3-6) unfolding resultD(1) [OF assms(1,2)]
  by (auto simp: swept_def swept_table_def hit_def split: if_splits)

text \<open>Every other entry is as before.\<close>

lemma others_kept:
  assumes "del d h = Some (c, h')" and "entries h > 0"
    and "\<not> (entry_hnat_is_bound (h_table h p i) \<and> cond (h_table h p i))"
  shows "h_table h' p i = h_table h p i"
  using assms(3) unfolding resultD(1) [OF assms(1,2)]
  by (auto simp: swept_def swept_table_def hit_def)

text \<open>The entries found are unbound and stamped; the rest of their words stay.\<close>

lemma deleted:
  assumes "del d h = Some (c, h')" and "entries h > 0"
    and "p < h_ppe_num h" "h_table_len h p \<noteq> None" "i < entries h"
    and "entry_hnat_is_bound (h_table h p i)" "cond (h_table h p i)"
  shows "h_table h' p i = delete_words (hnat_timestamp h) (h_table h p i)"
  using assms(3-7) unfolding resultD(1) [OF assms(1,2)]
  by (auto simp: swept_def swept_table_def hit_def)

text \<open>An engine whose table did not change keeps its registers but for \<open>first\<close>; the others are flushed.\<close>

lemma engines:
  assumes "del d h = Some (c, h')" and "entries h > 0"
    and "p < h_ppe_num h" "h_table_len h p \<noteq> None"
  shows "h_ppe h' p = (if \<exists>i < entries h. entry_hnat_is_bound (h_table h p i) \<and> cond (h_table h p i)
                       then cache_clr d (flush_tag h) (first (h_ppe h p)) else first (h_ppe h p))"
proof -
  have "hits cond (entries h) h p > 0
      \<longleftrightarrow> (\<exists>i < entries h. entry_hnat_is_bound (h_table h p i) \<and> cond (h_table h p i))"
    by (auto simp: hits_def filter_empty_conv hit_def)
  then show ?thesis
    using assms(3,4) unfolding resultD(1) [OF assms(1,2)] by (simp add: swept_def)
qed

lemma again:
  assumes "del d h = Some (c, h')" and "entries h > 0" and same: "entries h' = entries h"
  shows "\<exists>h''. del d h' = Some (0, h'') \<and> h_table h'' = h_table h'"
proof -
  note h' = resultD(1) [OF assms(1,2)]
  have sel: "h_table_len h' = h_table_len h" "h_ppe_num h' = h_ppe_num h"
    by (simp_all add: h' swept_def)
  have cov: "tables_cover skip (entries h') h'"
    using resultD(3) [OF assms(1,2)] unfolding same
    by (simp add: tables_cover_def table_covers_def [abs_def] sel)
  have no: "\<not> hit cond h' p i" if "p < h_ppe_num h" "h_table_len h p \<noteq> None" "i < entries h" for p i
    using none_left [OF assms(1,2) that] by (auto simp: hit_def)
  have hits0: "hits cond (entries h) h' p = 0" if "p < h_ppe_num h" "h_table_len h p \<noteq> None" for p
    using no [OF that] by (auto simp: hits_def filter_empty_conv)
  have "swept_count (entries h') cond (h_ppe_num h') h' = 0"
    unfolding swept_count_def same sel using hits0 by auto
  moreover have "h_table (swept d first (entries h') cond (h_ppe_num h') h') p = h_table h' p" for p
    unfolding same sel swept_def using no by (auto simp: swept_table_def sel fun_eq_iff)
  ultimately show ?thesis
    using result [OF cov, of d] by (intro exI) (auto simp: fun_eq_iff)
qed

end

text \<open>The deletions of the driver.\<close>

lemma fun_id: "(\<lambda>p. on_ppe p (\<lambda>x. x)) = no_pre" "(\<lambda>p. on_ppe p id) = no_pre"
  by (auto simp: fun_eq_iff no_pre_def on_ppe_def)

interpretation by_mac: deletion "\<lambda>d. entry_delete_by_mac d (Some mac)" "\<lambda>_. DEF_ETRY_NUM" False id
    "\<lambda>e. entry_mac_cmp e mac True True" for mac
  by unfold_locales (simp add: entry_delete_by_mac_def fun_id)

interpretation by_ip: deletion "\<lambda>d. entry_delete_by_ip d is_ipv4 (Some addr)" "\<lambda>_. DEF_ETRY_NUM" False id
    "\<lambda>e. entry_ip_cmp e is_ipv4 addr True True" for is_ipv4 addr
  by unfold_locales (simp add: entry_delete_by_ip_def fun_id)

interpretation all_bound: deletion foe_clear_all_bind_entries h_etry_num False
    "set_field PPE_TB_CFG SMA SMA_ONLY_FWD_CPU" "\<lambda>e. True"
  by unfold_locales (simp add: foe_clear_all_bind_entries_def sma_only_fwd_eq)

interpretation by_crypto: deletion "\<lambda>d. foe_clear_crypto_entry d cdrt" h_etry_num True id
    "\<lambda>e. pkt_type e = IPV4_HNAPT \<and> rd e (in_view hnat_ipv4_hnapt ''cdrt_id'') = cdrt" for cdrt
  by unfold_locales (simp add: foe_clear_crypto_entry_def fun_id)

interpretation by_neigh: deletion "\<lambda>d. foe_clear_entry d events" h_etry_num True id
    "\<lambda>e. list_ex (neigh_match e) events" for events
  by unfold_locales (simp add: foe_clear_entry_def fun_id)

end
