(* ===== verification/Skb.thy ===== *)
theory Skb
  imports Prelude
begin

text \<open>
  Packets as the hooks of \<^verbatim>\<open>mtk_hnat\<close> see them: the bytes of the buffer with the offsets of the
  headers in it, the fields of \<^verbatim>\<open>struct sk_buff\<close> the driver uses, and the descriptor
  (\<^verbatim>\<open>struct hnat_desc\<close> of \<^verbatim>\<open>nf_hnat_mtk.h\<close>, NETSYS V3) that the Ethernet driver leaves at the start of the
  headroom.  The descriptor is kept apart from the bytes: packet data does not reach into the first
  16 bytes of the buffer.
\<close>

section \<open>The descriptor\<close>

record hnat_desc =
  hd_entry :: "15 word"
  hd_filled :: "3 word"
  hd_crsn :: "5 word"
  hd_sport :: "4 word"
  hd_alg :: bool
  hd_iface :: u8
  hd_wdmaid :: "2 word"
  hd_rxid :: "2 word"
  hd_wcid :: u16
  hd_bssid :: u8
  hd_usr_info :: u16
  hd_tid :: "4 word"
  hd_is_fixedrate :: bool
  hd_is_prior :: bool
  hd_is_sp :: bool
  hd_hf :: bool
  hd_amsdu :: bool
  hd_tops :: "6 word"
  hd_is_decap :: bool
  hd_cdrt :: u8
  hd_is_decrypt :: bool
  hd_is_pppoe :: bool
  hd_magic_tag :: u16

definition zero_desc :: hnat_desc where
  "zero_desc = \<lparr>hd_entry = 0, hd_filled = 0, hd_crsn = 0, hd_sport = 0, hd_alg = False, hd_iface = 0,
     hd_wdmaid = 0, hd_rxid = 0, hd_wcid = 0, hd_bssid = 0, hd_usr_info = 0, hd_tid = 0,
     hd_is_fixedrate = False, hd_is_prior = False, hd_is_sp = False, hd_hf = False, hd_amsdu = False,
     hd_tops = 0, hd_is_decap = False, hd_cdrt = 0, hd_is_decrypt = False, hd_is_pppoe = False,
     hd_magic_tag = 0\<rparr>"

definition HNAT_MAGIC_TAG :: u16 where "HNAT_MAGIC_TAG = 0x6789"
definition HNAT_INFO_FILLED :: "3 word" where "HNAT_INFO_FILLED = 0x7"
definition FOE_INFO_LEN :: nat where "FOE_INFO_LEN = 16"
definition HQOS_MAGIC_TAG :: u16 where "HQOS_MAGIC_TAG = 0x5678"

text \<open>CPU reasons.\<close>

definition TCP_FIN_SYN_RST :: "5 word" where "TCP_FIN_SYN_RST = 0x0C"
definition HIT_UNBIND :: "5 word" where "HIT_UNBIND = 0x0E"
definition HIT_UNBIND_RATE_REACH :: "5 word" where "HIT_UNBIND_RATE_REACH = 0x0F"
definition HIT_BIND_KEEPALIVE_DUP_OLD_HDR :: "5 word" where "HIT_BIND_KEEPALIVE_DUP_OLD_HDR = 0x15"
definition HIT_BIND_FORCE_TO_CPU :: "5 word" where "HIT_BIND_FORCE_TO_CPU = 0x16"
definition HIT_BIND_MULTICAST_TO_CPU :: "5 word" where "HIT_BIND_MULTICAST_TO_CPU = 0x18"
definition HIT_BIND_MULTICAST_TO_GMAC_CPU :: "5 word" where "HIT_BIND_MULTICAST_TO_GMAC_CPU = 0x19"

lemmas crsn_defs = TCP_FIN_SYN_RST_def HIT_UNBIND_def HIT_UNBIND_RATE_REACH_def
  HIT_BIND_KEEPALIVE_DUP_OLD_HDR_def HIT_BIND_FORCE_TO_CPU_def HIT_BIND_MULTICAST_TO_CPU_def
  HIT_BIND_MULTICAST_TO_GMAC_CPU_def

text \<open>Where a packet came from.\<close>

definition FOE_MAGIC_GE_LAN :: u8 where "FOE_MAGIC_GE_LAN = 0x1"
definition FOE_MAGIC_GE_WAN :: u8 where "FOE_MAGIC_GE_WAN = 0x2"
definition FOE_MAGIC_EXT :: u8 where "FOE_MAGIC_EXT = 0x3"
definition FOE_MAGIC_GE_VIRTUAL :: u8 where "FOE_MAGIC_GE_VIRTUAL = 0x4"
definition FOE_MAGIC_GE_PPD :: u8 where "FOE_MAGIC_GE_PPD = 0x5"
definition FOE_MAGIC_GE_LAN2 :: u8 where "FOE_MAGIC_GE_LAN2 = 0x6"
definition FOE_MAGIC_WED0 :: u8 where "FOE_MAGIC_WED0 = 0x78"
definition FOE_MAGIC_WED1 :: u8 where "FOE_MAGIC_WED1 = 0x79"
definition FOE_MAGIC_WED2 :: u8 where "FOE_MAGIC_WED2 = 0x7A"
definition FOE_INVALID :: u8 where "FOE_INVALID = 0xf"

lemmas foe_magic_defs = FOE_MAGIC_GE_LAN_def FOE_MAGIC_GE_WAN_def FOE_MAGIC_EXT_def
  FOE_MAGIC_GE_VIRTUAL_def FOE_MAGIC_GE_PPD_def FOE_MAGIC_GE_LAN2_def FOE_MAGIC_WED0_def
  FOE_MAGIC_WED1_def FOE_MAGIC_WED2_def FOE_INVALID_def

section \<open>The buffer\<close>

text \<open>A route: whether it transforms packets (IPsec) and its device.\<close>

record dst_entry =
  dst_xfrm :: bool
  dst_dev :: nat

text \<open>A tracked connection: its helper and its zone.\<close>

record skb_conn =
  ct_helper :: bool
  ct_zone :: u16

text \<open>\<open>sb_bytes\<close> are the bytes by their offset from \<^verbatim>\<open>skb->head\<close>, \<open>sb_data\<close> and \<open>sb_len\<close> the offset and
  length of the data, \<open>sb_mac\<close>, \<open>sb_net\<close>, \<open>sb_trans\<close> and \<open>sb_inner_net\<close> those of the headers.  Fields that the
  kernel keeps in network order are as a little-endian host loads them.  \<open>sb_frag_list\<close> are the
  descriptors of the fragments behind the packet, with their headroom.\<close>

record sk_buff =
  sb_desc :: hnat_desc
  sb_cb2 :: u32
  sb_bytes :: "nat \<Rightarrow> u8"
  sb_data :: nat
  sb_len :: nat
  sb_mac :: u16
  sb_net :: nat
  sb_trans :: nat
  sb_inner_net :: nat
  sb_protocol :: be16
  sb_vlan_proto :: be16
  sb_vlan_tci :: u16
  sb_dev :: "nat option"
  sb_iif :: nat
  sb_mark :: u32
  sb_hash :: u32
  sb_pkt_type :: nat
  sb_shared :: bool
  sb_cloned :: bool
  sb_clone_writable :: bool
  sb_dst :: "dst_entry option"
  sb_ct :: "skb_conn option"
  sb_bridge_nf :: bool
  sb_frag_list :: "(hnat_desc \<times> nat) list"

definition upd_desc :: "(hnat_desc \<Rightarrow> hnat_desc) \<Rightarrow> sk_buff \<Rightarrow> sk_buff" where
  "upd_desc f s = s\<lparr>sb_desc := f (sb_desc s)\<rparr>"

abbreviation skb_hnat_entry :: "sk_buff \<Rightarrow> nat" where "skb_hnat_entry s \<equiv> unat (hd_entry (sb_desc s))"
abbreviation skb_hnat_reason :: "sk_buff \<Rightarrow> 5 word" where "skb_hnat_reason s \<equiv> hd_crsn (sb_desc s)"
abbreviation skb_hnat_iface :: "sk_buff \<Rightarrow> u8" where "skb_hnat_iface s \<equiv> hd_iface (sb_desc s)"
abbreviation skb_hnat_alg :: "sk_buff \<Rightarrow> bool" where "skb_hnat_alg s \<equiv> hd_alg (sb_desc s)"
abbreviation skb_hnat_sport :: "sk_buff \<Rightarrow> 4 word" where "skb_hnat_sport s \<equiv> hd_sport (sb_desc s)"
abbreviation skb_hnat_tops :: "sk_buff \<Rightarrow> 6 word" where "skb_hnat_tops s \<equiv> hd_tops (sb_desc s)"
abbreviation skb_hnat_cdrt :: "sk_buff \<Rightarrow> u8" where "skb_hnat_cdrt s \<equiv> hd_cdrt (sb_desc s)"
abbreviation skb_hnat_is_decap :: "sk_buff \<Rightarrow> bool" where "skb_hnat_is_decap s \<equiv> hd_is_decap (sb_desc s)"
abbreviation skb_hnat_is_encap :: "sk_buff \<Rightarrow> bool" where "skb_hnat_is_encap s \<equiv> \<not> hd_is_decap (sb_desc s)"
abbreviation skb_hnat_is_encrypt :: "sk_buff \<Rightarrow> bool" where "skb_hnat_is_encrypt s \<equiv> \<not> hd_is_decrypt (sb_desc s)"

definition is_magic_tag_valid :: "sk_buff \<Rightarrow> bool" where
  "is_magic_tag_valid s = (hd_magic_tag (sb_desc s) = HNAT_MAGIC_TAG)"

definition is_hnat_info_filled :: "sk_buff \<Rightarrow> bool" where
  "is_hnat_info_filled s = (hd_filled (sb_desc s) = HNAT_INFO_FILLED)"

definition skb_headroom :: "sk_buff \<Rightarrow> nat" where
  "skb_headroom s = sb_data s"

definition IS_SPACE_AVAILABLE_HEAD :: "sk_buff \<Rightarrow> bool" where
  "IS_SPACE_AVAILABLE_HEAD s = (skb_headroom s \<ge> FOE_INFO_LEN)"

text \<open>The marks in the control block.\<close>

definition EXTGE_MAGIC :: u32 where "EXTGE_MAGIC = 0x78786688"
definition TO_PPE_MAGIC :: u32 where "TO_PPE_MAGIC = 0x78681415"
definition MAPE_MAGIC :: u32 where "MAPE_MAGIC = 0x78787788"

lemmas cb2_defs = EXTGE_MAGIC_def TO_PPE_MAGIC_def MAPE_MAGIC_def

definition is_from_extge :: "sk_buff \<Rightarrow> bool" where "is_from_extge s = (sb_cb2 s = EXTGE_MAGIC)"

definition clr_from_extge :: "sk_buff \<Rightarrow> sk_buff" where "clr_from_extge s = s\<lparr>sb_cb2 := 0\<rparr>"

definition do_ext2ge_fast_try :: "sk_buff \<Rightarrow> bool" where
  "do_ext2ge_fast_try s = (skb_hnat_iface s = FOE_MAGIC_EXT \<and> \<not> is_from_extge s)"

definition FROM_GE_LAN_GRP :: "sk_buff \<Rightarrow> bool" where
  "FROM_GE_LAN_GRP s = (skb_hnat_iface s = FOE_MAGIC_GE_LAN \<or> skb_hnat_iface s = FOE_MAGIC_GE_LAN2)"

definition FROM_GE_WAN :: "sk_buff \<Rightarrow> bool" where "FROM_GE_WAN s = (skb_hnat_iface s = FOE_MAGIC_GE_WAN)"
definition FROM_GE_PPD :: "sk_buff \<Rightarrow> bool" where "FROM_GE_PPD s = (skb_hnat_iface s = FOE_MAGIC_GE_PPD)"
definition FROM_GE_VIRTUAL :: "sk_buff \<Rightarrow> bool" where
  "FROM_GE_VIRTUAL s = (skb_hnat_iface s = FOE_MAGIC_GE_VIRTUAL)"
definition FROM_EXT :: "sk_buff \<Rightarrow> bool" where "FROM_EXT s = (skb_hnat_iface s = FOE_MAGIC_EXT)"

definition FROM_WED :: "sk_buff \<Rightarrow> bool" where
  "FROM_WED s = (skb_hnat_iface s \<in> {FOE_MAGIC_WED0, FOE_MAGIC_WED1, FOE_MAGIC_WED2})"

lemmas from_defs = FROM_GE_LAN_GRP_def FROM_GE_WAN_def FROM_GE_PPD_def FROM_GE_VIRTUAL_def FROM_EXT_def
  FROM_WED_def

section \<open>Bytes and headers\<close>

text \<open>Loads on a little-endian host.\<close>

definition raw16 :: "(nat \<Rightarrow> u8) \<Rightarrow> nat \<Rightarrow> u16" where
  "raw16 b i = ucast (b i) OR push_bit 8 (ucast (b (i + 1)))"

definition raw32 :: "(nat \<Rightarrow> u8) \<Rightarrow> nat \<Rightarrow> u32" where
  "raw32 b i = ucast (b i) OR push_bit 8 (ucast (b (i + 1))) OR push_bit 16 (ucast (b (i + 2)))
     OR push_bit 24 (ucast (b (i + 3)))"

definition bytes_at :: "(nat \<Rightarrow> u8) \<Rightarrow> nat \<Rightarrow> nat \<Rightarrow> u8 list" where
  "bytes_at b i n = map b [i ..< i + n]"

text \<open>Stores.  \<open>put_bytes\<close> is \<open>memcpy\<close> from bytes read before.\<close>

definition put_bytes :: "nat \<Rightarrow> u8 list \<Rightarrow> (nat \<Rightarrow> u8) \<Rightarrow> (nat \<Rightarrow> u8)" where
  "put_bytes i bs b = (\<lambda>k. if i \<le> k \<and> k < i + length bs then bs ! (k - i) else b k)"

definition ETH_ALEN :: nat where "ETH_ALEN = 6"
definition ETH_HLEN :: nat where "ETH_HLEN = 14"
definition VLAN_HLEN :: nat where "VLAN_HLEN = 4"
definition IPV6_HDR_LEN :: nat where "IPV6_HDR_LEN = 40"
definition PPPOE_SES_HLEN :: nat where "PPPOE_SES_HLEN = 8"

definition ETH_P_IP :: u16 where "ETH_P_IP = 0x0800"
definition ETH_P_IPV6 :: u16 where "ETH_P_IPV6 = 0x86DD"
definition ETH_P_8021Q :: u16 where "ETH_P_8021Q = 0x8100"
definition ETH_P_PPP_SES :: u16 where "ETH_P_PPP_SES = 0x8864"
definition PPP_IP :: u16 where "PPP_IP = 0x21"
definition PPP_IPV6 :: u16 where "PPP_IPV6 = 0x57"

definition IPPROTO_TCP :: u8 where "IPPROTO_TCP = 6"
definition IPPROTO_IPV6 :: u8 where "IPPROTO_IPV6 = 41"
definition NEXTHDR_IPIP :: u8 where "NEXTHDR_IPIP = 4"

lemmas hdr_len_defs = ETH_ALEN_def ETH_HLEN_def VLAN_HLEN_def IPV6_HDR_LEN_def PPPOE_SES_HLEN_def
  FOE_INFO_LEN_def

lemmas eth_p_defs = ETH_P_IP_def ETH_P_IPV6_def ETH_P_8021Q_def ETH_P_PPP_SES_def PPP_IP_def PPP_IPV6_def

lemmas ipproto_defs = IPPROTO_TCP_def IPPROTO_UDP_def IPPROTO_IPV6_def NEXTHDR_IPIP_def

record ethhdr =
  h_dest :: "u8 list"
  h_source :: "u8 list"
  h_proto :: be16

definition ethhdr_at :: "(nat \<Rightarrow> u8) \<Rightarrow> nat \<Rightarrow> ethhdr" where
  "ethhdr_at b i = \<lparr>h_dest = bytes_at b i ETH_ALEN, h_source = bytes_at b (i + 6) ETH_ALEN,
     h_proto = raw16 b (i + 12)\<rparr>"

record iphdr =
  ip_ihl :: u8
  ip_version :: u8
  ip_tos :: u8
  ip_tot_len :: be16
  ip_id :: be16
  ip_frag_off :: be16
  ip_ttl :: u8
  ip_protocol :: u8
  ip_check :: be16
  ip_saddr :: be32
  ip_daddr :: be32

definition iphdr_at :: "(nat \<Rightarrow> u8) \<Rightarrow> nat \<Rightarrow> iphdr" where
  "iphdr_at b i = \<lparr>ip_ihl = b i AND 0xF, ip_version = drop_bit 4 (b i), ip_tos = b (i + 1),
     ip_tot_len = raw16 b (i + 2), ip_id = raw16 b (i + 4), ip_frag_off = raw16 b (i + 6),
     ip_ttl = b (i + 8), ip_protocol = b (i + 9), ip_check = raw16 b (i + 10),
     ip_saddr = raw32 b (i + 12), ip_daddr = raw32 b (i + 16)\<rparr>"

record ipv6hdr =
  ip6_priority :: u8
  ip6_flow_lbl :: "u8 list"
  ip6_payload_len :: be16
  ip6_nexthdr :: u8
  ip6_hop_limit :: u8
  ip6_saddr :: "be32 list"
  ip6_daddr :: "be32 list"

definition ipv6hdr_at :: "(nat \<Rightarrow> u8) \<Rightarrow> nat \<Rightarrow> ipv6hdr" where
  "ipv6hdr_at b i = \<lparr>ip6_priority = b i AND 0xF, ip6_flow_lbl = bytes_at b (i + 1) 3,
     ip6_payload_len = raw16 b (i + 4), ip6_nexthdr = b (i + 6), ip6_hop_limit = b (i + 7),
     ip6_saddr = map (\<lambda>k. raw32 b (i + 8 + 4 * k)) [0 ..< 4],
     ip6_daddr = map (\<lambda>k. raw32 b (i + 24 + 4 * k)) [0 ..< 4]\<rparr>"

text \<open>The source and destination port.\<close>

definition ports_at :: "(nat \<Rightarrow> u8) \<Rightarrow> nat \<Rightarrow> be16 \<times> be16" where
  "ports_at b i = (raw16 b i, raw16 b (i + 2))"

definition eth_hdr :: "sk_buff \<Rightarrow> ethhdr" where "eth_hdr s = ethhdr_at (sb_bytes s) (unat (sb_mac s))"
definition ip_hdr :: "sk_buff \<Rightarrow> iphdr" where "ip_hdr s = iphdr_at (sb_bytes s) (sb_net s)"
definition ipv6_hdr :: "sk_buff \<Rightarrow> ipv6hdr" where "ipv6_hdr s = ipv6hdr_at (sb_bytes s) (sb_net s)"

text \<open>\<open>skb_header_pointer\<close>: where the bytes are, if the packet has them.\<close>

definition skb_header_pointer :: "sk_buff \<Rightarrow> nat \<Rightarrow> nat \<Rightarrow> nat option" where
  "skb_header_pointer s off n = (if off + n \<le> sb_len s then Some (sb_data s + off) else None)"

definition skb_mac_header_was_set :: "sk_buff \<Rightarrow> bool" where
  "skb_mac_header_was_set s = (sb_mac s \<noteq> 0xFFFF)"

text \<open>Its length is unsigned: a MAC header behind the network header counts as a long one.\<close>

definition skb_mac_header_len :: "sk_buff \<Rightarrow> u32" where
  "skb_mac_header_len s = of_nat (sb_net s) - ucast (sb_mac s)"

definition is_broadcast_ether_addr :: "u8 list \<Rightarrow> bool" where
  "is_broadcast_ether_addr a = (a = replicate 6 0xFF)"

definition is_valid_ether_addr :: "u8 list \<Rightarrow> bool" where
  "is_valid_ether_addr a = (\<not> is_multicast_ether_addr a \<and> a \<noteq> replicate 6 0)"

definition ipv4_is_multicast :: "be32 \<Rightarrow> bool" where
  "ipv4_is_multicast a = (a AND htonl 0xf0000000 = htonl 0xe0000000)"

text \<open>More fragments, or an offset.\<close>

definition ip_is_fragment :: "iphdr \<Rightarrow> bool" where
  "ip_is_fragment h = (ip_frag_off h AND cpu_to_be16 0x3FFF \<noteq> 0)"

section \<open>Buffer operations\<close>

definition skb_push :: "nat \<Rightarrow> sk_buff \<Rightarrow> sk_buff" where
  "skb_push n s = s\<lparr>sb_data := sb_data s - n, sb_len := sb_len s + n\<rparr>"

definition skb_pull :: "nat \<Rightarrow> sk_buff \<Rightarrow> sk_buff" where
  "skb_pull n s = s\<lparr>sb_data := sb_data s + n, sb_len := sb_len s - n\<rparr>"

definition skb_set_network_header :: "nat \<Rightarrow> sk_buff \<Rightarrow> sk_buff" where
  "skb_set_network_header off s = s\<lparr>sb_net := sb_data s + off\<rparr>"

definition skb_set_transport_header :: "nat \<Rightarrow> sk_buff \<Rightarrow> sk_buff" where
  "skb_set_transport_header off s = s\<lparr>sb_trans := sb_data s + off\<rparr>"

definition skb_set_mac_header :: "int \<Rightarrow> sk_buff \<Rightarrow> sk_buff" where
  "skb_set_mac_header off s = s\<lparr>sb_mac := of_int (int (sb_data s) + off)\<rparr>"

definition upd_bytes :: "((nat \<Rightarrow> u8) \<Rightarrow> (nat \<Rightarrow> u8)) \<Rightarrow> sk_buff \<Rightarrow> sk_buff" where
  "upd_bytes f s = s\<lparr>sb_bytes := f (sb_bytes s)\<rparr>"

definition skb_vlan_tag_present :: "sk_buff \<Rightarrow> bool" where
  "skb_vlan_tag_present s = (sb_vlan_proto s \<noteq> 0 \<or> sb_vlan_tci s \<noteq> 0)"

definition VLAN_VID_MASK :: u16 where "VLAN_VID_MASK = 0x0fff"
definition VLAN_CFI_MASK :: u16 where "VLAN_CFI_MASK = 0x1000"

definition skb_vlan_tag_get_id :: "sk_buff \<Rightarrow> u16" where
  "skb_vlan_tag_get_id s = sb_vlan_tci s AND VLAN_VID_MASK"

text \<open>A tag in the metadata, or one in the packet (802.1Q or 802.1AD).\<close>

definition skb_vlan_tagged :: "sk_buff \<Rightarrow> bool" where
  "skb_vlan_tagged s =
     (skb_vlan_tag_present s \<or> sb_protocol s = cpu_to_be16 ETH_P_8021Q \<or> sb_protocol s = cpu_to_be16 0x88A8)"

text \<open>The verdicts of a hook.\<close>

datatype verdict = NF_DROP | NF_ACCEPT | NF_STOLEN

text \<open>What a hook does with a packet it takes: it is sent, or received again.\<close>

datatype skb_output = Dev_queue_xmit sk_buff | Netif_rx sk_buff

section \<open>Lemmas\<close>

lemma length_bytes_at [simp]: "length (bytes_at b i n) = n"
  by (simp add: bytes_at_def)

lemma bytes_at_put_same: "length bs = n \<Longrightarrow> bytes_at (put_bytes i bs b) i n = bs"
  by (rule nth_equalityI) (auto simp: bytes_at_def put_bytes_def)

lemma bytes_at_put_other:
  "i + length bs \<le> j \<or> j + n \<le> i \<Longrightarrow> bytes_at (put_bytes i bs b) j n = bytes_at b j n"
  by (rule nth_equalityI) (auto simp: bytes_at_def put_bytes_def)

lemma put_bytes_other: "k < i \<or> i + length bs \<le> k \<Longrightarrow> put_bytes i bs b k = b k"
  by (auto simp: put_bytes_def)

end
