(* ===== verification/Hnat_Api.thy ===== *)
theory Hnat_Api
  imports Hnat_State Skb
begin

text \<open>
  The programming interface of the offload driver, \<^verbatim>\<open>mtk_hnat/hnat_api.c\<close>: reading a bound entry into
  a tuple, the hash of a tuple (\<open>hnat_get_ppe_hash\<close> of \<^verbatim>\<open>hnat_debugfs.c\<close>), deleting an entry, and the
  updates of single properties of a bound entry, by index and by packet.
\<close>

section \<open>Tuples\<close>

datatype hnat_status = HNAT_ALREADY_SET | HNAT_SUCCESS | HNAT_FAIL | HNAT_ENTRY_NOT_FOUND

record hnat_tuple =
  t_ppe_index :: u16
  t_hash_index :: u16
  t_ttl :: u16
  t_psn :: u16
  t_fqos :: u16
  t_qid :: u16
  t_vlan_layer :: u16
  t_dscp :: u16
  t_pkt_type :: u16
  t_is_udp :: u16
  t_fdr_en :: u16
  t_rxid :: u16
  t_fp :: u16
  t_tid :: u16
  t_is_prior :: u16
  t_dmac :: "u8 list"
  t_smac :: "u8 list"
  t_vlan1 :: u16
  t_vlan2 :: u16
  t_pppoe_id :: u16
  t_ing_sipv4 :: u32
  t_ing_dipv4 :: u32
  t_ing_sipv6 :: "u32 list"
  t_ing_dipv6 :: "u32 list"
  t_eg_sipv4 :: u32
  t_eg_dipv4 :: u32
  t_eg_sipv6 :: "u32 list"
  t_eg_dipv6 :: "u32 list"
  t_ing_sp :: u16
  t_ing_dp :: u16
  t_eg_sp :: u16
  t_eg_dp :: u16
  t_ing_dev :: string
  t_eg_dev :: string

definition NR_QDMA_TPORT :: u32 where "NR_QDMA_TPORT = 1"

text \<open>Reading a field into an \<^verbatim>\<open>unsigned short\<close>.\<close>

definition rd16 :: "foe_words \<Rightarrow> field \<Rightarrow> u16" where
  "rd16 e f = ucast (rd e f)"

definition info_blk_from :: "layout \<Rightarrow> foe_words \<Rightarrow> hnat_tuple \<Rightarrow> hnat_tuple" where
  "info_blk_from s e t =
     t\<lparr>t_fqos := (if rd e (in_view s ''tport_id'') = NR_QDMA_TPORT then 1 else 0),
       t_qid := rd16 e (iblk2 s ''qid''), t_dscp := rd16 e (iblk2 s ''dscp''),
       t_fdr_en := rd16 e (iblk2 s ''winfoi''), t_rxid := rd16 e (iblk2 s ''rxid''),
       t_fp := rd16 e (iblk2 s ''dp''), t_tid := rd16 e (winfo_pao s ''tid''),
       t_is_prior := rd16 e (winfo_pao s ''is_prior'')\<rparr>"

definition mtk_hnat_foe_to_tuple_info_blk :: "foe_words \<Rightarrow> hnat_tuple \<Rightarrow> hnat_tuple" where
  "mtk_hnat_foe_to_tuple_info_blk e t =
     (let t1 = t\<lparr>t_is_udp := rd16 e (bfib1 ''udp''), t_pkt_type := rd16 e (bfib1 ''pkt_type''),
                 t_vlan_layer := rd16 e (bfib1 ''vlan_layer''), t_psn := rd16 e (bfib1 ''psn''),
                 t_ttl := rd16 e (bfib1 ''ttl'')\<rparr>
      in if pkt_type e = IPV4_HNAPT then info_blk_from hnat_ipv4_hnapt e t1
         else if pkt_type e = IPV6_5T_ROUTE then info_blk_from hnat_ipv6_5t_route e t1
         else t1)"

text \<open>The Ethernet header: \<open>memcpy\<close> of the swapped halves.\<close>

definition mtk_hnat_foe_to_tuple_l2 :: "foe_words \<Rightarrow> hnat_tuple \<Rightarrow> hnat_tuple" where
  "mtk_hnat_foe_to_tuple_l2 e t =
     (let s = (if IS_IPV4_GRP e then hnat_ipv4_hnapt else hnat_ipv6_5t_route)
      in t\<lparr>t_vlan1 := rd16 e (in_view s ''vlan1''), t_vlan2 := rd16 e (in_view s ''vlan2''),
           t_pppoe_id := rd16 e (in_view s ''pppoe_id''),
           t_dmac := mem_bytes32 (swab32 (rd e (in_view s ''dmac_hi'')))
                       @ mem_bytes16 (swab16 (rd16 e (in_view s ''dmac_lo''))),
           t_smac := mem_bytes32 (swab32 (rd e (in_view s ''smac_hi'')))
                       @ mem_bytes16 (swab16 (rd16 e (in_view s ''smac_lo'')))\<rparr>)"

definition sip6_of :: "foe_words \<Rightarrow> u32 list" where
  "sip6_of e = map (\<lambda>m. rd e (in_view hnat_ipv6_5t_route m))
     [''ipv6_sip0'', ''ipv6_sip1'', ''ipv6_sip2'', ''ipv6_sip3'']"

definition dip6_of :: "foe_words \<Rightarrow> u32 list" where
  "dip6_of e = map (\<lambda>m. rd e (in_view hnat_ipv6_5t_route m))
     [''ipv6_dip0'', ''ipv6_dip1'', ''ipv6_dip2'', ''ipv6_dip3'']"

definition mtk_hnat_foe_to_tuple_l3 :: "foe_words \<Rightarrow> hnat_tuple \<Rightarrow> hnat_tuple" where
  "mtk_hnat_foe_to_tuple_l3 e t =
     (if pkt_type e = IPV4_HNAPT
      then t\<lparr>t_ing_sipv4 := htonl (rd e (in_view hnat_ipv4_hnapt ''sip'')),
             t_ing_dipv4 := htonl (rd e (in_view hnat_ipv4_hnapt ''dip'')),
             t_eg_sipv4 := htonl (rd e (in_view hnat_ipv4_hnapt ''new_sip'')),
             t_eg_dipv4 := htonl (rd e (in_view hnat_ipv4_hnapt ''new_dip''))\<rparr>
      else if pkt_type e = IPV6_5T_ROUTE
      then t\<lparr>t_ing_sipv6 := sip6_of e, t_ing_dipv6 := dip6_of e,
             t_eg_sipv6 := sip6_of e, t_eg_dipv6 := dip6_of e\<rparr>
      else t)"

definition mtk_hnat_foe_to_tuple_l4 :: "foe_words \<Rightarrow> hnat_tuple \<Rightarrow> hnat_tuple" where
  "mtk_hnat_foe_to_tuple_l4 e t =
     (if pkt_type e = IPV4_HNAPT
      then t\<lparr>t_ing_sp := rd16 e (in_view hnat_ipv4_hnapt ''sport''),
             t_ing_dp := rd16 e (in_view hnat_ipv4_hnapt ''dport''),
             t_eg_sp := rd16 e (in_view hnat_ipv4_hnapt ''new_sport''),
             t_eg_dp := rd16 e (in_view hnat_ipv4_hnapt ''new_dport'')\<rparr>
      else if pkt_type e = IPV6_5T_ROUTE
      then t\<lparr>t_ing_sp := rd16 e (in_view hnat_ipv6_5t_route ''sport''),
             t_ing_dp := rd16 e (in_view hnat_ipv6_5t_route ''dport''),
             t_eg_sp := rd16 e (in_view hnat_ipv6_5t_route ''sport''),
             t_eg_dp := rd16 e (in_view hnat_ipv6_5t_route ''dport'')\<rparr>
      else t)"

definition mtk_hnat_foe_to_hnat_tuple :: "foe_words \<Rightarrow> hnat_tuple \<Rightarrow> hnat_tuple" where
  "mtk_hnat_foe_to_hnat_tuple hw t =
     (let e = foe_copy hw zero_words
      in mtk_hnat_foe_to_tuple_l4 e (mtk_hnat_foe_to_tuple_l3 e
           (mtk_hnat_foe_to_tuple_l2 e (mtk_hnat_foe_to_tuple_info_blk e t))))"

text \<open>The guard shared by the operations on one entry.\<close>

definition bad_index :: "u16 \<Rightarrow> u16 \<Rightarrow> mtk_hnat \<Rightarrow> bool" where
  "bad_index p i h = (unat p \<ge> h_ppe_num h \<or> unat i \<ge> h_etry_num h)"

definition mtk_hnat_get_ppe_num :: "mtk_hnat \<Rightarrow> nat" where
  "mtk_hnat_get_ppe_num h = h_ppe_num h"

definition mtk_hnat_get_ppe_entry_num :: "mtk_hnat \<Rightarrow> nat" where
  "mtk_hnat_get_ppe_entry_num h = h_etry_num h"

definition mtk_hnat_get_ppe_entry_by_index :: "hnat_tuple \<Rightarrow> mtk_hnat \<Rightarrow> hnat_status \<times> hnat_tuple" where
  "mtk_hnat_get_ppe_entry_by_index t h =
     (if bad_index (t_ppe_index t) (t_hash_index t) h then (HNAT_FAIL, t)
      else let e = h_table h (unat (t_ppe_index t)) (unat (t_hash_index t))
           in if \<not> entry_hnat_is_bound e then (HNAT_ENTRY_NOT_FOUND, t)
              else (HNAT_SUCCESS, mtk_hnat_foe_to_hnat_tuple e t))"

section \<open>The hash\<close>

text \<open>The three words that are mixed, by packet type (all zero for the others).\<close>

definition ppe_hash_words :: "foe_words \<Rightarrow> u32 \<times> u32 \<times> u32" where
  "ppe_hash_words e =
     (let t = pkt_type e in
      if t = L2_BRIDGE
      then (push_bit 16 (rd e (in_view hnat_l2_bridge ''etype''))
              OR (rd e (in_view hnat_l2_bridge ''vlan2'') XOR rd e (in_view hnat_l2_bridge ''vlan1'')),
            0x5a5a OR push_bit 16 (rd e (in_view hnat_l2_bridge ''smac_lo'')
                                     XOR rd e (in_view hnat_l2_bridge ''dmac_lo'')),
            rd e (in_view hnat_l2_bridge ''dmac_hi'') XOR rd e (in_view hnat_l2_bridge ''smac_hi''))
      else if t = IPV4_HNAPT \<or> t = IPV4_HNAT \<or> t = IPV4_DSLITE
      then (push_bit 16 (rd e (in_view hnat_ipv4_hnapt ''sport'')) OR rd e (in_view hnat_ipv4_hnapt ''dport''),
            rd e (in_view hnat_ipv4_hnapt ''dip''), rd e (in_view hnat_ipv4_hnapt ''sip''))
      else if t = IPV6_3T_ROUTE \<or> t = IPV6_5T_ROUTE \<or> t = IPV6_6RD
      then (let s = sip6_of e; d = dip6_of e in
            ((s ! 3 XOR d ! 3) XOR (push_bit 16 (rd e (in_view hnat_ipv6_5t_route ''sport''))
                                      OR rd e (in_view hnat_ipv6_5t_route ''dport'')),
             (s ! 2 XOR d ! 2) XOR d ! 0,
             (s ! 1 XOR d ! 1) XOR s ! 0))
      else (0, 0, 0))"

definition mix_hash :: "u32 \<Rightarrow> u32 \<Rightarrow> u32 \<Rightarrow> u32" where
  "mix_hash hv1 hv2 hv3 =
     (let a = (hv1 AND hv2) OR (NOT hv1 AND hv3);
          b = drop_bit 24 a OR push_bit 8 (a AND 0xffffff);
          c = b XOR (hv1 XOR hv2 XOR hv3);
          e = c XOR drop_bit 16 c
      in push_bit 2 e)"

definition hnat_get_ppe_hash :: "foe_words \<Rightarrow> mtk_hnat \<Rightarrow> u32" where
  "hnat_get_ppe_hash e h =
     (case ppe_hash_words e of (hv1, hv2, hv3) \<Rightarrow> mix_hash hv1 hv2 hv3 AND (of_nat (h_etry_num h) - 1))"

text \<open>The entry a tuple is hashed as; the type is cut to the width of its field.\<close>

definition tuple_entry :: "hnat_tuple \<Rightarrow> foe_words option" where
  "tuple_entry t =
     (let e = wr (bfib1 ''pkt_type'') (ucast (t_pkt_type t)) zero_words in
      if ucast (t_pkt_type t) = IPV4_HNAPT
      then Some (wr (in_view hnat_ipv4_hnapt ''dport'') (ucast (t_ing_dp t))
                (wr (in_view hnat_ipv4_hnapt ''sport'') (ucast (t_ing_sp t))
                (wr (in_view hnat_ipv4_hnapt ''dip'') (t_ing_dipv4 t)
                (wr (in_view hnat_ipv4_hnapt ''sip'') (t_ing_sipv4 t) e))))
      else if ucast (t_pkt_type t) = IPV6_5T_ROUTE
      then Some (wr (in_view hnat_ipv6_5t_route ''dport'') (ucast (t_ing_dp t))
                (wr (in_view hnat_ipv6_5t_route ''sport'') (ucast (t_ing_sp t))
                (wr (in_view hnat_ipv6_5t_route ''ipv6_dip3'') (t_ing_dipv6 t ! 3)
                (wr (in_view hnat_ipv6_5t_route ''ipv6_dip2'') (t_ing_dipv6 t ! 2)
                (wr (in_view hnat_ipv6_5t_route ''ipv6_dip1'') (t_ing_dipv6 t ! 1)
                (wr (in_view hnat_ipv6_5t_route ''ipv6_dip0'') (t_ing_dipv6 t ! 0)
                (wr (in_view hnat_ipv6_5t_route ''ipv6_sip3'') (t_ing_sipv6 t ! 3)
                (wr (in_view hnat_ipv6_5t_route ''ipv6_sip2'') (t_ing_sipv6 t ! 2)
                (wr (in_view hnat_ipv6_5t_route ''ipv6_sip1'') (t_ing_sipv6 t ! 1)
                (wr (in_view hnat_ipv6_5t_route ''ipv6_sip0'') (t_ing_sipv6 t ! 0) e))))))))))
      else None)"

text \<open>\<open>dev_id\<close> looks up a device by name and gives the number of its GMAC; \<open>None\<close> for the tuple is a
  null pointer.  The engine is set even when the type is refused.\<close>

definition mtk_hnat_calc_ppe_hash_index_by_tuple ::
  "(string \<Rightarrow> nat option) \<Rightarrow> hnat_tuple option \<Rightarrow> mtk_hnat \<Rightarrow> hnat_status \<times> hnat_tuple option" where
  "mtk_hnat_calc_ppe_hash_index_by_tuple dev_id opt h =
     (case opt of
        None \<Rightarrow> (HNAT_FAIL, None)
      | Some t \<Rightarrow>
     (case dev_id (t_ing_dev t) of
        None \<Rightarrow> (HNAT_FAIL, Some t)
      | Some mac \<Rightarrow>
          let t1 = t\<lparr>t_ppe_index := (if mac = 2 \<and> h_ppe_num h \<ge> 3 then 2
                                    else if mac = 1 \<and> h_ppe_num h \<ge> 2 then 1 else 0)\<rparr>
          in (case tuple_entry t1 of
                None \<Rightarrow> (HNAT_FAIL, Some t1)
              | Some e \<Rightarrow> (HNAT_SUCCESS, Some (t1\<lparr>t_hash_index := ucast (hnat_get_ppe_hash e h)\<rparr>)))))"

section \<open>Deletion\<close>

definition mtk_hnat_delete_entry_by_index ::
  "ppe_dev \<Rightarrow> u16 \<Rightarrow> u16 \<Rightarrow> mtk_hnat \<Rightarrow> hnat_status \<times> mtk_hnat" where
  "mtk_hnat_delete_entry_by_index d p i h =
     (if bad_index p i h then (HNAT_FAIL, h)
      else (HNAT_SUCCESS,
            hnat_cache_clr d (unat p) (on_entry (unat p) (unat i) (delete_words (hnat_timestamp h)) h)))"

section \<open>Updates\<close>

text \<open>The template: the logic works on a copy, which is written back and the cache flushed when it
  succeeds; \<open>HNAT_ALREADY_SET\<close> is reported as success.\<close>

definition hnat_update_entry_generic ::
  "ppe_dev \<Rightarrow> u16 \<Rightarrow> u16 \<Rightarrow> (foe_words \<Rightarrow> hnat_status \<times> foe_words) \<Rightarrow> mtk_hnat
     \<Rightarrow> hnat_status \<times> mtk_hnat" where
  "hnat_update_entry_generic d p i logic h =
     (if bad_index p i h then (HNAT_FAIL, h)
      else let hw = h_table h (unat p) (unat i)
           in if \<not> entry_hnat_is_bound hw then (HNAT_ENTRY_NOT_FOUND, h)
              else (case logic (foe_copy hw zero_words) of
                      (ret, e) \<Rightarrow>
                        (if ret = HNAT_ALREADY_SET then HNAT_SUCCESS else ret,
                         if ret = HNAT_SUCCESS
                         then hnat_cache_clr d (unat p) (on_entry (unat p) (unat i) (foe_copy e) h)
                         else h)))"

definition MTK_QDMA_NUM_QUEUES :: nat where "MTK_QDMA_NUM_QUEUES = 64"

definition MTK_QDMA_QUEUE_MASK :: u16 where "MTK_QDMA_QUEUE_MASK = 0xffff"

definition set_hqos_in :: "layout \<Rightarrow> u32 \<Rightarrow> u32 \<Rightarrow> foe_words \<Rightarrow> hnat_status \<times> foe_words" where
  "set_hqos_in s fqos qid e =
     (if rd e (iblk2 s ''fqos'') = fqos \<and> rd e (iblk2 s ''qid'') = qid then (HNAT_ALREADY_SET, e)
      else (HNAT_SUCCESS,
            wr (iblk2 s ''qid'') qid
           (wr (iblk2 s ''fqos'') fqos
           (wr (in_view s ''tport_id'') (if fqos \<noteq> 0 then NR_QDMA_TPORT else 0) e))))"

definition hnat_entry_set_hqos :: "u16 \<Rightarrow> u16 \<Rightarrow> foe_words \<Rightarrow> hnat_status \<times> foe_words" where
  "hnat_entry_set_hqos fqos qid e =
     (if unat qid \<ge> MTK_QDMA_NUM_QUEUES then (HNAT_FAIL, e)
      else let f = (if fqos \<noteq> 0 then 1 else 0); q = ucast (qid AND MTK_QDMA_QUEUE_MASK)
           in if IS_IPV4_GRP e then set_hqos_in hnat_ipv4_hnapt f q e
              else if IS_IPV6_GRP e then set_hqos_in hnat_ipv6_5t_route f q e
              else (HNAT_FAIL, e))"

definition set_dscp_in :: "layout \<Rightarrow> u32 \<Rightarrow> foe_words \<Rightarrow> hnat_status \<times> foe_words" where
  "set_dscp_in s dscp e =
     (if rd e (iblk2 s ''dscp'') = dscp then (HNAT_ALREADY_SET, e)
      else (HNAT_SUCCESS, wr (iblk2 s ''dscp'') dscp e))"

text \<open>The DSCP is an \<^verbatim>\<open>int\<close>; a negative one counts as 0.\<close>

definition hnat_entry_set_dscp :: "int \<Rightarrow> foe_words \<Rightarrow> hnat_status \<times> foe_words" where
  "hnat_entry_set_dscp dscp e =
     (let v = (if dscp > 0 then word_of_int dscp AND 0xff else 0)
      in if IS_IPV4_GRP e then set_dscp_in hnat_ipv4_hnapt v e
         else if IS_IPV6_GRP e then set_dscp_in hnat_ipv6_5t_route v e
         else (HNAT_FAIL, e))"

definition ETH_P_8021Q_TAG :: u32 where "ETH_P_8021Q_TAG = 0x8100"

definition set_vlan_in :: "layout \<Rightarrow> u16 \<Rightarrow> u16 \<Rightarrow> foe_words \<Rightarrow> hnat_status \<times> foe_words" where
  "set_vlan_in s v1 v2 e =
     (let layers = (if v1 \<noteq> 0 then 1 else 0) + (if v2 \<noteq> 0 then 1 else 0) :: u32
      in if rd e (bfib1 ''vlan_layer'') = layers \<and> rd e (in_view s ''vlan1'') = ucast v1
            \<and> rd e (in_view s ''vlan2'') = ucast v2
         then (HNAT_ALREADY_SET, e)
         else
           let is_dsa = (rd e (bfib1 ''vlan_layer'') \<noteq> 0 \<and> rd e (in_view s ''sp_tag'') \<noteq> ETH_P_8021Q_TAG);
               e1 = wr (in_view s ''vlan2'') (ucast v2)
                   (wr (in_view s ''vlan1'') (ucast v1)
                   (wr (bfib1 ''vlan_layer'') layers e))
           in (HNAT_SUCCESS,
               if is_dsa
               then (if rd e1 (bfib1 ''vlan_layer'') = 0
                     then wr (in_view s ''sp_tag'') (rd e1 (in_view s ''sp_tag'') AND NOT (BIT 8))
                         (wr (bfib1 ''vlan_layer'') 1 e1)
                     else wr (in_view s ''sp_tag'') (rd e1 (in_view s ''sp_tag'') OR BIT 8) e1)
               else if rd e1 (bfib1 ''vlan_layer'') \<noteq> 0 then wr (in_view s ''sp_tag'') ETH_P_8021Q_TAG e1
               else e1))"

definition hnat_entry_set_vlan :: "u16 \<Rightarrow> u16 \<Rightarrow> foe_words \<Rightarrow> hnat_status \<times> foe_words" where
  "hnat_entry_set_vlan v1 v2 e =
     (if IS_IPV4_GRP e then set_vlan_in hnat_ipv4_hnapt v1 v2 e
      else if IS_IPV6_GRP e then set_vlan_in hnat_ipv6_5t_route v1 v2 e
      else (HNAT_FAIL, e))"

definition set_pppoe_in :: "layout \<Rightarrow> u32 \<Rightarrow> u32 \<Rightarrow> foe_words \<Rightarrow> hnat_status \<times> foe_words" where
  "set_pppoe_in s psn pid e =
     (if rd e (bfib1 ''psn'') = psn \<and> rd e (in_view s ''pppoe_id'') = pid then (HNAT_ALREADY_SET, e)
      else (HNAT_SUCCESS, wr (bfib1 ''psn'') psn (wr (in_view s ''pppoe_id'') pid e)))"

definition hnat_entry_set_pppoe :: "u16 \<Rightarrow> u16 \<Rightarrow> foe_words \<Rightarrow> hnat_status \<times> foe_words" where
  "hnat_entry_set_pppoe psn pid e =
     (let b = (if psn \<noteq> 0 then 1 else 0)
      in if IS_IPV4_GRP e then set_pppoe_in hnat_ipv4_hnapt b (ucast pid) e
         else if IS_IPV6_GRP e then set_pppoe_in hnat_ipv6_5t_route b (ucast pid) e
         else (HNAT_FAIL, e))"

definition set_pao_in :: "string \<Rightarrow> layout \<Rightarrow> u32 \<Rightarrow> foe_words \<Rightarrow> hnat_status \<times> foe_words" where
  "set_pao_in m s v e =
     (if rd e (winfo_pao s m) = v then (HNAT_ALREADY_SET, e)
      else (HNAT_SUCCESS, wr (winfo_pao s m) v e))"

text \<open>The view that \<open>hnat_entry_set_is_prior\<close> and \<open>hnat_entry_set_tid\<close> choose.\<close>

definition pao_view :: "foe_words \<Rightarrow> layout option" where
  "pao_view e =
     (if IS_IPV4_GRP e then Some hnat_ipv4_hnapt
      else if pkt_type e = IPV6_HNAPT \<or> pkt_type e = IPV6_HNAT then Some hnat_ipv6_hnapt
      else if IS_IPV6_GRP e then Some hnat_ipv4_mape
      else None)"

definition hnat_entry_set_is_prior :: "u16 \<Rightarrow> foe_words \<Rightarrow> hnat_status \<times> foe_words" where
  "hnat_entry_set_is_prior is_prior e =
     (case pao_view e of
        None \<Rightarrow> (HNAT_FAIL, e)
      | Some s \<Rightarrow> set_pao_in ''is_prior'' s (ucast (is_prior AND 0x1)) e)"

definition hnat_entry_set_tid :: "u16 \<Rightarrow> foe_words \<Rightarrow> hnat_status \<times> foe_words" where
  "hnat_entry_set_tid tid e =
     (case pao_view e of
        None \<Rightarrow> (HNAT_FAIL, e)
      | Some s \<Rightarrow> set_pao_in ''tid'' s (ucast (tid AND 0xf)) e)"

section \<open>By packet\<close>

text \<open>What the packet engine left in the headroom of a packet, with the room there is for it.\<close>

record skb_info =
  sk_entry :: u16
  sk_crsn :: "5 word"
  sk_sport :: "4 word"
  sk_alg :: bool
  sk_magic :: u16
  sk_headroom :: nat

definition skb_hnat_ppe :: "skb_info \<Rightarrow> mtk_hnat \<Rightarrow> nat" where
  "skb_hnat_ppe skb h =
     (case gmac_of_port (unat (sk_sport skb)) of
        None \<Rightarrow> 0
      | Some (reg, gmac) \<Rightarrow> (case h_mac h gmac of None \<Rightarrow> 0 | Some idx \<Rightarrow> idx))"

definition skb_hnat_is_hashed :: "skb_info \<Rightarrow> mtk_hnat \<Rightarrow> bool" where
  "skb_hnat_is_hashed skb h = (sk_entry skb \<noteq> 0x7fff \<and> unat (sk_entry skb) < h_etry_num h)"

definition hnat_get_idx_from_skb :: "skb_info option \<Rightarrow> mtk_hnat \<Rightarrow> (u16 \<times> u16) option" where
  "hnat_get_idx_from_skb skb h =
     (case skb of
        None \<Rightarrow> None
      | Some k \<Rightarrow>
          if sk_alg k \<or> sk_magic k \<noteq> HNAT_MAGIC_TAG \<or> sk_headroom k < FOE_INFO_LEN
             \<or> \<not> skb_hnat_is_hashed k h
          then None
          else if sk_crsn k \<noteq> HIT_BIND_KEEPALIVE_DUP_OLD_HDR then None
          else Some (of_nat (skb_hnat_ppe k h), sk_entry k))"

text \<open>The updates by index and by packet: one pair for each property.\<close>

datatype hnat_update =
    Upd_hqos u16 u16
  | Upd_dscp int
  | Upd_vlan u16 u16
  | Upd_pppoe u16 u16
  | Upd_is_prior u16
  | Upd_tid u16

fun update_logic :: "hnat_update \<Rightarrow> foe_words \<Rightarrow> hnat_status \<times> foe_words" where
  "update_logic (Upd_hqos fqos qid) = hnat_entry_set_hqos fqos qid"
| "update_logic (Upd_dscp dscp) = hnat_entry_set_dscp dscp"
| "update_logic (Upd_vlan v1 v2) = hnat_entry_set_vlan v1 v2"
| "update_logic (Upd_pppoe psn pid) = hnat_entry_set_pppoe psn pid"
| "update_logic (Upd_is_prior v) = hnat_entry_set_is_prior v"
| "update_logic (Upd_tid v) = hnat_entry_set_tid v"

definition mtk_hnat_update_by_index ::
  "ppe_dev \<Rightarrow> u16 \<Rightarrow> u16 \<Rightarrow> hnat_update \<Rightarrow> mtk_hnat \<Rightarrow> hnat_status \<times> mtk_hnat" where
  "mtk_hnat_update_by_index d p i u h = hnat_update_entry_generic d p i (update_logic u) h"

definition mtk_hnat_update_by_skb ::
  "ppe_dev \<Rightarrow> skb_info option \<Rightarrow> hnat_update \<Rightarrow> mtk_hnat \<Rightarrow> hnat_status \<times> mtk_hnat" where
  "mtk_hnat_update_by_skb d skb u h =
     (case hnat_get_idx_from_skb skb h of
        None \<Rightarrow> (HNAT_FAIL, h)
      | Some (p, i) \<Rightarrow> mtk_hnat_update_by_index d p i u h)"

section \<open>The rest of the interface\<close>

definition mtk_hnat_get_fin_age_config :: "u16 \<Rightarrow> mtk_hnat \<Rightarrow> int" where
  "mtk_hnat_get_fin_age_config p h =
     (if unat p \<ge> h_ppe_num h then - EINVAL
      else if pr (h_ppe h (unat p)) PPE_TB_CFG AND FIN_AGE \<noteq> 0 then 1 else 0)"

definition mtk_hnat_set_fin_age_config :: "u16 \<Rightarrow> bool \<Rightarrow> mtk_hnat \<Rightarrow> hnat_status \<times> mtk_hnat" where
  "mtk_hnat_set_fin_age_config p en h =
     (if unat p \<ge> h_ppe_num h then (HNAT_FAIL, h)
      else (HNAT_SUCCESS, on_ppe (unat p) (set_field PPE_TB_CFG FIN_AGE (if en then 1 else 0)) h))"

text \<open>The registered callbacks; \<open>None\<close> is a null function.\<close>

record 'f callbacks =
  hnat_bind_callback :: "'f option"
  hnat_fin_callback :: "'f option"

definition mtk_hnat_register_bind_callback ::
  "'f option \<Rightarrow> 'f callbacks \<Rightarrow> hnat_status \<times> 'f callbacks" where
  "mtk_hnat_register_bind_callback func c =
     (case func of None \<Rightarrow> (HNAT_FAIL, c) | Some f \<Rightarrow> (HNAT_SUCCESS, c\<lparr>hnat_bind_callback := Some f\<rparr>))"

definition mtk_hnat_register_fin_callback ::
  "'f option \<Rightarrow> 'f callbacks \<Rightarrow> hnat_status \<times> 'f callbacks" where
  "mtk_hnat_register_fin_callback func c =
     (case func of None \<Rightarrow> (HNAT_FAIL, c) | Some f \<Rightarrow> (HNAT_SUCCESS, c\<lparr>hnat_fin_callback := Some f\<rparr>))"

definition zero_tuple :: hnat_tuple where
  "zero_tuple = \<lparr>t_ppe_index = 0, t_hash_index = 0, t_ttl = 0, t_psn = 0, t_fqos = 0, t_qid = 0,
     t_vlan_layer = 0, t_dscp = 0, t_pkt_type = 0, t_is_udp = 0, t_fdr_en = 0, t_rxid = 0, t_fp = 0,
     t_tid = 0, t_is_prior = 0, t_dmac = [0, 0, 0, 0, 0, 0], t_smac = [0, 0, 0, 0, 0, 0], t_vlan1 = 0,
     t_vlan2 = 0, t_pppoe_id = 0, t_ing_sipv4 = 0, t_ing_dipv4 = 0, t_ing_sipv6 = [0, 0, 0, 0],
     t_ing_dipv6 = [0, 0, 0, 0], t_eg_sipv4 = 0, t_eg_dipv4 = 0, t_eg_sipv6 = [0, 0, 0, 0],
     t_eg_dipv6 = [0, 0, 0, 0], t_ing_sp = 0, t_ing_dp = 0, t_eg_sp = 0, t_eg_dp = 0, t_ing_dev = [],
     t_eg_dev = []\<rparr>"

text \<open>\<open>hnat_trigger_callback\<close>: the calls made, each a function with its tuple.  \<open>iif\<close> is the name of
  the ingress device where it still exists; names are cut to 15 characters.\<close>

definition hnat_trigger_callback ::
  "'f option \<Rightarrow> skb_info \<Rightarrow> string option \<Rightarrow> string \<Rightarrow> mtk_hnat \<Rightarrow> ('f \<times> hnat_tuple) list" where
  "hnat_trigger_callback func skb iif oif h =
     (let t = zero_tuple\<lparr>t_ppe_index := of_nat (skb_hnat_ppe skb h), t_hash_index := sk_entry skb,
                         t_ing_dev := (case iif of None \<Rightarrow> [] | Some n \<Rightarrow> take 15 n),
                         t_eg_dev := take 15 oif\<rparr>
      in case func of
           None \<Rightarrow> []
         | Some f \<Rightarrow> (case mtk_hnat_get_ppe_entry_by_index t h of
                        (HNAT_SUCCESS, t') \<Rightarrow> [(f, t')]
                      | _ \<Rightarrow> []))"

end
