(* ===== verification/Hnat_Api_Props.thy ===== *)
theory Hnat_Api_Props
  imports Hnat_Api Foe_Views
begin

text \<open>
  Lemmas on the interface of \<open>Hnat_Api\<close>: which fields an update touches, that it touches no other,
  that repeating it changes nothing, and what a tuple shows of an entry.
\<close>

section \<open>Copies\<close>

lemma rd_foe_copy [simp]: "fld_word f < FOE_WORDS \<Longrightarrow> rd (foe_copy a b) f = rd a f"
  by (cases f) (simp add: rd.simps foe_copy_def)

lemma FOE_WORDS_gt [simp]: "n < 32 \<Longrightarrow> n < FOE_WORDS"
  by (simp add: FOE_WORDS_def)

lemma copy_type [simp]:
  "pkt_type (foe_copy a b) = pkt_type a"
  "IS_IPV4_GRP (foe_copy a b) = IS_IPV4_GRP a"
  "IS_IPV6_GRP (foe_copy a b) = IS_IPV6_GRP a"
  "entry_hnat_is_bound (foe_copy a b) = entry_hnat_is_bound a"
  by (simp_all add: pkt_type_def foe_fld IS_IPV4_GRP_def IS_IPV6_GRP_def entry_hnat_is_bound_def)

section \<open>What an update touches\<close>

definition upd_view :: "foe_words \<Rightarrow> layout" where
  "upd_view e = (if IS_IPV4_GRP e then hnat_ipv4_hnapt else hnat_ipv6_5t_route)"

fun touched :: "hnat_update \<Rightarrow> foe_words \<Rightarrow> field list" where
  "touched (Upd_hqos fqos qid) e =
     [iblk2 (upd_view e) ''qid'', iblk2 (upd_view e) ''fqos'', in_view (upd_view e) ''tport_id'']"
| "touched (Upd_dscp dscp) e = [iblk2 (upd_view e) ''dscp'']"
| "touched (Upd_vlan v1 v2) e =
     [bfib1 ''vlan_layer'', in_view (upd_view e) ''vlan1'', in_view (upd_view e) ''vlan2'',
      in_view (upd_view e) ''sp_tag'']"
| "touched (Upd_pppoe psn pid) e = [bfib1 ''psn'', in_view (upd_view e) ''pppoe_id'']"
| "touched (Upd_is_prior v) e = (case pao_view e of None \<Rightarrow> [] | Some s \<Rightarrow> [winfo_pao s ''is_prior''])"
| "touched (Upd_tid v) e = (case pao_view e of None \<Rightarrow> [] | Some s \<Rightarrow> [winfo_pao s ''tid''])"

lemma set_in_frame:
  assumes "fld_ok g" and s: "s = hnat_ipv4_hnapt \<or> s = hnat_ipv6_5t_route"
  shows
    "fld_disjoint (iblk2 s ''qid'') g \<Longrightarrow> fld_disjoint (iblk2 s ''fqos'') g
       \<Longrightarrow> fld_disjoint (in_view s ''tport_id'') g \<Longrightarrow> rd (snd (set_hqos_in s f q e)) g = rd e g"
    "fld_disjoint (iblk2 s ''dscp'') g \<Longrightarrow> rd (snd (set_dscp_in s v e)) g = rd e g"
    "fld_disjoint (bfib1 ''vlan_layer'') g \<Longrightarrow> fld_disjoint (in_view s ''vlan1'') g
       \<Longrightarrow> fld_disjoint (in_view s ''vlan2'') g \<Longrightarrow> fld_disjoint (in_view s ''sp_tag'') g
       \<Longrightarrow> rd (snd (set_vlan_in s v1 v2 e)) g = rd e g"
    "fld_disjoint (bfib1 ''psn'') g \<Longrightarrow> fld_disjoint (in_view s ''pppoe_id'') g
       \<Longrightarrow> rd (snd (set_pppoe_in s b pid e)) g = rd e g"
  using assms
  by (auto simp: set_hqos_in_def set_dscp_in_def set_vlan_in_def set_pppoe_in_def Let_def foe_fld
      rd_wr_other)

lemma set_pao_frame:
  assumes "fld_ok g" and "s = hnat_ipv4_hnapt \<or> s = hnat_ipv6_hnapt \<or> s = hnat_ipv4_mape"
    and "m = ''is_prior'' \<or> m = ''tid''" and "fld_disjoint (winfo_pao s m) g"
  shows "rd (snd (set_pao_in m s v e)) g = rd e g"
  using assms by (auto simp: set_pao_in_def foe_fld rd_wr_other)

lemma pao_view_cases:
  assumes "pao_view e = Some s"
  shows "s = hnat_ipv4_hnapt \<or> s = hnat_ipv6_hnapt \<or> s = hnat_ipv4_mape"
  using assms by (auto simp: pao_view_def split: if_splits)

lemma update_frame:
  assumes "fld_ok g" and "list_all (\<lambda>f. fld_disjoint f g) (touched u e)"
  shows "rd (snd (update_logic u e)) g = rd e g"
proof (cases u)
  case (Upd_is_prior v)
  then show ?thesis using assms pao_view_cases [of e]
    by (auto simp: hnat_entry_set_is_prior_def split: option.split intro!: set_pao_frame)
next
  case (Upd_tid v)
  then show ?thesis using assms pao_view_cases [of e]
    by (auto simp: hnat_entry_set_tid_def split: option.split intro!: set_pao_frame)
qed (use assms in \<open>auto simp: hnat_entry_set_hqos_def hnat_entry_set_dscp_def hnat_entry_set_vlan_def
       hnat_entry_set_pppoe_def upd_view_def Let_def set_in_frame\<close>)

text \<open>The state and the packet type are never touched.\<close>

lemma touched_disjoint:
  "list_all (\<lambda>f. fld_disjoint f (Fld 0 28 2)) (touched u e)"
  "list_all (\<lambda>f. fld_disjoint f (Fld 0 23 5)) (touched u e)"
  by (cases u; auto simp: upd_view_def pao_view_def foe_fld split: option.split)+

lemma update_type [simp]: "pkt_type (snd (update_logic u e)) = pkt_type e"
  by (simp add: pkt_type_def foe_fld update_frame touched_disjoint)

lemma update_bound [simp]: "entry_hnat_is_bound (snd (update_logic u e)) = entry_hnat_is_bound e"
  by (simp add: entry_hnat_is_bound_def foe_fld update_frame touched_disjoint)

lemma update_grp [simp]:
  "IS_IPV4_GRP (snd (update_logic u e)) = IS_IPV4_GRP e"
  "IS_IPV6_GRP (snd (update_logic u e)) = IS_IPV6_GRP e"
  "pao_view (snd (update_logic u e)) = pao_view e"
  by (simp_all add: IS_IPV4_GRP_def IS_IPV6_GRP_def pao_view_def)

section \<open>Repeating an update\<close>

lemma set_in_again:
  assumes s: "s = hnat_ipv4_hnapt \<or> s = hnat_ipv6_5t_route"
  shows
    "take_bit 1 f = f \<Longrightarrow> take_bit 7 q = q
       \<Longrightarrow> set_hqos_in s f q (snd (set_hqos_in s f q e)) = (HNAT_ALREADY_SET, snd (set_hqos_in s f q e))"
    "take_bit 8 v = v
       \<Longrightarrow> set_dscp_in s v (snd (set_dscp_in s v e)) = (HNAT_ALREADY_SET, snd (set_dscp_in s v e))"
    "take_bit 1 b = b \<Longrightarrow> take_bit 16 pid = pid
       \<Longrightarrow> set_pppoe_in s b pid (snd (set_pppoe_in s b pid e)) = (HNAT_ALREADY_SET, snd (set_pppoe_in s b pid e))"
  using s
  by (auto simp: set_hqos_in_def set_dscp_in_def set_pppoe_in_def foe_fld rd_wr_other rd_wr_same)

lemma set_pao_again:
  assumes "s = hnat_ipv4_hnapt \<or> s = hnat_ipv6_hnapt \<or> s = hnat_ipv4_mape"
    and "m = ''is_prior'' \<and> take_bit 1 v = v \<or> m = ''tid'' \<and> take_bit 4 v = v"
  shows "set_pao_in m s v (snd (set_pao_in m s v e)) = (HNAT_ALREADY_SET, snd (set_pao_in m s v e))"
  using assms by (auto simp: set_pao_in_def foe_fld rd_wr_other rd_wr_same)

lemma wr_same_value:
  assumes "fld_ok f" and "rd e f = take_bit (fld_width f) v"
  shows "wr f v e = e"
proof -
  have "wr f v e = wr f (take_bit (fld_width f) v) e"
    by (cases f) (simp add: wr.simps)
  also have "\<dots> = e" using wr_rd [OF assms(1), of e] assms(2) by simp
  finally show ?thesis .
qed

lemma ucast16_take [simp]: "take_bit 16 (ucast (x::u16) :: u32) = ucast x"
proof -
  have "take_bit 16 (ucast x :: u32) = ucast (take_bit 16 x)"
    by (simp only: unsigned_take_bit_eq)
  moreover have "take_bit 16 x = x"
    by (rule take_bit_word_eq_self) simp
  ultimately show ?thesis by simp
qed

lemma take_bit_and_self: "take_bit n (take_bit n a AND b) = take_bit n a AND (b :: u32)"
  by (auto intro!: bit_word_eqI simp: bit_simps)

lemma ucast16_back [simp]: "(ucast (ucast (x::u16) :: u32) :: u16) = x"
  by (auto intro!: bit_word_eqI simp: bit_simps)

lemma ucast16_inj: "(ucast (x::u16) :: u32) = ucast y \<longleftrightarrow> x = y"
  by (metis ucast16_back)

text \<open>What \<open>set_vlan_in\<close> leaves: the tags; the number of layers, where a switch tag counts as one; and
  in the tag of the switch the bit that says whether a VLAN tag follows.\<close>

lemma set_vlan_in_rd:
  assumes s: "s = hnat_ipv4_hnapt \<or> s = hnat_ipv6_5t_route"
    and succ: "fst (set_vlan_in s v1 v2 e) = HNAT_SUCCESS"
  defines "e' \<equiv> snd (set_vlan_in s v1 v2 e)"
    and "layers \<equiv> (if v1 \<noteq> 0 then 1 else 0) + (if v2 \<noteq> 0 then 1 else 0) :: u32"
    and "dsa \<equiv> rd e (bfib1 ''vlan_layer'') \<noteq> 0 \<and> rd e (in_view s ''sp_tag'') \<noteq> ETH_P_8021Q_TAG"
  shows "rd e' (in_view s ''vlan1'') = ucast v1"
    and "rd e' (in_view s ''vlan2'') = ucast v2"
    and "rd e' (bfib1 ''vlan_layer'') = (if dsa \<and> layers = 0 then 1 else layers)"
    and "rd e' (in_view s ''sp_tag'')
           = (if dsa then (if layers = 0 then rd e (in_view s ''sp_tag'') AND NOT (BIT 8)
                           else rd e (in_view s ''sp_tag'') OR BIT 8)
              else if layers = 0 then rd e (in_view s ''sp_tag'') else ETH_P_8021Q_TAG)"
proof -
  have l: "take_bit 3 layers = layers" "take_bit 3 (1::u32) = 1" "take_bit 16 ETH_P_8021Q_TAG = ETH_P_8021Q_TAG"
    by (simp_all add: layers_def ETH_P_8021Q_TAG_def)
  have t: "take_bit 16 (rd e (in_view s ''sp_tag'') AND NOT (BIT 8)) = rd e (in_view s ''sp_tag'') AND NOT (BIT 8)"
    using s by (auto simp: foe_fld rd.simps simp del: take_bit_and intro: take_bit_and_self)
  have t': "take_bit 16 (rd e (in_view s ''sp_tag'') OR BIT 8) = rd e (in_view s ''sp_tag'') OR BIT 8"
    using s by (auto simp: foe_fld rd.simps BIT_def)
  define e1 where "e1 = wr (in_view s ''vlan2'') (ucast v2) (wr (in_view s ''vlan1'') (ucast v1)
      (wr (bfib1 ''vlan_layer'') layers e))"
  have e1: "rd e1 (in_view s ''vlan1'') = ucast v1" "rd e1 (in_view s ''vlan2'') = ucast v2"
      "rd e1 (bfib1 ''vlan_layer'') = layers" "rd e1 (in_view s ''sp_tag'') = rd e (in_view s ''sp_tag'')"
    using s l by (auto simp: e1_def foe_fld rd_wr_other rd_wr_same)
  have na: "(rd e (bfib1 ''vlan_layer'') = layers \<and> rd e (in_view s ''vlan1'') = ucast v1
      \<and> rd e (in_view s ''vlan2'') = ucast v2) = False"
    using succ unfolding set_vlan_in_def Let_def layers_def [symmetric] by (auto split: if_splits)
  have "e' = (if dsa
       then (if layers = 0
             then wr (in_view s ''sp_tag'') (rd e1 (in_view s ''sp_tag'') AND NOT (BIT 8)) (wr (bfib1 ''vlan_layer'') 1 e1)
             else wr (in_view s ''sp_tag'') (rd e1 (in_view s ''sp_tag'') OR BIT 8) e1)
       else if layers \<noteq> 0 then wr (in_view s ''sp_tag'') ETH_P_8021Q_TAG e1 else e1)"
    unfolding e'_def set_vlan_in_def Let_def layers_def [symmetric] e1_def [symmetric] dsa_def [symmetric]
    by (simp only: na if_False snd_conv e1(3))
  then consider (a) "dsa" "layers = 0"
        "e' = wr (in_view s ''sp_tag'') (rd e1 (in_view s ''sp_tag'') AND NOT (BIT 8)) (wr (bfib1 ''vlan_layer'') 1 e1)"
    | (b) "dsa" "layers \<noteq> 0" "e' = wr (in_view s ''sp_tag'') (rd e1 (in_view s ''sp_tag'') OR BIT 8) e1"
    | (c) "\<not> dsa" "layers \<noteq> 0" "e' = wr (in_view s ''sp_tag'') ETH_P_8021Q_TAG e1"
    | (d) "\<not> dsa" "layers = 0" "e' = e1"
    by (metis (full_types))
  note cs = this
  have fr: "fld_ok (in_view s ''sp_tag'')" "fld_ok (bfib1 ''vlan_layer'')"
      "rd (wr (in_view s ''sp_tag'') v x) (in_view s ''vlan1'') = rd x (in_view s ''vlan1'')"
      "rd (wr (in_view s ''sp_tag'') v x) (in_view s ''vlan2'') = rd x (in_view s ''vlan2'')"
      "rd (wr (in_view s ''sp_tag'') v x) (bfib1 ''vlan_layer'') = rd x (bfib1 ''vlan_layer'')"
      "rd (wr (bfib1 ''vlan_layer'') v x) (in_view s ''vlan1'') = rd x (in_view s ''vlan1'')"
      "rd (wr (bfib1 ''vlan_layer'') v x) (in_view s ''vlan2'') = rd x (in_view s ''vlan2'')"
      "rd (wr (bfib1 ''vlan_layer'') v x) (bfib1 ''vlan_layer'') = take_bit 3 v"
      "rd (wr (in_view s ''sp_tag'') v x) (in_view s ''sp_tag'') = take_bit 16 v" for v x
    using s by (auto simp: foe_fld rd_wr_other rd_wr_same)
  show "rd e' (in_view s ''vlan1'') = ucast v1"
    using cs by cases (simp_all add: fr e1)
  show "rd e' (in_view s ''vlan2'') = ucast v2"
    using cs by cases (simp_all add: fr e1)
  show "rd e' (bfib1 ''vlan_layer'') = (if dsa \<and> layers = 0 then 1 else layers)"
    using cs by cases (simp_all only: fr e1 l simp_thms if_True if_False)
  show "rd e' (in_view s ''sp_tag'')
           = (if dsa then (if layers = 0 then rd e (in_view s ''sp_tag'') AND NOT (BIT 8)
                           else rd e (in_view s ''sp_tag'') OR BIT 8)
              else if layers = 0 then rd e (in_view s ''sp_tag'') else ETH_P_8021Q_TAG)"
    using cs by cases (simp_all only: fr e1 l t t' simp_thms if_True if_False)
qed

lemma set_vlan_fst: "fst (set_vlan_in s v1 v2 e) = HNAT_SUCCESS \<or> set_vlan_in s v1 v2 e = (HNAT_ALREADY_SET, e)"
  by (simp add: set_vlan_in_def Let_def)

lemma set_vlan_again:
  assumes s: "s = hnat_ipv4_hnapt \<or> s = hnat_ipv6_5t_route"
  shows "snd (set_vlan_in s v1 v2 (snd (set_vlan_in s v1 v2 e))) = snd (set_vlan_in s v1 v2 e)"
proof (cases "fst (set_vlan_in s v1 v2 e) = HNAT_SUCCESS")
  case False
  then show ?thesis using set_vlan_fst [of s v1 v2 e] by auto
next
  case True
  define e' where "e' = snd (set_vlan_in s v1 v2 e)"
  note r = set_vlan_in_rd [OF s True, folded e'_def]
  define layers where "layers = (if v1 \<noteq> 0 then 1 else 0) + (if v2 \<noteq> 0 then 1 else 0 :: u32)"
  define dsa where "dsa \<longleftrightarrow> rd e (bfib1 ''vlan_layer'') \<noteq> 0 \<and> rd e (in_view s ''sp_tag'') \<noteq> ETH_P_8021Q_TAG"
  note r' = r [folded layers_def dsa_def]
  show ?thesis
  proof (cases "dsa \<and> layers = 0")
    case False
    then have "set_vlan_in s v1 v2 e' = (HNAT_ALREADY_SET, e')"
      unfolding set_vlan_in_def Let_def layers_def [symmetric] using r'(1,2,3) by auto
    then show ?thesis by (simp add: e'_def)
  next
    case True
    then have z: "v1 = 0" "v2 = 0" by (auto simp: layers_def split: if_splits)
    have l1: "rd e' (bfib1 ''vlan_layer'') = 1" using r'(3) True by simp
    have sp: "rd e' (in_view s ''sp_tag'') = rd e (in_view s ''sp_tag'') AND NOT (BIT 8)"
      using r'(4) True by simp
    have "\<not> bit (rd e' (in_view s ''sp_tag'')) 8" "bit ETH_P_8021Q_TAG 8"
      by (simp_all only: sp) (simp_all add: bit_simps BIT_def ETH_P_8021Q_TAG_def)
    then have ne: "rd e' (in_view s ''sp_tag'') \<noteq> ETH_P_8021Q_TAG" by metis
    have sp2: "rd e' (in_view s ''sp_tag'') AND NOT (BIT 8) = rd e' (in_view s ''sp_tag'')"
      unfolding sp by (auto intro!: bit_word_eqI simp: bit_simps)
    have ok: "fld_ok (bfib1 ''vlan_layer'')" "fld_ok (in_view s ''vlan1'')" "fld_ok (in_view s ''vlan2'')"
        "fld_ok (in_view s ''sp_tag'')"
      using s by (auto simp: foe_fld)
    define x where "x = wr (bfib1 ''vlan_layer'') 0 e'"
    have x: "rd x (in_view s ''vlan1'') = 0" "rd x (in_view s ''vlan2'') = 0"
        "rd x (bfib1 ''vlan_layer'') = 0" "rd x (in_view s ''sp_tag'') = rd e' (in_view s ''sp_tag'')"
      using s r'(1,2) z by (auto simp: x_def foe_fld rd_wr_other rd_wr_same)
    have e1: "wr (in_view s ''vlan2'') 0 (wr (in_view s ''vlan1'') 0 x) = x"
      using x ok by (simp add: wr_same_value)
    have bk: "wr (bfib1 ''vlan_layer'') 1 x = e'"
      using ok l1 by (simp add: x_def wr_wr) (simp add: wr_same_value foe_fld)
    have "snd (set_vlan_in s v1 v2 e')
        = wr (in_view s ''sp_tag'') (rd e' (in_view s ''sp_tag'') AND NOT (BIT 8)) e'"
      unfolding set_vlan_in_def Let_def z
      by (simp only: l1 ne x_def [symmetric] e1 bk x) (simp add: e1 x x_def [symmetric] bk l1 ne)
    also have "\<dots> = e'"
      unfolding sp2 using ok by (simp add: wr_rd)
    finally show ?thesis by (simp add: e'_def)
  qed
qed

lemma ucast_and_fits:
  "take_bit 1 (ucast ((v::u16) AND 0x1) :: u32) = ucast (v AND 0x1)"
  "take_bit 4 (ucast (v AND 0xf) :: u32) = ucast (v AND 0xf)"
proof -
  have a: "v AND 0x1 = take_bit 1 v" and b: "v AND 0xf = take_bit 4 v"
    by (simp_all add: take_bit_eq_mask mask_eq_exp_minus_1)
  show "take_bit 1 (ucast (v AND 0x1) :: u32) = ucast (v AND 0x1)"
    unfolding a by (simp only: unsigned_take_bit_eq take_bit_take_bit min.idem)
  show "take_bit 4 (ucast (v AND 0xf) :: u32) = ucast (v AND 0xf)"
    unfolding b by (simp only: unsigned_take_bit_eq take_bit_take_bit min.idem)
qed

lemma take_bit_small: "unat (w::u32) < 2 ^ n \<Longrightarrow> take_bit n w = w"
  by (simp add: word_unat_eq_iff unsigned_take_bit_eq take_bit_nat_eq_self)

lemma qid_fits:
  assumes "\<not> unat (qid :: u16) \<ge> MTK_QDMA_NUM_QUEUES"
  shows "take_bit 7 (ucast (qid AND MTK_QDMA_QUEUE_MASK) :: u32) = ucast qid"
    and "(ucast (qid AND MTK_QDMA_QUEUE_MASK) :: u32) = ucast qid"
proof -
  have "mask 16 = MTK_QDMA_QUEUE_MASK" by code_simp
  then have "qid AND MTK_QDMA_QUEUE_MASK = take_bit 16 qid"
    by (simp only: take_bit_eq_mask)
  then have m: "qid AND MTK_QDMA_QUEUE_MASK = qid"
    by (simp only: take_bit_word_eq_self len_of_numeral_defs order_refl)
  then show "(ucast (qid AND MTK_QDMA_QUEUE_MASK) :: u32) = ucast qid" by simp
  have "unat (ucast qid :: u32) = unat qid"
    using unat_u16_less [of qid] by (simp add: unsigned_ucast_eq take_bit_nat_eq_self)
  then have "unat (ucast qid :: u32) < 2 ^ 7"
    using assms by (simp add: MTK_QDMA_NUM_QUEUES_def)
  then show "take_bit 7 (ucast (qid AND MTK_QDMA_QUEUE_MASK) :: u32) = ucast qid"
    unfolding m by (simp add: take_bit_small)
qed

lemma and_0xff_fits: "take_bit 8 ((w::u32) AND 0xff) = w AND 0xff"
proof -
  have "w AND 0xff = take_bit 8 w"
    by (simp add: take_bit_eq_mask mask_eq_exp_minus_1)
  then show ?thesis by (simp only: take_bit_take_bit min.idem)
qed

lemmas update_defs = hnat_entry_set_hqos_def hnat_entry_set_dscp_def hnat_entry_set_vlan_def
  hnat_entry_set_pppoe_def hnat_entry_set_is_prior_def hnat_entry_set_tid_def

lemma update_again: "snd (update_logic u (snd (update_logic u e))) = snd (update_logic u e)"
proof -
  let ?e = "snd (update_logic u e)"
  have g: "IS_IPV4_GRP ?e = IS_IPV4_GRP e" "IS_IPV6_GRP ?e = IS_IPV6_GRP e" "pao_view ?e = pao_view e"
    by simp_all
  show ?thesis
  proof (cases u)
    case (Upd_hqos fqos qid)
    then show ?thesis using g qid_fits [of qid]
      by (auto simp: update_defs Let_def set_in_again)
  next
    case (Upd_dscp dscp)
    define v where "v = (if dscp > 0 then word_of_int dscp AND 0xff else 0 :: u32)"
    have "take_bit 8 v = v"
      by (cases "dscp > 0") (simp_all only: v_def if_True if_False and_0xff_fits take_bit_of_0)
    then show ?thesis using g unfolding Upd_dscp update_logic.simps update_defs Let_def v_def [symmetric]
      by (auto simp: set_in_again)
  next
    case (Upd_vlan v1 v2)
    then show ?thesis using g by (auto simp: update_defs set_vlan_again)
  next
    case (Upd_pppoe psn pid)
    then show ?thesis using g by (auto simp: update_defs Let_def set_in_again)
  next
    case (Upd_is_prior v)
    define w :: u32 where "w = ucast (v AND 0x1)"
    note fits = ucast_and_fits [of v, folded w_def]
    show ?thesis using g pao_view_cases [of e] fits
      unfolding Upd_is_prior update_logic.simps update_defs w_def [symmetric]
      by (cases "pao_view e") (auto simp: set_pao_again)
  next
    case (Upd_tid v)
    define w :: u32 where "w = ucast (v AND 0xf)"
    note fits = ucast_and_fits [of v, folded w_def]
    show ?thesis using g pao_view_cases [of e] fits
      unfolding Upd_tid update_logic.simps update_defs w_def [symmetric]
      by (cases "pao_view e") (auto simp: set_pao_again)
  qed
qed

section \<open>What an update is about\<close>

text \<open>The layout of an entry, by its packet type alone: the structure of that name in the union of
  \<^verbatim>\<open>hnat.h\<close>.  Entries of type \<open>IPV4_HNAT\<close> are filled like those of type \<open>IPV4_HNAPT\<close> by the whole driver, and
  those of type \<open>IPV4_MAP_T\<close> like \<open>IPV4_MAP_E\<close>.\<close>

definition own_view :: "foe_words \<Rightarrow> layout" where
  "own_view e =
     (if pkt_type e = IPV4_HNAPT \<or> pkt_type e = IPV4_HNAT then hnat_ipv4_hnapt
      else if pkt_type e = IPV4_DSLITE then hnat_ipv4_dslite
      else if pkt_type e = IPV4_MAP_E \<or> pkt_type e = IPV4_MAP_T then hnat_ipv4_mape
      else if pkt_type e = IPV6_3T_ROUTE then hnat_ipv6_3t_route
      else if pkt_type e = IPV6_5T_ROUTE then hnat_ipv6_5t_route
      else if pkt_type e = IPV6_6RD then hnat_ipv6_6rd
      else if pkt_type e = IPV6_HNAPT \<or> pkt_type e = IPV6_HNAT then hnat_ipv6_hnapt
      else hnat_l2_bridge)"

text \<open>The fields an update is about, in the entry's own layout, and the values asked for.\<close>

fun own_fields :: "hnat_update \<Rightarrow> foe_words \<Rightarrow> field list" where
  "own_fields (Upd_hqos fqos qid) e =
     [iblk2 (own_view e) ''qid'', iblk2 (own_view e) ''fqos'', in_view (own_view e) ''tport_id'']"
| "own_fields (Upd_dscp dscp) e = [iblk2 (own_view e) ''dscp'']"
| "own_fields (Upd_vlan v1 v2) e =
     [bfib1 ''vlan_layer'', in_view (own_view e) ''vlan1'', in_view (own_view e) ''vlan2'',
      in_view (own_view e) ''sp_tag'']"
| "own_fields (Upd_pppoe psn pid) e = [bfib1 ''psn'', in_view (own_view e) ''pppoe_id'']"
| "own_fields (Upd_is_prior v) e = [winfo_pao (own_view e) ''is_prior'']"
| "own_fields (Upd_tid v) e = [winfo_pao (own_view e) ''tid'']"

fun asked :: "hnat_update \<Rightarrow> foe_words \<Rightarrow> (field \<times> u32) list" where
  "asked (Upd_hqos fqos qid) e =
     [(iblk2 (own_view e) ''qid'', ucast (qid AND MTK_QDMA_QUEUE_MASK)),
      (iblk2 (own_view e) ''fqos'', if fqos \<noteq> 0 then 1 else 0)]"
| "asked (Upd_dscp dscp) e = [(iblk2 (own_view e) ''dscp'', if dscp > 0 then word_of_int dscp AND 0xff else 0)]"
| "asked (Upd_vlan v1 v2) e =
     [(in_view (own_view e) ''vlan1'', ucast v1), (in_view (own_view e) ''vlan2'', ucast v2)]"
| "asked (Upd_pppoe psn pid) e =
     [(bfib1 ''psn'', if psn \<noteq> 0 then 1 else 0), (in_view (own_view e) ''pppoe_id'', ucast pid)]"
| "asked (Upd_is_prior v) e = [(winfo_pao (own_view e) ''is_prior'', ucast (v AND 0x1))]"
| "asked (Upd_tid v) e = [(winfo_pao (own_view e) ''tid'', ucast (v AND 0xf))]"

text \<open>The updates that go through the layout of another type.\<close>

definition wrong_view :: "hnat_update \<Rightarrow> foe_words \<Rightarrow> bool" where
  "wrong_view u e \<longleftrightarrow>
     (case u of
        Upd_hqos _ _ \<Rightarrow> pkt_type e = IPV4_MAP_E \<or> pkt_type e = IPV4_MAP_T \<or> pkt_type e = IPV6_HNAPT \<or> pkt_type e = IPV6_HNAT
      | Upd_is_prior _ \<Rightarrow> pkt_type e = IPV4_DSLITE \<or> pkt_type e = IPV6_3T_ROUTE \<or> pkt_type e = IPV6_5T_ROUTE \<or> pkt_type e = IPV6_6RD
      | Upd_tid _ \<Rightarrow> pkt_type e = IPV4_DSLITE \<or> pkt_type e = IPV6_3T_ROUTE \<or> pkt_type e = IPV6_5T_ROUTE \<or> pkt_type e = IPV6_6RD
      | _ \<Rightarrow> False)"

lemma own_view_ipv4: "IS_IPV4_GRP e \<Longrightarrow> own_view e = hnat_ipv4_hnapt \<and> upd_view e = hnat_ipv4_hnapt"
  by (auto simp: IS_IPV4_GRP_def own_view_def upd_view_def)

lemma own_view_ipv6: "IS_IPV6_GRP e \<Longrightarrow> own_view e \<in> set ipv6_views"
  by (auto simp: IS_IPV6_GRP_def own_view_def ipv6_views_def foe_ip_act_defs)

lemma own_l2:
  assumes "IS_IPV4_GRP e \<or> IS_IPV6_GRP e" and "m \<in> set l2_members"
  shows "in_view (own_view e) m = in_view (upd_view e) m"
proof (cases "IS_IPV4_GRP e")
  case False
  then have "own_view e \<in> set ipv6_views" and "upd_view e \<in> set ipv6_views"
    using assms(1) own_view_ipv6 by (simp_all add: upd_view_def ipv6_views_def)
  then have "map (in_view (own_view e)) l2_members = map (in_view (upd_view e)) l2_members"
    using ipv6_views_agree unfolding list_all_iff by fastforce
  then show ?thesis
    using assms(2) by simp
qed (simp add: own_view_ipv4)

lemma own_tport:
  assumes "IS_IPV4_GRP e \<or> IS_IPV6_GRP e" and "\<not> wrong_view (Upd_hqos f q) e"
  shows "in_view (own_view e) ''tport_id'' = in_view (upd_view e) ''tport_id''"
proof (cases "IS_IPV4_GRP e")
  case False
  then have "own_view e \<in> {hnat_ipv4_dslite, hnat_ipv6_3t_route, hnat_ipv6_5t_route, hnat_ipv6_6rd}"
    using assms by (auto simp: IS_IPV6_GRP_def own_view_def wrong_view_def foe_ip_act_defs)
  then show ?thesis
    using False tport_places by (auto simp: ipv6_views_def upd_view_def)
qed (simp add: own_view_ipv4)

lemma own_pao:
  assumes "IS_IPV4_GRP e \<or> IS_IPV6_GRP e" and "u = Upd_is_prior v \<or> u = Upd_tid v" and "\<not> wrong_view u e"
  shows "pao_view e = Some (own_view e)"
  using assms by (auto simp: IS_IPV4_GRP_def IS_IPV6_GRP_def own_view_def wrong_view_def pao_view_def foe_ip_act_defs)

lemma own_touched:
  assumes "IS_IPV4_GRP e \<or> IS_IPV6_GRP e" and "\<not> wrong_view u e"
  shows "touched u e = own_fields u e"
proof -
  note l2 = own_l2 [OF assms(1)]
  have "iblk2 (own_view e) m = iblk2 (upd_view e) m" for m
    using l2 [of "''info_blk2''"] by (simp add: iblk2_def l2_members_def)
  moreover have "in_view (own_view e) ''vlan1'' = in_view (upd_view e) ''vlan1''"
      "in_view (own_view e) ''vlan2'' = in_view (upd_view e) ''vlan2''"
      "in_view (own_view e) ''sp_tag'' = in_view (upd_view e) ''sp_tag''"
      "in_view (own_view e) ''pppoe_id'' = in_view (upd_view e) ''pppoe_id''"
    by (simp_all add: l2 l2_members_def)
  moreover have "in_view (own_view e) ''tport_id'' = in_view (upd_view e) ''tport_id''" if "u = Upd_hqos f q" for f q
    using own_tport [OF assms(1)] assms(2) that by simp
  moreover have "pao_view e = Some (own_view e)" if "u = Upd_is_prior v \<or> u = Upd_tid v" for v
    by (rule own_pao [OF assms(1) that assms(2)])
  ultimately show ?thesis
    by (cases u) simp_all
qed

lemma update_fails_other: "\<not> IS_IPV4_GRP e \<Longrightarrow> \<not> IS_IPV6_GRP e \<Longrightarrow> fst (update_logic u e) = HNAT_FAIL"
  by (cases u) (auto simp: update_defs Let_def pao_view_def IS_IPV6_GRP_def)

lemma own_view_update: "own_view (snd (update_logic u e)) = own_view e"
  by (simp add: own_view_def)

text \<open>What an accepted update leaves is what was asked for, also when it was there already.\<close>

lemma set_in_asked:
  assumes s: "s = hnat_ipv4_hnapt \<or> s = hnat_ipv6_5t_route"
  shows "take_bit 1 f = f \<Longrightarrow> take_bit 7 q = q \<Longrightarrow>
      rd (snd (set_hqos_in s f q e)) (iblk2 s ''qid'') = q \<and> rd (snd (set_hqos_in s f q e)) (iblk2 s ''fqos'') = f"
    "take_bit 8 v = v \<Longrightarrow> rd (snd (set_dscp_in s v e)) (iblk2 s ''dscp'') = v"
    "take_bit 1 b = b \<Longrightarrow> take_bit 16 pid = pid \<Longrightarrow>
      rd (snd (set_pppoe_in s b pid e)) (bfib1 ''psn'') = b \<and> rd (snd (set_pppoe_in s b pid e)) (in_view s ''pppoe_id'') = pid"
    "rd (snd (set_vlan_in s v1 v2 e)) (in_view s ''vlan1'') = ucast v1 \<and>
     rd (snd (set_vlan_in s v1 v2 e)) (in_view s ''vlan2'') = ucast v2"
proof -
  show "rd (snd (set_vlan_in s v1 v2 e)) (in_view s ''vlan1'') = ucast v1 \<and>
     rd (snd (set_vlan_in s v1 v2 e)) (in_view s ''vlan2'') = ucast v2"
  proof (cases "fst (set_vlan_in s v1 v2 e) = HNAT_SUCCESS")
    case True
    then show ?thesis
      using set_vlan_in_rd [OF s True] by simp
  next
    case False
    then show ?thesis
      by (auto simp: set_vlan_in_def Let_def split: if_splits)
  qed
qed (use s in \<open>auto simp: set_hqos_in_def set_dscp_in_def set_pppoe_in_def foe_fld rd_wr_other rd_wr_same\<close>)

lemma set_pao_asked:
  assumes "s = hnat_ipv4_hnapt \<or> s = hnat_ipv6_hnapt \<or> s = hnat_ipv4_mape"
    and "m = ''is_prior'' \<and> take_bit 1 v = v \<or> m = ''tid'' \<and> take_bit 4 v = v"
  shows "rd (snd (set_pao_in m s v e)) (winfo_pao s m) = v"
  using assms by (auto simp: set_pao_in_def foe_fld rd_wr_other rd_wr_same)

lemma update_asked:
  assumes "fst (update_logic u e) \<noteq> HNAT_FAIL" and ok: "\<not> wrong_view u e"
  shows "list_all (\<lambda>(f, v). rd (snd (update_logic u e)) f = v) (asked u e)"
proof -
  have grp: "IS_IPV4_GRP e \<or> IS_IPV6_GRP e"
    using update_fails_other assms(1) by blast
  have s: "upd_view e = hnat_ipv4_hnapt \<or> upd_view e = hnat_ipv6_5t_route"
    by (simp add: upd_view_def)
  note l2 = own_l2 [OF grp]
  have ib: "iblk2 (own_view e) m = iblk2 (upd_view e) m" for m
    using l2 [of "''info_blk2''"] by (simp add: iblk2_def l2_members_def)
  have v: "in_view (own_view e) ''vlan1'' = in_view (upd_view e) ''vlan1''"
      "in_view (own_view e) ''vlan2'' = in_view (upd_view e) ''vlan2''"
      "in_view (own_view e) ''pppoe_id'' = in_view (upd_view e) ''pppoe_id''"
    by (simp_all add: l2 l2_members_def)
  show ?thesis
  proof (cases u)
    case (Upd_hqos fqos qid)
    define f where "f = (if fqos \<noteq> 0 then 1 else 0 :: u32)"
    define q :: u32 where "q = ucast (qid AND MTK_QDMA_QUEUE_MASK)"
    have few: "\<not> unat qid \<ge> MTK_QDMA_NUM_QUEUES"
      using assms(1) by (auto simp: Upd_hqos hnat_entry_set_hqos_def)
    have "take_bit 1 f = f" and "take_bit 7 q = q"
      using qid_fits [of qid] few by (simp_all add: f_def q_def)
    moreover have "snd (update_logic u e) = snd (set_hqos_in (upd_view e) f q e)"
      using few grp by (auto simp: Upd_hqos update_defs Let_def upd_view_def f_def q_def)
    ultimately show ?thesis
      using set_in_asked(1) [OF s, of f q e] by (simp add: Upd_hqos ib flip: f_def q_def)
  next
    case (Upd_dscp dscp)
    define v where "v = (if dscp > 0 then word_of_int dscp AND 0xff else 0 :: u32)"
    have "take_bit 8 v = v"
      by (cases "dscp > 0") (simp_all only: v_def if_True if_False and_0xff_fits take_bit_of_0)
    moreover have "snd (update_logic u e) = snd (set_dscp_in (upd_view e) v e)"
      using assms(1) grp by (auto simp: Upd_dscp update_defs Let_def upd_view_def v_def)
    ultimately show ?thesis
      using set_in_asked(2) [OF s, of v e] by (simp add: Upd_dscp ib flip: v_def)
  next
    case (Upd_vlan v1 v2)
    have "snd (update_logic u e) = snd (set_vlan_in (upd_view e) v1 v2 e)"
      using assms(1) grp by (auto simp: Upd_vlan update_defs upd_view_def)
    then show ?thesis
      using set_in_asked(4) [OF s, of v1 v2 e] by (simp add: Upd_vlan v)
  next
    case (Upd_pppoe psn pid)
    have "snd (update_logic u e) = snd (set_pppoe_in (upd_view e) (if psn \<noteq> 0 then 1 else 0) (ucast pid) e)"
      using assms(1) grp by (auto simp: Upd_pppoe update_defs Let_def upd_view_def)
    then show ?thesis
      using set_in_asked(3) [OF s, of "if psn \<noteq> 0 then 1 else 0" "ucast pid" e] by (simp add: Upd_pppoe v)
  next
    case (Upd_is_prior x)
    note p = own_pao [OF grp _ ok, of x]
    define w :: u32 where "w = ucast (x AND 0x1)"
    have "snd (update_logic u e) = snd (set_pao_in ''is_prior'' (own_view e) w e)"
      using p by (simp add: Upd_is_prior hnat_entry_set_is_prior_def w_def)
    then show ?thesis
      using set_pao_asked [OF pao_view_cases [of e], of "own_view e" "''is_prior''" w e] p ucast_and_fits [of x, folded w_def]
      by (simp add: Upd_is_prior flip: w_def)
  next
    case (Upd_tid x)
    note p = own_pao [OF grp _ ok, of x]
    define w :: u32 where "w = ucast (x AND 0xf)"
    have "snd (update_logic u e) = snd (set_pao_in ''tid'' (own_view e) w e)"
      using p by (simp add: Upd_tid hnat_entry_set_tid_def w_def)
    then show ?thesis
      using set_pao_asked [OF pao_view_cases [of e], of "own_view e" "''tid''" w e] p ucast_and_fits [of x, folded w_def]
      by (simp add: Upd_tid flip: w_def)
  qed
qed

lemma asked_words:
  assumes "IS_IPV4_GRP e \<or> IS_IPV6_GRP e" and "\<not> wrong_view u e"
  shows "list_all (\<lambda>(f, v). fld_word f < FOE_WORDS) (asked u e)"
proof -
  have s: "upd_view e = hnat_ipv4_hnapt \<or> upd_view e = hnat_ipv6_5t_route"
    by (simp add: upd_view_def)
  note l2 = own_l2 [OF assms(1)]
  have "iblk2 (own_view e) m = iblk2 (upd_view e) m" for m
    using l2 [of "''info_blk2''"] by (simp add: iblk2_def l2_members_def)
  moreover have "in_view (own_view e) ''vlan1'' = in_view (upd_view e) ''vlan1''"
      "in_view (own_view e) ''vlan2'' = in_view (upd_view e) ''vlan2''"
      "in_view (own_view e) ''pppoe_id'' = in_view (upd_view e) ''pppoe_id''"
    by (simp_all add: l2 l2_members_def)
  moreover have "own_view e = hnat_ipv4_hnapt \<or> own_view e = hnat_ipv6_hnapt \<or> own_view e = hnat_ipv4_mape"
    if "u = Upd_is_prior x \<or> u = Upd_tid x" for x
    using pao_view_cases [OF own_pao [OF assms(1) that assms(2)]] .
  ultimately show ?thesis
    using s by (cases u) (auto simp: foe_fld)
qed

lemma set_in_unchanged:
  "fst (set_hqos_in l f q e) \<noteq> HNAT_SUCCESS \<Longrightarrow> snd (set_hqos_in l f q e) = e"
  "fst (set_dscp_in l v e) \<noteq> HNAT_SUCCESS \<Longrightarrow> snd (set_dscp_in l v e) = e"
  "fst (set_vlan_in l v1 v2 e) \<noteq> HNAT_SUCCESS \<Longrightarrow> snd (set_vlan_in l v1 v2 e) = e"
  "fst (set_pppoe_in l b pid e) \<noteq> HNAT_SUCCESS \<Longrightarrow> snd (set_pppoe_in l b pid e) = e"
  "fst (set_pao_in m l v e) \<noteq> HNAT_SUCCESS \<Longrightarrow> snd (set_pao_in m l v e) = e"
  using set_vlan_fst [of l v1 v2 e]
  by (simp_all add: set_hqos_in_def set_dscp_in_def set_pppoe_in_def set_pao_in_def split: if_splits)

lemma update_unchanged: "fst (update_logic u e) \<noteq> HNAT_SUCCESS \<Longrightarrow> snd (update_logic u e) = e"
  by (cases u) (simp_all add: update_defs Let_def set_in_unchanged split: if_splits option.splits)

end
