(* ===== verification/Hnat_Theorems.thy ===== *)
theory Hnat_Theorems
  imports Foe_Views Foe_Regs_Props Hnat_Deletions Hnat_Api_Props
begin

text \<open>
  The properties of the flow entries of \<^verbatim>\<open>mtk_hnat\<close>, their deletion, their update and their hash.
\<close>

section \<open>A state to try the theorems on\<close>

text \<open>One engine with a full table in which entry 5 is bound, an IPv4 flow to the given address.\<close>

definition demo_entry :: foe_words where
  "demo_entry = wr (in_view hnat_ipv4_hnapt ''dmac_lo'') 0x0506
     (wr (in_view hnat_ipv4_hnapt ''dmac_hi'') 0x01020304 (wr (bfib1 ''state'') (state_code BIND) zero_words))"

definition demo_cfg :: hnat_prot_3t_cfg where
  "demo_cfg = \<lparr>ipv4_chk = 0, ipv6_chk = 0, proto = replicate 16 0, num_3t = 0, blist_3t = False\<rparr>"

definition demo_hnat :: mtk_hnat where
  "demo_hnat = \<lparr>h_version = MTK_HNAT_V3, h_per_flow_accounting = False, h_ppe_num = 1, h_etry_num = 32768,
     h_etry_cfg = 5, h_table = (\<lambda>p i. if i = 5 then demo_entry else zero_words),
     h_table_len = (\<lambda>p. Some 32768), h_flow = (\<lambda>p i. []), h_flow_len = (\<lambda>p. Some 8192),
     h_mib_len = (\<lambda>p. None), h_acct_len = (\<lambda>p. None), h_ppe = (\<lambda>p. \<lparr>pr = (\<lambda>r. 0), p_ops = []\<rparr>),
     h_fe = (\<lambda>r. 0), h_mac = (\<lambda>g. Some 0), h_bind_threshold = 0, h_tcp_dlta = 0, h_udp_dlta = 0,
     h_fin_dlta = 0, h_tcp_ka = 0, h_udp_ka = 0, h_dft_cport = 0, h_prot_3t = (\<lambda>p. demo_cfg),
     h_l4s = False, h_table_dev = (\<lambda>p. 0), h_mib_dev = (\<lambda>p. 0)\<rparr>"

text \<open>A device that is never busy and executes each command at once.\<close>

definition demo_dev :: ppe_dev where
  "demo_dev = \<lparr>d_busy = (\<lambda>r k. False), d_exec = (\<lambda>r. r(PPE_CAH_CTRL := r PPE_CAH_CTRL AND NOT CAH_REQ)),
     d_dbg = (\<lambda>k. False)\<rparr>"

lemma demo_dev_ok [simp]: "dev_ok demo_dev"
  by (auto simp: dev_ok_def demo_dev_def cah_results_def)

section \<open>Views\<close>

text \<open>The members of each view of a flow entry are independent places behind the information block:
  writing one gives it the value cut to its width and leaves every other member of the view, and the
  information block, as they were; no view is larger than the entry.  The six views of the IPv6 group
  agree on the second information block, the tags and the Ethernet header, which the code relies on
  when it uses one of them for all.\<close>

theorem foe_view_members:
  assumes "l \<in> set foe_views" and "m \<in> set (map fst l)" "m' \<in> set (map fst l)" "m \<noteq> m'"
  shows "rd (wr (in_view l m) v e) (in_view l m) = take_bit (fld_width (in_view l m)) v
    \<and> rd (wr (in_view l m) v e) (in_view l m') = rd e (in_view l m')
    \<and> wr (in_view l m) v e 0 = e 0 \<and> layout_bits l \<le> 32 * (FOE_WORDS - 1)
    \<and> list_all (\<lambda>l. map (in_view l) l2_members = l2_places) ipv6_views"
proof (intro conjI)
  have "layout_ok 32 l" using views_ok assms(1) by (simp add: list_all_iff)
  then have ok: "fld_ok (in_view l m)" "fld_ok (in_view l m')" by (rule member_ok)+
  show "rd (wr (in_view l m) v e) (in_view l m) = take_bit (fld_width (in_view l m)) v"
    by (rule rd_wr_same) (rule ok)
  show "rd (wr (in_view l m) v e) (in_view l m') = rd e (in_view l m')"
    by (rule rd_wr_other) (use ok members_disjoint assms in blast)+
  show "wr (in_view l m) v e 0 = e 0"
    using member_word [OF assms(2)] by (intro wr_word_other) simp
  show "layout_bits l \<le> 32 * (FOE_WORDS - 1)"
    using views_fit assms(1) by (simp add: list_all_iff)
qed (rule ipv6_views_agree)

theorem foe_view_members_witness:
  "rd (wr (in_view hnat_ipv4_hnapt ''sip'') 7 zero_words) (in_view hnat_ipv4_hnapt ''dip'')
     = rd zero_words (in_view hnat_ipv4_hnapt ''dip'')"
proof -
  have "hnat_ipv4_hnapt \<in> set foe_views" by (simp add: foe_views_def)
  moreover have "''sip'' \<in> set (map fst hnat_ipv4_hnapt)" "''dip'' \<in> set (map fst hnat_ipv4_hnapt)"
    by (simp_all add: hnat_ipv4_hnapt_def)
  moreover have "''sip'' \<noteq> ''dip''" by simp
  ultimately show ?thesis using foe_view_members [of hnat_ipv4_hnapt "''sip''" "''dip''" 7 zero_words] by simp
qed

section \<open>Deletion\<close>

text \<open>C14. When \<open>entry_delete_by_mac\<close> runs over tables that are long enough, it deletes exactly the bound
  entries whose source or destination address is the given one: they become invalid with the current
  timestamp, every other entry is unchanged, the cache of an engine is flushed exactly if it lost an
  entry, and a second call finds nothing.\<close>

theorem delete_by_mac_exact:
  assumes "entry_delete_by_mac d (Some mac) h = Some (c, h')" and "length mac = 6"
    and "p < h_ppe_num h" "i < DEF_ETRY_NUM"
  defines "goes \<equiv> \<lambda>i. entry_hnat_is_bound (h_table h p i)
      \<and> (entry_smac (h_table h p i) = mac \<or> entry_dmac (h_table h p i) = mac)"
  shows "h_table h' p i = (if goes i then delete_words (hnat_timestamp h) (h_table h p i) else h_table h p i)
    \<and> \<not> (entry_hnat_is_bound (h_table h' p i)
         \<and> (entry_smac (h_table h' p i) = mac \<or> entry_dmac (h_table h' p i) = mac))
    \<and> h_ppe h' p = (if \<exists>i < DEF_ETRY_NUM. goes i then cache_clr d (flush_tag h) (h_ppe h p) else h_ppe h p)
    \<and> (\<exists>h''. entry_delete_by_mac d (Some mac) h' = Some (0, h'') \<and> h_table h'' = h_table h')"
proof -
  have n: "DEF_ETRY_NUM > 0" by (simp add: DEF_ETRY_NUM_def)
  note del = assms(1) and iff = entry_mac_cmp_iff [OF assms(2), of _ True True, simplified]
  have "table_covers False DEF_ETRY_NUM h p"
    using by_mac.resultD(3) [OF del n] assms(3) by (simp add: tables_cover_def list_all_iff)
  then have len: "h_table_len h p \<noteq> None" by (auto simp: table_covers_def split: option.splits)
  have "h_table h' p i = (if goes i then delete_words (hnat_timestamp h) (h_table h p i) else h_table h p i)"
    using by_mac.deleted [OF del n assms(3) len assms(4)] by_mac.others_kept [OF del n, of p i]
    by (auto simp: goes_def iff)
  moreover have "\<not> (entry_hnat_is_bound (h_table h' p i)
         \<and> (entry_smac (h_table h' p i) = mac \<or> entry_dmac (h_table h' p i) = mac))"
    using by_mac.none_left [OF del n assms(3) len assms(4)] by (auto simp: iff)
  moreover have "h_ppe h' p
      = (if \<exists>i < DEF_ETRY_NUM. goes i then cache_clr d (flush_tag h) (h_ppe h p) else h_ppe h p)"
    using by_mac.engines [OF del n assms(3) len] by (simp only: goes_def iff id_apply)
  ultimately show ?thesis
    using by_mac.again [OF del n] by simp
qed

lemma demo_entry_dmac: "entry_dmac demo_entry = [1, 2, 3, 4, 5, 6]"
  by code_simp

lemma demo_entry_bound: "entry_hnat_is_bound demo_entry"
  by code_simp

theorem delete_by_mac_exact_witness:
  "\<exists>c h'. entry_delete_by_mac demo_dev (Some [1, 2, 3, 4, 5, 6]) demo_hnat = Some (c, h')
     \<and> h_table h' 0 5 = delete_words 0 demo_entry"
proof -
  have "tables_cover False DEF_ETRY_NUM demo_hnat"
    by (simp add: tables_cover_def table_covers_def demo_hnat_def DEF_ETRY_NUM_def)
  then obtain c h' where del: "entry_delete_by_mac demo_dev (Some [1, 2, 3, 4, 5, 6]) demo_hnat = Some (c, h')"
    using by_mac.result by blast
  have d: "h_table demo_hnat 0 5 = demo_entry" "0 < h_ppe_num demo_hnat" "hnat_timestamp demo_hnat = 0"
    by (simp_all add: demo_hnat_def hnat_timestamp_def)
  have "5 < DEF_ETRY_NUM" by (simp add: DEF_ETRY_NUM_def)
  then show ?thesis
    using delete_by_mac_exact [OF del _ d(2), of 5] del d demo_entry_dmac demo_entry_bound by auto
qed

text \<open>C15. The exported deletions run over 32768 entries of every engine whatever was allocated: they read
  beyond a table (or through a null pointer) exactly when the table of some engine is missing or
  shorter, which \<open>hnat_start\<close> allows when memory is short.  The deletions of \<^verbatim>\<open>hnat_nf_hook.c\<close> run over
  the number of entries allocated last.\<close>

theorem deletions_need_full_tables:
  "(entry_delete_by_mac d (Some mac) h = None
      \<longleftrightarrow> list_ex (\<lambda>p. case h_table_len h p of None \<Rightarrow> True | Some n \<Rightarrow> n < 32768) [0 ..< h_ppe_num h])
   \<and> (entry_delete_by_ip d is_ipv4 (Some addr) h = None
      \<longleftrightarrow> list_ex (\<lambda>p. case h_table_len h p of None \<Rightarrow> True | Some n \<Rightarrow> n < 32768) [0 ..< h_ppe_num h])
   \<and> (0 < h_etry_num h \<longrightarrow> (foe_clear_entry d events h = None
      \<longleftrightarrow> list_ex (\<lambda>p. case h_table_len h p of None \<Rightarrow> False | Some n \<Rightarrow> n < h_etry_num h) [0 ..< h_ppe_num h]))"
proof -
  have n: "DEF_ETRY_NUM > 0" by (simp add: DEF_ETRY_NUM_def)
  have full: "\<not> tables_cover False 32768 h
      \<longleftrightarrow> list_ex (\<lambda>p. case h_table_len h p of None \<Rightarrow> True | Some n \<Rightarrow> n < 32768) [0 ..< h_ppe_num h]"
    by (auto simp: tables_cover_def table_covers_def list_all_iff list_ex_iff not_le split: option.splits)
  have own: "\<not> tables_cover True k h
      \<longleftrightarrow> list_ex (\<lambda>p. case h_table_len h p of None \<Rightarrow> False | Some n \<Rightarrow> n < k) [0 ..< h_ppe_num h]" for k
    by (auto simp: tables_cover_def table_covers_def list_all_iff list_ex_iff not_le split: option.splits)
  have num: "DEF_ETRY_NUM = 32768" by (simp add: DEF_ETRY_NUM_def)
  show ?thesis
    using by_mac.defined_iff [OF n, of d mac h] by_ip.defined_iff [OF n, of d is_ipv4 addr h]
      by_neigh.defined_iff [of h d events]
    by (simp only: num full own) simp
qed

theorem deletions_need_full_tables_witness:
  "entry_delete_by_mac demo_dev (Some [1, 2, 3, 4, 5, 6]) (demo_hnat\<lparr>h_table_len := (\<lambda>p. Some 16384)\<rparr>) = None
   \<and> foe_clear_entry demo_dev [] demo_hnat \<noteq> None"
  using deletions_need_full_tables [of demo_dev "[1, 2, 3, 4, 5, 6]" "demo_hnat\<lparr>h_table_len := (\<lambda>p. Some 16384)\<rparr>"]
    deletions_need_full_tables [of demo_dev _ demo_hnat _ _ "[]"]
  by (simp add: demo_hnat_def)

section \<open>Updates\<close>

lemma cache_clr_table [simp]: "h_table (hnat_cache_clr d p h) = h_table h"
  by (simp add: hnat_cache_clr_def on_ppe_def)

lemma touched_copy [simp]: "touched u (foe_copy a b) = touched u a"
  by (cases u) (simp_all add: upd_view_def pao_view_def)

text \<open>An update stays within the entry.\<close>

lemma set_in_beyond:
  assumes "k \<ge> 32" and s: "s = hnat_ipv4_hnapt \<or> s = hnat_ipv6_5t_route"
  shows "snd (set_hqos_in s f q e) k = e k" "snd (set_dscp_in s v e) k = e k"
    "snd (set_vlan_in s v1 v2 e) k = e k" "snd (set_pppoe_in s b pid e) k = e k"
  using assms
  by (auto simp: set_hqos_in_def set_dscp_in_def set_vlan_in_def set_pppoe_in_def Let_def foe_fld)

lemma set_pao_beyond:
  assumes "k \<ge> 32" and "s = hnat_ipv4_hnapt \<or> s = hnat_ipv6_hnapt \<or> s = hnat_ipv4_mape"
    and "m = ''is_prior'' \<or> m = ''tid''"
  shows "snd (set_pao_in m s v e) k = e k"
  using assms by (auto simp: set_pao_in_def foe_fld)

lemma update_beyond:
  assumes "\<not> k < FOE_WORDS" shows "snd (update_logic u e) k = e k"
proof -
  have k: "k \<ge> 32" using assms by (simp add: FOE_WORDS_def)
  note b = set_in_beyond [OF k disjI1 [OF refl]] set_in_beyond [OF k disjI2 [OF refl]]
  show ?thesis
  proof (cases u)
    case (Upd_is_prior v)
    then show ?thesis
      using set_pao_beyond [OF k pao_view_cases] by (simp add: hnat_entry_set_is_prior_def split: option.split)
  next
    case (Upd_tid v)
    then show ?thesis
      using set_pao_beyond [OF k pao_view_cases] by (simp add: hnat_entry_set_tid_def split: option.split)
  qed (simp_all add: hnat_entry_set_hqos_def hnat_entry_set_dscp_def hnat_entry_set_vlan_def
      hnat_entry_set_pppoe_def Let_def b)
qed

text \<open>The outcome of an update.\<close>

lemma update_outcome:
  assumes "mtk_hnat_update_by_index d p i u h = (ret, h')"
  defines "e \<equiv> foe_copy (h_table h (unat p) (unat i)) zero_words"
  shows "(bad_index p i h \<and> ret = HNAT_FAIL \<and> h' = h)
    \<or> (\<not> bad_index p i h \<and> \<not> entry_hnat_is_bound (h_table h (unat p) (unat i)) \<and> ret = HNAT_ENTRY_NOT_FOUND \<and> h' = h)
    \<or> (\<not> bad_index p i h \<and> entry_hnat_is_bound (h_table h (unat p) (unat i))
       \<and> ret = (if fst (update_logic u e) = HNAT_ALREADY_SET then HNAT_SUCCESS else fst (update_logic u e))
       \<and> h' = (if fst (update_logic u e) = HNAT_SUCCESS
               then hnat_cache_clr d (unat p)
                 (on_entry (unat p) (unat i) (foe_copy (snd (update_logic u e))) h) else h))"
  using assms by (auto simp: mtk_hnat_update_by_index_def hnat_update_entry_generic_def Let_def split: prod.splits if_splits)

lemma rd_foe_copy_of:
  assumes "fld_word g < FOE_WORDS" shows "rd (foe_copy a b) g = rd a g"
  by (rule rd_foe_copy) (rule assms)



text \<open>Repeating an update changes no entry any more, whatever the first one returned.\<close>

theorem update_twice:
  "h_table (snd (mtk_hnat_update_by_index d p i u (snd (mtk_hnat_update_by_index d p i u h))))
     = h_table (snd (mtk_hnat_update_by_index d p i u h))"
proof -
  obtain ret h' where h': "mtk_hnat_update_by_index d p i u h = (ret, h')" by fastforce
  obtain ret2 h'' where h'': "mtk_hnat_update_by_index d p i u h' = (ret2, h'')" by fastforce
  let ?hw = "h_table h (unat p) (unat i)" and ?hw' = "h_table h' (unat p) (unat i)"
  let ?e = "foe_copy ?hw zero_words" and ?e' = "foe_copy ?hw' zero_words"
  have "h_table h'' = h_table h'"
  proof (cases "fst (update_logic u ?e) = HNAT_SUCCESS \<and> \<not> bad_index p i h \<and> entry_hnat_is_bound ?hw")
    case False
    then have "h' = h" using update_outcome [OF h'] by (auto split: if_splits)
    then show ?thesis
      using update_outcome [OF h''] False by (auto split: if_splits)
  next
    case True
    then have t: "?hw' = foe_copy (snd (update_logic u ?e)) ?hw"
      using update_outcome [OF h'] by (auto simp: on_entry_def)
    have beyond: "snd (update_logic u ?e) i = zero_words i" if "\<not> i < FOE_WORDS" for i
      using update_beyond [where u = u and e = ?e and k = i] that by (simp add: foe_copy_def)
    have "?e' = snd (update_logic u ?e)"
      unfolding t using beyond by (auto simp: foe_copy_def fun_eq_iff)
    then have "snd (update_logic u ?e') = ?e'" using update_again by simp
    then have "foe_copy (snd (update_logic u ?e')) ?hw' = ?hw'"
      by (auto simp: foe_copy_def fun_eq_iff)
    then have "on_entry (unat p) (unat i) (foe_copy (snd (update_logic u ?e'))) h' = h'"
      by (simp add: on_entry_def fun_upd_idem)
    then show ?thesis using update_outcome [OF h''] by (auto split: if_splits)
  qed
  then show ?thesis using h' h'' by simp
qed

text \<open>C17. Three updates go through a view of another packet type.  Turning on hardware queueing of a MAP-E
  or an IPv6-to-IPv6 NAT entry leaves its destination port in the engine alone and writes 1 into four
  bits of the rewritten source port or of the rewritten address; the traffic identifier of a routed IPv6
  entry is written where only MAP-E entries keep it, so that a successful update changes nothing that
  is read.\<close>

lemma rd_part:
  assumes "a + n \<le> m"
  shows "rd e (Fld w (lo + a) n) = take_bit n (drop_bit a (rd e (Fld w lo m)))"
  using assms by (auto simp: rd.simps bit_simps add.assoc intro!: bit_word_eqI)

lemma hqos_ipv6:
  assumes "IS_IPV6_GRP e" "\<not> IS_IPV4_GRP e" "hnat_entry_set_hqos fqos qid e = (HNAT_SUCCESS, e')" "fqos \<noteq> 0"
  shows "rd e' (Fld 23 16 4) = 1"
    and "fld_ok g \<Longrightarrow> fld_word g \<noteq> 14 \<Longrightarrow> fld_word g \<noteq> 23 \<Longrightarrow> rd e' g = rd e g"
proof -
  have e': "e' = wr (Fld 14 0 7) (ucast (qid AND MTK_QDMA_QUEUE_MASK))
      (wr (Fld 14 8 1) 1 (wr (Fld 23 16 4) NR_QDMA_TPORT e))"
    using assms by (auto simp: hnat_entry_set_hqos_def set_hqos_in_def Let_def foe_fld split: if_splits)
  show "rd e' (Fld 23 16 4) = 1"
    by (simp add: e' rd_wr_other rd_wr_same NR_QDMA_TPORT_def)
  show "rd e' g = rd e g" if g: "fld_ok g" "fld_word g \<noteq> 14" "fld_word g \<noteq> 23"
  proof -
    have "fld_disjoint (Fld 14 0 7) g" "fld_disjoint (Fld 14 8 1) g" "fld_disjoint (Fld 23 16 4) g"
      using g by (cases g; auto)+
    then show ?thesis using g(1) by (simp add: e' rd_wr_other del: One_nat_def)
  qed
qed

lemma type_groups:
  "pkt_type e = IPV4_MAP_E \<Longrightarrow> IS_IPV6_GRP e \<and> \<not> IS_IPV4_GRP e"
  "pkt_type e = IPV6_HNAPT \<Longrightarrow> IS_IPV6_GRP e \<and> \<not> IS_IPV4_GRP e"
  "pkt_type e = IPV6_5T_ROUTE \<Longrightarrow> pao_view e = Some hnat_ipv4_mape"
  by (auto simp: IS_IPV6_GRP_def IS_IPV4_GRP_def pao_view_def foe_ip_act_defs)

theorem updates_through_wrong_view:
  assumes "fqos \<noteq> 0"
  shows "(pkt_type e = IPV4_MAP_E \<and> update_logic (Upd_hqos fqos qid) e = (HNAT_SUCCESS, e')
      \<longrightarrow> rd e' (in_view hnat_ipv4_mape ''tport_id'') = rd e (in_view hnat_ipv4_mape ''tport_id'')
        \<and> take_bit 4 (rd e' (in_view hnat_ipv4_mape ''new_sport'')) = 1)
    \<and> (pkt_type e = IPV6_HNAPT \<and> update_logic (Upd_hqos fqos qid) e = (HNAT_SUCCESS, e')
      \<longrightarrow> rd e' (in_view hnat_ipv6_hnapt ''tport_id'') = rd e (in_view hnat_ipv6_hnapt ''tport_id'')
        \<and> take_bit 4 (drop_bit 16 (rd e' (in_view hnat_ipv6_hnapt ''new_ipv6_ip2''))) = 1)
    \<and> (pkt_type e = IPV6_5T_ROUTE \<and> update_logic (Upd_tid tid) e = (HNAT_SUCCESS, e')
      \<longrightarrow> rd e' (winfo_pao hnat_ipv6_5t_route ''tid'') = rd e (winfo_pao hnat_ipv6_5t_route ''tid'')
        \<and> mtk_hnat_foe_to_tuple_info_blk e' t = mtk_hnat_foe_to_tuple_info_blk e t)"
proof (intro conjI impI; (elim conjE)?)
  assume "pkt_type e = IPV4_MAP_E" and u: "update_logic (Upd_hqos fqos qid) e = (HNAT_SUCCESS, e')"
  note q = hqos_ipv6 [OF _ _ u [simplified] assms] and g = type_groups(1) [OF this(1)]
  show "rd e' (in_view hnat_ipv4_mape ''tport_id'') = rd e (in_view hnat_ipv4_mape ''tport_id'')"
    using q(2) g by (simp add: foe_fld)
  show "take_bit 4 (rd e' (in_view hnat_ipv4_mape ''new_sport'')) = 1"
    using q(1) g rd_part [of 0 4 16 e' 23 16] by (simp add: foe_fld)
next
  assume "pkt_type e = IPV6_HNAPT" and u: "update_logic (Upd_hqos fqos qid) e = (HNAT_SUCCESS, e')"
  note q = hqos_ipv6 [OF _ _ u [simplified] assms] and g = type_groups(2) [OF this(1)]
  show "rd e' (in_view hnat_ipv6_hnapt ''tport_id'') = rd e (in_view hnat_ipv6_hnapt ''tport_id'')"
    using q(2) g by (simp add: foe_fld)
  show "take_bit 4 (drop_bit 16 (rd e' (in_view hnat_ipv6_hnapt ''new_ipv6_ip2''))) = 1"
    using q(1) g rd_part [of 16 4 32 e' 23 0] by (simp add: foe_fld)
next
  assume t: "pkt_type e = IPV6_5T_ROUTE" and u: "update_logic (Upd_tid tid) e = (HNAT_SUCCESS, e')"
  have e': "e' = wr (Fld 25 16 4) (ucast (tid AND 0xf)) e"
    using u type_groups(3) [OF t]
    by (auto simp: hnat_entry_set_tid_def set_pao_in_def foe_fld split: if_splits)
  show "rd e' (winfo_pao hnat_ipv6_5t_route ''tid'') = rd e (winfo_pao hnat_ipv6_5t_route ''tid'')"
    by (simp add: e' foe_fld rd_wr_other)
  show "mtk_hnat_foe_to_tuple_info_blk e' t = mtk_hnat_foe_to_tuple_info_blk e t"
    by (simp add: e' mtk_hnat_foe_to_tuple_info_blk_def info_blk_from_def pkt_type_def rd16_def foe_fld
        rd_wr_other Let_def)
qed

theorem updates_through_wrong_view_witness:
  "\<exists>e'. update_logic (Upd_hqos 1 3) (wr (bfib1 ''pkt_type'') IPV4_MAP_E zero_words) = (HNAT_SUCCESS, e')
     \<and> take_bit 4 (rd e' (in_view hnat_ipv4_mape ''new_sport'')) = 1"
proof -
  let ?e = "wr (bfib1 ''pkt_type'') IPV4_MAP_E zero_words"
  have "fst (update_logic (Upd_hqos 1 3) ?e) = HNAT_SUCCESS \<and> pkt_type ?e = IPV4_MAP_E" by code_simp
  then obtain e' where "update_logic (Upd_hqos 1 3) ?e = (HNAT_SUCCESS, e')" "pkt_type ?e = IPV4_MAP_E"
    by (metis prod.collapse)
  then show ?thesis
    using updates_through_wrong_view [of 1 ?e 3 e'] by simp
qed

section \<open>The hash\<close>

text \<open>The hash of an entry is the index of a bucket of the table: below the number of entries, and a
  multiple of four, so that its quarter is the index of one of the \<open>foe_etry_num / 4\<close> flow lists.\<close>

theorem hash_in_table:
  assumes "0 < h_etry_num h" and "h_etry_num h \<le> 2 ^ 32"
  shows "unat (hnat_get_ppe_hash e h) < h_etry_num h \<and> unat (hnat_get_ppe_hash e h) mod 4 = 0"
proof -
  obtain a b c where w: "ppe_hash_words e = (a, b, c)" by (cases "ppe_hash_words e")
  obtain x where m: "mix_hash a b c = push_bit 2 x" unfolding mix_hash_def Let_def by blast
  let ?m = "of_nat (h_etry_num h) - 1 :: u32"
  have h: "hnat_get_ppe_hash e h = push_bit 2 x AND ?m" by (simp add: hnat_get_ppe_hash_def w m)
  have "?m = of_nat (h_etry_num h - 1)" using assms(1) by (simp add: of_nat_diff)
  moreover have "unat (of_nat k :: u32) = k" if "k < 2 ^ 32" for k
    using that by (simp add: unat_of_nat take_bit_nat_eq_self)
  moreover have "h_etry_num h - 1 < 2 ^ 32" using assms by linarith
  ultimately have "unat ?m = h_etry_num h - 1" by (simp only:)
  moreover have "unat (push_bit 2 x AND ?m) \<le> unat ?m"
    using word_and_le1 [of "push_bit 2 x" ?m] by (simp add: word_le_nat_alt)
  ultimately have "unat (hnat_get_ppe_hash e h) < h_etry_num h" using h assms(1) by simp
  moreover have "unat (hnat_get_ppe_hash e h) mod 4 = 0"
  proof -
    have "take_bit 2 (hnat_get_ppe_hash e h) = 0"
      by (auto simp: h bit_simps intro!: bit_word_eqI)
    then have "take_bit 2 (unat (hnat_get_ppe_hash e h)) = 0"
      by (metis unsigned_take_bit_eq unsigned_0)
    then show ?thesis by (simp add: take_bit_eq_mod)
  qed
  ultimately show ?thesis by simp
qed

theorem hash_in_table_witness: "unat (hnat_get_ppe_hash demo_entry demo_hnat) < 32768"
proof -
  have "h_etry_num demo_hnat = 32768" by (simp add: demo_hnat_def)
  then show ?thesis using hash_in_table [of demo_hnat demo_entry] by simp
qed

lemma ucast16_rd: "fld_width f \<le> 16 \<Longrightarrow> ucast (rd16 e f) = rd e f"
proof -
  assume w: "fld_width f \<le> 16"
  have "(ucast (ucast x :: u16) :: u32) = take_bit 16 x" for x :: u32
    by (auto intro!: bit_word_eqI simp: bit_simps)
  moreover have "take_bit 16 (rd e f) = rd e f"
    using w by (cases f) (simp add: rd.simps min_def)
  ultimately show ?thesis by (simp add: rd16_def)
qed

lemma rd_copy_zero:
  "pkt_type (foe_copy e zero_words) = pkt_type e"
  "fld_word f < 32 \<Longrightarrow> rd16 (foe_copy e zero_words) f = rd16 e f"
  by (simp_all add: rd16_def rd_foe_copy)

lemma rd_fits_nat: "take_bit n (rd e (Fld w lo n)) = rd e (Fld w lo n)" "take_bit 16 (rd e (Fld w lo 16)) = rd e (Fld w lo 16)"
  by (simp_all add: rd.simps)

text \<open>The tuple read from an entry, as far as the hash uses it.\<close>

lemma tuple_of_ipv6:
  fixes t0 :: hnat_tuple
  assumes "pkt_type e = IPV6_5T_ROUTE"
  defines "t \<equiv> mtk_hnat_foe_to_hnat_tuple e t0"
  shows "t_pkt_type t = 5" "t_ing_dev t = t_ing_dev t0" "t_ing_sipv6 t = sip6_of e" "t_ing_dipv6 t = dip6_of e"
    "t_ing_sp t = rd16 e (Fld 9 16 16)" "t_ing_dp t = rd16 e (Fld 9 0 16)"
proof -
  have "rd e (Fld 0 23 5) = 5" using assms(1) by (simp add: pkt_type_def foe_fld foe_ip_act_defs)
  then show "t_pkt_type t = 5" "t_ing_dev t = t_ing_dev t0" "t_ing_sipv6 t = sip6_of e"
    "t_ing_dipv6 t = dip6_of e" "t_ing_sp t = rd16 e (Fld 9 16 16)" "t_ing_dp t = rd16 e (Fld 9 0 16)"
    using assms(1)
    by (simp_all add: t_def mtk_hnat_foe_to_hnat_tuple_def mtk_hnat_foe_to_tuple_l4_def
        mtk_hnat_foe_to_tuple_l3_def mtk_hnat_foe_to_tuple_l2_def mtk_hnat_foe_to_tuple_info_blk_def
        info_blk_from_def Let_def foe_ip_act_defs foe_fld rd16_def sip6_of_def dip6_of_def)
qed

lemma tuple_of_ipv4:
  fixes t0 :: hnat_tuple
  assumes "pkt_type e = IPV4_HNAPT"
  defines "t \<equiv> mtk_hnat_foe_to_hnat_tuple e t0"
  shows "t_pkt_type t = 0" "t_ing_dev t = t_ing_dev t0" "t_ing_sipv4 t = htonl (rd e (Fld 1 0 32))"
    "t_ing_dipv4 t = htonl (rd e (Fld 2 0 32))"
    "t_ing_sp t = rd16 e (Fld 3 16 16)" "t_ing_dp t = rd16 e (Fld 3 0 16)"
proof -
  have "rd e (Fld 0 23 5) = 0" using assms(1) by (simp add: pkt_type_def foe_fld foe_ip_act_defs)
  then show "t_pkt_type t = 0" "t_ing_dev t = t_ing_dev t0" "t_ing_sipv4 t = htonl (rd e (Fld 1 0 32))"
    "t_ing_dipv4 t = htonl (rd e (Fld 2 0 32))"
    "t_ing_sp t = rd16 e (Fld 3 16 16)" "t_ing_dp t = rd16 e (Fld 3 0 16)"
    using assms(1)
    by (simp_all add: t_def mtk_hnat_foe_to_hnat_tuple_def mtk_hnat_foe_to_tuple_l4_def
        mtk_hnat_foe_to_tuple_l3_def mtk_hnat_foe_to_tuple_l2_def mtk_hnat_foe_to_tuple_info_blk_def
        info_blk_from_def Let_def foe_ip_act_defs foe_fld rd16_def)
qed

lemma hash_words_ipv6:
  assumes "pkt_type e = IPV6_5T_ROUTE" and "tuple_entry t = Some e'"
    and "t_pkt_type t = 5" "t_ing_sipv6 t = sip6_of e" "t_ing_dipv6 t = dip6_of e"
    "t_ing_sp t = rd16 e (Fld 9 16 16)" "t_ing_dp t = rd16 e (Fld 9 0 16)"
  shows "ppe_hash_words e' = ppe_hash_words e"
proof -
  have c: "ucast (rd16 e (Fld 9 16 16)) = rd e (Fld 9 16 16)" "ucast (rd16 e (Fld 9 0 16)) = rd e (Fld 9 0 16)"
    by (simp_all add: ucast16_rd)
  have e': "e' = wr (Fld 9 0 16) (rd e (Fld 9 0 16)) (wr (Fld 9 16 16) (rd e (Fld 9 16 16))
      (wr (Fld 8 0 32) (rd e (Fld 8 0 32)) (wr (Fld 7 0 32) (rd e (Fld 7 0 32))
      (wr (Fld 6 0 32) (rd e (Fld 6 0 32)) (wr (Fld 5 0 32) (rd e (Fld 5 0 32))
      (wr (Fld 4 0 32) (rd e (Fld 4 0 32)) (wr (Fld 3 0 32) (rd e (Fld 3 0 32))
      (wr (Fld 2 0 32) (rd e (Fld 2 0 32)) (wr (Fld 1 0 32) (rd e (Fld 1 0 32))
      (wr (Fld 0 23 5) 5 zero_words))))))))))"
    using assms(2-7) c
    by (simp add: tuple_entry_def foe_ip_act_defs foe_fld sip6_of_def dip6_of_def Let_def)
  have rdw: "rd e' f = rd e f"
    if "f \<in> {Fld 1 0 32, Fld 2 0 32, Fld 3 0 32, Fld 4 0 32, Fld 5 0 32, Fld 6 0 32, Fld 7 0 32, Fld 8 0 32,
             Fld 9 16 16, Fld 9 0 16}" for f
    using that by (auto simp: e' rd_wr_same rd_wr_other rd_fits_nat)
  have t': "pkt_type e' = IPV6_5T_ROUTE"
    by (simp add: pkt_type_def foe_fld e' rd_wr_same rd_wr_other foe_ip_act_defs)
  show ?thesis
    using assms(1) t' rdw
    by (simp add: ppe_hash_words_def foe_ip_act_defs sip6_of_def dip6_of_def foe_fld Let_def)
qed

lemma hash_words_ipv4:
  assumes "tuple_entry t = Some e'" and "t_pkt_type t = 0"
    "t_ing_sp t = rd16 e (Fld 3 16 16)" "t_ing_dp t = rd16 e (Fld 3 0 16)"
  shows "ppe_hash_words e'
    = (push_bit 16 (rd e (Fld 3 16 16)) OR rd e (Fld 3 0 16), t_ing_dipv4 t, t_ing_sipv4 t)"
proof -
  have c: "ucast (rd16 e (Fld 3 16 16)) = rd e (Fld 3 16 16)" "ucast (rd16 e (Fld 3 0 16)) = rd e (Fld 3 0 16)"
    by (simp_all add: ucast16_rd)
  have e': "e' = wr (Fld 3 0 16) (rd e (Fld 3 0 16)) (wr (Fld 3 16 16) (rd e (Fld 3 16 16))
      (wr (Fld 2 0 32) (t_ing_dipv4 t) (wr (Fld 1 0 32) (t_ing_sipv4 t) (wr (Fld 0 23 5) 0 zero_words))))"
    using assms c by (simp add: tuple_entry_def foe_ip_act_defs foe_fld Let_def)
  have "pkt_type e' = IPV4_HNAPT"
    by (simp add: pkt_type_def foe_fld e' rd_wr_same rd_wr_other foe_ip_act_defs)
  moreover have "rd e' (Fld 3 16 16) = rd e (Fld 3 16 16)" "rd e' (Fld 3 0 16) = rd e (Fld 3 0 16)"
    "rd e' (Fld 2 0 32) = t_ing_dipv4 t" "rd e' (Fld 1 0 32) = t_ing_sipv4 t"
    by (simp_all add: e' rd_wr_same rd_wr_other rd_fits_nat take_bit_word_eq_self)
  ultimately show ?thesis
    by (simp add: ppe_hash_words_def foe_ip_act_defs foe_fld Let_def)
qed

text \<open>C18. The hash of the tuple of a routed IPv6 entry is the hash of the entry, so that a tuple read from
  the table leads back to its entry.  For an IPv4 entry it is not: the tuple holds the addresses in
  network order and the hash takes them as they are, so that it mixes the swapped addresses.\<close>

theorem tuple_hash:
  fixes e :: foe_words and h :: mtk_hnat
  assumes "dev_id (t_ing_dev t0) = Some gmac"
  defines "found \<equiv> mtk_hnat_calc_ppe_hash_index_by_tuple dev_id (Some (mtk_hnat_foe_to_hnat_tuple e t0)) h"
  shows "(pkt_type e = IPV6_5T_ROUTE \<longrightarrow> fst found = HNAT_SUCCESS
      \<and> map_option t_hash_index (snd found) = Some (ucast (hnat_get_ppe_hash e h)))
    \<and> (pkt_type e = IPV4_HNAPT \<longrightarrow> fst found = HNAT_SUCCESS
      \<and> map_option t_hash_index (snd found)
        = Some (ucast (mix_hash (push_bit 16 (rd e (in_view hnat_ipv4_hnapt ''sport'')) OR rd e (in_view hnat_ipv4_hnapt ''dport''))
            (htonl (rd e (in_view hnat_ipv4_hnapt ''dip''))) (htonl (rd e (in_view hnat_ipv4_hnapt ''sip'')))
            AND (of_nat (h_etry_num h) - 1))))"
proof -
  let ?t = "mtk_hnat_foe_to_hnat_tuple e t0"
  define t1 where "t1 = ?t\<lparr>t_ppe_index := (if gmac = 2 \<and> h_ppe_num h \<ge> 3 then 2
      else if gmac = 1 \<and> h_ppe_num h \<ge> 2 then 1 else 0)\<rparr>"
  have f: "found = (case tuple_entry t1 of None \<Rightarrow> (HNAT_FAIL, Some t1)
      | Some e' \<Rightarrow> (HNAT_SUCCESS, Some (t1\<lparr>t_hash_index := ucast (hnat_get_ppe_hash e' h)\<rparr>)))"
    if "t_ing_dev ?t = t_ing_dev t0"
    unfolding found_def mtk_hnat_calc_ppe_hash_index_by_tuple_def t1_def
    by (simp only: option.case that assms(1) Let_def)
  have sel: "t_pkt_type t1 = t_pkt_type ?t" "t_ing_sipv6 t1 = t_ing_sipv6 ?t" "t_ing_dipv6 t1 = t_ing_dipv6 ?t"
    "t_ing_sp t1 = t_ing_sp ?t" "t_ing_dp t1 = t_ing_dp ?t" "t_ing_sipv4 t1 = t_ing_sipv4 ?t"
    "t_ing_dipv4 t1 = t_ing_dipv4 ?t"
    by (simp_all add: t1_def)
  have "fst found = HNAT_SUCCESS \<and> map_option t_hash_index (snd found) = Some (ucast (hnat_get_ppe_hash e h))"
    if t: "pkt_type e = IPV6_5T_ROUTE"
  proof -
    note tt = tuple_of_ipv6 [OF t, of t0]
    obtain e' where e': "tuple_entry t1 = Some e'"
      using tt(1) by (simp add: tuple_entry_def sel foe_ip_act_defs Let_def)
    have "ppe_hash_words e' = ppe_hash_words e"
      by (rule hash_words_ipv6 [OF t e']) (simp_all add: sel tt)
    then show ?thesis using f [OF tt(2)] e' by (simp add: hnat_get_ppe_hash_def)
  qed
  moreover have "fst found = HNAT_SUCCESS \<and> map_option t_hash_index (snd found)
        = Some (ucast (mix_hash (push_bit 16 (rd e (in_view hnat_ipv4_hnapt ''sport'')) OR rd e (in_view hnat_ipv4_hnapt ''dport''))
            (htonl (rd e (in_view hnat_ipv4_hnapt ''dip''))) (htonl (rd e (in_view hnat_ipv4_hnapt ''sip'')))
            AND (of_nat (h_etry_num h) - 1)))"
    if t: "pkt_type e = IPV4_HNAPT"
  proof -
    note tt = tuple_of_ipv4 [OF t, of t0]
    obtain e' where e': "tuple_entry t1 = Some e'"
      using tt(1) by (simp add: tuple_entry_def sel foe_ip_act_defs Let_def)
    have "ppe_hash_words e' = (push_bit 16 (rd e (Fld 3 16 16)) OR rd e (Fld 3 0 16), t_ing_dipv4 t1, t_ing_sipv4 t1)"
      by (rule hash_words_ipv4 [OF e']) (simp_all add: sel tt)
    then show ?thesis using f [OF tt(2)] e' by (simp add: hnat_get_ppe_hash_def foe_fld sel tt)
  qed
  ultimately show ?thesis by blast
qed

text \<open>An IPv4 flow whose tuple leads to another bucket than the one the entry hashes to.\<close>

definition demo_flow :: foe_words where
  "demo_flow = zero_words(1 := 0xC0A80102, 2 := 0x08080808, 3 := 0x30390035)"

lemma demo_flow_words:
  "pkt_type demo_flow = IPV4_HNAPT \<and> rd demo_flow (in_view hnat_ipv4_hnapt ''sport'') = 0x3039
   \<and> rd demo_flow (in_view hnat_ipv4_hnapt ''dport'') = 0x35
   \<and> rd demo_flow (in_view hnat_ipv4_hnapt ''dip'') = 0x08080808
   \<and> rd demo_flow (in_view hnat_ipv4_hnapt ''sip'') = 0xC0A80102"
  by (simp add: pkt_type_def foe_fld rd.simps demo_flow_def zero_words_def foe_ip_act_defs)

lemma demo_hashes:
  "(ucast (mix_hash 0x30390035 (htonl 0x08080808) (htonl 0xC0A80102) AND 0x7fff) :: u16)
     \<noteq> ucast (mix_hash 0x30390035 0x08080808 0xC0A80102 AND 0x7fff)"
  by code_simp

theorem tuple_hash_witness:
  "map_option t_hash_index (snd (mtk_hnat_calc_ppe_hash_index_by_tuple (\<lambda>n. Some 0)
      (Some (mtk_hnat_foe_to_hnat_tuple demo_flow zero_tuple)) demo_hnat))
   \<noteq> Some (ucast (hnat_get_ppe_hash demo_flow demo_hnat))"
proof -
  have n: "h_etry_num demo_hnat = 32768" by (simp add: demo_hnat_def)
  have p: "(push_bit 16 0x3039 OR 0x35 :: u32) = 0x30390035" by simp
  have w: "ppe_hash_words demo_flow = (0x30390035, 0x08080808, 0xC0A80102)"
    using demo_flow_words p by (simp add: ppe_hash_words_def Let_def foe_ip_act_defs)
  show ?thesis
    using tuple_hash [of "\<lambda>n. Some 0" zero_tuple 0 demo_flow demo_hnat] demo_flow_words demo_hashes
    by (auto simp: n p hnat_get_ppe_hash_def w)
qed

end
