(* ===== verification/Hnat_Init.thy ===== *)
theory Hnat_Init
  imports Hnat_Delete
begin

text \<open>
  Starting and stopping an engine, \<^verbatim>\<open>mtk_hnat/hnat.c\<close>: \<open>hnat_hw_init\<close>, \<open>hnat_start\<close> with its search
  for a table size that can be allocated, \<open>hnat_stop\<close>, and the programming of the default CPU port
  and of the protocols offloaded by 3-tuple.
\<close>

section \<open>Register programs\<close>

text \<open>A straight-line sequence of accesses to the registers of an engine.\<close>

datatype reg_op = Set_field int u32 u32 | Set_bits int u32 | Clr_bits int u32 | Writel u32 int

fun run_op :: "reg_op \<Rightarrow> regfile \<Rightarrow> regfile" where
  "run_op (Set_field reg m v) r = cr_set_field reg m v r"
| "run_op (Set_bits reg bs) r = cr_set_bits reg bs r"
| "run_op (Clr_bits reg bs) r = cr_clr_bits reg bs r"
| "run_op (Writel v reg) r = r(reg := v)"

definition run_ops :: "reg_op list \<Rightarrow> nat \<Rightarrow> mtk_hnat \<Rightarrow> mtk_hnat" where
  "run_ops ops p = on_ppe p (with_regs (fold run_op ops))"

text \<open>The masks and values of \<^verbatim>\<open>hnat.h\<close> that only these functions use.\<close>

definition UNB_DLTA :: u32 where "UNB_DLTA = push_bit 0 0xff"
definition UNB_MNP :: u32 where "UNB_MNP = push_bit 16 0xffff"
definition UDP_DLTA :: u32 where "UDP_DLTA = push_bit 0 0xffff"
definition NTU_DLTA :: u32 where "NTU_DLTA = push_bit 16 0xffff"
definition TCP_DLTA :: u32 where "TCP_DLTA = push_bit 0 0xffff"
definition FIN_DLTA :: u32 where "FIN_DLTA = push_bit 16 0xffff"
definition KA_T :: u32 where "KA_T = push_bit 0 0xffff"
definition TCP_KA :: u32 where "TCP_KA = push_bit 16 0xff"
definition UDP_KA :: u32 where "UDP_KA = push_bit 24 0xff"
definition QURT_LMT :: u32 where "QURT_LMT = push_bit 0 0x3ff"
definition HALF_LMT :: u32 where "HALF_LMT = push_bit 16 0x3ff"
definition FULL_LMT :: u32 where "FULL_LMT = push_bit 0 0x3fff"
definition NTU_KA :: u32 where "NTU_KA = push_bit 16 0xff"
definition BIND_RATE :: u32 where "BIND_RATE = push_bit 0 0xffff"
definition PPE_EN :: u32 where "PPE_EN = push_bit 0 0x1"
definition TSID_EN :: u32 where "TSID_EN = push_bit 1 0x1"
definition TTL0_DRP :: u32 where "TTL0_DRP = push_bit 4 0x1"
definition MCAST_TB_EN :: u32 where "MCAST_TB_EN = push_bit 7 0x1"
definition NEW_IPV4_ID_INC_EN :: u32 where "NEW_IPV4_ID_INC_EN = push_bit 20 0x1"
definition SP_CMP_EN :: u32 where "SP_CMP_EN = push_bit 25 0x1"
definition SB_MED_FULL_DRP_EN :: u32 where "SB_MED_FULL_DRP_EN = push_bit 11 0x1"
definition MIB_EN :: u32 where "MIB_EN = push_bit 0 0x1"
definition MIB_READ_CLEAR :: u32 where "MIB_READ_CLEAR = push_bit 1 0x1"
definition MIB_CAH_EN :: u32 where "MIB_CAH_EN = push_bit 0 0x1"
definition SP1_DFT_CPORT :: u32 where "SP1_DFT_CPORT = push_bit 4 0xf"
definition SP2_DFT_CPORT :: u32 where "SP2_DFT_CPORT = push_bit 8 0xf"
definition SP3_DFT_CPORT :: u32 where "SP3_DFT_CPORT = push_bit 12 0xf"
definition SP15_DFT_CPORT :: u32 where "SP15_DFT_CPORT = push_bit 28 0xf"
definition HASH_SEED_KEY :: u32 where "HASH_SEED_KEY = 0x12345678"

text \<open>The bits of \<open>PPE_FLOW_CFG\<close> for all versions, for versions 2 and 3, and for version 3.\<close>

definition foe_bits :: u32 where
  "foe_bits = BIT 12 OR BIT 13 OR BIT 17 OR BIT 14 OR BIT 10 OR BIT 8 OR BIT 9 OR BIT 0"

definition foe_bits_v2 :: u32 where "foe_bits_v2 = BIT 21 OR BIT 22"

definition foe_bits_v3 :: u32 where
  "foe_bits_v3 = BIT 30 OR BIT 29 OR BIT 23 OR BIT 24 OR BIT 25"

definition foe_stop_bits :: u32 where
  "foe_stop_bits = BIT 13 OR BIT 12 OR BIT 17 OR BIT 14 OR BIT 10 OR BIT 8 OR BIT 9 OR BIT 2 OR BIT 1 OR BIT 0"

definition hnat_v2_or_v3 :: "mtk_hnat \<Rightarrow> bool" where
  "hnat_v2_or_v3 h = (h_version h = MTK_HNAT_V2 \<or> h_version h = MTK_HNAT_V3)"

section \<open>Default CPU port\<close>

definition PSE_TDMA_PORT :: u8 where "PSE_TDMA_PORT = 10"

definition hnat_hw_set_dft_cport :: "nat \<Rightarrow> mtk_hnat \<Rightarrow> mtk_hnat" where
  "hnat_hw_set_dft_cport p h =
     (if p \<ge> h_ppe_num h then h
      else if p = 1 \<and> h_dft_cport h = PSE_TDMA_PORT then h
      else let v = ucast (h_dft_cport h) in
           run_ops ([Set_field PPE_DFT_CPORT SP1_DFT_CPORT v, Set_field PPE_DFT_CPORT SP2_DFT_CPORT v,
                     Set_field PPE_DFT_CPORT SP3_DFT_CPORT v]
                    @ (if h_version h = MTK_HNAT_V3 then [Set_field PPE_DFT_CPORT1 SP15_DFT_CPORT v] else []))
             p h)"

section \<open>Protocols by 3-tuple\<close>

definition BIT_IP_PROT_CHK_BLIST :: u32 where "BIT_IP_PROT_CHK_BLIST = BIT 16"

text \<open>The words of the four protocol registers: byte \<open>i mod 4\<close> of word \<open>i div 4\<close> is protocol \<open>i\<close>.\<close>

definition prot_regs :: "hnat_prot_3t_cfg \<Rightarrow> nat \<Rightarrow> u32" where
  "prot_regs c =
     fold (\<lambda>i w. w(i div 4 := w (i div 4) OR push_bit ((i mod 4) * 8) (ucast (proto c ! i))))
       [0 ..< min (unat (num_3t c)) 16] (\<lambda>_. 0)"

definition hnat_hw_set_prot_3t :: "nat \<Rightarrow> mtk_hnat \<Rightarrow> mtk_hnat" where
  "hnat_hw_set_prot_3t p h =
     (if p \<ge> h_ppe_num h then h
      else let c = h_prot_3t h p in
           run_ops
             [Set_field PPE_FLOW_CFG BIT_IP_PROT_CHK_BLIST (if blist_3t c then 1 else 0),
              Writel (ucast (ipv4_chk c) OR push_bit 16 (ucast (ipv6_chk c))) PPE_IP_PROT_CHK,
              Writel (prot_regs c 0) PPE_IP_PROT_0, Writel (prot_regs c 1) PPE_IP_PROT_1,
              Writel (prot_regs c 2) PPE_IP_PROT_2, Writel (prot_regs c 3) PPE_IP_PROT_3] p h)"

section \<open>Initialisation of an engine\<close>

text \<open>\<open>hnat_hw_init\<close> up to the cache, and after it.\<close>

definition hw_init_ops :: "mtk_hnat \<Rightarrow> reg_op list" where
  "hw_init_ops h =
     [Set_field PPE_TB_CFG TB_ETRY_NUM (word_of_int (h_etry_cfg h)), Set_field PPE_TB_CFG HASH_MODE 1,
      Writel HASH_SEED_KEY PPE_HASH_SEED, Set_field PPE_TB_CFG XMODE 0,
      Set_field PPE_TB_CFG TB_ENTRY_SIZE (if h_version h = MTK_HNAT_V3 then 0 else 1),
      Set_field PPE_TB_CFG SMA SMA_FWD_CPU_BUILD_ENTRY,
      Set_bits PPE_FLOW_CFG foe_bits]
     @ (if hnat_v2_or_v3 h then [Set_bits PPE_FLOW_CFG foe_bits_v2] else [])
     @ (if h_version h = MTK_HNAT_V3 then [Set_bits PPE_FLOW_CFG foe_bits_v3] else [])
     @ [Set_field PPE_TB_CFG NTU_AGE 1, Set_field PPE_TB_CFG UNBD_AGE 1,
        Set_field PPE_UNB_AGE UNB_MNP 1000, Set_field PPE_UNB_AGE UNB_DLTA 3,
        Set_field PPE_TB_CFG TCP_AGE 1, Set_field PPE_TB_CFG UDP_AGE 1, Set_field PPE_TB_CFG FIN_AGE 1,
        Set_field PPE_BND_AGE_0 UDP_DLTA (ucast (h_udp_dlta h)), Set_field PPE_BND_AGE_0 NTU_DLTA 1,
        Set_field PPE_BND_AGE_1 FIN_DLTA (ucast (h_fin_dlta h)),
        Set_field PPE_BND_AGE_1 TCP_DLTA (ucast (h_tcp_dlta h)),
        Set_field PPE_TB_CFG KA_CFG 0, Set_field PPE_BIND_LMT_1 NTU_KA 0, Set_field PPE_KA KA_T 0,
        Set_field PPE_KA TCP_KA 0, Set_field PPE_KA UDP_KA 0,
        Set_field PPE_TB_CFG SCAN_MODE 2, Set_field PPE_TB_CFG KA_CFG 3, Set_field PPE_TB_CFG TICK_SEL 0,
        Set_field PPE_KA KA_T 1, Set_field PPE_KA TCP_KA (ucast (h_tcp_ka h)),
        Set_field PPE_KA UDP_KA (ucast (h_udp_ka h)), Set_field PPE_BIND_LMT_1 NTU_KA 1,
        Set_field PPE_BIND_LMT_0 QURT_LMT 16383, Set_field PPE_BIND_LMT_0 HALF_LMT 16383,
        Set_field PPE_BIND_LMT_1 FULL_LMT 16383,
        Set_field PPE_BNDR BIND_RATE (ucast (h_bind_threshold h)),
        Set_field PPE_GLO_CFG PPE_EN 1, Writel 0 PPE_DFT_CPORT,
        Set_field PPE_GLO_CFG TTL0_DRP 0, Set_field PPE_GLO_CFG MCAST_TB_EN 1]"

definition hw_init_ops2 :: "mtk_hnat \<Rightarrow> reg_op list" where
  "hw_init_ops2 h =
     (if hnat_v2_or_v3 h
      then [Writel 0xcb777 PPE_DFT_CPORT1, Writel 0x7f PPE_SBW_CTRL, Set_field PPE_GLO_CFG SP_CMP_EN 1]
      else [])
     @ (if h_version h = MTK_HNAT_V3
        then [Set_field PPE_SB_FIFO_DBG SB_MED_FULL_DRP_EN 1,
              Set_bits PPE_GLO_CFG (NEW_IPV4_ID_INC_EN OR TSID_EN), Set_field PPE_TB_CFG IS_SP_TAG_EN 1]
        else [])"

definition hw_init_mib :: "mtk_hnat \<Rightarrow> reg_op list" where
  "hw_init_mib h =
     (if h_per_flow_accounting h
      then [Set_field PPE_MIB_CFG MIB_EN 1, Set_field PPE_MIB_CFG MIB_READ_CLEAR 1,
            Set_field PPE_MIB_CAH_CTRL MIB_CAH_EN 1]
      else [])"

text \<open>\<open>irq p\<close> is the register and the mask of the flow check interrupt of engine \<open>p\<close>, which the Ethernet
  driver defines.\<close>

definition fe_irq_enable :: "(nat \<Rightarrow> int \<times> u32) \<Rightarrow> nat \<Rightarrow> mtk_hnat \<Rightarrow> mtk_hnat" where
  "fe_irq_enable irq p h =
     (if h_version h = MTK_HNAT_V3 \<and> p < 2
      then h\<lparr>h_fe := cr_set_field (fst (irq p)) (snd (irq p)) 1 (h_fe h)\<rparr> else h)"

definition hnat_hw_init :: "(nat \<Rightarrow> int \<times> u32) \<Rightarrow> ppe_dev \<Rightarrow> nat \<Rightarrow> mtk_hnat \<Rightarrow> int \<times> mtk_hnat" where
  "hnat_hw_init irq d p h =
     (if p \<ge> h_ppe_num h then (- EINVAL, h)
      else (0, hnat_hw_set_prot_3t p
              (hnat_hw_set_dft_cport p
                (run_ops (hw_init_mib h) p
                  (fe_irq_enable irq p
                    (run_ops (hw_init_ops2 h) p
                      (hnat_cache_ebl_one d p True
                        (run_ops (hw_init_ops h) p h))))))))"

section \<open>Starting an engine\<close>

text \<open>The outcomes of the allocations: of the table and of the flow heads at the \<open>k\<close>-th attempt, of
  the counters and of the accounting array; and the addresses of the table and the counters.\<close>

record alloc_env =
  al_table :: "nat \<Rightarrow> bool"
  al_flow :: "nat \<Rightarrow> bool"
  al_mib :: bool
  al_acct :: bool
  al_table_dev :: u32
  al_mib_dev :: u32

text \<open>The loop: \<open>c\<close> is the configuration code plus 1, \<open>n\<close> the number of entries.  The result is the
  number of entries and, on success, the code.\<close>

fun alloc_loop :: "alloc_env \<Rightarrow> nat \<Rightarrow> nat \<Rightarrow> nat \<Rightarrow> nat \<times> nat option" where
  "alloc_loop e k 0 n = (n, None)"
| "alloc_loop e k (Suc c) n =
     (if al_table e k \<and> al_flow e k then (n, Some c) else alloc_loop e (Suc k) c (n div 2))"

definition clear_table :: "nat \<Rightarrow> mtk_hnat \<Rightarrow> mtk_hnat" where
  "clear_table p h =
     h\<lparr>h_table := (h_table h)(p := (\<lambda>i. if i < h_etry_num h then zero_words else h_table h p i))\<rparr>"

definition hnat_start ::
  "(nat \<Rightarrow> int \<times> u32) \<Rightarrow> ppe_dev \<Rightarrow> alloc_env \<Rightarrow> nat \<Rightarrow> mtk_hnat \<Rightarrow> int \<times> mtk_hnat" where
  "hnat_start irq d e p h =
     (if p \<ge> h_ppe_num h then (- EINVAL, h)
      else (case alloc_loop e 0 (DEF_ETRY_NUM_CFG + 1) (h_etry_num h) of
              (n, None) \<Rightarrow>
                (- 1, h\<lparr>h_etry_num := n, h_table_len := (h_table_len h)(p := None),
                        h_flow_len := (if list_ex (al_table e) [0 ..< DEF_ETRY_NUM_CFG + 1]
                                       then (h_flow_len h)(p := None) else h_flow_len h)\<rparr>)
            | (n, Some cfg) \<Rightarrow>
                let h1 = h\<lparr>h_etry_num := n, h_table_len := (h_table_len h)(p := Some n),
                           h_flow_len := (h_flow_len h)(p := Some (n div 4)),
                           h_table_dev := (h_table_dev h)(p := al_table_dev e)\<rparr>;
                    h2 = clear_table p (run_ops [Writel (al_table_dev e) PPE_TB_BASE] p h1);
                    h3 = h2\<lparr>h_flow := (h_flow h2)(p := (\<lambda>i. if i < n div 4 then [] else h_flow h2 p i))\<rparr>;
                    h4 = (if h_version h = MTK_HNAT_V1_1 then exclude_boundary_entry p h3 else h3);
                    h5 = h4\<lparr>h_mib_len := (h_mib_len h4)(p := Some n), h_mib_dev := (h_mib_dev h4)(p := al_mib_dev e)\<rparr>;
                    h6 = run_ops [Writel (al_mib_dev e) PPE_MIB_TB_BASE] p h5;
                    h7 = h6\<lparr>h_acct_len := (h_acct_len h6)(p := Some n)\<rparr>
                in if \<not> h_per_flow_accounting h
                   then (0, snd (hnat_hw_init irq d p (h4\<lparr>h_etry_cfg := int cfg\<rparr>)))
                   else if \<not> al_mib e then (- 1, h4\<lparr>h_mib_len := (h_mib_len h4)(p := None)\<rparr>)
                   else if \<not> al_acct e then (- 1, h6\<lparr>h_acct_len := (h_acct_len h6)(p := None)\<rparr>)
                   else (0, snd (hnat_hw_init irq d p (h7\<lparr>h_etry_cfg := int cfg\<rparr>)))))"

text \<open>The start loop of \<open>hnat_probe\<close>, which ends at the first error.\<close>

fun start_engines ::
  "(nat \<Rightarrow> int \<times> u32) \<Rightarrow> ppe_dev \<Rightarrow> (nat \<Rightarrow> alloc_env) \<Rightarrow> nat list \<Rightarrow> mtk_hnat \<Rightarrow> int \<times> mtk_hnat" where
  "start_engines irq d e [] h = (0, h)"
| "start_engines irq d e (p # ps) h =
     (case hnat_start irq d (e p) p h of
        (err, h') \<Rightarrow> if err \<noteq> 0 then (err, h') else start_engines irq d e ps h')"

section \<open>Stopping an engine\<close>

definition hw_stop_ops :: "mtk_hnat \<Rightarrow> reg_op list" where
  "hw_stop_ops h =
     [Set_field PPE_GLO_CFG PPE_EN 0, Set_field PPE_TB_CFG SCAN_MODE 0, Set_field PPE_TB_CFG KA_CFG 0,
      Clr_bits PPE_FLOW_CFG foe_stop_bits]
     @ (if hnat_v2_or_v3 h then [Clr_bits PPE_FLOW_CFG foe_bits_v2] else [])
     @ (if h_version h = MTK_HNAT_V3 then [Clr_bits PPE_FLOW_CFG foe_bits_v3] else [])
     @ [Set_field PPE_TB_CFG NTU_AGE 0, Set_field PPE_TB_CFG UNBD_AGE 0, Set_field PPE_TB_CFG TCP_AGE 0,
        Set_field PPE_TB_CFG UDP_AGE 0, Set_field PPE_TB_CFG FIN_AGE 0]"

text \<open>\<open>hnat_flow_entry_teardown_all\<close> runs over \<open>DEF_ETRY_NUM / 4\<close> heads; \<open>None\<close> is an access beyond
  the allocated ones.\<close>

definition hnat_flow_entry_teardown_all :: "nat \<Rightarrow> mtk_hnat \<Rightarrow> mtk_hnat option" where
  "hnat_flow_entry_teardown_all p h =
     (case h_flow_len h p of
        None \<Rightarrow> None
      | Some len \<Rightarrow>
          if len < DEF_ETRY_NUM div 4 then None
          else Some (h\<lparr>h_flow := (h_flow h)(p := (\<lambda>i. if i < DEF_ETRY_NUM div 4 then [] else h_flow h p i))\<rparr>))"

definition hnat_stop :: "ppe_dev \<Rightarrow> nat \<Rightarrow> mtk_hnat \<Rightarrow> mtk_hnat option" where
  "hnat_stop d p h =
     (if p \<ge> h_ppe_num h then Some h
      else
        let h1 = hnat_cache_ebl_one d p False
                   (set_gmac_ppe_fwd NR_GMAC3_PORT False
                     (set_gmac_ppe_fwd NR_GMAC2_PORT False (set_gmac_ppe_fwd NR_GMAC1_PORT False h)));
            h2 = (if h_table_len h1 p = None then h1
                  else fold (\<lambda>i. on_entry p i (delete_words (hnat_timestamp h1))) [0 ..< h_etry_num h1] h1);
            h3 = run_ops (hw_stop_ops h2) p h2;
            h4 = run_ops [Writel 0 PPE_TB_BASE] p (h3\<lparr>h_table_len := (h_table_len h3)(p := None)\<rparr>);
            h5 = (if h_per_flow_accounting h4 then run_ops [Writel 0 PPE_MIB_TB_BASE] p h4 else h4)
        in if h_flow_len h5 p = None then Some h5 else hnat_flow_entry_teardown_all p h5)"

end
