(* ===== verification/Hnat_Init_Props.thy ===== *)
theory Hnat_Init_Props
  imports Hnat_Init Foe_Regs_Props
begin

text \<open>
  What \<open>hnat_start\<close> leaves: the number of entries allocated for the engine, and the table size in its
  configuration register.
\<close>

section \<open>Programs that keep a field\<close>

definition fld_mask :: "'i field_of \<Rightarrow> u32" where
  "fld_mask f = push_bit (fld_lo f) (mask (fld_width f))"

fun op_keeps :: "int field_of \<Rightarrow> reg_op \<Rightarrow> bool" where
  "op_keeps f (Set_field reg m v) =
     (reg \<noteq> fld_word f \<or> fld_mask f AND (m OR push_bit (field_shift m) v) = 0)"
| "op_keeps f (Set_bits reg bs) = (reg \<noteq> fld_word f \<or> fld_mask f AND bs = 0)"
| "op_keeps f (Clr_bits reg bs) = (reg \<noteq> fld_word f \<or> fld_mask f AND bs = 0)"
| "op_keeps f (Writel v reg) = (reg \<noteq> fld_word f)"

lemma rd_mask_cong:
  assumes "r (fld_word f) AND fld_mask f = r' (fld_word f) AND fld_mask f"
  shows "rd r f = rd r' f"
proof (cases f)
  case (Fld w lo n)
  have "bit (r w) (lo + i) = bit (r' w) (lo + i)" if "i < n" "lo + i < 32" for i
  proof -
    have "bit (r w AND fld_mask f) (lo + i) = bit (r' w AND fld_mask f) (lo + i)"
      using assms Fld by simp
    then show ?thesis using that Fld by (simp add: fld_mask_def bit_simps)
  qed
  moreover have "bit (x::u32) k \<Longrightarrow> k < 32" for x k using bit_imp_le_length [of x k] by simp
  ultimately have "bit (r w) (lo + i) = bit (r' w) (lo + i)" if "i < n" for i
    using that by blast
  then show ?thesis
    unfolding Fld rd.simps by (intro bit_word_eqI) (auto simp: bit_simps)
qed

lemma and_disjoint_or:
  fixes m a b x :: u32
  assumes "m AND (a OR b) = 0"
  shows "((x AND NOT a) OR b) AND m = x AND m"
proof (rule bit_word_eqI)
  fix i :: nat
  have "\<not> bit (m AND (a OR b)) i" using assms by simp
  then show "bit (((x AND NOT a) OR b) AND m) i = bit (x AND m) i" if "i < LENGTH(32)"
    using that by (auto simp: bit_simps)
qed

lemma op_keeps_rd: "op_keeps f op \<Longrightarrow> rd (run_op op r) f = rd r f"
proof (cases op)
  case (Set_field reg m v)
  assume k: "op_keeps f op"
  show ?thesis
  proof (cases "reg = fld_word f")
    case True
    then show ?thesis
      using k Set_field and_disjoint_or [of "fld_mask f" m "push_bit (field_shift m) v"]
      by (intro rd_mask_cong) (simp add: cr_set_field_def)
  qed (auto simp: Set_field cr_set_field_def intro: rd_cong)
next
  case (Set_bits reg bs)
  assume k: "op_keeps f op"
  show ?thesis
  proof (cases "reg = fld_word f")
    case True
    then show ?thesis
      using k Set_bits and_disjoint_or [of "fld_mask f" 0 bs]
      by (intro rd_mask_cong) (simp add: cr_set_bits_def)
  qed (auto simp: Set_bits cr_set_bits_def intro: rd_cong)
next
  case (Clr_bits reg bs)
  assume k: "op_keeps f op"
  show ?thesis
  proof (cases "reg = fld_word f")
    case True
    then show ?thesis
      using k Clr_bits and_disjoint_or [of "fld_mask f" bs 0]
      by (intro rd_mask_cong) (simp add: cr_clr_bits_def)
  qed (auto simp: Clr_bits cr_clr_bits_def intro: rd_cong)
next
  case (Writel v reg)
  assume "op_keeps f op"
  then show ?thesis by (auto simp: Writel intro: rd_cong)
qed

lemma ops_keep_rd: "list_all (op_keeps f) ops \<Longrightarrow> rd (fold run_op ops r) f = rd r f"
  by (induction ops arbitrary: r) (simp_all add: op_keeps_rd)

section \<open>The size in the register\<close>

definition tb_size :: "nat \<Rightarrow> mtk_hnat \<Rightarrow> u32" where
  "tb_size p h = rd (pr (h_ppe h p)) (Fld PPE_TB_CFG 0 3)"

lemma run_ops_ppe: "pr (h_ppe (run_ops ops p h) p) = fold run_op ops (pr (h_ppe h p))"
  by (simp add: run_ops_def on_ppe_def with_regs_def)

lemma tb_size_run_ops:
  "list_all (op_keeps (Fld PPE_TB_CFG 0 3)) ops \<Longrightarrow> tb_size p (run_ops ops p h) = tb_size p h"
  by (simp add: tb_size_def run_ops_ppe ops_keep_rd)

lemma keeps_other:
  "reg \<noteq> PPE_TB_CFG \<Longrightarrow> op_keeps (Fld PPE_TB_CFG 0 3) (Set_field reg m v)"
  "reg \<noteq> PPE_TB_CFG \<Longrightarrow> op_keeps (Fld PPE_TB_CFG 0 3) (Set_bits reg bs)"
  "reg \<noteq> PPE_TB_CFG \<Longrightarrow> op_keeps (Fld PPE_TB_CFG 0 3) (Writel v reg)"
  by simp_all

lemma tb_regs:
  "PPE_HASH_SEED \<noteq> PPE_TB_CFG" "PPE_FLOW_CFG \<noteq> PPE_TB_CFG" "PPE_UNB_AGE \<noteq> PPE_TB_CFG"
  "PPE_BND_AGE_0 \<noteq> PPE_TB_CFG" "PPE_BND_AGE_1 \<noteq> PPE_TB_CFG" "PPE_BIND_LMT_0 \<noteq> PPE_TB_CFG"
  "PPE_BIND_LMT_1 \<noteq> PPE_TB_CFG" "PPE_KA \<noteq> PPE_TB_CFG" "PPE_BNDR \<noteq> PPE_TB_CFG"
  "PPE_GLO_CFG \<noteq> PPE_TB_CFG" "PPE_DFT_CPORT \<noteq> PPE_TB_CFG" "PPE_DFT_CPORT1 \<noteq> PPE_TB_CFG"
  "PPE_SBW_CTRL \<noteq> PPE_TB_CFG" "PPE_SB_FIFO_DBG \<noteq> PPE_TB_CFG" "PPE_MIB_CFG \<noteq> PPE_TB_CFG"
  "PPE_MIB_CAH_CTRL \<noteq> PPE_TB_CFG" "PPE_IP_PROT_CHK \<noteq> PPE_TB_CFG" "PPE_IP_PROT_0 \<noteq> PPE_TB_CFG"
  "PPE_IP_PROT_1 \<noteq> PPE_TB_CFG" "PPE_IP_PROT_2 \<noteq> PPE_TB_CFG" "PPE_IP_PROT_3 \<noteq> PPE_TB_CFG"
  "PPE_TB_BASE \<noteq> PPE_TB_CFG" "PPE_MIB_TB_BASE \<noteq> PPE_TB_CFG"
  by (simp_all add: ppe_reg_defs)

lemma keeps_tb:
  "list_all (op_keeps (Fld PPE_TB_CFG 0 3))
     [Set_field PPE_TB_CFG HASH_MODE 1, Set_field PPE_TB_CFG XMODE 0, Set_field PPE_TB_CFG TB_ENTRY_SIZE 0,
      Set_field PPE_TB_CFG TB_ENTRY_SIZE 1, Set_field PPE_TB_CFG SMA SMA_FWD_CPU_BUILD_ENTRY,
      Set_field PPE_TB_CFG NTU_AGE 1, Set_field PPE_TB_CFG UNBD_AGE 1, Set_field PPE_TB_CFG TCP_AGE 1,
      Set_field PPE_TB_CFG UDP_AGE 1, Set_field PPE_TB_CFG FIN_AGE 1, Set_field PPE_TB_CFG KA_CFG 0,
      Set_field PPE_TB_CFG SCAN_MODE 2, Set_field PPE_TB_CFG KA_CFG 3, Set_field PPE_TB_CFG TICK_SEL 0,
      Set_field PPE_TB_CFG IS_SP_TAG_EN 1]"
  by code_simp

lemmas keeps_facts = keeps_tb [unfolded list.pred_inject] keeps_other [OF tb_regs(1)]

declare op_keeps.simps [simp del]

lemma hw_init_tail_keeps:
  "hw_init_ops h = Set_field PPE_TB_CFG TB_ETRY_NUM (word_of_int (h_etry_cfg h)) # tl (hw_init_ops h)"
  "list_all (op_keeps (Fld PPE_TB_CFG 0 3)) (tl (hw_init_ops h))"
  "list_all (op_keeps (Fld PPE_TB_CFG 0 3)) (hw_init_ops2 h)"
  "list_all (op_keeps (Fld PPE_TB_CFG 0 3)) (hw_init_mib h)"
  using keeps_tb
  by (simp_all add: hw_init_ops_def hw_init_ops2_def hw_init_mib_def keeps_other tb_regs del: One_nat_def)

lemma tb_size_fe [simp]: "tb_size p (fe_irq_enable irq q h) = tb_size p h"
  by (simp add: tb_size_def fe_irq_enable_def)

lemma tb_size_dft [simp]: "tb_size p (hnat_hw_set_dft_cport p h) = tb_size p h"
  by (simp add: hnat_hw_set_dft_cport_def Let_def tb_size_run_ops keeps_other tb_regs)

lemma tb_size_prot [simp]: "tb_size p (hnat_hw_set_prot_3t p h) = tb_size p h"
  by (simp add: hnat_hw_set_prot_3t_def Let_def tb_size_run_ops keeps_other tb_regs)

lemma tb_size_cache:
  assumes "dev_ok d"
  shows "tb_size p (hnat_cache_ebl_one d p en h) = tb_size p h"
proof -
  have f: "rd (pr (set_field PPE_CAH_CTRL m v q)) (Fld PPE_TB_CFG 0 3) = rd (pr q) (Fld PPE_TB_CFG 0 3)" for m v q
    by simp
  have c: "rd (pr (cache_clr d t q)) (Fld PPE_TB_CFG 0 3) = rd (pr q) (Fld PPE_TB_CFG 0 3)" for t q
    by (rule rd_cong) (simp add: flush_regs [OF assms])
  show ?thesis
    by (simp add: tb_size_def hnat_cache_ebl_one_def hnat_cache_clr_def on_ppe_def c)
qed

lemma tb_size_hw_init:
  assumes "dev_ok d" "p < h_ppe_num h" "h_etry_cfg h = int c" "c \<le> 5"
  shows "tb_size p (snd (hnat_hw_init irq d p h)) = of_nat c"
proof -
  let ?h1 = "run_ops (hw_init_ops h) p h"
  have "take_bit 3 (of_nat c :: u32) = of_nat c"
  proof -
    have "c \<in> {0, 1, 2, 3, 4, 5}" using assms(4) by auto
    then show ?thesis by auto
  qed
  moreover have "mask_place TB_ETRY_NUM 0 3" using mask_places by blast
  ultimately have "rd (cr_set_field PPE_TB_CFG TB_ETRY_NUM (of_nat c) r) (Fld PPE_TB_CFG 0 3) = of_nat c" for r
    by (simp add: cr_set_field_wr rd_wr_same)
  then have "tb_size p ?h1 = of_nat c"
  proof -
    have "fold run_op (hw_init_ops h) r
        = fold run_op (tl (hw_init_ops h)) (cr_set_field PPE_TB_CFG TB_ETRY_NUM (of_nat c) r)" for r
      by (subst hw_init_tail_keeps(1)) (simp only: fold_simps run_op.simps assms(3) of_int_of_nat_eq)
    then show ?thesis
      using \<open>\<And>r. rd (cr_set_field PPE_TB_CFG TB_ETRY_NUM (of_nat c) r) (Fld PPE_TB_CFG 0 3) = of_nat c\<close>
      by (simp only: tb_size_def run_ops_ppe ops_keep_rd [OF hw_init_tail_keeps(2)])
  qed
  then show ?thesis
    using assms(1,2)
    by (simp add: hnat_hw_init_def tb_size_run_ops hw_init_tail_keeps(3,4) tb_size_cache)
qed

section \<open>The rest of the state\<close>

lemma run_ops_keeps [simp]:
  "h_etry_num (run_ops ops p h) = h_etry_num h" "h_table_len (run_ops ops p h) = h_table_len h"
  "h_ppe_num (run_ops ops p h) = h_ppe_num h" "h_etry_cfg (run_ops ops p h) = h_etry_cfg h"
  "h_table (run_ops ops p h) = h_table h" "h_flow_len (run_ops ops p h) = h_flow_len h"
  by (simp_all add: run_ops_def on_ppe_def)

lemma hw_init_keeps [simp]:
  "h_etry_num (snd (hnat_hw_init irq d p h)) = h_etry_num h"
  "h_table_len (snd (hnat_hw_init irq d p h)) = h_table_len h"
  "h_flow_len (snd (hnat_hw_init irq d p h)) = h_flow_len h"
  by (simp_all add: hnat_hw_init_def hnat_hw_set_prot_3t_def hnat_hw_set_dft_cport_def fe_irq_enable_def
      hnat_cache_ebl_one_def hnat_cache_clr_def on_ppe_def Let_def)

lemma boundary_keeps [simp]:
  "h_etry_num (exclude_boundary_entry p h) = h_etry_num h"
  "h_table_len (exclude_boundary_entry p h) = h_table_len h"
  "h_ppe_num (exclude_boundary_entry p h) = h_ppe_num h"
  "h_flow_len (exclude_boundary_entry p h) = h_flow_len h"
proof -
  have *: "g (fold (\<lambda>i. on_entry p i f) is h) = g h" if "\<And>i x. g (on_entry p i f x) = g x" for g :: "mtk_hnat \<Rightarrow> 'a" and f "is"
    by (induction "is" arbitrary: h) (simp_all add: that)
  show "h_etry_num (exclude_boundary_entry p h) = h_etry_num h"
    "h_table_len (exclude_boundary_entry p h) = h_table_len h"
    "h_ppe_num (exclude_boundary_entry p h) = h_ppe_num h"
    "h_flow_len (exclude_boundary_entry p h) = h_flow_len h"
    unfolding exclude_boundary_entry_def by (rule *, simp add: on_entry_def)+
qed

lemma alloc_loop_result:
  "alloc_loop e k c n = (m, Some cfg) \<Longrightarrow> \<exists>j. cfg + j + 1 = c \<and> m = n div 2 ^ j"
proof (induction e k c n rule: alloc_loop.induct)
  case (2 e k c n)
  show ?case
  proof (cases "al_table e k \<and> al_flow e k")
    case True
    then show ?thesis using 2 by (intro exI [of _ 0]) simp
  next
    case False
    then obtain j where "cfg + j + 1 = c" "m = n div 2 div 2 ^ j" using 2 by auto
    then show ?thesis by (intro exI [of _ "Suc j"]) (simp add: div_mult2_eq)
  qed
qed simp

lemma start_sizes:
  assumes "dev_ok d" and "hnat_start irq d e p h = (0, h')"
  shows "\<exists>k \<le> 5. h_etry_num h' = h_etry_num h div 2 ^ k \<and> h_table_len h' p = Some (h_etry_num h div 2 ^ k)
    \<and> h_flow_len h' p = Some (h_etry_num h div 2 ^ k div 4) \<and> tb_size p h' = of_nat (5 - k)"
proof -
  have p: "p < h_ppe_num h" using assms(2) by (auto simp: hnat_start_def EINVAL_def split: if_splits)
  obtain n r where a: "alloc_loop e 0 (DEF_ETRY_NUM_CFG + 1) (h_etry_num h) = (n, r)" by fastforce
  obtain cfg where r: "r = Some cfg" using assms(2) p a by (cases r) (auto simp: hnat_start_def)
  obtain k where k: "cfg + k + 1 = DEF_ETRY_NUM_CFG + 1" "n = h_etry_num h div 2 ^ k"
    using alloc_loop_result a r by blast
  then have cfg: "cfg = 5 - k" "k \<le> 5" by (auto simp: DEF_ETRY_NUM_CFG_def TABLE_32K_def)
  obtain hx where hx: "h' = snd (hnat_hw_init irq d p hx)" "h_etry_cfg hx = int cfg" "h_etry_num hx = n"
      "h_table_len hx p = Some n" "h_flow_len hx p = Some (n div 4)" "h_ppe_num hx = h_ppe_num h"
    using assms(2) p a r
    apply (simp add: hnat_start_def Let_def clear_table_def split: if_splits)
    by (erule that [OF sym]; simp)+
  have "tb_size p h' = of_nat cfg"
    unfolding hx(1) using hx(2,6) p cfg by (intro tb_size_hw_init assms(1)) simp_all
  then have t: "tb_size p h' = of_nat (5 - k)" unfolding cfg(1) .
  have n: "h_etry_num h' = n" "h_table_len h' p = Some n" "h_flow_len h' p = Some (n div 4)"
    using hx(3-5) by (simp_all add: hx(1))
  show ?thesis
    by (intro exI [of _ k] conjI) (fact cfg(2) t n [unfolded k(2)])+
qed

end
