(* ===== verification/Hnat_Flow.thy ===== *)
theory Hnat_Flow
  imports Hnat_State
begin

text \<open>
  Flows remembered until their first packet leaves through Wi-Fi, \<^verbatim>\<open>hnat_nf_hook.c\<close> and \<^verbatim>\<open>hnat.c\<close>:
  the comparison of two entries (\<open>hnat_flow_entry_match\<close>), the search, the preparation in
  \<open>skb_to_hnat_info\<close>, the use in \<open>mtk_sw_nat_hook_tx\<close> and the teardown of old ones.
\<close>

section \<open>Comparison\<close>

text \<open>\<open>offsetof\<close> counts from the start of the structure, not of the entry.\<close>

definition offsetof :: "layout \<Rightarrow> string \<Rightarrow> nat" where
  "offsetof l m = (case member_at 0 l m of None \<Rightarrow> 0 | Some (p, n) \<Rightarrow> p div 8)"

text \<open>The length passed to \<open>memcmp\<close>, by type; \<open>None\<close> for the other types.\<close>

definition match_len :: "u32 \<Rightarrow> nat option" where
  "match_len t =
     (if t \<in> set [IPV4_HNAPT, IPV4_HNAT, IPV4_DSLITE, IPV4_MAP_T, IPV4_MAP_E]
      then Some (offsetof hnat_ipv4_hnapt ''info_blk2'' - 4)
      else if t \<in> set [IPV6_3T_ROUTE, IPV6_5T_ROUTE, IPV6_6RD, IPV6_HNAPT, IPV6_HNAT]
      then Some (offsetof hnat_ipv6_5t_route ''resv1'' - 4)
      else None)"

text \<open>\<open>memcmp\<close> of the first \<open>len\<close> bytes behind the information block, a multiple of four here.\<close>

definition same_bytes :: "nat \<Rightarrow> foe_words \<Rightarrow> foe_words \<Rightarrow> bool" where
  "same_bytes len e d = list_all (\<lambda>i. e i = d i) [1 ..< 1 + len div 4]"

definition hnat_flow_entry_match :: "foe_words \<Rightarrow> foe_words \<Rightarrow> bool" where
  "hnat_flow_entry_match e d =
     (if rd e (udib1 ''udp'') \<noteq> rd d (udib1 ''udp'') then False
      else (case match_len (rd e (udib1 ''pkt_type'')) of
              None \<Rightarrow> False
            | Some len \<Rightarrow> same_bytes len e d))"

section \<open>The lists of flows\<close>

definition flow_is :: "foe_words \<Rightarrow> u16 \<Rightarrow> u16 \<Rightarrow> flow_entry \<Rightarrow> bool" where
  "flow_is data p hash f =
     (fl_ppe f = p \<and> fl_hash f = hash \<and> hnat_flow_entry_match (fl_data f) data)"

definition flow_list :: "u16 \<Rightarrow> u16 \<Rightarrow> mtk_hnat \<Rightarrow> flow_entry list" where
  "flow_list p hash h = h_flow h (unat p) (unat hash div 4)"

definition set_flow_list :: "u16 \<Rightarrow> u16 \<Rightarrow> flow_entry list \<Rightarrow> mtk_hnat \<Rightarrow> mtk_hnat" where
  "set_flow_list p hash fs h =
     h\<lparr>h_flow := (h_flow h)(unat p := (h_flow h (unat p))(unat hash div 4 := fs))\<rparr>"

definition hnat_flow_entry_search :: "foe_words \<Rightarrow> u16 \<Rightarrow> u16 \<Rightarrow> mtk_hnat \<Rightarrow> flow_entry option" where
  "hnat_flow_entry_search data p hash h = find (flow_is data p hash) (flow_list p hash h)"

text \<open>Replacing and removing the first flow that the search finds.\<close>

fun update_first :: "('a \<Rightarrow> bool) \<Rightarrow> 'a \<Rightarrow> 'a list \<Rightarrow> 'a list" where
  "update_first P y [] = []"
| "update_first P y (x # xs) = (if P x then y # xs else x # update_first P y xs)"

fun remove_first :: "('a \<Rightarrow> bool) \<Rightarrow> 'a list \<Rightarrow> 'a list" where
  "remove_first P [] = []"
| "remove_first P (x # xs) = (if P x then xs else x # remove_first P xs)"

text \<open>The end of \<open>skb_to_hnat_info\<close> for a flow to Wi-Fi: \<open>-1\<close> when the entry of the packet is no longer
  unbound or memory is short.\<close>

definition flow_prepare ::
  "bool \<Rightarrow> 64 word \<Rightarrow> foe_words \<Rightarrow> u16 \<Rightarrow> u16 \<Rightarrow> mtk_hnat \<Rightarrow> int \<times> mtk_hnat" where
  "flow_prepare mem_ok jiffies e p hash h =
     (if rd (h_table h (unat p) (unat hash)) (udib1 ''state'') \<noteq> state_code UNBIND then (- 1, h)
      else let f = \<lparr>fl_data = e, fl_last = jiffies, fl_ppe = p, fl_hash = hash\<rparr>
           in (case hnat_flow_entry_search e p hash h of
                 None \<Rightarrow> if mem_ok then (0, set_flow_list p hash (f # flow_list p hash h) h) else (- 1, h)
               | Some _ \<Rightarrow>
                   (0, set_flow_list p hash (update_first (flow_is e p hash) f (flow_list p hash h)) h)))"

text \<open>\<open>time_after\<close> and \<open>time_after_eq\<close> on 64-bit jiffies.\<close>

definition time_after :: "64 word \<Rightarrow> 64 word \<Rightarrow> bool" where
  "time_after a b = (sint (b - a) < 0)"

definition time_after_eq :: "64 word \<Rightarrow> 64 word \<Rightarrow> bool" where
  "time_after_eq a b = (sint (a - b) \<ge> 0)"

text \<open>The start of \<open>mtk_sw_nat_hook_tx\<close>: the flow prepared for the packet is taken, and used unless the
  entry is no longer unbound or the flow is three seconds old.\<close>

definition flow_take :: "64 word \<Rightarrow> 64 word \<Rightarrow> u16 \<Rightarrow> u16 \<Rightarrow> mtk_hnat \<Rightarrow> foe_words option \<times> mtk_hnat" where
  "flow_take hz jiffies p hash h =
     (let hw = h_table h (unat p) (unat hash);
          rest = set_flow_list p hash (remove_first (flow_is hw p hash) (flow_list p hash h)) h
      in case hnat_flow_entry_search hw p hash h of
           None \<Rightarrow> (None, h)
         | Some f \<Rightarrow>
             if rd hw (udib1 ''state'') \<noteq> state_code UNBIND \<or> time_after_eq jiffies (fl_last f + 3 * hz)
             then (None, rest)
             else (Some (fl_data f), rest))"

text \<open>\<open>hnat_flow_entry_teardown_handler\<close>: flows unused for 30 seconds go.  It runs over
  \<open>DEF_ETRY_NUM / 4\<close> heads of each engine; \<open>None\<close> is an access beyond the allocated ones.\<close>

definition hnat_flow_entry_teardown_handler :: "64 word \<Rightarrow> 64 word \<Rightarrow> mtk_hnat \<Rightarrow> (nat \<times> mtk_hnat) option" where
  "hnat_flow_entry_teardown_handler hz jiffies h =
     (let old = (\<lambda>f. time_after jiffies (fl_last f + 30 * hz)); n = DEF_ETRY_NUM div 4
      in if list_all (\<lambda>p. case h_flow_len h p of None \<Rightarrow> False | Some len \<Rightarrow> n \<le> len) [0 ..< h_ppe_num h]
         then Some
           (sum_list (map (\<lambda>p. sum_list (map (\<lambda>i. length (filter old (h_flow h p i))) [0 ..< n]))
              [0 ..< h_ppe_num h]),
            h\<lparr>h_flow := (\<lambda>p i. if p < h_ppe_num h \<and> i < n then filter (\<lambda>f. \<not> old f) (h_flow h p i)
                               else h_flow h p i)\<rparr>)
         else None)"

section \<open>Lemmas\<close>

lemma udib1_state [foe_fld]: "udib1 ''state'' = Fld 0 28 2"
  by code_simp

lemma match_lens: "match_len IPV4_HNAPT = Some 8 \<and> match_len IPV6_5T_ROUTE = Some 32"
  by code_simp

text \<open>The comparison sees the addresses and not the ports.\<close>

lemma match_hnapt:
  assumes "pkt_type e = IPV4_HNAPT"
  shows "hnat_flow_entry_match e d \<longleftrightarrow>
    rd e (udib1 ''udp'') = rd d (udib1 ''udp'') \<and> e 1 = d 1 \<and> e 2 = d 2"
proof -
  have "rd e (udib1 ''pkt_type'') = IPV4_HNAPT"
    using assms by (simp add: pkt_type_def foe_fld)
  moreover have "[1 ..< Suc 2] = [1::nat, 2]" by code_simp
  ultimately show ?thesis
    by (simp add: hnat_flow_entry_match_def match_lens same_bytes_def numeral_2_eq_2)
qed

lemma match_5t:
  assumes "pkt_type e = IPV6_5T_ROUTE"
  shows "hnat_flow_entry_match e d \<longleftrightarrow>
    rd e (udib1 ''udp'') = rd d (udib1 ''udp'') \<and> list_all (\<lambda>i. e i = d i) [1, 2, 3, 4, 5, 6, 7, 8]"
proof -
  have "rd e (udib1 ''pkt_type'') = IPV6_5T_ROUTE"
    using assms by (simp add: pkt_type_def foe_fld)
  moreover have "[1 ..< Suc 8] = [1::nat, 2, 3, 4, 5, 6, 7, 8]" by code_simp
  ultimately show ?thesis
    by (simp add: hnat_flow_entry_match_def match_lens same_bytes_def del: upt_Suc)
qed

end
