(* ===== verification/Hnat_Ext.thy ===== *)
theory Hnat_Ext
  imports Mcast_Hw
begin

text \<open>
  The table of extension devices, \<^verbatim>\<open>hnat_nf_hook.c\<close>, and its release in \<^verbatim>\<open>hnat.c\<close>: 63 slots of
  pointers to entries, used up to the first null pointer.  Entries and devices are named by numbers;
  a device's reference count is what the driver holds.
\<close>

section \<open>State\<close>

definition MAX_EXT_DEVS :: nat where "MAX_EXT_DEVS = 63"

record net_dev =
  nd_name :: string
  nd_ifindex :: nat

record extdev_entry =
  xe_name :: string
  xe_dev :: "nat option"

record ext_state =
  ext_if :: "nat option list"
  ext_ent :: "nat \<Rightarrow> extdev_entry"
  ext_refs :: "nat \<Rightarrow> int"
  ext_freed :: "nat list"
  g_ppdev :: "nat option"
  g_wandev :: "nat option"

definition dev_hold :: "nat \<Rightarrow> ext_state \<Rightarrow> ext_state" where
  "dev_hold d s = s\<lparr>ext_refs := (ext_refs s)(d := ext_refs s d + 1)\<rparr>"

definition dev_put :: "nat \<Rightarrow> ext_state \<Rightarrow> ext_state" where
  "dev_put d s = s\<lparr>ext_refs := (ext_refs s)(d := ext_refs s d - 1)\<rparr>"

text \<open>The entries that the loops \<^verbatim>\<open>i < MAX_EXT_DEVS && ext_if[i]\<close> run over.\<close>

definition live_ext :: "ext_state \<Rightarrow> nat list" where
  "live_ext s = map the (takeWhile (\<lambda>x. x \<noteq> None) (take MAX_EXT_DEVS (ext_if s)))"

section \<open>Operations\<close>

definition get_ext_device_number :: "ext_state \<Rightarrow> nat" where
  "get_ext_device_number s = length (live_ext s)"

definition find_extif_from_devname :: "string \<Rightarrow> ext_state \<Rightarrow> bool" where
  "find_extif_from_devname name s = list_ex (\<lambda>x. xe_name (ext_ent s x) = name) (live_ext s)"

text \<open>\<open>get_index_from_dev\<close>: 0 when the device is not in the table.\<close>

definition get_index_from_dev :: "(nat \<Rightarrow> 'd net_dev_scheme) \<Rightarrow> nat \<Rightarrow> ext_state \<Rightarrow> nat" where
  "get_index_from_dev devs d s =
     (case find (\<lambda>x. xe_dev (ext_ent s x) = Some d) (live_ext s) of
        None \<Rightarrow> 0
      | Some x \<Rightarrow> nd_ifindex (devs d))"

definition get_dev_from_index :: "(nat \<Rightarrow> 'd net_dev_scheme) \<Rightarrow> nat \<Rightarrow> ext_state \<Rightarrow> nat option" where
  "get_dev_from_index devs index s =
     (case find (\<lambda>x. case xe_dev (ext_ent s x) of None \<Rightarrow> False | Some d \<Rightarrow> index = nd_ifindex (devs d))
             (live_ext s) of
        None \<Rightarrow> None
      | Some x \<Rightarrow> xe_dev (ext_ent s x))"

text \<open>A device comes up: the first entry with its name and no device takes it.\<close>

definition extif_set_dev :: "(nat \<Rightarrow> 'd net_dev_scheme) \<Rightarrow> nat \<Rightarrow> ext_state \<Rightarrow> int \<times> ext_state" where
  "extif_set_dev devs d s =
     (case find (\<lambda>x. xe_name (ext_ent s x) = nd_name (devs d) \<and> xe_dev (ext_ent s x) = None) (live_ext s) of
        None \<Rightarrow> (- 1, s)
      | Some x \<Rightarrow> (int (nd_ifindex (devs d)),
                   (dev_hold d s)\<lparr>ext_ent := (ext_ent s)(x := (ext_ent s x)\<lparr>xe_dev := Some d\<rparr>)\<rparr>))"

definition extif_put_dev :: "nat \<Rightarrow> ext_state \<Rightarrow> int \<times> ext_state" where
  "extif_put_dev d s =
     (case find (\<lambda>x. xe_dev (ext_ent s x) = Some d) (live_ext s) of
        None \<Rightarrow> (- 1, s)
      | Some x \<Rightarrow> (0, dev_put d (s\<lparr>ext_ent := (ext_ent s)(x := (ext_ent s x)\<lparr>xe_dev := None\<rparr>)\<rparr>)))"

definition ext_if_add :: "nat \<Rightarrow> ext_state \<Rightarrow> nat \<times> ext_state" where
  "ext_if_add x s =
     (let len = get_ext_device_number s
      in if len < MAX_EXT_DEVS then (len + 1, s\<lparr>ext_if := (ext_if s)[len := Some x]\<rparr>) else (len, s))"

text \<open>The inner loop of \<open>ext_if_del\<close>: the following pointers move down.\<close>

function shift_down :: "nat \<Rightarrow> nat option list \<Rightarrow> nat option list" where
  "shift_down j l =
     (if l ! j \<noteq> None \<and> j < MAX_EXT_DEVS - 1 then shift_down (j + 1) (l[j := l ! (j + 1)])
      else l[j := None])"
  by pat_completeness auto
termination
  by (relation "measure (\<lambda>(j, l). MAX_EXT_DEVS - j)") (auto simp: MAX_EXT_DEVS_def)

declare shift_down.simps [simp del]

definition ext_if_del :: "nat \<Rightarrow> ext_state \<Rightarrow> nat \<times> ext_state" where
  "ext_if_del x s =
     (case find (\<lambda>i. ext_if s ! i = Some x) [0 ..< MAX_EXT_DEVS] of
        None \<Rightarrow> (MAX_EXT_DEVS, s)
      | Some i \<Rightarrow> (i, s\<lparr>ext_if := shift_down i (ext_if s)\<rparr>))"

text \<open>The loop of \<open>hnat_release_netdev\<close>: the index goes on although the table moves down.\<close>

definition release_one :: "nat \<Rightarrow> ext_state \<Rightarrow> ext_state" where
  "release_one x s =
     (let s1 = (case xe_dev (ext_ent s x) of None \<Rightarrow> s | Some d \<Rightarrow> dev_put d s);
          s2 = snd (ext_if_del x s1)
      in s2\<lparr>ext_freed := x # ext_freed s2\<rparr>)"

function release_from :: "nat \<Rightarrow> ext_state \<Rightarrow> ext_state" where
  "release_from i s =
     (if i < MAX_EXT_DEVS
      then (case ext_if s ! i of None \<Rightarrow> s | Some x \<Rightarrow> release_from (i + 1) (release_one x s))
      else s)"
  by pat_completeness auto
termination
  by (relation "measure (\<lambda>(i, s). MAX_EXT_DEVS - i)") auto

declare release_from.simps [simp del]

definition put_opt :: "nat option \<Rightarrow> ext_state \<Rightarrow> ext_state" where
  "put_opt d s = (case d of None \<Rightarrow> s | Some x \<Rightarrow> dev_put x s)"

definition hnat_release_netdev :: "ext_state \<Rightarrow> ext_state" where
  "hnat_release_netdev s =
     (let s1 = release_from 0 s; s2 = put_opt (g_ppdev s1) s1 in put_opt (g_wandev s2) s2)"

section \<open>Well-formed tables\<close>

text \<open>The entries are packed at the front, without repetition.\<close>

definition packed :: "nat list \<Rightarrow> nat option list" where
  "packed xs = map Some xs @ replicate (MAX_EXT_DEVS - length xs) None"

definition ext_wf :: "ext_state \<Rightarrow> bool" where
  "ext_wf s = (length (live_ext s) \<le> MAX_EXT_DEVS \<and> ext_if s = packed (live_ext s) \<and> distinct (live_ext s))"

lemma length_packed [simp]: "length xs \<le> MAX_EXT_DEVS \<Longrightarrow> length (packed xs) = MAX_EXT_DEVS"
  by (simp add: packed_def)

lemma packed_nth:
  "i < MAX_EXT_DEVS \<Longrightarrow> length xs \<le> MAX_EXT_DEVS \<Longrightarrow> packed xs ! i = (if i < length xs then Some (xs ! i) else None)"
  by (auto simp: packed_def nth_append)

lemma live_packed:
  assumes "length xs \<le> MAX_EXT_DEVS"
  shows "map the (takeWhile (\<lambda>x. x \<noteq> None) (take MAX_EXT_DEVS (packed xs))) = xs"
proof -
  have "takeWhile (\<lambda>x. x \<noteq> None) (map Some xs @ replicate k None) = map Some xs" for k
    by (induction xs) (auto simp: takeWhile_eq_Nil_iff hd_replicate)
  then show ?thesis using assms by (simp add: packed_def comp_def)
qed

lemma ext_wfI:
  assumes "ext_if s = packed xs" "length xs \<le> MAX_EXT_DEVS" "distinct xs"
  shows "ext_wf s" and "live_ext s = xs"
  using assms live_packed [OF assms(2)] by (simp_all add: ext_wf_def live_ext_def)

lemma shift_down_stop:
  "j < length l \<Longrightarrow> l ! j = None \<or> j = MAX_EXT_DEVS - 1 \<Longrightarrow> shift_down j l = l[j := None]"
  by (subst shift_down.simps) auto

lemma shift_down_step:
  "j < MAX_EXT_DEVS - 1 \<Longrightarrow> l ! j \<noteq> None \<Longrightarrow> shift_down j l = shift_down (Suc j) (l[j := l ! Suc j])"
  by (subst shift_down.simps) auto

lemma shift_down_list:
  assumes "length as + length (b # bs) + n = MAX_EXT_DEVS"
  shows "shift_down (length as) (as @ map Some (b # bs) @ replicate n None)
           = as @ map Some bs @ replicate (Suc n) None"
  using assms
proof (induction bs arbitrary: as b)
  case Nil
  then show ?case
  proof (cases n)
    case 0
    have "length as = MAX_EXT_DEVS - 1" using Nil 0 by simp
    then have "shift_down (length as) (as @ [Some b]) = (as @ [Some b])[length as := None]"
      by (intro shift_down_stop) auto
    then show ?thesis using 0 by simp
  next
    case (Suc m)
    then have j: "length as < MAX_EXT_DEVS - 1" using Nil by simp
    let ?l = "as @ None # None # replicate m None"
    have "shift_down (Suc (length as)) ?l = ?l[Suc (length as) := None]"
      by (rule shift_down_stop) (simp_all add: nth_append)
    also have "\<dots> = ?l" by (simp add: list_update_append)
    moreover have "shift_down (length as) (as @ Some b # None # replicate m None)
        = shift_down (Suc (length as)) ?l"
      using shift_down_step [OF j, of "as @ Some b # None # replicate m None"]
      by (simp add: nth_append)
    ultimately show ?thesis using Suc by simp
  qed
next
  case (Cons c cs)
  have j: "length as < MAX_EXT_DEVS - 1" using Cons.prems by simp
  have "shift_down (length (as @ [Some c])) ((as @ [Some c]) @ map Some (c # cs) @ replicate n None)
      = (as @ [Some c]) @ map Some cs @ replicate (Suc n) None"
    using Cons.prems by (intro Cons.IH) simp
  moreover have "shift_down (length as) (as @ Some b # Some c # map Some cs @ replicate n None)
      = shift_down (Suc (length as)) (as @ Some c # Some c # map Some cs @ replicate n None)"
    using shift_down_step [OF j, of "as @ Some b # Some c # map Some cs @ replicate n None"]
    by (simp add: nth_append)
  ultimately show ?case by simp
qed

lemma shift_down_packed:
  assumes "length ys + length (x # zs) \<le> MAX_EXT_DEVS"
  shows "shift_down (length ys) (packed (ys @ x # zs)) = packed (ys @ zs)"
proof -
  let ?n = "MAX_EXT_DEVS - length (ys @ x # zs)"
  have "packed (ys @ x # zs) = map Some ys @ map Some (x # zs) @ replicate ?n None"
    by (simp add: packed_def)
  moreover have "MAX_EXT_DEVS - length (ys @ zs) = Suc ?n"
    using assms by simp
  then have "packed (ys @ zs) = map Some ys @ map Some zs @ replicate (Suc ?n) None"
    unfolding packed_def by (simp only: map_append append_assoc)
  moreover have "length (map Some ys) + length (x # zs) + ?n = MAX_EXT_DEVS"
    using assms by simp
  ultimately show ?thesis
    using shift_down_list [of "map Some ys" x zs ?n] by simp
qed

lemma upt_split: "i < n \<Longrightarrow> [0 ..< n] = [0 ..< i] @ i # [Suc i ..< n]"
  by (metis less_imp_le_nat less_eq_nat.simps(1) upt_add_eq_append upt_conv_Cons le_add_diff_inverse)

lemma find_packed:
  assumes "length ys + length (x # zs) \<le> MAX_EXT_DEVS" and "x \<notin> set ys"
  shows "find (\<lambda>i. packed (ys @ x # zs) ! i = Some x) [0 ..< MAX_EXT_DEVS] = Some (length ys)"
proof -
  have "[0 ..< MAX_EXT_DEVS] = [0 ..< length ys] @ length ys # [Suc (length ys) ..< MAX_EXT_DEVS]"
    using assms(1)
    by (intro upt_split) simp
  moreover have "find (\<lambda>i. packed (ys @ x # zs) ! i = Some x) [0 ..< length ys] = None"
    using assms by (auto simp: find_None_iff packed_nth nth_append)
  moreover have "packed (ys @ x # zs) ! length ys = Some x"
    using assms(1) by (simp add: packed_nth)
  moreover have "find P (xs @ y # us) = (case find P xs of None \<Rightarrow> if P y then Some y else find P us | Some z \<Rightarrow> Some z)"
    for P :: "nat \<Rightarrow> bool" and xs y us
    by (induction xs) auto
  ultimately show ?thesis by simp
qed

text \<open>Deleting an entry closes the gap.\<close>

lemma ext_if_del_split:
  assumes "ext_if s = packed (ys @ x # zs)" "length ys + length (x # zs) \<le> MAX_EXT_DEVS" "x \<notin> set ys"
  shows "ext_if_del x s = (length ys, s\<lparr>ext_if := packed (ys @ zs)\<rparr>)"
  using assms find_packed [OF assms(2,3)] shift_down_packed [OF assms(2)] by (simp add: ext_if_del_def)

lemma ext_if_del_absent:
  assumes "ext_wf s" "x \<notin> set (live_ext s)"
  shows "ext_if_del x s = (MAX_EXT_DEVS, s)"
proof -
  have "length (live_ext s) \<le> MAX_EXT_DEVS" and e: "ext_if s = packed (live_ext s)"
    using assms(1) by (auto simp: ext_wf_def)
  then have "find (\<lambda>i. packed (live_ext s) ! i = Some x) [0 ..< MAX_EXT_DEVS] = None"
    using assms(2) by (auto simp: find_None_iff packed_nth split: if_splits)
  with e have "find (\<lambda>i. ext_if s ! i = Some x) [0 ..< MAX_EXT_DEVS] = None" by simp
  then show ?thesis by (simp add: ext_if_del_def)
qed

lemma ext_if_add_wf:
  assumes "ext_wf s" "x \<notin> set (live_ext s)" "length (live_ext s) < MAX_EXT_DEVS"
  shows "ext_wf (snd (ext_if_add x s))" and "live_ext (snd (ext_if_add x s)) = live_ext s @ [x]"
proof -
  let ?xs = "live_ext s"
  have e: "ext_if s = packed ?xs" and d: "distinct ?xs" using assms(1) by (auto simp: ext_wf_def)
  obtain k where k: "MAX_EXT_DEVS - length ?xs = Suc k"
    using assms(3) by (metis Suc_diff_Suc)
  have "(packed ?xs)[length ?xs := Some x] = packed (?xs @ [x])"
    using k by (simp add: packed_def list_update_append)
  then have "ext_if (snd (ext_if_add x s)) = packed (?xs @ [x])"
    using assms(3) e by (simp add: ext_if_add_def get_ext_device_number_def)
  from ext_wfI [OF this] show "ext_wf (snd (ext_if_add x s))" "live_ext (snd (ext_if_add x s)) = ?xs @ [x]"
    using assms(2,3) d by auto
qed

section \<open>Release\<close>

fun evens :: "'a list \<Rightarrow> 'a list" and odds :: "'a list \<Rightarrow> 'a list" where
  "evens [] = []"
| "evens (x # xs) = x # odds xs"
| "odds [] = []"
| "odds (x # xs) = evens xs"

lemma release_from_spec:
  assumes "ext_if s = packed (ys @ zs)" "length ys + length zs \<le> MAX_EXT_DEVS" "distinct (ys @ zs)"
  shows "ext_if (release_from (length ys) s) = packed (ys @ odds zs)
    \<and> ext_freed (release_from (length ys) s) = rev (evens zs) @ ext_freed s
    \<and> ext_ent (release_from (length ys) s) = ext_ent s"
  using assms
proof (induction "length zs" arbitrary: ys zs s rule: less_induct)
  case less
  show ?case
  proof (cases zs)
    case Nil
    then show ?thesis
      using less.prems
      by (subst (1 2 3) release_from.simps) (auto simp: packed_nth)
  next
    case (Cons x us)
    have i: "length ys < MAX_EXT_DEVS" "ext_if s ! length ys = Some x"
      using less.prems Cons by (simp_all add: packed_nth)
    let ?s = "release_one x s"
    let ?s1 = "case xe_dev (ext_ent s x) of None \<Rightarrow> s | Some d \<Rightarrow> dev_put d s"
    have s1: "ext_if ?s1 = packed (ys @ x # us)" "ext_freed ?s1 = ext_freed s" "ext_ent ?s1 = ext_ent s"
      using less.prems(1) Cons by (simp_all add: dev_put_def split: option.split)
    have del: "ext_if_del x ?s1 = (length ys, ?s1\<lparr>ext_if := packed (ys @ us)\<rparr>)"
      using less.prems Cons by (intro ext_if_del_split) (auto simp: s1(1))
    have s: "ext_if ?s = packed (ys @ us)" "ext_freed ?s = x # ext_freed s" "ext_ent ?s = ext_ent s"
      using s1 by (simp_all add: release_one_def Let_def del)
    have step: "release_from (length ys) s = release_from (Suc (length ys)) ?s"
      using i by (subst release_from.simps) simp
    show ?thesis
    proof (cases us)
      case Nil
      have "release_from (Suc (length ys)) ?s = ?s"
        using s(1) less.prems(2) Nil
        by (subst release_from.simps) (auto simp: packed_nth)
      then show ?thesis using step s Cons Nil by simp
    next
      case Cons2: (Cons y vs)
      have "ext_if (release_from (length (ys @ [y])) ?s) = packed ((ys @ [y]) @ odds vs)
        \<and> ext_freed (release_from (length (ys @ [y])) ?s) = rev (evens vs) @ ext_freed ?s
        \<and> ext_ent (release_from (length (ys @ [y])) ?s) = ext_ent ?s"
        using less.prems Cons Cons2 s(1) by (intro less.hyps) auto
      then show ?thesis using step s Cons Cons2 by simp
    qed
  qed
qed

end
