(* ===== verification/Hnat_Neigh.thy ===== *)
theory Hnat_Neigh
  imports Hnat_Delete_Props
begin

text \<open>
  The queue of neighbour events, \<^verbatim>\<open>hnat_nf_hook.c\<close>: the notifier appends to it, a delayed work takes at
  most 128 events at a time and deletes the entries they make stale.  A step relation interleaves the
  notifier, the two halves of the work, the parts of the cleanup and the registration of the notifier.
\<close>

section \<open>The queue\<close>

definition NEIGH_PROCESS_BUDGET :: nat where "NEIGH_PROCESS_BUDGET = 128"
definition NUD_CONNECTED :: u8 where "NUD_CONNECTED = 0x80 OR 0x40 OR 0x02"

text \<open>\<open>nq_timer\<close>: the delayed work is pending.\<close>

record neigh_update =
  nq_head :: "neigh_event list"
  nq_pending :: u32
  nq_timer :: bool

record neighbour =
  nb_has_dev :: bool
  nb_event :: neigh_event

definition hnat_neigh_update_init :: "neigh_update \<Rightarrow> neigh_update" where
  "hnat_neigh_update_init q = q\<lparr>nq_head := [], nq_pending := 0, nq_timer := False\<rparr>"

text \<open>The thresholds are those of the ARP and the ND table.\<close>

definition pending_max :: "u32 \<Rightarrow> u32 \<Rightarrow> u32" where
  "pending_max gc4 gc6 = (let n = (gc4 + gc6) * 2 in if sint n \<le> 4096 then 4096 else n)"

definition nf_hnat_netevent_handler ::
  "u32 \<Rightarrow> u32 \<Rightarrow> bool \<Rightarrow> neighbour \<Rightarrow> neigh_update \<Rightarrow> neigh_update" where
  "nf_hnat_netevent_handler gc4 gc6 mem_ok nb q =
     (if \<not> nb_has_dev nb \<or> ne_nud (nb_event nb) AND (NUD_CONNECTED OR NUD_FAILED) = 0 then q
      else if nq_pending q \<ge> pending_max gc4 gc6 then q
      else if \<not> mem_ok then q
      else q\<lparr>nq_head := nq_head q @ [nb_event nb], nq_pending := nq_pending q + 1, nq_timer := True\<rparr>)"

text \<open>The first locked part of \<open>hnat_neigh_update_work_handler\<close>: the events it takes; and the last one.
  The work queue clears the pending state before it calls the handler.\<close>

definition work_take :: "neigh_update \<Rightarrow> neigh_event list \<times> neigh_update" where
  "work_take q =
     (let batch = take NEIGH_PROCESS_BUDGET (nq_head q)
      in (batch, q\<lparr>nq_head := drop NEIGH_PROCESS_BUDGET (nq_head q),
                   nq_pending := nq_pending q - of_nat (length batch)\<rparr>))"

definition work_resched :: "neigh_update \<Rightarrow> neigh_update" where
  "work_resched q = (if nq_head q \<noteq> [] then q\<lparr>nq_timer := True\<rparr> else q)"

definition hnat_neigh_update_work_handler ::
  "ppe_dev \<Rightarrow> neigh_update \<Rightarrow> mtk_hnat \<Rightarrow> (neigh_update \<times> mtk_hnat) option" where
  "hnat_neigh_update_work_handler d q h =
     (case work_take q of
        (batch, q1) \<Rightarrow>
          (if batch = [] then Some (work_resched q1, h)
           else map_option (\<lambda>(n, h'). (work_resched q1, h')) (foe_clear_entry d batch h)))"

text \<open>The locked part of \<open>hnat_neigh_update_cleanup\<close>, with whether the work was pending then; what
  \<open>cancel_delayed_work_sync\<close> does to the timer; and the whole, when nothing comes between.\<close>

definition cleanup_clear :: "neigh_update \<Rightarrow> bool \<times> neigh_update" where
  "cleanup_clear q = (nq_timer q, q\<lparr>nq_head := [], nq_pending := 0\<rparr>)"

definition cleanup_cancel :: "neigh_update \<Rightarrow> neigh_update" where
  "cleanup_cancel q = q\<lparr>nq_timer := False\<rparr>"

definition hnat_neigh_update_cleanup :: "neigh_update \<Rightarrow> neigh_update" where
  "hnat_neigh_update_cleanup q =
     (case cleanup_clear q of (is_pending, q1) \<Rightarrow> if is_pending then cleanup_cancel q1 else q1)"

lemma cleanup_empties: "hnat_neigh_update_cleanup q = q\<lparr>nq_head := [], nq_pending := 0, nq_timer := False\<rparr>"
  by (cases q) (simp add: hnat_neigh_update_cleanup_def cleanup_clear_def cleanup_cancel_def)

section \<open>Interleaving\<close>

text \<open>\<open>ns_work\<close> is the batch of the handler that runs; the work queue never runs two of them.
  \<open>ns_cleanup\<close> is where the cleanup is: past its locked part, with the answer it got there, or
  waiting in \<open>cancel_delayed_work_sync\<close>.  \<open>ns_nb\<close> tells whether the notifier is registered.\<close>

datatype cleanup_phase = No_cleanup | Cleared bool | Cancelling

record neigh_sys =
  ns_queue :: neigh_update
  ns_work :: "neigh_event list option"
  ns_cleanup :: cleanup_phase
  ns_nb :: bool

text \<open>The thresholds of the ARP and ND tables may differ at each event, up to a limit of \<open>m\<close> events.  The
  two callers of the cleanup, \<open>hnat_warm_init\<close> and \<open>hnat_remove\<close>, unregister the notifier before it,
  and \<open>unregister_netevent_notifier\<close> waits for the calls of it that are running; the first registers
  it again afterwards.  Between the locked part of the cleanup and the cancelling, and while that
  waits, the work may begin and end.\<close>

inductive neigh_step :: "u32 \<Rightarrow> neigh_sys \<Rightarrow> neigh_sys \<Rightarrow> bool" for m where
  event: "ns_nb s \<Longrightarrow> pending_max gc4 gc6 \<le> m
    \<Longrightarrow> neigh_step m s (s\<lparr>ns_queue := nf_hnat_netevent_handler gc4 gc6 mem_ok nb (ns_queue s)\<rparr>)"
| work_begin: "nq_timer (ns_queue s) \<Longrightarrow> ns_work s = None \<Longrightarrow> work_take (ns_queue s) = (batch, q)
    \<Longrightarrow> neigh_step m s (s\<lparr>ns_queue := q\<lparr>nq_timer := False\<rparr>, ns_work := Some batch\<rparr>)"
| work_end: "ns_work s = Some batch
    \<Longrightarrow> neigh_step m s (s\<lparr>ns_queue := work_resched (ns_queue s), ns_work := None\<rparr>)"
| unregister: "ns_cleanup s = No_cleanup \<Longrightarrow> neigh_step m s (s\<lparr>ns_nb := False\<rparr>)"
| clear: "\<not> ns_nb s \<Longrightarrow> ns_cleanup s = No_cleanup \<Longrightarrow> cleanup_clear (ns_queue s) = (is_pending, q)
    \<Longrightarrow> neigh_step m s (s\<lparr>ns_queue := q, ns_cleanup := Cleared is_pending\<rparr>)"
| cancel: "ns_cleanup s = Cleared True
    \<Longrightarrow> neigh_step m s (s\<lparr>ns_queue := cleanup_cancel (ns_queue s), ns_cleanup := Cancelling\<rparr>)"
| cancelled: "ns_cleanup s = Cancelling \<Longrightarrow> ns_work s = None \<Longrightarrow> neigh_step m s (s\<lparr>ns_cleanup := No_cleanup\<rparr>)"
| not_cancelled: "ns_cleanup s = Cleared False \<Longrightarrow> neigh_step m s (s\<lparr>ns_cleanup := No_cleanup\<rparr>)"
| register: "ns_cleanup s = No_cleanup \<Longrightarrow> neigh_step m s (s\<lparr>ns_nb := True\<rparr>)"

inductive_cases neigh_stepE: "neigh_step m s s'"

text \<open>From \<open>hnat_neigh_update_init\<close> on; the notifier is registered already.\<close>

inductive neigh_reachable :: "u32 \<Rightarrow> neigh_sys \<Rightarrow> bool" for m where
  init: "neigh_reachable m \<lparr>ns_queue = hnat_neigh_update_init q, ns_work = None, ns_cleanup = No_cleanup, ns_nb = True\<rparr>"
| step: "neigh_reachable m s \<Longrightarrow> neigh_step m s s' \<Longrightarrow> neigh_reachable m s'"

text \<open>The counter is the length of the list, which is bounded; no event is left behind; and the list stays
  empty during a cleanup.\<close>

definition neigh_ok :: "u32 \<Rightarrow> neigh_sys \<Rightarrow> bool" where
  "neigh_ok m s =
     (unat (nq_pending (ns_queue s)) = length (nq_head (ns_queue s))
      \<and> length (nq_head (ns_queue s)) \<le> unat m
      \<and> (nq_head (ns_queue s) \<noteq> [] \<longrightarrow> nq_timer (ns_queue s) \<or> ns_work s \<noteq> None)
      \<and> (case ns_work s of None \<Rightarrow> True | Some b \<Rightarrow> length b \<le> NEIGH_PROCESS_BUDGET)
      \<and> (ns_cleanup s \<noteq> No_cleanup \<longrightarrow> \<not> ns_nb s \<and> nq_head (ns_queue s) = [])
      \<and> (ns_cleanup s = Cancelling \<longrightarrow> \<not> nq_timer (ns_queue s)))"

lemma unat_less_max: "(w::u32) < m \<Longrightarrow> unat (w + 1) = Suc (unat w)"
proof -
  assume "w < m"
  then have "unat w < unat m" by (simp add: word_less_nat_alt)
  then have "Suc (unat w) < 2 ^ 32" using unsigned_less [of m, where 'a = nat] by simp
  then have "unat (w + 1) = (unat w + 1) mod 2 ^ 32" by (simp add: unat_word_ariths)
  then show "unat (w + 1) = Suc (unat w)" using \<open>Suc (unat w) < 2 ^ 32\<close> by simp
qed

lemma event_ok:
  assumes "neigh_ok m s" and "ns_nb s" and "pending_max gc4 gc6 \<le> m"
  shows "neigh_ok m (s\<lparr>ns_queue := nf_hnat_netevent_handler gc4 gc6 mem_ok nb (ns_queue s)\<rparr>)"
proof (cases "nq_pending (ns_queue s) < pending_max gc4 gc6")
  case True
  have "unat (nq_pending (ns_queue s) + 1) = Suc (length (nq_head (ns_queue s)))"
    using unat_less_max [OF True] assms(1) by (simp add: neigh_ok_def)
  moreover have "nq_pending (ns_queue s) < m"
    using True assms(3) by (rule less_le_trans)
  then have "Suc (length (nq_head (ns_queue s))) \<le> unat m"
    using assms(1) by (simp add: neigh_ok_def word_less_nat_alt)
  ultimately show ?thesis
    using assms(1,2) True by (auto simp: neigh_ok_def nf_hnat_netevent_handler_def)
next
  case False
  then show ?thesis using assms(1) by (auto simp: neigh_ok_def nf_hnat_netevent_handler_def)
qed

lemma take_ok:
  assumes "unat (nq_pending q) = length (nq_head q)" and "work_take q = (batch, q')"
  shows "unat (nq_pending q') = length (nq_head q')"
    and "nq_head q = batch @ nq_head q'" and "length batch \<le> NEIGH_PROCESS_BUDGET"
    and "length (nq_head q') = length (nq_head q) - NEIGH_PROCESS_BUDGET"
proof -
  have b: "batch = take NEIGH_PROCESS_BUDGET (nq_head q)"
      "q' = q\<lparr>nq_head := drop NEIGH_PROCESS_BUDGET (nq_head q), nq_pending := nq_pending q - of_nat (length batch)\<rparr>"
    using assms(2) by (auto simp: work_take_def Let_def)
  have le: "length batch \<le> unat (nq_pending q)" using assms(1) b(1) by simp
  then have "length batch < 2 ^ 32"
    using unsigned_less [of "nq_pending q", where 'a = nat] by simp
  then have u: "unat (of_nat (length batch) :: u32) = length batch"
    by (simp add: unat_of_nat take_bit_nat_eq_self)
  have "unat (nq_pending q - of_nat (length batch)) = unat (nq_pending q) - length batch"
    using le u by (simp add: unat_sub word_le_nat_alt)
  then show "unat (nq_pending q') = length (nq_head q')"
    using assms(1) b by (simp add: min_def)
  show "nq_head q = batch @ nq_head q'" "length batch \<le> NEIGH_PROCESS_BUDGET"
      "length (nq_head q') = length (nq_head q) - NEIGH_PROCESS_BUDGET"
    using b by simp_all
qed

lemma neigh_step_ok:
  assumes "neigh_ok m s" and "neigh_step m s s'"
  shows "neigh_ok m s'"
  using assms(2)
proof (cases rule: neigh_step.cases)
  case (event gc4 gc6 mem_ok nb)
  then show ?thesis using event_ok [OF assms(1)] by simp
next
  case (work_begin batch q)
  from assms(1) have u: "unat (nq_pending (ns_queue s)) = length (nq_head (ns_queue s))"
    by (simp add: neigh_ok_def)
  have "length (nq_head (ns_queue s)) \<le> unat m"
    using assms(1) by (simp add: neigh_ok_def)
  then have "length (nq_head q) \<le> unat m"
    using take_ok(4) [OF u work_begin(4)] by linarith
  then show ?thesis
    using take_ok(1,2,3) [OF u work_begin(4)] work_begin(1) assms(1) by (simp add: neigh_ok_def)
next
  case (work_end batch)
  then show ?thesis using assms(1) by (auto simp: neigh_ok_def work_resched_def)
qed (use assms(1) in \<open>auto simp: neigh_ok_def cleanup_clear_def cleanup_cancel_def\<close>)

lemma neigh_reachable_ok: "neigh_reachable m s \<Longrightarrow> neigh_ok m s"
proof (induction rule: neigh_reachable.induct)
  case (init q)
  then show ?case by (simp add: neigh_ok_def hnat_neigh_update_init_def)
next
  case (step s s')
  then show ?case using neigh_step_ok by blast
qed

section \<open>Draining the queue\<close>

text \<open>The handler run over and over: the batches in their order, with fuel.\<close>

fun drain :: "nat \<Rightarrow> neigh_update \<Rightarrow> neigh_event list list \<times> neigh_update" where
  "drain 0 q = ([], q)"
| "drain (Suc n) q =
     (if nq_timer q
      then (case work_take (q\<lparr>nq_timer := False\<rparr>) of
              (batch, q1) \<Rightarrow> (case drain n (work_resched q1) of (bs, q2) \<Rightarrow> (batch # bs, q2)))
      else ([], q))"

lemma drain_all:
  assumes "unat (nq_pending q) = length (nq_head q)" and "nq_head q \<noteq> [] \<longrightarrow> nq_timer q"
    and "length (nq_head q) \<le> n * NEIGH_PROCESS_BUDGET"
  shows "concat (fst (drain n q)) = nq_head q \<and> nq_head (snd (drain n q)) = []
    \<and> nq_pending (snd (drain n q)) = 0"
  using assms
proof (induction n arbitrary: q)
  case 0
  then show ?case by (simp add: unat_eq_0)
next
  case (Suc n)
  show ?case
  proof (cases "nq_timer q")
    case False
    then show ?thesis using Suc.prems by (simp add: unat_eq_0)
  next
    case True
    let ?q = "q\<lparr>nq_timer := False\<rparr>"
    obtain batch q1 where t: "work_take ?q = (batch, q1)" by (cases "work_take ?q") auto
    have u: "unat (nq_pending ?q) = length (nq_head ?q)" using Suc.prems by simp
    note k = take_ok [OF u t]
    have r: "nq_head (work_resched q1) = nq_head q1" "nq_pending (work_resched q1) = nq_pending q1"
        "nq_head q1 \<noteq> [] \<longrightarrow> nq_timer (work_resched q1)"
      by (simp_all add: work_resched_def)
    have "length (nq_head q1) \<le> n * NEIGH_PROCESS_BUDGET"
      using k(4) Suc.prems(3) by simp
    then have "concat (fst (drain n (work_resched q1))) = nq_head q1
        \<and> nq_head (snd (drain n (work_resched q1))) = [] \<and> nq_pending (snd (drain n (work_resched q1))) = 0"
      using Suc.IH [of "work_resched q1"] k(1) r by simp
    then show ?thesis
      using True t k(2) by (simp add: case_prod_beta)
  qed
qed

section \<open>What the handler leaves in the tables\<close>

lemma clear_entry_eq:
  assumes "tables_cover True (h_etry_num h) h"
  shows "foe_clear_entry d es h
    = Some (swept_count (h_etry_num h) (\<lambda>e. list_ex (neigh_match e) es) (h_ppe_num h) h,
            swept d id (h_etry_num h) (\<lambda>e. list_ex (neigh_match e) es) (h_ppe_num h) h)"
  using sweep_no_pre [OF assms, of d "\<lambda>e. list_ex (neigh_match e) es"] by (simp add: foe_clear_entry_def)

lemma swept_unbound:
  assumes "p < m" "h_table_len h p \<noteq> None" "i < n"
    and "entry_hnat_is_bound (h_table (swept d f n cond m h) p i)"
  shows "h_table (swept d f n cond m h) p i = h_table h p i \<and> \<not> cond (h_table h p i)"
  using assms by (auto simp: swept_def swept_table_def hit_def split: if_splits)

end
