(* ===== verification/Kstr.thy ===== *)
theory Kstr
  imports Prelude
begin

text \<open>
  The kernel's string functions that the debugfs commands of \<^verbatim>\<open>mtk_hnat\<close> parse their input with:
  \<open>strsep\<close>, \<open>kstrtou32\<close> and \<open>kstrtoint\<close>, as the kernel documents them.  A string ends at its end or at
  its first null character; the callers only look at whether a conversion failed, so that its error
  code is not kept.
\<close>

section \<open>Tokens\<close>

definition until_nul :: "string \<Rightarrow> string" where
  "until_nul s = takeWhile (\<lambda>c. c \<noteq> CHR 0x00) s"

text \<open>\<open>strsep\<close>: the token and the rest, where \<open>None\<close> is the null pointer.\<close>

definition strsep :: "string \<Rightarrow> string option \<Rightarrow> string option \<times> string option" where
  "strsep delim p =
     (case p of
        None \<Rightarrow> (None, None)
      | Some s \<Rightarrow>
          (case dropWhile (\<lambda>c. c \<notin> set delim) s of
             [] \<Rightarrow> (Some s, None)
           | _ # rest \<Rightarrow> (Some (takeWhile (\<lambda>c. c \<notin> set delim) s), Some rest)))"

lemma strsep_last [simp]: "set s \<inter> set delim = {} \<Longrightarrow> strsep delim (Some s) = (Some s, None)"
proof -
  assume "set s \<inter> set delim = {}"
  then have "dropWhile (\<lambda>c. c \<notin> set delim) s = []"
    unfolding dropWhile_eq_Nil_conv by blast
  then show ?thesis by (simp only: strsep_def option.case list.case)
qed

lemma strsep_more [simp]:
  assumes "set s \<inter> set delim = {}" and "c \<in> set delim"
  shows "strsep delim (Some (s @ c # r)) = (Some s, Some r)"
proof -
  have "dropWhile (\<lambda>c. c \<notin> set delim) (s @ c # r) = c # r"
    "takeWhile (\<lambda>c. c \<notin> set delim) (s @ c # r) = s"
    using assms by (auto simp: dropWhile_append takeWhile_append)
  then show ?thesis by (simp add: strsep_def)
qed

section \<open>Numbers\<close>

definition digit_val :: "char \<Rightarrow> nat option" where
  "digit_val c =
     (let n = of_char c :: nat in
      if 48 \<le> n \<and> n \<le> 57 then Some (n - 48)
      else if 97 \<le> n \<and> n \<le> 102 then Some (n - 97 + 10)
      else if 65 \<le> n \<and> n \<le> 70 then Some (n - 65 + 10)
      else None)"

text \<open>The value and the number of digits read, and what follows them.\<close>

fun parse_integer :: "nat \<Rightarrow> string \<Rightarrow> nat \<Rightarrow> nat \<Rightarrow> nat \<times> nat \<times> string" where
  "parse_integer base [] res rv = (res, rv, [])"
| "parse_integer base (c # s) res rv =
     (case digit_val c of
        None \<Rightarrow> (res, rv, c # s)
      | Some v \<Rightarrow> if v \<ge> base then (res, rv, c # s) else parse_integer base s (res * base + v) (rv + 1))"

definition is_x :: "char \<Rightarrow> bool" where
  "is_x c = (c = CHR ''x'' \<or> c = CHR ''X'')"

definition fixup_radix :: "nat \<Rightarrow> string \<Rightarrow> nat \<times> string" where
  "fixup_radix base s =
     (let base' = (if base \<noteq> 0 then base
                   else case s of
                          c0 # c1 # c2 # _ \<Rightarrow>
                            if c0 = CHR ''0'' then (if is_x c1 \<and> digit_val c2 \<noteq> None then 16 else 8) else 10
                        | c0 # _ \<Rightarrow> if c0 = CHR ''0'' then 8 else 10
                        | [] \<Rightarrow> 10)
      in (base', case s of
                   c0 # c1 # r \<Rightarrow> if base' = 16 \<and> c0 = CHR ''0'' \<and> is_x c1 then r else s
                 | _ \<Rightarrow> s))"

text \<open>\<open>_kstrtoull\<close> without its limit of 64 bits: all callers have a smaller one.\<close>

definition kstrtoull0 :: "nat \<Rightarrow> string \<Rightarrow> nat option" where
  "kstrtoull0 base s =
     (case fixup_radix base s of
        (b, s') \<Rightarrow>
     (case parse_integer b s' 0 0 of
        (res, rv, rest) \<Rightarrow> if rv > 0 \<and> (rest = [] \<or> rest = [CHR 0x0A]) then Some res else None))"

definition skip_plus :: "string \<Rightarrow> string" where
  "skip_plus s = (case s of c # r \<Rightarrow> if c = CHR ''+'' then r else s | [] \<Rightarrow> s)"

definition kstrtou32 :: "nat \<Rightarrow> string \<Rightarrow> u32 option" where
  "kstrtou32 base s =
     (case kstrtoull0 base (skip_plus s) of
        None \<Rightarrow> None
      | Some n \<Rightarrow> if n < 2 ^ 32 then Some (of_nat n) else None)"

definition kstrtoint :: "nat \<Rightarrow> string \<Rightarrow> int option" where
  "kstrtoint base s =
     (case s of
        c # r \<Rightarrow>
          if c = CHR ''-''
          then (case kstrtoull0 base r of None \<Rightarrow> None | Some n \<Rightarrow> if n \<le> 2 ^ 31 then Some (- int n) else None)
          else (case kstrtoull0 base (skip_plus s) of
                  None \<Rightarrow> None | Some n \<Rightarrow> if n < 2 ^ 31 then Some (int n) else None)
      | [] \<Rightarrow> None)"

section \<open>Printing and parsing\<close>

definition digit :: "nat \<Rightarrow> char" where
  "digit n = char_of (48 + n)"

text \<open>The decimal form, \<^verbatim>\<open>%u\<close>.\<close>

fun dec :: "nat \<Rightarrow> string" where
  "dec n = (if n < 10 then [digit n] else dec (n div 10) @ [digit (n mod 10)])"

declare dec.simps [simp del]

lemma digit_val_digit [simp]: "n < 10 \<Longrightarrow> digit_val (digit n) = Some n"
  by (simp add: digit_def digit_val_def Let_def)

lemma dec_chars: "set (dec n) \<subseteq> digit ` {..< 10}"
proof (induction n rule: dec.induct)
  case (1 n)
  then show ?case by (subst dec.simps) auto
qed

lemma dec_not_Nil [simp]: "dec n \<noteq> []"
  by (subst dec.simps) simp

lemma dec_no_char: "c \<in> set (dec n) \<Longrightarrow> \<exists>k < 10. c = digit k"
  using dec_chars [of n] by auto

lemma parse_dec:
  "parse_integer 10 (dec n @ s) 0 0 = parse_integer 10 s n (length (dec n))"
proof (induction n arbitrary: s rule: dec.induct)
  case (1 n)
  show ?case
  proof (cases "n < 10")
    case True
    then show ?thesis by (simp add: dec.simps)
  next
    case False
    have d: "dec n = dec (n div 10) @ [digit (n mod 10)]" using False by (subst dec.simps) simp
    have "parse_integer 10 (dec n @ s) 0 0 = parse_integer 10 (dec (n div 10) @ digit (n mod 10) # s) 0 0"
      using d by simp
    also have "\<dots> = parse_integer 10 (digit (n mod 10) # s) (n div 10) (length (dec (n div 10)))"
      using 1 False by simp
    also have "\<dots> = parse_integer 10 s n (length (dec n))"
    proof -
      define k m where "k = n div 10" and "m = n mod 10"
      then have "m < 10" "k * 10 + m = n" by simp_all
      moreover have "dec n = dec k @ [digit m]" using d k_def m_def by simp
      ultimately show ?thesis unfolding k_def [symmetric] m_def [symmetric] by (simp add: mult.commute)
    qed
    finally show ?thesis .
  qed
qed

lemma kstrtoull0_dec: "kstrtoull0 10 (dec n) = Some n"
proof -
  have "fixup_radix 10 (dec n) = (10, dec n)"
    by (simp add: fixup_radix_def split: list.split)
  moreover have "parse_integer 10 (dec n) 0 0 = (n, length (dec n), [])"
    using parse_dec [of n "[]"] by simp
  ultimately show ?thesis by (simp add: kstrtoull0_def)
qed

lemma dec_head: "\<exists>k r. dec n = digit k # r \<and> k < 10"
  using dec_no_char [of "hd (dec n)" n] by (metis dec_not_Nil hd_in_set list.collapse)

lemma digit_neq [simp]:
  assumes "k < 10"
  shows "digit k \<noteq> CHR ''+''" "digit k \<noteq> CHR ''-''" "digit k \<noteq> CHR '' ''" "digit k \<noteq> CHR 0x09"
    "digit k \<noteq> CHR ''i''" "digit k \<noteq> CHR 0x00"
proof -
  have no: "digit k \<noteq> c" if "digit_val c = None" for c
    using digit_val_digit [OF assms] that by (metis option.distinct(1))
  show "digit k \<noteq> CHR ''+''" "digit k \<noteq> CHR ''-''" "digit k \<noteq> CHR '' ''" "digit k \<noteq> CHR 0x09"
    "digit k \<noteq> CHR ''i''" "digit k \<noteq> CHR 0x00"
    by (rule no, code_simp)+
qed

lemma kstrtou32_dec: "n < 2 ^ 32 \<Longrightarrow> kstrtou32 10 (dec n) = Some (of_nat n)"
proof -
  assume n: "n < 2 ^ 32"
  obtain k r where "dec n = digit k # r" "k < 10" using dec_head by blast
  then have "skip_plus (dec n) = dec n" by (simp add: skip_plus_def)
  then show ?thesis using n by (simp add: kstrtou32_def kstrtoull0_dec)
qed

lemma kstrtoint_dec: "n < 2 ^ 31 \<Longrightarrow> kstrtoint 10 (dec n) = Some (int n)"
proof -
  assume n: "n < 2 ^ 31"
  obtain k r where d: "dec n = digit k # r" "k < 10" using dec_head by blast
  then have "skip_plus (dec n) = dec n" by (simp add: skip_plus_def)
  then have "kstrtoull0 10 (skip_plus (digit k # r)) = Some n"
    unfolding d(1) [symmetric] by (simp add: kstrtoull0_dec)
  then show ?thesis using n d by (simp add: kstrtoint_def)
qed

text \<open>The separators of the commands: a blank and a tab.\<close>

definition blanks :: string where "blanks = [CHR '' '', CHR 0x09]"

lemma dec_sep [simp]: "set (dec n) \<inter> set blanks = {}"
proof -
  have "c \<notin> set blanks" if c: "c \<in> set (dec n)" for c
  proof -
    obtain k where "k < 10" "c = digit k" using dec_no_char [OF c] by blast
    then show ?thesis by (simp add: blanks_def)
  qed
  then show ?thesis by blast
qed

end
