(* ===== verification/Hnat_Proto3t.thy ===== *)
theory Hnat_Proto3t
  imports Hnat_Init Kstr
begin

text \<open>
  The protocols offloaded by addresses alone: the debugfs command \<open>proto_3tuple\<close> that sets them
  (\<^verbatim>\<open>hnat_debugfs.c\<close>), the listing that reads them back from the registers, and the test of a packet
  in \<^verbatim>\<open>hnat_nf_hook.c\<close>.
\<close>

section \<open>The test\<close>

definition hnat_prot_3t_support :: "hnat_prot_3t_cfg option \<Rightarrow> u16 \<Rightarrow> u8 \<Rightarrow> bool" where
  "hnat_prot_3t_support prot_3t chk protocol =
     (case prot_3t of
        None \<Rightarrow> False
      | Some c \<Rightarrow>
          blist_3t c \<noteq> list_ex (\<lambda>i. bit chk i \<and> protocol = proto c ! i) [0 ..< unat (num_3t c)])"

section \<open>The command\<close>

definition set_cfgs :: "nat \<Rightarrow> nat \<Rightarrow> (hnat_prot_3t_cfg \<Rightarrow> hnat_prot_3t_cfg) \<Rightarrow> mtk_hnat \<Rightarrow> mtk_hnat" where
  "set_cfgs a b f h =
     fold (\<lambda>i h. hnat_hw_set_prot_3t i (h\<lparr>h_prot_3t := (h_prot_3t h)(i := f (h_prot_3t h i))\<rparr>)) [a ..< b] h"

text \<open>The protocol numbers of the full command: at most 16; \<open>None\<close> when one does not parse.  The
  result is cut to bytes.\<close>

fun proto_tokens :: "nat \<Rightarrow> string option \<Rightarrow> u8 list option" where
  "proto_tokens 0 p = Some []"
| "proto_tokens (Suc n) p =
     (case strsep blanks p of
        (None, _) \<Rightarrow> Some []
      | (Some tok, p') \<Rightarrow>
          (case kstrtou32 10 tok of
             None \<Rightarrow> None
           | Some v \<Rightarrow> map_option (\<lambda>ps. ucast (v AND 0xff) # ps) (proto_tokens n p')))"

text \<open>The mask of the first \<open>n\<close> slots, and the 16 slots.\<close>

definition slots_mask :: "nat \<Rightarrow> u16" where
  "slots_mask n = mask n"

definition slots16 :: "u8 list \<Rightarrow> u8 list" where
  "slots16 ps = take 16 (ps @ replicate 16 0)"

definition hnat_proto_3tuple_write :: "string \<Rightarrow> mtk_hnat \<Rightarrow> int \<times> mtk_hnat" where
  "hnat_proto_3tuple_write buf h =
     (if length buf \<ge> 256 then (- EINVAL, h)
      else case strsep blanks (Some (until_nul buf)) of
        (None, _) \<Rightarrow> (- EINVAL, h)
      | (Some tok, p) \<Rightarrow>
     (case kstrtoint 10 tok of
        None \<Rightarrow> (- EINVAL, h)
      | Some ppe \<Rightarrow>
          if ppe < - 1 \<or> ppe \<ge> int (h_ppe_num h) then (- EINVAL, h)
          else let a = (if ppe = - 1 then 0 else nat ppe);
                   b = (if ppe = - 1 then h_ppe_num h else nat ppe + 1)
               in case strsep blanks p of
                    (None, _) \<Rightarrow> (- EINVAL, h)
                  | (Some tok2, p2) \<Rightarrow>
                      if take 4 tok2 = ''ipv4'' \<or> take 4 tok2 = ''ipv6''
                      then (case strsep blanks p2 of
                              (None, _) \<Rightarrow> (- EINVAL, h)
                            | (Some tok3, _) \<Rightarrow>
                                (case kstrtou32 0 tok3 of
                                   None \<Rightarrow> (- EINVAL, h)
                                 | Some chk \<Rightarrow>
                                     (int (length buf),
                                      set_cfgs a b
                                        (if take 4 tok2 = ''ipv4'' then ipv4_chk_update (\<lambda>_. ucast chk)
                                         else ipv6_chk_update (\<lambda>_. ucast chk)) h)))
                      else (case kstrtou32 10 tok2 of
                              None \<Rightarrow> (- EINVAL, h)
                            | Some bl \<Rightarrow>
                                if bl > 1 then (- EINVAL, h)
                                else (case proto_tokens 16 p2 of
                                        None \<Rightarrow> (- EINVAL, h)
                                      | Some ps \<Rightarrow>
                                          (int (length buf),
                                           set_cfgs a b
                                             (\<lambda>c. \<lparr>ipv4_chk = slots_mask (length ps), ipv6_chk = slots_mask (length ps),
                                                   proto = slots16 ps, num_3t = of_nat (length ps),
                                                   blist_3t = (bl = 1)\<rparr>) h)))))"

section \<open>The listing\<close>

text \<open>The numbers that \<open>hnat_proto_3tuple_read\<close> prints for one engine, from its registers.\<close>

definition reg_proto :: "regfile \<Rightarrow> nat \<Rightarrow> u8" where
  "reg_proto r j = ucast (drop_bit ((j mod 4) * 8) (r (PPE_IP_PROT_0 + 4 * int (j div 4))) AND 0xff)"

definition proto_3tuple_show :: "regfile \<Rightarrow> u32 \<times> u8 list \<times> u32 \<times> u32" where
  "proto_3tuple_show r =
     (let chk = r PPE_IP_PROT_CHK
      in (FIELD_GET BIT_IP_PROT_CHK_BLIST (r PPE_FLOW_CFG),
          map (reg_proto r) (filter (\<lambda>j. bit chk j \<or> bit (drop_bit 16 chk) j) [0 ..< 16]),
          chk AND 0xffff, drop_bit 16 chk AND 0xffff))"

definition hnat_proto_3tuple_read :: "mtk_hnat \<Rightarrow> (nat \<times> u32 \<times> u8 list \<times> u32 \<times> u32) list" where
  "hnat_proto_3tuple_read h = map (\<lambda>i. (i, proto_3tuple_show (pr (h_ppe h i)))) [0 ..< h_ppe_num h]"

section \<open>The registers\<close>

lemma bit_byte_at:
  assumes "j < 4"
  shows "bit (push_bit (j * 8) (ucast (b::u8)) :: u32) n \<longleftrightarrow> n < 32 \<and> n div 8 = j \<and> bit b (n mod 8)"
proof -
  have push: "bit (push_bit (j * 8) (ucast b) :: u32) n \<longleftrightarrow> j * 8 \<le> n \<and> n < 32 \<and> bit b (n - j * 8)"
    by (auto simp: bit_simps)
  have len: "bit b i \<Longrightarrow> i < 8" for i using bit_imp_le_length [of b i] by simp
  show ?thesis
  proof (cases "n div 8 = j")
    case True
    then have "j * 8 \<le> n" "n - j * 8 = n mod 8"
      using div_times_less_eq_dividend [of n 8] minus_div_mult_eq_mod [of n 8] by auto
    then show ?thesis using push True by simp
  next
    case False
    have "\<not> (j * 8 \<le> n \<and> n - j * 8 < 8)"
    proof
      assume "j * 8 \<le> n \<and> n - j * 8 < 8"
      then have "8 * j \<le> n" "n < 8 * Suc j" by auto
      then have "n div 8 = j" by (metis div_nat_eqI mult.commute)
      with False show False by simp
    qed
    then show ?thesis using push False len by blast
  qed
qed

lemma bit_prot_regs:
  fixes ps :: "u8 list"
  defines "step \<equiv> \<lambda>i w. w(i div 4 := w (i div 4) OR push_bit ((i mod 4) * 8) (ucast (ps ! i) :: u32))"
  assumes "m \<le> 16"
  shows "bit (fold step [0 ..< m] (\<lambda>_. 0) k) n
    \<longleftrightarrow> n < 32 \<and> 4 * k + n div 8 < m \<and> bit (ps ! (4 * k + n div 8)) (n mod 8)"
  using assms(2)
proof (induction m)
  case 0
  then show ?case by simp
next
  case (Suc m)
  let ?w = "fold step [0 ..< m] (\<lambda>_. 0)"
  have IH: "bit (?w k) n \<longleftrightarrow> n < 32 \<and> 4 * k + n div 8 < m \<and> bit (ps ! (4 * k + n div 8)) (n mod 8)"
    by (rule Suc.IH) (use Suc.prems in simp)
  have unroll: "fold step [0 ..< Suc m] (\<lambda>_. 0) k
      = (if k = m div 4 then ?w k OR push_bit ((m mod 4) * 8) (ucast (ps ! m)) else ?w k)"
  proof -
    have st: "step m v k = (if k = m div 4 then v k OR push_bit ((m mod 4) * 8) (ucast (ps ! m)) else v k)" for v
      by (simp add: step_def)
    show ?thesis by (simp add: st)
  qed
  have byte: "bit (push_bit ((m mod 4) * 8) (ucast (ps ! m) :: u32)) n
      \<longleftrightarrow> n < 32 \<and> n div 8 = m mod 4 \<and> bit (ps ! m) (n mod 8)"
    by (rule bit_byte_at) simp
  have split: "4 * k + n div 8 < Suc m \<longleftrightarrow> 4 * k + n div 8 < m \<or> 4 * k + n div 8 = m"
    by (simp add: less_Suc_eq)
  show ?case
  proof (cases "k = m div 4")
    case True
    have eq: "4 * k + n div 8 = m \<longleftrightarrow> n div 8 = m mod 4"
      unfolding True using mult_div_mod_eq [of 4 m] by linarith
    have "bit (?w k OR push_bit ((m mod 4) * 8) (ucast (ps ! m))) n
        \<longleftrightarrow> n < 32 \<and> 4 * k + n div 8 < Suc m \<and> bit (ps ! (4 * k + n div 8)) (n mod 8)"
      unfolding bit_or_iff IH byte split eq [symmetric] by blast
    then show ?thesis unfolding unroll using True by simp
  next
    case False
    have "4 * k + n div 8 \<noteq> m" if "n < 32"
    proof
      assume m: "4 * k + n div 8 = m"
      have "n div 8 < 4" using that by (simp add: div_less_iff_less_mult)
      then have "m div 4 = k" unfolding m [symmetric] by simp
      with False show False by simp
    qed
    then have "bit (?w k) n \<longleftrightarrow> n < 32 \<and> 4 * k + n div 8 < Suc m \<and> bit (ps ! (4 * k + n div 8)) (n mod 8)"
      unfolding IH split by blast
    then show ?thesis unfolding unroll using False by simp
  qed
qed

lemma prot_regs_byte:
  assumes "j < 16"
  shows "(ucast (drop_bit ((j mod 4) * 8) (prot_regs c (j div 4)) AND 0xff) :: u8)
    = (if j < unat (num_3t c) then proto c ! j else 0)"
proof (rule bit_word_eqI)
  fix n :: nat
  assume "n < LENGTH(8)"
  then have n: "n < 8" by simp
  let ?k = "(j mod 4) * 8 + n"
  have k: "?k < 32" "?k div 8 = j mod 4" "?k mod 8 = n" using n by auto
  have "0xff = (mask 8 :: u32)" by (simp add: mask_eq_exp_minus_1)
  then have "bit (0xff :: u32) n" using n by (simp only: bit_mask_iff) simp
  then have "bit (ucast (drop_bit ((j mod 4) * 8) (prot_regs c (j div 4)) AND 0xff) :: u8) n
      \<longleftrightarrow> bit (prot_regs c (j div 4)) ?k"
    using n by (simp add: bit_and_iff bit_ucast_iff bit_drop_bit_eq add.commute)
  also have "\<dots> \<longleftrightarrow> j < min (unat (num_3t c)) 16 \<and> bit (proto c ! j) n"
  proof -
    have "4 * (j div 4) + ?k div 8 = j" using k by simp
    then show ?thesis using k by (simp add: prot_regs_def bit_prot_regs)
  qed
  finally show "bit (ucast (drop_bit ((j mod 4) * 8) (prot_regs c (j div 4)) AND 0xff) :: u8) n
      = bit (if j < unat (num_3t c) then proto c ! j else 0) n"
    using assms by simp
qed

section \<open>Commands as text\<close>

text \<open>The numbers separated by blanks; and what is left of them for the next token.\<close>

definition more_numbers :: "nat list \<Rightarrow> string" where
  "more_numbers ns = concat (map (\<lambda>n. CHR '' '' # dec n) ns)"

definition numbers_rest :: "nat list \<Rightarrow> string option" where
  "numbers_rest ns = (case ns of [] \<Rightarrow> None | n # ns' \<Rightarrow> Some (dec n @ more_numbers ns'))"

definition proto_3tuple_cmd :: "nat \<Rightarrow> bool \<Rightarrow> u8 list \<Rightarrow> string" where
  "proto_3tuple_cmd ppe bl ps = dec ppe @ more_numbers ((if bl then 1 else 0) # map unat ps)"

lemma strsep_numbers: "strsep blanks (Some (dec n @ more_numbers ns)) = (Some (dec n), numbers_rest ns)"
proof (cases ns)
  case Nil
  then show ?thesis by (simp add: more_numbers_def numbers_rest_def)
next
  case (Cons k ks)
  have "CHR '' '' \<in> set blanks" by (simp add: blanks_def)
  then show ?thesis
    using strsep_more [of "dec n" blanks "CHR '' ''" "dec k @ more_numbers ks"] Cons
    by (simp add: more_numbers_def numbers_rest_def)
qed

lemma dec_no_nul:
  assumes "c \<in> set (dec k)" shows "c \<noteq> CHR 0x00"
proof -
  obtain n where "n < 10" "c = digit n" using dec_no_char [OF assms] by (elim exE conjE)
  then show ?thesis by (simp only: digit_neq(6) simp_thms)
qed

lemma more_no_nul: "c \<in> set (more_numbers ns) \<Longrightarrow> c \<noteq> CHR 0x00"
proof (induction ns)
  case (Cons n ns)
  then consider "c = CHR '' ''" | "c \<in> set (dec n)" | "c \<in> set (more_numbers ns)"
    by (auto simp: more_numbers_def)
  then show ?case using Cons.IH dec_no_nul [of c n] by cases simp_all
qed (simp add: more_numbers_def)

lemma until_nul_numbers: "until_nul (dec n @ more_numbers ns) = dec n @ more_numbers ns"
proof -
  have "\<forall>c \<in> set (dec n @ more_numbers ns). c \<noteq> CHR 0x00"
    by (intro ballI) (unfold set_append, erule UnE, erule dec_no_nul, erule more_no_nul)
  then show ?thesis unfolding until_nul_def takeWhile_eq_all_conv .
qed

lemma byte_of_unat: "(ucast ((of_nat (unat p) :: u32) AND 0xff) :: u8) = p"
proof -
  have "0xff = (mask 8 :: u32)" by (simp add: mask_eq_exp_minus_1)
  then have "(of_nat (unat p) :: u32) AND 0xff = take_bit 8 (ucast p)"
    by (simp add: take_bit_eq_mask)
  also have "(ucast (take_bit 8 (ucast p :: u32)) :: u8) = p"
    by (auto intro!: bit_word_eqI simp: bit_simps)
  finally show ?thesis .
qed

lemma proto_tokens_numbers:
  "length ps \<le> k \<Longrightarrow> proto_tokens k (numbers_rest (map unat ps)) = Some ps"
proof (induction ps arbitrary: k)
  case Nil
  then show ?case by (cases k) (simp_all add: numbers_rest_def strsep_def)
next
  case (Cons p ps)
  then obtain j where k: "k = Suc j" by (cases k) auto
  have "unat p < 2 ^ 32" using unsigned_less [of p, where 'a = nat] by simp
  then have "kstrtou32 10 (dec (unat p)) = Some (of_nat (unat p))" by (rule kstrtou32_dec)
  moreover have "numbers_rest (map unat (p # ps)) = Some (dec (unat p) @ more_numbers (map unat ps))"
    by (simp add: numbers_rest_def)
  moreover have "proto_tokens j (numbers_rest (map unat ps)) = Some ps"
    using Cons k by simp
  ultimately show ?case
    using byte_of_unat [of p] by (simp add: k strsep_numbers)
qed

text \<open>What the full command does.\<close>

definition cmd_cfg :: "bool \<Rightarrow> u8 list \<Rightarrow> hnat_prot_3t_cfg" where
  "cmd_cfg bl ps = \<lparr>ipv4_chk = slots_mask (length ps), ipv6_chk = slots_mask (length ps),
     proto = slots16 ps, num_3t = of_nat (length ps), blist_3t = bl\<rparr>"

lemma write_cmd:
  assumes "p < h_ppe_num h" "p < 2 ^ 31" "length ps \<le> 16" "length (proto_3tuple_cmd p bl ps) < 256"
  shows "hnat_proto_3tuple_write (proto_3tuple_cmd p bl ps) h
    = (int (length (proto_3tuple_cmd p bl ps)),
       hnat_hw_set_prot_3t p (h\<lparr>h_prot_3t := (h_prot_3t h)(p := cmd_cfg bl ps)\<rparr>))"
proof -
  let ?b = "(if bl then 1 else 0) :: nat"
  define cmd where "cmd = proto_3tuple_cmd p bl ps"
  have c: "cmd = dec p @ more_numbers (?b # map unat ps)" by (simp add: cmd_def proto_3tuple_cmd_def)
  have s1: "strsep blanks (Some (until_nul cmd)) = (Some (dec p), numbers_rest (?b # map unat ps))"
    by (simp only: c until_nul_numbers strsep_numbers)
  have s2: "strsep blanks (numbers_rest (?b # map unat ps)) = (Some (dec ?b), numbers_rest (map unat ps))"
    by (simp add: numbers_rest_def strsep_numbers [unfolded numbers_rest_def])
  have n1: "kstrtoint 10 (dec p) = Some (int p)" by (rule kstrtoint_dec) (rule assms(2))
  have "kstrtou32 10 (dec ?b) = Some (of_nat ?b)" by (rule kstrtou32_dec) simp
  also have "(of_nat ?b :: u32) = (if bl then 1 else 0)" by simp
  finally have n2: "kstrtou32 10 (dec ?b) = Some (if bl then 1 else 0)" .
  have d: "dec ?b = [digit ?b]" by (simp add: dec.simps)
  have t: "take 4 (dec ?b) \<noteq> ''ipv4''" "take 4 (dec ?b) \<noteq> ''ipv6''" unfolding d by simp_all
  have ps: "proto_tokens 16 (numbers_rest (map unat ps)) = Some ps"
    by (rule proto_tokens_numbers) (rule assms(3))
  have b: "\<not> (if bl then 1 else 0 :: u32) > 1" "((if bl then 1 else 0 :: u32) = 1) = bl" by auto
  have g: "\<not> length cmd \<ge> 256" "\<not> (int p < - 1 \<or> int p \<ge> int (h_ppe_num h))" "int p \<noteq> - 1"
    using assms by (auto simp: cmd_def)
  have "hnat_proto_3tuple_write cmd h
      = (int (length cmd), set_cfgs p (p + 1) (\<lambda>c. cmd_cfg bl ps) h)"
    unfolding hnat_proto_3tuple_write_def using g t b
    by (simp add: s1 s2 n1 n2 ps Let_def cmd_cfg_def split del: if_split)
  then show ?thesis by (simp add: set_cfgs_def cmd_def)
qed

section \<open>Reading back\<close>

definition prot_ops :: "hnat_prot_3t_cfg \<Rightarrow> regfile \<Rightarrow> regfile" where
  "prot_ops c r = (cr_set_field PPE_FLOW_CFG BIT_IP_PROT_CHK_BLIST (if blist_3t c then 1 else 0) r)
     (PPE_IP_PROT_CHK := ucast (ipv4_chk c) OR push_bit 16 (ucast (ipv6_chk c)),
      PPE_IP_PROT_0 := prot_regs c 0, PPE_IP_PROT_1 := prot_regs c 1, PPE_IP_PROT_2 := prot_regs c 2,
      PPE_IP_PROT_3 := prot_regs c 3)"

lemma set_prot_3t_eq:
  "p < h_ppe_num h \<Longrightarrow> hnat_hw_set_prot_3t p h = on_ppe p (with_regs (prot_ops (h_prot_3t h p))) h"
  by (simp add: hnat_hw_set_prot_3t_def run_ops_def prot_ops_def [abs_def] Let_def comp_def split del: if_split)

lemma prot_reg_nums:
  "PPE_FLOW_CFG = 4 \<and> PPE_IP_PROT_CHK = 8 \<and> PPE_IP_PROT_0 = 12 \<and> PPE_IP_PROT_1 = 16 \<and> PPE_IP_PROT_2 = 20
    \<and> PPE_IP_PROT_3 = 24"
  by (simp add: ppe_reg_defs)

lemma prot_ops_word:
  assumes "k < 4"
  shows "prot_ops c r (PPE_IP_PROT_0 + 4 * int k) = prot_regs c k"
proof -
  have "k \<in> {0, 1, 2, 3}" using assms by auto
  then show ?thesis by (auto simp: prot_ops_def prot_reg_nums)
qed

lemma prot_ops_proto:
  assumes "j < 16"
  shows "reg_proto (prot_ops c r) j = (if j < unat (num_3t c) then proto c ! j else 0)"
proof -
  have k: "j div 4 < 4" using assms by (simp add: div_less_iff_less_mult)
  show ?thesis unfolding reg_proto_def prot_ops_word [OF k] by (rule prot_regs_byte [OF assms])
qed

lemma blist_place: "mask_place BIT_IP_PROT_CHK_BLIST 16 1"
  by code_simp

lemma prot_ops_blist:
  "FIELD_GET BIT_IP_PROT_CHK_BLIST (prot_ops c r PPE_FLOW_CFG) = (if blist_3t c then 1 else 0)"
proof -
  have "prot_ops c r PPE_FLOW_CFG
      = cr_set_field PPE_FLOW_CFG BIT_IP_PROT_CHK_BLIST (if blist_3t c then 1 else 0) r PPE_FLOW_CFG"
    by (simp add: prot_ops_def prot_reg_nums)
  moreover have "cr_set_field PPE_FLOW_CFG BIT_IP_PROT_CHK_BLIST (if blist_3t c then 1 else 0) r
      = wr (Fld PPE_FLOW_CFG 16 1) (if blist_3t c then 1 else 0) r"
    by (rule cr_set_field_wr [OF blist_place]) simp
  ultimately show ?thesis
    by (simp only: FIELD_GET_rd [OF blist_place]) (simp add: rd_wr_same del: One_nat_def)
qed

lemma slots_word:
  fixes m :: u16
  defines "chk \<equiv> ucast m OR push_bit 16 (ucast m) :: u32"
  shows "chk AND 0xffff = ucast m" and "drop_bit 16 chk AND 0xffff = ucast m"
    and "j < 16 \<Longrightarrow> bit chk j = bit m j" and "j < 16 \<Longrightarrow> bit (drop_bit 16 chk) j = bit m j"
proof -
  have ff: "0xffff = (mask 16 :: u32)" by (simp add: mask_eq_exp_minus_1)
  have len: "bit m i \<Longrightarrow> i < 16" for i using bit_imp_le_length [of m i] by simp
  show "chk AND 0xffff = ucast m" "drop_bit 16 chk AND 0xffff = ucast m"
    unfolding ff chk_def by (auto intro!: bit_word_eqI simp: bit_simps dest: len)
  show "j < 16 \<Longrightarrow> bit chk j = bit m j" "j < 16 \<Longrightarrow> bit (drop_bit 16 chk) j = bit m j"
    unfolding chk_def by (auto simp: bit_simps dest: len)
qed

lemma show_prot_ops:
  assumes "length ps \<le> 16"
  shows "proto_3tuple_show (prot_ops (cmd_cfg bl ps) r)
    = ((if bl then 1 else 0), ps, ucast (slots_mask (length ps)), ucast (slots_mask (length ps)))"
proof -
  let ?c = "cmd_cfg bl ps" and ?m = "slots_mask (length ps)"
  define chk :: u32 where "chk = ucast ?m OR push_bit 16 (ucast ?m)"
  have r: "prot_ops ?c r PPE_IP_PROT_CHK = chk"
    by (simp add: prot_ops_def prot_reg_nums cmd_cfg_def chk_def)
  note w = slots_word [where m = ?m, folded chk_def]
  have live: "bit chk j \<or> bit (drop_bit 16 chk) j \<longleftrightarrow> j < length ps" if "j < 16" for j
    using w(3,4) [OF that] that by (simp add: slots_mask_def bit_mask_iff)
  then have "filter (\<lambda>j. bit chk j \<or> bit (drop_bit 16 chk) j) [0 ..< 16] = filter (\<lambda>j. j < length ps) [0 ..< 16]"
    by (intro filter_cong) auto
  also have "\<dots> = [0 ..< length ps]"
  proof -
    have "[0 ..< 16] = [0 ..< length ps] @ [length ps ..< 16]"
      using assms by (metis less_eq_nat.simps(1) upt_add_eq_append le_add_diff_inverse)
    then show ?thesis by (simp add: filter_False del: upt_conv_Cons)
  qed
  finally have f: "filter (\<lambda>j. bit chk j \<or> bit (drop_bit 16 chk) j) [0 ..< 16] = [0 ..< length ps]" .
  have "unat (num_3t ?c) = length ps"
    using assms by (simp add: cmd_cfg_def unat_of_nat take_bit_nat_eq_self)
  then have "map (reg_proto (prot_ops ?c r)) [0 ..< length ps] = map (\<lambda>j. slots16 ps ! j) [0 ..< length ps]"
    using assms by (intro map_cong) (auto simp: prot_ops_proto cmd_cfg_def)
  also have "\<dots> = ps"
    using assms by (intro nth_equalityI) (auto simp: slots16_def nth_append)
  finally have p: "map (reg_proto (prot_ops ?c r)) [0 ..< length ps] = ps" .
  have b: "FIELD_GET BIT_IP_PROT_CHK_BLIST (prot_ops ?c r PPE_FLOW_CFG) = (if bl then 1 else 0)"
    by (simp only: prot_ops_blist) (simp add: cmd_cfg_def)
  show ?thesis
    unfolding proto_3tuple_show_def Let_def r f p b w(1,2) by (rule refl)
qed

end
