(* ===== verification/Hnat_System_Theorems.thy ===== *)
theory Hnat_System_Theorems
  imports Hnat_Theorems Hnat_Init_Props Hnat_Flow Hnat_Ext Hnat_Neigh Hnat_Proto3t
begin

text \<open>
  The properties of the engines of \<^verbatim>\<open>mtk_hnat\<close>, its flow lists, its table of extension devices, its queue of
  neighbour events and its 3-tuple protocols.
\<close>

section \<open>Engines\<close>



text \<open>An engine that starts has a table and flow lists for the number of entries the driver works
  with, and its register holds the size that fits them if the search for a size began at 32768
  entries.  It always begins the code of the size there but the number of entries where the previous
  engine ended: after an engine that had to halve, the next one is told a table larger than the memory
  allocated for it.\<close>

theorem start_size_in_register:
  assumes "dev_ok d" and "hnat_start irq d e p h = (0, h')"
  shows "h_table_len h' p = Some (h_etry_num h') \<and> h_flow_len h' p = Some (h_etry_num h' div 4)
    \<and> (h_etry_num h = DEF_ETRY_NUM \<longrightarrow> 1024 * 2 ^ unat (tb_size p h') = h_etry_num h')
    \<and> (h_etry_num h < DEF_ETRY_NUM \<longrightarrow> h_etry_num h' < 1024 * 2 ^ unat (tb_size p h'))"
proof -
  obtain k where k: "k \<le> 5" "h_etry_num h' = h_etry_num h div 2 ^ k" "tb_size p h' = of_nat (5 - k)"
    and len: "h_table_len h' p = Some (h_etry_num h')" "h_flow_len h' p = Some (h_etry_num h' div 4)"
    using start_sizes [OF assms] by auto
  have "unat (of_nat (5 - k) :: u32) = 5 - k" by (simp add: unat_of_nat take_bit_nat_eq_self)
  then have u: "unat (tb_size p h') = 5 - k" using k(3) by (simp only:)
  have "k \<in> {0, 1, 2, 3, 4, 5}" using k(1) by auto
  then have "(h_etry_num h = 32768 \<longrightarrow> 1024 * 2 ^ (5 - k) = h_etry_num h')
      \<and> (h_etry_num h < 32768 \<longrightarrow> h_etry_num h' < 1024 * 2 ^ (5 - k))"
    unfolding k(2) by auto
  then show ?thesis using len u by (simp add: DEF_ETRY_NUM_def)
qed

definition demo_alloc :: alloc_env where
  "demo_alloc = \<lparr>al_table = (\<lambda>k. True), al_flow = (\<lambda>k. True), al_mib = True, al_acct = True,
     al_table_dev = 0x40000000, al_mib_dev = 0x50000000\<rparr>"

theorem start_size_in_register_witness:
  "\<exists>h'. hnat_start (\<lambda>p. (0, 1)) demo_dev demo_alloc 0 (demo_hnat\<lparr>h_etry_num := 16384\<rparr>) = (0, h')
     \<and> h_etry_num h' < 1024 * 2 ^ unat (tb_size 0 h')"
proof -
  let ?h = "demo_hnat\<lparr>h_etry_num := 16384\<rparr>"
  have "alloc_loop demo_alloc 0 (Suc DEF_ETRY_NUM_CFG) 16384 = (16384, Some DEF_ETRY_NUM_CFG)"
    by (simp add: demo_alloc_def)
  then have "fst (hnat_start (\<lambda>p. (0, 1)) demo_dev demo_alloc 0 ?h) = 0"
    by (simp add: hnat_start_def demo_hnat_def Let_def)
  then obtain h' where h': "hnat_start (\<lambda>p. (0, 1)) demo_dev demo_alloc 0 ?h = (0, h')"
    by (metis prod.collapse)
  have "h_etry_num ?h < DEF_ETRY_NUM" by (simp add: DEF_ETRY_NUM_def)
  then show ?thesis
    using start_size_in_register [OF demo_dev_ok h'] h' by blast
qed

section \<open>Flows\<close>

text \<open>The comparison of two IPv4 flows looks at the protocol and the two addresses, not at the ports
  (the length is four bytes short).  So a flow prepared for the same hosts in the same bucket replaces
  the one of another connection, whose next packet then finds the ports of the other.\<close>

theorem flow_match_ignores_ports:
  assumes "pkt_type e = IPV4_HNAPT" and "rd (h_table h (unat p) (unat hash)) (udib1 ''state'') = state_code UNBIND"
    and "hnat_flow_entry_search e p hash h = None"
    and "e2 = wr (in_view hnat_ipv4_hnapt ''sport'') sp (wr (in_view hnat_ipv4_hnapt ''dport'') dp e)"
  shows "(hnat_flow_entry_match e x
        \<longleftrightarrow> rd e (udib1 ''udp'') = rd x (udib1 ''udp'') \<and> e 1 = x 1 \<and> e 2 = x 2)
    \<and> map_option fl_data (hnat_flow_entry_search e p hash
          (snd (flow_prepare True t2 e2 p hash (snd (flow_prepare True t1 e p hash h))))) = Some e2
    \<and> length (flow_list p hash (snd (flow_prepare True t2 e2 p hash (snd (flow_prepare True t1 e p hash h)))))
        = Suc (length (flow_list p hash h))"
proof (intro conjI)
  show "hnat_flow_entry_match e x
        \<longleftrightarrow> rd e (udib1 ''udp'') = rd x (udib1 ''udp'') \<and> e 1 = x 1 \<and> e 2 = x 2"
    by (rule match_hnapt [OF assms(1)])
  let ?f1 = "\<lparr>fl_data = e, fl_last = t1, fl_ppe = p, fl_hash = hash\<rparr>"
  let ?f2 = "\<lparr>fl_data = e2, fl_last = t2, fl_ppe = p, fl_hash = hash\<rparr>"
  have w: "e2 0 = e 0" "e2 1 = e 1" "e2 2 = e 2" by (simp_all add: assms(4) foe_fld)
  have rd0: "rd e2 (Fld 0 lo n) = rd e (Fld 0 lo n)" for lo n using w(1) by (simp add: rd.simps)
  have t: "pkt_type e2 = IPV4_HNAPT" "rd e2 (udib1 ''udp'') = rd e (udib1 ''udp'')"
    using assms(1) by (simp_all add: pkt_type_def foe_fld rd0)
  have m: "hnat_flow_entry_match e e2" "hnat_flow_entry_match e2 e"
    unfolding match_hnapt [OF assms(1)] match_hnapt [OF t(1)] using t(2) w by simp_all
  have fl: "flow_list p hash (set_flow_list p hash fs k) = fs" for fs k
    by (simp add: flow_list_def set_flow_list_def)
  have tab: "h_table (set_flow_list p hash fs k) = h_table k" for fs k
    by (simp add: set_flow_list_def)
  let ?h1 = "snd (flow_prepare True t1 e p hash h)" and ?rest = "flow_list p hash h"
  have h1: "?h1 = set_flow_list p hash (?f1 # ?rest) h"
    using assms(2,3) by (simp add: flow_prepare_def Let_def)
  have h2: "snd (flow_prepare True t2 e2 p hash ?h1) = set_flow_list p hash (?f2 # ?rest) ?h1"
    unfolding h1 using assms(2) m
    by (simp add: flow_prepare_def fl tab Let_def hnat_flow_entry_search_def flow_is_def)
  show "map_option fl_data (hnat_flow_entry_search e p hash (snd (flow_prepare True t2 e2 p hash ?h1))) = Some e2"
    unfolding h2 using m by (simp add: hnat_flow_entry_search_def fl flow_is_def)
  show "length (flow_list p hash (snd (flow_prepare True t2 e2 p hash ?h1))) = Suc (length ?rest)"
    unfolding h2 by (simp add: fl)
qed

theorem flow_match_ignores_ports_witness:
  "hnat_flow_entry_match demo_flow (wr (in_view hnat_ipv4_hnapt ''sport'') 1 demo_flow)"
proof -
  let ?h = "demo_hnat\<lparr>h_table := (\<lambda>p i. wr (udib1 ''state'') (state_code UNBIND) zero_words)\<rparr>"
  have u: "rd (h_table ?h (unat (0::u16)) (unat (0::u16))) (udib1 ''state'') = state_code UNBIND"
    by (simp add: foe_fld rd_wr_same state_code_def)
  have n: "hnat_flow_entry_search demo_flow 0 0 ?h = None"
    by (simp add: hnat_flow_entry_search_def flow_list_def demo_hnat_def)
  have t: "pkt_type demo_flow = IPV4_HNAPT" using demo_flow_words by blast
  show ?thesis
    using flow_match_ignores_ports [OF t u n refl, where x = "wr (in_view hnat_ipv4_hnapt ''sport'') 1 demo_flow"]
    by (simp add: foe_fld rd_wr_other)
qed

section \<open>Extension devices\<close>

text \<open>\<open>hnat_release_netdev\<close> walks over a table that moves under it: of a well-formed table it frees the
  first entry, the third and so on, and leaves the others registered with their devices held.\<close>

theorem release_keeps_every_second:
  assumes "ext_wf s"
  shows "live_ext (hnat_release_netdev s) = odds (live_ext s)
    \<and> ext_freed (hnat_release_netdev s) = rev (evens (live_ext s)) @ ext_freed s
    \<and> ext_ent (hnat_release_netdev s) = ext_ent s"
proof -
  let ?xs = "live_ext s"
  have s: "ext_if s = packed ([] @ ?xs)" "length [] + length ?xs \<le> MAX_EXT_DEVS" "distinct ([] @ ?xs)"
    using assms by (simp_all add: ext_wf_def)
  have len: "length (odds xs) \<le> length xs \<and> length (evens xs) \<le> length xs" for xs :: "nat list"
    by (induction xs) auto
  have put: "ext_if (put_opt o' k) = ext_if k" "ext_freed (put_opt o' k) = ext_freed k"
      "ext_ent (put_opt o' k) = ext_ent k" for o' k
    by (simp_all add: put_opt_def dev_put_def split: option.split)
  have r: "ext_if (hnat_release_netdev s) = ext_if (release_from 0 s)"
      "ext_freed (hnat_release_netdev s) = ext_freed (release_from 0 s)"
      "ext_ent (hnat_release_netdev s) = ext_ent (release_from 0 s)"
    by (simp_all add: hnat_release_netdev_def Let_def put)
  have e: "ext_if (release_from 0 s) = packed (odds ?xs)" "ext_freed (release_from 0 s) = rev (evens ?xs) @ ext_freed s"
      "ext_ent (release_from 0 s) = ext_ent s"
    using release_from_spec [OF s] by simp_all
  have "live_ext (hnat_release_netdev s) = odds ?xs"
    unfolding live_ext_def [of "hnat_release_netdev s"] r e
    by (rule live_packed) (use len [of ?xs] s(2) in simp)
  then show ?thesis using r e by simp
qed

definition demo_ext :: ext_state where
  "demo_ext = \<lparr>ext_if = packed [7, 8, 9], ext_ent = (\<lambda>x. \<lparr>xe_name = ''ra'', xe_dev = Some x\<rparr>),
     ext_refs = (\<lambda>d. 1), ext_freed = [], g_ppdev = None, g_wandev = None\<rparr>"

theorem release_keeps_every_second_witness: "live_ext (hnat_release_netdev demo_ext) = [8]"
proof -
  have p: "ext_if demo_ext = packed [7, 8, 9]" by (simp add: demo_ext_def)
  have "length [7, 8, 9::nat] \<le> MAX_EXT_DEVS" "distinct [7, 8, 9::nat]" by (simp_all add: MAX_EXT_DEVS_def)
  note w = ext_wfI [OF p this]
  show ?thesis using release_keeps_every_second [OF w(1)] w(2) by simp
qed

section \<open>Neighbour events\<close>

text \<open>C20. However events, the work and the cleanup interleave, from \<open>hnat_neigh_update_init\<close> on, with the locked
  part of the cleanup, the cancelling it does if the work was pending, and the end of that as steps of their own:
  the counter of pending events is the length of the list; the list never exceeds \<open>m\<close> events, if the limit
  computed at each event from the thresholds of the moment does not; while events wait, the work is
  scheduled or running; the work takes at most 128 of them at a time; and during a cleanup the list
  stays empty.  (The probe registers the notifier just before \<open>hnat_neigh_update_init\<close>: an event
  between the two finds no list and is outside this.)\<close>

theorem neigh_queue_bounded:
  assumes "neigh_reachable m s"
  shows "unat (nq_pending (ns_queue s)) = length (nq_head (ns_queue s))
    \<and> length (nq_head (ns_queue s)) \<le> unat m
    \<and> (nq_head (ns_queue s) \<noteq> [] \<longrightarrow> nq_timer (ns_queue s) \<or> ns_work s \<noteq> None)
    \<and> (case ns_work s of None \<Rightarrow> True | Some batch \<Rightarrow> length batch \<le> 128)
    \<and> (ns_cleanup s \<noteq> No_cleanup \<longrightarrow> nq_head (ns_queue s) = [])"
  using neigh_reachable_ok [OF assms] unfolding neigh_ok_def NEIGH_PROCESS_BUDGET_def by blast

definition demo_neigh :: neighbour where
  "demo_neigh = \<lparr>nb_has_dev = True,
     nb_event = \<lparr>ne_dip = [0x0101A8C0], ne_ha = [0, 0, 0, 0, 0, 0], ne_nud = NUD_FAILED, ne_ipv4 = True\<rparr>\<rparr>"

definition demo_queue :: neigh_update where
  "demo_queue = nf_hnat_netevent_handler 1024 1024 True demo_neigh
     (hnat_neigh_update_init \<lparr>nq_head = [], nq_pending = 0, nq_timer = False\<rparr>)"

lemma demo_queue_eq:
  "demo_queue = \<lparr>nq_head = [nb_event demo_neigh], nq_pending = 1, nq_timer = True\<rparr>"
proof -
  have "\<not> (0::u32) \<ge> pending_max 1024 1024" by code_simp
  moreover have "NUD_FAILED AND (NUD_CONNECTED OR NUD_FAILED) \<noteq> 0" by code_simp
  ultimately show ?thesis
    by (simp add: demo_queue_def nf_hnat_netevent_handler_def hnat_neigh_update_init_def demo_neigh_def)
qed

lemma demo_queue_reachable:
  "neigh_reachable 4096 \<lparr>ns_queue = demo_queue, ns_work = None, ns_cleanup = No_cleanup, ns_nb = True\<rparr>"
proof -
  let ?q = "\<lparr>nq_head = [], nq_pending = 0, nq_timer = False\<rparr> :: neigh_update"
  let ?s = "\<lparr>ns_queue = hnat_neigh_update_init ?q, ns_work = None, ns_cleanup = No_cleanup, ns_nb = True\<rparr>"
  have "neigh_reachable 4096 ?s"
    by (rule neigh_reachable.init)
  moreover have "pending_max 1024 1024 \<le> 4096" by code_simp
  ultimately show ?thesis
    using neigh_reachable.step [of 4096 ?s, OF _ neigh_step.event [of ?s 1024 1024 4096 True demo_neigh]]
    by (simp add: demo_queue_def)
qed

theorem neigh_queue_bounded_witness: "unat (nq_pending demo_queue) = length (nq_head demo_queue) \<and> nq_timer demo_queue"
  using neigh_queue_bounded [OF demo_queue_reachable] by (simp add: demo_queue_eq)

text \<open>A handler that runs, and whose work is not pending again, is not waited for: the cleanup looks only at
  \<open>delayed_work_pending\<close>, so it ends while the handler still sweeps the tables that \<open>hnat_remove\<close> is
  about to free.\<close>

theorem cleanup_leaves_handler_running:
  "\<exists>s s1 s2. neigh_reachable 4096 s \<and> neigh_step 4096 s s1 \<and> ns_cleanup s1 = Cleared False \<and> neigh_step 4096 s1 s2
     \<and> ns_cleanup s2 = No_cleanup \<and> ns_work s2 = Some [nb_event demo_neigh]"
proof -
  let ?q = "\<lparr>nq_head = [], nq_pending = 0, nq_timer = False\<rparr> :: neigh_update"
  let ?w = "\<lambda>q b c. \<lparr>ns_queue = q, ns_work = Some [nb_event demo_neigh], ns_cleanup = c, ns_nb = b\<rparr>"
  have t: "work_take demo_queue = ([nb_event demo_neigh], ?q\<lparr>nq_timer := True\<rparr>)"
    by (simp add: demo_queue_eq work_take_def NEIGH_PROCESS_BUDGET_def)
  have 1: "neigh_reachable 4096 (?w ?q True No_cleanup)"
    using neigh_reachable.step [OF demo_queue_reachable neigh_step.work_begin [of _ "[nb_event demo_neigh]" _ 4096]] t
    by (simp add: demo_queue_eq)
  have 2: "neigh_reachable 4096 (?w ?q False No_cleanup)"
    using neigh_reachable.step [OF 1 neigh_step.unregister [of _ 4096]] by simp
  have 3: "neigh_step 4096 (?w ?q False No_cleanup) (?w ?q False (Cleared False))"
    using neigh_step.clear [of "?w ?q False No_cleanup" False ?q 4096] by (simp add: cleanup_clear_def)
  have 4: "neigh_step 4096 (?w ?q False (Cleared False)) (?w ?q False No_cleanup)"
    using neigh_step.not_cancelled [of "?w ?q False (Cleared False)" 4096] by simp
  from 2 3 4 show ?thesis
    by (intro exI conjI) (assumption | simp)+
qed

text \<open>C21. Without new events the work empties the queue in as many runs as it has batches of 128, and
  handles every event once and in order; and after a batch no bound entry is left whose destination
  one of its events reports as failed or as moved to another address.\<close>

theorem neigh_events_processed:
  assumes "neigh_reachable m s" and "ns_work s = None"
    and "length (nq_head (ns_queue s)) \<le> n * 128"
  shows "concat (fst (drain n (ns_queue s))) = nq_head (ns_queue s)
    \<and> nq_head (snd (drain n (ns_queue s))) = [] \<and> nq_pending (snd (drain n (ns_queue s))) = 0
    \<and> (foe_clear_entry d batch h = Some (c, h') \<and> p < h_ppe_num h \<and> h_table_len h p \<noteq> None
        \<and> i < h_etry_num h \<and> entry_hnat_is_bound (h_table h' p i) \<and> event \<in> set batch
        \<longrightarrow> \<not> neigh_match (h_table h' p i) event)"
proof -
  have ok: "neigh_ok m s" by (rule neigh_reachable_ok [OF assms(1)])
  have "concat (fst (drain n (ns_queue s))) = nq_head (ns_queue s)
    \<and> nq_head (snd (drain n (ns_queue s))) = [] \<and> nq_pending (snd (drain n (ns_queue s))) = 0"
    by (rule drain_all) (use ok assms in \<open>auto simp: neigh_ok_def NEIGH_PROCESS_BUDGET_def\<close>)
  moreover have "\<not> neigh_match (h_table h' p i) event"
    if "foe_clear_entry d batch h = Some (c, h')" "p < h_ppe_num h" "h_table_len h p \<noteq> None"
      "i < h_etry_num h" "entry_hnat_is_bound (h_table h' p i)" "event \<in> set batch"
    using by_neigh.none_left [OF that(1) _ that(2-5)] that(4,6) by (auto simp: list_ex_iff)
  ultimately show ?thesis by blast
qed

theorem neigh_events_processed_witness:
  "concat (fst (drain 1 demo_queue)) = [nb_event demo_neigh] \<and> nq_head (snd (drain 1 demo_queue)) = []"
  using neigh_events_processed [OF demo_queue_reachable, of 1] by (simp add: demo_queue_eq)

section \<open>Protocols by 3-tuple\<close>

text \<open>C22. The debugfs command that sets the mode and up to 16 protocols of an engine is read back from its
  registers as it was given; other engines are untouched; and the packet test then accepts a protocol
  exactly if it is in the list (or, for a blacklist, is not).\<close>

theorem proto_3tuple_roundtrip:
  assumes "p < h_ppe_num h" "p < 2 ^ 31" "length ps \<le> 16" "length (proto_3tuple_cmd p bl ps) < 256"
    and "hnat_proto_3tuple_write (proto_3tuple_cmd p bl ps) h = (r, h')"
  shows "r = int (length (proto_3tuple_cmd p bl ps))
    \<and> proto_3tuple_show (pr (h_ppe h' p))
        = ((if bl then 1 else 0), ps, ucast (slots_mask (length ps)), ucast (slots_mask (length ps)))
    \<and> (q \<noteq> p \<longrightarrow> h_ppe h' q = h_ppe h q)
    \<and> hnat_prot_3t_support (Some (h_prot_3t h' p)) (ipv4_chk (h_prot_3t h' p)) x = (bl \<noteq> (x \<in> set ps))"
proof -
  let ?c = "cmd_cfg bl ps" and ?h1 = "h\<lparr>h_prot_3t := (h_prot_3t h)(p := cmd_cfg bl ps)\<rparr>"
  have rh: "r = int (length (proto_3tuple_cmd p bl ps))" "h' = hnat_hw_set_prot_3t p ?h1"
    using write_cmd [OF assms(1-4)] assms(5) by simp_all
  have h': "h' = on_ppe p (with_regs (prot_ops ?c)) ?h1"
    unfolding rh(2) using assms(1) by (subst set_prot_3t_eq) simp_all
  have n: "unat (num_3t ?c) = length ps"
    using assms(3) by (simp add: cmd_cfg_def unat_of_nat take_bit_nat_eq_self)
  have "list_ex (\<lambda>i. bit (ipv4_chk ?c) i \<and> x = proto ?c ! i) [0 ..< unat (num_3t ?c)] \<longleftrightarrow> x \<in> set ps"
    unfolding n using assms(3)
    by (auto simp: list_ex_iff cmd_cfg_def slots_mask_def bit_mask_iff slots16_def nth_append in_set_conv_nth)
  then have "hnat_prot_3t_support (Some ?c) (ipv4_chk ?c) x = (bl \<noteq> (x \<in> set ps))"
    by (simp add: hnat_prot_3t_support_def) (simp add: cmd_cfg_def)
  then show ?thesis
    using rh(1) show_prot_ops [OF assms(3), of bl] by (simp add: h' on_ppe_def with_regs_def)
qed

theorem proto_3tuple_roundtrip_witness:
  "\<exists>r h'. hnat_proto_3tuple_write ''0 1 47 50'' demo_hnat = (r, h')
     \<and> proto_3tuple_show (pr (h_ppe h' 0)) = (1, [47, 50], 3, 3)"
proof -
  have c: "proto_3tuple_cmd 0 True [47, 50] = ''0 1 47 50''" by code_simp
  have m: "(ucast (slots_mask (Suc (Suc 0))) :: u32) = 3" by code_simp
  obtain r h' where w: "hnat_proto_3tuple_write (proto_3tuple_cmd 0 True [47, 50]) demo_hnat = (r, h')" by fastforce
  have "0 < h_ppe_num demo_hnat" by (simp add: demo_hnat_def)
  then show ?thesis
    using proto_3tuple_roundtrip [OF _ _ _ _ w] w by (simp add: c m)
qed

end
