(* ===== verification/Nf_State.thy ===== *)
theory Nf_State
  imports Skb Hnat_Flow Hnat_Ext Hnat_Api Mcast Hnat_Delete
begin

text \<open>
  What the packet hooks of \<^verbatim>\<open>hnat_nf_hook.c\<close> work on: network devices, the path the kernel finds for a
  packet, the switches of \<^verbatim>\<open>hnat_debugfs.c\<close>, the functions of other modules the hooks call, and the
  state they change.
\<close>

section \<open>Devices and paths\<close>

text \<open>\<^verbatim>\<open>struct flow_offload_hw_path\<close>; devices are named by numbers.\<close>

record hw_path =
  hp_dev :: nat
  hp_virt_dev :: nat
  hp_flags :: u32
  hp_tnl_type :: u32
  hp_eth_src :: "u8 list"
  hp_eth_dest :: "u8 list"
  hp_vlan_id :: u16
  hp_pppoe_sid :: u16

definition zero_path :: hw_path where
  "zero_path = \<lparr>hp_dev = 0, hp_virt_dev = 0, hp_flags = 0, hp_tnl_type = 0, hp_eth_src = replicate 6 0,
     hp_eth_dest = replicate 6 0, hp_vlan_id = 0, hp_pppoe_sid = 0\<rparr>"

text \<open>A port of a switch: its index, the device of the conduit, and whether tags are 802.1Q.\<close>

record dsa_port =
  dp_index :: nat
  dp_conduit :: nat
  dp_tag_8021q :: bool

text \<open>What the driver asks of a \<^verbatim>\<open>struct net_device\<close>, the answers of the kernel's predicates included.
  The optional functions are those of \<^verbatim>\<open>netdev_ops\<close>.\<close>

record nf_dev = net_dev +
  dv_up :: bool
  dv_addr :: "u8 list"
  dv_broadcast :: "u8 list"
  dv_bridge_port :: bool
  dv_master :: "nat option"
  dv_bridge_master :: bool
  dv_bond_master :: bool
  dv_xmit_slave :: "(sk_buff \<Rightarrow> nat option) option"
  dv_offload_check :: "(hw_path \<Rightarrow> int \<times> hw_path) option"
  dv_mac_id :: nat
  dv_speed :: u32
  dv_uses_dsa :: bool
  dv_dsa_port :: "dsa_port option"
  dv_reg :: "nat option"
  dv_br_vlan :: bool
  dv_pvid :: "u16 option"
  dv_stats64 :: bool
  dv_carrier :: bool
  dv_bond_slave :: bool
  dv_driver :: "string option"

section \<open>Environment\<close>

text \<open>A tuple of connection tracking.\<close>

record ct_tuple =
  tu_v6 :: bool
  tu_src :: "be32 list"
  tu_dst :: "be32 list"
  tu_sport :: be16
  tu_dport :: be16
  tu_proto :: u8

text \<open>The configuration (\<open>v_wan\<close> to \<open>v_wan_dsa_port\<close>), the switches (\<open>v_xlat\<close> to \<open>v_tnl\<close>), what the
  kernel provides, and the functions other modules register (\<open>v_encap\<close> to \<open>v_crypto_ok\<close>: null or
  not).  \<open>v_neigh4\<close> and \<open>v_neigh6\<close> look a neighbour up on a device; \<open>v_nexthop4\<close> and \<open>v_nexthop6\<close> are
  the next hop of a route for an address.  \<open>v_push_first\<close> is a choice of the compiler: whether the second
  argument of a call is evaluated before the first.  \<open>v_mib\<close> are the registers after a request for the
  counters of an entry, \<open>None\<close> when the hardware stays busy, and \<open>v_ct_find\<close> is whether connection tracking
  has a connection with counters for a tuple.\<close>

record nf_env =
  v_devs :: "nat \<Rightarrow> nf_dev"
  v_by_name :: "string \<Rightarrow> nat option"
  v_by_index :: "nat \<Rightarrow> nat option"
  v_wan :: string
  v_lan :: string
  v_lan2 :: string
  v_ppd :: string
  v_gmac_num :: nat
  v_whnat :: bool
  v_wan_dsa_port :: u8
  v_xlat :: bool
  v_qos :: int
  v_qos_dl :: bool
  v_qos_ul :: bool
  v_mape :: bool
  v_l2br :: int
  v_l4s :: bool
  v_tnl :: bool
  v_xlat_map :: "(be32 \<times> be32 list) list"
  v_xlat_prefix :: "be32 list"
  v_dev_model :: ppe_dev
  v_jiffies :: "64 word"
  v_hz :: "64 word"
  v_mem_ok :: bool
  v_trylock :: bool
  v_nexthop4 :: "dst_entry option \<Rightarrow> be32 \<Rightarrow> be32"
  v_nexthop6 :: "dst_entry option \<Rightarrow> be32 list \<Rightarrow> be32 list"
  v_neigh4 :: "nat \<Rightarrow> be32 \<Rightarrow> u8 list option"
  v_neigh6 :: "nat \<Rightarrow> be32 list \<Rightarrow> u8 list option"
  v_vlan_insert :: "sk_buff \<Rightarrow> sk_buff option"
  v_vlan_untag :: "sk_buff \<Rightarrow> sk_buff option"
  v_unshare :: "sk_buff \<Rightarrow> sk_buff option"
  v_may_pull :: "sk_buff \<Rightarrow> bool"
  v_cow_head :: "sk_buff \<Rightarrow> bool"
  v_encap :: "(sk_buff \<Rightarrow> ethhdr \<Rightarrow> int \<times> sk_buff) option"
  v_decap :: "(sk_buff \<Rightarrow> int \<times> sk_buff) option"
  v_decap_ok :: "(sk_buff \<Rightarrow> bool) option"
  v_crypto_ok :: "(sk_buff \<Rightarrow> bool) option"
  v_expand_head :: "nat \<Rightarrow> sk_buff \<Rightarrow> sk_buff"
  v_push_first :: bool
  v_nf_stat :: bool
  v_mib :: "nat \<Rightarrow> nat \<Rightarrow> (u32 \<times> u32 \<times> u32 \<times> u32) option"
  v_ct_find :: "u16 \<Rightarrow> ct_tuple \<Rightarrow> bool"
  v_mc :: mc_env

text \<open>\<^verbatim>\<open>struct hnat_accounting\<close>.\<close>

record hnat_accounting =
  ac_bytes :: "64 word"
  ac_packets :: "64 word"
  ac_zone :: u16
  ac_iif :: int
  ac_oif :: int

definition zero_acct :: hnat_accounting where
  "zero_acct = \<lparr>ac_bytes = 0, ac_packets = 0, ac_zone = 0, ac_iif = 0, ac_oif = 0\<rparr>"

text \<open>What the driver counts for others: traffic of a virtual device, and of a connection.\<close>

datatype acct_call = Vif_rx nat "64 word" "64 word" | Vif_tx nat "64 word" "64 word"
  | Ct_add u16 ct_tuple "64 word" "64 word"

text \<open>The state: the driver's, its devices, multicast, the descriptors kept for 464XLAT, the counters, the
  IPv6 headers of MAP-E, the packets handed on, the registered callbacks (named by numbers),
  the calls made to them, and the counts reported.\<close>

record nf_state =
  nf_core :: mtk_hnat
  nf_ext :: ext_state
  nf_wifi :: "nat option list"
  nf_mc :: mcast
  nf_headroom :: "nat \<Rightarrow> hnat_desc"
  nf_acct :: "nat \<Rightarrow> nat \<Rightarrow> hnat_accounting"
  nf_w2l :: "u8 list"
  nf_l2w :: "u8 list"
  nf_out :: "skb_output list"
  nf_cbs :: "nat callbacks"
  nf_told :: "(nat \<times> hnat_tuple) list"
  nf_stats :: "acct_call list"

definition upd_core :: "(mtk_hnat \<Rightarrow> mtk_hnat) \<Rightarrow> nf_state \<Rightarrow> nf_state" where
  "upd_core f s = s\<lparr>nf_core := f (nf_core s)\<rparr>"

definition upd_entry :: "nat \<Rightarrow> nat \<Rightarrow> (foe_words \<Rightarrow> foe_words) \<Rightarrow> nf_state \<Rightarrow> nf_state" where
  "upd_entry p i f = upd_core (on_entry p i f)"

definition foe_of :: "nf_state \<Rightarrow> nat \<Rightarrow> nat \<Rightarrow> foe_words" where
  "foe_of s p i = h_table (nf_core s) p i"

definition emit :: "skb_output \<Rightarrow> nf_state \<Rightarrow> nf_state" where
  "emit x s = s\<lparr>nf_out := nf_out s @ [x]\<rparr>"

section \<open>Tests\<close>

definition CFG_PPE_NUM :: "nf_state \<Rightarrow> nat" where "CFG_PPE_NUM s = h_ppe_num (nf_core s)"

text \<open>The packet as the interface of \<^verbatim>\<open>hnat_api.c\<close> sees it, its engine, and whether its entry is one of
  the table.\<close>

definition api_skb :: "sk_buff \<Rightarrow> skb_info" where
  "api_skb k = \<lparr>sk_entry = ucast (hd_entry (sb_desc k)), sk_crsn = skb_hnat_reason k, sk_sport = skb_hnat_sport k,
     sk_alg = skb_hnat_alg k, sk_magic = hd_magic_tag (sb_desc k), sk_headroom = skb_headroom k\<rparr>"

definition nf_ppe :: "nf_state \<Rightarrow> sk_buff \<Rightarrow> nat" where
  "nf_ppe s k = skb_hnat_ppe (api_skb k) (nf_core s)"

definition nf_hashed :: "nf_state \<Rightarrow> sk_buff \<Rightarrow> bool" where
  "nf_hashed s k = skb_hnat_is_hashed (api_skb k) (nf_core s)"

definition skb_hnat_reason_ready_bind :: "nf_state \<Rightarrow> sk_buff \<Rightarrow> bool" where
  "skb_hnat_reason_ready_bind s k =
     (skb_hnat_reason k = HIT_UNBIND_RATE_REACH \<or>
      h_bind_threshold (nf_core s) \<le> 1 \<and> skb_hnat_reason k = HIT_UNBIND)"

text \<open>The entry of a packet.\<close>

definition foe_of_skb :: "nf_state \<Rightarrow> sk_buff \<Rightarrow> foe_words" where
  "foe_of_skb s k = foe_of s (nf_ppe s k) (skb_hnat_entry k)"

definition dev_name :: "nf_env \<Rightarrow> nat \<Rightarrow> string" where
  "dev_name v d = Hnat_Ext.nd_name (v_devs v d)"

definition dev_is_bond :: "nf_env \<Rightarrow> nat \<Rightarrow> bool" where
  "dev_is_bond v d = prefixed ''bond'' (dev_name v d)"

definition dev_is_lan :: "nf_env \<Rightarrow> nat \<Rightarrow> bool" where
  "dev_is_lan v d = (prefixed (v_lan v) (dev_name v d) \<or> dev_is_bond v d)"

definition dev_is_lan2 :: "nf_env \<Rightarrow> nat \<Rightarrow> bool" where
  "dev_is_lan2 v d = (prefixed (v_lan2 v) (dev_name v d) \<or> dev_is_bond v d)"

definition dev_is_lan_grp :: "nf_env \<Rightarrow> nat \<Rightarrow> bool" where
  "dev_is_lan_grp v d = (dev_is_lan v d \<or> dev_is_lan2 v d)"

definition dev_is_wan :: "nf_env \<Rightarrow> nat \<Rightarrow> bool" where
  "dev_is_wan v d = prefixed (v_wan v) (dev_name v d)"

definition dev_is_br :: "nf_env \<Rightarrow> nat \<Rightarrow> bool" where
  "dev_is_br v d = prefixed ''br'' (dev_name v d)"

definition dev_is_ppd :: "nf_env \<Rightarrow> nat \<Rightarrow> bool" where
  "dev_is_ppd v d = (dev_name v d = v_ppd v)"

definition dev_is_dsa_lan :: "nf_env \<Rightarrow> nat \<Rightarrow> bool" where
  "dev_is_dsa_lan v d = prefixed ''lan'' (dev_name v d)"

definition dev_is_dsa_1g_lan :: "nf_env \<Rightarrow> nat \<Rightarrow> bool" where
  "dev_is_dsa_1g_lan v d = (prefixed ''lan'' (dev_name v d) \<and> dev_name v d \<noteq> ''lan5'')"

definition dev_is_dsa_wan :: "nf_env \<Rightarrow> nat \<Rightarrow> bool" where
  "dev_is_dsa_wan v d = prefixed ''wan'' (dev_name v d)"

text \<open>An extension device; a device found with interface index 0 counts as none.\<close>

definition dev_is_ext :: "nf_env \<Rightarrow> nf_state \<Rightarrow> nat \<Rightarrow> bool" where
  "dev_is_ext v s d = (get_index_from_dev (v_devs v) d (nf_ext s) \<noteq> 0)"

definition MAX_IF_NUM :: nat where "MAX_IF_NUM = 64"

text \<open>Slot 0 is not used; 0 stands for a device that is in no slot.\<close>

definition get_wifi_hook_if_index_from_dev :: "nf_state \<Rightarrow> nat \<Rightarrow> nat" where
  "get_wifi_hook_if_index_from_dev s d =
     (case find (\<lambda>i. nf_wifi s ! i = Some d) [1 ..< MAX_IF_NUM] of None \<Rightarrow> 0 | Some i \<Rightarrow> i)"

definition dev_is_whnat :: "nf_env \<Rightarrow> nf_state \<Rightarrow> nat \<Rightarrow> bool" where
  "dev_is_whnat v s d = (v_whnat v \<and> get_wifi_hook_if_index_from_dev s d \<noteq> 0)"

definition IS_GMAC1_MODE :: "nf_env \<Rightarrow> bool" where "IS_GMAC1_MODE v = (v_gmac_num v = 1)"
definition IS_HQOS_MODE :: "nf_env \<Rightarrow> bool" where "IS_HQOS_MODE v = (v_qos v = 1)"
definition IS_PPPQ_MODE :: "nf_env \<Rightarrow> bool" where "IS_PPPQ_MODE v = (v_qos v = 2)"
definition IS_HQOS_DL_MODE :: "nf_env \<Rightarrow> bool" where "IS_HQOS_DL_MODE v = (IS_HQOS_MODE v \<and> v_qos_dl v)"
definition IS_HQOS_UL_MODE :: "nf_env \<Rightarrow> bool" where "IS_HQOS_UL_MODE v = (IS_HQOS_MODE v \<and> v_qos_ul v)"

definition MAX_SWITCH_PORT_NUM :: u32 where "MAX_SWITCH_PORT_NUM = 6"
definition MAX_PPPQ_QUEUE_NUM :: u32 where "MAX_PPPQ_QUEUE_NUM = 2 * MAX_SWITCH_PORT_NUM + 2"
definition SPEED_1000 :: u32 where "SPEED_1000 = 1000"
definition SPEED_2500 :: u32 where "SPEED_2500 = 2500"

definition is_eth_dev_speed_under :: "nf_env \<Rightarrow> nat option \<Rightarrow> u32 \<Rightarrow> bool" where
  "is_eth_dev_speed_under v dev speed =
     (case dev of
        None \<Rightarrow> False
      | Some d \<Rightarrow> (dev_is_lan_grp v d \<or> dev_is_wan v d) \<and> \<not> dv_uses_dsa (v_devs v d) \<and> dv_speed (v_devs v d) \<le> speed)"

definition IS_PPPQ_PATH :: "nf_env \<Rightarrow> nat \<Rightarrow> sk_buff \<Rightarrow> bool" where
  "IS_PPPQ_PATH v d k =
     ((dev_is_dsa_1g_lan v d \<or> dev_is_dsa_wan v d) \<or>
      ((dev_is_lan_grp v d \<or> dev_is_wan v d) \<and> is_eth_dev_speed_under v (Some d) SPEED_1000) \<or>
      (FROM_WED k \<and> (dev_is_dsa_lan v d \<or> is_eth_dev_speed_under v (Some d) SPEED_2500)))"

definition HQOS_FLAG :: "nf_env \<Rightarrow> nat \<Rightarrow> sk_buff \<Rightarrow> u32 \<Rightarrow> bool" where
  "HQOS_FLAG v d k qid =
     ((IS_HQOS_UL_MODE v \<and> dev_is_wan v d) \<or> (IS_HQOS_DL_MODE v \<and> dev_is_lan_grp v d) \<or>
      (IS_PPPQ_MODE v \<and> (IS_PPPQ_PATH v d k \<or> qid \<ge> MAX_PPPQ_QUEUE_NUM)))"

definition HAS_HQOS_MAGIC_TAG :: "nf_env \<Rightarrow> sk_buff \<Rightarrow> bool" where
  "HAS_HQOS_MAGIC_TAG v k = (v_qos v \<noteq> 0 \<and> sb_protocol k = HQOS_MAGIC_TAG)"

text \<open>The flags of a path.\<close>

definition DEV_PATH_ETHERNET :: nat where "DEV_PATH_ETHERNET = 0"
definition DEV_PATH_VLAN :: nat where "DEV_PATH_VLAN = 1"
definition DEV_PATH_PPPOE :: nat where "DEV_PATH_PPPOE = 3"
definition DEV_PATH_TNL :: nat where "DEV_PATH_TNL = 8"

definition path_flag :: "hw_path \<Rightarrow> nat \<Rightarrow> bool" where
  "path_flag hp n = bit (hp_flags hp) n"

definition set_path_flag :: "nat \<Rightarrow> hw_path \<Rightarrow> hw_path" where
  "set_path_flag n hp = hp\<lparr>hp_flags := hp_flags hp OR push_bit n 1\<rparr>"

end
