(* ===== verification/Hnat_Fill.thy ===== *)
theory Hnat_Fill
  imports Nf_State
begin

text \<open>
  Filling a flow entry from a packet and its path: the helpers of \<^verbatim>\<open>hnat_nf_hook.c\<close> around
  \<open>skb_to_hnat_info\<close>, and the tags for switch ports of \<^verbatim>\<open>hnat_stag.c\<close> (with \<^verbatim>\<open>CONFIG_NET_DSA\<close>).
\<close>

section \<open>Assignments\<close>

text \<open>A sequence of assignments to members of an entry.\<close>

definition asg :: "(field \<times> u32) list \<Rightarrow> foe_words \<Rightarrow> foe_words" where
  "asg fs e = fold (\<lambda>(f, x). wr f x) fs e"

lemma asg_simps [simp]:
  "asg [] e = e" "asg ((f, x) # fs) e = asg fs (wr f x e)"
  by (simp_all add: asg_def)

lemma asg_append [simp]: "asg (fs @ gs) e = asg gs (asg fs e)"
  by (simp add: asg_def)

text \<open>A member written by none of the assignments keeps its value.\<close>

lemma rd_asg_other:
  assumes "list_all (\<lambda>(f, x). fld_ok f \<and> fld_disjoint f g) fs" "fld_ok g"
  shows "rd (asg fs e) g = rd e g"
  using assms by (induction fs arbitrary: e) (auto simp: rd_wr_other)

text \<open>The last of the assignments to a member wins.\<close>

lemma rd_asg_last:
  assumes "list_all (\<lambda>(f, x). fld_ok f \<and> fld_disjoint f g) fs" "fld_ok g"
  shows "rd (asg ((g, x) # fs) e) g = take_bit (fld_width g) x"
  using rd_asg_other [OF assms] assms(2) by (simp add: rd_wr_same)

definition b2u :: "bool \<Rightarrow> u32" where "b2u b = (if b then 1 else 0)"

section \<open>MAC addresses\<close>

text \<open>\<open>swab32(*((u32 *)mac))\<close> and \<open>swab16(*((u16 *)&mac[4]))\<close>.\<close>

definition mac_hi :: "u8 list \<Rightarrow> u32" where "mac_hi mac = swab32 (ld32 mac 0)"
definition mac_lo :: "u8 list \<Rightarrow> u32" where "mac_lo mac = ucast (swab16 (ld16 mac 4))"

definition fill_macs :: "layout \<Rightarrow> u8 list \<Rightarrow> u8 list \<Rightarrow> (field \<times> u32) list" where
  "fill_macs l dst src =
     [(in_view l ''dmac_hi'', mac_hi dst), (in_view l ''dmac_lo'', mac_lo dst),
      (in_view l ''smac_hi'', mac_hi src), (in_view l ''smac_lo'', mac_lo src)]"

text \<open>The types whose view is that of \<open>ipv6_5t_route\<close>.\<close>

definition v6_view_types :: "u32 list" where
  "v6_view_types = [IPV4_DSLITE, IPV4_MAP_E, IPV6_6RD, IPV6_5T_ROUTE, IPV6_3T_ROUTE, IPV6_HNAPT, IPV6_HNAT]"

definition ppe_fill_L2_info :: "hw_path \<Rightarrow> foe_words \<Rightarrow> foe_words" where
  "ppe_fill_L2_info hp e =
     (if pkt_type e = L2_BRIDGE
      then asg [(in_view hnat_l2_bridge ''new_dmac_hi'', mac_hi (hp_eth_dest hp)),
                (in_view hnat_l2_bridge ''new_dmac_lo'', mac_lo (hp_eth_dest hp)),
                (in_view hnat_l2_bridge ''new_smac_hi'', mac_hi (hp_eth_src hp)),
                (in_view hnat_l2_bridge ''new_smac_lo'', mac_lo (hp_eth_src hp))] e
      else if IS_IPV4_GRP e
      then asg (fill_macs hnat_ipv4_hnapt (hp_eth_dest hp) (hp_eth_src hp)
                @ [(in_view hnat_ipv4_hnapt ''pppoe_id'', ucast (hp_pppoe_sid hp))]) e
      else if pkt_type e \<in> set v6_view_types
      then asg (fill_macs hnat_ipv6_5t_route (hp_eth_dest hp) (hp_eth_src hp)
                @ [(in_view hnat_ipv6_5t_route ''pppoe_id'', ucast (hp_pppoe_sid hp))]) e
      else e)"

section \<open>Information blocks\<close>

text \<open>A frame is bridged if its path ends at a bridge port and it carries the address of neither the
  port nor the bridge.\<close>

definition hnat_is_hw_path_bridging :: "nf_env \<Rightarrow> hw_path \<Rightarrow> bool" where
  "hnat_is_hw_path_bridging v hp =
     (let dev = v_devs v (hp_virt_dev hp)
      in dv_bridge_port dev \<and>
         (case dv_master dev of
            None \<Rightarrow> False
          | Some br \<Rightarrow> dv_bridge_master (v_devs v br) \<and> hp_eth_src hp \<noteq> dv_addr (v_devs v br)
                       \<and> hp_eth_src hp \<noteq> dv_addr dev))"

definition info_blk_common :: "nf_env \<Rightarrow> hw_path \<Rightarrow> foe_words \<Rightarrow> foe_words" where
  "info_blk_common v hp e =
     asg [(bfib1 ''psn'', b2u (path_flag hp DEV_PATH_PPPOE)),
          (bfib1 ''vlan_layer'', rd e (bfib1 ''vlan_layer'') + b2u (path_flag hp DEV_PATH_VLAN)),
          (bfib1 ''vpm'', 0), (bfib1 ''cah'', 1), (bfib1 ''sta'', 0),
          (bfib1 ''ttl'', b2u (\<not> hnat_is_hw_path_bridging v hp))] e"

text \<open>The multicast part of an IP entry, in the view of its group.\<close>

definition info_blk_mcast :: "nf_state \<Rightarrow> hw_path \<Rightarrow> layout \<Rightarrow> foe_words \<Rightarrow> foe_words" where
  "info_blk_mcast s hp l e =
     (if mcast_hook_toggle (nf_mc s) \<and> is_multicast_ether_addr (hp_eth_dest hp)
      then if h_version (nf_core s) = Hnat_State.MTK_HNAT_V1_3
           then asg [(bfib1 ''sta'', 1),
                     (in_view hnat_ipv4_hnapt ''m_timestamp'', h_fe (nf_core s) FE_CLOCK AND 0xffff)] e
           else e
      else wr (iblk2 l ''mcast'') 0 e)"

text \<open>\<open>sp_tag\<close> is set to the number of the protocol without a conversion to network order.\<close>

definition info_blk_tag :: "layout \<Rightarrow> foe_words \<Rightarrow> foe_words" where
  "info_blk_tag l e =
     (if rd e (bfib1 ''vlan_layer'') \<noteq> 0 then wr (in_view l ''sp_tag'') (ucast ETH_P_8021Q) e else e)"

definition ppe_fill_info_blk :: "nf_env \<Rightarrow> nf_state \<Rightarrow> hw_path \<Rightarrow> foe_words \<Rightarrow> foe_words" where
  "ppe_fill_info_blk v s hp e0 =
     (let e = info_blk_common v hp e0
      in if pkt_type e = L2_BRIDGE
         then info_blk_tag hnat_l2_bridge
                (asg [(iblk2 hnat_l2_bridge ''mcast'',
                       b2u (mcast_hook_toggle (nf_mc s) \<and> is_multicast_ether_addr (hp_eth_dest hp))),
                      (iblk2 hnat_l2_bridge ''port_ag'', 0xf)] e)
         else if IS_IPV4_GRP e
         then info_blk_tag hnat_ipv4_hnapt
                (wr (iblk2 hnat_ipv4_hnapt ''port_ag'') 0xf (info_blk_mcast s hp hnat_ipv4_hnapt e))
         else if pkt_type e \<in> set v6_view_types
         then info_blk_tag hnat_ipv6_5t_route
                (wr (iblk2 hnat_ipv6_5t_route ''port_ag'') 0xf (info_blk_mcast s hp hnat_ipv6_5t_route e))
         else e)"

definition hnat_get_filled_unbind_entry :: "foe_words \<Rightarrow> foe_words" where
  "hnat_get_filled_unbind_entry foe =
     asg [(bfib1 ''mc'', 0), (bfib1 ''ka'', 0), (bfib1 ''vlan_layer'', 0), (bfib1 ''psn'', 0),
          (bfib1 ''vpm'', 0), (bfib1 ''ps'', 0)] (foe_copy foe zero_words)"

section \<open>Headers\<close>

definition ppe_fill_flow_lbl :: "ipv6hdr \<Rightarrow> foe_words \<Rightarrow> foe_words" where
  "ppe_fill_flow_lbl h =
     wr (in_view hnat_ipv4_dslite ''flow_lbl'')
        (ucast (ip6_flow_lbl h ! 2) OR push_bit 8 (ucast (ip6_flow_lbl h ! 1))
         OR push_bit 16 (ucast (ip6_flow_lbl h ! 0)))"

text \<open>The part of the header checksum that does not change with the identification, the length and (for
  chips after version 2) the type of service: a sum in ones' complement, folded twice.\<close>

definition chk_fold :: "u32 \<Rightarrow> u32" where
  "chk_fold t = (drop_bit 16 t AND 0x7) + (t AND 0xFFFF)"

definition ppe_get_chkbase :: "nat \<Rightarrow> iphdr \<Rightarrow> u16" where
  "ppe_get_chkbase version h =
     (let chksum = NOT (be16_to_cpu (ip_check h)); tot_len = NOT (be16_to_cpu (ip_tot_len h));
          ident = NOT (be16_to_cpu (ip_id h)); dscp_ecn = NOT (ucast (ip_tos h)) :: u16;
          tmp = (if version > Hnat_State.MTK_HNAT_V2 then ucast chksum + ucast tot_len + ucast ident + ucast dscp_ecn
                 else ucast chksum + ucast tot_len + ucast ident) :: u32
      in ucast (chk_fold (chk_fold tmp) AND 0xFFFF))"

text \<open>\<open>ip6h->priority << 4 | ip6h->flow_lbl[0] >> 4\<close>.\<close>

definition ip6_dscp :: "ipv6hdr \<Rightarrow> u32" where
  "ip6_dscp h = push_bit 4 (ucast (ip6_priority h)) OR drop_bit 4 (ucast (ip6_flow_lbl h ! 0))"

section \<open>VLAN layers\<close>

text \<open>A third layer is refused.  An outer layer moves the present one inwards.\<close>

definition add_vlan_in :: "layout \<Rightarrow> u16 \<Rightarrow> bool \<Rightarrow> foe_words \<Rightarrow> foe_words" where
  "add_vlan_in l tci outer e =
     (if outer then asg [(in_view l ''vlan2'', rd e (in_view l ''vlan1'')), (in_view l ''vlan1'', ucast tci)] e
      else if rd e (bfib1 ''vlan_layer'') = 0 then wr (in_view l ''vlan1'') (ucast tci) e
      else if rd e (bfib1 ''vlan_layer'') = 1 then wr (in_view l ''vlan2'') (ucast tci) e
      else e)"

definition hnat_add_vlan_layer :: "u16 \<Rightarrow> bool \<Rightarrow> foe_words \<Rightarrow> int \<times> foe_words" where
  "hnat_add_vlan_layer tci outer e =
     (if rd e (bfib1 ''vlan_layer'') \<ge> 2 then (- EINVAL, e)
      else let e' = (if IS_IPV4_GRP e \<or> pkt_type e = L2_BRIDGE then add_vlan_in hnat_ipv4_hnapt tci outer e
                     else add_vlan_in hnat_ipv6_5t_route tci outer e)
           in (0, wr (bfib1 ''vlan_layer'') (rd e' (bfib1 ''vlan_layer'') + 1) e'))"

section \<open>Switch ports\<close>

definition ENODEV :: int where "ENODEV = 19"

text \<open>The port and the device to go on with: the conduit of a switch port.\<close>

definition hnat_dsa_get_port :: "nf_env \<Rightarrow> nat \<Rightarrow> int \<times> nat" where
  "hnat_dsa_get_port v d =
     (case dv_dsa_port (v_devs v d) of
        None \<Rightarrow> (- ENODEV, d)
      | Some dp \<Rightarrow> (int (dp_index dp), dp_conduit dp))"

text \<open>The tag as outer VLAN: \<open>None\<close> when two VLANs are there already.\<close>

definition stag_8021q :: "layout \<Rightarrow> u16 \<Rightarrow> foe_words \<Rightarrow> foe_words option" where
  "stag_8021q l tag e =
     (if rd e (in_view l ''vlan2'') \<noteq> 0 then None
      else let e1 = (if rd e (in_view l ''vlan1'') \<noteq> 0
                     then wr (in_view l ''vlan2'') (rd e (in_view l ''vlan1'')) e else e);
               e2 = wr (in_view l ''vlan1'') (ucast tag) e1
           in Some (asg [(bfib1 ''vlan_layer'', b2u (rd e2 (in_view l ''vlan1'') \<noteq> 0)
                                                + b2u (rd e2 (in_view l ''vlan2'') \<noteq> 0)),
                         (in_view l ''sp_tag'', ucast ETH_P_8021Q)] e2))"

definition stag_special :: "nat \<Rightarrow> u16 \<Rightarrow> foe_words \<Rightarrow> foe_words" where
  "stag_special version tag0 e =
     (let e1 = (if rd e (bfib1 ''vlan_layer'') = 0 then wr (bfib1 ''vlan_layer'') 1 e else e);
          tag = (if rd e (bfib1 ''vlan_layer'') = 0 then tag0 else tag0 OR 0x100);
          e2 = (if IS_IPV4_GRP e1 then wr (in_view hnat_ipv4_hnapt ''sp_tag'') (ucast tag) e1
                else if IS_IPV6_GRP e1 then wr (in_view hnat_ipv6_5t_route ''sp_tag'') (ucast tag) e1
                else if pkt_type e1 = L2_BRIDGE then wr (in_view hnat_l2_bridge ''sp_tag'') (ucast tag) e1
                else e1)
      in if version = Hnat_State.MTK_HNAT_V3 then wr (bfib1 ''vpm'') 1 e2 else e2)"

definition hnat_dsa_fill_stag :: "nf_env \<Rightarrow> nat \<Rightarrow> nat \<Rightarrow> bool \<Rightarrow> foe_words \<Rightarrow> int \<times> foe_words" where
  "hnat_dsa_fill_stag v version d mape e =
     (case dv_reg (v_devs v d) of
        None \<Rightarrow> (- EINVAL, e)
      | Some port_index \<Rightarrow>
          if dev_is_wan v d \<and> mape then (int port_index, e)
          else (case dv_dsa_port (v_devs v d) of
                  None \<Rightarrow> (- ENODEV, e)
                | Some dp \<Rightarrow>
                    let e1 = wr (bfib1 ''vpm'') 0 e
                    in if dp_tag_8021q dp
                       then (case stag_8021q (if IS_IPV4_GRP e1 then hnat_ipv4_hnapt else hnat_ipv6_5t_route)
                                    (of_nat port_index OR 0xC00) e1 of
                               None \<Rightarrow> (- EINVAL, e1)
                             | Some e2 \<Rightarrow> (int port_index, e2))
                       else (int port_index, stag_special version (push_bit port_index 1) e1)))"

section \<open>Tunnel and crypto engines\<close>

text \<open>Positive when the engine's data is complete, negative while it is being built.\<close>

definition hnat_offload_engine_done :: "nf_env \<Rightarrow> sk_buff \<Rightarrow> hw_path \<Rightarrow> int" where
  "hnat_offload_engine_done v k hp =
     (if skb_hnat_tops k \<noteq> 0 \<and> \<not> path_flag hp DEV_PATH_TNL
      then if \<not> v_tnl v then - 1
           else if (case sb_dst k of None \<Rightarrow> False | Some d \<Rightarrow> dst_xfrm d) then - 1
           else 1
      else 0)"

definition NR_EIP197_QDMA_TPORT :: u32 where "NR_EIP197_QDMA_TPORT = 3"
definition NR_TDMA_QDMA_TPORT :: u32 where "NR_TDMA_QDMA_TPORT = 5"
definition NR_TDMA_EIP197_QDMA_TPORT :: u32 where "NR_TDMA_EIP197_QDMA_TPORT = 9"

definition hnat_fill_offload_engine_entry :: "nf_env \<Rightarrow> sk_buff \<Rightarrow> foe_words \<Rightarrow> foe_words" where
  "hnat_fill_offload_engine_entry v k e =
     (let l = (if IS_IPV4_GRP e then hnat_ipv4_hnapt else hnat_ipv6_5t_route);
          crypt = (skb_hnat_cdrt k \<noteq> 0 \<and> skb_hnat_is_encrypt k)
      in if \<not> v_tnl v then e
         else if skb_hnat_tops k \<noteq> 0 \<and> skb_hnat_is_encap k
         then asg ((if crypt then [(in_view l ''tport_id'', NR_TDMA_EIP197_QDMA_TPORT),
                                   (in_view l ''cdrt_id'', ucast (skb_hnat_cdrt k))]
                    else [(in_view l ''tport_id'', NR_TDMA_QDMA_TPORT)])
                   @ [(in_view l ''tops_entry'', ucast (skb_hnat_tops k))]) e
         else if crypt
         then asg [(in_view l ''tport_id'', NR_EIP197_QDMA_TPORT),
                   (in_view l ''cdrt_id'', ucast (skb_hnat_cdrt k))] e
         else e)"

section \<open>Storing an entry\<close>

text \<open>The entry in the table takes the words behind the first one, and then the first, which holds the
  state.  \<open>commit_steps\<close> are the tables in between, as the hardware may see them.\<close>

definition commit_words :: "u32 \<Rightarrow> u32 \<Rightarrow> foe_words \<Rightarrow> foe_words" where
  "commit_words ts state e = asg [(bfib1 ''time_stamp'', ts), (bfib1 ''state'', state)] e"

definition commit_steps :: "foe_words \<Rightarrow> foe_words \<Rightarrow> foe_words list" where
  "commit_steps e foe =
     map (\<lambda>n i. if 1 \<le> i \<and> i < n then e i else foe i) [1 ..< FOE_WORDS + 1]
     @ [foe_copy e foe]"

definition hnat_foe_entry_commit :: "nat \<Rightarrow> nat \<Rightarrow> foe_words \<Rightarrow> u32 \<Rightarrow> nf_state \<Rightarrow> nf_state" where
  "hnat_foe_entry_commit p i e state s =
     upd_entry p i (\<lambda>foe. last (commit_steps (commit_words (hnat_timestamp (nf_core s)) state e) foe)) s"

end
