(* ===== verification/Hnat_Bind.thy ===== *)
theory Hnat_Bind
  imports Hnat_Fill Hnat_Init
begin

text \<open>
  Binding the flow of a packet, \<open>skb_to_hnat_info\<close> of \<^verbatim>\<open>hnat_nf_hook.c\<close>, in the order of its parts: which
  protocol the packet has, the translated headers by type of entry, the port and queue it leaves
  through, and the hand-over to the table, to multicast or to the list of flows.
\<close>

section \<open>Multicast\<close>

text \<open>The fields of an entry that \<^verbatim>\<open>hnat_mcast.c\<close> works on, and how its changes come back.\<close>

definition mc_view :: "foe_words \<Rightarrow> layout" where
  "mc_view e = (if IS_IPV4_GRP e then hnat_ipv4_hnapt else hnat_ipv6_5t_route)"

definition mc_state :: "foe_words \<Rightarrow> foe_state" where
  "mc_state e = (if rd e (bfib1 ''state'') = 1 then UNBIND else if rd e (bfib1 ''state'') = 2 then BIND
                 else if rd e (bfib1 ''state'') = 3 then FIN else INVALID)"

definition mc_entry :: "foe_words \<Rightarrow> foe_entry" where
  "mc_entry e =
     \<lparr>f_kind = (if IS_IPV4_GRP e then FOE_IPV4 else if IS_IPV6_GRP e then FOE_IPV6 else FOE_OTHER),
      f_state = mc_state e, f_sta = (rd e (bfib1 ''sta'') = 1), f_ts = ucast (rd e (bfib1 ''time_stamp'')),
      f_mts = ucast (rd e (in_view hnat_ipv4_hnapt ''m_timestamp'')),
      f_sip = rd e (in_view hnat_ipv4_hnapt ''sip''), f_dip = rd e (in_view hnat_ipv4_hnapt ''dip''),
      f_sip6 = map (rd e \<circ> in_view hnat_ipv6_5t_route) [''ipv6_sip0'', ''ipv6_sip1'', ''ipv6_sip2'', ''ipv6_sip3''],
      f_dip6 = map (rd e \<circ> in_view hnat_ipv6_5t_route) [''ipv6_dip0'', ''ipv6_dip1'', ''ipv6_dip2'', ''ipv6_dip3''],
      f_tport = unat (rd e (in_view (mc_view e) ''tport_id'')),
      f_tops = unat (rd e (in_view (mc_view e) ''tops_entry'')),
      f_mcast = (rd e (iblk2 (mc_view e) ''mcast'') = 1), f_dp = unat (rd e (iblk2 (mc_view e) ''dp'')),
      f_vlan_layer = unat (rd e (bfib1 ''vlan_layer'')), f_vpm = unat (rd e (bfib1 ''vpm'')),
      f_sp_tag = ucast (rd e (in_view (mc_view e) ''sp_tag''))\<rparr>"

definition mc_store :: "foe_entry \<Rightarrow> foe_words \<Rightarrow> foe_words" where
  "mc_store f e =
     (if f = mc_entry e then e
      else if f = foe_zero then foe_copy zero_words e
      else asg ([(bfib1 ''state'', state_code (f_state f)), (bfib1 ''time_stamp'', ucast (f_ts f)),
                 (bfib1 ''vlan_layer'', of_nat (f_vlan_layer f)), (bfib1 ''vpm'', of_nat (f_vpm f))]
                @ (if f_kind f = FOE_OTHER then []
                   else [(in_view (mc_view e) ''tport_id'', of_nat (f_tport f)),
                         (in_view (mc_view e) ''tops_entry'', of_nat (f_tops f)),
                         (iblk2 (mc_view e) ''mcast'', b2u (f_mcast f)), (iblk2 (mc_view e) ''dp'', of_nat (f_dp f)),
                         (in_view (mc_view e) ''sp_tag'', ucast (f_sp_tag f))])) e)"

definition mc_load :: "mtk_hnat \<Rightarrow> mcast \<Rightarrow> mcast" where
  "mc_load h m =
     m\<lparr>mc_hw := (mc_hw m)\<lparr>foe_tab := (\<lambda>p i. mc_entry (h_table h p i)), ppe_num := h_ppe_num h,
                          foe_etry_num := h_etry_num h, foe_clock := ucast (h_fe h FE_CLOCK),
                          hnat_v2_v3 := (h_version h = Hnat_State.MTK_HNAT_V2 \<or> h_version h = Hnat_State.MTK_HNAT_V3)\<rparr>\<rparr>"

text \<open>\<open>hnat_mcast_foe_bind_handle\<close> on the driver's table: the result and the packet's entry.\<close>

definition mcast_bind ::
  "nf_env \<Rightarrow> nat \<Rightarrow> nat \<Rightarrow> nat \<Rightarrow> foe_words \<Rightarrow> nf_state \<Rightarrow> int \<times> foe_words \<times> nf_state" where
  "mcast_bind v p i ifindex e s =
     (case hnat_mcast_foe_bind_handle (v_mc v) (of_nat p) (of_nat i) (mc_entry e) (of_nat ifindex)
             (mc_load (nf_core s) (nf_mc s)) of
        (ret, m) \<Rightarrow>
          (ret, mc_store (foe_local (mc_hw m)) e,
           (upd_core (\<lambda>h. h\<lparr>h_table := (\<lambda>p i. mc_store (foe_tab (mc_hw m) p i) (h_table h p i))\<rparr>) s)
             \<lparr>nf_mc := m\<rparr>))"

section \<open>Protocol\<close>

definition EPROTO_U16 :: u16 where "EPROTO_U16 = of_int (- EPROTO)"

text \<open>The protocol behind a PPPoE header, and the offset of its header; the error is cut to 16 bits by
  the callers.\<close>

definition hnat_get_hdr_protocol :: "sk_buff \<Rightarrow> u16 \<times> nat" where
  "hnat_get_hdr_protocol k =
     (let ep = be16_to_cpu (sb_protocol k)
      in if ep \<noteq> ETH_P_PPP_SES then (ep, 0)
         else (case skb_header_pointer k 0 8 of
                 None \<Rightarrow> (EPROTO_U16, 0)
               | Some p \<Rightarrow>
                   let inner = raw16 (sb_bytes k) (p + 6)
                   in if inner = cpu_to_be16 PPP_IP then (ETH_P_IP, PPPOE_SES_HLEN)
                      else if inner = cpu_to_be16 PPP_IPV6 then (ETH_P_IPV6, PPPOE_SES_HLEN)
                      else (EPROTO_U16, 0)))"

text \<open>The protocol the entry is filled for, the offset of its header, and the path with the session of
  a bridged PPPoE packet; \<open>None\<close> is the failure.\<close>

definition bind_proto :: "nf_env \<Rightarrow> sk_buff \<Rightarrow> foe_words \<Rightarrow> hw_path \<Rightarrow> (u16 \<times> nat \<times> hw_path) option" where
  "bind_proto v k e hp =
     (if pkt_type e = L2_BRIDGE
      then if v_l2br v \<noteq> 0 then Some (be16_to_cpu (h_proto (eth_hdr k)), 0, hp) else None
      else if be16_to_cpu (h_proto (eth_hdr k)) = ETH_P_PPP_SES
      then (case hnat_get_hdr_protocol k of
              (ep, off) \<Rightarrow>
                Some (ep, off,
                      (set_path_flag DEV_PATH_PPPOE hp)
                        \<lparr>hp_pppoe_sid := be16_to_cpu (raw16 (sb_bytes k) (sb_net k + 2))\<rparr>))
      else if ip_version (ip_hdr k) = 4 then Some (ETH_P_IP, 0, hp)
      else if ip_version (ip_hdr k) = 6 then Some (ETH_P_IPV6, 0, hp)
      else None)"

section \<open>Parts of an entry\<close>

definition cp :: "layout \<Rightarrow> string list \<Rightarrow> foe_words \<Rightarrow> (field \<times> u32) list" where
  "cp l ms foe = map (\<lambda>m. (in_view l m, rd foe (in_view l m))) ms"

definition mibf :: "nf_state \<Rightarrow> layout \<Rightarrow> (field \<times> u32) list" where
  "mibf s l = (if h_per_flow_accounting (nf_core s) then [(iblk2 l ''mibf'', 1)] else [])"

text \<open>The VLAN of the path, and behind it (or instead) the tag of the packet.\<close>

definition fill_vlans :: "field \<Rightarrow> field \<Rightarrow> hw_path \<Rightarrow> sk_buff \<Rightarrow> foe_words \<Rightarrow> foe_words" where
  "fill_vlans f1 f2 hp k e0 =
     (let e = wr f1 (ucast (hp_vlan_id hp)) e0
      in if skb_vlan_tagged k
         then let e1 = wr (bfib1 ''vlan_layer'') (rd e (bfib1 ''vlan_layer'') + 1) e
              in if rd e1 f1 \<noteq> 0 then wr f2 (ucast (sb_vlan_tci k)) e1 else wr f1 (ucast (sb_vlan_tci k)) e1
         else e)"

definition new_ports :: "layout \<Rightarrow> be16 \<times> be16 \<Rightarrow> (field \<times> u32) list" where
  "new_ports l pt = [(in_view l ''new_sport'', ucast (be16_to_cpu (fst pt))),
                     (in_view l ''new_dport'', ucast (be16_to_cpu (snd pt)))]"

definition skb_ports :: "sk_buff \<Rightarrow> nat \<Rightarrow> (be16 \<times> be16) option" where
  "skb_ports k off = map_option (ports_at (sb_bytes k)) (skb_header_pointer k off 4)"

definition v6_addr_equal :: "foe_words \<Rightarrow> string list \<Rightarrow> be32 list \<Rightarrow> bool" where
  "v6_addr_equal e ms a = (map (\<lambda>m. htonl (rd e (in_view hnat_ipv6_5t_route m))) ms = a)"

definition SIP6 :: "string list" where "SIP6 = [''ipv6_sip0'', ''ipv6_sip1'', ''ipv6_sip2'', ''ipv6_sip3'']"
definition DIP6 :: "string list" where "DIP6 = [''ipv6_dip0'', ''ipv6_dip1'', ''ipv6_dip2'', ''ipv6_dip3'']"
definition TSIP6 :: "string list" where
  "TSIP6 = [''tunnel_sipv6_0'', ''tunnel_sipv6_1'', ''tunnel_sipv6_2'', ''tunnel_sipv6_3'']"
definition TDIP6 :: "string list" where
  "TDIP6 = [''tunnel_dipv6_0'', ''tunnel_dipv6_1'', ''tunnel_dipv6_2'', ''tunnel_dipv6_3'']"
definition NEWIP6 :: "string list" where
  "NEWIP6 = [''new_ipv6_ip0'', ''new_ipv6_ip1'', ''new_ipv6_ip2'', ''new_ipv6_ip3'']"

definition put_addr :: "layout \<Rightarrow> string list \<Rightarrow> be32 list \<Rightarrow> (field \<times> u32) list" where
  "put_addr l ms a = zip (map (in_view l) ms) (map ntohl a)"

section \<open>IPv4 packets\<close>

text \<open>An entry of the IPv4 group.\<close>

definition fill_v4_grp :: "nf_state \<Rightarrow> sk_buff \<Rightarrow> iphdr \<Rightarrow> hw_path \<Rightarrow> foe_words \<Rightarrow> foe_words" where
  "fill_v4_grp s k h hp e0 =
     (let l = hnat_ipv4_hnapt;
          e1 = asg ([(in_view l ''sp_tag'', ucast (cpu_to_be16 ETH_P_IP)), (iblk2 l ''dscp'', ucast (ip_tos h))]
                    @ mibf s l) e0;
          e2 = fill_vlans (in_view l ''vlan1'') (in_view l ''vlan2'') hp k e1
      in asg [(in_view l ''new_sip'', ntohl (ip_saddr h)), (in_view l ''new_dip'', ntohl (ip_daddr h)),
              (in_view l ''eg_keep_ecn'', 1), (in_view l ''eg_keep_dscp'', 1)] e2)"

text \<open>A DS-Lite or MAP-E flow from the wide area network.\<close>

definition fill_v4_dslite :: "nf_state \<Rightarrow> iphdr \<Rightarrow> hw_path \<Rightarrow> foe_words \<Rightarrow> foe_words \<Rightarrow> foe_words" where
  "fill_v4_dslite s h hp foe e0 =
     (let l = hnat_ipv4_dslite
      in asg ([(in_view l ''sp_tag'', ucast (cpu_to_be16 ETH_P_IP))]
              @ (if pkt_type e0 = IPV4_MAP_E
                 then [(in_view hnat_ipv4_mape ''new_sip'', ntohl (ip_saddr h)),
                       (in_view hnat_ipv4_mape ''new_dip'', ntohl (ip_daddr h))] else [])
              @ cp l TSIP6 foe @ cp l TDIP6 foe
              @ [(bfib1 ''rmt'', 1), (iblk2 l ''dscp'', ucast (ip_tos h)),
                 (in_view l ''vlan1'', ucast (hp_vlan_id hp))]
              @ mibf s l @ [(in_view l ''eg_keep_ecn'', 1), (in_view l ''eg_keep_cls'', 1)]) e0)"

text \<open>The outer header of a 6RD flow to the wide area network.\<close>

definition fill_6rd :: "nf_state \<Rightarrow> sk_buff \<Rightarrow> iphdr \<Rightarrow> hw_path \<Rightarrow> foe_words \<Rightarrow> foe_words \<Rightarrow> foe_words" where
  "fill_6rd s k h hp foe e0 =
     (let l = hnat_ipv6_6rd
      in asg (cp l SIP6 foe @ cp l DIP6 foe @ cp l [''sport'', ''dport''] foe
              @ [(in_view l ''tunnel_sipv4'', ntohl (ip_saddr h)), (in_view l ''tunnel_dipv4'', ntohl (ip_daddr h)),
                 (in_view l ''hdr_chksum'', ucast (ppe_get_chkbase (h_version (nf_core s)) h)),
                 (in_view l ''flag'', ucast (drop_bit 13 (be16_to_cpu (ip_frag_off h)))),
                 (in_view l ''ttl'', ucast (ip_ttl h)), (in_view l ''dscp'', ucast (ip_tos h)),
                 (in_view l ''per_flow_6rd_id'', 1), (in_view l ''vlan1'', ucast (hp_vlan_id hp))]
              @ mibf s l
              @ (if ip6_nexthdr (ipv6hdr_at (sb_bytes k) (sb_inner_net k)) = IPPROTO_UDP
                 then [(bfib1 ''udp'', 1)] else [])
              @ [(in_view l ''eg_keep_ecn'', 1), (in_view l ''eg_keep_cls'', 1)]) e0)"

text \<open>What comes after the addresses, by the protocol of the packet.\<close>

definition fill_v4_l4 ::
  "nf_state \<Rightarrow> sk_buff \<Rightarrow> nat \<Rightarrow> iphdr \<Rightarrow> hw_path \<Rightarrow> foe_words \<Rightarrow> foe_words \<Rightarrow> foe_words option" where
  "fill_v4_l4 s k off h hp foe e =
     (if ip_protocol h = IPPROTO_UDP \<or> ip_protocol h = IPPROTO_TCP
      then let e1 = (if ip_protocol h = IPPROTO_UDP then wr (bfib1 ''udp'') 1 e else e)
           in map_option
                (\<lambda>pt. if pkt_type e1 = IPV4_MAP_E then asg (new_ports hnat_ipv4_mape pt) e1
                      else if pkt_type e1 = IPV4_HNAPT then asg (new_ports hnat_ipv4_hnapt pt) e1 else e1)
                (skb_ports k (unat (ip_ihl h) * 4 + off))
      else if ip_protocol h = IPPROTO_IPV6 \<and> pkt_type e = IPV6_6RD then Some (fill_6rd s k h hp foe e)
      else None)"

definition fill_v4 ::
  "nf_env \<Rightarrow> nf_state \<Rightarrow> sk_buff \<Rightarrow> nat \<Rightarrow> hw_path \<Rightarrow> foe_words \<Rightarrow> foe_words \<Rightarrow> foe_words option" where
  "fill_v4 v s k off hp foe e =
     (let h = iphdr_at (sb_bytes k) (sb_net k + off)
      in if ip_is_fragment h \<and> pkt_type e \<noteq> IPV4_HNAT then None
         else if IS_IPV4_GRP e \<or> pkt_type e = IPV4_DSLITE \<or> pkt_type e = IPV4_MAP_E
         then let e1 = asg (cp hnat_ipv4_hnapt [''sip'', ''dip'', ''sport'', ''dport''] foe) e
              in if IS_IPV4_GRP e1
                 then let e2 = fill_v4_grp s k h hp e1
                      in if pkt_type e2 = IPV4_HNAT
                         then if hnat_is_hw_path_bridging v hp then Some e2 else None
                         else fill_v4_l4 s k off h hp foe e2
                 else fill_v4_l4 s k off h hp foe (fill_v4_dslite s h hp foe e1)
         else if pkt_type e = IPV6_6RD then fill_v4_l4 s k off h hp foe e
         else None)"

section \<open>IPv6 packets\<close>

definition fill_v6_route :: "nf_state \<Rightarrow> sk_buff \<Rightarrow> ipv6hdr \<Rightarrow> hw_path \<Rightarrow> foe_words \<Rightarrow> foe_words \<Rightarrow> foe_words" where
  "fill_v6_route s k h hp foe e0 =
     (let l = hnat_ipv6_5t_route;
          e1 = wr (in_view l ''sp_tag'') (ucast (cpu_to_be16 ETH_P_IPV6)) e0;
          e2 = asg (mibf s l) (fill_vlans (in_view l ''vlan1'') (in_view l ''vlan2'') hp k e1);
          e3 = (if pkt_type e2 = IPV6_6RD
                then asg ((bfib1 ''rmt'', 1) # cp hnat_ipv6_6rd [''tunnel_sipv4'', ''tunnel_dipv4''] foe) e2 else e2)
      in asg (cp hnat_ipv6_3t_route SIP6 foe @ cp hnat_ipv6_3t_route DIP6 foe @ cp l [''sport'', ''dport''] foe
              @ [(in_view hnat_ipv6_3t_route ''eg_keep_ecn'', 1), (in_view hnat_ipv6_3t_route ''eg_keep_cls'', 1),
                 (iblk2 l ''dscp'', ip6_dscp h)]) e3)"

text \<open>A packet whose addresses are not those the engine saw has been translated (NAT66).\<close>

definition fill_v6_l4 ::
  "nf_env \<Rightarrow> nat \<Rightarrow> sk_buff \<Rightarrow> nat \<Rightarrow> ipv6hdr \<Rightarrow> foe_words \<Rightarrow> foe_words option" where
  "fill_v6_l4 v d k off h e0 =
     (let e = (if ip6_nexthdr h = IPPROTO_UDP then wr (bfib1 ''udp'') 1 e0 else e0)
      in if pkt_type e = IPV6_5T_ROUTE
            \<and> (\<not> v6_addr_equal e SIP6 (ip6_saddr h) \<or> \<not> v6_addr_equal e DIP6 (ip6_daddr h))
         then let l = hnat_ipv6_hnapt;
                  e1 = wr (bfib1 ''pkt_type'') IPV6_HNAPT e;
                  e2 = (if dev_is_wan v d \<or> dev_is_dsa_wan v d
                        then asg ((in_view l ''eg_ipv6_dir'', 0) # put_addr l NEWIP6 (ip6_saddr h)) e1
                        else asg ((in_view l ''eg_ipv6_dir'', 1) # put_addr l NEWIP6 (ip6_daddr h)) e1)
              in map_option (\<lambda>pt. asg (new_ports l pt) e2) (skb_ports k (IPV6_HDR_LEN + off))
         else Some e)"

text \<open>IPv4 in IPv6 towards the wide area network: DS-Lite, MAP-E on chips that have it, and MAP-E by
  way of an IPv4 entry, for which the header is kept and \<open>mape\<close> is set.\<close>

definition fill_dslite_l2w ::
  "nf_env \<Rightarrow> nf_state \<Rightarrow> ipv6hdr \<Rightarrow> hw_path \<Rightarrow> foe_words \<Rightarrow> foe_words \<Rightarrow> foe_words" where
  "fill_dslite_l2w v s h hp foe e0 =
     (let l = hnat_ipv4_dslite;
          e1 = asg ((bfib1 ''udp'', rd foe (bfib1 ''udp'')) # cp l [''sip'', ''dip'', ''sport'', ''dport''] foe
                    @ put_addr l TSIP6 (ip6_saddr h) @ put_addr l TDIP6 (ip6_daddr h)) e0
      in asg ([(in_view l ''priority'', ucast (ip6_priority h)), (in_view l ''hop_limit'', ucast (ip6_hop_limit h)),
               (in_view l ''vlan1'', ucast (hp_vlan_id hp))]
              @ mibf s l @ [(in_view l ''eg_keep_ecn'', 1), (in_view l ''eg_keep_cls'', 1)]
              @ (if v_mape v
                 then (iblk2 l ''dscp'', rd foe (iblk2 l ''dscp''))
                      # cp hnat_ipv4_mape [''new_sip'', ''new_dip'', ''new_sport'', ''new_dport''] foe
                 else []))
           (ppe_fill_flow_lbl h e1))"

definition fill_mape_l2w ::
  "nf_env \<Rightarrow> nf_state \<Rightarrow> nat \<Rightarrow> sk_buff \<Rightarrow> hw_path \<Rightarrow> foe_words \<Rightarrow> foe_words \<Rightarrow> foe_words" where
  "fill_mape_l2w v s d k hp foe e0 =
     (let l = hnat_ipv4_hnapt;
          e1 = asg ((iblk2 l ''dscp'', rd foe (iblk2 l ''dscp''))
                    # mibf s l
                    @ [(in_view l ''vlan1'', if IS_GMAC1_MODE v then 1 else ucast (hp_vlan_id hp))]
                    @ cp l [''sip'', ''dip'', ''sport'', ''dport'', ''new_sip'', ''new_dip''] foe
                    @ [(in_view l ''sp_tag'', ucast (cpu_to_be16 ETH_P_IP))]) e0;
          e2 = (if IS_HQOS_MODE v
                then let e' = wr (iblk2 l ''qid'')
                                 (if hnat_v2_or_v3 (nf_core s) then sb_mark k AND 0x7f else sb_mark k AND 0xf) e1;
                         flag = b2u (HQOS_FLAG v d k (rd e' (iblk2 l ''qid'')))
                     in asg [(in_view l ''tport_id'', flag), (iblk2 l ''fqos'', flag)] e'
                else e1)
      in asg ((bfib1 ''udp'', rd foe (bfib1 ''udp'')) # cp l [''new_sport'', ''new_dport''] foe
              @ [(in_view l ''eg_keep_ecn'', 1), (in_view l ''eg_keep_dscp'', 1)]) e2)"

text \<open>The entry, whether it is a MAP-E flow, and the header to keep.\<close>

definition fill_v6_ipip ::
  "nf_env \<Rightarrow> nf_state \<Rightarrow> nat \<Rightarrow> sk_buff \<Rightarrow> nat \<Rightarrow> ipv6hdr \<Rightarrow> hw_path \<Rightarrow> foe_words \<Rightarrow> foe_words
     \<Rightarrow> (foe_words \<times> bool) option" where
  "fill_v6_ipip v s d k off h hp foe e =
     (if ip_is_fragment (iphdr_at (sb_bytes k) (sb_inner_net k + off)) then None
      else if (\<not> v_mape v \<and> pkt_type e = IPV4_DSLITE) \<or> (v_mape v \<and> pkt_type e = IPV4_MAP_E)
      then Some (fill_dslite_l2w v s h hp foe e, False)
      else if v_mape v \<and> pkt_type e = IPV4_HNAPT then Some (fill_mape_l2w v s d k hp foe e, True)
      else Some (e, False))"

definition fill_v6 ::
  "nf_env \<Rightarrow> nf_state \<Rightarrow> nat \<Rightarrow> sk_buff \<Rightarrow> nat \<Rightarrow> hw_path \<Rightarrow> foe_words \<Rightarrow> foe_words
     \<Rightarrow> (foe_words \<times> bool) option" where
  "fill_v6 v s d k off hp foe e0 =
     (let h = ipv6hdr_at (sb_bytes k) (sb_net k + off);
          route = (pkt_type e0 \<in> set [IPV6_3T_ROUTE, IPV6_5T_ROUTE, IPV6_6RD]);
          e = (if route then fill_v6_route s k h hp foe e0 else e0)
      in if route \<and> pkt_type e = IPV6_3T_ROUTE
         then if hnat_is_hw_path_bridging v hp then Some (e, False) else None
         else if ip6_nexthdr h = IPPROTO_UDP \<or> ip6_nexthdr h = IPPROTO_TCP
         then map_option (\<lambda>e'. (e', False)) (fill_v6_l4 v d k off h e)
         else if ip6_nexthdr h = NEXTHDR_IPIP then fill_v6_ipip v s d k off h hp foe e
         else None)"

section \<open>Bridged frames\<close>

definition fill_l2 :: "nf_state \<Rightarrow> sk_buff \<Rightarrow> u16 \<Rightarrow> hw_path \<Rightarrow> foe_words \<Rightarrow> foe_words \<Rightarrow> foe_words" where
  "fill_l2 s k ep hp foe e =
     (let l = hnat_l2_bridge
      in fill_vlans (in_view l ''new_vlan1'') (in_view l ''new_vlan2'') hp k
           (asg (cp l [''dmac_hi'', ''dmac_lo'', ''smac_hi'', ''smac_lo'', ''etype'', ''hph'', ''vlan1'', ''vlan2''] foe
                 @ [(in_view l ''sp_tag'', ucast (cpu_to_be16 ep))] @ mibf s l) e))"

text \<open>The headers of the entry; a frame of an IP protocol is never filled as a bridged one.\<close>

definition fill_headers ::
  "nf_env \<Rightarrow> nf_state \<Rightarrow> nat \<Rightarrow> sk_buff \<Rightarrow> u16 \<Rightarrow> nat \<Rightarrow> hw_path \<Rightarrow> foe_words \<Rightarrow> foe_words
     \<Rightarrow> (foe_words \<times> bool) option" where
  "fill_headers v s d k ep off hp foe e =
     (if ep = ETH_P_IP then map_option (\<lambda>e'. (e', False)) (fill_v4 v s k off hp foe e)
      else if ep = ETH_P_IPV6 then fill_v6 v s d k off hp foe e
      else if pkt_type e = L2_BRIDGE then Some (fill_l2 s k ep hp foe e, False)
      else None)"

end
