(* ===== verification/Hnat_Info.thy ===== *)
theory Hnat_Info
  imports Hnat_Bind
begin

text \<open>
  The second half of \<open>skb_to_hnat_info\<close> of \<^verbatim>\<open>hnat_nf_hook.c\<close>: the port and the queue a flow leaves
  through, and where the finished entry goes.  The whole function is \<open>skb_to_hnat_info\<close>.
\<close>

section \<open>Ports\<close>

definition MTK_GMAC_ID_MAX :: u32 where "MTK_GMAC_ID_MAX = 3"
definition UDF_PINGPONG_IFIDX :: u32 where "UDF_PINGPONG_IFIDX = 0x7f"
definition NR_QDMA_PORT :: "4 word" where "NR_QDMA_PORT = 5"

text \<open>The interface index in \<open>act_dp\<close>, seven bits of it.\<close>

definition set_act_dp :: "layout \<Rightarrow> nat \<Rightarrow> foe_words \<Rightarrow> foe_words" where
  "set_act_dp l ifindex e =
     (let e1 = wr (in_view l ''act_dp'') (rd e (in_view l ''act_dp'') AND NOT UDF_PINGPONG_IFIDX) e
      in wr (in_view l ''act_dp'') (rd e1 (in_view l ''act_dp'') OR (of_nat ifindex AND UDF_PINGPONG_IFIDX)) e1)"

definition dev_ifindex :: "nf_env \<Rightarrow> nat \<Rightarrow> nat" where
  "dev_ifindex v d = nd_ifindex (v_devs v d)"

text \<open>A port that leads to the Ethernet MACs: its number, the switch port (negative without one), the
  number of the MAC, and the entry with the tag for the switch.  \<open>None\<close> is the failure.\<close>

definition gmac_port ::
  "nf_env \<Rightarrow> nf_state \<Rightarrow> nat \<Rightarrow> bool \<Rightarrow> foe_words \<Rightarrow> (int \<times> int \<times> nat \<times> foe_words) option" where
  "gmac_port v s d mape e =
     (case hnat_dsa_get_port v d of
        (port_id, master) \<Rightarrow>
     (case (if port_id \<ge> 0 then hnat_dsa_fill_stag v (h_version (nf_core s)) d mape e else (0, e)) of
        (ret, e1) \<Rightarrow>
          if ret < 0 then None
          else let mac = dv_mac_id (v_devs v master)
               in if dev_is_wan v d \<and> v_mape v \<and> mape
                  then Some (int NR_PDMA_PORT, port_id, mac, set_act_dp hnat_ipv4_hnapt (dev_ifindex v d) e1)
                  else Some (HNAT_GMAC_FP (v_gmac_num v) mac, port_id, mac, e1)))"

text \<open>A flow to an extension device goes to the processor, with the interface in the entry.  The view
  depends on the entry in the table.\<close>

definition ext_port :: "nf_env \<Rightarrow> sk_buff \<Rightarrow> nat \<Rightarrow> foe_words \<Rightarrow> foe_words \<Rightarrow> foe_words" where
  "ext_port v k d foe e =
     (let e1 = (if \<not> v_whnat v \<and> IS_GMAC1_MODE v
                then let e' = asg [(bfib1 ''vpm'', 1), (bfib1 ''vlan_layer'', 1)] e
                     in if skb_hnat_iface k = FOE_MAGIC_GE_LAN then wr (in_view hnat_ipv4_hnapt ''vlan1'') 1 e'
                        else if FROM_GE_WAN k \<or> FROM_GE_VIRTUAL k
                        then wr (in_view hnat_ipv4_hnapt ''vlan1'') 2 e' else e'
                else e)
      in set_act_dp (if IS_IPV4_GRP foe \<or> pkt_type foe = L2_BRIDGE then hnat_ipv4_hnapt else hnat_ipv6_5t_route)
           (dev_ifindex v d) e1)"

text \<open>The port of the flow: \<open>None\<close> also when the MAC has none.\<close>

definition bind_port ::
  "nf_env \<Rightarrow> nf_state \<Rightarrow> sk_buff \<Rightarrow> nat \<Rightarrow> bool \<Rightarrow> foe_words \<Rightarrow> foe_words
     \<Rightarrow> (u32 \<times> int \<times> nat \<times> foe_words) option" where
  "bind_port v s k d mape foe e =
     (if dev_is_lan_grp v d \<or> dev_is_wan v d
      then (case gmac_port v s d mape e of
              None \<Rightarrow> None
            | Some (gmac, port_id, mac, e1) \<Rightarrow>
                if gmac < 0 then None else Some (of_int gmac, port_id, mac, e1))
      else if dev_is_ext v s d
              \<and> (FROM_GE_PPD k \<or> FROM_GE_LAN_GRP k \<or> FROM_GE_WAN k \<or> FROM_GE_VIRTUAL k \<or> FROM_WED k)
      then Some (of_nat NR_PDMA_PORT, 0, 0, ext_port v k d foe e)
      else None)"

section \<open>Queues\<close>

text \<open>A TCP segment without payload; lengths are unsigned and wrap.\<close>

definition tcp_hdrlen :: "sk_buff \<Rightarrow> nat \<Rightarrow> u32" where
  "tcp_hdrlen k p = ucast (drop_bit 4 (sb_bytes k (p + 12))) * 4"

definition tcp_ack_only :: "sk_buff \<Rightarrow> u16 \<Rightarrow> nat \<Rightarrow> bool" where
  "tcp_ack_only k ep off =
     (let p = sb_net k + off
      in if ep = ETH_P_IP
         then let h = iphdr_at (sb_bytes k) p
              in ip_protocol h = IPPROTO_TCP \<and>
                 ucast (be16_to_cpu (ip_tot_len h)) - ucast (ip_ihl h) * 4
                   - tcp_hdrlen k (p + unat (ip_ihl h) * 4) = (0::u32)
         else if ep = ETH_P_IPV6
         then let h = ipv6hdr_at (sb_bytes k) p
              in ip6_nexthdr h = IPPROTO_TCP \<and>
                 ucast (be16_to_cpu (ip6_payload_len h)) - tcp_hdrlen k (p + IPV6_HDR_LEN) = (0::u32)
         else False)"

definition base_qid :: "nf_env \<Rightarrow> sk_buff \<Rightarrow> nat \<Rightarrow> int \<Rightarrow> nat \<Rightarrow> u32" where
  "base_qid v k d port_id mac =
     (let marked = sb_mark k AND ucast MTK_QDMA_QUEUE_MASK
      in if IS_HQOS_MODE v \<or> marked \<ge> MAX_PPPQ_QUEUE_NUM then marked
         else if IS_PPPQ_MODE v \<and> IS_PPPQ_PATH v d k
         then (if port_id \<ge> 0 then MTK_GMAC_ID_MAX + of_int port_id else of_nat mac) AND ucast MTK_QDMA_QUEUE_MASK
         else 0)"

definition bind_qid :: "nf_env \<Rightarrow> sk_buff \<Rightarrow> nat \<Rightarrow> int \<Rightarrow> nat \<Rightarrow> u16 \<Rightarrow> nat \<Rightarrow> u32" where
  "bind_qid v k d port_id mac ep off =
     base_qid v k d port_id mac
     + (if IS_PPPQ_MODE v \<and> IS_PPPQ_PATH v d k \<and> port_id \<ge> 0 \<and> tcp_ack_only k ep off
        then MAX_SWITCH_PORT_NUM else 0)"

text \<open>The queue in the entry; older chips split it, and mark the flow with its index instead of a VLAN.\<close>

definition put_qid :: "nf_state \<Rightarrow> layout \<Rightarrow> bool \<Rightarrow> sk_buff \<Rightarrow> u32 \<Rightarrow> foe_words \<Rightarrow> foe_words" where
  "put_qid s l tagged k qid e =
     (if hnat_v2_or_v3 (nf_core s) then wr (iblk2 l ''qid'') (qid AND 0x7f) e
      else let e1 = wr (iblk2 l ''qid'') (qid AND 0xf) e;
               e2 = (if h_version (nf_core s) \<noteq> Hnat_State.MTK_HNAT_V1_1
                     then wr (iblk2 l ''port_mg'') (rd e1 (iblk2 l ''port_mg'') OR (drop_bit 4 qid AND 0x3)) e1
                     else e1)
           in if tagged
              then asg [(in_view l ''sp_tag'', ucast (cpu_to_be16 HQOS_MAGIC_TAG)),
                        (in_view l ''vlan1'', of_nat (skb_hnat_entry k)), (bfib1 ''vlan_layer'', 1)] e2
              else e2)"

text \<open>Where \<open>tport_id\<close> is, for the types outside the IPv4 group.\<close>

definition tport_view :: "foe_words \<Rightarrow> layout" where
  "tport_view e =
     (if pkt_type e = IPV4_MAP_E \<or> pkt_type e = IPV4_MAP_T then hnat_ipv4_mape
      else if pkt_type e = IPV6_HNAPT \<or> pkt_type e = IPV6_HNAT then hnat_ipv6_hnapt
      else hnat_ipv6_5t_route)"

definition bind_queue ::
  "nf_env \<Rightarrow> nf_state \<Rightarrow> sk_buff \<Rightarrow> nat \<Rightarrow> bool \<Rightarrow> u32 \<Rightarrow> u32 \<Rightarrow> foe_words \<Rightarrow> foe_words" where
  "bind_queue v s k d mape gmac qid e =
     (let whnat = dev_is_whnat v s d;
          from_eth = (FROM_GE_LAN_GRP k \<or> FROM_GE_WAN k \<or> FROM_GE_VIRTUAL k);
          no_fqos = (FROM_EXT k \<or> skb_hnat_sport k = NR_QDMA_PORT);
          flag = HQOS_FLAG v d k qid
      in if IS_IPV4_GRP e
         then let l = hnat_ipv4_hnapt;
                  e1 = asg [(iblk2 l ''dp'', gmac AND 0xf), (iblk2 l ''port_mg'', 0)] e
              in if v_qos v \<noteq> 0
                 then let e2 = put_qid s l (((dev_is_ext v s d \<and> from_eth) \<or> (v_mape v \<and> mape \<and> \<not> FROM_EXT k))
                                             \<and> \<not> whnat) k qid e1
                      in if no_fqos then wr (iblk2 l ''fqos'') 0 e2
                         else asg [(in_view l ''tport_id'', if flag then NR_QDMA_TPORT else 0),
                                   (iblk2 l ''fqos'', b2u flag)] e2
                 else wr (iblk2 l ''fqos'') 0 e1
         else if pkt_type e = L2_BRIDGE
         then let l = hnat_l2_bridge;
                  e1 = asg [(iblk2 l ''dp'', gmac AND 0xf), (iblk2 l ''port_mg'', 0)] e
              in if v_qos v \<noteq> 0
                 then asg [(iblk2 l ''qid'', qid AND 0x7f), (iblk2 l ''fqos'', b2u (\<not> no_fqos \<and> flag))] e1
                 else wr (iblk2 l ''fqos'') 0 e1
         else let l = hnat_ipv6_5t_route;
                  e1 = asg [(iblk2 l ''dp'', gmac AND 0xf), (iblk2 l ''port_mg'', 0)] e
              in if v_qos v \<noteq> 0
                 then let e2 = put_qid s l (dev_is_ext v s d \<and> from_eth \<and> \<not> whnat) k qid e1
                      in if no_fqos then wr (iblk2 l ''fqos'') 0 e2
                         else asg [(in_view (tport_view e2) ''tport_id'', if flag then NR_QDMA_TPORT else 0),
                                   (iblk2 l ''fqos'', b2u flag)] e2
                 else wr (iblk2 l ''fqos'') 0 e1)"

text \<open>With L4S, a flow from Wi-Fi to Ethernet is bound to the tunnel engine, which knows the port.\<close>

definition bind_l4s :: "nf_env \<Rightarrow> nf_state \<Rightarrow> sk_buff \<Rightarrow> nat \<Rightarrow> foe_words \<Rightarrow> foe_words" where
  "bind_l4s v s k d e =
     (if \<not> (v_l4s v \<and> FROM_WED k \<and> \<not> dev_is_whnat v s d) then e
      else let l = (if IS_IPV4_GRP e then hnat_ipv4_hnapt else hnat_ipv6_5t_route);
               t = (if IS_IPV4_GRP e then hnat_ipv4_hnapt else tport_view e)
           in asg [(in_view t ''tops_entry'', rd e (iblk2 t ''dp'')), (iblk2 l ''dp'', of_nat NR_TDMA_PORT),
                   (in_view t ''tport_id'', 0), (iblk2 l ''fqos'', 0), (iblk2 l ''qid'', 0)] e)"

section \<open>The end of binding\<close>

text \<open>The calls of a registered callback, and the counters of the entry, which start anew.\<close>

definition IS_HNAT_API_SUPPORTED :: "foe_words \<Rightarrow> bool" where
  "IS_HNAT_API_SUPPORTED e = (pkt_type e = IPV4_HNAPT \<or> pkt_type e = IPV6_5T_ROUTE)"

definition told :: "nf_env \<Rightarrow> nat option \<Rightarrow> sk_buff \<Rightarrow> nf_state \<Rightarrow> nf_state" where
  "told v func k s =
     s\<lparr>nf_told := nf_told s @ hnat_trigger_callback func (api_skb k)
                    (map_option (dev_name v) (v_by_index v (sb_iif k)))
                    (case sb_dev k of None \<Rightarrow> [] | Some d \<Rightarrow> dev_name v d) (nf_core s)\<rparr>"

definition reset_acct :: "nat \<Rightarrow> nat \<Rightarrow> sk_buff \<Rightarrow> nf_state \<Rightarrow> nf_state" where
  "reset_acct p i k s =
     s\<lparr>nf_acct := (nf_acct s)(p := (nf_acct s p)(i :=
         zero_acct\<lparr>ac_zone := (case sb_ct k of None \<Rightarrow> 0 | Some ct \<Rightarrow> ct_zone ct)\<rparr>))\<rparr>"

text \<open>A flow to Wi-Fi waits for the Wi-Fi driver: it goes to the list of flows.\<close>

definition bind_wifi :: "nf_env \<Rightarrow> sk_buff \<Rightarrow> foe_words \<Rightarrow> nf_state \<Rightarrow> int \<times> sk_buff \<times> nf_state" where
  "bind_wifi v k e s =
     (case flow_prepare (v_mem_ok v) (v_jiffies v) e (of_nat (nf_ppe s k)) (of_nat (skb_hnat_entry k)) (nf_core s) of
        (ret, h) \<Rightarrow>
          (ret, if ret = 0 then upd_desc (\<lambda>x. x\<lparr>hd_filled := HNAT_INFO_FILLED\<rparr>) k else k, s\<lparr>nf_core := h\<rparr>))"

text \<open>Every other flow goes to the table if its entry is still unbound.  The result 1 is \<open>NF_ACCEPT\<close>.\<close>

definition bind_table :: "nf_env \<Rightarrow> sk_buff \<Rightarrow> foe_words \<Rightarrow> nf_state \<Rightarrow> int \<times> sk_buff \<times> nf_state" where
  "bind_table v k e s =
     (let p = nf_ppe s k; i = skb_hnat_entry k; mc = mcast_hook_toggle (nf_mc s)
      in if mc \<and> hnat_mcast_chk_blist (mc_entry e) (nf_mc s) then (1, k, s)
         else (case (if mc \<and> is_multicast_ether_addr (h_dest (eth_hdr k))
                     then mcast_bind v p i (case sb_dev k of None \<Rightarrow> 0 | Some d \<Rightarrow> dev_ifindex v d) e s
                     else (0, e, s)) of
                 (ret, e1, s1) \<Rightarrow>
                   (if ret \<noteq> 0 then (1, k, s1)
                    else if \<not> v_trylock v \<or> rd (foe_of s1 p i) (udib1 ''state'') \<noteq> state_code UNBIND then (- 1, k, s1)
                    else let s2 = hnat_foe_entry_commit p i e1 (state_code BIND) s1;
                             cb = hnat_bind_callback (nf_cbs s2);
                             s3 = (if cb \<noteq> None \<and> IS_HNAT_API_SUPPORTED e1 then told v cb k s2 else s2)
                         in (0, k, if h_per_flow_accounting (nf_core s3) \<and> i < h_etry_num (nf_core s3)
                                      \<and> p < CFG_PPE_NUM s3
                                   then reset_acct p i k s3 else s3))))"

text \<open>From the label \<open>hnat_entry_bind\<close>: the entry as the engine is to run it.\<close>

definition bind_from ::
  "nf_env \<Rightarrow> nat \<Rightarrow> hw_path \<Rightarrow> u16 \<Rightarrow> nat \<Rightarrow> bool \<Rightarrow> foe_words \<Rightarrow> sk_buff \<Rightarrow> nf_state
     \<Rightarrow> int \<times> sk_buff \<times> nf_state" where
  "bind_from v d hp ep off mape e k s =
     (case bind_port v s k d mape (foe_of_skb s k) (ppe_fill_info_blk v s hp e) of
        None \<Rightarrow> (- 1, k, s)
      | Some (gmac, port_id, mac, e1) \<Rightarrow>
          let e2 = bind_queue v s k d mape gmac (bind_qid v k d port_id mac ep off) e1;
              e3 = bind_l4s v s k d (hnat_fill_offload_engine_entry v k e2)
          in if dev_is_whnat v s d then bind_wifi v k e3 s else bind_table v k e3 s)"

text \<open>A packet that a tunnel or the crypto engine has still to work on leaves its translated headers in the
  unbound entry.\<close>

definition engine_pending :: "sk_buff \<Rightarrow> hw_path \<Rightarrow> bool" where
  "engine_pending k hp =
     ((skb_hnat_tops k \<noteq> 0 \<and> path_flag hp DEV_PATH_TNL) \<or>
      (skb_hnat_cdrt k = 0 \<and> skb_hnat_is_encrypt k
       \<and> (case sb_dst k of None \<Rightarrow> False | Some d \<Rightarrow> dst_xfrm d)))"

definition unbind_entry :: "foe_words \<Rightarrow> foe_words" where
  "unbind_entry foe =
     asg [(bfib1 ''pkt_type'', rd foe (udib1 ''pkt_type'')), (bfib1 ''state'', rd foe (udib1 ''state'')),
          (bfib1 ''sp'', rd foe (udib1 ''sp''))] zero_words"

definition skb_to_hnat_info ::
  "nf_env \<Rightarrow> nat \<Rightarrow> hw_path \<Rightarrow> sk_buff \<Rightarrow> nf_state \<Rightarrow> int \<times> sk_buff \<times> nf_state" where
  "skb_to_hnat_info v d hp k s =
     (let foe = foe_of_skb s k; ret = hnat_offload_engine_done v k hp; e = unbind_entry foe
      in if \<not> mcast_hook_toggle (nf_mc s) \<and> is_multicast_ether_addr (hp_eth_dest hp) then (- 1, k, s)
         else if ret = 1 then bind_from v d hp 0 0 False (hnat_get_filled_unbind_entry foe) k s
         else if ret = - 1 then (- 1, k, s)
         else if rd e (bfib1 ''state'') \<noteq> state_code UNBIND then (- 1, k, s)
         else (case bind_proto v k e hp of
                 None \<Rightarrow> (- 1, k, s)
               | Some (ep, off, hp') \<Rightarrow>
              (case fill_headers v s d k ep off hp' foe e of
                 None \<Rightarrow> (- 1, k, s)
               | Some (e1, mape) \<Rightarrow>
                   let s1 = (if mape then s\<lparr>nf_l2w := bytes_at (sb_bytes k) (sb_net k + off) IPV6_HDR_LEN\<rparr> else s);
                       e2 = ppe_fill_L2_info hp' e1
                   in if engine_pending k hp'
                      then (0, k, hnat_foe_entry_commit (nf_ppe s k) (skb_hnat_entry k) e2
                                    (rd e2 (udib1 ''state'')) s1)
                      else bind_from v d hp' ep off mape e2 k s1)))"

end
