(* ===== verification/Hnat_Pingpong.thy ===== *)
theory Hnat_Pingpong
  imports Hnat_Info
begin

text \<open>
  The ping-pong of \<^verbatim>\<open>hnat_nf_hook.c\<close>: packets of extension devices are sent to the engine through the
  device for this purpose, come back with the interface index in their VLAN tag, and packets that the engine
  sends to the processor for an extension device go on to it.

  A result is the value of the function, the packet if the driver still has it (\<open>None\<close> after it was
  freed or handed on), and the state.  Functions that may write memory the driver must not write (outside
  of the buffer, or over the descriptor at its start) have the result \<open>None\<close> when they do.
\<close>

section \<open>Bytes of packets\<close>

definition put16 :: "nat \<Rightarrow> u16 \<Rightarrow> (nat \<Rightarrow> u8) \<Rightarrow> (nat \<Rightarrow> u8)" where
  "put16 i x = put_bytes i [ucast x, ucast (drop_bit 8 x)]"

definition PACKET_HOST :: nat where "PACKET_HOST = 0"
definition PACKET_BROADCAST :: nat where "PACKET_BROADCAST = 1"
definition PACKET_MULTICAST :: nat where "PACKET_MULTICAST = 2"

definition fix_skb_packet_type :: "nf_env \<Rightarrow> nat \<Rightarrow> u8 list \<Rightarrow> sk_buff \<Rightarrow> sk_buff" where
  "fix_skb_packet_type v d dest k =
     k\<lparr>sb_pkt_type := (if \<not> is_multicast_ether_addr dest then PACKET_HOST
                       else if dest = dv_broadcast (v_devs v d) then PACKET_BROADCAST else PACKET_MULTICAST)\<rparr>"

text \<open>An IPv6 header before the IPv4 header of the packet, behind the Ethernet header.  The call that moves
  the Ethernet header names \<open>skb->data\<close> in one argument and pushes in the other: which comes first is up
  to the compiler.  \<open>dst\<close> is where the Ethernet header goes, \<open>data\<close> where the data starts in the end.\<close>

definition mape_add_ipv6_hdr :: "bool \<Rightarrow> u8 list \<Rightarrow> sk_buff \<Rightarrow> (int \<times> sk_buff) option" where
  "mape_add_ipv6_hdr push_first h6 k =
     (if skb_headroom k < IPV6_HDR_LEN \<or> sb_shared k \<or> (sb_cloned k \<and> \<not> sb_clone_writable k) then Some (- 1, k)
      else let dst = int (sb_data k) - (if push_first then 68 else 54);
               data = sb_data k - IPV6_HDR_LEN
           in if dst < int FOE_INFO_LEN \<or> data < FOE_INFO_LEN + ETH_HLEN then None
              else let b1 = put_bytes (nat dst) (bytes_at (sb_bytes k) (sb_data k - ETH_HLEN) ETH_HLEN) (sb_bytes k);
                       b2 = put_bytes data h6 b1;
                       b3 = put16 (data - ETH_HLEN + 12) (cpu_to_be16 ETH_P_IPV6) b2;
                       ip = iphdr_at b3 (data + IPV6_HDR_LEN);
                       b4 = put16 (data + 4) (ip_tot_len ip) b3
                   in Some (0, skb_set_transport_header (unat (ip_ihl ip) * 4 + IPV6_HDR_LEN)
                                 (skb_set_network_header 0
                                   ((skb_push IPV6_HDR_LEN k)\<lparr>sb_bytes := b4,
                                                             sb_protocol := cpu_to_be16 ETH_P_IPV6\<rparr>))))"

section \<open>Devices\<close>

text \<open>The device of the wide area network, looked up when it is not known.\<close>

definition find_wandev :: "nf_env \<Rightarrow> nf_state \<Rightarrow> nf_state" where
  "find_wandev v s =
     (if g_wandev (nf_ext s) \<noteq> None then s
      else (case v_by_name v (v_wan v) of
              None \<Rightarrow> s
            | Some d \<Rightarrow> s\<lparr>nf_ext := (dev_hold d (nf_ext s))\<lparr>g_wandev := Some d\<rparr>\<rparr>))"

definition get_wandev_from_index :: "nf_env \<Rightarrow> nat \<Rightarrow> nf_state \<Rightarrow> nat option \<times> nf_state" where
  "get_wandev_from_index v index s =
     (let s1 = find_wandev v s
      in (case g_wandev (nf_ext s1) of
            None \<Rightarrow> None
          | Some d \<Rightarrow> if dev_ifindex v d = index then Some d else None, s1))"

definition find_ppdev :: "nf_env \<Rightarrow> nf_state \<Rightarrow> nf_state" where
  "find_ppdev v s =
     (if g_ppdev (nf_ext s) \<noteq> None then s
      else (case v_by_name v (v_ppd v) of
              None \<Rightarrow> s
            | Some d \<Rightarrow> s\<lparr>nf_ext := (dev_hold d (nf_ext s))\<lparr>g_ppdev := Some d\<rparr>\<rparr>))"

text \<open>The index a tag carries.\<close>

definition tag_ifindex :: "sk_buff \<Rightarrow> nat" where
  "tag_ifindex k = unat (sb_vlan_tci k AND VLAN_VID_MASK)"

section \<open>From an extension device to the engine\<close>

definition to_ppe :: "nf_env \<Rightarrow> nat \<Rightarrow> nat \<Rightarrow> sk_buff \<Rightarrow> sk_buff" where
  "to_ppe v ifindex ppd k =
     k\<lparr>sb_vlan_proto := cpu_to_be16 ETH_P_8021Q,
       sb_vlan_tci := VLAN_CFI_MASK OR (of_nat ifindex AND VLAN_VID_MASK), sb_dev := Some ppd\<rparr>"

definition do_hnat_ext_to_ge ::
  "nf_env \<Rightarrow> nat \<Rightarrow> sk_buff \<Rightarrow> nf_state \<Rightarrow> int \<times> sk_buff option \<times> nf_state" where
  "do_hnat_ext_to_ge v d k s =
     (case g_ppdev (nf_ext s) of
        None \<Rightarrow> (- 1, Some k, s)
      | Some ppd \<Rightarrow>
          if \<not> dv_up (v_devs v ppd) then (- 1, Some k, s)
          else let k1 = (skb_push ETH_HLEN (skb_set_network_header 0 k))\<lparr>sb_cb2 := TO_PPE_MAGIC\<rparr>
               in (case (if skb_vlan_tag_get_id k1 \<noteq> 0 then v_vlan_insert v k1 else Some k1) of
                     None \<Rightarrow> (- 1, None, s)
                   | Some k2 \<Rightarrow> (0, None, emit (Dev_queue_xmit (to_ppe v (dev_ifindex v d) ppd k2)) s)))"

section \<open>Back from the engine\<close>

text \<open>A packet the engine has no entry for: it is received again, on the device it came from.  The destination
  is read where the MAC header was before a tag was taken out.\<close>

definition from_ppe :: "nf_env \<Rightarrow> nf_state \<Rightarrow> nat \<Rightarrow> u16 \<Rightarrow> sk_buff \<Rightarrow> sk_buff" where
  "from_ppe v s d mac k =
     (let none = (if hnat_v2_or_v3 (nf_core s) then 0x7fff else 0x3fff);
          k1 = (if dev_is_bond v d \<and> skb_hnat_entry k \<noteq> none
                then k\<lparr>sb_hash := of_nat (skb_hnat_entry k div 2)\<rparr> else k)
      in fix_skb_packet_type v (case sb_dev k1 of None \<Rightarrow> d | Some d' \<Rightarrow> d')
           (h_dest (ethhdr_at (sb_bytes k1) (unat mac))) (k1\<lparr>sb_cb2 := EXTGE_MAGIC\<rparr>))"

text \<open>A MAP-E packet from the wide area network gets back its IPv6 header, and its entry a type to be bound
  with.\<close>

definition mape_pong ::
  "nf_env \<Rightarrow> nat \<Rightarrow> sk_buff \<Rightarrow> nf_state \<Rightarrow> (int \<times> sk_buff option \<times> nf_state) option" where
  "mape_pong v d k s =
     (case mape_add_ipv6_hdr (v_push_first v) (nf_w2l s) k of
        None \<Rightarrow> None
      | Some (ret, k1) \<Rightarrow>
          if ret \<noteq> 0 then Some (- 1, Some k1, s)
          else let k2 = (skb_set_mac_header (- int ETH_HLEN) k1)
                          \<lparr>sb_dev := Some d, sb_cb2 := MAPE_MAGIC, sb_vlan_proto := 0, sb_vlan_tci := 0\<rparr>;
                   k3 = fix_skb_packet_type v d (h_dest (eth_hdr k2)) k2
               in Some (0, None, emit (Netif_rx k3)
                          (upd_entry (nf_ppe s k3) (skb_hnat_entry k3) (wr (bfib1 ''pkt_type'') IPV4_HNAPT) s)))"

definition do_hnat_ext_to_ge2 ::
  "nf_env \<Rightarrow> sk_buff \<Rightarrow> nf_state \<Rightarrow> (int \<times> sk_buff option \<times> nf_state) option" where
  "do_hnat_ext_to_ge2 v k s =
     (if skb_hnat_entry k \<ge> h_etry_num (nf_core s) \<or> nf_ppe s k \<ge> CFG_PPE_NUM s then Some (- 1, Some k, s)
      else (case get_dev_from_index (v_devs v) (tag_ifindex k) (nf_ext s) of
              Some d \<Rightarrow>
                let k1 = k\<lparr>sb_dev := Some d, sb_vlan_proto := 0, sb_vlan_tci := 0\<rparr>
                in (case (if be16_to_cpu (h_proto (eth_hdr k1)) = ETH_P_8021Q then v_vlan_untag v k1 else Some k1) of
                      None \<Rightarrow> Some (- 1, None, s)
                    | Some k2 \<Rightarrow> Some (0, None, emit (Netif_rx (from_ppe v s d (sb_mac k) k2)) s))
            | None \<Rightarrow>
                (case get_wandev_from_index v (tag_ifindex k) s of
                   (Some d, s1) \<Rightarrow> if v_mape v then mape_pong v d k s1 else Some (- 1, Some k, s1)
                 | (None, s1) \<Rightarrow> Some (- 1, Some k, s1))))"

section \<open>From the engine to an extension device\<close>

definition foe_act_dp :: "foe_words \<Rightarrow> nat" where
  "foe_act_dp e =
     unat (rd e (in_view (if IS_IPV4_GRP e then hnat_ipv4_hnapt else hnat_ipv6_5t_route) ''act_dp'')
           AND UDF_PINGPONG_IFIDX)"

text \<open>With QoS in hardware, the tag with the index of the entry is taken out.\<close>

definition pull_hqos_tag :: "sk_buff \<Rightarrow> sk_buff" where
  "pull_hqos_tag k =
     (let k1 = skb_pull VLAN_HLEN k
      in upd_bytes (put_bytes (sb_data k1 - ETH_HLEN)
                      (bytes_at (sb_bytes k1) (sb_data k1 - ETH_HLEN - VLAN_HLEN) (2 * ETH_ALEN))) k1)"

text \<open>The part of the function for a packet without a device: MAP-E to the wide area network, and otherwise
  an entry that is not to be used any more.\<close>

definition ge_to_ext_down ::
  "nf_env \<Rightarrow> nat \<Rightarrow> sk_buff \<Rightarrow> nf_state \<Rightarrow> (int \<times> sk_buff option \<times> nf_state) option" where
  "ge_to_ext_down v index k s =
     (case (if v_mape v then get_wandev_from_index v index s else (None, s)) of
        (Some d, s1) \<Rightarrow>
          (case mape_add_ipv6_hdr (v_push_first v) (nf_l2w s1) k of
             None \<Rightarrow> None
           | Some (ret, k1) \<Rightarrow>
               if ret \<noteq> 0 then Some (- 1, Some k1, s1)
               else Some (0, None,
                      emit (Dev_queue_xmit ((skb_set_mac_header 0 (skb_push ETH_HLEN (skb_set_network_header 0 k1)))
                                              \<lparr>sb_dev := Some d\<rparr>)) s1))
      | (None, s1) \<Rightarrow>
          let e = foe_of_skb s1 k;
              f = in_view (if IS_IPV4_GRP e then hnat_ipv4_hnapt else hnat_ipv6_5t_route) ''act_dp''
          in Some (- 1, Some k,
                   if entry_hnat_is_bound e
                   then upd_core (hnat_cache_clr (v_dev_model v) (nf_ppe s1 k))
                          (upd_entry (nf_ppe s1 k) (skb_hnat_entry k)
                             (\<lambda>e. let e1 = wr (bfib1 ''state'') (state_code INVALID) e
                                  in wr f (rd e1 f AND NOT UDF_PINGPONG_IFIDX) e1) s1)
                   else s1))"

text \<open>1 is \<open>NF_ACCEPT\<close>.  \<open>skb_unshare\<close> gives a packet that has clones up for a copy, and its caller still
  holds the packet given up: \<open>None\<close>.  When the copy cannot be pulled it is lost besides.\<close>

definition do_hnat_ge_to_ext ::
  "nf_env \<Rightarrow> sk_buff \<Rightarrow> nf_state \<Rightarrow> (int \<times> sk_buff option \<times> nf_state) option" where
  "do_hnat_ge_to_ext v k s =
     (if skb_hnat_entry k \<ge> h_etry_num (nf_core s) \<or> nf_ppe s k \<ge> CFG_PPE_NUM s then Some (- 1, Some k, s)
      else let index = foe_act_dp (foe_of_skb s k)
           in (case get_dev_from_index (v_devs v) index (nf_ext s) of
                 None \<Rightarrow> Some (0, Some k, s)
               | Some d \<Rightarrow>
                   let k1 = k\<lparr>sb_dev := Some d\<rparr>;
                       send = (\<lambda>k. if sb_dev k \<noteq> None
                                   then Some (0, None, emit (Dev_queue_xmit
                                                 (skb_push ETH_HLEN (skb_set_network_header 0 k))) s)
                                   else ge_to_ext_down v index k s)
                   in if IS_HQOS_MODE v \<and> h_proto (eth_hdr k1) = HQOS_MAGIC_TAG
                      then (case v_unshare v k1 of
                              None \<Rightarrow> Some (1, None, s)
                            | Some k2 \<Rightarrow> if \<not> v_may_pull v k2
                                         then Some (1, if sb_cloned k1 then None else Some k2, s)
                                         else send (pull_hqos_tag k2))
                      else send k1))"

section \<open>Which packets\<close>

definition do_ge2ext_fast :: "nf_env \<Rightarrow> nf_state \<Rightarrow> nat \<Rightarrow> sk_buff \<Rightarrow> bool" where
  "do_ge2ext_fast v s d k =
     ((dev_is_lan_grp v d \<or> dev_is_wan v d \<or> dev_is_ppd v d) \<and> nf_hashed s k
      \<and> skb_hnat_reason k = HIT_BIND_FORCE_TO_CPU)"

text \<open>The test may look the device of the wide area network up.\<close>

definition do_ext2ge_fast_learn :: "nf_env \<Rightarrow> nat \<Rightarrow> sk_buff \<Rightarrow> nf_state \<Rightarrow> bool \<times> nf_state" where
  "do_ext2ge_fast_learn v d k s =
     (if dev_is_ppd v d \<and> (unat (skb_hnat_sport k) = NR_PDMA_PORT \<or> skb_hnat_sport k = NR_QDMA_PORT)
      then if get_dev_from_index (v_devs v) (tag_ifindex k) (nf_ext s) \<noteq> None then (True, s)
           else (case get_wandev_from_index v (tag_ifindex k) s of (w, s1) \<Rightarrow> (w \<noteq> None, s1))
      else (False, s))"

end
