(* ===== verification/Hnat_Acct.thy ===== *)
theory Hnat_Acct
  imports Hnat_Info
begin

text \<open>
  Counting traffic: the counters of the engine, which are cleared when they are read, are added to those the
  driver keeps for an entry and reported to virtual devices and to connection tracking
  (\<^verbatim>\<open>hnat_debugfs.c\<close>); \<open>get_ppe_mib\<close>, and the counter functions of \<^verbatim>\<open>hnat_api.c\<close>.
\<close>

section \<open>Reading the engine\<close>

definition read_mib :: "nf_env \<Rightarrow> nf_state \<Rightarrow> nat \<Rightarrow> nat \<Rightarrow> (64 word \<times> 64 word) option" where
  "read_mib v s p i =
     (if p \<ge> CFG_PPE_NUM s then None
      else (case v_mib v p i of
              None \<Rightarrow> None
            | Some (r0, r1, r2, r3) \<Rightarrow>
                Some (if h_version (nf_core s) = Hnat_State.MTK_HNAT_V3
                      then (ucast r0 + push_bit 32 (ucast r1), ucast r2 + push_bit 32 (ucast r3))
                      else (ucast r0 + push_bit 32 (ucast (r1 AND 0xffff)),
                            ucast (drop_bit 16 (r1 AND 0xffff0000)) + push_bit 16 (ucast (r2 AND 0xffffff))))))"

section \<open>Reports\<close>

definition vif_call :: "nf_env \<Rightarrow> int \<Rightarrow> (nat \<Rightarrow> acct_call) \<Rightarrow> acct_call list" where
  "vif_call v ifindex c =
     (if ifindex = 0 then []
      else (case v_by_index v (nat ifindex) of
              None \<Rightarrow> []
            | Some d \<Rightarrow> if dv_stats64 (v_devs v d) then [c d] else []))"

definition hnat_vif_acct_update ::
  "nf_env \<Rightarrow> nf_state \<Rightarrow> nat \<Rightarrow> nat \<Rightarrow> 64 word \<Rightarrow> 64 word \<Rightarrow> acct_call list" where
  "hnat_vif_acct_update v s p i bytes packets =
     vif_call v (ac_iif (nf_acct s p i)) (\<lambda>d. Vif_rx d packets bytes)
     @ vif_call v (ac_oif (nf_acct s p i)) (\<lambda>d. Vif_tx d packets bytes)"

text \<open>The connection of an entry: of its packets as they come in.\<close>

definition acct_tuple :: "foe_words \<Rightarrow> ct_tuple option" where
  "acct_tuple e =
     (let ep = (if rd e (bfib1 ''udp'') \<noteq> 0 then IPPROTO_UDP else IPPROTO_TCP);
          l4 = hnat_ipv4_hnapt; l6 = hnat_ipv6_5t_route
      in if pkt_type e \<in> set [IPV4_HNAT, IPV4_HNAPT, IPV4_DSLITE, IPV4_MAP_T, IPV4_MAP_E]
         then Some \<lparr>tu_v6 = False, tu_src = [htonl (rd e (in_view l4 ''sip''))],
                    tu_dst = [htonl (rd e (in_view l4 ''dip''))],
                    tu_sport = cpu_to_be16 (ucast (rd e (in_view l4 ''sport''))),
                    tu_dport = cpu_to_be16 (ucast (rd e (in_view l4 ''dport''))), tu_proto = ep\<rparr>
         else if pkt_type e \<in> set [IPV6_6RD, IPV6_HNAT, IPV6_HNAPT, IPV6_3T_ROUTE, IPV6_5T_ROUTE]
         then Some \<lparr>tu_v6 = True, tu_src = map (\<lambda>m. htonl (rd e (in_view l6 m))) SIP6,
                    tu_dst = map (\<lambda>m. htonl (rd e (in_view l6 m))) DIP6,
                    tu_sport = cpu_to_be16 (ucast (rd e (in_view l6 ''sport''))),
                    tu_dport = cpu_to_be16 (ucast (rd e (in_view l6 ''dport''))), tu_proto = ep\<rparr>
         else None)"

definition hnat_nf_acct_update ::
  "nf_env \<Rightarrow> nf_state \<Rightarrow> nat \<Rightarrow> nat \<Rightarrow> 64 word \<Rightarrow> 64 word \<Rightarrow> acct_call list" where
  "hnat_nf_acct_update v s p i bytes packets =
     (case acct_tuple (foe_of s p i) of
        None \<Rightarrow> []
      | Some t \<Rightarrow> let z = ac_zone (nf_acct s p i)
                  in if v_ct_find v z t then [Ct_add z t bytes packets] else [])"

section \<open>Counting\<close>

text \<open>The bytes and packets since the last time, \<open>None\<close> on failure.\<close>

definition hnat_get_count ::
  "nf_env \<Rightarrow> nat \<Rightarrow> nat \<Rightarrow> nf_state \<Rightarrow> (64 word \<times> 64 word) option \<times> nf_state" where
  "hnat_get_count v p i s =
     (if p \<ge> CFG_PPE_NUM s \<or> i \<ge> h_etry_num (nf_core s) \<or> \<not> h_per_flow_accounting (nf_core s) then (None, s)
      else (case read_mib v s p i of
              None \<Rightarrow> (None, s)
            | Some (bytes, packets) \<Rightarrow>
                let a = nf_acct s p i;
                    s1 = s\<lparr>nf_acct := (nf_acct s)(p := (nf_acct s p)
                                       (i := a\<lparr>ac_bytes := ac_bytes a + bytes, ac_packets := ac_packets a + packets\<rparr>))\<rparr>
                in (Some (bytes, packets),
                    s1\<lparr>nf_stats := nf_stats s1 @ hnat_vif_acct_update v s1 p i bytes packets
                                   @ (if v_nf_stat v then hnat_nf_acct_update v s1 p i bytes packets else [])\<rparr>)))"

definition get_ppe_mib :: "nf_env \<Rightarrow> nat \<Rightarrow> int \<Rightarrow> nf_state \<Rightarrow> (int + 64 word \<times> 64 word) \<times> nf_state" where
  "get_ppe_mib v p index s =
     (if p \<ge> CFG_PPE_NUM s \<or> index < 0 \<or> index \<ge> int (h_etry_num (nf_core s)) then (Inl (- EINVAL), s)
      else (case hnat_get_count v p (nat index) s of
              (None, s1) \<Rightarrow> (Inl (- 1), s1)
            | (Some _, s1) \<Rightarrow>
                (if rd (foe_of s1 p (nat index)) (bfib1 ''state'') \<noteq> state_code BIND then Inl (- 1)
                 else Inr (ac_packets (nf_acct s1 p (nat index)), ac_bytes (nf_acct s1 p (nat index))), s1)))"

section \<open>The interface for other modules\<close>

text \<open>Its result when the engine is busy: success, with counts of zero.\<close>

definition mtk_hnat_get_mib_count_by_index ::
  "nf_env \<Rightarrow> u16 \<Rightarrow> u16 \<Rightarrow> bool \<Rightarrow> nf_state \<Rightarrow> hnat_status \<times> (64 word \<times> 64 word) option \<times> nf_state" where
  "mtk_hnat_get_mib_count_by_index v p i ptrs s =
     (if unat p \<ge> CFG_PPE_NUM s \<or> unat i \<ge> h_etry_num (nf_core s) then (HNAT_FAIL, None, s)
      else if \<not> h_per_flow_accounting (nf_core s) then (HNAT_FAIL, None, s)
      else if \<not> ptrs then (HNAT_FAIL, None, s)
      else if \<not> entry_hnat_is_bound (foe_of s (unat p) (unat i)) then (HNAT_ENTRY_NOT_FOUND, None, s)
      else (case hnat_get_count v (unat p) (unat i) s of
              (diff, s1) \<Rightarrow>
                (HNAT_SUCCESS, Some (case diff of None \<Rightarrow> (0, 0) | Some (bytes, packets) \<Rightarrow> (packets, bytes)), s1)))"

text \<open>All bound entries: how many there are, and the counts written, by engine and index.\<close>

definition mib_all_step ::
  "nf_env \<Rightarrow> nat \<times> nat \<Rightarrow> nat \<times> (nat \<times> nat \<times> 64 word \<times> 64 word) list \<times> nf_state
     \<Rightarrow> nat \<times> (nat \<times> nat \<times> 64 word \<times> 64 word) list \<times> nf_state" where
  "mib_all_step v pi acc =
     (case (pi, acc) of
        ((p, i), (cnt, out, s)) \<Rightarrow>
          if \<not> entry_hnat_is_bound (foe_of s p i) then acc
          else (case hnat_get_count v p i s of
                  (None, s1) \<Rightarrow> (cnt + 1, out, s1)
                | (Some (bytes, packets), s1) \<Rightarrow> (cnt + 1, out @ [(p, i, packets, bytes)], s1)))"

definition all_indices :: "nf_state \<Rightarrow> (nat \<times> nat) list" where
  "all_indices s = List.product [0 ..< CFG_PPE_NUM s] [0 ..< h_etry_num (nf_core s)]"

definition mtk_hnat_get_all_mib_counts ::
  "nf_env \<Rightarrow> bool \<Rightarrow> nf_state \<Rightarrow> nat \<times> (nat \<times> nat \<times> 64 word \<times> 64 word) list \<times> nf_state" where
  "mtk_hnat_get_all_mib_counts v ptrs s =
     (if \<not> h_per_flow_accounting (nf_core s) \<or> \<not> ptrs then (0, [], s)
      else fold (mib_all_step v) (all_indices s) (0, [], s))"

section \<open>Interfaces of an entry\<close>

text \<open>The first packet of a bound entry sets the ingress or egress interface of its counters.\<close>

definition mtk_hnat_update_acct_ifindex :: "nf_env \<Rightarrow> sk_buff \<Rightarrow> bool \<Rightarrow> nf_state \<Rightarrow> nf_state" where
  "mtk_hnat_update_acct_ifindex v k is_ingress s =
     (case sb_dev k of
        None \<Rightarrow> s
      | Some d \<Rightarrow>
          if dv_bridge_master (v_devs v d) \<or> \<not> nf_hashed s k \<or> nf_ppe s k \<ge> CFG_PPE_NUM s
             \<or> \<not> entry_hnat_is_bound (foe_of_skb s k) then s
          else let p = nf_ppe s k; i = skb_hnat_entry k; a = nf_acct s p i; x = int (dev_ifindex v d);
                   a' = (if is_ingress then (if ac_iif a = 0 then a\<lparr>ac_iif := x\<rparr> else a)
                         else (if ac_oif a = 0 then a\<lparr>ac_oif := x\<rparr> else a))
               in s\<lparr>nf_acct := (nf_acct s)(p := (nf_acct s p)(i := a'))\<rparr>)"

end
