(* ===== verification/Hnat_Pre.thy ===== *)
theory Hnat_Pre
  imports Hnat_Pingpong Hnat_Acct Hnat_Proto3t
begin

text \<open>
  The hooks of \<^verbatim>\<open>hnat_nf_hook.c\<close> on packets that come in: which packets the engine can take, where they
  come from, and the ping-pong.  The result of a hook is its verdict, the packet if the driver still has it,
  and the state; \<open>None\<close> is a null pointer dereferenced, or memory written that must not be.
\<close>

type_synonym hook_result = "(verdict \<times> sk_buff option \<times> nf_state) option"

section \<open>Marks in the descriptor\<close>

text \<open>Where the packet came from; a fragment behind it has a descriptor of its own.  A packet from a device
  that has no part in the offload loses its descriptor.\<close>

definition hnat_set_iif :: "nf_env \<Rightarrow> nf_state \<Rightarrow> nat \<Rightarrow> nat \<Rightarrow> hnat_desc \<Rightarrow> hnat_desc" where
  "hnat_set_iif v s d room x =
     (if dev_is_whnat v s d \<and> hd_iface x \<in> {FOE_MAGIC_WED0, FOE_MAGIC_WED1, FOE_MAGIC_WED2} then x
      else if dev_is_lan v d then x\<lparr>hd_iface := FOE_MAGIC_GE_LAN\<rparr>
      else if dev_is_lan2 v d then x\<lparr>hd_iface := FOE_MAGIC_GE_LAN2\<rparr>
      else if dev_is_ppd v d then x\<lparr>hd_iface := FOE_MAGIC_GE_PPD\<rparr>
      else if dev_is_ext v s d then x\<lparr>hd_iface := FOE_MAGIC_EXT\<rparr>
      else if dev_is_wan v d then x\<lparr>hd_iface := FOE_MAGIC_GE_WAN\<rparr>
      else if \<not> dev_is_br v d
      then if dv_offload_check (v_devs v d) \<noteq> None then x\<lparr>hd_iface := FOE_MAGIC_GE_VIRTUAL\<rparr>
           else if hd_magic_tag x = HNAT_MAGIC_TAG \<and> room \<ge> FOE_INFO_LEN then zero_desc
           else x\<lparr>hd_iface := FOE_INVALID\<rparr>
      else x)"

definition hnat_set_alg :: "bool \<Rightarrow> hnat_desc \<Rightarrow> hnat_desc" where
  "hnat_set_alg val x = x\<lparr>hd_alg := val\<rparr>"

definition hnat_set_head_frags :: "(nat \<Rightarrow> hnat_desc \<Rightarrow> hnat_desc) \<Rightarrow> sk_buff \<Rightarrow> sk_buff" where
  "hnat_set_head_frags f k =
     k\<lparr>sb_desc := f (skb_headroom k) (sb_desc k), sb_frag_list := map (\<lambda>(x, room). (f room x, room)) (sb_frag_list k)\<rparr>"

definition frags_alg :: "bool \<Rightarrow> sk_buff \<Rightarrow> sk_buff" where
  "frags_alg val = hnat_set_head_frags (\<lambda>_. hnat_set_alg val)"

definition frags_iif :: "nf_env \<Rightarrow> nf_state \<Rightarrow> nat \<Rightarrow> sk_buff \<Rightarrow> sk_buff" where
  "frags_iif v s d = hnat_set_head_frags (hnat_set_iif v s d)"

section \<open>464XLAT\<close>

text \<open>The descriptor of a flow that is about to be bound is kept for the packet after its translation.\<close>

definition mtk_464xlat_pre_process :: "sk_buff \<Rightarrow> nf_state \<Rightarrow> nf_state" where
  "mtk_464xlat_pre_process k s =
     (let i = skb_hnat_entry k; e = foe_of_skb s k
      in if i \<ge> h_etry_num (nf_core s) \<or> nf_ppe s k \<ge> CFG_PPE_NUM s then s
         else if entry_hnat_is_bound e then s\<lparr>nf_headroom := (nf_headroom s)(i := zero_desc)\<rparr>
         else if skb_hnat_reason_ready_bind s k then s\<lparr>nf_headroom := (nf_headroom s)(i := sb_desc k)\<rparr>
         else s)"

section \<open>Which packets the engine can take\<close>

text \<open>The configuration of protocols is that of the packet's engine; for an engine the driver does not run it
  is a null pointer.\<close>

definition prot_3t_of :: "nf_state \<Rightarrow> sk_buff \<Rightarrow> hnat_prot_3t_cfg option" where
  "prot_3t_of s k = (if nf_ppe s k < CFG_PPE_NUM s then Some (h_prot_3t (nf_core s) (nf_ppe s k)) else None)"

definition support_v4 :: "nf_env \<Rightarrow> nf_state \<Rightarrow> nat \<Rightarrow> sk_buff \<Rightarrow> (bool \<times> sk_buff) option" where
  "support_v4 v s off k =
     (let h = iphdr_at (sb_bytes k) (sb_net k + off)
      in if \<not> mcast_hook_toggle (nf_mc s) \<and> ipv4_is_multicast (ip_daddr h) then Some (False, k)
         else if (case v_decap_ok v of None \<Rightarrow> False | Some f \<Rightarrow> f k)
         then Some (True, upd_desc (\<lambda>x. x\<lparr>hd_is_decap := True\<rparr>) k)
         else if ip_protocol h \<in> {IPPROTO_TCP, IPPROTO_UDP, IPPROTO_IPV6} then Some (True, k)
         else (case prot_3t_of s k of
                 None \<Rightarrow> None
               | Some c \<Rightarrow> Some (hnat_prot_3t_support (Some c) (ipv4_chk c) (ip_protocol h), k)))"

definition support_v6 :: "nf_env \<Rightarrow> nf_state \<Rightarrow> nat \<Rightarrow> sk_buff \<Rightarrow> (bool \<times> sk_buff) option" where
  "support_v6 v s off k =
     (let h = ipv6hdr_at (sb_bytes k) (sb_net k + off);
          by_3t = (case prot_3t_of s k of
                     None \<Rightarrow> None
                   | Some c \<Rightarrow> Some (hnat_prot_3t_support (Some c) (ipv6_chk c) (ip6_nexthdr h), k))
      in if \<not> mcast_hook_toggle (nf_mc s) \<and> sb_bytes k (sb_net k + off + 24) = 0xff then Some (False, k)
         else if ip6_nexthdr h = IPPROTO_TCP \<or> ip6_nexthdr h = IPPROTO_UDP then Some (True, k)
         else if ip6_nexthdr h = NEXTHDR_IPIP
         then (case skb_header_pointer k (IPV6_HDR_LEN + off) 20 of
                 None \<Rightarrow> Some (False, k)
               | Some p \<Rightarrow> if ip_protocol (iphdr_at (sb_bytes k) p) \<in> {IPPROTO_TCP, IPPROTO_UDP}
                           then Some (True, k) else by_3t)
         else by_3t)"

definition is_ppe_support_type :: "nf_env \<Rightarrow> nf_state \<Rightarrow> sk_buff \<Rightarrow> (bool \<times> sk_buff) option" where
  "is_ppe_support_type v s k =
     (let dest = h_dest (eth_hdr k)
      in if \<not> is_magic_tag_valid k \<or> \<not> IS_SPACE_AVAILABLE_HEAD k then Some (False, k)
         else if skb_mac_header_was_set k \<and> skb_mac_header_len k \<ge> of_nat ETH_HLEN
                 \<and> (is_broadcast_ether_addr dest
                    \<or> (\<not> mcast_hook_toggle (nf_mc s) \<and> is_multicast_ether_addr dest)) then Some (False, k)
         else (case hnat_get_hdr_protocol k of
                 (ep, off) \<Rightarrow>
                   if ep = ETH_P_IP then support_v4 v s off k
                   else if ep = ETH_P_IPV6 then support_v6 v s off k
                   else if ep = ETH_P_8021Q then Some (True, k)
                   else Some (v_l2br v = 1, k)))"

section \<open>Tunnels\<close>

text \<open>The entry is that of the packet in the tunnel, and still unbound.\<close>

definition mtk_tnl_foe_valid :: "nf_state \<Rightarrow> sk_buff \<Rightarrow> bool" where
  "mtk_tnl_foe_valid s k =
     (let h = ip_hdr k; e = foe_of_skb s k; l = hnat_ipv4_hnapt
      in nf_hashed s k \<and> nf_ppe s k < CFG_PPE_NUM s
         \<and> ip_version h = 4 \<and> (ip_protocol h = IPPROTO_UDP \<or> ip_protocol h = IPPROTO_TCP)
         \<and> pkt_type e = IPV4_HNAPT \<and> rd e (bfib1 ''state'') = state_code UNBIND
         \<and> (case skb_ports k (unat (ip_ihl h) * 4) of
              None \<Rightarrow> False
            | Some (src, dst) \<Rightarrow>
                rd e (in_view l ''sip'') = ntohl (ip_saddr h) \<and> rd e (in_view l ''dip'') = ntohl (ip_daddr h)
                \<and> rd e (in_view l ''sport'') = ucast (be16_to_cpu src)
                \<and> rd e (in_view l ''dport'') = ucast (be16_to_cpu dst)
                \<and> rd e (bfib1 ''udp'') = b2u (ip_protocol h = IPPROTO_UDP)))"

text \<open>A packet out of a tunnel that the tunnel engine has taken note of, but whose entry is not its own.\<close>

definition tnl_decapped :: "nf_env \<Rightarrow> nf_state \<Rightarrow> sk_buff \<Rightarrow> bool \<times> sk_buff" where
  "tnl_decapped v s k =
     (case v_decap v of
        None \<Rightarrow> (False, k)
      | Some f \<Rightarrow>
          if skb_hnat_tops k \<noteq> 0 \<and> skb_hnat_is_decap k \<and> is_magic_tag_valid k
             \<and> skb_hnat_iface k = FOE_MAGIC_GE_VIRTUAL
          then (case f k of (ret, k1) \<Rightarrow> (ret = 0 \<and> \<not> mtk_tnl_foe_valid s k1, k1))
          else (False, k))"

section \<open>Before routing\<close>

definition stolen_or :: "verdict \<Rightarrow> int \<times> sk_buff option \<times> nf_state \<Rightarrow> verdict \<times> sk_buff option \<times> nf_state" where
  "stolen_or x r = (case r of (ret, k, s) \<Rightarrow> (if ret = 0 then NF_STOLEN else x, k, s))"

definition keepalive_iif :: "nf_env \<Rightarrow> sk_buff \<Rightarrow> nf_state \<Rightarrow> nf_state" where
  "keepalive_iif v k s =
     (if skb_hnat_reason k = HIT_BIND_KEEPALIVE_DUP_OLD_HDR \<and> h_per_flow_accounting (nf_core s)
      then mtk_hnat_update_acct_ifindex v k True s else s)"

text \<open>What the hooks for both protocols end with.\<close>

definition pre_routing_end :: "nf_env \<Rightarrow> nat \<Rightarrow> sk_buff \<Rightarrow> nf_state \<Rightarrow> hook_result" where
  "pre_routing_end v d k s =
     (if do_ext2ge_fast_try k then Some (stolen_or NF_ACCEPT (do_hnat_ext_to_ge v d k s))
      else if do_ge2ext_fast v s d k then map_option (stolen_or NF_DROP) (do_hnat_ge_to_ext v k s)
      else Some (NF_ACCEPT, Some k,
                 keepalive_iif v k (if v_xlat v then mtk_464xlat_pre_process k s else s)))"

definition mtk_hnat_ipv6_nf_pre_routing :: "nf_env \<Rightarrow> nat \<Rightarrow> sk_buff \<Rightarrow> nf_state \<Rightarrow> hook_result" where
  "mtk_hnat_ipv6_nf_pre_routing v d k s =
     (if \<not> is_magic_tag_valid k then Some (NF_ACCEPT, Some k, s)
      else (case is_ppe_support_type v s k of
              None \<Rightarrow> None
            | Some (ok, k1) \<Rightarrow> if \<not> ok then Some (NF_ACCEPT, Some (frags_alg True k1), s)
                               else pre_routing_end v d (frags_iif v s d k1) s))"

text \<open>A packet from a virtual device without the tunnel engine: a flow of a tunnel is not bound.\<close>

definition sw_tunnel :: "nf_env \<Rightarrow> sk_buff \<Rightarrow> sk_buff option" where
  "sw_tunnel v k =
     (if skb_hnat_iface k = FOE_MAGIC_GE_VIRTUAL
      then (case sb_dev k of
              None \<Rightarrow> None
            | Some d \<Rightarrow>
                (case dv_offload_check (v_devs v d) of
                   None \<Rightarrow> Some k
                 | Some f \<Rightarrow>
                     if v_decap v = None \<and> path_flag (snd (f (zero_path\<lparr>hp_dev := d, hp_virt_dev := d\<rparr>))) DEV_PATH_TNL
                     then Some (upd_desc (\<lambda>x. x\<lparr>hd_alg := True\<rparr>) k) else Some k))
      else Some k)"

definition mtk_hnat_ipv4_nf_pre_routing :: "nf_env \<Rightarrow> nat \<Rightarrow> sk_buff \<Rightarrow> nf_state \<Rightarrow> hook_result" where
  "mtk_hnat_ipv4_nf_pre_routing v d k s =
     (if \<not> is_magic_tag_valid k then Some (NF_ACCEPT, Some k, s)
      else (case is_ppe_support_type v s k of
              None \<Rightarrow> None
            | Some (ok, k1) \<Rightarrow>
                if \<not> ok then Some (NF_ACCEPT, Some (frags_alg True k1), s)
                else (case tnl_decapped v s (frags_iif v s d k1) of
                        (bad, k2) \<Rightarrow>
                          if bad then Some (NF_ACCEPT, Some (frags_alg True k2), s)
                          else (case sw_tunnel v k2 of
                                  None \<Rightarrow> None
                                | Some k3 \<Rightarrow> pre_routing_end v d k3 s))))"

section \<open>Bridges\<close>

text \<open>A frame to an address the bridge does not know would be bound to one port of many.\<close>

definition hnat_bridge_flood_check :: "nf_env \<Rightarrow> nf_state \<Rightarrow> nat \<Rightarrow> sk_buff \<Rightarrow> int \<times> sk_buff" where
  "hnat_bridge_flood_check v s d k =
     (let dev = v_devs v d; dest = h_dest (eth_hdr k)
      in if \<not> dv_bridge_port dev \<or> skb_hnat_alg k \<or> \<not> skb_hnat_reason_ready_bind s k
            \<or> is_multicast_ether_addr dest then (0, k)
         else (case dv_master dev of
                 None \<Rightarrow> (0, k)
               | Some br \<Rightarrow>
                   (case dv_offload_check (v_devs v br) of
                      None \<Rightarrow> (0, k)
                    | Some f \<Rightarrow>
                        let vid = (if \<not> dv_br_vlan (v_devs v br) then 0
                                   else if skb_vlan_tag_present k then skb_vlan_tag_get_id k
                                   else (case dv_pvid dev of None \<Rightarrow> 0 | Some x \<Rightarrow> x));
                            hp = set_path_flag DEV_PATH_ETHERNET
                                   (zero_path\<lparr>hp_dev := br, hp_vlan_id := vid, hp_eth_dest := dest\<rparr>)
                        in if fst (f hp) < 0 then (- EINVAL, upd_desc (\<lambda>x. x\<lparr>hd_alg := True\<rparr>) k) else (0, k))))"

text \<open>A frame that came back from the engine's queue carries the index of its entry in a tag.\<close>

definition hqos_mark :: "sk_buff \<Rightarrow> sk_buff" where
  "hqos_mark k =
     upd_desc (\<lambda>x. x\<lparr>hd_entry := ucast (be16_to_cpu (raw16 (sb_bytes k) (unat (sb_mac k) + 14)) AND 0x3fff),
                     hd_crsn := HIT_BIND_FORCE_TO_CPU\<rparr>) k"

text \<open>Step 2 of the learning of a packet from an extension device, and packets to one.\<close>

definition learn_or_send :: "nf_env \<Rightarrow> nat \<Rightarrow> sk_buff \<Rightarrow> nf_state \<Rightarrow> (sk_buff \<Rightarrow> nf_state \<Rightarrow> hook_result) \<Rightarrow> hook_result" where
  "learn_or_send v d k0 s cont =
     (let k = (if skb_hnat_iface k0 = FOE_MAGIC_EXT then clr_from_extge k0 else k0)
      in (case do_ext2ge_fast_learn v d k s of
            (learn, s1) \<Rightarrow>
              if learn \<and> (v_qos v = 0 \<or> h_proto (eth_hdr k) \<noteq> HQOS_MAGIC_TAG)
              then map_option (stolen_or NF_DROP) (do_hnat_ext_to_ge2 v k s1)
              else if do_ge2ext_fast v s1 d k then map_option (stolen_or NF_DROP) (do_hnat_ge_to_ext v k s1)
              else cont k s1))"

definition br_local_in_end :: "nf_env \<Rightarrow> nat \<Rightarrow> sk_buff \<Rightarrow> nf_state \<Rightarrow> hook_result" where
  "br_local_in_end v d k s =
     (if skb_hnat_iface k = FOE_MAGIC_EXT \<and> \<not> is_from_extge k \<and> \<not> is_multicast_ether_addr (h_dest (eth_hdr k))
      then Some (stolen_or NF_ACCEPT (do_hnat_ext_to_ge v d k (find_ppdev v s)))
      else (let fin = (\<lambda>k s. Some (NF_ACCEPT, Some k, keepalive_iif v k s))
            in if v_whnat v then learn_or_send v d k s fin else fin k s))"

definition mtk_hnat_br_nf_local_in :: "nf_env \<Rightarrow> nat \<Rightarrow> sk_buff \<Rightarrow> nf_state \<Rightarrow> hook_result" where
  "mtk_hnat_br_nf_local_in v d k0 s =
     (if \<not> is_magic_tag_valid k0 then Some (NF_ACCEPT, Some k0, s)
      else let k = (if IS_HQOS_MODE v \<and> v_whnat v \<and> h_proto (eth_hdr k0) = HQOS_MAGIC_TAG then hqos_mark k0 else k0)
           in (case (if HAS_HQOS_MAGIC_TAG v k then Some (True, k) else is_ppe_support_type v s k) of
                 None \<Rightarrow> None
               | Some (ok, k1) \<Rightarrow>
                   if \<not> ok then Some (NF_ACCEPT, Some (frags_alg True k1), s)
                   else (case tnl_decapped v s (frags_iif v s d k1) of
                           (bad, k2) \<Rightarrow>
                             if bad then Some (NF_ACCEPT, Some (frags_alg True k2), s)
                             else (case hnat_bridge_flood_check v s d k2 of
                                     (ret, k3) \<Rightarrow> if ret < 0 then Some (NF_ACCEPT, Some k3, s)
                                                  else br_local_in_end v d k3 s))))"

text \<open>The hook for the queue, on chips without acceleration of Wi-Fi.\<close>

definition mtk_pong_hqos_handler :: "nf_env \<Rightarrow> nat \<Rightarrow> sk_buff \<Rightarrow> nf_state \<Rightarrow> hook_result" where
  "mtk_pong_hqos_handler v d k s =
     (if \<not> is_magic_tag_valid k then Some (NF_ACCEPT, Some k, s)
      else learn_or_send v d
             (if IS_HQOS_MODE v \<and> h_proto (eth_hdr k) = HQOS_MAGIC_TAG then hqos_mark k else k) s
             (\<lambda>k s. Some (NF_ACCEPT, Some k, s)))"

text \<open>The handler of frames with the tag of the queue.\<close>

definition mtk_hqos_ptype_cb :: "nf_env \<Rightarrow> sk_buff \<Rightarrow> nf_state \<Rightarrow> (int \<times> sk_buff option \<times> nf_state) option" where
  "mtk_hqos_ptype_cb v k s =
     map_option (\<lambda>(ret, k, s). (if ret = - 1 then 1 else 0, k, s)) (do_hnat_ge_to_ext v (hqos_mark k) s)"

end
