(* ===== verification/Hnat_Xlat.thy ===== *)
theory Hnat_Xlat
  imports Hnat_Pre
begin

text \<open>
  464XLAT in \<^verbatim>\<open>hnat_nf_hook.c\<close>: a packet comes in with one version of IP and leaves with the other.  When it
  leaves, the entry of the packet as it came in is found by the hash of its untranslated addresses, which
  the table of translations (\<^verbatim>\<open>hnat_debugfs.c\<close>) gives, and filled from both.  \<open>l2w\<close> is the direction to the
  wide area network, with IPv6 leaving.
\<close>

section \<open>The table of translations\<close>

definition mtk_ppe_get_xlat_v6_by_v4 :: "nf_env \<Rightarrow> be32 \<Rightarrow> (be32 list \<times> be32 list) option" where
  "mtk_ppe_get_xlat_v6_by_v4 v a =
     map_option (\<lambda>m. (snd m, v_xlat_prefix v)) (find (\<lambda>m. fst m = a) (v_xlat_map v))"

definition mtk_ppe_get_xlat_v4_by_v6 :: "nf_env \<Rightarrow> be32 list \<Rightarrow> be32 option" where
  "mtk_ppe_get_xlat_v4_by_v6 v a = map_option fst (find (\<lambda>m. a = snd m) (v_xlat_map v))"

section \<open>The entry of the packet as it came in\<close>

text \<open>The members the hash is of; the others of the local entry are not set.\<close>

definition xlat_ports :: "layout \<Rightarrow> be16 \<times> be16 \<Rightarrow> (field \<times> u32) list" where
  "xlat_ports l pt = [(in_view l ''sport'', ucast (be16_to_cpu (fst pt))),
                      (in_view l ''dport'', ucast (be16_to_cpu (snd pt)))]"

definition xlat_key_l2w :: "nf_env \<Rightarrow> sk_buff \<Rightarrow> foe_words \<Rightarrow> foe_words option" where
  "xlat_key_l2w v k tmp =
     (let h = ipv6_hdr k; l = hnat_ipv4_hnapt
      in (case mtk_ppe_get_xlat_v4_by_v6 v (ip6_daddr h) of
            None \<Rightarrow> None
          | Some a \<Rightarrow>
              map_option (\<lambda>pt. asg ([(bfib1 ''pkt_type'', IPV4_HNAPT),
                                     (in_view l ''sip'', ntohl (ip6_saddr h ! 3)), (in_view l ''dip'', ntohl a)]
                                    @ xlat_ports l pt) tmp)
                (skb_ports k IPV6_HDR_LEN)))"

definition xlat_key_w2l :: "nf_env \<Rightarrow> sk_buff \<Rightarrow> foe_words \<Rightarrow> foe_words option" where
  "xlat_key_w2l v k tmp =
     (let h = ip_hdr k; l = hnat_ipv6_5t_route
      in (case mtk_ppe_get_xlat_v6_by_v4 v (ip_saddr h) of
            None \<Rightarrow> None
          | Some (a6, prefix) \<Rightarrow>
              map_option (\<lambda>pt. asg ([(bfib1 ''pkt_type'', IPV6_5T_ROUTE)] @ put_addr l SIP6 a6
                                    @ put_addr l DIP6 (take 3 prefix @ [ip_daddr h]) @ xlat_ports l pt) tmp)
                (skb_ports k (unat (ip_ihl h) * 4))))"

definition mtk_464xlat_get_hash :: "nf_env \<Rightarrow> nf_state \<Rightarrow> sk_buff \<Rightarrow> bool \<Rightarrow> u32 option" where
  "mtk_464xlat_get_hash v s k l2w =
     map_option (\<lambda>e. hnat_get_ppe_hash e (nf_core s))
       (if l2w then xlat_key_l2w v k zero_words else xlat_key_w2l v k zero_words)"

section \<open>Filling\<close>

definition mtk_464xlat_fill_info1 :: "nf_state \<Rightarrow> sk_buff \<Rightarrow> bool \<Rightarrow> foe_words \<Rightarrow> foe_words" where
  "mtk_464xlat_fill_info1 s k l2w =
     asg ([(bfib1 ''cah'', 1), (bfib1 ''ttl'', 1), (bfib1 ''state'', state_code BIND),
           (bfib1 ''time_stamp'', h_fe (nf_core s) FE_CLOCK AND 0xFF)]
          @ (if l2w then [(bfib1 ''pkt_type'', IPV4_DSLITE),
                          (bfib1 ''udp'', b2u (ip6_nexthdr (ipv6_hdr k) = IPPROTO_UDP))]
             else [(bfib1 ''pkt_type'', IPV6_6RD), (bfib1 ''udp'', b2u (ip_protocol (ip_hdr k) = IPPROTO_UDP))]))"

definition mtk_464xlat_fill_info2 :: "bool \<Rightarrow> foe_words \<Rightarrow> foe_words" where
  "mtk_464xlat_fill_info2 l2w =
     asg [(iblk2 hnat_ipv4_dslite ''mibf'', 1), (iblk2 hnat_ipv4_dslite ''port_ag'', 0xF),
          if l2w then (iblk2 hnat_ipv4_dslite ''dp'', of_nat NR_GMAC2_PORT)
          else (iblk2 hnat_ipv6_6rd ''dp'', of_nat NR_GMAC1_PORT)]"

definition mtk_464xlat_fill_ipv4 :: "nf_state \<Rightarrow> sk_buff \<Rightarrow> foe_words \<Rightarrow> bool \<Rightarrow> foe_words \<Rightarrow> foe_words" where
  "mtk_464xlat_fill_ipv4 s k foe l2w =
     (let h = ip_hdr k; l = hnat_ipv6_6rd
      in asg (if l2w then cp hnat_ipv4_dslite [''sip'', ''dip'', ''sport'', ''dport''] foe
              else [(in_view l ''tunnel_sipv4'', ntohl (ip_saddr h)), (in_view l ''tunnel_dipv4'', ntohl (ip_daddr h))]
                   @ cp l [''sport'', ''dport''] foe
                   @ [(in_view l ''hdr_chksum'', ucast (ppe_get_chkbase (h_version (nf_core s)) h)),
                      (in_view l ''ttl'', ucast (ip_ttl h)), (in_view l ''dscp'', ucast (ip_tos h)),
                      (in_view l ''flag'', ucast (drop_bit 13 (be16_to_cpu (ip_frag_off h))))]))"

text \<open>The first word of the source comes from the prefix, the others from the packet.\<close>

definition mtk_464xlat_fill_ipv6 :: "nf_env \<Rightarrow> sk_buff \<Rightarrow> foe_words \<Rightarrow> bool \<Rightarrow> foe_words \<Rightarrow> foe_words option" where
  "mtk_464xlat_fill_ipv6 v k foe l2w e =
     (let h = ipv6_hdr k; l = hnat_ipv4_dslite
      in if \<not> l2w then Some (asg (cp hnat_ipv6_6rd SIP6 foe @ cp hnat_ipv6_6rd DIP6 foe) e)
         else (case mtk_ppe_get_xlat_v4_by_v6 v (ip6_daddr h) of
                 None \<Rightarrow> None
               | Some a \<Rightarrow>
                   (case mtk_ppe_get_xlat_v6_by_v4 v a of
                      None \<Rightarrow> None
                    | Some (a6, prefix) \<Rightarrow>
                        Some (asg [(in_view l ''priority'', ucast (ip6_priority h)),
                                   (in_view l ''hop_limit'', ucast (ip6_hop_limit h))]
                               (ppe_fill_flow_lbl h
                                 (asg (put_addr l TSIP6 (prefix ! 0 # tl (ip6_saddr h))
                                       @ put_addr l TDIP6 (ip6_daddr h)) e))))))"

text \<open>The addresses of the neighbour; \<open>None\<close> is the failure.  The result of the function is \<open>None\<close> for a packet
  without a route, whose null pointer it dereferences.\<close>

definition mtk_464xlat_fill_mac ::
  "nf_env \<Rightarrow> sk_buff \<Rightarrow> nat \<Rightarrow> bool \<Rightarrow> foe_words \<Rightarrow> foe_words option option" where
  "mtk_464xlat_fill_mac v k out l2w e =
     (case sb_dst k of
        None \<Rightarrow> None
      | Some dst \<Rightarrow>
          Some (map_option (\<lambda>ha. asg (fill_macs hnat_ipv4_dslite ha (dv_addr (v_devs v out))) e)
                  (if l2w then v_neigh6 v (dst_dev dst) (v_nexthop6 v (sb_dst k) (ip6_daddr (ipv6_hdr k)))
                   else v_neigh4 v (dst_dev dst) (v_nexthop4 v (sb_dst k) (ip_daddr (ip_hdr k))))))"

text \<open>Without a switch port \<open>sp_tag\<close> is the number of the protocol, without a conversion to network order.\<close>

definition mtk_464xlat_fill_l2 ::
  "nf_env \<Rightarrow> sk_buff \<Rightarrow> nat \<Rightarrow> bool \<Rightarrow> foe_words \<Rightarrow> foe_words option option" where
  "mtk_464xlat_fill_l2 v k out l2w e =
     (let l = hnat_ipv6_6rd
      in if l2w then mtk_464xlat_fill_mac v k out l2w (wr (in_view hnat_ipv4_dslite ''sp_tag'') (ucast ETH_P_IP) e)
         else if dev_is_dsa_lan v out
         then (case dv_reg (v_devs v out) of
                 None \<Rightarrow> Some None
               | Some port_index \<Rightarrow>
                   mtk_464xlat_fill_mac v k out l2w
                     (asg [(bfib1 ''vlan_layer'', 1), (bfib1 ''vpm'', 0),
                           (in_view l ''sp_tag'', ucast (push_bit port_index 1 :: u16))] e))
         else mtk_464xlat_fill_mac v k out l2w (wr (in_view l ''sp_tag'') (ucast ETH_P_IPV6) e))"

definition mtk_464xlat_fill_l3 ::
  "nf_env \<Rightarrow> nf_state \<Rightarrow> sk_buff \<Rightarrow> foe_words \<Rightarrow> bool \<Rightarrow> foe_words \<Rightarrow> foe_words option" where
  "mtk_464xlat_fill_l3 v s k foe l2w e =
     mtk_464xlat_fill_ipv6 v k foe l2w (mtk_464xlat_fill_ipv4 s k foe l2w e)"

section \<open>The packet leaves\<close>

text \<open>The engine of a kept descriptor.  The test for engine 1 is the one for engine 2.\<close>

definition headroom_ppe :: "nf_state \<Rightarrow> hnat_desc \<Rightarrow> nat" where
  "headroom_ppe s x =
     (let third = ((hd_iface x = FOE_MAGIC_GE_LAN2 \<or> hd_iface x = FOE_MAGIC_WED2) \<and> CFG_PPE_NUM s = 3)
      in if third then 2 else if third then 1 else 0)"

definition headroom_ready :: "nf_state \<Rightarrow> hnat_desc \<Rightarrow> bool" where
  "headroom_ready s x =
     (hd_crsn x = HIT_UNBIND_RATE_REACH \<or> (h_bind_threshold (nf_core s) \<le> 1 \<and> hd_crsn x = HIT_UNBIND))"

text \<open>The entry before its addresses of the link layer.\<close>

definition xlat_entry :: "nf_env \<Rightarrow> nf_state \<Rightarrow> sk_buff \<Rightarrow> foe_words \<Rightarrow> bool \<Rightarrow> foe_words option" where
  "xlat_entry v s k foe l2w =
     map_option (mtk_464xlat_fill_info2 l2w)
       (mtk_464xlat_fill_l3 v s k foe l2w (mtk_464xlat_fill_info1 s k l2w zero_words))"

text \<open>The entry found is overwritten, whatever its state.\<close>

definition mtk_464xlat_post_process :: "nf_env \<Rightarrow> nat \<Rightarrow> sk_buff \<Rightarrow> nf_state \<Rightarrow> (int \<times> nf_state) option" where
  "mtk_464xlat_post_process v out k s =
     (if sb_protocol k \<noteq> cpu_to_be16 ETH_P_IPV6 \<and> sb_protocol k \<noteq> cpu_to_be16 ETH_P_IP then Some (- 1, s)
      else let l2w = (sb_protocol k = cpu_to_be16 ETH_P_IPV6)
           in (case mtk_464xlat_get_hash v s k l2w of
                 None \<Rightarrow> Some (- 1, s)
               | Some hash \<Rightarrow>
                   let i = unat hash; x = nf_headroom s i; p = headroom_ppe s x
                   in if i \<ge> h_etry_num (nf_core s) \<or> \<not> headroom_ready s x then Some (- 1, s)
                      else (case xlat_entry v s k (foe_of s p i) l2w of
                              None \<Rightarrow> Some (- 1, s)
                            | Some e \<Rightarrow>
                                (case mtk_464xlat_fill_l2 v k out l2w e of
                                   None \<Rightarrow> None
                                 | Some None \<Rightarrow> Some (- 1, s)
                                 | Some (Some e') \<Rightarrow> Some (0, upd_entry p i (foe_copy e') s)))))"

end
