(* ===== verification/Hnat_Post.thy ===== *)
theory Hnat_Post
  imports Hnat_Xlat
begin

text \<open>
  The hooks of \<^verbatim>\<open>hnat_nf_hook.c\<close> on packets that leave: the next hop, whether the flow may be bound, and what
  is done with the packet by the reason the engine gave for sending it to the processor.
\<close>

section \<open>The next hop\<close>

text \<open>A function that completes the addresses of a path: its result, 0 for success.  \<open>None\<close> is a null
  pointer dereferenced.\<close>

type_synonym nexthop_fn = "nf_env \<Rightarrow> sk_buff \<Rightarrow> nat \<Rightarrow> hw_path \<Rightarrow> (int \<times> hw_path) option"

definition path_macs :: "nf_env \<Rightarrow> nat \<Rightarrow> u8 list option \<Rightarrow> hw_path \<Rightarrow> int \<times> hw_path" where
  "path_macs v out neigh hp =
     (case neigh of
        None \<Rightarrow> (- 1, hp)
      | Some ha \<Rightarrow> if \<not> is_valid_ether_addr ha then (- 1, hp)
                   else (0, hp\<lparr>hp_eth_dest := ha, hp_eth_src := dv_addr (v_devs v out)\<rparr>))"

text \<open>A packet of IPsec that no engine has taken yet is to be bound before it is transformed.\<close>

definition path_known :: "sk_buff \<Rightarrow> hw_path \<Rightarrow> bool" where
  "path_known k hp =
     (path_flag hp DEV_PATH_PPPOE \<or>
      (skb_hnat_cdrt k = 0 \<and> (case sb_dst k of None \<Rightarrow> False | Some d \<Rightarrow> dst_xfrm d)))"

definition hnat_ipv6_get_nexthop :: nexthop_fn where
  "hnat_ipv6_get_nexthop v k out hp =
     (case sb_dst k of
        None \<Rightarrow> Some (0, hp)
      | Some dst \<Rightarrow>
          if path_known k hp then Some (0, hp)
          else Some (path_macs v out
                       (v_neigh6 v (dst_dev dst) (v_nexthop6 v (sb_dst k) (ip6_daddr (ipv6_hdr k)))) hp))"

definition hnat_ipv4_get_nexthop :: nexthop_fn where
  "hnat_ipv4_get_nexthop v k out hp =
     (if path_known k hp then Some (0, hp)
      else if sb_dst k = None then None
      else Some (path_macs v out (v_neigh4 v out (v_nexthop4 v (sb_dst k) (ip_daddr (ip_hdr k)))) hp))"

section \<open>Whether a flow may be bound\<close>

definition mtk_hnat_accel_type :: "nf_env \<Rightarrow> sk_buff \<Rightarrow> bool" where
  "mtk_hnat_accel_type v k =
     (if (case sb_dst k of None \<Rightarrow> False | Some d \<Rightarrow> dst_xfrm d)
         \<and> (case v_crypto_ok v of None \<Rightarrow> True | Some f \<Rightarrow> \<not> f k) then False
      else (case sb_ct k of None \<Rightarrow> True | Some ct \<Rightarrow> \<not> ct_helper ct))"

section \<open>Type of service\<close>

definition dscp_differs :: "sk_buff \<Rightarrow> foe_words \<Rightarrow> (field \<times> u32) option" where
  "dscp_differs k e =
     (let ep = be16_to_cpu (h_proto (eth_hdr k));
          f4 = iblk2 hnat_ipv4_hnapt ''dscp''; f6 = iblk2 hnat_ipv6_5t_route ''dscp''
      in if ep = ETH_P_IP
         then if IS_IPV4_GRP e \<and> rd e f4 \<noteq> ucast (ip_tos (ip_hdr k)) then Some (f4, ucast (ip_tos (ip_hdr k)))
              else None
         else if ep = ETH_P_IPV6
         then if (pkt_type e = IPV6_3T_ROUTE \<or> pkt_type e = IPV6_5T_ROUTE) \<and> rd e f6 \<noteq> ip6_dscp (ipv6_hdr k)
              then Some (f6, ip6_dscp (ipv6_hdr k)) else None
         else None)"

definition mtk_hnat_dscp_update :: "nf_env \<Rightarrow> sk_buff \<Rightarrow> nf_state \<Rightarrow> nf_state" where
  "mtk_hnat_dscp_update v k s =
     (case dscp_differs k (foe_of_skb s k) of
        None \<Rightarrow> s
      | Some (f, x) \<Rightarrow>
          upd_core (hnat_cache_clr (v_dev_model v) (nf_ppe s k))
            (upd_entry (nf_ppe s k) (skb_hnat_entry k) (wr f x) s))"

section \<open>By the reason\<close>

text \<open>The connection ends.\<close>

definition on_fin :: "nf_env \<Rightarrow> sk_buff \<Rightarrow> nf_state \<Rightarrow> nf_state" where
  "on_fin v k s =
     (let p = nf_ppe s k; i = skb_hnat_entry k
      in if rd (foe_of s p i) (bfib1 ''state'') \<noteq> state_code FIN then s
         else let s1 = (if h_per_flow_accounting (nf_core s) then snd (hnat_get_count v p i s) else s);
                  cb = hnat_fin_callback (nf_cbs s1)
              in if cb \<noteq> None \<and> IS_HNAT_API_SUPPORTED (foe_of s1 p i) then told v cb k s1 else s1)"

text \<open>The header for the tunnel engine.\<close>

definition tnl_eth :: "sk_buff \<Rightarrow> hw_path \<Rightarrow> ethhdr" where
  "tnl_eth k hp =
     \<lparr>h_dest = hp_eth_dest hp, h_source = hp_eth_src hp,
      h_proto = (if ip_version (ip_hdr k) = 4 then cpu_to_be16 ETH_P_IP
                 else if ip_version (ip_hdr k) = 6 then cpu_to_be16 ETH_P_IPV6 else 0)\<rparr>"

text \<open>The path with its addresses; \<open>Some None\<close> is the failure.\<close>

definition bind_path ::
  "nf_env \<Rightarrow> nexthop_fn option \<Rightarrow> bool \<Rightarrow> nat \<Rightarrow> sk_buff \<Rightarrow> hw_path \<Rightarrow> hw_path option option" where
  "bind_path v fn virt arp_dev k hp =
     (case fn of
        None \<Rightarrow> Some (Some (hp\<lparr>hp_eth_dest := h_dest (eth_hdr k), hp_eth_src := h_source (eth_hdr k)\<rparr>))
      | Some f \<Rightarrow>
          if virt \<and> path_flag hp DEV_PATH_TNL
          then Some (Some (hp\<lparr>hp_eth_dest := replicate 6 0, hp_eth_src := replicate 6 0\<rparr>))
          else map_option (\<lambda>(ret, hp'). if ret \<noteq> 0 then None else Some hp') (f v k arp_dev hp))"

text \<open>The tunnel engine sees the packet; \<open>None\<close> when the flow is not to be bound now.\<close>

definition tnl_encapped :: "nf_env \<Rightarrow> bool \<Rightarrow> sk_buff \<Rightarrow> hw_path \<Rightarrow> bool \<times> sk_buff" where
  "tnl_encapped v virt k hp =
     (if skb_hnat_tops k = 0 then (True, k)
      else (case (case v_encap v of
                    None \<Rightarrow> (0, k)
                  | Some f \<Rightarrow> if skb_hnat_is_encap k \<and> \<not> virt then f k (tnl_eth k hp) else (0, k)) of
              (ret, k1) \<Rightarrow> (ret = 0 \<and> \<not> skb_hnat_is_decap k1, k1)))"

text \<open>The flow is to be bound.\<close>

definition on_unbind ::
  "nf_env \<Rightarrow> nexthop_fn option \<Rightarrow> bool \<Rightarrow> nat \<Rightarrow> nat \<Rightarrow> hw_path \<Rightarrow> sk_buff \<Rightarrow> nf_state \<Rightarrow> (sk_buff \<times> nf_state) option" where
  "on_unbind v fn virt arp_dev out hp k s =
     (if entry_hnat_is_bound (foe_of_skb s k) \<or> (fn \<noteq> None \<and> \<not> mtk_hnat_accel_type v k) then Some (k, s)
      else (case bind_path v fn virt arp_dev k hp of
              None \<Rightarrow> None
            | Some None \<Rightarrow> Some (k, s)
            | Some (Some hp1) \<Rightarrow>
                (case tnl_encapped v virt k hp1 of
                   (go, k1) \<Rightarrow> Some (if go then snd (skb_to_hnat_info v out hp1 k1 s) else (k1, s)))))"

text \<open>A bound flow shows the processor one of its packets: the copy is dropped.\<close>

definition on_keepalive ::
  "nf_env \<Rightarrow> nexthop_fn option \<Rightarrow> sk_buff \<Rightarrow> nf_state \<Rightarrow> int \<times> sk_buff \<times> nf_state" where
  "on_keepalive v fn k s =
     (let p = nf_ppe s k; i = skb_hnat_entry k;
          s1 = (if h_per_flow_accounting (nf_core s)
                then snd (hnat_get_count v p i (mtk_hnat_update_acct_ifindex v k False s)) else s)
      in if fn \<noteq> None \<and> \<not> mtk_hnat_accel_type v k then (0, k, s1)
         else let s2 = mtk_hnat_dscp_update v k s1;
                  s3 = (if h_version (nf_core s2) = Hnat_State.MTK_HNAT_V1_3 \<and> mcast_hook_toggle (nf_mc s2)
                           \<and> rd (foe_of s2 p i) (bfib1 ''sta'') = 1
                        then upd_entry p i (wr (in_view hnat_ipv4_hnapt ''m_timestamp'')
                                               (h_fe (nf_core s2) FE_CLOCK AND 0xffff)) s2
                        else s2)
              in if entry_hnat_is_bound (foe_of s3 p i)
                 then (- 1, if \<not> sb_shared k \<and> v_cow_head v k then k\<lparr>sb_desc := zero_desc\<rparr> else k, s3)
                 else (0, k, s3))"

definition by_reason ::
  "nf_env \<Rightarrow> nexthop_fn option \<Rightarrow> bool \<Rightarrow> nat \<Rightarrow> nat \<Rightarrow> hw_path \<Rightarrow> sk_buff \<Rightarrow> nf_state
     \<Rightarrow> (int \<times> sk_buff \<times> nf_state) option" where
  "by_reason v fn virt arp_dev out hp k s =
     (let r = skb_hnat_reason k
      in if r = TCP_FIN_SYN_RST then Some (0, k, on_fin v k s)
         else if (r = HIT_UNBIND \<and> skb_hnat_reason_ready_bind s k) \<or> r = HIT_UNBIND_RATE_REACH
         then map_option (\<lambda>(k, s). (0, k, s)) (on_unbind v fn virt arp_dev out hp k s)
         else if r = HIT_BIND_KEEPALIVE_DUP_OLD_HDR then Some (on_keepalive v fn k s)
         else if (r = HIT_BIND_MULTICAST_TO_CPU \<or> r = HIT_BIND_MULTICAST_TO_GMAC_CPU)
                 \<and> \<not> dev_is_dsa_lan v out \<and> (dev_is_lan_grp v out \<or> dev_is_wan v out)
         then Some (- 1, k, s)
         else Some (0, k, s))"

section \<open>After routing\<close>

definition HNAT_EXCEPTION_BIT :: u32 where "HNAT_EXCEPTION_BIT = push_bit 7 1"
definition FLOW_OFFLOAD_TNL_VXLAN :: u32 where "FLOW_OFFLOAD_TNL_VXLAN = 4"

definition hnat_tnl_skb_expand_head :: "nf_env \<Rightarrow> u32 \<Rightarrow> sk_buff \<Rightarrow> sk_buff" where
  "hnat_tnl_skb_expand_head v tnl_type k =
     (if tnl_type = FLOW_OFFLOAD_TNL_VXLAN then v_expand_head v FOE_INFO_LEN k else k)"

text \<open>The device the packet really leaves through, with the path to it.  The packet may have to be left to the
  kernel: the first part is whether to go on.\<close>

definition real_out :: "nf_env \<Rightarrow> nat \<Rightarrow> nat \<Rightarrow> sk_buff \<Rightarrow> bool \<times> nat \<times> hw_path \<times> sk_buff" where
  "real_out v virt_dev out k =
     (let hp = zero_path\<lparr>hp_virt_dev := virt_dev, hp_dev := out\<rparr>
      in (case dv_offload_check (v_devs v out) of
            None \<Rightarrow> (True, out, hp, k)
          | Some f \<Rightarrow>
              let hp1 = snd (f hp); out1 = (if IS_GMAC1_MODE v then hp_virt_dev hp1 else hp_dev hp1)
              in if path_flag hp1 DEV_PATH_TNL \<and> v_encap v \<noteq> None
                 then if be16_to_cpu (sb_protocol k) = ETH_P_IP
                         \<and> (ip_protocol (ip_hdr k) = IPPROTO_TCP \<or> ip_protocol (ip_hdr k) = IPPROTO_UDP)
                      then (True, out1, hp1,
                            hnat_tnl_skb_expand_head v (hp_tnl_type hp1)
                              (upd_desc (\<lambda>x. x\<lparr>hd_tops := ucast (hp_tnl_type hp1 + 1)\<rparr>) k))
                      else (False, out1, hp1, upd_desc (\<lambda>x. x\<lparr>hd_alg := True\<rparr>) k)
                 else (True, out1, hp1, k)))"

text \<open>The slave of a bond the packet goes to.\<close>

definition bond_out :: "nf_env \<Rightarrow> nat \<Rightarrow> sk_buff \<Rightarrow> nat option" where
  "bond_out v out k =
     (if dv_bond_master (v_devs v out)
      then (case dv_xmit_slave (v_devs v out) of None \<Rightarrow> Some out | Some f \<Rightarrow> f k)
      else Some out)"

definition not_for_hnat :: "nf_state \<Rightarrow> sk_buff \<Rightarrow> bool" where
  "not_for_hnat s k =
     (skb_hnat_alg k \<or> \<not> is_magic_tag_valid k \<or> \<not> IS_SPACE_AVAILABLE_HEAD k \<or> \<not> skb_mac_header_was_set k
      \<or> \<not> nf_hashed s k \<or> sb_mark k AND HNAT_EXCEPTION_BIT \<noteq> 0)"

text \<open>A flow through a virtual device is bound only into a tunnel.\<close>

definition post_routing_on ::
  "nf_env \<Rightarrow> nexthop_fn option \<Rightarrow> nat \<Rightarrow> nat \<Rightarrow> sk_buff \<Rightarrow> nf_state \<Rightarrow> (int \<times> sk_buff \<times> nf_state) option" where
  "post_routing_on v fn out0 slave k s =
     (case real_out v out0 slave k of
        (go, out, hp, k1) \<Rightarrow>
          let virt = (\<not> dev_is_lan_grp v out \<and> \<not> dev_is_wan v out \<and> \<not> dev_is_ext v s out)
          in if \<not> go then Some (0, k1, s)
             else if virt \<and> \<not> (skb_hnat_tops k1 \<noteq> 0 \<and> skb_hnat_is_encap k1 \<and> path_flag hp DEV_PATH_TNL)
             then Some (0, k1, s)
             else if skb_hnat_entry k1 \<ge> h_etry_num (nf_core s) \<or> nf_ppe s k1 \<ge> CFG_PPE_NUM s then Some (- 1, k1, s)
             else by_reason v fn virt out0 out hp k1 s)"

definition mtk_hnat_nf_post_routing ::
  "nf_env \<Rightarrow> nexthop_fn option \<Rightarrow> nat \<Rightarrow> sk_buff \<Rightarrow> nf_state \<Rightarrow> (int \<times> sk_buff \<times> nf_state) option" where
  "mtk_hnat_nf_post_routing v fn out k s0 =
     (case (if v_xlat v then mtk_464xlat_post_process v out k s0 else Some (- 1, s0)) of
        None \<Rightarrow> None
      | Some (ret, s) \<Rightarrow>
          if ret = 0 \<or> not_for_hnat s k then Some (0, k, s)
          else (case bond_out v out k of
                  None \<Rightarrow> Some (0, k, s)
                | Some slave \<Rightarrow> post_routing_on v fn out slave k s))"

definition accept_or_drop :: "int \<times> sk_buff \<times> nf_state \<Rightarrow> verdict \<times> sk_buff option \<times> nf_state" where
  "accept_or_drop r = (case r of (ret, k, s) \<Rightarrow> (if ret = 0 then NF_ACCEPT else NF_DROP, Some k, s))"

text \<open>With bridge netfilter the device of the hook is the bridge, and that of the packet the port.\<close>

definition ip_post_routing :: "nexthop_fn \<Rightarrow> nf_env \<Rightarrow> nat \<Rightarrow> sk_buff \<Rightarrow> nf_state \<Rightarrow> hook_result" where
  "ip_post_routing f v out k s =
     (if dv_bridge_master (v_devs v out) \<and> sb_dev k \<noteq> Some out
      then (case sb_dev k of
              None \<Rightarrow> None
            | Some d \<Rightarrow> map_option accept_or_drop (mtk_hnat_nf_post_routing v None d k s))
      else map_option accept_or_drop (mtk_hnat_nf_post_routing v (Some f) out k s))"

definition mtk_hnat_ipv6_nf_post_routing :: "nf_env \<Rightarrow> nat \<Rightarrow> sk_buff \<Rightarrow> nf_state \<Rightarrow> hook_result" where
  "mtk_hnat_ipv6_nf_post_routing = ip_post_routing hnat_ipv6_get_nexthop"

definition mtk_hnat_ipv4_nf_post_routing :: "nf_env \<Rightarrow> nat \<Rightarrow> sk_buff \<Rightarrow> nf_state \<Rightarrow> hook_result" where
  "mtk_hnat_ipv4_nf_post_routing = ip_post_routing hnat_ipv4_get_nexthop"

definition mtk_hnat_br_nf_local_out :: "nf_env \<Rightarrow> nat \<Rightarrow> sk_buff \<Rightarrow> nf_state \<Rightarrow> hook_result" where
  "mtk_hnat_br_nf_local_out v out k s =
     (if \<not> is_magic_tag_valid k \<or> sb_bridge_nf k then Some (NF_ACCEPT, Some k, s)
      else map_option accept_or_drop (mtk_hnat_nf_post_routing v None out k s))"

section \<open>Packets of the host\<close>

text \<open>The inner IPv4 headers of a MAP-E packet are kept in its entry, whose type becomes that of the flow; the
  state of the entry is not looked at.\<close>

definition mape_inner :: "sk_buff \<Rightarrow> foe_words \<Rightarrow> foe_words option" where
  "mape_inner k e =
     (let l = hnat_ipv4_mape
      in (case skb_header_pointer k IPV6_HDR_LEN 20 of
            None \<Rightarrow> None
          | Some p \<Rightarrow>
              let h = iphdr_at (sb_bytes k) p
              in if ip_protocol h \<noteq> IPPROTO_UDP \<and> ip_protocol h \<noteq> IPPROTO_TCP then None
                 else (case skb_ports k (IPV6_HDR_LEN + unat (ip_ihl h) * 4) of
                         None \<Rightarrow> None
                       | Some pt \<Rightarrow>
                           if ip_is_fragment h then None
                           else Some (asg ([(bfib1 ''udp'', b2u (ip_protocol h = IPPROTO_UDP)),
                                            (bfib1 ''pkt_type'', IPV4_MAP_E),
                                            (iblk2 hnat_ipv4_dslite ''dscp'', ucast (ip_tos h)),
                                            (in_view l ''new_sip'', ntohl (ip_saddr h)),
                                            (in_view l ''new_dip'', ntohl (ip_daddr h))] @ new_ports l pt) e))))"

definition mtk_hnat_ipv6_nf_local_out :: "nf_env \<Rightarrow> sk_buff \<Rightarrow> nf_state \<Rightarrow> verdict \<times> sk_buff \<times> nf_state" where
  "mtk_hnat_ipv6_nf_local_out v k s =
     (let p = nf_ppe s k; i = skb_hnat_entry k
      in if \<not> is_magic_tag_valid k \<or> \<not> nf_hashed s k \<or> i \<ge> h_etry_num (nf_core s) \<or> p \<ge> CFG_PPE_NUM s
            \<or> \<not> skb_hnat_reason_ready_bind s k \<or> ip6_nexthdr (ipv6_hdr k) \<noteq> NEXTHDR_IPIP
         then (NF_ACCEPT, k, s)
         else if v_mape v
         then (case mape_inner k (foe_of s p i) of
                 None \<Rightarrow> (NF_ACCEPT, k, s)
               | Some e \<Rightarrow> (NF_ACCEPT, k, upd_entry p i (\<lambda>_. e) s))
         else (NF_ACCEPT, k, upd_entry p i (wr (bfib1 ''pkt_type'') IPV4_DSLITE) s))"

definition mtk_hnat_ipv4_nf_local_out :: "sk_buff \<Rightarrow> nf_state \<Rightarrow> verdict \<times> sk_buff \<times> nf_state" where
  "mtk_hnat_ipv4_nf_local_out k s =
     (let p = nf_ppe s k; i = skb_hnat_entry k
      in if \<not> is_magic_tag_valid k \<or> skb_headroom k < FOE_INFO_LEN \<or> \<not> nf_hashed s k
            \<or> i \<ge> h_etry_num (nf_core s) \<or> p \<ge> CFG_PPE_NUM s
         then (NF_ACCEPT, k, s)
         else if ip_protocol (ip_hdr k) = IPPROTO_IPV6
         then (NF_ACCEPT, frags_alg False k, upd_entry p i (wr (udib1 ''pkt_type'') IPV6_6RD) s)
         else if (skb_hnat_cdrt k \<noteq> 0 \<and> skb_hnat_is_encrypt k) \<or> skb_hnat_tops k \<noteq> 0
         then (NF_ACCEPT, frags_alg False k, s)
         else (NF_ACCEPT, frags_alg True k, s))"

definition mtk_hnat_br_nf_forward :: "nf_env \<Rightarrow> nat \<Rightarrow> nat \<Rightarrow> sk_buff \<Rightarrow> nf_state \<Rightarrow> verdict \<times> sk_buff \<times> nf_state" where
  "mtk_hnat_br_nf_forward v d out k s =
     (NF_ACCEPT,
      if h_version (nf_core s) = Hnat_State.MTK_HNAT_V1_2 \<and> dev_is_ext v s d \<and> dev_is_ext v s out
      then frags_alg True k else k, s)"

end
