(* ===== verification/Hnat_Wifi.thy ===== *)
theory Hnat_Wifi
  imports Hnat_Info
begin

text \<open>
  The hooks for the Wi-Fi driver in \<^verbatim>\<open>hnat_nf_hook.c\<close>: a packet that is about to be sent completes the flow
  that \<open>skb_to_hnat_info\<close> has prepared, with what the Wi-Fi driver knows, and binds it; a packet received gets
  its descriptor; and devices come and go.
\<close>

section \<open>Tags\<close>

text \<open>The tags in a packet, as many as the engine can write.  The loop is bounded by the layers of the entry
  only, hence a partial function: \<open>None\<close> is a loop without end.\<close>

partial_function (option) vlan_walk ::
  "sk_buff \<Rightarrow> be16 \<Rightarrow> nat \<Rightarrow> foe_words \<Rightarrow> (bool \<times> foe_words) option" where
  "vlan_walk k ep off e =
     (if ep \<noteq> cpu_to_be16 ETH_P_8021Q then Some (True, e)
      else let p = unat (sb_mac k) + ETH_HLEN + off
           in (case hnat_add_vlan_layer (be16_to_cpu (raw16 (sb_bytes k) p)) False e of
                 (ret, e1) \<Rightarrow> if ret \<noteq> 0 then Some (False, e1)
                              else vlan_walk k (raw16 (sb_bytes k) (p + 2)) (off + VLAN_HLEN) e1))"

text \<open>The tags of the packet in the entry, instead of those it had; \<open>Some None\<close> is the failure.\<close>

definition wifi_vlans :: "sk_buff \<Rightarrow> foe_words \<Rightarrow> foe_words option option" where
  "wifi_vlans k e0 =
     (let e = wr (bfib1 ''vlan_layer'') 0 e0;
          tagged = (if \<not> skb_vlan_tag_present k then Some e
                    else if sb_vlan_proto k \<noteq> cpu_to_be16 ETH_P_8021Q then None
                    else (case hnat_add_vlan_layer (sb_vlan_tci k) False e of
                            (ret, e1) \<Rightarrow> if ret \<noteq> 0 then None else Some e1))
      in (case tagged of
            None \<Rightarrow> Some None
          | Some e1 \<Rightarrow>
              map_option
                (\<lambda>(ok, e2).
                   if \<not> ok then None
                   else if rd e2 (bfib1 ''vlan_layer'') = 0 then Some e2
                   else if IS_IPV4_GRP e2 \<or> pkt_type e2 = L2_BRIDGE
                   then Some (wr (in_view hnat_ipv4_hnapt ''sp_tag'') (ucast ETH_P_8021Q) e2)
                   else if IS_IPV6_GRP e2
                   then Some (wr (in_view hnat_ipv6_5t_route ''sp_tag'') (ucast ETH_P_8021Q) e2)
                   else None)
                (vlan_walk k (sb_protocol k) 0 e1)))"

section \<open>Where the packet goes\<close>

definition NR_WHNAT_WDMA_PORT :: nat where "NR_WHNAT_WDMA_PORT = 22"

definition is_wdma_port :: "nat \<Rightarrow> bool" where
  "is_wdma_port p = (p = NR_WDMA0_PORT \<or> p = NR_WDMA1_PORT \<or> p = NR_WDMA2_PORT)"

definition wifi_port :: "nf_state \<Rightarrow> nat \<Rightarrow> bool" where
  "wifi_port s p =
     ((h_version (nf_core s) = Hnat_State.MTK_HNAT_V1_2 \<and> p = NR_WHNAT_WDMA_PORT) \<or>
      (hnat_v2_or_v3 (nf_core s) \<and> is_wdma_port p))"

text \<open>Some drivers change the source address.\<close>

definition wifi_smac :: "sk_buff \<Rightarrow> foe_words \<Rightarrow> foe_words" where
  "wifi_smac k e =
     (let src = h_source (eth_hdr k);
          put = (\<lambda>l. asg [(in_view l ''smac_hi'', mac_hi src), (in_view l ''smac_lo'', mac_lo src)] e)
      in if pkt_type e \<in> set [L2_BRIDGE, IPV4_HNAPT, IPV4_HNAT]
         then if skb_hnat_tops k \<noteq> 0 \<and> skb_hnat_is_encap k then e else put hnat_ipv4_hnapt
         else if pkt_type e \<in> set v6_view_types then put hnat_ipv6_5t_route
         else e)"

text \<open>What the Wi-Fi driver knows of the station.\<close>

definition wifi_info :: "layout \<Rightarrow> sk_buff \<Rightarrow> (field \<times> u32) list" where
  "wifi_info l k =
     (let x = sb_desc k
      in [(winfo l ''bssid'', ucast (hd_bssid x)), (winfo l ''wcid'', ucast (hd_wcid x)),
          (iblk2 l ''rxid'', ucast (hd_rxid x)), (iblk2 l ''winfoi'', 1),
          (winfo_pao l ''usr_info'', ucast (hd_usr_info x)), (winfo_pao l ''tid'', ucast (hd_tid x)),
          (winfo_pao l ''is_fixedrate'', b2u (hd_is_fixedrate x)), (winfo_pao l ''is_prior'', b2u (hd_is_prior x)),
          (winfo_pao l ''is_sp'', b2u (hd_is_sp x)), (winfo_pao l ''hf'', b2u (hd_hf x)),
          (winfo_pao l ''amsdu'', b2u (hd_amsdu x))])"

definition wifi_qos :: "nf_env \<Rightarrow> layout \<Rightarrow> (field \<times> u32) list" where
  "wifi_qos v l = [(in_view l ''tport_id'', if IS_HQOS_DL_MODE v then NR_QDMA_TPORT else 0),
                   (iblk2 l ''fqos'', b2u (IS_HQOS_DL_MODE v))]"

text \<open>A flow that does not go to the Wi-Fi engine.\<close>

definition NONE_DSA_PORT :: u8 where "NONE_DSA_PORT = 0xff"

definition wifi_other :: "nf_env \<Rightarrow> layout \<Rightarrow> sk_buff \<Rightarrow> foe_words \<Rightarrow> foe_words" where
  "wifi_other v l k e0 =
     (let from_wan = (FROM_GE_WAN k \<or> FROM_GE_VIRTUAL k);
          e1 = (if IS_GMAC1_MODE v \<and> v_wan_dsa_port v = NONE_DSA_PORT
                then asg ([(bfib1 ''vpm'', 1), (bfib1 ''vlan_layer'', 1)]
                          @ (if FROM_GE_LAN_GRP k then [(in_view l ''vlan1'', 1)]
                             else if from_wan then [(in_view l ''vlan1'', 2)] else [])) e0
                else e0)
      in if IS_HQOS_MODE v \<and> (FROM_GE_LAN_GRP k \<or> from_wan)
         then asg [(bfib1 ''vpm'', 0), (bfib1 ''vlan_layer'', 1),
                   (in_view l ''sp_tag'', ucast (cpu_to_be16 HQOS_MAGIC_TAG)),
                   (in_view l ''vlan1'', of_nat (skb_hnat_entry k)), (iblk2 l ''fqos'', 1)] e1
         else e1)"

definition wifi_fill :: "nf_env \<Rightarrow> nf_state \<Rightarrow> nat \<Rightarrow> sk_buff \<Rightarrow> foe_words \<Rightarrow> foe_words" where
  "wifi_fill v s port k e =
     (let dp = of_nat port AND 0xf
      in if IS_IPV4_GRP e
         then let l = hnat_ipv4_hnapt; e1 = wr (iblk2 l ''fqos'') 0 e;
                  e2 = (if wifi_port s port then asg (wifi_info l k @ wifi_qos v l) e1 else wifi_other v l k e1)
              in wr (iblk2 l ''dp'') dp e2
         else if pkt_type e = IPV6_HNAPT \<or> pkt_type e = IPV6_HNAT
         then let l = hnat_ipv6_hnapt in asg ((iblk2 l ''dp'', dp) # wifi_info l k @ wifi_qos v l) e
         else if pkt_type e = L2_BRIDGE
         then let l = hnat_l2_bridge
              in asg ((iblk2 l ''dp'', dp) # wifi_info l k @ [(iblk2 l ''fqos'', b2u (IS_HQOS_DL_MODE v))]) e
         else let l = hnat_ipv6_5t_route; e1 = wr (iblk2 l ''fqos'') 0 e;
                  m = (if pkt_type e1 = IPV4_MAP_E \<or> pkt_type e1 = IPV4_MAP_T then hnat_ipv4_mape else l);
                  e2 = (if wifi_port s port then asg (wifi_info m k @ wifi_qos v m) e1 else wifi_other v l k e1)
              in wr (iblk2 l ''dp'') dp e2)"

section \<open>A packet to a station\<close>

definition clear_mcast :: "foe_words \<Rightarrow> foe_words" where
  "clear_mcast e =
     wr (iblk2 (if pkt_type e = L2_BRIDGE then hnat_l2_bridge else if IS_IPV4_GRP e then hnat_ipv4_hnapt
                else hnat_ipv6_5t_route) ''mcast'') 0 e"

text \<open>The end is that of \<open>skb_to_hnat_info\<close>, but waits for the lock and keeps the counters of every
  entry.\<close>

definition wifi_commit :: "nf_env \<Rightarrow> sk_buff \<Rightarrow> foe_words \<Rightarrow> nf_state \<Rightarrow> nf_state" where
  "wifi_commit v k e s =
     (let p = nf_ppe s k; i = skb_hnat_entry k; mc = mcast_hook_toggle (nf_mc s)
      in if mc \<and> hnat_mcast_chk_blist (mc_entry e) (nf_mc s) then s
         else (case (if mc \<and> is_multicast_ether_addr (h_dest (eth_hdr k))
                     then mcast_bind v p i (case sb_dev k of None \<Rightarrow> 0 | Some d \<Rightarrow> dev_ifindex v d) e s
                     else (0, e, s)) of
                 (ret, e1, s1) \<Rightarrow>
                   (if ret \<noteq> 0 \<or> rd (foe_of s1 p i) (udib1 ''state'') \<noteq> state_code UNBIND then s1
                    else let s2 = hnat_foe_entry_commit p i e1 (state_code BIND) s1;
                             cb = hnat_bind_callback (nf_cbs s2);
                             s3 = (if cb \<noteq> None \<and> IS_HNAT_API_SUPPORTED e1 then told v cb k s2 else s2)
                         in if h_per_flow_accounting (nf_core s3) then reset_acct p i k s3 else s3)))"

text \<open>The verdict is always to accept.\<close>

definition mtk_sw_nat_hook_tx :: "nf_env \<Rightarrow> sk_buff \<Rightarrow> nat \<Rightarrow> nf_state \<Rightarrow> (verdict \<times> nf_state) option" where
  "mtk_sw_nat_hook_tx v k port s =
     (let p = nf_ppe s k; mc = mcast_hook_toggle (nf_mc s)
      in if \<not> nf_hashed s k \<or> p \<ge> CFG_PPE_NUM s \<or> skb_hnat_alg k \<or> \<not> is_hnat_info_filled k
            \<or> \<not> is_magic_tag_valid k \<or> \<not> IS_SPACE_AVAILABLE_HEAD k
            \<or> \<not> (is_wdma_port port \<or> port = NR_WHNAT_WDMA_PORT) \<or> \<not> skb_mac_header_was_set k
            \<or> \<not> skb_hnat_reason_ready_bind s k
         then Some (NF_ACCEPT, s)
         else (case flow_take (v_hz v) (v_jiffies v) (of_nat p) (of_nat (skb_hnat_entry k)) (nf_core s) of
                 (None, h) \<Rightarrow> Some (NF_ACCEPT, s\<lparr>nf_core := h\<rparr>)
               | (Some e0, h) \<Rightarrow>
                   let s1 = s\<lparr>nf_core := h\<rparr>
                   in if \<not> mc \<and> is_multicast_ether_addr (h_dest (eth_hdr k)) then Some (NF_ACCEPT, s1)
                      else (case wifi_vlans k (wifi_smac k (if mc then e0 else clear_mcast e0)) of
                              None \<Rightarrow> None
                            | Some None \<Rightarrow> Some (NF_ACCEPT, s1)
                            | Some (Some e) \<Rightarrow>
                                Some (NF_ACCEPT,
                                      wifi_commit v k
                                        (hnat_fill_offload_engine_entry v k (wifi_fill v s1 port k e)) s1))))"

section \<open>A packet from a station\<close>

definition mtk_sw_nat_hook_rx :: "sk_buff \<Rightarrow> verdict \<times> sk_buff" where
  "mtk_sw_nat_hook_rx k =
     (NF_ACCEPT,
      upd_desc
        (\<lambda>x. if \<not> IS_SPACE_AVAILABLE_HEAD k \<or> \<not> FROM_WED k then x\<lparr>hd_magic_tag := 0\<rparr>
             else let y = x\<lparr>hd_alg := False, hd_filled := 0, hd_tops := 0, hd_cdrt := 0, hd_is_pppoe := False,
                            hd_is_decrypt := False, hd_magic_tag := HNAT_MAGIC_TAG\<rparr>
                  in if hd_iface x = FOE_MAGIC_WED0 then y\<lparr>hd_sport := of_nat NR_WDMA0_PORT\<rparr>
                     else if hd_iface x = FOE_MAGIC_WED1 then y\<lparr>hd_sport := of_nat NR_WDMA1_PORT\<rparr>
                     else if hd_iface x = FOE_MAGIC_WED2 then y\<lparr>hd_sport := of_nat NR_WDMA2_PORT\<rparr>
                     else y) k)"

section \<open>Devices of the Wi-Fi driver\<close>

text \<open>\<open>x\<close> is the new entry of the table of extension devices, if there is memory for one.\<close>

definition wifi_slot :: "nat \<Rightarrow> nat \<Rightarrow> nf_state \<Rightarrow> nf_state" where
  "wifi_slot i d s = s\<lparr>nf_ext := dev_hold d (nf_ext s), nf_wifi := (nf_wifi s)[i := Some d]\<rparr>"

definition ext_entry_new :: "nf_env \<Rightarrow> nat \<Rightarrow> nat \<Rightarrow> ext_state \<Rightarrow> ext_state" where
  "ext_entry_new v x d t =
     snd (ext_if_add x
            ((dev_hold d t)\<lparr>ext_ent := (ext_ent t)(x := \<lparr>xe_name = take 15 (dev_name v d), xe_dev = Some d\<rparr>)\<rparr>))"

definition mtk_ppe_dev_register_hook :: "nf_env \<Rightarrow> nat option \<Rightarrow> nat \<Rightarrow> nf_state \<Rightarrow> nf_state" where
  "mtk_ppe_dev_register_hook v x d s =
     (if list_ex (\<lambda>i. nf_wifi s ! i = Some d) [1 ..< MAX_IF_NUM] then s
      else (case find (\<lambda>i. nf_wifi s ! i = None) [1 ..< MAX_IF_NUM] of
              None \<Rightarrow> s
            | Some i \<Rightarrow>
                if find_extif_from_devname (dev_name v d) (nf_ext s)
                then wifi_slot i d (s\<lparr>nf_ext := snd (extif_set_dev (v_devs v) d (nf_ext s))\<rparr>)
                else if get_ext_device_number (nf_ext s) \<ge> MAX_EXT_DEVS then s
                else (case x of
                        None \<Rightarrow> s
                      | Some x \<Rightarrow> wifi_slot i d (s\<lparr>nf_ext := ext_entry_new v x d (nf_ext s)\<rparr>))))"

definition mtk_ppe_dev_unregister_hook :: "nat \<Rightarrow> nf_state \<Rightarrow> nf_state" where
  "mtk_ppe_dev_unregister_hook d s =
     (let s1 = (case find (\<lambda>i. nf_wifi s ! i = Some d) [1 ..< MAX_IF_NUM] of
                  None \<Rightarrow> s
                | Some i \<Rightarrow> s\<lparr>nf_wifi := (nf_wifi s)[i := None], nf_ext := dev_put d (nf_ext s)\<rparr>)
      in s1\<lparr>nf_ext := snd (extif_put_dev d (nf_ext s1))\<rparr>)"

end
