(* ===== verification/Hnat_Crypto.thy ===== *)
theory Hnat_Crypto
  imports Hnat_Info
begin

text \<open>
  \<open>hnat_bind_crypto_entry\<close> of \<^verbatim>\<open>hnat_nf_hook.c\<close>: the crypto engine binds the flow of a packet once it has the
  parameters of its tunnel.  Most of the entry has been written to the table before, unbound.
\<close>

section \<open>Inner headers\<close>

text \<open>A failure, or nothing to do, ends the function with a result: \<open>Inl\<close>.\<close>

definition crypto_v4 ::
  "nf_state \<Rightarrow> sk_buff \<Rightarrow> hw_path \<Rightarrow> foe_words \<Rightarrow> foe_words \<Rightarrow> int + foe_words" where
  "crypto_v4 s k hp foe e0 =
     (let h = ip_hdr k; l = hnat_ipv4_hnapt
      in if ip_protocol h \<noteq> IPPROTO_UDP \<and> ip_protocol h \<noteq> IPPROTO_TCP then Inl (- 1)
         else let e1 = wr (in_view l ''sp_tag'') (ucast (cpu_to_be16 ETH_P_IP)) e0
              in if \<not> IS_IPV4_GRP e1 then Inl 0
                 else let e2 = asg ((iblk2 l ''dscp'', ucast (ip_tos h)) # mibf s l) e1;
                          e3 = asg (cp l [''sip'', ''dip'', ''sport'', ''dport''] foe
                                    @ [(in_view l ''new_sip'', ntohl (ip_saddr h)),
                                       (in_view l ''new_dip'', ntohl (ip_daddr h))])
                                   (fill_vlans (in_view l ''vlan1'') (in_view l ''vlan2'') hp k e2);
                          fin = asg [(bfib1 ''udp'', b2u (ip_protocol h = IPPROTO_UDP)),
                                     (in_view l ''eg_keep_ecn'', 1), (in_view l ''eg_keep_dscp'', 1)]
                      in if pkt_type e3 = IPV4_HNAPT
                         then (case skb_ports k (unat (ip_ihl h) * 4 + ETH_HLEN) of
                                 None \<Rightarrow> Inl (- 1)
                               | Some pt \<Rightarrow> Inr (fin (asg (new_ports l pt) e3)))
                         else Inr (fin e3))"

definition crypto_v6 ::
  "nf_state \<Rightarrow> sk_buff \<Rightarrow> hw_path \<Rightarrow> foe_words \<Rightarrow> foe_words \<Rightarrow> int + foe_words" where
  "crypto_v6 s k hp foe e0 =
     (let h = ipv6_hdr k; l = hnat_ipv6_5t_route; m = hnat_ipv6_3t_route
      in if ip6_nexthdr h \<noteq> IPPROTO_UDP \<and> ip6_nexthdr h \<noteq> IPPROTO_TCP then Inl (- 1)
         else let e1 = wr (in_view l ''sp_tag'') (ucast (cpu_to_be16 ETH_P_IPV6)) e0;
                  e2 = fill_vlans (in_view l ''vlan1'') (in_view l ''vlan2'') hp k e1;
                  e3 = asg (mibf s l @ [(bfib1 ''udp'', b2u (ip6_nexthdr h = IPPROTO_UDP))]
                            @ cp m SIP6 foe @ cp m DIP6 foe
                            @ [(in_view m ''eg_keep_ecn'', 1), (in_view m ''eg_keep_cls'', 1)]) e2;
                  fin = wr (iblk2 l ''dscp'') (ip6_dscp h)
              in if pkt_type e3 = IPV6_3T_ROUTE then Inr (fin (asg (cp m [''prot'', ''hph''] foe) e3))
                 else if pkt_type e3 = IPV6_5T_ROUTE then Inr (fin (asg (cp l [''sport'', ''dport''] foe) e3))
                 else Inl 0)"

section \<open>The path\<close>

definition crypto_path :: "nf_env \<Rightarrow> nat \<Rightarrow> u16 \<Rightarrow> sk_buff \<Rightarrow> nat \<times> hw_path \<times> sk_buff" where
  "crypto_path v d ep k =
     (let hp0 = zero_path\<lparr>hp_dev := d, hp_virt_dev := d\<rparr>;
          (dev, hp) = (case dv_offload_check (v_devs v d) of
                         None \<Rightarrow> (d, hp0)
                       | Some f \<Rightarrow> let hp1 = snd (f hp0)
                                   in (if IS_GMAC1_MODE v then hp_virt_dev hp1 else hp_dev hp1, hp1));
          encap = (\<lambda>eth. case v_encap v of
                           None \<Rightarrow> k
                         | Some f \<Rightarrow> if skb_hnat_tops k \<noteq> 0 then snd (f k eth) else k)
      in if path_flag hp DEV_PATH_PPPOE
         then (dev, hp, encap \<lparr>h_dest = hp_eth_dest hp, h_source = hp_eth_src hp, h_proto = cpu_to_be16 ep\<rparr>)
         else (dev, hp\<lparr>hp_eth_dest := h_dest (eth_hdr k), hp_eth_src := h_source (eth_hdr k)\<rparr>,
               encap (eth_hdr k)))"

section \<open>Binding\<close>

text \<open>The port, the addresses (a tunnel of frames keeps its own) and the queue.\<close>

definition crypto_finish ::
  "nf_env \<Rightarrow> nf_state \<Rightarrow> nat \<Rightarrow> hw_path \<Rightarrow> sk_buff \<Rightarrow> int \<times> int \<times> nat \<Rightarrow> foe_words \<Rightarrow> foe_words" where
  "crypto_finish v s dev hp k port e =
     (case port of
        (gmac, port_id, mac) \<Rightarrow>
          let l = (if IS_IPV4_GRP e then hnat_ipv4_hnapt else hnat_ipv6_5t_route);
              port_mg = (if h_version (nf_core s) = Hnat_State.MTK_HNAT_V1_1 then 0x3f else 0)
          in asg ([(iblk2 l ''dp'', of_int gmac), (iblk2 l ''port_mg'', port_mg), (bfib1 ''ttl'', 1),
                   (bfib1 ''state'', state_code BIND)]
                  @ (if skb_hnat_tops k = 0 then fill_macs l (hp_eth_dest hp) (hp_eth_src hp) else [])
                  @ [(in_view l ''pppoe_id'', ucast (hp_pppoe_sid hp)),
                     (iblk2 l ''qid'', base_qid v k dev port_id mac)]) e)"

definition crypto_commit :: "nat \<Rightarrow> nat \<Rightarrow> foe_words \<Rightarrow> nf_state \<Rightarrow> nf_state" where
  "crypto_commit p i e s =
     (let s1 = hnat_foe_entry_commit p i e (state_code BIND) s
      in if h_per_flow_accounting (nf_core s1) \<and> i < h_etry_num (nf_core s1) \<and> p < CFG_PPE_NUM s1
         then s1\<lparr>nf_acct := (nf_acct s1)(p := (nf_acct s1 p)(i := zero_acct))\<rparr> else s1)"

text \<open>Up to the last test: the entry to be stored, or the result the function ends with.\<close>

definition crypto_prepare ::
  "nf_env \<Rightarrow> nat \<Rightarrow> bool \<Rightarrow> sk_buff \<Rightarrow> nf_state \<Rightarrow> (int + foe_words) \<times> sk_buff" where
  "crypto_prepare v d fill_inner_info k s =
     (let p = nf_ppe s k; i = skb_hnat_entry k; foe = foe_of s p i; ver = ip_version (ip_hdr k);
          ep = (if ver = 4 then ETH_P_IP else ETH_P_IPV6)
      in if \<not> v_tnl v then (Inl (- 1), k)
         else if \<not> nf_hashed s k \<or> p \<ge> CFG_PPE_NUM s \<or> entry_hnat_is_bound foe \<or> (ver \<noteq> 4 \<and> ver \<noteq> 6) then (Inl 0, k)
         else (case crypto_path v d ep k of
                 (dev, hp, k1) \<Rightarrow>
              (case (if \<not> fill_inner_info then Inr (hnat_get_filled_unbind_entry foe)
                     else if ver = 4 then crypto_v4 s k1 hp foe (hnat_get_filled_unbind_entry foe)
                     else crypto_v6 s k1 hp foe (hnat_get_filled_unbind_entry foe)) of
                 Inl ret \<Rightarrow> (Inl ret, k1)
               | Inr e1 \<Rightarrow>
                   if \<not> dev_is_lan_grp v dev \<and> \<not> dev_is_wan v dev then (Inl (- 1), k1)
                   else (case gmac_port v s dev False (ppe_fill_info_blk v s hp e1) of
                           None \<Rightarrow> (Inl (- 1), k1)
                         | Some (gmac, port_id, mac, e2) \<Rightarrow>
                             (Inr (hnat_fill_offload_engine_entry v k1
                                     (crypto_finish v s dev hp k1 (gmac, port_id, mac) e2)), k1)))))"

text \<open>The last test is made before \<open>entry_lock\<close> is taken, in the state \<open>s\<close>; the entry is stored under it, in
  the state \<open>s1\<close> that the driver is in by then.\<close>

definition crypto_publish :: "nat \<Rightarrow> nat \<Rightarrow> foe_words \<Rightarrow> nf_state \<Rightarrow> nf_state \<Rightarrow> nf_state" where
  "crypto_publish p i e s s1 = (if entry_hnat_is_bound (foe_of s p i) then s1 else crypto_commit p i e s1)"

text \<open>The function when nothing comes between.\<close>

definition hnat_bind_crypto_entry ::
  "nf_env \<Rightarrow> nat \<Rightarrow> bool \<Rightarrow> sk_buff \<Rightarrow> nf_state \<Rightarrow> int \<times> sk_buff \<times> nf_state" where
  "hnat_bind_crypto_entry v d fill_inner_info k s =
     (case crypto_prepare v d fill_inner_info k s of
        (Inl ret, k1) \<Rightarrow> (ret, k1, s)
      | (Inr e, k1) \<Rightarrow> (0, k1, crypto_publish (nf_ppe s k) (skb_hnat_entry k) e s s))"

end
