(* ===== verification/Hnat_Bind_Props.thy ===== *)
theory Hnat_Bind_Props
  imports Hnat_Post Hnat_Wifi Hnat_Crypto
begin

text \<open>
  What the operations that bind a flow write: the contract of an operation that stores at most the entry of
  its packet, and that only while the entry is not bound; its consequences for runs of such operations; and
  that the three operations of the driver keep it.  Multicast, whose groups share entries, is off here.
\<close>

section \<open>Storing an entry\<close>

lemma last_commit_steps [simp]: "last (commit_steps e foe) = foe_copy e foe"
  by (simp add: commit_steps_def)

lemma commit_eq:
  "hnat_foe_entry_commit p i e st s =
     upd_entry p i (foe_copy (commit_words (hnat_timestamp (nf_core s)) st e)) s"
  by (simp add: hnat_foe_entry_commit_def)

lemma foe_of_upd_entry [simp]:
  "foe_of (upd_entry p i f s) p' i' = (if p' = p \<and> i' = i then f (foe_of s p i) else foe_of s p' i')"
  by (simp add: foe_of_def upd_entry_def upd_core_def on_entry_def)

lemma foe_of_simps [simp]:
  "foe_of (s\<lparr>nf_acct := a\<rparr>) p i = foe_of s p i" "foe_of (s\<lparr>nf_told := t\<rparr>) p i = foe_of s p i"
  "foe_of (s\<lparr>nf_l2w := w\<rparr>) p i = foe_of s p i" "foe_of (s\<lparr>nf_stats := x\<rparr>) p i = foe_of s p i"
  "foe_of (s\<lparr>nf_core := h\<rparr>) p i = h_table h p i"
  by (simp_all add: foe_of_def)

lemma nf_ppe_simps [simp]:
  "nf_ppe (s\<lparr>nf_l2w := w\<rparr>) = nf_ppe s" "nf_ppe (s\<lparr>nf_acct := a\<rparr>) = nf_ppe s"
  "nf_ppe (s\<lparr>nf_told := t\<rparr>) = nf_ppe s" "h_mac h = h_mac (nf_core s) \<Longrightarrow> nf_ppe (s\<lparr>nf_core := h\<rparr>) = nf_ppe s"
  by (rule ext, simp add: nf_ppe_def skb_hnat_ppe_def split: option.split)+

lemma upd_entry_simps [simp]:
  "nf_mc (upd_entry p i f s) = nf_mc s" "nf_cbs (upd_entry p i f s) = nf_cbs s"
  "nf_acct (upd_entry p i f s) = nf_acct s" "nf_ppe (upd_entry p i f s) = nf_ppe s" "nf_out (upd_entry p i f s) = nf_out s"
  by (simp_all add: upd_entry_def upd_core_def on_entry_def nf_ppe_def skb_hnat_ppe_def fun_eq_iff)

lemma told_simps [simp]:
  "foe_of (told v cb k s) p i = foe_of s p i" "nf_mc (told v cb k s) = nf_mc s" "nf_ppe (told v cb k s) = nf_ppe s"
  by (simp_all add: told_def)

lemma reset_acct_simps [simp]:
  "foe_of (reset_acct p i k s) p' i' = foe_of s p' i'" "nf_mc (reset_acct p i k s) = nf_mc s"
  "nf_ppe (reset_acct p i k s) = nf_ppe s"
  by (simp_all add: reset_acct_def)

lemma unbound_state:
  "rd e (udib1 ''state'') = state_code UNBIND \<Longrightarrow> \<not> entry_hnat_is_bound e"
  by (simp add: entry_hnat_is_bound_def foe_fld state_code_def)

section \<open>The contract\<close>

text \<open>\<open>bop\<close> is an operation on a packet; its first argument is what else it takes.\<close>

locale entry_writer =
  fixes bop :: "'a \<Rightarrow> nf_env \<Rightarrow> sk_buff \<Rightarrow> nf_state \<Rightarrow> nf_state"
  assumes own_entry:
      "\<not> mcast_hook_toggle (nf_mc s) \<Longrightarrow> (p, i) \<noteq> (nf_ppe s k, skb_hnat_entry k)
         \<Longrightarrow> foe_of (bop a v k s) p i = foe_of s p i"
    and keeps_bound:
      "\<not> mcast_hook_toggle (nf_mc s) \<Longrightarrow> entry_hnat_is_bound (foe_of s p i)
         \<Longrightarrow> foe_of (bop a v k s) p i = foe_of s p i"
    and keeps_mc: "\<not> mcast_hook_toggle (nf_mc s) \<Longrightarrow> nf_mc (bop a v k s) = nf_mc s"
    and keeps_ppe: "\<not> mcast_hook_toggle (nf_mc s) \<Longrightarrow> nf_ppe (bop a v k s) = nf_ppe s"
begin

definition run :: "('a \<times> nf_env \<times> sk_buff) list \<Rightarrow> nf_state \<Rightarrow> nf_state" where
  "run xs s = fold (\<lambda>(a, v, k). bop a v k) xs s"

text \<open>However many packets there are, a bound entry is the same as before them.\<close>

lemma run_keeps_bound:
  "\<not> mcast_hook_toggle (nf_mc s) \<Longrightarrow> entry_hnat_is_bound (foe_of s p i) \<Longrightarrow> foe_of (run xs s) p i = foe_of s p i"
proof (induction xs arbitrary: s)
  case (Cons x xs)
  obtain a v k where x: "x = (a, v, k)" by (cases x)
  have e: "foe_of (bop a v k s) p i = foe_of s p i" using Cons.prems by (rule keeps_bound)
  have "run (x # xs) s = run xs (bop a v k s)" by (simp add: run_def x)
  moreover have "foe_of (run xs (bop a v k s)) p i = foe_of (bop a v k s) p i"
    using Cons.prems by (intro Cons.IH) (simp_all add: e keeps_mc)
  ultimately show ?case by (simp add: e)
qed (simp add: run_def)

text \<open>An entry changes only in a step of a packet it belongs to, and was not bound before the run.\<close>

lemma run_changed:
  assumes "\<not> mcast_hook_toggle (nf_mc s)" "foe_of (run xs s) p i \<noteq> foe_of s p i"
  shows "\<not> entry_hnat_is_bound (foe_of s p i) \<and> (\<exists>(a, v, k) \<in> set xs. p = nf_ppe s k \<and> i = skb_hnat_entry k)"
proof
  show "\<not> entry_hnat_is_bound (foe_of s p i)" using assms run_keeps_bound by blast
  show "\<exists>(a, v, k) \<in> set xs. p = nf_ppe s k \<and> i = skb_hnat_entry k"
    using assms
  proof (induction xs arbitrary: s)
    case (Cons x xs)
    obtain a v k where x: "x = (a, v, k)" by (cases x)
    let ?s = "bop a v k s"
    have r: "run (x # xs) s = run xs ?s" by (simp add: run_def x)
    show ?case
    proof (cases "foe_of (run xs ?s) p i = foe_of ?s p i")
      case True
      then have "foe_of ?s p i \<noteq> foe_of s p i" using Cons.prems(2) r by simp
      then show ?thesis using own_entry [OF Cons.prems(1), of p i k a v] by (auto simp: x)
    next
      case False
      then show ?thesis
        using Cons.IH [of ?s] Cons.prems(1) by (fastforce simp: keeps_mc keeps_ppe)
    qed
  qed (simp add: run_def)
qed

end

section \<open>The operations of the driver\<close>

definition op_info :: "nat \<times> hw_path \<Rightarrow> nf_env \<Rightarrow> sk_buff \<Rightarrow> nf_state \<Rightarrow> nf_state" where
  "op_info a v k s = snd (snd (skb_to_hnat_info v (fst a) (snd a) k s))"

definition op_wifi :: "nat \<Rightarrow> nf_env \<Rightarrow> sk_buff \<Rightarrow> nf_state \<Rightarrow> nf_state" where
  "op_wifi port v k s = (case mtk_sw_nat_hook_tx v k port s of None \<Rightarrow> s | Some r \<Rightarrow> snd r)"

definition op_crypto :: "nat \<times> bool \<Rightarrow> nf_env \<Rightarrow> sk_buff \<Rightarrow> nf_state \<Rightarrow> nf_state" where
  "op_crypto a v k s = snd (snd (hnat_bind_crypto_entry v (fst a) (snd a) k s))"

text \<open>What a step may do: nothing to the table, or one entry that is not bound.\<close>

definition writes_at :: "nat \<Rightarrow> nat \<Rightarrow> nf_state \<Rightarrow> nf_state \<Rightarrow> bool" where
  "writes_at p i s s' =
     (nf_mc s' = nf_mc s \<and> nf_ppe s' = nf_ppe s \<and> (\<forall>q j. (q, j) \<noteq> (p, i) \<longrightarrow> foe_of s' q j = foe_of s q j)
      \<and> (entry_hnat_is_bound (foe_of s p i) \<longrightarrow> foe_of s' p i = foe_of s p i))"

lemma writes_at_refl [simp]: "writes_at p i s s"
  by (simp add: writes_at_def)

lemma writes_at_quiet:
  "nf_mc s' = nf_mc s \<Longrightarrow> nf_ppe s' = nf_ppe s \<Longrightarrow> (\<And>q j. foe_of s' q j = foe_of s q j) \<Longrightarrow> writes_at p i s s'"
  by (simp add: writes_at_def)

lemma writes_at_commit:
  "\<not> entry_hnat_is_bound (foe_of s p i) \<Longrightarrow> writes_at p i s (hnat_foe_entry_commit p i e st s)"
  by (simp add: writes_at_def commit_eq)

lemma writes_at_then:
  "writes_at p i s s1 \<Longrightarrow> nf_mc s2 = nf_mc s1 \<Longrightarrow> nf_ppe s2 = nf_ppe s1 \<Longrightarrow> (\<And>q j. foe_of s2 q j = foe_of s1 q j) \<Longrightarrow> writes_at p i s s2"
  by (simp add: writes_at_def)

lemma flow_prepare_table [simp]:
  "h_table (snd (flow_prepare m j e p i h)) = h_table h" "h_mac (snd (flow_prepare m j e p i h)) = h_mac h"
  by (simp_all add: flow_prepare_def set_flow_list_def Let_def split: option.splits)

lemma flow_take_table [simp]: "h_table (snd (flow_take hz j p i h)) = h_table h"
  by (simp add: flow_take_def set_flow_list_def Let_def split: option.splits)

lemma bind_wifi_writes: "writes_at p i s (snd (snd (bind_wifi v k e s)))"
  by (rule writes_at_quiet) (simp_all add: bind_wifi_def foe_of_def split_beta split: prod.splits)

lemma bind_table_writes:
  assumes "\<not> mcast_hook_toggle (nf_mc s)"
  shows "writes_at (nf_ppe s k) (skb_hnat_entry k) s (snd (snd (bind_table v k e s)))"
proof (cases "v_trylock v \<and> rd (foe_of s (nf_ppe s k) (skb_hnat_entry k)) (udib1 ''state'') = state_code UNBIND")
  case True
  have "writes_at (nf_ppe s k) (skb_hnat_entry k) s
          (hnat_foe_entry_commit (nf_ppe s k) (skb_hnat_entry k) e (state_code BIND) s)"
    using True unbound_state by (intro writes_at_commit) blast
  then show ?thesis
    using assms True by (elim writes_at_then) (simp_all add: bind_table_def Let_def)
next
  case False
  then show ?thesis using assms by (auto simp: bind_table_def Let_def)
qed

lemma bind_from_writes:
  assumes "\<not> mcast_hook_toggle (nf_mc s)"
  shows "writes_at (nf_ppe s k) (skb_hnat_entry k) s (snd (snd (bind_from v d hp ep off mape e k s)))"
  using assms by (auto simp: bind_from_def Let_def bind_table_writes bind_wifi_writes split: option.splits)

text \<open>The local entry starts with the type and the state of the one in the table.\<close>

lemma rd_unbind_entry:
  "rd (unbind_entry foe) (bfib1 ''state'') = rd foe (udib1 ''state'')"
  "pkt_type (unbind_entry foe) = pkt_type foe"
  by (simp_all add: unbind_entry_def pkt_type_def foe_fld udib1_state rd_wr_same rd_wr_other
      rd_take [of "Fld w lo n" for w lo n, simplified] del: One_nat_def)

lemma skb_to_hnat_info_writes:
  assumes "\<not> mcast_hook_toggle (nf_mc s)"
  shows "writes_at (nf_ppe s k) (skb_hnat_entry k) s (snd (snd (skb_to_hnat_info v d hp k s)))"
proof -
  let ?p = "nf_ppe s k" and ?i = "skb_hnat_entry k"
  have l2w: "writes_at ?p ?i (s\<lparr>nf_l2w := w\<rparr>) s' \<Longrightarrow> writes_at ?p ?i s s'" for w s'
    by (simp add: writes_at_def)
  note bind = bind_from_writes [OF assms, of k]
  have bind': "writes_at ?p ?i s (snd (snd (bind_from v d hp' ep off mape e k (s\<lparr>nf_l2w := w\<rparr>))))" for w hp' ep off mape e
    using bind_from_writes [of "s\<lparr>nf_l2w := w\<rparr>" k] assms by (intro l2w) simp
  have commit: "rd (foe_of s ?p ?i) (udib1 ''state'') = state_code UNBIND \<Longrightarrow>
      writes_at ?p ?i s (hnat_foe_entry_commit ?p ?i e st s)" for e st
    by (rule writes_at_commit) (rule unbound_state)
  have commit': "rd (foe_of s ?p ?i) (udib1 ''state'') = state_code UNBIND \<Longrightarrow>
      writes_at ?p ?i s (hnat_foe_entry_commit ?p ?i e st (s\<lparr>nf_l2w := w\<rparr>))" for e st w
    by (rule l2w, rule writes_at_commit) (simp add: unbound_state)
  show ?thesis
    using bind bind' commit commit'
    by (simp add: skb_to_hnat_info_def Let_def rd_unbind_entry foe_of_skb_def split: option.split prod.split)
qed

interpretation info: entry_writer op_info
proof
  fix s :: nf_state and p i k a v
  assume off: "\<not> mcast_hook_toggle (nf_mc s)"
  note w = skb_to_hnat_info_writes [OF off, of k v "fst a" "snd a", folded op_info_def, unfolded writes_at_def]
  show "(p, i) \<noteq> (nf_ppe s k, skb_hnat_entry k) \<Longrightarrow> foe_of (op_info a v k s) p i = foe_of s p i"
    using w by blast
  show "entry_hnat_is_bound (foe_of s p i) \<Longrightarrow> foe_of (op_info a v k s) p i = foe_of s p i"
    using w by (cases "(p, i) = (nf_ppe s k, skb_hnat_entry k)") auto
  show "nf_mc (op_info a v k s) = nf_mc s" "nf_ppe (op_info a v k s) = nf_ppe s" using w by blast+
qed

lemma wifi_commit_writes:
  assumes "\<not> mcast_hook_toggle (nf_mc s)"
  shows "writes_at (nf_ppe s k) (skb_hnat_entry k) s (wifi_commit v k e s)"
proof (cases "rd (foe_of s (nf_ppe s k) (skb_hnat_entry k)) (udib1 ''state'') = state_code UNBIND")
  case True
  have "writes_at (nf_ppe s k) (skb_hnat_entry k) s
          (hnat_foe_entry_commit (nf_ppe s k) (skb_hnat_entry k) e (state_code BIND) s)"
    using True unbound_state by (intro writes_at_commit) blast
  then show ?thesis
    using assms True by (elim writes_at_then) (simp_all add: wifi_commit_def Let_def)
next
  case False
  then show ?thesis using assms by (simp add: wifi_commit_def Let_def)
qed

lemma op_wifi_writes:
  assumes "\<not> mcast_hook_toggle (nf_mc s)"
  shows "writes_at (nf_ppe s k) (skb_hnat_entry k) s (op_wifi port v k s)"
proof -
  obtain f h where t: "flow_take (v_hz v) (v_jiffies v) (of_nat (nf_ppe s k)) (of_nat (skb_hnat_entry k)) (nf_core s)
      = (f, h)" by force
  have tab: "h_table h = h_table (nf_core s)" using t by (metis flow_take_table snd_conv)
  have mac: "h_mac h = h_mac (nf_core s)"
    using t by (auto simp: flow_take_def set_flow_list_def Let_def split: option.splits if_splits)
  have ppe: "nf_ppe (s\<lparr>nf_core := h\<rparr>) = nf_ppe s" by (simp add: mac)
  have quiet: "writes_at p i s (s\<lparr>nf_core := h\<rparr>)" for p i
    by (rule writes_at_quiet) (simp_all add: foe_of_def tab ppe)
  have "writes_at (nf_ppe s k) (skb_hnat_entry k) s (wifi_commit v k e (s\<lparr>nf_core := h\<rparr>))" for e
    using wifi_commit_writes [of "s\<lparr>nf_core := h\<rparr>" k v e] assms
    by (simp add: ppe writes_at_def) (simp add: foe_of_def tab)
  then show ?thesis
    using t by (simp add: op_wifi_def mtk_sw_nat_hook_tx_def Let_def quiet split: option.split)
qed

interpretation wifi: entry_writer op_wifi
proof
  fix s :: nf_state and p i k a v
  assume off: "\<not> mcast_hook_toggle (nf_mc s)"
  note w = op_wifi_writes [OF off, of k a v, unfolded writes_at_def]
  show "(p, i) \<noteq> (nf_ppe s k, skb_hnat_entry k) \<Longrightarrow> foe_of (op_wifi a v k s) p i = foe_of s p i"
    using w by blast
  show "entry_hnat_is_bound (foe_of s p i) \<Longrightarrow> foe_of (op_wifi a v k s) p i = foe_of s p i"
    using w by (cases "(p, i) = (nf_ppe s k, skb_hnat_entry k)") auto
  show "nf_mc (op_wifi a v k s) = nf_mc s" "nf_ppe (op_wifi a v k s) = nf_ppe s" using w by blast+
qed

lemma crypto_commit_writes:
  "\<not> entry_hnat_is_bound (foe_of s p i) \<Longrightarrow> writes_at p i s (crypto_commit p i e s)"
  by (rule writes_at_then [OF writes_at_commit]) (auto simp: crypto_commit_def Let_def commit_eq)

lemma op_crypto_writes: "writes_at (nf_ppe s k) (skb_hnat_entry k) s (op_crypto a v k s)"
  by (auto simp: op_crypto_def hnat_bind_crypto_entry_def crypto_publish_def crypto_commit_writes
      split: prod.splits sum.splits)

interpretation crypto: entry_writer op_crypto
proof
  fix s :: nf_state and p i k a v
  note w = op_crypto_writes [of s k a v, unfolded writes_at_def]
  show "(p, i) \<noteq> (nf_ppe s k, skb_hnat_entry k) \<Longrightarrow> foe_of (op_crypto a v k s) p i = foe_of s p i"
    using w by blast
  show "entry_hnat_is_bound (foe_of s p i) \<Longrightarrow> foe_of (op_crypto a v k s) p i = foe_of s p i"
    using w by (cases "(p, i) = (nf_ppe s k, skb_hnat_entry k)") auto
  show "nf_mc (op_crypto a v k s) = nf_mc s" "nf_ppe (op_crypto a v k s) = nf_ppe s" using w by blast+
qed

text \<open>Any of the three.\<close>

datatype bind_call = By_info nat hw_path | By_wifi nat | By_crypto nat bool

definition op_any :: "bind_call \<Rightarrow> nf_env \<Rightarrow> sk_buff \<Rightarrow> nf_state \<Rightarrow> nf_state" where
  "op_any a = (case a of By_info d hp \<Rightarrow> op_info (d, hp) | By_wifi port \<Rightarrow> op_wifi port
               | By_crypto d inner \<Rightarrow> op_crypto (d, inner))"

interpretation any: entry_writer op_any
proof
  fix s :: nf_state and p i k and a :: bind_call and v
  assume off: "\<not> mcast_hook_toggle (nf_mc s)"
  show "(p, i) \<noteq> (nf_ppe s k, skb_hnat_entry k) \<Longrightarrow> foe_of (op_any a v k s) p i = foe_of s p i"
    using info.own_entry [OF off] wifi.own_entry [OF off] crypto.own_entry [OF off]
    by (simp add: op_any_def split: bind_call.split)
  show "entry_hnat_is_bound (foe_of s p i) \<Longrightarrow> foe_of (op_any a v k s) p i = foe_of s p i"
    using info.keeps_bound [OF off] wifi.keeps_bound [OF off] crypto.keeps_bound [OF off]
    by (simp add: op_any_def split: bind_call.split)
  show "nf_mc (op_any a v k s) = nf_mc s"
    using info.keeps_mc [OF off] wifi.keeps_mc [OF off] crypto.keeps_mc [OF off]
    by (simp add: op_any_def split: bind_call.split)
  show "nf_ppe (op_any a v k s) = nf_ppe s"
    using info.keeps_ppe [OF off] wifi.keeps_ppe [OF off] crypto.keeps_ppe [OF off]
    by (simp add: op_any_def split: bind_call.split)
qed

end
