(* ===== verification/Hnat_Bind_Spec.thy ===== *)
theory Hnat_Bind_Spec
  imports Hnat_Bind_Props Hnat_Delete_Props Hnat_Api_Props
begin

text \<open>
  What an IPv4 entry means: the packets the engine takes for it and what it makes of them, decoded from the
  words of the entry; and what the kernel has made of the packet that binds the flow.  \<open>hw_flow\<close> reads the
  members of an entry that matter for this; each step of \<open>skb_to_hnat_info\<close> is an update of what is read.
\<close>

section \<open>The meaning of an entry\<close>

record hw_flow =
  fv_type :: u32
  fv_state :: u32
  fv_udp :: u32
  fv_layers :: u32
  fv_psn :: u32
  fv_ttl :: u32
  fv_sip :: u32
  fv_dip :: u32
  fv_sport :: u32
  fv_dport :: u32
  fv_new_sip :: u32
  fv_new_dip :: u32
  fv_new_sport :: u32
  fv_new_dport :: u32
  fv_dmac_hi :: u32
  fv_dmac_lo :: u32
  fv_smac_hi :: u32
  fv_smac_lo :: u32
  fv_vlan1 :: u32
  fv_vlan2 :: u32
  fv_pppoe :: u32
  fv_dp :: u32

definition hw_flow :: "foe_words \<Rightarrow> hw_flow" where
  "hw_flow e =
     (let l = hnat_ipv4_hnapt
      in \<lparr>fv_type = rd e (bfib1 ''pkt_type''), fv_state = rd e (bfib1 ''state''), fv_udp = rd e (bfib1 ''udp''),
          fv_layers = rd e (bfib1 ''vlan_layer''), fv_psn = rd e (bfib1 ''psn''), fv_ttl = rd e (bfib1 ''ttl''),
          fv_sip = rd e (in_view l ''sip''), fv_dip = rd e (in_view l ''dip''),
          fv_sport = rd e (in_view l ''sport''), fv_dport = rd e (in_view l ''dport''),
          fv_new_sip = rd e (in_view l ''new_sip''), fv_new_dip = rd e (in_view l ''new_dip''),
          fv_new_sport = rd e (in_view l ''new_sport''), fv_new_dport = rd e (in_view l ''new_dport''),
          fv_dmac_hi = rd e (in_view l ''dmac_hi''), fv_dmac_lo = rd e (in_view l ''dmac_lo''),
          fv_smac_hi = rd e (in_view l ''smac_hi''), fv_smac_lo = rd e (in_view l ''smac_lo''),
          fv_vlan1 = rd e (in_view l ''vlan1''), fv_vlan2 = rd e (in_view l ''vlan2''),
          fv_pppoe = rd e (in_view l ''pppoe_id''), fv_dp = rd e (iblk2 l ''dp'')\<rparr>)"

text \<open>The packets of the flow.\<close>

record flow_key =
  fk_sip :: u32
  fk_dip :: u32
  fk_sport :: u32
  fk_dport :: u32
  fk_udp :: bool

definition hw_match :: "foe_words \<Rightarrow> flow_key" where
  "hw_match e =
     (let x = hw_flow e
      in \<lparr>fk_sip = fv_sip x, fk_dip = fv_dip x, fk_sport = fv_sport x, fk_dport = fv_dport x,
          fk_udp = (fv_udp x = 1)\<rparr>)"

text \<open>What a packet is sent out as: the port, the addresses of the link layer, its tags and session, the
  addresses and ports, and whether it counts as a hop.\<close>

record packet_out =
  po_port :: u32
  po_dmac :: "u32 \<times> u32"
  po_smac :: "u32 \<times> u32"
  po_vlans :: "u32 list"
  po_pppoe :: "u32 option"
  po_ttl :: bool
  po_sip :: u32
  po_dip :: u32
  po_sport :: u32
  po_dport :: u32

definition hw_rewrite :: "foe_words \<Rightarrow> packet_out" where
  "hw_rewrite e =
     (let x = hw_flow e
      in \<lparr>po_port = fv_dp x, po_dmac = (fv_dmac_hi x, fv_dmac_lo x), po_smac = (fv_smac_hi x, fv_smac_lo x),
          po_vlans = take (unat (fv_layers x)) [fv_vlan1 x, fv_vlan2 x],
          po_pppoe = (if fv_psn x = 1 then Some (fv_pppoe x) else None), po_ttl = (fv_ttl x = 1),
          po_sip = fv_new_sip x, po_dip = fv_new_dip x, po_sport = fv_new_sport x, po_dport = fv_new_dport x\<rparr>)"

text \<open>What the kernel makes of it: the headers of the packet behind its address translation, on the path
  found, through the MAC of the device.\<close>

definition kernel_out :: "nf_env \<Rightarrow> nat \<Rightarrow> hw_path \<Rightarrow> be16 \<times> be16 \<Rightarrow> sk_buff \<Rightarrow> packet_out" where
  "kernel_out v d hp pt k =
     \<lparr>po_port = of_int (HNAT_GMAC_FP (v_gmac_num v) (dv_mac_id (v_devs v d))),
      po_dmac = (mac_hi (hp_eth_dest hp), mac_lo (hp_eth_dest hp)),
      po_smac = (mac_hi (hp_eth_src hp), mac_lo (hp_eth_src hp)),
      po_vlans = (if path_flag hp DEV_PATH_VLAN then [ucast (hp_vlan_id hp)] else [])
                 @ (if skb_vlan_tag_present k then [ucast (sb_vlan_tci k)] else []),
      po_pppoe = (if path_flag hp DEV_PATH_PPPOE then Some (ucast (hp_pppoe_sid hp)) else None),
      po_ttl = (\<not> hnat_is_hw_path_bridging v hp),
      po_sip = ntohl (ip_saddr (ip_hdr k)), po_dip = ntohl (ip_daddr (ip_hdr k)),
      po_sport = ucast (be16_to_cpu (fst pt)), po_dport = ucast (be16_to_cpu (snd pt))\<rparr>"

section \<open>Steps\<close>

lemma bind_places [foe_fld]:
  "in_view hnat_ipv4_hnapt ''eg_keep_ecn'' = Fld 10 9 1 \<and>
   in_view hnat_ipv4_hnapt ''eg_keep_dscp'' = Fld 10 10 1 \<and>
   iblk2 hnat_ipv4_hnapt ''mibf'' = Fld 4 15 1 \<and>
   iblk2 hnat_ipv4_hnapt ''port_mg'' = Fld 4 7 1 \<and>
   iblk2 hnat_ipv4_hnapt ''port_ag'' = Fld 4 20 4"
  by code_simp

text \<open>How the members lie: a write is seen by its own member only.\<close>

lemmas flow_rw = hw_flow_def Let_def foe_fld rd_wr_same rd_wr_other asg_simps asg_append cp_def

lemma take_bit_of_u16 [simp]: "take_bit 16 (ucast (x :: u16) :: u32) = ucast x"
  by (rule bit_word_eqI) (auto simp: bit_simps dest: bit_imp_le_length)

lemma pkt_type_flow: "pkt_type e = fv_type (hw_flow e)"
  by (simp add: hw_flow_def pkt_type_def Let_def)

text \<open>The entry starts with the type and the state of the one in the table.\<close>

definition zero_flow :: hw_flow where
  "zero_flow = hw_flow zero_words"

lemma zero_flow_simps [simp]:
  "fv_layers zero_flow = 0" "fv_vlan2 zero_flow = 0" "fv_udp zero_flow = 0"
  by (simp_all add: zero_flow_def hw_flow_def Let_def)

lemma flow_unbind_entry:
  "hw_flow (unbind_entry foe) = zero_flow\<lparr>fv_type := pkt_type foe, fv_state := rd foe (udib1 ''state'')\<rparr>"
  by (simp add: unbind_entry_def zero_flow_def pkt_type_def flow_rw udib1_state
      rd_take [of "Fld w lo n" for w lo n, simplified] del: One_nat_def)

lemma flow_key_copied:
  "hw_flow (asg (cp hnat_ipv4_hnapt [''sip'', ''dip'', ''sport'', ''dport''] foe) e) =
     (hw_flow e)\<lparr>fv_sip := fv_sip (hw_flow foe), fv_dip := fv_dip (hw_flow foe),
                fv_sport := fv_sport (hw_flow foe), fv_dport := fv_dport (hw_flow foe)\<rparr>"
  by (simp add: flow_rw rd_take [of "Fld w lo n" for w lo n, simplified] del: One_nat_def)

text \<open>The tags: that of the path, and behind it that of the packet.\<close>

definition flow_vlans :: "hw_path \<Rightarrow> sk_buff \<Rightarrow> hw_flow \<Rightarrow> hw_flow" where
  "flow_vlans hp k x =
     (let y = x\<lparr>fv_vlan1 := ucast (hp_vlan_id hp)\<rparr>
      in if \<not> skb_vlan_tagged k then y
         else if hp_vlan_id hp \<noteq> 0 then y\<lparr>fv_layers := 1, fv_vlan2 := ucast (sb_vlan_tci k)\<rparr>
         else y\<lparr>fv_layers := 1, fv_vlan1 := ucast (sb_vlan_tci k)\<rparr>)"

lemma ucast_u16_eq_0 [simp]: "(ucast (x :: u16) :: u32) = 0 \<longleftrightarrow> x = 0"
proof
  assume z: "(ucast x :: u32) = 0"
  show "x = 0"
  proof (rule bit_word_eqI)
    fix n assume "n < LENGTH(16)"
    moreover have "bit (ucast x :: u32) n = bit (0 :: u32) n" by (simp only: z)
    ultimately show "bit x n = bit (0 :: u16) n" by (simp add: bit_simps)
  qed
qed simp

lemma take_bit_32 [simp]: "take_bit 32 (x :: u32) = x"
  by (rule bit_word_eqI) (simp add: bit_simps)

lemma flow_fill_vlans:
  assumes "fv_layers (hw_flow e) = 0"
  shows "hw_flow (fill_vlans (in_view hnat_ipv4_hnapt ''vlan1'') (in_view hnat_ipv4_hnapt ''vlan2'') hp k e) =
     flow_vlans hp k (hw_flow e)"
proof -
  have z: "rd e (Fld 0 14 3) = 0" using assms by (simp add: hw_flow_def Let_def foe_fld)
  show ?thesis by (simp add: fill_vlans_def flow_vlans_def flow_rw z del: One_nat_def)
qed

lemma flow_fill_v4_grp:
  assumes "fv_layers (hw_flow e) = 0"
  shows "hw_flow (fill_v4_grp s k h hp e) =
     (flow_vlans hp k (hw_flow e))\<lparr>fv_new_sip := ntohl (ip_saddr h), fv_new_dip := ntohl (ip_daddr h)\<rparr>"
proof -
  define e1 where "e1 = asg ([(in_view hnat_ipv4_hnapt ''sp_tag'', ucast (cpu_to_be16 ETH_P_IP)),
      (iblk2 hnat_ipv4_hnapt ''dscp'', ucast (ip_tos h))] @ mibf s hnat_ipv4_hnapt) e"
  have e1: "hw_flow e1 = hw_flow e" by (simp add: e1_def mibf_def flow_rw del: One_nat_def)
  define e2 where "e2 = fill_vlans (in_view hnat_ipv4_hnapt ''vlan1'') (in_view hnat_ipv4_hnapt ''vlan2'') hp k e1"
  have e2: "hw_flow e2 = flow_vlans hp k (hw_flow e)"
    unfolding e2_def using assms by (subst flow_fill_vlans) (simp_all add: e1)
  have "hw_flow (fill_v4_grp s k h hp e) = (hw_flow e2)\<lparr>fv_new_sip := ntohl (ip_saddr h), fv_new_dip := ntohl (ip_daddr h)\<rparr>"
    unfolding fill_v4_grp_def Let_def e1_def [symmetric] e2_def [symmetric]
    by (simp add: flow_rw del: One_nat_def)
  then show ?thesis by (simp add: e2)
qed

lemma flow_fill_v4_l4:
  assumes "fv_type (hw_flow e) = IPV4_HNAPT" "fv_udp (hw_flow e) = 0"
    "ip_protocol h = IPPROTO_TCP \<or> ip_protocol h = IPPROTO_UDP" "skb_ports k (unat (ip_ihl h) * 4 + off) = Some pt"
  shows "\<exists>e'. fill_v4_l4 s k off h hp foe e = Some e' \<and> hw_flow e' =
     (hw_flow e)\<lparr>fv_udp := b2u (ip_protocol h = IPPROTO_UDP),
                fv_new_sport := ucast (be16_to_cpu (fst pt)), fv_new_dport := ucast (be16_to_cpu (snd pt))\<rparr>"
proof -
  define e1 where "e1 = (if ip_protocol h = IPPROTO_UDP then wr (bfib1 ''udp'') 1 e else e)"
  have e1: "hw_flow e1 = (hw_flow e)\<lparr>fv_udp := b2u (ip_protocol h = IPPROTO_UDP)\<rparr>"
    using assms(2) by (simp add: e1_def b2u_def flow_rw del: One_nat_def)
  have "pkt_type e1 = IPV4_HNAPT" using assms(1) by (simp add: pkt_type_flow e1)
  then have "fill_v4_l4 s k off h hp foe e = Some (asg (new_ports hnat_ipv4_hnapt pt) e1)"
    using assms(3,4) by (auto simp: fill_v4_l4_def e1_def [symmetric] foe_ip_act_defs)
  moreover have "hw_flow (asg (new_ports hnat_ipv4_hnapt pt) e1) =
      (hw_flow e1)\<lparr>fv_new_sport := ucast (be16_to_cpu (fst pt)), fv_new_dport := ucast (be16_to_cpu (snd pt))\<rparr>"
    by (simp add: new_ports_def flow_rw del: One_nat_def)
  ultimately show ?thesis by (simp add: e1)
qed

text \<open>The headers of an IPv4 packet of a flow with ports.\<close>

lemma flow_fill_v4:
  fixes foe e :: foe_words
  assumes "fv_type (hw_flow e) = IPV4_HNAPT" "fv_udp (hw_flow e) = 0" "fv_layers (hw_flow e) = 0"
    "h = iphdr_at (sb_bytes k) (sb_net k + off)" "\<not> ip_is_fragment h"
    "ip_protocol h = IPPROTO_TCP \<or> ip_protocol h = IPPROTO_UDP" "skb_ports k (unat (ip_ihl h) * 4 + off) = Some pt"
  shows "\<exists>e'. fill_v4 v s k off hp foe e = Some e' \<and> hw_flow e' =
     (flow_vlans hp k ((hw_flow e)\<lparr>fv_sip := fv_sip (hw_flow foe), fv_dip := fv_dip (hw_flow foe),
        fv_sport := fv_sport (hw_flow foe), fv_dport := fv_dport (hw_flow foe)\<rparr>))
     \<lparr>fv_new_sip := ntohl (ip_saddr h), fv_new_dip := ntohl (ip_daddr h), fv_udp := b2u (ip_protocol h = IPPROTO_UDP),
       fv_new_sport := ucast (be16_to_cpu (fst pt)), fv_new_dport := ucast (be16_to_cpu (snd pt))\<rparr>"
proof -
  define e1 where "e1 = asg (cp hnat_ipv4_hnapt [''sip'', ''dip'', ''sport'', ''dport''] foe) e"
  define e2 where "e2 = fill_v4_grp s k h hp e1"
  note e1 = flow_key_copied [of foe e, folded e1_def]
  have "fv_layers (hw_flow e1) = 0" using assms by (simp add: e1)
  note e2 = flow_fill_v4_grp [OF this, of s k h hp, folded e2_def]
  have t: "pkt_type e = IPV4_HNAPT" "pkt_type e1 = IPV4_HNAPT" "pkt_type e2 = IPV4_HNAPT"
    using assms by (simp_all add: pkt_type_flow e1 e2 flow_vlans_def Let_def)
  then have "fill_v4 v s k off hp foe e = fill_v4_l4 s k off h hp foe e2"
    unfolding fill_v4_def Let_def assms(4) [symmetric] e1_def [symmetric] e2_def [symmetric]
    using assms(5) by (simp add: IS_IPV4_GRP_def foe_ip_act_defs)
  moreover have "fv_type (hw_flow e2) = IPV4_HNAPT" "fv_udp (hw_flow e2) = 0"
    using assms by (simp_all add: e1 e2 flow_vlans_def Let_def)
  ultimately show ?thesis
    using flow_fill_v4_l4 [of e2 h k off pt s hp foe] assms by (auto simp: e1 e2)
qed

section \<open>The rest of the entry\<close>

lemma flow_L2_info:
  assumes "fv_type (hw_flow e) = IPV4_HNAPT"
  shows "hw_flow (ppe_fill_L2_info hp e) = (hw_flow e)
     \<lparr>fv_dmac_hi := mac_hi (hp_eth_dest hp), fv_dmac_lo := mac_lo (hp_eth_dest hp),
       fv_smac_hi := mac_hi (hp_eth_src hp), fv_smac_lo := mac_lo (hp_eth_src hp),
       fv_pppoe := ucast (hp_pppoe_sid hp)\<rparr>"
proof -
  have "pkt_type e = IPV4_HNAPT" using assms by (simp add: pkt_type_flow)
  then have "ppe_fill_L2_info hp e = asg (fill_macs hnat_ipv4_hnapt (hp_eth_dest hp) (hp_eth_src hp)
                @ [(in_view hnat_ipv4_hnapt ''pppoe_id'', ucast (hp_pppoe_sid hp))]) e"
    by (simp add: ppe_fill_L2_info_def IS_IPV4_GRP_def foe_ip_act_defs)
  then show ?thesis by (simp add: fill_macs_def mac_lo_def flow_rw del: One_nat_def)
qed

lemma flow_info_blk:
  assumes "fv_type (hw_flow e) = IPV4_HNAPT" "fv_layers (hw_flow e) \<in> {0, 1}" "\<not> mcast_hook_toggle (nf_mc s)"
  shows "hw_flow (ppe_fill_info_blk v s hp e) = (hw_flow e)
     \<lparr>fv_psn := b2u (path_flag hp DEV_PATH_PPPOE),
       fv_layers := fv_layers (hw_flow e) + b2u (path_flag hp DEV_PATH_VLAN),
       fv_ttl := b2u (\<not> hnat_is_hw_path_bridging v hp)\<rparr>"
proof -
  define e1 where "e1 = info_blk_common v hp e"
  have "hw_flow e1 = (hw_flow e)
     \<lparr>fv_psn := b2u (path_flag hp DEV_PATH_PPPOE),
       fv_layers := take_bit 3 (fv_layers (hw_flow e) + b2u (path_flag hp DEV_PATH_VLAN)),
       fv_ttl := b2u (\<not> hnat_is_hw_path_bridging v hp)\<rparr>"
    by (simp add: e1_def info_blk_common_def b2u_def flow_rw del: One_nat_def)
  then have e1: "hw_flow e1 = (hw_flow e)
     \<lparr>fv_psn := b2u (path_flag hp DEV_PATH_PPPOE),
       fv_layers := fv_layers (hw_flow e) + b2u (path_flag hp DEV_PATH_VLAN),
       fv_ttl := b2u (\<not> hnat_is_hw_path_bridging v hp)\<rparr>"
    using assms(2) by (auto simp: b2u_def)
  then have "pkt_type e1 = IPV4_HNAPT" using assms by (simp add: pkt_type_flow)
  then have a: "ppe_fill_info_blk v s hp e = info_blk_tag hnat_ipv4_hnapt
      (wr (iblk2 hnat_ipv4_hnapt ''port_ag'') 0xf (wr (iblk2 hnat_ipv4_hnapt ''mcast'') 0 e1))"
    using assms(3) by (simp add: ppe_fill_info_blk_def Let_def e1_def [symmetric] info_blk_mcast_def IS_IPV4_GRP_def foe_ip_act_defs)
  have "hw_flow (ppe_fill_info_blk v s hp e) = hw_flow e1"
    unfolding a by (simp add: info_blk_tag_def flow_rw del: One_nat_def)
  then show ?thesis by (simp add: e1)
qed

lemma flow_bind_queue:
  assumes "fv_type (hw_flow e) = IPV4_HNAPT" "h_version (nf_core s) = Hnat_State.MTK_HNAT_V3"
  shows "hw_flow (bind_queue v s k d mape gmac qid e) = (hw_flow e)\<lparr>fv_dp := gmac AND 0xf\<rparr>"
proof -
  have "pkt_type e = IPV4_HNAPT" using assms by (simp add: pkt_type_flow)
  then have g: "IS_IPV4_GRP e" by (simp add: IS_IPV4_GRP_def)
  have v: "hnat_v2_or_v3 (nf_core s)" using assms by (simp add: hnat_v2_or_v3_def)
  have f: "(0xf :: u32) = mask 4" by (simp add: mask_eq_exp_minus_1)
  have m: "take_bit 4 (gmac AND 0xf) = gmac AND 0xf" by (simp add: f flip: take_bit_eq_mask)
  show ?thesis
    unfolding bind_queue_def Let_def put_qid_def by (simp add: g v flow_rw m del: One_nat_def take_bit_and)
qed

lemma flow_offload:
  assumes "fv_type (hw_flow e) = IPV4_HNAPT" "skb_hnat_tops k = 0"
  shows "hw_flow (hnat_fill_offload_engine_entry v k e) = hw_flow e"
proof -
  have "pkt_type e = IPV4_HNAPT" using assms by (simp add: pkt_type_flow)
  then have g: "IS_IPV4_GRP e" by (simp add: IS_IPV4_GRP_def)
  show ?thesis using assms(2)
    by (simp add: hnat_fill_offload_engine_entry_def g flow_rw del: One_nat_def)
qed

lemma take_bit_state [simp]: "take_bit 2 (state_code st) = state_code st"
  by (cases st) (simp_all add: state_code_def)

lemma flow_commit:
  "hw_flow (foe_copy (commit_words ts (state_code st) e) foe) = (hw_flow e)\<lparr>fv_state := state_code st\<rparr>"
  by (simp add: commit_words_def FOE_WORDS_def flow_rw del: One_nat_def)

section \<open>Binding a plain flow\<close>

text \<open>A TCP or UDP packet of an unbound IPv4 flow, out of a device of one of the MACs that is no switch port and
  not accelerated for Wi-Fi; the path has a VLAN when it says so, and a tag of the packet is in its
  metadata.  No tunnel, crypto or L4S engine and no multicast takes part.\<close>

definition plain_flow :: "nf_env \<Rightarrow> nat \<Rightarrow> hw_path \<Rightarrow> be16 \<times> be16 \<Rightarrow> sk_buff \<Rightarrow> nf_state \<Rightarrow> bool" where
  "plain_flow v d hp pt k s =
     (let foe = foe_of_skb s k; h = ip_hdr k
      in rd foe (udib1 ''state'') = state_code UNBIND \<and> pkt_type foe = IPV4_HNAPT
         \<and> be16_to_cpu (h_proto (eth_hdr k)) \<noteq> ETH_P_PPP_SES \<and> ip_version h = 4 \<and> \<not> ip_is_fragment h
         \<and> ip_protocol h \<in> {IPPROTO_TCP, IPPROTO_UDP} \<and> skb_ports k (unat (ip_ihl h) * 4) = Some pt
         \<and> (skb_vlan_tagged k \<longrightarrow> skb_vlan_tag_present k)
         \<and> \<not> is_multicast_ether_addr (hp_eth_dest hp) \<and> path_flag hp DEV_PATH_VLAN = (hp_vlan_id hp \<noteq> 0)
         \<and> (dev_is_lan_grp v d \<or> dev_is_wan v d) \<and> dv_dsa_port (v_devs v d) = None
         \<and> HNAT_GMAC_FP (v_gmac_num v) (dv_mac_id (v_devs v d)) \<ge> 0 \<and> \<not> dev_is_whnat v s d
         \<and> skb_hnat_tops k = 0 \<and> \<not> engine_pending k hp \<and> \<not> v_l4s v
         \<and> \<not> mcast_hook_toggle (nf_mc s) \<and> h_version (nf_core s) = Hnat_State.MTK_HNAT_V3 \<and> v_trylock v)"

lemma bind_table_commits:
  assumes "\<not> mcast_hook_toggle (nf_mc s)" "v_trylock v"
    "rd (foe_of s (nf_ppe s k) (skb_hnat_entry k)) (udib1 ''state'') = state_code UNBIND"
  shows "\<exists>s'. bind_table v k e s = (0, k, s') \<and> foe_of s' (nf_ppe s k) (skb_hnat_entry k) =
           foe_copy (commit_words (hnat_timestamp (nf_core s)) (state_code BIND) e)
             (foe_of s (nf_ppe s k) (skb_hnat_entry k))"
  using assms by (auto simp: bind_table_def Let_def commit_eq)

lemma gmac_port_no_switch:
  assumes "dv_dsa_port (v_devs v d) = None"
  shows "gmac_port v s d False e = Some (HNAT_GMAC_FP (v_gmac_num v) (dv_mac_id (v_devs v d)), - ENODEV,
           dv_mac_id (v_devs v d), e)"
  using assms by (simp add: gmac_port_def hnat_dsa_get_port_def ENODEV_def Let_def)

lemma gmac_nibble:
  "HNAT_GMAC_FP n m \<ge> 0 \<Longrightarrow> of_int (HNAT_GMAC_FP n m) AND 0xf = (of_int (HNAT_GMAC_FP n m) :: u32)"
  by (auto simp: HNAT_GMAC_FP_def NR_GMAC1_PORT_def NR_GMAC2_PORT_def NR_GMAC3_PORT_def EINVAL_def split: if_splits)

text \<open>From the entry with its headers to the bound entry.\<close>

lemma plain_bind_from:
  assumes plain: "plain_flow v d hp pt k s"
    and e: "fv_type (hw_flow e) = IPV4_HNAPT" "fv_layers (hw_flow e) \<in> {0, 1}"
  shows "\<exists>s'. bind_from v d hp ep off False e k s = (0, k, s') \<and>
     hw_flow (foe_of s' (nf_ppe s k) (skb_hnat_entry k)) = (hw_flow e)
       \<lparr>fv_psn := b2u (path_flag hp DEV_PATH_PPPOE),
         fv_layers := fv_layers (hw_flow e) + b2u (path_flag hp DEV_PATH_VLAN),
         fv_ttl := b2u (\<not> hnat_is_hw_path_bridging v hp),
         fv_dp := of_int (HNAT_GMAC_FP (v_gmac_num v) (dv_mac_id (v_devs v d))),
         fv_state := state_code BIND\<rparr>"
proof -
  note P = plain [unfolded plain_flow_def Let_def]
  define e1 where "e1 = ppe_fill_info_blk v s hp e"
  define mac where "mac = dv_mac_id (v_devs v d)"
  define gmac where "gmac = (of_int (HNAT_GMAC_FP (v_gmac_num v) mac) :: u32)"
  define e2 where "e2 = bind_queue v s k d False gmac (bind_qid v k d (- ENODEV) mac ep off) e1"
  define e3 where "e3 = hnat_fill_offload_engine_entry v k e2"
  note e1 = flow_info_blk [OF e, of s v hp, folded e1_def]
  have t1: "fv_type (hw_flow e1) = IPV4_HNAPT" using e P by (simp add: e1)
  have e2: "hw_flow e2 = (hw_flow e1)\<lparr>fv_dp := gmac\<rparr>"
    unfolding e2_def using P flow_bind_queue [OF t1] by (simp add: gmac_def mac_def gmac_nibble)
  have e3: "hw_flow e3 = hw_flow e2"
    unfolding e3_def using P t1 by (intro flow_offload) (simp_all add: e2)
  have "bind_port v s k d False (foe_of_skb s k) e1 = Some (gmac, - ENODEV, mac, e1)"
    using P by (simp add: bind_port_def gmac_port_no_switch gmac_def mac_def)
  then have "bind_from v d hp ep off False e k s = bind_table v k e3 s"
    using P by (simp add: bind_from_def e1_def [symmetric] e2_def [symmetric] e3_def [symmetric] bind_l4s_def Let_def)
  then show ?thesis
    using bind_table_commits [of s v k e3] P
    by (auto simp: flow_commit e3 e2 e1 foe_of_skb_def gmac_def mac_def)
qed

text \<open>The whole function, read through \<open>hw_flow\<close>.\<close>

lemma plain_flow_entry:
  assumes plain: "plain_flow v d hp pt k s"
  defines "foe \<equiv> hw_flow (foe_of_skb s k)"
  shows "\<exists>s'. skb_to_hnat_info v d hp k s = (0, k, s') \<and>
     hw_flow (foe_of s' (nf_ppe s k) (skb_hnat_entry k)) =
       (flow_vlans hp k zero_flow)
         \<lparr>fv_type := IPV4_HNAPT, fv_state := state_code BIND, fv_udp := b2u (ip_protocol (ip_hdr k) = IPPROTO_UDP),
           fv_layers := fv_layers (flow_vlans hp k zero_flow) + b2u (path_flag hp DEV_PATH_VLAN),
           fv_psn := b2u (path_flag hp DEV_PATH_PPPOE), fv_ttl := b2u (\<not> hnat_is_hw_path_bridging v hp),
           fv_sip := fv_sip foe, fv_dip := fv_dip foe, fv_sport := fv_sport foe, fv_dport := fv_dport foe,
           fv_new_sip := ntohl (ip_saddr (ip_hdr k)), fv_new_dip := ntohl (ip_daddr (ip_hdr k)),
           fv_new_sport := ucast (be16_to_cpu (fst pt)), fv_new_dport := ucast (be16_to_cpu (snd pt)),
           fv_dmac_hi := mac_hi (hp_eth_dest hp), fv_dmac_lo := mac_lo (hp_eth_dest hp),
           fv_smac_hi := mac_hi (hp_eth_src hp), fv_smac_lo := mac_lo (hp_eth_src hp),
           fv_pppoe := ucast (hp_pppoe_sid hp),
           fv_dp := of_int (HNAT_GMAC_FP (v_gmac_num v) (dv_mac_id (v_devs v d)))\<rparr>"
proof -
  note P = plain [unfolded plain_flow_def Let_def]
  define e where "e = unbind_entry (foe_of_skb s k)"
  have e: "hw_flow e = zero_flow\<lparr>fv_type := IPV4_HNAPT, fv_state := state_code UNBIND\<rparr>"
    using P by (simp add: e_def flow_unbind_entry)
  have h: "ip_hdr k = iphdr_at (sb_bytes k) (sb_net k + 0)" by (simp add: ip_hdr_def)
  obtain e1 where e1: "fill_v4 v s k 0 hp (foe_of_skb s k) e = Some e1" and
    f1: "hw_flow e1 = (flow_vlans hp k ((hw_flow e)\<lparr>fv_sip := fv_sip foe, fv_dip := fv_dip foe,
        fv_sport := fv_sport foe, fv_dport := fv_dport foe\<rparr>))
     \<lparr>fv_new_sip := ntohl (ip_saddr (ip_hdr k)), fv_new_dip := ntohl (ip_daddr (ip_hdr k)),
       fv_udp := b2u (ip_protocol (ip_hdr k) = IPPROTO_UDP),
       fv_new_sport := ucast (be16_to_cpu (fst pt)), fv_new_dport := ucast (be16_to_cpu (snd pt))\<rparr>"
    using flow_fill_v4 [OF _ _ _ h, of e pt v s hp "foe_of_skb s k"] P by (auto simp: e foe_def)
  define e2 where "e2 = ppe_fill_L2_info hp e1"
  have t1: "fv_type (hw_flow e1) = IPV4_HNAPT" by (simp add: f1 e flow_vlans_def Let_def)
  note f2 = flow_L2_info [OF t1, of hp, folded e2_def]
  have t2: "fv_type (hw_flow e2) = IPV4_HNAPT" "fv_layers (hw_flow e2) \<in> {0, 1}"
    using t1 by (auto simp: f2 f1 e flow_vlans_def Let_def)
  have "bind_proto v k e hp = Some (ETH_P_IP, 0, hp)"
    using P by (simp add: bind_proto_def pkt_type_flow e foe_ip_act_defs)
  moreover have "rd e (bfib1 ''state'') = state_code UNBIND"
    using arg_cong [OF e, of fv_state] by (simp add: hw_flow_def Let_def)
  ultimately have "skb_to_hnat_info v d hp k s = bind_from v d hp ETH_P_IP 0 False e2 k s"
    using P e1 by (simp add: skb_to_hnat_info_def Let_def e_def [symmetric] e2_def [symmetric]
        hnat_offload_engine_done_def fill_headers_def)
  then show ?thesis
    using plain_bind_from [OF plain t2, of ETH_P_IP 0]
    by (auto simp: f2 f1 e flow_vlans_def Let_def)
qed

text \<open>What is read decides what the entry means.\<close>

lemma plain_flow_rewrite:
  assumes plain: "plain_flow v d hp pt k s"
    and e: "hw_flow e = (flow_vlans hp k zero_flow)\<lparr>fv_type := t, fv_state := st, fv_udp := u,
           fv_layers := fv_layers (flow_vlans hp k zero_flow) + b2u (path_flag hp DEV_PATH_VLAN),
           fv_psn := b2u (path_flag hp DEV_PATH_PPPOE), fv_ttl := b2u (\<not> hnat_is_hw_path_bridging v hp),
           fv_sip := x1, fv_dip := x2, fv_sport := x3, fv_dport := x4,
           fv_new_sip := ntohl (ip_saddr (ip_hdr k)), fv_new_dip := ntohl (ip_daddr (ip_hdr k)),
           fv_new_sport := ucast (be16_to_cpu (fst pt)), fv_new_dport := ucast (be16_to_cpu (snd pt)),
           fv_dmac_hi := mac_hi (hp_eth_dest hp), fv_dmac_lo := mac_lo (hp_eth_dest hp),
           fv_smac_hi := mac_hi (hp_eth_src hp), fv_smac_lo := mac_lo (hp_eth_src hp),
           fv_pppoe := ucast (hp_pppoe_sid hp),
           fv_dp := of_int (HNAT_GMAC_FP (v_gmac_num v) (dv_mac_id (v_devs v d)))\<rparr>"
  shows "hw_rewrite e = kernel_out v d hp pt k"
proof -
  have tag: "skb_vlan_tagged k = skb_vlan_tag_present k" and vlan: "path_flag hp DEV_PATH_VLAN = (hp_vlan_id hp \<noteq> 0)"
    using plain by (auto simp: plain_flow_def Let_def skb_vlan_tagged_def)
  show ?thesis
    by (auto simp: hw_rewrite_def kernel_out_def e flow_vlans_def tag vlan b2u_def Let_def)
qed

end
