(* ===== verification/Hnat_Packet_Props.thy ===== *)
theory Hnat_Packet_Props
  imports Hnat_Bind_Spec
begin

text \<open>
  Lemmas about the packet hooks: what the hardware sees while an entry is stored, the tags of a packet for
  Wi-Fi, and what becomes of a packet that a hook takes.
\<close>

section \<open>Storing an entry\<close>

lemma commit_steps_cases:
  assumes "t \<in> set (commit_steps e foe)"
  shows "t = foe_copy e foe \<or> t 0 = foe 0"
  using assms by (auto simp: commit_steps_def)

lemma bound_word: "e 0 = e' 0 \<Longrightarrow> entry_hnat_is_bound e = entry_hnat_is_bound e'"
  by (simp add: entry_hnat_is_bound_def foe_fld rd.simps)

section \<open>Tags of a packet for Wi-Fi\<close>

text \<open>The tags in the packet, at most \<open>n\<close> of them.\<close>

fun pkt_tags :: "nat \<Rightarrow> sk_buff \<Rightarrow> be16 \<Rightarrow> nat \<Rightarrow> u16 list" where
  "pkt_tags 0 k ep off = []"
| "pkt_tags (Suc n) k ep off =
     (if ep \<noteq> cpu_to_be16 ETH_P_8021Q then []
      else let p = unat (sb_mac k) + ETH_HLEN + off
           in be16_to_cpu (raw16 (sb_bytes k) p) # pkt_tags n k (raw16 (sb_bytes k) (p + 2)) (off + VLAN_HLEN))"

definition vlan_view :: "foe_words \<Rightarrow> layout" where
  "vlan_view e = (if IS_IPV4_GRP e \<or> pkt_type e = L2_BRIDGE then hnat_ipv4_hnapt else hnat_ipv6_5t_route)"

definition layers :: "foe_words \<Rightarrow> nat" where
  "layers e = unat (rd e (bfib1 ''vlan_layer''))"

definition entry_tags :: "foe_words \<Rightarrow> u32 list" where
  "entry_tags e = take (layers e) [rd e (in_view (vlan_view e) ''vlan1''), rd e (in_view (vlan_view e) ''vlan2'')]"

lemma rd_layer_eq: "rd e (bfib1 ''vlan_layer'') = of_nat n \<longleftrightarrow> layers e = n" if "n < 4"
proof -
  have "unat (of_nat n :: u32) = n" using that by (simp add: unat_of_nat take_bit_nat_eq_self)
  then show ?thesis unfolding layers_def by (metis unsigned_word_eqI)
qed

lemma layer_wr: "rd (wr (bfib1 ''vlan_layer'') x e) (bfib1 ''vlan_layer'') = take_bit 3 x"
  by (simp add: foe_fld rd_wr_same del: One_nat_def)

lemma add_vlan_full: "layers e \<ge> 2 \<Longrightarrow> hnat_add_vlan_layer tci False e = (- EINVAL, e)"
  by (simp add: hnat_add_vlan_layer_def layers_def word_le_nat_alt)

text \<open>One more tag, if there is room.\<close>

lemma add_vlan_layer:
  assumes "layers e < 2"
  shows "\<exists>e'. hnat_add_vlan_layer tci False e = (0, e') \<and> layers e' = layers e + 1 \<and> pkt_type e' = pkt_type e
    \<and> entry_tags e' = entry_tags e @ [ucast tci]"
proof -
  let ?l = "vlan_view e" and ?f = "bfib1 ''vlan_layer''"
  have small: "\<not> rd e ?f \<ge> 2" using assms by (simp add: layers_def word_le_nat_alt)
  have n: "layers e = 0 \<or> layers e = 1" using assms by auto
  then have r: "rd e ?f = of_nat (layers e)" using rd_layer_eq [of "layers e" e] by auto
  define e1 where "e1 = add_vlan_in ?l tci False e"
  define e' where "e' = wr ?f (rd e1 ?f + 1) e1"
  have c: "hnat_add_vlan_layer tci False e = (0, e')"
    using small by (simp add: hnat_add_vlan_layer_def e'_def e1_def vlan_view_def Let_def)
  have keep: "pkt_type e' = pkt_type e" "rd e1 ?f = rd e ?f"
    by (simp_all add: e'_def e1_def add_vlan_in_def vlan_view_def pkt_type_def foe_fld rd_wr_other del: One_nat_def)
  then have v: "vlan_view e' = ?l" by (simp add: vlan_view_def IS_IPV4_GRP_def)
  have r1: "rd e1 ?f = of_nat (layers e)" using keep(2) r by simp
  have num: "take_bit 3 (0 + 1 :: u32) = 1" "take_bit 3 (1 + 1 :: u32) = 2"
    by (simp_all add: take_bit_num_simps)
  have "rd e' ?f = of_nat (layers e + 1)"
    using n r1 num unfolding e'_def layer_wr by (elim disjE) simp_all
  then have l: "layers e' = layers e + 1" using rd_layer_eq [of "layers e + 1" e'] n by auto
  have vl: "vlan_view e = hnat_ipv4_hnapt \<or> vlan_view e = hnat_ipv6_5t_route" by (simp add: vlan_view_def)
  have t: "entry_tags e' = entry_tags e @ [ucast tci]"
  proof (cases "layers e = 0")
    case True
    then have "e1 = wr (in_view ?l ''vlan1'') (ucast tci) e" by (simp add: e1_def add_vlan_in_def r)
    then show ?thesis
      using True vl unfolding entry_tags_def v l
      by (elim disjE) (simp_all add: e'_def foe_fld rd_wr_same rd_wr_other del: One_nat_def, simp_all)
  next
    case False
    then have one: "layers e = 1" using n by simp
    then have "e1 = wr (in_view ?l ''vlan2'') (ucast tci) e" by (simp add: e1_def add_vlan_in_def r)
    then show ?thesis
      using one vl unfolding entry_tags_def v l
      by (elim disjE) (simp_all add: e'_def foe_fld rd_wr_same rd_wr_other del: One_nat_def, simp_all)
  qed
  show ?thesis using c l keep(1) t by blast
qed

text \<open>The loop ends: it takes as many tags as there is room for, and fails on the next.\<close>

lemma vlan_walk_result:
  "layers e + n = 2 \<Longrightarrow>
     \<exists>ok e'. vlan_walk k ep off e = Some (ok, e') \<and> ok = (length (pkt_tags (Suc n) k ep off) + layers e \<le> 2)
       \<and> (ok \<longrightarrow> pkt_type e' = pkt_type e \<and> layers e' = layers e + length (pkt_tags (Suc n) k ep off)
              \<and> entry_tags e' = entry_tags e @ map ucast (pkt_tags (Suc n) k ep off))"
proof (induction n arbitrary: e ep off)
  case 0
  then show ?case by (subst vlan_walk.simps) (auto simp: Let_def add_vlan_full EINVAL_def)
next
  case (Suc n)
  show ?case
  proof (cases "ep = cpu_to_be16 ETH_P_8021Q")
    case False
    then show ?thesis using Suc.prems by (subst vlan_walk.simps) auto
  next
    case True
    let ?p = "unat (sb_mac k) + ETH_HLEN + off"
    let ?tci = "be16_to_cpu (raw16 (sb_bytes k) ?p)" and ?ep = "raw16 (sb_bytes k) (?p + 2)"
    obtain e1 where e1: "hnat_add_vlan_layer ?tci False e = (0, e1)" "layers e1 = layers e + 1"
        "pkt_type e1 = pkt_type e" "entry_tags e1 = entry_tags e @ [ucast ?tci]"
      using add_vlan_layer [of e ?tci] Suc.prems by auto
    have w: "vlan_walk k ep off e = vlan_walk k ?ep (off + VLAN_HLEN) e1"
      using True e1(1) by (subst vlan_walk.simps) (simp add: Let_def)
    have t: "pkt_tags (Suc (Suc n)) k ep off = ?tci # pkt_tags (Suc n) k ?ep (off + VLAN_HLEN)"
      using True by (subst pkt_tags.simps(2)) (simp add: Let_def del: pkt_tags.simps)
    show ?thesis
      using Suc.IH [of e1 ?ep "off + VLAN_HLEN"] Suc.prems e1(2-4)
      unfolding w t by (auto simp del: pkt_tags.simps)
  qed
qed

text \<open>The tags of a packet: the one in its metadata, then those in the bytes.\<close>

definition wifi_tags :: "sk_buff \<Rightarrow> u16 list" where
  "wifi_tags k = (if skb_vlan_tag_present k then [sb_vlan_tci k] else []) @ pkt_tags 3 k (sb_protocol k) 0"

lemma pkt_tags_take: "n \<le> m \<Longrightarrow> pkt_tags n k ep off = take n (pkt_tags m k ep off)"
proof (induction n arbitrary: m ep off)
  case (Suc n)
  then obtain m' where "m = Suc m'" "n \<le> m'" by (cases m) auto
  then show ?case using Suc.IH by (simp add: Let_def)
qed simp

lemma pkt_tags_enough:
  "length (pkt_tags 2 k ep off) + 1 \<le> 2 \<longleftrightarrow> length (pkt_tags 3 k ep off) + 1 \<le> 2"
  "length (pkt_tags 3 k ep off) + 1 \<le> 2 \<Longrightarrow> pkt_tags 2 k ep off = pkt_tags 3 k ep off"
  using pkt_tags_take [of 2 3 k ep off] by auto

text \<open>When the tags can be entered.\<close>

definition wifi_vlans_ok :: "sk_buff \<Rightarrow> foe_words \<Rightarrow> bool" where
  "wifi_vlans_ok k e =
     ((skb_vlan_tag_present k \<longrightarrow> sb_vlan_proto k = cpu_to_be16 ETH_P_8021Q) \<and> length (wifi_tags k) \<le> 2
      \<and> (wifi_tags k = [] \<or> IS_IPV4_GRP e \<or> pkt_type e = L2_BRIDGE \<or> IS_IPV6_GRP e))"

text \<open>The entry with the tag of the metadata, and how the walk goes on from it.\<close>

lemma wifi_walk:
  assumes "layers e = 0"
    and tag: "skb_vlan_tag_present k \<Longrightarrow> hnat_add_vlan_layer (sb_vlan_tci k) False e = (0, e1)"
    and none: "\<not> skb_vlan_tag_present k \<Longrightarrow> e1 = e"
  shows "\<exists>ok e2. vlan_walk k (sb_protocol k) 0 e1 = Some (ok, e2) \<and> ok = (length (wifi_tags k) \<le> 2)
    \<and> (ok \<longrightarrow> pkt_type e2 = pkt_type e \<and> layers e2 = length (wifi_tags k) \<and> entry_tags e2 = map ucast (wifi_tags k))"
proof (cases "skb_vlan_tag_present k")
  case False
  have "entry_tags e = []" using assms(1) by (simp add: entry_tags_def)
  then show ?thesis
    using False none vlan_walk_result [of e 2 k "sb_protocol k" 0] assms(1)
    by (auto simp: wifi_tags_def numeral_3_eq_3 numeral_2_eq_2 simp del: pkt_tags.simps)
next
  case True
  have e1: "layers e1 = 1" "pkt_type e1 = pkt_type e" "entry_tags e1 = [ucast (sb_vlan_tci k)]"
    using add_vlan_layer [of e "sb_vlan_tci k"] tag [OF True] assms(1) by (auto simp: entry_tags_def)
  have "Suc 1 = 2" by simp
  then obtain ok e2 where w: "vlan_walk k (sb_protocol k) 0 e1 = Some (ok, e2)"
      "ok = (length (pkt_tags 2 k (sb_protocol k) 0) + 1 \<le> 2)"
      "ok \<longrightarrow> pkt_type e2 = pkt_type e1 \<and> layers e2 = 1 + length (pkt_tags 2 k (sb_protocol k) 0)
         \<and> entry_tags e2 = entry_tags e1 @ map ucast (pkt_tags 2 k (sb_protocol k) 0)"
    using vlan_walk_result [of e1 1 k "sb_protocol k" 0] e1(1) by (metis one_add_one)
  have wt: "wifi_tags k = sb_vlan_tci k # pkt_tags 3 k (sb_protocol k) 0" using True by (simp add: wifi_tags_def)
  show ?thesis
    using w e1 pkt_tags_enough [of k "sb_protocol k" 0] unfolding wt by (auto simp del: pkt_tags.simps)
qed

lemma wifi_vlans_result:
  "\<exists>r. wifi_vlans k e0 = Some r \<and> (r \<noteq> None) = wifi_vlans_ok k e0
     \<and> (\<forall>e. r = Some e \<longrightarrow> pkt_type e = pkt_type e0 \<and> entry_tags e = map ucast (wifi_tags k))"
proof -
  let ?e = "wr (bfib1 ''vlan_layer'') 0 e0"
  have l: "layers ?e = 0" by (simp add: layers_def layer_wr)
  have ty: "pkt_type ?e = pkt_type e0" by (simp add: pkt_type_def foe_fld rd_wr_other del: One_nat_def)
  show ?thesis
  proof (cases "skb_vlan_tag_present k \<and> sb_vlan_proto k \<noteq> cpu_to_be16 ETH_P_8021Q")
    case True
    then show ?thesis by (simp add: wifi_vlans_def wifi_vlans_ok_def)
  next
    case False
    obtain e' where add: "hnat_add_vlan_layer (sb_vlan_tci k) False ?e = (0, e')"
      using add_vlan_layer [of ?e "sb_vlan_tci k"] l by auto
    define e1 where "e1 = (if skb_vlan_tag_present k then e' else ?e)"
    obtain ok e2 where w: "vlan_walk k (sb_protocol k) 0 e1 = Some (ok, e2)" "ok = (length (wifi_tags k) \<le> 2)"
        "ok \<longrightarrow> pkt_type e2 = pkt_type ?e \<and> layers e2 = length (wifi_tags k) \<and> entry_tags e2 = map ucast (wifi_tags k)"
      using wifi_walk [OF l, of k e1] add by (auto simp: e1_def)
    have sp: "entry_tags (wr (in_view l ''sp_tag'') x e2) = entry_tags e2"
             "pkt_type (wr (in_view l ''sp_tag'') x e2) = pkt_type e2"
      if "l = hnat_ipv4_hnapt \<or> l = hnat_ipv6_5t_route" for l x
      using that
      by (elim disjE; simp add: entry_tags_def vlan_view_def layers_def pkt_type_def IS_IPV4_GRP_def foe_fld rd_wr_other
          del: One_nat_def)+
    have "wifi_vlans k e0 = map_option
            (\<lambda>(ok, e2).
               if \<not> ok then None
               else if rd e2 (bfib1 ''vlan_layer'') = 0 then Some e2
               else if IS_IPV4_GRP e2 \<or> pkt_type e2 = L2_BRIDGE
               then Some (wr (in_view hnat_ipv4_hnapt ''sp_tag'') (ucast ETH_P_8021Q) e2)
               else if IS_IPV6_GRP e2
               then Some (wr (in_view hnat_ipv6_5t_route ''sp_tag'') (ucast ETH_P_8021Q) e2)
               else None) (vlan_walk k (sb_protocol k) 0 e1)"
      using False by (cases "skb_vlan_tag_present k") (simp_all add: wifi_vlans_def Let_def e1_def add)
    moreover have "ok \<Longrightarrow> (rd e2 (bfib1 ''vlan_layer'') = 0) = (wifi_tags k = [])"
      using rd_layer_eq [of 0 e2] w(3) by simp
    moreover have "ok \<Longrightarrow> IS_IPV4_GRP e2 = IS_IPV4_GRP e0 \<and> IS_IPV6_GRP e2 = IS_IPV6_GRP e0 \<and> pkt_type e2 = pkt_type e0"
      using w(3) ty by (simp add: IS_IPV4_GRP_def IS_IPV6_GRP_def)
    ultimately show ?thesis
      using w False by (auto simp: sp wifi_vlans_ok_def)
  qed
qed

section \<open>What becomes of a packet\<close>

text \<open>The packet goes on in the kernel, or it is handed on and no longer the driver's.  Two more outcomes are
  mistakes: a packet that is neither (taken from the kernel, but not handed on), and one that was
  freed while the kernel goes on with it.\<close>

definition pkt_kept :: "nf_state \<Rightarrow> verdict \<times> sk_buff option \<times> nf_state \<Rightarrow> bool" where
  "pkt_kept s r = (case r of (x, ko, s') \<Rightarrow> x \<noteq> NF_STOLEN \<and> ko \<noteq> None \<and> nf_out s' = nf_out s)"

definition pkt_sent :: "nf_state \<Rightarrow> verdict \<times> sk_buff option \<times> nf_state \<Rightarrow> bool" where
  "pkt_sent s r = (case r of (x, ko, s') \<Rightarrow> x = NF_STOLEN \<and> ko = None \<and> butlast (nf_out s') = nf_out s
     \<and> length (nf_out s') = length (nf_out s) + 1)"

definition pkt_leaked :: "nf_env \<Rightarrow> nf_state \<Rightarrow> verdict \<times> sk_buff option \<times> nf_state \<Rightarrow> bool" where
  "pkt_leaked v s r =
     (case r of (x, ko, s') \<Rightarrow>
        x = NF_STOLEN \<and> nf_out s' = nf_out s \<and>
        (case ko of None \<Rightarrow> False
         | Some k \<Rightarrow> skb_hnat_reason k = HIT_BIND_FORCE_TO_CPU
             \<and> get_dev_from_index (v_devs v) (foe_act_dp (foe_of_skb s' k)) (nf_ext s') = None))"

definition pkt_freed :: "nf_env \<Rightarrow> nf_state \<Rightarrow> verdict \<times> sk_buff option \<times> nf_state \<Rightarrow> bool" where
  "pkt_freed v s r = (case r of (x, ko, s') \<Rightarrow> x \<noteq> NF_STOLEN \<and> ko = None \<and> nf_out s' = nf_out s)"

text \<open>A copy of the packet could not be made, or it was made, in the place of a packet that has clones, and
  then could not be pulled.\<close>

definition copy_failed :: "nf_env \<Rightarrow> bool" where
  "copy_failed v = (\<exists>k. v_vlan_insert v k = None \<or> v_vlan_untag v k = None \<or> v_unshare v k = None
     \<or> (sb_cloned k \<and> (\<exists>k'. v_unshare v k = Some k' \<and> \<not> v_may_pull v k')))"

definition accounted_for :: "nf_env \<Rightarrow> nf_state \<Rightarrow> verdict \<times> sk_buff option \<times> nf_state \<Rightarrow> bool" where
  "accounted_for v s r =
     (pkt_kept s r \<or> pkt_sent s r \<or> pkt_leaked v s r \<or> (pkt_freed v s r \<and> copy_failed v))"

lemmas fate_defs = accounted_for_def pkt_kept_def pkt_sent_def pkt_leaked_def pkt_freed_def

lemma emit_out [simp]: "nf_out (emit x s) = nf_out s @ [x]"
  by (simp add: emit_def)

lemma accounted_kept [simp]: "x \<noteq> NF_STOLEN \<Longrightarrow> nf_out s' = nf_out s \<Longrightarrow> accounted_for v s (x, Some k, s')"
  by (simp add: fate_defs)

lemma accounted_sent [simp]: "nf_out s' = nf_out s \<Longrightarrow> accounted_for v s (NF_STOLEN, None, emit q s')"
  by (simp add: fate_defs)

lemma accounted_freed [simp]: "x \<noteq> NF_STOLEN \<Longrightarrow> nf_out s' = nf_out s \<Longrightarrow> copy_failed v \<Longrightarrow> accounted_for v s (x, None, s')"
  by (simp add: fate_defs)

lemma accounted_cong: "nf_out s = nf_out s1 \<Longrightarrow> accounted_for v s r = accounted_for v s1 r"
  by (simp add: fate_defs)

lemma copy_failedI:
  "v_vlan_insert v k = None \<Longrightarrow> copy_failed v" "v_vlan_untag v k = None \<Longrightarrow> copy_failed v"
  "v_unshare v k = None \<Longrightarrow> copy_failed v"
  by (auto simp: copy_failed_def)

lemma pull_failsI: "v_unshare v k = Some k' \<Longrightarrow> \<not> v_may_pull v k' \<Longrightarrow> sb_cloned k \<Longrightarrow> copy_failed v"
  by (auto simp: copy_failed_def)

text \<open>The parts of the hooks.\<close>

lemma find_dev_out [simp]:
  "nf_out (find_wandev v s) = nf_out s" "nf_out (find_ppdev v s) = nf_out s"
  "nf_out (snd (get_wandev_from_index v i s)) = nf_out s"
  "nf_out (snd (do_ext2ge_fast_learn v d k s)) = nf_out s"
  by (auto simp: find_wandev_def find_ppdev_def get_wandev_from_index_def do_ext2ge_fast_learn_def Let_def
      split: option.split)

lemma ext_to_ge_accounted:
  "x \<noteq> NF_STOLEN \<Longrightarrow> accounted_for v s (stolen_or x (do_hnat_ext_to_ge v d k s))"
  by (auto simp: do_hnat_ext_to_ge_def stolen_or_def Let_def dest: copy_failedI
      split: option.split)

lemma mape_pong_accounted:
  assumes "mape_pong v d k s = Some r" "x \<noteq> NF_STOLEN"
  shows "accounted_for v s (stolen_or x r)"
  using assms
  by (auto simp: mape_pong_def stolen_or_def Let_def split: option.splits if_splits)

lemma ext_to_ge2_accounted:
  assumes "do_hnat_ext_to_ge2 v k s = Some r" "x \<noteq> NF_STOLEN"
  shows "accounted_for v s (stolen_or x r)"
proof -
  obtain w s1 where w: "get_wandev_from_index v (tag_ifindex k) s = (w, s1)" by force
  have o: "nf_out s1 = nf_out s" using w by (metis find_dev_out(3) snd_conv)
  show ?thesis
    using assms mape_pong_accounted [of v _ k s1 r x] accounted_cong [OF o]
    by (auto simp: do_hnat_ext_to_ge2_def stolen_or_def Let_def w o dest: copy_failedI
        split: option.splits if_splits)
qed

lemma mape_add_keeps_reason:
  "mape_add_ipv6_hdr b h k = Some (r, k') \<Longrightarrow> r \<noteq> 0 \<Longrightarrow> k' = k"
  by (auto simp: mape_add_ipv6_hdr_def Let_def split: if_splits)

lemma upd_core_out [simp]: "nf_out (upd_core f s) = nf_out s"
  by (simp add: upd_core_def)

lemma ge_to_ext_down_accounted:
  assumes "ge_to_ext_down v i k s = Some r" "x \<noteq> NF_STOLEN"
  shows "accounted_for v s (stolen_or x r)"
proof -
  obtain w s1 where w: "(if v_mape v then get_wandev_from_index v i s else (None, s)) = (w, s1)" by force
  have o: "nf_out s1 = nf_out s" using w by (metis find_dev_out(3) snd_conv)
  show ?thesis
    using assms
    by (auto simp: ge_to_ext_down_def stolen_or_def Let_def w o
        split: option.splits if_splits)
qed

lemma ge_to_ext_accounted:
  assumes r: "do_hnat_ge_to_ext v k s = Some r" and x: "x \<noteq> NF_STOLEN"
    and reason: "skb_hnat_reason k = HIT_BIND_FORCE_TO_CPU"
  shows "accounted_for v s (stolen_or x r)"
proof -
  define index where "index = foe_act_dp (foe_of_skb s k)"
  show ?thesis
  proof (cases "get_dev_from_index (v_devs v) index (nf_ext s)")
    case None
    then show ?thesis
      using r x reason by (auto simp: do_hnat_ge_to_ext_def stolen_or_def Let_def index_def fate_defs split: if_splits)
  next
    case (Some d)
    have send: "(if sb_dev k' \<noteq> None
                 then Some (0, None, emit (Dev_queue_xmit (skb_push ETH_HLEN (skb_set_network_header 0 k'))) s)
                 else ge_to_ext_down v index k' s) = Some r \<Longrightarrow> accounted_for v s (stolen_or x r)" for k'
      using x ge_to_ext_down_accounted [of v index k' s r x] by (auto simp: stolen_or_def split: if_splits)
    show ?thesis
    proof (cases "skb_hnat_entry k \<ge> h_etry_num (nf_core s) \<or> nf_ppe s k \<ge> CFG_PPE_NUM s
        \<or> IS_HQOS_MODE v \<and> h_proto (eth_hdr (k\<lparr>sb_dev := Some d\<rparr>)) = HQOS_MAGIC_TAG
           \<and> (v_unshare v (k\<lparr>sb_dev := Some d\<rparr>) = None
              \<or> \<not> v_may_pull v (the (v_unshare v (k\<lparr>sb_dev := Some d\<rparr>))))")
      case True
      then show ?thesis
        using r x Some
        by (auto simp: do_hnat_ge_to_ext_def stolen_or_def Let_def index_def dest: copy_failedI pull_failsI
            split: if_splits option.splits)
    next
      case False
      then have "\<exists>k'. do_hnat_ge_to_ext v k s =
          (if sb_dev k' \<noteq> None
           then Some (0, None, emit (Dev_queue_xmit (skb_push ETH_HLEN (skb_set_network_header 0 k'))) s)
           else ge_to_ext_down v index k' s)"
        using Some unfolding do_hnat_ge_to_ext_def Let_def index_def [symmetric]
        by (intro exI [of _ "if IS_HQOS_MODE v \<and> h_proto (eth_hdr (k\<lparr>sb_dev := Some d\<rparr>)) = HQOS_MAGIC_TAG
              then pull_hqos_tag (the (v_unshare v (k\<lparr>sb_dev := Some d\<rparr>))) else k\<lparr>sb_dev := Some d\<rparr>"])
          (auto split: option.splits)
      then show ?thesis using r send by metis
    qed
  qed
qed

lemma keepalive_out [simp]: "nf_out (keepalive_iif v k s) = nf_out s"
  by (simp add: keepalive_iif_def mtk_hnat_update_acct_ifindex_def Let_def split: option.split)

lemma xlat_pre_out [simp]: "nf_out (mtk_464xlat_pre_process k s) = nf_out s"
  by (simp add: mtk_464xlat_pre_process_def Let_def)

lemma pre_routing_end_accounted:
  "pre_routing_end v d k s = Some r \<Longrightarrow> accounted_for v s r"
  by (auto simp: pre_routing_end_def ext_to_ge_accounted ge_to_ext_accounted do_ge2ext_fast_def split: if_splits)

lemma learn_or_send_accounted:
  assumes "learn_or_send v d k s cont = Some r"
    and "\<And>k s r. cont k s = Some r \<Longrightarrow> accounted_for v s r"
  shows "accounted_for v s r"
proof -
  define k' where "k' = (if skb_hnat_iface k = FOE_MAGIC_EXT then clr_from_extge k else k)"
  obtain l s1 where l: "do_ext2ge_fast_learn v d k' s = (l, s1)" by force
  have o: "nf_out s = nf_out s1" using l by (metis find_dev_out(4) snd_conv)
  show ?thesis
    using assms(1) assms(2) [of k' s1 r]
    unfolding learn_or_send_def Let_def k'_def [symmetric] l accounted_cong [OF o]
    by (auto simp: ext_to_ge2_accounted ge_to_ext_accounted do_ge2ext_fast_def split: if_splits)
qed

lemma br_local_in_end_accounted: "br_local_in_end v d k s = Some r \<Longrightarrow> accounted_for v s r"
  using ext_to_ge_accounted [of NF_ACCEPT v "find_ppdev v s" d k, folded accounted_cong [OF find_dev_out(2) [symmetric]]]
  by (auto simp: br_local_in_end_def Let_def split: if_splits elim!: learn_or_send_accounted)

lemma hook_accounted:
  assumes "h \<in> {mtk_hnat_ipv4_nf_pre_routing, mtk_hnat_ipv6_nf_pre_routing, mtk_hnat_br_nf_local_in,
      mtk_pong_hqos_handler}" "h v d k s = Some r"
  shows "accounted_for v s r"
proof -
  have "accounted_for v s r" if "mtk_hnat_ipv4_nf_pre_routing v d k s = Some r"
    using that by (auto simp: mtk_hnat_ipv4_nf_pre_routing_def pre_routing_end_accounted split: if_splits option.splits prod.splits)
  moreover have "accounted_for v s r" if "mtk_hnat_ipv6_nf_pre_routing v d k s = Some r"
    using that by (auto simp: mtk_hnat_ipv6_nf_pre_routing_def pre_routing_end_accounted split: if_splits option.splits prod.splits)
  moreover have "accounted_for v s r" if "mtk_hnat_br_nf_local_in v d k s = Some r"
    using that
    by (auto simp: mtk_hnat_br_nf_local_in_def Let_def br_local_in_end_accounted split: if_splits option.splits prod.splits)
  moreover have "accounted_for v s r" if "mtk_pong_hqos_handler v d k s = Some r"
    using that by (auto simp: mtk_pong_hqos_handler_def split: if_splits elim!: learn_or_send_accounted)
  ultimately show ?thesis using assms by auto
qed

section \<open>Through the engine and back\<close>

text \<open>The index in the tag is the one the packet was sent with.\<close>

lemma tag_ifindex_to_ppe:
  assumes "i < 4096"
  shows "tag_ifindex (to_ppe v i ppd k) = i"
proof -
  have "(VLAN_CFI_MASK OR (of_nat i AND VLAN_VID_MASK)) AND VLAN_VID_MASK = (take_bit 12 (of_nat i) :: u16)"
    by (simp add: VLAN_CFI_MASK_def VLAN_VID_MASK_def bit.conj_disj_distrib2 and.assoc take_bit_eq_mask mask_eq_exp_minus_1)
  then show ?thesis
    using assms by (simp add: tag_ifindex_def to_ppe_def unsigned_take_bit_eq unat_of_nat take_bit_nat_eq_self)
qed

lemma from_ppe_fields [simp]:
  "sb_dev (from_ppe v s d m k) = sb_dev k" "sb_vlan_tci (from_ppe v s d m k) = sb_vlan_tci k"
  "sb_vlan_proto (from_ppe v s d m k) = sb_vlan_proto k" "sb_bytes (from_ppe v s d m k) = sb_bytes k"
  "sb_cb2 (from_ppe v s d m k) = EXTGE_MAGIC"
  by (simp_all add: from_ppe_def fix_skb_packet_type_def Let_def)

text \<open>The mark a packet has when it comes back: with it the test before routing does not send the packet to the
  engine; the hook of a bridge, on a chip that accelerates Wi-Fi, hands the packet on without it, and then
  the test holds.\<close>

definition mark_until_bridge :: "nf_env \<Rightarrow> nat \<Rightarrow> sk_buff \<Rightarrow> bool" where
  "mark_until_bridge v d q \<longleftrightarrow>
     (\<forall>k s. sb_cb2 k = sb_cb2 q \<longrightarrow> \<not> do_ext2ge_fast_try k \<and>
        (v_whnat v \<and> skb_hnat_iface k = FOE_MAGIC_EXT \<and> \<not> dev_is_ppd v d
           \<and> \<not> do_ge2ext_fast v s d (clr_from_extge k) \<longrightarrow>
         (\<exists>s'. br_local_in_end v d k s = Some (NF_ACCEPT, Some (clr_from_extge k), s'))
           \<and> do_ext2ge_fast_try (clr_from_extge k)))"

lemma mark_cleared:
  assumes "v_whnat v" "\<not> dev_is_ppd v d" "\<not> do_ge2ext_fast v s d (clr_from_extge k)"
    and "sb_cb2 k = EXTGE_MAGIC" "skb_hnat_iface k = FOE_MAGIC_EXT"
  shows "br_local_in_end v d k s = Some (NF_ACCEPT, Some (clr_from_extge k), keepalive_iif v (clr_from_extge k) s)
    \<and> do_ext2ge_fast_try (clr_from_extge k)"
proof -
  have "skb_hnat_iface (clr_from_extge k) = FOE_MAGIC_EXT"
    using assms(5) by (simp add: clr_from_extge_def)
  then show ?thesis
    using assms
    by (simp add: br_local_in_end_def learn_or_send_def do_ext2ge_fast_learn_def do_ext2ge_fast_try_def
        is_from_extge_def clr_from_extge_def EXTGE_MAGIC_def)
qed

lemma marked_until_bridge: "sb_cb2 q = EXTGE_MAGIC \<Longrightarrow> mark_until_bridge v d q"
  using mark_cleared [of v d] by (auto simp: mark_until_bridge_def do_ext2ge_fast_try_def is_from_extge_def)

lemma ext_to_ge2_receives:
  assumes "get_dev_from_index (v_devs v) (tag_ifindex k) (nf_ext s) = Some d"
    and "nf_ppe s k < CFG_PPE_NUM s" "skb_hnat_entry k < h_etry_num (nf_core s)"
    and "be16_to_cpu (h_proto (eth_hdr k)) \<noteq> ETH_P_8021Q"
  shows "\<exists>q. do_hnat_ext_to_ge2 v k s = Some (0, None, emit (Netif_rx q) s) \<and> sb_dev q = Some d
    \<and> \<not> skb_vlan_tag_present q \<and> sb_bytes q = sb_bytes k \<and> mark_until_bridge v d q"
  using assms
  by (intro exI [of _ "from_ppe v s d (sb_mac k) (k\<lparr>sb_dev := Some d, sb_vlan_proto := 0, sb_vlan_tci := 0\<rparr>)"])
    (simp add: do_hnat_ext_to_ge2_def eth_hdr_def skb_vlan_tag_present_def marked_until_bridge)

text \<open>A device found has the index looked for, and the one in an entry has seven bits.\<close>

lemma found_index:
  assumes "get_dev_from_index (v_devs v) i t = Some d"
  shows "dev_ifindex v d = i"
proof -
  obtain x where "find (\<lambda>x. case xe_dev (ext_ent t x) of None \<Rightarrow> False | Some d \<Rightarrow> i = Hnat_Ext.nd_ifindex (v_devs v d)) (live_ext t)
      = Some x" "xe_dev (ext_ent t x) = Some d"
    using assms by (auto simp: get_dev_from_index_def split: option.splits)
  then show ?thesis by (auto simp: find_Some_iff dev_ifindex_def)
qed

lemma foe_act_dp_small: "foe_act_dp e < 128"
proof -
  have "unat (x AND 0x7f) < 128" for x :: u32
  proof -
    have "x AND 0x7f = take_bit 7 x" by (simp add: take_bit_eq_mask mask_eq_exp_minus_1)
    then show ?thesis using take_bit_nat_less_exp [of 7 "unat x"] by (simp add: unsigned_take_bit_eq)
  qed
  then show ?thesis by (simp add: foe_act_dp_def UDF_PINGPONG_IFIDX_def)
qed

end
