(* ===== verification/Hnat_Sums.thy ===== *)
theory Hnat_Sums
  imports Hnat_Fill Hnat_Acct
begin

text \<open>
  Sums the driver keeps: the part of a header checksum that an entry carries, and the counters of traffic.
\<close>

section \<open>The checksum\<close>

lemma chk_fold_unat:
  assumes "unat t < 8 * 65536"
  shows "unat (chk_fold t) = unat t div 65536 + unat t mod 65536"
proof -
  have m: "t AND 0xFFFF = take_bit 16 t" "drop_bit 16 t AND 0x7 = take_bit 3 (drop_bit 16 t)"
    by (simp_all add: take_bit_eq_mask mask_eq_exp_minus_1)
  have d: "unat t div 65536 < 8" using assms by linarith
  have "unat (drop_bit 16 t AND 0x7) = take_bit 3 (unat t div 65536)"
    unfolding m by (simp only: unsigned_take_bit_eq unsigned_drop_bit_eq drop_bit_eq_div) (simp add: unat_div)
  then have "unat (drop_bit 16 t AND 0x7) = unat t div 65536"
    using d by (simp add: take_bit_nat_eq_self)
  moreover have "unat (t AND 0xFFFF) = unat t mod 65536"
    unfolding m by (simp add: unsigned_take_bit_eq take_bit_eq_mod unat_mod)
  ultimately show ?thesis
    unfolding chk_fold_def using d mod_less_divisor [of 65536 "unat t"]
    by (subst unat_add_lem [THEN iffD1]) auto
qed

text \<open>Two folds leave a number of 16 bits with the same remainder.\<close>

lemma chk_fold_twice:
  assumes "unat t < 8 * 65536"
  shows "unat (chk_fold (chk_fold t)) < 65536 \<and> unat (chk_fold (chk_fold t)) mod 65535 = unat t mod 65535"
proof -
  define a where "a = unat t div 65536"
  define b where "b = unat t mod 65536"
  have t: "unat t = 65536 * a + b" by (simp add: a_def b_def)
  have b: "a < 8" "b < 65536" using assms by (simp_all add: a_def b_def)
  have f: "unat (chk_fold t) = a + b" using chk_fold_unat [OF assms] by (simp add: a_def b_def)
  then have "unat (chk_fold (chk_fold t)) = (a + b) div 65536 + (a + b) mod 65536"
    using b chk_fold_unat [of "chk_fold t"] by simp
  moreover have "(a + b) div 65536 + (a + b) mod 65536 = (if a + b < 65536 then a + b else a + b - 65535)"
  proof (cases "a + b < 65536")
    case False
    then have "(a + b) div 65536 = 1" "(a + b) mod 65536 = a + b - 65536"
      using b by (simp_all add: le_div_geq le_mod_geq)
    then show ?thesis using False by simp
  qed simp
  ultimately have v: "unat (chk_fold (chk_fold t)) = (if a + b < 65536 then a + b else a + b - 65535)" by simp
  have "65536 * a + b = a + b + a * 65535" by simp
  then have m: "unat t mod 65535 = (a + b) mod 65535" unfolding t by (metis mod_mult_self1)
  show ?thesis
  proof (cases "a + b < 65536")
    case True
    then show ?thesis by (simp only: v m if_True)
  next
    case False
    then have "a + b - 65535 < 65536" "(a + b - 65535) mod 65535 = (a + b) mod 65535"
      using b le_mod_geq [of 65535 "a + b"] by linarith+
    then show ?thesis using False by (simp only: v m if_False)
  qed
qed

lemma unat_not16: "unat (NOT (x :: u16)) = 65535 - unat x"
proof -
  have "NOT x = - 1 - x" by (simp add: not_eq_complement)
  then show ?thesis by (simp add: unat_sub unsigned_minus_1_eq_mask mask_eq_exp_minus_1)
qed

lemma unat_add_small:
  "unat a + unat b < 2 ^ 32 \<Longrightarrow> unat (a + b :: u32) = unat a + unat b"
  by (rule unat_add_lem [THEN iffD1]) simp

lemma unat_16_32: "unat (ucast (x :: u16) :: u32) = unat x" "unat (ucast (y :: u8) :: u16) = unat y"
  by (simp_all add: unsigned_ucast_eq take_bit_nat_eq_self_iff unsigned_less [THEN less_le_trans])

text \<open>The fields the checksum is without.\<close>

definition chk_fields :: "nat \<Rightarrow> iphdr \<Rightarrow> nat list" where
  "chk_fields version h =
     [unat (be16_to_cpu (ip_tot_len h)), unat (be16_to_cpu (ip_id h))]
     @ (if version > Hnat_State.MTK_HNAT_V2 then [unat (ip_tos h)] else [])"

lemma chkbase_sum:
  "(unat (ppe_get_chkbase version h) + unat (be16_to_cpu (ip_check h)) + sum_list (chk_fields version h)) mod 65535 = 0"
proof -
  let ?c = "be16_to_cpu (ip_check h)" and ?l = "be16_to_cpu (ip_tot_len h)" and ?i = "be16_to_cpu (ip_id h)"
  define tmp where "tmp = (if version > Hnat_State.MTK_HNAT_V2
     then ucast (NOT ?c) + ucast (NOT ?l) + ucast (NOT ?i) + ucast (NOT (ucast (ip_tos h)) :: u16)
     else ucast (NOT ?c) + ucast (NOT ?l) + ucast (NOT ?i) :: u32)"
  have le: "unat x \<le> 65535" for x :: u16
  proof -
    have "unat x < 2 ^ LENGTH(16)" by (rule unsigned_less)
    then show ?thesis by simp
  qed
  have le8: "unat (ip_tos h) \<le> 65535"
  proof -
    have "unat (ip_tos h) < 2 ^ LENGTH(8)" by (rule unsigned_less)
    then show ?thesis by simp
  qed
  note nots = le [of "NOT ?c"] le [of "NOT ?l"] le [of "NOT ?i"] le [of "NOT (ucast (ip_tos h))"]
  have n3: "unat (ucast (NOT ?c) + ucast (NOT ?l) + ucast (NOT ?i) :: u32) = unat (NOT ?c) + unat (NOT ?l) + unat (NOT ?i)"
    using nots by (simp add: unat_add_small unat_16_32)
  have n4: "unat (ucast (NOT ?c) + ucast (NOT ?l) + ucast (NOT ?i) + ucast (NOT (ucast (ip_tos h)) :: u16) :: u32)
      = unat (NOT ?c) + unat (NOT ?l) + unat (NOT ?i) + unat (NOT (ucast (ip_tos h)) :: u16)"
    using nots n3 by (simp add: unat_add_small unat_16_32)
  define N where "N = (if version > Hnat_State.MTK_HNAT_V2 then 4 else 3 :: nat)"
  have sum: "unat tmp + unat ?c + sum_list (chk_fields version h) = N * 65535"
    using n3 n4 le [of ?c] le [of ?l] le [of ?i] le8
    by (simp add: tmp_def N_def chk_fields_def unat_not16 unat_16_32)
  then have small: "unat tmp < 8 * 65536" by (simp add: N_def split: if_splits)
  have base: "ppe_get_chkbase version h = ucast (chk_fold (chk_fold tmp) AND 0xFFFF)"
    by (simp add: ppe_get_chkbase_def tmp_def Let_def)
  have "unat (chk_fold (chk_fold tmp)) < 65536" and m: "unat (chk_fold (chk_fold tmp)) mod 65535 = unat tmp mod 65535"
    using chk_fold_twice [OF small] by simp_all
  moreover have "unat (ucast (x AND 0xFFFF) :: u16) = unat x mod 65536" for x :: u32
  proof -
    have "x AND 0xFFFF = take_bit 16 x" by (simp add: take_bit_eq_mask mask_eq_exp_minus_1)
    then show ?thesis by (simp add: unsigned_ucast_eq unsigned_take_bit_eq take_bit_eq_mod unat_mod)
  qed
  ultimately have u: "unat (ppe_get_chkbase version h) = unat (chk_fold (chk_fold tmp))" unfolding base by simp
  have "(unat (chk_fold (chk_fold tmp)) + (unat ?c + sum_list (chk_fields version h))) mod 65535
      = (unat tmp + (unat ?c + sum_list (chk_fields version h))) mod 65535"
    using m by (rule mod_add_cong) simp
  then show ?thesis unfolding u using sum by (simp add: add.assoc)
qed

lemma mod_complement:
  fixes a x r m :: nat
  assumes "(x + r) mod m = 0" "(a + x) mod m = 0"
  shows "a mod m = r mod m"
proof -
  have "(a + x + r) mod m = r mod m" using assms(2) by (metis mod_add_left_eq add_0)
  moreover have "(a + (x + r)) mod m = a mod m" using assms(1) by (metis mod_add_right_eq add_0_right)
  ultimately show ?thesis by (simp only: add.assoc)
qed

section \<open>Counters\<close>

text \<open>The packets and bytes that a list of counts gives for an entry.\<close>

definition counts_of :: "nat \<Rightarrow> nat \<Rightarrow> (nat \<times> nat \<times> 64 word \<times> 64 word) list \<Rightarrow> 64 word \<times> 64 word" where
  "counts_of p i cs =
     (let own = map (\<lambda>c. snd (snd c)) (filter (\<lambda>c. fst c = p \<and> fst (snd c) = i) cs)
      in (sum_list (map fst own), sum_list (map snd own)))"

definition acct_of :: "nf_state \<Rightarrow> nat \<Rightarrow> nat \<Rightarrow> 64 word \<times> 64 word" where
  "acct_of s p i = (ac_packets (nf_acct s p i), ac_bytes (nf_acct s p i))"

lemma counts_of_append: "counts_of p i (xs @ ys) =
    (fst (counts_of p i xs) + fst (counts_of p i ys), snd (counts_of p i xs) + snd (counts_of p i ys))"
  by (simp add: counts_of_def Let_def)

lemma counts_of_one [simp]: "counts_of p i [] = (0, 0)"
  "counts_of p i [(q, j, n, b)] = (if (q, j) = (p, i) then (n, b) else (0, 0))"
  by (auto simp: counts_of_def)

lemma get_count_core [simp]: "nf_core (snd (hnat_get_count v p i s)) = nf_core s"
  by (auto simp: hnat_get_count_def Let_def split: option.split)

lemma get_count_none: "hnat_get_count v p i s = (None, s1) \<Longrightarrow> s1 = s"
  by (auto simp: hnat_get_count_def Let_def split: if_splits option.splits)

lemma get_count_some:
  "hnat_get_count v p i s = (Some (b, n), s1) \<Longrightarrow>
     acct_of s1 q j = (fst (acct_of s q j) + fst (counts_of q j [(p, i, n, b)]),
                       snd (acct_of s q j) + snd (counts_of q j [(p, i, n, b)]))"
  by (auto simp: hnat_get_count_def Let_def acct_of_def split: if_splits option.splits)

lemma mib_fold:
  assumes "fold (mib_all_step v) L (c, out, s) = (c', out', s')"
  shows "nf_core s' = nf_core s \<and> c' = c + length (filter (\<lambda>(p, i). entry_hnat_is_bound (foe_of s p i)) L) \<and>
    (\<exists>o1. out' = out @ o1 \<and> length o1 \<le> c' - c \<and>
       (\<forall>p i. acct_of s' p i = (fst (acct_of s p i) + fst (counts_of p i o1),
                               snd (acct_of s p i) + snd (counts_of p i o1))))"
  using assms
proof (induction L arbitrary: c out s)
  case Nil
  then show ?case by simp
next
  case (Cons x L)
  obtain p i where x: "x = (p, i)" by force
  have f: "fold (mib_all_step v) L (mib_all_step v (p, i) (c, out, s)) = (c', out', s')" using Cons.prems x by simp
  show ?case
  proof (cases "entry_hnat_is_bound (foe_of s p i)")
    case False
    then have "mib_all_step v (p, i) (c, out, s) = (c, out, s)" by (simp add: mib_all_step_def)
    then show ?thesis using Cons.IH [of c out s] f False by (auto simp: x)
  next
    case True
    obtain r s1 where g: "hnat_get_count v p i s = (r, s1)" by force
    have core: "nf_core s1 = nf_core s" using g by (metis get_count_core snd_conv)
    then have foe: "foe_of s1 = foe_of s" by (simp add: foe_of_def fun_eq_iff)
    show ?thesis
    proof (cases r)
      case None
      have "s1 = s" using g None get_count_none by blast
      then have "mib_all_step v (p, i) (c, out, s) = (c + 1, out, s)" using True g None by (simp add: mib_all_step_def)
      then have "fold (mib_all_step v) L (c + 1, out, s) = (c', out', s')" using f by simp
      from Cons.IH [OF this] obtain o1 where "nf_core s' = nf_core s"
          "c' = c + 1 + length (filter (\<lambda>(p, i). entry_hnat_is_bound (foe_of s p i)) L)"
          "out' = out @ o1" "length o1 \<le> c' - (c + 1)"
          "\<And>q j. acct_of s' q j = (fst (acct_of s q j) + fst (counts_of q j o1), snd (acct_of s q j) + snd (counts_of q j o1))"
        by blast
      then show ?thesis using True by (intro conjI exI [of _ o1]) (auto simp: x)
    next
      case (Some bn)
      obtain b n where bn: "bn = (b, n)" by force
      have "fold (mib_all_step v) L (c + 1, out @ [(p, i, n, b)], s1) = (c', out', s')"
        using f True g by (simp add: mib_all_step_def Some bn)
      from Cons.IH [OF this] obtain o1 where o1: "nf_core s' = nf_core s1"
          "c' = c + 1 + length (filter (\<lambda>(p, i). entry_hnat_is_bound (foe_of s p i)) L)"
          "out' = (out @ [(p, i, n, b)]) @ o1" "length o1 \<le> c' - (c + 1)"
          "\<And>q j. acct_of s' q j = (fst (acct_of s1 q j) + fst (counts_of q j o1), snd (acct_of s1 q j) + snd (counts_of q j o1))"
        unfolding foe by blast
      have "acct_of s' q j = (fst (acct_of s q j) + fst (counts_of q j ((p, i, n, b) # o1)),
                              snd (acct_of s q j) + snd (counts_of q j ((p, i, n, b) # o1)))" for q j
        using counts_of_append [of q j "[(p, i, n, b)]" o1] get_count_some [OF g [unfolded Some bn], of q j]
        by (simp add: o1(5) add.assoc)
      then show ?thesis using o1 core True by (intro conjI exI [of _ "(p, i, n, b) # o1"]) (auto simp: x)
    qed
  qed
qed

end
