(* ===== verification/Hnat_Xlat_Props.thy ===== *)
theory Hnat_Xlat_Props
  imports Hnat_Xlat Foe_Views Hnat_Delete_Props Hnat_Api_Props
begin

text \<open>
  Lemmas about 464XLAT: filling an entry leaves its information block alone but for the tags of a switch
  port, and the last step stores it or leaves everything as it was.
\<close>

section \<open>The information block\<close>

text \<open>Assignments to members of a view.\<close>

definition behind_info :: "(field \<times> u32) list \<Rightarrow> bool" where
  "behind_info fs = list_all (\<lambda>x. fld_word (fst x) \<noteq> 0) fs"

lemma behind_info_simps [simp]:
  "behind_info []" "behind_info (x # fs) = (fld_word (fst x) \<noteq> 0 \<and> behind_info fs)"
  "behind_info (fs @ gs) = (behind_info fs \<and> behind_info gs)"
  by (simp_all add: behind_info_def)

lemma asg_info: "behind_info fs \<Longrightarrow> asg fs e 0 = e 0"
  by (induction fs arbitrary: e) (auto simp: asg_def split_beta)

lemma view_info: "m \<in> fst ` set l \<Longrightarrow> 0 < fld_word (in_view l m)"
  using member_word [of m l] by simp

lemma cp_info: "set ms \<subseteq> set (map fst l) \<Longrightarrow> behind_info (cp l ms foe)"
  by (auto simp: behind_info_def cp_def list_all_iff intro!: view_info)

lemma put_addr_info:
  assumes "set ms \<subseteq> set (map fst l)"
  shows "behind_info (put_addr l ms a)"
proof -
  have "fld_word (fst x) \<noteq> 0" if x: "x \<in> set (put_addr l ms a)" for x
  proof -
    obtain f y where "x = (f, y)" by force
    with x have "f \<in> set (map (in_view l) ms)" unfolding put_addr_def by (metis set_zip_leftD)
    then obtain m where "m \<in> set ms" "f = in_view l m" by auto
    then show ?thesis using assms view_info [of m l] \<open>x = (f, y)\<close> by auto
  qed
  then show ?thesis by (simp add: behind_info_def list_all_iff)
qed

lemma xlat_members:
  "set [''sip'', ''dip'', ''sport'', ''dport''] \<subseteq> set (map fst hnat_ipv4_dslite)"
  "set [''sport'', ''dport''] \<subseteq> set (map fst hnat_ipv6_6rd)"
  "set SIP6 \<subseteq> set (map fst hnat_ipv6_6rd)" "set DIP6 \<subseteq> set (map fst hnat_ipv6_6rd)"
  "set TSIP6 \<subseteq> set (map fst hnat_ipv4_dslite)" "set TDIP6 \<subseteq> set (map fst hnat_ipv4_dslite)"
  by (code_simp)+

lemma xlat_places:
  "list_all (\<lambda>m. fld_word (in_view hnat_ipv4_dslite m) \<noteq> 0)
     [''priority'', ''hop_limit'', ''flow_lbl'', ''dmac_hi'', ''dmac_lo'', ''smac_hi'', ''smac_lo'', ''sp_tag'']"
  "list_all (\<lambda>m. fld_word (in_view hnat_ipv6_6rd m) \<noteq> 0)
     [''tunnel_sipv4'', ''tunnel_dipv4'', ''hdr_chksum'', ''ttl'', ''dscp'', ''flag'', ''sp_tag'']"
  "list_all (\<lambda>m. fld_word (iblk2 hnat_ipv4_dslite m) \<noteq> 0) [''mibf'', ''port_ag'', ''dp'']"
  "fld_word (iblk2 hnat_ipv6_6rd ''dp'') \<noteq> 0"
  by (code_simp)+

section \<open>Filling\<close>

lemmas xlat_info = cp_info [OF xlat_members(1)] cp_info [OF xlat_members(2)] cp_info [OF xlat_members(3)]
  cp_info [OF xlat_members(4)] put_addr_info [OF xlat_members(5)] put_addr_info [OF xlat_members(6)]

lemma fill_ipv4_info: "mtk_464xlat_fill_ipv4 s k foe l2w e 0 = e 0"
  unfolding mtk_464xlat_fill_ipv4_def Let_def
  using xlat_places by (intro asg_info) (simp add: xlat_info)

lemma fill_ipv6_info: "mtk_464xlat_fill_ipv6 v k foe l2w e = Some e' \<Longrightarrow> e' 0 = e 0"
  using xlat_places
  by (auto simp: mtk_464xlat_fill_ipv6_def Let_def ppe_fill_flow_lbl_def asg_info xlat_info simp del: asg_simps asg_append
      split: if_splits option.splits)

lemma fill_info2_info: "mtk_464xlat_fill_info2 l2w e 0 = e 0"
  unfolding mtk_464xlat_fill_info2_def using xlat_places by (intro asg_info) simp

lemma fill_mac_info: "mtk_464xlat_fill_mac v k out l2w e = Some (Some e') \<Longrightarrow> e' 0 = e 0"
  using xlat_places
  by (auto simp: mtk_464xlat_fill_mac_def fill_macs_def asg_info simp del: asg_simps split: if_splits option.splits)

text \<open>The state and the type.\<close>

definition xlat_ready :: "bool \<Rightarrow> foe_words \<Rightarrow> bool" where
  "xlat_ready l2w e = (rd e (bfib1 ''state'') = state_code BIND \<and> pkt_type e = (if l2w then IPV4_DSLITE else IPV6_6RD))"

lemma xlat_ready_cong: "e' 0 = e 0 \<Longrightarrow> xlat_ready l2w e' = xlat_ready l2w e"
  by (simp add: xlat_ready_def pkt_type_def foe_fld rd.simps)

lemma info1_ready: "xlat_ready l2w (mtk_464xlat_fill_info1 s k l2w e)"
  by (simp add: xlat_ready_def mtk_464xlat_fill_info1_def pkt_type_def foe_fld rd_wr_same rd_wr_other
      state_code_def foe_ip_act_defs del: One_nat_def) simp

lemma xlat_entry_ready: "xlat_entry v s k foe l2w = Some e \<Longrightarrow> xlat_ready l2w e"
  using info1_ready [of l2w s k zero_words]
  by (auto simp: xlat_entry_def mtk_464xlat_fill_l3_def fill_info2_info fill_ipv4_info dest!: fill_ipv6_info
      intro: xlat_ready_cong [THEN iffD2])

lemma fill_l2_ready:
  assumes "mtk_464xlat_fill_l2 v k out l2w e = Some (Some e')" "xlat_ready l2w e"
  shows "xlat_ready l2w e'"
proof -
  have "xlat_ready l2w (asg [(bfib1 ''vlan_layer'', 1), (bfib1 ''vpm'', 0)] e)"
    using assms(2) by (simp add: xlat_ready_def pkt_type_def foe_fld rd_wr_other del: One_nat_def)
  moreover have "asg [(bfib1 ''vlan_layer'', 1), (bfib1 ''vpm'', 0), (in_view hnat_ipv6_6rd ''sp_tag'', x)] e 0
      = asg [(bfib1 ''vlan_layer'', 1), (bfib1 ''vpm'', 0)] e 0" for x
    using xlat_places by simp
  ultimately have own: "xlat_ready l2w (asg [(bfib1 ''vlan_layer'', 1), (bfib1 ''vpm'', 0), (in_view hnat_ipv6_6rd ''sp_tag'', x)] e)"
    for x using xlat_ready_cong by blast
  have sp: "wr (in_view hnat_ipv4_dslite ''sp_tag'') x e 0 = e 0" "wr (in_view hnat_ipv6_6rd ''sp_tag'') x e 0 = e 0" for x
    using xlat_places by simp_all
  show ?thesis
    using assms own
    by (auto simp: mtk_464xlat_fill_l2_def Let_def sp dest!: fill_mac_info split: if_splits option.splits
        intro: xlat_ready_cong [THEN iffD2])
qed

end
