(* ===== verification/Hnat_Notify.thy ===== *)
theory Hnat_Notify
  imports Hnat_Info Hnat_Neigh
begin

text \<open>
  Events of the system: the notifier for network devices of \<^verbatim>\<open>hnat_nf_hook.c\<close>, and from \<^verbatim>\<open>hnat.c\<close> the
  restart after a reset of the frame engine, the timer that resets time stamps, roaming, and turning the
  hooks on and off.
\<close>

section \<open>State\<close>

text \<open>The hooks of other modules, set or null, and whether the packet hooks are registered.\<close>

record hook_ptrs =
  hk_rx :: bool
  hk_tx :: bool
  hk_dev :: bool
  hk_clear :: bool
  hk_wdma :: bool
  hk_nf :: bool
  hk_del :: bool
  hk_toggle :: bool

text \<open>The system: the queue of neighbour events with its notifier, the timer that lets the engines build entries
  again, and the calls of the function another driver has registered for links, if any.\<close>

record hnat_sys =
  hs_nf :: nf_state
  hs_neigh :: neigh_update
  hs_neigh_nb :: bool
  hs_sma_timer :: bool
  hs_hooks :: hook_ptrs
  hs_link_fn :: bool
  hs_links :: "bool list"

text \<open>What the Ethernet driver defines: its devices, and the registers and masks of interrupts and ports.\<close>

record eth_env =
  et_netdev :: "nat list"
  et_irq :: "nat \<Rightarrow> int \<times> u32"
  et_glo_cfg :: "nat \<Rightarrow> int"
  et_link_down :: "nat \<Rightarrow> u32"

definition on_nf :: "(nf_state \<Rightarrow> nf_state) \<Rightarrow> hnat_sys \<Rightarrow> hnat_sys" where
  "on_nf f y = y\<lparr>hs_nf := f (hs_nf y)\<rparr>"

definition on_core :: "(mtk_hnat \<Rightarrow> mtk_hnat) \<Rightarrow> hnat_sys \<Rightarrow> hnat_sys" where
  "on_core f = on_nf (upd_core f)"

definition on_ext :: "(ext_state \<Rightarrow> ext_state) \<Rightarrow> hnat_sys \<Rightarrow> hnat_sys" where
  "on_ext f = on_nf (\<lambda>s. s\<lparr>nf_ext := f (nf_ext s)\<rparr>)"

text \<open>An operation of \<^verbatim>\<open>hnat_mcast.c\<close> on the driver's table.\<close>

definition on_mc :: "(mcast \<Rightarrow> mcast) \<Rightarrow> nf_state \<Rightarrow> nf_state" where
  "on_mc f s =
     (let m = f (mc_load (nf_core s) (nf_mc s))
      in (upd_core (\<lambda>h. h\<lparr>h_table := (\<lambda>p i. mc_store (foe_tab (mc_hw m) p i) (h_table h p i))\<rparr>) s)\<lparr>nf_mc := m\<rparr>)"

section \<open>Ports\<close>

definition gmac_ppe_fwd_enable :: "nf_env \<Rightarrow> eth_env \<Rightarrow> nat \<Rightarrow> mtk_hnat \<Rightarrow> mtk_hnat" where
  "gmac_ppe_fwd_enable v t d h =
     (let master = snd (hnat_dsa_get_port v d); mac = dv_mac_id (v_devs v master)
      in if master \<notin> set (et_netdev t) then h
         else if mac = 0 then set_gmac_ppe_fwd NR_GMAC1_PORT True h
         else if mac = 1 then set_gmac_ppe_fwd NR_GMAC2_PORT True h
         else if mac = 2 then set_gmac_ppe_fwd NR_GMAC3_PORT True h
         else h)"

text \<open>A physical device of another vendor: its driver is known and none of MediaTek's.\<close>

definition hnat_chk_dev_is_external_device :: "nf_env \<Rightarrow> nat \<Rightarrow> bool" where
  "hnat_chk_dev_is_external_device v d =
     (case dv_driver (v_devs v d) of
        None \<Rightarrow> False
      | Some n \<Rightarrow> n \<noteq> ''mtk_soc_eth'' \<and> n \<noteq> ''mt7530-mmio'' \<and> \<not> prefixed ''mt79'' n)"

definition hnat_handle_ext_eth_link_change :: "nf_env \<Rightarrow> nat \<Rightarrow> hnat_sys \<Rightarrow> hnat_sys" where
  "hnat_handle_ext_eth_link_change v d y =
     (if hnat_chk_dev_is_external_device v d \<and> hs_link_fn y
      then y\<lparr>hs_links := hs_links y @ [dv_carrier (v_devs v d)]\<rparr> else y)"

section \<open>Restart\<close>

definition warm_engine :: "nf_env \<Rightarrow> eth_env \<Rightarrow> nat \<Rightarrow> mtk_hnat \<Rightarrow> mtk_hnat" where
  "warm_engine v t p h =
     (let h1 = clear_table p (run_ops [Writel (h_table_dev h p) PPE_TB_BASE] p h);
          h2 = (if h_version h = Hnat_State.MTK_HNAT_V1_1 then exclude_boundary_entry p h1 else h1);
          h3 = (if h_per_flow_accounting h then run_ops [Writel (h_mib_dev h p) PPE_MIB_TB_BASE] p h2 else h2)
      in snd (hnat_hw_init (et_irq t) (v_dev_model v) p h3))"

definition warm_ports :: "eth_env \<Rightarrow> mtk_hnat \<Rightarrow> mtk_hnat" where
  "warm_ports t h =
     (let h1 = fold (\<lambda>i. snd \<circ> mtk_set_ppe_pse_port_state (et_glo_cfg t) (et_link_down t) i False)
                 (filter (\<lambda>i. i \<ge> h_ppe_num h) [0 ..< MAX_PPE_NUM]) h
      in set_gmac_ppe_fwd NR_GMAC3_PORT True
           (set_gmac_ppe_fwd NR_GMAC2_PORT True (set_gmac_ppe_fwd NR_GMAC1_PORT True h1)))"

text \<open>Each engine that starts looks the two devices up again, without giving up those it has.\<close>

definition find_devs :: "nf_env \<Rightarrow> ext_state \<Rightarrow> ext_state" where
  "find_devs v x =
     (let hold = (\<lambda>d x. case d of None \<Rightarrow> x | Some d \<Rightarrow> dev_hold d x);
          pd = v_by_name v (v_ppd v); w = v_by_name v (v_wan v)
      in (hold w (hold pd x))\<lparr>g_ppdev := pd, g_wandev := w\<rparr>)"

definition hnat_warm_init :: "nf_env \<Rightarrow> eth_env \<Rightarrow> hnat_sys \<Rightarrow> hnat_sys" where
  "hnat_warm_init v t y0 =
     (let y = on_nf (on_mc (snd \<circ> hnat_mcast_ser_handle))
                (y0\<lparr>hs_neigh := hnat_neigh_update_cleanup (hs_neigh y0)\<rparr>);
          n = h_ppe_num (nf_core (hs_nf y))
      in (on_core (warm_ports t)
           (fold (\<lambda>p. on_ext (find_devs v) \<circ> on_core (warm_engine v t p)) [0 ..< n] y))\<lparr>hs_neigh_nb := True\<rparr>)"

section \<open>Network devices\<close>

datatype netdev_event =
    NETDEV_UP | NETDEV_CHANGE | NETDEV_GOING_DOWN | NETDEV_UNREGISTER | NETDEV_REGISTER
  | MTK_FE_RESET_NAT_DONE | NETDEV_OTHER

definition eth_dev_of :: "nf_env \<Rightarrow> nat \<Rightarrow> eth_dev" where
  "eth_dev_of v d =
     \<lparr>ed_mac = dv_mac_id (v_devs v (snd (hnat_dsa_get_port v d))),
      ed_dsa = map_option (\<lambda>dp. (dp_index dp, dp_tag_8021q dp)) (dv_dsa_port (v_devs v d))\<rparr>"

text \<open>The driver's entries are deleted; \<open>None\<close> is a table that is too short.\<close>

definition sweep_sys :: "(mtk_hnat \<Rightarrow> (nat \<times> mtk_hnat) option) \<Rightarrow> hnat_sys \<Rightarrow> hnat_sys option" where
  "sweep_sys f y = map_option (\<lambda>(n, h). on_core (\<lambda>_. h) y) (f (nf_core (hs_nf y)))"

definition clear_all :: "nf_env \<Rightarrow> hnat_sys \<Rightarrow> hnat_sys option" where
  "clear_all v y =
     map_option (\<lambda>y. y\<lparr>hs_sma_timer := True\<rparr>) (sweep_sys (foe_clear_all_bind_entries (v_dev_model v)) y)"

definition on_change :: "nf_env \<Rightarrow> nat \<Rightarrow> hnat_sys \<Rightarrow> hnat_sys option" where
  "on_change v d y0 =
     (let y = hnat_handle_ext_eth_link_change v d y0
      in if dv_bond_slave (v_devs v d) \<and> (dev_is_lan_grp v d \<or> dev_is_wan v d) \<and> \<not> dv_carrier (v_devs v d)
         then sweep_sys (foe_clear_ethdev_bind_entries (v_dev_model v) (v_gmac_num v) (eth_dev_of v d)) y
         else Some y)"

definition on_going_down :: "nf_env \<Rightarrow> nat \<Rightarrow> hnat_sys \<Rightarrow> hnat_sys option" where
  "on_going_down v d y0 =
     (let s0 = hs_nf y0;
          y1 = (if get_wifi_hook_if_index_from_dev s0 d = 0 then on_ext (snd \<circ> extif_put_dev d) y0 else y0);
          y2 = (if mcast_hook_toggle (nf_mc (hs_nf y1))
                then on_nf (on_mc (hnat_mcast_ifdown_handle (v_mc v) (of_nat (dev_ifindex v d)))) y1 else y1)
      in if \<not> dev_is_lan_grp v d \<and> \<not> dev_is_wan v d
            \<and> \<not> find_extif_from_devname (dev_name v d) (nf_ext (hs_nf y2))
            \<and> dv_offload_check (v_devs v d) = None
         then Some y2 else clear_all v y2)"

definition on_unregister :: "nat \<Rightarrow> ext_state \<Rightarrow> ext_state" where
  "on_unregister d x =
     (let x1 = (if g_ppdev x = Some d then dev_put d (x\<lparr>g_ppdev := None\<rparr>) else x)
      in if g_wandev x1 = Some d then dev_put d (x1\<lparr>g_wandev := None\<rparr>) else x1)"

definition on_register :: "nf_env \<Rightarrow> nat \<Rightarrow> nf_state \<Rightarrow> nf_state" where
  "on_register v d s =
     (let look = (\<lambda>name set x. case v_by_name v name of None \<Rightarrow> x | Some d' \<Rightarrow> set d' (dev_hold d' x));
          x = nf_ext s;
          x1 = (if dev_is_ppd v d \<and> g_ppdev x = None then look (v_ppd v) (\<lambda>d' x. x\<lparr>g_ppdev := Some d'\<rparr>) x else x);
          x2 = (if dev_is_wan v d \<and> g_wandev x1 = None then look (v_wan v) (\<lambda>d' x. x\<lparr>g_wandev := Some d'\<rparr>) x1 else x1)
      in s\<lparr>nf_ext := x2\<rparr>)"

definition nf_hnat_netdevice_event ::
  "nf_env \<Rightarrow> eth_env \<Rightarrow> netdev_event \<Rightarrow> nat \<Rightarrow> hnat_sys \<Rightarrow> hnat_sys option" where
  "nf_hnat_netdevice_event v t ev d y =
     (case ev of
        NETDEV_UP \<Rightarrow> Some (on_ext (snd \<circ> extif_set_dev (v_devs v) d) (on_core (gmac_ppe_fwd_enable v t d) y))
      | NETDEV_CHANGE \<Rightarrow> on_change v d y
      | NETDEV_GOING_DOWN \<Rightarrow> on_going_down v d y
      | NETDEV_UNREGISTER \<Rightarrow> Some (on_ext (on_unregister d) y)
      | NETDEV_REGISTER \<Rightarrow> Some (on_nf (on_register v d) y)
      | MTK_FE_RESET_NAT_DONE \<Rightarrow> Some (hnat_warm_init v t y)
      | NETDEV_OTHER \<Rightarrow> Some y)"

section \<open>Hooks\<close>

text \<open>\<open>nf_ok\<close>: the kernel takes the packet hooks.\<close>

definition hnat_enable_hook :: "nf_env \<Rightarrow> bool \<Rightarrow> hnat_sys \<Rightarrow> int \<times> hnat_sys" where
  "hnat_enable_hook v nf_ok y =
     (let k = hs_hooks y;
          k1 = (if v_whnat v
                then k\<lparr>hk_rx := hnat_v2_or_v3 (nf_core (hs_nf y)), hk_tx := True, hk_dev := True, hk_clear := True,
                       hk_wdma := True\<rparr> else k)
      in if \<not> nf_ok then (- 1, y\<lparr>hs_hooks := k1\<rparr>)
         else (0, y\<lparr>hs_hooks := k1\<lparr>hk_nf := True, hk_del := True, hk_toggle := True\<rparr>\<rparr>))"

definition hnat_disable_hook :: "nf_env \<Rightarrow> hnat_sys \<Rightarrow> hnat_sys option" where
  "hnat_disable_hook v y =
     (let k = hs_hooks y
      in clear_all v (y\<lparr>hs_hooks := k\<lparr>hk_tx := False, hk_rx := False, hk_clear := False, hk_nf := False,
                                       hk_del := False, hk_toggle := False\<rparr>\<rparr>))"

section \<open>Time stamps and roaming\<close>

text \<open>The timer of chips of version 1.3; it goes over the first engine.\<close>

definition hnat_reset_timestamp :: "nf_env \<Rightarrow> mtk_hnat \<Rightarrow> mtk_hnat" where
  "hnat_reset_timestamp v h =
     (let age = (\<lambda>x. on_ppe 0 (\<lambda>p. set_field PPE_TB_CFG UDP_AGE x (set_field PPE_TB_CFG TCP_AGE x p)));
          h1 = age 0 (hnat_cache_ebl (v_dev_model v) False h);
          h2 = h1\<lparr>h_fe := (h_fe h1)(FE_CLOCK := 0)\<rparr>;
          h3 = fold (\<lambda>i h. if entry_hnat_is_bound (h_table h 0 i)
                            then on_entry 0 i (wr (bfib1 ''time_stamp'') (h_fe h FE_CLOCK AND 0xFFFF)) h else h)
                 [0 ..< h_etry_num h2] h2
      in hnat_cache_ebl (v_dev_model v) True (age 1 h3))"

text \<open>A message of the kernel about a neighbour, with its attributes in order.  \<open>NDA_LLADDR\<close> is 2,
  \<open>RTM_NEWNEIGH\<close> 28 and \<open>PF_BRIDGE\<close> 7.\<close>

record roam_msg =
  rm_type :: nat
  rm_family :: nat
  rm_attrs :: "(nat \<times> u8 list) list"

definition hnat_roam_handler :: "nf_env \<Rightarrow> roam_msg option \<Rightarrow> mtk_hnat \<Rightarrow> mtk_hnat option" where
  "hnat_roam_handler v msg h =
     (case msg of
        None \<Rightarrow> Some h
      | Some m \<Rightarrow>
          if rm_type m \<noteq> 28 \<or> rm_family m \<noteq> 7 then Some h
          else fold (\<lambda>(ty, ha) r. case r of
                       None \<Rightarrow> None
                     | Some h \<Rightarrow> if ty = 2 then map_option snd (entry_delete_by_mac (v_dev_model v) (Some ha) h)
                                 else Some h)
                 (rm_attrs m) (Some h))"

end
