(* ===== verification/Hnat_Notify_Props.thy ===== *)
theory Hnat_Notify_Props
  imports Hnat_Notify Hnat_Init_Props Hnat_Bind_Props
begin

text \<open>
  Lemmas about the restart after a reset of the frame engine: each engine's table is cleared, and the
  references to the two devices the driver looks up are taken once more by each.
\<close>

section \<open>One engine\<close>

lemma run_ops_more [simp]:
  "h_version (run_ops ops p h) = h_version h" "h_per_flow_accounting (run_ops ops p h) = h_per_flow_accounting h"
  by (simp_all add: run_ops_def on_ppe_def)

lemma hw_init_table [simp]:
  "h_table (snd (hnat_hw_init irq d p h)) = h_table h" "h_version (snd (hnat_hw_init irq d p h)) = h_version h"
  "h_ppe_num (snd (hnat_hw_init irq d p h)) = h_ppe_num h"
  by (simp_all add: hnat_hw_init_def hnat_hw_set_prot_3t_def hnat_hw_set_dft_cport_def fe_irq_enable_def
      hnat_cache_ebl_one_def hnat_cache_clr_def on_ppe_def Let_def)

lemma warm_engine_table:
  assumes "h_version h \<noteq> Hnat_State.MTK_HNAT_V1_1"
  shows "h_table (warm_engine v t p h) =
      (h_table h)(p := (\<lambda>i. if i < h_etry_num h then zero_words else h_table h p i))"
    and "h_etry_num (warm_engine v t p h) = h_etry_num h" "h_version (warm_engine v t p h) = h_version h"
  using assms by (auto simp: warm_engine_def Let_def clear_table_def fun_eq_iff)

section \<open>All engines\<close>

definition warm_step :: "nf_env \<Rightarrow> eth_env \<Rightarrow> nat \<Rightarrow> hnat_sys \<Rightarrow> hnat_sys" where
  "warm_step v t p = on_ext (find_devs v) \<circ> on_core (warm_engine v t p)"

lemma on_sys_simps [simp]:
  "nf_core (hs_nf (on_core f y)) = f (nf_core (hs_nf y))" "nf_core (hs_nf (on_ext g y)) = nf_core (hs_nf y)"
  "nf_ext (hs_nf (on_core f y)) = nf_ext (hs_nf y)" "nf_ext (hs_nf (on_ext g y)) = g (nf_ext (hs_nf y))"
  by (simp_all add: on_core_def on_ext_def on_nf_def upd_core_def)

lemma warm_step_simps [simp]:
  "nf_core (hs_nf (warm_step v t p y)) = warm_engine v t p (nf_core (hs_nf y))"
  "nf_ext (hs_nf (warm_step v t p y)) = find_devs v (nf_ext (hs_nf y))"
  by (simp_all add: warm_step_def)

lemma warm_fold_core:
  fixes v t n y
  assumes "h_version (nf_core (hs_nf y)) \<noteq> Hnat_State.MTK_HNAT_V1_1"
  defines "y' \<equiv> fold (warm_step v t) [0 ..< n] y"
  shows "h_etry_num (nf_core (hs_nf y')) = h_etry_num (nf_core (hs_nf y))
    \<and> h_version (nf_core (hs_nf y')) = h_version (nf_core (hs_nf y))
    \<and> (\<forall>p i. h_table (nf_core (hs_nf y')) p i =
          (if p < n \<and> i < h_etry_num (nf_core (hs_nf y)) then zero_words else h_table (nf_core (hs_nf y)) p i))"
  unfolding y'_def
proof (induction n)
  case (Suc n)
  let ?y = "fold (warm_step v t) [0 ..< n] y"
  have v: "h_version (nf_core (hs_nf ?y)) \<noteq> Hnat_State.MTK_HNAT_V1_1" using Suc assms(1) by simp
  show ?case using Suc warm_engine_table [OF v, of v t n] by (auto simp: less_Suc_eq)
qed simp

text \<open>The references to a device that \<open>find_devs\<close> adds.\<close>

definition found_refs :: "nf_env \<Rightarrow> nat \<Rightarrow> int" where
  "found_refs v d = (if v_by_name v (v_ppd v) = Some d then 1 else 0) + (if v_by_name v (v_wan v) = Some d then 1 else 0)"

lemma find_devs_refs: "ext_refs (find_devs v x) d = ext_refs x d + found_refs v d"
  by (auto simp: find_devs_def found_refs_def Let_def dev_hold_def split: option.split)

lemma warm_fold_refs:
  "ext_refs (nf_ext (hs_nf (fold (warm_step v t) [0 ..< n] y))) d = ext_refs (nf_ext (hs_nf y)) d + int n * found_refs v d"
  by (induction n) (simp_all add: find_devs_refs algebra_simps)

lemma warm_fold_ptrs:
  "n > 0 \<Longrightarrow> g_ppdev (nf_ext (hs_nf (fold (warm_step v t) [0 ..< n] y))) = v_by_name v (v_ppd v)
     \<and> g_wandev (nf_ext (hs_nf (fold (warm_step v t) [0 ..< n] y))) = v_by_name v (v_wan v)"
  by (cases n) (simp_all add: find_devs_def Let_def)

lemma ports_table [simp]:
  "h_table (warm_ports t h) = h_table h"
proof -
  have "h_table (fold (\<lambda>i. snd \<circ> mtk_set_ppe_pse_port_state (et_glo_cfg t) (et_link_down t) i False) xs h) = h_table h" for xs h
    by (induction xs arbitrary: h) (simp_all add: mtk_set_ppe_pse_port_state_def Let_def)
  moreover have "h_table (set_gmac_ppe_fwd port en h) = h_table h" for port en h
    by (simp add: set_gmac_ppe_fwd_def Let_def split: option.split)
  ultimately show ?thesis by (simp add: warm_ports_def Let_def)
qed

lemma on_mc_keeps [simp]:
  "nf_ext (on_mc f s) = nf_ext s" "h_ppe_num (nf_core (on_mc f s)) = h_ppe_num (nf_core s)"
  "h_etry_num (nf_core (on_mc f s)) = h_etry_num (nf_core s)" "h_version (nf_core (on_mc f s)) = h_version (nf_core s)"
  by (simp_all add: on_mc_def upd_core_def Let_def)

lemma warm_init_result:
  fixes v t y
  defines "y' \<equiv> hnat_warm_init v t y" and "h \<equiv> nf_core (hs_nf y)"
  shows "h_version h \<noteq> Hnat_State.MTK_HNAT_V1_1 \<Longrightarrow> p < h_ppe_num h \<Longrightarrow> i < h_etry_num h \<Longrightarrow> foe_of (hs_nf y') p i = zero_words"
    and "ext_refs (nf_ext (hs_nf y')) d = ext_refs (nf_ext (hs_nf y)) d + int (h_ppe_num h) * found_refs v d"
    and "h_ppe_num h > 0 \<Longrightarrow> g_ppdev (nf_ext (hs_nf y')) = v_by_name v (v_ppd v)
           \<and> g_wandev (nf_ext (hs_nf y')) = v_by_name v (v_wan v)"
proof -
  let ?y = "on_nf (on_mc (snd \<circ> hnat_mcast_ser_handle)) (y\<lparr>hs_neigh := hnat_neigh_update_cleanup (hs_neigh y)\<rparr>)"
  have y: "nf_ext (hs_nf ?y) = nf_ext (hs_nf y)" "h_ppe_num (nf_core (hs_nf ?y)) = h_ppe_num h"
      "h_etry_num (nf_core (hs_nf ?y)) = h_etry_num h" "h_version (nf_core (hs_nf ?y)) = h_version h"
    by (simp_all add: on_nf_def h_def)
  have w: "y' = (on_core (warm_ports t) (fold (warm_step v t) [0 ..< h_ppe_num h] ?y))\<lparr>hs_neigh_nb := True\<rparr>"
    unfolding y'_def hnat_warm_init_def Let_def warm_step_def using y(2) by simp
  show "h_version h \<noteq> Hnat_State.MTK_HNAT_V1_1 \<Longrightarrow> p < h_ppe_num h \<Longrightarrow> i < h_etry_num h \<Longrightarrow> foe_of (hs_nf y') p i = zero_words"
    using warm_fold_core [of ?y v t "h_ppe_num h"] y by (simp add: w foe_of_def)
  show "ext_refs (nf_ext (hs_nf y')) d = ext_refs (nf_ext (hs_nf y)) d + int (h_ppe_num h) * found_refs v d"
    using warm_fold_refs [of v t "h_ppe_num h" ?y d] y(1) by (simp add: w)
  show "h_ppe_num h > 0 \<Longrightarrow> g_ppdev (nf_ext (hs_nf y')) = v_by_name v (v_ppd v)
           \<and> g_wandev (nf_ext (hs_nf y')) = v_by_name v (v_wan v)"
    using warm_fold_ptrs [of "h_ppe_num h" v t ?y] by (simp add: w)
qed

end
