(* ===== verification/Hnat_Packet_Theorems.thy ===== *)
theory Hnat_Packet_Theorems
  imports Hnat_Packet_Props Hnat_Sums Hnat_Xlat_Props Hnat_Notify_Props Hnat_Theorems
begin

text \<open>
  The properties of the packet path of \<^verbatim>\<open>mtk_hnat\<close>: what a bound entry does to packets, which entries
  change, the tags of a packet, what becomes of packets the hooks take, the way through the engine and back,
  464XLAT, checksums and counters.
\<close>

section \<open>A state to try the theorems on\<close>

definition demo_nfdev :: "string \<Rightarrow> nat \<Rightarrow> nat \<Rightarrow> nf_dev" where
  "demo_nfdev n i m = nf_dev.make n i True [2, 0, 0, 0, 0, of_nat i] (replicate 6 0xFF) False None False False
     None None m 1000 False None None False None False True False None"

text \<open>Device 1 is the wide area network, 2 the local one, 3 the one for the ping-pong and 4 an extension device.\<close>

definition demo_devs :: "nat \<Rightarrow> nf_dev" where
  "demo_devs d = (if d = 1 then demo_nfdev ''eth1'' 3 1 else if d = 2 then demo_nfdev ''eth0'' 2 0
                  else if d = 3 then demo_nfdev ''ppd0'' 9 0 else demo_nfdev ''ra0'' 12 0)"

definition demo_mc_hw :: hw where
  "demo_mc_hw = \<lparr>regs = (\<lambda>p off. 0), foe_tab = (\<lambda>p i. foe_zero), foe_local = foe_zero, hw_trace = [],
     ppe_num = 1, foe_etry_num = 4, max_entry = 64, foe_clock = 100, hnat_v2_v3 = True\<rparr>"

definition demo_mc :: mcast where
  "demo_mc = \<lparr>pmcast = None, mcast_blist_list = [], mcast_hook_toggle = False, blist_hooks = False,
     check_timer = False, mc_hw = demo_mc_hw\<rparr>"

definition demo_mc_env :: mc_env where
  "demo_mc_env = \<lparr>netdevs = (\<lambda>i. None), wan_name = ''eth1'', lan_name = ''eth0'', lan2_name = ''eth2'', whnat = False,
     gmac1_mode = False, eth0_mtk_dsa = False, hnat_mc_ops = None\<rparr>"

definition demo_nf_env :: nf_env where
  "demo_nf_env = \<lparr>v_devs = demo_devs, v_by_name = (\<lambda>n. None), v_by_index = (\<lambda>i. None), v_wan = ''eth1'', v_lan = ''eth0'',
     v_lan2 = ''eth2'', v_ppd = ''ppd0'', v_gmac_num = 2, v_whnat = False, v_wan_dsa_port = 0xff, v_xlat = False,
     v_qos = 0, v_qos_dl = False, v_qos_ul = False, v_mape = False, v_l2br = 0, v_l4s = False, v_tnl = False,
     v_xlat_map = [], v_xlat_prefix = [], v_dev_model = demo_dev, v_jiffies = 0, v_hz = 100, v_mem_ok = True,
     v_trylock = True, v_nexthop4 = (\<lambda>d a. a), v_nexthop6 = (\<lambda>d a. a), v_neigh4 = (\<lambda>d a. None),
     v_neigh6 = (\<lambda>d a. None), v_vlan_insert = Some, v_vlan_untag = Some, v_unshare = Some,
     v_may_pull = (\<lambda>k. True), v_cow_head = (\<lambda>k. True), v_encap = None, v_decap = None, v_decap_ok = None,
     v_crypto_ok = None, v_expand_head = (\<lambda>n k. k), v_push_first = False, v_nf_stat = False,
     v_mib = (\<lambda>p i. if i = 5 then Some (100, 0, 2, 0) else None), v_ct_find = (\<lambda>z t. False), v_mc = demo_mc_env\<rparr>"

text \<open>Entry 5 is bound, entry 7 is an IPv4 flow the engine has seen, and the others are empty.\<close>

definition demo_seen :: foe_words where
  "demo_seen = asg [(in_view hnat_ipv4_hnapt ''sip'', 0xC0A80102), (in_view hnat_ipv4_hnapt ''dip'', 0x08080808),
     (in_view hnat_ipv4_hnapt ''sport'', 4000), (in_view hnat_ipv4_hnapt ''dport'', 80),
     (bfib1 ''pkt_type'', IPV4_HNAPT), (bfib1 ''state'', state_code UNBIND)] zero_words"

definition demo_nf :: nf_state where
  "demo_nf = \<lparr>nf_core = demo_hnat\<lparr>h_table := (\<lambda>p i. if i = 5 then demo_entry else if i = 7 then demo_seen else zero_words)\<rparr>,
     nf_ext = \<lparr>ext_if = packed [0], ext_ent = (\<lambda>x. \<lparr>xe_name = ''ra0'', xe_dev = Some 4\<rparr>), ext_refs = (\<lambda>d. 1),
       ext_freed = [], g_ppdev = Some 3, g_wandev = Some 1\<rparr>,
     nf_wifi = replicate MAX_IF_NUM None, nf_mc = demo_mc, nf_headroom = (\<lambda>i. zero_desc),
     nf_acct = (\<lambda>p i. zero_acct), nf_w2l = [], nf_l2w = [], nf_out = [],
     nf_cbs = \<lparr>hnat_bind_callback = None, hnat_fin_callback = None\<rparr>, nf_told = [], nf_stats = []\<rparr>"

text \<open>A TCP packet behind its source address translation, from 1.2.3.4 port 5000 to 8.8.8.8 port 80.\<close>

definition demo_bytes :: "nat \<Rightarrow> u8" where
  "demo_bytes = put_bytes 64
     ([2, 0, 0, 0, 0, 9] @ [2, 0, 0, 0, 0, 2] @ [8, 0] @ [0x45, 0, 0, 40] @ [0, 1, 0, 0] @ [63, 6, 0, 0]
      @ [1, 2, 3, 4] @ [8, 8, 8, 8] @ [0x13, 0x88, 0, 80]) (\<lambda>i. 0)"

definition demo_skb :: sk_buff where
  "demo_skb = \<lparr>sb_desc = zero_desc\<lparr>hd_entry := 7, hd_crsn := HIT_UNBIND_RATE_REACH, hd_magic_tag := HNAT_MAGIC_TAG,
       hd_iface := FOE_MAGIC_GE_LAN\<rparr>, sb_cb2 = 0, sb_bytes = demo_bytes, sb_data = 78, sb_len = 40, sb_mac = 64,
     sb_net = 78, sb_trans = 98, sb_inner_net = 78, sb_protocol = cpu_to_be16 ETH_P_IP, sb_vlan_proto = 0,
     sb_vlan_tci = 0, sb_dev = Some 1, sb_iif = 2, sb_mark = 0, sb_hash = 0, sb_pkt_type = PACKET_HOST,
     sb_shared = False, sb_cloned = False, sb_clone_writable = False, sb_dst = None, sb_ct = None,
     sb_bridge_nf = False, sb_frag_list = []\<rparr>"

definition demo_path :: hw_path where
  "demo_path = zero_path\<lparr>hp_dev := 1, hp_virt_dev := 1, hp_eth_src := [2, 0, 0, 0, 0, 3],
     hp_eth_dest := [2, 0, 0, 0, 0, 7]\<rparr>"

lemmas demo_packet_defs = demo_nfdev_def demo_devs_def demo_mc_def demo_nf_env_def demo_nf_def demo_skb_def demo_path_def
  nf_dev.make_def

lemma demo_bound: "entry_hnat_is_bound demo_entry"
  by (simp add: demo_entry_def entry_hnat_is_bound_def foe_fld rd_wr_same rd_wr_other state_code_def del: One_nat_def) simp

section \<open>Binding\<close>

text \<open>C23. A packet of a routed or bridged IPv4 flow that \<open>skb_to_hnat_info\<close> is given when it leaves binds the entry
  of the flow so that the engine takes exactly the packets the engine has seen (the addresses and ports of
  the entry, and the protocol of the packet), and sends them out as the kernel has sent this one: through
  the same port, with the same addresses of the link layer, tags and session, the same translated addresses
  and ports, and as a hop where the kernel routes.\<close>

theorem bound_flow_forwards_as_kernel:
  assumes "plain_flow v d hp pt k s"
  shows "\<exists>s'. skb_to_hnat_info v d hp k s = (0, k, s') \<and>
    (let e = foe_of s' (nf_ppe s k) (skb_hnat_entry k)
     in entry_hnat_is_bound e
        \<and> hw_match e = (hw_match (foe_of_skb s k))\<lparr>fk_udp := (ip_protocol (ip_hdr k) = IPPROTO_UDP)\<rparr>
        \<and> hw_rewrite e = kernel_out v d hp pt k)"
proof -
  obtain s' where s': "skb_to_hnat_info v d hp k s = (0, k, s')"
    "hw_flow (foe_of s' (nf_ppe s k) (skb_hnat_entry k)) =
       (flow_vlans hp k zero_flow)
         \<lparr>fv_type := IPV4_HNAPT, fv_state := state_code BIND, fv_udp := b2u (ip_protocol (ip_hdr k) = IPPROTO_UDP),
           fv_layers := fv_layers (flow_vlans hp k zero_flow) + b2u (path_flag hp DEV_PATH_VLAN),
           fv_psn := b2u (path_flag hp DEV_PATH_PPPOE), fv_ttl := b2u (\<not> hnat_is_hw_path_bridging v hp),
           fv_sip := fv_sip (hw_flow (foe_of_skb s k)), fv_dip := fv_dip (hw_flow (foe_of_skb s k)),
           fv_sport := fv_sport (hw_flow (foe_of_skb s k)), fv_dport := fv_dport (hw_flow (foe_of_skb s k)),
           fv_new_sip := ntohl (ip_saddr (ip_hdr k)), fv_new_dip := ntohl (ip_daddr (ip_hdr k)),
           fv_new_sport := ucast (be16_to_cpu (fst pt)), fv_new_dport := ucast (be16_to_cpu (snd pt)),
           fv_dmac_hi := mac_hi (hp_eth_dest hp), fv_dmac_lo := mac_lo (hp_eth_dest hp),
           fv_smac_hi := mac_hi (hp_eth_src hp), fv_smac_lo := mac_lo (hp_eth_src hp),
           fv_pppoe := ucast (hp_pppoe_sid hp),
           fv_dp := of_int (HNAT_GMAC_FP (v_gmac_num v) (dv_mac_id (v_devs v d)))\<rparr>"
    using plain_flow_entry [OF assms] by blast
  have "fv_state (hw_flow (foe_of s' (nf_ppe s k) (skb_hnat_entry k))) = state_code BIND" by (simp add: s'(2))
  then have "entry_hnat_is_bound (foe_of s' (nf_ppe s k) (skb_hnat_entry k))"
    by (simp add: entry_hnat_is_bound_def hw_flow_def Let_def)
  then show ?thesis
    using s'(1) plain_flow_rewrite [OF assms s'(2)] by (auto simp: s'(2) hw_match_def Let_def b2u_def)
qed

lemma demo_ppe: "nf_ppe demo_nf demo_skb = 0"
  by (simp add: demo_packet_defs demo_hnat_def nf_ppe_def skb_hnat_ppe_def api_skb_def zero_desc_def from_defs
      split: option.split)

lemma demo_foe: "foe_of_skb demo_nf demo_skb = demo_seen"
  by (simp add: foe_of_skb_def demo_ppe) (simp add: foe_of_def demo_packet_defs demo_hnat_def)

lemma demo_seen_fields:
  "rd demo_seen (udib1 ''state'') = state_code UNBIND" "pkt_type demo_seen = IPV4_HNAPT"
  by (simp_all add: demo_seen_def pkt_type_def foe_fld rd_wr_same rd_wr_other state_code_def foe_ip_act_defs
      del: One_nat_def)

lemma demo_ip: "ip_hdr demo_skb = \<lparr>ip_ihl = 5, ip_version = 4, ip_tos = 0, ip_tot_len = 0x2800, ip_id = 0x0100,
    ip_frag_off = 0, ip_ttl = 63, ip_protocol = 6, ip_check = 0, ip_saddr = 0x04030201, ip_daddr = 0x08080808\<rparr>"
  by code_simp

lemma demo_ports: "skb_ports demo_skb 20 = Some (0x8813, 0x5000)"
  by code_simp

lemma demo_eth: "be16_to_cpu (h_proto (eth_hdr demo_skb)) = ETH_P_IP"
  by code_simp

lemma demo_plain: "plain_flow demo_nf_env 1 demo_path (0x8813, 0x5000) demo_skb demo_nf"
proof -
  have "dev_is_wan demo_nf_env 1" "\<not> dev_is_whnat demo_nf_env demo_nf 1"
    by (simp_all add: dev_is_wan_def dev_is_whnat_def dev_name_def demo_packet_defs)
  moreover have "\<not> skb_vlan_tagged demo_skb" "\<not> engine_pending demo_skb demo_path"
    by (simp_all add: skb_vlan_tagged_def skb_vlan_tag_present_def engine_pending_def demo_packet_defs zero_desc_def eth_p_defs)
  moreover have "\<not> is_multicast_ether_addr (hp_eth_dest demo_path)" "path_flag demo_path DEV_PATH_VLAN = False"
    "hp_vlan_id demo_path = 0"
    by (simp_all add: demo_packet_defs zero_path_def path_flag_def is_multicast_ether_addr_def)
  moreover have "HNAT_GMAC_FP (v_gmac_num demo_nf_env) (dv_mac_id (v_devs demo_nf_env 1)) \<ge> 0"
    by (simp add: demo_packet_defs HNAT_GMAC_FP_def NR_GMAC2_PORT_def)
  ultimately show ?thesis
    by (simp add: plain_flow_def Let_def demo_foe demo_seen_fields demo_ip demo_ports demo_eth)
       (simp add: ip_is_fragment_def eth_p_defs ipproto_defs demo_packet_defs zero_desc_def demo_hnat_def)
qed

theorem bound_flow_forwards_as_kernel_witness:
  "\<exists>s'. skb_to_hnat_info demo_nf_env 1 demo_path demo_skb demo_nf = (0, demo_skb, s') \<and>
     po_dport (hw_rewrite (foe_of s' 0 7)) = 80 \<and> entry_hnat_is_bound (foe_of s' 0 7)"
proof -
  have i: "skb_hnat_entry demo_skb = 7" by (simp add: demo_skb_def)
  have port: "ucast (be16_to_cpu 0x5000) = (80 :: u32)" by code_simp
  obtain s' where s': "skb_to_hnat_info demo_nf_env 1 demo_path demo_skb demo_nf = (0, demo_skb, s')"
      "entry_hnat_is_bound (foe_of s' 0 7)"
      "hw_rewrite (foe_of s' 0 7) = kernel_out demo_nf_env 1 demo_path (0x8813, 0x5000) demo_skb"
    using bound_flow_forwards_as_kernel [OF demo_plain] unfolding demo_ppe i Let_def by blast
  then show ?thesis by (simp add: kernel_out_def port)
qed



text \<open>The crypto engine tests once more whether the entry is bound, but before it takes the lock: an entry that
  another hook binds in between is overwritten.\<close>

theorem crypto_publish_overwrites:
  assumes "crypto_prepare v d inner k s = (Inr e, k1)"
  defines "p \<equiv> nf_ppe s k" and "i \<equiv> skb_hnat_entry k"
  shows "\<not> entry_hnat_is_bound (foe_of s p i)
    \<and> foe_of (crypto_publish p i e s s1) p i
        = foe_copy (commit_words (hnat_timestamp (nf_core s1)) (state_code BIND) e) (foe_of s1 p i)"
proof -
  have u: "\<not> entry_hnat_is_bound (foe_of s p i)"
    using assms(1) by (auto simp: crypto_prepare_def Let_def p_def i_def split: if_splits)
  then show ?thesis
    by (simp add: crypto_publish_def crypto_commit_def Let_def commit_eq)
qed

text \<open>C25. While an entry that was not bound is stored, the engine never runs a part of it: in every state of its
  memory on the way in which the entry counts as bound, each word is that of the new entry; and the last of
  these states is the one \<open>hnat_foe_entry_commit\<close> leaves.\<close>

theorem commit_publishes_last:
  assumes "\<not> entry_hnat_is_bound foe"
  shows "(\<forall>t \<in> set (commit_steps e foe). entry_hnat_is_bound t \<longrightarrow> (\<forall>j < FOE_WORDS. t j = e j))
    \<and> foe_of (hnat_foe_entry_commit p i e st (upd_entry p i (\<lambda>_. foe) s)) p i =
        last (commit_steps (commit_words (hnat_timestamp (nf_core s)) st e) foe)"
proof -
  have "\<forall>j < FOE_WORDS. t j = e j" if "t \<in> set (commit_steps e foe)" "entry_hnat_is_bound t" for t
    using commit_steps_cases [OF that(1)] that(2) assms bound_word [of t foe] by (auto simp: foe_copy_def)
  then show ?thesis
    by (simp add: commit_eq) (simp add: upd_entry_def upd_core_def on_entry_def hnat_timestamp_def)
qed

theorem commit_publishes_last_witness:
  "foe_copy demo_entry demo_seen \<in> set (commit_steps demo_entry demo_seen) \<and> foe_copy demo_entry demo_seen 3 = demo_entry 3"
proof -
  have u: "\<not> entry_hnat_is_bound demo_seen"
    using demo_seen_fields(1) by (intro unbound_state)
  have t: "foe_copy demo_entry demo_seen \<in> set (commit_steps demo_entry demo_seen)" by (simp add: commit_steps_def)
  have "entry_hnat_is_bound (foe_copy demo_entry demo_seen)"
    using bound_word [of "foe_copy demo_entry demo_seen" demo_entry] demo_bound by (simp add: foe_copy_def)
  then show ?thesis using commit_publishes_last [OF u, of demo_entry] t by simp
qed

section \<open>Tags of packets for Wi-Fi\<close>

text \<open>C26. The loop over the tags of a packet for Wi-Fi, which only the layers of the entry bound, ends for every packet;
  so the hook for the Wi-Fi driver returns, and lets the packet pass.  The tags entered are those of the packet,
  from the outermost inwards, however many the entry had before; a packet with more than two, with a
  tag in its metadata that is not of 802.1Q, or (with tags) of a type the code does not know, is not entered.\<close>

theorem wifi_tags_entered:
  "(\<exists>s'. mtk_sw_nat_hook_tx v k port s = Some (NF_ACCEPT, s')) \<and>
   (\<exists>r. wifi_vlans k e = Some r \<and> (r \<noteq> None) = wifi_vlans_ok k e
      \<and> (\<forall>e'. r = Some e' \<longrightarrow> pkt_type e' = pkt_type e \<and> entry_tags e' = map ucast (wifi_tags k)))"
proof
  have "\<exists>r. wifi_vlans k e = Some r" for e using wifi_vlans_result by blast
  then show "\<exists>s'. mtk_sw_nat_hook_tx v k port s = Some (NF_ACCEPT, s')"
    unfolding mtk_sw_nat_hook_tx_def Let_def by (auto split: option.split prod.split if_split) (metis option.distinct(1))+
qed (rule wifi_vlans_result)

theorem wifi_tags_entered_witness:
  "\<exists>e'. wifi_vlans (demo_skb\<lparr>sb_vlan_proto := cpu_to_be16 ETH_P_8021Q, sb_vlan_tci := 7\<rparr>) demo_seen = Some (Some e')
     \<and> entry_tags e' = [7]"
proof -
  let ?k = "demo_skb\<lparr>sb_vlan_proto := cpu_to_be16 ETH_P_8021Q, sb_vlan_tci := 7\<rparr>"
  have tags: "wifi_tags ?k = [7]"
  proof -
    have "cpu_to_be16 ETH_P_IP \<noteq> cpu_to_be16 ETH_P_8021Q" by code_simp
    then show ?thesis by (simp add: wifi_tags_def skb_vlan_tag_present_def demo_skb_def numeral_3_eq_3 Let_def)
  qed
  then have "wifi_vlans_ok ?k demo_seen"
    by (simp add: wifi_vlans_ok_def IS_IPV4_GRP_def demo_seen_fields foe_ip_act_defs)
  then show ?thesis using conjunct2 [OF wifi_tags_entered [of demo_nf_env ?k 8 demo_nf demo_seen]] tags by auto
qed

section \<open>What becomes of packets\<close>


text \<open>A packet the engine sends to the processor for entry 9, which names no device.\<close>

definition demo_forced :: sk_buff where
  "demo_forced = upd_desc (\<lambda>x. x\<lparr>hd_entry := 9, hd_crsn := HIT_BIND_FORCE_TO_CPU\<rparr>) demo_skb"

lemma demo_forced_foe: "foe_of_skb demo_nf demo_forced = zero_words" "nf_ppe demo_nf demo_forced = 0"
  by (simp_all add: demo_forced_def upd_desc_def demo_packet_defs demo_hnat_def foe_of_skb_def nf_ppe_def skb_hnat_ppe_def
      api_skb_def zero_desc_def from_defs foe_of_def split: option.split)

lemma demo_live: "live_ext (nf_ext demo_nf) = [0]"
  by (simp add: live_ext_def demo_packet_defs packed_def MAX_EXT_DEVS_def)

lemma demo_device:
  "get_dev_from_index (v_devs demo_nf_env) i (nf_ext demo_nf) = (if i = 12 then Some 4 else None)"
  by (simp add: get_dev_from_index_def demo_live) (simp add: demo_packet_defs)




lemma act_dp_place [foe_fld]: "in_view hnat_ipv4_hnapt ''act_dp'' = Fld 10 24 8"
  by code_simp

text \<open>What the engine sends to the processor for an extension device goes to the device whose index an entry
  holds in seven bits: a device with index 128 or more never gets such a packet.\<close>

theorem forced_packets_reach_small_indices:
  assumes unshare: "\<And>k k'. v_unshare v k = Some k' \<Longrightarrow> sb_dev k' = sb_dev k"
    and r: "do_hnat_ge_to_ext v k s = Some (0, None, s')"
  shows "\<exists>q d. s' = emit (Dev_queue_xmit q) s \<and> sb_dev q = Some d
    \<and> dev_ifindex v d = foe_act_dp (foe_of_skb s k) \<and> dev_ifindex v d < 128"
proof -
  define index where "index = foe_act_dp (foe_of_skb s k)"
  obtain d where d: "get_dev_from_index (v_devs v) index (nf_ext s) = Some d"
    using r by (auto simp: do_hnat_ge_to_ext_def index_def Let_def split: if_splits option.splits)
  then have i: "dev_ifindex v d = index" by (rule found_index)
  have "index < 128" unfolding index_def by (rule foe_act_dp_small)
  moreover have "\<exists>q. s' = emit (Dev_queue_xmit q) s \<and> sb_dev q = Some d"
    using r d unshare [of "k\<lparr>sb_dev := Some d\<rparr>"]
    by (auto simp: do_hnat_ge_to_ext_def index_def [symmetric] Let_def pull_hqos_tag_def upd_bytes_def skb_pull_def
        skb_push_def skb_set_network_header_def split: if_splits option.splits)
  ultimately show ?thesis using i by (auto simp: index_def)
qed

theorem forced_packets_reach_small_indices_witness:
  "\<exists>s' q d. do_hnat_ge_to_ext demo_nf_env demo_skb (upd_entry 0 7 (wr (in_view hnat_ipv4_hnapt ''act_dp'') 12) demo_nf) = Some (0, None, s')
     \<and> s' = emit (Dev_queue_xmit q) (upd_entry 0 7 (wr (in_view hnat_ipv4_hnapt ''act_dp'') 12) demo_nf) \<and> dev_ifindex demo_nf_env d = 12"
proof -
  let ?s = "upd_entry 0 7 (wr (in_view hnat_ipv4_hnapt ''act_dp'') 12) demo_nf"
  have i: "skb_hnat_entry demo_skb = 7" by (simp add: demo_skb_def)
  have e: "foe_of_skb ?s demo_skb = wr (in_view hnat_ipv4_hnapt ''act_dp'') 12 demo_seen"
    using demo_foe by (simp add: foe_of_skb_def demo_ppe i)
  have "pkt_type (wr (in_view hnat_ipv4_hnapt ''act_dp'') 12 demo_seen) = IPV4_HNAPT"
    using demo_seen_fields(2) by (simp add: pkt_type_def foe_fld rd_wr_other del: One_nat_def)
  then have dp: "foe_act_dp (foe_of_skb ?s demo_skb) = 12"
    unfolding e by (simp add: foe_act_dp_def IS_IPV4_GRP_def foe_ip_act_defs foe_fld rd_wr_same UDF_PINGPONG_IFIDX_def)
  have keep: "nf_ext ?s = nf_ext demo_nf" "CFG_PPE_NUM ?s = 1" "h_etry_num (nf_core ?s) = 32768"
    by (simp_all add: upd_entry_def upd_core_def on_entry_def CFG_PPE_NUM_def demo_packet_defs demo_hnat_def)
  have r: "\<exists>s'. do_hnat_ge_to_ext demo_nf_env demo_skb ?s = Some (0, None, s')"
    by (simp add: do_hnat_ge_to_ext_def dp keep demo_device demo_ppe i IS_HQOS_MODE_def)
       (simp add: demo_nf_env_def)
  have u: "v_unshare demo_nf_env k = Some k' \<Longrightarrow> sb_dev k' = sb_dev k" for k k' by (simp add: demo_nf_env_def)
  obtain s' where s': "do_hnat_ge_to_ext demo_nf_env demo_skb ?s = Some (0, None, s')" using r by blast
  then show ?thesis using forced_packets_reach_small_indices [OF u s'] dp by auto
qed

section \<open>464XLAT\<close>

text \<open>C29. A translated packet that leaves binds one entry or changes nothing: on each of its failures (another
  protocol, no translation, ports that are not there, no neighbour, no kept descriptor) the state is as it
  was; otherwise exactly one entry of the table has changed, that of the engine in the descriptor
  kept for it, and it is bound with the type of the packet's direction.\<close>

theorem xlat_binds_or_nothing:
  assumes "mtk_464xlat_post_process v out k s = Some (ret, s')"
  defines "l2w \<equiv> sb_protocol k = cpu_to_be16 ETH_P_IPV6"
  shows "(ret = - 1 \<and> s' = s) \<or>
    (ret = 0 \<and> (\<exists>i < h_etry_num (nf_core s). headroom_ready s (nf_headroom s i)
        \<and> (let p = headroom_ppe s (nf_headroom s i); e = foe_of s' p i
           in rd e (bfib1 ''state'') = state_code BIND \<and> pkt_type e = (if l2w then IPV4_DSLITE else IPV6_6RD)
              \<and> (\<forall>q j. (q, j) \<noteq> (p, i) \<longrightarrow> foe_of s' q j = foe_of s q j))))"
proof (cases "ret = - 1 \<and> s' = s")
  case False
  obtain hash where hash: "mtk_464xlat_get_hash v s k l2w = Some hash"
    using assms(1) False by (auto simp: mtk_464xlat_post_process_def Let_def l2w_def split: if_splits option.splits)
  define i where "i = unat hash"
  define p where "p = headroom_ppe s (nf_headroom s i)"
  have result: "(if i \<ge> h_etry_num (nf_core s) \<or> \<not> headroom_ready s (nf_headroom s i) then Some (- 1, s)
      else (case xlat_entry v s k (foe_of s p i) l2w of
              None \<Rightarrow> Some (- 1, s)
            | Some e \<Rightarrow> (case mtk_464xlat_fill_l2 v k out l2w e of
                           None \<Rightarrow> None
                         | Some None \<Rightarrow> Some (- 1, s)
                         | Some (Some e') \<Rightarrow> Some (0, upd_entry p i (foe_copy e') s)))) = Some (ret, s')"
    using assms(1) False unfolding mtk_464xlat_post_process_def Let_def l2w_def [symmetric] hash i_def p_def
    by (simp split: if_splits)
  then have ok: "i < h_etry_num (nf_core s)" "headroom_ready s (nf_headroom s i)"
    using False by (simp_all split: if_splits)
  obtain e where e1: "xlat_entry v s k (foe_of s p i) l2w = Some e"
    using result ok False by (simp split: option.splits)
  obtain e' where e2: "mtk_464xlat_fill_l2 v k out l2w e = Some (Some e')"
    using result ok False e1 by (simp split: option.splits)
  have e: "xlat_entry v s k (foe_of s p i) l2w = Some e" "mtk_464xlat_fill_l2 v k out l2w e = Some (Some e')"
      "ret = 0" "s' = upd_entry p i (foe_copy e') s"
    using result ok e1 e2 by simp_all
  have "xlat_ready l2w e'" using fill_l2_ready [OF e(2) xlat_entry_ready [OF e(1)]] .
  then have "xlat_ready l2w (foe_copy e' f)" for f
    by (simp add: xlat_ready_def pkt_type_def foe_fld)
  then show ?thesis
    using ok e(3,4) by (auto simp: Let_def p_def [symmetric] xlat_ready_def)
qed simp

definition demo_xlat_env :: nf_env where
  "demo_xlat_env = demo_nf_env\<lparr>v_xlat := True, v_xlat_map := [(0x04030201, [1, 2, 3, 4])], v_xlat_prefix := [5, 6, 7],
     v_neigh4 := (\<lambda>d a. Some [2, 0, 0, 0, 0, 7])\<rparr>"

theorem xlat_binds_or_nothing_witness:
  "\<exists>s' i. mtk_464xlat_post_process demo_xlat_env 2 (demo_skb\<lparr>sb_dst := Some \<lparr>dst_xfrm = False, dst_dev = 2\<rparr>\<rparr>)
      (demo_nf\<lparr>nf_headroom := (\<lambda>i. zero_desc\<lparr>hd_crsn := HIT_UNBIND_RATE_REACH\<rparr>)\<rparr>) = Some (0, s')
    \<and> pkt_type (foe_of s' 0 i) = IPV6_6RD"
proof -
  let ?k = "demo_skb\<lparr>sb_dst := Some \<lparr>dst_xfrm = False, dst_dev = 2\<rparr>\<rparr>"
  let ?x = "zero_desc\<lparr>hd_crsn := HIT_UNBIND_RATE_REACH\<rparr>"
  let ?s = "demo_nf\<lparr>nf_headroom := (\<lambda>i. ?x)\<rparr>"
  have proto: "sb_protocol ?k = cpu_to_be16 ETH_P_IP" "cpu_to_be16 ETH_P_IP \<noteq> cpu_to_be16 ETH_P_IPV6"
    by (simp add: demo_skb_def, code_simp)
  have ip: "ip_hdr ?k = ip_hdr demo_skb" "skb_ports ?k off = skb_ports demo_skb off" for off
    by (simp_all add: ip_hdr_def skb_ports_def skb_header_pointer_def)
  have map: "mtk_ppe_get_xlat_v6_by_v4 demo_xlat_env 0x04030201 = Some ([1, 2, 3, 4], [5, 6, 7])"
    by (simp add: mtk_ppe_get_xlat_v6_by_v4_def demo_xlat_env_def)
  have "xlat_key_w2l demo_xlat_env ?k zero_words \<noteq> None"
    by (simp add: xlat_key_w2l_def Let_def ip demo_ip demo_ports map)
  then obtain e where h: "mtk_464xlat_get_hash demo_xlat_env ?s ?k False = Some (hnat_get_ppe_hash e (nf_core ?s))"
    by (auto simp: mtk_464xlat_get_hash_def)
  have n: "h_etry_num (nf_core ?s) = 32768" by (simp add: demo_nf_def demo_hnat_def)
  have room: "unat (hnat_get_ppe_hash e (nf_core ?s)) < h_etry_num (nf_core ?s)"
    using hash_in_table [of "nf_core ?s" e] n by simp
  have ready: "headroom_ready ?s ?x" "headroom_ppe ?s ?x = 0"
    by (simp_all add: headroom_ready_def headroom_ppe_def zero_desc_def foe_magic_defs)
  have l2: "\<exists>e'. mtk_464xlat_fill_l2 demo_xlat_env ?k 2 False e1 = Some (Some e')" for e1
    by (simp add: mtk_464xlat_fill_l2_def mtk_464xlat_fill_mac_def dev_is_dsa_lan_def dev_name_def demo_xlat_env_def
        demo_nf_env_def demo_devs_def demo_nfdev_def nf_dev.make_def Let_def)
  have fill: "\<exists>e1. xlat_entry demo_xlat_env ?s ?k foe False = Some e1" for foe
    by (simp add: xlat_entry_def mtk_464xlat_fill_l3_def mtk_464xlat_fill_ipv6_def Let_def)
  have "\<exists>s'. mtk_464xlat_post_process demo_xlat_env 2 ?k ?s = Some (0, s')"
    unfolding mtk_464xlat_post_process_def Let_def proto(1) using proto(2) h room ready l2 fill
    by (auto split: option.split) (metis option.distinct(1) option.inject)+
  then obtain s' where s': "mtk_464xlat_post_process demo_xlat_env 2 ?k ?s = Some (0, s')" by blast
  show ?thesis
    using xlat_binds_or_nothing [OF s'] s' proto ready by (auto simp: Let_def)
qed

section \<open>Sums\<close>

text \<open>C30. The part of the header checksum that an entry carries is, in the ones' complement arithmetic of the
  checksum, the sum of the words of the header that stay: for a header whose checksum is right it has the
  remainder of all words but the checksum, the length, the identification and (on chips after version 2)
  the type of service.\<close>

theorem checksum_base_is_rest:
  assumes "(unat (be16_to_cpu (ip_check h)) + sum_list (chk_fields version h) + rest) mod 65535 = 0"
  shows "unat (ppe_get_chkbase version h) mod 65535 = rest mod 65535"
  using mod_complement [OF assms] chkbase_sum [of version h] by (simp only: add.assoc)

text \<open>The header of \<open>demo_skb\<close> with its checksum; the other words are 0x4500, 0x3F06 and those of the addresses.\<close>

theorem checksum_base_is_rest_witness:
  "unat (ppe_get_chkbase Hnat_State.MTK_HNAT_V3 ((ip_hdr demo_skb)\<lparr>ip_check := 0xBA67\<rparr>)) mod 65535 = 0x981C"
proof -
  have be: "be16_to_cpu 0xBA67 = 0x67BA" "be16_to_cpu 0x2800 = 40" "be16_to_cpu 0x0100 = 1"
    by (code_simp)+
  have "(unat (be16_to_cpu (ip_check ((ip_hdr demo_skb)\<lparr>ip_check := 0xBA67\<rparr>)))
      + sum_list (chk_fields Hnat_State.MTK_HNAT_V3 ((ip_hdr demo_skb)\<lparr>ip_check := 0xBA67\<rparr>)) + 0x981C) mod 65535 = 0"
    unfolding demo_ip by (simp add: chk_fields_def be)
  from checksum_base_is_rest [OF this] show ?thesis by simp
qed

text \<open>C31. Reading all counters counts the bound entries, and neither loses nor invents traffic: for every entry, what
  the driver has counted grows by exactly what is reported for it.  No more entries are reported than are
  counted; fewer are where the engine stays busy.  The tables do not change.\<close>

theorem all_counts_reported:
  assumes "h_per_flow_accounting (nf_core s)" and "mtk_hnat_get_all_mib_counts v True s = (cnt, out, s')"
  shows "nf_core s' = nf_core s
    \<and> cnt = length (filter (\<lambda>(p, i). entry_hnat_is_bound (foe_of s p i)) (all_indices s)) \<and> length out \<le> cnt
    \<and> acct_of s' p i = (fst (acct_of s p i) + fst (counts_of p i out), snd (acct_of s p i) + snd (counts_of p i out))"
proof -
  have "fold (mib_all_step v) (all_indices s) (0, [], s) = (cnt, out, s')"
    using assms by (simp add: mtk_hnat_get_all_mib_counts_def)
  from mib_fold [OF this] show ?thesis by auto
qed

definition demo_counting :: nf_state where
  "demo_counting = demo_nf\<lparr>nf_core := (nf_core demo_nf)\<lparr>h_per_flow_accounting := True, h_etry_num := 8\<rparr>\<rparr>"

theorem all_counts_reported_witness:
  "let (cnt, out, s') = mtk_hnat_get_all_mib_counts demo_nf_env True demo_counting
   in cnt = 1 \<and> acct_of s' 0 5 = counts_of 0 5 out"
proof -
  obtain cnt out s' where r: "mtk_hnat_get_all_mib_counts demo_nf_env True demo_counting = (cnt, out, s')"
    by (metis prod_cases3)
  have b: "entry_hnat_is_bound demo_entry" "\<not> entry_hnat_is_bound demo_seen" "\<not> entry_hnat_is_bound zero_words"
    using demo_bound demo_seen_fields(1) unbound_state by (simp_all add: entry_hnat_is_bound_def foe_fld state_code_def)
  have i: "all_indices demo_counting = [(0, 0), (0, 1), (0, 2), (0, 3), (0, 4), (0, 5), (0, 6), (0, 7)]"
    by (simp add: all_indices_def CFG_PPE_NUM_def demo_counting_def demo_nf_def demo_hnat_def upt_rec)
  have a: "h_per_flow_accounting (nf_core demo_counting)" by (simp add: demo_counting_def)
  have "acct_of demo_counting 0 5 = (0, 0)" by (simp add: acct_of_def demo_counting_def demo_nf_def zero_acct_def)
  then show ?thesis
    using all_counts_reported [OF a r, of 0 5]
    by (simp add: r i) (simp add: foe_of_def demo_counting_def demo_nf_def b)
qed

section \<open>Restart\<close>

text \<open>C32. After a reset of the frame engine no entry of any engine survives, and the driver has found its two devices
  again; but each engine takes its own reference to them, and none is given back, so that a restart with
  more than one engine, or a second restart, holds devices that can then never be removed.\<close>

theorem warm_restart:
  fixes v t y d
  assumes "h_version (nf_core (hs_nf y)) \<noteq> Hnat_State.MTK_HNAT_V1_1" and "0 < h_ppe_num (nf_core (hs_nf y))"
  defines "y' \<equiv> hnat_warm_init v t y"
  shows "(\<forall>p < h_ppe_num (nf_core (hs_nf y)). \<forall>i < h_etry_num (nf_core (hs_nf y)). foe_of (hs_nf y') p i = zero_words)
    \<and> g_ppdev (nf_ext (hs_nf y')) = v_by_name v (v_ppd v) \<and> g_wandev (nf_ext (hs_nf y')) = v_by_name v (v_wan v)
    \<and> ext_refs (nf_ext (hs_nf y')) d
        = ext_refs (nf_ext (hs_nf y)) d + int (h_ppe_num (nf_core (hs_nf y))) * found_refs v d"
  using warm_init_result(1) [OF assms(1)] warm_init_result(2) [of v t y d] warm_init_result(3) [of y v t] assms(2)
  unfolding y'_def by blast

definition demo_sys :: hnat_sys where
  "demo_sys = \<lparr>hs_nf = demo_nf, hs_neigh = \<lparr>nq_head = [], nq_pending = 0, nq_timer = False\<rparr>, hs_neigh_nb = False,
     hs_sma_timer = False, hs_hooks = \<lparr>hk_rx = False, hk_tx = False, hk_dev = False, hk_clear = False, hk_wdma = False,
     hk_nf = False, hk_del = False, hk_toggle = False\<rparr>, hs_link_fn = False, hs_links = []\<rparr>"

theorem warm_restart_witness:
  "let y = hnat_warm_init (demo_nf_env\<lparr>v_by_name := (\<lambda>n. if n = ''ppd0'' then Some 3 else None)\<rparr>)
             \<lparr>et_netdev = [], et_irq = (\<lambda>p. (0, 0)), et_glo_cfg = (\<lambda>p. 0), et_link_down = (\<lambda>p. 0)\<rparr> demo_sys
   in foe_of (hs_nf y) 0 5 = zero_words \<and> ext_refs (nf_ext (hs_nf y)) 3 = 2"
proof -
  have v: "h_version (nf_core (hs_nf demo_sys)) \<noteq> Hnat_State.MTK_HNAT_V1_1" "0 < h_ppe_num (nf_core (hs_nf demo_sys))"
    by (simp_all add: demo_sys_def demo_nf_def demo_hnat_def Hnat_State.MTK_HNAT_V1_1_def Hnat_State.MTK_HNAT_V3_def)
  have n: "h_ppe_num (nf_core (hs_nf demo_sys)) = 1" "h_etry_num (nf_core (hs_nf demo_sys)) = 32768"
    "ext_refs (nf_ext (hs_nf demo_sys)) 3 = 1"
    by (simp_all add: demo_sys_def demo_nf_def demo_hnat_def)
  show ?thesis
    using warm_restart [OF v, of "demo_nf_env\<lparr>v_by_name := (\<lambda>n. if n = ''ppd0'' then Some 3 else None)\<rparr>"
        "\<lparr>et_netdev = [], et_irq = (\<lambda>p. (0, 0)), et_glo_cfg = (\<lambda>p. 0), et_link_down = (\<lambda>p. 0)\<rparr>" 3]
    by (simp add: n found_refs_def Let_def demo_nf_env_def)
qed

end
