(* ===== verification/Scan.thy ===== *)
theory Scan
  imports Kstr
begin

text \<open>
  More of the kernel's string functions, for the debug commands of \<^verbatim>\<open>hnat_debugfs.c\<close>: \<open>sscanf\<close> with
  the conversions these commands use, as the C library documents it, and \<open>kstrtol\<close>.  A format is
  read from its C text.
\<close>

section \<open>Formats\<close>

definition isspace :: "char \<Rightarrow> bool" where
  "isspace c = (let n = of_char c :: nat in (9 \<le> n \<and> n \<le> 13) \<or> n = 32 \<or> n = 160)"

definition skip_spaces :: "string \<Rightarrow> string" where
  "skip_spaces s = dropWhile isspace s"

text \<open>White space, a character, and the conversions \<open>%<n>s\<close>, \<open>%<n>d\<close>, \<open>%<n>x\<close>, \<open>%<n>hx\<close>, \<open>%<n>hu\<close> and one
  that is skipped, as \<open>%*d\<close>.  Any other conversion ends the scan.\<close>

datatype scan_item = S_space | S_char char | S_str nat | S_int nat | S_hex nat | S_hex16 nat | S_stop
  | S_u16 nat | S_skip

fun take_num :: "nat \<Rightarrow> string \<Rightarrow> nat \<times> string" where
  "take_num n [] = (n, [])"
| "take_num n (c # s) =
     (let d = of_char c :: nat in if 48 \<le> d \<and> d \<le> 57 then take_num (n * 10 + (d - 48)) s else (n, c # s))"

lemma take_num_length: "length (snd (take_num n s)) \<le> length s"
  by (induction n s rule: take_num.induct) (auto simp: Let_def)

definition conversion :: "string \<Rightarrow> scan_item \<times> string" where
  "conversion s =
     (case take_num 0 s of (n, r) \<Rightarrow>
        (case r of
           c # r' \<Rightarrow>
             if c = CHR ''s'' then (S_str n, r')
             else if c = CHR ''d'' then (S_int n, r')
             else if c = CHR ''x'' then (S_hex n, r')
             else if c = CHR ''h'' then
               (case r' of c' # r'' \<Rightarrow> if c' = CHR ''x'' then (S_hex16 n, r'')
                                      else if c' = CHR ''u'' then (S_u16 n, r'') else (S_stop, [])
                         | [] \<Rightarrow> (S_stop, []))
             else if c = CHR ''*'' then (S_skip, dropWhile (\<lambda>c. \<not> isspace c \<and> c \<noteq> CHR ''%'') r')
             else (S_stop, [])
         | [] \<Rightarrow> (S_stop, [])))"

lemma conversion_length: "length (snd (conversion s)) \<le> length s"
proof -
  obtain n r where t: "take_num 0 s = (n, r)" by (cases "take_num 0 s")
  have l: "length r \<le> length s" using take_num_length [of 0 s] by (simp add: t)
  have "length (dropWhile P q) \<le> length q" for P and q :: string by (rule length_dropWhile_le)
  from this [of "\<lambda>c. \<not> isspace c \<and> c \<noteq> CHR ''%''" "tl r"] have "length (snd (conversion s)) \<le> length r"
    unfolding conversion_def t by (cases r; cases "tl r") auto
  then show ?thesis using l by simp
qed

function parse_fmt :: "string \<Rightarrow> scan_item list" where
  "parse_fmt [] = []"
| "parse_fmt (c # s) =
     (if isspace c then S_space # parse_fmt s
      else if c = CHR ''%'' then fst (conversion s) # parse_fmt (snd (conversion s))
      else S_char c # parse_fmt s)"
  by pat_completeness auto
termination
  by (relation "measure length") (auto simp: le_imp_less_Suc conversion_length)

declare parse_fmt.simps [simp del]

section \<open>Scanning\<close>

datatype scan_val = V_str string | V_int int | V_word u32

text \<open>An unsigned number of at most \<open>n\<close> characters: its value and the rest.\<close>

definition scan_unsigned :: "nat \<Rightarrow> nat \<Rightarrow> string \<Rightarrow> nat \<times> string" where
  "scan_unsigned base n s =
     (let s' = snd (fixup_radix base s); k = length s - length s' in
      if k < n then (case parse_integer base (take (n - k) s') 0 0 of (res, rv, _) \<Rightarrow> (res, drop rv s'))
      else (0, drop n s))"

definition is_digit :: "nat \<Rightarrow> char \<Rightarrow> bool" where
  "is_digit base c = (case digit_val c of None \<Rightarrow> False | Some v \<Rightarrow> v < base)"

text \<open>One number; \<open>None\<close> when there is none.\<close>

definition scan_number :: "nat \<Rightarrow> bool \<Rightarrow> nat \<Rightarrow> string \<Rightarrow> (int \<times> string) option" where
  "scan_number base neg n s0 =
     (case skip_spaces s0 of
        [] \<Rightarrow> None
      | c # r \<Rightarrow>
          if neg \<and> c = CHR ''-''
          then (case r of
                  d # _ \<Rightarrow> if n \<noteq> 1 \<and> is_digit base d
                           then (case scan_unsigned base (n - 1) r of (v, q) \<Rightarrow> Some (- int v, q)) else None
                | [] \<Rightarrow> None)
          else if is_digit base c then (case scan_unsigned base n (c # r) of (v, q) \<Rightarrow> Some (int v, q))
          else None)"

text \<open>The conversions in order, up to the first that fails; the number of results is the value of
  \<open>sscanf\<close>.\<close>

fun scan_items :: "scan_item list \<Rightarrow> string \<Rightarrow> scan_val list" where
  "scan_items [] s = []"
| "scan_items (S_space # fs) s = scan_items fs (skip_spaces s)"
| "scan_items (S_char c # fs) s = (case s of d # r \<Rightarrow> if c = d then scan_items fs r else [] | [] \<Rightarrow> [])"
| "scan_items (S_str n # fs) s =
     (if s = [] then []
      else let t = takeWhile (\<lambda>c. \<not> isspace c) (take n (skip_spaces s))
           in V_str t # scan_items fs (drop (length t) (skip_spaces s)))"
| "scan_items (S_int n # fs) s =
     (case scan_number 10 True n s of None \<Rightarrow> [] | Some (v, r) \<Rightarrow> V_int v # scan_items fs r)"
| "scan_items (S_hex n # fs) s =
     (case scan_number 16 False n s of None \<Rightarrow> [] | Some (v, r) \<Rightarrow> V_word (word_of_int v) # scan_items fs r)"
| "scan_items (S_hex16 n # fs) s =
     (case scan_number 16 False n s of
        None \<Rightarrow> [] | Some (v, r) \<Rightarrow> V_word (word_of_int v AND 0xffff) # scan_items fs r)"
| "scan_items (S_stop # fs) s = []"
| "scan_items (S_u16 n # fs) s =
     (case scan_number 10 False n s of
        None \<Rightarrow> [] | Some (v, r) \<Rightarrow> V_word (word_of_int v AND 0xffff) # scan_items fs r)"
| "scan_items (S_skip # fs) s = (if s = [] then [] else scan_items fs (dropWhile (\<lambda>c. \<not> isspace c) s))"

definition sscanf :: "string \<Rightarrow> string \<Rightarrow> scan_val list" where
  "sscanf s fmt = scan_items (parse_fmt fmt) (until_nul s)"

section \<open>\<open>kstrtol\<close>\<close>

text \<open>\<open>long\<close> has 64 bits.\<close>

definition kstrtol :: "nat \<Rightarrow> string \<Rightarrow> int option" where
  "kstrtol base s =
     (case s of
        c # r \<Rightarrow>
          if c = CHR ''-''
          then (case kstrtoull0 base r of None \<Rightarrow> None | Some n \<Rightarrow> if n \<le> 2 ^ 63 then Some (- int n) else None)
          else (case kstrtoull0 base (skip_plus s) of
                  None \<Rightarrow> None | Some n \<Rightarrow> if n < 2 ^ 63 then Some (int n) else None)
      | [] \<Rightarrow> None)"

lemma kstrtol_Nil [simp]: "kstrtol base [] = None"
  by (simp add: kstrtol_def)

lemma kstrtol_dec: "n < 2 ^ 63 \<Longrightarrow> kstrtol 10 (dec n) = Some (int n)"
proof -
  assume n: "n < 2 ^ 63"
  obtain k r where d: "dec n = digit k # r" "k < 10" using dec_head by blast
  then have "skip_plus (dec n) = dec n" by (simp add: skip_plus_def)
  then have "kstrtoull0 10 (skip_plus (digit k # r)) = Some n"
    unfolding d(1) [symmetric] by (simp add: kstrtoull0_dec)
  then show ?thesis using n d by (simp add: kstrtol_def)
qed

text \<open>A \<open>long\<close> passed as an \<open>int\<close>.\<close>

definition to_int :: "int \<Rightarrow> int" where
  "to_int x = signed_take_bit 31 x"

lemma to_int_small: "- (2 ^ 31) \<le> x \<Longrightarrow> x < 2 ^ 31 \<Longrightarrow> to_int x = x"
  by (simp add: to_int_def signed_take_bit_int_eq_self)

lemma dec_nul_free: "CHR 0x00 \<notin> set (dec n)"
  using dec_no_char [of "CHR 0x00" n] digit_neq(6) by metis

lemma until_nul_self [simp]: "CHR 0x00 \<notin> set s \<Longrightarrow> until_nul s = s"
  by (simp add: until_nul_def takeWhile_eq_all_conv) metis

end
