(* ===== verification/Hnat_Debug.thy ===== *)
theory Hnat_Debug
  imports Hnat_Notify Hnat_Acct Hnat_Wifi Hnat_Proto3t Scan
begin

text \<open>
  Debug commands of \<^verbatim>\<open>hnat_debugfs.c\<close>, first part: the files \<open>cpu_reason\<close>, \<open>hnat_entry\<close>,
  \<open>hnat_setting\<close>, \<open>hnat_ppd_if\<close>, the multicast mode and the registration of Wi-Fi devices.  A command is what is
  written to the file; its result is the return code and the new state, or \<open>None\<close> where C has
  undefined behaviour.
\<close>

section \<open>State\<close>

text \<open>The system, the switches (in \<open>db_env\<close>, where the packet hooks read them) and the variables only
  the debug files use.\<close>

record debugfs =
  db_env :: nf_env
  db_sys :: hnat_sys
  db_level :: int
  db_cpu_reason :: int
  db_entry_state :: int
  db_reason_cnt :: "u32 list"
  db_mcast_mode :: int
  db_pfx_len :: int
  db_l2br :: int

text \<open>What the kernel answers: whether the copy from user space works, whether it takes the hooks and has
  memory, the parsers of addresses (\<open>None\<close> is a failure, which writes nothing), the entry of a new extension
  device, and what the C variables of a function hold before it assigns them.\<close>

record dbg_env =
  de_copy_ok :: bool
  de_nf_ok :: bool
  de_mem :: bool
  de_in4 :: "string \<Rightarrow> be32 option"
  de_in6 :: "string \<Rightarrow> be32 list option"
  de_ext_new :: "nat option"
  de_junk4 :: be32
  de_junk6 :: "be32 list"
  de_junk :: string

type_synonym dbg_result = "(int \<times> debugfs) option"

definition on_sys :: "(hnat_sys \<Rightarrow> hnat_sys) \<Rightarrow> debugfs \<Rightarrow> debugfs" where
  "on_sys f b = b\<lparr>db_sys := f (db_sys b)\<rparr>"

definition db_core :: "debugfs \<Rightarrow> mtk_hnat" where
  "db_core b = nf_core (hs_nf (db_sys b))"

definition on_db_core :: "(mtk_hnat \<Rightarrow> mtk_hnat) \<Rightarrow> debugfs \<Rightarrow> debugfs" where
  "on_db_core f = on_sys (on_core f)"

definition on_db_nf :: "(nf_state \<Rightarrow> nf_state) \<Rightarrow> debugfs \<Rightarrow> debugfs" where
  "on_db_nf f = on_sys (on_nf f)"

definition on_env :: "(nf_env \<Rightarrow> nf_env) \<Rightarrow> debugfs \<Rightarrow> debugfs" where
  "on_env f b = b\<lparr>db_env := f (db_env b)\<rparr>"

definition sweep_db :: "(mtk_hnat \<Rightarrow> (nat \<times> mtk_hnat) option) \<Rightarrow> debugfs \<Rightarrow> debugfs option" where
  "sweep_db f b = map_option (\<lambda>y. b\<lparr>db_sys := y\<rparr>) (sweep_sys f (db_sys b))"

definition clear_all_db :: "debugfs \<Rightarrow> debugfs option" where
  "clear_all_db b = map_option (\<lambda>y. b\<lparr>db_sys := y\<rparr>) (clear_all (db_env b) (db_sys b))"

definition EFAULT :: int where "EFAULT = 14"

section \<open>Two arguments\<close>

text \<open>The number in a token: 0 without a token, and 0 when it does not parse, since the result of
  \<open>kstrtol\<close> is ignored.\<close>

definition arg_of :: "string option \<Rightarrow> int" where
  "arg_of tok = (case tok of None \<Rightarrow> 0 | Some t \<Rightarrow> (case kstrtol 10 t of None \<Rightarrow> 0 | Some v \<Rightarrow> v))"

text \<open>The type of a command and what follows it.\<close>

definition first_arg :: "string \<Rightarrow> int \<times> string option" where
  "first_arg buf = (case strsep blanks (Some (until_nul buf)) of (t, p) \<Rightarrow> (arg_of t, p))"

section \<open>The file \<open>cpu_reason\<close>\<close>

definition MAX_CRSN_NUM :: nat where "MAX_CRSN_NUM = 32"

text \<open>The counter of a reason, where there is one: the cases of the switch in their order, with the
  numbers of \<^verbatim>\<open>nf_hnat_mtk.h\<close>.\<close>

definition counted_reasons :: "5 word list" where
  "counted_reasons = [0x02, 0x03, 0x07, 0x08, 0x09, 0x0A, 0x0B, 0x0C, 0x0D, 0x0E, 0x0F, 0x10, 0x11, 0x12,
     0x13, 0x14, 0x15, 0x16, 0x1C, 0x18, 0x19, 0x1A]"

definition hnat_cpu_reason_cnt :: "sk_buff \<Rightarrow> u32 list \<Rightarrow> u32 list" where
  "hnat_cpu_reason_cnt k cnt =
     (case find (\<lambda>i. skb_hnat_reason k = counted_reasons ! i) [0 ..< length counted_reasons] of
        None \<Rightarrow> cnt
      | Some i \<Rightarrow> cnt[i := cnt ! i + 1])"

text \<open>The listing gives the counters with the number of their reason, and clears them.  The line of counter
  18 stands between those of 17 and 19.\<close>

definition cpu_reason_read :: "debugfs \<Rightarrow> (nat \<times> u32) list \<times> debugfs" where
  "cpu_reason_read b =
     (zip [2, 3, 7, 8, 9, 10, 11, 12, 13, 14, 15, 16, 17, 18, 19, 20, 21, 22, 28, 24, 25, 26] (db_reason_cnt b),
      b\<lparr>db_reason_cnt := fold (\<lambda>i c. c[i := 0]) [0 ..< 22] (db_reason_cnt b)\<rparr>)"

definition hnat_set_usage :: "int \<Rightarrow> debugfs \<Rightarrow> debugfs" where
  "hnat_set_usage level b = b\<lparr>db_level := level\<rparr>"

definition hnat_cpu_reason :: "int \<Rightarrow> debugfs \<Rightarrow> debugfs" where
  "hnat_cpu_reason reason b = b\<lparr>db_cpu_reason := reason, db_level := 7\<rparr>"

text \<open>The test of the length is made on a \<open>u32\<close>; a longer write is refused with \<open>-1\<close>.\<close>

definition short_input :: "dbg_env \<Rightarrow> nat \<Rightarrow> string \<Rightarrow> int option" where
  "short_input e n buf = (if length buf \<ge> n then Some (- 1) else if \<not> de_copy_ok e then Some (- EFAULT) else None)"

definition cpu_reason_write :: "dbg_env \<Rightarrow> string \<Rightarrow> debugfs \<Rightarrow> int \<times> debugfs" where
  "cpu_reason_write e buf b =
     (case short_input e 32 buf of
        Some err \<Rightarrow> (err, b)
      | None \<Rightarrow>
          (case first_arg buf of
             (arg0, p) \<Rightarrow>
               let arg1 = arg_of (fst (strsep blanks p))
               in (int (length buf),
                   if arg0 = 1 then hnat_cpu_reason (to_int arg1) b
                   else hnat_set_usage (if arg0 = 0 then to_int arg1 else 0) b)))"

section \<open>The file \<open>hnat_entry\<close>\<close>

definition entry_set_state :: "int \<Rightarrow> debugfs \<Rightarrow> debugfs" where
  "entry_set_state st b = b\<lparr>db_entry_state := st\<rparr>"

definition hnat_char2hex :: "char \<Rightarrow> u32" where
  "hnat_char2hex c = (case digit_val c of None \<Rightarrow> 0 | Some v \<Rightarrow> of_nat v)"

definition hnat_parse_mac :: "string \<Rightarrow> u8 list" where
  "hnat_parse_mac str =
     map (\<lambda>i. ucast (push_bit 4 (hnat_char2hex (str ! (i * 3))) + hnat_char2hex (str ! (i * 3 + 1)))) [0 ..< 6]"

text \<open>The memory from the second token on: \<open>strsep\<close> has put a null character behind it, and behind the
  input and its own null the buffer has not been written.  \<open>None\<close> when the 17 characters of an address would
  go beyond the buffer of 32.\<close>

definition mac_memory :: "dbg_env \<Rightarrow> nat \<Rightarrow> string \<Rightarrow> string option \<Rightarrow> string option" where
  "mac_memory e start tok rest =
     (if start + 17 > 32 then None
      else Some (tok @ CHR 0x00 # (case rest of None \<Rightarrow> [] | Some r \<Rightarrow> r @ [CHR 0x00]) @ de_junk e))"

definition delete_entry_by_mac :: "string \<Rightarrow> debugfs \<Rightarrow> debugfs option" where
  "delete_entry_by_mac str b =
     sweep_db (entry_delete_by_mac (v_dev_model (db_env b)) (Some (hnat_parse_mac str))) b"

definition delete_entry_by_ip :: "dbg_env \<Rightarrow> bool \<Rightarrow> string \<Rightarrow> debugfs \<Rightarrow> debugfs option" where
  "delete_entry_by_ip e is_ipv4 str b =
     (case (if is_ipv4 then map_option (\<lambda>a. [a]) (de_in4 e str) else de_in6 e str) of
        None \<Rightarrow> Some b
      | Some a \<Rightarrow> sweep_db (entry_delete_by_ip (v_dev_model (db_env b)) is_ipv4 (Some a)) b)"

text \<open>The table of functions; showing an entry changes nothing.\<close>

definition entry_set_func :: "nat \<Rightarrow> int \<Rightarrow> debugfs \<Rightarrow> debugfs" where
  "entry_set_func f arg b =
     (let del = (\<lambda>p. on_db_core (\<lambda>h. snd (entry_delete_at (v_dev_model (db_env b)) p arg h)) b)
      in if f = 0 then b\<lparr>db_level := arg\<rparr> else if f = 1 then entry_set_state arg b
         else if f = 3 then del 0 else if f = 5 then del 1 else if f = 7 then del 2 else b)"

definition hnat_entry_write :: "dbg_env \<Rightarrow> string \<Rightarrow> debugfs \<Rightarrow> dbg_result" where
  "hnat_entry_write e buf b =
     (case short_input e 32 buf of
        Some err \<Rightarrow> Some (err, b)
      | None \<Rightarrow>
          let r = map_option (\<lambda>b'. (int (length buf), b'))
          in (case first_arg buf of
                (arg0, p) \<Rightarrow>
                  (case strsep blanks p of
                     (tok, p') \<Rightarrow>
                       if 0 \<le> arg0 \<and> arg0 \<le> 7 then r (Some (entry_set_func (nat arg0) (to_int (arg_of tok)) b))
                       else if arg0 = 8
                       then (case tok of
                               None \<Rightarrow> r (Some b)
                             | Some t \<Rightarrow>
                                 (case mac_memory e (length (until_nul buf) - length (the p)) t p' of
                                    None \<Rightarrow> None
                                  | Some str \<Rightarrow> r (delete_entry_by_mac str b)))
                       else if arg0 = 9 \<or> arg0 = 10
                       then (case tok of None \<Rightarrow> r (Some b) | Some t \<Rightarrow> r (delete_entry_by_ip e (arg0 = 9) t b))
                       else r (Some b))))"

section \<open>The file \<open>hnat_setting\<close>\<close>

definition all_engines :: "reg_op list \<Rightarrow> mtk_hnat \<Rightarrow> mtk_hnat" where
  "all_engines ops h = fold (run_ops ops) [0 ..< h_ppe_num h] h"

text \<open>An \<open>int\<close> stored in the driver's state is cut to the width of the member; the register gets all of
  it.\<close>

definition binding_threshold :: "int \<Rightarrow> mtk_hnat \<Rightarrow> mtk_hnat" where
  "binding_threshold x h = all_engines [Writel (word_of_int x) PPE_BNDR] (h\<lparr>h_bind_threshold := word_of_int x\<rparr>)"

definition tcp_bind_lifetime :: "int \<Rightarrow> mtk_hnat \<Rightarrow> mtk_hnat" where
  "tcp_bind_lifetime x h =
     all_engines [Set_field PPE_BND_AGE_1 TCP_DLTA (word_of_int x)] (h\<lparr>h_tcp_dlta := word_of_int x\<rparr>)"

definition fin_bind_lifetime :: "int \<Rightarrow> mtk_hnat \<Rightarrow> mtk_hnat" where
  "fin_bind_lifetime x h =
     all_engines [Set_field PPE_BND_AGE_1 FIN_DLTA (word_of_int x)] (h\<lparr>h_fin_dlta := word_of_int x\<rparr>)"

definition udp_bind_lifetime :: "int \<Rightarrow> mtk_hnat \<Rightarrow> mtk_hnat" where
  "udp_bind_lifetime x h =
     all_engines [Set_field PPE_BND_AGE_0 UDP_DLTA (word_of_int x)] (h\<lparr>h_udp_dlta := word_of_int x\<rparr>)"

definition tcp_keep_alive :: "int \<Rightarrow> mtk_hnat \<Rightarrow> mtk_hnat" where
  "tcp_keep_alive x0 h =
     (let x = (if x0 > 255 then 255 else x0)
      in all_engines [Set_field PPE_KA TCP_KA (word_of_int x)] (h\<lparr>h_tcp_ka := word_of_int x\<rparr>))"

definition udp_keep_alive :: "int \<Rightarrow> mtk_hnat \<Rightarrow> mtk_hnat" where
  "udp_keep_alive x0 h =
     (let x = (if x0 > 255 then 255 else x0)
      in all_engines [Set_field PPE_KA UDP_KA (word_of_int x)] (h\<lparr>h_udp_ka := word_of_int x\<rparr>))"

text \<open>Any number but 0 turns the update on, an invalid one too.\<close>

definition set_nf_update_toggle :: "int \<Rightarrow> debugfs \<Rightarrow> debugfs" where
  "set_nf_update_toggle x = on_env (\<lambda>v. v\<lparr>v_nf_stat := (x \<noteq> 0)\<rparr>)"

definition HASH_DBG :: u32 where "HASH_DBG = push_bit 21 0x3"

definition fwd_all :: "bool \<Rightarrow> mtk_hnat \<Rightarrow> mtk_hnat" where
  "fwd_all en h =
     set_gmac_ppe_fwd NR_GMAC3_PORT en (set_gmac_ppe_fwd NR_GMAC2_PORT en (set_gmac_ppe_fwd NR_GMAC1_PORT en h))"

text \<open>One engine: the mode, and its table and counters cleared.\<close>

definition hash_mode_engine :: "int \<Rightarrow> nat \<Rightarrow> nf_state \<Rightarrow> nf_state" where
  "hash_mode_engine mode p s =
     (let n = h_etry_num (nf_core s);
          s1 = upd_core (\<lambda>h. let h1 = clear_table p (run_ops [Set_field PPE_TB_CFG HASH_DBG (word_of_int mode)] p h)
                             in if h_version h1 = Hnat_State.MTK_HNAT_V1_1 then exclude_boundary_entry p h1 else h1) s
      in if h_per_flow_accounting (nf_core s1)
         then s1\<lparr>nf_acct := (nf_acct s1)(p := (\<lambda>i. if i < n then zero_acct else nf_acct s1 p i))\<rparr> else s1)"

definition set_hash_simple_mode :: "int \<Rightarrow> debugfs \<Rightarrow> int \<times> debugfs" where
  "set_hash_simple_mode mode b =
     (if mode < 0 \<or> mode > 6 then (- EINVAL, b)
      else (0, on_db_nf (\<lambda>s.
             upd_core (\<lambda>h. fwd_all True (hnat_cache_ebl (v_dev_model (db_env b)) True h))
               (fold (hash_mode_engine mode) [0 ..< h_ppe_num (nf_core s)] (upd_core (fwd_all False) s))) b))"

text \<open>\<open>PSE_ADMA_PORT\<close> is 0, as the usage of the file says.\<close>

definition set_default_cpu_port :: "int \<Rightarrow> mtk_hnat \<Rightarrow> int \<times> mtk_hnat" where
  "set_default_cpu_port port h =
     (if port \<noteq> 0 \<and> \<not> (h_version h = Hnat_State.MTK_HNAT_V3 \<and> port = uint PSE_TDMA_PORT) then (- EINVAL, h)
      else (0, fold hnat_hw_set_dft_cport [0 ..< h_ppe_num h] (h\<lparr>h_dft_cport := word_of_int port\<rparr>)))"

definition cr_set_func :: "nat \<Rightarrow> int \<Rightarrow> debugfs \<Rightarrow> debugfs" where
  "cr_set_func f arg b =
     (if f = 0 \<or> f = 9 then b\<lparr>db_level := arg\<rparr>
      else if f = 1 then on_db_core (binding_threshold arg) b
      else if f = 2 then on_db_core (tcp_bind_lifetime arg) b
      else if f = 3 then on_db_core (fin_bind_lifetime arg) b
      else if f = 4 then on_db_core (udp_bind_lifetime arg) b
      else if f = 5 then on_db_core (tcp_keep_alive arg) b
      else if f = 6 then on_db_core (udp_keep_alive arg) b
      else if f = 7 then set_nf_update_toggle arg b
      else if f = 8 then snd (set_hash_simple_mode arg b)
      else if f = 10 then on_db_core (\<lambda>h. snd (set_default_cpu_port arg h)) b
      else b)"

definition hnat_setting_write :: "dbg_env \<Rightarrow> string \<Rightarrow> debugfs \<Rightarrow> int \<times> debugfs" where
  "hnat_setting_write e buf b =
     (case short_input e 32 buf of
        Some err \<Rightarrow> (err, b)
      | None \<Rightarrow>
          (case first_arg buf of
             (arg0, p) \<Rightarrow>
               (int (length buf),
                if 0 \<le> arg0 \<and> arg0 \<le> 10
                then cr_set_func (nat arg0) (to_int (arg_of (fst (strsep blanks p)))) b
                else cr_set_func 0 0 b)))"

section \<open>Devices\<close>

text \<open>The name is at most 15 characters and ends at a line feed, a return or a blank; the device found
  is held.\<close>

definition hnat_ppd_if_write :: "dbg_env \<Rightarrow> string \<Rightarrow> debugfs \<Rightarrow> int \<times> debugfs" where
  "hnat_ppd_if_write e buf b =
     (if length buf \<ge> 16 \<or> \<not> de_copy_ok e then (- EFAULT, b)
      else let name = the (fst (strsep [CHR 0x0A, CHR 0x0D, CHR '' ''] (Some (until_nul buf))))
           in (int (length buf),
               case v_by_name (db_env b) name of
                 None \<Rightarrow> b
               | Some d \<Rightarrow>
                   on_env (\<lambda>v. v\<lparr>v_ppd := name\<rparr>)
                     (on_sys (on_ext (\<lambda>x0.
                        let x = dev_hold d x0
                        in (case g_ppdev x of None \<Rightarrow> x | Some d' \<Rightarrow> dev_put d' x)\<lparr>g_ppdev := Some d\<rparr>)) b)))"

text \<open>The reference of the look-up is given back at the end.\<close>

definition hnat_whnat_write :: "dbg_env \<Rightarrow> string \<Rightarrow> debugfs \<Rightarrow> int \<times> debugfs" where
  "hnat_whnat_write e buf b =
     (if length buf \<ge> 64 then (- EINVAL, b)
      else if \<not> de_copy_ok e then (- EFAULT, b)
      else (case sscanf buf ''%15s %1d'' of
              [V_str name, V_int enable] \<Rightarrow>
                (int (length buf),
                 case v_by_name (db_env b) name of
                   None \<Rightarrow> b
                 | Some d \<Rightarrow>
                     on_sys (on_ext (dev_put d))
                       (on_db_nf (if enable \<noteq> 0 then mtk_ppe_dev_register_hook (db_env b) (de_ext_new e) d
                                  else mtk_ppe_dev_unregister_hook d)
                         (on_sys (on_ext (dev_hold d)) b)))
            | _ \<Rightarrow> (- EFAULT, b)))"

section \<open>The multicast mode\<close>

text \<open>\<open>buf\<close> is terminated, so that an empty input has a null character first.\<close>

definition char0 :: "string \<Rightarrow> char" where
  "char0 s = (case s of c # _ \<Rightarrow> c | [] \<Rightarrow> CHR 0x00)"

definition mcast_table_write :: "dbg_env \<Rightarrow> string \<Rightarrow> debugfs \<Rightarrow> dbg_result" where
  "mcast_table_write e buf b =
     (case short_input e 32 buf of
        Some err \<Rightarrow> Some (err, b)
      | None \<Rightarrow>
          map_option (\<lambda>b'. (int (length buf), b'))
            (if char0 buf = CHR ''0'' \<or> char0 buf = CHR ''1''
             then let mode = (if char0 buf = CHR ''1'' then 1 else 0)
                  in if db_mcast_mode b \<noteq> mode
                     then map_option (\<lambda>b'. b'\<lparr>db_mcast_mode := mode\<rparr>) (clear_all_db b) else Some b
             else Some b))"

end
