(* ===== verification/Hnat_Toggle.thy ===== *)
theory Hnat_Toggle
  imports Hnat_Debug
begin

text \<open>
  Debug commands of \<^verbatim>\<open>hnat_debugfs.c\<close>, second part: the switches of the driver, the table of
  464XLAT and the blacklist of multicast addresses.
\<close>

section \<open>Switches\<close>

definition BIT_IPV4_DSL_EN :: u32 where "BIT_IPV4_DSL_EN = BIT 14"
definition BIT_IPV6_464XLAT_EN :: u32 where "BIT_IPV6_464XLAT_EN = BIT 11"
definition BIT_L2_BRG_EN :: u32 where "BIT_L2_BRG_EN = BIT 15"
definition BIT_L2_LRN_EN :: u32 where "BIT_L2_LRN_EN = BIT 31"
definition DSCP_TRFC_ECN_EN :: u32 where "DSCP_TRFC_ECN_EN = push_bit 25 0x1"

definition flow_cfg_bit :: "u32 \<Rightarrow> bool \<Rightarrow> reg_op list" where
  "flow_cfg_bit bs on = [if on then Set_bits PPE_FLOW_CFG bs else Clr_bits PPE_FLOW_CFG bs]"

text \<open>Only the first character is read.  DS-Lite is on when MAP-E is off.\<close>

definition hnat_mape_toggle_write :: "dbg_env \<Rightarrow> string \<Rightarrow> debugfs \<Rightarrow> int \<times> debugfs" where
  "hnat_mape_toggle_write e buf b =
     (if buf = [] \<or> \<not> de_copy_ok e then (- EFAULT, b)
      else if hd buf \<noteq> CHR ''1'' \<and> hd buf \<noteq> CHR ''0'' then (- EFAULT, b)
      else let on = (hd buf = CHR ''1'')
           in (int (length buf),
               on_db_core (all_engines (flow_cfg_bit BIT_IPV4_DSL_EN (\<not> on))) (on_env (\<lambda>v. v\<lparr>v_mape := on\<rparr>) b)))"

text \<open>At most 8 characters.\<close>

definition bad_toggle :: "dbg_env \<Rightarrow> string \<Rightarrow> bool" where
  "bad_toggle e buf = (length buf > 8 \<or> \<not> de_copy_ok e)"

definition hnat_hook_toggle_write :: "dbg_env \<Rightarrow> string \<Rightarrow> debugfs \<Rightarrow> dbg_result" where
  "hnat_hook_toggle_write e buf b =
     (let on = hk_toggle (hs_hooks (db_sys b))
      in if bad_toggle e buf then Some (- EFAULT, b)
         else map_option (\<lambda>y. (int (length buf), b\<lparr>db_sys := y\<rparr>))
                (if char0 buf = CHR ''1'' \<and> \<not> on then Some (snd (hnat_enable_hook (db_env b) (de_nf_ok e) (db_sys b)))
                 else if char0 buf = CHR ''0'' \<and> on then hnat_disable_hook (db_env b) (db_sys b)
                 else Some (db_sys b)))"

definition hnat_mcast_hook_toggle_write :: "dbg_env \<Rightarrow> string \<Rightarrow> debugfs \<Rightarrow> int \<times> debugfs" where
  "hnat_mcast_hook_toggle_write e buf b =
     (let on = mcast_hook_toggle (nf_mc (hs_nf (db_sys b)));
          set = (\<lambda>x. on_db_nf (on_mc (snd \<circ> hnat_mcast_offload_handle (v_mc (db_env b)) x)) b)
      in if bad_toggle e buf then (- EFAULT, b)
         else (int (length buf),
               if char0 buf = CHR ''1'' \<and> \<not> on then set True
               else if char0 buf = CHR ''0'' \<and> on then set False
               else b))"

definition hnat_tnl_toggle_write :: "dbg_env \<Rightarrow> string \<Rightarrow> debugfs \<Rightarrow> int \<times> debugfs" where
  "hnat_tnl_toggle_write e buf b =
     (if bad_toggle e buf then (- EFAULT, b)
      else (int (length buf),
            if char0 buf = CHR ''1'' \<and> \<not> v_tnl (db_env b) then on_env (\<lambda>v. v\<lparr>v_tnl := True\<rparr>) b
            else if char0 buf = CHR ''0'' \<and> v_tnl (db_env b) then on_env (\<lambda>v. v\<lparr>v_tnl := False\<rparr>) b
            else b))"

text \<open>The switch is one variable, which the model of the registers and the one of the hooks both read.  The
  registers are written whatever the input is.\<close>

definition hnat_l4s_toggle_write :: "dbg_env \<Rightarrow> string \<Rightarrow> debugfs \<Rightarrow> int \<times> debugfs" where
  "hnat_l4s_toggle_write e buf b =
     (if bad_toggle e buf then (- EFAULT, b)
      else let on = (if char0 buf = CHR ''1'' then True else if char0 buf = CHR ''0'' then False else v_l4s (db_env b))
           in (int (length buf),
               on_db_core (\<lambda>h. fwd_all True
                             (all_engines [Set_field PPE_TB_CFG DSCP_TRFC_ECN_EN (if on then 1 else 0)] (h\<lparr>h_l4s := on\<rparr>)))
                 (on_env (\<lambda>v. v\<lparr>v_l4s := on\<rparr>) b)))"

definition hnat_xlat_toggle_write :: "dbg_env \<Rightarrow> string \<Rightarrow> debugfs \<Rightarrow> int \<times> debugfs" where
  "hnat_xlat_toggle_write e buf b =
     (if bad_toggle e buf then (- EFAULT, b)
      else let on = (if char0 buf = CHR ''1'' then True else if char0 buf = CHR ''0'' then False else v_xlat (db_env b))
           in (int (length buf),
               on_db_core (all_engines (flow_cfg_bit BIT_IPV6_464XLAT_EN on)) (on_env (\<lambda>v. v\<lparr>v_xlat := on\<rparr>) b)))"

definition hnat_l2br_toggle_write :: "dbg_env \<Rightarrow> string \<Rightarrow> debugfs \<Rightarrow> int \<times> debugfs" where
  "hnat_l2br_toggle_write e buf b =
     (if length buf \<ge> 32 \<or> \<not> de_copy_ok e then (- EFAULT, b)
      else let set = (\<lambda>m bs. on_db_core (all_engines [Clr_bits PPE_FLOW_CFG (BIT_L2_BRG_EN OR BIT_L2_LRN_EN),
                                                      Set_bits PPE_FLOW_CFG bs])
                               (on_env (\<lambda>v. v\<lparr>v_l2br := m\<rparr>) (b\<lparr>db_l2br := m\<rparr>)))
           in (int (length buf),
               if char0 buf = CHR ''0'' then set 0 0
               else if char0 buf = CHR ''1'' then set 1 (BIT_L2_BRG_EN OR BIT_L2_LRN_EN)
               else if char0 buf = CHR ''2'' then set 2 BIT_L2_BRG_EN
               else b))"

section \<open>Quality of service\<close>

text \<open>The second word is copied to \<open>tmp\<close> without its null character; one is stored at the length of the
  input, and what lies between is what \<open>tmp\<close> held before.\<close>

definition qos_word :: "dbg_env \<Rightarrow> nat \<Rightarrow> string \<Rightarrow> string" where
  "qos_word e len p = until_nul (take len (p @ drop (length p) (de_junk e)))"

definition set_qos :: "int \<Rightarrow> bool \<Rightarrow> bool \<Rightarrow> debugfs \<Rightarrow> debugfs" where
  "set_qos mode dl ul = on_env (\<lambda>v. v\<lparr>v_qos := mode, v_qos_dl := dl, v_qos_ul := ul\<rparr>)"

definition hnat_qos_toggle_write :: "dbg_env \<Rightarrow> string \<Rightarrow> debugfs \<Rightarrow> int \<times> debugfs" where
  "hnat_qos_toggle_write e buf b =
     (if length buf \<ge> 32 \<or> \<not> de_copy_ok e then (- EFAULT, b)
      else (int (length buf),
            if char0 buf = CHR ''0'' then set_qos 0 False False b
            else if char0 buf = CHR ''1''
            then (case snd (strsep blanks (Some (until_nul buf))) of
                    None \<Rightarrow> set_qos 1 True True b
                  | Some p \<Rightarrow>
                      let w = qos_word e (length buf) p
                      in if take 6 w = ''uplink'' then set_qos 1 False True b
                         else if take 8 w = ''downlink'' then set_qos 1 True False b
                         else b)
            else if char0 buf = CHR ''2'' then set_qos 2 True True b
            else b))"

section \<open>The table of 464XLAT\<close>

text \<open>A buffer of 256 zero characters, all of which the input may take; then what follows it on the stack is
  read.\<close>

definition c_input :: "dbg_env \<Rightarrow> string \<Rightarrow> string" where
  "c_input e buf = until_nul (if length buf < 256 then buf else buf @ de_junk e)"

definition xlat_add :: "be32 \<Rightarrow> be32 list \<Rightarrow> debugfs \<Rightarrow> int option \<times> debugfs" where
  "xlat_add a a6 b =
     (if list_ex (\<lambda>m. a6 = snd m \<and> a = fst m) (v_xlat_map (db_env b)) then (Some (- 1), b)
      else (None, on_env (\<lambda>v. v\<lparr>v_xlat_map := (a, a6) # v_xlat_map v\<rparr>) b))"

fun del_first :: "('a \<Rightarrow> bool) \<Rightarrow> 'a list \<Rightarrow> 'a list" where
  "del_first P [] = []"
| "del_first P (x # xs) = (if P x then xs else x # del_first P xs)"

definition xlat_del :: "be32 \<Rightarrow> be32 list \<Rightarrow> debugfs \<Rightarrow> debugfs" where
  "xlat_del a a6 = on_env (\<lambda>v. v\<lparr>v_xlat_map := del_first (\<lambda>m. a6 = snd m \<and> a = fst m) (v_xlat_map v)\<rparr>)"

text \<open>An address that does not parse leaves the variable as it is.\<close>

definition in4_or :: "dbg_env \<Rightarrow> string \<Rightarrow> be32" where
  "in4_or e s = (case de_in4 e s of None \<Rightarrow> de_junk4 e | Some a \<Rightarrow> a)"

definition in6_or :: "be32 list \<Rightarrow> dbg_env \<Rightarrow> string \<Rightarrow> be32 list" where
  "in6_or old e s = (case de_in6 e s of None \<Rightarrow> old | Some a \<Rightarrow> a)"

definition hnat_xlat_cfg_write :: "dbg_env \<Rightarrow> string \<Rightarrow> debugfs \<Rightarrow> int \<times> debugfs" where
  "hnat_xlat_cfg_write e buf b =
     (if length buf > 256 \<or> \<not> de_copy_ok e then (- EFAULT, b)
      else let s = c_input e buf; ok = int (length buf)
           in if take 6 s = ''prefix''
              then (case sscanf s (''prefix %64s'' @ [CHR 0x0A]) of
                      [V_str p] \<Rightarrow> (ok, on_env (\<lambda>v. v\<lparr>v_xlat_prefix := in6_or (v_xlat_prefix v) e p\<rparr>) b)
                    | _ \<Rightarrow> (- 1, b))
              else if take 7 s = ''pfx_len''
              then (case sscanf s ''pfx_len %3d'' of [V_int n] \<Rightarrow> (ok, b\<lparr>db_pfx_len := n\<rparr>) | _ \<Rightarrow> (- 1, b))
              else if take 7 s = ''map add''
              then (case sscanf s (''map add %64s %64s'' @ [CHR 0x0A]) of
                      [V_str p, V_str q] \<Rightarrow>
                        if \<not> de_mem e then (- 1, b)
                        else (case xlat_add (in4_or e p) (in6_or (de_junk6 e) e q) b of
                                (Some err, b') \<Rightarrow> (err, b') | (None, b') \<Rightarrow> (ok, b'))
                    | _ \<Rightarrow> (- 1, b))
              else if take 7 s = ''map del''
              then (case sscanf s (''map del %64s %64s'' @ [CHR 0x0A]) of
                      [V_str p, V_str q] \<Rightarrow> (ok, xlat_del (in4_or e p) (in6_or (de_junk6 e) e q) b)
                    | _ \<Rightarrow> (- 1, b))
              else if take 4 s = ''show'' then (ok, b)
              else (- 1, b))"

section \<open>The multicast blacklist\<close>

definition on_blist :: "(mcast_blist_data list \<Rightarrow> mcast_blist_data list) \<Rightarrow> debugfs \<Rightarrow> debugfs" where
  "on_blist f = on_db_nf (\<lambda>s. s\<lparr>nf_mc := (nf_mc s)\<lparr>mcast_blist_list := f (mcast_blist_list (nf_mc s))\<rparr>\<rparr>)"

definition db_blist :: "debugfs \<Rightarrow> mcast_blist_data list" where
  "db_blist b = mcast_blist_list (nf_mc (hs_nf (db_sys b)))"

text \<open>The entry is allocated with zero bytes and its mask is not set; an entry of the other family has a zero
  address of this one.\<close>

definition blist_entry4 :: "be32 \<Rightarrow> mcast_blist_data" where
  "blist_entry4 a = \<lparr>bl_ipv6 = [0, 0, 0, 0], bl_is_ipv4 = True, bl_ipv4 = a, bl_mask = 0\<rparr>"

definition blist_entry6 :: "be32 list \<Rightarrow> mcast_blist_data" where
  "blist_entry6 a = \<lparr>bl_ipv6 = a, bl_is_ipv4 = False, bl_ipv4 = 0, bl_mask = 0\<rparr>"

definition blist_add ::
  "dbg_env \<Rightarrow> int \<Rightarrow> (mcast_blist_data \<Rightarrow> bool) \<Rightarrow> mcast_blist_data \<Rightarrow> debugfs \<Rightarrow> int \<times> debugfs" where
  "blist_add e len same x b =
     (if list_ex same (db_blist b) then (len, b)
      else if \<not> de_mem e then (- ENOMEM, b)
      else (len, on_blist (\<lambda>l. x # l) b))"

definition hnat_mcast_blist_write :: "dbg_env \<Rightarrow> string \<Rightarrow> debugfs \<Rightarrow> int \<times> debugfs" where
  "hnat_mcast_blist_write e buf b =
     (if pmcast (nf_mc (hs_nf (db_sys b))) = None then (- 1, b)
      else if length buf > 256 \<or> \<not> de_copy_ok e then (- EFAULT, b)
      else let s = c_input e buf; ok = int (length buf)
           in if take 8 s = ''ipv4 add''
              then (case sscanf s (''ipv4 add %64s'' @ [CHR 0x0A]) of
                      [V_str p] \<Rightarrow> let a = in4_or e p in blist_add e ok (\<lambda>m. bl_ipv4 m = a) (blist_entry4 a) b
                    | _ \<Rightarrow> (- 1, b))
              else if take 8 s = ''ipv6 add''
              then (case sscanf s (''ipv6 add %64s'' @ [CHR 0x0A]) of
                      [V_str p] \<Rightarrow> let a = in6_or (de_junk6 e) e p in blist_add e ok (\<lambda>m. bl_ipv6 m = a) (blist_entry6 a) b
                    | _ \<Rightarrow> (- 1, b))
              else if take 8 s = ''ipv4 del''
              then (case sscanf s (''ipv4 del %64s'' @ [CHR 0x0A]) of
                      [V_str p] \<Rightarrow> (ok, on_blist (del_first (\<lambda>m. in4_or e p = bl_ipv4 m)) b)
                    | _ \<Rightarrow> (- 1, b))
              else if take 8 s = ''ipv6 del''
              then (case sscanf s (''ipv6 del %64s'' @ [CHR 0x0A]) of
                      [V_str p] \<Rightarrow> (ok, on_blist (del_first (\<lambda>m. in6_or (de_junk6 e) e p = bl_ipv6 m)) b)
                    | _ \<Rightarrow> (- 1, b))
              else (- 1, b))"

end
