(* ===== verification/Hnat_Static.thy ===== *)
theory Hnat_Static
  imports Hnat_Toggle
begin

text \<open>
  The debug file \<open>static_entry\<close> of \<^verbatim>\<open>hnat_debugfs.c\<close>, in the build for NETSYS V3: a line of numbers and
  addresses becomes a flow entry, which is stored at the index given or at its hash.
\<close>

section \<open>The line\<close>

definition STATIC_FMT_IPV4 :: string where
  "STATIC_FMT_IPV4 = ''%5d %8x %8x %8x %4hx %4hx %8x %8x %8x %4hx %4hx %18s %18s %4x %4x %4x''"

definition STATIC_FMT_IPV6 :: string where
  "STATIC_FMT_IPV6 = ''%5d %8x %8x%8x%8x%8x %8x%8x%8x%8x %4hx %4hx %8x %18s %18s %4x %4x %4x''"

definition STATIC_FMT_L2 :: string where
  "STATIC_FMT_L2 = ''%5d %8x %18s %18s %4hx %4hx %4hx %8x %18s %18s %4hx %4hx''"

text \<open>The indices of the three tables of the chip must fit their members.\<close>

definition ids_fit :: "u32 \<Rightarrow> u32 \<Rightarrow> u32 \<Rightarrow> bool" where
  "ids_fit tport tops cdrt = (tport AND 0xf = tport \<and> tops AND 0x3f = tops \<and> cdrt AND 0xff = cdrt)"

definition hash_ok :: "int \<Rightarrow> mtk_hnat \<Rightarrow> bool" where
  "hash_ok hash h = (hash < int (h_etry_num h) \<and> hash \<ge> - 1)"

text \<open>The 17 characters of an address; behind a shorter one is what the buffer held before.\<close>

definition static_mac :: "dbg_env \<Rightarrow> string \<Rightarrow> u8 list" where
  "static_mac e str = hnat_parse_mac (str @ CHR 0x00 # de_junk e)"

definition static_ids :: "layout \<Rightarrow> u32 \<Rightarrow> u32 \<Rightarrow> u32 \<Rightarrow> (field \<times> u32) list" where
  "static_ids l tport tops cdrt = [(in_view l ''tport_id'', tport), (in_view l ''tops_entry'', tops), (in_view l ''cdrt_id'', cdrt)]"

definition static_ipv4 :: "dbg_env \<Rightarrow> mtk_hnat \<Rightarrow> u32 \<Rightarrow> scan_val list \<Rightarrow> (int \<times> foe_words) option" where
  "static_ipv4 e h ib1 vals =
     (let l = hnat_ipv4_hnapt in
      case vals of
        [V_int hash, V_word _, V_word sip, V_word dip, V_word sp, V_word dp, V_word ib2, V_word nsip, V_word ndip,
         V_word nsp, V_word ndp, V_str dmac, V_str smac, V_word tport, V_word tops, V_word cdrt] \<Rightarrow>
          if hash_ok hash h \<and> ids_fit tport tops cdrt
          then Some (hash,
                 asg ([(in_view l ''sip'', sip), (in_view l ''dip'', dip), (in_view l ''sport'', sp), (in_view l ''dport'', dp),
                       (in_view l ''info_blk2'', ib2), (in_view l ''new_sip'', nsip), (in_view l ''new_dip'', ndip),
                       (in_view l ''new_sport'', nsp), (in_view l ''new_dport'', ndp)]
                      @ static_ids l tport tops cdrt @ fill_macs l (static_mac e dmac) (static_mac e smac))
                   (zero_words(0 := ib1)))
          else None
      | _ \<Rightarrow> None)"

definition static_ipv6 :: "dbg_env \<Rightarrow> mtk_hnat \<Rightarrow> u32 \<Rightarrow> scan_val list \<Rightarrow> (int \<times> foe_words) option" where
  "static_ipv6 e h ib1 vals =
     (let l = hnat_ipv6_5t_route in
      case vals of
        [V_int hash, V_word _, V_word s0, V_word s1, V_word s2, V_word s3, V_word d0, V_word d1, V_word d2, V_word d3,
         V_word sp, V_word dp, V_word ib2, V_str dmac, V_str smac, V_word tport, V_word tops, V_word cdrt] \<Rightarrow>
          if hash_ok hash h \<and> ids_fit tport tops cdrt
          then Some (hash,
                 asg ([(in_view l ''ipv6_sip0'', s0), (in_view l ''ipv6_sip1'', s1), (in_view l ''ipv6_sip2'', s2),
                       (in_view l ''ipv6_sip3'', s3), (in_view l ''ipv6_dip0'', d0), (in_view l ''ipv6_dip1'', d1),
                       (in_view l ''ipv6_dip2'', d2), (in_view l ''ipv6_dip3'', d3), (in_view l ''sport'', sp),
                       (in_view l ''dport'', dp), (in_view l ''info_blk2'', ib2)]
                      @ static_ids l tport tops cdrt @ fill_macs l (static_mac e dmac) (static_mac e smac))
                   (zero_words(0 := ib1)))
          else None
      | _ \<Rightarrow> None)"

definition static_l2 :: "dbg_env \<Rightarrow> mtk_hnat \<Rightarrow> u32 \<Rightarrow> scan_val list \<Rightarrow> (int \<times> foe_words) option" where
  "static_l2 e h ib1 vals =
     (let l = hnat_l2_bridge in
      case vals of
        [V_int hash, V_word _, V_str dmac, V_str smac, V_word etype, V_word vlan1, V_word vlan2, V_word ib2, V_str ndmac,
         V_str nsmac, V_word nvlan1, V_word nvlan2] \<Rightarrow>
          if hash_ok hash h
          then Some (hash,
                 asg ([(in_view l ''etype'', etype), (in_view l ''vlan1'', vlan1), (in_view l ''vlan2'', vlan2),
                       (in_view l ''info_blk2'', ib2), (in_view l ''new_vlan1'', nvlan1), (in_view l ''new_vlan2'', nvlan2),
                       (in_view l ''hph'', 0xa5a5)]
                      @ fill_macs l (static_mac e dmac) (static_mac e smac)
                      @ [(in_view l ''new_dmac_hi'', mac_hi (static_mac e ndmac)), (in_view l ''new_dmac_lo'', mac_lo (static_mac e ndmac)),
                         (in_view l ''new_smac_hi'', mac_hi (static_mac e nsmac)), (in_view l ''new_smac_lo'', mac_lo (static_mac e nsmac))])
                   (zero_words(0 := ib1)))
          else None
      | _ \<Rightarrow> None)"

text \<open>The first scan gives the information block, whose packet type selects the format of the second;
  \<open>None\<close> is a line that is refused.\<close>

definition static_parse :: "dbg_env \<Rightarrow> string \<Rightarrow> mtk_hnat \<Rightarrow> (int \<times> foe_words) option" where
  "static_parse e buf h =
     (case sscanf buf ''%5d %8x'' of
        [V_int _, V_word ib1] \<Rightarrow>
          let t = pkt_type (zero_words(0 := ib1)) in
          if t = IPV4_HNAPT then static_ipv4 e h ib1 (sscanf buf STATIC_FMT_IPV4)
          else if t = IPV6_5T_ROUTE then static_ipv6 e h ib1 (sscanf buf STATIC_FMT_IPV6)
          else if t = L2_BRIDGE then static_l2 e h ib1 (sscanf buf STATIC_FMT_L2)
          else None
      | _ \<Rightarrow> None)"

section \<open>The place\<close>

definition static_ppe :: "foe_words \<Rightarrow> mtk_hnat \<Rightarrow> nat" where
  "static_ppe x h =
     (if h_ppe_num h \<ge> 3 \<and> rd x (bfib1 ''sp'') = of_nat NR_GMAC3_PORT then 2
      else if h_ppe_num h \<ge> 2 \<and> rd x (bfib1 ''sp'') = of_nat NR_GMAC2_PORT then 1 else 0)"

text \<open>From the index on, past at most \<open>n\<close> bound entries; \<open>None\<close> is a read beyond the table.\<close>

fun static_probe :: "nat \<Rightarrow> (nat \<Rightarrow> foe_words) \<Rightarrow> nat \<Rightarrow> nat \<Rightarrow> nat option" where
  "static_probe len tab 0 i = (if i < len then Some i else None)"
| "static_probe len tab (Suc n) i =
     (if i \<ge> len then None
      else if entry_hnat_is_bound (tab i) then static_probe len tab n (i + 1) else Some i)"

definition hnat_static_entry_write :: "dbg_env \<Rightarrow> string \<Rightarrow> debugfs \<Rightarrow> dbg_result" where
  "hnat_static_entry_write e buf b =
     (let h = db_core b in
      if length buf \<ge> 256 \<or> \<not> de_copy_ok e then Some (- EFAULT, b)
      else (case static_parse e buf h of
              None \<Rightarrow> Some (- EFAULT, b)
            | Some (hash0, x) \<Rightarrow>
                let hash = (if hash0 = - 1 then uint (hnat_get_ppe_hash x h) else hash0);
                    p = static_ppe x h
                in (case h_table_len h p of
                      None \<Rightarrow> None
                    | Some len \<Rightarrow>
                        (case static_probe len (h_table h p) 4 (nat hash) of
                           None \<Rightarrow> None
                         | Some i \<Rightarrow>
                             Some (int (length buf),
                                   (on_db_core (on_entry p i (foe_copy x)) b)\<lparr>db_level := 7\<rparr>)))))"

end
