(* ===== verification/Hnat_Debug_Props.thy ===== *)
theory Hnat_Debug_Props
  imports Hnat_Static Hnat_Deletions Hnat_Notify_Props
begin

text \<open>
  Lemmas about the debug commands: which of them write the bits of the registers that follow the
  switches (\<open>keeps_sw\<close>), and what the settings write.
\<close>

section \<open>The bits that follow the switches\<close>

definition sw_fields :: "int field_of list" where
  "sw_fields = [Fld PPE_FLOW_CFG 14 1, Fld PPE_FLOW_CFG 11 1, Fld PPE_FLOW_CFG 15 1, Fld PPE_FLOW_CFG 31 1,
     Fld PPE_TB_CFG 25 1]"

definition sw :: "nat \<Rightarrow> mtk_hnat \<Rightarrow> u32 list" where
  "sw p h = map (rd (pr (h_ppe h p))) sw_fields"

definition keeps_sw :: "mtk_hnat \<Rightarrow> mtk_hnat \<Rightarrow> bool" where
  "keeps_sw h h' = (h_ppe_num h' = h_ppe_num h \<and> h_etry_num h' = h_etry_num h \<and> h_l4s h' = h_l4s h \<and> (\<forall>p. sw p h' = sw p h))"

lemma keeps_sw_refl [simp]: "keeps_sw h h"
  by (simp add: keeps_sw_def)

lemma keeps_sw_trans [trans]: "keeps_sw h h' \<Longrightarrow> keeps_sw h' h'' \<Longrightarrow> keeps_sw h h''"
  by (simp add: keeps_sw_def)

lemma keeps_sw_fold: "(\<And>x h. keeps_sw h (f x h)) \<Longrightarrow> keeps_sw h (fold f xs h)"
proof (induction xs arbitrary: h)
  case (Cons x xs)
  then show ?case using keeps_sw_trans by (metis fold_simps(2))
qed simp

lemma keeps_sw_same:
  "h_ppe_num h' = h_ppe_num h \<Longrightarrow> h_etry_num h' = h_etry_num h \<Longrightarrow> h_l4s h' = h_l4s h \<Longrightarrow> h_ppe h' = h_ppe h \<Longrightarrow> keeps_sw h h'"
  by (simp add: keeps_sw_def sw_def)

lemma keeps_sw_ppe:
  assumes "\<And>f. f \<in> set sw_fields \<Longrightarrow> rd (pr (g (h_ppe h p))) f = rd (pr (h_ppe h p)) f"
  shows "keeps_sw h (on_ppe p g h)"
  using assms by (simp add: keeps_sw_def sw_def on_ppe_def)

definition ops_keep_sw :: "reg_op list \<Rightarrow> bool" where
  "ops_keep_sw ops = list_all (\<lambda>f. list_all (op_keeps f) ops) sw_fields"

lemma keeps_run_ops: "ops_keep_sw ops \<Longrightarrow> keeps_sw h (run_ops ops p h)"
  unfolding run_ops_def
  by (rule keeps_sw_ppe) (auto simp: ops_keep_sw_def list_all_iff with_regs_def intro!: ops_keep_rd)

lemma keeps_all_engines: "ops_keep_sw ops \<Longrightarrow> keeps_sw h (all_engines ops h)"
  unfolding all_engines_def by (rule keeps_sw_fold) (rule keeps_run_ops)

lemma sw_words: "f \<in> set sw_fields \<Longrightarrow> fld_word f = PPE_FLOW_CFG \<or> fld_word f = PPE_TB_CFG"
  by (auto simp: sw_fields_def)

lemma keeps_sw_regs:
  assumes "pr (g (h_ppe h p)) PPE_FLOW_CFG = pr (h_ppe h p) PPE_FLOW_CFG"
    and "pr (g (h_ppe h p)) PPE_TB_CFG = pr (h_ppe h p) PPE_TB_CFG"
  shows "keeps_sw h (on_ppe p g h)"
  by (rule keeps_sw_ppe, rule rd_cong) (use assms in \<open>auto dest!: sw_words\<close>)

text \<open>Writes to other registers.\<close>

lemma ops_other [simp]:
  "reg \<noteq> PPE_FLOW_CFG \<Longrightarrow> reg \<noteq> PPE_TB_CFG \<Longrightarrow> op_keeps (Fld PPE_FLOW_CFG k 1) (Set_field reg m v)"
  "reg \<noteq> PPE_FLOW_CFG \<Longrightarrow> reg \<noteq> PPE_TB_CFG \<Longrightarrow> op_keeps (Fld PPE_TB_CFG k 1) (Set_field reg m v)"
  "reg \<noteq> PPE_FLOW_CFG \<Longrightarrow> reg \<noteq> PPE_TB_CFG \<Longrightarrow> op_keeps (Fld PPE_FLOW_CFG k 1) (Writel v reg)"
  "reg \<noteq> PPE_FLOW_CFG \<Longrightarrow> reg \<noteq> PPE_TB_CFG \<Longrightarrow> op_keeps (Fld PPE_TB_CFG k 1) (Writel v reg)"
  by (simp_all add: op_keeps.simps)

lemma keep_sw_Nil [simp]: "ops_keep_sw []"
  by (simp add: ops_keep_sw_def list_all_iff)

lemma keep_sw_Cons: "ops_keep_sw (op # ops) \<longleftrightarrow> list_all (\<lambda>f. op_keeps f op) sw_fields \<and> ops_keep_sw ops"
  by (auto simp: ops_keep_sw_def list_all_iff)

lemma keep_sw_other:
  assumes "reg \<noteq> PPE_FLOW_CFG" "reg \<noteq> PPE_TB_CFG"
  shows "list_all (\<lambda>f. op_keeps f (Set_field reg m v)) sw_fields" "list_all (\<lambda>f. op_keeps f (Writel v reg)) sw_fields"
  using assms by (simp_all add: sw_fields_def del: One_nat_def)

lemma keep_sw_blist:
  "list_all (\<lambda>f. op_keeps f (Set_field PPE_FLOW_CFG BIT_IP_PROT_CHK_BLIST 1)) sw_fields"
  "list_all (\<lambda>f. op_keeps f (Set_field PPE_FLOW_CFG BIT_IP_PROT_CHK_BLIST 0)) sw_fields"
  by code_simp+

lemma keep_sw_hash:
  "0 \<le> m \<Longrightarrow> m \<le> 6 \<Longrightarrow> list_all (\<lambda>f. op_keeps f (Set_field PPE_TB_CFG HASH_DBG (word_of_int m))) sw_fields"
proof -
  assume "0 \<le> m" "m \<le> 6"
  then have "m \<in> {0, 1, 2, 3, 4, 5, 6}" by auto
  moreover have "\<forall>m \<in> set [0, 1, 2, 3, 4, 5, 6 :: int].
      list_all (\<lambda>f. op_keeps f (Set_field PPE_TB_CFG HASH_DBG (word_of_int m))) sw_fields"
    by code_simp
  ultimately show ?thesis by auto
qed

section \<open>Functions of the driver\<close>

lemma set_gmac_ppe_fwd_keeps [simp]:
  "h_ppe (set_gmac_ppe_fwd port en h) = h_ppe h" "h_etry_num (set_gmac_ppe_fwd port en h) = h_etry_num h" "h_ppe_num (set_gmac_ppe_fwd port en h) = h_ppe_num h"
  "h_l4s (set_gmac_ppe_fwd port en h) = h_l4s h"
  by (simp_all add: set_gmac_ppe_fwd_def Let_def split: option.split)

lemma keeps_fwd_all: "keeps_sw h (fwd_all en h)"
  by (rule keeps_sw_same) (simp_all add: fwd_all_def)

lemma keeps_clear_table: "keeps_sw h (clear_table p h)"
  by (rule keeps_sw_same) (simp_all add: clear_table_def)

lemma keeps_on_entry: "keeps_sw h (on_entry p i f h)"
  by (rule keeps_sw_same) (simp_all add: on_entry_def)

lemma keeps_boundary: "keeps_sw h (exclude_boundary_entry p h)"
  unfolding exclude_boundary_entry_def by (rule keeps_sw_fold) (rule keeps_on_entry)

lemma keeps_cache_clr: "dev_ok d \<Longrightarrow> keeps_sw h (hnat_cache_clr d p h)"
  unfolding hnat_cache_clr_def by (auto intro!: keeps_sw_regs simp: flush_regs)

lemma keeps_cache_one:
  assumes "dev_ok d"
  shows "keeps_sw h (hnat_cache_ebl_one d p en h)"
proof -
  have set: "keeps_sw h (on_ppe p (set_field PPE_CAH_CTRL CAH_EN v) h)" for v h
    by (rule keeps_sw_regs) simp_all
  show ?thesis
    using set keeps_sw_trans [OF keeps_cache_clr [OF assms] set] by (simp add: hnat_cache_ebl_one_def)
qed

lemma keeps_cache_ebl: "dev_ok d \<Longrightarrow> keeps_sw h (hnat_cache_ebl d en h)"
  unfolding hnat_cache_ebl_def by (rule keeps_sw_fold) (rule keeps_cache_one)

lemma keeps_entry_delete_at: "dev_ok d \<Longrightarrow> keeps_sw h (snd (entry_delete_at d p i h))"
proof -
  assume d: "dev_ok d"
  have all: "keeps_sw h (fold (\<lambda>i. on_entry q i g) xs h)" for q g xs
    by (rule keeps_sw_fold) (rule keeps_on_entry)
  show ?thesis
    using keeps_sw_trans [OF all keeps_cache_clr [OF d]] keeps_sw_trans [OF keeps_on_entry keeps_cache_clr [OF d]]
    by (simp add: entry_delete_at_def Let_def)
qed

lemma keeps_dft_cport: "keeps_sw h (hnat_hw_set_dft_cport p h)"
proof -
  have other: "PPE_DFT_CPORT \<noteq> PPE_FLOW_CFG" "PPE_DFT_CPORT \<noteq> PPE_TB_CFG" "PPE_DFT_CPORT1 \<noteq> PPE_FLOW_CFG"
      "PPE_DFT_CPORT1 \<noteq> PPE_TB_CFG" by (simp_all add: ppe_reg_defs)
  show ?thesis
    by (auto simp: hnat_hw_set_dft_cport_def Let_def keep_sw_Cons keep_sw_other other intro!: keeps_run_ops)
qed

lemma keeps_prot_3t: "keeps_sw h (hnat_hw_set_prot_3t p h)"
proof -
  have other: "PPE_IP_PROT_CHK \<noteq> PPE_FLOW_CFG" "PPE_IP_PROT_CHK \<noteq> PPE_TB_CFG"
      "PPE_IP_PROT_0 \<noteq> PPE_FLOW_CFG" "PPE_IP_PROT_0 \<noteq> PPE_TB_CFG" "PPE_IP_PROT_1 \<noteq> PPE_FLOW_CFG" "PPE_IP_PROT_1 \<noteq> PPE_TB_CFG"
      "PPE_IP_PROT_2 \<noteq> PPE_FLOW_CFG" "PPE_IP_PROT_2 \<noteq> PPE_TB_CFG" "PPE_IP_PROT_3 \<noteq> PPE_FLOW_CFG" "PPE_IP_PROT_3 \<noteq> PPE_TB_CFG"
    by (simp_all add: ppe_reg_defs)
  show ?thesis
    by (auto simp: hnat_hw_set_prot_3t_def Let_def keep_sw_Cons keep_sw_other keep_sw_blist other intro!: keeps_run_ops)
qed

lemma keeps_set_cfgs: "keeps_sw h (set_cfgs a b f h)"
  unfolding set_cfgs_def
proof (rule keeps_sw_fold)
  fix i h
  have "keeps_sw h (h\<lparr>h_prot_3t := (h_prot_3t h)(i := f (h_prot_3t h i))\<rparr>)" by (rule keeps_sw_same) simp_all
  then show "keeps_sw h (hnat_hw_set_prot_3t i (h\<lparr>h_prot_3t := (h_prot_3t h)(i := f (h_prot_3t h i))\<rparr>))"
    using keeps_prot_3t keeps_sw_trans by blast
qed

lemma keeps_proto_3tuple: "keeps_sw h (snd (hnat_proto_3tuple_write buf h))"
  by (auto simp: hnat_proto_3tuple_write_def Let_def keeps_set_cfgs split: option.split prod.split)

text \<open>Deletions.\<close>

lemma keeps_swept:
  assumes "dev_ok d" and "\<And>q. pr (f q) PPE_FLOW_CFG = pr q PPE_FLOW_CFG"
    and "\<And>q g. g \<in> set sw_fields \<Longrightarrow> rd (pr (f q)) g = rd (pr q) g"
  shows "keeps_sw h (swept d f n cond m h)"
proof -
  have "rd (pr (cache_clr d t (f q))) g = rd (pr q) g" if g: "g \<in> set sw_fields" for q t g
  proof -
    have "fld_word g \<notin> cah_iface" using sw_words [OF g] by auto
    then have "pr (cache_clr d t (f q)) (fld_word g) = pr (f q) (fld_word g)" by (rule flush_regs [OF assms(1)])
    then show ?thesis using rd_cong assms(3) [OF g] by metis
  qed
  then show ?thesis using assms(3) by (simp add: keeps_sw_def sw_def swept_def)
qed

lemma keeps_clear_all:
  assumes "dev_ok d" "foe_clear_all_bind_entries d h = Some (c, h')" "h_etry_num h > 0"
  shows "keeps_sw h h'"
proof -
  have sma: "rd (pr (set_field PPE_TB_CFG SMA SMA_ONLY_FWD_CPU q)) g = rd (pr q) g" if "g \<in> set sw_fields" for q g
  proof -
    have "op_keeps g (Set_field PPE_TB_CFG SMA SMA_ONLY_FWD_CPU)" using that by (simp add: sw_fields_def) (safe; code_simp)
    then show ?thesis using op_keeps_rd by (fastforce simp: set_field_def with_regs_def)
  qed
  show ?thesis unfolding all_bound.resultD(1) [OF assms(2,3)]
    by (rule keeps_swept [OF assms(1)]) (simp_all add: sma)
qed

lemma DEF_pos: "DEF_ETRY_NUM > 0"
  by (simp add: DEF_ETRY_NUM_def)

lemma keeps_by_mac:
  assumes "dev_ok d" "entry_delete_by_mac d (Some m) h = Some (c, h')"
  shows "keeps_sw h h'"
  unfolding by_mac.resultD(1) [OF assms(2) DEF_pos] by (rule keeps_swept [OF assms(1)]) simp_all

lemma keeps_by_ip:
  assumes "dev_ok d" "entry_delete_by_ip d v4 (Some a) h = Some (c, h')"
  shows "keeps_sw h h'"
  unfolding by_ip.resultD(1) [OF assms(2) DEF_pos] by (rule keeps_swept [OF assms(1)]) simp_all

end
