(* ===== verification/Hnat_Debug_System.thy ===== *)
theory Hnat_Debug_System
  imports Hnat_Debug_Props
begin

text \<open>
  All debug commands as one step, any sequence of them, and the invariant that the registers of the
  engines follow the switches.
\<close>

section \<open>Commands\<close>

datatype dbg_file = F_cpu_reason | F_entry | F_setting | F_ppd_if | F_whnat | F_mcast_table | F_mape | F_hook
  | F_mcast_hook | F_tnl | F_l4s | F_xlat | F_l2br | F_qos | F_xlat_cfg | F_mcast_blist | F_static | F_proto_3tuple

fun dbg_write :: "dbg_file \<Rightarrow> dbg_env \<Rightarrow> string \<Rightarrow> debugfs \<Rightarrow> dbg_result" where
  "dbg_write F_cpu_reason e buf b = Some (cpu_reason_write e buf b)"
| "dbg_write F_entry e buf b = hnat_entry_write e buf b"
| "dbg_write F_setting e buf b = Some (hnat_setting_write e buf b)"
| "dbg_write F_ppd_if e buf b = Some (hnat_ppd_if_write e buf b)"
| "dbg_write F_whnat e buf b = Some (hnat_whnat_write e buf b)"
| "dbg_write F_mcast_table e buf b = mcast_table_write e buf b"
| "dbg_write F_mape e buf b = Some (hnat_mape_toggle_write e buf b)"
| "dbg_write F_hook e buf b = hnat_hook_toggle_write e buf b"
| "dbg_write F_mcast_hook e buf b = Some (hnat_mcast_hook_toggle_write e buf b)"
| "dbg_write F_tnl e buf b = Some (hnat_tnl_toggle_write e buf b)"
| "dbg_write F_l4s e buf b = Some (hnat_l4s_toggle_write e buf b)"
| "dbg_write F_xlat e buf b = Some (hnat_xlat_toggle_write e buf b)"
| "dbg_write F_l2br e buf b = Some (hnat_l2br_toggle_write e buf b)"
| "dbg_write F_qos e buf b = Some (hnat_qos_toggle_write e buf b)"
| "dbg_write F_xlat_cfg e buf b = Some (hnat_xlat_cfg_write e buf b)"
| "dbg_write F_mcast_blist e buf b = Some (hnat_mcast_blist_write e buf b)"
| "dbg_write F_static e buf b = hnat_static_entry_write e buf b"
| "dbg_write F_proto_3tuple e buf b =
     (if \<not> de_copy_ok e then Some (- EFAULT, b)
      else let (r, h) = hnat_proto_3tuple_write buf (db_core b) in Some (r, on_db_core (\<lambda>_. h) b))"

text \<open>A sequence of writes, as long as none is undefined.\<close>

fun dbg_run :: "(dbg_file \<times> dbg_env \<times> string) list \<Rightarrow> debugfs \<Rightarrow> debugfs option" where
  "dbg_run [] b = Some b"
| "dbg_run ((f, e, buf) # ws) b = (case dbg_write f e buf b of None \<Rightarrow> None | Some (_, b') \<Rightarrow> dbg_run ws b')"

section \<open>The invariant\<close>

definition engine_match :: "debugfs \<Rightarrow> regfile \<Rightarrow> bool" where
  "engine_match b r =
     ((r PPE_FLOW_CFG AND BIT_IPV4_DSL_EN \<noteq> 0) = (\<not> v_mape (db_env b)) \<and>
      (r PPE_FLOW_CFG AND BIT_IPV6_464XLAT_EN \<noteq> 0) = v_xlat (db_env b) \<and>
      (r PPE_FLOW_CFG AND BIT_L2_BRG_EN \<noteq> 0) = (v_l2br (db_env b) \<noteq> 0) \<and>
      (r PPE_FLOW_CFG AND BIT_L2_LRN_EN \<noteq> 0) = (db_l2br b = 1) \<and>
      (r PPE_TB_CFG AND DSCP_TRFC_ECN_EN \<noteq> 0) = v_l4s (db_env b))"

definition switches_match :: "debugfs \<Rightarrow> bool" where
  "switches_match b =
     (h_l4s (db_core b) = v_l4s (db_env b) \<and> v_l2br (db_env b) = db_l2br b \<and>
      (\<forall>p < h_ppe_num (db_core b). engine_match b (pr (h_ppe (db_core b) p))))"

section \<open>Bits\<close>

lemma and_bit: "(x AND push_bit n 1 \<noteq> 0) = (n < 32 \<and> bit x n)" for x :: u32
proof -
  have "x AND push_bit n 1 = (if n < 32 \<and> bit x n then push_bit n 1 else 0)"
    by (rule bit_word_eqI) (auto simp: bit_simps bit_1_iff dest: bit_imp_le_length)
  moreover have "n < 32 \<Longrightarrow> push_bit n (1 :: u32) \<noteq> 0"
    by (simp add: push_bit_eq_mult del: One_nat_def)
  ultimately show ?thesis by auto
qed

lemma rd_bit: "rd r (Fld reg k 1) = of_bool (bit (r reg) k)"
  by (simp add: rd.simps bit_iff_odd_drop_bit take_bit_Suc mod_2_eq_odd)

lemma engine_match_bits:
  "engine_match b r \<longleftrightarrow>
     bit (r PPE_FLOW_CFG) 14 = (\<not> v_mape (db_env b)) \<and> bit (r PPE_FLOW_CFG) 11 = v_xlat (db_env b) \<and>
     bit (r PPE_FLOW_CFG) 15 = (v_l2br (db_env b) \<noteq> 0) \<and> bit (r PPE_FLOW_CFG) 31 = (db_l2br b = 1) \<and>
     bit (r PPE_TB_CFG) 25 = v_l4s (db_env b)"
  unfolding engine_match_def BIT_IPV4_DSL_EN_def BIT_IPV6_464XLAT_EN_def BIT_L2_BRG_EN_def BIT_L2_LRN_EN_def
      DSCP_TRFC_ECN_EN_def BIT_def and_bit by (simp only: less_numeral_simps simp_thms) simp

lemma sw_bits:
  "sw p h = map of_bool [bit (pr (h_ppe h p) PPE_FLOW_CFG) 14, bit (pr (h_ppe h p) PPE_FLOW_CFG) 11,
     bit (pr (h_ppe h p) PPE_FLOW_CFG) 15, bit (pr (h_ppe h p) PPE_FLOW_CFG) 31, bit (pr (h_ppe h p) PPE_TB_CFG) 25]"
  by (simp add: sw_def sw_fields_def rd_bit del: One_nat_def)

section \<open>Commands that leave the switches alone\<close>

definition db_frame :: "debugfs \<Rightarrow> debugfs \<Rightarrow> bool" where
  "db_frame b b' =
     (keeps_sw (db_core b) (db_core b') \<and> v_mape (db_env b') = v_mape (db_env b) \<and> v_xlat (db_env b') = v_xlat (db_env b) \<and>
      v_l2br (db_env b') = v_l2br (db_env b) \<and> v_l4s (db_env b') = v_l4s (db_env b) \<and> db_l2br b' = db_l2br b \<and>
      v_dev_model (db_env b') = v_dev_model (db_env b))"

definition db_inv :: "debugfs \<Rightarrow> bool" where
  "db_inv b = (dev_ok (v_dev_model (db_env b)) \<and> h_etry_num (db_core b) > 0 \<and> switches_match b)"

lemma db_frame_refl [simp]: "db_frame b b"
  by (simp add: db_frame_def)

lemma frame_inv:
  assumes f: "db_frame b b'" and i: "db_inv b"
  shows "db_inv b'"
proof -
  have "engine_match b' (pr (h_ppe (db_core b') p)) = engine_match b (pr (h_ppe (db_core b) p))" for p
  proof -
    have "sw p (db_core b') = sw p (db_core b)" using f by (simp add: db_frame_def keeps_sw_def)
    then show ?thesis using f unfolding sw_bits list.map list.inject of_bool_eq_iff
      by (simp add: engine_match_bits db_frame_def)
  qed
  then show ?thesis using f i by (simp add: db_inv_def switches_match_def db_frame_def keeps_sw_def)
qed

lemma db_core_simps [simp]:
  "db_core (on_db_core f b) = f (db_core b)" "db_core (on_env g b) = db_core b" "db_env (on_env g b) = g (db_env b)"
  "db_env (on_db_core f b) = db_env b" "db_l2br (on_db_core f b) = db_l2br b" "db_l2br (on_env g b) = db_l2br b"
  "db_core (b\<lparr>db_level := i\<rparr>) = db_core b" "db_core (b\<lparr>db_l2br := i\<rparr>) = db_core b"
  "db_core (b\<lparr>db_cpu_reason := i\<rparr>) = db_core b" "db_core (b\<lparr>db_entry_state := i\<rparr>) = db_core b"
  "db_core (b\<lparr>db_pfx_len := i\<rparr>) = db_core b" "db_core (b\<lparr>db_mcast_mode := i\<rparr>) = db_core b"
  "db_core (b\<lparr>db_sys := y\<rparr>) = nf_core (hs_nf y)" "db_env (on_sys k b) = db_env b" "db_l2br (on_sys k b) = db_l2br b"
  "db_core (on_sys (on_ext x) b) = db_core b" "db_core (on_db_nf n b) = nf_core (n (hs_nf (db_sys b)))"
  "db_env (on_db_nf n b) = db_env b" "db_l2br (on_db_nf n b) = db_l2br b"
  by (simp_all add: db_core_def on_db_core_def on_env_def on_sys_def on_core_def on_nf_def upd_core_def on_ext_def
      on_db_nf_def)

lemma frame_core: "keeps_sw (db_core b) (f (db_core b)) \<Longrightarrow> db_frame b (on_db_core f b)"
  by (simp add: db_frame_def)

lemma frame_sweep:
  assumes "sweep_db f b = Some b'" and "\<And>c h. f (db_core b) = Some (c, h) \<Longrightarrow> keeps_sw (db_core b) h"
  shows "db_frame b b'"
  using assms by (auto simp: sweep_db_def sweep_sys_def db_frame_def db_core_def on_core_def on_nf_def upd_core_def)

lemma frame_clear_all:
  assumes "db_inv b" and "clear_all (db_env b) y = Some y'" and "nf_core (hs_nf y) = db_core b"
  shows "keeps_sw (db_core b) (nf_core (hs_nf y'))"
proof -
  obtain c h where h: "foe_clear_all_bind_entries (v_dev_model (db_env b)) (db_core b) = Some (c, h)"
      "nf_core (hs_nf y') = h"
    using assms(2,3) by (auto simp: clear_all_def sweep_sys_def)
  then show ?thesis using keeps_clear_all [OF _ h(1)] assms(1) by (simp add: db_inv_def)
qed

section \<open>Each command\<close>

lemma frame_level [simp]: "db_frame b (b\<lparr>db_level := x\<rparr>)" "db_frame b (b\<lparr>db_entry_state := x\<rparr>)"
    "db_frame b (b\<lparr>db_cpu_reason := x, db_level := y\<rparr>)" "db_frame b (b\<lparr>db_pfx_len := x\<rparr>)"
  by (simp_all add: db_frame_def db_core_def)

lemma frame_cpu_reason: "db_frame b (snd (cpu_reason_write e buf b))"
  by (auto simp: cpu_reason_write_def hnat_cpu_reason_def hnat_set_usage_def Let_def split: option.split prod.split)

lemma frame_entry_func:
  "db_inv b \<Longrightarrow> db_frame b (entry_set_func f x b)"
  by (auto simp: entry_set_func_def entry_set_state_def Let_def db_inv_def intro!: frame_core keeps_entry_delete_at)

lemma frame_entry:
  assumes "db_inv b" "hnat_entry_write e buf b = Some (r, b')"
  shows "db_frame b b'"
proof -
  have d: "dev_ok (v_dev_model (db_env b))" using assms(1) by (simp add: db_inv_def)
  have mac: "db_frame b b'" if "delete_entry_by_mac str b = Some b'" for str b'
    using that unfolding delete_entry_by_mac_def by (rule frame_sweep) (rule keeps_by_mac [OF d])
  have ip: "db_frame b b'" if "delete_entry_by_ip e v4 str b = Some b'" for v4 str b'
    using that unfolding delete_entry_by_ip_def
    by (auto split: option.splits elim!: frame_sweep intro: keeps_by_ip [OF d])
  show ?thesis
    using assms(2) frame_entry_func [OF assms(1)]
    by (auto simp: hnat_entry_write_def Let_def split: option.splits prod.splits if_splits dest: mac ip)
qed

lemma other_regs [simp]:
  "PPE_BNDR \<noteq> PPE_FLOW_CFG" "PPE_BNDR \<noteq> PPE_TB_CFG" "PPE_BND_AGE_0 \<noteq> PPE_FLOW_CFG" "PPE_BND_AGE_0 \<noteq> PPE_TB_CFG"
  "PPE_BND_AGE_1 \<noteq> PPE_FLOW_CFG" "PPE_BND_AGE_1 \<noteq> PPE_TB_CFG" "PPE_KA \<noteq> PPE_FLOW_CFG" "PPE_KA \<noteq> PPE_TB_CFG"
  by (simp_all add: ppe_reg_defs)

lemma keeps_setting: "h_ppe h' = h_ppe h \<and> h_ppe_num h' = h_ppe_num h \<and> h_etry_num h' = h_etry_num h \<and> h_l4s h' = h_l4s h
    \<Longrightarrow> ops_keep_sw ops \<Longrightarrow> keeps_sw h (all_engines ops h')"
  using keeps_sw_trans [OF keeps_sw_same keeps_all_engines] by blast

lemma keeps_settings:
  "keeps_sw h (binding_threshold x h)" "keeps_sw h (tcp_bind_lifetime x h)" "keeps_sw h (fin_bind_lifetime x h)"
  "keeps_sw h (udp_bind_lifetime x h)" "keeps_sw h (tcp_keep_alive x h)" "keeps_sw h (udp_keep_alive x h)"
  by (auto simp: binding_threshold_def tcp_bind_lifetime_def fin_bind_lifetime_def udp_bind_lifetime_def
      tcp_keep_alive_def udp_keep_alive_def Let_def keep_sw_Cons keep_sw_other intro!: keeps_setting)

lemma keeps_hash_engine:
  "0 \<le> m \<Longrightarrow> m \<le> 6 \<Longrightarrow> keeps_sw (nf_core s) (nf_core (hash_mode_engine m p s))"
proof -
  assume m: "0 \<le> m" "m \<le> 6"
  let ?h = "clear_table p (run_ops [Set_field PPE_TB_CFG HASH_DBG (word_of_int m)] p (nf_core s))"
  have k: "keeps_sw (nf_core s) ?h"
    by (rule keeps_sw_trans [OF keeps_run_ops keeps_clear_table]) (simp add: keep_sw_Cons keep_sw_hash m)
  then show ?thesis using keeps_sw_trans [OF k keeps_boundary]
    by (simp add: hash_mode_engine_def Let_def upd_core_def)
qed

lemma keeps_hash_mode:
  assumes "0 \<le> m" "m \<le> 6"
  shows "keeps_sw (nf_core s) (nf_core (fold (hash_mode_engine m) ps s))"
proof (induction ps arbitrary: s)
  case (Cons p ps)
  show ?case using keeps_sw_trans [OF keeps_hash_engine [OF assms] Cons.IH] by simp
qed simp

lemma frame_hash_mode:
  assumes "db_inv b"
  shows "db_frame b (snd (set_hash_simple_mode m b))"
proof (cases "m < 0 \<or> m > 6")
  case False
  then have m: "0 \<le> m" "m \<le> 6" by auto
  have d: "dev_ok (v_dev_model (db_env b))" using assms by (simp add: db_inv_def)
  let ?s = "hs_nf (db_sys b)"
  let ?f = "fold (hash_mode_engine m) [0 ..< h_ppe_num (nf_core ?s)] (upd_core (fwd_all False) ?s)"
  have "keeps_sw (nf_core ?s) (nf_core (upd_core (fwd_all False) ?s))" by (simp add: upd_core_def keeps_fwd_all)
  also have "keeps_sw \<dots> (nf_core ?f)" by (rule keeps_hash_mode [OF m])
  also have "keeps_sw \<dots> (hnat_cache_ebl (v_dev_model (db_env b)) True (nf_core ?f))" by (rule keeps_cache_ebl [OF d])
  also have "keeps_sw \<dots> (fwd_all True (hnat_cache_ebl (v_dev_model (db_env b)) True (nf_core ?f)))" by (rule keeps_fwd_all)
  finally show ?thesis using False
    by (simp add: set_hash_simple_mode_def db_frame_def upd_core_def db_core_def on_db_nf_def on_sys_def on_nf_def)
qed (simp add: set_hash_simple_mode_def)

lemma frame_setting:
  assumes "db_inv b"
  shows "db_frame b (snd (hnat_setting_write e buf b))"
proof -
  have port: "keeps_sw h (snd (set_default_cpu_port x h))" for x h
  proof -
    have "keeps_sw h (h\<lparr>h_dft_cport := word_of_int x\<rparr>)" by (rule keeps_sw_same) simp_all
    then show ?thesis
      using keeps_sw_trans keeps_sw_fold [of hnat_hw_set_dft_cport, OF keeps_dft_cport]
      by (fastforce simp: set_default_cpu_port_def)
  qed
  have "db_frame b (set_nf_update_toggle x b)" for x by (simp add: set_nf_update_toggle_def db_frame_def)
  then have "db_frame b (cr_set_func f x b)" for f x
    by (auto simp: cr_set_func_def frame_hash_mode [OF assms] intro!: frame_core keeps_settings port)
  then show ?thesis by (auto simp: hnat_setting_write_def split: option.split prod.split)
qed

lemma ext_core [simp]:
  "nf_core (mtk_ppe_dev_register_hook v x d s) = nf_core s" "nf_core (mtk_ppe_dev_unregister_hook d s) = nf_core s"
  by (auto simp: mtk_ppe_dev_register_hook_def mtk_ppe_dev_unregister_hook_def wifi_slot_def Let_def split: option.split)

lemma frame_devices: "db_frame b (snd (hnat_ppd_if_write e buf b))" "db_frame b (snd (hnat_whnat_write e buf b))"
  by (auto simp: hnat_ppd_if_write_def hnat_whnat_write_def Let_def db_frame_def db_core_def on_sys_def on_env_def
      on_db_nf_def on_nf_def on_ext_def
      split: option.split list.split scan_val.split)

lemma frame_mcast_table:
  assumes "db_inv b" "mcast_table_write e buf b = Some (r, b')"
  shows "db_frame b b'"
  using assms(2) frame_clear_all [OF assms(1)]
  by (auto simp: mcast_table_write_def clear_all_db_def db_frame_def db_core_def Let_def split: option.splits if_splits)

lemma frame_hook:
  assumes "db_inv b" "hnat_hook_toggle_write e buf b = Some (r, b')"
  shows "db_frame b b'"
proof -
  have en: "hs_nf (snd (hnat_enable_hook v ok y)) = hs_nf y" for v ok y by (simp add: hnat_enable_hook_def Let_def)
  have dis: "keeps_sw (db_core b) (nf_core (hs_nf y'))" if "hnat_disable_hook (db_env b) (db_sys b) = Some y'" for y'
    using that unfolding hnat_disable_hook_def Let_def
    by (rule frame_clear_all [OF assms(1)]) (simp add: db_core_def)
  show ?thesis using assms(2) dis
    by (auto simp: hnat_hook_toggle_write_def Let_def db_frame_def db_core_def en split: if_splits)
qed

lemma keeps_on_mc: "keeps_sw (nf_core s) (nf_core (on_mc f s))"
  by (rule keeps_sw_same) (simp_all add: on_mc_def upd_core_def Let_def)

lemma frame_mcast_hook: "db_frame b (snd (hnat_mcast_hook_toggle_write e buf b))"
  using keeps_on_mc
  by (auto simp: hnat_mcast_hook_toggle_write_def Let_def db_frame_def db_core_def on_db_nf_def on_sys_def on_nf_def)

text \<open>The cases of the results of a scan.\<close>

lemma frame_scan:
  assumes "db_frame b (snd g)"
  shows "(\<And>p. db_frame b (snd (f p))) \<Longrightarrow> db_frame b (snd (case vals of [V_str p] \<Rightarrow> f p | _ \<Rightarrow> g))"
    and "(\<And>p q. db_frame b (snd (f2 p q))) \<Longrightarrow> db_frame b (snd (case vals of [V_str p, V_str q] \<Rightarrow> f2 p q | _ \<Rightarrow> g))"
    and "(\<And>p. db_frame b (snd (fi p))) \<Longrightarrow> db_frame b (snd (case vals of [V_int p] \<Rightarrow> fi p | _ \<Rightarrow> g))"
  using assms by (auto split: list.split scan_val.split)

lemma frame_on_env:
  assumes "\<And>v. v_mape (g v) = v_mape v \<and> v_xlat (g v) = v_xlat v \<and> v_l2br (g v) = v_l2br v \<and> v_l4s (g v) = v_l4s v
    \<and> v_dev_model (g v) = v_dev_model v"
  shows "db_frame b (on_env g b)"
  using assms by (simp add: db_frame_def)

lemma frame_tnl: "db_frame b (snd (hnat_tnl_toggle_write e buf b))"
  by (simp add: hnat_tnl_toggle_write_def frame_on_env)

lemma frame_qos: "db_frame b (snd (hnat_qos_toggle_write e buf b))"
proof -
  have "db_frame b (set_qos m dl ul b)" for m dl ul by (simp add: set_qos_def frame_on_env)
  then show ?thesis by (simp add: hnat_qos_toggle_write_def Let_def split: option.split)
qed

lemma frame_xlat_cfg: "db_frame b (snd (hnat_xlat_cfg_write e buf b))"
proof -
  have add: "db_frame b (snd (case xlat_add a a6 b of (Some err, b') \<Rightarrow> (err, b') | (None, b') \<Rightarrow> (ok, b')))" for a a6 ok
    by (simp add: xlat_add_def frame_on_env)
  have del: "db_frame b (xlat_del a a6 b)" for a a6 by (simp add: xlat_del_def frame_on_env)
  have pfx: "db_frame b (on_env (\<lambda>v. v\<lparr>v_xlat_prefix := f v\<rparr>) b)" for f by (simp add: frame_on_env)
  have small: "db_frame b (snd (x, b))" for x :: int by simp
  show ?thesis unfolding hnat_xlat_cfg_write_def Let_def if_distrib [of snd] if_distrib [of "db_frame b"]
    using small add del pfx by (intro if_bool_eq_conj [THEN iffD2] conjI impI frame_scan) simp_all
qed

lemma frame_blist: "db_frame b (snd (hnat_mcast_blist_write e buf b))"
proof -
  have on: "db_frame b (on_blist f b)" for f by (simp add: on_blist_def db_frame_def db_core_def on_db_nf_def on_sys_def on_nf_def)
  have add: "db_frame b (snd (blist_add e ok same x b))" for ok same x by (simp add: blist_add_def on)
  have small: "db_frame b (snd (x, b))" for x :: int by simp
  show ?thesis unfolding hnat_mcast_blist_write_def Let_def if_distrib [of snd] if_distrib [of "db_frame b"]
    using small on add by (intro if_bool_eq_conj [THEN iffD2] conjI impI frame_scan) simp_all
qed

lemma frame_static: "hnat_static_entry_write e buf b = Some (r, b') \<Longrightarrow> db_frame b b'"
  by (auto simp: hnat_static_entry_write_def Let_def db_frame_def keeps_on_entry split: if_splits option.splits prod.splits)

section \<open>The switches themselves\<close>

lemma pr_all_engines:
  "p < h_ppe_num h \<Longrightarrow> pr (h_ppe (all_engines ops h) p) = fold run_op ops (pr (h_ppe h p))"
proof -
  have "pr (h_ppe (fold (run_ops ops) [0 ..< n] h) p) = (if p < n then fold run_op ops (pr (h_ppe h p)) else pr (h_ppe h p))" for n
    by (induction n) (auto simp: run_ops_def on_ppe_def with_regs_def)
  then show "p < h_ppe_num h \<Longrightarrow> ?thesis" by (simp add: all_engines_def)
qed

lemma all_engines_simps [simp]:
  "h_ppe_num (all_engines ops h) = h_ppe_num h" "h_etry_num (all_engines ops h) = h_etry_num h"
  "h_l4s (all_engines ops h) = h_l4s h"
proof -
  have "h_ppe_num (fold (run_ops ops) ps h) = h_ppe_num h \<and> h_etry_num (fold (run_ops ops) ps h) = h_etry_num h \<and>
      h_l4s (fold (run_ops ops) ps h) = h_l4s h" for ps
    by (induction ps arbitrary: h) (simp_all add: run_ops_def on_ppe_def)
  then show "h_ppe_num (all_engines ops h) = h_ppe_num h" "h_etry_num (all_engines ops h) = h_etry_num h"
    "h_l4s (all_engines ops h) = h_l4s h" by (simp_all add: all_engines_def)
qed

lemma fwd_all_simps [simp]:
  "h_ppe (fwd_all en h) = h_ppe h" "h_ppe_num (fwd_all en h) = h_ppe_num h" "h_etry_num (fwd_all en h) = h_etry_num h"
  "h_l4s (fwd_all en h) = h_l4s h"
  by (simp_all add: fwd_all_def)

lemma reg_tb_flow [simp]: "PPE_TB_CFG \<noteq> PPE_FLOW_CFG" "PPE_FLOW_CFG \<noteq> PPE_TB_CFG"
  by (simp_all add: ppe_reg_defs)

text \<open>What the operations of the switches do to a bit.\<close>

lemma bit_run_op:
  "bit (run_op (Set_bits reg bs) r reg) k = (bit (r reg) k \<or> bit bs k)"
  "bit (run_op (Clr_bits reg bs) r reg) k = (bit (r reg) k \<and> \<not> bit bs k)"
  "reg' \<noteq> reg \<Longrightarrow> run_op (Set_bits reg bs) r reg' = r reg'" "reg' \<noteq> reg \<Longrightarrow> run_op (Clr_bits reg bs) r reg' = r reg'"
  by (auto simp: cr_set_bits_def cr_clr_bits_def bit_simps dest: bit_imp_le_length)

lemma bit_BIT [simp]: "bit (BIT n) k = (k = n \<and> n < 32)"
  by (auto simp: BIT_def bit_simps bit_1_iff)

lemma ecn_field:
  "run_op (Set_field PPE_TB_CFG DSCP_TRFC_ECN_EN (if on then 1 else 0)) r = wr (Fld PPE_TB_CFG 25 1) (if on then 1 else 0) r"
proof -
  have "mask_place DSCP_TRFC_ECN_EN 25 1" by code_simp
  then show ?thesis by (simp add: cr_set_field_wr del: One_nat_def)
qed

lemma ecn_bit:
  "bit (wr (Fld PPE_TB_CFG 25 1) (if on then 1 else 0) r PPE_TB_CFG) 25 = on"
  "wr (Fld PPE_TB_CFG 25 1) (if on then 1 else 0) r PPE_FLOW_CFG = r PPE_FLOW_CFG"
proof -
  have "rd (wr (Fld PPE_TB_CFG 25 1) (if on then 1 else 0) r) (Fld PPE_TB_CFG 25 1) = (if on then 1 else 0)"
    by (simp add: rd_wr_same del: One_nat_def)
  then show "bit (wr (Fld PPE_TB_CFG 25 1) (if on then 1 else 0) r PPE_TB_CFG) 25 = on"
    by (simp add: rd_bit split: if_splits del: One_nat_def)
qed simp

lemma inv_on_registers:
  assumes "db_inv b" and "v_dev_model (db_env b') = v_dev_model (db_env b)"
    and "h_etry_num (db_core b') = h_etry_num (db_core b)" "h_ppe_num (db_core b') = h_ppe_num (db_core b)"
    and "h_l4s (db_core b') = v_l4s (db_env b')" "v_l2br (db_env b') = db_l2br b'"
    and "\<And>p. p < h_ppe_num (db_core b) \<Longrightarrow> engine_match b (pr (h_ppe (db_core b) p)) \<Longrightarrow> engine_match b' (pr (h_ppe (db_core b') p))"
  shows "db_inv b'"
  using assms by (simp add: db_inv_def switches_match_def)

lemma inv_simps: "db_inv b \<Longrightarrow> h_l4s (db_core b) = v_l4s (db_env b) \<and> v_l2br (db_env b) = db_l2br b"
  by (simp add: db_inv_def switches_match_def)

lemma inv_mape: "db_inv b \<Longrightarrow> db_inv (snd (hnat_mape_toggle_write e buf b))"
  by (rule inv_on_registers [of b])
    (simp_all add: inv_simps hnat_mape_toggle_write_def Let_def engine_match_bits pr_all_engines bit_run_op flow_cfg_bit_def
      BIT_IPV4_DSL_EN_def del: run_op.simps)

lemma inv_xlat: "db_inv b \<Longrightarrow> db_inv (snd (hnat_xlat_toggle_write e buf b))"
  by (rule inv_on_registers [of b])
    (simp_all add: inv_simps hnat_xlat_toggle_write_def Let_def engine_match_bits pr_all_engines bit_run_op flow_cfg_bit_def
      BIT_IPV6_464XLAT_EN_def del: run_op.simps)

lemma inv_l2br: "db_inv b \<Longrightarrow> db_inv (snd (hnat_l2br_toggle_write e buf b))"
  by (rule inv_on_registers [of b])
    (simp_all add: inv_simps hnat_l2br_toggle_write_def Let_def engine_match_bits pr_all_engines bit_run_op bit_or_iff
      BIT_L2_BRG_EN_def BIT_L2_LRN_EN_def del: run_op.simps)

lemma inv_l4s:
  assumes "db_inv b"
  shows "db_inv (snd (hnat_l4s_toggle_write e buf b))"
proof (cases "bad_toggle e buf")
  case False
  define on where "on = (if char0 buf = CHR ''1'' then True else if char0 buf = CHR ''0'' then False else v_l4s (db_env b))"
  let ?b = "on_db_core (\<lambda>h. fwd_all True (all_engines [Set_field PPE_TB_CFG DSCP_TRFC_ECN_EN (if on then 1 else 0)] (h\<lparr>h_l4s := on\<rparr>)))
              (on_env (\<lambda>v. v\<lparr>v_l4s := on\<rparr>) b)"
  have "db_inv ?b"
  proof (rule inv_on_registers [OF assms])
    fix p
    assume p: "p < h_ppe_num (db_core b)" and m: "engine_match b (pr (h_ppe (db_core b) p))"
    have "pr (h_ppe (db_core ?b) p) = wr (Fld PPE_TB_CFG 25 1) (if on then 1 else 0) (pr (h_ppe (db_core b) p))"
      using p by (simp add: pr_all_engines ecn_field del: run_op.simps One_nat_def)
    then show "engine_match ?b (pr (h_ppe (db_core ?b) p))"
      using m by (simp add: engine_match_bits ecn_bit del: One_nat_def)
  qed (simp_all add: inv_simps [OF assms])
  then show ?thesis using False by (simp only: hnat_l4s_toggle_write_def Let_def on_def if_False snd_conv)
qed (simp add: hnat_l4s_toggle_write_def assms)

lemma inv_write:
  assumes "db_inv b" "dbg_write f e buf b = Some (r, b')"
  shows "db_inv b'"
proof (cases "f \<in> {F_mape, F_xlat, F_l4s, F_l2br}")
  case True
  then show ?thesis using assms inv_mape [of b e buf] inv_xlat [of b e buf] inv_l4s [of b e buf] inv_l2br [of b e buf] by auto
next
  case False
  have "db_frame b b'"
  proof (cases f)
    case F_cpu_reason then show ?thesis using assms frame_cpu_reason [of b e buf] by simp
  next
    case F_entry then show ?thesis using assms frame_entry by simp
  next
    case F_setting then show ?thesis using assms frame_setting [OF assms(1), of e buf] by simp
  next
    case F_ppd_if then show ?thesis using assms frame_devices(1) [of b e buf] by simp
  next
    case F_whnat then show ?thesis using assms frame_devices(2) [of b e buf] by simp
  next
    case F_mcast_table then show ?thesis using assms frame_mcast_table by simp
  next
    case F_hook then show ?thesis using assms frame_hook by simp
  next
    case F_mcast_hook then show ?thesis using assms frame_mcast_hook [of b e buf] by simp
  next
    case F_tnl then show ?thesis using assms frame_tnl [of b e buf] by simp
  next
    case F_qos then show ?thesis using assms frame_qos [of b e buf] by simp
  next
    case F_xlat_cfg then show ?thesis using assms frame_xlat_cfg [of b e buf] by simp
  next
    case F_mcast_blist then show ?thesis using assms frame_blist [of b e buf] by simp
  next
    case F_static then show ?thesis using assms frame_static by simp
  next
    case F_proto_3tuple
    have "db_frame b (on_db_core (\<lambda>_. snd (hnat_proto_3tuple_write buf (db_core b))) b)"
      by (rule frame_core) (rule keeps_proto_3tuple)
    then show ?thesis using assms F_proto_3tuple by (auto split: if_splits prod.splits)
  qed (use False in simp_all)
  then show ?thesis using frame_inv assms(1) by blast
qed

lemma inv_run: "db_inv b \<Longrightarrow> dbg_run ws b = Some b' \<Longrightarrow> db_inv b'"
proof (induction ws arbitrary: b)
  case (Cons w ws)
  obtain f e buf where w: "w = (f, e, buf)" by (cases w)
  obtain r b1 where "dbg_write f e buf b = Some (r, b1)" "dbg_run ws b1 = Some b'"
    using Cons.prems(2) by (auto simp: w split: option.splits)
  then show ?case using Cons.IH inv_write [OF Cons.prems(1)] by blast
qed simp

end
