(* ===== verification/Scan_Props.thy ===== *)
theory Scan_Props
  imports Scan
begin

text \<open>
  Printing and scanning: the hexadecimal form of a number, and lines of printed values, which
  \<open>sscanf\<close> takes apart again.
\<close>

section \<open>Hexadecimal numbers\<close>

definition hexdigit :: "nat \<Rightarrow> char" where
  "hexdigit n = (if n < 10 then char_of (48 + n) else char_of (87 + n))"

text \<open>The form of \<^verbatim>\<open>%x\<close>.\<close>

fun hex :: "nat \<Rightarrow> string" where
  "hex n = (if n < 16 then [hexdigit n] else hex (n div 16) @ [hexdigit (n mod 16)])"

declare hex.simps [simp del]

lemma digit_val_hexdigit [simp]: "n < 16 \<Longrightarrow> digit_val (hexdigit n) = Some n"
  by (auto simp: hexdigit_def digit_val_def Let_def)

lemma hex_not_Nil [simp]: "hex n \<noteq> []"
  by (subst hex.simps) simp

lemma hex_chars: "set (hex n) \<subseteq> hexdigit ` {..< 16}"
proof (induction n rule: hex.induct)
  case (1 n)
  then show ?case by (subst hex.simps) auto
qed

lemma hex_char: "c \<in> set (hex n) \<Longrightarrow> \<exists>k < 16. c = hexdigit k"
  using hex_chars [of n] by auto

lemma parse_hex: "parse_integer 16 (hex n @ s) 0 0 = parse_integer 16 s n (length (hex n))"
proof (induction n arbitrary: s rule: hex.induct)
  case (1 n)
  show ?case
  proof (cases "n < 16")
    case True
    then show ?thesis by (simp add: hex.simps)
  next
    case False
    have d: "hex n = hex (n div 16) @ [hexdigit (n mod 16)]" using False by (subst hex.simps) simp
    have "parse_integer 16 (hex n @ s) 0 0 = parse_integer 16 (hexdigit (n mod 16) # s) (n div 16) (length (hex (n div 16)))"
      using 1 False by (simp add: d)
    also have "\<dots> = parse_integer 16 s n (length (hex n))"
    proof -
      define k m where "k = n div 16" and "m = n mod 16"
      then have "m < 16" "k * 16 + m = n" by simp_all
      moreover have "hex n = hex k @ [hexdigit m]" using d k_def m_def by simp
      ultimately show ?thesis unfolding k_def [symmetric] m_def [symmetric] by (simp add: mult.commute)
    qed
    finally show ?thesis .
  qed
qed

lemma hex_length: "n < 16 ^ Suc j \<Longrightarrow> length (hex n) \<le> Suc j"
proof (induction j arbitrary: n)
  case (Suc j)
  show ?case
  proof (cases "n < 16")
    case False
    then have "hex n = hex (n div 16) @ [hexdigit (n mod 16)]" by (subst hex.simps) simp
    moreover have "length (hex (n div 16)) \<le> Suc j" using Suc by (intro Suc.IH) (simp add: div_less_iff_less_mult mult.commute)
    ultimately show ?thesis by simp
  qed (subst hex.simps, simp)
qed (subst hex.simps, simp)

lemma dec_length: "n < 10 ^ Suc j \<Longrightarrow> length (dec n) \<le> Suc j"
proof (induction j arbitrary: n)
  case (Suc j)
  show ?case
  proof (cases "n < 10")
    case False
    then have "dec n = dec (n div 10) @ [digit (n mod 10)]" by (subst dec.simps) simp
    moreover have "length (dec (n div 10)) \<le> Suc j" using Suc by (intro Suc.IH) (simp add: div_less_iff_less_mult mult.commute)
    ultimately show ?thesis by simp
  qed (subst dec.simps, simp)
qed (subst dec.simps, simp)

lemma hexdigit_neq:
  assumes "k < 16"
  shows "\<not> is_x (hexdigit k)" "\<not> isspace (hexdigit k)" "hexdigit k \<noteq> CHR 0x00" "hexdigit k \<noteq> CHR ''-''"
    "hexdigit k \<noteq> CHR '':''"
proof -
  have "\<forall>k \<in> set [0 ..< 16]. \<not> is_x (hexdigit k) \<and> \<not> isspace (hexdigit k) \<and> hexdigit k \<noteq> CHR 0x00
      \<and> hexdigit k \<noteq> CHR ''-'' \<and> hexdigit k \<noteq> CHR '':''"
    by code_simp
  then show "\<not> is_x (hexdigit k)" "\<not> isspace (hexdigit k)" "hexdigit k \<noteq> CHR 0x00" "hexdigit k \<noteq> CHR ''-''"
    "hexdigit k \<noteq> CHR '':''" using assms by auto
qed

lemma digit_hexdigit: "k < 10 \<Longrightarrow> digit k = hexdigit k"
  by (simp add: digit_def hexdigit_def)

section \<open>One value\<close>

text \<open>What may follow a printed value: nothing or white space.\<close>

definition ends :: "string \<Rightarrow> bool" where
  "ends r = (case r of [] \<Rightarrow> True | c # _ \<Rightarrow> isspace c)"

lemma blank_facts [simp]: "isspace CHR '' ''" "isspace CHR 0x0A"
  by code_simp+

lemma space_facts: "isspace c \<Longrightarrow> digit_val c = None" "isspace c \<Longrightarrow> \<not> is_x c"
proof -
  show "isspace c \<Longrightarrow> digit_val c = None" by (auto simp: isspace_def digit_val_def Let_def)
  have "\<not> isspace CHR ''x''" "\<not> isspace CHR ''X''" by code_simp+
  then show "isspace c \<Longrightarrow> \<not> is_x c" by (auto simp: is_x_def)
qed

lemma parse_ends: "ends r \<Longrightarrow> parse_integer b (take m r) v k = (v, k, take m r)"
  by (cases r; cases m) (auto simp: ends_def space_facts)

lemma skip_word: "t \<noteq> [] \<Longrightarrow> \<not> isspace (hd t) \<Longrightarrow> skip_spaces (t @ r) = t @ r"
  by (cases t) (simp_all add: skip_spaces_def)

text \<open>\<open>scans i t v\<close>: the conversion \<open>i\<close> reads the text \<open>t\<close> as \<open>v\<close>, whatever follows.\<close>

definition scans :: "scan_item \<Rightarrow> string \<Rightarrow> scan_val \<Rightarrow> bool" where
  "scans i t v = (t \<noteq> [] \<and> \<not> isspace (hd t) \<and> (\<forall>fs r. ends r \<longrightarrow> scan_items (i # fs) (t @ r) = v # scan_items fs r))"

lemma unsigned_printed:
  assumes t: "t \<noteq> []" "length t \<le> w" and no_x: "\<And>c. c \<in> set t \<Longrightarrow> \<not> is_x c" and base: "base \<noteq> 0"
    and parse: "\<And>s. parse_integer base (t @ s) 0 0 = parse_integer base s n (length t)" and r: "ends r"
  shows "scan_unsigned base w (t @ r) = (n, r)"
proof -
  have "fixup_radix base (t @ r) = (base, t @ r)"
  proof -
    have "\<not> is_x c1" if "t @ r = c0 # c1 # q" for c0 c1 q
    proof (cases "length t = 1")
      case True
      then have "r = c1 # q" using that by (cases t) auto
      then show ?thesis using r space_facts(2) by (auto simp: ends_def)
    next
      case False
      then have "c1 \<in> set t" using that t(1) by (cases t; cases "tl t") auto
      then show ?thesis using no_x by blast
    qed
    then show ?thesis using base by (auto simp: fixup_radix_def Let_def split: list.split)
  qed
  moreover have "parse_integer base (take w (t @ r)) 0 0 = (n, length t, take (w - length t) r)"
    using t(2) by (simp add: parse parse_ends [OF r])
  moreover have "0 < w" using t by (cases t) auto
  ultimately show ?thesis by (simp add: scan_unsigned_def)
qed

lemma number_printed:
  assumes "t \<noteq> []" "length t \<le> w" "\<And>c. c \<in> set t \<Longrightarrow> \<exists>k < base. c = hexdigit k" "base \<noteq> 0" "base \<le> 16"
    and parse: "\<And>s. parse_integer base (t @ s) 0 0 = parse_integer base s n (length t)" and r: "ends r"
  shows "scan_number base neg w (t @ r) = Some (int n, r)"
proof -
  obtain c t' where t: "t = c # t'" using assms(1) by (cases t) auto
  obtain k where k: "k < base" "c = hexdigit k" using assms(3) [of c] t by auto
  then have k16: "k < 16" using assms(5) by simp
  note c = hexdigit_neq [OF k16, folded k(2)] digit_val_hexdigit [OF k16, folded k(2)]
  have "skip_spaces (t @ r) = c # t' @ r" using skip_word [of t r] c t by simp
  moreover have "scan_unsigned base w (c # t' @ r) = (n, r)"
    using unsigned_printed [of t w base n r] assms t hexdigit_neq(1) by (metis append_Cons order_less_le_trans)
  ultimately show ?thesis using c k(1) by (simp add: scan_number_def is_digit_def)
qed

lemma hex_first: "\<not> isspace (hd (hex n))"
  using hex_char [of "hd (hex n)" n] hexdigit_neq(2) by (metis hex_not_Nil hd_in_set)

lemma scans_hex:
  assumes "n < 16 ^ Suc j"
  shows "scans (S_hex (Suc j)) (hex n) (V_word (of_nat n))"
  using number_printed [of "hex n" "Suc j" 16 n _ False] hex_length [OF assms] hex_char parse_hex hex_first
  by (simp add: scans_def)

lemma scans_hex16:
  assumes "n < 2 ^ 16"
  shows "scans (S_hex16 4) (hex n) (V_word (of_nat n))"
proof -
  have "length (hex n) \<le> 4" using hex_length [of n 3] assms by simp
  moreover have "(of_nat n :: u32) AND 0xffff = of_nat n"
  proof -
    have "(0xffff :: u32) = mask 16" by (simp add: mask_eq_exp_minus_1)
    moreover have "take_bit 16 (of_nat n :: u32) = of_nat n" using assms by (metis of_nat_take_bit take_bit_nat_eq_self)
    ultimately show ?thesis by (simp only: take_bit_eq_mask)
  qed
  ultimately show ?thesis
    using number_printed [of "hex n" 4 16 n _ False] hex_char parse_hex hex_first by (simp add: scans_def)
qed

lemma scans_dec:
  assumes "n < 10 ^ Suc j"
  shows "scans (S_int (Suc j)) (dec n) (V_int (int n))"
proof -
  have ch: "\<exists>k < 10. c = hexdigit k" if "c \<in> set (dec n)" for c
    using dec_no_char [OF that] digit_hexdigit by auto
  obtain k where "k < 10" "hd (dec n) = hexdigit k" using ch [of "hd (dec n)"] hd_in_set [of "dec n"] by auto
  then have "\<not> isspace (hd (dec n))" using hexdigit_neq(2) [of k] by simp
  then show ?thesis
    using number_printed [of "dec n" "Suc j" 10 n _ True] dec_length [OF assms] ch parse_dec
    by (simp add: scans_def)
qed

text \<open>A word: no white space, and no longer than the width.\<close>

definition word :: "nat \<Rightarrow> string \<Rightarrow> bool" where
  "word w t = (t \<noteq> [] \<and> length t \<le> w \<and> (\<forall>c \<in> set t. \<not> isspace c \<and> c \<noteq> CHR 0x00))"

lemma scans_word:
  assumes "word w t"
  shows "scans (S_str w) t (V_str t)"
proof -
  have t: "t \<noteq> []" "length t \<le> w" "\<And>c. c \<in> set t \<Longrightarrow> \<not> isspace c" using assms by (auto simp: word_def)
  have hd: "\<not> isspace (hd t)" using t by simp
  have "takeWhile (\<lambda>c. \<not> isspace c) (take w (t @ r)) = t" if "ends r" for r
  proof -
    have "takeWhile (\<lambda>c. \<not> isspace c) (take (w - length t) r) = []"
      using that by (cases r; cases "w - length t") (auto simp: ends_def)
    then show ?thesis using t by (simp add: takeWhile_append)
  qed
  then show ?thesis using t hd skip_word [OF t(1) hd] by (simp add: scans_def)
qed

section \<open>Lines\<close>

fun join :: "string list \<Rightarrow> string" where
  "join [] = []"
| "join [t] = t"
| "join (t # t' # ts) = t @ CHR '' '' # join (t' # ts)"

fun spaced :: "scan_item list \<Rightarrow> scan_item list" where
  "spaced [] = []"
| "spaced [i] = [i]"
| "spaced (i # j # is) = i # S_space # spaced (j # is)"

definition scans3 :: "scan_item \<times> string \<times> scan_val \<Rightarrow> bool" where
  "scans3 x = (case x of (i, t, v) \<Rightarrow> scans i t v)"

lemma join_head:
  assumes "scans3 x"
  shows "skip_spaces (join (map (fst \<circ> snd) (x # xs)) @ r) = join (map (fst \<circ> snd) (x # xs)) @ r"
proof -
  obtain i t v where x: "x = (i, t, v)" by (cases x)
  have t: "t \<noteq> []" "\<not> isspace (hd t)" using assms by (simp_all add: scans3_def scans_def x)
  show ?thesis using skip_word [OF t] by (cases xs) (simp_all add: x)
qed

lemma join_append: "ts \<noteq> [] \<Longrightarrow> ts' \<noteq> [] \<Longrightarrow> join (ts @ ts') = join ts @ CHR '' '' # join ts'"
  by (induction ts rule: join.induct) (simp_all, cases ts', simp_all)

lemma scan_line:
  assumes "list_all scans3 xs" "ends r"
  shows "scan_items (spaced (map fst xs)) (join (map (fst \<circ> snd) xs) @ r) = map (snd \<circ> snd) xs"
  using assms(1)
proof (induction xs rule: induct_list012)
  case (2 x)
  obtain i t v where x: "x = (i, t, v)" by (cases x)
  have "\<And>fs r. ends r \<Longrightarrow> scan_items (i # fs) (t @ r) = v # scan_items fs r"
    using 2 by (simp add: x scans3_def scans_def)
  from this [of r "[]"] show ?case using assms(2) by (simp add: x)
next
  case (3 x y xs)
  obtain i t v where x: "x = (i, t, v)" by (cases x)
  have s: "\<And>fs r. ends r \<Longrightarrow> scan_items (i # fs) (t @ r) = v # scan_items fs r"
    using 3(3) by (simp add: x scans3_def scans_def)
  have y: "scans3 y" using 3(3) by simp
  have "skip_spaces (CHR '' '' # q) = skip_spaces q" for q by (simp add: skip_spaces_def)
  then have sp: "skip_spaces (CHR '' '' # join (map (fst \<circ> snd) (y # xs)) @ r) = join (map (fst \<circ> snd) (y # xs)) @ r"
    using join_head [OF y, of xs r] by simp
  show ?case using 3 sp by (simp add: x s ends_def comp_def)
qed simp

lemma join_length: "ts \<noteq> [] \<Longrightarrow> Suc (length (join ts)) = sum_list (map (Suc \<circ> length) ts)"
  by (induction ts rule: join.induct) simp_all

lemma join_chars: "c \<in> set (join ts) \<Longrightarrow> c = CHR '' '' \<or> (\<exists>t \<in> set ts. c \<in> set t)"
  by (induction ts rule: join.induct) auto

end
