(* ===== verification/Hnat_Debug_Restart.thy ===== *)
theory Hnat_Debug_Restart
  imports Hnat_Debug_System Scan_Props
begin

text \<open>
  The settings of the file \<open>hnat_setting\<close> in the registers of the engines: what a command writes, and
  what a restart after a reset writes again.
\<close>

section \<open>The fields\<close>

text \<open>The binding threshold, the lifetimes of TCP, FIN and UDP entries, and the intervals of keep-alive, by the
  number of the command.\<close>

definition tunable :: "nat \<Rightarrow> int field_of" where
  "tunable k = [Fld PPE_BNDR 0 16, Fld PPE_BND_AGE_1 0 16, Fld PPE_BND_AGE_1 16 16, Fld PPE_BND_AGE_0 0 16,
     Fld PPE_KA 16 8, Fld PPE_KA 24 8] ! (k - 1)"

definition tunable_value :: "nat \<Rightarrow> nat \<Rightarrow> mtk_hnat \<Rightarrow> u32" where
  "tunable_value k p h = rd (pr (h_ppe h p)) (tunable k)"

text \<open>The driver's copy of a setting.\<close>

definition tunable_copy :: "nat \<Rightarrow> mtk_hnat \<Rightarrow> u32" where
  "tunable_copy k h = [ucast (h_bind_threshold h), ucast (h_tcp_dlta h), ucast (h_fin_dlta h), ucast (h_udp_dlta h),
     ucast (h_tcp_ka h), ucast (h_udp_ka h)] ! (k - 1)"

lemma tunable_simps:
  "tunable 1 = Fld PPE_BNDR 0 16" "tunable 2 = Fld PPE_BND_AGE_1 0 16" "tunable 3 = Fld PPE_BND_AGE_1 16 16"
  "tunable 4 = Fld PPE_BND_AGE_0 0 16" "tunable 5 = Fld PPE_KA 16 8" "tunable 6 = Fld PPE_KA 24 8"
  by (simp_all add: tunable_def)

lemma copy_simps:
  "tunable_copy 1 h = ucast (h_bind_threshold h)" "tunable_copy 2 h = ucast (h_tcp_dlta h)"
  "tunable_copy 3 h = ucast (h_fin_dlta h)" "tunable_copy 4 h = ucast (h_udp_dlta h)"
  "tunable_copy 5 h = ucast (h_tcp_ka h)" "tunable_copy 6 h = ucast (h_udp_ka h)"
  by (simp_all add: tunable_copy_def)

lemma six_cases: "k \<in> {1 .. 6} \<Longrightarrow> k = 1 \<or> k = 2 \<or> k = 3 \<or> k = 4 \<or> k = 5 \<or> k = (6 :: nat)"
  by auto

section \<open>Reading a field through operations\<close>

lemma tun_places:
  "mask_place TCP_DLTA 0 16 \<and> mask_place FIN_DLTA 16 16 \<and> mask_place UDP_DLTA 0 16 \<and> mask_place NTU_DLTA 16 16 \<and>
   mask_place TCP_KA 16 8 \<and> mask_place UDP_KA 24 8 \<and> mask_place KA_T 0 16 \<and> mask_place BIND_RATE 0 16"
  by code_simp

lemma rd_set_same:
  "mask_place m lo n \<Longrightarrow> take_bit n v = v \<Longrightarrow> rd (run_op (Set_field reg m v) r) (Fld reg lo n) = v"
  by (simp add: cr_set_field_wr rd_wr_same mask_placeD)

lemma rd_set_disjoint:
  assumes "mask_place m lo n" "take_bit n v = v" "lo' + n' \<le> 32" "lo + n \<le> lo' \<or> lo' + n' \<le> lo"
  shows "rd (run_op (Set_field reg m v) r) (Fld reg lo' n') = rd r (Fld reg lo' n')"
  using assms by (simp add: cr_set_field_wr rd_wr_other mask_placeD)

lemma rd_op_other:
  "reg \<noteq> w \<Longrightarrow> rd (run_op (Set_field reg m v) r) (Fld w lo n) = rd r (Fld w lo n)"
  "reg \<noteq> w \<Longrightarrow> rd (run_op (Set_bits reg bs) r) (Fld w lo n) = rd r (Fld w lo n)"
  "reg \<noteq> w \<Longrightarrow> rd (run_op (Writel v reg) r) (Fld w lo n) = rd r (Fld w lo n)"
  by (simp_all add: op_keeps.simps op_keeps_rd del: run_op.simps)

lemma tun_regs_neq:
  "PPE_GLO_CFG \<notin> set [PPE_BNDR, PPE_BND_AGE_0, PPE_BND_AGE_1, PPE_KA, PPE_FLOW_CFG]"
  "PPE_TB_CFG \<notin> set [PPE_BNDR, PPE_BND_AGE_0, PPE_BND_AGE_1, PPE_KA, PPE_FLOW_CFG]"
  "PPE_HASH_SEED \<notin> set [PPE_BNDR, PPE_BND_AGE_0, PPE_BND_AGE_1, PPE_KA, PPE_FLOW_CFG]"
  "PPE_UNB_AGE \<notin> set [PPE_BNDR, PPE_BND_AGE_0, PPE_BND_AGE_1, PPE_KA, PPE_FLOW_CFG]"
  "PPE_BIND_LMT_0 \<notin> set [PPE_BNDR, PPE_BND_AGE_0, PPE_BND_AGE_1, PPE_KA, PPE_FLOW_CFG]"
  "PPE_BIND_LMT_1 \<notin> set [PPE_BNDR, PPE_BND_AGE_0, PPE_BND_AGE_1, PPE_KA, PPE_FLOW_CFG]"
  "PPE_DFT_CPORT \<notin> set [PPE_BNDR, PPE_BND_AGE_0, PPE_BND_AGE_1, PPE_KA, PPE_FLOW_CFG]"
  "PPE_DFT_CPORT1 \<notin> set [PPE_BNDR, PPE_BND_AGE_0, PPE_BND_AGE_1, PPE_KA, PPE_FLOW_CFG]"
  "PPE_SBW_CTRL \<notin> set [PPE_BNDR, PPE_BND_AGE_0, PPE_BND_AGE_1, PPE_KA, PPE_FLOW_CFG]"
  "PPE_SB_FIFO_DBG \<notin> set [PPE_BNDR, PPE_BND_AGE_0, PPE_BND_AGE_1, PPE_KA, PPE_FLOW_CFG]"
  "PPE_MIB_CFG \<notin> set [PPE_BNDR, PPE_BND_AGE_0, PPE_BND_AGE_1, PPE_KA, PPE_FLOW_CFG]"
  "PPE_MIB_CAH_CTRL \<notin> set [PPE_BNDR, PPE_BND_AGE_0, PPE_BND_AGE_1, PPE_KA, PPE_FLOW_CFG]"
  "PPE_IP_PROT_CHK \<notin> set [PPE_BNDR, PPE_BND_AGE_0, PPE_BND_AGE_1, PPE_KA, PPE_FLOW_CFG]"
  "PPE_IP_PROT_0 \<notin> set [PPE_BNDR, PPE_BND_AGE_0, PPE_BND_AGE_1, PPE_KA, PPE_FLOW_CFG]"
  "PPE_IP_PROT_1 \<notin> set [PPE_BNDR, PPE_BND_AGE_0, PPE_BND_AGE_1, PPE_KA, PPE_FLOW_CFG]"
  "PPE_IP_PROT_2 \<notin> set [PPE_BNDR, PPE_BND_AGE_0, PPE_BND_AGE_1, PPE_KA, PPE_FLOW_CFG]"
  "PPE_IP_PROT_3 \<notin> set [PPE_BNDR, PPE_BND_AGE_0, PPE_BND_AGE_1, PPE_KA, PPE_FLOW_CFG]"
  "PPE_TB_BASE \<notin> set [PPE_BNDR, PPE_BND_AGE_0, PPE_BND_AGE_1, PPE_KA, PPE_FLOW_CFG]"
  "PPE_MIB_TB_BASE \<notin> set [PPE_BNDR, PPE_BND_AGE_0, PPE_BND_AGE_1, PPE_KA, PPE_FLOW_CFG]"
  "PPE_BNDR \<notin> set [PPE_BND_AGE_0, PPE_BND_AGE_1, PPE_KA, PPE_FLOW_CFG]"
  "PPE_BND_AGE_0 \<notin> set [PPE_BNDR, PPE_BND_AGE_1, PPE_KA, PPE_FLOW_CFG]"
  "PPE_BND_AGE_1 \<notin> set [PPE_BNDR, PPE_BND_AGE_0, PPE_KA, PPE_FLOW_CFG]"
  "PPE_KA \<notin> set [PPE_BNDR, PPE_BND_AGE_0, PPE_BND_AGE_1, PPE_FLOW_CFG]"
  "PPE_FLOW_CFG \<notin> set [PPE_BNDR, PPE_BND_AGE_0, PPE_BND_AGE_1, PPE_KA]"
  by (simp_all add: ppe_reg_defs)

lemmas tun_neq = tun_regs_neq [unfolded list.set insert_iff empty_iff de_Morgan_disj not_False_eq_True simp_thms]

lemma fits_ucast:
  "take_bit 16 (ucast (x :: u16) :: u32) = ucast x" "take_bit 8 (ucast (y :: u8) :: u32) = ucast y"
  by (rule bit_word_eqI, auto simp: bit_simps dest: bit_imp_le_length)+

lemma set_ntu [simp]:
  "rd (run_op (Set_field PPE_BND_AGE_0 NTU_DLTA 1) r) (Fld PPE_BND_AGE_0 0 16) = rd r (Fld PPE_BND_AGE_0 0 16)"
  by (rule rd_set_disjoint [of _ 16 16]) (use tun_places in simp_all)

lemma set_tcp_fin [simp]:
  "take_bit 16 v = v \<Longrightarrow> rd (run_op (Set_field PPE_BND_AGE_1 TCP_DLTA v) r) (Fld PPE_BND_AGE_1 16 16) = rd r (Fld PPE_BND_AGE_1 16 16)"
  "take_bit 16 v = v \<Longrightarrow> rd (run_op (Set_field PPE_BND_AGE_1 FIN_DLTA v) r) (Fld PPE_BND_AGE_1 0 16) = rd r (Fld PPE_BND_AGE_1 0 16)"
  using rd_set_disjoint [of TCP_DLTA 0 16 v 16 16] rd_set_disjoint [of FIN_DLTA 16 16 v 0 16] tun_places by simp_all

lemma set_ka [simp]:
  "take_bit 8 v = v \<Longrightarrow> rd (run_op (Set_field PPE_KA UDP_KA v) r) (Fld PPE_KA 16 8) = rd r (Fld PPE_KA 16 8)"
  "take_bit 8 v = v \<Longrightarrow> rd (run_op (Set_field PPE_KA TCP_KA v) r) (Fld PPE_KA 24 8) = rd r (Fld PPE_KA 24 8)"
  using rd_set_disjoint [of UDP_KA 24 8 v 16 8] rd_set_disjoint [of TCP_KA 16 8 v 24 8] tun_places by simp_all

lemma set_own [simp]:
  "take_bit 16 v = v \<Longrightarrow> rd (run_op (Set_field PPE_BNDR BIND_RATE v) r) (Fld PPE_BNDR 0 16) = v"
  "take_bit 16 v = v \<Longrightarrow> rd (run_op (Set_field PPE_BND_AGE_1 TCP_DLTA v) r) (Fld PPE_BND_AGE_1 0 16) = v"
  "take_bit 16 v = v \<Longrightarrow> rd (run_op (Set_field PPE_BND_AGE_1 FIN_DLTA v) r) (Fld PPE_BND_AGE_1 16 16) = v"
  "take_bit 16 v = v \<Longrightarrow> rd (run_op (Set_field PPE_BND_AGE_0 UDP_DLTA v) r) (Fld PPE_BND_AGE_0 0 16) = v"
  "take_bit 8 v = v \<Longrightarrow> rd (run_op (Set_field PPE_KA TCP_KA v) r) (Fld PPE_KA 16 8) = v"
  "take_bit 8 v = v \<Longrightarrow> rd (run_op (Set_field PPE_KA UDP_KA v) r) (Fld PPE_KA 24 8) = v"
  using tun_places by (simp_all add: rd_set_same del: run_op.simps)

section \<open>A start of an engine\<close>

lemma init_ops_tunable:
  "k \<in> {1 .. 6} \<Longrightarrow> rd (fold run_op (hw_init_ops h) r) (tunable k) = tunable_copy k h"
  by (elim six_cases [elim_format] disjE)
    (simp_all add: hw_init_ops_def tunable_simps copy_simps rd_op_other tun_neq fits_ucast del: run_op.simps One_nat_def)

text \<open>What comes after the first part of \<open>hnat_hw_init\<close> leaves these registers alone.\<close>

fun op_reg :: "reg_op \<Rightarrow> int" where
  "op_reg (Set_field reg m v) = reg"
| "op_reg (Set_bits reg bs) = reg"
| "op_reg (Clr_bits reg bs) = reg"
| "op_reg (Writel v reg) = reg"

lemma run_op_other: "op_reg op \<noteq> w \<Longrightarrow> run_op op r w = r w"
  by (cases op) (simp_all add: cr_set_field_def cr_set_bits_def cr_clr_bits_def)

lemma run_ops_other: "w \<notin> op_reg ` set ops \<Longrightarrow> pr (h_ppe (run_ops ops p h) p) w = pr (h_ppe h p) w"
proof -
  have "w \<notin> op_reg ` set ops \<Longrightarrow> fold run_op ops r w = r w" for r
    by (induction ops arbitrary: r) (auto simp: run_op_other simp del: run_op.simps)
  then show "w \<notin> op_reg ` set ops \<Longrightarrow> ?thesis" by (simp add: run_ops_ppe)
qed

definition late_regs :: "int set" where
  "late_regs = {PPE_DFT_CPORT1, PPE_SBW_CTRL, PPE_GLO_CFG, PPE_SB_FIFO_DBG, PPE_TB_CFG, PPE_MIB_CFG, PPE_MIB_CAH_CTRL,
     PPE_DFT_CPORT, PPE_FLOW_CFG, PPE_IP_PROT_CHK, PPE_IP_PROT_0, PPE_IP_PROT_1, PPE_IP_PROT_2, PPE_IP_PROT_3}"

lemma late_ops:
  "op_reg ` set (hw_init_ops2 h) \<subseteq> late_regs" "op_reg ` set (hw_init_mib h) \<subseteq> late_regs"
  by (auto simp: hw_init_ops2_def hw_init_mib_def late_regs_def)

lemma dft_other: "w \<notin> late_regs \<Longrightarrow> pr (h_ppe (hnat_hw_set_dft_cport p h) p) w = pr (h_ppe h p) w"
  by (auto simp: hnat_hw_set_dft_cport_def Let_def late_regs_def intro!: run_ops_other)

lemma prot_other: "w \<notin> late_regs \<Longrightarrow> pr (h_ppe (hnat_hw_set_prot_3t p h) p) w = pr (h_ppe h p) w"
  by (auto simp: hnat_hw_set_prot_3t_def Let_def late_regs_def intro!: run_ops_other)

lemma cache_other:
  assumes "dev_ok d" "w \<notin> cah_iface"
  shows "pr (h_ppe (hnat_cache_ebl_one d p en h) p) w = pr (h_ppe h p) w"
proof -
  have "w \<noteq> PPE_CAH_CTRL" using assms(2) by (auto simp: cah_iface_def)
  then show ?thesis using flush_regs [OF assms]
    by (auto simp: hnat_cache_ebl_one_def hnat_cache_clr_def on_ppe_def)
qed

lemma fe_irq_ppe [simp]: "h_ppe (fe_irq_enable irq p h) = h_ppe h"
  by (simp add: fe_irq_enable_def)

lemma hw_init_reg:
  assumes "dev_ok d" "p < h_ppe_num h" "w \<notin> late_regs" "w \<notin> cah_iface"
  shows "pr (h_ppe (snd (hnat_hw_init irq d p h)) p) w = fold run_op (hw_init_ops h) (pr (h_ppe h p)) w"
proof -
  have "w \<notin> op_reg ` set (hw_init_ops2 h)" "w \<notin> op_reg ` set (hw_init_mib h)"
    using assms(3) late_ops by blast+
  then show ?thesis using assms(2)
    by (simp add: hnat_hw_init_def prot_other [OF assms(3)] dft_other [OF assms(3)] cache_other [OF assms(1,4)]
        run_ops_other) (simp add: run_ops_ppe)
qed

lemma tunable_places:
  "k \<in> {1 .. 6} \<Longrightarrow> fld_word (tunable k) \<notin> late_regs \<and> fld_word (tunable k) \<notin> cah_iface"
  by (elim six_cases [elim_format] disjE)
    (simp_all add: tunable_simps late_regs_def cah_iface_def cah_results_def ppe_reg_defs del: One_nat_def)

lemma hw_init_tunable:
  assumes "dev_ok d" "p < h_ppe_num h" "k \<in> {1 .. 6}"
  shows "tunable_value k p (snd (hnat_hw_init irq d p h)) = tunable_copy k h"
proof -
  have "tunable_value k p (snd (hnat_hw_init irq d p h)) = rd (fold run_op (hw_init_ops h) (pr (h_ppe h p))) (tunable k)"
    unfolding tunable_value_def
    by (rule rd_cong) (use hw_init_reg [OF assms(1,2)] tunable_places [OF assms(3)] in simp)
  then show ?thesis by (simp add: init_ops_tunable [OF assms(3)])
qed

section \<open>The restart\<close>

text \<open>What a restart keeps of the driver's state, and of the engines it is not at.\<close>

definition keeps_copies :: "mtk_hnat \<Rightarrow> mtk_hnat \<Rightarrow> bool" where
  "keeps_copies h h' = (h_ppe_num h' = h_ppe_num h \<and> (\<forall>k \<in> {1 .. 6}. tunable_copy k h' = tunable_copy k h))"

lemma copies_cong:
  assumes "h_ppe_num h' = h_ppe_num h" "h_bind_threshold h' = h_bind_threshold h" "h_tcp_dlta h' = h_tcp_dlta h"
    "h_fin_dlta h' = h_fin_dlta h" "h_udp_dlta h' = h_udp_dlta h" "h_tcp_ka h' = h_tcp_ka h" "h_udp_ka h' = h_udp_ka h"
  shows "keeps_copies h h'"
  using assms by (simp add: keeps_copies_def tunable_copy_def)

lemma run_ops_copies:
  "h_bind_threshold (run_ops ops p h) = h_bind_threshold h" "h_tcp_dlta (run_ops ops p h) = h_tcp_dlta h"
  "h_fin_dlta (run_ops ops p h) = h_fin_dlta h" "h_udp_dlta (run_ops ops p h) = h_udp_dlta h"
  "h_tcp_ka (run_ops ops p h) = h_tcp_ka h" "h_udp_ka (run_ops ops p h) = h_udp_ka h"
  "q \<noteq> p \<Longrightarrow> h_ppe (run_ops ops p h) q = h_ppe h q"
  by (simp_all add: run_ops_def on_ppe_def)

lemma fold_entries:
  fixes p f xs and h :: mtk_hnat
  defines "h' \<equiv> fold (\<lambda>i. on_entry p i f) xs h"
  shows "h_bind_threshold h' = h_bind_threshold h \<and> h_tcp_dlta h' = h_tcp_dlta h \<and> h_fin_dlta h' = h_fin_dlta h
    \<and> h_udp_dlta h' = h_udp_dlta h \<and> h_tcp_ka h' = h_tcp_ka h \<and> h_udp_ka h' = h_udp_ka h \<and> h_ppe h' = h_ppe h"
  unfolding h'_def by (induction xs arbitrary: h) (simp_all add: on_entry_def)

lemma boundary_copies:
  fixes p h
  defines "h' \<equiv> exclude_boundary_entry p h"
  shows "h_bind_threshold h' = h_bind_threshold h" "h_tcp_dlta h' = h_tcp_dlta h" "h_fin_dlta h' = h_fin_dlta h"
    "h_udp_dlta h' = h_udp_dlta h" "h_tcp_ka h' = h_tcp_ka h" "h_udp_ka h' = h_udp_ka h" "h_ppe h' = h_ppe h"
    "h_ppe_num h' = h_ppe_num h"
  unfolding h'_def by (simp_all add: exclude_boundary_entry_def fold_entries) (simp add: boundary_keeps [unfolded exclude_boundary_entry_def])

lemma hw_init_copies:
  fixes irq d p h
  defines "h' \<equiv> snd (hnat_hw_init irq d p h)"
  shows "h_bind_threshold h' = h_bind_threshold h" "h_tcp_dlta h' = h_tcp_dlta h" "h_fin_dlta h' = h_fin_dlta h"
    "h_udp_dlta h' = h_udp_dlta h" "h_tcp_ka h' = h_tcp_ka h" "h_udp_ka h' = h_udp_ka h" "q \<noteq> p \<Longrightarrow> h_ppe h' q = h_ppe h q"
  unfolding h'_def
  by (simp_all add: hnat_hw_init_def hnat_hw_set_prot_3t_def hnat_hw_set_dft_cport_def fe_irq_enable_def run_ops_copies
      hnat_cache_ebl_one_def hnat_cache_clr_def on_ppe_def Let_def)

lemma clear_copies [simp]:
  "h_bind_threshold (clear_table p h) = h_bind_threshold h" "h_tcp_dlta (clear_table p h) = h_tcp_dlta h"
  "h_fin_dlta (clear_table p h) = h_fin_dlta h" "h_udp_dlta (clear_table p h) = h_udp_dlta h"
  "h_tcp_ka (clear_table p h) = h_tcp_ka h" "h_udp_ka (clear_table p h) = h_udp_ka h" "h_ppe (clear_table p h) = h_ppe h"
  "h_ppe_num (clear_table p h) = h_ppe_num h"
  by (simp_all add: clear_table_def)

lemma warm_engine_copies: "keeps_copies h (warm_engine v t p h)" "q \<noteq> p \<Longrightarrow> h_ppe (warm_engine v t p h) q = h_ppe h q"
  by (auto simp: warm_engine_def Let_def hw_init_copies run_ops_copies boundary_copies intro!: copies_cong)

text \<open>The engine itself: the state in which \<open>hnat_hw_init\<close> is called.\<close>

lemma warm_engine_own:
  assumes "dev_ok (v_dev_model v)" "p < h_ppe_num h" "k \<in> {1 .. 6}"
  shows "tunable_value k p (warm_engine v t p h) = tunable_copy k h"
proof -
  obtain g where g: "warm_engine v t p h = snd (hnat_hw_init (et_irq t) (v_dev_model v) p g)" "keeps_copies h g"
  proof
    let ?h1 = "clear_table p (run_ops [Writel (h_table_dev h p) PPE_TB_BASE] p h)"
    let ?h2 = "if h_version h = Hnat_State.MTK_HNAT_V1_1 then exclude_boundary_entry p ?h1 else ?h1"
    let ?h3 = "if h_per_flow_accounting h then run_ops [Writel (h_mib_dev h p) PPE_MIB_TB_BASE] p ?h2 else ?h2"
    show "warm_engine v t p h = snd (hnat_hw_init (et_irq t) (v_dev_model v) p ?h3)"
      by (simp only: warm_engine_def Let_def)
    show "keeps_copies h ?h3" by (auto simp: run_ops_copies boundary_copies intro!: copies_cong)
  qed
  then show ?thesis using hw_init_tunable [OF assms(1) _ assms(3)] assms(2,3) by (simp add: keeps_copies_def)
qed

lemma copies_trans: "keeps_copies h h' \<Longrightarrow> keeps_copies h' h'' \<Longrightarrow> keeps_copies h h''"
  by (simp add: keeps_copies_def)

lemma warm_fold_tunable:
  fixes v t n y
  assumes "dev_ok (v_dev_model v)" "k \<in> {1 .. 6}" "n \<le> h_ppe_num (nf_core (hs_nf y))"
  defines "y' \<equiv> fold (warm_step v t) [0 ..< n] y"
  shows "keeps_copies (nf_core (hs_nf y)) (nf_core (hs_nf y')) \<and>
    (\<forall>p < n. tunable_value k p (nf_core (hs_nf y')) = tunable_copy k (nf_core (hs_nf y)))"
  using assms(3) unfolding y'_def
proof (induction n)
  case (Suc n)
  let ?h = "nf_core (hs_nf y)" and ?g = "nf_core (hs_nf (fold (warm_step v t) [0 ..< n] y))"
  have IH: "keeps_copies ?h ?g" "\<And>p. p < n \<Longrightarrow> tunable_value k p ?g = tunable_copy k ?h" using Suc by auto
  have own: "tunable_value k n (warm_engine v t n ?g) = tunable_copy k ?h"
    using warm_engine_own [OF assms(1) _ assms(2), of n ?g t] IH(1) Suc.prems assms(2) by (simp add: keeps_copies_def)
  have "tunable_value k p (warm_engine v t n ?g) = tunable_value k p ?g" if "p < n" for p
    using that by (simp add: tunable_value_def warm_engine_copies(2))
  then show ?case using IH own copies_trans [OF IH(1) warm_engine_copies(1)] by (auto simp: less_Suc_eq)
qed (simp add: keeps_copies_def)

lemma ports_ppe: "h_ppe (warm_ports t h) = h_ppe h"
proof -
  have "h_ppe (fold (\<lambda>i. snd \<circ> mtk_set_ppe_pse_port_state (et_glo_cfg t) (et_link_down t) i False) xs h) = h_ppe h" for xs
    by (induction xs arbitrary: h) (simp_all add: mtk_set_ppe_pse_port_state_def Let_def)
  then show ?thesis by (simp add: warm_ports_def Let_def)
qed

lemma on_mc_copies: "keeps_copies (nf_core s) (nf_core (on_mc f s))"
  by (rule copies_cong) (simp_all add: on_mc_def upd_core_def Let_def)

text \<open>A restart writes every setting again, from the driver's copy.\<close>

lemma warm_init_tunable:
  assumes "dev_ok (v_dev_model v)" "k \<in> {1 .. 6}" "p < h_ppe_num (nf_core (hs_nf y))"
  shows "tunable_value k p (nf_core (hs_nf (hnat_warm_init v t y))) = tunable_copy k (nf_core (hs_nf y))"
proof -
  let ?y = "on_nf (on_mc (snd \<circ> hnat_mcast_ser_handle)) (y\<lparr>hs_neigh := hnat_neigh_update_cleanup (hs_neigh y)\<rparr>)"
  have c: "keeps_copies (nf_core (hs_nf y)) (nf_core (hs_nf ?y))"
    using on_mc_copies [of "hs_nf y"] by (simp add: on_nf_def)
  then have n: "h_ppe_num (nf_core (hs_nf ?y)) = h_ppe_num (nf_core (hs_nf y))" by (simp add: keeps_copies_def)
  have w: "hnat_warm_init v t y =
      (on_core (warm_ports t) (fold (warm_step v t) [0 ..< h_ppe_num (nf_core (hs_nf y))] ?y))\<lparr>hs_neigh_nb := True\<rparr>"
    unfolding hnat_warm_init_def Let_def warm_step_def using n by simp
  show ?thesis
    using warm_fold_tunable [OF assms(1,2), of "h_ppe_num (nf_core (hs_nf y))" ?y t] n c assms(2,3)
    by (simp add: w tunable_value_def ports_ppe keeps_copies_def)
qed

section \<open>A command in decimal\<close>

definition cmd2 :: "nat \<Rightarrow> nat \<Rightarrow> string" where
  "cmd2 k n = dec k @ CHR '' '' # dec n"

lemma cmd2_no_nul: "CHR 0x00 \<notin> set (cmd2 k n)"
  using dec_nul_free by (auto simp: cmd2_def)

lemma cmd2_args:
  assumes "k < 2 ^ 63" "n < 2 ^ 63"
  shows "first_arg (cmd2 k n) = (int k, Some (dec n))" "strsep blanks (Some (dec n)) = (Some (dec n), None)"
    "arg_of (Some (dec n)) = int n"
proof -
  have "strsep blanks (Some (dec k @ CHR '' '' # dec n)) = (Some (dec k), Some (dec n))"
    by (rule strsep_more) (simp_all add: dec_sep, simp add: blanks_def)
  then show "first_arg (cmd2 k n) = (int k, Some (dec n))"
    using assms by (simp add: first_arg_def cmd2_no_nul) (simp add: cmd2_def arg_of_def kstrtol_dec)
qed (use assms in \<open>simp_all add: dec_sep arg_of_def kstrtol_dec\<close>)


lemma cmd2_length: "k < 10 \<Longrightarrow> n < 10 ^ 20 \<Longrightarrow> length (cmd2 k n) < 32"
  using dec_length [of k 0] dec_length [of n 19] by (simp add: cmd2_def)

section \<open>Settings in the registers\<close>

definition tunable_max :: "nat \<Rightarrow> nat" where
  "tunable_max k = (if k \<le> 4 then 65535 else 255)"

lemma setting_write:
  assumes "de_copy_ok e" "k \<in> {1 .. 6}" "n < 2 ^ 31"
  shows "snd (hnat_setting_write e (cmd2 k n) b) = cr_set_func k (int n) b"
proof -
  have "length (cmd2 k n) < 32" using cmd2_length assms(2,3) by simp
  moreover have "to_int (int n) = int n" using assms(3) by (intro to_int_small) simp_all
  ultimately show ?thesis using assms cmd2_args [of k n]
    by (simp add: hnat_setting_write_def short_input_def)
qed

lemma take_bit_of_nat: "n < 2 ^ l \<Longrightarrow> take_bit l (of_nat n :: u32) = of_nat n"
  by (metis of_nat_take_bit take_bit_nat_eq_self)

lemma ucast_small:
  "n < 2 ^ 16 \<Longrightarrow> ucast (of_nat n :: u16) = (of_nat n :: u32)" "n < 2 ^ 8 \<Longrightarrow> ucast (of_nat n :: u8) = (of_nat n :: u32)"
  by (simp_all add: unsigned_of_nat take_bit_nat_eq_self)

lemma writel_bndr [simp]: "take_bit 16 v = v \<Longrightarrow> rd (run_op (Writel v PPE_BNDR) r) (Fld PPE_BNDR 0 16) = v"
  by (simp add: rd.simps)

text \<open>A value in its range is in the field of every engine and in the driver's copy, and the other fields are
  as before.\<close>

lemma setting_values:
  fixes b k n
  defines "h' \<equiv> db_core (cr_set_func k (int n) b)"
  assumes "k \<in> {1 .. 6}" "n \<le> tunable_max k" "p < h_ppe_num (db_core b)"
  shows "tunable_value k p h' = of_nat n" and "tunable_copy k h' = of_nat n"
    and "j \<in> {1 .. 6} \<Longrightarrow> j \<noteq> k \<Longrightarrow> tunable_value j p h' = tunable_value j p (db_core b)"
    and "h_ppe_num h' = h_ppe_num (db_core b)"
proof -
  have small: "k \<le> 4 \<Longrightarrow> n < 2 ^ 16" "4 < k \<Longrightarrow> n < 2 ^ 8" using assms(3) by (simp_all add: tunable_max_def split: if_splits)
  note defs = h'_def cr_set_func_def binding_threshold_def tcp_bind_lifetime_def fin_bind_lifetime_def udp_bind_lifetime_def
    tcp_keep_alive_def udp_keep_alive_def Let_def
  have copy: "tunable_copy k (all_engines ops g) = tunable_copy k g" for ops g
  proof -
    have "keeps_copies h (fold (run_ops ops) xs h)" for xs h
    proof (induction xs arbitrary: h)
      case (Cons x xs)
      have "keeps_copies h (run_ops ops x h)" by (rule copies_cong) (simp_all add: run_ops_copies)
      then show ?case using copies_trans Cons.IH by auto
    qed (simp add: keeps_copies_def)
    then show ?thesis using assms(2) by (auto simp: all_engines_def keeps_copies_def)
  qed
  show "tunable_value k p h' = of_nat n"
    using assms(2,4) small
    by (elim six_cases [elim_format] disjE)
      (simp_all add: defs tunable_value_def tunable_simps pr_all_engines take_bit_of_nat del: run_op.simps One_nat_def)
  show "tunable_copy k h' = of_nat n"
    using assms(2) small copy
    by (elim six_cases [elim_format] disjE)
      (simp_all add: defs copy_simps ucast_small del: One_nat_def)
  show "h_ppe_num h' = h_ppe_num (db_core b)"
    using assms(2) by (elim six_cases [elim_format] disjE) (simp_all add: defs)
  assume j: "j \<in> {1 .. 6}" "j \<noteq> k"
  show "tunable_value j p h' = tunable_value j p (db_core b)"
    using assms(2,4) small j(2) six_cases [OF j(1)]
    by (elim six_cases [elim_format] disjE)
      (simp_all add: defs tunable_value_def tunable_simps pr_all_engines take_bit_of_nat rd_op_other tun_neq
        del: run_op.simps One_nat_def)
qed

section \<open>Values out of range\<close>

text \<open>A lifetime is not cut to 16 bits: what is beyond them is set in the lifetime of FIN entries.\<close>

lemma lifetime_spills:
  assumes "p < h_ppe_num (db_core b)" "n < 2 ^ 31"
  shows "tunable_value 3 p (db_core (cr_set_func 2 (int n) b))
    = tunable_value 3 p (db_core b) OR of_nat (n div 2 ^ 16)"
proof -
  have sh: "field_shift (mask 16) = 0" "TCP_DLTA = mask 16" by code_simp+
  have d: "drop_bit 16 (of_nat n :: u32) = of_nat (n div 2 ^ 16)"
  proof -
    have "unat (of_nat n :: u32) = n" using assms(2) by (simp add: unsigned_of_nat take_bit_nat_eq_self)
    moreover have "n div 2 ^ 16 < 2 ^ 32" using assms(2) by (simp add: div_less_iff_less_mult)
    moreover have "unat (drop_bit 16 (of_nat n :: u32)) = drop_bit 16 (unat (of_nat n :: u32))"
      by (rule unat_drop_bit_eq)
    ultimately have "unat (drop_bit 16 (of_nat n :: u32)) = unat (of_nat (n div 2 ^ 16) :: u32)"
      by (simp only: drop_bit_eq_div unsigned_of_nat take_bit_nat_eq_self) (simp add: take_bit_nat_eq_self)
    then show ?thesis by (simp add: word_unat_eq_iff)
  qed
  have "take_bit 16 (drop_bit 16 ((w AND NOT (mask 16)) OR of_nat n))
      = take_bit 16 (drop_bit 16 w) OR take_bit 16 (drop_bit 16 (of_nat n))" for w :: u32
    by (rule bit_word_eqI) (auto simp: bit_simps)
  moreover have "take_bit 16 (drop_bit 16 (of_nat n :: u32)) = drop_bit 16 (of_nat n)"
    by (rule bit_word_eqI) (auto simp: bit_simps dest: bit_imp_le_length)
  ultimately show ?thesis using assms d
    by (simp add: cr_set_func_def tcp_bind_lifetime_def tunable_value_def tunable_simps pr_all_engines cr_set_field_def sh rd.simps)
qed

section \<open>A restart and the switches\<close>

lemma keeps_hw_init_rest:
  assumes "dev_ok d" "p < h_ppe_num h"
  shows "sw q (snd (hnat_hw_init irq d p h)) = sw q (run_ops (hw_init_ops h) p h)"
proof -
  have other: "PPE_DFT_CPORT1 \<noteq> PPE_FLOW_CFG" "PPE_DFT_CPORT1 \<noteq> PPE_TB_CFG" "PPE_SBW_CTRL \<noteq> PPE_FLOW_CFG"
      "PPE_SBW_CTRL \<noteq> PPE_TB_CFG" "PPE_GLO_CFG \<noteq> PPE_FLOW_CFG" "PPE_GLO_CFG \<noteq> PPE_TB_CFG"
      "PPE_SB_FIFO_DBG \<noteq> PPE_FLOW_CFG" "PPE_SB_FIFO_DBG \<noteq> PPE_TB_CFG" "PPE_MIB_CFG \<noteq> PPE_FLOW_CFG"
      "PPE_MIB_CFG \<noteq> PPE_TB_CFG" "PPE_MIB_CAH_CTRL \<noteq> PPE_FLOW_CFG" "PPE_MIB_CAH_CTRL \<noteq> PPE_TB_CFG"
    by (simp_all add: ppe_reg_defs)
  have set: "list_all (\<lambda>f. op_keeps f (Set_bits PPE_GLO_CFG bs)) sw_fields" for bs
    using other by (simp add: sw_fields_def op_keeps.simps)
  have sp: "list_all (\<lambda>f. op_keeps f (Set_field PPE_TB_CFG IS_SP_TAG_EN 1)) sw_fields" by code_simp
  have ops: "ops_keep_sw (hw_init_ops2 h)" "ops_keep_sw (hw_init_mib h)"
    by (simp_all add: hw_init_ops2_def hw_init_mib_def keep_sw_Cons keep_sw_other other set sp)
  let ?h1 = "run_ops (hw_init_ops h) p h"
  have "keeps_sw ?h1 (hnat_cache_ebl_one d p True ?h1)" by (rule keeps_cache_one [OF assms(1)])
  also have "keeps_sw \<dots> (run_ops (hw_init_ops2 h) p (hnat_cache_ebl_one d p True ?h1))" (is "keeps_sw _ ?h3")
    by (rule keeps_run_ops [OF ops(1)])
  also have "keeps_sw \<dots> (fe_irq_enable irq p ?h3)" by (rule keeps_sw_same) (simp_all add: fe_irq_enable_def)
  also have "keeps_sw \<dots> (run_ops (hw_init_mib h) p (fe_irq_enable irq p ?h3))" by (rule keeps_run_ops [OF ops(2)])
  also have "keeps_sw \<dots> (hnat_hw_set_dft_cport p (run_ops (hw_init_mib h) p (fe_irq_enable irq p ?h3)))" by (rule keeps_dft_cport)
  also have "keeps_sw \<dots> (hnat_hw_set_prot_3t p (hnat_hw_set_dft_cport p (run_ops (hw_init_mib h) p (fe_irq_enable irq p ?h3))))"
    by (rule keeps_prot_3t)
  finally show ?thesis using assms(2) by (simp add: hnat_hw_init_def keeps_sw_def)
qed

text \<open>The operations of \<open>hw_init_ops\<close> set the bit of DS-Lite, and the other bits stay.\<close>

definition flow_bits :: "regfile \<Rightarrow> bool \<times> bool \<times> bool \<times> bool" where
  "flow_bits r = (bit (r PPE_FLOW_CFG) 14, bit (r PPE_FLOW_CFG) 11, bit (r PPE_FLOW_CFG) 15, bit (r PPE_FLOW_CFG) 31)"

lemma flow_bits_cong: "r PPE_FLOW_CFG = r' PPE_FLOW_CFG \<Longrightarrow> flow_bits r = flow_bits r'"
  by (simp add: flow_bits_def)

lemma set_bits_flow:
  "flow_bits (run_op (Set_bits PPE_FLOW_CFG foe_bits) r) = (True, snd (flow_bits r))"
  "flow_bits (run_op (Set_bits PPE_FLOW_CFG foe_bits_v2) r) = flow_bits r"
  "flow_bits (run_op (Set_bits PPE_FLOW_CFG foe_bits_v3) r) = flow_bits r"
  by (auto simp: flow_bits_def bit_run_op foe_bits_def foe_bits_v2_def foe_bits_v3_def bit_or_iff simp del: run_op.simps)

lemma other_flow: "op_reg op \<noteq> PPE_FLOW_CFG \<Longrightarrow> flow_bits (run_op op r) = flow_bits r"
  by (rule flow_bits_cong) (simp add: run_op_other del: run_op.simps)

lemma others_flow: "list_all (\<lambda>op. op_reg op \<noteq> PPE_FLOW_CFG) ops \<Longrightarrow> flow_bits (fold run_op ops r) = flow_bits r"
  by (induction ops arbitrary: r) (simp_all add: other_flow del: run_op.simps)

lemma init_flow_bits: "flow_bits (fold run_op (hw_init_ops h) r) = (True, snd (flow_bits r))"
proof -
  obtain a c where ops: "hw_init_ops h = a @ [Set_bits PPE_FLOW_CFG foe_bits]
      @ (if hnat_v2_or_v3 h then [Set_bits PPE_FLOW_CFG foe_bits_v2] else [])
      @ (if h_version h = MTK_HNAT_V3 then [Set_bits PPE_FLOW_CFG foe_bits_v3] else []) @ c"
    and a: "list_all (\<lambda>op. op_reg op \<noteq> PPE_FLOW_CFG) a" and c: "list_all (\<lambda>op. op_reg op \<noteq> PPE_FLOW_CFG) c"
  proof
    show "hw_init_ops h = take 6 (hw_init_ops h) @ [Set_bits PPE_FLOW_CFG foe_bits]
      @ (if hnat_v2_or_v3 h then [Set_bits PPE_FLOW_CFG foe_bits_v2] else [])
      @ (if h_version h = MTK_HNAT_V3 then [Set_bits PPE_FLOW_CFG foe_bits_v3] else [])
      @ drop (7 + (if hnat_v2_or_v3 h then 1 else 0) + (if h_version h = MTK_HNAT_V3 then 1 else 0)) (hw_init_ops h)"
      by (simp add: hw_init_ops_def)
    show "list_all (\<lambda>op. op_reg op \<noteq> PPE_FLOW_CFG) (take 6 (hw_init_ops h))"
      "list_all (\<lambda>op. op_reg op \<noteq> PPE_FLOW_CFG)
        (drop (7 + (if hnat_v2_or_v3 h then 1 else 0) + (if h_version h = MTK_HNAT_V3 then 1 else 0)) (hw_init_ops h))"
      by (simp_all add: hw_init_ops_def tun_neq)
  qed
  show ?thesis
    unfolding ops by (simp add: others_flow a c set_bits_flow del: run_op.simps)
qed

definition dslite_on :: "nat \<Rightarrow> mtk_hnat \<Rightarrow> bool" where
  "dslite_on p h = bit (pr (h_ppe h p) PPE_FLOW_CFG) 14"

lemma hw_init_dslite:
  assumes "dev_ok d" "p < h_ppe_num h"
  shows "dslite_on p (snd (hnat_hw_init irq d p h))"
proof -
  have "sw p (snd (hnat_hw_init irq d p h)) = sw p (run_ops (hw_init_ops h) p h)" by (rule keeps_hw_init_rest [OF assms])
  then have "dslite_on p (snd (hnat_hw_init irq d p h)) = dslite_on p (run_ops (hw_init_ops h) p h)"
    unfolding sw_bits list.map list.inject of_bool_eq_iff dslite_on_def by simp
  moreover have "fst (flow_bits (fold run_op (hw_init_ops h) (pr (h_ppe h p))))" by (simp add: init_flow_bits)
  ultimately show ?thesis by (simp add: dslite_on_def run_ops_ppe flow_bits_def)
qed

lemma warm_engine_dslite:
  assumes "dev_ok (v_dev_model v)" "p < h_ppe_num h"
  shows "dslite_on p (warm_engine v t p h)"
proof -
  obtain g where "warm_engine v t p h = snd (hnat_hw_init (et_irq t) (v_dev_model v) p g)" "h_ppe_num g = h_ppe_num h"
  proof
    let ?h1 = "clear_table p (run_ops [Writel (h_table_dev h p) PPE_TB_BASE] p h)"
    let ?h2 = "if h_version h = Hnat_State.MTK_HNAT_V1_1 then exclude_boundary_entry p ?h1 else ?h1"
    let ?h3 = "if h_per_flow_accounting h then run_ops [Writel (h_mib_dev h p) PPE_MIB_TB_BASE] p ?h2 else ?h2"
    show "warm_engine v t p h = snd (hnat_hw_init (et_irq t) (v_dev_model v) p ?h3)"
      by (simp only: warm_engine_def Let_def)
    show "h_ppe_num ?h3 = h_ppe_num h" by (simp add: boundary_copies)
  qed
  then show ?thesis using hw_init_dslite [OF assms(1)] assms(2) by simp
qed

lemma warm_fold_dslite:
  assumes "dev_ok (v_dev_model v)" "n \<le> h_ppe_num (nf_core (hs_nf y))"
  shows "h_ppe_num (nf_core (hs_nf (fold (warm_step v t) [0 ..< n] y))) = h_ppe_num (nf_core (hs_nf y)) \<and>
    (\<forall>p < n. dslite_on p (nf_core (hs_nf (fold (warm_step v t) [0 ..< n] y))))"
  using assms(2)
proof (induction n)
  case (Suc n)
  let ?g = "nf_core (hs_nf (fold (warm_step v t) [0 ..< n] y))"
  have "dslite_on p (warm_engine v t n ?g) = dslite_on p ?g" if "p < n" for p
    using that by (simp add: dslite_on_def warm_engine_copies(2))
  moreover have "dslite_on n (warm_engine v t n ?g)" using warm_engine_dslite [OF assms(1)] Suc by simp
  ultimately show ?case using Suc warm_engine_copies(1) [of ?g v t n] by (auto simp: less_Suc_eq keeps_copies_def)
qed simp

lemma warm_init_dslite:
  assumes "dev_ok (v_dev_model v)" "p < h_ppe_num (nf_core (hs_nf y))"
  shows "dslite_on p (nf_core (hs_nf (hnat_warm_init v t y)))"
    and "h_ppe_num (nf_core (hs_nf (hnat_warm_init v t y))) = h_ppe_num (nf_core (hs_nf y))"
proof -
  let ?y = "on_nf (on_mc (snd \<circ> hnat_mcast_ser_handle)) (y\<lparr>hs_neigh := hnat_neigh_update_cleanup (hs_neigh y)\<rparr>)"
  have n: "h_ppe_num (nf_core (hs_nf ?y)) = h_ppe_num (nf_core (hs_nf y))" by (simp add: on_nf_def)
  have w: "hnat_warm_init v t y =
      (on_core (warm_ports t) (fold (warm_step v t) [0 ..< h_ppe_num (nf_core (hs_nf y))] ?y))\<lparr>hs_neigh_nb := True\<rparr>"
    unfolding hnat_warm_init_def Let_def warm_step_def using n by simp
  have ports: "h_ppe_num (warm_ports t h) = h_ppe_num h" for h
  proof -
    have "h_ppe_num (fold (\<lambda>i. snd \<circ> mtk_set_ppe_pse_port_state (et_glo_cfg t) (et_link_down t) i False) xs h) = h_ppe_num h" for xs
      by (induction xs arbitrary: h) (simp_all add: mtk_set_ppe_pse_port_state_def Let_def)
    then show ?thesis by (simp add: warm_ports_def Let_def)
  qed
  have f: "h_ppe_num (nf_core (hs_nf (fold (warm_step v t) [0 ..< h_ppe_num (nf_core (hs_nf y))] ?y))) = h_ppe_num (nf_core (hs_nf y))
      \<and> (\<forall>p < h_ppe_num (nf_core (hs_nf y)). dslite_on p (nf_core (hs_nf (fold (warm_step v t) [0 ..< h_ppe_num (nf_core (hs_nf y))] ?y))))"
    using warm_fold_dslite [OF assms(1), of "h_ppe_num (nf_core (hs_nf y))" ?y t] n by simp
  show "dslite_on p (nf_core (hs_nf (hnat_warm_init v t y)))"
    using f assms(2) by (simp add: w dslite_on_def ports_ppe)
  show "h_ppe_num (nf_core (hs_nf (hnat_warm_init v t y))) = h_ppe_num (nf_core (hs_nf y))"
    using f by (simp add: w ports)
qed

end
