(* ===== verification/Hnat_Static_Props.thy ===== *)
theory Hnat_Static_Props
  imports Hnat_Debug_System Scan_Props Hnat_Bind_Spec
begin

text \<open>
  The command that stores a flow entry: the line of a flow, the entry it becomes, and the place where the
  entry goes.
\<close>

section \<open>Addresses\<close>

definition two_hex :: "u8 \<Rightarrow> string" where
  "two_hex b = [hexdigit (unat b div 16), hexdigit (unat b mod 16)]"

text \<open>The form of \<^verbatim>\<open>%pM\<close>.\<close>

definition mac_text :: "u8 list \<Rightarrow> string" where
  "mac_text m = two_hex (m ! 0) @ CHR '':'' # two_hex (m ! 1) @ CHR '':'' # two_hex (m ! 2) @ CHR '':''
     # two_hex (m ! 3) @ CHR '':'' # two_hex (m ! 4) @ CHR '':'' # two_hex (m ! 5)"

lemma byte_div: "unat (b :: u8) div 16 < 16" "unat b mod 16 < 16"
  using unsigned_less [of b, where ?'a = nat] by (simp_all add: div_less_iff_less_mult)

lemma char2hex_digit: "k < 16 \<Longrightarrow> hnat_char2hex (hexdigit k) = of_nat k"
  by (simp add: hnat_char2hex_def)

lemma byte_of_digits:
  "ucast (push_bit 4 (hnat_char2hex (hexdigit (unat b div 16))) + hnat_char2hex (hexdigit (unat b mod 16))) = (b :: u8)"
proof -
  have "push_bit 4 (of_nat (unat b div 16) :: u32) + of_nat (unat b mod 16) = of_nat (unat b div 16 * 16 + unat b mod 16)"
    by (simp only: push_bit_eq_mult of_nat_add of_nat_mult) simp
  also have "\<dots> = of_nat (unat b)" by (simp only: div_mult_mod_eq)
  finally have "push_bit 4 (of_nat (unat b div 16) :: u32) + of_nat (unat b mod 16) = of_nat (unat b)" .
  moreover have "ucast (of_nat (unat b) :: u32) = b"
    by (rule bit_word_eqI) (auto simp: bit_simps dest: bit_imp_le_length)
  ultimately show ?thesis by (simp only: char2hex_digit byte_div)
qed

lemma parse_mac_text: "length m = 6 \<Longrightarrow> hnat_parse_mac (mac_text m @ r) = m"
proof -
  assume "length m = 6"
  then obtain m0 m1 m2 m3 m4 m5 where m: "m = [m0, m1, m2, m3, m4, m5]"
    by (auto simp: numeral_eq_Suc length_Suc_conv)
  show ?thesis
    by (simp add: m hnat_parse_mac_def mac_text_def two_hex_def upt_rec [of _ 6] byte_of_digits)
qed

lemma mac_text_word: "word 18 (mac_text m)"
proof -
  have colon: "\<not> isspace CHR '':''" by code_simp
  have "\<forall>c \<in> set (two_hex b). \<not> isspace c \<and> c \<noteq> CHR 0x00" for b
    using hexdigit_neq(2,3) byte_div by (auto simp: two_hex_def)
  then show ?thesis by (simp add: word_def mac_text_def colon) (simp add: two_hex_def)
qed

section \<open>Lines\<close>

text \<open>A line for a flow of IPv4: the index (or \<open>-1\<close>), the two information blocks, the flow as it comes in and
  as it goes out, and the link layer.\<close>

record static_cmd =
  sc_index :: "nat option"
  sc_ib1 :: u32
  sc_sip :: u32
  sc_dip :: u32
  sc_sport :: u16
  sc_dport :: u16
  sc_ib2 :: u32
  sc_new_sip :: u32
  sc_new_dip :: u32
  sc_new_sport :: u16
  sc_new_dport :: u16
  sc_dmac :: "u8 list"
  sc_smac :: "u8 list"
  sc_tport :: u32
  sc_tops :: u32
  sc_cdrt :: u32

definition static_cols :: "static_cmd \<Rightarrow> (scan_item \<times> string \<times> scan_val) list" where
  "static_cols c =
     (let w = (\<lambda>x :: u32. (S_hex 8, hex (unat x), V_word x)); p = (\<lambda>x :: u16. (S_hex16 4, hex (unat x), V_word (ucast x)));
          m = (\<lambda>a. (S_str 18, mac_text a, V_str (mac_text a))); s = (\<lambda>x :: u32. (S_hex 4, hex (unat x), V_word x))
      in [(case sc_index c of None \<Rightarrow> (S_int 5, ''-1'', V_int (- 1)) | Some i \<Rightarrow> (S_int 5, dec i, V_int (int i))),
          w (sc_ib1 c), w (sc_sip c), w (sc_dip c), p (sc_sport c), p (sc_dport c), w (sc_ib2 c), w (sc_new_sip c),
          w (sc_new_dip c), p (sc_new_sport c), p (sc_new_dport c), m (sc_dmac c), m (sc_smac c), s (sc_tport c),
          s (sc_tops c), s (sc_cdrt c)])"

definition static_line :: "static_cmd \<Rightarrow> string" where
  "static_line c = join (map (fst \<circ> snd) (static_cols c))"

definition static_cmd_ok :: "static_cmd \<Rightarrow> mtk_hnat \<Rightarrow> bool" where
  "static_cmd_ok c h =
     (length (sc_dmac c) = 6 \<and> length (sc_smac c) = 6 \<and> ids_fit (sc_tport c) (sc_tops c) (sc_cdrt c) \<and>
      (case sc_index c of None \<Rightarrow> True | Some i \<Rightarrow> i < h_etry_num h) \<and> h_etry_num h \<le> DEF_ETRY_NUM)"

lemma scans_minus1: "scans (S_int 5) ''-1'' (V_int (- 1))"
proof -
  have "scan_unsigned 10 4 (''1'' @ r) = (1, r)" if "ends r" for r
  proof (rule unsigned_printed [OF _ _ _ _ _ that])
    have "\<not> is_x CHR ''1''" by code_simp
    then show "\<And>c. c \<in> set ''1'' \<Longrightarrow> \<not> is_x c" by simp
    have "digit_val CHR ''1'' = Some 1" by code_simp
    then show "\<And>s. parse_integer 10 (''1'' @ s) 0 0 = parse_integer 10 s 1 (length ''1'')" by simp
  qed simp_all
  moreover have "is_digit 10 CHR ''1''" "\<not> isspace CHR ''-''" "\<not> isspace CHR ''1''" by code_simp+
  ultimately show ?thesis by (simp add: scans_def scan_number_def skip_spaces_def)
qed

lemma and_mask_less: "x AND m = x \<Longrightarrow> unat m < k \<Longrightarrow> unat x < k" for x m :: u32
proof -
  assume "x AND m = x" and k: "unat m < k"
  then have "x \<le> m" by (metis word_and_le1)
  then show ?thesis using k by (simp add: word_le_nat_alt)
qed

lemma small_ids: "ids_fit t o' c \<Longrightarrow> unat t < 16 ^ 4 \<and> unat o' < 16 ^ 4 \<and> unat c < 16 ^ 4"
  unfolding ids_fit_def by (auto intro: and_mask_less)

lemma unat_16: "unat (x :: u32) < 16 ^ 8" "unat (y :: u16) < 2 ^ 16"
  using unat_u32_less [of x] unat_u16_less [of y] by simp_all

lemma cols_scan:
  assumes "static_cmd_ok c h"
  shows "list_all scans3 (static_cols c)"
proof -
  have w: "scans3 (S_hex 8, hex (unat x), V_word x)" for x :: u32
    using scans_hex [of "unat x" 7] unat_16(1) [of x] by (simp add: scans3_def)
  have p: "scans3 (S_hex16 4, hex (unat x), V_word (ucast x))" for x :: u16
  proof -
    have "(of_nat (unat x) :: u32) = ucast x" by simp
    then show ?thesis using scans_hex16 [of "unat x"] unat_16(2) [of x] by (simp add: scans3_def)
  qed
  have m: "scans3 (S_str 18, mac_text a, V_str (mac_text a))" for a
    using scans_word [OF mac_text_word] by (simp add: scans3_def)
  have s: "scans3 (S_hex 4, hex (unat x), V_word x)" if "unat x < 16 ^ 4" for x :: u32
    using scans_hex [of "unat x" 3] that by (simp add: scans3_def)
  have i: "scans3 (case sc_index c of None \<Rightarrow> (S_int 5, ''-1'', V_int (- 1)) | Some i \<Rightarrow> (S_int 5, dec i, V_int (int i)))"
  proof (cases "sc_index c")
    case (Some i)
    then have "i < 10 ^ Suc 4" using assms by (simp add: static_cmd_ok_def DEF_ETRY_NUM_def)
    then show ?thesis using Some scans_dec [of i 4] by (simp add: scans3_def)
  qed (simp add: scans3_def scans_minus1)
  have ids: "unat (sc_tport c) < 16 ^ 4" "unat (sc_tops c) < 16 ^ 4" "unat (sc_cdrt c) < 16 ^ 4"
    using small_ids [of "sc_tport c" "sc_tops c" "sc_cdrt c"] assms unfolding static_cmd_ok_def by blast+
  show ?thesis unfolding static_cols_def Let_def using i w p m s ids by simp
qed

text \<open>The two scans of a line.\<close>

lemma fmt_ipv4:
  "parse_fmt STATIC_FMT_IPV4 = spaced [S_int 5, S_hex 8, S_hex 8, S_hex 8, S_hex16 4, S_hex16 4, S_hex 8, S_hex 8, S_hex 8,
     S_hex16 4, S_hex16 4, S_str 18, S_str 18, S_hex 4, S_hex 4, S_hex 4]"
  "parse_fmt ''%5d %8x'' = spaced [S_int 5, S_hex 8]"
  by code_simp+

lemma cols_fmt: "spaced (map fst (static_cols c)) = parse_fmt STATIC_FMT_IPV4"
  unfolding fmt_ipv4 by (simp add: static_cols_def Let_def split: option.split)

lemma cols_texts:
  "map (fst \<circ> snd) (static_cols c) = (case sc_index c of None \<Rightarrow> ''-1'' | Some i \<Rightarrow> dec i)
     # map (\<lambda>x. hex (unat x)) [sc_ib1 c, sc_sip c, sc_dip c] @ map (\<lambda>x. hex (unat x)) [sc_sport c, sc_dport c]
     @ map (\<lambda>x. hex (unat x)) [sc_ib2 c, sc_new_sip c, sc_new_dip c]
     @ map (\<lambda>x. hex (unat x)) [sc_new_sport c, sc_new_dport c] @ map mac_text [sc_dmac c, sc_smac c]
     @ map (\<lambda>x. hex (unat x)) [sc_tport c, sc_tops c, sc_cdrt c]"
  by (simp add: static_cols_def Let_def split: option.split)

lemma line_chars: "CHR 0x00 \<notin> set (static_line c)"
proof
  assume "CHR 0x00 \<in> set (static_line c)"
  then have "CHR 0x00 = CHR '' '' \<or> (\<exists>t \<in> set (map (fst \<circ> snd) (static_cols c)). CHR 0x00 \<in> set t)"
    unfolding static_line_def by (rule join_chars)
  moreover have "CHR 0x00 \<noteq> CHR '' ''" by simp
  ultimately obtain t where t: "t \<in> set (map (fst \<circ> snd) (static_cols c))" "CHR 0x00 \<in> set t" by blast
  have h: "CHR 0x00 \<notin> set (hex n)" for n using hex_char hexdigit_neq(3) by metis
  have m: "CHR 0x00 \<notin> set (mac_text a)" for a using mac_text_word by (auto simp: word_def)
  have i: "CHR 0x00 \<notin> set (case sc_index c of None \<Rightarrow> ''-1'' | Some i \<Rightarrow> dec i)"
    using dec_nul_free by (cases "sc_index c") simp_all
  define x where "x = (case sc_index c of None \<Rightarrow> ''-1'' | Some i \<Rightarrow> dec i)"
  have "set (map (fst \<circ> snd) (static_cols c)) \<subseteq> insert x (range hex \<union> range mac_text)"
    unfolding cols_texts x_def [symmetric] by simp
  then have "t = x \<or> t \<in> range hex \<or> t \<in> range mac_text" using t(1) by blast
  then show False using t(2) h m i [folded x_def] by blast
qed

lemma line_scan:
  assumes "static_cmd_ok c h"
  shows "sscanf (static_line c) STATIC_FMT_IPV4 = map (snd \<circ> snd) (static_cols c)"
proof -
  have "scan_items (spaced (map fst (static_cols c))) (static_line c @ []) = map (snd \<circ> snd) (static_cols c)"
    unfolding static_line_def by (rule scan_line [OF cols_scan [OF assms]]) (simp add: ends_def)
  then show ?thesis by (simp only: sscanf_def until_nul_self [OF line_chars] cols_fmt append_Nil2)
qed

lemma line_first:
  assumes "static_cmd_ok c h"
  shows "\<exists>v. sscanf (static_line c) ''%5d %8x'' = [V_int v, V_word (sc_ib1 c)]"
proof -
  obtain x y xs where cols: "static_cols c = x # y # xs" "xs \<noteq> []" "y = (S_hex 8, hex (unat (sc_ib1 c)), V_word (sc_ib1 c))"
      "fst x = S_int 5" "\<exists>v. snd (snd x) = V_int v"
    by (simp add: static_cols_def Let_def split: option.split)
  have "static_line c = join (map (fst \<circ> snd) [x, y]) @ CHR '' '' # join (map (fst \<circ> snd) xs)"
    using join_append [of "map (fst \<circ> snd) [x, y]" "map (fst \<circ> snd) xs"] cols(2) unfolding static_line_def cols(1) by simp
  moreover have "scan_items (spaced (map fst [x, y])) (join (map (fst \<circ> snd) [x, y]) @ CHR '' '' # join (map (fst \<circ> snd) xs))
      = map (snd \<circ> snd) [x, y]"
    by (rule scan_line) (use cols_scan [OF assms] in \<open>simp_all add: cols(1) ends_def\<close>)
  ultimately have "scan_items (spaced [S_int 5, S_hex 8]) (static_line c) = map (snd \<circ> snd) [x, y]"
    by (simp only: cols(3,4) list.map fst_conv)
  then have "sscanf (static_line c) ''%5d %8x'' = map (snd \<circ> snd) [x, y]"
    by (simp only: sscanf_def until_nul_self [OF line_chars] fmt_ipv4(2))
  then show ?thesis using cols(3,5) by auto
qed

lemma line_length:
  assumes "static_cmd_ok c h"
  shows "length (static_line c) < 256"
proof -
  have h: "length (hex (unat x)) \<le> 8" for x :: u32 using hex_length [of "unat x" 7] unat_16(1) [of x] by simp
  have p: "length (hex (unat x)) \<le> 4" for x :: u16 using hex_length [of "unat x" 3] unat_16(2) [of x] by simp
  have i: "length (case sc_index c of None \<Rightarrow> ''-1'' | Some i \<Rightarrow> dec i) \<le> 5"
  proof (cases "sc_index c")
    case (Some i)
    then show ?thesis using dec_length [of i 4] assms by (simp add: static_cmd_ok_def DEF_ETRY_NUM_def)
  qed simp
  have m: "length (mac_text a) \<le> 18" for a using mac_text_word by (simp add: word_def)
  have "Suc (length (static_line c)) = sum_list (map (Suc \<circ> length) (map (fst \<circ> snd) (static_cols c)))"
    unfolding static_line_def by (rule join_length) (simp add: cols_texts)
  also have "\<dots> \<le> 160"
    using i h [of "sc_ib1 c"] h [of "sc_sip c"] h [of "sc_dip c"] p [of "sc_sport c"] p [of "sc_dport c"] h [of "sc_ib2 c"]
      h [of "sc_new_sip c"] h [of "sc_new_dip c"] p [of "sc_new_sport c"] p [of "sc_new_dport c"] m [of "sc_dmac c"]
      m [of "sc_smac c"] h [of "sc_tport c"] h [of "sc_tops c"] h [of "sc_cdrt c"]
    unfolding cols_texts by simp
  finally show ?thesis by simp
qed

section \<open>The entry\<close>

definition static_entry :: "static_cmd \<Rightarrow> foe_words" where
  "static_entry c =
     (let l = hnat_ipv4_hnapt
      in asg ([(in_view l ''sip'', sc_sip c), (in_view l ''dip'', sc_dip c), (in_view l ''sport'', ucast (sc_sport c)),
               (in_view l ''dport'', ucast (sc_dport c)), (in_view l ''info_blk2'', sc_ib2 c),
               (in_view l ''new_sip'', sc_new_sip c), (in_view l ''new_dip'', sc_new_dip c),
               (in_view l ''new_sport'', ucast (sc_new_sport c)), (in_view l ''new_dport'', ucast (sc_new_dport c))]
              @ static_ids l (sc_tport c) (sc_tops c) (sc_cdrt c) @ fill_macs l (sc_dmac c) (sc_smac c))
           (zero_words(0 := sc_ib1 c)))"

definition static_start :: "static_cmd \<Rightarrow> mtk_hnat \<Rightarrow> nat" where
  "static_start c h = (case sc_index c of Some i \<Rightarrow> i | None \<Rightarrow> unat (hnat_get_ppe_hash (static_entry c) h))"

lemma static_parse_line:
  assumes "static_cmd_ok c h" and "pkt_type (zero_words(0 := sc_ib1 c)) = IPV4_HNAPT"
  shows "static_parse e (static_line c) h
    = Some (case sc_index c of None \<Rightarrow> - 1 | Some i \<Rightarrow> int i, static_entry c)"
proof -
  obtain v where v: "sscanf (static_line c) ''%5d %8x'' = [V_int v, V_word (sc_ib1 c)]" using line_first [OF assms(1)] by blast
  have mac: "static_mac e (mac_text a) = a" if "length a = 6" for a
    using parse_mac_text [OF that] by (simp add: static_mac_def)
  have ok: "length (sc_dmac c) = 6" "length (sc_smac c) = 6" "ids_fit (sc_tport c) (sc_tops c) (sc_cdrt c)"
    using assms(1) by (simp_all add: static_cmd_ok_def)
  have hash: "hash_ok (case sc_index c of None \<Rightarrow> - 1 | Some i \<Rightarrow> int i) h"
    using assms(1) by (auto simp: static_cmd_ok_def hash_ok_def split: option.splits)
  have vals: "map (snd \<circ> snd) (static_cols c) = [V_int (case sc_index c of None \<Rightarrow> - 1 | Some i \<Rightarrow> int i), V_word (sc_ib1 c),
      V_word (sc_sip c), V_word (sc_dip c), V_word (ucast (sc_sport c)), V_word (ucast (sc_dport c)), V_word (sc_ib2 c),
      V_word (sc_new_sip c), V_word (sc_new_dip c), V_word (ucast (sc_new_sport c)), V_word (ucast (sc_new_dport c)),
      V_str (mac_text (sc_dmac c)), V_str (mac_text (sc_smac c)), V_word (sc_tport c), V_word (sc_tops c), V_word (sc_cdrt c)]"
    by (simp add: static_cols_def Let_def split: option.split)
  show ?thesis
    unfolding static_parse_def v list.case scan_val.case Let_def assms(2) line_scan [OF assms(1)] vals
    by (simp add: static_ipv4_def hash ok mac static_entry_def Let_def)
qed

lemma rd_word: "rd (wr (Fld 4 0 32) v e) (Fld 4 lo n) = rd (zero_words(4 := v)) (Fld 4 lo n)"
proof -
  have "wr (Fld 4 0 32) v e 4 = v"
    by (rule bit_word_eqI) (auto simp: wr.simps bit_simps)
  then show ?thesis by (simp add: rd.simps)
qed

lemmas static_rw = static_entry_def static_ids_def fill_macs_def flow_rw

lemma static_tport_places [foe_fld]:
  "in_view hnat_ipv4_hnapt ''tport_id'' = Fld 19 16 4 \<and> in_view hnat_ipv4_hnapt ''tops_entry'' = Fld 19 8 6 \<and>
   in_view hnat_ipv4_hnapt ''cdrt_id'' = Fld 19 0 8"
  using fld_in_view_ipv4_hnapt by blast

lemma mac_fits: "take_bit 16 (mac_lo m) = mac_lo m"
  by (simp add: mac_lo_def)

lemma static_word0: "static_entry c 0 = sc_ib1 c"
  by (simp add: static_rw)

lemma static_info: "m \<in> {''udp'', ''pkt_type'', ''state'', ''sp''} \<Longrightarrow> rd (static_entry c) (bfib1 m) = rd (zero_words(0 := sc_ib1 c)) (bfib1 m)"
  by (rule rd_cong) (auto simp: foe_fld static_word0)

lemma static_match:
  "hw_match (static_entry c) = \<lparr>fk_sip = sc_sip c, fk_dip = sc_dip c, fk_sport = ucast (sc_sport c),
     fk_dport = ucast (sc_dport c), fk_udp = (rd (zero_words(0 := sc_ib1 c)) (bfib1 ''udp'') = 1)\<rparr>"
proof -
  have "fv_udp (hw_flow (static_entry c)) = rd (zero_words(0 := sc_ib1 c)) (bfib1 ''udp'')"
    using static_info [of "''udp''" c] by (simp add: hw_flow_def Let_def)
  then show ?thesis by (simp add: hw_match_def Let_def) (simp add: static_rw)
qed

lemma static_rewrite:
  "po_sip (hw_rewrite (static_entry c)) = sc_new_sip c" "po_dip (hw_rewrite (static_entry c)) = sc_new_dip c"
  "po_sport (hw_rewrite (static_entry c)) = ucast (sc_new_sport c)" "po_dport (hw_rewrite (static_entry c)) = ucast (sc_new_dport c)"
  "po_dmac (hw_rewrite (static_entry c)) = (mac_hi (sc_dmac c), mac_lo (sc_dmac c))"
  "po_smac (hw_rewrite (static_entry c)) = (mac_hi (sc_smac c), mac_lo (sc_smac c))"
  by (simp_all add: hw_rewrite_def Let_def) (simp_all add: static_rw mac_fits)

lemma static_port:
  "po_port (hw_rewrite (static_entry c)) = rd (zero_words(4 := sc_ib2 c)) (iblk2 hnat_ipv4_hnapt ''dp'')"
proof -
  have "static_entry c 4 = sc_ib2 c"
  proof -
    have "wr (Fld 4 0 32) (sc_ib2 c) e 4 = sc_ib2 c" for e
      by (rule bit_word_eqI) (auto simp: wr.simps bit_simps)
    then show ?thesis by (simp add: static_entry_def static_ids_def fill_macs_def Let_def foe_fld)
  qed
  then have "rd (static_entry c) (Fld 4 9 4) = rd (zero_words(4 := sc_ib2 c)) (Fld 4 9 4)" by (intro rd_cong) simp
  then show ?thesis by (simp add: hw_rewrite_def hw_flow_def Let_def foe_fld)
qed

section \<open>The place\<close>

lemma static_probe_result:
  assumes "s + n < len"
  shows "\<exists>i. static_probe len tab n s = Some i \<and> s \<le> i \<and> i \<le> s + n
    \<and> (\<forall>j. s \<le> j \<and> j < i \<longrightarrow> entry_hnat_is_bound (tab j)) \<and> (entry_hnat_is_bound (tab i) \<longrightarrow> i = s + n)"
  using assms
proof (induction n arbitrary: s)
  case (Suc n)
  show ?case
  proof (cases "entry_hnat_is_bound (tab s)")
    case True
    obtain i where "static_probe len tab n (Suc s) = Some i" "Suc s \<le> i" "i \<le> Suc s + n"
        "\<forall>j. Suc s \<le> j \<and> j < i \<longrightarrow> entry_hnat_is_bound (tab j)" "entry_hnat_is_bound (tab i) \<longrightarrow> i = Suc s + n"
      using Suc.IH [of "Suc s"] Suc.prems by auto
    moreover have "\<forall>j. s \<le> j \<and> j < i \<longrightarrow> entry_hnat_is_bound (tab j)"
      using calculation(4) True by (metis Suc_leI le_neq_implies_less)
    ultimately show ?thesis using True Suc.prems by (intro exI [of _ i]) auto
  next
    case False
    then show ?thesis using Suc.prems by (intro exI [of _ s]) auto
  qed
qed auto

text \<open>The whole command.\<close>

lemma static_write_result:
  fixes c b
  defines "h \<equiv> db_core b" and "x \<equiv> static_entry c"
  assumes ok: "static_cmd_ok c h" "pkt_type (zero_words(0 := sc_ib1 c)) = IPV4_HNAPT" "de_copy_ok e"
    and len: "h_table_len h (static_ppe x h) = Some len" "static_start c h + 4 < len"
  shows "\<exists>i b'. hnat_static_entry_write e (static_line c) b = Some (int (length (static_line c)), b')
    \<and> static_start c h \<le> i \<and> i \<le> static_start c h + 4
    \<and> (\<forall>j. static_start c h \<le> j \<and> j < i \<longrightarrow> entry_hnat_is_bound (h_table h (static_ppe x h) j))
    \<and> (entry_hnat_is_bound (h_table h (static_ppe x h) i) \<longrightarrow> i = static_start c h + 4)
    \<and> db_core b' = on_entry (static_ppe x h) i (foe_copy x) h"
proof -
  obtain i where i: "static_probe len (h_table h (static_ppe x h)) 4 (static_start c h) = Some i"
      "static_start c h \<le> i \<and> i \<le> static_start c h + 4
    \<and> (\<forall>j. static_start c h \<le> j \<and> j < i \<longrightarrow> entry_hnat_is_bound (h_table h (static_ppe x h) j))
    \<and> (entry_hnat_is_bound (h_table h (static_ppe x h) i) \<longrightarrow> i = static_start c h + 4)"
    using static_probe_result [OF len(2), of "h_table h (static_ppe x h)"] by blast
  have start: "nat (if (case sc_index c of None \<Rightarrow> - 1 | Some i \<Rightarrow> int i) = - 1 then uint (hnat_get_ppe_hash x h)
      else (case sc_index c of None \<Rightarrow> - 1 | Some i \<Rightarrow> int i)) = static_start c h"
    by (simp add: static_start_def x_def split: option.split)
  have "hnat_static_entry_write e (static_line c) b = Some (int (length (static_line c)),
      (on_db_core (on_entry (static_ppe x h) i (foe_copy x)) b)\<lparr>db_level := 7\<rparr>)"
    using static_parse_line [OF ok(1,2), of e] line_length [OF ok(1)] ok(3) len(1) i(1)
    unfolding hnat_static_entry_write_def Let_def h_def [symmetric] x_def [symmetric] by (simp add: start)
  then show ?thesis using i(2) by (auto simp: h_def)
qed

end
