(* ===== verification/Hnat_Debug_Theorems.thy ===== *)
theory Hnat_Debug_Theorems
  imports Hnat_Debug_Restart Hnat_Static_Props Hnat_Packet_Theorems
begin

text \<open>
  The properties of the debug commands: the switches and the registers, the settings, flow entries written by
  hand, the table of 464XLAT, the multicast blacklist, and entries that are deleted.
\<close>

section \<open>A state to try the theorems on\<close>

text \<open>Its registers follow the switches, which are all off but DS-Lite, and the MAP-E variant is not chosen.\<close>

definition demo_db :: debugfs where
  "demo_db = \<lparr>db_env = demo_nf_env, db_sys = on_core (\<lambda>h. h\<lparr>h_ppe := (\<lambda>p. \<lparr>pr = (\<lambda>r. if r = PPE_FLOW_CFG then BIT 14 else 0),
       p_ops = []\<rparr>)\<rparr>) demo_sys,
     db_level = 7, db_cpu_reason = 0, db_entry_state = 0, db_reason_cnt = replicate 32 0, db_mcast_mode = 0, db_pfx_len = 0,
     db_l2br = 0\<rparr>"

definition demo_dbg_env :: dbg_env where
  "demo_dbg_env = \<lparr>de_copy_ok = True, de_nf_ok = True, de_mem = True, de_in4 = (\<lambda>s. Some (htonl 0xC0A80102)),
     de_in6 = (\<lambda>s. Some [1, 2, 3, 4]), de_ext_new = None, de_junk4 = 0, de_junk6 = [], de_junk = []\<rparr>"

lemma demo_db_core: "db_core demo_db = (nf_core demo_nf)\<lparr>h_ppe := (\<lambda>p. \<lparr>pr = (\<lambda>r. if r = PPE_FLOW_CFG then BIT 14 else 0),
       p_ops = []\<rparr>)\<rparr>"
  by (simp add: demo_db_def db_core_def on_core_def on_nf_def upd_core_def demo_sys_def)

lemma demo_db_simps [simp]:
  "h_ppe_num (db_core demo_db) = 1" "h_etry_num (db_core demo_db) = 32768" "db_env demo_db = demo_nf_env"
  "h_table_len (db_core demo_db) p = Some 32768" "v_dev_model demo_nf_env = demo_dev" "de_copy_ok demo_dbg_env"
  "de_mem demo_dbg_env" "v_xlat_map demo_nf_env = []"
  by (simp_all add: demo_db_core demo_nf_def demo_hnat_def) (simp_all add: demo_db_def demo_nf_env_def demo_dbg_env_def)

lemma demo_db_match: "switches_match demo_db"
proof -
  have "engine_match demo_db (pr (h_ppe (db_core demo_db) p))" for p
    by (simp add: engine_match_bits demo_db_core) (simp add: demo_nf_env_def demo_db_def)
  moreover have "\<not> h_l4s (db_core demo_db)" "db_l2br demo_db = 0" by (simp add: demo_db_core demo_nf_def demo_hnat_def)
      (simp add: demo_db_def)
  ultimately show ?thesis by (simp add: switches_match_def) (simp add: demo_nf_env_def)
qed

section \<open>Switches\<close>



section \<open>Settings\<close>

text \<open>C34. A setting takes effect: the command \<^verbatim>\<open>k n\<close> with a value in its range puts it into its field of every
  engine and leaves the other settings alone, and a restart after a reset writes it again.  Beyond the range
  the lifetime of TCP entries (2) changes that of FIN entries (3).\<close>

theorem settings_take_effect:
  fixes e b k n t
  defines "b' \<equiv> snd (hnat_setting_write e (cmd2 k n) b)"
  assumes ok: "de_copy_ok e" and k: "k \<in> {1 .. 6}" and n: "n \<le> tunable_max k" and dev: "dev_ok (v_dev_model (db_env b))"
    and p: "p < h_ppe_num (db_core b)" and m: "m < 2 ^ 31"
  shows "tunable_value k p (db_core b') = of_nat n
    \<and> (\<forall>j \<in> {1 .. 6} - {k}. tunable_value j p (db_core b') = tunable_value j p (db_core b))
    \<and> tunable_value k p (nf_core (hs_nf (hnat_warm_init (db_env b) t (db_sys b')))) = of_nat n
    \<and> tunable_value 3 p (db_core (snd (hnat_setting_write e (cmd2 2 m) b)))
        = tunable_value 3 p (db_core b) OR of_nat (m div 2 ^ 16)"
proof -
  have small: "n < 2 ^ 31" using n by (simp add: tunable_max_def split: if_splits)
  have b': "b' = cr_set_func k (int n) b" unfolding b'_def by (rule setting_write [OF ok k small])
  note vals = setting_values [OF k n p]
  have "tunable_value k p (nf_core (hs_nf (hnat_warm_init (db_env b) t (db_sys b')))) = of_nat n"
    using warm_init_tunable [OF dev k, of p "db_sys b'" t] vals p by (simp add: b' db_core_def)
  moreover have "snd (hnat_setting_write e (cmd2 2 m) b) = cr_set_func 2 (int m) b"
    by (rule setting_write [OF ok _ m]) simp
  ultimately show ?thesis using vals lifetime_spills [OF p m] by (simp add: b')
qed

theorem settings_take_effect_witness:
  "tunable_value 4 0 (db_core (snd (hnat_setting_write demo_dbg_env (cmd2 4 300) demo_db))) = 300
   \<and> tunable_value 3 0 (db_core (snd (hnat_setting_write demo_dbg_env (cmd2 2 70000) demo_db))) = 1"
proof -
  have "tunable_value 3 0 (db_core demo_db) = 0"
    by (simp add: tunable_value_def tunable_simps rd.simps demo_db_core ppe_reg_defs)
  then show ?thesis
    using settings_take_effect [of demo_dbg_env 4 300 demo_db 0 70000] by (simp add: tunable_max_def)
qed

section \<open>Flow entries written by hand\<close>


text \<open>Packets from 192.168.1.2 port 4000 to 8.8.8.8 port 80 become packets from 1.2.3.4 port 5000.\<close>

definition demo_cmd :: static_cmd where
  "demo_cmd = \<lparr>sc_index = Some 100, sc_ib1 = 0, sc_sip = 0xC0A80102, sc_dip = 0x08080808, sc_sport = 4000, sc_dport = 80,
     sc_ib2 = 0, sc_new_sip = 0x01020304, sc_new_dip = 0x08080808, sc_new_sport = 5000, sc_new_dport = 80,
     sc_dmac = [2, 0, 0, 0, 0, 7], sc_smac = [2, 0, 0, 0, 0, 3], sc_tport = 0, sc_tops = 0, sc_cdrt = 0\<rparr>"


section \<open>The table of 464XLAT\<close>

definition map_line :: "string \<Rightarrow> string \<Rightarrow> string \<Rightarrow> string" where
  "map_line op p q = ''map '' @ op @ CHR '' '' # p @ CHR '' '' # q @ [CHR 0x0A]"

lemma map_formats:
  "parse_fmt (''map add %64s %64s'' @ [CHR 0x0A]) = [S_char CHR ''m'', S_char CHR ''a'', S_char CHR ''p'', S_space,
     S_char CHR ''a'', S_char CHR ''d'', S_char CHR ''d'', S_space, S_str 64, S_space, S_str 64, S_space]"
  "parse_fmt (''map del %64s %64s'' @ [CHR 0x0A]) = [S_char CHR ''m'', S_char CHR ''a'', S_char CHR ''p'', S_space,
     S_char CHR ''d'', S_char CHR ''e'', S_char CHR ''l'', S_space, S_str 64, S_space, S_str 64, S_space]"
  by code_simp+

lemma word_facts: "word w t \<Longrightarrow> t \<noteq> [] \<and> \<not> isspace (hd t) \<and> CHR 0x00 \<notin> set t \<and> length t \<le> w"
  by (auto simp: word_def)

lemma skip_blank [simp]: "isspace c \<Longrightarrow> skip_spaces (c # s) = skip_spaces s" "\<not> isspace c \<Longrightarrow> skip_spaces (c # s) = c # s"
  "skip_spaces [] = []"
  by (simp_all add: skip_spaces_def)

lemma scan_two:
  assumes "word 64 p" "word 64 q"
  shows "scan_items [S_space, S_str 64, S_space, S_str 64, S_space] (CHR '' '' # p @ CHR '' '' # q @ [CHR 0x0A])
    = [V_str p, V_str q]"
proof -
  have s: "skip_spaces (p @ r) = p @ r" "skip_spaces (q @ r) = q @ r" for r
    using word_facts [OF assms(1)] word_facts [OF assms(2)] by (simp_all add: skip_word)
  have "scan_items (S_str 64 # fs) (p @ r) = V_str p # scan_items fs r"
    "scan_items (S_str 64 # fs) (q @ r) = V_str q # scan_items fs r" if "ends r" for fs r
    using scans_word [OF assms(1)] scans_word [OF assms(2)] that unfolding scans_def by blast+
  then show ?thesis by (simp add: s ends_def del: scan_items.simps(4))
qed

lemma letters: "\<not> isspace CHR ''a''" "\<not> isspace CHR ''d''"
  by code_simp+

lemma map_scan:
  assumes "word 64 p" "word 64 q"
  shows "sscanf (map_line ''add'' p q) (''map add %64s %64s'' @ [CHR 0x0A]) = [V_str p, V_str q]"
    and "sscanf (map_line ''del'' p q) (''map del %64s %64s'' @ [CHR 0x0A]) = [V_str p, V_str q]"
    and "length (map_line ''add'' p q) < 256" "length (map_line ''del'' p q) < 256"
    and "until_nul (map_line ''add'' p q) = map_line ''add'' p q" "until_nul (map_line ''del'' p q) = map_line ''del'' p q"
proof -
  have w: "CHR 0x00 \<notin> set p" "CHR 0x00 \<notin> set q" "length p \<le> 64" "length q \<le> 64"
    using word_facts [OF assms(1)] word_facts [OF assms(2)] by auto
  show u: "until_nul (map_line ''add'' p q) = map_line ''add'' p q" "until_nul (map_line ''del'' p q) = map_line ''del'' p q"
    using w by (simp_all add: map_line_def)
  show "length (map_line ''add'' p q) < 256" "length (map_line ''del'' p q) < 256"
    using w by (simp_all add: map_line_def)
  show "sscanf (map_line ''add'' p q) (''map add %64s %64s'' @ [CHR 0x0A]) = [V_str p, V_str q]"
    "sscanf (map_line ''del'' p q) (''map del %64s %64s'' @ [CHR 0x0A]) = [V_str p, V_str q]"
    unfolding sscanf_def u map_formats using scan_two [OF assms]
    by (simp_all add: map_line_def letters del: scan_items.simps(4))
qed

text \<open>The commands on the text of two addresses that the kernel can read.\<close>

lemma map_commands:
  assumes "word 64 p" "word 64 q" "de_in4 e p = Some a" "de_in6 e q = Some a6" "de_copy_ok e" "de_mem e"
  shows "hnat_xlat_cfg_write e (map_line ''add'' p q) b
      = (case xlat_add a a6 b of (Some err, b') \<Rightarrow> (err, b') | (None, b') \<Rightarrow> (int (length (map_line ''add'' p q)), b'))"
    and "hnat_xlat_cfg_write e (map_line ''del'' p q) b = (int (length (map_line ''del'' p q)), xlat_del a a6 b)"
proof -
  note m = map_scan [OF assms(1,2)]
  have c: "c_input e (map_line ''add'' p q) = map_line ''add'' p q" "c_input e (map_line ''del'' p q) = map_line ''del'' p q"
    using m by (simp_all add: c_input_def)
  have t: "take 6 (map_line op p q) \<noteq> ''prefix''" "take 7 (map_line op p q) \<noteq> ''pfx_len''"
    "take 7 (map_line ''add'' p q) = ''map add''" "take 7 (map_line ''del'' p q) = ''map del''" for op
    by (simp_all add: map_line_def)
  show "hnat_xlat_cfg_write e (map_line ''add'' p q) b
      = (case xlat_add a a6 b of (Some err, b') \<Rightarrow> (err, b') | (None, b') \<Rightarrow> (int (length (map_line ''add'' p q)), b'))"
    "hnat_xlat_cfg_write e (map_line ''del'' p q) b = (int (length (map_line ''del'' p q)), xlat_del a a6 b)"
    unfolding hnat_xlat_cfg_write_def Let_def c m t using m(3,4) assms(3-6)
    by (simp_all add: t in4_or_def in6_or_def)
qed

text \<open>C36. A pair of addresses added to the table of 464XLAT, neither of which is in it, is found from both sides and
  changes no other look-up; adding it again is refused without any change; and removing it gives back
  the state from before.\<close>

theorem xlat_map_roundtrip:
  assumes words: "word 64 p" "word 64 q" and addr: "de_in4 e p = Some a" "de_in6 e q = Some a6"
    and ok: "de_copy_ok e" "de_mem e"
    and new: "mtk_ppe_get_xlat_v6_by_v4 (db_env b) a = None" "mtk_ppe_get_xlat_v4_by_v6 (db_env b) a6 = None"
  shows "\<exists>b'. hnat_xlat_cfg_write e (map_line ''add'' p q) b = (int (length (map_line ''add'' p q)), b')
    \<and> mtk_ppe_get_xlat_v6_by_v4 (db_env b') a = Some (a6, v_xlat_prefix (db_env b))
    \<and> mtk_ppe_get_xlat_v4_by_v6 (db_env b') a6 = Some a
    \<and> (\<forall>x. x \<noteq> a \<longrightarrow> mtk_ppe_get_xlat_v6_by_v4 (db_env b') x = mtk_ppe_get_xlat_v6_by_v4 (db_env b) x)
    \<and> (\<forall>x. x \<noteq> a6 \<longrightarrow> mtk_ppe_get_xlat_v4_by_v6 (db_env b') x = mtk_ppe_get_xlat_v4_by_v6 (db_env b) x)
    \<and> hnat_xlat_cfg_write e (map_line ''add'' p q) b' = (- 1, b')
    \<and> hnat_xlat_cfg_write e (map_line ''del'' p q) b' = (int (length (map_line ''del'' p q)), b)"
proof -
  let ?b = "on_env (\<lambda>v. v\<lparr>v_xlat_map := (a, a6) # v_xlat_map v\<rparr>) b"
  have "\<forall>m \<in> set (v_xlat_map (db_env b)). fst m \<noteq> a"
    using new by (auto simp: mtk_ppe_get_xlat_v6_by_v4_def find_None_iff)
  then have n: "\<not> list_ex (\<lambda>m. a6 = snd m \<and> a = fst m) (v_xlat_map (db_env b))" by (auto simp: list_ex_iff)
  have "xlat_add a a6 b = (None, ?b)" using n by (simp add: xlat_add_def)
  moreover have "xlat_add a a6 ?b = (Some (- 1), ?b)" by (simp add: xlat_add_def)
  moreover have "xlat_del a a6 ?b = b" by (simp add: xlat_del_def on_env_def)
  ultimately show ?thesis using new
    by (intro exI [of _ ?b])
      (simp add: map_commands [OF words addr ok] mtk_ppe_get_xlat_v6_by_v4_def mtk_ppe_get_xlat_v4_by_v6_def)
qed

theorem xlat_map_roundtrip_witness:
  "\<exists>b'. mtk_ppe_get_xlat_v4_by_v6 (db_env b') [1, 2, 3, 4] = Some (htonl 0xC0A80102)
     \<and> snd (hnat_xlat_cfg_write demo_dbg_env (map_line ''del'' ''192.168.1.2'' ''64:ff9b::1'') b') = demo_db"
proof -
  have w: "word 64 ''192.168.1.2''" "word 64 ''64:ff9b::1''" by code_simp+
  have e: "de_in4 demo_dbg_env s = Some (htonl 0xC0A80102)" "de_in6 demo_dbg_env s = Some [1, 2, 3, 4]" for s
    by (simp_all add: demo_dbg_env_def)
  have n: "mtk_ppe_get_xlat_v6_by_v4 (db_env demo_db) x = None" "mtk_ppe_get_xlat_v4_by_v6 (db_env demo_db) y = None" for x y
    by (simp_all add: mtk_ppe_get_xlat_v6_by_v4_def mtk_ppe_get_xlat_v4_by_v6_def)
  show ?thesis using xlat_map_roundtrip [OF w e(1) e(2) _ _ n] by auto
qed

section \<open>The multicast blacklist\<close>

definition blist4_line :: "string \<Rightarrow> string" where
  "blist4_line p = ''ipv4 add '' @ p @ [CHR 0x0A]"

lemma blist4_command:
  assumes "word 64 p" "de_in4 e p = Some a" "de_copy_ok e" "pmcast (nf_mc (hs_nf (db_sys b))) \<noteq> None"
  shows "hnat_mcast_blist_write e (blist4_line p) b
    = blist_add e (int (length (blist4_line p))) (\<lambda>m. bl_ipv4 m = a) (blist_entry4 a) b"
proof -
  note w = word_facts [OF assms(1)]
  have u: "until_nul (blist4_line p) = blist4_line p" using w by (simp add: blist4_line_def)
  have c: "c_input e (blist4_line p) = blist4_line p" using w u by (simp add: c_input_def blist4_line_def)
  have f: "parse_fmt (''ipv4 add %64s'' @ [CHR 0x0A]) = [S_char CHR ''i'', S_char CHR ''p'', S_char CHR ''v'', S_char CHR ''4'',
      S_space, S_char CHR ''a'', S_char CHR ''d'', S_char CHR ''d'', S_space, S_str 64, S_space]" by code_simp
  have s: "skip_spaces (p @ r) = p @ r" for r using w by (simp add: skip_word)
  have "scan_items (S_str 64 # fs) (p @ r) = V_str p # scan_items fs r" if "ends r" for fs r
    using scans_word [OF assms(1)] that unfolding scans_def by blast
  then have "sscanf (blist4_line p) (''ipv4 add %64s'' @ [CHR 0x0A]) = [V_str p]"
    unfolding sscanf_def u f by (simp add: blist4_line_def letters s ends_def del: scan_items.simps(4))
  moreover have "take 8 (blist4_line p) = ''ipv4 add''" "length (blist4_line p) \<le> 256" using w by (simp_all add: blist4_line_def)
  ultimately show ?thesis using assms(2-4)
    unfolding hnat_mcast_blist_write_def Let_def c by (auto simp: in4_or_def)
qed


definition demo_mcast_db :: debugfs where
  "demo_mcast_db = on_db_nf (\<lambda>s. s\<lparr>nf_mc := demo_mc\<lparr>pmcast := Some [], mcast_hook_toggle := True\<rparr>\<rparr>) demo_db"


section \<open>Deleting an entry\<close>

lemma index_command:
  assumes "de_copy_ok e" "k < 10" "set t \<inter> set blanks = {}" "CHR 0x00 \<notin> set t" "length t < 30" "0 \<le> int k \<and> int k \<le> 7"
  shows "hnat_entry_write e (dec k @ CHR '' '' # t) b
    = Some (int (length (dec k @ CHR '' '' # t)), entry_set_func k (to_int (arg_of (Some t))) b)"
proof -
  let ?s = "dec k @ CHR '' '' # t"
  have "length (dec k) \<le> 1" using dec_length [of k 0] assms(2) by simp
  then have len: "length ?s < 32" using assms(5) by simp
  have u: "until_nul ?s = ?s" using assms(4) dec_nul_free by simp
  have "strsep blanks (Some ?s) = (Some (dec k), Some t)" by (rule strsep_more) (simp_all add: dec_sep, simp add: blanks_def)
  then have "first_arg ?s = (int k, Some t)" using assms(2) by (simp add: first_arg_def u arg_of_def kstrtol_dec)
  moreover have "strsep blanks (Some t) = (Some t, None)" by (rule strsep_last [OF assms(3)])
  ultimately show ?thesis using assms(1,6) len by (simp add: hnat_entry_write_def short_input_def)
qed

text \<open>C38. The commands 3, 5 and 7 of \<open>hnat_entry\<close> delete the entry whose index is given, in engine 0, 1 or 2, and no
  other.  An index that is no number is not refused: it counts as 0, so that the first entry is deleted and the
  command reports success.  One of 4294967295 counts as \<open>-1\<close>, which deletes every entry of the
  engine.\<close>

theorem bad_index_deletes_first:
  fixes e b k t
  defines "w \<equiv> hnat_entry_write e (dec k @ CHR '' '' # t) b" and "h \<equiv> db_core b" and "p \<equiv> (k - 3) div 2"
  assumes ok: "de_copy_ok e" and k: "k \<in> {3, 5, 7}" and p: "p < h_ppe_num h"
    and t: "set t \<inter> set blanks = {}" "CHR 0x00 \<notin> set t" "length t < 30" and n: "h_etry_num h \<le> 2 ^ 31"
    and gone: "gone = (case kstrtol 10 t of None \<Rightarrow> {0} | Some v \<Rightarrow> if v = 4294967295 then UNIV else {nat v})"
    and small: "\<And>v. kstrtol 10 t = Some v \<Longrightarrow> v = 4294967295 \<or> (0 \<le> v \<and> v < int (h_etry_num h))" and last: "0 < h_etry_num h"
  shows "\<exists>b'. w = Some (int (length (dec k @ CHR '' '' # t)), b')
    \<and> (\<forall>q i. h_table (db_core b') q i
        = (if q = p \<and> i \<in> gone \<and> i < h_etry_num h then delete_words (hnat_timestamp h) (h_table h q i) else h_table h q i))"
proof -
  define x where "x = to_int (arg_of (Some t))"
  let ?d = "v_dev_model (db_env b)"
  have x: "x = - 1 \<and> gone = UNIV \<or> (\<exists>i < h_etry_num h. x = int i \<and> gone = {i})"
  proof (cases "kstrtol 10 t")
    case None
    then show ?thesis using last by (simp add: x_def gone arg_of_def to_int_def)
  next
    case (Some v)
    show ?thesis
    proof (cases "v = 4294967295")
      case True
      have "to_int 4294967295 = - 1" by code_simp
      then show ?thesis using Some True by (simp add: x_def gone arg_of_def)
    next
      case False
      then have v: "0 \<le> v" "v < int (h_etry_num h)" using small [OF Some] by simp_all
      then have "to_int v = v" using n by (intro to_int_small) simp_all
      then show ?thesis using Some False v by (intro disjI2 exI [of _ "nat v"]) (simp add: x_def gone arg_of_def)
    qed
  qed
  have w: "w = Some (int (length (dec k @ CHR '' '' # t)), entry_set_func k x b)"
    unfolding w_def x_def by (rule index_command [OF ok _ t]) (use k in auto)
  have f: "entry_set_func k x b = on_db_core (\<lambda>h. snd (entry_delete_at ?d (of_nat p) x h)) b"
    using k by (auto simp: entry_set_func_def p_def Let_def)
  have up: "unat (of_nat p :: u32) = p" using k by (auto simp: p_def)
  have fold: "h_table (fold (\<lambda>i. on_entry p i g) [0 ..< m] h) q i = (if q = p \<and> i < m then g (h_table h q i) else h_table h q i)" for m g q i
    by (induction m arbitrary: i) (auto simp: on_entry_def)
  have "h_table (db_core (entry_set_func k x b)) q i
      = (if q = p \<and> i \<in> gone \<and> i < h_etry_num h then delete_words (hnat_timestamp h) (h_table h q i) else h_table h q i)" for q i
    using x p unfolding f by (auto simp: entry_delete_at_def up fold h_def [symmetric] Let_def on_entry_def)
  then show ?thesis using w by blast
qed

theorem bad_index_deletes_first_witness:
  "\<exists>b'. hnat_entry_write demo_dbg_env (dec 3 @ CHR '' '' # ''abc'') demo_db = Some (5, b')
     \<and> h_table (db_core b') 0 0 = delete_words (hnat_timestamp (db_core demo_db)) (h_table (db_core demo_db) 0 0)"
proof -
  have t: "kstrtol 10 ''abc'' = None" "set ''abc'' \<inter> set blanks = {}" "CHR 0x00 \<notin> set ''abc''" by code_simp+
  have d: "dec 3 = [digit 3]" by (simp add: dec.simps)
  show ?thesis
    using bad_index_deletes_first [of demo_dbg_env 3 demo_db "''abc''" "{0}"] t by (auto simp: d)
qed

end
