(* ===== verification/Hnat_Manual.thy ===== *)
theory Hnat_Manual
  imports Hnat_Toggle
begin

text \<open>
  The debug file \<open>manual_api\<close> of \<^verbatim>\<open>hnat_api.c\<close>: a line of numbers calls one function of the programming interface.
  A number is cut to the width of its variable, and printing is left out.
\<close>

section \<open>Lines\<close>

definition strim :: "string \<Rightarrow> string" where
  "strim s = skip_spaces (rev (dropWhile isspace (rev s)))"

definition manual_index :: "string \<Rightarrow> (u16 \<times> u16) option" where
  "manual_index s =
     (case sscanf s ''%*d %1hu %5hu'' of [V_word p, V_word i] \<Rightarrow> Some (ucast p, ucast i) | _ \<Rightarrow> None)"

definition two_u16 :: "string \<Rightarrow> string \<Rightarrow> (u16 \<times> u16) option" where
  "two_u16 s fmt = (case sscanf s fmt of [V_word x, V_word y] \<Rightarrow> Some (ucast x, ucast y) | _ \<Rightarrow> None)"

definition one_u16 :: "string \<Rightarrow> string \<Rightarrow> u16 option" where
  "one_u16 s fmt = (case sscanf s fmt of [V_word x] \<Rightarrow> Some (ucast x) | _ \<Rightarrow> None)"

text \<open>The values of an update.\<close>

definition manual_update :: "int \<Rightarrow> string \<Rightarrow> hnat_update option" where
  "manual_update action s =
     (if action = 5 then map_option (\<lambda>(x, y). Upd_hqos x y) (two_u16 s ''%*d %*d %*d %1hu %3hu'')
      else if action = 6 then map_option (\<lambda>x. Upd_dscp (uint x)) (one_u16 s ''%*d %*d %*d %3hu'')
      else if action = 7 then map_option (\<lambda>(x, y). Upd_vlan x y) (two_u16 s ''%*d %*d %*d %5hu %5hu'')
      else if action = 8 then map_option (\<lambda>(x, y). Upd_pppoe x y) (two_u16 s ''%*d %*d %*d %1hu %5hu'')
      else if action = 12 then map_option Upd_tid (one_u16 s ''%*d %*d %*d %2hu'')
      else map_option Upd_is_prior (one_u16 s ''%*d %*d %*d %1hu''))"

section \<open>Actions\<close>

definition status_code :: "hnat_status \<Rightarrow> int" where
  "status_code st = (if st = HNAT_SUCCESS then 0 else if st = HNAT_ENTRY_NOT_FOUND then - ENOENT else - EINVAL)"

definition tuple_at :: "u16 \<Rightarrow> u16 \<Rightarrow> mtk_hnat \<Rightarrow> hnat_status" where
  "tuple_at p i h = fst (mtk_hnat_get_ppe_entry_by_index (zero_tuple\<lparr>t_ppe_index := p, t_hash_index := i\<rparr>) h)"

definition hnat_manual_action_show_stats :: "string \<Rightarrow> mtk_hnat \<Rightarrow> int" where
  "hnat_manual_action_show_stats s h =
     (case manual_index s of
        None \<Rightarrow> - EFAULT
      | Some (p, i) \<Rightarrow> if bad_index p i h then - EINVAL else status_code (tuple_at p i h))"

definition hnat_manual_action_delete :: "ppe_dev \<Rightarrow> string \<Rightarrow> mtk_hnat \<Rightarrow> int \<times> mtk_hnat" where
  "hnat_manual_action_delete d s h =
     (case manual_index s of
        None \<Rightarrow> (- EFAULT, h)
      | Some (p, i) \<Rightarrow>
          (case mtk_hnat_delete_entry_by_index d p i h of
             (st, h') \<Rightarrow> (if st = HNAT_SUCCESS then 0 else - EINVAL, h')))"

definition hnat_manual_action_mib :: "nf_env \<Rightarrow> string \<Rightarrow> nf_state \<Rightarrow> int \<times> nf_state" where
  "hnat_manual_action_mib v s t =
     (case manual_index s of
        None \<Rightarrow> (- EFAULT, t)
      | Some (p, i) \<Rightarrow>
          (case mtk_hnat_get_mib_count_by_index v p i True t of (st, _, t') \<Rightarrow> (status_code st, t')))"

text \<open>The arrays for the counts are allocated first; what has been allocated is freed in any case.\<close>

definition hnat_manual_action_all_mib :: "nf_env \<Rightarrow> bool \<Rightarrow> nf_state \<Rightarrow> int \<times> nf_state" where
  "hnat_manual_action_all_mib v mem t =
     (if \<not> h_per_flow_accounting (nf_core t) then (0, t)
      else if \<not> mem then (- ENOMEM, t)
      else (0, snd (snd (mtk_hnat_get_all_mib_counts v True t))))"

definition hnat_manual_action_update_entry :: "ppe_dev \<Rightarrow> int \<Rightarrow> string \<Rightarrow> mtk_hnat \<Rightarrow> int \<times> mtk_hnat" where
  "hnat_manual_action_update_entry d action s h =
     (case manual_index s of
        None \<Rightarrow> (- EFAULT, h)
      | Some (p, i) \<Rightarrow>
          if bad_index p i h then (- EINVAL, h)
          else (case manual_update action s of
                  None \<Rightarrow> (- EFAULT, h)
                | Some u \<Rightarrow>
                    (case mtk_hnat_update_by_index d p i u h of
                       (st, h') \<Rightarrow>
                         if st \<noteq> HNAT_SUCCESS then (- EINVAL, h')
                         else (if tuple_at p i h' = HNAT_SUCCESS then 0 else - ENOENT, h'))))"

text \<open>The test callbacks, which print the tuple they get.\<close>

definition hnat_bind_callback_test :: nat where "hnat_bind_callback_test = 1"
definition hnat_fin_callback_test :: nat where "hnat_fin_callback_test = 2"

text \<open>The tuple whose hash is printed.\<close>

definition manual_tuple :: "string \<Rightarrow> int + hnat_tuple" where
  "manual_tuple s =
     (case one_u16 s ''%*d %2hu'' of
        None \<Rightarrow> Inl (- EFAULT)
      | Some ty \<Rightarrow>
          let t = zero_tuple\<lparr>t_pkt_type := ty\<rparr>
          in if ucast ty = IPV4_HNAPT
             then (case sscanf s ''%*d %*d %15s %8x %8x %4hx %4hx'' of
                     [V_str dev, V_word sip, V_word dip, V_word sp, V_word dp] \<Rightarrow>
                       Inr (t\<lparr>t_ing_dev := dev, t_ing_sipv4 := sip, t_ing_dipv4 := dip, t_ing_sp := ucast sp,
                              t_ing_dp := ucast dp\<rparr>)
                   | _ \<Rightarrow> Inl (- EFAULT))
             else if ucast ty = IPV6_5T_ROUTE
             then (case sscanf s ''%*d %*d %15s %8x%8x%8x%8x %8x%8x%8x%8x %4hx %4hx'' of
                     [V_str dev, V_word s0, V_word s1, V_word s2, V_word s3, V_word d0, V_word d1, V_word d2, V_word d3,
                      V_word sp, V_word dp] \<Rightarrow>
                       Inr (t\<lparr>t_ing_dev := dev, t_ing_sipv6 := [s0, s1, s2, s3], t_ing_dipv6 := [d0, d1, d2, d3],
                              t_ing_sp := ucast sp, t_ing_dp := ucast dp\<rparr>)
                   | _ \<Rightarrow> Inl (- EFAULT))
             else Inl (- EINVAL))"

section \<open>The file\<close>

definition hnat_manual_api_write :: "dbg_env \<Rightarrow> string \<Rightarrow> debugfs \<Rightarrow> int \<times> debugfs" where
  "hnat_manual_api_write e buf b =
     (if length buf \<ge> 256 \<or> \<not> de_copy_ok e then (- EFAULT, b)
      else
        let s = strim (until_nul buf); d = v_dev_model (db_env b); h = db_core b; t = hs_nf (db_sys b);
            res = (\<lambda>r. if r < 0 then r else int (length buf));
            core = (\<lambda>(r, h'). (res r, on_db_core (\<lambda>_. h') b)); nf = (\<lambda>(r, t'). (res r, on_db_nf (\<lambda>_. t') b))
        in (case sscanf s ''%2d%n'' of
              V_int action # _ \<Rightarrow>
                if action = 0 then (res 0, b)
                else if action = 1 then (res (hnat_manual_action_show_stats s h), b)
                else if action = 2 then core (hnat_manual_action_delete d s h)
                else if action = 3 then nf (hnat_manual_action_mib (db_env b) s t)
                else if action = 4 then nf (hnat_manual_action_all_mib (db_env b) (de_mem e) t)
                else if action \<in> {5, 6, 7, 8, 12, 13} then core (hnat_manual_action_update_entry d action s h)
                else if action = 9
                then nf (0, t\<lparr>nf_cbs := snd (mtk_hnat_register_fin_callback (Some hnat_fin_callback_test)
                                         (snd (mtk_hnat_register_bind_callback (Some hnat_bind_callback_test) (nf_cbs t))))\<rparr>)
                else if action = 10
                then (case two_u16 s ''%*d %1hu %1hu'' of
                        None \<Rightarrow> (- EFAULT, b)
                      | Some (p, en) \<Rightarrow> core (0, snd (mtk_hnat_set_fin_age_config p (en \<noteq> 0) h)))
                else if action = 11 then (case manual_tuple s of Inl err \<Rightarrow> (err, b) | Inr _ \<Rightarrow> (res 0, b))
                else (- EINVAL, b)
            | _ \<Rightarrow> (- EFAULT, b)))"

end
