(* ===== verification/Hnat_Manual_Props.thy ===== *)
theory Hnat_Manual_Props
  imports Hnat_Manual Scan_Props Hnat_Api_Props
begin

text \<open>
  Lines for \<open>manual_api\<close>: the text of a call, and how it is read back.
\<close>

section \<open>Lines of numbers\<close>

definition numbers :: "nat list \<Rightarrow> string" where
  "numbers ns = join (map dec ns)"

lemma dec_first: "\<not> isspace (hd (dec n))" "dec n \<noteq> []"
proof -
  show "dec n \<noteq> []" by (subst dec.simps) simp
  obtain k where "k < 10" "hd (dec n) = digit k" using dec_no_char [of "hd (dec n)" n] hd_in_set [of "dec n"] \<open>dec n \<noteq> []\<close> by auto
  then show "\<not> isspace (hd (dec n))" using digit_hexdigit hexdigit_neq(2) [of k] by simp
qed

lemma dec_no_space: "c \<in> set (dec n) \<Longrightarrow> \<not> isspace c"
proof -
  assume "c \<in> set (dec n)"
  then obtain k where "k < 10" "c = digit k" using dec_no_char by blast
  then show ?thesis using digit_hexdigit hexdigit_neq(2) [of k] by simp
qed

lemma numbers_Cons: "numbers (n # ns) = dec n @ (if ns = [] then [] else CHR '' '' # numbers ns)"
  by (cases ns) (simp_all add: numbers_def)

lemma numbers_head: "ns \<noteq> [] \<Longrightarrow> skip_spaces (numbers ns) = numbers ns"
  by (cases ns) (auto simp: numbers_Cons skip_word dec_first)

lemma numbers_chars: "c \<in> set (numbers ns) \<Longrightarrow> c \<noteq> CHR 0x00"
  using join_chars [of c "map dec ns"] dec_nul_free by (auto simp: numbers_def)

text \<open>White space at the end changes nothing.\<close>

lemma strim_numbers:
  assumes "ns \<noteq> []" "list_all isspace w"
  shows "strim (numbers ns @ w) = numbers ns"
proof -
  have last: "numbers ns \<noteq> [] \<and> \<not> isspace (last (numbers ns))" using assms(1)
  proof (induction ns)
    case (Cons n ns)
    show ?case
    proof (cases "ns = []")
      case True
      have "last (dec n) \<in> set (dec n)" using dec_first(2) by simp
      then show ?thesis using True dec_no_space [of "last (dec n)" n] dec_first(2) by (simp add: numbers_Cons)
    next
      case False
      then show ?thesis using Cons by (simp add: numbers_Cons)
    qed
  qed simp
  have "rev (dropWhile isspace (rev (numbers ns @ w))) = numbers ns"
  proof -
    have "dropWhile isspace (rev w @ rev (numbers ns)) = dropWhile isspace (rev (numbers ns))"
      using assms(2) by (intro dropWhile_append2) (auto simp: list_all_iff)
    also have "\<dots> = rev (numbers ns)"
      using last by (simp add: dropWhile_eq_self_iff hd_rev)
    finally show ?thesis by simp
  qed
  then show ?thesis using numbers_head [OF assms(1)] by (simp add: strim_def)
qed

section \<open>Scans of lines\<close>

lemma parse_dec_ends: "ends r \<Longrightarrow> parse_integer 10 (take m r) n k = (n, k, take m r)"
  by (rule parse_ends)

lemma scans_u16:
  assumes "n < 10 ^ Suc j"
  shows "scans (S_u16 (Suc j)) (dec n) (V_word (of_nat n AND 0xffff))"
proof -
  have ch: "\<exists>k < 10. c = hexdigit k" if "c \<in> set (dec n)" for c
    using dec_no_char [OF that] digit_hexdigit by auto
  show ?thesis
    using number_printed [of "dec n" "Suc j" 10 n _ False] dec_length [OF assms] ch parse_dec dec_first
    by (simp add: scans_def)
qed

lemma scan_skip:
  assumes "ns \<noteq> []"
  shows "scan_items (S_skip # S_space # fs) (numbers (n # ns)) = scan_items fs (numbers ns)"
proof -
  have "dropWhile (\<lambda>c. \<not> isspace c) (dec n @ CHR '' '' # numbers ns) = CHR '' '' # numbers ns"
    using dec_no_space by (subst dropWhile_append2) auto
  moreover have "skip_spaces (CHR '' '' # numbers ns) = numbers ns"
    using numbers_head [OF assms] by (simp add: skip_spaces_def)
  ultimately show ?thesis using assms dec_first(2) [of n] by (simp add: numbers_Cons)
qed

text \<open>Some values, and what comes behind them is not looked at.\<close>

definition u16_cols :: "(nat \<times> nat) list \<Rightarrow> (scan_item \<times> string \<times> scan_val) list" where
  "u16_cols = map (\<lambda>(w, n). (S_u16 w, dec n, V_word (of_nat n AND 0xffff)))"

lemma cols_u16: "list_all (\<lambda>(w, n). 0 < w \<and> n < 10 ^ w) xs \<Longrightarrow> list_all scans3 (u16_cols xs)"
proof -
  have "scans (S_u16 w) (dec n) (V_word (of_nat n AND 0xffff))" if "0 < w" "n < 10 ^ w" for w n
    using scans_u16 [of n "w - 1"] that by simp
  then show "list_all (\<lambda>(w, n). 0 < w \<and> n < 10 ^ w) xs \<Longrightarrow> ?thesis"
    by (auto simp: list_all_iff u16_cols_def scans3_def)
qed

lemma scan_u16s:
  assumes "list_all (\<lambda>(w, n). 0 < w \<and> n < 10 ^ w) xs" "xs \<noteq> []"
  shows "scan_items (spaced (map (\<lambda>(w, n). S_u16 w) xs)) (numbers (map snd xs @ ms))
    = map (\<lambda>(w, n). V_word (of_nat n AND 0xffff)) xs"
proof -
  have m: "map fst (u16_cols xs) = map (\<lambda>(w, n). S_u16 w) xs" "map (fst \<circ> snd) (u16_cols xs) = map dec (map snd xs)"
    "map (snd \<circ> snd) (u16_cols xs) = map (\<lambda>(w, n). V_word (of_nat n AND 0xffff)) xs"
    by (simp_all add: u16_cols_def split_def comp_def)
  have n: "numbers (map snd xs @ ms) = join (map dec (map snd xs)) @ (if ms = [] then [] else CHR '' '' # numbers ms)"
    using join_append [of "map dec (map snd xs)" "map dec ms"] assms(2) by (auto simp: numbers_def)
  show ?thesis
    using scan_line [OF cols_u16 [OF assms(1)], of "if ms = [] then [] else CHR '' '' # numbers ms"]
    unfolding m n by (auto simp: ends_def)
qed

lemma ffff: "ucast (of_nat n AND 0xffff :: u32) = (of_nat n :: u16)"
proof -
  have "(0xffff :: u32) = mask 16" by (simp add: mask_eq_exp_minus_1)
  then have "(of_nat n AND 0xffff :: u32) = take_bit 16 (of_nat n)" by (simp only: take_bit_eq_mask)
  moreover have "ucast (take_bit 16 (of_nat n :: u32)) = (of_nat n :: u16)"
    by (rule bit_word_eqI) (simp add: bit_simps)
  ultimately show ?thesis by simp
qed

lemma manual_formats:
  "parse_fmt ''%*d %1hu %5hu'' = [S_skip, S_space] @ spaced [S_u16 1, S_u16 5]"
  "parse_fmt ''%*d %*d %*d %1hu %3hu'' = [S_skip, S_space, S_skip, S_space, S_skip, S_space] @ spaced [S_u16 1, S_u16 3]"
  "parse_fmt ''%*d %*d %*d %3hu'' = [S_skip, S_space, S_skip, S_space, S_skip, S_space] @ spaced [S_u16 3]"
  "parse_fmt ''%*d %*d %*d %5hu %5hu'' = [S_skip, S_space, S_skip, S_space, S_skip, S_space] @ spaced [S_u16 5, S_u16 5]"
  "parse_fmt ''%*d %*d %*d %1hu %5hu'' = [S_skip, S_space, S_skip, S_space, S_skip, S_space] @ spaced [S_u16 1, S_u16 5]"
  "parse_fmt ''%*d %*d %*d %2hu'' = [S_skip, S_space, S_skip, S_space, S_skip, S_space] @ spaced [S_u16 2]"
  "parse_fmt ''%*d %*d %*d %1hu'' = [S_skip, S_space, S_skip, S_space, S_skip, S_space] @ spaced [S_u16 1]"
  "parse_fmt ''%2d%n'' = [S_int 2, S_stop]"
  by code_simp+

lemma lines_nul: "until_nul (numbers ns) = numbers ns"
  by (rule until_nul_self) (use numbers_chars in blast)

lemma scan_index:
  assumes "p < 10" "i < 10 ^ 5"
  shows "manual_index (numbers (a # p # i # ms)) = Some (of_nat p, of_nat i)"
proof -
  have "scan_items ([S_skip, S_space] @ spaced [S_u16 1, S_u16 5]) (numbers (a # p # i # ms))
      = [V_word (of_nat p AND 0xffff), V_word (of_nat i AND 0xffff)]"
    using scan_u16s [of "[(1, p), (5, i)]" ms] scan_skip [of "p # i # ms" "spaced [S_u16 1, S_u16 5]" a] assms by simp
  then show ?thesis by (simp add: manual_index_def sscanf_def lines_nul manual_formats ffff)
qed

lemma scan_skip3:
  "ns \<noteq> [] \<Longrightarrow> scan_items (S_skip # S_space # S_skip # S_space # S_skip # S_space # fs) (numbers (a # p # i # ns))
    = scan_items fs (numbers ns)"
  by (simp only: scan_skip list.distinct not_False_eq_True)

lemma scan_behind:
  assumes "list_all (\<lambda>(w, n). 0 < w \<and> n < 10 ^ w) xs" "xs \<noteq> []"
  shows "scan_items ([S_skip, S_space, S_skip, S_space, S_skip, S_space] @ spaced (map (\<lambda>(w, n). S_u16 w) xs))
      (numbers (a # p # i # map snd xs)) = map (\<lambda>(w, n). V_word (of_nat n AND 0xffff)) xs"
  using scan_u16s [OF assms, of "[]"] assms(2)
  by (simp only: append.simps scan_skip3 append_Nil2 map_is_Nil_conv not_False_eq_True)

lemma scan_one:
  assumes "parse_fmt fmt = [S_skip, S_space, S_skip, S_space, S_skip, S_space] @ spaced [S_u16 w]" "0 < w" "x < 10 ^ w"
  shows "one_u16 (numbers [a, p, i, x]) fmt = Some (of_nat x)"
  using scan_behind [of "[(w, x)]" a p i] assms by (simp add: one_u16_def sscanf_def lines_nul ffff)

lemma scan_pair:
  assumes "parse_fmt fmt = [S_skip, S_space, S_skip, S_space, S_skip, S_space] @ spaced [S_u16 w, S_u16 w']"
    "0 < w" "x < 10 ^ w" "0 < w'" "y < 10 ^ w'"
  shows "two_u16 (numbers [a, p, i, x, y]) fmt = Some (of_nat x, of_nat y)"
  using scan_behind [of "[(w, x), (w', y)]" a p i] assms by (simp add: two_u16_def sscanf_def lines_nul ffff)

section \<open>The line of an update\<close>

fun update_args :: "hnat_update \<Rightarrow> nat list" where
  "update_args (Upd_hqos x y) = [unat x, unat y]"
| "update_args (Upd_dscp x) = [nat x]"
| "update_args (Upd_vlan x y) = [unat x, unat y]"
| "update_args (Upd_pppoe x y) = [unat x, unat y]"
| "update_args (Upd_is_prior x) = [unat x]"
| "update_args (Upd_tid x) = [unat x]"

fun update_action :: "hnat_update \<Rightarrow> nat" where
  "update_action (Upd_hqos x y) = 5"
| "update_action (Upd_dscp x) = 6"
| "update_action (Upd_vlan x y) = 7"
| "update_action (Upd_pppoe x y) = 8"
| "update_action (Upd_is_prior x) = 13"
| "update_action (Upd_tid x) = 12"

text \<open>The values that have room in their columns.\<close>

fun update_fits :: "hnat_update \<Rightarrow> bool" where
  "update_fits (Upd_hqos x y) = (unat x < 10 \<and> unat y < 1000)"
| "update_fits (Upd_dscp x) = (0 \<le> x \<and> x < 1000)"
| "update_fits (Upd_vlan x y) = True"
| "update_fits (Upd_pppoe x y) = (unat x < 10)"
| "update_fits (Upd_is_prior x) = (unat x < 10)"
| "update_fits (Upd_tid x) = (unat x < 100)"

definition update_line :: "nat \<Rightarrow> nat \<Rightarrow> hnat_update \<Rightarrow> string" where
  "update_line p i u = numbers (update_action u # p # i # update_args u)"

lemma u16_less5: "unat (x :: u16) < 10 ^ 5"
  using unat_u16_less [of x] by simp

lemma dscp_word: "0 \<le> x \<Longrightarrow> x < 1000 \<Longrightarrow> uint (of_nat (nat x) :: u16) = x"
proof -
  assume "0 \<le> x" "x < 1000"
  then have "take_bit 16 (nat x) = nat x" by (intro take_bit_nat_eq_self) simp
  moreover have "int (nat x) = x" using \<open>0 \<le> x\<close> by simp
  ultimately show ?thesis by (simp only: unsigned_of_nat of_nat_id) simp
qed

lemma manual_update_line:
  "update_fits u \<Longrightarrow> manual_update (int (update_action u)) (numbers (update_action u # p # i # update_args u)) = Some u"
proof (cases u)
  case (Upd_hqos x y)
  then show "update_fits u \<Longrightarrow> ?thesis"
    using scan_pair [OF manual_formats(2), of "unat x" "unat y" 5 p i] by (simp add: manual_update_def)
next
  case (Upd_dscp x)
  then show "update_fits u \<Longrightarrow> ?thesis"
    using scan_one [OF manual_formats(3), of "nat x" 6 p i] dscp_word [of x]
    by (simp add: manual_update_def nat_less_iff del: unsigned_of_nat)
next
  case (Upd_vlan x y)
  then show "update_fits u \<Longrightarrow> ?thesis"
    using scan_pair [OF manual_formats(4), of "unat x" "unat y" 7 p i] u16_less5 [of x] u16_less5 [of y]
    by (simp add: manual_update_def)
next
  case (Upd_pppoe x y)
  then show "update_fits u \<Longrightarrow> ?thesis"
    using scan_pair [OF manual_formats(5), of "unat x" "unat y" 8 p i] u16_less5 [of y] by (simp add: manual_update_def)
next
  case (Upd_is_prior x)
  then show "update_fits u \<Longrightarrow> ?thesis"
    using scan_one [OF manual_formats(7), of "unat x" 13 p i] by (simp add: manual_update_def)
next
  case (Upd_tid x)
  then show "update_fits u \<Longrightarrow> ?thesis"
    using scan_one [OF manual_formats(6), of "unat x" 12 p i] by (simp add: manual_update_def)
qed

section \<open>The file\<close>

lemma scan_action:
  assumes "a < 100"
  shows "sscanf (numbers (a # ns)) ''%2d%n'' = [V_int (int a)]"
proof -
  have "scan_items [S_int 2, S_stop] (dec a @ r) = [V_int (int a)]" if "ends r" for r
    using scans_dec [of a 1] assms that by (simp add: scans_def numeral_2_eq_2 del: scan_items.simps(5))
  then show ?thesis unfolding sscanf_def lines_nul manual_formats(8) by (simp add: numbers_Cons ends_def)
qed

lemma numbers_length:
  "length (numbers (n # ns)) = length (dec n) + (if ns = [] then 0 else Suc (length (numbers ns)))"
  by (simp add: numbers_Cons)

lemma write_line:
  assumes "de_copy_ok e" "a < 100" "length (numbers (a # ns)) < 255" "w = [] \<or> w = [CHR 0x0A]"
  shows "strim (until_nul (numbers (a # ns) @ w)) = numbers (a # ns)"
    and "sscanf (numbers (a # ns)) ''%2d%n'' = [V_int (int a)]"
    and "\<not> (length (numbers (a # ns) @ w) \<ge> 256 \<or> \<not> de_copy_ok e)"
proof -
  have "CHR 0x00 \<notin> set (numbers (a # ns) @ w)" using numbers_chars [of _ "a # ns"] assms(4) by auto
  then show "strim (until_nul (numbers (a # ns) @ w)) = numbers (a # ns)"
    using strim_numbers [of "a # ns" w] assms(4) by auto
qed (use assms scan_action in auto)

end
