(* ===== verification/Hnat_Manual_Theorems.thy ===== *)
theory Hnat_Manual_Theorems
  imports Hnat_Manual_Props Hnat_Debug_Theorems
begin

text \<open>
  What the lines of \<open>manual_api\<close> do: they are the calls of the programming interface, and an error changes
  nothing.
\<close>

section \<open>Facts of the calls\<close>

lemma core_back [simp]: "on_db_core (\<lambda>_. db_core b) b = b"
  by (cases b; cases "db_sys b")
    (simp add: on_db_core_def on_sys_def on_core_def on_nf_def db_core_def upd_core_def)

lemma nf_back [simp]: "on_db_nf (\<lambda>_. hs_nf (db_sys b)) b = b"
  by (cases b; cases "db_sys b") (simp add: on_db_nf_def on_sys_def on_nf_def)

lemma cache_clr_sizes [simp]:
  "h_ppe_num (hnat_cache_clr d p h) = h_ppe_num h" "h_etry_num (hnat_cache_clr d p h) = h_etry_num h"
  by (simp_all add: hnat_cache_clr_def on_ppe_def)

lemma tuple_at_bound:
  "\<not> bad_index p i h \<Longrightarrow> entry_hnat_is_bound (h_table h (unat p) (unat i)) \<Longrightarrow> tuple_at p i h = HNAT_SUCCESS"
  by (simp add: tuple_at_def mtk_hnat_get_ppe_entry_by_index_def Let_def)

text \<open>An update that succeeds leaves a bound entry, whose tuple can be read.\<close>

lemma update_read_back:
  assumes "mtk_hnat_update_by_index d p i u h = (st, h')"
  shows "st = HNAT_SUCCESS \<Longrightarrow> tuple_at p i h' = HNAT_SUCCESS"
    and "st \<noteq> HNAT_SUCCESS \<Longrightarrow> h' = h"
    and "bad_index p i h \<Longrightarrow> st \<noteq> HNAT_SUCCESS"
proof -
  let ?hw = "h_table h (unat p) (unat i)"
  let ?e = "snd (update_logic u (foe_copy ?hw zero_words))"
  have b: "entry_hnat_is_bound (foe_copy ?e ?hw) = entry_hnat_is_bound ?hw" by simp
  show "tuple_at p i h' = HNAT_SUCCESS" if "st = HNAT_SUCCESS"
    using update_outcome [OF assms] that b
    by (intro tuple_at_bound) (auto simp: bad_index_def on_entry_def split: if_splits)
  show "h' = h" if "st \<noteq> HNAT_SUCCESS"
    using update_outcome [OF assms] that by (auto split: if_splits)
  show "bad_index p i h \<Longrightarrow> st \<noteq> HNAT_SUCCESS"
    using update_outcome [OF assms] by auto
qed

lemma update_entry_step:
  assumes "mtk_hnat_update_by_index d p i u h = (st, h')"
    and "manual_index s = Some (p, i)" "manual_update a s = Some u"
  shows "hnat_manual_action_update_entry d a s h = (if st = HNAT_SUCCESS then (0, h') else (- EINVAL, h))"
  using update_read_back [OF assms(1)] assms by (auto simp: hnat_manual_action_update_entry_def)

lemma update_line_short:
  assumes "p < 10" "i < 10 ^ 5" "update_fits u"
  shows "length (update_line p i u) < 255"
proof -
  have d: "length (dec n) \<le> 5" if "n < 10 ^ 5" for n using dec_length [of n 4] that by simp
  have len: "length (numbers ns) \<le> 6 * length ns" if "list_all (\<lambda>n. n < 10 ^ 5) ns" for ns
    using that
  proof (induction ns)
    case (Cons n ns)
    then show ?case using d [of n] by (simp add: numbers_length del: dec.simps)
  qed (simp add: numbers_def)
  have "list_all (\<lambda>n. n < 10 ^ 5) (update_args u)" "length (update_args u) \<le> 2"
    using assms(3) u16_less5 by (cases u; fastforce)+
  moreover have "update_action u < 10 ^ 5" by (cases u) simp_all
  ultimately show ?thesis
    using len [of "update_action u # p # i # update_args u"] assms(1,2) by (simp add: update_line_def)
qed

text \<open>The actions that may fail, and what is left then.\<close>

lemma mib_failed:
  "hnat_manual_action_mib v s t = (r, t') \<Longrightarrow> r = 0 \<or> r \<in> {- EFAULT, - EINVAL, - ENOENT, - ENOMEM} \<and> t' = t"
  by (auto simp: hnat_manual_action_mib_def mtk_hnat_get_mib_count_by_index_def status_code_def
      split: option.splits prod.splits if_splits)

lemma all_mib_failed:
  "hnat_manual_action_all_mib v m t = (r, t') \<Longrightarrow> r = 0 \<or> r \<in> {- EFAULT, - EINVAL, - ENOENT, - ENOMEM} \<and> t' = t"
  by (auto simp: hnat_manual_action_all_mib_def split: if_splits)

lemma delete_failed:
  "hnat_manual_action_delete d s h = (r, h') \<Longrightarrow> r = 0 \<or> r \<in> {- EFAULT, - EINVAL, - ENOENT, - ENOMEM} \<and> h' = h"
  by (auto simp: hnat_manual_action_delete_def mtk_hnat_delete_entry_by_index_def
      split: option.splits prod.splits if_splits)

lemma show_failed:
  "hnat_manual_action_show_stats s h = 0
    \<or> hnat_manual_action_show_stats s h \<in> {- EFAULT, - EINVAL, - ENOENT, - ENOMEM} \<and> b = b"
  by (auto simp: hnat_manual_action_show_stats_def status_code_def split: option.splits prod.splits)

lemma update_entry_failed:
  assumes "hnat_manual_action_update_entry d a s h = (r, h')"
  shows "r = 0 \<or> r \<in> {- EFAULT, - EINVAL} \<and> h' = h"
proof (cases "manual_index s")
  case (Some pi)
  then obtain p i where pi: "manual_index s = Some (p, i)" by (cases pi) auto
  show ?thesis
  proof (cases "manual_update a s")
    case (Some u)
    obtain st h'' where u: "mtk_hnat_update_by_index d p i u h = (st, h'')" by fastforce
    show ?thesis using update_entry_step [OF u pi Some] assms by (auto split: if_splits)
  qed (use assms pi in \<open>auto simp: hnat_manual_action_update_entry_def split: if_splits\<close>)
qed (use assms in \<open>simp add: hnat_manual_action_update_entry_def\<close>)

lemma tuple_failed: "manual_tuple s = Inl r \<Longrightarrow> r \<in> {- EFAULT, - EINVAL}"
  by (auto simp: manual_tuple_def Let_def split: option.splits if_splits list.splits scan_val.splits)

text \<open>The form of a result: all is written, or nothing has changed.\<close>

definition all_or_error :: "nat \<Rightarrow> debugfs \<Rightarrow> int \<times> debugfs \<Rightarrow> bool" where
  "all_or_error n b z =
     (case z of (r, b') \<Rightarrow> r = int n \<or> r \<in> {- EFAULT, - EINVAL, - ENOENT, - ENOMEM} \<and> b' = b)"

lemma all_or_error_if:
  "all_or_error n b x \<Longrightarrow> all_or_error n b y \<Longrightarrow> all_or_error n b (if c then x else y)"
  "all_or_error n b x \<Longrightarrow> (\<And>v vs. all_or_error n b (f v vs))
    \<Longrightarrow> all_or_error n b (case xs of [] \<Rightarrow> x | v # vs \<Rightarrow> f v vs)"
  "(\<And>s. all_or_error n b (fs s)) \<Longrightarrow> (\<And>i. all_or_error n b (fi i)) \<Longrightarrow> (\<And>u. all_or_error n b (fu u))
    \<Longrightarrow> all_or_error n b (case v of V_str s \<Rightarrow> fs s | V_int i \<Rightarrow> fi i | V_word u \<Rightarrow> fu u)"
  by (simp_all split: list.split scan_val.split)

lemma all_or_error_pair:
  "all_or_error n b (int n, b')" "r \<in> {- EFAULT, - EINVAL, - ENOENT, - ENOMEM} \<Longrightarrow> all_or_error n b (r, b)"
  "r = 0 \<or> r \<in> {- EFAULT, - EINVAL, - ENOENT, - ENOMEM} \<and> b' = b \<Longrightarrow> all_or_error n b (if r < 0 then r else int n, b')"
  by (auto simp: all_or_error_def EFAULT_def EINVAL_def ENOENT_def ENOMEM_def)

lemma all_or_error_core:
  "r = 0 \<or> r \<in> {- EFAULT, - EINVAL, - ENOENT, - ENOMEM} \<and> h' = db_core b
     \<Longrightarrow> all_or_error n b (if r < 0 then r else int n, on_db_core (\<lambda>_. h') b)"
  by (rule all_or_error_pair(3)) auto

lemma all_or_error_nf:
  "r = 0 \<or> r \<in> {- EFAULT, - EINVAL, - ENOENT, - ENOMEM} \<and> t' = hs_nf (db_sys b)
     \<Longrightarrow> all_or_error n b (if r < 0 then r else int n, on_db_nf (\<lambda>_. t') b)"
  by (rule all_or_error_pair(3)) auto

section \<open>The properties\<close>

text \<open>C39. The line of an update that fits its columns, with or without a line feed, does what the function of the
  interface does for that entry and these values, and reports success exactly when the function does; all its errors
  become \<open>EINVAL\<close>.  The index has five digits but its variable has 16 bits, so that index \<open>65536 + j\<close> is
  entry \<open>j\<close>.\<close>

theorem manual_update_is_api:
  assumes "de_copy_ok e" "p < 10" "i < 10 ^ 5" "update_fits u" "w = [] \<or> w = [CHR 0x0A]"
    and api: "mtk_hnat_update_by_index (v_dev_model (db_env b)) (of_nat p) (of_nat i) u (db_core b) = (st, h')"
  shows "hnat_manual_api_write e (update_line p i u @ w) b
    = (if st = HNAT_SUCCESS then (int (length (update_line p i u @ w)), on_db_core (\<lambda>_. h') b) else (- EINVAL, b))"
proof -
  let ?s = "update_line p i u" and ?a = "update_action u"
  have a: "?a < 100" "?a \<in> {5, 6, 7, 8, 12, 13}" by (cases u; simp)+
  have line: "numbers (?a # p # i # update_args u) = ?s" by (simp add: update_line_def)
  have idx: "manual_index ?s = Some (of_nat p, of_nat i)"
    using scan_index [OF assms(2,3)] by (simp add: update_line_def)
  have upd: "manual_update (int ?a) ?s = Some u"
    using manual_update_line [OF assms(4)] by (simp add: update_line_def)
  note w = write_line [OF assms(1) a(1), of "p # i # update_args u" w, unfolded line, OF update_line_short [OF assms(2-4)] assms(5)]
  have act: "hnat_manual_action_update_entry (v_dev_model (db_env b)) (int ?a) ?s (db_core b)
      = (if st = HNAT_SUCCESS then (0, h') else (- EINVAL, db_core b))"
    by (rule update_entry_step [OF api idx upd])
  have num: "int ?a \<noteq> 0" "int ?a \<noteq> 1" "int ?a \<noteq> 2" "int ?a \<noteq> 3" "int ?a \<noteq> 4" "int ?a \<in> {5, 6, 7, 8, 12, 13}"
    using a(2) by auto
  show ?thesis
    unfolding hnat_manual_api_write_def Let_def w(1,2) if_not_P [OF w(3)] list.case scan_val.case
      if_not_P [OF num(1)] if_not_P [OF num(2)] if_not_P [OF num(3)] if_not_P [OF num(4)] if_not_P [OF num(5)]
      if_P [OF num(6)] act
    by (simp add: EINVAL_def)
qed

theorem manual_update_is_api_witness:
  "\<exists>h'. hnat_manual_api_write demo_dbg_env ''6 0 65541 46'' demo_db = (12, on_db_core (\<lambda>_. h') demo_db)
     \<and> mtk_hnat_update_by_index (v_dev_model (db_env demo_db)) 0 5 (Upd_dscp 46) (db_core demo_db) = (HNAT_SUCCESS, h')"
proof -
  obtain st h' where u: "mtk_hnat_update_by_index (v_dev_model (db_env demo_db)) 0 5 (Upd_dscp 46) (db_core demo_db) = (st, h')"
    by fastforce
  have e: "h_table (db_core demo_db) 0 5 = demo_entry" "\<not> bad_index 0 5 (db_core demo_db)"
    by (simp_all add: demo_db_core demo_nf_def demo_hnat_def bad_index_def)
  have d: "entry_hnat_is_bound demo_entry" "fst (update_logic (Upd_dscp 46) (foe_copy demo_entry zero_words)) = HNAT_SUCCESS"
    by code_simp+
  have st: "st = HNAT_SUCCESS" using update_outcome [OF u] e d by simp
  have g: "digit 0 = CHR ''0''" "digit (Suc 0) = CHR ''1''" "digit 4 = CHR ''4''" "digit 5 = CHR ''5''" "digit 6 = CHR ''6''"
    by code_simp+
  have line: "update_line 0 65541 (Upd_dscp 46) = ''6 0 65541 46''"
    by (simp add: update_line_def numbers_def dec.simps g)
  have n: "(65541 :: u16) = 5" by simp
  show ?thesis
    using manual_update_is_api [of demo_dbg_env 0 65541 "Upd_dscp 46" "[]" demo_db st h'] u st
    by (simp add: line n demo_dbg_env_def)
qed

text \<open>C40. Whatever is written to \<open>manual_api\<close>, an error is one of four, and then nothing has changed; otherwise
  the whole line counts as written.\<close>

theorem manual_errors_change_nothing:
  "case hnat_manual_api_write e buf b of (r, b') \<Rightarrow>
     r = int (length buf) \<or> r \<in> {- EFAULT, - EINVAL, - ENOENT, - ENOMEM} \<and> b' = b"
proof -
  let ?s = "strim (until_nul buf)" and ?d = "v_dev_model (db_env b)" and ?t = "hs_nf (db_sys b)"
  obtain a h2 where del: "hnat_manual_action_delete ?d ?s (db_core b) = (a, h2)" by fastforce
  obtain m t3 where mib: "hnat_manual_action_mib (db_env b) ?s ?t = (m, t3)" by fastforce
  obtain c t4 where all: "hnat_manual_action_all_mib (db_env b) (de_mem e) ?t = (c, t4)" by fastforce
  have upd: "all_or_error (length buf) b (case hnat_manual_action_update_entry ?d n ?s (db_core b) of
      (r, h') \<Rightarrow> (if r < 0 then r else int (length buf), on_db_core (\<lambda>_. h') b))" for n
  proof (cases "hnat_manual_action_update_entry ?d n ?s (db_core b)")
    case (Pair r h')
    show ?thesis unfolding Pair prod.case by (rule all_or_error_core) (use update_entry_failed [OF Pair] in auto)
  qed
  have fin: "all_or_error (length buf) b (case two_u16 ?s ''%*d %1hu %1hu'' of None \<Rightarrow> (- EFAULT, b)
      | Some (p, en) \<Rightarrow> (if (0::int) < 0 then 0 else int (length buf), on_db_core (\<lambda>_. h' p en) b))" for h'
    by (auto intro: all_or_error_pair split: option.split)
  have tup: "all_or_error (length buf) b (case manual_tuple ?s of Inl err \<Rightarrow> (err, b)
      | Inr _ \<Rightarrow> (if (0::int) < 0 then 0 else int (length buf), b))"
    using tuple_failed by (auto intro: all_or_error_pair split: sum.split)
  have err: "all_or_error (length buf) b (- EFAULT, b)" "all_or_error (length buf) b (- EINVAL, b)"
    by (auto intro: all_or_error_pair)
  have ok: "all_or_error (length buf) b (if (0::int) < 0 then 0 else int (length buf), b')" for b'
    by (auto intro: all_or_error_pair)
  note parts = all_or_error_if err ok upd fin tup
    all_or_error_pair(3) [of "hnat_manual_action_show_stats ?s (db_core b)", OF show_failed]
    all_or_error_core [OF delete_failed [OF del]] all_or_error_nf [OF mib_failed [OF mib]]
    all_or_error_nf [OF all_mib_failed [OF all]]
  have "all_or_error (length buf) b (hnat_manual_api_write e buf b)"
    unfolding hnat_manual_api_write_def Let_def del mib all prod.case
    by (intro parts)
  then show ?thesis by (simp add: all_or_error_def)
qed

end
