(* ===== verification/Spec2Isabelle.thy ===== *)
theory Spec2Isabelle
  imports Fc_Expr_Theorems Reconnect_Theorems Mcast_Theorems Hnat_System_Theorems Hnat_Packet_Theorems
    Hnat_Debug_Theorems Hnat_Manual_Theorems
begin

text \<open>
  Verification library for the C code of this OpenWrt tree.

  The program.  The tree patches OpenWrt for MediaTek routers.  Its own C code is: the full-cone
  NAT module (\<^verbatim>\<open>src/patch/emortal/nft-fullcone\<close>), a library of mapping tables and packet hooks
  with an nftables expression around it; \<^verbatim>\<open>mtkreconnect\<close>, a daemon that keeps wireless client
  interfaces connected; and the \<^verbatim>\<open>mtk_hnat\<close> driver
  (\<^verbatim>\<open>src/patch/target/linux/mediatek/files-6.12/drivers/net/ethernet/mediatek/mtk_hnat\<close>), which
  moves flows from the network stack into the packet engines of the chip.  The three are
  independent of each other.

  Theories, with the source they model:

  \<^item> \<open>Prelude\<close>: C integers at their widths, byte order of a little-endian host, \<open>memcmp\<close>.
  \<^item> \<open>Fc_Table\<close> (\<^verbatim>\<open>nf_nat_fullcone.c\<close> 37-815): one mapping table as a heap with two hash tables.  The
    IPv4 and IPv6 copies of the C code are one definition over an address family (locale
    \<open>addr_family\<close>, interpreted for both), instantiated under the C names.  \<open>Fc_Table_Props\<close>: the
    table invariant \<open>tbl_inv\<close> and what each operation does to it.
  \<^item> \<open>Fc_Port\<close> (817-1075): the search for an external port and for an address of a pool.
  \<^item> \<open>Fc_Nat\<close> (292-446, 1077-1596): the two hooks, the dying-connection list and the teardown.
    \<open>Fc_Nat_Props\<close>: their effect on the tables.  \<open>Fc_System\<close>: any sequence of packets, dying
    connections and teardowns (\<open>fc_step\<close>, \<open>reachable\<close>).  \<open>Fc_Session\<close>: sequences in which a given
    connection stays alive.  \<open>Fc_Theorems\<close>: C1 to C5.
  \<^item> \<open>Fc_Expr\<close> (\<^verbatim>\<open>nft_ext_fullcone.c\<close>): rules, reference count, notifier, worker, module load and
    unload, on top of \<open>Fc_Nat\<close>.  \<open>Fc_Expr_Theorems\<close>: C6.
  \<^item> \<open>Reconnect\<close> (\<^verbatim>\<open>mtkreconnect.c\<close>): profiles, link probe, connect transaction, main loop.
    \<open>Reconnect_Props\<close> and \<open>Reconnect_Theorems\<close>: C7 to C9.
  \<^item> \<open>Mcast_Hw\<close>, \<open>Mcast_Group\<close>, \<open>Mcast\<close> (\<^verbatim>\<open>hnat_mcast.c\<close>, \<^verbatim>\<open>hnat_mcast.h\<close>, \<open>entry_delete\<close> of
    \<^verbatim>\<open>hnat_debugfs.c\<close>, \<open>hnat_mcast_chk_blist\<close> of \<^verbatim>\<open>hnat_nf_hook.c\<close>): registers and flow entries,
    the functions over one group, the entry points over the group table.  \<open>Mcast_Props\<close>: what a
    function over a group keeps (locale \<open>group_handler\<close>, interpreted for the three handlers that visit
    every group).  \<open>Mcast_System\<close>: every entry point in any order (\<open>mc_step\<close>) and its invariant.
    \<open>Mcast_Spec\<close>: the ports the hardware forwards to, read back from the registers, and the slots
    of the multicast table.  \<open>Mcast_Theorems\<close>: C10 to C13.
  \<^item> \<open>Foe_Entry\<close>, \<open>Foe_Fields\<close> (\<^verbatim>\<open>hnat.h\<close> 1-1300): the flow entry, a union of views over 32-bit
    words; each C struct is a list of bit-field widths from which the offset of every member is computed the
    way the compiler lays it out.  \<open>Foe_Views\<close>: reading and writing members through the views.
  \<^item> \<open>Foe_Regs\<close> (register macros of \<^verbatim>\<open>hnat.h\<close>, register and cache functions of \<^verbatim>\<open>hnat.c\<close>,
    \<^verbatim>\<open>hnat_debugfs.c\<close> and \<^verbatim>\<open>hnat_nf_hook.c\<close>): registers of an engine, fields, cache commands.
    \<open>Foe_Regs_Props\<close>: disjoint fields, what a cache command leaves alone.
  \<^item> \<open>Hnat_State\<close> (\<^verbatim>\<open>struct mtk_hnat\<close> of \<^verbatim>\<open>hnat.h\<close>): the driver's state.  \<open>Hnat_Delete\<close>: the functions that
    delete entries (by MAC, by IP address, by neighbour, of encrypted flows, all bound ones), each a sweep
    over the tables.  \<open>Hnat_Delete_Props\<close>: what a sweep changes.  \<open>Hnat_Deletions\<close>: the contract they
    share (locale \<open>deletion\<close>, interpreted for the five of them).
  \<^item> \<open>Hnat_Api\<close> (\<^verbatim>\<open>hnat_api.c\<close>): hash of a tuple, tuples of an entry, updates by index and by packet.
    \<open>Hnat_Api_Props\<close>: what an update changes.  \<open>Hnat_Theorems\<close>: C14 to C18.
  \<^item> \<open>Hnat_Init\<close> (\<^verbatim>\<open>hnat.c\<close>): start and stop of an engine, its protocols, the size of its table.
    \<open>Hnat_Init_Props\<close>: their effect on the registers.
  \<^item> \<open>Hnat_Flow\<close> (\<^verbatim>\<open>hnat_nf_hook.c\<close>): the lists of flows behind an entry.  \<open>Hnat_Ext\<close> (\<^verbatim>\<open>hnat.c\<close>,
    \<^verbatim>\<open>hnat_nf_hook.c\<close>): the table of extension devices and its reference counts.  \<open>Hnat_Neigh\<close>
    (\<^verbatim>\<open>hnat_nf_hook.c\<close>): the queue of neighbour events and its worker.
  \<^item> \<open>Kstr\<close>: \<open>strsep\<close>, \<open>kstrtou32\<close>, \<open>kstrtoint\<close> and the printing of numbers.  \<open>Hnat_Proto3t\<close>
    (\<^verbatim>\<open>hnat_debugfs.c\<close>): the command that edits the protocols hashed by three fields, and its listing.
    \<open>Hnat_System_Theorems\<close>: C19 to C22.

  \<^item> The packet path (\<^verbatim>\<open>hnat_nf_hook.c\<close>).  \<open>Skb\<close> (\<^verbatim>\<open>nf_hnat_mtk.h\<close>): a packet as its bytes with the
    descriptor in its headroom.  \<open>Nf_State\<close>: devices, paths, the switches of the driver, what the kernel and other
    modules provide (\<open>nf_env\<close>), and the state of the hooks (\<open>nf_state\<close>).  \<open>Hnat_Fill\<close>: the helpers that write an
    entry, tags for switch ports (\<^verbatim>\<open>hnat_stag.c\<close>), checksum, and the order in which an entry is stored.
    \<open>Hnat_Bind\<close> and \<open>Hnat_Info\<close>: \<open>skb_to_hnat_info\<close>, from the headers to the entry and from there to the port,
    the queue and the table.  \<open>Hnat_Pingpong\<close>: the way of packets of extension devices through the engine.
    \<open>Hnat_Pre\<close>: the hooks for packets that come in.  \<open>Hnat_Xlat\<close>: 464XLAT.  \<open>Hnat_Post\<close>: the hooks for packets
    that leave.  \<open>Hnat_Wifi\<close>: the hooks for the Wi-Fi driver.  \<open>Hnat_Crypto\<close>: flows through the crypto engine.
    \<open>Hnat_Acct\<close> (\<^verbatim>\<open>hnat_api.c\<close>, \<^verbatim>\<open>hnat_debugfs.c\<close>): the counters.  \<open>Hnat_Notify\<close> (also \<^verbatim>\<open>hnat.c\<close>): events of
    network devices, roaming, restart, and turning the hooks on and off.
  \<^item> \<open>Hnat_Bind_Props\<close>: what may write an entry (locale \<open>entry_writer\<close>, interpreted for the three operations that
    bind and for any mix of them).  \<open>Hnat_Bind_Spec\<close>: what an entry means (\<open>hw_match\<close>, \<open>hw_rewrite\<close>) and what the
    kernel does with a packet (\<open>kernel_out\<close>).  \<open>Hnat_Packet_Props\<close>: tags, the fate of packets, the ping-pong.
    \<open>Hnat_Xlat_Props\<close>, \<open>Hnat_Sums\<close>, \<open>Hnat_Notify_Props\<close>: the same for 464XLAT, for checksum and counters, and
    for the restart.  \<open>Hnat_Packet_Theorems\<close>: C23 to C32.

  \<^item> The debug commands (\<^verbatim>\<open>hnat_debugfs.c\<close>).  \<open>Scan\<close>: \<open>sscanf\<close> and \<open>kstrtol\<close>.  \<open>Hnat_Debug\<close>: counters of
    reasons, entries, settings and devices.  \<open>Hnat_Toggle\<close>: the switches, quality of service, the table of 464XLAT and
    the blacklist of multicast addresses.  \<open>Hnat_Static\<close>: flow entries written by hand.  The state is the system with the
    switches in \<open>nf_env\<close>, where the hooks read them (record \<open>debugfs\<close>); what a function's variables hold before it
    assigns them is in \<open>dbg_env\<close>.
  \<^item> \<open>Scan_Props\<close>: lines of printed values are scanned back.  \<open>Hnat_Debug_Props\<close>: operations that leave the switches
    alone.  \<open>Hnat_Debug_System\<close>: any sequence of commands (\<open>dbg_run\<close>) and the invariant that the registers
    follow the switches.  \<open>Hnat_Debug_Restart\<close>: settings and switches over a restart.  \<open>Hnat_Static_Props\<close>: the entry
    of a line and its place.  \<open>Hnat_Debug_Theorems\<close>: C33 to C38.
  \<^item> \<open>Hnat_Manual\<close> (\<^verbatim>\<open>hnat_api.c\<close> 924-1195): the debug file that calls the programming interface with the numbers of
    a line.  \<open>Hnat_Manual_Props\<close>: the line of a call and how it is read back.  \<open>Hnat_Manual_Theorems\<close>: such a line is
    the call (C39), and an error changes nothing (C40).

  Correspondence.  A C function is the definition of the same name (a helper lemma-sized part of one
  has a name of its own, and the manifest names its lines).  State that C keeps in static variables
  and in objects on the heap is a record, passed in and returned; a pointer that may be null is an
  option; a return code is returned as such; undefined behaviour (a division by zero, a shift by the
  width) is \<open>None\<close>.  Entry points that run under one lock are one step.  Debug output is left out,
  except in the daemon, where what is printed is a property.

  Loops and fuel.  Every loop of the modelled code is bounded by a list or by a counter, and is
  structural recursion or a fold, but one.  The port search
  runs \<open>range_size\<close> times (\<open>port_loop\<close>), and \<open>find_appropriate_port\<close> fails only by the division that
  \<open>find_appropriate_port_div_zero\<close> characterises.  Starting an engine tries at most six table
  sizes, each half the one before, and the table of sizes is a list.  The worker of neighbour
  events takes at most 128 of them and reschedules itself; \<open>drain\<close> runs it \<open>n\<close> times, and
  C21 shows that one run per 128 events queued empties the queue.  The loop over the tags of a packet for Wi-Fi
  has no bound of its own and is a partial function (\<open>vlan_walk\<close>); C26 shows that it ends.

  What is assumed.  The kernel's hashes and random numbers are arguments with the range their
  documentation gives (\<open>kernel\<close>, \<open>hash_min_ok\<close>, \<open>jhash_mask_ok\<close>, \<open>reciprocal_scale_ok\<close>); \<open>nf_nat_setup_info\<close>, routing, conntrack
  liveness, allocation, \<open>ioctl\<close>, UCI, the network processor and what a packet engine does with a cache
  command (\<open>ppe_dev\<close>, whose law \<open>dev_ok\<close> says that it answers in the result registers of the command
  interface and clears its request bit) are arguments of the definitions that
  call them.  For the packet hooks the kernel is in the record \<open>nf_env\<close>: routes and neighbours, VLAN tags put in and
  taken out, copies of packets (each of which may fail), the paths devices report, and the functions of the tunnel and
  crypto drivers; the properties hold for all of them unless a hypothesis says otherwise.  Laws about them are hypotheses of the properties that need them, each with a witness.

  Configuration.  The flow entry, its hash and the registers are those of a build for NETSYS V3 chips
  (\<^verbatim>\<open>CONFIG_MEDIATEK_NETSYS_V3\<close>), with 32-word entries; host byte order is little-endian.

  Not modelled, and why.  Of \<^verbatim>\<open>hnat.c\<close>, \<open>hnat_probe\<close> and \<open>hnat_remove\<close>: resources of the platform, the device
  tree and registration.  Of \<^verbatim>\<open>hnat_nf_hook.c\<close>, the branches that the preprocessor removes on NETSYS V3
  (\<open>do_hnat_mape_w2l_fast\<close> among them), and multicast in \<open>skb_to_hnat_info\<close> beyond the call of
  \<^verbatim>\<open>hnat_mcast.c\<close>.  What \<^verbatim>\<open>hnat_api.c\<close> only prints.  The debug files of \<^verbatim>\<open>hnat_debugfs.c\<close> that only print entries, registers, groups and usage, and the
  registration of all of them; and the USB electrical test (\<^verbatim>\<open>xhci-mtk\<close>): printing for
  developers, register pokes.  \<^verbatim>\<open>wifi_utility\<close>: flash and bus glue.  \<^verbatim>\<open>wapp\<close> headers: declarations.
\<close>

end
